(* ===== verification/Go_Prelude.thy ===== *)
theory Go_Prelude
  imports Main "HOL-Library.AList" "HOL-Library.Multiset" "HOL-Library.List_Lexorder" "HOL-Library.Char_ord"
begin

text \<open>
  The prelude of the development: the parts of Go and of its standard library that every
  component uses (byte strings and the \<^verbatim>\<open>strings\<close> package, decimal printing, dynamically
  typed values), the small helpers of \<^verbatim>\<open>src/helpers.go\<close>, and the generic lemmas and rule
  collections the component theories share.

  A Go string is a sequence of bytes and is modelled as an Isabelle \<^typ>\<open>string\<close>, one
  \<^typ>\<open>char\<close> per byte; \<open>length\<close> is Go's \<open>len\<close>.  Letter case and white space are
  the ASCII ones: a byte from 0x80 on is neither a letter nor a space (Go folds Unicode letters and
  trims Unicode spaces there; every token the code compares against is ASCII).  A literal with
  non-ASCII characters is written with its UTF-8 bytes.
\<close>

named_theorems go_simps "evaluation rules of the string library"
named_theorems status_simps "classification of job states"

subsection \<open>Bytes\<close>

definition byte_of :: "char \<Rightarrow> nat" where
  "byte_of c = of_char c"

definition is_upper :: "char \<Rightarrow> bool" where
  "is_upper c \<longleftrightarrow> 65 \<le> byte_of c \<and> byte_of c \<le> 90"

definition is_lower :: "char \<Rightarrow> bool" where
  "is_lower c \<longleftrightarrow> 97 \<le> byte_of c \<and> byte_of c \<le> 122"

definition is_digit :: "char \<Rightarrow> bool" where
  "is_digit c \<longleftrightarrow> 48 \<le> byte_of c \<and> byte_of c \<le> 57"

definition is_space :: "char \<Rightarrow> bool" where
  "is_space c \<longleftrightarrow> (9 \<le> byte_of c \<and> byte_of c \<le> 13) \<or> byte_of c = 32"

definition lower_char :: "char \<Rightarrow> char" where
  "lower_char c = (if is_upper c then char_of (byte_of c + 32) else c)"

definition upper_char :: "char \<Rightarrow> char" where
  "upper_char c = (if is_lower c then char_of (byte_of c - 32) else c)"

lemma byte_of_lt: "byte_of c < 256"
  by (cases c) (simp add: byte_of_def)

lemma byte_of_char_of [simp]: "n < 256 \<Longrightarrow> byte_of (char_of n) = n"
  by (simp add: byte_of_def)

lemma lower_char_idem [simp]: "lower_char (lower_char c) = lower_char c"
  by (auto simp: lower_char_def is_upper_def)

lemma is_space_lower_char [simp]: "is_space (lower_char c) \<longleftrightarrow> is_space c"
  by (auto simp: lower_char_def is_upper_def is_space_def)

subsection \<open>The \<open>strings\<close> package\<close>

definition to_lower :: "string \<Rightarrow> string" where
  "to_lower s = map lower_char s"

definition to_upper :: "string \<Rightarrow> string" where
  "to_upper s = map upper_char s"

definition equal_fold :: "string \<Rightarrow> string \<Rightarrow> bool" where
  "equal_fold a b \<longleftrightarrow> to_lower a = to_lower b"

definition trim_left :: "string \<Rightarrow> string" where
  "trim_left s = dropWhile is_space s"

definition trim_space :: "string \<Rightarrow> string" where
  "trim_space s = rev (trim_left (rev (trim_left s)))"

fun has_prefix :: "string \<Rightarrow> string \<Rightarrow> bool" where
  "has_prefix s [] = True"
| "has_prefix [] (p # ps) = False"
| "has_prefix (c # s) (p # ps) = (c = p \<and> has_prefix s ps)"

definition has_suffix :: "string \<Rightarrow> string \<Rightarrow> bool" where
  "has_suffix s p = has_prefix (rev s) (rev p)"

fun contains :: "string \<Rightarrow> string \<Rightarrow> bool" where
  "contains [] p = (p = [])"
| "contains (c # s) p = (has_prefix (c # s) p \<or> contains s p)"

text \<open>\<^verbatim>\<open>strings.Index\<close>, with \<^const>\<open>None\<close> for Go's -1.\<close>

fun index_of :: "string \<Rightarrow> string \<Rightarrow> nat option" where
  "index_of [] p = (if p = [] then Some 0 else None)"
| "index_of (c # s) p =
     (if has_prefix (c # s) p then Some 0 else map_option Suc (index_of s p))"

definition contains_any :: "string \<Rightarrow> string \<Rightarrow> bool" where
  "contains_any s cs \<longleftrightarrow> list_ex (\<lambda>c. c \<in> set cs) s"

definition trim_prefix :: "string \<Rightarrow> string \<Rightarrow> string" where
  "trim_prefix s p = (if has_prefix s p then drop (length p) s else s)"

definition trim_suffix :: "string \<Rightarrow> string \<Rightarrow> string" where
  "trim_suffix s p = (if has_suffix s p then take (length s - length p) s else s)"

text \<open>\<^verbatim>\<open>strings.Trim\<close> with a cut set.\<close>

definition trim_set :: "string \<Rightarrow> string \<Rightarrow> string" where
  "trim_set s cs = rev (dropWhile (\<lambda>c. c \<in> set cs) (rev (dropWhile (\<lambda>c. c \<in> set cs) s)))"

text \<open>\<^verbatim>\<open>strings.Split\<close> for a one byte separator: never empty, one more piece than separators.\<close>

fun split_on :: "char \<Rightarrow> string \<Rightarrow> string list" where
  "split_on d [] = [[]]"
| "split_on d (c # s) =
     (if c = d then [] # split_on d s
      else (case split_on d s of [] \<Rightarrow> [[c]] | w # ws \<Rightarrow> (c # w) # ws))"

text \<open>\<^verbatim>\<open>strings.Fields\<close>: the maximal runs of non-space bytes.\<close>

fun str_fields_acc :: "string \<Rightarrow> string \<Rightarrow> string list" where
  "str_fields_acc acc [] = (if acc = [] then [] else [rev acc])"
| "str_fields_acc acc (c # s) =
     (if is_space c then (if acc = [] then [] else [rev acc]) @ str_fields_acc [] s
      else str_fields_acc (c # acc) s)"

definition str_fields :: "string \<Rightarrow> string list" where
  "str_fields s = str_fields_acc [] s"

fun join :: "string \<Rightarrow> string list \<Rightarrow> string" where
  "join sep [] = []"
| "join sep [x] = x"
| "join sep (x # y # xs) = x @ sep @ join sep (y # xs)"

text \<open>\<^verbatim>\<open>strings.ReplaceAll\<close> for a non-empty pattern (the only use the code makes of it).\<close>

function replace_all :: "string \<Rightarrow> string \<Rightarrow> string \<Rightarrow> string" where
  "replace_all s old new =
     (if s = [] \<or> old = [] then s
      else if has_prefix s old then new @ replace_all (drop (length old) s) old new
      else hd s # replace_all (tl s) old new)"
  by pat_completeness auto
termination
  by (relation "measure (\<lambda>(s, _, _). length s)") (auto simp: neq_Nil_conv)

declare replace_all.simps [simp del]

text \<open>The non-ASCII characters of the program's messages, as UTF-8 bytes.\<close>

definition em_dash :: string where "em_dash = [CHR 0xE2, CHR 0x80, CHR 0x94]"
definition ellipsis :: string where "ellipsis = [CHR 0xE2, CHR 0x80, CHR 0xA6]"
definition right_arrow :: string where "right_arrow = [CHR 0xE2, CHR 0x86, CHR 0x92]"
definition ge_sign :: string where "ge_sign = [CHR 0xE2, CHR 0x89, CHR 0xA5]"

subsection \<open>Decimal printing\<close>

fun show_nat :: "nat \<Rightarrow> string" where
  "show_nat n = (if n < 10 then [char_of (48 + n)]
                 else show_nat (n div 10) @ [char_of (48 + n mod 10)])"

declare show_nat.simps [simp del]

definition show_int :: "int \<Rightarrow> string" where
  "show_int i = (if i < 0 then CHR ''-'' # show_nat (nat (- i)) else show_nat (nat i))"

subsection \<open>Dynamically typed values\<close>

text \<open>
  An \<^verbatim>\<open>interface{}\<close> value: what a decoded JSON document holds, plus the Go values the code
  itself stores.  \<open>JInt\<close> is a Go integer, \<open>JNum\<close> a \<^verbatim>\<open>float64\<close> with an integral value (what
  \<^verbatim>\<open>encoding/json\<close> decodes a number to), \<open>JStrs\<close> a \<^verbatim>\<open>[]string\<close>, \<open>JArr\<close> a
  \<^verbatim>\<open>[]interface{}\<close>, \<open>JObj\<close> a \<^verbatim>\<open>map[string]interface{}\<close> in some order of its keys.
\<close>

datatype jv =
    JNull
  | JBool bool
  | JInt int
  | JNum int
  | JStr string
  | JStrs "string list"
  | JArr "jv list"
  | JObj "(string \<times> jv) list"

type_synonym jobj = "(string \<times> jv) list"

text \<open>Reading a key of a map that may lack it gives the nil interface.\<close>

definition jget :: "jobj \<Rightarrow> string \<Rightarrow> jv" where
  "jget m k = (case map_of m k of Some v \<Rightarrow> v | None \<Rightarrow> JNull)"

text \<open>The type assertions \<^verbatim>\<open>s, _ := v.(string)\<close> and \<^verbatim>\<open>v == true\<close>.\<close>

fun as_str :: "jv \<Rightarrow> string" where
  "as_str (JStr s) = s"
| "as_str _ = []"

definition is_true :: "jv \<Rightarrow> bool" where
  "is_true v \<longleftrightarrow> v = JBool True"

subsection \<open>Printing and coercing dynamic values\<close>

text \<open>
  \<^verbatim>\<open>fmt.Sprint\<close> of one value: the nil interface prints as \<open><nil>\<close>, a string as
  itself, a slice with its elements separated by spaces, a map with its keys sorted.  (An integral
  \<^verbatim>\<open>float64\<close> prints without exponent below 1e21, which is the range used here.)
\<close>

fun sprint :: "jv \<Rightarrow> string" where
  "sprint JNull = ''<nil>''"
| "sprint (JBool b) = (if b then ''true'' else ''false'')"
| "sprint (JInt i) = show_int i"
| "sprint (JNum i) = show_int i"
| "sprint (JStr s) = s"
| "sprint (JStrs xs) = ''['' @ join '' '' xs @ '']''"
| "sprint (JArr vs) = ''['' @ join '' '' (map sprint vs) @ '']''"
| "sprint (JObj kvs) =
     ''map['' @ join '' '' (map (\<lambda>(k, s). k @ '':'' @ s)
        (sort_key fst (map (\<lambda>(k, v). (k, sprint v)) kvs))) @ '']''"

text \<open>\<^verbatim>\<open>strFromAny\<close> of \<^verbatim>\<open>src/scm_persist.go\<close>: strings untouched, everything else printed and trimmed.\<close>

fun str_from_any :: "jv \<Rightarrow> string" where
  "str_from_any (JStr s) = s"
| "str_from_any JNull = []"
| "str_from_any v = trim_space (sprint v)"

text \<open>\<^verbatim>\<open>strconv.Atoi\<close>: an optional sign and at least one digit, within 64 bits.\<close>

fun parse_digits :: "int \<Rightarrow> string \<Rightarrow> int option" where
  "parse_digits acc [] = Some acc"
| "parse_digits acc (c # s) =
     (if is_digit c then parse_digits (acc * 10 + int (byte_of c - 48)) s else None)"

definition atoi :: "string \<Rightarrow> int option" where
  "atoi s =
     (let neg = has_prefix s ''-'';
          body = (if has_prefix s ''-'' \<or> has_prefix s ''+'' then tl s else s)
      in if body = [] then None
         else case parse_digits 0 body of
           None \<Rightarrow> None
         | Some n \<Rightarrow>
             (let v = (if neg then - n else n)
              in if - (2 ^ 63) \<le> v \<and> v < 2 ^ 63 then Some v else None))"

subsection \<open>The helpers of \<open>src/helpers.go\<close>\<close>

definition atoi_default :: "string \<Rightarrow> int \<Rightarrow> int" where
  "atoi_default s d = (case atoi (trim_space s) of None \<Rightarrow> d | Some n \<Rightarrow> n)"

fun int_from_any :: "jv \<Rightarrow> int" where
  "int_from_any (JInt i) = i"
| "int_from_any (JNum i) = i"
| "int_from_any (JStr s) = atoi_default s 0"
| "int_from_any _ = 0"

definition clamp_int :: "int \<Rightarrow> int \<Rightarrow> int \<Rightarrow> int" where
  "clamp_int n lo hi = (if n < lo then lo else if hi < n then hi else n)"

definition min_int :: "int \<Rightarrow> int \<Rightarrow> int" where
  "min_int a b = (if a < b then a else b)"

definition truncate_str :: "string \<Rightarrow> int \<Rightarrow> string" where
  "truncate_str s m = (if m \<le> 0 \<or> int (length s) \<le> m then s else take (nat m) s)"

definition nz :: "string \<Rightarrow> string \<Rightarrow> string" where
  "nz s d = (if trim_space s \<noteq> [] then s else d)"

fun first_non_empty :: "string list \<Rightarrow> string" where
  "first_non_empty [] = []"
| "first_non_empty (v # vs) = (if trim_space v \<noteq> [] then v else first_non_empty vs)"

text \<open>
  The process environment is a parameter: \<open>getenv k\<close> is \<^verbatim>\<open>os.Getenv(k)\<close>, the empty string
  when the variable is unset.
\<close>

type_synonym genv = "string \<Rightarrow> string"

definition env_or :: "genv \<Rightarrow> string \<Rightarrow> string \<Rightarrow> string" where
  "env_or getenv k d = (if trim_space (getenv k) \<noteq> [] then trim_space (getenv k) else d)"

text \<open>
  \<^verbatim>\<open>itoa\<close> of \<^verbatim>\<open>src/run_skip.go\<close>: its digit loop runs while the number is positive, so a negative
  number prints as the empty string.
\<close>

definition itoa :: "int \<Rightarrow> string" where
  "itoa n = (if n = 0 then ''0'' else if n < 0 then [] else show_nat (nat n))"

text \<open>
  \<^verbatim>\<open>loadID\<close>: a prefix and the first 16 hex digits of the SHA-1 of the zero separated parts.
  The digest is a parameter \<open>sha1hex\<close> of the model (the hex digest of a byte string).
\<close>

definition load_id :: "(string \<Rightarrow> string) \<Rightarrow> string \<Rightarrow> string list \<Rightarrow> string" where
  "load_id sha1hex prefix parts =
     prefix @ ''-'' @ take 16 (sha1hex (prefix @ concat (map (\<lambda>p. CHR 0x00 # p) parts)))"

subsection \<open>Stable sorting with a comparison function\<close>

text \<open>\<^verbatim>\<open>sort.SliceStable\<close>: insertion keeps equal elements in their order.\<close>

fun insert_stable :: "('a \<Rightarrow> 'a \<Rightarrow> bool) \<Rightarrow> 'a \<Rightarrow> 'a list \<Rightarrow> 'a list" where
  "insert_stable lt x [] = [x]"
| "insert_stable lt x (y # ys) = (if lt y x then y # insert_stable lt x ys else x # y # ys)"

definition sort_stable :: "('a \<Rightarrow> 'a \<Rightarrow> bool) \<Rightarrow> 'a list \<Rightarrow> 'a list" where
  "sort_stable lt xs = foldr (insert_stable lt) xs []"

lemma mset_insert_stable [simp]: "mset (insert_stable lt x xs) = add_mset x (mset xs)"
  by (induction xs) auto

lemma mset_sort_stable [simp]: "mset (sort_stable lt xs) = mset xs"
  by (induction xs) (auto simp: sort_stable_def)

lemma set_sort_stable [simp]: "set (sort_stable lt xs) = set xs"
  by (metis mset_sort_stable set_mset_mset)

subsection \<open>Laws of the string library\<close>

lemma length_to_lower [simp]: "length (to_lower s) = length s"
  by (simp add: to_lower_def)

lemma to_lower_Nil [simp]: "to_lower [] = []" "to_lower s = [] \<longleftrightarrow> s = []"
  by (simp_all add: to_lower_def)

lemma to_lower_idem [simp]: "to_lower (to_lower s) = to_lower s"
  by (simp add: to_lower_def)

lemma to_lower_append: "to_lower (a @ b) = to_lower a @ to_lower b"
  by (simp add: to_lower_def)

lemma equal_fold_refl [simp]: "equal_fold a a"
  by (simp add: equal_fold_def)

lemma equal_fold_sym: "equal_fold a b \<longleftrightarrow> equal_fold b a"
  by (auto simp: equal_fold_def)

lemma equal_fold_trans: "equal_fold a b \<Longrightarrow> equal_fold b c \<Longrightarrow> equal_fold a c"
  by (simp add: equal_fold_def)

lemma equal_fold_lower [simp]: "equal_fold (to_lower a) b = equal_fold a b"
  "equal_fold a (to_lower b) = equal_fold a b"
  by (simp_all add: equal_fold_def)

lemma dropWhile_map_lower: "dropWhile is_space (map lower_char s) = map lower_char (dropWhile is_space s)"
  by (induction s) auto

lemma trim_space_to_lower: "trim_space (to_lower s) = to_lower (trim_space s)"
  by (simp add: trim_space_def trim_left_def to_lower_def rev_map dropWhile_map_lower)

lemma trim_space_Nil [simp]: "trim_space [] = []"
  by (simp add: trim_space_def trim_left_def)

lemma dropWhile_all_iff: "(\<forall>c \<in> set (dropWhile P s). P c) \<longleftrightarrow> (\<forall>c \<in> set s. P c)"
  by (induction s) auto

lemma trim_space_eq_Nil: "trim_space s = [] \<longleftrightarrow> (\<forall>c \<in> set s. is_space c)"
  by (simp add: trim_space_def trim_left_def dropWhile_eq_Nil_conv dropWhile_all_iff)

lemma trim_left_noop: "s = [] \<or> \<not> is_space (hd s) \<Longrightarrow> trim_left s = s"
  by (cases s) (auto simp: trim_left_def)

lemma trim_left_hd: "trim_left s \<noteq> [] \<Longrightarrow> \<not> is_space (hd (trim_left s))"
  by (simp add: trim_left_def hd_dropWhile)

lemma last_trim_left: "trim_left s \<noteq> [] \<Longrightarrow> last (trim_left s) = last s"
  by (simp add: trim_left_def) (metis dropWhile_eq_Nil_conv last_appendR takeWhile_dropWhile_id)

lemma trim_space_idem [simp]: "trim_space (trim_space s) = trim_space s"
proof (cases "trim_space s = []")
  case False
  let ?u = "trim_left s" and ?v = "trim_left (rev (trim_left s))"
  have v: "?v \<noteq> []" using False by (simp add: trim_space_def)
  have "trim_left [] = []" by (simp add: trim_left_def)
  with v have u: "?u \<noteq> []" by force
  have "hd (rev ?v) = last ?v" using v by (simp add: hd_rev)
  also have "\<dots> = hd ?u" using v by (simp add: last_trim_left last_rev)
  finally have "\<not> is_space (hd (rev ?v))" using trim_left_hd [OF u] by simp
  then have "trim_left (rev ?v) = rev ?v" by (simp add: trim_left_noop)
  moreover have "trim_left ?v = ?v" using trim_left_hd [OF v] by (simp add: trim_left_noop)
  ultimately show ?thesis by (simp add: trim_space_def)
qed simp

lemma has_prefix_iff: "has_prefix s p \<longleftrightarrow> (\<exists>t. s = p @ t)"
  by (induction s p rule: has_prefix.induct) auto

lemma has_prefix_append [simp]: "has_prefix (p @ t) p"
  by (auto simp: has_prefix_iff)

lemma has_prefix_refl [simp]: "has_prefix p p"
  by (auto simp: has_prefix_iff)

lemma has_suffix_iff: "has_suffix s p \<longleftrightarrow> (\<exists>t. s = t @ p)"
  unfolding has_suffix_def has_prefix_iff by (metis rev_append rev_rev_ident)

lemma contains_iff: "contains s p \<longleftrightarrow> (\<exists>a b. s = a @ p @ b)"
proof (induction s)
  case (Cons c s)
  then show ?case by (auto simp: has_prefix_iff Cons_eq_append_conv; blast)
qed auto

lemma contains_append: "contains a p \<Longrightarrow> contains (a @ b) p" "contains b p \<Longrightarrow> contains (a @ b) p"
  unfolding contains_iff by (metis append.assoc)+

lemma index_of_Some:
  "index_of s p = Some i \<Longrightarrow> \<exists>a b. s = a @ p @ b \<and> length a = i"
proof (induction s arbitrary: i)
  case (Cons c s)
  show ?case
  proof (cases "has_prefix (c # s) p")
    case True
    with Cons.prems show ?thesis by (auto simp: has_prefix_iff)
  next
    case False
    with Cons.prems obtain j where "index_of s p = Some j" "i = Suc j" by auto
    with Cons.IH obtain a b where "s = a @ p @ b" "length a = j" by blast
    with \<open>i = Suc j\<close> show ?thesis by (metis append_Cons length_Cons)
  qed
qed (auto split: if_splits)

lemma index_of_None: "index_of s p = None \<longleftrightarrow> \<not> contains s p"
  by (induction s) auto

lemma split_on_not_Nil [simp]: "split_on d s \<noteq> []"
  by (induction s) (auto split: list.splits)

lemma join_split_on: "join [d] (split_on d s) = s"
proof (induction s)
  case (Cons c s)
  then show ?case by (cases "split_on d s") (auto, (cases "tl (split_on d s)"; auto)+)
qed simp

lemma nz_not_blank: "trim_space d \<noteq> [] \<Longrightarrow> trim_space (nz s d) \<noteq> []"
  by (simp add: nz_def)

lemma clamp_int_bounds: "lo \<le> hi \<Longrightarrow> lo \<le> clamp_int n lo hi \<and> clamp_int n lo hi \<le> hi"
  by (simp add: clamp_int_def)

lemma length_truncate_str: "0 < m \<Longrightarrow> int (length (truncate_str s m)) \<le> m"
  by (auto simp: truncate_str_def)


subsection \<open>Keyed stores\<close>

text \<open>
  The interface of a store of values found under a key they carry: what a lookup returns after a
  put (\<open>norm\<close> is what the put does to the value before it keeps it).
\<close>

locale keyed_store =
  fixes look :: "'k \<Rightarrow> 's \<Rightarrow> 'v option"
    and put :: "'v \<Rightarrow> 's \<Rightarrow> 's"
    and key :: "'v \<Rightarrow> 'k"
    and norm :: "'v \<Rightarrow> 'v"
  assumes look_put: "look k (put v s) = (if k = key v then Some (norm v) else look k s)"
begin

lemma look_fold_other: "k \<notin> key ` set vs \<Longrightarrow> look k (fold put vs s) = look k s"
  by (induction vs arbitrary: s) (auto simp: look_put)

lemma look_fold_put:
  "distinct (map key vs) \<Longrightarrow> v \<in> set vs \<Longrightarrow> look (key v) (fold put vs s) = Some (norm v)"
proof (induction vs arbitrary: s)
  case (Cons w vs)
  show ?case
  proof (cases "v \<in> set vs")
    case True
    with Cons show ?thesis by simp
  next
    case False
    with Cons.prems have "v = w" "key v \<notin> key ` set vs" by auto
    then show ?thesis by (simp add: look_fold_other look_put)
  qed
qed simp

lemma look_fold_dom: "look k (fold put vs s) = None \<longleftrightarrow> look k s = None \<and> k \<notin> key ` set vs"
  by (induction vs arbitrary: s) (auto simp: look_put)

end

subsection \<open>Invariants of transition systems\<close>

locale transition_system =
  fixes start :: "'s \<Rightarrow> bool"
    and step :: "'s \<Rightarrow> 's \<Rightarrow> bool"
    and inv :: "'s \<Rightarrow> bool"
  assumes start_inv: "start s \<Longrightarrow> inv s"
    and step_inv: "inv s \<Longrightarrow> step s t \<Longrightarrow> inv t"
begin

lemma reachable_inv: "step\<^sup>*\<^sup>* s t \<Longrightarrow> start s \<Longrightarrow> inv t"
  by (induction rule: rtranclp_induct) (auto intro: start_inv step_inv)

end

end
