(* ===== verification/Agent_Prefs.thy ===== *)
theory Agent_Prefs
  imports Go_Prelude
begin

text \<open>
  The review preferences (\<^verbatim>\<open>src/agents_prefs.go\<close>): the resolved snapshot, the tri-state patch
  of one level, the merge builtin, organisation, project, repository, and the store of the
  stored documents (the live map in front of one file per row) with the PUT handler's merge.

  \<^verbatim>\<open>encoding/json\<close> enters as the parameter \<open>dec\<close> (text to a decoded object, \<^const>\<open>None\<close> when it
  is no JSON object) and \<open>enc\<close> (an object to its text).  A decoded object lists each key once.
\<close>

record agent_prefs =
  repository_rules :: bool
  learned_rules :: bool
  trigger_mode :: string
  review_draft_prs :: bool
  pr_summaries :: bool
  post_pr_risk_score :: bool
  autofix_mode :: string
  autofix_severity_threshold :: string
  incremental_review :: bool
  security_auto_pr_reviews :: bool
  context_aware_analysis :: bool
  inline_findings :: bool
  auto_approve :: bool
  reviewer_routing :: bool
  policy_file_path :: string
  ai_reviewer_aware :: bool
  bugbot_max_units :: int
  cloud_enabled :: bool
  cloud_run_tests :: bool
  checkup_enabled :: bool
  ai_issue_labels :: "string list"
  issue_auto_implement :: bool
  require_human_before_coding :: bool
  ai_issues_enabled :: bool

definition builtin_agent_prefs :: agent_prefs where
  "builtin_agent_prefs =
     \<lparr>repository_rules = True, learned_rules = False, trigger_mode = ''every_push'',
      review_draft_prs = True, pr_summaries = True, post_pr_risk_score = True,
      autofix_mode = ''branch'', autofix_severity_threshold = ''high'',
      incremental_review = True, security_auto_pr_reviews = True,
      context_aware_analysis = True, inline_findings = False, auto_approve = False,
      reviewer_routing = False, policy_file_path = ''.opa/approval-policy.json'',
      ai_reviewer_aware = True, bugbot_max_units = 10, cloud_enabled = True,
      cloud_run_tests = False, checkup_enabled = False, ai_issue_labels = [''AI''],
      issue_auto_implement = False, require_human_before_coding = True,
      ai_issues_enabled = True\<rparr>"

definition agent_prefs_capability_fields :: "string list" where
  "agent_prefs_capability_fields =
     [''cloud_enabled'', ''cloud_run_tests'', ''autofix_mode'', ''auto_approve'',
      ''learned_rules'', ''checkup_enabled'', ''issue_auto_implement'', ''ai_issues_enabled'']"

definition agent_prefs_key :: "string \<Rightarrow> string \<Rightarrow> string \<Rightarrow> string \<Rightarrow> string" where
  "agent_prefs_key org proj level scope =
     org @ ''|'' @ proj @ ''|'' @ level @ ''|'' @ scope"

definition is_manual_event :: "string \<Rightarrow> bool" where
  "is_manual_event ev \<longleftrightarrow> has_prefix ev ''manual.'' \<or> has_prefix ev ''simulate''"

definition trigger_mode_admits :: "string \<Rightarrow> string \<Rightarrow> bool" where
  "trigger_mode_admits mode event =
     (let ev = to_lower (trim_space event); m = trim_space mode
      in if m = ''on_demand'' then is_manual_event ev
         else if m = ''pr_open'' then
           contains ev ''opened'' \<or> contains ev ''ready_for_review'' \<or> is_manual_event ev
         else if m = ''cron'' then has_prefix ev ''cron.'' \<or> is_manual_event ev
         else True)"

subsection \<open>One level's patch\<close>

type_synonym prefs_acc = "agent_prefs \<times> (string \<rightharpoonup> string)"

fun dec_bool :: "jv \<Rightarrow> bool option" where
  "dec_bool (JBool b) = Some b"
| "dec_bool _ = None"

text \<open>A string value counts only when it is not empty.\<close>

fun dec_string :: "jv \<Rightarrow> string option" where
  "dec_string (JStr s) = (if s = [] then None else Some s)"
| "dec_string _ = None"

fun dec_int :: "jv \<Rightarrow> int option" where
  "dec_int (JNum i) = Some i"
| "dec_int _ = None"

text \<open>Decoding into a \<^verbatim>\<open>[]string\<close>: a null element leaves the zero value, the empty string.\<close>

fun dec_str_elem :: "jv \<Rightarrow> string option" where
  "dec_str_elem (JStr s) = Some s"
| "dec_str_elem JNull = Some []"
| "dec_str_elem _ = None"

fun dec_all :: "('a \<Rightarrow> 'b option) \<Rightarrow> 'a list \<Rightarrow> 'b list option" where
  "dec_all f [] = Some []"
| "dec_all f (x # xs) =
     (case f x of None \<Rightarrow> None
      | Some y \<Rightarrow> (case dec_all f xs of None \<Rightarrow> None | Some ys \<Rightarrow> Some (y # ys)))"

fun dec_strings :: "jv \<Rightarrow> string list option" where
  "dec_strings (JArr vs) = dec_all dec_str_elem vs"
| "dec_strings _ = None"

text \<open>
  \<^verbatim>\<open>takeBool\<close>, \<^verbatim>\<open>takeString\<close>, \<^verbatim>\<open>takeInt\<close> and the labels block: a missing key, a null and a
  value of another type leave the field and its source alone.
\<close>

definition take_field ::
  "(jv \<Rightarrow> 'a option) \<Rightarrow> jobj \<Rightarrow> string \<Rightarrow> string \<Rightarrow> ('a \<Rightarrow> agent_prefs \<Rightarrow> agent_prefs)
     \<Rightarrow> prefs_acc \<Rightarrow> prefs_acc" where
  "take_field decode patch level field upd acc =
     (case map_of patch field of
        None \<Rightarrow> acc
      | Some raw \<Rightarrow>
          (if raw = JNull then acc
           else (case decode raw of
                   None \<Rightarrow> acc
                 | Some v \<Rightarrow> (upd v (fst acc), (snd acc)(field \<mapsto> level)))))"

definition prefs_takers :: "jobj \<Rightarrow> string \<Rightarrow> (prefs_acc \<Rightarrow> prefs_acc) list" where
  "prefs_takers patch level =
     (let tb = take_field dec_bool patch level;
          ts = take_field dec_string patch level;
          ti = take_field dec_int patch level
      in [tb ''repository_rules'' (\<lambda>v p. p\<lparr>repository_rules := v\<rparr>),
          tb ''learned_rules'' (\<lambda>v p. p\<lparr>learned_rules := v\<rparr>),
          ts ''trigger_mode'' (\<lambda>v p. p\<lparr>trigger_mode := v\<rparr>),
          tb ''review_draft_prs'' (\<lambda>v p. p\<lparr>review_draft_prs := v\<rparr>),
          tb ''pr_summaries'' (\<lambda>v p. p\<lparr>pr_summaries := v\<rparr>),
          tb ''post_pr_risk_score'' (\<lambda>v p. p\<lparr>post_pr_risk_score := v\<rparr>),
          ts ''autofix_mode'' (\<lambda>v p. p\<lparr>autofix_mode := v\<rparr>),
          ts ''autofix_severity_threshold'' (\<lambda>v p. p\<lparr>autofix_severity_threshold := v\<rparr>),
          tb ''incremental_review'' (\<lambda>v p. p\<lparr>incremental_review := v\<rparr>),
          tb ''security_auto_pr_reviews'' (\<lambda>v p. p\<lparr>security_auto_pr_reviews := v\<rparr>),
          tb ''context_aware_analysis'' (\<lambda>v p. p\<lparr>context_aware_analysis := v\<rparr>),
          tb ''inline_findings'' (\<lambda>v p. p\<lparr>inline_findings := v\<rparr>),
          tb ''auto_approve'' (\<lambda>v p. p\<lparr>auto_approve := v\<rparr>),
          tb ''reviewer_routing'' (\<lambda>v p. p\<lparr>reviewer_routing := v\<rparr>),
          ts ''policy_file_path'' (\<lambda>v p. p\<lparr>policy_file_path := v\<rparr>),
          tb ''ai_reviewer_aware'' (\<lambda>v p. p\<lparr>ai_reviewer_aware := v\<rparr>),
          ti ''bugbot_max_units'' (\<lambda>v p. p\<lparr>bugbot_max_units := v\<rparr>),
          tb ''cloud_enabled'' (\<lambda>v p. p\<lparr>cloud_enabled := v\<rparr>),
          tb ''cloud_run_tests'' (\<lambda>v p. p\<lparr>cloud_run_tests := v\<rparr>),
          tb ''checkup_enabled'' (\<lambda>v p. p\<lparr>checkup_enabled := v\<rparr>),
          tb ''issue_auto_implement'' (\<lambda>v p. p\<lparr>issue_auto_implement := v\<rparr>),
          tb ''require_human_before_coding'' (\<lambda>v p. p\<lparr>require_human_before_coding := v\<rparr>),
          tb ''ai_issues_enabled'' (\<lambda>v p. p\<lparr>ai_issues_enabled := v\<rparr>),
          take_field dec_strings patch level ''ai_issue_labels''
            (\<lambda>v p. p\<lparr>ai_issue_labels := v\<rparr>)])"

definition apply_prefs_patch :: "jobj \<Rightarrow> string \<Rightarrow> prefs_acc \<Rightarrow> prefs_acc" where
  "apply_prefs_patch patch level acc = fold (\<lambda>f. f) (prefs_takers patch level) acc"

subsection \<open>The store of preference rows\<close>

record prefs_row =
  row_org :: string
  row_proj :: string
  row_level :: string
  row_scope :: string
  row_json :: string
  row_updated_at :: string
  row_updated_by :: string
  row_deleted :: bool

record prefs_store =
  ps_live :: "string \<rightharpoonup> prefs_row"
  ps_files :: "string \<rightharpoonup> prefs_row"
  ps_inserted :: "prefs_row list"

text \<open>
  \<^verbatim>\<open>agentPrefsFilePath\<close> within its directory: the replacer turns slashes, bars and blanks into
  underscores.  \<open>ps_files\<close> holds the decoded row of each file name.
\<close>

definition safe_prefs_char :: "char \<Rightarrow> char" where
  "safe_prefs_char c = (if c \<in> set ''/| '' then CHR ''_'' else c)"

definition agent_prefs_file :: "string \<Rightarrow> string \<Rightarrow> string \<Rightarrow> string \<Rightarrow> string" where
  "agent_prefs_file org proj level scope =
     map safe_prefs_char (org @ ''__'' @ proj @ ''__'' @ level @ ''__'' @ scope) @ ''.json''"

definition load_agent_prefs_json ::
  "prefs_store \<Rightarrow> string \<Rightarrow> string \<Rightarrow> string \<Rightarrow> string \<Rightarrow> string \<times> prefs_store" where
  "load_agent_prefs_json st org proj level scope =
     (let key = agent_prefs_key org proj level scope;
          from_file =
            (case ps_files st (agent_prefs_file org proj level scope) of
               Some p \<Rightarrow>
                 (if row_deleted p then ([], st)
                  else (row_json p, st\<lparr>ps_live := (ps_live st)(key \<mapsto> p)\<rparr>))
             | None \<Rightarrow> ([], st))
      in case ps_live st key of
           Some row \<Rightarrow> (if row_deleted row then from_file else (row_json row, st))
         | None \<Rightarrow> from_file)"

definition load_connector_scoped_prefs_json ::
  "prefs_store \<Rightarrow> string \<Rightarrow> string \<Rightarrow> string \<Rightarrow> string \<times> prefs_store" where
  "load_connector_scoped_prefs_json st org proj conn =
     (if trim_space conn = [] then ([], st)
      else let (raw, st) = load_agent_prefs_json st org proj ''project'' conn
           in if raw \<noteq> [] then (raw, st)
              else load_agent_prefs_json st org proj ''installation'' conn)"

text \<open>\<^verbatim>\<open>persistAgentPrefsRow\<close> at time \<open>now\<close>, the file write succeeding.\<close>

definition persist_agent_prefs_row :: "string \<Rightarrow> prefs_row \<Rightarrow> prefs_store \<Rightarrow> prefs_store" where
  "persist_agent_prefs_row now row st =
     (let row = row\<lparr>row_updated_at := now\<rparr>;
          path = agent_prefs_file (row_org row) (row_proj row) (row_level row) (row_scope row);
          key = agent_prefs_key (row_org row) (row_proj row) (row_level row) (row_scope row)
      in st\<lparr>ps_files := (ps_files st)(path \<mapsto> row), ps_live := (ps_live st)(key \<mapsto> row),
            ps_inserted := ps_inserted st @ [row]\<rparr>)"

subsection \<open>Resolution\<close>

definition apply_level ::
  "(string \<Rightarrow> jobj option) \<Rightarrow> string \<Rightarrow> string \<Rightarrow> prefs_acc \<Rightarrow> prefs_acc" where
  "apply_level dec raw level acc =
     (if trim_space raw = [] \<or> raw = ''{}'' then acc
      else (case dec raw of None \<Rightarrow> acc | Some patch \<Rightarrow> apply_prefs_patch patch level acc))"

text \<open>The merge over the three stored documents, in the order the code applies them.\<close>

definition merge_prefs ::
  "(string \<Rightarrow> jobj option) \<Rightarrow> string \<Rightarrow> string \<Rightarrow> string \<Rightarrow> prefs_acc" where
  "merge_prefs dec org_raw proj_raw repo_raw =
     (let acc = apply_level dec org_raw ''org'' (builtin_agent_prefs, Map.empty);
          acc = apply_level dec proj_raw ''project'' acc;
          acc = apply_level dec repo_raw ''repo'' acc;
          src = fold (\<lambda>f m. if m f = None then m(f \<mapsto> ''builtin'') else m)
                  agent_prefs_capability_fields (snd acc)
      in (fst acc, src))"

definition resolve_agent_prefs ::
  "(string \<Rightarrow> jobj option) \<Rightarrow> prefs_store \<Rightarrow> string \<Rightarrow> string \<Rightarrow> string \<Rightarrow> string
     \<Rightarrow> prefs_acc \<times> prefs_store" where
  "resolve_agent_prefs dec st org proj conn repo =
     (let (org_raw, st) = load_agent_prefs_json st org proj ''org'' (org @ ''/'' @ proj);
          (proj_raw, st) = (if conn \<noteq> [] then load_connector_scoped_prefs_json st org proj conn
                            else ([], st));
          (repo_raw, st) = (if repo \<noteq> [] then load_agent_prefs_json st org proj ''repo'' repo
                            else ([], st))
      in (merge_prefs dec org_raw proj_raw repo_raw, st))"

text \<open>\<^verbatim>\<open>parseAgentPrefsLevel\<close>: the level, or the message of the 400 answer.\<close>

definition parse_agent_prefs_level :: "string \<Rightarrow> bool \<Rightarrow> string + string" where
  "parse_agent_prefs_level level allow_empty =
     (let l = to_lower (trim_space level)
      in if l = [] then
           (if allow_empty then Inr ''org''
            else Inl (''level required '' @ em_dash @
                      '' use org, project, or repo (omit only on GET, which defaults to org)''))
         else if l = ''installation'' then Inl ''use level=project with X-Project-ID''
         else if l \<in> {''org'', ''project'', ''repo''} then Inr l
         else Inl ''level must be org, project, or repo'')"

definition issue_label_matches_prefs :: "agent_prefs \<Rightarrow> string list \<Rightarrow> bool" where
  "issue_label_matches_prefs prefs labels =
     (let want = (if ai_issue_labels prefs = [] then [''AI''] else ai_issue_labels prefs)
      in list_ex (\<lambda>l. let ln = trim_space l
                       in ln \<noteq> [] \<and> list_ex (\<lambda>w. equal_fold ln (trim_space w)) want) labels)"


subsection \<open>The PUT handler\<close>

record put_body =
  pb_level :: string
  pb_scope :: string
  pb_connector :: string
  pb_repo :: string
  pb_prefs :: "jobj option"

type_synonym http_error = "string \<times> int"

record put_answer =
  pa_level :: string
  pa_scope :: string
  pa_existing :: jobj
  pa_effective :: prefs_acc

text \<open>The merge of the body onto the stored object: null deletes a key, anything else sets it.\<close>

definition merge_blob :: "jobj \<Rightarrow> jobj \<Rightarrow> jobj" where
  "merge_blob existing patch =
     fold (\<lambda>(k, v) m. if v = JNull then AList.delete k m else AList.update k v m) patch existing"

definition put_scope :: "string \<Rightarrow> string \<Rightarrow> string \<Rightarrow> string \<Rightarrow> put_body \<Rightarrow> string" where
  "put_scope org proj level conn b =
     (let scope = trim_space (pb_scope b)
      in if scope \<noteq> [] then scope
         else if level = ''org'' then org @ ''/'' @ proj
         else if level = ''project'' then conn
         else trim_space (pb_repo b))"

definition scope_missing_message :: "string \<Rightarrow> string" where
  "scope_missing_message level =
     (if level = ''org'' then
        ''organization scope unavailable '' @ em_dash @ '' tenant context missing''
      else if level = ''project'' then
        ''connector_id/scope_key required for project level (or attach connector_ids on the OAM project)''
      else ''repo/scope_key required for repository level '' @ em_dash @
           '' use level=org for global prefs'')"

text \<open>
  The second half of \<^verbatim>\<open>handleAgentPrefsPut\<close>: load the stored text (a project level row may start
  from a historical installation row), merge, encode, persist.
\<close>

definition put_prior :: "string \<Rightarrow> string \<Rightarrow> string \<Rightarrow> string \<Rightarrow> prefs_store \<Rightarrow> string \<times> prefs_store" where
  "put_prior org proj level scope st =
     (let (prior, st) = load_agent_prefs_json st org proj level scope
      in if level = ''project'' \<and> prior = []
         then load_agent_prefs_json st org proj ''installation'' scope
         else (prior, st))"

definition put_store ::
  "(string \<Rightarrow> jobj option) \<Rightarrow> (jobj \<Rightarrow> string) \<Rightarrow> string \<Rightarrow> string \<Rightarrow> string \<Rightarrow> string
     \<Rightarrow> string \<Rightarrow> string \<Rightarrow> jobj \<Rightarrow> prefs_store \<Rightarrow> jobj \<times> prefs_store" where
  "put_store dec enc now user org proj level scope prefs st =
     (let (prior, st) = put_prior org proj level scope st;
          existing = merge_blob (case dec (nz prior ''{}'') of Some m \<Rightarrow> m | None \<Rightarrow> []) prefs;
          row = \<lparr>row_org = org, row_proj = proj, row_level = level, row_scope = scope,
                 row_json = enc existing, row_updated_at = [],
                 row_updated_by = trim_space user, row_deleted = False\<rparr>
      in (existing, persist_agent_prefs_row now row st))"

text \<open>
  \<^verbatim>\<open>handleAgentPrefsPut\<close> after the body is decoded (\<open>pb_prefs = None\<close>: not JSON, or no prefs
  object).  \<open>oam conn\<close> is \<^verbatim>\<open>resolveConnectorFromOAMProject\<close>: the connector of the OAM project
  (empty: none) or an error.
\<close>

definition handle_agent_prefs_put ::
  "(string \<Rightarrow> jobj option) \<Rightarrow> (jobj \<Rightarrow> string) \<Rightarrow> (string \<Rightarrow> http_error + string) \<Rightarrow> string
     \<Rightarrow> string \<Rightarrow> string \<Rightarrow> string \<Rightarrow> put_body \<Rightarrow> prefs_store \<Rightarrow> (http_error + put_answer) \<times> prefs_store" where
  "handle_agent_prefs_put dec enc oam now user org proj b st =
     (case pb_prefs b of
        None \<Rightarrow> (Inl (''bad json '' @ em_dash @
                      '' prefs object required (use null to clear fields)'', 400), st)
      | Some prefs \<Rightarrow>
     (case parse_agent_prefs_level (pb_level b) False of
        Inl msg \<Rightarrow> (Inl (msg, 400), st)
      | Inr level \<Rightarrow>
     (let conn0 = trim_space (pb_connector b)
      in case (if level = ''project'' \<or> level = ''repo'' then oam conn0 else Inr []) of
        Inl err \<Rightarrow> (Inl err, st)
      | Inr filled \<Rightarrow>
     (let conn = (if filled \<noteq> [] then filled else conn0);
          body_conn = (if filled \<noteq> [] then filled else pb_connector b);
          scope = put_scope org proj level conn b
      in if scope = [] then (Inl (scope_missing_message level, 400), st)
         else
           let (existing, st) = put_store dec enc now user org proj level scope prefs st;
               (effective, st) = resolve_agent_prefs dec st org proj body_conn (pb_repo b)
           in (Inr \<lparr>pa_level = level, pa_scope = scope, pa_existing = existing,
                    pa_effective = effective\<rparr>, st)))))"

subsection \<open>Laws of the merge\<close>

lemma take_field_keep:
  "(\<And>v p. g (u v p) = g p) \<Longrightarrow> g (fst (take_field d patch l f u acc)) = g (fst acc)"
  by (simp add: take_field_def split: option.split)

lemma take_field_val:
  "(\<And>v p. g (u v p) = v) \<Longrightarrow> g (fst (take_field d patch l f u acc)) =
     (case Option.bind (map_of patch f) (\<lambda>raw. if raw = JNull then None else d raw) of
        Some v \<Rightarrow> v | None \<Rightarrow> g (fst acc))"
  by (simp add: take_field_def split: option.split)

text \<open>What a document says about a boolean field.\<close>

definition doc_bool :: "jobj \<Rightarrow> string \<Rightarrow> bool option" where
  "doc_bool patch f = Option.bind (map_of patch f) (\<lambda>raw. if raw = JNull then None else dec_bool raw)"

lemma take_field_src_other:
  "h \<noteq> f \<Longrightarrow> snd (take_field d patch l f u acc) h = snd acc h"
  by (simp add: take_field_def split: option.split)

lemma take_field_src_self:
  "snd (take_field dec_bool patch l f u acc) f =
     (if doc_bool patch f = None then snd acc f else Some l)"
  by (auto simp: take_field_def doc_bool_def split: option.split)

definition bool_capabilities :: "(string \<times> (agent_prefs \<Rightarrow> bool)) list" where
  "bool_capabilities =
     [(''auto_approve'', auto_approve), (''cloud_enabled'', cloud_enabled),
      (''cloud_run_tests'', cloud_run_tests), (''checkup_enabled'', checkup_enabled),
      (''learned_rules'', learned_rules), (''issue_auto_implement'', issue_auto_implement),
      (''ai_issues_enabled'', ai_issues_enabled)]"

lemmas take_keep =
  take_field_keep [of auto_approve] take_field_keep [of cloud_enabled]
  take_field_keep [of cloud_run_tests] take_field_keep [of checkup_enabled]
  take_field_keep [of learned_rules] take_field_keep [of issue_auto_implement]
  take_field_keep [of ai_issues_enabled]

lemmas take_val =
  take_field_val [of auto_approve] take_field_val [of cloud_enabled]
  take_field_val [of cloud_run_tests] take_field_val [of checkup_enabled]
  take_field_val [of learned_rules] take_field_val [of issue_auto_implement]
  take_field_val [of ai_issues_enabled]

lemma apply_prefs_patch_bool:
  "(f, g) \<in> set bool_capabilities \<Longrightarrow>
   g (fst (apply_prefs_patch patch level acc)) =
     (case doc_bool patch f of Some b \<Rightarrow> b | None \<Rightarrow> g (fst acc))"
  unfolding bool_capabilities_def apply_prefs_patch_def prefs_takers_def Let_def doc_bool_def
  by (auto simp: take_keep take_val split: option.split)

lemma apply_prefs_patch_src:
  "(f, g) \<in> set bool_capabilities \<Longrightarrow>
   snd (apply_prefs_patch patch level acc) f =
     (if doc_bool patch f \<noteq> None then Some level else snd acc f)"
  unfolding bool_capabilities_def apply_prefs_patch_def prefs_takers_def Let_def
  by (auto simp: take_field_src_other take_field_src_self)


text \<open>What the stored text of one level says about a boolean field.\<close>

definition level_says :: "(string \<Rightarrow> jobj option) \<Rightarrow> string \<Rightarrow> string \<Rightarrow> bool option" where
  "level_says dec raw f =
     (if trim_space raw = [] \<or> raw = ''{}'' then None
      else Option.bind (dec raw) (\<lambda>patch. doc_bool patch f))"

lemma apply_level_bool:
  "(f, g) \<in> set bool_capabilities \<Longrightarrow>
   g (fst (apply_level dec raw level acc)) =
     (case level_says dec raw f of Some b \<Rightarrow> b | None \<Rightarrow> g (fst acc))"
  by (auto simp: apply_level_def level_says_def apply_prefs_patch_bool split: option.split)

lemma apply_level_src:
  "(f, g) \<in> set bool_capabilities \<Longrightarrow>
   snd (apply_level dec raw level acc) f =
     (if level_says dec raw f = None then snd acc f else Some level)"
  by (auto simp: apply_level_def level_says_def apply_prefs_patch_src split: option.split)

lemma builtin_sources:
  "fold (\<lambda>f m. if m f = None then m(f \<mapsto> b) else m) fs m k =
     (if k \<in> set fs \<and> m k = None then Some b else m k)"
  by (induction fs arbitrary: m) auto

lemma bool_capability_field: "(f, g) \<in> set bool_capabilities \<Longrightarrow> f \<in> set agent_prefs_capability_fields"
  by (auto simp: bool_capabilities_def agent_prefs_capability_fields_def)

text \<open>
  C26: the merge of the preference levels.  For every boolean capability the most specific level
  whose stored document sets it (repository, then project, then organisation) decides its value
  and is reported as its source; when no document sets it the builtin value stands with source
  \<open>builtin\<close>.
\<close>

theorem prefs_capability_merge:
  assumes "(f, g) \<in> set bool_capabilities"
  shows "(g (fst (merge_prefs dec o_raw p_raw r_raw)),
          snd (merge_prefs dec o_raw p_raw r_raw) f) =
         (case level_says dec r_raw f of Some b \<Rightarrow> (b, Some ''repo'') | None \<Rightarrow>
          case level_says dec p_raw f of Some b \<Rightarrow> (b, Some ''project'') | None \<Rightarrow>
          case level_says dec o_raw f of Some b \<Rightarrow> (b, Some ''org'')
          | None \<Rightarrow> (g builtin_agent_prefs, Some ''builtin''))"
  using bool_capability_field [OF assms]
  by (simp add: merge_prefs_def Let_def builtin_sources apply_level_bool [OF assms]
      apply_level_src [OF assms] split: option.split)

theorem prefs_capability_merge_witness:
  "auto_approve (fst (merge_prefs (\<lambda>s. if s = ''P'' then Some [(''auto_approve'', JBool True)] else None)
     [] ''P'' [])) \<and>
   snd (merge_prefs (\<lambda>s. if s = ''P'' then Some [(''auto_approve'', JBool True)] else None)
     [] ''P'' []) ''auto_approve'' = Some ''project''"
  using prefs_capability_merge [of "''auto_approve''" auto_approve
      "\<lambda>s. if s = ''P'' then Some [(''auto_approve'', JBool True)] else None" "[]" "''P''" "[]"]
  by (simp add: bool_capabilities_def level_says_def doc_bool_def trim_space_eq_Nil is_space_def
      byte_of_def)

text \<open>
  The builtin snapshot turns the auto-fix capability on: with no stored document at any level
  the cloud agent is enabled with a branch-pushing auto-fix mode, and AI issues are enabled, while
  auto-approve, learned rules, checkup, repository tests and issue auto-implementation are off.
\<close>

theorem prefs_builtin_capabilities:
  "let p = fst (merge_prefs dec [] [] [])
   in cloud_enabled p \<and> autofix_mode p = ''branch'' \<and> ai_issues_enabled p \<and>
      \<not> auto_approve p \<and> \<not> learned_rules p \<and> \<not> checkup_enabled p \<and>
      \<not> cloud_run_tests p \<and> \<not> issue_auto_implement p"
  by (simp add: merge_prefs_def Let_def apply_level_def builtin_agent_prefs_def)

lemma manual_event_admitted:
  "is_manual_event (to_lower (trim_space ev)) \<Longrightarrow> trigger_mode_admits mode ev"
  by (simp add: trigger_mode_admits_def)

subsection \<open>Laws of the store\<close>

lemma load_keeps_live:
  "ps_live st k = Some r \<Longrightarrow> \<not> row_deleted r \<Longrightarrow>
   ps_live (snd (load_agent_prefs_json st org proj level scope)) k = Some r"
  by (auto simp: load_agent_prefs_json_def Let_def split: option.split)

lemma load_scoped_keeps_live:
  "ps_live st k = Some r \<Longrightarrow> \<not> row_deleted r \<Longrightarrow>
   ps_live (snd (load_connector_scoped_prefs_json st org proj conn)) k = Some r"
  using load_keeps_live [of st k r] load_keeps_live [of _ k r]
  by (auto simp: load_connector_scoped_prefs_json_def split: prod.split) (metis snd_conv)+

lemma resolve_keeps_live:
  "ps_live st k = Some r \<Longrightarrow> \<not> row_deleted r \<Longrightarrow>
   ps_live (snd (resolve_agent_prefs dec st org proj conn repo)) k = Some r"
  by (auto simp: resolve_agent_prefs_def split: prod.split)
    (metis load_keeps_live load_scoped_keeps_live snd_conv)+

lemma load_live:
  "ps_live st (agent_prefs_key org proj level scope) = Some r \<Longrightarrow> \<not> row_deleted r \<Longrightarrow>
   load_agent_prefs_json st org proj level scope = (row_json r, st)"
  by (simp add: load_agent_prefs_json_def)

text \<open>The merged object answers a key as the body does where the body names it.\<close>

lemma map_of_merge_blob:
  assumes "distinct (map fst patch)"
  shows "map_of (merge_blob existing patch) k =
           (case map_of patch k of
              None \<Rightarrow> map_of existing k
            | Some v \<Rightarrow> if v = JNull then None else Some v)"
  using assms
proof (induction patch arbitrary: existing)
  case (Cons kv patch)
  obtain k' v where kv: "kv = (k', v)" by force
  have "k' \<notin> set (map fst patch)" using Cons.prems kv by simp
  then have none: "map_of patch k' = None" by (simp add: map_of_eq_None_iff)
  have "merge_blob existing (kv # patch) =
      merge_blob (if v = JNull then AList.delete k' existing else AList.update k' v existing) patch"
    by (simp add: merge_blob_def kv)
  then show ?case
    using Cons.IH Cons.prems none
    by (cases "k = k'") (auto simp: kv AList.delete_conv' AList.update_conv' split: option.split)
qed (simp add: merge_blob_def)


lemma persist_live:
  "ps_live (persist_agent_prefs_row now row st)
     (agent_prefs_key (row_org row) (row_proj row) (row_level row) (row_scope row)) =
   Some (row\<lparr>row_updated_at := now\<rparr>)"
  by (simp add: persist_agent_prefs_row_def Let_def)

lemma put_cases:
  assumes "handle_agent_prefs_put dec enc oam now user org proj b st = (Inr a, st')"
  obtains patch c st1 where
    "pb_prefs b = Some patch"
    "put_store dec enc now user org proj (pa_level a) (pa_scope a) patch st = (pa_existing a, st1)"
    "st' = snd (resolve_agent_prefs dec st1 org proj c (pb_repo b))"
proof -
  from assms obtain patch where p: "pb_prefs b = Some patch"
    by (cases "pb_prefs b") (simp_all add: handle_agent_prefs_put_def)
  from assms p obtain level where l: "parse_agent_prefs_level (pb_level b) False = Inr level"
    by (cases "parse_agent_prefs_level (pb_level b) False") (simp_all add: handle_agent_prefs_put_def)
  let ?f = "if level = ''project'' \<or> level = ''repo'' then oam (trim_space (pb_connector b)) else Inr []"
  from assms p l obtain filled where f: "?f = Inr filled"
    by (cases ?f) (simp_all add: handle_agent_prefs_put_def Let_def)
  let ?scope = "put_scope org proj level (if filled \<noteq> [] then filled else trim_space (pb_connector b)) b"
  let ?c = "if filled \<noteq> [] then filled else pb_connector b"
  obtain ex st1 where s1: "put_store dec enc now user org proj level ?scope patch st = (ex, st1)"
    by force
  obtain eff st2 where s2: "resolve_agent_prefs dec st1 org proj ?c (pb_repo b) = (eff, st2)"
    by (metis surj_pair)
  have ne: "?scope \<noteq> []"
    using assms by (simp add: handle_agent_prefs_put_def Let_def p l f del: not_None_eq split: if_split_asm)
  have "a = \<lparr>pa_level = level, pa_scope = ?scope, pa_existing = ex, pa_effective = eff\<rparr>" "st' = st2"
    using assms ne by (simp_all add: handle_agent_prefs_put_def Let_def p l f s1 s2)
  with that [of patch st1 ?c] p s1 s2 show thesis by simp
qed

lemma put_store_facts:
  assumes "put_store dec enc now user org proj level scope patch st = (existing, st1)"
  shows "ps_live st1 (agent_prefs_key org proj level scope) =
           Some \<lparr>row_org = org, row_proj = proj, row_level = level, row_scope = scope,
                 row_json = enc existing, row_updated_at = now,
                 row_updated_by = trim_space user, row_deleted = False\<rparr>"
    and "\<exists>old. existing = merge_blob old patch"
  using assms by (auto simp: put_store_def Let_def persist_agent_prefs_row_def split: prod.splits)

text \<open>
  Writing and reading preferences.  After an accepted PUT the stored document of its level and
  scope reads back as the encoding of the merged object; in that object a key of the body has the
  body's value, is absent when the body says null, and every other key keeps the stored value.
\<close>

theorem prefs_put_then_load:
  assumes put: "handle_agent_prefs_put dec enc oam now user org proj b st = (Inr a, st')"
    and keys: "pb_prefs b = Some patch" "distinct (map fst patch)"
  shows "load_agent_prefs_json st' org proj (pa_level a) (pa_scope a) = (enc (pa_existing a), st') \<and>
    (\<exists>old. \<forall>k. map_of (pa_existing a) k =
       (case map_of patch k of None \<Rightarrow> map_of old k
        | Some v \<Rightarrow> if v = JNull then None else Some v))"
proof -
  from put obtain patch' c st1 where p: "pb_prefs b = Some patch'"
    and st1: "put_store dec enc now user org proj (pa_level a) (pa_scope a) patch' st
                = (pa_existing a, st1)"
    and st': "st' = snd (resolve_agent_prefs dec st1 org proj c (pb_repo b))"
    by (rule put_cases)
  note row = put_store_facts(1) [OF st1]
  have "load_agent_prefs_json st' org proj (pa_level a) (pa_scope a) = (enc (pa_existing a), st')"
    unfolding st' using load_live [OF resolve_keeps_live [OF row]] by simp
  with put_store_facts(2) [OF st1] p keys show ?thesis by (auto simp: map_of_merge_blob)
qed

theorem prefs_put_then_load_witness:
  "let dec = (\<lambda>s. if s = ''{}'' then Some [] else None); enc = (\<lambda>m. ''B'');
       b = \<lparr>pb_level = ''repo'', pb_scope = ''o/r'', pb_connector = [], pb_repo = ''o/r'',
            pb_prefs = Some [(''auto_approve'', JBool True), (''trigger_mode'', JNull)]\<rparr>;
       st = \<lparr>ps_live = Map.empty, ps_files = Map.empty, ps_inserted = []\<rparr>;
       (ans, st') = handle_agent_prefs_put dec enc (\<lambda>c. Inr []) ''t'' ''u'' ''o'' ''p'' b st
   in case ans of Inl _ \<Rightarrow> False
      | Inr a \<Rightarrow> load_agent_prefs_json st' ''o'' ''p'' (pa_level a) (pa_scope a) =
                  (enc (pa_existing a), st')"
proof -
  let ?dec = "\<lambda>s. if s = ''{}'' then Some [] else None" and ?enc = "\<lambda>m :: jobj. ''B''"
  let ?b = "\<lparr>pb_level = ''repo'', pb_scope = ''o/r'', pb_connector = [], pb_repo = ''o/r'',
            pb_prefs = Some [(''auto_approve'', JBool True), (''trigger_mode'', JNull)]\<rparr>"
  let ?st = "\<lparr>ps_live = Map.empty, ps_files = Map.empty, ps_inserted = []\<rparr>"
  let ?r = "handle_agent_prefs_put ?dec ?enc (\<lambda>c. Inr []) ''t'' ''u'' ''o'' ''p'' ?b ?st"
  have "\<not> isl (fst ?r)" by code_simp
  then obtain a st' where r: "?r = (Inr a, st')" by (cases ?r, cases "fst ?r") auto
  show ?thesis
    using prefs_put_then_load [OF r, of "[(''auto_approve'', JBool True), (''trigger_mode'', JNull)]"]
    by (simp add: Let_def r)
qed

end
