(* ===== verification/Approval_Policy.thy ===== *)
theory Approval_Policy
  imports Agent_Prefs Review_Findings
begin

text \<open>
  The approval policy and the approval decision (\<^verbatim>\<open>src/approval_policy.go\<close>): the clamp-only
  policy document and its parser, the evidence, \<^verbatim>\<open>evaluateApproval\<close> with the confidence
  calibration before it, and the review body of \<^verbatim>\<open>src/scm_ai_review.go\<close>.
\<close>

record approval_policy =
  pol_version :: int
  pol_require :: "string list"
  pol_security_min_severity :: string
  pol_max_risk_score :: int
  pol_reviewers :: "string list"
  pol_team_reviewers :: "string list"
  pol_on_fail :: string

record approval_evidence =
  ev_prefs :: agent_prefs
  ev_bugbot :: ai_review_result
  ev_security_run_id :: string
  ev_security_fail :: bool
  ev_security_findings :: "agent_finding list"
  ev_bugbot_ok :: bool
  ev_security_ok :: bool
  ev_degraded :: "string list"
  ev_cloud_child_exists :: bool
  ev_policy :: "approval_policy option"
  ev_policy_honesty :: string
  ev_base_ref :: string
  ev_min_score :: int
  ev_risk_score :: int

datatype review_event = APPROVE | REQUEST_CHANGES | COMMENT

record approval_decision =
  dec_event :: review_event
  dec_reasons :: "string list"
  dec_honesty :: string
  dec_bugbot :: ai_review_result

subsection \<open>Parsing the policy\<close>

datatype policy_error =
    EmptyPolicy
  | PolicyTooLarge
  | PolicyJSON string
  | UnsupportedVersion int
  | ForbiddenKey string
  | UnknownKey string

text \<open>
  \<^verbatim>\<open>parseApprovalPolicy\<close>.  \<open>unmarshal\<close> is \<^verbatim>\<open>encoding/json\<close> decoding a text into the struct,
  \<open>keys_of\<close> the top level keys of the text (none when it is no object), in the order the
  decoded map is ranged over.
\<close>

fun check_policy_keys :: "string list \<Rightarrow> policy_error + unit" where
  "check_policy_keys [] = Inr ()"
| "check_policy_keys (k # ks) =
     (if k \<in> {''version'', ''require'', ''block_if'', ''route'', ''on_fail''} then check_policy_keys ks
      else if k \<in> {''approve_if'', ''allow_if'', ''widen''} then Inl (ForbiddenKey k)
      else Inl (UnknownKey k))"

definition parse_approval_policy ::
  "(string \<Rightarrow> string + approval_policy) \<Rightarrow> (string \<Rightarrow> string list) \<Rightarrow> string
     \<Rightarrow> policy_error + approval_policy" where
  "parse_approval_policy unmarshal keys_of raw =
     (let raw = trim_space raw
      in if raw = [] then Inl EmptyPolicy
         else if 64 * 1024 < int (length raw) then Inl PolicyTooLarge
         else case unmarshal raw of
           Inl e \<Rightarrow> Inl (PolicyJSON e)
         | Inr p \<Rightarrow>
             (if pol_version p \<noteq> 0 \<and> pol_version p \<noteq> 1 then Inl (UnsupportedVersion (pol_version p))
              else
                let p = (if pol_version p = 0 then p\<lparr>pol_version := 1\<rparr> else p)
                in case check_policy_keys (keys_of raw) of
                     Inl e \<Rightarrow> Inl e
                   | Inr _ \<Rightarrow>
                       Inr (if pol_on_fail p = [] then p\<lparr>pol_on_fail := ''COMMENT''\<rparr> else p)))"

subsection \<open>Severities\<close>

definition severity_order :: "string \<Rightarrow> nat" where
  "severity_order s =
     (if s = ''low'' then 1 else if s = ''medium'' then 2 else if s = ''high'' then 3
      else if s = ''critical'' then 4 else if s = ''blocker'' then 5 else 0)"

definition highest_security_severity :: "agent_finding list \<Rightarrow> string" where
  "highest_security_severity findings =
     fst (fold (\<lambda>f (best, bestN).
             let s = norm_token (af_severity f); n = severity_order s
             in if bestN < n then (s, n) else (best, bestN)) findings ([], 0))"

definition severity_at_least :: "string \<Rightarrow> string \<Rightarrow> bool" where
  "severity_at_least have want \<longleftrightarrow>
     severity_order (to_lower want) \<le> severity_order (to_lower have) \<and>
     0 < severity_order (to_lower want)"

definition fail_event :: "approval_policy option \<Rightarrow> review_event" where
  "fail_event p =
     (case p of Some pol \<Rightarrow> if equal_fold (pol_on_fail pol) ''REQUEST_CHANGES'' then REQUEST_CHANGES else COMMENT
      | None \<Rightarrow> COMMENT)"

subsection \<open>Confidence\<close>

text \<open>
  The loop of \<^verbatim>\<open>concreteConfidenceWhy\<close> over the priorities: it stops once four parts are there,
  the test made only after a part was added.
\<close>

fun why_parts :: "ai_review_priority list \<Rightarrow> string list \<Rightarrow> string list" where
  "why_parts [] parts = parts"
| "why_parts (p # ps) parts =
     (let c = trim_space (pri_concern p)
      in if c = [] then why_parts ps parts
         else
           let f = trim_space (pri_file p);
               part = (if f \<noteq> [] then
                         (if 0 < pri_line p
                          then f @ '':'' @ show_int (pri_line p) @ '' '' @ em_dash @ '' '' @ truncate_str c 160
                          else f @ '' '' @ em_dash @ '' '' @ truncate_str c 160)
                       else truncate_str c 160);
               parts = parts @ [part]
           in if 4 \<le> length parts then parts else why_parts ps parts)"

definition concrete_confidence_why :: "ai_review_result \<Rightarrow> string" where
  "concrete_confidence_why res =
     (let r = trim_space (rv_confidence_rationale res);
          parts = why_parts (rv_priorities res) (if r \<noteq> [] then [truncate_str r 240] else []);
          parts = (if rv_fallback res
                   then parts @ [''rule-based fallback (structured AI synthesis unavailable)'']
                   else parts)
      in trim_space (join ''; '' parts))"

definition confidence_why_is_actionable :: "ai_review_result \<Rightarrow> bool" where
  "confidence_why_is_actionable res =
     (if rv_fallback res then True
      else if has_blocker_or_high_finding res \<or> rv_findings res \<noteq> [] then True
      else if rv_priorities res \<noteq> [] then True
      else if trim_space (rv_confidence_rationale res) \<noteq> [] then True
      else if equal_fold (trim_space (rv_verdict res)) ''request_changes'' then True
      else if equal_fold (trim_space (rv_verdict res)) ''needs_context'' then True
      else norm_token (rv_status res) = ''findings'' \<or> norm_token (rv_status res) = ''error'')"

definition calibrated_rationale :: string where
  "calibrated_rationale =
     ''No findings or merge-blocker priorities; confidence raised to the auto-approve veto threshold.''"

text \<open>\<^verbatim>\<open>calibrateConfidenceForVeto\<close>: the note when the score was raised, and the review.\<close>

definition calibrate_confidence_for_veto ::
  "ai_review_result \<Rightarrow> int \<Rightarrow> string option \<times> ai_review_result" where
  "calibrate_confidence_for_veto res min_score =
     (if min_score \<le> 0 \<or> min_score \<le> rv_confidence res then (None, res)
      else if confidence_why_is_actionable res then (None, res)
      else
        let prev = rv_confidence res;
            r = res\<lparr>rv_confidence := min_score,
                    rv_confidence_label := confidence_label_from_score min_score\<rparr>;
            r = (if trim_space (rv_confidence_rationale r) = []
                 then r\<lparr>rv_confidence_rationale := calibrated_rationale\<rparr> else r)
        in (Some (''confidence calibrated '' @ show_int prev @ right_arrow @ show_int min_score @
                  '' (no actionable why for hard veto)''), r))"

subsection \<open>The decision\<close>

definition decide :: "review_event \<Rightarrow> string list \<Rightarrow> string \<Rightarrow> ai_review_result \<Rightarrow> approval_decision" where
  "decide e rs h b = \<lparr>dec_event = e, dec_reasons = rs, dec_honesty = h, dec_bugbot = b\<rparr>"

text \<open>The first requirement of the policy that does not hold, as its reason.\<close>

fun failed_require :: "approval_evidence \<Rightarrow> string list \<Rightarrow> string option" where
  "failed_require ev [] = None"
| "failed_require ev (r # rs) =
     (let req = norm_token r
      in if req = ''security'' then
           (if \<not> ev_security_ok ev then Some ''policy require security not satisfied''
            else failed_require ev rs)
         else if req \<in> {''bugbot'', ''review'', ''ai''} then
           (if \<not> ev_bugbot_ok ev then Some ''policy require bugbot not satisfied''
            else failed_require ev rs)
         else failed_require ev rs)"

definition min_security_severity :: "approval_policy option \<Rightarrow> string" where
  "min_security_severity p =
     (case p of Some pol \<Rightarrow> if pol_security_min_severity pol \<noteq> [] then pol_security_min_severity pol
                              else ''high''
      | None \<Rightarrow> ''high'')"

text \<open>
  \<^verbatim>\<open>evaluateApproval\<close>, its early returns in order.  \<open>evaluate_evidence\<close> is the second half, from
  the confidence veto on, over the calibrated review \<open>b\<close>, the reasons and the honesty so far.
\<close>

definition evaluate_evidence ::
  "approval_evidence \<Rightarrow> ai_review_result \<Rightarrow> string list \<Rightarrow> string \<Rightarrow> approval_decision" where
  "evaluate_evidence ev b rs h =
     (if 0 < ev_min_score ev \<and> rv_confidence b < ev_min_score ev then
        (let why = concrete_confidence_why b
         in decide REQUEST_CHANGES
              (rs @ [''confidence '' @ show_int (rv_confidence b) @ '' below veto threshold '' @
                       show_int (ev_min_score ev),
                     (if why \<noteq> [] then ''why: '' @ why
                      else ''why: low confidence without a concrete merge-blocker explanation'')])
              ''confidence veto'' b)
      else if has_blocker_or_high_finding b \<or> to_lower (rv_verdict b) = ''request_changes'' then
        decide REQUEST_CHANGES (rs @ [''bugbot blocker/high or request_changes verdict'']) h b
      else if equal_fold (trim_space (rv_verdict b)) ''needs_context'' then
        decide REQUEST_CHANGES
          (rs @ [''bugbot needs_context verdict '' @ em_dash @ '' human context required before approve''])
          ''needs_context veto'' b
      else if norm_token (rv_status b) = ''findings'' then
        decide REQUEST_CHANGES (rs @ [''bugbot reported findings'']) h b
      else if ev_security_fail ev then
        decide REQUEST_CHANGES (rs @ [''security gate failed'']) h b
      else
        let min_sev = min_security_severity (ev_policy ev);
            sec = highest_security_severity (ev_security_findings ev)
        in if severity_at_least sec min_sev then
             decide REQUEST_CHANGES
               (rs @ [''security finding severity '' @ sec @ '' '' @ ge_sign @ '' '' @ min_sev]) h b
           else case ev_policy ev of
             Some pol \<Rightarrow>
               (if 0 < pol_max_risk_score pol \<and> pol_max_risk_score pol < ev_risk_score ev then
                  decide (fail_event (ev_policy ev))
                    (rs @ [''risk score '' @ show_int (ev_risk_score ev) @ '' > policy max '' @
                             show_int (pol_max_risk_score pol)]) ''risk score veto'' b
                else case failed_require ev (pol_require pol) of
                  Some why \<Rightarrow>
                    decide (fail_event (ev_policy ev)) (rs @ [why]) ''require cross-check abstain/fail'' b
                | None \<Rightarrow>
                    decide APPROVE (rs @ [''all approval conjunctions satisfied''])
                      (if h = [] then ''approved by evidence conjunction (confidence veto-only)'' else h) b)
           | None \<Rightarrow>
               (if ev_policy_honesty ev \<noteq> [] then
                  decide COMMENT (rs @ [ev_policy_honesty ev]) (ev_policy_honesty ev) b
                else
                  decide APPROVE (rs @ [''all approval conjunctions satisfied''])
                    (if h = [] then ''approved by evidence conjunction (confidence veto-only)'' else h) b))"

definition evaluate_approval :: "approval_evidence \<Rightarrow> approval_decision" where
  "evaluate_approval ev =
     (let b0 = ev_bugbot ev
      in if ev_degraded ev \<noteq> [] then
           decide COMMENT [''degraded: '' @ join '', '' (ev_degraded ev)]
             (''Degraded input '' @ em_dash @ '' never APPROVE'') b0
         else if ev_cloud_child_exists ev then
           decide COMMENT [''cloud child pending '' @ em_dash @ '' APPROVE downgraded'']
             ''pending_autofix'' b0
         else if \<not> auto_approve (ev_prefs ev) then
           decide COMMENT [''auto_approve off''] ''auto-approve disabled'' b0
         else
           let status = norm_token (rv_status b0)
           in if status = ''skipped'' \<or> status = ''error'' then
                decide COMMENT [''bugbot status='' @ status] [] b0
              else
                let (nt, b) = calibrate_confidence_for_veto b0 (ev_min_score ev)
                in case nt of
                     Some n \<Rightarrow> evaluate_evidence ev b [n] n
                   | None \<Rightarrow> evaluate_evidence ev b [] [])"

text \<open>\<^verbatim>\<open>decideOPAReviewEvent\<close>: the legacy entry, with auto-approve off.\<close>

definition zero_prefs :: agent_prefs where
  "zero_prefs =
     \<lparr>repository_rules = False, learned_rules = False, trigger_mode = [], review_draft_prs = False,
      pr_summaries = False, post_pr_risk_score = False, autofix_mode = [],
      autofix_severity_threshold = [], incremental_review = False,
      security_auto_pr_reviews = False, context_aware_analysis = False, inline_findings = False,
      auto_approve = False, reviewer_routing = False, policy_file_path = [],
      ai_reviewer_aware = False, bugbot_max_units = 0, cloud_enabled = False,
      cloud_run_tests = False, checkup_enabled = False, ai_issue_labels = [],
      issue_auto_implement = False, require_human_before_coding = False,
      ai_issues_enabled = False\<rparr>"

definition decide_opa_review_event :: "ai_review_result \<Rightarrow> int \<Rightarrow> review_event" where
  "decide_opa_review_event res min_score =
     dec_event (evaluate_approval
       \<lparr>ev_prefs = zero_prefs, ev_bugbot = res, ev_security_run_id = [], ev_security_fail = False,
        ev_security_findings = [],
        ev_bugbot_ok = (to_lower (rv_status res) \<notin> {''skipped'', ''error'', ''failed''}),
        ev_security_ok = False, ev_degraded = [], ev_cloud_child_exists = False,
        ev_policy = None, ev_policy_honesty = [], ev_base_ref = [], ev_min_score = min_score,
        ev_risk_score = 0\<rparr>)"

definition format_decision_body :: "ai_review_result \<Rightarrow> review_event \<Rightarrow> int \<Rightarrow> string" where
  "format_decision_body res event min_score =
     (let conf = show_int (rv_confidence res);
          label = confidence_label_from_score (rv_confidence res);
          why = concrete_confidence_why res;
          rat = rv_confidence_rationale res;
          head = (case event of
            APPROVE \<Rightarrow>
              ''**OPA Review '' @ em_dash @ '' approved**'' @ nl @ nl @
              ''Auto-merge confidence **'' @ conf @ ''/100** ('' @ label @ '') meets threshold **'' @
              show_int min_score @ ''**.'' @ nl @ (if rat \<noteq> [] then nl @ rat @ nl else [])
          | REQUEST_CHANGES \<Rightarrow>
              ''**OPA Review '' @ em_dash @ '' changes requested**'' @ nl @ nl @
              ''Auto-merge confidence **'' @ conf @ ''/100** ('' @ label @ ''); threshold **'' @
              show_int min_score @ ''**.'' @ nl @
              (if why \<noteq> [] then nl @ ''**Why:** '' @ why @ nl
               else if rat \<noteq> [] then nl @ ''**Why:** '' @ rat @ nl
               else nl @ ''**Why:** confidence below threshold without a detailed rationale '' @ em_dash @
                    '' re-run review or address open findings.'' @ nl)
          | COMMENT \<Rightarrow>
              ''**OPA Review**'' @ nl @ nl @ ''Confidence **'' @ conf @ ''/100** ('' @ label @ '').'' @ nl @
              (if rat \<noteq> [] then nl @ rat @ nl else []))
      in trim_space (head @ (if rv_verdict res \<noteq> []
                             then nl @ ''Verdict: `'' @ rv_verdict res @ ''`'' @ nl else [])))"


subsection \<open>Laws\<close>

lemma decide_sel [simp]:
  "dec_event (decide e rs h b) = e" "dec_reasons (decide e rs h b) = rs"
  "dec_honesty (decide e rs h b) = h" "dec_bugbot (decide e rs h b) = b"
  by (simp_all add: decide_def)

lemma fail_event_not_approve [simp]: "fail_event p \<noteq> APPROVE"
  by (simp add: fail_event_def split: option.split)

lemma calibrate_keeps:
  "calibrate_confidence_for_veto res m = (nt, b) \<Longrightarrow>
   rv_findings b = rv_findings res \<and> rv_verdict b = rv_verdict res \<and>
   rv_status b = rv_status res \<and> rv_fallback b = rv_fallback res"
  by (auto simp: calibrate_confidence_for_veto_def Let_def split: if_splits)

lemma calibrate_score:
  "calibrate_confidence_for_veto res m = (nt, b) \<Longrightarrow>
   rv_confidence b = (if 0 < m \<and> rv_confidence res < m \<and> \<not> confidence_why_is_actionable res
                      then m else rv_confidence res)"
  by (auto simp: calibrate_confidence_for_veto_def Let_def split: if_splits)

lemma has_blocker_cong: "rv_findings a = rv_findings b \<Longrightarrow>
    has_blocker_or_high_finding a = has_blocker_or_high_finding b"
  by (simp add: has_blocker_or_high_finding_def)

text \<open>The part of the decision after the calibration, as a conjunction.\<close>

definition policy_admits :: "approval_evidence \<Rightarrow> bool" where
  "policy_admits ev =
     (case ev_policy ev of
        Some pol \<Rightarrow> (pol_max_risk_score pol \<le> 0 \<or> ev_risk_score ev \<le> pol_max_risk_score pol) \<and>
                     failed_require ev (pol_require pol) = None
      | None \<Rightarrow> ev_policy_honesty ev = [])"

lemma evaluate_evidence_approve:
  "dec_event (evaluate_evidence ev b rs h) = APPROVE \<longleftrightarrow>
     (ev_min_score ev \<le> 0 \<or> ev_min_score ev \<le> rv_confidence b) \<and>
     \<not> has_blocker_or_high_finding b \<and> to_lower (rv_verdict b) \<noteq> ''request_changes'' \<and>
     \<not> equal_fold (trim_space (rv_verdict b)) ''needs_context'' \<and>
     norm_token (rv_status b) \<noteq> ''findings'' \<and> \<not> ev_security_fail ev \<and>
     \<not> severity_at_least (highest_security_severity (ev_security_findings ev))
         (min_security_severity (ev_policy ev)) \<and>
     policy_admits ev"
  by (auto simp: evaluate_evidence_def Let_def policy_admits_def not_less split: option.split)

text \<open>The conjunction that grants an approval.\<close>

definition approval_conjunction :: "approval_evidence \<Rightarrow> bool" where
  "approval_conjunction ev \<longleftrightarrow>
     (let b = ev_bugbot ev
      in ev_degraded ev = [] \<and> \<not> ev_cloud_child_exists ev \<and> auto_approve (ev_prefs ev) \<and>
         norm_token (rv_status b) \<notin> {''skipped'', ''error'', ''findings''} \<and>
         (ev_min_score ev \<le> 0 \<or> ev_min_score ev \<le> rv_confidence b \<or>
          \<not> confidence_why_is_actionable b) \<and>
         \<not> has_blocker_or_high_finding b \<and> to_lower (rv_verdict b) \<noteq> ''request_changes'' \<and>
         \<not> equal_fold (trim_space (rv_verdict b)) ''needs_context'' \<and>
         \<not> ev_security_fail ev \<and>
         \<not> severity_at_least (highest_security_severity (ev_security_findings ev))
             (min_security_severity (ev_policy ev)) \<and>
         policy_admits ev)"

lemma approve_conjunction:
  "dec_event (evaluate_approval ev) = APPROVE \<longleftrightarrow> approval_conjunction ev"
proof -
  obtain nt b where cal: "calibrate_confidence_for_veto (ev_bugbot ev) (ev_min_score ev) = (nt, b)"
    by force
  note keep = calibrate_keeps [OF cal] calibrate_score [OF cal]
  have blk: "has_blocker_or_high_finding b = has_blocker_or_high_finding (ev_bugbot ev)"
    using keep by (intro has_blocker_cong) simp
  have conf: "ev_min_score ev \<le> 0 \<or> ev_min_score ev \<le> rv_confidence b \<longleftrightarrow>
      ev_min_score ev \<le> 0 \<or> ev_min_score ev \<le> rv_confidence (ev_bugbot ev) \<or>
      \<not> confidence_why_is_actionable (ev_bugbot ev)"
    using keep by auto
  have "dec_event (case nt of Some n \<Rightarrow> evaluate_evidence ev b [n] n | None \<Rightarrow> evaluate_evidence ev b [] [])
      = APPROVE \<longleftrightarrow> dec_event (evaluate_evidence ev b [] []) = APPROVE"
    by (simp add: evaluate_evidence_approve split: option.split)
  then show ?thesis
    by (simp add: evaluate_approval_def approval_conjunction_def Let_def cal blk conf keep(1)
        evaluate_evidence_approve) blast
qed

text \<open>
  C10: \<^verbatim>\<open>evaluateApproval\<close> answers APPROVE exactly when every conjunction holds: no degraded
  input, no pending cloud child, auto-approve on, a real review without blocking findings or
  verdict, the confidence at the veto threshold or low without an actionable reason, the security
  gate passed, no security finding at the policy's severity, the risk score within the policy's
  maximum, every requirement of the policy met, and no unreadable policy.
\<close>

theorem approve_iff_conjunction:
  "dec_event (evaluate_approval ev) = APPROVE \<longleftrightarrow> approval_conjunction ev"
  by (rule approve_conjunction)

text \<open>
  The legacy entry never decides anything but COMMENT: whatever the review says, no approval
  and no request for changes comes out of it.
\<close>

theorem legacy_event_is_comment: "decide_opa_review_event res min_score = COMMENT"
  by (simp add: decide_opa_review_event_def evaluate_approval_def zero_prefs_def)

lemma highest_fold:
  "severity_order best = bestN \<Longrightarrow>
   (\<forall>f \<in> set fs. severity_order (norm_token (af_severity f)) \<le>
      severity_order (fst (fold (\<lambda>f (best, bestN). let s = norm_token (af_severity f); n = severity_order s
             in if bestN < n then (s, n) else (best, bestN)) fs (best, bestN)))) \<and>
   bestN \<le> severity_order (fst (fold (\<lambda>f (best, bestN). let s = norm_token (af_severity f); n = severity_order s
             in if bestN < n then (s, n) else (best, bestN)) fs (best, bestN)))"
proof (induction fs arbitrary: best bestN)
  case (Cons f fs)
  let ?s = "norm_token (af_severity f)"
  show ?case
  proof (cases "bestN < severity_order ?s")
    case True
    with Cons.IH [of ?s "severity_order ?s"] show ?thesis by (simp add: Let_def)
  next
    case False
    with Cons.IH [OF Cons.prems] show ?thesis by (simp add: Let_def)
  qed
qed simp

lemma highest_security_severity_max:
  "f \<in> set fs \<Longrightarrow> severity_order (norm_token (af_severity f)) \<le>
                    severity_order (highest_security_severity fs)"
  using highest_fold [of "[]" 0 fs] by (simp add: highest_security_severity_def severity_order_def [of "[]"])

lemma highest_lower: "to_lower (highest_security_severity fs) = highest_security_severity fs"
proof -
  have "to_lower best = best \<Longrightarrow> to_lower (fst (fold (\<lambda>f (best, bestN). let s = norm_token (af_severity f);
      n = severity_order s in if bestN < n then (s, n) else (best, bestN)) fs (best, n))) =
      fst (fold (\<lambda>f (best, bestN). let s = norm_token (af_severity f);
      n = severity_order s in if bestN < n then (s, n) else (best, bestN)) fs (best, n))" for best n
    by (induction fs arbitrary: best n) (simp_all add: Let_def norm_token_def)
  then show ?thesis by (simp add: highest_security_severity_def)
qed

text \<open>
  An approval leaves no security finding at or above the severity the policy blocks on, when
  that severity is one of low, medium, high, critical and blocker in any case.
\<close>

theorem approve_below_severity:
  assumes "dec_event (evaluate_approval ev) = APPROVE"
    and "0 < severity_order (to_lower (min_security_severity (ev_policy ev)))"
    and "f \<in> set (ev_security_findings ev)"
  shows "severity_order (norm_token (af_severity f)) <
         severity_order (to_lower (min_security_severity (ev_policy ev)))"
proof -
  let ?h = "highest_security_severity (ev_security_findings ev)"
  have "\<not> severity_at_least ?h (min_security_severity (ev_policy ev))"
    using assms(1) by (simp add: approve_conjunction approval_conjunction_def Let_def)
  then have "severity_order ?h < severity_order (to_lower (min_security_severity (ev_policy ev)))"
    using assms(2) by (simp add: severity_at_least_def highest_lower)
  with highest_security_severity_max [OF assms(3)] show ?thesis by simp
qed

definition sample_evidence :: "string \<Rightarrow> string \<Rightarrow> approval_evidence" where
  "sample_evidence min_sev sev =
     \<lparr>ev_prefs = zero_prefs\<lparr>auto_approve := True\<rparr>,
      ev_bugbot = empty_review\<lparr>rv_status := ''clean'', rv_confidence := 90\<rparr>,
      ev_security_run_id = ''r'', ev_security_fail = False,
      ev_security_findings = [\<lparr>af_key = ''k'', af_source = ''security'', af_severity = sev,
        af_file = ''a.go'', af_line = 1, af_message = ''m'', af_rule = ''r'', af_namespace = ''security''\<rparr>],
      ev_bugbot_ok = True, ev_security_ok = True, ev_degraded = [], ev_cloud_child_exists = False,
      ev_policy = Some \<lparr>pol_version = 1, pol_require = [''security'', ''bugbot''],
        pol_security_min_severity = min_sev, pol_max_risk_score = 0, pol_reviewers = [],
        pol_team_reviewers = [], pol_on_fail = ''COMMENT''\<rparr>,
      ev_policy_honesty = [], ev_base_ref = ''main'', ev_min_score = 70, ev_risk_score = 0\<rparr>"

theorem approve_below_severity_witness:
  "severity_order (norm_token ''low'') < severity_order (to_lower (min_security_severity
     (ev_policy (sample_evidence ''high'' ''low''))))"
proof -
  have a: "dec_event (evaluate_approval (sample_evidence ''high'' ''low'')) = APPROVE" by code_simp
  have b: "0 < severity_order (to_lower (min_security_severity (ev_policy (sample_evidence ''high'' ''low''))))"
    by code_simp
  show ?thesis
    using approve_below_severity [OF a b, of "hd (ev_security_findings (sample_evidence ''high'' ''low''))"]
    by (simp add: sample_evidence_def)
qed

text \<open>
  A policy threshold that is not one of the five words (a typo, or a word with a blank beside
  it) vetoes nothing: with \<open>security_min_severity\<close> set to ''moderate'' or to ''high '' a critical
  security finding is approved, where the default threshold asks for changes.
\<close>

theorem unknown_min_severity_approves:
  "dec_event (evaluate_approval (sample_evidence ''moderate'' ''critical'')) = APPROVE \<and>
   dec_event (evaluate_approval (sample_evidence ''high '' ''critical'')) = APPROVE \<and>
   dec_event (evaluate_approval (sample_evidence [] ''critical'')) = REQUEST_CHANGES"
  by code_simp

text \<open>
  The calibration changes a review only when the score is below a positive threshold and
  nothing actionable explains it; it then raises the score to exactly the threshold, and it never
  touches the findings, the verdict or the status.
\<close>

theorem calibrate_only_unexplained:
  "calibrate_confidence_for_veto res m = (nt, b) \<Longrightarrow>
   rv_findings b = rv_findings res \<and> rv_verdict b = rv_verdict res \<and> rv_status b = rv_status res \<and>
   (if nt = None then b = res
    else 0 < m \<and> rv_confidence res < m \<and> rv_confidence b = m \<and>
         \<not> confidence_why_is_actionable res \<and> rv_findings res = [] \<and> rv_priorities res = [])"
  by (auto simp: calibrate_confidence_for_veto_def Let_def confidence_why_is_actionable_def
      split: if_splits)

theorem calibrate_only_unexplained_witness:
  "let (nt, b) = calibrate_confidence_for_veto (empty_review\<lparr>rv_status := ''clean''\<rparr>) 70
   in nt \<noteq> None \<and> rv_confidence b = 70"
proof -
  obtain nt b where c: "calibrate_confidence_for_veto (empty_review\<lparr>rv_status := ''clean''\<rparr>) 70 = (nt, b)"
    by force
  have "fst (calibrate_confidence_for_veto (empty_review\<lparr>rv_status := ''clean''\<rparr>) 70) \<noteq> None"
    by code_simp
  then have "nt \<noteq> None" unfolding c by simp
  then show ?thesis using calibrate_only_unexplained [OF c] by (simp only: c) simp
qed

lemma check_policy_keys_Inr:
  "check_policy_keys ks = Inr () \<longleftrightarrow>
     set ks \<subseteq> {''version'', ''require'', ''block_if'', ''route'', ''on_fail''}"
  by (induction ks) auto

text \<open>
  A policy that parses is version 1, at most 64 KiB, has a fail event, and none but the five
  clamp-only keys at its top level, so no widening clause and no unknown clause gets through.
\<close>

theorem parsed_policy_clamp_only:
  assumes "parse_approval_policy unmarshal keys_of raw = Inr p"
  shows "pol_version p = 1 \<and> pol_on_fail p \<noteq> [] \<and> length (trim_space raw) \<le> 65536 \<and>
    set (keys_of (trim_space raw)) \<subseteq> {''version'', ''require'', ''block_if'', ''route'', ''on_fail''}"
  using assms
  by (auto simp: parse_approval_policy_def Let_def check_policy_keys_Inr
      split: if_splits sum.splits)

theorem parsed_policy_clamp_only_witness:
  "pol_version (projr (parse_approval_policy
     (\<lambda>_. Inr \<lparr>pol_version = 0, pol_require = [''security''], pol_security_min_severity = [],
        pol_max_risk_score = 40, pol_reviewers = [], pol_team_reviewers = [], pol_on_fail = []\<rparr>)
     (\<lambda>_. [''require'', ''block_if'']) ''{}'')) = 1"
proof -
  let ?u = "\<lambda>_ :: string. Inr \<lparr>pol_version = 0, pol_require = [''security''],
        pol_security_min_severity = [], pol_max_risk_score = 40, pol_reviewers = [],
        pol_team_reviewers = [], pol_on_fail = []\<rparr> :: string + approval_policy"
  let ?r = "parse_approval_policy ?u (\<lambda>_. [''require'', ''block_if'']) ''{}''"
  have "\<not> isl ?r" by code_simp
  then have r: "?r = Inr (projr ?r)" by (rule sum.collapse(2) [symmetric])
  show ?thesis by (rule conjunct1 [OF parsed_policy_clamp_only [OF r]])
qed

end
