(* ===== verification/Go_Path.thy ===== *)
theory Go_Path
  imports Go_Prelude
begin

text \<open>
  The lexical part of \<^verbatim>\<open>path/filepath\<close> on Unix, as the code uses it: \<^verbatim>\<open>Clean\<close>, \<^verbatim>\<open>Base\<close>,
  \<^verbatim>\<open>Dir\<close>, \<^verbatim>\<open>Join\<close> and \<^verbatim>\<open>IsAbs\<close>.  A path is split at the slashes; \<open>push_seg\<close> reads one
  segment onto the reversed list of those kept.
\<close>

definition is_abs :: "string \<Rightarrow> bool" where
  "is_abs p \<longleftrightarrow> has_prefix p ''/''"

definition push_seg :: "bool \<Rightarrow> string \<Rightarrow> string list \<Rightarrow> string list" where
  "push_seg rooted seg st =
     (if seg = [] \<or> seg = ''.'' then st
      else if seg = ''..'' then
        (case st of
           [] \<Rightarrow> if rooted then [] else [''..'']
         | t # ts \<Rightarrow> if t = ''..'' then ''..'' # st else ts)
      else seg # st)"

definition clean_segs :: "string \<Rightarrow> string list" where
  "clean_segs p = rev (fold (push_seg (is_abs p)) (split_on CHR ''/'' p) [])"

definition path_clean :: "string \<Rightarrow> string" where
  "path_clean p =
     (let body = join ''/'' (clean_segs p)
      in if is_abs p then ''/'' @ body else if body = [] then ''.'' else body)"

text \<open>The part after the last slash, and the part up to and including it.\<close>

definition after_last_slash :: "string \<Rightarrow> string" where
  "after_last_slash p = rev (takeWhile (\<lambda>c. c \<noteq> CHR ''/'') (rev p))"

definition upto_last_slash :: "string \<Rightarrow> string" where
  "upto_last_slash p = rev (dropWhile (\<lambda>c. c \<noteq> CHR ''/'') (rev p))"

definition path_base :: "string \<Rightarrow> string" where
  "path_base p =
     (if p = [] then ''.''
      else let q = rev (dropWhile (\<lambda>c. c = CHR ''/'') (rev p)); b = after_last_slash q
           in if b = [] then ''/'' else b)"

definition path_dir :: "string \<Rightarrow> string" where
  "path_dir p = path_clean (upto_last_slash p)"

definition path_join :: "string list \<Rightarrow> string" where
  "path_join ps =
     (let qs = filter (\<lambda>s. s \<noteq> []) ps
      in if qs = [] then [] else path_clean (join ''/'' qs))"

subsection \<open>Laws of the cleaning\<close>

definition plain_seg :: "string \<Rightarrow> bool" where
  "plain_seg s \<longleftrightarrow> s \<noteq> [] \<and> s \<noteq> ''.'' \<and> s \<noteq> ''..'' \<and> CHR ''/'' \<notin> set s"

lemma split_on_no_sep: "s \<in> set (split_on d p) \<Longrightarrow> d \<notin> set s"
proof (induction p arbitrary: s)
  case (Cons c p)
  obtain w ws where w: "split_on d p = w # ws" by (cases "split_on d p") auto
  have "\<forall>x \<in> set (split_on d p). d \<notin> set x" using Cons.IH by blast
  with Cons.prems w show ?case by (cases "c = d") auto
qed simp

lemma push_seg_plain:
  "\<forall>s \<in> set st. plain_seg s \<Longrightarrow> CHR ''/'' \<notin> set seg \<Longrightarrow> \<forall>s \<in> set (push_seg True seg st). plain_seg s"
  by (cases st) (auto simp: push_seg_def plain_seg_def)

lemma clean_segs_plain:
  assumes "is_abs p"
  shows "\<forall>s \<in> set (clean_segs p). plain_seg s"
proof -
  have gen: "\<forall>s \<in> set segs. CHR ''/'' \<notin> set s \<Longrightarrow> \<forall>s \<in> set st. plain_seg s \<Longrightarrow>
      \<forall>s \<in> set (fold (push_seg True) segs st). plain_seg s" for segs st
  proof (induction segs arbitrary: st)
    case (Cons a segs)
    from Cons.prems have "\<forall>s \<in> set (push_seg True a st). plain_seg s"
      by (intro push_seg_plain) simp_all
    with Cons show ?case by simp
  qed simp
  have "\<forall>s \<in> set (split_on CHR ''/'' p). CHR ''/'' \<notin> set s"
    using split_on_no_sep by blast
  from gen [OF this, of "[]"] show ?thesis using assms by (simp add: clean_segs_def)
qed

lemma split_on_join:
  "segs \<noteq> [] \<Longrightarrow> \<forall>s \<in> set segs. d \<notin> set s \<Longrightarrow> split_on d (join [d] segs) = segs"
proof (induction segs rule: induct_list012)
  case (2 x)
  then have "d \<notin> set x" by simp
  then have "split_on d x = [x]" by (induction x) auto
  then show ?case by simp
next
  case (3 x y zs)
  have "split_on d (join [d] (y # zs)) = y # zs" using 3 by simp
  moreover have "d \<notin> set x \<Longrightarrow> split_on d (x @ d # t) = x # split_on d t" for t
    by (induction x) auto
  ultimately show ?case using 3 by simp
qed simp

lemma fold_push_plain:
  "\<forall>s \<in> set segs. plain_seg s \<Longrightarrow> fold (push_seg r) segs st = rev segs @ st"
  by (induction segs arbitrary: st) (auto simp: push_seg_def plain_seg_def)

lemma is_abs_slash [simp]: "is_abs (CHR ''/'' # p)"
  by (simp add: is_abs_def)

lemma clean_segs_rooted:
  assumes "\<forall>s \<in> set segs. plain_seg s"
  shows "clean_segs (''/'' @ join ''/'' segs) = segs"
proof (cases "segs = []")
  case True
  then show ?thesis by (simp add: clean_segs_def push_seg_def)
next
  case False
  have "split_on CHR ''/'' (join ''/'' segs) = segs"
    using assms False by (intro split_on_join) (auto simp: plain_seg_def)
  then show ?thesis
    using assms by (simp add: clean_segs_def fold_push_plain push_seg_def)
qed

lemma path_clean_abs: "is_abs p \<Longrightarrow> path_clean p = ''/'' @ join ''/'' (clean_segs p)"
  by (simp add: path_clean_def Let_def)

lemma clean_segs_clean: "is_abs p \<Longrightarrow> clean_segs (path_clean p) = clean_segs p"
  by (simp only: path_clean_abs clean_segs_rooted [OF clean_segs_plain])

lemma path_clean_idem: "is_abs p \<Longrightarrow> path_clean (path_clean p) = path_clean p"
  using clean_segs_clean [of p] by (simp add: path_clean_abs)

lemma join_inj_segs:
  "\<forall>s \<in> set a. plain_seg s \<Longrightarrow> \<forall>s \<in> set b. plain_seg s \<Longrightarrow>
   ''/'' @ join ''/'' a = ''/'' @ join ''/'' b \<Longrightarrow> a = b"
  by (metis clean_segs_rooted)

end
