(* ===== verification/Gate_Risk.thy ===== *)
theory Gate_Risk
  imports Approval_Policy Go_Path
begin

text \<open>
  The three-valued AppSec gate (\<^verbatim>\<open>src/gate_verdict.go\<close>), the deterministic risk score
  (\<^verbatim>\<open>src/risk_score.go\<close>) and the incremental-review keys (\<^verbatim>\<open>src/incremental.go\<close>).
  A verdict is a decoded map, \<^const>\<open>None\<close> the nil map.
\<close>

subsection \<open>Gate verdicts\<close>

definition gate_unavailable :: "string \<Rightarrow> string \<Rightarrow> string \<Rightarrow> string \<Rightarrow> jobj" where
  "gate_unavailable run_id min_sev reason detail =
     [(''status'', JStr ''unavailable''), (''fail'', JBool False), (''unavailable'', JBool True),
      (''reasons'', JStrs [reason]), (''scope'', JStr ''security_run''),
      (''security_run_id'', JStr run_id), (''min_severity'', JStr min_sev)] @
     (if detail \<noteq> [] then [(''honesty'', JStr detail)] else [])"

definition gate_is_unavailable :: "jobj option \<Rightarrow> bool" where
  "gate_is_unavailable gate =
     (case gate of
        None \<Rightarrow> True
      | Some g \<Rightarrow> jget g ''unavailable'' = JBool True \<or>
                  as_str (jget g ''status'') = ''unavailable'' \<or> as_str (jget g ''status'') = ''error'')"

definition gate_status_label :: "jobj option \<Rightarrow> string" where
  "gate_status_label gate =
     (case gate of
        None \<Rightarrow> ''unknown''
      | Some g \<Rightarrow>
          (if gate_is_unavailable gate then ''not_evaluated''
           else if as_str (jget g ''status'') \<noteq> [] then as_str (jget g ''status'')
           else ''unknown''))"

datatype check_conclusion = CNeutral | CFailure | CSuccess

definition gate_field :: "jobj option \<Rightarrow> string \<Rightarrow> jv" where
  "gate_field gate k = (case gate of None \<Rightarrow> JNull | Some g \<Rightarrow> jget g k)"

definition gate_check_outcome :: "jobj option \<Rightarrow> check_conclusion \<times> string" where
  "gate_check_outcome gate =
     (if gate_is_unavailable gate then (CNeutral, ''AppSec Gate could not evaluate'')
      else if is_true (gate_field gate ''fail'') then (CFailure, ''AppSec Gate failed'')
      else (CSuccess, ''AppSec Gate passed''))"

definition gate_check_summary :: "jobj option \<Rightarrow> string \<Rightarrow> string" where
  "gate_check_summary gate run_id =
     ''scope='' @ sprint (gate_field gate ''scope'') @ '' reasons='' @
     sprint (gate_field gate ''reasons'') @ '' security_run_id='' @ run_id @
     (if gate_is_unavailable gate then
        nl @ nl @ ''The AppSec gate did not evaluate this commit '' @ em_dash @
        '' this is not a policy violation.'' @
        (let h = as_str (gate_field gate ''honesty'') in if h \<noteq> [] then nl @ ''cause: '' @ h else []) @
        (let e = as_str (gate_field gate ''error'')
         in if e \<noteq> [] then nl @ ''detail: '' @ truncate_str (trim_space e) 300 else []) @
        nl @ ''Re-run the review once the security service is reachable to get a verdict.''
      else (case gate_field gate ''soft_notes'' of
              JArr notes \<Rightarrow> concat (map (\<lambda>n. nl @ ''note: '' @ sprint n) notes)
            | _ \<Rightarrow> []))"

text \<open>
  C18: only a decided policy violation fails a pull request.  The conclusion is \<open>failure\<close> exactly
  when the verdict was evaluated and its \<open>fail\<close> flag is the boolean true.  It is neutral exactly when
  there is no verdict, or one marked unavailable, or one of status \<open>unavailable\<close> or \<open>error\<close>, whatever
  its \<open>fail\<close> flag says; the verdict the code builds for an unreachable scanner is one of these.
\<close>

theorem gate_failure_only_decided:
  "(fst (gate_check_outcome gate) = CFailure \<longleftrightarrow>
      (\<exists>g. gate = Some g \<and> jget g ''fail'' = JBool True \<and> jget g ''unavailable'' \<noteq> JBool True \<and>
           as_str (jget g ''status'') \<notin> {''unavailable'', ''error''})) \<and>
   (fst (gate_check_outcome gate) = CNeutral \<longleftrightarrow>
      gate = None \<or>
      (\<exists>g. gate = Some g \<and>
           (jget g ''unavailable'' = JBool True \<or> as_str (jget g ''status'') \<in> {''unavailable'', ''error''}))) \<and>
   fst (gate_check_outcome (Some (gate_unavailable run_id min_sev reason detail))) = CNeutral"
  by (auto simp: gate_check_outcome_def gate_is_unavailable_def gate_field_def is_true_def
      gate_unavailable_def jget_def split: option.splits)

subsection \<open>Incremental review\<close>

text \<open>
  \<^verbatim>\<open>diffPathsFromUnified\<close>: the paths of the \<open>+++ b/\<close> and \<open>diff --git\<close> lines.  The Go value is a
  set; the list keeps first occurrences.
\<close>

definition diff_line_paths :: "string \<Rightarrow> string list" where
  "diff_line_paths line =
     (if has_prefix line ''+++ b/'' then
        (let p = trim_space (trim_prefix line ''+++ b/'')
         in if p \<noteq> [] \<and> p \<noteq> ''/dev/null'' then [p] else [])
      else []) @
     (if has_prefix line ''diff --git '' then
        (let parts = str_fields line
         in if 4 \<le> length parts then
              (let b = trim_prefix (parts ! 3) ''b/'' in if b \<noteq> [] then [b] else [])
            else [])
      else [])"

definition diff_paths_from_unified :: "string \<Rightarrow> string list" where
  "diff_paths_from_unified diff =
     fold (\<lambda>p out. if p \<in> set out then out else out @ [p])
       (concat (map diff_line_paths (split_on (CHR 0x0A) diff))) []"

definition compute_carried_forward_keys ::
  "string list \<Rightarrow> (string \<rightharpoonup> string) \<Rightarrow> string set \<Rightarrow> string list" where
  "compute_carried_forward_keys prior_keys file_of touched =
     filter (\<lambda>k. case file_of k of None \<Rightarrow> False | Some file \<Rightarrow> file \<noteq> [] \<and> file \<notin> touched) prior_keys"

text \<open>
  \<^verbatim>\<open>populateCarriedFindingKeys\<close>: the base and head of the comparison, as the summaries of the
  job, its prepare child and its parent give them, and the carried keys of the prior comments.
  \<open>compare base head\<close> is GitHub's unified diff (\<^const>\<open>None\<close>: the call failed).
\<close>

definition prior_key_files :: "prior_comment list \<Rightarrow> string list \<times> (string \<rightharpoonup> string)" where
  "prior_key_files prior =
     fold (\<lambda>p (keys, m). if pc_key p = [] then (keys, m)
                         else (keys @ [pc_key p], m(pc_key p \<mapsto> pc_path p))) prior ([], Map.empty)"

definition previous_sha :: "jv option \<Rightarrow> string" where
  "previous_sha v = (case v of None \<Rightarrow> [] | Some x \<Rightarrow> str_from_any x)"

definition populate_carried_keys ::
  "bool \<Rightarrow> int \<Rightarrow> string \<Rightarrow> (string \<rightharpoonup> jv) \<Rightarrow> (string \<rightharpoonup> jv) \<Rightarrow> (string \<rightharpoonup> jv)
     \<Rightarrow> (string \<Rightarrow> string \<Rightarrow> string option) \<Rightarrow> prior_comment list \<Rightarrow> (string \<rightharpoonup> jv)" where
  "populate_carried_keys incremental pr sha summary prep parent compare prior =
     (if \<not> incremental \<or> pr \<le> 0 then summary
      else
        let prev = previous_sha (summary ''previous_analyzed_sha'');
            prev = (if prev = [] then previous_sha (prep ''previous_analyzed_sha'') else prev);
            prev = (if prev = [] then previous_sha (parent ''previous_analyzed_sha'') else prev);
            head = trim_space sha;
            head = (if head = [] then previous_sha (summary ''analyzed_sha'') else head)
        in if prev = [] \<or> head = [] \<or> equal_fold prev head then summary
           else case compare prev head of
             None \<Rightarrow> summary
           | Some diff \<Rightarrow>
               (if diff = [] then summary
                else
                  let (keys, files) = prior_key_files prior;
                      carried = compute_carried_forward_keys keys files (set (diff_paths_from_unified diff))
                  in summary(''carried_finding_keys'' \<mapsto> JStrs carried,
                             ''previous_analyzed_sha'' \<mapsto> JStr prev,
                             ''incremental_base_sha'' \<mapsto> JStr prev)))"

text \<open>\<^verbatim>\<open>carriedForwardKeysFromJob\<close> on the job's summary.\<close>

definition carried_keys_of_summary :: "(string \<rightharpoonup> jv) \<Rightarrow> string set" where
  "carried_keys_of_summary summary =
     (case summary ''carried_finding_keys'' of
        None \<Rightarrow> {}
      | Some (JStrs xs) \<Rightarrow> set (filter (\<lambda>k. k \<noteq> []) (map trim_space xs))
      | Some (JArr vs) \<Rightarrow>
          set (filter (\<lambda>k. k \<noteq> [])
                 (List.map_filter (\<lambda>v. case v of JStr s \<Rightarrow> Some (trim_space s) | _ \<Rightarrow> None) vs))
      | Some _ \<Rightarrow> {})"

subsection \<open>Risk score\<close>

record risk_factor =
  rf_name :: string
  rf_detail :: string
  rf_points :: int

record risk_evidence =
  re_bugbot :: ai_review_result
  re_security_fail :: bool
  re_security_findings :: "agent_finding list"
  re_diff :: string
  re_touched_files :: "string list"
  re_degraded :: "string list"

definition factor :: "bool \<Rightarrow> string \<Rightarrow> string \<Rightarrow> int \<Rightarrow> risk_factor list" where
  "factor cond name detail pts =
     (if cond \<and> pts \<noteq> 0 then [\<lparr>rf_name = name, rf_detail = detail, rf_points = pts\<rparr>] else [])"

definition count_severity :: "string set \<Rightarrow> agent_finding list \<Rightarrow> int" where
  "count_severity sevs fs = int (length (filter (\<lambda>f. to_lower (af_severity f) \<in> sevs) fs))"

definition sensitive_weight :: "string \<Rightarrow> int" where
  "sensitive_weight f =
     (let lf = to_lower f; base = path_base lf
      in if contains lf ''.github/workflows'' \<or> has_suffix lf ''dockerfile'' \<or>
            contains lf ''docker-compose'' \<or> has_prefix base ''.'' then 1
         else if contains lf ''migration'' \<or> contains lf ''/auth'' \<or> contains lf ''secret'' \<or>
                 contains lf ''credential'' \<or> contains lf ''permission'' \<or> contains lf ''rbac'' then 1
         else if has_suffix lf ''.env'' \<or> has_suffix lf ''.pem'' \<or> has_suffix lf ''.key'' then 2
         else 0)"

definition risk_factors :: "risk_evidence \<Rightarrow> risk_factor list" where
  "risk_factors ev =
     (let crit = count_severity {''critical'', ''blocker''} (re_security_findings ev);
          high = count_severity {''high''} (re_security_findings ev);
          med = count_severity {''medium''} (re_security_findings ev);
          files = (if re_touched_files ev = [] then diff_paths_from_unified (re_diff ev)
                   else re_touched_files ev);
          sensitive = sum_list (map sensitive_weight files);
          n = int (length files)
      in factor (re_security_fail ev) ''security_gate'' ''AppSec gate failed'' 35 @
         factor (0 < crit) ''security_critical'' (show_int crit @ '' critical finding(s)'') (min_int 40 (crit * 20)) @
         factor (0 < high) ''security_high'' (show_int high @ '' high finding(s)'') (min_int 25 (high * 10)) @
         factor (0 < med) ''security_medium'' (show_int med @ '' medium finding(s)'') (min_int 10 (med * 3)) @
         (if has_blocker_or_high_finding (re_bugbot ev)
          then factor True ''bugbot_blocker'' ''bugbot reported blocker/high'' 20
          else factor (equal_fold (rv_status (re_bugbot ev)) ''findings'')
                 ''bugbot_findings'' ''bugbot reported findings'' 12) @
         factor (equal_fold (rv_verdict (re_bugbot ev)) ''request_changes'')
           ''bugbot_verdict'' ''verdict=request_changes'' 10 @
         factor (0 < sensitive) ''sensitive_paths'' (show_int sensitive @ '' sensitive path hit(s)'')
           (min_int 25 (sensitive * 8)) @
         (if 40 < n then factor True ''large_diff'' (show_int n @ '' files touched'') 15
          else factor (20 < n) ''medium_diff'' (show_int n @ '' files touched'') 8) @
         factor (re_degraded ev \<noteq> []) ''degraded'' (join '', '' (re_degraded ev)) 10)"

definition compute_risk_score :: "risk_evidence \<Rightarrow> int \<times> risk_factor list" where
  "compute_risk_score ev =
     (let fs = risk_factors ev; score = sum_list (map rf_points fs)
      in (if 100 < score then 100 else score, fs))"


subsection \<open>Laws\<close>

lemma factor_points: "sum_list (map rf_points (factor c n d p)) = (if c then p else 0)"
  by (simp add: factor_def)

lemma factor_pos: "(\<And>f. c \<Longrightarrow> 0 < p) \<Longrightarrow> f \<in> set (factor c n d p) \<Longrightarrow> 0 < rf_points f"
  by (auto simp: factor_def split: if_splits)

lemma count_severity_nonneg [simp]: "0 \<le> count_severity S fs"
  by (simp add: count_severity_def)

lemma count_severity_append:
  "count_severity S (fs @ gs) = count_severity S fs + count_severity S gs"
  by (simp add: count_severity_def)

lemma sensitive_nonneg: "0 \<le> sum_list (map sensitive_weight files)"
  by (intro sum_list_nonneg) (auto simp: sensitive_weight_def Let_def)

text \<open>The points as a sum, with the finding counts and the other evidence apart.\<close>

definition severity_points :: "agent_finding list \<Rightarrow> int" where
  "severity_points fs =
     min_int 40 (count_severity {''critical'', ''blocker''} fs * 20) +
     min_int 25 (count_severity {''high''} fs * 10) +
     min_int 10 (count_severity {''medium''} fs * 3)"

definition other_points :: "risk_evidence \<Rightarrow> int" where
  "other_points ev =
     (let files = (if re_touched_files ev = [] then diff_paths_from_unified (re_diff ev)
                   else re_touched_files ev);
          n = int (length files)
      in (if re_security_fail ev then 35 else 0) +
         (if has_blocker_or_high_finding (re_bugbot ev) then 20
          else if equal_fold (rv_status (re_bugbot ev)) ''findings'' then 12 else 0) +
         (if equal_fold (rv_verdict (re_bugbot ev)) ''request_changes'' then 10 else 0) +
         min_int 25 (sum_list (map sensitive_weight files) * 8) +
         (if 40 < n then 15 else if 20 < n then 8 else 0) +
         (if re_degraded ev \<noteq> [] then 10 else 0))"

lemma zero_count_points: "0 \<le> c \<Longrightarrow> 0 < k \<Longrightarrow> 0 < m \<Longrightarrow>
    (if 0 < c then min_int m (c * k) else 0) = min_int m (c * k)" for c k m :: int
  by (auto simp: min_int_def)

lemma risk_points_split:
  "sum_list (map rf_points (risk_factors ev)) =
     severity_points (re_security_findings ev) + other_points ev"
  using sensitive_nonneg [of "re_touched_files ev"]
    sensitive_nonneg [of "diff_paths_from_unified (re_diff ev)"]
  by (simp add: risk_factors_def severity_points_def other_points_def Let_def factor_points
      zero_count_points)

lemma min_int_mono: "a \<le> b \<Longrightarrow> min_int m a \<le> min_int m b"
  by (simp add: min_int_def)

lemma severity_points_mono: "severity_points fs \<le> severity_points (fs @ gs)"
  unfolding severity_points_def count_severity_append
  by (intro add_mono min_int_mono) simp_all

lemma severity_points_nonneg: "0 \<le> severity_points fs"
  by (simp add: severity_points_def min_int_def)

lemma other_points_nonneg: "0 \<le> other_points ev"
  using sensitive_nonneg by (simp add: other_points_def min_int_def Let_def)

lemma compute_risk_score_points:
  "fst (compute_risk_score ev) = min 100 (severity_points (re_security_findings ev) + other_points ev)"
  by (simp add: compute_risk_score_def Let_def risk_points_split)

text \<open>
  C35: the risk score lies between 0 and 100, is the capped sum of the points of the reported
  factors, and no further security finding lowers it.
\<close>

theorem risk_score_bounds_mono:
  "0 \<le> fst (compute_risk_score ev) \<and> fst (compute_risk_score ev) \<le> 100 \<and>
   fst (compute_risk_score ev) = min 100 (sum_list (map rf_points (snd (compute_risk_score ev)))) \<and>
   fst (compute_risk_score ev) \<le>
     fst (compute_risk_score (ev\<lparr>re_security_findings := re_security_findings ev @ fs\<rparr>))"
proof -
  let ?S = "severity_points (re_security_findings ev)" and ?O = "other_points ev"
  let ?S' = "severity_points (re_security_findings ev @ fs)"
  have "other_points (ev\<lparr>re_security_findings := re_security_findings ev @ fs\<rparr>) = ?O"
    by (simp add: other_points_def)
  then have more: "fst (compute_risk_score (ev\<lparr>re_security_findings := re_security_findings ev @ fs\<rparr>)) =
      min 100 (?S' + ?O)"
    by (simp add: compute_risk_score_points)
  have pts: "sum_list (map rf_points (snd (compute_risk_score ev))) = ?S + ?O"
    by (simp add: compute_risk_score_def Let_def risk_points_split)
  have "0 \<le> ?S" "0 \<le> ?O" "?S \<le> ?S'"
    by (rule severity_points_nonneg other_points_nonneg severity_points_mono)+
  then show ?thesis
    unfolding more pts by (simp add: compute_risk_score_points)
qed

lemma carried_iff:
  "k \<in> set (compute_carried_forward_keys keys files touched) \<longleftrightarrow>
     k \<in> set keys \<and> (\<exists>f. files k = Some f \<and> f \<noteq> [] \<and> f \<notin> touched)"
  by (auto simp: compute_carried_forward_keys_def split: option.splits)

lemma prior_key_files_fold:
  "distinct (map pc_key (filter (\<lambda>p. pc_key p \<noteq> []) prior)) \<Longrightarrow> p \<in> set prior \<Longrightarrow> pc_key p \<noteq> [] \<Longrightarrow>
   (\<forall>q \<in> set prior. pc_key q \<notin> set keys0) \<Longrightarrow>
   (case fold (\<lambda>p (keys, m). if pc_key p = [] then (keys, m)
                 else (keys @ [pc_key p], m(pc_key p \<mapsto> pc_path p))) prior (keys0, m0) of
      (keys, m) \<Rightarrow> pc_key p \<in> set keys \<and> m (pc_key p) = Some (pc_path p))"
proof (induction prior rule: rev_induct)
  case (snoc q prior)
  let ?F = "\<lambda>p (keys, m). if pc_key p = [] then (keys, m)
                 else (keys @ [pc_key p], m(pc_key p \<mapsto> pc_path p))"
  obtain ks m where f: "fold ?F prior (keys0, m0) = (ks, m)" by force
  show ?case
  proof (cases "p \<in> set prior")
    case True
    have "pc_key p \<in> pc_key ` {x \<in> set prior. pc_key x \<noteq> []}" using True snoc.prems(3) by blast
    then have "pc_key p \<noteq> pc_key q" using snoc.prems by (auto split: if_splits)
    with snoc True f show ?thesis by (auto split: if_splits)
  next
    case False
    with snoc.prems f show ?thesis by auto
  qed
qed simp

text \<open>
  C20: an incremental review closes a prior comment only on a file it looked at.  When the prior
  comments that carry a key carry different ones, and the carried keys are computed from them and the
  paths of the compared diff, every comment the plan closes is in one of those paths or has no path at
  all.  (With two comments under one key the path of the later one decides whether the key is carried.)
\<close>

theorem incremental_closes_only_touched:
  assumes "distinct (map pc_key (filter (\<lambda>p. pc_key p \<noteq> []) prior))"
    and "prior_key_files prior = (keys, files)"
    and "p \<in> set (plan_close (plan_review_comment_actions sha1hex findings prior
              (set (compute_carried_forward_keys keys files (set (diff_paths_from_unified diff))))))"
  shows "pc_path p = [] \<or> pc_path p \<in> set (diff_paths_from_unified diff)"
proof -
  from assms(3) have p: "pc_key p \<noteq> []" "first_prior prior (pc_key p) = Some p"
    "pc_key p \<notin> set (compute_carried_forward_keys keys files (set (diff_paths_from_unified diff)))"
    by (auto simp: plan_close_iff dest: first_prior_key)
  have "pc_key p \<in> set keys \<and> files (pc_key p) = Some (pc_path p)"
    using prior_key_files_fold [OF assms(1) _ p(1), of "[]" Map.empty] first_prior_key [OF p(2)] assms(2)
    by (simp add: prior_key_files_def)
  with p(3) show ?thesis by (auto simp: carried_iff)
qed

theorem incremental_closes_only_touched_witness:
  "let c = (\<lambda>k f. \<lparr>pc_id = 1, pc_key = k, pc_path = f, pc_line = 2, pc_body = ''b''\<rparr>);
       prior = [c ''k1'' ''a.go'', c ''k2'' ''b.go'']; diff = ''+++ b/a.go'';
       (keys, files) = prior_key_files prior;
       closed = plan_close (plan_review_comment_actions (\<lambda>x. x) [] prior
                  (set (compute_carried_forward_keys keys files (set (diff_paths_from_unified diff)))))
   in closed = [c ''k1'' ''a.go''] \<and> (\<forall>p \<in> set closed. pc_path p \<in> set (diff_paths_from_unified diff))"
proof -
  let ?c = "\<lambda>k f. \<lparr>pc_id = 1, pc_key = k, pc_path = f, pc_line = 2, pc_body = ''b''\<rparr>"
  let ?prior = "[?c ''k1'' ''a.go'', ?c ''k2'' ''b.go'']" and ?diff = "''+++ b/a.go''"
  obtain keys files where kf: "prior_key_files ?prior = (keys, files)" by force
  let ?closed = "plan_close (plan_review_comment_actions (\<lambda>x. x) [] ?prior
                  (set (compute_carried_forward_keys keys files (set (diff_paths_from_unified ?diff)))))"
  have "let (keys, files) = prior_key_files ?prior in plan_close (plan_review_comment_actions (\<lambda>x. x) [] ?prior
                  (set (compute_carried_forward_keys keys files (set (diff_paths_from_unified ?diff))))) =
        [?c ''k1'' ''a.go'']" by code_simp
  then have closed: "?closed = [?c ''k1'' ''a.go'']" by (simp only: kf Let_def prod.case)
  have dist: "distinct (map pc_key (filter (\<lambda>p. pc_key p \<noteq> []) ?prior))" by simp
  have "pc_path (?c ''k1'' ''a.go'') = [] \<or> pc_path (?c ''k1'' ''a.go'') \<in> set (diff_paths_from_unified ?diff)"
    by (rule incremental_closes_only_touched [OF dist kf, where sha1hex = "\<lambda>x. x" and findings = "[]"])
      (simp only: closed list.set_intros)
  then show ?thesis by (simp only: Let_def kf prod.case closed) simp
qed

end
