(* ===== verification/Agent_Kinds.thy ===== *)
theory Agent_Kinds
  imports Go_Prelude "HOL-Library.Word"
begin

text \<open>
  The agent taxonomy and the capability profiles of the job runners
  (\<^verbatim>\<open>src/agents_kinds.go\<close>), the dispatch of a job to its processor
  (\<^verbatim>\<open>src/scm_orchestrator.go\<close>) and the concurrency slots of each kind
  (\<^verbatim>\<open>src/run_semaphores.go\<close>).

  Go's \<^verbatim>\<open>agentKind\<close> is a string with thirteen named constants; the datatype below has a
  constructor per constant and \<open>KOther\<close> for every other string, with \<open>kind_of\<close> and
  \<open>kind_str\<close> as the two conversions.  \<^verbatim>\<open>jobPhase\<close> is an alias of a type of another module
  (\<^verbatim>\<open>openjobenv.Phase\<close>), of which the code uses six constants and the empty string.
\<close>

datatype agent_kind =
    KContinuous
  | KRun
  | KPrepare
  | KSecurity
  | KBugbot
  | KApproval
  | KCloud
  | KCheckup
  | KIssueRun
  | KIssuePrepare
  | KIssueInvestigate
  | KIssuePublish
  | KIssueImplement
  | KOther string

definition kind_table :: "(string \<times> agent_kind) list" where
  "kind_table =
    [(''continuous'', KContinuous), (''run'', KRun), (''prepare'', KPrepare),
     (''security'', KSecurity), (''bugbot'', KBugbot), (''approval'', KApproval),
     (''cloud'', KCloud), (''checkup'', KCheckup), (''issue_run'', KIssueRun),
     (''issue_prepare'', KIssuePrepare), (''issue_investigate'', KIssueInvestigate),
     (''issue_publish'', KIssuePublish), (''issue_implement'', KIssueImplement)]"

definition kind_of :: "string \<Rightarrow> agent_kind" where
  "kind_of s = (case map_of kind_table s of Some k \<Rightarrow> k | None \<Rightarrow> KOther s)"

fun kind_str :: "agent_kind \<Rightarrow> string" where
  "kind_str KContinuous = ''continuous''"
| "kind_str KRun = ''run''"
| "kind_str KPrepare = ''prepare''"
| "kind_str KSecurity = ''security''"
| "kind_str KBugbot = ''bugbot''"
| "kind_str KApproval = ''approval''"
| "kind_str KCloud = ''cloud''"
| "kind_str KCheckup = ''checkup''"
| "kind_str KIssueRun = ''issue_run''"
| "kind_str KIssuePrepare = ''issue_prepare''"
| "kind_str KIssueInvestigate = ''issue_investigate''"
| "kind_str KIssuePublish = ''issue_publish''"
| "kind_str KIssueImplement = ''issue_implement''"
| "kind_str (KOther s) = s"

text \<open>\<^verbatim>\<open>agentDependsOn\<close>: a kind that is not a key of the map has the nil slice.\<close>

fun agent_depends_on :: "agent_kind \<Rightarrow> agent_kind list" where
  "agent_depends_on KPrepare = []"
| "agent_depends_on KSecurity = [KPrepare]"
| "agent_depends_on KBugbot = [KPrepare]"
| "agent_depends_on KCheckup = [KPrepare]"
| "agent_depends_on KApproval = [KBugbot, KSecurity, KCloud]"
| "agent_depends_on KCloud = [KBugbot, KSecurity]"
| "agent_depends_on KIssuePrepare = []"
| "agent_depends_on KIssueInvestigate = [KIssuePrepare]"
| "agent_depends_on KIssuePublish = [KIssueInvestigate]"
| "agent_depends_on KIssueImplement = [KIssuePublish]"
| "agent_depends_on _ = []"

subsection \<open>Capability profiles\<close>

text \<open>\<^verbatim>\<open>agentCaps\<close> is a \<^verbatim>\<open>uint16\<close>, each capability one bit (\<^verbatim>\<open>1 << iota\<close>).\<close>

unbundle bit_operations_syntax

type_synonym agent_caps = "16 word"

definition cap_exec_untrusted :: agent_caps where "cap_exec_untrusted = push_bit 0 1"
definition cap_writable_tree :: agent_caps where "cap_writable_tree = push_bit 1 1"
definition cap_run_repo_code :: agent_caps where "cap_run_repo_code = push_bit 2 1"
definition cap_github_write :: agent_caps where "cap_github_write = push_bit 3 1"
definition cap_git_push :: agent_caps where "cap_git_push = push_bit 4 1"
definition cap_clickhouse_write :: agent_caps where "cap_clickhouse_write = push_bit 5 1"

lemmas cap_defs = cap_exec_untrusted_def cap_writable_tree_def cap_run_repo_code_def
  cap_github_write_def cap_git_push_def cap_clickhouse_write_def

datatype job_phase =
  PhNone | PhReview | PhContext | PhScan | PhAutofix | PhAITask | PhCheckup

text \<open>Durations are in seconds.\<close>

record agent_stage =
  st_name :: string
  st_kind :: agent_kind
  st_phase :: job_phase
  st_caps :: agent_caps
  st_timeout :: int
  st_check_run :: string

definition mk_stage ::
  "string \<Rightarrow> agent_kind \<Rightarrow> job_phase \<Rightarrow> agent_caps \<Rightarrow> int \<Rightarrow> string \<Rightarrow> agent_stage" where
  "mk_stage n k p c t r =
     \<lparr>st_name = n, st_kind = k, st_phase = p, st_caps = c, st_timeout = t, st_check_run = r\<rparr>"

definition agent_stage_registry :: "agent_stage list" where
  "agent_stage_registry =
    [mk_stage ''prepare'' KPrepare PhNone 0 300 [],
     mk_stage ''bugbot.review'' KBugbot PhReview cap_exec_untrusted 900 ''OPA Review'',
     mk_stage ''bugbot.publish'' KBugbot PhNone (cap_github_write OR cap_clickhouse_write) 120 ''OPA Review'',
     mk_stage ''security.scan'' KSecurity PhScan cap_exec_untrusted 600 ''AppSec Gate'',
     mk_stage ''security.publish'' KSecurity PhNone (cap_github_write OR cap_clickhouse_write) 120 ''AppSec Gate'',
     mk_stage ''approval.decide'' KApproval PhNone cap_github_write 60 ''OPA Review'',
     mk_stage ''cloud.patch'' KCloud PhAutofix (cap_exec_untrusted OR cap_writable_tree) 1200 ''OPA Auto-fix'',
     mk_stage ''cloud.verify'' KCloud PhAutofix
       (cap_exec_untrusted OR cap_writable_tree OR cap_run_repo_code) 1800 ''OPA Auto-fix'',
     mk_stage ''cloud.land'' KCloud PhNone (cap_github_write OR cap_git_push) 300 ''OPA Auto-fix'',
     mk_stage ''checkup.run'' KCheckup PhCheckup
       (cap_exec_untrusted OR cap_writable_tree OR cap_run_repo_code) 1800 ''OPA Checkup'',
     mk_stage ''checkup.publish'' KCheckup PhNone cap_github_write 120 ''OPA Checkup'',
     mk_stage ''issue.prepare'' KIssuePrepare PhNone 0 300 [],
     mk_stage ''issue.investigate'' KIssueInvestigate PhAITask cap_exec_untrusted 900 ''OPA Issue'',
     mk_stage ''issue.publish'' KIssuePublish PhNone cap_github_write 120 ''OPA Issue'',
     mk_stage ''issue.implement'' KIssueImplement PhAutofix
       (cap_exec_untrusted OR cap_writable_tree) 1800 ''OPA Issue Implement'',
     mk_stage ''issue.implement.land'' KIssueImplement PhNone
       (cap_github_write OR cap_git_push) 300 ''OPA Issue Implement'']"

text \<open>\<^verbatim>\<open>assertNoConfusedProfile\<close>: \<^const>\<open>Inl\<close> is the panic, with the name of the first confused stage.\<close>

fun assert_no_confused_profile :: "agent_stage list \<Rightarrow> string + unit" where
  "assert_no_confused_profile [] = Inr ()"
| "assert_no_confused_profile (s # ss) =
     (let execs = (st_caps s AND cap_exec_untrusted \<noteq> 0);
          writes = (st_caps s AND (cap_github_write OR cap_git_push) \<noteq> 0)
      in if execs \<and> writes then Inl (st_name s) else assert_no_confused_profile ss)"

fun find_stage :: "agent_stage list \<Rightarrow> string \<Rightarrow> agent_stage option" where
  "find_stage [] name = None"
| "find_stage (s # ss) name = (if st_name s = name then Some s else find_stage ss name)"

definition agent_stage_by_name :: "string \<Rightarrow> agent_stage option" where
  "agent_stage_by_name name = find_stage agent_stage_registry name"

fun default_timeout_for_phase :: "job_phase \<Rightarrow> int" where
  "default_timeout_for_phase PhReview = 900"
| "default_timeout_for_phase PhContext = 900"
| "default_timeout_for_phase PhScan = 600"
| "default_timeout_for_phase PhAutofix = 1200"
| "default_timeout_for_phase PhCheckup = 1800"
| "default_timeout_for_phase PhAITask = 300"
| "default_timeout_for_phase PhNone = 600"

subsection \<open>Dispatch\<close>

fun is_agent_child_kind :: "agent_kind \<Rightarrow> bool" where
  "is_agent_child_kind k =
     (k \<in> {KPrepare, KSecurity, KBugbot, KCheckup, KApproval, KCloud,
           KIssuePrepare, KIssueInvestigate, KIssuePublish, KIssueImplement})"

datatype job_processor = ProcRun | ProcAgent | ProcContinuous | ProcUnknown

definition scm_job_processor :: "agent_kind \<Rightarrow> job_processor" where
  "scm_job_processor k =
     (if k = KRun \<or> k = KIssueRun then ProcRun
      else if is_agent_child_kind k then ProcAgent
      else if k = KContinuous then ProcContinuous
      else ProcUnknown)"

subsection \<open>Concurrency slots\<close>

text \<open>
  \<open>scm_process_concurrency\<close> takes what \<^verbatim>\<open>fmt.Sscanf\<close> read from
  \<^verbatim>\<open>OPA_REVIEW_STACK_CONCURRENCY\<close> (\<^const>\<open>None\<close>: not a number, the default 1 stays).
\<close>

definition scm_process_concurrency :: "int option \<Rightarrow> int" where
  "scm_process_concurrency scanned =
     (let n = (case scanned of Some v \<Rightarrow> v | None \<Rightarrow> 1);
          n = (if n < 1 then 1 else n)
      in if 4 < n then 4 else n)"

definition kind_concurrency :: "int option \<Rightarrow> agent_kind \<Rightarrow> int" where
  "kind_concurrency conc k =
     (if k = KPrepare then 2
      else if k \<in> {KSecurity, KBugbot, KCheckup}
      then clamp_int (scm_process_concurrency conc) 1 4
      else if k \<in> {KApproval, KCloud} then 2
      else 1)"

text \<open>
  A semaphore is a buffered channel; the state keeps how many values each channel holds.
  \<open>sem_kind\<close> is \<^verbatim>\<open>kindSems\<close> after \<^verbatim>\<open>ensureKindSems\<close> (six channels, \<^const>\<open>None\<close> for the
  other kinds), \<open>sem_global\<close> the global \<^verbatim>\<open>scmProcessSem\<close>, which the kinds without a
  channel share.  Sending to a full channel and receiving from an empty one block: \<^const>\<open>None\<close>.
\<close>

record kind_sems =
  sem_held :: "agent_kind \<Rightarrow> int"
  sem_global :: int

definition has_kind_sem :: "agent_kind \<Rightarrow> bool" where
  "has_kind_sem k \<longleftrightarrow> k \<in> {KPrepare, KSecurity, KBugbot, KCheckup, KApproval, KCloud}"

definition acquire_kind_slot :: "int option \<Rightarrow> agent_kind \<Rightarrow> kind_sems \<Rightarrow> kind_sems option" where
  "acquire_kind_slot conc k s =
     (if has_kind_sem k then
        (if sem_held s k < kind_concurrency conc k
         then Some (s\<lparr>sem_held := (sem_held s)(k := sem_held s k + 1)\<rparr>) else None)
      else if sem_global s < scm_process_concurrency conc
      then Some (s\<lparr>sem_global := sem_global s + 1\<rparr>) else None)"

definition release_kind_slot :: "agent_kind \<Rightarrow> kind_sems \<Rightarrow> kind_sems option" where
  "release_kind_slot k s =
     (if has_kind_sem k then
        (if 0 < sem_held s k
         then Some (s\<lparr>sem_held := (sem_held s)(k := sem_held s k - 1)\<rparr>) else None)
      else if 0 < sem_global s then Some (s\<lparr>sem_global := sem_global s - 1\<rparr>) else None)"

definition sems_ok :: "int option \<Rightarrow> kind_sems \<Rightarrow> bool" where
  "sems_ok conc s \<longleftrightarrow>
     (\<forall>k. has_kind_sem k \<longrightarrow> 0 \<le> sem_held s k \<and> sem_held s k \<le> kind_concurrency conc k) \<and>
     0 \<le> sem_global s \<and> sem_global s \<le> scm_process_concurrency conc"


datatype slot_op = Acq agent_kind | Rel agent_kind

fun slot_step :: "int option \<Rightarrow> slot_op \<Rightarrow> kind_sems \<Rightarrow> kind_sems option" where
  "slot_step conc (Acq k) s = acquire_kind_slot conc k s"
| "slot_step conc (Rel k) s = release_kind_slot k s"

fun run_slots :: "int option \<Rightarrow> slot_op list \<Rightarrow> kind_sems \<Rightarrow> kind_sems option" where
  "run_slots conc [] s = Some s"
| "run_slots conc (p # ps) s = Option.bind (slot_step conc p s) (run_slots conc ps)"

definition sems_empty :: kind_sems where
  "sems_empty = \<lparr>sem_held = (\<lambda>_. 0), sem_global = 0\<rparr>"

subsection \<open>Laws of the taxonomy\<close>

lemma kind_str_of [simp]: "kind_str (kind_of s) = s"
proof (cases "map_of kind_table s")
  case None
  then show ?thesis by (simp add: kind_of_def)
next
  case (Some k)
  then have "(s, k) \<in> set kind_table" by (rule map_of_SomeD)
  with Some show ?thesis by (auto simp: kind_of_def kind_table_def)
qed

definition named_kind :: "agent_kind \<Rightarrow> bool" where
  "named_kind k \<longleftrightarrow> k \<in> snd ` set kind_table"

lemma kind_of_str: "named_kind k \<Longrightarrow> kind_of (kind_str k) = k"
  by (auto simp: named_kind_def kind_of_def kind_table_def)

lemma kind_of_inj: "kind_of s = kind_of t \<Longrightarrow> s = t"
  by (metis kind_str_of)

lemma kind_of_eq_iff: "named_kind k \<Longrightarrow> kind_of s = k \<longleftrightarrow> s = kind_str k"
  by (metis kind_of_str kind_str_of)

lemma named_kinds [simp]:
  "named_kind KContinuous" "named_kind KRun" "named_kind KPrepare" "named_kind KSecurity"
  "named_kind KBugbot" "named_kind KApproval" "named_kind KCloud" "named_kind KCheckup"
  "named_kind KIssueRun" "named_kind KIssuePrepare" "named_kind KIssueInvestigate"
  "named_kind KIssuePublish" "named_kind KIssueImplement"
  by (simp_all add: named_kind_def kind_table_def)

lemma kind_of_known [simp]:
  "kind_of ''continuous'' = KContinuous" "kind_of ''run'' = KRun" "kind_of ''prepare'' = KPrepare"
  "kind_of ''security'' = KSecurity" "kind_of ''bugbot'' = KBugbot" "kind_of ''approval'' = KApproval"
  "kind_of ''cloud'' = KCloud" "kind_of ''checkup'' = KCheckup" "kind_of ''issue_run'' = KIssueRun"
  "kind_of ''issue_prepare'' = KIssuePrepare" "kind_of ''issue_investigate'' = KIssueInvestigate"
  "kind_of ''issue_publish'' = KIssuePublish" "kind_of ''issue_implement'' = KIssueImplement"
  "kind_of [] = KOther []"
  by (simp_all add: kind_of_def kind_table_def)

text \<open>A rank for the dependency graph: a kind is above everything it waits for.\<close>

fun kind_rank :: "agent_kind \<Rightarrow> nat" where
  "kind_rank KPrepare = 0"
| "kind_rank KSecurity = 1"
| "kind_rank KBugbot = 1"
| "kind_rank KCheckup = 1"
| "kind_rank KCloud = 2"
| "kind_rank KApproval = 3"
| "kind_rank KIssueInvestigate = 1"
| "kind_rank KIssuePublish = 2"
| "kind_rank KIssueImplement = 3"
| "kind_rank _ = 0"

lemma kind_rank_dep: "d \<in> set (agent_depends_on k) \<Longrightarrow> kind_rank d < kind_rank k"
  by (cases k) auto

lemma dep_is_agent_child: "d \<in> set (agent_depends_on k) \<Longrightarrow> is_agent_child_kind d"
  by (cases k) auto

lemma not_confused_iff:
  "assert_no_confused_profile ss = Inr () \<longleftrightarrow>
     (\<forall>s \<in> set ss. st_caps s AND cap_exec_untrusted = 0 \<or>
                    st_caps s AND (cap_github_write OR cap_git_push) = 0)"
  by (induction ss) (auto simp: Let_def)

lemma find_stage_Some: "find_stage ss n = Some s \<Longrightarrow> s \<in> set ss \<and> st_name s = n"
  by (induction ss) (auto split: if_splits)

lemma caps_disjoint_bit: "c AND m = 0 \<Longrightarrow> bit m n \<Longrightarrow> \<not> bit c n" for c m :: agent_caps
  by (drule arg_cong [where f = "\<lambda>x. bit x n"]) (simp add: bit_and_iff)

lemma cap_bits:
  "bit cap_exec_untrusted 0" "bit (cap_github_write OR cap_git_push) 3"
  "bit (cap_github_write OR cap_git_push) 4"
  by (simp_all add: cap_defs bit_or_iff bit_push_bit_iff)

lemma registry_not_confused: "assert_no_confused_profile agent_stage_registry = Inr ()"
  by (simp add: agent_stage_registry_def mk_stage_def cap_defs Let_def)

subsection \<open>Laws of the slots\<close>

text \<open>
  What a worker relies on of a slot pool: an operation keeps the bounds, and giving back a slot
  just taken restores the pool.
\<close>

locale slot_pool =
  fixes acq :: "'k \<Rightarrow> 's \<Rightarrow> 's option"
    and rel :: "'k \<Rightarrow> 's \<Rightarrow> 's option"
    and ok :: "'s \<Rightarrow> bool"
  assumes acq_ok: "ok s \<Longrightarrow> acq k s = Some t \<Longrightarrow> ok t"
    and rel_ok: "ok s \<Longrightarrow> rel k s = Some t \<Longrightarrow> ok t"
    and rel_acq: "ok s \<Longrightarrow> acq k s = Some t \<Longrightarrow> rel k t = Some s"
begin

lemma acq_rel_cycle: "ok s \<Longrightarrow> acq k s = Some t \<Longrightarrow> Option.bind (acq k s) (rel k) = Some s"
  by (simp add: rel_acq)

lemma nested_cycle:
  "ok s \<Longrightarrow> acq k s = Some t \<Longrightarrow> acq l t = Some u \<Longrightarrow> Option.bind (rel l u) (rel k) = Some s"
  using acq_ok rel_acq by fastforce

end

lemma kind_concurrency_pos: "1 \<le> kind_concurrency conc k"
  by (auto simp: kind_concurrency_def scm_process_concurrency_def clamp_int_def Let_def)

lemma kind_concurrency_le: "kind_concurrency conc k \<le> 4"
  by (auto simp: kind_concurrency_def scm_process_concurrency_def clamp_int_def Let_def)

lemma scm_process_concurrency_bounds:
  "1 \<le> scm_process_concurrency conc" "scm_process_concurrency conc \<le> 4"
  by (auto simp: scm_process_concurrency_def Let_def)

lemma sems_okD: "sems_ok conc s \<Longrightarrow> has_kind_sem k \<Longrightarrow> 0 \<le> sem_held s k \<and> sem_held s k \<le> kind_concurrency conc k"
  by (simp add: sems_ok_def)

lemma acquire_kind_slot_ok: "sems_ok conc s \<Longrightarrow> acquire_kind_slot conc k s = Some t \<Longrightarrow> sems_ok conc t"
  by (auto simp: acquire_kind_slot_def sems_ok_def split: if_splits)

lemma release_kind_slot_ok: "sems_ok conc s \<Longrightarrow> release_kind_slot k s = Some t \<Longrightarrow> sems_ok conc t"
  unfolding sems_ok_def release_kind_slot_def
  by (smt (verit) fun_upd_apply kind_sems.select_convs kind_sems.simps kind_sems.surjective
      kind_sems.update_convs option.inject option.distinct(1))

lemma release_acquire:
  "sems_ok conc s \<Longrightarrow> acquire_kind_slot conc k s = Some t \<Longrightarrow> release_kind_slot k t = Some s"
  using sems_okD [of conc s k]
  by (auto simp: acquire_kind_slot_def release_kind_slot_def sems_ok_def split: if_splits)

interpretation kslots: slot_pool "acquire_kind_slot conc" release_kind_slot "sems_ok conc" for conc
  by unfold_locales (fact acquire_kind_slot_ok release_kind_slot_ok release_acquire)+

lemma sems_empty_ok [simp]: "sems_ok conc sems_empty"
  using kind_concurrency_pos [of conc] scm_process_concurrency_bounds [of conc]
  by (auto simp: sems_ok_def sems_empty_def intro: order_trans [of 0 1])

lemma run_slots_ok: "sems_ok conc s \<Longrightarrow> run_slots conc ps s = Some t \<Longrightarrow> sems_ok conc t"
proof (induction ps arbitrary: s)
  case (Cons p ps)
  then obtain u where u: "slot_step conc p s = Some u" "run_slots conc ps u = Some t"
    by (cases "slot_step conc p s") simp_all
  have "sems_ok conc u"
    using u(1) Cons.prems(1) by (cases p) (metis slot_step.simps kslots.acq_ok kslots.rel_ok)+
  with u(2) Cons.IH show ?case by blast
qed simp

text \<open>
  Every stage found by name in the registry that executes untrusted code (capability bit 0)
  has neither the GitHub write bit (3) nor the git push bit (4): the start-up check
  \<^verbatim>\<open>assertNoConfusedProfile\<close> accepts the registry, and what it accepts is exactly this.
\<close>

theorem stage_exec_never_writes:
  "assert_no_confused_profile agent_stage_registry = Inr () \<and>
   (\<forall>n s. agent_stage_by_name n = Some s \<and> bit (st_caps s) 0 \<longrightarrow>
      \<not> bit (st_caps s) 3 \<and> \<not> bit (st_caps s) 4)"
proof (intro conjI registry_not_confused allI impI)
  fix n s assume "agent_stage_by_name n = Some s \<and> bit (st_caps s) 0"
  then have "s \<in> set agent_stage_registry" and e: "bit (st_caps s) 0"
    using find_stage_Some by (auto simp: agent_stage_by_name_def)
  with registry_not_confused
  have "st_caps s AND cap_exec_untrusted = 0 \<or> st_caps s AND (cap_github_write OR cap_git_push) = 0"
    by (simp add: not_confused_iff)
  with e have "st_caps s AND (cap_github_write OR cap_git_push) = 0"
    using caps_disjoint_bit [OF _ cap_bits(1)] by blast
  then show "\<not> bit (st_caps s) 3" "\<not> bit (st_caps s) 4"
    using caps_disjoint_bit cap_bits(2,3) by blast+
qed

theorem stage_exec_never_writes_witness:
  "\<exists>s. agent_stage_by_name ''cloud.verify'' = Some s \<and> bit (st_caps s) 0 \<and>
       \<not> bit (st_caps s) 3 \<and> \<not> bit (st_caps s) 4"
proof -
  obtain s where s: "agent_stage_by_name ''cloud.verify'' = Some s" "bit (st_caps s) 0"
    by (simp add: agent_stage_by_name_def agent_stage_registry_def mk_stage_def cap_defs)
  then show ?thesis using stage_exec_never_writes by blast
qed

end
