(* ===== verification/Scm_Jobs.thy ===== *)
theory Scm_Jobs
  imports Agent_Kinds Review_Findings
begin

text \<open>
  The job record, its durable forms and the job store (\<^verbatim>\<open>src/scm_orchestrator.go\<close>,
  \<^verbatim>\<open>src/scm_persist.go\<close>).

  A job is a Go object that the live map \<^verbatim>\<open>scmJobLive\<close> points to; the code changes it in place
  and then persists it.  The model writes the changed record back to the live map in the same
  step.  \<open>sc_live\<close> is the live map, an association list whose order stands for the order Go
  ranges over it, \<open>sc_files\<close> the decoded job files by id, and \<open>sc_log\<close> the effects on the outside
  in order.  The summary map is an association list; the nil map is the empty one.
\<close>

record scm_job =
  j_id :: string
  j_org :: string
  j_proj :: string
  j_conn :: string
  j_repo :: string
  j_pr :: int
  j_sha :: string
  j_event :: string
  j_status :: string
  j_sec_run :: string
  j_ai_job :: string
  j_checks :: "(string \<times> int) list"
  j_error :: string
  j_summary :: jobj
  j_started :: string
  j_finished :: string
  j_draft :: bool
  j_title :: string
  j_body :: string
  j_force_ai :: bool
  j_ai_only :: bool
  j_actor :: string
  j_kind :: string
  j_run_id :: string
  j_parent :: string
  j_attempt :: int

definition sset :: "string \<Rightarrow> jv \<Rightarrow> scm_job \<Rightarrow> scm_job" where
  "sset k v j = j\<lparr>j_summary := AList.update k v (j_summary j)\<rparr>"

definition sget :: "scm_job \<Rightarrow> string \<Rightarrow> jv" where
  "sget j k = jget (j_summary j) k"

definition job_kind :: "scm_job \<Rightarrow> agent_kind" where
  "job_kind j = kind_of (j_kind j)"

subsection \<open>Statuses\<close>

definition in_flight :: "string \<Rightarrow> bool" where
  "in_flight st \<longleftrightarrow> st \<in> {''queued'', ''waiting'', ''running''}"

definition job_terminal :: "string \<Rightarrow> bool" where
  "job_terminal st \<longleftrightarrow> st \<in> {''completed'', ''failed'', ''error'', ''cancelled'', ''skipped''}"

definition job_succeeded :: "string \<Rightarrow> bool" where
  "job_succeeded st \<longleftrightarrow> st = ''completed'' \<or> st = ''skipped''"

definition scm_job_status_rank :: "string \<Rightarrow> nat" where
  "scm_job_status_rank st =
     (let s = to_lower (trim_space st)
      in if s = ''running'' then 0 else if s = ''queued'' then 1 else if s = ''waiting'' then 2
         else if s = ''failed'' \<or> s = ''error'' then 3 else if s = ''cancelled'' then 4
         else if s = ''completed'' then 5 else 6)"

definition sort_scm_jobs_active_first :: "scm_job list \<Rightarrow> scm_job list" where
  "sort_scm_jobs_active_first js =
     sort_stable (\<lambda>a b.
       let ra = scm_job_status_rank (j_status a); rb = scm_job_status_rank (j_status b)
       in if ra \<noteq> rb then ra < rb else j_started b < j_started a) js"

lemma job_terminal_not_in_flight [status_simps]: "job_terminal st \<Longrightarrow> \<not> in_flight st"
  by (auto simp: job_terminal_def in_flight_def)

subsection \<open>What JSON keeps of a value\<close>

text \<open>
  Encoding a dynamic value with \<^verbatim>\<open>encoding/json\<close> and decoding it into an \<^verbatim>\<open>interface{}\<close> turns every
  number into a \<^verbatim>\<open>float64\<close> and every string slice into a slice of interfaces.
\<close>

fun wire :: "jv \<Rightarrow> jv" where
  "wire (JInt i) = JNum i"
| "wire (JStrs xs) = JArr (map JStr xs)"
| "wire (JArr vs) = JArr (map wire vs)"
| "wire (JObj kvs) = JObj (map (\<lambda>(k, v). (k, wire v)) kvs)"
| "wire v = v"

definition wire_obj :: "jobj \<Rightarrow> jobj" where
  "wire_obj m = map (\<lambda>(k, v). (k, wire v)) m"

lemma map_of_wire_obj: "map_of (wire_obj m) k = map_option wire (map_of m k)"
  by (induction m) (auto simp: wire_obj_def)

lemma jget_wire_obj: "jget (wire_obj m) k = wire (jget m k)"
  by (simp add: jget_def map_of_wire_obj split: option.split)

subsection \<open>Persisting\<close>

text \<open>The run-graph fields ride in the summary as well; \<open>stamp_summary\<close> is the head of \<^verbatim>\<open>persistSCMJob\<close>.\<close>

definition stamp_if :: "bool \<Rightarrow> string \<Rightarrow> jv \<Rightarrow> scm_job \<Rightarrow> scm_job" where
  "stamp_if c k v j = (if c then sset k v j else j)"

definition stamp_str :: "string \<Rightarrow> string \<Rightarrow> scm_job \<Rightarrow> scm_job" where
  "stamp_str k v j = stamp_if (trim_space v \<noteq> []) k (JStr (trim_space v)) j"

definition stamp_summary :: "scm_job \<Rightarrow> scm_job" where
  "stamp_summary j =
     stamp_if (0 < j_attempt j) ''attempt'' (JInt (j_attempt j))
      (stamp_str ''parent_id'' (j_parent j)
      (stamp_str ''run_id'' (j_run_id j)
      (stamp_str ''kind'' (j_kind j)
      (stamp_str ''actor_user_id'' (j_actor j)
      (stamp_if (j_ai_only j) ''ai_only'' (JBool True)
      (stamp_if (j_force_ai j) ''force_ai'' (JBool True) j))))))"

text \<open>The job as its file decodes.\<close>

definition file_job :: "scm_job \<Rightarrow> scm_job" where
  "file_job j = j\<lparr>j_summary := wire_obj (j_summary j)\<rparr>"

text \<open>
  The ClickHouse row.  \<open>enc\<close> is \<^verbatim>\<open>json.Marshal\<close> to a text and \<open>dec\<close> its inverse to a decoded
  object; the row's finish time is the write time while the job is in flight.
\<close>

definition checks_obj :: "(string \<times> int) list \<Rightarrow> jobj" where
  "checks_obj cs = map (\<lambda>(k, n). (k, JInt n)) cs"

definition ch_row_of_job :: "(jobj \<Rightarrow> string) \<Rightarrow> string \<Rightarrow> scm_job \<Rightarrow> jobj" where
  "ch_row_of_job enc now j =
     [(''id'', JStr (j_id j)), (''organization_id'', JStr (j_org j)), (''project_id'', JStr (j_proj j)),
      (''connector_id'', JStr (j_conn j)), (''repo_full_name'', JStr (j_repo j)),
      (''pr_number'', JInt (j_pr j)), (''commit_sha'', JStr (j_sha j)), (''event'', JStr (j_event j)),
      (''status'', JStr (j_status j)), (''security_run_id'', JStr (j_sec_run j)),
      (''ai_job_id'', JStr (j_ai_job j)), (''check_run_ids'', JStr (enc (checks_obj (j_checks j)))),
      (''error'', JStr (j_error j)), (''summary_json'', JStr (enc (j_summary j))),
      (''started_at'', JStr (j_started j)),
      (''finished_at'', JStr (if in_flight (j_status j) then now else j_finished j))]"

text \<open>\<^verbatim>\<open>scmJobFromCHRow\<close>; a check id that is no number is dropped by the decoder.\<close>

definition decode_checks :: "jobj \<Rightarrow> (string \<times> int) list" where
  "decode_checks m = List.map_filter (\<lambda>(k, v). case v of JNum n \<Rightarrow> Some (k, n) | _ \<Rightarrow> None) m"

definition summary_str :: "jobj \<Rightarrow> string \<Rightarrow> string" where
  "summary_str m k = trim_space (as_str (jget m k))"

definition scm_job_from_ch_row :: "(string \<Rightarrow> jobj option) \<Rightarrow> jobj \<Rightarrow> scm_job option" where
  "scm_job_from_ch_row dec row =
     (let str = (\<lambda>k. str_from_any (jget row k))
      in if str ''id'' = [] then None
         else
           let summary = (if str ''summary_json'' = [] then []
                          else case dec (str ''summary_json'') of Some m \<Rightarrow> m | None \<Rightarrow> []);
               checks = (if str ''check_run_ids'' = [] then []
                         else case dec (str ''check_run_ids'') of Some m \<Rightarrow> decode_checks m | None \<Rightarrow> [])
           in Some
                \<lparr>j_id = str ''id'', j_org = str ''organization_id'', j_proj = str ''project_id'',
                 j_conn = str ''connector_id'', j_repo = str ''repo_full_name'',
                 j_pr = int_from_any (jget row ''pr_number''), j_sha = str ''commit_sha'',
                 j_event = str ''event'', j_status = str ''status'', j_sec_run = str ''security_run_id'',
                 j_ai_job = str ''ai_job_id'', j_checks = checks, j_error = str ''error'',
                 j_summary = summary, j_started = str ''started_at'', j_finished = str ''finished_at'',
                 j_draft = False, j_title = [], j_body = [],
                 j_force_ai = is_true (jget summary ''force_ai''),
                 j_ai_only = is_true (jget summary ''ai_only''),
                 j_actor = summary_str summary ''actor_user_id'',
                 j_kind = summary_str summary ''kind'', j_run_id = summary_str summary ''run_id'',
                 j_parent = summary_str summary ''parent_id'',
                 j_attempt = (case jget summary ''attempt'' of
                                JNum n \<Rightarrow> (if 0 < n then n else 0)
                              | JInt n \<Rightarrow> (if 0 < n then n else 0)
                              | _ \<Rightarrow> 0)\<rparr>)"

subsection \<open>Round trip through ClickHouse\<close>

lemma sset_simps [simp]:
  "j_id (sset k v j) = j_id j" "j_org (sset k v j) = j_org j" "j_proj (sset k v j) = j_proj j"
  "j_conn (sset k v j) = j_conn j" "j_repo (sset k v j) = j_repo j" "j_pr (sset k v j) = j_pr j"
  "j_sha (sset k v j) = j_sha j" "j_event (sset k v j) = j_event j"
  "j_status (sset k v j) = j_status j" "j_sec_run (sset k v j) = j_sec_run j"
  "j_ai_job (sset k v j) = j_ai_job j" "j_checks (sset k v j) = j_checks j"
  "j_error (sset k v j) = j_error j" "j_started (sset k v j) = j_started j"
  "j_finished (sset k v j) = j_finished j" "j_force_ai (sset k v j) = j_force_ai j"
  "j_ai_only (sset k v j) = j_ai_only j" "j_actor (sset k v j) = j_actor j"
  "j_kind (sset k v j) = j_kind j" "j_run_id (sset k v j) = j_run_id j"
  "j_parent (sset k v j) = j_parent j" "j_attempt (sset k v j) = j_attempt j"
  "j_draft (sset k v j) = j_draft j" "j_title (sset k v j) = j_title j" "j_body (sset k v j) = j_body j"
  by (simp_all add: sset_def)

lemma jget_Cons: "jget ((a, b) # m) k = (if a = k then b else jget m k)"
  by (simp add: jget_def)

lemma wire_obj_Cons: "wire_obj ((a, b) # m) = (a, wire b) # wire_obj m"
  by (simp add: wire_obj_def)

lemma jget_update: "jget (AList.update k v m) k' = (if k' = k then v else jget m k')"
  by (simp add: jget_def update_conv')

lemma sget_sset [simp]: "sget (sset k v j) k' = (if k' = k then v else sget j k')"
  by (simp add: sget_def sset_def jget_update)

lemma sget_update_fields [simp]:
  "sget (j_status_update f j) k = sget j k" "sget (j_error_update f j) k = sget j k"
  "sget (j_started_update f j) k = sget j k" "sget (j_finished_update f j) k = sget j k"
  "sget (j_sha_update f j) k = sget j k" "sget (j_kind_update f j) k = sget j k"
  "sget (j_run_id_update f j) k = sget j k" "sget (j_sec_run_update f j) k = sget j k"
  "sget (j_ai_job_update f j) k = sget j k" "sget (j_checks_update g j) k = sget j k"
  by (simp_all add: sget_def)

lemma sget_stamp_if [simp]: "sget (stamp_if c k v j) k' = (if c \<and> k' = k then v else sget j k')"
  by (simp add: stamp_if_def)

lemma stamp_keeps:
  assumes "\<And>k v j. f (sset k v j) = f j"
  shows "f (stamp_summary j) = f j"
  by (simp add: stamp_summary_def stamp_str_def stamp_if_def assms)

lemma stamp_fields [simp]:
  "j_id (stamp_summary j) = j_id j" "j_status (stamp_summary j) = j_status j"
  "j_kind (stamp_summary j) = j_kind j" "j_parent (stamp_summary j) = j_parent j"
  "j_run_id (stamp_summary j) = j_run_id j" "j_repo (stamp_summary j) = j_repo j"
  "j_pr (stamp_summary j) = j_pr j" "j_sha (stamp_summary j) = j_sha j"
  "j_org (stamp_summary j) = j_org j" "j_proj (stamp_summary j) = j_proj j"
  "j_conn (stamp_summary j) = j_conn j" "j_event (stamp_summary j) = j_event j"
  "j_sec_run (stamp_summary j) = j_sec_run j" "j_ai_job (stamp_summary j) = j_ai_job j"
  "j_checks (stamp_summary j) = j_checks j" "j_error (stamp_summary j) = j_error j"
  "j_started (stamp_summary j) = j_started j" "j_finished (stamp_summary j) = j_finished j"
  "j_force_ai (stamp_summary j) = j_force_ai j" "j_ai_only (stamp_summary j) = j_ai_only j"
  "j_actor (stamp_summary j) = j_actor j" "j_attempt (stamp_summary j) = j_attempt j"
  by (rule stamp_keeps; simp)+

definition mirror_keys :: "string set" where
  "mirror_keys = {''force_ai'', ''ai_only'', ''actor_user_id'', ''kind'', ''run_id'', ''parent_id'', ''attempt''}"

lemma stamp_other: "k \<notin> mirror_keys \<Longrightarrow> sget (stamp_summary j) k = sget j k"
  by (simp add: stamp_summary_def stamp_str_def mirror_keys_def)

lemma stamp_mirror:
  assumes "\<And>k. k \<in> mirror_keys \<Longrightarrow> sget j k = JNull"
  shows "sget (stamp_summary j) ''force_ai'' = (if j_force_ai j then JBool True else JNull)"
    "sget (stamp_summary j) ''ai_only'' = (if j_ai_only j then JBool True else JNull)"
    "sget (stamp_summary j) ''actor_user_id'' = (if trim_space (j_actor j) \<noteq> [] then JStr (trim_space (j_actor j)) else JNull)"
    "sget (stamp_summary j) ''kind'' = (if trim_space (j_kind j) \<noteq> [] then JStr (trim_space (j_kind j)) else JNull)"
    "sget (stamp_summary j) ''run_id'' = (if trim_space (j_run_id j) \<noteq> [] then JStr (trim_space (j_run_id j)) else JNull)"
    "sget (stamp_summary j) ''parent_id'' = (if trim_space (j_parent j) \<noteq> [] then JStr (trim_space (j_parent j)) else JNull)"
    "sget (stamp_summary j) ''attempt'' = (if 0 < j_attempt j then JInt (j_attempt j) else JNull)"
  using assms by (simp_all add: stamp_summary_def stamp_str_def mirror_keys_def)

lemma decode_checks_wire: "decode_checks (wire_obj (checks_obj cs)) = cs"
  by (induction cs) (auto simp: decode_checks_def wire_obj_def checks_obj_def List.map_filter_simps)

text \<open>
  What a job keeps over a restart from ClickHouse.  A persisted job whose summary carried none
  of the mirrored keys before, read back from its row, has its identity, status and check ids, its
  kind, run, parent and actor trimmed, its force and AI-only flags and its positive attempt
  number, and every other summary entry in its JSON form; the finish time is kept once the job is
  no longer in flight.
\<close>

theorem ch_row_roundtrip:
  assumes id: "j_id j \<noteq> []"
    and dec: "dec (enc (j_summary (stamp_summary j))) = Some (wire_obj (j_summary (stamp_summary j)))"
      "dec (enc (checks_obj (j_checks j))) = Some (wire_obj (checks_obj (j_checks j)))"
      "enc (j_summary (stamp_summary j)) \<noteq> []" "enc (checks_obj (j_checks j)) \<noteq> []"
    and clean: "\<And>k. k \<in> mirror_keys \<Longrightarrow> sget j k = JNull"
  shows "\<exists>r. scm_job_from_ch_row dec (wire_obj (ch_row_of_job enc now (stamp_summary j))) = Some r \<and>
    j_id r = j_id j \<and> j_org r = j_org j \<and> j_proj r = j_proj j \<and> j_conn r = j_conn j \<and>
    j_repo r = j_repo j \<and> j_pr r = j_pr j \<and> j_sha r = j_sha j \<and> j_event r = j_event j \<and>
    j_status r = j_status j \<and> j_checks r = j_checks j \<and> j_error r = j_error j \<and>
    j_started r = j_started j \<and> (\<not> in_flight (j_status j) \<longrightarrow> j_finished r = j_finished j) \<and>
    j_force_ai r = j_force_ai j \<and> j_ai_only r = j_ai_only j \<and> j_actor r = trim_space (j_actor j) \<and>
    j_kind r = trim_space (j_kind j) \<and> j_run_id r = trim_space (j_run_id j) \<and>
    j_parent r = trim_space (j_parent j) \<and> j_attempt r = (if 0 < j_attempt j then j_attempt j else 0) \<and>
    (\<forall>k. k \<notin> mirror_keys \<longrightarrow> sget r k = wire (sget j k))"
proof -
  let ?j = "stamp_summary j"
  note m = stamp_mirror [OF clean, unfolded sget_def]
  have other: "k \<notin> mirror_keys \<Longrightarrow> jget (j_summary ?j) k = jget (j_summary j) k" for k
    using stamp_other [of k j] by (simp add: sget_def)
  show ?thesis
    using id dec
    by (simp add: scm_job_from_ch_row_def ch_row_of_job_def Let_def jget_Cons wire_obj_Cons
        jget_wire_obj decode_checks_wire m summary_str_def is_true_def sget_def other)
qed

theorem ch_row_roundtrip_witness:
  "let j = \<lparr>j_id = ''j1'', j_org = ''o'', j_proj = ''p'', j_conn = ''c'', j_repo = ''o/r'', j_pr = 7,
         j_sha = ''abc'', j_event = ''pull_request.opened'', j_status = ''completed'', j_sec_run = [],
         j_ai_job = [], j_checks = [(''ai'', 3)], j_error = [], j_summary = [(''n'', JInt 4)],
         j_started = ''t0'', j_finished = ''t1'', j_draft = False, j_title = [], j_body = [],
         j_force_ai = True, j_ai_only = False, j_actor = '' u '', j_kind = ''bugbot'',
         j_run_id = ''r1'', j_parent = ''r1'', j_attempt = 2\<rparr>;
       S = j_summary (stamp_summary j);
       enc = (\<lambda>m. if m = S then ''S'' else ''C'');
       dec = (\<lambda>t. if t = ''S'' then Some (wire_obj S) else Some (wire_obj (checks_obj (j_checks j))))
   in \<exists>r. scm_job_from_ch_row dec (wire_obj (ch_row_of_job enc ''now'' (stamp_summary j))) = Some r \<and>
          j_kind r = ''bugbot'' \<and> j_actor r = ''u'' \<and> j_finished r = ''t1'' \<and> sget r ''n'' = JNum 4"
proof -
  let ?j = "\<lparr>j_id = ''j1'', j_org = ''o'', j_proj = ''p'', j_conn = ''c'', j_repo = ''o/r'', j_pr = 7,
         j_sha = ''abc'', j_event = ''pull_request.opened'', j_status = ''completed'', j_sec_run = [],
         j_ai_job = [], j_checks = [(''ai'', 3)], j_error = [], j_summary = [(''n'', JInt 4)],
         j_started = ''t0'', j_finished = ''t1'', j_draft = False, j_title = [], j_body = [],
         j_force_ai = True, j_ai_only = False, j_actor = '' u '', j_kind = ''bugbot'',
         j_run_id = ''r1'', j_parent = ''r1'', j_attempt = 2\<rparr>"
  let ?S = "j_summary (stamp_summary ?j)"
  let ?enc = "\<lambda>m. if m = ?S then ''S'' else ''C''"
  let ?dec = "\<lambda>t. if t = ''S'' then Some (wire_obj ?S) else Some (wire_obj (checks_obj (j_checks ?j)))"
  have ne: "checks_obj (j_checks ?j) \<noteq> ?S" by code_simp
  have clean: "k \<in> mirror_keys \<Longrightarrow> sget ?j k = JNull" for k
    by (auto simp: mirror_keys_def sget_def jget_def)
  have kind: "trim_space (j_kind ?j) = ''bugbot''" "trim_space (j_actor ?j) = ''u''"
    "\<not> in_flight (j_status ?j)" "wire (sget ?j ''n'') = JNum 4" "''n'' \<notin> mirror_keys"
    by code_simp+
  obtain r where
    "scm_job_from_ch_row ?dec (wire_obj (ch_row_of_job ?enc ''now'' (stamp_summary ?j))) = Some r"
    "\<not> in_flight (j_status ?j) \<longrightarrow> j_finished r = j_finished ?j"
    "j_kind r = trim_space (j_kind ?j)" "j_actor r = trim_space (j_actor ?j)"
    "\<forall>k. k \<notin> mirror_keys \<longrightarrow> sget r k = wire (sget ?j k)"
    using ch_row_roundtrip [of ?j ?dec ?enc "''now''", OF _ _ _ _ _ clean] ne by auto
  then show ?thesis using kind by (simp only: Let_def) auto
qed

end
