(* ===== verification/Scm_Store.thy ===== *)
theory Scm_Store
  imports Scm_Jobs
begin

text \<open>
  The process state of the orchestrator and the operations on its job store: lookup with
  hydration, persisting, the children of a run, the status of review stacks, auto-fix jobs, and
  the cancel cascade (\<^verbatim>\<open>src/scm_orchestrator.go\<close>, \<^verbatim>\<open>src/scm_persist.go\<close>,
  \<^verbatim>\<open>src/agents_run.go\<close>, \<^verbatim>\<open>src/scm_review_stack.go\<close>, \<^verbatim>\<open>src/scm_auto_fix.go\<close>).

  A pointer to a job is modelled by the job id: what the code reads through the pointer is
  \<open>live_job\<close> at that moment.  The reactions of other components (webhook receipts, ClickHouse
  inserts, closing GitHub checks, reaping containers) are entries of the log.
\<close>

record stack_item =
  it_repo :: string
  it_pr :: int
  it_conn :: string
  it_job :: string
  it_status :: string
  it_error :: string
  it_preview :: string
  it_started :: bool

record review_stack =
  sk_id :: string
  sk_status :: string
  sk_jobs :: "string list"
  sk_items :: "stack_item list"
  sk_force :: bool
  sk_ai_only :: bool
  sk_created :: string
  sk_updated :: string
  sk_honesty :: string
  sk_note :: string

record auto_fix =
  fx_id :: string
  fx_parent :: string
  fx_status :: string
  fx_mode :: string
  fx_create_pr :: bool
  fx_commit_direct :: bool
  fx_keys :: "string list"
  fx_findings :: "jobj list"
  fx_branch :: string
  fx_sha :: string
  fx_pr :: int
  fx_pr_url :: string
  fx_error :: string
  fx_honesty :: string
  fx_started :: string
  fx_finished :: string
  fx_repo :: string
  fx_base_pr :: int

datatype effect =
    EJobRow string string
  | EStackRow string string
  | EReconcile string
  | ECancelCtx string
  | ECloseChecks string string
  | ETeardown string string
  | EProcess string
  | EEvidence string

text \<open>The indexes of \<^verbatim>\<open>src/scm_pr_state.go\<close>: a commit already reviewed, and the last analysed commit of a pull request.\<close>

record reviewed_sha =
  ri_repo :: string
  ri_sha :: string
  ri_job :: string
  ri_at :: string
  ri_status :: string

record analyzed_state =
  az_repo :: string
  az_pr :: int
  az_sha :: string
  az_at :: string
  az_job :: string

record scm_state =
  sc_live :: "(string \<times> scm_job) list"
  sc_files :: "string \<rightharpoonup> scm_job"
  sc_pr_index :: "string \<rightharpoonup> string"
  sc_stacks :: "(string \<times> review_stack) list"
  sc_stack_files :: "string \<rightharpoonup> review_stack"
  sc_autofix :: "(string \<times> auto_fix) list"
  sc_reviewed :: "string \<rightharpoonup> reviewed_sha"
  sc_analyzed :: "string \<rightharpoonup> analyzed_state"
  sc_log :: "effect list"

text \<open>
  What an operation reads of the outside: the clock (\<open>e_now\<close>), whether a ClickHouse writer is set,
  the number scanned from \<^verbatim>\<open>OPA_REVIEW_STACK_CONCURRENCY\<close>, the environment, the hex SHA-1, fresh
  random hex digits, the JSON decoder of string lists, the checks text of an enabled watched
  repository (\<^verbatim>\<open>findWatched\<close>) and whether the job sandbox is docker.
\<close>

record orch_env =
  e_now :: string
  e_writer :: bool
  e_conc :: "int option"
  e_getenv :: genv
  e_sha1hex :: "string \<Rightarrow> string"
  e_hex :: string
  e_dec_strs :: "string \<Rightarrow> string list option"
  e_watched :: "string \<Rightarrow> string option"
  e_docker :: bool

definition log_effect :: "effect \<Rightarrow> scm_state \<Rightarrow> scm_state" where
  "log_effect e s = s\<lparr>sc_log := sc_log s @ [e]\<rparr>"

definition live_job :: "string \<Rightarrow> scm_state \<Rightarrow> scm_job option" where
  "live_job jid s = map_of (sc_live s) jid"

definition store_live :: "string \<Rightarrow> scm_job \<Rightarrow> scm_state \<Rightarrow> scm_state" where
  "store_live jid j s = s\<lparr>sc_live := AList.update jid j (sc_live s)\<rparr>"

text \<open>\<^verbatim>\<open>getSCMJob\<close>: the live job, else the file, which is then stored under the id it carries.\<close>

definition get_scm_job :: "string \<Rightarrow> scm_state \<Rightarrow> scm_job option \<times> scm_state" where
  "get_scm_job jid s =
     (case live_job jid s of
        Some j \<Rightarrow> (Some j, s)
      | None \<Rightarrow>
         (case sc_files s jid of
            Some j \<Rightarrow> (if j_id j = [] then (None, s) else (Some j, store_live (j_id j) j s))
          | None \<Rightarrow> (None, s)))"

text \<open>\<^verbatim>\<open>persistSCMJob\<close>: stamp the summary, write the file, reconcile webhooks, insert the row.\<close>

definition persist_scm_job :: "orch_env \<Rightarrow> scm_job \<Rightarrow> scm_state \<Rightarrow> scm_state" where
  "persist_scm_job env j s =
     (let j = stamp_summary j;
          s = store_live (j_id j) j s;
          s = (if j_id j = [] then s else s\<lparr>sc_files := (sc_files s)(j_id j \<mapsto> file_job j)\<rparr>);
          s = log_effect (EReconcile (j_id j)) s
      in if e_writer env then log_effect (EJobRow (j_id j) (j_status j)) s else s)"

text \<open>\<^verbatim>\<open>hydrateSCMJobsFromFiles\<close> over the file names of the state directory.\<close>

fun hydrate_jobs :: "string list \<Rightarrow> scm_state \<Rightarrow> nat \<times> scm_state" where
  "hydrate_jobs [] s = (0, s)"
| "hydrate_jobs (jid # ids) s =
     (if live_job jid s \<noteq> None then hydrate_jobs ids s
      else case sc_files s jid of
        None \<Rightarrow> hydrate_jobs ids s
      | Some j \<Rightarrow>
          (if j_id j = [] then hydrate_jobs ids s
           else let (n, s) = hydrate_jobs ids (store_live (j_id j) j s) in (n + 1, s)))"

subsection \<open>Review stacks\<close>

definition persist_stack :: "orch_env \<Rightarrow> review_stack \<Rightarrow> scm_state \<Rightarrow> scm_state" where
  "persist_stack env k s =
     (let s = (if sk_id k = [] then s
               else s\<lparr>sc_stack_files := (sc_stack_files s)(sk_id k \<mapsto> k)\<rparr>)
      in if e_writer env then log_effect (EStackRow (sk_id k) (sk_status k)) s else s)"

definition store_stack :: "review_stack \<Rightarrow> scm_state \<Rightarrow> scm_state" where
  "store_stack k s = s\<lparr>sc_stacks := AList.update (sk_id k) k (sc_stacks s)\<rparr>"

record stack_flags =
  any_running :: bool
  any_queued :: bool
  any_waiting :: bool
  any_failed :: bool
  all_done :: bool

text \<open>One item of \<^verbatim>\<open>refreshOPAReviewStack\<close>, with the job its id names.\<close>

definition refresh_item ::
  "scm_job option \<Rightarrow> stack_item \<Rightarrow> stack_flags \<Rightarrow> stack_item \<times> stack_flags" where
  "refresh_item jo it fl =
     (if it_job it = [] then (it\<lparr>it_status := ''failed''\<rparr>, fl\<lparr>any_failed := True\<rparr>)
      else case jo of
        None \<Rightarrow> (it\<lparr>it_status := ''failed'', it_error := ''job missing''\<rparr>,
                   fl\<lparr>any_failed := True, all_done := False\<rparr>)
      | Some j \<Rightarrow>
          (if j_status j = ''cancelled'' then
             (it\<lparr>it_status := ''cancelled'', it_error := j_error j\<rparr>, fl)
           else if \<not> it_started it \<and> (j_status j = ''queued'' \<or> j_status j = ''waiting'' \<or> j_status j = []) then
             (if j_status j = ''waiting'' \<or> it_status it \<noteq> ''queued''
              then (it\<lparr>it_status := ''waiting''\<rparr>, fl\<lparr>any_waiting := True, all_done := False\<rparr>)
              else (it\<lparr>it_status := ''queued''\<rparr>, fl\<lparr>any_queued := True, all_done := False\<rparr>))
           else
             (it\<lparr>it_status := j_status j, it_error := j_error j\<rparr>,
              if j_status j = ''queued'' then fl\<lparr>any_queued := True, all_done := False\<rparr>
              else if j_status j = ''running'' then fl\<lparr>any_running := True, all_done := False\<rparr>
              else if j_status j = ''failed'' \<or> j_status j = ''error'' then fl\<lparr>any_failed := True\<rparr>
              else if j_status j = ''completed'' then fl
              else fl\<lparr>all_done := False\<rparr>)))"

fun refresh_items ::
  "stack_item list \<Rightarrow> stack_flags \<Rightarrow> scm_state \<Rightarrow> stack_item list \<times> stack_flags \<times> scm_state" where
  "refresh_items [] fl s = ([], fl, s)"
| "refresh_items (it # its) fl s =
     (let (jo, s) = (if it_job it = [] then (None, s) else get_scm_job (it_job it) s);
          (it, fl) = refresh_item jo it fl;
          (its, fl, s) = refresh_items its fl s
      in (it # its, fl, s))"

definition fresh_flags :: stack_flags where
  "fresh_flags = \<lparr>any_running = False, any_queued = False, any_waiting = False,
                  any_failed = False, all_done = True\<rparr>"

definition stack_status_of :: "stack_flags \<Rightarrow> string \<Rightarrow> string" where
  "stack_status_of fl st =
     (if any_running fl \<or> any_waiting fl \<or> (any_queued fl \<and> st = ''running'') then ''running''
      else if all_done fl \<and> any_failed fl then ''failed''
      else if all_done fl then ''completed''
      else if any_queued fl \<or> any_waiting fl then ''queued''
      else ''running'')"

definition refresh_stack :: "orch_env \<Rightarrow> review_stack \<Rightarrow> scm_state \<Rightarrow> scm_state" where
  "refresh_stack env k s =
     (let (its, fl, s) = refresh_items (sk_items k) fresh_flags s;
          k = k\<lparr>sk_items := its, sk_status := stack_status_of fl (sk_status k), sk_updated := e_now env\<rparr>
      in persist_stack env k (store_stack k s))"

text \<open>\<^verbatim>\<open>refreshStacksForJob\<close>: every stack with an item for the job.\<close>

definition refresh_stacks_for_job :: "orch_env \<Rightarrow> string \<Rightarrow> scm_state \<Rightarrow> scm_state" where
  "refresh_stacks_for_job env jid s =
     fold (\<lambda>k s. if list_ex (\<lambda>it. it_job it = jid) (sk_items k) then refresh_stack env k s else s)
       (map snd (sc_stacks s)) s"

subsection \<open>The children of a run\<close>

definition child_ids_of :: "scm_job option \<Rightarrow> string list" where
  "child_ids_of jo =
     (case jo of
        None \<Rightarrow> []
      | Some j \<Rightarrow>
          (case sget j ''child_ids'' of
             JStrs xs \<Rightarrow> xs
           | JArr vs \<Rightarrow> filter (\<lambda>x. x \<noteq> []) (List.map_filter (\<lambda>v. case v of JStr x \<Rightarrow> Some x | _ \<Rightarrow> None) vs)
           | _ \<Rightarrow> []))"

fun get_jobs :: "string list \<Rightarrow> scm_state \<Rightarrow> string list \<times> scm_state" where
  "get_jobs [] s = ([], s)"
| "get_jobs (jid # ids) s =
     (let (jo, s) = get_scm_job jid s; (found, s) = get_jobs ids s
      in (if jo = None then found else jid # found, s))"

text \<open>
  \<^verbatim>\<open>listRunChildren\<close>, as the ids of the jobs: those the parent's summary lists and that exist,
  then every live job whose parent is the run and that was not listed.
\<close>

definition list_run_children :: "string \<Rightarrow> scm_state \<Rightarrow> string list \<times> scm_state" where
  "list_run_children run_id s =
     (let (parent, s) = get_scm_job run_id s;
          (listed, s) = get_jobs (child_ids_of parent) s;
          orphans = map j_id (filter (\<lambda>j. j_parent j = run_id \<and> j_id j \<notin> set listed) (map snd (sc_live s)))
      in (listed @ orphans, s))"

definition child_jobs :: "string list \<Rightarrow> scm_state \<Rightarrow> scm_job list" where
  "child_jobs ids s = List.map_filter (\<lambda>jid. live_job jid s) ids"

definition child_by_kind :: "string \<Rightarrow> agent_kind \<Rightarrow> scm_state \<Rightarrow> scm_job option \<times> scm_state" where
  "child_by_kind run_id k s =
     (let (ids, s) = list_run_children run_id s
      in (List.find (\<lambda>j. job_kind j = k) (child_jobs ids s), s))"

subsection \<open>Cancelling\<close>

datatype cancel_result = CancelNotFound | CancelOk | CancelConflict string

text \<open>
  One child of \<^verbatim>\<open>cascadeCancelRunChildren\<close>: a cloud child that is running or waiting is told to
  drain, any other child in flight is cancelled by \<open>cancel\<close>.
\<close>

definition cascade_child ::
  "(string \<Rightarrow> scm_state \<Rightarrow> (cancel_result \<times> scm_state) option) \<Rightarrow> orch_env \<Rightarrow> string
     \<Rightarrow> string \<Rightarrow> scm_state \<Rightarrow> scm_state option" where
  "cascade_child cancel env reason jid s =
     (case live_job jid s of
        None \<Rightarrow> Some s
      | Some c \<Rightarrow>
          (if job_kind c = KCloud \<and> (j_status c = ''running'' \<or> j_status c = ''waiting'') then
             Some (persist_scm_job env
               (sset ''cancel_drain'' (JStr reason) (sset ''supersede_drain'' (JBool True) c)) s)
           else if in_flight (j_status c) then map_option snd (cancel jid s)
           else Some s))"

fun cascade_children ::
  "(string \<Rightarrow> scm_state \<Rightarrow> (cancel_result \<times> scm_state) option) \<Rightarrow> orch_env \<Rightarrow> string
     \<Rightarrow> string list \<Rightarrow> scm_state \<Rightarrow> scm_state option" where
  "cascade_children cancel env reason [] s = Some s"
| "cascade_children cancel env reason (jid # ids) s =
     Option.bind (cascade_child cancel env reason jid s) (cascade_children cancel env reason ids)"

definition mark_cancelled :: "orch_env \<Rightarrow> string \<Rightarrow> scm_job \<Rightarrow> scm_job" where
  "mark_cancelled env reason j =
     sset ''cancel_reason'' (JStr reason)
       (j\<lparr>j_status := ''cancelled'', j_finished := e_now env, j_error := reason\<rparr>)"

definition cancel_reason :: "string \<Rightarrow> string" where
  "cancel_reason reason = (if trim_space reason = [] then ''cancelled'' else trim_space reason)"

text \<open>
  \<^verbatim>\<open>cancelSCMJobWithReason\<close>.  The recursion through the cascade is on fuel: a cancelled job is
  never entered again, so one more than the number of jobs in flight is enough (the termination
  theorem below); running out of fuel is \<^const>\<open>None\<close>.
\<close>

primrec cancel_scm_job ::
  "nat \<Rightarrow> orch_env \<Rightarrow> string \<Rightarrow> string \<Rightarrow> scm_state \<Rightarrow> (cancel_result \<times> scm_state) option" where
  "cancel_scm_job 0 env reason jid s = None"
| "cancel_scm_job (Suc n) env reason jid s =
     (let (jo, s) = get_scm_job jid s
      in case jo of
           None \<Rightarrow> Some (CancelNotFound, s)
         | Some j \<Rightarrow>
             (if in_flight (j_status j) then
                let reason = cancel_reason reason;
                    s = log_effect (ECancelCtx jid) (persist_scm_job env (mark_cancelled env reason j) s);
                    (kids, s) = (if job_kind j = KRun then list_run_children jid s else ([], s))
                in map_option
                     (\<lambda>s. let s = log_effect (ECloseChecks jid reason) s;
                              s = log_effect (ETeardown jid
                                    (if job_kind j = KRun then nz (j_run_id j) jid else [])) s
                          in (CancelOk, refresh_stacks_for_job env jid s))
                     (cascade_children (cancel_scm_job n env reason) env reason kids s)
              else if j_status j = ''cancelled'' then Some (CancelOk, s)
              else Some (CancelConflict (''job not cancellable in status '' @ j_status j), s)))"


subsection \<open>The store invariant\<close>

text \<open>
  A live job is stored under its own non-empty id, each id once, and every file on disk belongs to
  a live job.
\<close>

definition store_ok :: "scm_state \<Rightarrow> bool" where
  "store_ok s \<longleftrightarrow>
     (\<forall>k j. live_job k s = Some j \<longrightarrow> j_id j = k \<and> k \<noteq> []) \<and>
     (\<forall>k j. sc_files s k = Some j \<longrightarrow> j_id j = k \<and> live_job k s \<noteq> None) \<and>
     distinct (map fst (sc_live s))"

lemma store_ok_id: "store_ok s \<Longrightarrow> live_job k s = Some j \<Longrightarrow> j_id j = k \<and> k \<noteq> []"
  by (simp add: store_ok_def)

lemma get_scm_job_ok: "store_ok s \<Longrightarrow> get_scm_job k s = (live_job k s, s)"
  by (auto simp: get_scm_job_def store_ok_def split: option.split)

lemma live_job_log [simp]: "live_job k (log_effect e s) = live_job k s"
  by (simp add: log_effect_def live_job_def)

lemma store_ok_log [simp]: "store_ok (log_effect e s) = store_ok s"
  by (simp add: store_ok_def live_job_def log_effect_def)

lemma live_job_store: "live_job k (store_live k' j s) = (if k = k' then Some j else live_job k s)"
  by (simp add: live_job_def store_live_def update_conv')

lemma live_job_persist:
  "live_job k (persist_scm_job env j s) = (if k = j_id j then Some (stamp_summary j) else live_job k s)"
  by (simp add: persist_scm_job_def Let_def live_job_def store_live_def log_effect_def update_conv')

interpretation jobs: keyed_store live_job "persist_scm_job env" j_id stamp_summary for env
  by unfold_locales (rule live_job_persist)

definition live_stack :: "string \<Rightarrow> scm_state \<Rightarrow> review_stack option" where
  "live_stack k s = map_of (sc_stacks s) k"

interpretation stacks: keyed_store live_stack store_stack sk_id "\<lambda>k. k"
  by unfold_locales (simp add: live_stack_def store_stack_def update_conv')

lemma distinct_update: "distinct (map fst m) \<Longrightarrow> distinct (map fst (AList.update k v m))"
  by (rule distinct_update)

lemma persist_files:
  "sc_files (persist_scm_job env j s) =
     (if j_id j = [] then sc_files s else (sc_files s)(j_id j \<mapsto> file_job (stamp_summary j)))"
  by (simp add: persist_scm_job_def Let_def store_live_def log_effect_def)

lemma persist_job_live:
  "sc_live (persist_scm_job env j s) = AList.update (j_id j) (stamp_summary j) (sc_live s)"
  by (simp add: persist_scm_job_def Let_def store_live_def log_effect_def)

lemma file_job_id [simp]: "j_id (file_job j) = j_id j"
  by (simp add: file_job_def)

lemma store_ok_persist:
  assumes "store_ok s" "j_id j \<noteq> []"
  shows "store_ok (persist_scm_job env j s)"
  using assms AList.distinct_update [of "sc_live s" "j_id j" "stamp_summary j"]
  unfolding store_ok_def live_job_persist persist_files
  by (auto simp: persist_job_live)

subsection \<open>Refreshing stacks leaves the jobs alone\<close>

fun refresh_pure ::
  "(string \<Rightarrow> scm_job option) \<Rightarrow> stack_item list \<Rightarrow> stack_flags \<Rightarrow> stack_item list \<times> stack_flags" where
  "refresh_pure look [] fl = ([], fl)"
| "refresh_pure look (it # its) fl =
     (let (it', fl') = refresh_item (if it_job it = [] then None else look (it_job it)) it fl;
          (its', fl'') = refresh_pure look its fl'
      in (it' # its', fl''))"

lemma refresh_items_pure:
  "store_ok s \<Longrightarrow> refresh_items its fl s =
     (fst (refresh_pure (\<lambda>k. live_job k s) its fl), snd (refresh_pure (\<lambda>k. live_job k s) its fl), s)"
proof (induction its arbitrary: fl)
  case (Cons it its)
  then show ?case
    by (cases "it_job it = []")
      (simp_all add: get_scm_job_ok Let_def case_prod_beta)
qed simp

lemma refresh_items_state: "store_ok s \<Longrightarrow> snd (snd (refresh_items its fl s)) = s"
  by (simp add: refresh_items_pure)

lemma refresh_stack_jobs:
  assumes "store_ok s"
  shows "sc_live (refresh_stack env k s) = sc_live s \<and> sc_files (refresh_stack env k s) = sc_files s"
  using refresh_items_state [OF assms, of "sk_items k" fresh_flags]
  by (auto simp: refresh_stack_def persist_stack_def store_stack_def log_effect_def Let_def
      split: prod.split)

lemma store_ok_cong:
  "sc_live s' = sc_live s \<Longrightarrow> sc_files s' = sc_files s \<Longrightarrow> store_ok s' = store_ok s"
  by (simp add: store_ok_def live_job_def)

lemma refresh_stacks_jobs:
  assumes "store_ok s"
  shows "sc_live (refresh_stacks_for_job env k s) = sc_live s \<and>
         sc_files (refresh_stacks_for_job env k s) = sc_files s"
proof -
  have "store_ok t \<Longrightarrow>
      sc_live (fold (\<lambda>k' s. if list_ex (\<lambda>it. it_job it = k) (sk_items k') then refresh_stack env k' s else s) ks t) = sc_live t \<and>
      sc_files (fold (\<lambda>k' s. if list_ex (\<lambda>it. it_job it = k) (sk_items k') then refresh_stack env k' s else s) ks t) = sc_files t"
    for ks t
  proof (induction ks arbitrary: t)
    case (Cons k' ks)
    let ?t = "if list_ex (\<lambda>it. it_job it = k) (sk_items k') then refresh_stack env k' t else t"
    have "sc_live ?t = sc_live t" "sc_files ?t = sc_files t"
      using refresh_stack_jobs [OF Cons.prems] by simp_all
    moreover from this have "store_ok ?t" using Cons.prems store_ok_cong by blast
    ultimately show ?case using Cons.IH [of ?t] by simp
  qed simp
  with assms show ?thesis by (simp add: refresh_stacks_for_job_def)
qed

lemma refresh_stacks_ok [simp]: "store_ok s \<Longrightarrow> store_ok (refresh_stacks_for_job env k s)"
  using refresh_stacks_jobs store_ok_cong by blast

lemma refresh_stacks_live [simp]:
  "store_ok s \<Longrightarrow> live_job j (refresh_stacks_for_job env k s) = live_job j s"
  using refresh_stacks_jobs by (simp add: live_job_def)

subsection \<open>Children without hydration\<close>

definition children_of :: "string \<Rightarrow> scm_state \<Rightarrow> string list" where
  "children_of run_id s =
     (let listed = filter (\<lambda>k. live_job k s \<noteq> None) (child_ids_of (live_job run_id s))
      in listed @ map j_id (filter (\<lambda>j. j_parent j = run_id \<and> j_id j \<notin> set listed) (map snd (sc_live s))))"

lemma get_jobs_ok: "store_ok s \<Longrightarrow> get_jobs ids s = (filter (\<lambda>k. live_job k s \<noteq> None) ids, s)"
  by (induction ids) (auto simp: get_scm_job_ok Let_def)

lemma list_run_children_ok: "store_ok s \<Longrightarrow> list_run_children r s = (children_of r s, s)"
  by (simp add: list_run_children_def get_scm_job_ok get_jobs_ok children_of_def Let_def)

lemma live_iff: "store_ok s \<Longrightarrow> live_job k s = Some j \<longleftrightarrow> (k, j) \<in> set (sc_live s)"
  by (simp add: live_job_def store_ok_def)

lemma child_live:
  assumes "store_ok s" "k \<in> set (children_of r s)"
  shows "\<exists>j. live_job k s = Some j"
proof -
  consider "live_job k s \<noteq> None" | j a where "k = j_id j" "(a, j) \<in> set (sc_live s)"
    using assms(2) by (auto simp: children_of_def Let_def)
  then show ?thesis
  proof cases
    case 2
    then have "live_job a s = Some j" using assms(1) by (simp add: live_iff)
    moreover from this have "j_id j = a" using assms(1) store_ok_id by blast
    ultimately show ?thesis using 2 by blast
  qed blast
qed

lemma child_of_parent:
  assumes "store_ok s" "live_job k s = Some j" "j_parent j = r"
  shows "k \<in> set (children_of r s)"
proof -
  have "(k, j) \<in> set (sc_live s)" "j_id j = k"
    using assms live_iff store_ok_id by blast+
  with assms(3) show ?thesis by (force simp: children_of_def Let_def)
qed

lemma children_iff:
  assumes "store_ok s"
  shows "c \<in> set (children_of r s) \<longleftrightarrow>
     (\<exists>j. live_job c s = Some j \<and> (c \<in> set (child_ids_of (live_job r s)) \<or> j_parent j = r))"
proof
  assume c: "c \<in> set (children_of r s)"
  then obtain j where j: "live_job c s = Some j" using child_live [OF assms] by blast
  consider "c \<in> set (child_ids_of (live_job r s))"
    | j' a where "c = j_id j'" "(a, j') \<in> set (sc_live s)" "j_parent j' = r"
    using c by (auto simp: children_of_def Let_def)
  then show "\<exists>j. live_job c s = Some j \<and> (c \<in> set (child_ids_of (live_job r s)) \<or> j_parent j = r)"
  proof cases
    case 2
    then have "live_job a s = Some j'" using assms by (simp add: live_iff)
    moreover from this have "j_id j' = a" using assms store_ok_id by blast
    ultimately show ?thesis using 2 by blast
  qed (use j in blast)
next
  assume "\<exists>j. live_job c s = Some j \<and> (c \<in> set (child_ids_of (live_job r s)) \<or> j_parent j = r)"
  then show "c \<in> set (children_of r s)"
    using child_of_parent [OF assms] by (auto simp: children_of_def Let_def)
qed

end
