(* ===== verification/Cancel_Laws.thy ===== *)
theory Cancel_Laws
  imports Scm_Store
begin

text \<open>
  What cancelling a job does to the store: it terminates, it changes no job that is not in flight,
  it cancels every child of a run except a cloud child that is already working, which is told to
  drain, and a second cancel changes nothing.
\<close>

subsection \<open>The relation between the job before and after\<close>

definition same_ident :: "scm_job \<Rightarrow> scm_job \<Rightarrow> bool" where
  "same_ident j j' \<longleftrightarrow>
     j_id j' = j_id j \<and> j_kind j' = j_kind j \<and> j_parent j' = j_parent j \<and> j_run_id j' = j_run_id j \<and>
     j_repo j' = j_repo j \<and> j_pr j' = j_pr j \<and> j_sha j' = j_sha j \<and>
     sget j' ''child_ids'' = sget j ''child_ids''"

definition cancel_step :: "string \<Rightarrow> scm_job \<Rightarrow> scm_job \<Rightarrow> bool" where
  "cancel_step reason j j' \<longleftrightarrow>
     same_ident j j' \<and>
     (\<not> in_flight (j_status j) \<longrightarrow> j' = j) \<and>
     (j_status j' = j_status j \<or> (j_status j' = ''cancelled'' \<and> j_error j' = reason)) \<and>
     (j_status j' = j_status j \<and> j' \<noteq> j \<longrightarrow>
        job_kind j = KCloud \<and> j_status j \<in> {''running'', ''waiting''} \<and>
        sget j' ''supersede_drain'' = JBool True \<and> sget j' ''cancel_drain'' = JStr reason)"

definition cancel_rel :: "string \<Rightarrow> scm_state \<Rightarrow> scm_state \<Rightarrow> bool" where
  "cancel_rel reason s s' \<longleftrightarrow>
     store_ok s' \<and>
     (\<forall>k. live_job k s = None \<longleftrightarrow> live_job k s' = None) \<and>
     (\<forall>k j j'. live_job k s = Some j \<and> live_job k s' = Some j' \<longrightarrow> cancel_step reason j j')"

lemma same_ident_refl [simp]: "same_ident j j"
  by (simp add: same_ident_def)

lemma cancel_step_refl [simp]: "cancel_step r j j"
  by (simp add: cancel_step_def)

lemma cancelled_not_in_flight [simp]: "\<not> in_flight ''cancelled''"
  by (simp add: in_flight_def)

lemma cancel_stepD:
  assumes "cancel_step r a b"
  shows "same_ident a b" "\<not> in_flight (j_status a) \<Longrightarrow> b = a"
    "j_status b \<noteq> j_status a \<Longrightarrow> j_status b = ''cancelled'' \<and> j_error b = r"
    "j_status b = j_status a \<Longrightarrow> b \<noteq> a \<Longrightarrow> job_kind a = KCloud \<and> j_status a \<in> {''running'', ''waiting''} \<and>
       sget b ''supersede_drain'' = JBool True \<and> sget b ''cancel_drain'' = JStr r"
  using assms by (auto simp: cancel_step_def)

lemma same_ident_kind: "same_ident a b \<Longrightarrow> job_kind b = job_kind a"
  by (simp add: same_ident_def job_kind_def)

lemma cancel_step_trans:
  assumes ab: "cancel_step r a b" and bc: "cancel_step r b c"
  shows "cancel_step r a c"
proof (cases "b = a \<or> c = b")
  case True
  with assms show ?thesis by blast
next
  case False
  have ident: "same_ident a c"
    using cancel_stepD(1) [OF ab] cancel_stepD(1) [OF bc] by (simp add: same_ident_def)
  have fl: "in_flight (j_status a)" "in_flight (j_status b)"
    using False cancel_stepD(2) [OF ab] cancel_stepD(2) [OF bc] by blast+
  then have st: "j_status b = j_status a"
    using cancel_stepD(3) [OF ab] by (metis cancelled_not_in_flight)
  have d: "job_kind a = KCloud \<and> j_status a \<in> {''running'', ''waiting''}"
    using cancel_stepD(4) [OF ab st] False by blast
  show ?thesis
    unfolding cancel_step_def
    using ident fl st d cancel_stepD(3,4) [OF bc] False by metis
qed

lemma cancel_rel_refl: "store_ok s \<Longrightarrow> cancel_rel r s s"
  by (auto simp: cancel_rel_def)

lemma cancel_rel_trans:
  assumes "cancel_rel r s t" "cancel_rel r t u"
  shows "cancel_rel r s u"
  unfolding cancel_rel_def
proof (intro conjI allI impI)
  fix k j j' assume "live_job k s = Some j \<and> live_job k u = Some j'"
  moreover obtain m where "live_job k t = Some m"
    using assms calculation by (cases "live_job k t") (auto simp: cancel_rel_def)
  ultimately show "cancel_step r j j'"
    using assms cancel_step_trans unfolding cancel_rel_def by blast
qed (use assms in \<open>auto simp: cancel_rel_def\<close>)

lemma cancel_rel_ok: "cancel_rel r s t \<Longrightarrow> store_ok t"
  by (simp add: cancel_rel_def)

lemma cancel_rel_live:
  "cancel_rel r s t \<Longrightarrow> live_job k s = Some j \<Longrightarrow> \<exists>j'. live_job k t = Some j' \<and> cancel_step r j j'"
  unfolding cancel_rel_def by (metis not_None_eq)

lemma cancel_rel_back:
  assumes "cancel_rel r s t" "live_job k t = Some j'"
  shows "\<exists>j. live_job k s = Some j \<and> cancel_step r j j'"
proof (cases "live_job k s")
  case None
  with assms show ?thesis by (simp add: cancel_rel_def)
next
  case (Some j)
  with assms show ?thesis by (simp add: cancel_rel_def)
qed

lemma cancel_rel_persist:
  assumes "store_ok s" "live_job k s = Some j" "j_id j' = k" "cancel_step r j (stamp_summary j')"
  shows "cancel_rel r s (persist_scm_job env j' s)"
  using assms store_ok_id [OF assms(1,2)]
  by (auto simp: cancel_rel_def live_job_persist store_ok_persist)

lemma cancel_rel_log [simp]: "cancel_rel r s (log_effect e t) = cancel_rel r s t"
  by (simp add: cancel_rel_def)

lemma cancel_rel_refresh: "cancel_rel r s t \<Longrightarrow> cancel_rel r s (refresh_stacks_for_job env k t)"
  by (simp add: cancel_rel_def)

lemma cancel_rel_child_ids:
  assumes "cancel_rel r s t"
  shows "child_ids_of (live_job k t) = child_ids_of (live_job k s)"
proof (cases "live_job k s")
  case None
  then have "live_job k t = None" using assms by (simp add: cancel_rel_def)
  with None show ?thesis by simp
next
  case (Some p)
  then obtain p' where "live_job k t = Some p'" "cancel_step r p p'"
    using cancel_rel_live [OF assms] by blast
  with Some show ?thesis by (simp add: child_ids_of_def cancel_step_def same_ident_def)
qed

lemma cancel_rel_children:
  assumes "store_ok s" "cancel_rel r s t"
  shows "c \<in> set (children_of k t) \<longleftrightarrow> c \<in> set (children_of k s)"
proof -
  have "(\<exists>j. live_job c t = Some j \<and> (P \<or> j_parent j = k)) \<longleftrightarrow>
        (\<exists>j. live_job c s = Some j \<and> (P \<or> j_parent j = k))" for P
  proof
    assume "\<exists>j. live_job c t = Some j \<and> (P \<or> j_parent j = k)"
    then obtain j where j: "live_job c t = Some j" "P \<or> j_parent j = k" by blast
    obtain i where "live_job c s = Some i" "cancel_step r i j"
      using cancel_rel_back [OF assms(2) j(1)] by blast
    with j show "\<exists>j. live_job c s = Some j \<and> (P \<or> j_parent j = k)"
      by (auto simp: cancel_step_def same_ident_def)
  next
    assume "\<exists>j. live_job c s = Some j \<and> (P \<or> j_parent j = k)"
    then obtain j where j: "live_job c s = Some j" "P \<or> j_parent j = k" by blast
    obtain i where "live_job c t = Some i" "cancel_step r j i"
      using cancel_rel_live [OF assms(2) j(1)] by blast
    with j show "\<exists>j. live_job c t = Some j \<and> (P \<or> j_parent j = k)"
      by (auto simp: cancel_step_def same_ident_def)
  qed
  then show ?thesis
    using assms cancel_rel_ok [OF assms(2)]
    by (simp add: children_iff cancel_rel_child_ids [OF assms(2)])
qed

text \<open>The jobs a cascade from \<open>k\<close> may reach: \<open>k\<close> itself, its children, theirs, and so on.\<close>

definition lists_in :: "scm_state \<Rightarrow> (string \<times> string) set" where
  "lists_in s = {(r, c). c \<in> set (children_of r s)}"

definition reaches :: "scm_state \<Rightarrow> string \<Rightarrow> string \<Rightarrow> bool" where
  "reaches s k i \<longleftrightarrow> (k, i) \<in> (lists_in s)\<^sup>*"

lemma reaches_self [simp]: "reaches s k k"
  by (simp add: reaches_def)

lemma reaches_child: "c \<in> set (children_of k s) \<Longrightarrow> reaches s c i \<Longrightarrow> reaches s k i"
  by (auto simp: reaches_def lists_in_def intro: converse_rtrancl_into_rtrancl)

lemma reaches_rel: "store_ok s \<Longrightarrow> cancel_rel r s t \<Longrightarrow> reaches t k i = reaches s k i"
  by (simp add: reaches_def lists_in_def cancel_rel_children)

subsection \<open>Jobs in flight\<close>

definition in_flight_ids :: "scm_state \<Rightarrow> string set" where
  "in_flight_ids s = {k. \<exists>j. live_job k s = Some j \<and> in_flight (j_status j)}"

lemma finite_in_flight [simp]: "finite (in_flight_ids s)"
proof (rule finite_subset)
  show "in_flight_ids s \<subseteq> dom (map_of (sc_live s))"
    by (auto simp: in_flight_ids_def live_job_def)
qed (simp add: finite_dom_map_of)

lemma length_in_flight: "card (in_flight_ids s) \<le> length (sc_live s)"
proof -
  have "in_flight_ids s \<subseteq> set (map fst (sc_live s))"
    by (force simp: in_flight_ids_def live_job_def dest: map_of_SomeD)
  then have "card (in_flight_ids s) \<le> card (set (map fst (sc_live s)))"
    by (intro card_mono) auto
  also have "\<dots> \<le> length (sc_live s)" using card_length [of "map fst (sc_live s)"] by simp
  finally show ?thesis .
qed

lemma in_flight_ids_log [simp]: "in_flight_ids (log_effect e s) = in_flight_ids s"
  by (simp add: in_flight_ids_def)

lemma cancel_rel_in_flight: "cancel_rel r s t \<Longrightarrow> in_flight_ids t \<subseteq> in_flight_ids s"
  unfolding cancel_rel_def in_flight_ids_def cancel_step_def
  by (auto, metis cancelled_not_in_flight not_None_eq)

subsection \<open>One job\<close>

lemma stamp_sget_other [simp]:
  "sget (stamp_summary j) ''child_ids'' = sget j ''child_ids''"
  "sget (stamp_summary j) ''supersede_drain'' = sget j ''supersede_drain''"
  "sget (stamp_summary j) ''cancel_drain'' = sget j ''cancel_drain''"
  "sget (stamp_summary j) ''cancel_reason'' = sget j ''cancel_reason''"
  by (simp_all add: stamp_other mirror_keys_def)

lemma mark_cancelled_fields [simp]:
  "j_id (mark_cancelled env r j) = j_id j" "j_status (mark_cancelled env r j) = ''cancelled''"
  "j_error (mark_cancelled env r j) = r" "j_kind (mark_cancelled env r j) = j_kind j"
  by (simp_all add: mark_cancelled_def)

lemma mark_cancelled_step:
  "in_flight (j_status j) \<Longrightarrow> cancel_step r j (stamp_summary (mark_cancelled env r j))"
  by (auto simp: cancel_step_def same_ident_def mark_cancelled_def in_flight_def)

lemma drain_step:
  "job_kind c = KCloud \<Longrightarrow> j_status c = ''running'' \<or> j_status c = ''waiting'' \<Longrightarrow>
   cancel_step r c (stamp_summary (sset ''cancel_drain'' (JStr r) (sset ''supersede_drain'' (JBool True) c)))"
  by (auto simp: cancel_step_def same_ident_def in_flight_def)

lemma cancel_reason_idem [simp]: "cancel_reason (cancel_reason r) = cancel_reason r"
proof (cases "trim_space r = []")
  case True
  have "trim_space ''cancelled'' = ''cancelled''" by code_simp
  with True show ?thesis by (simp add: cancel_reason_def)
qed (simp add: cancel_reason_def)

text \<open>What a cascade leaves of a child: it is not in flight, or it is a cloud child told to drain.\<close>

definition stopped_or_draining :: "string \<Rightarrow> scm_job \<Rightarrow> bool" where
  "stopped_or_draining r j \<longleftrightarrow>
     \<not> in_flight (j_status j) \<or>
     (job_kind j = KCloud \<and> j_status j \<in> {''running'', ''waiting''} \<and>
      sget j ''supersede_drain'' = JBool True \<and> sget j ''cancel_drain'' = JStr r)"

lemma stopped_step:
  assumes "cancel_step r j j'" "stopped_or_draining r j"
  shows "stopped_or_draining r j'"
proof (cases "j' = j")
  case False
  note d = cancel_stepD [OF assms(1)]
  show ?thesis
  proof (cases "j_status j' = j_status j")
    case True
    with d(4) [OF True False] same_ident_kind [OF d(1)] show ?thesis
      by (simp add: stopped_or_draining_def)
  next
    case False
    with d(3) show ?thesis by (simp add: stopped_or_draining_def)
  qed
qed (use assms in simp)

definition cancel_post :: "string \<Rightarrow> string \<Rightarrow> scm_state \<Rightarrow> cancel_result \<times> scm_state \<Rightarrow> bool" where
  "cancel_post r k s res \<longleftrightarrow>
     cancel_rel r s (snd res) \<and>
     (\<forall>j. live_job k s = Some j \<and> in_flight (j_status j) \<longrightarrow>
        fst res = CancelOk \<and> (\<exists>j'. live_job k (snd res) = Some j' \<and> j_status j' = ''cancelled'')) \<and>
     (\<forall>i. \<not> reaches s k i \<longrightarrow> live_job i (snd res) = live_job i s)"

lemma cascade_child_spec:
  assumes cancel: "\<And>k t. store_ok t \<Longrightarrow> card (in_flight_ids t) < n \<Longrightarrow>
      \<exists>res. cancel k t = Some res \<and> cancel_post r k t res"
    and s: "store_ok s" "card (in_flight_ids s) < n" "live_job k s = Some c"
  shows "\<exists>s'. cascade_child cancel env r k s = Some s' \<and> cancel_rel r s s' \<and>
           (\<forall>c'. live_job k s' = Some c' \<longrightarrow> stopped_or_draining r c') \<and>
           (\<forall>i. \<not> reaches s k i \<longrightarrow> live_job i s' = live_job i s)"
proof -
  consider (drain) "job_kind c = KCloud" "j_status c = ''running'' \<or> j_status c = ''waiting''"
    | (stop) "\<not> (job_kind c = KCloud \<and> (j_status c = ''running'' \<or> j_status c = ''waiting''))"
             "in_flight (j_status c)"
    | (skip) "\<not> in_flight (j_status c)" by blast
  then show ?thesis
  proof cases
    case drain
    let ?c = "sset ''cancel_drain'' (JStr r) (sset ''supersede_drain'' (JBool True) c)"
    have "cancel_rel r s (persist_scm_job env ?c s)"
      using s drain_step [OF drain] store_ok_id [OF s(1,3)] by (intro cancel_rel_persist) auto
    moreover have "stopped_or_draining r (stamp_summary ?c)"
      using drain by (auto simp: stopped_or_draining_def job_kind_def)
    moreover have "live_job i (persist_scm_job env ?c s) = live_job i s" if "\<not> reaches s k i" for i
      using that store_ok_id [OF s(1,3)] by (auto simp: live_job_persist)
    ultimately show ?thesis
      using drain s(3) store_ok_id [OF s(1,3)] by (auto simp: cascade_child_def live_job_persist)
  next
    case stop
    obtain res where res: "cancel k s = Some res" "cancel_post r k s res" using cancel s by blast
    have "\<forall>c'. live_job k (snd res) = Some c' \<longrightarrow> stopped_or_draining r c'"
      using res(2) s(3) stop(2) by (auto simp: cancel_post_def stopped_or_draining_def)
    with res stop s(3) show ?thesis by (auto simp: cascade_child_def cancel_post_def)
  next
    case skip
    then have "\<not> (job_kind c = KCloud \<and> (j_status c = ''running'' \<or> j_status c = ''waiting''))"
      by (auto simp: in_flight_def)
    then have "cascade_child cancel env r k s = Some s"
      using skip s(3) unfolding cascade_child_def by (simp, blast)
    with skip s show ?thesis by (simp add: cancel_rel_refl stopped_or_draining_def)
  qed
qed

lemma cascade_children_spec:
  assumes cancel: "\<And>k t. store_ok t \<Longrightarrow> card (in_flight_ids t) < n \<Longrightarrow>
      \<exists>res. cancel k t = Some res \<and> cancel_post r k t res"
  shows "store_ok s \<Longrightarrow> card (in_flight_ids s) < n \<Longrightarrow> \<forall>k \<in> set ids. live_job k s \<noteq> None \<Longrightarrow>
    \<exists>s'. cascade_children cancel env r ids s = Some s' \<and> cancel_rel r s s' \<and>
      (\<forall>k \<in> set ids. \<forall>c'. live_job k s' = Some c' \<longrightarrow> stopped_or_draining r c') \<and>
      (\<forall>i. (\<forall>k \<in> set ids. \<not> reaches s k i) \<longrightarrow> live_job i s' = live_job i s)"
proof (induction ids arbitrary: s)
  case Nil
  then show ?case by (simp add: cancel_rel_refl)
next
  case (Cons k ids)
  then obtain c where "live_job k s = Some c" by auto
  from cascade_child_spec [OF cancel Cons.prems(1,2) this, of env]
  obtain t where t: "cascade_child cancel env r k s = Some t" "cancel_rel r s t"
    "\<forall>c'. live_job k t = Some c' \<longrightarrow> stopped_or_draining r c'"
    "\<forall>i. \<not> reaches s k i \<longrightarrow> live_job i t = live_job i s" by blast
  have "card (in_flight_ids t) \<le> card (in_flight_ids s)"
    using cancel_rel_in_flight [OF t(2)] by (intro card_mono) auto
  moreover have "\<forall>k \<in> set ids. live_job k t \<noteq> None"
    using t(2) Cons.prems(3) by (auto simp: cancel_rel_def)
  ultimately obtain u where u: "cascade_children cancel env r ids t = Some u" "cancel_rel r t u"
    "\<forall>k \<in> set ids. \<forall>c'. live_job k u = Some c' \<longrightarrow> stopped_or_draining r c'"
    "\<forall>i. (\<forall>k \<in> set ids. \<not> reaches t k i) \<longrightarrow> live_job i u = live_job i t"
    using Cons.IH [OF cancel_rel_ok [OF t(2)]] Cons.prems(2) by auto
  have "stopped_or_draining r c'" if l: "live_job k u = Some c'" for c'
  proof -
    obtain m where "live_job k t = Some m" "cancel_step r m c'"
      using cancel_rel_back [OF u(2) l] by blast
    then show ?thesis using t(3) stopped_step by blast
  qed
  moreover have "\<forall>i. (\<forall>c \<in> set (k # ids). \<not> reaches s c i) \<longrightarrow> live_job i u = live_job i s"
    using t(4) u(4) reaches_rel [OF Cons.prems(1) t(2)] by simp
  ultimately show ?case using t u cancel_rel_trans [OF t(2) u(2)] by auto
qed


lemma cancel_scm_job_spec:
  "store_ok s \<Longrightarrow> card (in_flight_ids s) < n \<Longrightarrow>
   \<exists>res. cancel_scm_job n env reason k s = Some res \<and> cancel_post (cancel_reason reason) k s res \<and>
     (\<forall>j. live_job k s = Some j \<and> in_flight (j_status j) \<and> job_kind j = KRun \<longrightarrow>
        (\<forall>c \<in> set (children_of k s). \<forall>c'. live_job c (snd res) = Some c' \<longrightarrow>
           stopped_or_draining (cancel_reason reason) c'))"
proof (induction n arbitrary: s k reason)
  case (Suc n)
  let ?r = "cancel_reason reason"
  show ?case
  proof (cases "\<exists>j. live_job k s = Some j \<and> in_flight (j_status j)")
    case False
    then show ?thesis
      using Suc.prems(1)
      by (auto simp: get_scm_job_ok cancel_post_def cancel_rel_refl split: option.split)
  next
    case True
    then obtain j where j: "live_job k s = Some j" "in_flight (j_status j)" by blast
    have jid: "j_id j = k" "k \<noteq> []" using store_ok_id [OF Suc.prems(1) j(1)] by auto
    let ?s1 = "log_effect (ECancelCtx k) (persist_scm_job env (mark_cancelled env ?r j) s)"
    let ?kids = "if job_kind j = KRun then children_of k ?s1 else []"
    have rel1: "cancel_rel ?r s ?s1"
      using Suc.prems(1) j jid mark_cancelled_step by (simp add: cancel_rel_persist)
    note ok1 = cancel_rel_ok [OF rel1]
    have live1: "live_job k ?s1 = Some (stamp_summary (mark_cancelled env ?r j))"
      using jid by (simp add: live_job_persist)
    have "in_flight_ids ?s1 \<subseteq> in_flight_ids s - {k}"
      using cancel_rel_in_flight [OF rel1] live1 by (auto simp: in_flight_ids_def)
    moreover have "k \<in> in_flight_ids s" using j by (simp add: in_flight_ids_def)
    ultimately have "in_flight_ids ?s1 \<subset> in_flight_ids s" by blast
    then have less1: "card (in_flight_ids ?s1) < n"
      using psubset_card_mono [OF finite_in_flight, of "in_flight_ids ?s1" s] Suc.prems(2) by linarith
    have IH: "\<exists>res. cancel_scm_job n env ?r k' t = Some res \<and> cancel_post ?r k' t res"
      if "store_ok t" "card (in_flight_ids t) < n" for k' t
      using Suc.IH [OF that, of ?r k'] by auto
    have "\<forall>c \<in> set ?kids. live_job c ?s1 \<noteq> None" using child_live [OF ok1] by auto
    from cascade_children_spec [OF IH ok1 less1 this, of env]
    obtain s2 where s2: "cascade_children (cancel_scm_job n env ?r) env ?r ?kids ?s1 = Some s2"
      "cancel_rel ?r ?s1 s2"
      "\<forall>c \<in> set ?kids. \<forall>c'. live_job c s2 = Some c' \<longrightarrow> stopped_or_draining ?r c'"
      "\<forall>i. (\<forall>c \<in> set ?kids. \<not> reaches ?s1 c i) \<longrightarrow> live_job i s2 = live_job i ?s1" by blast
    let ?s3 = "log_effect (ETeardown k (if job_kind j = KRun then nz (j_run_id j) k else []))
                 (log_effect (ECloseChecks k ?r) s2)"
    let ?s4 = "refresh_stacks_for_job env k ?s3"
    have res: "cancel_scm_job (Suc n) env reason k s = Some (CancelOk, ?s4)"
      using Suc.prems(1) j s2(1)
      by (cases "job_kind j = KRun") (simp_all add: get_scm_job_ok list_run_children_ok [OF ok1] Let_def)
    have rel: "cancel_rel ?r s ?s4"
      using cancel_rel_trans [OF rel1 s2(2)] by (simp add: cancel_rel_refresh)
    have ok2: "store_ok s2" by (rule cancel_rel_ok [OF s2(2)])
    obtain j2 where j2: "live_job k s2 = Some j2"
      "cancel_step ?r (stamp_summary (mark_cancelled env ?r j)) j2"
      using cancel_rel_live [OF s2(2) live1] by blast
    have "j2 = stamp_summary (mark_cancelled env ?r j)" using cancel_stepD(2) [OF j2(2)] by simp
    then have "\<exists>j'. live_job k ?s4 = Some j' \<and> j_status j' = ''cancelled''"
      using ok2 j2(1) by simp
    moreover have "live_job i ?s4 = live_job i s" if h: "\<not> reaches s k i" for i
    proof -
      have "\<not> reaches ?s1 k i" using h reaches_rel [OF Suc.prems(1) rel1] by blast
      then have "\<forall>c \<in> set ?kids. \<not> reaches ?s1 c i" using reaches_child [of _ k ?s1 i] by auto
      with s2(4) have "live_job i s2 = live_job i ?s1" by blast
      also have "\<dots> = live_job i s" using h jid by (auto simp: live_job_persist)
      finally show ?thesis using ok2 by simp
    qed
    ultimately have post: "cancel_post ?r k s (CancelOk, ?s4)"
      using rel by (simp add: cancel_post_def)
    have "stopped_or_draining ?r c'"
      if h: "job_kind j = KRun" "c \<in> set (children_of k s)" "live_job c ?s4 = Some c'" for c c'
    proof -
      have "c \<in> set (children_of k ?s1)"
        using cancel_rel_children [OF Suc.prems(1) rel1] h(2) by blast
      with s2(3) h ok2 show ?thesis by simp
    qed
    with res post j show ?thesis by auto
  qed
qed simp


text \<open>
  C37: cancelling terminates.  With one unit of fuel more than there are jobs in flight, a cancel of
  any job returns, whatever the shape of the run graph (also when it is cyclic), and every job that
  was not in flight is unchanged.
\<close>

theorem cancel_terminates:
  assumes "store_ok s" "card (in_flight_ids s) < fuel"
  shows "\<exists>res s'. cancel_scm_job fuel env reason k s = Some (res, s') \<and> store_ok s' \<and>
    (\<forall>c j. live_job c s = Some j \<and> \<not> in_flight (j_status j) \<longrightarrow> live_job c s' = Some j)"
proof -
  obtain res s' where r: "cancel_scm_job fuel env reason k s = Some (res, s')"
    and rel: "cancel_rel (cancel_reason reason) s s'"
    using cancel_scm_job_spec [OF assms, of env reason k] by (auto simp: cancel_post_def)
  have "live_job c s' = Some j" if "live_job c s = Some j" "\<not> in_flight (j_status j)" for c j
    using cancel_rel_live [OF rel that(1)] cancel_stepD(2) that(2) by fastforce
  with r cancel_rel_ok [OF rel] show ?thesis by blast
qed

text \<open>
  C23: cancelling a run stops it.  A run in flight ends up cancelled with the given reason, and
  every child of it afterwards is out of flight, except a cloud child that was running or waiting,
  which stays as it is and carries the drain marks.
\<close>

theorem cancel_run_stops_children:
  assumes "store_ok s" "card (in_flight_ids s) < fuel"
    and "live_job k s = Some j" "in_flight (j_status j)" "job_kind j = KRun"
    and "cancel_scm_job fuel env reason k s = Some (res, s')"
  shows "res = CancelOk \<and>
    (\<exists>j'. live_job k s' = Some j' \<and> j_status j' = ''cancelled'' \<and> j_error j' = cancel_reason reason) \<and>
    (\<forall>c c'. c \<in> set (children_of k s) \<and> live_job c s' = Some c' \<longrightarrow>
       stopped_or_draining (cancel_reason reason) c')"
proof -
  from cancel_scm_job_spec [OF assms(1,2), of env reason k]
  have post: "cancel_post (cancel_reason reason) k s (res, s')"
    and kids: "\<forall>c \<in> set (children_of k s). \<forall>c'. live_job c s' = Some c' \<longrightarrow>
       stopped_or_draining (cancel_reason reason) c'"
    using assms(3-6) by auto
  obtain j' where j': "live_job k s' = Some j'" "j_status j' = ''cancelled''" "res = CancelOk"
    using post assms(3,4) by (auto simp: cancel_post_def)
  have "cancel_step (cancel_reason reason) j j'"
    using post assms(3) j'(1) by (simp add: cancel_post_def cancel_rel_def)
  then have "j_error j' = cancel_reason reason"
    using cancel_stepD(3) [of "cancel_reason reason" j j'] assms(4) j'(2) by fastforce
  with j' kids show ?thesis by blast
qed


subsection \<open>A sample store\<close>

text \<open>
  Two runs of one pull request, for the commits \<open>old\<close> and \<open>new\<close>; the old one has a queued security
  child and a cloud child that is running.
\<close>

definition sample_job :: "string \<Rightarrow> string \<Rightarrow> string \<Rightarrow> string \<Rightarrow> string \<Rightarrow> scm_job" where
  "sample_job k kind parent sha st =
     \<lparr>j_id = k, j_org = ''default'', j_proj = ''default'', j_conn = ''c'', j_repo = ''o/r'', j_pr = 7,
      j_sha = sha, j_event = ''pull_request'', j_status = st, j_sec_run = [], j_ai_job = [],
      j_checks = [], j_error = [], j_summary = [], j_started = ''2026-01-01'', j_finished = [],
      j_draft = False, j_title = [], j_body = [], j_force_ai = False, j_ai_only = False, j_actor = [],
      j_kind = kind, j_run_id = [], j_parent = parent, j_attempt = 1\<rparr>"

definition sample_live :: "(string \<times> scm_job) list" where
  "sample_live =
     [(''r1'', sample_job ''r1'' ''run'' [] ''old'' ''running''),
      (''s1'', sample_job ''s1'' ''security'' ''r1'' ''old'' ''queued''),
      (''c1'', sample_job ''c1'' ''cloud'' ''r1'' ''old'' ''running''),
      (''r2'', sample_job ''r2'' ''run'' [] ''new'' ''queued'')]"

definition store_of :: "(string \<times> scm_job) list \<Rightarrow> scm_state" where
  "store_of live =
     \<lparr>sc_live = live, sc_files = Map.empty, sc_pr_index = Map.empty, sc_stacks = [],
      sc_stack_files = Map.empty, sc_autofix = [],
      sc_reviewed = Map.empty, sc_analyzed = Map.empty, sc_log = []\<rparr>"

definition sample_store :: scm_state where
  "sample_store = store_of sample_live"

definition sample_env :: orch_env where
  "sample_env =
     \<lparr>e_now = ''2026-01-02'', e_writer = True, e_conc = None, e_getenv = (\<lambda>_. []),
      e_sha1hex = (\<lambda>s. s), e_hex = ''00ff'', e_dec_strs = (\<lambda>_. None), e_watched = (\<lambda>_. None),
      e_docker = False\<rparr>"

lemma store_ok_of:
  assumes "list_all (\<lambda>(k, j). j_id j = k \<and> k \<noteq> []) live" "distinct (map fst live)"
  shows "store_ok (store_of live)"
proof -
  have "j_id j = k \<and> k \<noteq> []" if "map_of live k = Some j" for k j
    using map_of_SomeD [OF that] assms(1) by (auto simp: list_all_iff)
  with assms(2) show ?thesis by (simp add: store_ok_def store_of_def live_job_def)
qed

lemma sample_store_ok: "store_ok sample_store"
  unfolding sample_store_def
  by (rule store_ok_of) (simp_all add: sample_live_def sample_job_def)

lemma sample_in_flight: "card (in_flight_ids sample_store) < 5"
  using length_in_flight [of sample_store]
  by (simp add: sample_store_def store_of_def sample_live_def)

lemma cancel_terminates_witness:
  "\<exists>res s'. cancel_scm_job 5 sample_env ''stop'' ''r1'' sample_store = Some (res, s') \<and> store_ok s'"
  using cancel_terminates [OF sample_store_ok sample_in_flight, of sample_env "''stop''" "''r1''"] by blast

lemma cancel_run_stops_children_witness:
  "\<exists>s'. cancel_scm_job 5 sample_env ''stop'' ''r1'' sample_store = Some (CancelOk, s') \<and>
     (\<forall>c c'. c \<in> set (children_of ''r1'' sample_store) \<and> live_job c s' = Some c' \<longrightarrow>
        stopped_or_draining (cancel_reason ''stop'') c')"
proof -
  have l: "live_job ''r1'' sample_store = Some (sample_job ''r1'' ''run'' [] ''old'' ''running'')"
    by (simp add: live_job_def sample_store_def store_of_def sample_live_def)
  have k: "in_flight (j_status (sample_job ''r1'' ''run'' [] ''old'' ''running''))"
    "job_kind (sample_job ''r1'' ''run'' [] ''old'' ''running'') = KRun" by code_simp+
  obtain res s' where e: "cancel_scm_job 5 sample_env ''stop'' ''r1'' sample_store = Some (res, s')"
    using cancel_scm_job_spec [OF sample_store_ok sample_in_flight, of sample_env "''stop''" "''r1''"] by auto
  from cancel_run_stops_children [OF sample_store_ok sample_in_flight l k e] e show ?thesis by blast
qed

end
