(* ===== verification/Cred_Scope.thy ===== *)
theory Cred_Scope
  imports Cancel_Laws
begin

text \<open>
  Who may see and change connectors, credentials and jobs (\<^verbatim>\<open>src/cred_scope.go\<close>, the gates of
  \<^verbatim>\<open>src/scm_connectors.go\<close> and \<^verbatim>\<open>canSeeSCMJob\<close>).  The role order of Open-Auth-Go and the
  tenant constants of Open-Tenant-Go are fields of \<open>tenancy\<close>, with the flag \<^verbatim>\<open>authEnforced\<close>.
\<close>

subsection \<open>Actors and connectors\<close>

record tenancy =
  tn_enforced :: bool
  tn_permits :: "string \<Rightarrow> string \<Rightarrow> bool"
  tn_all :: string
  tn_org :: string
  tn_proj :: string

record cred_actor =
  ac_user :: string
  ac_role :: string
  ac_org :: string
  ac_proj :: string

record connector =
  cn_id :: string
  cn_org :: string
  cn_proj :: string
  cn_scope :: string
  cn_user :: string
  cn_kind :: string
  cn_inst :: string
  cn_status :: string
  cn_token :: string

datatype cred_error =
    InvalidScope string | AdminNeedsAdmin | OrgNeedsAdmin | OrgNeedsOrg | UserNeedsUser | OrgNeedsUser
  | OtherOrganization | NotOwner | ForbiddenScope

definition normalize_tenant_org :: "tenancy \<Rightarrow> string \<Rightarrow> string" where
  "normalize_tenant_org tn org =
     (let org = trim_space org in if org = [] \<or> equal_fold org (tn_all tn) then tn_org tn else org)"

definition is_admin :: "tenancy \<Rightarrow> cred_actor \<Rightarrow> bool" where
  "is_admin tn a \<longleftrightarrow> tn_permits tn (ac_role a) ''admin'' \<or> (\<not> tn_enforced tn \<and> ac_role a = [])"

definition infer_legacy_scope :: "string \<Rightarrow> string \<Rightarrow> string" where
  "infer_legacy_scope org scope =
     (let s = to_lower (trim_space scope)
      in if s = ''admin'' \<or> s = ''org'' \<or> s = ''user'' then s
         else if trim_space org \<noteq> [] then ''org'' else ''admin'')"

definition normalize_cred_scope :: "tenancy \<Rightarrow> string \<Rightarrow> cred_actor \<Rightarrow> cred_error + string" where
  "normalize_cred_scope tn raw a =
     (let s = to_lower (trim_space raw)
      in if s = [] then
           (if is_admin tn a \<and> ac_org a = [] then Inr ''admin''
            else if ac_org a \<noteq> [] then Inr ''org''
            else if ac_user a \<noteq> [] then Inr ''user''
            else Inr ''org'')
         else if s = ''admin'' \<or> s = ''org'' \<or> s = ''user'' then Inr s
         else Inl (InvalidScope raw))"

subsection \<open>Writing\<close>

text \<open>\<^const>\<open>None\<close> is the nil error.\<close>

definition can_write_cred_scope :: "tenancy \<Rightarrow> cred_actor \<Rightarrow> string \<Rightarrow> cred_error option" where
  "can_write_cred_scope tn a scope =
     (if scope = ''admin'' then (if is_admin tn a then None else Some AdminNeedsAdmin)
      else if scope = ''org'' then
        (if \<not> is_admin tn a then Some OrgNeedsAdmin
         else if ac_org a = [] then Some OrgNeedsOrg else None)
      else if scope = ''user'' then
        (if ac_user a = [] \<and> tn_enforced tn then Some UserNeedsUser else None)
      else Some (InvalidScope scope))"

definition can_write_connector_scope :: "tenancy \<Rightarrow> cred_actor \<Rightarrow> string \<Rightarrow> cred_error option" where
  "can_write_connector_scope tn a scope =
     (if scope = ''admin'' then (if is_admin tn a then None else Some AdminNeedsAdmin)
      else if scope = ''org'' then
        (if trim_space (ac_org a) = [] then Some OrgNeedsOrg
         else if ac_user a = [] \<and> tn_enforced tn then Some OrgNeedsUser else None)
      else if scope = ''user'' then
        (if ac_user a = [] \<and> tn_enforced tn then Some UserNeedsUser else None)
      else Some (InvalidScope scope))"

definition user_cred_owner_match :: "string \<Rightarrow> string \<Rightarrow> bool" where
  "user_cred_owner_match actor owner =
     (let actor = trim_space actor; owner = trim_space owner
      in if actor = [] \<or> owner = [] then False
         else actor = owner \<or> (owner = ''admin'' \<and> (actor = ''opa-admin'' \<or> actor = ''root'')))"

text \<open>The owner check shared by \<^verbatim>\<open>canMutateConnector\<close> and \<^verbatim>\<open>canMutateCred\<close>.\<close>

definition owner_gate :: "tenancy \<Rightarrow> cred_actor \<Rightarrow> string \<Rightarrow> string \<Rightarrow> string \<Rightarrow> cred_error option" where
  "owner_gate tn a scope owner_user owner_org =
     (if scope = ''admin'' then None
      else if scope = ''org'' then
        (if ac_org a = [] then Some OrgNeedsOrg
         else if owner_org \<noteq> [] \<and> owner_org \<noteq> ac_org a then Some OtherOrganization else None)
      else if scope = ''user'' then
        (if \<not> user_cred_owner_match (ac_user a) owner_user then Some NotOwner
         else if ac_user a = [] \<and> tn_enforced tn then Some UserNeedsUser else None)
      else Some ForbiddenScope)"

definition can_mutate_connector ::
  "tenancy \<Rightarrow> cred_actor \<Rightarrow> string \<Rightarrow> string \<Rightarrow> string \<Rightarrow> cred_error option" where
  "can_mutate_connector tn a scope owner_user owner_org =
     (let scope = infer_legacy_scope owner_org scope
      in case can_write_connector_scope tn a scope of
           Some e \<Rightarrow> Some e
         | None \<Rightarrow> owner_gate tn a scope owner_user owner_org)"

definition can_mutate_cred ::
  "tenancy \<Rightarrow> cred_actor \<Rightarrow> string \<Rightarrow> string \<Rightarrow> string \<Rightarrow> cred_error option" where
  "can_mutate_cred tn a scope owner_user owner_org =
     (let scope = infer_legacy_scope owner_org scope
      in case can_write_cred_scope tn a scope of
           Some e \<Rightarrow> Some e
         | None \<Rightarrow> owner_gate tn a scope owner_user owner_org)"

definition connector_edit_flags :: "tenancy \<Rightarrow> cred_actor \<Rightarrow> bool \<times> bool \<times> bool" where
  "connector_edit_flags tn a =
     (let user = (ac_user a \<noteq> [] \<or> \<not> tn_enforced tn)
      in (trim_space (ac_org a) \<noteq> [] \<and> user, is_admin tn a, user))"

subsection \<open>Seeing\<close>

definition connector_is_unclaimed :: "connector option \<Rightarrow> bool" where
  "connector_is_unclaimed co =
     (case co of
        None \<Rightarrow> True
      | Some c \<Rightarrow>
          (if equal_fold (trim_space (cn_status c)) ''pending_claim'' then True
           else if trim_space (cn_org c) \<noteq> [] then False
           else
             let scope = infer_legacy_scope (cn_org c) (cn_scope c)
             in \<not> (scope = ''admin'' \<or> (scope = ''user'' \<and> trim_space (cn_user c) \<noteq> []))))"

definition is_service_cred_actor :: "cred_actor \<Rightarrow> bool" where
  "is_service_cred_actor a = has_prefix (trim_space (ac_user a)) ''service:''"

definition can_see_cred_scope :: "tenancy \<Rightarrow> cred_actor \<Rightarrow> string \<Rightarrow> string \<Rightarrow> string \<Rightarrow> bool" where
  "can_see_cred_scope tn a scope owner_user owner_org =
     (let scope = infer_legacy_scope owner_org scope; sel = trim_space (ac_org a)
      in if scope = ''admin'' then is_admin tn a
         else if scope = ''org'' then
           (if trim_space owner_org = [] then is_admin tn a
            else if sel \<noteq> [] then owner_org = sel
            else \<not> tn_enforced tn \<and> is_admin tn a)
         else if scope = ''user'' then
           (if \<not> user_cred_owner_match (ac_user a) owner_user then False
            else if sel \<noteq> [] then normalize_tenant_org tn owner_org = normalize_tenant_org tn sel
            else let owner_org = trim_space owner_org
                 in if \<not> tn_enforced tn then owner_org = [] \<or> owner_org = tn_org tn else owner_org = [])
         else False)"

definition can_see_connector :: "tenancy \<Rightarrow> cred_actor \<Rightarrow> connector option \<Rightarrow> bool" where
  "can_see_connector tn a co =
     (case co of
        None \<Rightarrow> False
      | Some c \<Rightarrow>
          (if cn_status c = ''deleted'' then False
           else if connector_is_unclaimed co then False
           else if is_service_cred_actor a then
             (if \<not> equal_fold (trim_space (cn_status c)) ''active'' then False
              else
                let scope = infer_legacy_scope (cn_org c) (cn_scope c); sel = trim_space (ac_org a)
                in if scope = ''user'' \<or> scope = ''admin'' then False
                   else if sel = [] then False
                   else normalize_tenant_org tn sel = normalize_tenant_org tn (cn_org c))
           else can_see_cred_scope tn a (infer_legacy_scope (cn_org c) (cn_scope c)) (cn_user c) (cn_org c)))"

text \<open>
  \<^verbatim>\<open>denyConnectorIfInvisible\<close> and \<^verbatim>\<open>denyConnectorIfImmutable\<close>: the status of the answer, or
  \<^const>\<open>None\<close> when the handler goes on.
\<close>

definition deny_connector_if_invisible :: "tenancy \<Rightarrow> cred_actor \<Rightarrow> connector option \<Rightarrow> nat option" where
  "deny_connector_if_invisible tn a co =
     (case co of
        None \<Rightarrow> Some 404
      | Some c \<Rightarrow>
          (if cn_status c = ''deleted'' then Some 404
           else if \<not> can_see_connector tn a co then Some 404 else None))"

definition deny_connector_if_immutable :: "tenancy \<Rightarrow> cred_actor \<Rightarrow> connector option \<Rightarrow> nat option" where
  "deny_connector_if_immutable tn a co =
     (case deny_connector_if_invisible tn a co of
        Some code \<Rightarrow> Some code
      | None \<Rightarrow>
          (if connector_is_unclaimed co then Some 403
           else case co of
             None \<Rightarrow> Some 404
           | Some c \<Rightarrow>
               (case can_mutate_connector tn a (infer_legacy_scope (cn_org c) (cn_scope c)) (cn_user c) (cn_org c) of
                  Some e \<Rightarrow> Some 403 | None \<Rightarrow> None)))"

text \<open>\<^verbatim>\<open>canSeeSCMJob\<close>; \<open>conns\<close> looks up a live connector.\<close>

definition can_see_scm_job ::
  "tenancy \<Rightarrow> (string \<Rightarrow> connector option) \<Rightarrow> cred_actor \<Rightarrow> scm_job option \<Rightarrow> string \<Rightarrow> bool" where
  "can_see_scm_job tn conns a jo wanted =
     (case jo of
        None \<Rightarrow> False
      | Some j \<Rightarrow>
          (let cf = trim_space wanted;
               job_org = (if trim_space (j_org j) = [] then tn_org tn else trim_space (j_org j));
               sel = trim_space (ac_org a)
           in if cf \<noteq> [] then
                (if trim_space (j_conn j) \<noteq> cf then False
                 else if \<not> tn_enforced tn \<or> is_admin tn a then True
                 else
                   let conn_org = (case conns cf of None \<Rightarrow> [] | Some c \<Rightarrow> trim_space (nz (cn_org c) (tn_org tn)))
                   in if sel = [] then False else sel = conn_org \<or> sel = job_org)
              else if sel \<noteq> [] then job_org = sel
              else \<not> tn_enforced tn))"

subsection \<open>Where a credential is stored\<close>

definition scm_secret_storage_key :: "string \<Rightarrow> string \<Rightarrow> string \<Rightarrow> string" where
  "scm_secret_storage_key logical scope user =
     (let logical = trim_space logical; sc = infer_legacy_scope [] scope
      in if sc = ''user'' then
           (let uid = trim_space user in logical @ ''#user:'' @ (if uid = [] then ''_'' else uid))
         else if sc = ''admin'' then logical @ ''#admin''
         else logical)"

definition parse_scm_secret_storage_key :: "string \<Rightarrow> string \<times> string \<times> string" where
  "parse_scm_secret_storage_key stored =
     (let stored = trim_space stored
      in case index_of stored ''#user:'' of
           Some i \<Rightarrow> (take i stored, ''user'', drop (i + length ''#user:'') stored)
         | None \<Rightarrow>
             (if has_suffix stored ''#admin'' then (trim_suffix stored ''#admin'', ''admin'', [])
              else (stored, [], [])))"

definition resolve_cred_target :: "tenancy \<Rightarrow> cred_actor \<Rightarrow> string \<Rightarrow> string \<times> string \<times> string" where
  "resolve_cred_target tn a scope =
     (if scope = ''admin'' then ([], [], [])
      else if scope = ''user'' then
        (let (org, proj) = (if ac_org a = [] then (tn_org tn, tn_proj tn) else (ac_org a, ac_proj a));
             proj = (if proj = [] \<or> proj = tn_all tn then tn_proj tn else proj)
         in (org, proj, ac_user a))
      else
        (let org = (if ac_org a = [] then tn_org tn else ac_org a);
             proj = (if ac_proj a = [] \<or> ac_proj a = tn_all tn then tn_proj tn else ac_proj a)
         in (org, proj, [])))"


subsection \<open>Laws\<close>

lemma infer_scope_cases: "infer_legacy_scope org scope \<in> {''admin'', ''org'', ''user''}"
  by (auto simp: infer_legacy_scope_def Let_def)

lemma to_lower_consts [simp]:
  "to_lower ''admin'' = ''admin''" "to_lower ''org'' = ''org''" "to_lower ''user'' = ''user''"
  by code_simp+

lemma trim_consts [simp]:
  "trim_space ''admin'' = ''admin''" "trim_space ''org'' = ''org''" "trim_space ''user'' = ''user''"
  by code_simp+

lemma infer_scope_consts [simp]:
  "infer_legacy_scope org ''admin'' = ''admin''" "infer_legacy_scope org ''org'' = ''org''"
  "infer_legacy_scope org ''user'' = ''user''"
  by (simp_all add: infer_legacy_scope_def)

lemma infer_scope_idem [simp]: "infer_legacy_scope o1 (infer_legacy_scope o2 scope) = infer_legacy_scope o2 scope"
  using infer_scope_cases [of o2 scope] by (auto simp: infer_legacy_scope_def [of o1])

text \<open>
  Changing a connector needs authority over it.  When the gate of the connector handlers lets
  a request through, the connector is visible to the caller, not deleted and not waiting for its
  claim, and the caller is an administrator for an administrator's connector, a member of exactly
  the connector's organisation for an organisation's, or its owner for a user's.
\<close>

theorem connector_change_needs_authority:
  assumes "deny_connector_if_immutable tn a (Some c) = None"
  shows "can_see_connector tn a (Some c) \<and> cn_status c \<noteq> ''deleted'' \<and>
    \<not> equal_fold (trim_space (cn_status c)) ''pending_claim'' \<and>
    (case infer_legacy_scope (cn_org c) (cn_scope c) of
       sc \<Rightarrow> (if sc = ''admin'' then is_admin tn a
              else if sc = ''org'' then trim_space (ac_org a) \<noteq> [] \<and> cn_org c = ac_org a
              else user_cred_owner_match (ac_user a) (cn_user c)))"
proof -
  let ?sc = "infer_legacy_scope (cn_org c) (cn_scope c)"
  have see: "can_see_connector tn a (Some c)" "cn_status c \<noteq> ''deleted''" "\<not> connector_is_unclaimed (Some c)"
    and mut: "can_mutate_connector tn a ?sc (cn_user c) (cn_org c) = None"
    using assms by (auto simp: deny_connector_if_immutable_def deny_connector_if_invisible_def
        split: if_splits option.splits)
  have claimed: "\<not> equal_fold (trim_space (cn_status c)) ''pending_claim''"
    using see(3) by (auto simp: connector_is_unclaimed_def)
  have gate: "can_write_connector_scope tn a ?sc = None" "owner_gate tn a ?sc (cn_user c) (cn_org c) = None"
    using mut by (simp_all add: can_mutate_connector_def Let_def split: option.splits)
  have "if ?sc = ''admin'' then is_admin tn a
     else if ?sc = ''org'' then trim_space (ac_org a) \<noteq> [] \<and> cn_org c = ac_org a
     else user_cred_owner_match (ac_user a) (cn_user c)"
  proof (cases "?sc = ''org''")
    case True
    then have "trim_space (cn_org c) \<noteq> []" using see(3) by (auto simp: connector_is_unclaimed_def split: if_splits)
    then have "cn_org c \<noteq> []" by auto
    with True gate show ?thesis by (simp add: can_write_connector_scope_def owner_gate_def split: if_splits)
  next
    case False
    with gate infer_scope_cases [of "cn_org c" "cn_scope c"] show ?thesis
      by (auto simp: can_write_connector_scope_def owner_gate_def split: if_splits)
  qed
  with see(1,2) claimed show ?thesis by simp
qed

text \<open>
  The jobs a member sees under enforced authentication.  An actor who is not an administrator
  sees exactly the jobs of the selected organisation, and with a connector filter those of that
  connector when it belongs to the selected organisation; without a selected organisation nothing.
\<close>

theorem member_sees_own_jobs:
  assumes "tn_enforced tn" "\<not> is_admin tn a"
  shows "can_see_scm_job tn conns a (Some j) wanted \<longleftrightarrow>
    (let sel = trim_space (ac_org a); cf = trim_space wanted;
         job_org = (if trim_space (j_org j) = [] then tn_org tn else trim_space (j_org j))
     in if sel = [] then False
        else if cf = [] then job_org = sel
        else trim_space (j_conn j) = cf \<and>
             (job_org = sel \<or> map_option (\<lambda>c. trim_space (nz (cn_org c) (tn_org tn))) (conns cf) = Some sel))"
  using assms by (auto simp: can_see_scm_job_def Let_def split: option.split)

subsection \<open>Storage keys\<close>

lemma trim_space_fix:
  assumes "s \<noteq> []" "\<not> is_space (hd s)" "\<not> is_space (last s)"
  shows "trim_space s = s"
proof -
  have "trim_left s = s" using assms(1,2) by (cases s) (simp_all add: trim_left_def)
  moreover have "trim_left (rev s) = rev s"
    using assms(1,3) by (cases s rule: rev_cases) (simp_all add: trim_left_def)
  ultimately show ?thesis by (simp add: trim_space_def)
qed

lemma trim_space_ends:
  assumes "trim_space s = s" "s \<noteq> []"
  shows "\<not> is_space (hd s)" "\<not> is_space (last s)"
proof -
  have l: "trim_left (rev (trim_left s)) = rev s" using assms(1) unfolding trim_space_def by (metis rev_rev_ident)
  have "length (trim_left (rev (trim_left s))) \<le> length (trim_left s)"
    by (simp add: trim_left_def) (metis length_dropWhile_le length_rev)
  moreover have "length (trim_left s) \<le> length s" by (simp add: trim_left_def length_dropWhile_le)
  ultimately have same: "length (trim_left s) = length s" using l by (metis length_rev le_antisym)
  show "\<not> is_space (hd s)"
  proof
    assume "is_space (hd s)"
    then have "length (trim_left s) < length s"
      using assms(2) by (cases s) (auto simp: trim_left_def intro: le_less_trans [OF length_dropWhile_le])
    with same show False by simp
  qed
  have "takeWhile is_space s @ trim_left s = s" by (simp add: trim_left_def)
  then have "trim_left s = s" using same by (metis append_self_conv2 length_append length_0_conv add_cancel_left_left)
  with l have r: "trim_left (rev s) = rev s" by simp
  show "\<not> is_space (last s)"
  proof
    assume "is_space (last s)"
    then have "is_space (hd (rev s))" using assms(2) by (simp add: hd_rev)
    then have "length (trim_left (rev s)) < length (rev s)"
      using assms(2) by (cases "rev s") (auto simp: trim_left_def intro: le_less_trans [OF length_dropWhile_le])
    with r show False by simp
  qed
qed

lemma trim_space_append:
  assumes "trim_space a = a" "a \<noteq> []" "trim_space b = b" "b \<noteq> []"
  shows "trim_space (a @ m @ b) = a @ m @ b"
  using trim_space_ends [OF assms(1,2)] trim_space_ends [OF assms(3,4)] assms(2,4)
  by (intro trim_space_fix) simp_all

lemma index_of_first:
  assumes "CHR ''#'' \<notin> set a"
  shows "index_of (a @ ''#user:'' @ b) ''#user:'' = Some (length a)"
  using assms by (induction a) auto

lemma no_marker:
  assumes "CHR ''#'' \<notin> set a"
  shows "index_of a ''#user:'' = None" "index_of (a @ ''#admin'') ''#user:'' = None" "\<not> has_suffix a ''#admin''"
proof -
  show "index_of a ''#user:'' = None" using assms by (auto simp: index_of_None contains_iff)
  show "index_of (a @ ''#admin'') ''#user:'' = None" using assms by (induction a) auto
  show "\<not> has_suffix a ''#admin''" using assms by (auto simp: has_suffix_iff)
qed

lemma storage_key_parts:
  assumes "CHR ''#'' \<notin> set logical" "trim_space logical = logical" "logical \<noteq> []"
    and "trim_space user = user" "user \<noteq> []"
  shows "parse_scm_secret_storage_key (scm_secret_storage_key logical ''user'' user) = (logical, ''user'', user)
    \<and> parse_scm_secret_storage_key (scm_secret_storage_key logical ''admin'' user) = (logical, ''admin'', [])
    \<and> parse_scm_secret_storage_key (scm_secret_storage_key logical ''org'' user) = (logical, [], [])"
proof -
  have t: "trim_space (logical @ ''#user:'' @ user) = logical @ ''#user:'' @ user"
    by (rule trim_space_append [OF assms(2-5)])
  have "trim_space (logical @ [] @ ''#admin'') = logical @ [] @ ''#admin''"
    by (rule trim_space_append [OF assms(2,3)]) (simp_all, code_simp)
  then have u: "trim_space (logical @ ''#admin'') = logical @ ''#admin''" by simp
  have "has_suffix (logical @ ''#admin'') ''#admin''" by (auto simp: has_suffix_iff)
  then show ?thesis
    using assms t u index_of_first [OF assms(1), of user] no_marker [OF assms(1)]
    by (simp add: parse_scm_secret_storage_key_def scm_secret_storage_key_def trim_suffix_def)
qed


text \<open>
  The storage key keeps the scopes apart.  For a logical key without the separator, the key
  of a user's, an administrator's and an organisation's secret is read back as that scope, user and
  logical key, so no two identities share a stored key.
\<close>

theorem storage_key_roundtrip:
  assumes "CHR ''#'' \<notin> set logical" "trim_space logical = logical" "logical \<noteq> []"
    and "trim_space user = user" "user \<noteq> []"
  shows "parse_scm_secret_storage_key (scm_secret_storage_key logical ''user'' user) = (logical, ''user'', user)
    \<and> parse_scm_secret_storage_key (scm_secret_storage_key logical ''admin'' user) = (logical, ''admin'', [])
    \<and> parse_scm_secret_storage_key (scm_secret_storage_key logical ''org'' user) = (logical, [], [])"
  using assms by (rule storage_key_parts)

subsection \<open>Samples\<close>

definition sample_tenancy :: tenancy where
  "sample_tenancy =
     \<lparr>tn_enforced = True, tn_permits = (\<lambda>have want. have = ''admin'' \<or> have = want), tn_all = ''all'',
      tn_org = ''default-org'', tn_proj = ''default-project''\<rparr>"

definition sample_member :: cred_actor where
  "sample_member = \<lparr>ac_user = ''ann'', ac_role = ''viewer'', ac_org = ''acme'', ac_proj = ''p''\<rparr>"

definition sample_connector :: connector where
  "sample_connector =
     \<lparr>cn_id = ''c'', cn_org = ''acme'', cn_proj = ''p'', cn_scope = ''org'', cn_user = [],
      cn_kind = ''github_app'', cn_inst = ''7'', cn_status = ''active'', cn_token = []\<rparr>"

lemma connector_change_needs_authority_witness:
  "deny_connector_if_immutable sample_tenancy sample_member (Some sample_connector) = None \<and>
   can_see_connector sample_tenancy sample_member (Some sample_connector) \<and>
   deny_connector_if_immutable sample_tenancy sample_member (Some (sample_connector\<lparr>cn_org := ''other''\<rparr>)) = Some 404"
proof -
  have n: "deny_connector_if_immutable sample_tenancy sample_member (Some sample_connector) = None" by code_simp
  moreover have "deny_connector_if_immutable sample_tenancy sample_member (Some (sample_connector\<lparr>cn_org := ''other''\<rparr>)) = Some 404"
    by code_simp
  ultimately show ?thesis using connector_change_needs_authority [OF n] by blast
qed

lemma member_sees_own_jobs_witness:
  "\<not> can_see_scm_job sample_tenancy (\<lambda>_. None) sample_member (Some (sample_job ''j'' ''run'' [] ''abc'' ''queued'')) []"
proof -
  have h: "tn_enforced sample_tenancy" "\<not> is_admin sample_tenancy sample_member" by code_simp+
  show ?thesis unfolding member_sees_own_jobs [OF h] by code_simp
qed

lemma storage_key_roundtrip_witness:
  "parse_scm_secret_storage_key (scm_secret_storage_key ''cursor'' ''user'' ''ann'') = (''cursor'', ''user'', ''ann'')"
proof -
  have h: "CHR ''#'' \<notin> set ''cursor''" "trim_space ''cursor'' = ''cursor''" "trim_space ''ann'' = ''ann''" by code_simp+
  show ?thesis using storage_key_roundtrip [OF h(1,2) _ h(3)] by simp
qed

end
