(* ===== verification/Event_Envelope.thy ===== *)
theory Event_Envelope
  imports Go_Prelude
begin

text \<open>
  Repository names, the checks of a watched repository and the event envelope
  (\<^verbatim>\<open>src/repo_name.go\<close>, \<^verbatim>\<open>src/scm_event_envelope.go\<close>, \<^verbatim>\<open>src/scm_native_checker.go\<close>,
  \<^verbatim>\<open>src/scm_checker.go\<close>).  \<open>dec\<close> decodes a JSON text into a \<^verbatim>\<open>[]string\<close>.
\<close>

definition split_owner_repo :: "string \<Rightarrow> string \<times> string" where
  "split_owner_repo full =
     (case index_of full ''/'' of None \<Rightarrow> ([], full) | Some i \<Rightarrow> (take i full, drop (i + 1) full))"

subsection \<open>Repository names\<close>

definition is_alnum :: "char \<Rightarrow> bool" where
  "is_alnum c \<longleftrightarrow> is_lower c \<or> is_upper c \<or> is_digit c"

text \<open>One side of \<^verbatim>\<open>githubRepoFullNameExactRe\<close>: an alphanumeric, then name characters.\<close>

definition name_segment :: "string \<Rightarrow> bool" where
  "name_segment s \<longleftrightarrow>
     (case s of [] \<Rightarrow> False
      | c # cs \<Rightarrow> is_alnum c \<and> list_all (\<lambda>d. is_alnum d \<or> d \<in> set ''_.-'') cs)"

definition repo_name_re :: "string \<Rightarrow> bool" where
  "repo_name_re s \<longleftrightarrow>
     (case split_on CHR ''/'' s of [a, b] \<Rightarrow> name_segment a \<and> name_segment b | _ \<Rightarrow> False)"

datatype repo_name_error = EmptyRepoName | InvalidRepoChars | NotOwnerRepo | InvalidOwnerRepo | InvalidSegments

text \<open>The characters no repository name may hold: blanks, quotes and shell metacharacters.\<close>

definition forbidden_repo_chars :: string where
  "forbidden_repo_chars =
     [CHR '' '', CHR 0x09, CHR 0x0A, CHR 0x0D, CHR 0x5C, CHR 0x22, CHR 0x27, CHR 0x60] @ ''$;&|<>(){}''"

text \<open>\<open>base\<close> is \<^verbatim>\<open>filepath.Base\<close>.\<close>

definition validate_github_repo_full_name ::
  "(string \<Rightarrow> string) \<Rightarrow> string \<Rightarrow> repo_name_error + unit" where
  "validate_github_repo_full_name base full =
     (let full = trim_space full
      in if full = [] then Inl EmptyRepoName
         else if contains full ''..'' \<or> contains_any full forbidden_repo_chars then Inl InvalidRepoChars
         else if \<not> repo_name_re full then Inl NotOwnerRepo
         else
           let (owner, repo) = split_owner_repo full
           in if owner = [] \<or> repo = [] \<or> has_suffix repo ''.git'' then Inl InvalidOwnerRepo
              else if base owner \<noteq> owner \<or> base repo \<noteq> repo then Inl InvalidSegments
              else Inr ())"

definition github_https_clone_url ::
  "(string \<Rightarrow> string) \<Rightarrow> string \<Rightarrow> repo_name_error + string" where
  "github_https_clone_url base full =
     (case validate_github_repo_full_name base full of
        Inl e \<Rightarrow> Inl e
      | Inr _ \<Rightarrow> Inr (''https://github.com/'' @ full @ ''.git''))"

subsection \<open>Checks of a watched repository\<close>

definition peer_product_configured :: "genv \<Rightarrow> string \<Rightarrow> bool" where
  "peer_product_configured getenv k \<longleftrightarrow> trim_space (getenv k) \<noteq> []"

definition default_watched_checks :: "genv \<Rightarrow> string list" where
  "default_watched_checks getenv =
     [''ora:review''] @
     (if peer_product_configured getenv ''PEER_OSA_URL'' then [''osa:dependencies''] else []) @
     (if peer_product_configured getenv ''PEER_OPL_URL'' then [''opl:perf-gate''] else []) @
     (if peer_product_configured getenv ''PEER_OPM_URL'' then [''opm:delivery''] else [])"

definition normalize_product_checks :: "genv \<Rightarrow> string list \<Rightarrow> string list" where
  "normalize_product_checks getenv checks =
     (let out = map (\<lambda>c. if c = ''ai_review'' then ''ora:review'' else c)
                  (filter (\<lambda>c. c \<noteq> []) (map trim_space checks))
      in if out = [] then default_watched_checks getenv else out)"

definition parse_watched_checks ::
  "genv \<Rightarrow> (string \<Rightarrow> string list option) \<Rightarrow> string \<Rightarrow> string list" where
  "parse_watched_checks getenv dec raw =
     (let raw = trim_space raw
      in if raw = [] then default_watched_checks getenv
         else case dec raw of
                None \<Rightarrow> default_watched_checks getenv
              | Some checks \<Rightarrow>
                  (if checks = [] then default_watched_checks getenv
                   else normalize_product_checks getenv checks))"

definition wants_ora_review :: "string list \<Rightarrow> bool" where
  "wants_ora_review checks \<longleftrightarrow> list_ex (\<lambda>c. c = ''ora:review'' \<or> c = ''ai_review'') checks"

definition wants_legacy_security_scan :: "string list \<Rightarrow> bool" where
  "wants_legacy_security_scan checks \<longleftrightarrow>
     list_ex (\<lambda>c. c \<in> {''secrets'', ''sast'', ''iac'', ''sbom'', ''container''}) checks"

definition checks_include :: "string list \<Rightarrow> string \<Rightarrow> bool" where
  "checks_include checks want \<longleftrightarrow>
     list_ex (\<lambda>c. to_lower (trim_space c) = to_lower (trim_space want)) checks"

definition checker_status_key :: "string \<Rightarrow> string \<Rightarrow> string" where
  "checker_status_key product checker = trim_space product @ '':'' @ trim_space checker"

definition split_checker_key :: "string \<Rightarrow> string \<times> string" where
  "split_checker_key key =
     (let key = trim_space key
      in case index_of key '':'' of
           Some i \<Rightarrow> (if 0 < i then (take i key, drop (i + 1) key) else (''ora'', key))
         | None \<Rightarrow> (''ora'', key))"

definition map_checker_conclusion :: "string \<Rightarrow> string \<Rightarrow> string" where
  "map_checker_conclusion conclusion status =
     (if status \<noteq> ''completed'' then ''pending''
      else let c = to_lower (trim_space conclusion)
           in if c = ''success'' then ''success''
              else if c \<in> {''failure'', ''cancelled'', ''timed_out'', ''action_required''} then ''failure''
              else if c = ''error'' then ''error'' else ''success'')"

definition ora_review_actionable_event :: "string \<Rightarrow> bool" where
  "ora_review_actionable_event ev \<longleftrightarrow>
     to_lower (trim_space ev) \<in> {''pull_request.opened'', ''pull_request.synchronize'',
        ''pull_request.reopened'', ''pull_request.ready_for_review''}"

fun dedupe_from :: "string list \<Rightarrow> string list \<Rightarrow> string list" where
  "dedupe_from out [] = out"
| "dedupe_from out (p # ps) =
     (let p = trim_space p
      in if p = [] \<or> p \<in> set out then dedupe_from out ps else dedupe_from (out @ [p]) ps)"

definition dedupe_paths :: "string list \<Rightarrow> string list" where
  "dedupe_paths paths = dedupe_from [] paths"

text \<open>\<^verbatim>\<open>normalizeSCMEnvelopeEvent\<close> for a receipt with the given action.\<close>

definition normalize_scm_envelope_event :: "string \<Rightarrow> string \<Rightarrow> string" where
  "normalize_scm_envelope_event event action =
     (let event = trim_space event; action = trim_space action
      in if event = ''pull_request'' then
           ''pull_request.'' @ (if action = [] then ''unknown'' else action)
         else if event = ''push'' then (if action = ''default'' then ''push.default'' else ''push'')
         else event)"

definition should_enqueue_pr_run :: "string \<Rightarrow> int \<Rightarrow> bool" where
  "should_enqueue_pr_run event pr =
     (let ev = to_lower (trim_space event)
      in if has_prefix ev ''push.'' \<or> has_prefix ev ''cron.'' then False
         else if 0 < pr then True
         else has_prefix ev ''simulate'')"

subsection \<open>Laws\<close>

lemma dedupe_from_distinct:
  "distinct out \<Longrightarrow> distinct (dedupe_from out ps)"
  "set (dedupe_from out ps) = set out \<union> {q. q \<noteq> [] \<and> q \<in> trim_space ` set ps}"
  by (induction out ps rule: dedupe_from.induct) (auto simp: Let_def)

lemma is_hex_name_char:
  "name_segment s \<Longrightarrow> CHR ''/'' \<notin> set s"
  by (auto simp: name_segment_def is_alnum_def is_lower_def is_upper_def is_digit_def byte_of_def
      list_all_iff split: list.splits)

lemma wants_default: "wants_ora_review (default_watched_checks getenv)"
  by (simp add: wants_ora_review_def default_watched_checks_def)

end
