(* ===== verification/Conn_Store.thy ===== *)
theory Conn_Store
  imports Cred_Scope Event_Envelope
begin

text \<open>
  The registry of connectors and watched repositories (\<^verbatim>\<open>src/scm_connectors.go\<close>,
  \<^verbatim>\<open>src/scm_oam_sync.go\<close>, the directory lookup of \<^verbatim>\<open>src/oam_projects.go\<close>): the live maps
  \<^verbatim>\<open>connectorLive\<close> and \<^verbatim>\<open>watchedLive\<close>, their rows in ClickHouse, and how a watch is found,
  created and stamped.

  \<^verbatim>\<open>sync.Map.Range\<close> visits in an unspecified order; the lists of the model are in one such order, so
  what is proved of every list is proved of every order.  A connector is a pointer that is changed in
  place: the model stores the changed value back.  \<^verbatim>\<open>MetaJSON\<close> is kept decoded (a text that is not an
  object decodes to the empty one).
\<close>

subsection \<open>State\<close>

record app_conn = connector +
  cn_login :: string
  cn_meta :: jobj
  cn_created :: string
  cn_updated :: string

record watched =
  wt_id :: string
  wt_org :: string
  wt_proj :: string
  wt_conn :: string
  wt_repo :: string
  wt_repo_id :: string
  wt_enabled :: bool
  wt_service :: string
  wt_profile :: string
  wt_checks :: string
  wt_min_sev :: string
  wt_ai_block :: bool
  wt_auto_req :: bool
  wt_min_score :: int
  wt_group :: string
  wt_hook :: int
  wt_secret :: string
  wt_mode :: string
  wt_updated :: string

text \<open>Rows written to ClickHouse and the synchronisation with the account product.\<close>

datatype conn_effect = CfConn app_conn | CfWatch watched | CfSync string

record install_intent =
  in_org :: string
  in_proj :: string
  in_user :: string
  in_personal :: bool
  in_minted :: int
  in_expires :: int

record conn_state =
  cs_conns :: "(string \<times> app_conn) list"
  cs_watched :: "(string \<times> watched) list"
  cs_intents :: "(string \<times> install_intent) list"
  cs_log :: "conn_effect list"

text \<open>
  What an operation reads of the outside: the clock (as a text and in nanoseconds), the environment,
  digests, a fresh claim nonce (\<^const>\<open>None\<close>: no entropy) and hex digits, whether a writer is set,
  the row ClickHouse answers for an id with the flag that it came from the legacy hub (\<^const>\<open>None\<close>:
  no client or no row), the watched rows it holds of a connector, encryption and decryption, the JSON
  coders of meta objects and of lists of checks, and the projects the account product lists for an
  organization (\<^const>\<open>Inl\<close> an error).
\<close>

record oam_project =
  op_id :: string
  op_project :: string
  op_org :: string
  op_key :: string
  op_conns :: "string list"

record conn_env =
  ce_now :: string
  ce_nanos :: int
  ce_getenv :: genv
  ce_sha1hex :: "string \<Rightarrow> string"
  ce_sha256hex :: "string \<Rightarrow> string"
  ce_nonce :: "string option"
  ce_hex :: string
  ce_writer :: bool
  ce_query :: "string \<Rightarrow> ((string \<Rightarrow> string) \<times> bool) option"
  ce_watch_rows :: "string \<Rightarrow> watched list"
  ce_encrypt :: "string \<Rightarrow> string option"
  ce_decrypt :: "string \<Rightarrow> string option"
  ce_dec_meta :: "string \<Rightarrow> jobj"
  ce_enc_strs :: "string list \<Rightarrow> string"
  ce_dec_strs :: "string \<Rightarrow> string list option"
  ce_oam :: "string \<Rightarrow> string + oam_project list"
  ce_legacy :: bool
  ce_tenancy :: tenancy

definition conn_log :: "conn_effect list \<Rightarrow> conn_state \<Rightarrow> conn_state" where
  "conn_log es s = s\<lparr>cs_log := cs_log s @ es\<rparr>"

definition live_conn :: "string \<Rightarrow> conn_state \<Rightarrow> app_conn option" where
  "live_conn k s = map_of (cs_conns s) k"

definition store_conn :: "string \<Rightarrow> app_conn \<Rightarrow> conn_state \<Rightarrow> conn_state" where
  "store_conn k c s = s\<lparr>cs_conns := AList.update k c (cs_conns s)\<rparr>"

definition live_watch :: "string \<Rightarrow> conn_state \<Rightarrow> watched option" where
  "live_watch k s = map_of (cs_watched s) k"

definition store_watch :: "string \<Rightarrow> watched \<Rightarrow> conn_state \<Rightarrow> conn_state" where
  "store_watch k w s = s\<lparr>cs_watched := AList.update k w (cs_watched s)\<rparr>"

definition watch_key :: "string \<Rightarrow> string \<Rightarrow> string" where
  "watch_key conn repo = conn @ ''|'' @ repo"

definition conn_status_is :: "string \<Rightarrow> app_conn \<Rightarrow> bool" where
  "conn_status_is st c \<longleftrightarrow> equal_fold (trim_space (cn_status c)) st"

subsection \<open>Writing rows\<close>

definition connector_webhook_mode :: "app_conn option \<Rightarrow> string" where
  "connector_webhook_mode co =
     (case co of None \<Rightarrow> ''app'' | Some c \<Rightarrow> (if cn_kind c = ''github_pat'' then ''repo'' else ''app''))"

text \<open>\<^verbatim>\<open>syncConnectorToOAM\<close>: whether the account product is told of a connector.\<close>

definition sync_due :: "conn_env \<Rightarrow> app_conn \<Rightarrow> bool" where
  "sync_due env c \<longleftrightarrow>
     peer_product_configured (ce_getenv env) ''PEER_OAM_URL'' \<and>
     (let org = trim_space (cn_org c); scope = infer_legacy_scope (cn_org c) (cn_scope c);
          personal = (scope = ''user'' \<and> trim_space (cn_user c) \<noteq> [] \<and> org = [])
      in cn_status c = ''deleted'' \<or> (trim_space (cn_proj c) \<noteq> [] \<and> (org \<noteq> [] \<or> personal)))"

text \<open>\<^verbatim>\<open>persistTokenRef\<close>.\<close>

definition persist_token_ref :: "conn_env \<Rightarrow> string \<Rightarrow> string option" where
  "persist_token_ref env plain = (if trim_space plain = [] then Some [] else ce_encrypt env plain)"

definition persist_connector :: "conn_env \<Rightarrow> app_conn \<Rightarrow> conn_state \<Rightarrow> conn_state" where
  "persist_connector env c s =
     (let s = (if sync_due env c then conn_log [CfSync (cn_id c)] s else s);
          row = (\<lambda>tok. c\<lparr>cn_token := tok, cn_scope := infer_legacy_scope (cn_org c) (cn_scope c)\<rparr>)
      in if \<not> ce_writer env then s
         else if trim_space (cn_token c) \<noteq> [] then
           (case persist_token_ref env (cn_token c) of
              None \<Rightarrow> s | Some enc \<Rightarrow> conn_log [CfConn (row enc)] s)
         else if cn_status c \<noteq> ''deleted'' \<and> cn_kind c = ''github_pat'' then s
         else conn_log [CfConn (row [])] s)"

text \<open>\<^verbatim>\<open>persistConnectorOrgMove\<close>: a tombstone under the old tenancy goes first.\<close>

definition persist_connector_org_move ::
  "conn_env \<Rightarrow> app_conn \<Rightarrow> string \<Rightarrow> string \<Rightarrow> conn_state \<Rightarrow> conn_state" where
  "persist_connector_org_move env c prev_org prev_proj s =
     (let prev_org = trim_space prev_org; prev_proj = trim_space prev_proj;
          s = (if prev_org \<noteq> trim_space (cn_org c) \<or> prev_proj \<noteq> trim_space (cn_proj c)
               then persist_connector env
                      (c\<lparr>cn_org := prev_org, cn_proj := prev_proj, cn_status := ''deleted'', cn_token := []\<rparr>) s
               else s)
      in persist_connector env c s)"

definition clamp_score :: "int \<Rightarrow> int" where
  "clamp_score n = (if n < 0 then 0 else if 100 < n then 100 else n)"

definition persist_watched :: "conn_env \<Rightarrow> watched \<Rightarrow> conn_state \<Rightarrow> conn_state" where
  "persist_watched env w s =
     (if \<not> ce_writer env then s
      else conn_log [CfWatch (w\<lparr>wt_min_score := clamp_score (wt_min_score w), wt_mode := nz (wt_mode w) ''app''\<rparr>)] s)"

subsection \<open>Reading connectors\<close>

definition is_encrypted_secret :: "string \<Rightarrow> bool" where
  "is_encrypted_secret ref \<longleftrightarrow> has_prefix (trim_space ref) ''enc:v1:''"

text \<open>\<^verbatim>\<open>connectorFromCHRow\<close>; a column that is missing or not a text reads as the empty text.\<close>

definition connector_from_ch_row :: "conn_env \<Rightarrow> (string \<Rightarrow> string) \<Rightarrow> bool \<Rightarrow> app_conn option" where
  "connector_from_ch_row env row decrypt =
     (if row ''id'' = [] then None
      else Some
        \<lparr>cn_id = row ''id'', cn_org = row ''organization_id'', cn_proj = row ''project_id'',
         cn_scope = infer_legacy_scope (row ''organization_id'') (row ''scope''), cn_user = row ''user_id'',
         cn_kind = row ''kind'', cn_inst = row ''installation_id'', cn_status = nz (row ''status'') ''active'',
         cn_token = (if decrypt \<and> is_encrypted_secret (row ''token_ref'')
                     then (case ce_decrypt env (row ''token_ref'') of None \<Rightarrow> [] | Some t \<Rightarrow> t) else []),
         cn_login = row ''account_login'', cn_meta = ce_dec_meta env (nz (row ''meta_json'') ''{}''),
         cn_created = row ''created_at'', cn_updated = row ''updated_at''\<rparr>)"

definition hydrate_connector :: "conn_env \<Rightarrow> string \<Rightarrow> conn_state \<Rightarrow> app_conn option \<times> conn_state" where
  "hydrate_connector env k s =
     (if trim_space k = [] then (None, s)
      else case ce_query env (trim_space k) of
        None \<Rightarrow> (None, s)
      | Some (row, legacy) \<Rightarrow>
          (case connector_from_ch_row env row True of
             None \<Rightarrow> (None, s)
           | Some c \<Rightarrow>
               (if conn_status_is ''deleted'' c then (None, s)
                else let s = store_conn (cn_id c) c s
                     in (Some c, if legacy \<and> ce_legacy env then persist_connector env c s else s))))"

definition get_or_hydrate :: "conn_env \<Rightarrow> string \<Rightarrow> conn_state \<Rightarrow> app_conn option \<times> conn_state" where
  "get_or_hydrate env k s =
     (case live_conn k s of
        None \<Rightarrow> hydrate_connector env k s
      | Some c \<Rightarrow>
          (if cn_kind c = ''github_pat'' \<and> cn_token c = [] then
             (let (h, s) = hydrate_connector env k s
              in case h of
                   Some h \<Rightarrow> (if cn_token h \<noteq> [] then (Some h, s) else (Some c, s))
                 | None \<Rightarrow> (Some c, s))
           else (Some c, s)))"

text \<open>
  \<^verbatim>\<open>findConnectorByInstallation\<close>: the first active connector of an installation, else the first
  pending one.
\<close>

definition of_installation :: "string \<Rightarrow> app_conn \<Rightarrow> bool" where
  "of_installation inst c \<longleftrightarrow> trim_space (cn_inst c) = inst \<and> cn_status c \<noteq> ''deleted''"

definition find_connector_by_installation :: "string \<Rightarrow> conn_state \<Rightarrow> app_conn option" where
  "find_connector_by_installation inst s =
     (let inst = trim_space inst; cs = map snd (cs_conns s);
          with = (\<lambda>st. List.find (\<lambda>c. of_installation inst c \<and> to_lower (trim_space (cn_status c)) = st) cs)
      in if inst = [] then None
         else case with ''active'' of Some c \<Rightarrow> Some c | None \<Rightarrow> with ''pending_claim'')"

definition github_app_configured :: "genv \<Rightarrow> bool" where
  "github_app_configured getenv \<longleftrightarrow>
     trim_space (getenv ''OPA_GITHUB_APP_ID'') \<noteq> [] \<and> trim_space (getenv ''OPA_GITHUB_APP_PRIVATE_KEY'') \<noteq> []"

subsection \<open>Removing connectors\<close>

text \<open>
  \<^verbatim>\<open>cascadeDeleteWatched\<close>: the watches of a connector are written as disabled and leave the live
  map, then the rows ClickHouse still holds of it, one per repository.
\<close>

definition disable_watch :: "conn_env \<Rightarrow> watched \<Rightarrow> watched" where
  "disable_watch env w = w\<lparr>wt_enabled := False, wt_updated := ce_now env\<rparr>"

fun first_per_repo :: "string list \<Rightarrow> watched list \<Rightarrow> watched list" where
  "first_per_repo seen [] = []"
| "first_per_repo seen (w # ws) =
     (if wt_repo w \<in> set seen then first_per_repo seen ws else w # first_per_repo (wt_repo w # seen) ws)"

definition cascade_delete_watched :: "conn_env \<Rightarrow> string \<Rightarrow> conn_state \<Rightarrow> conn_state" where
  "cascade_delete_watched env conn s =
     (let mine = filter (\<lambda>(_, w). wt_conn w = conn) (cs_watched s);
          s = fold (\<lambda>(k, w) s. persist_watched env (disable_watch env w) s) mine s;
          s = s\<lparr>cs_watched := filter (\<lambda>(_, w). wt_conn w \<noteq> conn) (cs_watched s)\<rparr>;
          rows = (if conn = [] then [] else first_per_repo [] (ce_watch_rows env conn))
      in fold (\<lambda>w s. persist_watched env (disable_watch env w) s) rows s)"

text \<open>\<^verbatim>\<open>softDeleteOtherInstallConnectors\<close>: one live binder for each installation.\<close>

definition soft_delete_one :: "conn_env \<Rightarrow> string \<Rightarrow> string \<Rightarrow> app_conn \<Rightarrow> conn_state \<Rightarrow> conn_state" where
  "soft_delete_one env keep inst c s =
     (if cn_id c = keep \<or> \<not> of_installation inst c then s
      else
        let c = c\<lparr>cn_status := ''deleted'', cn_updated := ce_now env\<rparr>
        in cascade_delete_watched env (cn_id c) (persist_connector env c (store_conn (cn_id c) c s)))"

definition soft_delete_others :: "conn_env \<Rightarrow> string \<Rightarrow> string \<Rightarrow> conn_state \<Rightarrow> conn_state" where
  "soft_delete_others env keep inst s =
     (let inst = trim_space inst; keep = trim_space keep
      in if inst = [] \<or> keep = [] then s
         else fold (soft_delete_one env keep inst) (map snd (cs_conns s)) s)"

subsection \<open>Watches\<close>

text \<open>\<^verbatim>\<open>stampWatchedTenantForConnectorOpts\<close>: the watches of a connector follow its tenancy.\<close>

definition stamp_one :: "conn_env \<Rightarrow> app_conn \<Rightarrow> bool \<Rightarrow> string \<times> watched \<Rightarrow> conn_state \<Rightarrow> conn_state" where
  "stamp_one env c force kw s =
     (let (k, w) = kw; org = trim_space (cn_org c); proj = nz (trim_space (cn_proj c)) (tn_proj (ce_tenancy env))
      in if wt_conn w \<noteq> cn_id c then s
         else if \<not> force \<and> trim_space (wt_org w) \<noteq> [] then s
         else if trim_space (wt_org w) = org \<and> trim_space (wt_proj w) = proj then s
         else
           let w = w\<lparr>wt_org := org, wt_proj := proj, wt_updated := ce_now env\<rparr>
           in persist_watched env w (store_watch k w s))"

definition stamp_watched :: "conn_env \<Rightarrow> app_conn \<Rightarrow> bool \<Rightarrow> conn_state \<Rightarrow> conn_state" where
  "stamp_watched env c force s =
     (if trim_space (cn_org c) = [] then s else fold (stamp_one env c force) (cs_watched s) s)"

text \<open>\<^verbatim>\<open>upsertWatched\<close>: the link group and the hook of an older watch are kept.\<close>

definition upsert_watched ::
  "conn_env \<Rightarrow> string \<Rightarrow> string \<Rightarrow> string \<Rightarrow> string \<Rightarrow> string \<Rightarrow> bool \<Rightarrow> string list \<Rightarrow> string \<Rightarrow> string
     \<Rightarrow> bool \<Rightarrow> bool \<Rightarrow> int \<Rightarrow> conn_state \<Rightarrow> watched \<times> conn_state" where
  "upsert_watched env org proj conn repo repo_id enabled checks profile min_sev ai_block auto_req score s =
     (let key = watch_key conn repo;
          old = live_watch key s;
          w = \<lparr>wt_id = load_id (ce_sha1hex env) ''watch'' [org, proj, conn, repo], wt_org = org, wt_proj = proj,
               wt_conn = conn, wt_repo = repo, wt_repo_id = repo_id, wt_enabled = enabled,
               wt_service = replace_all repo ''/'' ''-'', wt_profile = profile,
               wt_checks = ce_enc_strs env checks, wt_min_sev = min_sev, wt_ai_block = ai_block,
               wt_auto_req = auto_req, wt_min_score = clamp_score score,
               wt_group = (case old of None \<Rightarrow> [] | Some w \<Rightarrow> wt_group w),
               wt_hook = (case old of None \<Rightarrow> 0 | Some w \<Rightarrow> wt_hook w),
               wt_secret = (case old of None \<Rightarrow> [] | Some w \<Rightarrow> wt_secret w),
               wt_mode = (case old of None \<Rightarrow> ''app'' | Some w \<Rightarrow> nz (wt_mode w) ''app''),
               wt_updated = ce_now env\<rparr>
      in (w, persist_watched env w (store_watch key w s)))"

definition connector_usable_for_watch :: "app_conn option \<Rightarrow> bool" where
  "connector_usable_for_watch co =
     (case co of
        None \<Rightarrow> False
      | Some c \<Rightarrow>
          cn_status c \<noteq> ''deleted'' \<and> conn_status_is ''active'' c \<and>
          (trim_space (cn_org c) \<noteq> [] \<or>
           (infer_legacy_scope (cn_org c) (cn_scope c) = ''user'' \<and> trim_space (cn_user c) \<noteq> [])))"

text \<open>A filter that may hydrate connectors as it goes.\<close>

fun usable_watches :: "conn_env \<Rightarrow> watched list \<Rightarrow> conn_state \<Rightarrow> watched list \<times> conn_state" where
  "usable_watches env [] s = ([], s)"
| "usable_watches env (w # ws) s =
     (let (c, s) = get_or_hydrate env (wt_conn w) s; (rest, s) = usable_watches env ws s
      in (if connector_usable_for_watch c then w # rest else rest, s))"

definition watch_score :: "app_conn option \<Rightarrow> watched \<Rightarrow> int" where
  "watch_score co w =
     (case co of Some c \<Rightarrow> (if cn_kind c = ''github_app'' \<and> cn_inst c \<noteq> [] then 100 else 0) | None \<Rightarrow> 0) +
     (if wt_auto_req w then 10 else 0) + (if contains (wt_checks w) ''ai_review'' then 5 else 0)"

text \<open>The first watch with the greatest score.\<close>

fun best_watch :: "conn_env \<Rightarrow> watched list \<Rightarrow> watched option \<times> int \<Rightarrow> conn_state \<Rightarrow> watched option \<times> conn_state" where
  "best_watch env [] best s = (fst best, s)"
| "best_watch env (w # ws) best s =
     (let (c, s) = get_or_hydrate env (wt_conn w) s; n = watch_score c w
      in best_watch env ws (if snd best < n then (Some w, n) else best) s)"

definition prefer_watched_for_checks :: "conn_env \<Rightarrow> watched list \<Rightarrow> conn_state \<Rightarrow> watched option \<times> conn_state" where
  "prefer_watched_for_checks env cands s =
     (let (usable, s) = usable_watches env cands s
      in case usable of
           [] \<Rightarrow> (None, s)
         | [w] \<Rightarrow> (Some w, s)
         | w # _ \<Rightarrow>
             (let (best, s) = best_watch env usable (None, -1) s
              in (case best of None \<Rightarrow> (Some w, s) | Some b \<Rightarrow> (Some b, s))))"

definition find_watched ::
  "conn_env \<Rightarrow> string \<Rightarrow> conn_state \<Rightarrow> (watched option \<times> app_conn option) \<times> conn_state" where
  "find_watched env repo s =
     (let (cands, s) = usable_watches env
            (filter (\<lambda>w. wt_enabled w \<and> equal_fold (wt_repo w) repo) (map snd (cs_watched s))) s
      in if cands = [] then ((None, None), s)
         else
           let (found, s) = prefer_watched_for_checks env cands s
           in case found of
                None \<Rightarrow> ((None, None), s)
              | Some w \<Rightarrow> (let (c, s) = get_or_hydrate env (wt_conn w) s in ((Some w, c), s)))"

definition find_watched_for_connector_repo :: "string \<Rightarrow> string \<Rightarrow> conn_state \<Rightarrow> watched option" where
  "find_watched_for_connector_repo conn repo s =
     (let conn = trim_space conn; repo = trim_space repo
      in if conn = [] \<or> repo = [] then None else live_watch (watch_key conn repo) s)"

subsection \<open>Provisioning connectors and watches\<close>

definition meta_set :: "string \<Rightarrow> jv \<Rightarrow> jobj \<Rightarrow> jobj" where
  "meta_set k v m = AList.update k v m"

definition meta_drop :: "string \<Rightarrow> jobj \<Rightarrow> jobj" where
  "meta_drop k m = AList.delete k m"

text \<open>\<^verbatim>\<open>mintConnectorClaimNonce\<close>: the token and its digest.\<close>

definition mint_claim_nonce :: "conn_env \<Rightarrow> (string \<times> string) option" where
  "mint_claim_nonce env = map_option (\<lambda>raw. (raw, ce_sha256hex env raw)) (ce_nonce env)"

definition pending_id :: "conn_env \<Rightarrow> string \<Rightarrow> string" where
  "pending_id env inst = load_id (ce_sha1hex env) ''conn'' [''pending'', ''pending'', ''github_app'', inst]"

definition new_pending :: "conn_env \<Rightarrow> string \<Rightarrow> string \<Rightarrow> jobj \<Rightarrow> app_conn" where
  "new_pending env inst login m =
     \<lparr>cn_id = pending_id env inst, cn_org = [], cn_proj = [], cn_scope = ''org'', cn_user = [],
      cn_kind = ''github_app'', cn_inst = inst, cn_status = ''pending_claim'', cn_token = [],
      cn_login = login, cn_meta = m, cn_created = ce_now env, cn_updated = ce_now env\<rparr>"

text \<open>What \<^verbatim>\<open>ensureGitHubAppConnector\<close> changes of a connector it finds.\<close>

definition refresh_app_conn :: "conn_env \<Rightarrow> string \<Rightarrow> app_conn \<Rightarrow> bool \<times> app_conn" where
  "refresh_app_conn env login c =
     (let (ch, c) = (if login \<noteq> [] \<and> trim_space (cn_login c) = [] then (True, c\<lparr>cn_login := login\<rparr>) else (False, c))
      in if conn_status_is ''pending_claim'' c \<and> trim_space (sprint (jget (cn_meta c) ''claim_nonce_hash'')) = [] then
           (case mint_claim_nonce env of
              None \<Rightarrow> (ch, c)
            | Some (raw, h) \<Rightarrow>
                (True, c\<lparr>cn_meta := meta_set ''auto_provisioned'' (JBool True)
                          (meta_set ''claim_nonce_hash'' (JStr h) (meta_set ''pending_claim'' (JBool True) (cn_meta c)))\<rparr>))
         else (ch, c))"

definition ensure_github_app_connector ::
  "conn_env \<Rightarrow> string \<Rightarrow> string \<Rightarrow> conn_state \<Rightarrow> app_conn option \<times> conn_state" where
  "ensure_github_app_connector env installation login s =
     (let inst = trim_space installation
      in if inst = [] \<or> \<not> github_app_configured (ce_getenv env) then (None, s)
         else case find_connector_by_installation inst s of
           Some c \<Rightarrow>
             (let (changed, c) = refresh_app_conn env login c;
                  c = (if changed then c\<lparr>cn_updated := ce_now env\<rparr> else c);
                  s = (if changed then persist_connector env c (store_conn (cn_id c) c s) else s)
              in (Some c, soft_delete_others env (cn_id c) inst s))
         | None \<Rightarrow>
             (let m = (case mint_claim_nonce env of None \<Rightarrow> [] | Some (raw, h) \<Rightarrow> [(''claim_nonce_hash'', JStr h)]);
                  c = new_pending env inst login
                        ([(''auto_provisioned'', JBool True), (''pending_claim'', JBool True)] @ m);
                  s = persist_connector env c (store_conn (cn_id c) c s)
              in (Some c, soft_delete_others env (cn_id c) inst s)))"

text \<open>\<^verbatim>\<open>autoWatchInstalledRepo\<close>: the policy of the first watch of the repository is cloned.\<close>

definition watch_policy :: "conn_env \<Rightarrow> string \<Rightarrow> conn_state \<Rightarrow> string list \<times> bool \<times> int \<times> string" where
  "watch_policy env repo s =
     (let def = default_watched_checks (ce_getenv env);
          (checks, auto_req, score, sev) =
            (case List.find (\<lambda>w. equal_fold (wt_repo w) repo) (map snd (cs_watched s)) of
               None \<Rightarrow> (def, True, 0, ''high'')
             | Some w \<Rightarrow>
                 (case (if wt_checks w = [] then None else ce_dec_strs env (wt_checks w)) of
                    None \<Rightarrow> def | Some cs \<Rightarrow> (if cs = [] then def else cs),
                  wt_auto_req w, wt_min_score w, nz (wt_min_sev w) ''high''))
      in (if wants_ora_review checks then checks else checks @ [''ora:review''], auto_req, score, sev))"

definition auto_watch_installed_repo ::
  "conn_env \<Rightarrow> app_conn option \<Rightarrow> string \<Rightarrow> conn_state \<Rightarrow> watched option \<times> conn_state" where
  "auto_watch_installed_repo env co repo s =
     (case co of
        None \<Rightarrow> (None, s)
      | Some c \<Rightarrow>
          (let repo = trim_space repo
           in if repo = [] then (None, s)
              else case (case live_watch (watch_key (cn_id c) repo) s of
                           Some w \<Rightarrow> (if wt_enabled w then Some w else None) | None \<Rightarrow> None) of
                Some w \<Rightarrow> (Some w, s)
              | None \<Rightarrow>
                  (let (checks, auto_req, score, sev) = watch_policy env repo s;
                       (w, s) = upsert_watched env (cn_org c) (cn_proj c) (cn_id c) repo [] True checks ''auto'' sev
                                  False auto_req score s
                   in (Some w, s))))"

subsection \<open>The directory of the account product\<close>

definition peer_oam_base_url :: "genv \<Rightarrow> string" where
  "peer_oam_base_url getenv = rev (dropWhile (\<lambda>c. c = CHR ''/'') (rev (trim_space (getenv ''PEER_OAM_URL''))))"

definition directory_id :: "oam_project \<Rightarrow> string" where
  "directory_id p = (if trim_space (op_id p) = [] then trim_space (op_project p) else trim_space (op_id p))"

definition normalize_repo_full_name :: "string \<Rightarrow> string" where
  "normalize_repo_full_name s = to_lower (trim_space s)"

text \<open>
  \<^verbatim>\<open>listOAMDirectoryProjects\<close> and \<^verbatim>\<open>lookupOAMProjectByExternalKey\<close>; the query asks for the
  organization unless it is empty or \<open>all\<close>.
\<close>

definition list_oam_projects :: "conn_env \<Rightarrow> string \<Rightarrow> string + oam_project list" where
  "list_oam_projects env org =
     (if peer_oam_base_url (ce_getenv env) = [] then Inl ''PEER_OAM_URL unset''
      else ce_oam env (trim_space org))"

definition lookup_oam_project :: "conn_env \<Rightarrow> string \<Rightarrow> string \<Rightarrow> string + oam_project option" where
  "lookup_oam_project env org repo =
     (let want = normalize_repo_full_name repo
      in if want = [] \<or> \<not> contains want ''/'' then Inr None
         else case list_oam_projects env org of
           Inl e \<Rightarrow> Inl e
         | Inr ps \<Rightarrow> Inr (List.find (\<lambda>p. normalize_repo_full_name (op_key p) = want) ps))"

definition resolve_connector_on_oam_project :: "oam_project option \<Rightarrow> string \<Rightarrow> string + string" where
  "resolve_connector_on_oam_project po conn =
     (case po of
        None \<Rightarrow> Inl ''no OAM project with ora enabled for repo''
      | Some p \<Rightarrow>
          (let conn = trim_space conn; bound = filter (\<lambda>t. t \<noteq> []) (map trim_space (op_conns p))
           in if conn \<noteq> [] then
                (if conn \<in> set bound then Inr conn else Inl ''connector not bound on OAM project'')
              else (case bound of
                      [] \<Rightarrow> Inl ''project has no connector_ids''
                    | [c] \<Rightarrow> Inr c
                    | _ \<Rightarrow> Inl ''connector not bound on OAM project'')))"

definition ensure_watched_from_oam ::
  "conn_env \<Rightarrow> string \<Rightarrow> string \<Rightarrow> string \<Rightarrow> conn_state \<Rightarrow> (string + watched \<times> app_conn) \<times> conn_state" where
  "ensure_watched_from_oam env org repo conn s =
     (let repo = trim_space repo; org = trim_space org
      in if peer_oam_base_url (ce_getenv env) = [] then (Inl ''PEER_OAM_URL unset'', s)
         else if repo = [] then (Inl ''repo required'', s)
         else case lookup_oam_project env org repo of
           Inl e \<Rightarrow> (Inl (''could not verify OAM project enablement: '' @ e), s)
         | Inr None \<Rightarrow> (Inl ''no OAM project with ora enabled for repo'', s)
         | Inr (Some p) \<Rightarrow>
             (case resolve_connector_on_oam_project (Some p) conn of
                Inl why \<Rightarrow> (Inl why, s)
              | Inr cid \<Rightarrow>
                  (let (co, s) = get_or_hydrate env cid s
                   in case co of
                        None \<Rightarrow> (Inl ''connector not found locally'', s)
                      | Some c \<Rightarrow>
                          (let org = (if org \<noteq> [] then org
                                      else if trim_space (op_org p) \<noteq> [] then trim_space (op_org p)
                                      else trim_space (cn_org c));
                               proj = (if directory_id p \<noteq> [] then directory_id p else trim_space (cn_proj c))
                           in case (case live_watch (watch_key (cn_id c) repo) s of
                                      Some w \<Rightarrow> (if wt_enabled w then Some w else None) | None \<Rightarrow> None) of
                                Some w \<Rightarrow> (Inr (w, c), s)
                              | None \<Rightarrow>
                                  (let (w, s) = upsert_watched env org proj (cn_id c) repo [] True
                                         (default_watched_checks (ce_getenv env)) ''auto'' ''high'' False False 0 s
                                   in (Inr (w, c), s))))))"

end
