(* ===== verification/Conn_Claim.thy ===== *)
theory Conn_Claim
  imports Conn_Store
begin

text \<open>
  How an installation of the GitHub App is bound to an organization or a person
  (\<^verbatim>\<open>src/scm_install_state.go\<close>, \<^verbatim>\<open>src/scm_install_intent.go\<close>, the handlers of
  \<^verbatim>\<open>src/scm_connectors.go\<close>): the signed install state, the recorded intents, the setup callback, the
  claim by token, finishing an install, reminting a token, and the handlers that connect, edit and
  delete a connector and its watches.

  What a handler reads of a request is the record \<open>open_request\<close>; the JWT library is the parameter
  \<open>verify\<close> (the text claims org, proj and user of a token that is HS256, for the audience and issuer,
  unexpired and signed with the key) and \<open>sign\<close>.
\<close>

subsection \<open>Install state\<close>

record key_env =
  ke_getenv :: genv
  ke_jwt_secret :: string
  ke_ephemeral :: bool
  ke_placeholder :: string

record install_state =
  is_org :: string
  is_proj :: string
  is_user :: string

definition env_truthy :: "genv \<Rightarrow> string \<Rightarrow> bool" where
  "env_truthy getenv name \<longleftrightarrow> to_lower (trim_space (getenv name)) \<in> {''1'', ''true'', ''yes'', ''on''}"

definition install_state_preferred_key :: "key_env \<Rightarrow> string option" where
  "install_state_preferred_key K =
     (let ded = trim_space (ke_getenv K ''OPA_GITHUB_INSTALL_STATE_SECRET''); jwt = trim_space (ke_getenv K ''JWT_SECRET'')
      in if 16 \<le> length ded then Some ded
         else if 32 \<le> length jwt \<and> jwt \<noteq> ke_placeholder K then Some jwt
         else if 16 \<le> length (ke_jwt_secret K) \<and> \<not> ke_ephemeral K then Some (ke_jwt_secret K)
         else None)"

definition add_key :: "string list \<Rightarrow> string \<Rightarrow> string list" where
  "add_key keys b = (if length b < 16 \<or> b \<in> set keys then keys else keys @ [b])"

definition install_state_verify_keys :: "key_env \<Rightarrow> string list" where
  "install_state_verify_keys K =
     (let ded = trim_space (ke_getenv K ''OPA_GITHUB_INSTALL_STATE_SECRET'');
          legacy = env_truthy (ke_getenv K) ''OPA_GITHUB_INSTALL_STATE_ACCEPT_LEGACY'';
          keys = (if 16 \<le> length ded then add_key [] ded else [])
      in if 16 \<le> length ded \<and> \<not> legacy then keys
         else
           let keys = (case install_state_preferred_key K of Some k \<Rightarrow> add_key keys k | None \<Rightarrow> keys);
               svc = trim_space (ke_getenv K ''OPEN_SERVICE_JWT_SECRET'')
           in if (legacy \<or> ded = []) \<and> 16 \<le> length svc then add_key keys svc else keys)"

definition mint_install_state ::
  "key_env \<Rightarrow> (string \<Rightarrow> install_state \<Rightarrow> string) \<Rightarrow> string \<Rightarrow> string \<Rightarrow> string \<Rightarrow> string \<Rightarrow> string option" where
  "mint_install_state K sign default_proj org proj user =
     (case install_state_preferred_key K of
        None \<Rightarrow> None
      | Some key \<Rightarrow>
          (let org = trim_space org; proj = trim_space proj; user = trim_space user
           in if org = [] \<and> user = [] then None
              else Some (sign key \<lparr>is_org = org, is_proj = (if proj = [] then default_proj else proj), is_user = user\<rparr>)))"

fun parse_with_keys ::
  "(string \<Rightarrow> string \<Rightarrow> install_state option) \<Rightarrow> string \<Rightarrow> string list \<Rightarrow> install_state option" where
  "parse_with_keys verify raw [] = None"
| "parse_with_keys verify raw (key # keys) =
     (case verify key raw of
        None \<Rightarrow> parse_with_keys verify raw keys
      | Some st \<Rightarrow>
          (let org = trim_space (is_org st); user = trim_space (is_user st)
           in if org = [] \<and> user = [] then parse_with_keys verify raw keys
              else Some \<lparr>is_org = org, is_proj = trim_space (is_proj st), is_user = user\<rparr>))"

definition parse_install_state ::
  "key_env \<Rightarrow> (string \<Rightarrow> string \<Rightarrow> install_state option) \<Rightarrow> string \<Rightarrow> install_state option" where
  "parse_install_state K verify raw =
     (let raw = trim_space raw in if raw = [] then None else parse_with_keys verify raw (install_state_verify_keys K))"

subsection \<open>Install intents\<close>

definition intent_ttl :: int where
  "intent_ttl = 45 * 60 * 1000000000"

definition install_intent_key :: "string \<Rightarrow> string \<Rightarrow> bool \<Rightarrow> string" where
  "install_intent_key user org personal =
     (let user = trim_space user; org = trim_space org
      in if personal \<or> org = [] then ''user:'' @ user else ''org:'' @ org @ ''|user:'' @ user)"

definition prune_intents :: "int \<Rightarrow> conn_state \<Rightarrow> conn_state" where
  "prune_intents now s = s\<lparr>cs_intents := filter (\<lambda>(_, i). now < in_expires i) (cs_intents s)\<rparr>"

definition remember_install_intent ::
  "conn_env \<Rightarrow> string \<Rightarrow> string \<Rightarrow> string \<Rightarrow> bool \<Rightarrow> conn_state \<Rightarrow> conn_state" where
  "remember_install_intent env org proj user personal s =
     (let user = trim_space user; org = (if personal then [] else trim_space org); proj = trim_space proj;
          tn = ce_tenancy env;
          proj = (if proj = [] \<or> proj = tn_all tn then tn_proj tn else proj)
      in if user = [] then s
         else
           let s = prune_intents (ce_nanos env) s
           in s\<lparr>cs_intents := AList.update (install_intent_key user org personal)
                 \<lparr>in_org = org, in_proj = proj, in_user = user, in_personal = personal, in_minted = ce_nanos env,
                  in_expires = ce_nanos env + intent_ttl\<rparr> (cs_intents s)\<rparr>)"

definition peek_install_intent ::
  "conn_env \<Rightarrow> string \<Rightarrow> string \<Rightarrow> bool \<Rightarrow> conn_state \<Rightarrow> install_intent option \<times> conn_state" where
  "peek_install_intent env user org personal s =
     (let user = trim_space user
      in if user = [] then (None, s)
         else let s = prune_intents (ce_nanos env) s
              in (map_of (cs_intents s) (install_intent_key user org personal), s))"

definition consume_install_intent ::
  "conn_env \<Rightarrow> string \<Rightarrow> string \<Rightarrow> bool \<Rightarrow> conn_state \<Rightarrow> install_intent option \<times> conn_state" where
  "consume_install_intent env user org personal s =
     (let (i, s) = peek_install_intent env user org personal s
      in case i of
           None \<Rightarrow> (None, s)
         | Some i \<Rightarrow> (Some i, s\<lparr>cs_intents := AList.delete (install_intent_key (trim_space user) org personal) (cs_intents s)\<rparr>))"

subsection \<open>Requests and answers\<close>

record open_request =
  oq_actor :: cred_actor
  oq_personal :: bool
  oq_claim_org :: string
  oq_tenant :: "(string \<times> string) option"
  oq_peer :: bool

text \<open>
  An answer: an error status with its code, a redirect to the dashboard with the connector shown and
  the claim token in the fragment, a connector (with the flag that it was bound before), a reminted
  token, or done.
\<close>

datatype conn_reply =
    Refused nat string
  | Redirected string string
  | Bound app_conn bool
  | TokenIssued string string
  | Done

definition refuse_oam_local_write :: "conn_env \<Rightarrow> open_request \<Rightarrow> bool" where
  "refuse_oam_local_write env q \<longleftrightarrow> peer_product_configured (ce_getenv env) ''PEER_OAM_URL'' \<and> \<not> oq_peer q"

text \<open>\<^verbatim>\<open>claimTenantFromRequest\<close>: organization, project, user and scope a claim binds to.\<close>

definition claim_tenant :: "conn_env \<Rightarrow> open_request \<Rightarrow> string + (string \<times> string \<times> string \<times> string)" where
  "claim_tenant env q =
     (let a = oq_actor q; tn = ce_tenancy env;
          org = trim_space (ac_org a); proj = trim_space (ac_proj a);
          org = (if trim_space (oq_claim_org q) \<noteq> [] then trim_space (oq_claim_org q) else org);
          (org, proj) = (if \<not> oq_personal q \<and> org = []
                         then (case oq_tenant q of Some t \<Rightarrow> t | None \<Rightarrow> (org, proj)) else (org, proj));
          org = trim_space org; uid = trim_space (ac_user a);
          proj' = (if proj = [] \<or> proj = tn_all tn then tn_proj tn else proj)
      in if oq_personal q then
           (if uid = [] then Inl ''username required for personal GitHub App claim''
            else Inr ([], proj', uid, ''user''))
         else if org = [] then Inl ''organization_id required''
         else Inr (org, proj', uid, ''org''))"

subsection \<open>Binding\<close>

definition bind_conn ::
  "conn_env \<Rightarrow> app_conn \<Rightarrow> app_conn \<Rightarrow> conn_state \<Rightarrow> conn_state" where
  "bind_conn env c prev s =
     (let s = persist_connector_org_move env c (cn_org prev) (cn_proj prev) (store_conn (cn_id c) c s);
          s = soft_delete_others env (cn_id c) (cn_inst c) s
      in stamp_watched env c True s)"

text \<open>\<^verbatim>\<open>activatePendingConnectorLocked\<close>.\<close>

definition activated ::
  "conn_env \<Rightarrow> string \<Rightarrow> string \<Rightarrow> string \<Rightarrow> string \<Rightarrow> bool \<Rightarrow> string \<Rightarrow> app_conn \<Rightarrow> app_conn" where
  "activated env org proj uid scope personal via c =
     (let m = meta_drop ''claim_nonce_hash'' (meta_drop ''pending_claim'' (cn_meta c));
          m = meta_set ''claimed_at'' (JStr (ce_now env)) m;
          m = (if uid \<noteq> [] then meta_set ''claimed_by'' (JStr uid) m else m);
          m = (if via \<noteq> [] then meta_set ''bound_via'' (JStr via) m else m);
          m = (if personal then meta_set ''claimed_user_id'' (JStr uid) m
               else meta_set ''claimed_organization_id'' (JStr org) m);
          m = meta_set ''claimed_project_id'' (JStr proj) m
      in c\<lparr>cn_org := org, cn_proj := proj, cn_scope := scope, cn_user := (if uid \<noteq> [] then uid else cn_user c),
           cn_status := ''active'', cn_updated := ce_now env, cn_meta := m\<rparr>)"

definition activate_pending ::
  "conn_env \<Rightarrow> app_conn \<Rightarrow> string \<times> string \<times> string \<times> string \<Rightarrow> bool \<Rightarrow> string \<Rightarrow> conn_state
     \<Rightarrow> app_conn \<times> conn_state" where
  "activate_pending env c tenant personal via s =
     (case tenant of (org, proj, uid, scope) \<Rightarrow>
        (let c' = activated env org proj uid scope personal via c in (c', bind_conn env c' c s)))"

subsection \<open>The setup callback\<close>

text \<open>A connector bound by a signed state.\<close>

definition state_bound ::
  "conn_env \<Rightarrow> string \<Rightarrow> string \<Rightarrow> string \<Rightarrow> string \<Rightarrow> string \<Rightarrow> app_conn \<Rightarrow> app_conn" where
  "state_bound env inst setup org proj user c =
     (let m = meta_drop ''claim_nonce_hash'' (meta_drop ''pending_claim'' (cn_meta c));
          m = meta_set ''setup_action'' (JStr setup) m;
          m = meta_set ''bound_via'' (JStr ''install_state'') m;
          m = meta_set ''bound_at'' (JStr (ce_now env)) m;
          m = (if user \<noteq> [] then meta_set ''bound_by'' (JStr user) m else m)
      in c\<lparr>cn_org := org, cn_proj := proj, cn_scope := (if org = [] then ''user'' else ''org''), cn_user := user,
           cn_kind := ''github_app'', cn_inst := inst, cn_status := ''active'', cn_meta := m,
           cn_updated := ce_now env, cn_created := nz (cn_created c) (ce_now env)\<rparr>)"

text \<open>A connector left pending with a fresh nonce.\<close>

definition orphaned :: "conn_env \<Rightarrow> string \<Rightarrow> string \<Rightarrow> app_conn \<Rightarrow> app_conn" where
  "orphaned env setup hash c =
     (let m = meta_set ''setup_action'' (JStr setup) (cn_meta c);
          m = meta_set ''pending_claim'' (JBool True) m;
          m = meta_set ''claim_nonce_hash'' (JStr hash) m
      in c\<lparr>cn_status := ''pending_claim'', cn_org := [], cn_proj := [], cn_meta := m, cn_updated := ce_now env,
           cn_created := nz (cn_created c) (ce_now env)\<rparr>)"

definition shown_connector :: "app_conn \<Rightarrow> string \<Rightarrow> string \<Rightarrow> string" where
  "shown_connector c org user =
     (if org \<noteq> [] \<and> cn_org c = org then cn_id c
      else if org = [] \<and> user \<noteq> [] \<and> trim_space (cn_user c) = user \<and> trim_space (cn_org c) = [] then cn_id c
      else [])"

text \<open>The connector a signed state binds: the pending one, or a new one under an id of the tenant.\<close>

definition state_conn ::
  "conn_env \<Rightarrow> string \<Rightarrow> string \<Rightarrow> string \<Rightarrow> string \<Rightarrow> app_conn option \<Rightarrow> app_conn" where
  "state_conn env inst org proj user pending =
     (case pending of
        Some c \<Rightarrow> c
      | None \<Rightarrow>
          (new_pending env inst [] [])
            \<lparr>cn_id := load_id (ce_sha1hex env) ''conn''
                [if org = [] then ''user:'' @ user else org, proj, ''github_app'', inst],
             cn_scope := (if org = [] then ''user'' else ''org''), cn_status := [], cn_updated := []\<rparr>)"

definition callback_bind ::
  "conn_env \<Rightarrow> string \<Rightarrow> string \<Rightarrow> string \<Rightarrow> string \<Rightarrow> string \<Rightarrow> app_conn option \<Rightarrow> conn_state
     \<Rightarrow> conn_reply \<times> conn_state" where
  "callback_bind env inst setup org proj user pending s =
     (let c = state_conn env inst org proj user pending; c' = state_bound env inst setup org proj user c
      in (Redirected (cn_id c') [], bind_conn env c' c s))"

definition callback_orphan ::
  "conn_env \<Rightarrow> string \<Rightarrow> string \<Rightarrow> app_conn option \<Rightarrow> conn_state \<Rightarrow> conn_reply \<times> conn_state" where
  "callback_orphan env inst setup pending s =
     (case mint_claim_nonce env of
        None \<Rightarrow> (Refused 500 ''claim nonce unavailable'', s)
      | Some (raw, h) \<Rightarrow>
          (let c = orphaned env setup h
                     (case pending of
                        Some c \<Rightarrow> c | None \<Rightarrow> (new_pending env inst [] [])\<lparr>cn_status := [], cn_updated := []\<rparr>);
               s = persist_connector env c (store_conn (cn_id c) c s)
           in (Redirected (cn_id c) raw, soft_delete_others env (cn_id c) inst s)))"

text \<open>Organization, project and user of a state; all empty when there is none or it does not parse.\<close>

definition state_tenant ::
  "conn_env \<Rightarrow> (string \<Rightarrow> install_state option) \<Rightarrow> string \<Rightarrow> string \<times> string \<times> string" where
  "state_tenant env parse state =
     (let st = (if trim_space state = [] then None else parse (trim_space state)); tn = ce_tenancy env;
          get = (\<lambda>f. case st of None \<Rightarrow> [] | Some t \<Rightarrow> trim_space (f t)); proj = get is_proj
      in (get is_org, if proj = [] \<or> proj = tn_all tn then tn_proj tn else proj, get is_user))"

definition handle_github_callback ::
  "conn_env \<Rightarrow> (string \<Rightarrow> install_state option) \<Rightarrow> string \<Rightarrow> string \<Rightarrow> string \<Rightarrow> conn_state
     \<Rightarrow> conn_reply \<times> conn_state" where
  "handle_github_callback env parse installation setup state s =
     (let inst = trim_space installation; setup = trim_space setup;
          (org, proj, user) = state_tenant env parse state;
          existing = find_connector_by_installation inst s;
          pending = (case existing of Some c \<Rightarrow> (if conn_status_is ''pending_claim'' c then Some c else None) | None \<Rightarrow> None)
      in if inst = [] then (Refused 400 ''installation_id required'', s)
         else case (case existing of Some c \<Rightarrow> (if conn_status_is ''active'' c then Some c else None) | None \<Rightarrow> None) of
           Some c \<Rightarrow> (Redirected (shown_connector c org user) [], soft_delete_others env (cn_id c) inst s)
         | None \<Rightarrow>
             (if org \<noteq> [] \<or> user \<noteq> [] then callback_bind env inst setup org proj user pending s
              else callback_orphan env inst setup pending s))"

subsection \<open>Claiming\<close>

definition handle_connector_claim ::
  "conn_env \<Rightarrow> open_request \<Rightarrow> string \<Rightarrow> string \<Rightarrow> conn_state \<Rightarrow> conn_reply \<times> conn_state" where
  "handle_connector_claim env q cid token s =
     (let token = trim_space token
      in if refuse_oam_local_write env q then (Refused 503 ''credentials_home_oam'', s)
         else if token = [] then (Refused 400 ''claim_token required'', s)
         else
           let (co, s) = get_or_hydrate env cid s
           in case co of
                None \<Rightarrow> (Refused 404 ''not found'', s)
              | Some c \<Rightarrow>
                  (if cn_status c = ''deleted'' then (Refused 404 ''not found'', s)
                   else if \<not> conn_status_is ''pending_claim'' c then (Refused 409 ''not_pending_claim'', s)
                   else
                     let want = trim_space (as_str (jget (cn_meta c) ''claim_nonce_hash''))
                     in if want = [] \<or> want \<noteq> ce_sha256hex env token then (Refused 403 ''invalid claim_token'', s)
                        else case claim_tenant env q of
                          Inl e \<Rightarrow> (Refused 400 e, s)
                        | Inr t \<Rightarrow>
                            (let (c', s) = activate_pending env c t (oq_personal q) ''claim_token'' s in (Bound c' False, s))))"

text \<open>
  \<^verbatim>\<open>listPendingClaimConnectorsLocked\<close>: the live ones, then those of the rows ClickHouse lists, which
  may be hydrated on the way.
\<close>

definition add_pending :: "app_conn \<Rightarrow> app_conn list \<Rightarrow> app_conn list" where
  "add_pending c out =
     (if cn_status c = ''deleted'' \<or> \<not> conn_status_is ''pending_claim'' c \<or> cn_id c \<in> cn_id ` set out then out
      else out @ [c])"

fun add_pending_rows ::
  "conn_env \<Rightarrow> (string \<Rightarrow> string) list \<Rightarrow> app_conn list \<Rightarrow> conn_state \<Rightarrow> app_conn list \<times> conn_state" where
  "add_pending_rows env [] out s = (out, s)"
| "add_pending_rows env (row # rows) out s =
     (if row ''id'' = [] then add_pending_rows env rows out s
      else
        let (co, s) = get_or_hydrate env (row ''id'') s
        in case co of
             Some c \<Rightarrow> add_pending_rows env rows (add_pending c out) s
           | None \<Rightarrow>
               (case connector_from_ch_row env row False of
                  None \<Rightarrow> add_pending_rows env rows out s
                | Some c \<Rightarrow> add_pending_rows env rows (add_pending c out) s))"

definition list_pending_connectors ::
  "conn_env \<Rightarrow> (string \<Rightarrow> string) list \<Rightarrow> conn_state \<Rightarrow> app_conn list \<times> conn_state" where
  "list_pending_connectors env rows s = add_pending_rows env rows (fold add_pending (map snd (cs_conns s)) []) s"

text \<open>\<open>when\<close> reads a stored time stamp as nanoseconds, an unreadable one as the zero time.\<close>

definition seen_since :: "(string \<Rightarrow> int) \<Rightarrow> int \<Rightarrow> app_conn \<Rightarrow> bool" where
  "seen_since when minted c \<longleftrightarrow> minted - 120 * 1000000000 \<le> max (when (cn_updated c)) (when (cn_created c))"

text \<open>\<open>tenant\<close> is organization, project, user and scope of the session.\<close>

definition finish_by_installation ::
  "conn_env \<Rightarrow> open_request \<Rightarrow> string \<times> string \<times> string \<times> string \<Rightarrow> string \<Rightarrow> conn_state \<Rightarrow> conn_reply \<times> conn_state" where
  "finish_by_installation env q tenant inst s =
     (case find_connector_by_installation inst s of
        None \<Rightarrow> (Refused 404 ''not_found'', s)
      | Some c \<Rightarrow>
          (if conn_status_is ''active'' c then
             (if can_see_connector (ce_tenancy env) (oq_actor q) (Some (connector.truncate c))
              then (Bound c True, s) else (Refused 409 ''already_bound'', s))
           else if \<not> conn_status_is ''pending_claim'' c then (Refused 409 ''not_pending_claim'', s)
           else
             let s = snd (consume_install_intent env (fst (snd (snd tenant))) (fst tenant) (oq_personal q) s);
                 (c', s) = activate_pending env c tenant (oq_personal q) ''finish_install_installation_id'' s
             in (Bound c' False, s)))"

definition finish_by_intent ::
  "conn_env \<Rightarrow> (string \<Rightarrow> int) \<Rightarrow> (string \<Rightarrow> string) list \<Rightarrow> open_request \<Rightarrow> string \<times> string \<times> string \<times> string
     \<Rightarrow> conn_state \<Rightarrow> conn_reply \<times> conn_state" where
  "finish_by_intent env when rows q tenant s =
     (let uid = fst (snd (snd tenant)); (intent, s) = peek_install_intent env uid (fst tenant) (oq_personal q) s
      in case intent of
           None \<Rightarrow> (Refused 409 ''no_install_intent'', s)
         | Some i \<Rightarrow>
             (let (pendings, s) = list_pending_connectors env rows s
              in case filter (seen_since when (in_minted i)) pendings of
                   [] \<Rightarrow> (Refused 409 ''no_pending_install'', s)
                 | [c] \<Rightarrow>
                     (let s = snd (consume_install_intent env uid (fst tenant) (oq_personal q) s);
                          (c', s) = activate_pending env c tenant (oq_personal q) ''finish_install_intent'' s
                      in (Bound c' False, s))
                 | _ \<Rightarrow> (Refused 409 ''multiple_pending'', s)))"

definition handle_finish_install ::
  "conn_env \<Rightarrow> (string \<Rightarrow> int) \<Rightarrow> (string \<Rightarrow> string) list \<Rightarrow> open_request \<Rightarrow> string \<Rightarrow> conn_state \<Rightarrow> conn_reply \<times> conn_state" where
  "handle_finish_install env when rows q installation s =
     (let inst = trim_space installation
      in if refuse_oam_local_write env q then (Refused 503 ''credentials_home_oam'', s)
         else case claim_tenant env q of
           Inl e \<Rightarrow> (Refused 400 e, s)
         | Inr tenant \<Rightarrow>
             (if inst \<noteq> [] then finish_by_installation env q tenant inst s
              else finish_by_intent env when rows q tenant s))"

text \<open>\<^verbatim>\<open>handleIssueClaimToken\<close>.\<close>

definition handle_issue_claim_token ::
  "conn_env \<Rightarrow> open_request \<Rightarrow> string \<Rightarrow> bool \<Rightarrow> string \<Rightarrow> conn_state \<Rightarrow> conn_reply \<times> conn_state" where
  "handle_issue_claim_token env q installation force prior s =
     (let a = oq_actor q; inst = trim_space installation; prior = trim_space prior
      in if trim_space (ac_user a) = [] \<and> tn_enforced (ce_tenancy env) then (Refused 401 ''authentication required'', s)
         else if inst = [] then (Refused 400 ''installation_id required'', s)
         else case find_connector_by_installation inst s of
           None \<Rightarrow> (Refused 404 ''not found'', s)
         | Some c \<Rightarrow>
             (let hash = trim_space (sprint (jget (cn_meta c) ''claim_nonce_hash''))
              in if \<not> conn_status_is ''pending_claim'' c then (Refused 409 ''not_pending_claim'', s)
                 else if hash \<noteq> [] \<and> \<not> force then (Refused 409 ''claim_token_already_issued'', s)
                 else if hash \<noteq> [] \<and> force \<and> prior \<noteq> [] \<and> hash \<noteq> ce_sha256hex env prior then
                   (Refused 403 ''invalid prior_claim_token'', s)
                 else case mint_claim_nonce env of
                   None \<Rightarrow> (Refused 500 ''claim nonce unavailable'', s)
                 | Some (raw, h) \<Rightarrow>
                     (let m = meta_set ''claim_nonce_hash'' (JStr h) (meta_set ''pending_claim'' (JBool True) (cn_meta c));
                          m = meta_set ''claim_reminted_at'' (JStr (ce_now env)) m;
                          m = (if ac_user a \<noteq> [] then meta_set ''claim_reminted_by'' (JStr (ac_user a)) m else m);
                          m = (if force then meta_set ''claim_remint_forced'' (JBool True) m else m);
                          c = c\<lparr>cn_meta := m, cn_updated := ce_now env\<rparr>
                      in (TokenIssued (cn_id c) raw, persist_connector env c (store_conn (cn_id c) c s)))))"


subsection \<open>Connecting, editing and deleting\<close>

text \<open>\<^verbatim>\<open>handleGitHubPATConnect\<close>; the watches of the repositories it names.\<close>

definition watch_default :: "conn_env \<Rightarrow> app_conn \<Rightarrow> string \<Rightarrow> conn_state \<Rightarrow> conn_state" where
  "watch_default env c repo s =
     (let repo = trim_space repo
      in if repo = [] then s
         else snd (upsert_watched env (cn_org c) (cn_proj c) (cn_id c) repo [] True
                     (default_watched_checks (ce_getenv env)) ''auto'' ''high'' False False 0 s))"

definition pat_conn ::
  "conn_env \<Rightarrow> string \<Rightarrow> string \<Rightarrow> string \<Rightarrow> string \<Rightarrow> string \<Rightarrow> string \<Rightarrow> app_conn" where
  "pat_conn env org proj scope user login token =
     \<lparr>cn_id = load_id (ce_sha1hex env) ''conn'' [org, proj, scope, user, ''github_pat'', login, ce_hex env],
      cn_org = org, cn_proj = proj, cn_scope = scope, cn_user = user, cn_kind = ''github_pat'', cn_inst = [],
      cn_status = ''active'', cn_token = token, cn_login = login, cn_meta = [(''bootstrap'', JBool True)],
      cn_created = ce_now env, cn_updated = ce_now env\<rparr>"

definition handle_github_pat_connect ::
  "conn_env \<Rightarrow> open_request \<Rightarrow> string \<Rightarrow> string \<Rightarrow> string list \<Rightarrow> string \<Rightarrow> conn_state \<Rightarrow> conn_reply \<times> conn_state" where
  "handle_github_pat_connect env q token login repos scope s =
     (let a = oq_actor q; tn = ce_tenancy env
      in if refuse_oam_local_write env q then (Refused 503 ''credentials_home_oam'', s)
         else if trim_space token = [] then (Refused 400 ''token required'', s)
         else case normalize_cred_scope tn scope a of
           Inl e \<Rightarrow> (Refused 400 ''invalid scope'', s)
         | Inr scope \<Rightarrow>
             (case can_write_connector_scope tn a scope of
                Some e \<Rightarrow> (Refused 403 ''forbidden'', s)
              | None \<Rightarrow>
                  (let (org, proj, user) = resolve_cred_target tn a scope;
                       c = pat_conn env org proj scope user (nz login ''pat-user'') token;
                       s = persist_connector env c (store_conn (cn_id c) c s)
                   in (Bound c False, fold (watch_default env c) repos s))))"

text \<open>
  \<^verbatim>\<open>handleConnectorPatch\<close>.  The connector is edited in place, so what was edited before a refusal
  stays in the live map.
\<close>

record patch_body =
  pb_login :: string
  pb_display :: "string option"
  pb_token :: string

definition patched_names :: "patch_body \<Rightarrow> app_conn \<Rightarrow> app_conn" where
  "patched_names b c =
     (let c = (if trim_space (pb_login b) \<noteq> [] then c\<lparr>cn_login := trim_space (pb_login b)\<rparr> else c)
      in case pb_display b of
           None \<Rightarrow> c
         | Some d \<Rightarrow>
             (if trim_space d = [] then c\<lparr>cn_meta := meta_drop ''display_name'' (cn_meta c)\<rparr>
              else c\<lparr>cn_meta := meta_set ''display_name'' (JStr (trim_space d)) (cn_meta c)\<rparr>))"

definition handle_connector_patch ::
  "conn_env \<Rightarrow> open_request \<Rightarrow> string \<Rightarrow> patch_body option \<Rightarrow> conn_state \<Rightarrow> conn_reply \<times> conn_state" where
  "handle_connector_patch env q cid body s =
     (if refuse_oam_local_write env q then (Refused 503 ''credentials_home_oam'', s)
      else
        let (co, s) = get_or_hydrate env cid s
        in case (co, deny_connector_if_immutable (ce_tenancy env) (oq_actor q) (map_option connector.truncate co)) of
             (Some c, None) \<Rightarrow>
               (case body of
                  None \<Rightarrow> (Refused 400 ''bad json'', s)
                | Some b \<Rightarrow>
                    (let c = patched_names b c
                     in if trim_space (pb_token b) \<noteq> [] \<and> cn_kind c \<noteq> ''github_pat'' then
                          (Refused 400 ''token replace only for github_pat connectors'', store_conn (cn_id c) c s)
                        else
                          let c = (if trim_space (pb_token b) \<noteq> [] then c\<lparr>cn_token := trim_space (pb_token b)\<rparr> else c);
                              c = c\<lparr>cn_updated := ce_now env\<rparr>
                          in (Bound c False, persist_connector env c (store_conn cid c s))))
           | (_, code) \<Rightarrow> (Refused (case code of Some n \<Rightarrow> n | None \<Rightarrow> 404) ''denied'', s))"

definition handle_connector_delete ::
  "conn_env \<Rightarrow> open_request \<Rightarrow> string \<Rightarrow> conn_state \<Rightarrow> conn_reply \<times> conn_state" where
  "handle_connector_delete env q cid s =
     (if refuse_oam_local_write env q then (Refused 503 ''credentials_home_oam'', s)
      else
        let (co, s) = get_or_hydrate env cid s;
            co = (case co of
                    Some c \<Rightarrow> Some c
                  | None \<Rightarrow> (case ce_query env cid of
                               None \<Rightarrow> None | Some (row, _) \<Rightarrow> connector_from_ch_row env row False))
        in case (co, deny_connector_if_immutable (ce_tenancy env) (oq_actor q) (map_option connector.truncate co)) of
             (Some c, None) \<Rightarrow>
               (let c = c\<lparr>cn_status := ''deleted'', cn_token := [], cn_updated := ce_now env\<rparr>;
                    s = cascade_delete_watched env cid (persist_connector env c (store_conn cid c s))
                in (Done, s\<lparr>cs_conns := AList.delete cid (cs_conns s)\<rparr>))
           | (_, code) \<Rightarrow> (Refused (case code of Some n \<Rightarrow> n | None \<Rightarrow> 404) ''denied'', s))"

end
