(* ===== verification/Claim_Laws.thy ===== *)
theory Claim_Laws
  imports Conn_Claim
begin

text \<open>
  The handlers of the connector registry as the steps of one system, the well-formedness of the
  registry (every connector under its own id, one live binder per installation of the GitHub App) that
  every handler keeps, and the finality of a binding: once an installation is bound to an organization
  or a person, nothing but a delete of that connector changes it.
\<close>

subsection \<open>Operations as a step\<close>

datatype conn_op =
    OpCallback "string \<Rightarrow> install_state option" string string string
  | OpClaim open_request string string
  | OpFinish "string \<Rightarrow> int" "(string \<Rightarrow> string) list" open_request string
  | OpIssue open_request string bool string
  | OpEnsure string string
  | OpWatch string string
  | OpWatchOam string string string
  | OpFindWatched string
  | OpPat open_request string string "string list" string
  | OpPatch open_request string "patch_body option"
  | OpDelete open_request string
  | OpIntent string string string bool

fun run_op :: "conn_env \<Rightarrow> conn_op \<Rightarrow> conn_state \<Rightarrow> conn_state" where
  "run_op env (OpCallback parse inst setup st) s = snd (handle_github_callback env parse inst setup st s)"
| "run_op env (OpClaim q cid token) s = snd (handle_connector_claim env q cid token s)"
| "run_op env (OpFinish when rows q inst) s = snd (handle_finish_install env when rows q inst s)"
| "run_op env (OpIssue q inst force prior) s = snd (handle_issue_claim_token env q inst force prior s)"
| "run_op env (OpEnsure inst login) s = snd (ensure_github_app_connector env inst login s)"
| "run_op env (OpWatch cid repo) s = snd (auto_watch_installed_repo env (live_conn cid s) repo s)"
| "run_op env (OpWatchOam org repo cid) s = snd (ensure_watched_from_oam env org repo cid s)"
| "run_op env (OpFindWatched repo) s = snd (find_watched env repo s)"
| "run_op env (OpPat q token login repos scope) s = snd (handle_github_pat_connect env q token login repos scope s)"
| "run_op env (OpPatch q cid b) s = snd (handle_connector_patch env q cid b s)"
| "run_op env (OpDelete q cid) s = snd (handle_connector_delete env q cid s)"
| "run_op env (OpIntent org proj user personal) s = remember_install_intent env org proj user personal s"

subsection \<open>Well-formed registries\<close>

definition live_binder :: "app_conn \<Rightarrow> bool" where
  "live_binder c \<longleftrightarrow> cn_status c \<noteq> ''deleted'' \<and> trim_space (cn_inst c) \<noteq> []"

text \<open>A connector is stored under its own id, and an installation has at most one that is not deleted.\<close>

definition keys_ok :: "conn_state \<Rightarrow> bool" where
  "keys_ok s \<longleftrightarrow>
     distinct (map fst (cs_conns s)) \<and>
     (\<forall>k c. live_conn k s = Some c \<longrightarrow> cn_id c = k \<and> trim_space k = k \<and> k \<noteq> [])"

definition conn_ok :: "conn_state \<Rightarrow> bool" where
  "conn_ok s \<longleftrightarrow>
     keys_ok s \<and>
     (\<forall>k c k' c'. live_conn k s = Some c \<longrightarrow> live_conn k' s = Some c' \<longrightarrow> live_binder c \<longrightarrow> live_binder c' \<longrightarrow>
        trim_space (cn_inst c) = trim_space (cn_inst c') \<longrightarrow> k = k')"

definition bound :: "app_conn \<Rightarrow> bool" where
  "bound c \<longleftrightarrow> conn_status_is ''active'' c \<and> trim_space (cn_inst c) \<noteq> []"

definition binding :: "app_conn \<Rightarrow> string \<times> string \<times> string \<times> string \<times> string \<times> string" where
  "binding c = (cn_org c, cn_proj c, cn_scope c, cn_user c, cn_inst c, cn_status c)"

text \<open>What ClickHouse holds of the connector with an id, when it may be loaded.\<close>

definition row_conn :: "conn_env \<Rightarrow> string \<Rightarrow> app_conn option" where
  "row_conn env k =
     (case ce_query env k of
        None \<Rightarrow> None
      | Some (row, _) \<Rightarrow>
          (case connector_from_ch_row env row True of
             None \<Rightarrow> None | Some c \<Rightarrow> (if conn_status_is ''deleted'' c then None else Some c)))"

text \<open>
  ClickHouse answers what was written last and everything it holds of an installation is loaded: its
  rows agree with the live map and with each other.
\<close>

definition rows_agree :: "conn_env \<Rightarrow> conn_state \<Rightarrow> bool" where
  "rows_agree env s \<longleftrightarrow>
     (\<forall>k c. row_conn env k = Some c \<longrightarrow> cn_id c = k \<and>
        (\<forall>d. live_conn k s = Some d \<longrightarrow> binding d = binding c) \<and>
        (\<forall>k' d. live_conn k' s = Some d \<longrightarrow> live_binder d \<longrightarrow> trim_space (cn_inst d) = trim_space (cn_inst c) \<longrightarrow> k' = k)) \<and>
     (\<forall>k c k' c'. row_conn env k = Some c \<longrightarrow> row_conn env k' = Some c' \<longrightarrow> trim_space (cn_inst c) \<noteq> [] \<longrightarrow>
        trim_space (cn_inst c) = trim_space (cn_inst c') \<longrightarrow> k = k')"

text \<open>
  The truncated digest for a new connector does not meet a connector of another installation that is
  not deleted.
\<close>

definition slot_ok :: "conn_state \<Rightarrow> string \<times> string \<Rightarrow> bool" where
  "slot_ok s slot \<longleftrightarrow>
     (case slot of (cid, inst) \<Rightarrow>
        trim_space cid = cid \<and> cid \<noteq> [] \<and>
        (\<forall>d. live_conn cid s = Some d \<longrightarrow>
           cn_status d = ''deleted'' \<or> (inst \<noteq> [] \<and> trim_space (cn_inst d) = inst)))"

definition state_id :: "conn_env \<Rightarrow> string \<Rightarrow> string \<times> string \<times> string \<Rightarrow> string" where
  "state_id env inst tenant =
     (case tenant of (org, proj, user) \<Rightarrow>
        load_id (ce_sha1hex env) ''conn'' [if org = [] then ''user:'' @ user else org, proj, ''github_app'', inst])"

definition pat_id :: "conn_env \<Rightarrow> open_request \<Rightarrow> string \<Rightarrow> string \<Rightarrow> string" where
  "pat_id env q login scope =
     (let tn = ce_tenancy env;
          scope = (case normalize_cred_scope tn scope (oq_actor q) of Inl _ \<Rightarrow> [] | Inr sc \<Rightarrow> sc);
          (org, proj, user) = resolve_cred_target tn (oq_actor q) scope
      in load_id (ce_sha1hex env) ''conn'' [org, proj, scope, user, ''github_pat'', nz login ''pat-user'', ce_hex env])"

fun new_slots :: "conn_env \<Rightarrow> conn_op \<Rightarrow> (string \<times> string) list" where
  "new_slots env (OpCallback parse inst setup st) =
     (let inst = trim_space inst
      in [(pending_id env inst, inst), (state_id env inst (state_tenant env parse st), inst)])"
| "new_slots env (OpEnsure inst login) = [(pending_id env (trim_space inst), trim_space inst)]"
| "new_slots env (OpPat q token login repos scope) = [(pat_id env q login scope, [])]"
| "new_slots env _ = []"

text \<open>The rows ClickHouse lists as pending, which are the ones it answers for their ids.\<close>

fun listed_rows :: "conn_op \<Rightarrow> (string \<Rightarrow> string) list" where
  "listed_rows (OpFinish when rows q inst) = rows"
| "listed_rows _ = []"

definition row_listed :: "conn_env \<Rightarrow> (string \<Rightarrow> string) \<Rightarrow> bool" where
  "row_listed env row \<longleftrightarrow>
     trim_space (row ''id'') = row ''id'' \<and> (\<exists>legacy. ce_query env (row ''id'') = Some (row, legacy))"

text \<open>The ids handlers take from the path, which carry no outer white space.\<close>

fun path_ids :: "conn_op \<Rightarrow> string list" where
  "path_ids (OpPatch q cid b) = [cid]"
| "path_ids (OpDelete q cid) = [cid]"
| "path_ids _ = []"

definition op_ok :: "conn_env \<Rightarrow> conn_op \<Rightarrow> conn_state \<Rightarrow> bool" where
  "op_ok env op s \<longleftrightarrow>
     rows_agree env s \<and> list_all (slot_ok s) (new_slots env op) \<and> (\<forall>k \<in> set (path_ids op). trim_space k = k) \<and>
     (\<forall>row \<in> set (listed_rows op). row_listed env row)"

inductive conn_step :: "conn_state \<Rightarrow> conn_state \<Rightarrow> bool" where
  conn_stepI: "op_ok env op s \<Longrightarrow> conn_step s (run_op env op s)"

inductive_cases conn_stepE: "conn_step s t"

subsection \<open>What leaves the connectors alone\<close>

named_theorems conn_frame "operations that do not touch the live connectors"

lemma conns_log [simp, conn_frame]: "cs_conns (conn_log es s) = cs_conns s"
  by (simp add: conn_log_def)

lemma conns_store_watch [simp, conn_frame]: "cs_conns (store_watch k w s) = cs_conns s"
  by (simp add: store_watch_def)

lemma conns_persist [simp, conn_frame]: "cs_conns (persist_connector env c s) = cs_conns s"
  by (simp add: persist_connector_def Let_def split: option.split)

lemma conns_persist_move [simp, conn_frame]: "cs_conns (persist_connector_org_move env c o' p s) = cs_conns s"
  by (simp add: persist_connector_org_move_def Let_def)

lemma conns_persist_watched [simp, conn_frame]: "cs_conns (persist_watched env w s) = cs_conns s"
  by (simp add: persist_watched_def)

lemma conns_fold: "(\<And>x s. cs_conns (f x s) = cs_conns s) \<Longrightarrow> cs_conns (fold f xs s) = cs_conns s"
  by (induction xs arbitrary: s) simp_all

lemma conns_cascade [simp, conn_frame]: "cs_conns (cascade_delete_watched env c s) = cs_conns s"
  by (simp add: cascade_delete_watched_def Let_def conns_fold case_prod_beta)

lemma conns_stamp [simp, conn_frame]: "cs_conns (stamp_watched env c f s) = cs_conns s"
  by (simp add: stamp_watched_def stamp_one_def Let_def conns_fold case_prod_beta)

lemma conns_upsert [simp, conn_frame]:
  "cs_conns (snd (upsert_watched env og p cid r i e ch pr sev ai ar n s)) = cs_conns s"
  by (simp add: upsert_watched_def Let_def)

lemma conns_auto_watch [simp, conn_frame]: "cs_conns (snd (auto_watch_installed_repo env co repo s)) = cs_conns s"
  by (cases co)
    (auto simp: auto_watch_installed_repo_def Let_def upsert_watched_def watch_policy_def case_prod_beta split: option.splits)

lemma conns_prune [simp, conn_frame]: "cs_conns (prune_intents n s) = cs_conns s"
  by (simp add: prune_intents_def)

lemma conns_peek [simp, conn_frame]: "cs_conns (snd (peek_install_intent env u og p s)) = cs_conns s"
  by (simp add: peek_install_intent_def Let_def)

lemma conns_consume [simp, conn_frame]: "cs_conns (snd (consume_install_intent env u og p s)) = cs_conns s"
  using conns_peek [of env u og p s] by (auto simp: consume_install_intent_def case_prod_beta split: option.split)

lemma conns_remember [simp, conn_frame]: "cs_conns (remember_install_intent env og pj u p s) = cs_conns s"
  by (simp add: remember_install_intent_def Let_def)

lemma live_conn_cong: "cs_conns s = cs_conns t \<Longrightarrow> live_conn k s = live_conn k t"
  by (simp add: live_conn_def)

lemma conn_ok_cong: "cs_conns s = cs_conns t \<Longrightarrow> conn_ok s = conn_ok t"
  by (simp add: conn_ok_def keys_ok_def live_conn_def)

lemma live_conn_store [simp]: "live_conn k (store_conn k' c s) = (if k = k' then Some c else live_conn k s)"
  by (simp add: live_conn_def store_conn_def update_conv')

interpretation conns: keyed_store live_conn "\<lambda>c. store_conn (cn_id c) c" cn_id "\<lambda>c. c"
  by unfold_locales simp

subsection \<open>Putting a binder\<close>

definition killed :: "conn_env \<Rightarrow> app_conn \<Rightarrow> app_conn" where
  "killed env c = c\<lparr>cn_status := ''deleted'', cn_updated := ce_now env\<rparr>"

lemma killed_simps [simp]:
  "cn_id (killed env c) = cn_id c" "cn_status (killed env c) = ''deleted''" "cn_inst (killed env c) = cn_inst c"
  "\<not> live_binder (killed env c)"
  by (simp_all add: killed_def live_binder_def)

lemma killed_same: "killed env c = c \<Longrightarrow> cn_status c = ''deleted''"
  by (metis killed_simps(2))

lemma live_soft_delete_one:
  "live_conn k (soft_delete_one env keep inst c s) =
     (if cn_id c \<noteq> keep \<and> of_installation inst c \<and> k = cn_id c then Some (killed env c) else live_conn k s)"
  by (auto simp: soft_delete_one_def Let_def live_conn_def store_conn_def killed_def update_conv')

lemma live_soft_delete_fold:
  assumes "distinct (map cn_id cs)" "\<forall>c \<in> set cs. live_conn (cn_id c) s = Some c"
    "\<forall>c. live_conn k s = Some c \<longrightarrow> cn_id c = k"
  shows "live_conn k (fold (soft_delete_one env keep inst) cs s) =
    (case live_conn k s of
       None \<Rightarrow> None
     | Some c \<Rightarrow> Some (if c \<in> set cs \<and> k \<noteq> keep \<and> of_installation inst c then killed env c else c))"
  using assms
proof (induction cs arbitrary: s)
  case Nil
  then show ?case by (simp split: option.split)
next
  case (Cons d cs)
  let ?s = "soft_delete_one env keep inst d s"
  have d: "live_conn (cn_id d) s = Some d" using Cons.prems(2) by simp
  have out: "cn_id d \<notin> cn_id ` set cs" using Cons.prems(1) by simp
  have rest: "\<forall>c \<in> set cs. live_conn (cn_id c) ?s = Some c"
  proof
    fix c assume c: "c \<in> set cs"
    then have "cn_id c \<noteq> cn_id d" using out by (metis image_eqI)
    with c Cons.prems(2) show "live_conn (cn_id c) ?s = Some c" by (simp add: live_soft_delete_one)
  qed
  from out have notin: "killed env d \<notin> set cs" "d \<notin> set cs" by (metis image_eqI killed_simps(1), blast)
  have key: "\<forall>c. live_conn k ?s = Some c \<longrightarrow> cn_id c = k"
    using Cons.prems(3) by (auto simp: live_soft_delete_one split: if_splits)
  note ih = Cons.IH [OF _ rest key]
  show ?case
  proof (cases "k = cn_id d")
    case True
    have "c \<notin> set cs" if "live_conn k ?s = Some c" for c
      using that d notin True by (auto simp: live_soft_delete_one split: if_splits)
    then have "live_conn k (fold (soft_delete_one env keep inst) cs ?s) = live_conn k ?s"
      using ih Cons.prems(1) by (auto split: option.splits)
    then show ?thesis using d True by (simp add: live_soft_delete_one)
  next
    case False
    then have same: "live_conn k ?s = live_conn k s" by (simp add: live_soft_delete_one)
    have "c \<noteq> d" if "live_conn k s = Some c" for c
      using that False Cons.prems(3) by auto
    then show ?thesis using ih Cons.prems(1) same by (auto split: option.splits)
  qed
qed

lemma keys_ok_id: "keys_ok s \<Longrightarrow> live_conn k s = Some c \<Longrightarrow> cn_id c = k \<and> trim_space k = k \<and> k \<noteq> []"
  by (simp add: keys_ok_def)

lemma conn_ok_keys: "conn_ok s \<Longrightarrow> keys_ok s"
  by (simp add: conn_ok_def)

lemmas conn_ok_id = keys_ok_id [OF conn_ok_keys]

lemma conn_ok_one:
  "conn_ok s \<Longrightarrow> live_conn k s = Some c \<Longrightarrow> live_conn k' s = Some c' \<Longrightarrow> live_binder c \<Longrightarrow> live_binder c' \<Longrightarrow>
     trim_space (cn_inst c) = trim_space (cn_inst c') \<Longrightarrow> k = k'"
  by (simp add: conn_ok_def)

lemma keys_ok_values:
  assumes "keys_ok s"
  shows "distinct (map cn_id (map snd (cs_conns s)))" "\<forall>c \<in> set (map snd (cs_conns s)). live_conn (cn_id c) s = Some c"
    "live_conn k s = Some c \<Longrightarrow> c \<in> set (map snd (cs_conns s))"
proof -
  have d: "distinct (map fst (cs_conns s))" using assms by (simp add: keys_ok_def)
  have key: "cn_id c = k" if "(k, c) \<in> set (cs_conns s)" for k c
    using that d keys_ok_id [OF assms, of k c] by (simp add: live_conn_def)
  then have "map (cn_id \<circ> snd) (cs_conns s) = map fst (cs_conns s)" by (auto intro!: map_cong)
  then show "distinct (map cn_id (map snd (cs_conns s)))" using d by (metis map_map)
  show "\<forall>c \<in> set (map snd (cs_conns s)). live_conn (cn_id c) s = Some c"
    using key d by (auto simp: live_conn_def)
  show "live_conn k s = Some c \<Longrightarrow> c \<in> set (map snd (cs_conns s))"
    by (force simp: live_conn_def dest: map_of_SomeD)
qed

lemma live_soft_delete:
  assumes "keys_ok s"
  shows "live_conn k (soft_delete_others env keep inst s) =
    (case live_conn k s of
       None \<Rightarrow> None
     | Some c \<Rightarrow> Some (if trim_space inst \<noteq> [] \<and> trim_space keep \<noteq> [] \<and> k \<noteq> trim_space keep \<and> of_installation (trim_space inst) c
                      then killed env c else c))"
  using live_soft_delete_fold [OF keys_ok_values(1,2) [OF assms], of k env "trim_space keep" "trim_space inst"]
    keys_ok_values(3) [OF assms, of k] keys_ok_id [OF assms, of k]
  by (auto simp: soft_delete_others_def Let_def split: option.splits)

lemma keys_ok_store:
  "keys_ok s \<Longrightarrow> trim_space (cn_id c) = cn_id c \<Longrightarrow> cn_id c \<noteq> [] \<Longrightarrow> keys_ok (store_conn (cn_id c) c s)"
  using AList.distinct_update [of "cs_conns s"] by (simp add: keys_ok_def) (simp add: store_conn_def)

lemma keys_ok_soft_delete:
  assumes "keys_ok s"
  shows "keys_ok (soft_delete_others env keep inst s)"
proof -
  have one: "distinct (map fst (cs_conns (soft_delete_one env k i c t)))" if "distinct (map fst (cs_conns t))" for k i c t
    using that AList.distinct_update [of "cs_conns t"]
    by (simp add: soft_delete_one_def Let_def) (simp add: store_conn_def)
  have "distinct (map fst (cs_conns (fold (soft_delete_one env k i) cs t)))" if "distinct (map fst (cs_conns t))" for k i cs t
    using that by (induction cs arbitrary: t) (simp_all add: one)
  then have "distinct (map fst (cs_conns (soft_delete_others env keep inst s)))"
    using assms by (simp add: soft_delete_others_def Let_def keys_ok_def)
  then show ?thesis
    using keys_ok_id [OF assms] by (auto simp: keys_ok_def live_soft_delete [OF assms] split: option.splits if_splits)
qed

text \<open>A binder that is stored takes its installation over.\<close>

definition put_binder :: "conn_env \<Rightarrow> app_conn \<Rightarrow> conn_state \<Rightarrow> conn_state" where
  "put_binder env c s = soft_delete_others env (cn_id c) (cn_inst c) (store_conn (cn_id c) c s)"

lemma live_put_binder:
  assumes "keys_ok s" "trim_space (cn_id c) = cn_id c" "cn_id c \<noteq> []"
  shows "live_conn k (put_binder env c s) =
    (if k = cn_id c then Some c
     else map_option (\<lambda>d. if trim_space (cn_inst c) \<noteq> [] \<and> of_installation (trim_space (cn_inst c)) d then killed env d else d)
            (live_conn k s))"
  unfolding put_binder_def live_soft_delete [OF keys_ok_store [OF assms]] using assms by (auto split: option.splits)

lemma conn_ok_put:
  assumes "conn_ok s" "trim_space (cn_id c) = cn_id c" "cn_id c \<noteq> []"
  shows "conn_ok (put_binder env c s)"
proof -
  note keys = conn_ok_keys [OF assms(1)]
  have "keys_ok (put_binder env c s)"
    unfolding put_binder_def by (intro keys_ok_soft_delete keys_ok_store keys assms(2,3))
  moreover have "k = k'"
    if h: "live_conn k (put_binder env c s) = Some d" "live_conn k' (put_binder env c s) = Some d'"
      "live_binder d" "live_binder d'" "trim_space (cn_inst d) = trim_space (cn_inst d')" for k k' d d'
  proof -
    have old: "live_conn l s = Some e \<and> trim_space (cn_inst e) \<noteq> trim_space (cn_inst c)"
      if "live_conn l (put_binder env c s) = Some e" "live_binder e" "l \<noteq> cn_id c" for l e
      using that unfolding live_put_binder [OF keys assms(2,3)]
      by (auto simp: of_installation_def live_binder_def dest: killed_same split: if_splits)
    have new: "d = c" if "k = cn_id c" using h(1) that by (simp add: live_put_binder [OF keys assms(2,3)])
    have new': "d' = c" if "k' = cn_id c" using h(2) that by (simp add: live_put_binder [OF keys assms(2,3)])
    show "k = k'"
    proof (cases "k = cn_id c \<or> k' = cn_id c")
      case True
      then show ?thesis using old [OF h(1,3)] old [OF h(2,4)] new new' h(5) by metis
    next
      case False
      then show ?thesis using old [OF h(1,3)] old [OF h(2,4)] conn_ok_one [OF assms(1) _ _ h(3,4,5)] by blast
    qed
  qed
  ultimately show ?thesis unfolding conn_ok_def by blast
qed

lemma conns_soft_cong:
  assumes "cs_conns s = cs_conns t"
  shows "cs_conns (soft_delete_others env keep inst s) = cs_conns (soft_delete_others env keep inst t)"
proof -
  have one: "cs_conns (soft_delete_one env k i c u) = cs_conns (soft_delete_one env k i c v)"
    if "cs_conns u = cs_conns v" for k i c u v
    using that by (simp add: soft_delete_one_def Let_def store_conn_def)
  have all: "cs_conns (fold (soft_delete_one env k i) cs u) = cs_conns (fold (soft_delete_one env k i) cs v)"
    if "cs_conns u = cs_conns v" for k i cs u v
    using that
  proof (induction cs arbitrary: u v)
    case (Cons c cs)
    show ?case using Cons.IH [OF one [OF Cons.prems]] by simp
  qed simp
  show ?thesis
    using all [OF assms, of "trim_space keep" "trim_space inst" "map snd (cs_conns t)"] assms
    by (simp add: soft_delete_others_def Let_def)
qed

lemma soft_delete_trim: "trim_space inst = trim_space inst' \<Longrightarrow>
  soft_delete_others env keep inst s = soft_delete_others env keep inst' s"
  by (simp add: soft_delete_others_def)

lemma conns_put:
  assumes "cs_conns u = cs_conns (store_conn (cn_id c) c s)" "trim_space inst = trim_space (cn_inst c)"
  shows "cs_conns (soft_delete_others env (cn_id c) inst u) = cs_conns (put_binder env c s)"
  unfolding put_binder_def soft_delete_trim [OF assms(2)] by (rule conns_soft_cong [OF assms(1)])

lemma conns_bind: "cs_conns (bind_conn env c prev s) = cs_conns (put_binder env c s)"
  by (simp add: bind_conn_def Let_def conns_put)

subsection \<open>Bindings that are kept\<close>

definition kept_bindings :: "conn_state \<Rightarrow> conn_state \<Rightarrow> bool" where
  "kept_bindings s t \<longleftrightarrow>
     (\<forall>k c. live_conn k s = Some c \<longrightarrow> bound c \<longrightarrow> (\<exists>c'. live_conn k t = Some c' \<and> binding c' = binding c))"

definition good_move :: "conn_state \<Rightarrow> conn_state \<Rightarrow> bool" where
  "good_move s t \<longleftrightarrow> conn_ok t \<and> kept_bindings s t"

lemma binding_bound: "binding c = binding d \<Longrightarrow> bound c = bound d"
  by (simp add: binding_def bound_def conn_status_is_def)

lemma binding_binder: "binding c = binding d \<Longrightarrow> live_binder c = live_binder d \<and> cn_inst c = cn_inst d"
  by (simp add: binding_def live_binder_def)

lemma good_move_trans: "good_move s t \<Longrightarrow> good_move t u \<Longrightarrow> good_move s u"
  unfolding good_move_def kept_bindings_def using binding_bound by metis

lemma good_move_same: "conn_ok s \<Longrightarrow> cs_conns t = cs_conns s \<Longrightarrow> good_move s t"
  by (simp add: good_move_def kept_bindings_def conn_ok_cong [of t s] live_conn_cong [of t s])

lemma good_move_conns: "cs_conns t = cs_conns t' \<Longrightarrow> good_move s t = good_move s t'"
  by (simp add: good_move_def kept_bindings_def conn_ok_cong [of t t'] live_conn_cong [of t t'])

lemma good_move_via: "good_move s t' \<Longrightarrow> cs_conns t = cs_conns t' \<Longrightarrow> good_move s t"
  using good_move_conns by blast

lemma bound_active: "bound c \<Longrightarrow> live_binder c \<and> \<not> conn_status_is ''pending_claim'' c"
proof
  assume b: "bound c"
  have n: "to_lower ''active'' \<noteq> to_lower ''pending_claim''" "to_lower (trim_space ''deleted'') \<noteq> to_lower ''active''"
    by code_simp+
  show "live_binder c" using b n by (auto simp: bound_def live_binder_def conn_status_is_def equal_fold_def)
  show "\<not> conn_status_is ''pending_claim'' c" using b n by (auto simp: bound_def conn_status_is_def equal_fold_def)
qed

lemma good_move_put:
  assumes ok: "conn_ok s" and c: "trim_space (cn_id c) = cn_id c" "cn_id c \<noteq> []"
    and free: "\<And>k d. live_conn k s = Some d \<Longrightarrow> bound d \<Longrightarrow> trim_space (cn_inst d) \<noteq> trim_space (cn_inst c) \<and> k \<noteq> cn_id c"
  shows "good_move s (put_binder env c s)"
proof -
  have "\<exists>d'. live_conn k (put_binder env c s) = Some d' \<and> binding d' = binding d"
    if "live_conn k s = Some d" "bound d" for k d
    using free [OF that] that(1) by (auto simp: live_put_binder [OF conn_ok_keys [OF ok] c] of_installation_def)
  then show ?thesis unfolding good_move_def kept_bindings_def using conn_ok_put [OF ok c] by blast
qed

lemma good_move_update:
  assumes ok: "conn_ok s" and d: "live_conn (cn_id c) s = Some d" "binding c = binding d"
  shows "good_move s (store_conn (cn_id c) c s)"
proof -
  have "trim_space (cn_id c) = cn_id c" "cn_id c \<noteq> []" using conn_ok_id [OF ok d(1)] by auto
  then have keys: "keys_ok (store_conn (cn_id c) c s)" by (rule keys_ok_store [OF conn_ok_keys [OF ok]])
  have "conn_ok (store_conn (cn_id c) c s)"
    using keys conn_ok_one [OF ok] d binding_binder [OF d(2)] unfolding conn_ok_def
    by (auto split: if_splits)
  moreover have "kept_bindings s (store_conn (cn_id c) c s)"
    using d by (auto simp: kept_bindings_def)
  ultimately show ?thesis by (simp add: good_move_def)
qed

lemma good_move_patless:
  assumes ok: "conn_ok s" and c: "trim_space (cn_id c) = cn_id c" "cn_id c \<noteq> []" "trim_space (cn_inst c) = []"
    and slot: "\<And>d. live_conn (cn_id c) s = Some d \<Longrightarrow> cn_status d = ''deleted''"
  shows "good_move s (store_conn (cn_id c) c s)"
proof -
  have "\<not> live_binder c" using c(3) by (simp add: live_binder_def)
  then have "conn_ok (store_conn (cn_id c) c s)"
    using keys_ok_store [OF conn_ok_keys [OF ok] c(1,2)] conn_ok_one [OF ok] unfolding conn_ok_def
    by (auto split: if_splits)
  moreover have "kept_bindings s (store_conn (cn_id c) c s)"
    using slot bound_active by (fastforce simp: kept_bindings_def live_binder_def)
  ultimately show ?thesis by (simp add: good_move_def)
qed

subsection \<open>Loading a row\<close>

text \<open>The state after loading: still well formed, its bindings kept, the rows still in agreement.\<close>

definition same_bindings :: "conn_state \<Rightarrow> conn_state \<Rightarrow> bool" where
  "same_bindings s t \<longleftrightarrow>
     (\<forall>k d. live_conn k s = Some d \<longrightarrow> (\<exists>d'. live_conn k t = Some d' \<and> binding d' = binding d))"

text \<open>
  Where a binding of a later state comes from: it was there, ClickHouse holds it, or \<open>P\<close> accounts for
  it.
\<close>

definition bound_from :: "conn_env \<Rightarrow> (app_conn \<Rightarrow> bool) \<Rightarrow> conn_state \<Rightarrow> conn_state \<Rightarrow> bool" where
  "bound_from env P s t \<longleftrightarrow>
     (\<forall>k d. live_conn k t = Some d \<longrightarrow> bound d \<longrightarrow>
        (\<exists>e. (live_conn k s = Some e \<or> row_conn env k = Some e) \<and> binding e = binding d) \<or> P d)"

lemma bound_from_same: "cs_conns t = cs_conns s \<Longrightarrow> bound_from env P s t"
  using live_conn_cong [of t s] by (auto simp: bound_from_def)

lemma bound_from_trans:
  assumes "bound_from env (\<lambda>_. False) s t" "bound_from env P t u"
  shows "bound_from env P s u"
  unfolding bound_from_def
proof (intro allI impI)
  fix k d assume d: "live_conn k u = Some d" "bound d"
  consider "P d" | e where "live_conn k t = Some e \<or> row_conn env k = Some e" "binding e = binding d"
    using assms(2) d unfolding bound_from_def by blast
  then show "(\<exists>e. (live_conn k s = Some e \<or> row_conn env k = Some e) \<and> binding e = binding d) \<or> P d"
  proof cases
    case 2
    then show ?thesis using assms(1) binding_bound [OF 2(2)] d(2) unfolding bound_from_def by metis
  qed simp
qed

lemma bound_from_cong: "cs_conns t = cs_conns t' \<Longrightarrow> bound_from env P s t' \<Longrightarrow> bound_from env P s t"
  using live_conn_cong [of t t'] by (simp add: bound_from_def)

definition loaded :: "conn_env \<Rightarrow> conn_state \<Rightarrow> conn_state \<Rightarrow> bool" where
  "loaded env s t \<longleftrightarrow>
     conn_ok t \<and> same_bindings s t \<and> rows_agree env t \<and> bound_from env (\<lambda>_. False) s t"

lemma loaded_move: "loaded env s t \<Longrightarrow> good_move s t"
  unfolding loaded_def good_move_def kept_bindings_def same_bindings_def by blast

lemma rows_agree_cong: "cs_conns s = cs_conns t \<Longrightarrow> rows_agree env s = rows_agree env t"
  by (simp add: rows_agree_def live_conn_def)

lemma loaded_same: "conn_ok s \<Longrightarrow> rows_agree env s \<Longrightarrow> cs_conns t = cs_conns s \<Longrightarrow> loaded env s t"
  by (simp add: loaded_def same_bindings_def conn_ok_cong [of t s] live_conn_cong [of t s] rows_agree_cong [of t s]
      bound_from_same)

lemma loaded_trans: "loaded env s t \<Longrightarrow> loaded env t u \<Longrightarrow> loaded env s u"
  unfolding loaded_def same_bindings_def using bound_from_trans by metis

lemma loaded_ok: "loaded env s t \<Longrightarrow> conn_ok t \<and> rows_agree env t"
  by (simp add: loaded_def)

lemma rows_agreeD:
  assumes "rows_agree env s" "row_conn env k = Some c"
  shows "cn_id c = k" "live_conn k s = Some d \<Longrightarrow> binding d = binding c"
    "live_conn k' s = Some d \<Longrightarrow> live_binder d \<Longrightarrow> trim_space (cn_inst d) = trim_space (cn_inst c) \<Longrightarrow> k' = k"
    "row_conn env k' = Some c' \<Longrightarrow> trim_space (cn_inst c) \<noteq> [] \<Longrightarrow>
       trim_space (cn_inst c) = trim_space (cn_inst c') \<Longrightarrow> k = k'"
  using assms unfolding rows_agree_def by blast+

lemma loaded_row:
  assumes ok: "conn_ok s" and rows: "rows_agree env s" and c: "row_conn env k = Some c" "trim_space k = k" "k \<noteq> []"
  shows "loaded env s (store_conn k c s)"
proof -
  note r = rows_agreeD [OF rows c(1)]
  have keys: "keys_ok (store_conn k c s)"
    using keys_ok_store [OF conn_ok_keys [OF ok], of c] c r(1) by simp
  have "l = l'"
    if h: "live_conn l (store_conn k c s) = Some d" "live_conn l' (store_conn k c s) = Some d'"
      "live_binder d" "live_binder d'" "trim_space (cn_inst d) = trim_space (cn_inst d')" for l l' d d'
    using h r(3) [of l d] r(3) [of l' d'] conn_ok_one [OF ok, of l d l' d'] by (auto split: if_splits)
  then have "conn_ok (store_conn k c s)" unfolding conn_ok_def using keys by blast
  moreover have "same_bindings s (store_conn k c s)"
    using r(2) by (auto simp: same_bindings_def)
  moreover have "rows_agree env (store_conn k c s)"
    unfolding rows_agree_def
  proof (intro conjI allI impI)
    fix l e assume e: "row_conn env l = Some e"
    note q = rows_agreeD [OF rows e]
    show "cn_id e = l" by (rule q(1))
    show "binding d = binding e" if "live_conn l (store_conn k c s) = Some d" for d
      using that q(2) c(1) e by (auto split: if_splits)
    show "l' = l" if "live_conn l' (store_conn k c s) = Some d" "live_binder d"
      "trim_space (cn_inst d) = trim_space (cn_inst e)" for l' d
      using that q(3) [of l' d] r(4) [OF e] by (auto simp: live_binder_def split: if_splits)
  next
    fix l e l' e'
    assume "row_conn env l = Some e" "row_conn env l' = Some e'" "trim_space (cn_inst e) \<noteq> []"
      "trim_space (cn_inst e) = trim_space (cn_inst e')"
    then show "l = l'" using rows unfolding rows_agree_def by blast
  qed
  moreover have "bound_from env (\<lambda>_. False) s (store_conn k c s)"
    using c(1) by (auto simp: bound_from_def)
  ultimately show ?thesis by (simp add: loaded_def)
qed

lemma hydrate_loaded:
  assumes "conn_ok s" "rows_agree env s" "hydrate_connector env k s = (co, t)"
  shows "loaded env s t \<and> (\<forall>c. co = Some c \<longrightarrow> cn_id c = trim_space k \<and> live_conn (trim_space k) t = Some c)"
proof (cases "trim_space k = [] \<or> row_conn env (trim_space k) = None")
  case True
  then have "co = None" "cs_conns t = cs_conns s"
    using assms(3) by (auto simp: hydrate_connector_def row_conn_def Let_def split: option.splits if_splits prod.splits)
  then show ?thesis using loaded_same assms by simp
next
  case False
  then obtain c where c: "row_conn env (trim_space k) = Some c" by auto
  then have "co = Some c" "cs_conns t = cs_conns (store_conn (cn_id c) c s)"
    using False assms(3) by (auto simp: hydrate_connector_def row_conn_def Let_def split: option.splits if_splits prod.splits)
  moreover have "cn_id c = trim_space k" by (rule rows_agreeD(1) [OF assms(2) c])
  moreover have "loaded env s (store_conn (trim_space k) c s)"
    using loaded_row [OF assms(1,2) c] False by simp
  ultimately show ?thesis
    
    by (simp add: loaded_def same_bindings_def conn_ok_cong [of t] rows_agree_cong [of t] live_conn_cong [of t]
        bound_from_cong [of t])
qed

lemma get_loaded:
  assumes "conn_ok s" "rows_agree env s" "get_or_hydrate env k s = (co, t)"
  shows "loaded env s t \<and>
    (\<forall>c. co = Some c \<longrightarrow> cn_id c = trim_space k \<and> (\<exists>d. live_conn (cn_id c) t = Some d \<and> binding d = binding c))"
proof (cases "live_conn k s")
  case None
  then show ?thesis using assms hydrate_loaded [OF assms(1,2), of k co t] by (auto simp: get_or_hydrate_def)
next
  case (Some c)
  obtain h u where h: "hydrate_connector env k s = (h, u)" by (cases "hydrate_connector env k s")
  note l = hydrate_loaded [OF assms(1,2) h]
  have k: "cn_id c = k" "trim_space k = k" using conn_ok_id [OF assms(1) Some] by auto
  have same: "loaded env s s" using loaded_same assms by blast
  show ?thesis
  proof (cases "cn_kind c = ''github_pat'' \<and> cn_token c = []")
    case False
    then show ?thesis using assms(3) Some same k by (auto simp: get_or_hydrate_def split: if_splits)
  next
    case True
    have t: "t = u \<and> (co = h \<or> co = Some c)"
      using assms(3) Some True h by (auto simp: get_or_hydrate_def split: option.splits if_splits)
    show ?thesis
    proof (cases h)
      case None
      have "cs_conns u = cs_conns s \<or> (\<exists>d. h = Some d)"
        using h by (auto simp: hydrate_connector_def Let_def split: option.splits if_splits prod.splits)
      then have "live_conn k u = Some c" using None Some by (simp add: live_conn_def)
      then show ?thesis using t l None k by auto
    next
      case (Some e)
      have "row_conn env k = Some e"
        using h Some k by (auto simp: hydrate_connector_def row_conn_def Let_def split: option.splits if_splits prod.splits)
      then have "binding c = binding e" using rows_agreeD(2) [OF assms(2)] \<open>live_conn k s = Some c\<close> by blast
      then show ?thesis using t l Some k by auto
    qed
  qed
qed

lemma usable_loaded: "conn_ok s \<Longrightarrow> rows_agree env s \<Longrightarrow> loaded env s (snd (usable_watches env ws s))"
proof (induction ws arbitrary: s)
  case (Cons w ws)
  obtain c t where g: "get_or_hydrate env (wt_conn w) s = (c, t)" by (cases "get_or_hydrate env (wt_conn w) s")
  have "loaded env s t" using get_loaded [OF Cons.prems g] by blast
  with Cons.IH [of t] loaded_ok [of env s t] loaded_trans show ?case by (auto simp: g case_prod_beta)
qed (simp add: loaded_same)

lemma best_loaded: "conn_ok s \<Longrightarrow> rows_agree env s \<Longrightarrow> loaded env s (snd (best_watch env ws b s))"
proof (induction ws arbitrary: s b)
  case (Cons w ws)
  obtain c t where g: "get_or_hydrate env (wt_conn w) s = (c, t)" by (cases "get_or_hydrate env (wt_conn w) s")
  have "loaded env s t" using get_loaded [OF Cons.prems g] by blast
  with Cons.IH [of t] loaded_ok [of env s t] loaded_trans show ?case by (auto simp: g Let_def case_prod_beta)
qed (simp add: loaded_same)

lemma prefer_loaded:
  assumes "conn_ok s" "rows_agree env s"
  shows "loaded env s (snd (prefer_watched_for_checks env ws s))"
proof -
  obtain us t where u: "usable_watches env ws s = (us, t)" by (cases "usable_watches env ws s")
  then have l: "loaded env s t" using usable_loaded [OF assms, of ws] by simp
  note ok = loaded_ok [OF l]
  have "loaded env t (snd (best_watch env us (None, -1) t))" using best_loaded ok by blast
  then show ?thesis
    using l loaded_trans [OF l] by (auto simp: prefer_watched_for_checks_def u case_prod_beta split: list.splits option.splits)
qed

lemma find_watched_loaded:
  assumes "conn_ok s" "rows_agree env s"
  shows "loaded env s (snd (find_watched env repo s))"
proof -
  let ?c = "filter (\<lambda>w. wt_enabled w \<and> equal_fold (wt_repo w) repo) (map snd (cs_watched s))"
  obtain us t where u: "usable_watches env ?c s = (us, t)" by (cases "usable_watches env ?c s")
  then have l: "loaded env s t" using usable_loaded [OF assms, of ?c] by simp
  obtain f v where f: "prefer_watched_for_checks env us t = (f, v)" by (cases "prefer_watched_for_checks env us t")
  then have m: "loaded env t v" using prefer_loaded loaded_ok [OF l] by (metis snd_conv)
  have "loaded env v (snd (get_or_hydrate env k v))" for k
    using get_loaded [of v env k] loaded_ok [OF m] by (cases "get_or_hydrate env k v") auto
  then show ?thesis
    using l loaded_trans [OF l m] loaded_trans [OF loaded_trans [OF l m]]
    by (auto simp: find_watched_def u f case_prod_beta Let_def split: option.splits)
qed

subsection \<open>The binder of an installation\<close>

lemma status_is: "conn_status_is ''active'' c \<longleftrightarrow> to_lower (trim_space (cn_status c)) = ''active''"
  "conn_status_is ''pending_claim'' c \<longleftrightarrow> to_lower (trim_space (cn_status c)) = ''pending_claim''"
proof -
  have "to_lower ''active'' = ''active''" "to_lower ''pending_claim'' = ''pending_claim''" by code_simp+
  then show "conn_status_is ''active'' c \<longleftrightarrow> to_lower (trim_space (cn_status c)) = ''active''"
    "conn_status_is ''pending_claim'' c \<longleftrightarrow> to_lower (trim_space (cn_status c)) = ''pending_claim''"
    by (simp_all add: conn_status_is_def equal_fold_def)
qed

lemma find_inst_Some:
  assumes "conn_ok s" "find_connector_by_installation inst s = Some c"
  shows "live_conn (cn_id c) s = Some c" "of_installation (trim_space inst) c" "trim_space inst \<noteq> []"
    "conn_status_is ''active'' c \<or> conn_status_is ''pending_claim'' c"
proof -
  have c: "c \<in> set (map snd (cs_conns s)) \<and> of_installation (trim_space inst) c \<and>
      (conn_status_is ''active'' c \<or> conn_status_is ''pending_claim'' c)"
    using assms(2) unfolding find_connector_by_installation_def Let_def status_is
    by (auto simp: find_Some_iff split: if_splits option.splits)
  then show "live_conn (cn_id c) s = Some c" "of_installation (trim_space inst) c"
    "conn_status_is ''active'' c \<or> conn_status_is ''pending_claim'' c"
    using keys_ok_values(2) [OF conn_ok_keys [OF assms(1)]] by auto
  show "trim_space inst \<noteq> []" using assms(2) by (auto simp: find_connector_by_installation_def)
qed

lemma find_inst_bound:
  assumes ok: "conn_ok s" and c: "live_conn k s = Some c" "bound c" "trim_space inst = trim_space (cn_inst c)"
  shows "find_connector_by_installation inst s = Some c"
proof -
  let ?p = "\<lambda>d. of_installation (trim_space inst) d \<and> to_lower (trim_space (cn_status d)) = ''active''"
  have lb: "live_binder c" using bound_active c(2) by blast
  have p: "?p c" using c lb by (simp add: of_installation_def live_binder_def bound_def status_is)
  have mem: "c \<in> set (map snd (cs_conns s))" using keys_ok_values(3) [OF conn_ok_keys [OF ok] c(1)] .
  have "List.find ?p (map snd (cs_conns s)) \<noteq> None" using mem p by (auto simp: find_None_iff)
  then obtain d where d: "List.find ?p (map snd (cs_conns s)) = Some d" by blast
  then have dm: "d \<in> set (map snd (cs_conns s))" "?p d" by (auto simp: find_Some_iff)
  then have "live_conn (cn_id d) s = Some d" using keys_ok_values(2) [OF conn_ok_keys [OF ok]] by blast
  moreover have "live_binder d" using dm(2) lb c(3) by (auto simp: of_installation_def live_binder_def)
  ultimately have "cn_id d = k"
    using conn_ok_one [OF ok _ c(1) _ lb] dm(2) c(3) by (auto simp: of_installation_def)
  then have "d = c" using \<open>live_conn (cn_id d) s = Some d\<close> c(1) by simp
  then show ?thesis using d c(3) lb by (simp add: find_connector_by_installation_def Let_def live_binder_def)
qed

text \<open>No bound connector stands in the way of a new binder of an installation that has none.\<close>

lemma good_move_bind:
  assumes ok: "conn_ok s" and id: "trim_space (cn_id c) = cn_id c" "cn_id c \<noteq> []"
    and none: "\<And>d. find_connector_by_installation (cn_inst c) s = Some d \<Longrightarrow> \<not> bound d"
    and slot: "slot_ok s (cn_id c, trim_space (cn_inst c)) \<or> (\<exists>d. live_conn (cn_id c) s = Some d \<and> \<not> bound d)"
  shows "good_move s (put_binder env c s)"
proof (rule good_move_put [OF ok id])
  fix k d assume d: "live_conn k s = Some d" "bound d"
  have other: "trim_space (cn_inst d) \<noteq> trim_space (cn_inst c)"
    using none find_inst_bound [OF ok d] d(2) by metis
  moreover have "k \<noteq> cn_id c"
  proof
    assume k: "k = cn_id c"
    have "cn_status d \<noteq> ''deleted''" using bound_active [OF d(2)] by (simp add: live_binder_def)
    moreover have "live_conn (cn_id c) s = Some d" using d(1) k by simp
    ultimately show False using slot d(2) other unfolding slot_ok_def by auto
  qed
  ultimately show "trim_space (cn_inst d) \<noteq> trim_space (cn_inst c) \<and> k \<noteq> cn_id c" ..
qed

lemma good_move_soft_delete:
  assumes ok: "conn_ok s" and c: "live_conn k0 s = Some c" "of_installation (trim_space inst) c" "trim_space inst \<noteq> []"
  shows "good_move s (soft_delete_others env k0 inst s)"
proof -
  have id: "trim_space k0 = k0" using conn_ok_id [OF ok c(1)] by blast
  have one: "k = k0" if "of_installation (trim_space inst) d" "live_conn k s = Some d" for k d
  proof (rule conn_ok_one [OF ok that(2) c(1)])
    show "live_binder d" "live_binder c" "trim_space (cn_inst d) = trim_space (cn_inst c)"
      using that(1) c(2,3) unfolding of_installation_def live_binder_def by simp_all
  qed
  then have "live_conn k (soft_delete_others env k0 inst s) = live_conn k s" for k
    unfolding live_soft_delete [OF conn_ok_keys [OF ok]] using id by (auto split: option.split)
  then show ?thesis
    using ok keys_ok_soft_delete [OF conn_ok_keys [OF ok]] by (auto simp: good_move_def kept_bindings_def conn_ok_def)
qed

lemma good_move_soft_delete_found:
  "conn_ok s \<Longrightarrow> find_connector_by_installation inst s = Some c \<Longrightarrow> good_move s (soft_delete_others env (cn_id c) inst s)"
  using good_move_soft_delete find_inst_Some by metis

subsection \<open>Each operation\<close>

lemma find_pending:
  assumes "conn_ok s" "find_connector_by_installation inst s = Some c" "conn_status_is ''pending_claim'' c"
  shows "trim_space (cn_id c) = cn_id c" "cn_id c \<noteq> []" "live_conn (cn_id c) s = Some c" "\<not> bound c"
    "trim_space (cn_inst c) = trim_space inst"
  using find_inst_Some [OF assms(1,2)] conn_ok_id [OF assms(1), of "cn_id c" c] bound_active [of c] assms(3)
  by (auto simp: of_installation_def)

text \<open>A changed copy of a pending connector, or a new one in a free slot, takes the installation.\<close>

lemma good_move_take:
  assumes ok: "conn_ok s"
    and none: "\<And>d. find_connector_by_installation inst s = Some d \<Longrightarrow> conn_status_is ''pending_claim'' d"
    and c: "trim_space (cn_inst c) = trim_space inst"
    and slot: "(case find_connector_by_installation inst s of
                  Some d \<Rightarrow> cn_id c = cn_id d | None \<Rightarrow> slot_ok s (cn_id c, trim_space inst))"
  shows "good_move s (put_binder env c s)"
proof -
  have same: "find_connector_by_installation (cn_inst c) s = find_connector_by_installation inst s"
    using c by (simp add: find_connector_by_installation_def)
  show ?thesis
  proof (cases "find_connector_by_installation inst s")
    case None
    with slot c same show ?thesis by (intro good_move_bind [OF ok]) (auto simp: slot_ok_def)
  next
    case (Some d)
    note p = find_pending [OF ok Some none [OF Some]]
    from Some slot have id: "cn_id c = cn_id d" by simp
    show ?thesis
      using p by (intro good_move_bind [OF ok]) (auto simp: id same Some)
  qed
qed

lemma callback_bind_move:
  assumes ok: "conn_ok s" and inst: "trim_space inst = inst"
    and f: "find_connector_by_installation inst s = pending"
      "\<And>d. pending = Some d \<Longrightarrow> conn_status_is ''pending_claim'' d"
    and slot: "slot_ok s (state_id env inst (org, proj, user), inst)"
  shows "good_move s (snd (callback_bind env inst setup org proj user pending s))"
proof -
  let ?c = "state_bound env inst setup org proj user (state_conn env inst org proj user pending)"
  have "good_move s (put_binder env ?c s)"
  proof (rule good_move_take [OF ok, where inst = inst])
    show "find_connector_by_installation inst s = Some d \<Longrightarrow> conn_status_is ''pending_claim'' d" for d
      using f by simp
    show "trim_space (cn_inst ?c) = trim_space inst" by (simp add: state_bound_def Let_def)
    show "case find_connector_by_installation inst s of Some d \<Rightarrow> cn_id ?c = cn_id d
        | None \<Rightarrow> slot_ok s (cn_id ?c, trim_space inst)"
      using slot inst by (simp add: f(1) state_bound_def state_conn_def state_id_def Let_def split: option.split)
  qed
  then show ?thesis by (simp add: callback_bind_def Let_def good_move_conns [OF conns_bind])
qed

lemma callback_orphan_move:
  assumes ok: "conn_ok s" and inst: "trim_space inst = inst"
    and f: "find_connector_by_installation inst s = pending"
      "\<And>d. pending = Some d \<Longrightarrow> conn_status_is ''pending_claim'' d"
    and slot: "slot_ok s (pending_id env inst, inst)"
  shows "good_move s (snd (callback_orphan env inst setup pending s))"
proof (cases "mint_claim_nonce env")
  case None
  then show ?thesis using good_move_same [OF ok] by (simp add: callback_orphan_def)
next
  case (Some rh)
  obtain raw h where rh: "rh = (raw, h)" by (cases rh)
  let ?d = "case pending of Some c \<Rightarrow> c | None \<Rightarrow> (new_pending env inst [] [])\<lparr>cn_status := [], cn_updated := []\<rparr>"
  let ?c = "orphaned env setup h ?d"
  have id: "cn_id ?c = cn_id ?d" "cn_inst ?c = cn_inst ?d" by (simp_all add: orphaned_def Let_def)
  have ci: "trim_space (cn_inst ?c) = trim_space inst"
    unfolding id using find_pending(5) [OF ok, of inst] f by (auto simp: new_pending_def split: option.split)
  have "good_move s (put_binder env ?c s)"
  proof (rule good_move_take [OF ok, where inst = inst])
    show "find_connector_by_installation inst s = Some d \<Longrightarrow> conn_status_is ''pending_claim'' d" for d
      using f by simp
    show "case find_connector_by_installation inst s of Some d \<Rightarrow> cn_id ?c = cn_id d
        | None \<Rightarrow> slot_ok s (cn_id ?c, trim_space inst)"
      unfolding id using slot inst by (simp add: f(1) new_pending_def split: option.split)
  qed (rule ci)
  moreover have "cs_conns (snd (callback_orphan env inst setup pending s)) = cs_conns (put_binder env ?c s)"
    using conns_put [of "persist_connector env ?c (store_conn (cn_id ?c) ?c s)" ?c s inst env] ci
    by (simp add: callback_orphan_def Some rh Let_def)
  ultimately show ?thesis using good_move_conns by blast
qed

lemma callback_move:
  assumes ok: "conn_ok s" and g: "op_ok env (OpCallback parse inst setup st) s"
  shows "good_move s (snd (handle_github_callback env parse inst setup st s))"
proof -
  let ?i = "trim_space inst"
  let ?f = "find_connector_by_installation ?i s"
  obtain org proj user where t: "state_tenant env parse st = (org, proj, user)" by (cases "state_tenant env parse st")
  have slots: "slot_ok s (pending_id env ?i, ?i)" "slot_ok s (state_id env ?i (org, proj, user), ?i)"
    using g by (simp_all add: op_ok_def t Let_def)
  show ?thesis
  proof (cases "?i = [] \<or> (\<exists>c. ?f = Some c \<and> conn_status_is ''active'' c)")
    case True
    then show ?thesis
      using good_move_same [OF ok] good_move_soft_delete_found [OF ok] by (auto simp: handle_github_callback_def t Let_def)
  next
    case False
    have pend: "conn_status_is ''pending_claim'' d" if "?f = Some d" for d
      using find_inst_Some(4) [OF ok that] that False by blast
    have act: "(case ?f of Some c \<Rightarrow> (if conn_status_is ''active'' c then Some c else None) | None \<Rightarrow> None) = None"
      using False by (auto split: option.split)
    have p: "(case ?f of Some c \<Rightarrow> (if conn_status_is ''pending_claim'' c then Some c else None) | None \<Rightarrow> None) = ?f"
      using pend by (auto split: option.split)
    show ?thesis
      using callback_bind_move [OF ok _ refl pend slots(2)] callback_orphan_move [OF ok _ refl pend slots(1)] False
      by (simp add: handle_github_callback_def t act p Let_def)
  qed
qed

lemma pending_not_deleted: "conn_status_is ''pending_claim'' c \<Longrightarrow> cn_status c \<noteq> ''deleted''"
proof -
  have "to_lower (trim_space ''deleted'') \<noteq> ''pending_claim''" by code_simp
  then show "conn_status_is ''pending_claim'' c \<Longrightarrow> cn_status c \<noteq> ''deleted''" by (auto simp: status_is)
qed

lemma to_lower_deleted: "to_lower ''deleted'' \<noteq> ''pending_claim''"
  by code_simp

lemma activate_move:
  assumes ok: "conn_ok s" and d: "live_conn (cn_id c) s = Some d" "binding d = binding c"
    and pend: "conn_status_is ''pending_claim'' c"
  shows "good_move s (snd (activate_pending env c tenant personal via s))"
proof -
  obtain org proj uid scope where t: "tenant = (org, proj, uid, scope)" by (cases tenant)
  let ?c = "activated env org proj uid scope personal via c"
  have same: "cn_id ?c = cn_id c" "cn_inst ?c = cn_inst c" by (simp_all add: activated_def Let_def)
  have id: "trim_space (cn_id ?c) = cn_id ?c" "cn_id ?c \<noteq> []" using conn_ok_id [OF ok d(1)] same by auto
  have dp: "\<not> bound d" using binding_bound [OF d(2)] bound_active [of c] pend by blast
  have "good_move s (put_binder env ?c s)"
  proof (rule good_move_put [OF ok id])
    fix k e assume e: "live_conn k s = Some e" "bound e"
    have k: "k \<noteq> cn_id c" using e d(1) dp by auto
    have "trim_space (cn_inst e) \<noteq> trim_space (cn_inst c)"
    proof
      assume i: "trim_space (cn_inst e) = trim_space (cn_inst c)"
      have le: "live_binder e" using bound_active [OF e(2)] by simp
      have "live_binder c" using le i pending_not_deleted [OF pend] by (simp add: live_binder_def)
      then have "live_binder d" "cn_inst d = cn_inst c" using binding_binder [OF d(2)] by auto
      then show False using conn_ok_one [OF ok e(1) d(1) le] i k by simp
    qed
    then show "trim_space (cn_inst e) \<noteq> trim_space (cn_inst ?c) \<and> k \<noteq> cn_id ?c" using k same by simp
  qed
  then show ?thesis by (simp add: activate_pending_def t Let_def good_move_conns [OF conns_bind])
qed

lemma claim_move:
  assumes ok: "conn_ok s" and rows: "rows_agree env s"
  shows "good_move s (snd (handle_connector_claim env q cid token s))"
proof -
  obtain co t where g: "get_or_hydrate env cid s = (co, t)" by (cases "get_or_hydrate env cid s")
  note l = get_loaded [OF ok rows g]
  have lt: "good_move s t" "conn_ok t" using l loaded_move loaded_ok by blast+
  have act: "good_move s (snd (activate_pending env c tenant personal via t))"
    if "co = Some c" "conn_status_is ''pending_claim'' c" for c tenant personal via
  proof -
    have "\<exists>d. live_conn (cn_id c) t = Some d \<and> binding d = binding c" using l that(1) by blast
    then obtain d where "live_conn (cn_id c) t = Some d" "binding d = binding c" by blast
    then show ?thesis using good_move_trans [OF lt(1) activate_move [OF lt(2) _ _ that(2)]] by blast
  qed
  show ?thesis
    using good_move_same [OF ok] lt(1) act
    by (auto simp: handle_connector_claim_def g Let_def case_prod_beta split: option.split sum.split)
qed

text \<open>A connector that may be activated: pending, and the live map holds one bound alike under its id.\<close>

definition claimable :: "conn_state \<Rightarrow> app_conn \<Rightarrow> bool" where
  "claimable s c \<longleftrightarrow>
     conn_status_is ''pending_claim'' c \<and> (\<exists>d. live_conn (cn_id c) s = Some d \<and> binding d = binding c)"

lemma claimable_loaded: "loaded env s t \<Longrightarrow> claimable s c \<Longrightarrow> claimable t c"
  unfolding loaded_def same_bindings_def claimable_def by metis

lemma add_pending_in: "c \<in> set (add_pending d out) \<Longrightarrow> c \<in> set out \<or> (c = d \<and> conn_status_is ''pending_claim'' d)"
  by (auto simp: add_pending_def split: if_splits)

lemma fold_pending_in:
  "c \<in> set (fold add_pending ds out) \<Longrightarrow> c \<in> set out \<or> (c \<in> set ds \<and> conn_status_is ''pending_claim'' c)"
  by (induction ds arbitrary: out) (auto dest: add_pending_in)

lemma add_pending_rows_loaded:
  assumes "conn_ok s" "rows_agree env s" "\<forall>c \<in> set out. claimable s c"
    "\<forall>row \<in> set rows. row_listed env row"
    "add_pending_rows env rows out s = (cs, t)"
  shows "loaded env s t \<and> (\<forall>c \<in> set cs. claimable t c)"
  using assms
proof (induction rows arbitrary: out s)
  case Nil
  then show ?case using loaded_same by auto
next
  case (Cons row rows)
  obtain co u where g: "get_or_hydrate env (row ''id'') s = (co, u)" by (cases "get_or_hydrate env (row ''id'') s")
  note l = get_loaded [OF Cons.prems(1,2) g]
  have lu: "loaded env s u" using l by blast
  note ok = loaded_ok [OF lu]
  have out: "\<forall>c \<in> set out. claimable u c" using Cons.prems(3) claimable_loaded [OF lu] by blast
  have out': "\<forall>c \<in> set (add_pending d out). claimable u c" if "co = Some d" for d
    using out l that by (auto simp: claimable_def dest!: add_pending_in)
  have none: "add_pending d out = out"
    if h: "co = None" "connector_from_ch_row env row False = Some d" "row ''id'' \<noteq> []" for d
  proof -
    have live: "live_conn (row ''id'') s = None"
      using g h(1) by (auto simp: get_or_hydrate_def split: option.splits if_splits prod.splits)
    obtain legacy where q: "ce_query env (row ''id'') = Some (row, legacy)" "trim_space (row ''id'') = row ''id''"
      using Cons.prems(4) by (auto simp: row_listed_def)
    obtain e where e: "connector_from_ch_row env row True = Some e" "cn_status e = cn_status d"
      using h(2,3) by (auto simp: connector_from_ch_row_def)
    have "conn_status_is ''deleted'' e"
      using g h live q e(1) by (auto simp: get_or_hydrate_def hydrate_connector_def Let_def split: if_splits)
    then have "\<not> conn_status_is ''pending_claim'' d"
      using e(2) status_is(2) [of d] to_lower_deleted by (auto simp: conn_status_is_def equal_fold_def)
    then show ?thesis by (simp add: add_pending_def)
  qed
  show ?case
  proof (cases "row ''id'' = []")
    case True
    then show ?thesis using Cons.IH [OF Cons.prems(1,2,3)] Cons.prems(4,5) by simp
  next
    case False
    have rest: "\<forall>row \<in> set rows. row_listed env row"
      using Cons.prems(4) by simp
    have "loaded env u t \<and> (\<forall>c \<in> set cs. claimable t c)"
    proof (cases co)
      case None
      then have "add_pending_rows env rows out u = (cs, t)"
        using Cons.prems(5) False g none by (auto split: option.splits)
      then show ?thesis using Cons.IH [OF _ _ out rest] ok by blast
    next
      case (Some d)
      then have "add_pending_rows env rows (add_pending d out) u = (cs, t)"
        using Cons.prems(5) False g by simp
      then show ?thesis using Cons.IH [OF _ _ out' [OF Some] rest] ok by blast
    qed
    then show ?thesis using loaded_trans [OF lu] by blast
  qed
qed

lemma claimable_activate:
  assumes u: "good_move s u" "claimable u c" "cs_conns v = cs_conns u"
  shows "good_move s (snd (activate_pending env c tenant personal via v))"
proof -
  have ok: "conn_ok v" using u(1) conn_ok_cong [OF u(3)] by (simp add: good_move_def)
  obtain d where d: "live_conn (cn_id c) v = Some d" "binding d = binding c" "conn_status_is ''pending_claim'' c"
    using u(2) live_conn_cong [OF u(3)] by (auto simp: claimable_def)
  have "good_move s v" using u(1) good_move_conns [OF u(3)] by simp
  then show ?thesis using good_move_trans activate_move [OF ok d] by blast
qed

lemma finish_installation_move:
  assumes ok: "conn_ok s"
  shows "good_move s (snd (finish_by_installation env q tenant inst s))"
proof -
  have same: "good_move s s" using good_move_same [OF ok] by simp
  have "claimable s c" if "find_connector_by_installation inst s = Some c" "conn_status_is ''pending_claim'' c" for c
    using find_inst_Some(1) [OF ok that(1)] that(2) by (auto simp: claimable_def)
  then have "good_move s (snd (activate_pending env c tenant p via (snd (consume_install_intent env uid org p' s))))"
    if "find_connector_by_installation inst s = Some c" "conn_status_is ''pending_claim'' c" for c p via uid org p'
    using claimable_activate [OF same] that by simp
  then show ?thesis
    using same by (auto simp: finish_by_installation_def Let_def case_prod_beta split: option.split)
qed

lemma finish_intent_move:
  assumes ok: "conn_ok s" and rows: "rows_agree env s" and listed: "\<forall>row \<in> set rows. row_listed env row"
  shows "good_move s (snd (finish_by_intent env when rows q tenant s))"
proof -
  let ?uid = "fst (snd (snd tenant))"
  obtain i u where i: "peek_install_intent env ?uid (fst tenant) (oq_personal q) s = (i, u)"
    by (cases "peek_install_intent env ?uid (fst tenant) (oq_personal q) s")
  have cu: "cs_conns u = cs_conns s" using conns_peek [of env ?uid "fst tenant" "oq_personal q" s] i by simp
  obtain cs v where l: "list_pending_connectors env rows u = (cs, v)" by (cases "list_pending_connectors env rows u")
  have oku: "conn_ok u" "rows_agree env u"
    using ok rows conn_ok_cong [OF cu] rows_agree_cong [OF cu] by simp_all
  have "\<forall>c \<in> set (fold add_pending (map snd (cs_conns u)) []). claimable u c"
    using keys_ok_values(2) [OF conn_ok_keys [OF oku(1)]] by (fastforce simp: claimable_def dest!: fold_pending_in)
  then have lv: "loaded env u v" "\<forall>c \<in> set cs. claimable v c"
    using add_pending_rows_loaded [OF oku _ listed, of _ cs v] l by (simp_all add: list_pending_connectors_def)
  have su: "good_move s u" using good_move_same [OF ok cu] .
  have sv: "good_move s v" using good_move_trans [OF su loaded_move [OF lv(1)]] .
  have "good_move s (snd (activate_pending env c tenant p via (snd (consume_install_intent env uid org p' v))))"
    if "filter P cs = [c]" for c p via uid org p' P
  proof -
    have "c \<in> set (filter P cs)" unfolding that by simp
    then have "claimable v c" using lv(2) by simp
    then show ?thesis by (rule claimable_activate [OF sv]) simp
  qed
  then show ?thesis
    using su sv by (auto simp: finish_by_intent_def i l Let_def case_prod_beta split: option.split list.split)
qed

lemma finish_move:
  assumes "conn_ok s" "rows_agree env s" "\<forall>row \<in> set rows. row_listed env row"
  shows "good_move s (snd (handle_finish_install env when rows q inst s))"
  using good_move_same [OF assms(1)] finish_installation_move [OF assms(1)] finish_intent_move [OF assms]
  by (auto simp: handle_finish_install_def Let_def split: sum.split)

lemma issue_move:
  assumes ok: "conn_ok s"
  shows "good_move s (snd (handle_issue_claim_token env q inst force prior s))"
proof -
  have "good_move s (store_conn (cn_id c) (c\<lparr>cn_meta := m, cn_updated := u\<rparr>) s)"
    if "find_connector_by_installation i s = Some c" for i c m u
    using good_move_update [OF ok, of "c\<lparr>cn_meta := m, cn_updated := u\<rparr>" c] find_inst_Some(1) [OF ok that]
    by (simp add: binding_def)
  then show ?thesis
    using good_move_same [OF ok] good_move_conns [OF conns_persist]
    by (auto simp: handle_issue_claim_token_def Let_def split: option.split)
qed

lemma refresh_binding: "refresh_app_conn env login c = (ch, c') \<Longrightarrow> binding c' = binding c \<and> cn_id c' = cn_id c"
  by (auto simp: refresh_app_conn_def binding_def Let_def split: if_splits option.splits prod.splits)

lemma ensure_found_move:
  assumes ok: "conn_ok s" and f: "find_connector_by_installation inst s = Some c"
    and r: "refresh_app_conn env login c = (ch, c')" and c'': "c'' = (if ch then c'\<lparr>cn_updated := ce_now env\<rparr> else c')"
    and ch: "\<not> ch \<Longrightarrow> c' = c"
    and t: "cs_conns t = cs_conns (if ch then store_conn (cn_id c'') c'' s else s)"
  shows "good_move s (soft_delete_others env (cn_id c'') inst t)"
proof -
  note i = find_inst_Some [OF ok f]
  have b: "binding c'' = binding c" "cn_id c'' = cn_id c"
    using refresh_binding [OF r] c'' by (auto simp: binding_def)
  have st: "good_move s t"
  proof (cases ch)
    case True
    have "good_move s (store_conn (cn_id c'') c'' s)" using good_move_update [OF ok, of c'' c] i(1) b by simp
    then show ?thesis using good_move_conns [of t] t True by simp
  qed (use good_move_same [OF ok] t in simp)
  have live: "live_conn (cn_id c'') t = Some c''"
    using t i(1) b(2) ch c'' by (cases ch) (simp_all add: live_conn_cong [of t])
  have oi: "of_installation (trim_space inst) c''"
    using i(2) b(1) by (simp add: of_installation_def binding_def)
  show ?thesis
    using good_move_trans [OF st good_move_soft_delete [OF _ live oi i(3)]] st by (simp add: good_move_def)
qed

lemma refresh_unchanged: "refresh_app_conn env login c = (False, c') \<Longrightarrow> c' = c"
  by (auto simp: refresh_app_conn_def Let_def split: if_splits option.splits prod.splits)

lemma ensure_move:
  assumes ok: "conn_ok s" and g: "op_ok env (OpEnsure inst login) s"
  shows "good_move s (snd (ensure_github_app_connector env inst login s))"
proof (cases "trim_space inst = [] \<or> \<not> github_app_configured (ce_getenv env)")
  case True
  then show ?thesis using good_move_same [OF ok] by (simp add: ensure_github_app_connector_def Let_def)
next
  case False
  let ?i = "trim_space inst"
  have slot: "slot_ok s (pending_id env ?i, ?i)" using g by (simp add: op_ok_def)
  show ?thesis
  proof (cases "find_connector_by_installation ?i s")
    case None
    let ?c = "new_pending env ?i login ([(''auto_provisioned'', JBool True), (''pending_claim'', JBool True)] @
      (case mint_claim_nonce env of None \<Rightarrow> [] | Some (raw, h) \<Rightarrow> [(''claim_nonce_hash'', JStr h)]))"
    have c: "cn_id (new_pending env ?i login m) = pending_id env ?i" "cn_inst (new_pending env ?i login m) = ?i" for m
      by (simp_all add: new_pending_def)
    have "good_move s (put_binder env ?c s)"
      by (rule good_move_take [OF ok, where inst = ?i]) (simp_all add: None c slot)
    moreover have "cs_conns (snd (ensure_github_app_connector env inst login s)) = cs_conns (put_binder env ?c s)"
      using conns_put [of "persist_connector env ?c (store_conn (cn_id ?c) ?c s)" ?c s ?i env] False None c
      by (simp add: ensure_github_app_connector_def Let_def)
    ultimately show ?thesis using good_move_conns by blast
  next
    case (Some c)
    obtain ch c' where r: "refresh_app_conn env login c = (ch, c')" by (cases "refresh_app_conn env login c")
    note m = ensure_found_move [OF ok Some r refl]
    show ?thesis
    proof (cases ch)
      case True
      then show ?thesis
        using m [of "persist_connector env (c'\<lparr>cn_updated := ce_now env\<rparr>)
            (store_conn (cn_id c') (c'\<lparr>cn_updated := ce_now env\<rparr>) s)"] False Some r
        by (simp add: ensure_github_app_connector_def Let_def)
    next
      case F: False
      then show ?thesis
        using m [of s] refresh_unchanged [of env login c c'] False Some r
        by (simp add: ensure_github_app_connector_def Let_def)
    qed
  qed
qed

lemma conns_oam:
  "cs_conns (snd (ensure_watched_from_oam env org repo cid s)) = cs_conns s \<or>
   (\<exists>k. cs_conns (snd (ensure_watched_from_oam env org repo cid s)) = cs_conns (snd (get_or_hydrate env k s)))"
proof (cases "\<exists>p k. lookup_oam_project env (trim_space org) (trim_space repo) = Inr (Some p) \<and>
    resolve_connector_on_oam_project (Some p) cid = Inr k")
  case False
  then show ?thesis
    by (auto simp: ensure_watched_from_oam_def Let_def split: sum.split option.split)
next
  case True
  then obtain p k where p: "lookup_oam_project env (trim_space org) (trim_space repo) = Inr (Some p)"
    "resolve_connector_on_oam_project (Some p) cid = Inr k" by blast
  obtain co t where g: "get_or_hydrate env k s = (co, t)" by (cases "get_or_hydrate env k s")
  have "cs_conns (snd (ensure_watched_from_oam env org repo cid s)) \<in> {cs_conns s, cs_conns t}"
    by (simp add: ensure_watched_from_oam_def Let_def p g upsert_watched_def split: option.split)
  then show ?thesis using g by (metis insertE singletonD snd_conv)
qed

lemma oam_move:
  assumes ok: "conn_ok s" and rows: "rows_agree env s"
  shows "good_move s (snd (ensure_watched_from_oam env org repo cid s))"
proof -
  have "good_move s (snd (get_or_hydrate env k s))" for k
    using get_loaded [OF ok rows] loaded_move by (metis surjective_pairing)
  then show ?thesis
    using conns_oam [of env org repo cid s] good_move_same [OF ok] good_move_conns by metis
qed

lemma fold_watch_default [conn_frame]: "cs_conns (fold (watch_default env c) repos s) = cs_conns s"
  by (rule conns_fold) (simp add: watch_default_def Let_def)

lemma pat_move:
  assumes ok: "conn_ok s" and g: "op_ok env (OpPat q token login repos scope) s"
  shows "good_move s (snd (handle_github_pat_connect env q token login repos scope s))"
proof (cases "refuse_oam_local_write env q \<or> trim_space token = [] \<or>
    (\<exists>e. normalize_cred_scope (ce_tenancy env) scope (oq_actor q) = Inl e)")
  case True
  then show ?thesis using good_move_same [OF ok] by (auto simp: handle_github_pat_connect_def Let_def)
next
  case False
  then obtain sc where sc: "normalize_cred_scope (ce_tenancy env) scope (oq_actor q) = Inr sc"
    by (metis old.sum.exhaust)
  obtain org proj user where t: "resolve_cred_target (ce_tenancy env) (oq_actor q) sc = (org, proj, user)"
    by (cases "resolve_cred_target (ce_tenancy env) (oq_actor q) sc")
  let ?id = "pat_id env q login scope"
  have slot: "slot_ok s (?id, [])" using g by (simp add: op_ok_def)
  have put: "good_move s (store_conn (cn_id c) c s)" if "cn_id c = ?id" "cn_inst c = []" for c
    using slot that by (intro good_move_patless [OF ok]) (auto simp: slot_ok_def)
  have id: "?id = load_id (ce_sha1hex env) ''conn'' [org, proj, sc, user, ''github_pat'', nz login ''pat-user'', ce_hex env]"
    by (simp add: pat_id_def sc t Let_def)
  show ?thesis
  proof (cases "can_write_connector_scope (ce_tenancy env) (oq_actor q) sc")
    case (Some e)
    then show ?thesis using good_move_same [OF ok] False by (simp add: handle_github_pat_connect_def sc Let_def)
  next
    case None
    let ?c = "pat_conn env org proj sc user (nz login ''pat-user'') token"
    have c: "cn_id ?c = ?id" "cn_inst ?c = []" by (simp_all add: pat_conn_def id)
    have "cs_conns (snd (handle_github_pat_connect env q token login repos scope s)) = cs_conns (store_conn (cn_id ?c) ?c s)"
      using False None by (simp add: handle_github_pat_connect_def sc t Let_def fold_watch_default)
    then show ?thesis by (rule good_move_via [OF put [OF c]])
  qed
qed

lemma patched_binding: "binding (patched_names b c) = binding c \<and> cn_id (patched_names b c) = cn_id c"
  by (auto simp: patched_names_def binding_def Let_def split: option.split)

lemma immutable_None:
  assumes "deny_connector_if_immutable tn a co = None"
  shows "\<exists>c. co = Some c \<and> cn_status c \<noteq> ''deleted''"
  using assms by (auto simp: deny_connector_if_immutable_def deny_connector_if_invisible_def split: option.splits if_splits)

lemma patch_move:
  assumes ok: "conn_ok s" and rows: "rows_agree env s" and cid: "trim_space cid = cid"
  shows "good_move s (snd (handle_connector_patch env q cid body s))"
proof -
  obtain co t where g: "get_or_hydrate env cid s = (co, t)" by (cases "get_or_hydrate env cid s")
  note l = get_loaded [OF ok rows g]
  have t: "good_move s t" "conn_ok t" using l loaded_move loaded_ok by blast+
  have put: "good_move s (store_conn cid c t)" if h: "co = Some c0" "binding c = binding c0" "cn_id c = cn_id c0" for c c0
  proof -
    have "\<exists>d. live_conn (cn_id c) t = Some d \<and> binding c = binding d" "cn_id c = cid" using l h cid by auto
    then show ?thesis using good_move_trans [OF t(1) good_move_update [OF t(2)]] by metis
  qed
  have names: "good_move s (store_conn cid (patched_names b c) t)" if "co = Some c" for b c
    using put [OF that] patched_binding by blast
  have token: "good_move s (store_conn cid ((patched_names b c)\<lparr>cn_token := tok, cn_updated := u\<rparr>) t)"
    "good_move s (store_conn cid ((patched_names b c)\<lparr>cn_updated := u\<rparr>) t)" if "co = Some c" for b c tok u
    by (rule put [OF that]; use patched_binding [of b c] in \<open>simp add: binding_def\<close>)+
  have id: "cn_id (patched_names b c) = cid" if "co = Some c" for b c using patched_binding [of b c] l that cid by simp
  have conv: "good_move s (persist_connector env c u) = good_move s u" for c u by (rule good_move_conns) simp
  show ?thesis
  proof (cases "refuse_oam_local_write env q")
    case False
    show ?thesis
      using False t(1)
      by (simp add: handle_connector_patch_def g Let_def conv names token id split: option.split)
  qed (use good_move_same [OF ok] in \<open>simp add: handle_connector_patch_def\<close>)
qed

lemma conn_ok_subset:
  assumes ok: "conn_ok t" and keys: "distinct (map fst (cs_conns u))"
    and sub: "\<And>k c. live_conn k u = Some c \<Longrightarrow> live_conn k t = Some c"
  shows "conn_ok u"
  unfolding conn_ok_def keys_ok_def
  using keys conn_ok_id [OF ok sub] conn_ok_one [OF ok sub sub] by blast

lemma delete_move:
  assumes ok: "conn_ok s" and rows: "rows_agree env s"
  shows "conn_ok (snd (handle_connector_delete env q cid s))"
    "k \<noteq> cid \<Longrightarrow> live_conn k s = Some c \<Longrightarrow> bound c \<Longrightarrow>
       \<exists>c'. live_conn k (snd (handle_connector_delete env q cid s)) = Some c' \<and> binding c' = binding c"
proof -
  obtain co t where g: "get_or_hydrate env cid s = (co, t)" by (cases "get_or_hydrate env cid s")
  note l = get_loaded [OF ok rows g]
  have t: "good_move s t" "conn_ok t" using l loaded_move loaded_ok by blast+
  let ?r = "snd (handle_connector_delete env q cid s)"
  have r: "cs_conns ?r = cs_conns s \<or> cs_conns ?r = cs_conns t \<or>
      (\<exists>c. cs_conns ?r = AList.delete cid (AList.update cid c (cs_conns t)))"
    by (auto simp: handle_connector_delete_def g Let_def store_conn_def split: option.splits)
  have d: "live_conn k u = (if k = cid then None else live_conn k t)"
    if "cs_conns u = AList.delete cid (AList.update cid c (cs_conns t))" for u c k
    using that by (simp add: live_conn_def delete_conv' update_conv')
  have gone: "conn_ok u" if u: "cs_conns u = AList.delete cid (AList.update cid c (cs_conns t))" for u c
  proof (rule conn_ok_subset [OF t(2)])
    have "distinct (map fst (cs_conns t))" using t(2) by (simp add: conn_ok_def keys_ok_def)
    then show "distinct (map fst (cs_conns u))" unfolding u by (intro distinct_delete AList.distinct_update)
    show "live_conn k u = Some c' \<Longrightarrow> live_conn k t = Some c'" for k c' using d [OF u] by (simp split: if_splits)
  qed
  show "conn_ok ?r" using r gone ok t(2) conn_ok_cong by metis
  assume k: "k \<noteq> cid" "live_conn k s = Some c" "bound c"
  have "\<exists>c'. live_conn k t = Some c' \<and> binding c' = binding c"
    using t(1) k unfolding good_move_def kept_bindings_def by blast
  then show "\<exists>c'. live_conn k ?r = Some c' \<and> binding c' = binding c"
    using r k(1,2) d [of ?r _ k] live_conn_cong [of ?r s k] live_conn_cong [of ?r t k] by auto
qed

subsection \<open>Bindings are final\<close>

fun deletes :: "conn_op \<Rightarrow> string \<Rightarrow> bool" where
  "deletes (OpDelete q cid) k = (cid = k)"
| "deletes _ k = False"

lemma op_rows: "op_ok env op s \<Longrightarrow> rows_agree env s"
  by (simp add: op_ok_def)

lemma run_op_move:
  assumes "conn_ok s" "op_ok env op s" "\<And>k. \<not> deletes op k"
  shows "good_move s (run_op env op s)"
proof (cases op)
  case (OpFinish clock rows q inst)
  then show ?thesis using finish_move [OF assms(1) op_rows [OF assms(2)], of rows] assms(2) by (simp add: op_ok_def)
next
  case (OpPatch q cid b)
  then show ?thesis using patch_move [OF assms(1) op_rows [OF assms(2)], of cid] assms(2) by (simp add: op_ok_def)
next
  case (OpDelete q cid)
  then show ?thesis using assms(3) [of cid] by simp
next
  case (OpFindWatched repo)
  then show ?thesis using loaded_move [OF find_watched_loaded [OF assms(1) op_rows [OF assms(2)]]] by simp
qed (use assms callback_move ensure_move pat_move issue_move claim_move [OF assms(1) op_rows [OF assms(2)]]
      oam_move [OF assms(1) op_rows [OF assms(2)]] good_move_same in \<open>simp_all\<close>)

lemma run_op_ok:
  assumes "conn_ok s" "op_ok env op s"
  shows "conn_ok (run_op env op s)"
proof (cases "\<exists>k. deletes op k")
  case True
  then obtain q cid where "op = OpDelete q cid" by (cases op) auto
  then show ?thesis using delete_move(1) [OF assms(1) op_rows [OF assms(2)]] by simp
next
  case False
  then show ?thesis using run_op_move [OF assms] by (simp add: good_move_def)
qed

lemma bound_kept:
  assumes "conn_ok s" "op_ok env op s" "\<not> deletes op k" "live_conn k s = Some c" "bound c"
  shows "\<exists>c'. live_conn k (run_op env op s) = Some c' \<and> binding c' = binding c"
proof (cases "\<exists>k. deletes op k")
  case True
  then obtain q cid where "op = OpDelete q cid" by (cases op) auto
  then show ?thesis using delete_move(2) [OF assms(1) op_rows [OF assms(2)] _ assms(4,5)] assms(3) by simp
next
  case False
  then show ?thesis
    using run_op_move [OF assms(1,2)] assms(4,5) unfolding good_move_def kept_bindings_def by blast
qed

interpretation bindings: transition_system "\<lambda>s. cs_conns s = []" conn_step conn_ok
proof unfold_locales
  show "cs_conns s = [] \<Longrightarrow> conn_ok s" for s by (simp add: conn_ok_def keys_ok_def live_conn_def)
  show "conn_ok s \<Longrightarrow> conn_step s t \<Longrightarrow> conn_ok t" for s t by (elim conn_stepE) (simp add: run_op_ok)
qed

subsection \<open>A sample history\<close>

definition sample_conn_env :: conn_env where
  "sample_conn_env =
     \<lparr>ce_now = ''t1'', ce_nanos = 1000, ce_getenv = (\<lambda>_. []), ce_sha1hex = (\<lambda>_. ''abc''), ce_sha256hex = (\<lambda>x. ''h'' @ x),
      ce_nonce = Some ''nonce'', ce_hex = ''ff'', ce_writer = False, ce_query = (\<lambda>_. None), ce_watch_rows = (\<lambda>_. []),
      ce_encrypt = Some, ce_decrypt = Some, ce_dec_meta = (\<lambda>_. []), ce_enc_strs = (\<lambda>_. []), ce_dec_strs = (\<lambda>_. None),
      ce_oam = (\<lambda>_. Inl ''down''), ce_legacy = False,
      ce_tenancy = \<lparr>tn_enforced = True, tn_permits = (\<lambda>_ _. True), tn_all = ''all'', tn_org = ''default-org'',
                    tn_proj = ''default-project''\<rparr>\<rparr>"

definition no_conns :: conn_state where
  "no_conns = \<lparr>cs_conns = [], cs_watched = [], cs_intents = [], cs_log = []\<rparr>"

text \<open>A callback with a signed state.\<close>

definition bind_op :: conn_op where
  "bind_op = OpCallback (\<lambda>_. Some \<lparr>is_org = ''acme'', is_proj = [], is_user = ''ann''\<rparr>) ''7'' ''install'' ''tok''"

lemma no_rows [simp]: "rows_agree sample_conn_env s"
  by (simp add: rows_agree_def row_conn_def sample_conn_env_def)

lemma trim_conn_abc: "trim_space ''conn-abc'' = ''conn-abc''"
  by code_simp

lemma bind_ok: "op_ok sample_conn_env bind_op no_conns"
proof -
  have "new_slots sample_conn_env bind_op = [(''conn-abc'', ''7''), (''conn-abc'', ''7'')]" by code_simp
  moreover have "slot_ok no_conns (''conn-abc'', ''7'')"
    using trim_conn_abc by (simp add: slot_ok_def no_conns_def live_conn_def)
  moreover have "path_ids bind_op = []" "listed_rows bind_op = []" by (simp_all add: bind_op_def)
  ultimately show ?thesis by (simp add: op_ok_def)
qed

definition bound_state :: conn_state where
  "bound_state = run_op sample_conn_env bind_op no_conns"

definition bound_conn :: app_conn where
  "bound_conn = the (live_conn ''conn-abc'' bound_state)"

lemma bound_state_conn: "live_conn ''conn-abc'' bound_state = Some bound_conn" "trim_space (cn_inst bound_conn) = ''7''"
  "bound bound_conn"
proof -
  have "live_conn ''conn-abc'' bound_state \<noteq> None" by code_simp
  then show "live_conn ''conn-abc'' bound_state = Some bound_conn" by (auto simp: bound_conn_def)
  show "trim_space (cn_inst bound_conn) = ''7''" "bound bound_conn" by code_simp+
qed

lemma bound_reachable: "conn_step\<^sup>*\<^sup>* no_conns bound_state"
  unfolding bound_state_def by (intro r_into_rtranclp conn_stepI bind_ok)

text \<open>
  A binding is final while ClickHouse and the live map agree: from an empty registry on, a connector
  that is bound to a tenant for an installation keeps organization, project, scope, user, installation
  and status over every operation but the delete of that connector.  The agreement (\<^const>\<open>rows_agree\<close>,
  part of \<^const>\<open>op_ok\<close>) is assumed of every step and nothing in the code establishes it: after a boot
  that loaded only part of the connectors, a webhook makes a second, pending connector for an
  installation that is bound, and finishing the install deletes the bound one once it is loaded.
\<close>

lemma binding_kept_while_rows_agree:
  assumes "cs_conns s0 = []" "conn_step\<^sup>*\<^sup>* s0 s" "op_ok env op s"
    and "live_conn k s = Some c" "bound c" "\<not> deletes op k"
  shows "\<exists>c'. live_conn k (run_op env op s) = Some c' \<and> binding c' = binding c"
  using bound_kept [OF bindings.reachable_inv [OF assms(2,1)] assms(3,6,4,5)] .

end
