(* ===== verification/Claim_Authority.thy ===== *)
theory Claim_Authority
  imports Claim_Laws
begin

text \<open>
  Where a binding of an installation comes from: it was there, or the step that made it had authority
  for it: a signed install state, a claim token, an install intent or the installation's number, in
  every case for the tenant the state or the session names.
\<close>

subsection \<open>Bindings need authority\<close>

lemma bound_from_put:
  assumes "conn_ok s" "trim_space (cn_id c) = cn_id c" "cn_id c \<noteq> []" "bound c \<Longrightarrow> P c"
  shows "bound_from env P s (put_binder env' c s)"
  using bound_active assms(4)
  by (fastforce simp: bound_from_def live_put_binder [OF conn_ok_keys [OF assms(1)] assms(2,3)])

lemma bound_from_soft_delete:
  assumes "conn_ok s"
  shows "bound_from env P s (soft_delete_others env' keep inst s)"
  using bound_active by (fastforce simp: bound_from_def live_soft_delete [OF conn_ok_keys [OF assms]] split: option.splits)

lemma bound_from_update:
  assumes "live_conn (cn_id c) s = Some d" "binding c = binding d"
  shows "bound_from env P s (store_conn (cn_id c) c s)"
  using assms by (auto simp: bound_from_def)

lemma bound_from_weaken: "bound_from env P s t \<Longrightarrow> (\<And>d. P d \<Longrightarrow> Q d) \<Longrightarrow> bound_from env Q s t"
  unfolding bound_from_def by blast

lemma loaded_bound_from: "loaded env s t \<Longrightarrow> bound_from env (\<lambda>_. False) s t"
  by (simp add: loaded_def)

text \<open>
  Who stands behind a binding \<open>d\<close> that an operation makes: the tenant of a signed state, or the
  session of a request that shows the token whose digest the pending connector carries, names the
  installation, or left an intent.
\<close>

fun authorised :: "conn_env \<Rightarrow> conn_op \<Rightarrow> conn_state \<Rightarrow> app_conn \<Rightarrow> bool" where
  "authorised env (OpCallback parse inst setup st) s d =
     (state_tenant env parse st = (cn_org d, cn_proj d, cn_user d) \<and> (cn_org d \<noteq> [] \<or> cn_user d \<noteq> []) \<and>
      cn_inst d = trim_space inst)"
| "authorised env (OpClaim q cid token) s d =
     ((\<exists>uid. claim_tenant env q = Inr (cn_org d, cn_proj d, uid, cn_scope d) \<and> (uid \<noteq> [] \<longrightarrow> cn_user d = uid)) \<and>
      (\<exists>e. (live_conn cid s = Some e \<or> row_conn env (trim_space cid) = Some e) \<and> cn_inst e = cn_inst d \<and>
         conn_status_is ''pending_claim'' e \<and>
         trim_space (as_str (jget (cn_meta e) ''claim_nonce_hash'')) = ce_sha256hex env (trim_space token)))"
| "authorised env (OpFinish clock rows q inst) s d =
     (\<exists>uid. claim_tenant env q = Inr (cn_org d, cn_proj d, uid, cn_scope d) \<and> (uid \<noteq> [] \<longrightarrow> cn_user d = uid) \<and>
        (trim_space (cn_inst d) = trim_space inst \<or>
         fst (peek_install_intent env uid (cn_org d) (oq_personal q) s) \<noteq> None))"
| "authorised env _ s d = False"

lemma activated_simps [simp]:
  "cn_org (activated env og pj uid sc p via c) = og" "cn_proj (activated env og pj uid sc p via c) = pj"
  "cn_scope (activated env og pj uid sc p via c) = sc" "cn_id (activated env og pj uid sc p via c) = cn_id c"
  "cn_inst (activated env og pj uid sc p via c) = cn_inst c"
  "cn_user (activated env og pj uid sc p via c) = (if uid \<noteq> [] then uid else cn_user c)"
  by (simp_all add: activated_def Let_def)

lemma activate_from:
  assumes ok: "conn_ok v" and d: "live_conn (cn_id c) v = Some d" and old: "bound_from env (\<lambda>_. False) s v"
    and P: "\<And>via'. P (activated env' (fst t) (fst (snd t)) (fst (snd (snd t))) (snd (snd (snd t))) personal via' c)"
  shows "bound_from env P s (snd (activate_pending env' c t personal via v))"
proof -
  obtain og pj uid sc where t: "t = (og, pj, uid, sc)" by (cases t)
  let ?c = "activated env' og pj uid sc personal via c"
  have "trim_space (cn_id ?c) = cn_id ?c" "cn_id ?c \<noteq> []" using conn_ok_id [OF ok d] by auto
  then have "bound_from env P v (put_binder env' ?c v)"
    using bound_from_put [OF ok] P [of via] by (simp add: t)
  then have "bound_from env P v (snd (activate_pending env' c t personal via v))"
    by (rule bound_from_cong [rotated]) (simp add: activate_pending_def t Let_def conns_bind)
  with old show ?thesis by (rule bound_from_trans)
qed

lemma pending_lower: "to_lower (trim_space ''pending_claim'') = ''pending_claim''"
  by code_simp

lemma claim_from:
  assumes ok: "conn_ok s" and rows: "rows_agree env s"
  shows "bound_from env (authorised env (OpClaim q cid token) s) s (snd (handle_connector_claim env q cid token s))"
proof -
  obtain co t where g: "get_or_hydrate env cid s = (co, t)" by (cases "get_or_hydrate env cid s")
  note l = get_loaded [OF ok rows g]
  have lt: "bound_from env P s t" for P
    using l loaded_bound_from bound_from_weaken by blast
  have okt: "conn_ok t" using l loaded_ok by blast
  have src: "live_conn cid s = Some c \<or> row_conn env (trim_space cid) = Some c" if "co = Some c" for c
    using g that
    by (auto simp: get_or_hydrate_def hydrate_connector_def row_conn_def Let_def split: option.splits if_splits prod.splits)
  have act: "bound_from env (authorised env (OpClaim q cid token) s) s (snd (activate_pending env c tenant p via t))"
    if h: "co = Some c" "conn_status_is ''pending_claim'' c" "claim_tenant env q = Inr tenant"
      "trim_space (as_str (jget (cn_meta c) ''claim_nonce_hash'')) = ce_sha256hex env (trim_space token)" for c tenant p via
  proof -
    obtain d where d: "live_conn (cn_id c) t = Some d" using l h(1) by blast
    obtain og pj uid sc where t: "tenant = (og, pj, uid, sc)" by (cases tenant)
    have "authorised env (OpClaim q cid token) s (activated env og pj uid sc p via' c)" for via'
      using h src [OF h(1)] by (auto simp: t)
    then show ?thesis
      using activate_from [OF okt d lt, where t = tenant] by (simp add: t)
  qed
  show ?thesis
    using lt act bound_from_same [of s s]
    by (auto simp: handle_connector_claim_def g Let_def case_prod_beta simp del: authorised.simps
        split: option.split sum.split)
qed

lemma callback_from:
  assumes ok: "conn_ok s" and g: "op_ok env (OpCallback parse inst setup st) s"
  shows "bound_from env (authorised env (OpCallback parse inst setup st) s) s (snd (handle_github_callback env parse inst setup st s))"
proof -
  let ?i = "trim_space inst" and ?P = "authorised env (OpCallback parse inst setup st) s"
  let ?f = "find_connector_by_installation ?i s"
  obtain org proj user where t: "state_tenant env parse st = (org, proj, user)" by (cases "state_tenant env parse st")
  have slots: "trim_space k = k \<and> k \<noteq> []" if "k \<in> {pending_id env ?i, state_id env ?i (org, proj, user)}" for k
  proof -
    have "slot_ok s (pending_id env ?i, ?i)" "slot_ok s (state_id env ?i (org, proj, user), ?i)"
      using g by (simp_all add: op_ok_def t Let_def)
    then show ?thesis using that unfolding slot_ok_def by auto
  qed
  have f: "trim_space (cn_id c) = cn_id c \<and> cn_id c \<noteq> []" if "?f = Some c" for c
    using conn_ok_id [OF ok find_inst_Some(1) [OF ok that]] by blast
  have key: "trim_space (case co of None \<Rightarrow> k | Some c \<Rightarrow> cn_id c) = (case co of None \<Rightarrow> k | Some c \<Rightarrow> cn_id c) \<and>
      (case co of None \<Rightarrow> k | Some c \<Rightarrow> cn_id c) \<noteq> []"
    if h: "co = None \<or> co = ?f" "k \<in> {pending_id env ?i, state_id env ?i (org, proj, user)}" for co k
  proof (cases co)
    case None
    then show ?thesis using slots [OF h(2)] by simp
  next
    case (Some c)
    then have "?f = Some c" using h(1) by simp
    then show ?thesis using f Some by simp
  qed
  have bind: "bound_from env ?P s (snd (callback_bind env ?i setup' org proj user co s))"
    if "co = None \<or> co = ?f" "org \<noteq> [] \<or> user \<noteq> []" for co setup'
  proof -
    let ?c = "state_bound env ?i setup' org proj user (state_conn env ?i org proj user co)"
    have "cn_id ?c = (case co of None \<Rightarrow> state_id env ?i (org, proj, user) | Some c \<Rightarrow> cn_id c)"
      by (simp add: state_bound_def state_conn_def state_id_def Let_def split: option.split)
    then have id: "trim_space (cn_id ?c) = cn_id ?c" "cn_id ?c \<noteq> []"
      using key [OF that(1), of "state_id env ?i (org, proj, user)"] by simp_all
    have "?P ?c" using that(2) by (auto simp: t state_bound_def Let_def)
    then have "bound_from env ?P s (put_binder env ?c s)" by (rule bound_from_put [OF ok id])
    then show ?thesis by (rule bound_from_cong [rotated]) (simp add: callback_bind_def Let_def conns_bind)
  qed
  have orphan: "bound_from env ?P s (snd (callback_orphan env ?i setup' co s))" if "co = None \<or> co = ?f" for co setup'
  proof (cases "mint_claim_nonce env")
    case None
    then show ?thesis using bound_from_same by (simp add: callback_orphan_def)
  next
    case (Some rh)
    let ?d = "case co of Some c \<Rightarrow> c | None \<Rightarrow> (new_pending env ?i [] [])\<lparr>cn_status := [], cn_updated := []\<rparr>"
    let ?c = "orphaned env setup' (snd rh) ?d"
    have id: "cn_id ?c = cn_id ?d" "cn_inst ?c = cn_inst ?d" by (simp_all add: orphaned_def Let_def)
    have d: "cn_id ?d = (case co of None \<Rightarrow> pending_id env ?i | Some c \<Rightarrow> cn_id c)"
      by (simp add: new_pending_def split: option.split)
    have k: "trim_space (cn_id ?c) = cn_id ?c" "cn_id ?c \<noteq> []"
      unfolding id d using key [OF that, of "pending_id env ?i"] by simp_all
    have ci: "trim_space (cn_inst ?c) = trim_space ?i"
    proof (cases co)
      case None
      then show ?thesis unfolding id by (simp add: new_pending_def)
    next
      case (Some c)
      then have "?f = Some c" using that by simp
      then show ?thesis using find_inst_Some(2) [OF ok, of ?i] Some unfolding id by (simp add: of_installation_def)
    qed
    have "\<not> bound ?c" using bound_active [of ?c] status_is(2) [of ?c] pending_lower by (auto simp: orphaned_def Let_def)
    then have "bound_from env ?P s (put_binder env ?c s)" using bound_from_put [OF ok k] by blast
    then show ?thesis
      by (rule bound_from_cong [rotated])
        (use conns_put [of "persist_connector env ?c (store_conn (cn_id ?c) ?c s)" ?c s ?i env] ci
          in \<open>simp add: callback_orphan_def Some Let_def case_prod_beta\<close>)
  qed
  show ?thesis
    using bound_from_same [of s s] bound_from_soft_delete [OF ok] bind orphan
    by (auto simp: handle_github_callback_def t Let_def simp del: authorised.simps split: option.split)
qed

text \<open>A pending connector of a loaded registry that is activated for an authorised tenant.\<close>

lemma claimable_from:
  assumes u: "conn_ok u" "claimable u c" and v: "cs_conns v = cs_conns u" and old: "bound_from env (\<lambda>_. False) s u"
    and P: "\<And>via'. P (activated env og pj uid sc p via' c)"
  shows "bound_from env P s (snd (activate_pending env c (og, pj, uid, sc) p via v))"
proof -
  have ok: "conn_ok v" using u(1) conn_ok_cong [OF v] by simp
  obtain d where d: "live_conn (cn_id c) v = Some d"
    using u(2) live_conn_cong [OF v] by (auto simp: claimable_def)
  have "bound_from env (\<lambda>_. False) s v" using bound_from_cong [OF v old] .
  then show ?thesis using activate_from [OF ok d _, where t = "(og, pj, uid, sc)"] P by simp
qed

lemma finish_installation_from:
  assumes ok: "conn_ok s" and t: "claim_tenant env q = Inr tenant"
  shows "bound_from env (authorised env (OpFinish clock rows q inst) s) s
    (snd (finish_by_installation env q tenant (trim_space inst) s))"
proof -
  let ?i = "trim_space inst" and ?P = "authorised env (OpFinish clock rows q inst) s"
  obtain og pj uid sc where tn: "tenant = (og, pj, uid, sc)" by (cases tenant)
  have "bound_from env ?P s (snd (activate_pending env c (og, pj, uid, sc) p via (snd (consume_install_intent env w z p' s))))"
    if h: "find_connector_by_installation ?i s = Some c" "conn_status_is ''pending_claim'' c" for c p via w z p'
  proof (rule claimable_from [OF ok])
    show "claimable s c" using find_inst_Some(1) [OF ok h(1)] h(2) by (auto simp: claimable_def)
    show "bound_from env (\<lambda>_. False) s s" by (rule bound_from_same) simp
    show "?P (activated env og pj uid sc p via' c)" for via'
      using find_inst_Some(2) [OF ok h(1)] t by (simp add: tn of_installation_def)
  qed simp
  then show ?thesis
    using bound_from_same [of s s]
    by (auto simp: finish_by_installation_def tn Let_def case_prod_beta simp del: authorised.simps split: option.split)
qed

lemma finish_intent_from:
  assumes ok: "conn_ok s" and rows: "rows_agree env s" and listed: "\<forall>row \<in> set rows. row_listed env row"
    and t: "claim_tenant env q = Inr tenant"
  shows "bound_from env (authorised env (OpFinish clock rows q inst) s) s (snd (finish_by_intent env clock rows q tenant s))"
proof -
  let ?P = "authorised env (OpFinish clock rows q inst) s"
  obtain og pj uid sc where tn: "tenant = (og, pj, uid, sc)" by (cases tenant)
  obtain i u where i: "peek_install_intent env uid og (oq_personal q) s = (i, u)"
    by (cases "peek_install_intent env uid og (oq_personal q) s")
  have cu: "cs_conns u = cs_conns s" using conns_peek [of env uid og "oq_personal q" s] i by simp
  obtain cs v where l: "list_pending_connectors env rows u = (cs, v)" by (cases "list_pending_connectors env rows u")
  have oku: "conn_ok u" "rows_agree env u"
    using ok rows conn_ok_cong [OF cu] rows_agree_cong [OF cu] by simp_all
  have "\<forall>c \<in> set (fold add_pending (map snd (cs_conns u)) []). claimable u c"
    using keys_ok_values(2) [OF conn_ok_keys [OF oku(1)]] by (fastforce simp: claimable_def dest!: fold_pending_in)
  then have lv: "loaded env u v" "\<forall>c \<in> set cs. claimable v c"
    using add_pending_rows_loaded [OF oku _ listed, of _ cs v] l by (simp_all add: list_pending_connectors_def)
  have su: "bound_from env (\<lambda>_. False) s u" using bound_from_same [OF cu] .
  have sv: "bound_from env Q s v" for Q
    using bound_from_weaken [OF bound_from_trans [OF su loaded_bound_from [OF lv(1)]]] by blast
  have "bound_from env ?P s (snd (activate_pending env c (og, pj, uid, sc) p via (snd (consume_install_intent env w z p' v))))"
    if h: "filter Q cs = [c]" "i \<noteq> None" for c p via w z p' Q
  proof (rule claimable_from [OF _ _ _ sv])
    have "c \<in> set (filter Q cs)" unfolding h(1) by simp
    then show "claimable v c" using lv(2) by simp
    show "conn_ok v" using loaded_ok [OF lv(1)] by blast
    show "?P (activated env og pj uid sc p via' c)" for via' using t i h(2) by (simp add: tn)
  qed simp
  then show ?thesis
    using bound_from_same [OF cu, of env ?P] sv
    by (auto simp: finish_by_intent_def tn i l Let_def case_prod_beta simp del: authorised.simps
        split: option.split list.split)
qed

lemma finish_from:
  assumes "conn_ok s" "rows_agree env s" "\<forall>row \<in> set rows. row_listed env row"
  shows "bound_from env (authorised env (OpFinish clock rows q inst) s) s (snd (handle_finish_install env clock rows q inst s))"
  using bound_from_same [of s s] finish_installation_from [OF assms(1)] finish_intent_from [OF assms]
  by (auto simp: handle_finish_install_def Let_def simp del: authorised.simps split: sum.split)

subsection \<open>Operations that bind nothing\<close>

lemma issue_from:
  assumes ok: "conn_ok s"
  shows "bound_from env P s (snd (handle_issue_claim_token env q inst force prior s))"
proof -
  have "bound_from env P s (store_conn (cn_id c) (c\<lparr>cn_meta := m, cn_updated := u\<rparr>) s)"
    if "find_connector_by_installation i s = Some c" for c i m u
    using bound_from_update [of "c\<lparr>cn_meta := m, cn_updated := u\<rparr>" s c] find_inst_Some(1) [OF ok that]
    by (simp add: binding_def)
  then have "bound_from env P s (persist_connector env c' (store_conn (cn_id c) (c\<lparr>cn_meta := m, cn_updated := u\<rparr>) s))"
    if "find_connector_by_installation i s = Some c" for c c' i m u
    using bound_from_cong [OF conns_persist] that by blast
  then show ?thesis
    using bound_from_same [of s s] by (auto simp: handle_issue_claim_token_def Let_def split: option.split)
qed

lemma ensure_from:
  assumes ok: "conn_ok s" and g: "op_ok env (OpEnsure inst login) s"
  shows "bound_from env P s (snd (ensure_github_app_connector env inst login s))"
proof (cases "trim_space inst = [] \<or> \<not> github_app_configured (ce_getenv env)")
  case True
  then show ?thesis using bound_from_same by (simp add: ensure_github_app_connector_def Let_def)
next
  case False
  let ?i = "trim_space inst"
  show ?thesis
  proof (cases "find_connector_by_installation ?i s")
    case None
    let ?c = "new_pending env ?i login ([(''auto_provisioned'', JBool True), (''pending_claim'', JBool True)] @
      (case mint_claim_nonce env of None \<Rightarrow> [] | Some (raw, h) \<Rightarrow> [(''claim_nonce_hash'', JStr h)]))"
    have c: "cn_id (new_pending env ?i login m) = pending_id env ?i" "cn_inst (new_pending env ?i login m) = ?i" for m
      by (simp_all add: new_pending_def)
    have key: "trim_space (cn_id ?c) = cn_id ?c" "cn_id ?c \<noteq> []"
      unfolding c using g by (simp_all add: op_ok_def slot_ok_def)
    have "\<not> bound ?c" using bound_active [of ?c] status_is(2) [of ?c] pending_lower by (auto simp: new_pending_def)
    then have "bound_from env P s (put_binder env ?c s)" using bound_from_put [OF ok key] by blast
    moreover have "cs_conns (snd (ensure_github_app_connector env inst login s)) = cs_conns (put_binder env ?c s)"
      using conns_put [of "persist_connector env ?c (store_conn (cn_id ?c) ?c s)" ?c s ?i env] False None c
      by (simp add: ensure_github_app_connector_def Let_def)
    ultimately show ?thesis using bound_from_cong by blast
  next
    case (Some c)
    obtain ch c' where r: "refresh_app_conn env login c = (ch, c')" by (cases "refresh_app_conn env login c")
    let ?c = "c'\<lparr>cn_updated := ce_now env\<rparr>"
    have b: "binding ?c = binding c" "cn_id ?c = cn_id c" using refresh_binding [OF r] by (auto simp: binding_def)
    have put: "good_move s (store_conn (cn_id ?c) ?c s)" "bound_from env (\<lambda>_. False) s (store_conn (cn_id ?c) ?c s)"
      using good_move_update [OF ok, of ?c c] bound_from_update [of ?c s c] find_inst_Some(1) [OF ok Some] b by simp_all
    then have del: "bound_from env P s (soft_delete_others env k j (store_conn (cn_id ?c) ?c s))" for k j
      using bound_from_trans [OF put(2) bound_from_soft_delete] put(1) unfolding good_move_def by blast
    show ?thesis
    proof (cases ch)
      case True
      have "cs_conns (snd (ensure_github_app_connector env inst login s)) =
          cs_conns (soft_delete_others env (cn_id ?c) ?i (store_conn (cn_id ?c) ?c s))"
        using conns_soft_cong [of "persist_connector env ?c (store_conn (cn_id ?c) ?c s)"] True False Some r
        by (simp add: ensure_github_app_connector_def Let_def)
      then show ?thesis using bound_from_cong del by blast
    next
      case F: False
      then show ?thesis
        using bound_from_soft_delete [OF ok] False Some r by (simp add: ensure_github_app_connector_def Let_def)
    qed
  qed
qed

lemma pat_from:
  "bound_from env P s (snd (handle_github_pat_connect env q token login repos scope s))"
proof -
  have put: "bound_from env P s (store_conn k (pat_conn env og pj sc user lg tok) s)" for k og pj sc user lg tok
    by (auto simp: bound_from_def bound_def pat_conn_def)
  then show ?thesis
    using bound_from_same [of s s]
    by (auto simp: handle_github_pat_connect_def Let_def case_prod_beta
        intro: bound_from_cong [OF _ put] bound_from_cong simp: fold_watch_default split: option.split sum.split)
qed

lemma patch_from:
  assumes ok: "conn_ok s" and rows: "rows_agree env s" and cid: "trim_space cid = cid"
  shows "bound_from env P s (snd (handle_connector_patch env q cid body s))"
proof -
  obtain co t where g: "get_or_hydrate env cid s = (co, t)" by (cases "get_or_hydrate env cid s")
  note l = get_loaded [OF ok rows g]
  have lt: "bound_from env (\<lambda>_. False) s t" using l loaded_bound_from by blast
  have put: "bound_from env P s (store_conn cid c t)" if h: "co = Some c0" "binding c = binding c0" "cn_id c = cn_id c0" for c c0
  proof -
    have "\<exists>d. live_conn (cn_id c) t = Some d \<and> binding c = binding d" "cn_id c = cid" using l h cid by auto
    then show ?thesis using bound_from_trans [OF lt bound_from_update] by metis
  qed
  have names: "bound_from env P s (store_conn cid (patched_names b c) t)" if "co = Some c" for b c
    using put [OF that] patched_binding by blast
  have token: "bound_from env P s (store_conn cid ((patched_names b c)\<lparr>cn_token := tok, cn_updated := u\<rparr>) t)"
    "bound_from env P s (store_conn cid ((patched_names b c)\<lparr>cn_updated := u\<rparr>) t)" if "co = Some c" for b c tok u
    by (rule put [OF that]; use patched_binding [of b c] in \<open>simp add: binding_def\<close>)+
  have id: "cn_id (patched_names b c) = cid" if "co = Some c" for b c using patched_binding [of b c] l that cid by simp
  have conv: "bound_from env P s (persist_connector env c u) = bound_from env P s u" for c u
    using bound_from_cong [of "persist_connector env c u" u] bound_from_cong [of u "persist_connector env c u"] by auto
  have t: "bound_from env P s t" using bound_from_weaken [OF lt] by blast
  show ?thesis
  proof (cases "refuse_oam_local_write env q")
    case False
    show ?thesis
      using False t by (simp add: handle_connector_patch_def g Let_def conv names token id split: option.split)
  qed (use bound_from_same [of s s] in \<open>simp add: handle_connector_patch_def\<close>)
qed

lemma delete_from:
  assumes ok: "conn_ok s" and rows: "rows_agree env s"
  shows "bound_from env P s (snd (handle_connector_delete env q cid s))"
proof -
  obtain co t where g: "get_or_hydrate env cid s = (co, t)" by (cases "get_or_hydrate env cid s")
  have lt: "bound_from env (\<lambda>_. False) s t" using get_loaded [OF ok rows g] loaded_bound_from by blast
  let ?r = "snd (handle_connector_delete env q cid s)"
  have r: "cs_conns ?r = cs_conns s \<or> cs_conns ?r = cs_conns t \<or>
      (\<exists>c. cs_conns ?r = AList.delete cid (AList.update cid c (cs_conns t)))"
    by (auto simp: handle_connector_delete_def g Let_def store_conn_def split: option.splits)
  have gone: "bound_from env P t u" if "cs_conns u = AList.delete cid (AList.update cid c (cs_conns t))" for u c
    using that by (simp add: bound_from_def live_conn_def delete_conv' update_conv') blast
  have t: "bound_from env P s t" using bound_from_weaken [OF lt] by blast
  from r show ?thesis
    using bound_from_same bound_from_cong [OF _ t] bound_from_trans [OF lt gone] by blast
qed

lemma oam_from:
  assumes ok: "conn_ok s" and rows: "rows_agree env s"
  shows "bound_from env P s (snd (ensure_watched_from_oam env org repo cid s))"
proof -
  have "bound_from env P s (snd (get_or_hydrate env k s))" for k
    using get_loaded [OF ok rows, of k] loaded_bound_from bound_from_weaken by (metis surjective_pairing)
  then show ?thesis
    using conns_oam [of env org repo cid s] bound_from_same bound_from_cong by metis
qed

lemma find_watched_from:
  assumes ok: "conn_ok s" and rows: "rows_agree env s"
  shows "bound_from env P s (snd (find_watched env repo s))"
  using bound_from_weaken [OF loaded_bound_from [OF find_watched_loaded [OF assms]]] by blast

subsection \<open>Bindings come from authority\<close>

lemma run_op_from:
  assumes ok: "conn_ok s" and g: "op_ok env op s"
  shows "bound_from env (authorised env op s) s (run_op env op s)"
proof (cases op)
  case (OpFinish clock rows q inst)
  then show ?thesis using finish_from [OF ok op_rows [OF g], of rows] g by (simp add: op_ok_def)
next
  case (OpPatch q cid b)
  then show ?thesis using patch_from [OF ok op_rows [OF g], of cid] g by (simp add: op_ok_def)
qed (use assms callback_from claim_from [OF ok op_rows [OF g]] issue_from [OF ok] ensure_from pat_from
      delete_from [OF ok op_rows [OF g]] oam_from [OF ok op_rows [OF g]] find_watched_from [OF ok op_rows [OF g]]
      bound_from_same in \<open>simp_all del: authorised.simps\<close>)

text \<open>
  C7: a binding comes from authority.  When an operation leaves a connector bound, either the registry
  or ClickHouse already held that binding, or the operation was one that may bind, and its caller had
  the authority for that very tenant: a setup callback whose state parsed (its signature checked) to
  the organization, project and user bound; a claim by a session of the tenant showing the token whose
  digest the pending connector carries; or a finished install by a session of the tenant that names the
  installation or that minted an install intent which has not expired.  No other operation binds.
\<close>

theorem binding_needs_authority:
  assumes "cs_conns s0 = []" "conn_step\<^sup>*\<^sup>* s0 s" "op_ok env op s"
    and "live_conn k (run_op env op s) = Some d" "bound d"
  shows "(\<exists>e. (live_conn k s = Some e \<or> row_conn env k = Some e) \<and> binding e = binding d) \<or> authorised env op s d"
  using run_op_from [OF bindings.reachable_inv [OF assms(2,1)] assms(3)] assms(4,5) unfolding bound_from_def by blast

theorem binding_needs_authority_witness:
  "(\<exists>e. (live_conn ''conn-abc'' no_conns = Some e \<or> row_conn sample_conn_env ''conn-abc'' = Some e) \<and>
      binding e = binding bound_conn) \<or>
   authorised sample_conn_env bind_op no_conns bound_conn"
proof (rule binding_needs_authority [OF _ rtranclp.rtrancl_refl bind_ok])
  show "cs_conns no_conns = []" by (simp add: no_conns_def)
  show "live_conn ''conn-abc'' (run_op sample_conn_env bind_op no_conns) = Some bound_conn"
    using bound_state_conn(1) by (simp add: bound_state_def)
qed (rule bound_state_conn(3))

end
