(* ===== verification/Install_Laws.thy ===== *)
theory Install_Laws
  imports Claim_Authority
begin

text \<open>
  The signed install state (\<^verbatim>\<open>src/scm_install_state.go\<close>): what is minted parses back, and only a key
  the configuration accepts makes a state parse.  Then the refusals of the registry's handlers: a
  request that is refused creates, binds, deletes and watches nothing.
\<close>

subsection \<open>Install state\<close>

lemma preferred_long: "install_state_preferred_key K = Some key \<Longrightarrow> 16 \<le> length key"
  by (auto simp: install_state_preferred_key_def Let_def split: if_splits)

lemma preferred_first:
  assumes "install_state_preferred_key K = Some key"
  shows "\<exists>keys. install_state_verify_keys K = key # keys"
proof (cases "16 \<le> length (trim_space (ke_getenv K ''OPA_GITHUB_INSTALL_STATE_SECRET''))")
  case True
  then have "key = trim_space (ke_getenv K ''OPA_GITHUB_INSTALL_STATE_SECRET'')"
    using assms by (simp add: install_state_preferred_key_def Let_def)
  then show ?thesis using True assms by (auto simp: install_state_verify_keys_def add_key_def Let_def)
next
  case False
  then show ?thesis
    using assms preferred_long [OF assms] by (auto simp: install_state_verify_keys_def add_key_def Let_def)
qed

lemma parse_keys_Some:
  "parse_with_keys verify raw keys = Some st \<Longrightarrow>
     \<exists>key \<in> set keys. \<exists>t. verify key raw = Some t \<and> is_org st = trim_space (is_org t) \<and> is_proj st = trim_space (is_proj t) \<and>
       is_user st = trim_space (is_user t) \<and> (is_org st \<noteq> [] \<or> is_user st \<noteq> [])"
proof (induction keys)
  case (Cons k ks)
  then show ?case by (auto simp: Let_def split: option.splits if_splits)
qed simp

text \<open>
  C39: install states round trip.  A state minted for an organization, project and user, in a
  configuration whose verifier accepts what the signer made with the minting key, parses back to
  exactly these (trimmed, the project defaulted), whatever other keys the configuration accepts.
\<close>

theorem install_state_roundtrip:
  assumes mint: "mint_install_state K sign dflt org proj user = Some raw"
    and key: "install_state_preferred_key K = Some key"
    and st: "st = \<lparr>is_org = trim_space org, is_proj = (if trim_space proj = [] then dflt else trim_space proj),
                  is_user = trim_space user\<rparr>"
    and jwt: "verify key (sign key st) = Some st" "trim_space (sign key st) = sign key st" "sign key st \<noteq> []"
  shows "parse_install_state K verify raw = Some (st\<lparr>is_proj := trim_space (is_proj st)\<rparr>)"
proof -
  obtain keys where k: "install_state_verify_keys K = key # keys" using preferred_first [OF key] by blast
  have raw: "raw = sign key st" "trim_space org \<noteq> [] \<or> trim_space user \<noteq> []"
    using mint by (auto simp: mint_install_state_def key st Let_def split: if_splits)
  show ?thesis using raw jwt by (auto simp: parse_install_state_def k st Let_def)
qed

definition sample_keys :: key_env where
  "sample_keys = \<lparr>ke_getenv = (\<lambda>n. if n = ''OPA_GITHUB_INSTALL_STATE_SECRET'' then ''0123456789abcdef'' else []),
     ke_jwt_secret = [], ke_ephemeral = True, ke_placeholder = ''change-me''\<rparr>"

definition sample_claims :: install_state where
  "sample_claims = \<lparr>is_org = ''acme'', is_proj = ''default-project'', is_user = ''ann''\<rparr>"

theorem install_state_roundtrip_witness:
  "parse_install_state sample_keys (\<lambda>k r. if k = ''0123456789abcdef'' \<and> r = ''tok'' then Some sample_claims else None) ''tok'' =
     Some (sample_claims\<lparr>is_proj := trim_space (is_proj sample_claims)\<rparr>)"
proof (rule install_state_roundtrip [where key = "''0123456789abcdef''" and sign = "\<lambda>_ _. ''tok''" and org = "'' acme ''"
      and proj = "[]" and user = "''ann''" and dflt = "''default-project''"])
  show "mint_install_state sample_keys (\<lambda>_ _. ''tok'') ''default-project'' '' acme '' [] ''ann'' = Some ''tok''" by code_simp
  show "install_state_preferred_key sample_keys = Some ''0123456789abcdef''" by code_simp
  show "sample_claims = \<lparr>is_org = trim_space '' acme '', is_proj = (if trim_space [] = [] then ''default-project'' else trim_space []),
                  is_user = trim_space ''ann''\<rparr>" by code_simp
  show "trim_space ''tok'' = ''tok''" by code_simp
qed simp_all

text \<open>
  C38: no forged install state.  With a dedicated secret of at least 16 bytes and the legacy switch off,
  a state that the verifier does not accept under that secret does not parse, whatever other service
  secrets have signed it; and in every configuration a state that parses was accepted under one of the
  keys, of at least 16 bytes, and names an organization or a user.
\<close>

theorem install_state_not_forged:
  assumes "parse_install_state K verify raw = Some st"
  shows "\<exists>key \<in> set (install_state_verify_keys K). 16 \<le> length key \<and>
      (\<exists>t. verify key (trim_space raw) = Some t \<and> is_org st = trim_space (is_org t) \<and> is_user st = trim_space (is_user t)) \<and>
      (is_org st \<noteq> [] \<or> is_user st \<noteq> []) \<and>
      (let ded = trim_space (ke_getenv K ''OPA_GITHUB_INSTALL_STATE_SECRET'')
       in 16 \<le> length ded \<and> \<not> env_truthy (ke_getenv K) ''OPA_GITHUB_INSTALL_STATE_ACCEPT_LEGACY'' \<longrightarrow> key = ded)"
proof -
  have long: "\<forall>k \<in> set (install_state_verify_keys K). 16 \<le> length k"
    by (auto simp: install_state_verify_keys_def add_key_def Let_def dest: preferred_long split: option.split)
  have "parse_with_keys verify (trim_space raw) (install_state_verify_keys K) = Some st"
    using assms by (simp add: parse_install_state_def Let_def split: if_splits)
  then obtain key t where key: "key \<in> set (install_state_verify_keys K)" "verify key (trim_space raw) = Some t"
    "is_org st = trim_space (is_org t)" "is_user st = trim_space (is_user t)" "is_org st \<noteq> [] \<or> is_user st \<noteq> []"
    using parse_keys_Some by blast
  moreover have "key = trim_space (ke_getenv K ''OPA_GITHUB_INSTALL_STATE_SECRET'')"
    if "16 \<le> length (trim_space (ke_getenv K ''OPA_GITHUB_INSTALL_STATE_SECRET''))"
      "\<not> env_truthy (ke_getenv K) ''OPA_GITHUB_INSTALL_STATE_ACCEPT_LEGACY''"
    using key(1) that by (simp add: install_state_verify_keys_def add_key_def Let_def)
  ultimately show ?thesis using long by (intro bexI [of _ key]) (auto simp: Let_def)
qed

theorem install_state_not_forged_witness:
  "\<exists>key \<in> set (install_state_verify_keys sample_keys). 16 \<le> length key \<and>
      (\<exists>t. Some sample_claims = Some t \<and> is_org sample_claims = trim_space (is_org t) \<and>
         is_user sample_claims = trim_space (is_user t)) \<and>
      (is_org sample_claims \<noteq> [] \<or> is_user sample_claims \<noteq> []) \<and>
      (let ded = trim_space (ke_getenv sample_keys ''OPA_GITHUB_INSTALL_STATE_SECRET'')
       in 16 \<le> length ded \<and> \<not> env_truthy (ke_getenv sample_keys) ''OPA_GITHUB_INSTALL_STATE_ACCEPT_LEGACY'' \<longrightarrow> key = ded)"
proof (rule install_state_not_forged [of sample_keys "\<lambda>_ _. Some sample_claims" "''tok''"])
  show "parse_install_state sample_keys (\<lambda>_ _. Some sample_claims) ''tok'' = Some sample_claims" by code_simp
qed

subsection \<open>Refusals\<close>

fun answer :: "conn_env \<Rightarrow> conn_op \<Rightarrow> conn_state \<Rightarrow> conn_reply option" where
  "answer env (OpCallback parse inst setup st) s = Some (fst (handle_github_callback env parse inst setup st s))"
| "answer env (OpClaim q cid token) s = Some (fst (handle_connector_claim env q cid token s))"
| "answer env (OpFinish clock rows q inst) s = Some (fst (handle_finish_install env clock rows q inst s))"
| "answer env (OpIssue q inst force prior) s = Some (fst (handle_issue_claim_token env q inst force prior s))"
| "answer env (OpPat q token login repos scope) s = Some (fst (handle_github_pat_connect env q token login repos scope s))"
| "answer env (OpPatch q cid b) s = Some (fst (handle_connector_patch env q cid b s))"
| "answer env (OpDelete q cid) s = Some (fst (handle_connector_delete env q cid s))"
| "answer env _ s = None"

text \<open>Nothing happened but the loading of connectors that ClickHouse already had.\<close>

definition only_loaded :: "conn_env \<Rightarrow> conn_state \<Rightarrow> conn_state \<Rightarrow> bool" where
  "only_loaded env s t \<longleftrightarrow>
     same_bindings s t \<and>
     (\<forall>k d. live_conn k t = Some d \<longrightarrow>
        (\<exists>e. (live_conn k s = Some e \<or> row_conn env k = Some e) \<and> binding e = binding d)) \<and>
     cs_watched t = cs_watched s"

lemma only_loaded_same:
  assumes "cs_conns t = cs_conns s" "cs_watched t = cs_watched s"
  shows "only_loaded env s t"
proof -
  have "live_conn k t = live_conn k s" for k using assms(1) by (rule live_conn_cong)
  then show ?thesis unfolding only_loaded_def same_bindings_def using assms(2) by auto
qed

lemma only_loaded_trans:
  assumes "only_loaded env s t" "only_loaded env t u"
  shows "only_loaded env s u"
  unfolding only_loaded_def
proof (intro conjI allI impI)
  have st: "same_bindings s t" "same_bindings t u" using assms by (simp_all add: only_loaded_def)
  show "same_bindings s u"
    unfolding same_bindings_def
  proof (intro allI impI)
    fix k d assume "live_conn k s = Some d"
    then obtain e where e: "live_conn k t = Some e" "binding e = binding d" using st(1) unfolding same_bindings_def by blast
    then obtain f where "live_conn k u = Some f" "binding f = binding e" using st(2) unfolding same_bindings_def by blast
    then show "\<exists>d'. live_conn k u = Some d' \<and> binding d' = binding d" using e(2) by simp
  qed
  fix k d assume "live_conn k u = Some d"
  then obtain e where e: "live_conn k t = Some e \<or> row_conn env k = Some e" "binding e = binding d"
    using assms(2) unfolding only_loaded_def by blast
  show "\<exists>e. (live_conn k s = Some e \<or> row_conn env k = Some e) \<and> binding e = binding d"
  proof (cases "row_conn env k = Some e")
    case False
    then have "live_conn k t = Some e" using e(1) by simp
    then obtain f where "live_conn k s = Some f \<or> row_conn env k = Some f" "binding f = binding e"
      using assms(1) unfolding only_loaded_def by blast
    then show ?thesis using e(2) by auto
  qed (use e(2) in blast)
next
  show "cs_watched u = cs_watched s" using assms by (simp add: only_loaded_def)
qed

lemma only_loaded_update:
  "live_conn (cn_id c) s = Some d \<Longrightarrow> binding c = binding d \<Longrightarrow> only_loaded env s (store_conn (cn_id c) c s)"
  by (auto simp: only_loaded_def same_bindings_def) (auto simp: store_conn_def)

lemma watched_store [simp]: "cs_watched (store_conn k c s) = cs_watched s"
  by (simp add: store_conn_def)

lemma watched_persist [simp]: "cs_watched (persist_connector env c s) = cs_watched s"
  by (simp add: persist_connector_def conn_log_def Let_def split: option.split)

lemma watched_hydrate [simp]: "cs_watched (snd (hydrate_connector env k s)) = cs_watched s"
  by (auto simp: hydrate_connector_def Let_def split: option.split prod.split)

lemma watched_get [simp]: "cs_watched (snd (get_or_hydrate env k s)) = cs_watched s"
  using watched_hydrate [of env k s]
  by (auto simp: get_or_hydrate_def case_prod_beta split: option.split)

lemma hydrate_only_loaded:
  assumes "conn_ok s" "rows_agree env s"
  shows "only_loaded env s (snd (hydrate_connector env k s))"
proof (cases "trim_space k = [] \<or> row_conn env (trim_space k) = None")
  case True
  then have "cs_conns (snd (hydrate_connector env k s)) = cs_conns s"
    by (auto simp: hydrate_connector_def row_conn_def Let_def split: option.splits if_splits prod.splits)
  then show ?thesis using only_loaded_same by simp
next
  case False
  then obtain c where c: "row_conn env (trim_space k) = Some c" by auto
  have "cs_conns (snd (hydrate_connector env k s)) = cs_conns (store_conn (trim_space k) c s)"
    using False c rows_agreeD(1) [OF assms(2) c]
    by (auto simp: hydrate_connector_def row_conn_def Let_def split: option.splits if_splits prod.splits)
  then have l: "live_conn l (snd (hydrate_connector env k s)) = (if l = trim_space k then Some c else live_conn l s)" for l
    using live_conn_cong by (metis live_conn_store)
  show ?thesis
    unfolding only_loaded_def same_bindings_def l using c rows_agreeD(2) [OF assms(2) c] by auto
qed

lemma get_only_loaded:
  assumes "conn_ok s" "rows_agree env s"
  shows "only_loaded env s (snd (get_or_hydrate env k s))"
  using hydrate_only_loaded [OF assms, of k] only_loaded_same [of s s]
  by (auto simp: get_or_hydrate_def case_prod_beta split: option.split)

lemma rows_only_loaded:
  assumes "conn_ok s" "rows_agree env s"
  shows "only_loaded env s (snd (add_pending_rows env rows out s))"
  using assms
proof (induction rows arbitrary: out s)
  case Nil
  show ?case by (simp add: only_loaded_same)
next
  case (Cons row rows)
  obtain co u where g: "get_or_hydrate env (row ''id'') s = (co, u)" by (cases "get_or_hydrate env (row ''id'') s")
  have u: "only_loaded env s u" using get_only_loaded [OF Cons.prems, of "row ''id''"] g by simp
  have ok: "conn_ok u" "rows_agree env u" using get_loaded [OF Cons.prems g] loaded_ok by blast+
  have "only_loaded env s (snd (add_pending_rows env rows out' u))" for out'
    using only_loaded_trans [OF u Cons.IH [OF ok]] .
  then show ?case using Cons.IH [OF Cons.prems] g by (auto split: option.split)
qed

lemma peek_only_loaded: "only_loaded env s (snd (peek_install_intent env u og p s))"
  by (rule only_loaded_same) (simp, simp add: peek_install_intent_def prune_intents_def Let_def)

lemma finish_intent_refused:
  assumes ok: "conn_ok s" and rows: "rows_agree env s"
    and no: "fst (finish_by_intent env clock rows q tenant s) = Refused n e"
  shows "only_loaded env s (snd (finish_by_intent env clock rows q tenant s))"
proof -
  obtain og pj uid sc where tn: "tenant = (og, pj, uid, sc)" by (cases tenant)
  obtain i u where i: "peek_install_intent env uid og (oq_personal q) s = (i, u)"
    by (cases "peek_install_intent env uid og (oq_personal q) s")
  have u: "only_loaded env s u" using peek_only_loaded [of env s uid og "oq_personal q"] i by simp
  have cu: "cs_conns u = cs_conns s" using conns_peek [of env uid og "oq_personal q" s] i by simp
  have oku: "conn_ok u" "rows_agree env u" using ok rows conn_ok_cong [OF cu] rows_agree_cong [OF cu] by simp_all
  obtain cs v where l: "list_pending_connectors env rows u = (cs, v)" by (cases "list_pending_connectors env rows u")
  have "only_loaded env u v" using rows_only_loaded [OF oku] l by (metis list_pending_connectors_def snd_conv)
  then have v: "only_loaded env s v" using only_loaded_trans [OF u] by blast
  show ?thesis
    using no u v by (auto simp: finish_by_intent_def tn i l Let_def case_prod_beta split: option.splits list.splits)
qed

lemma refused_claim:
  assumes "conn_ok s" "rows_agree env s" "fst (handle_connector_claim env q cid token s) = Refused n e"
  shows "only_loaded env s (snd (handle_connector_claim env q cid token s))"
  using assms(3) get_only_loaded [OF assms(1,2), of cid] only_loaded_same [of s s env]
  by (auto simp: handle_connector_claim_def Let_def case_prod_beta split: option.splits if_splits sum.splits)

lemma refused_finish:
  assumes "conn_ok s" "rows_agree env s" "fst (handle_finish_install env clock rows q inst s) = Refused n e"
  shows "only_loaded env s (snd (handle_finish_install env clock rows q inst s))"
proof -
  have inst: "only_loaded env s (snd (finish_by_installation env q t i s))"
    if "fst (finish_by_installation env q t i s) = Refused n e" for t i
    using that only_loaded_same [of s s env]
    by (auto simp: finish_by_installation_def Let_def case_prod_beta split: option.splits if_splits)
  show ?thesis
    using assms(3) inst finish_intent_refused [OF assms(1,2)] only_loaded_same [of s s env]
    by (auto simp: handle_finish_install_def Let_def split: sum.splits if_splits)
qed

lemma refused_patch:
  assumes ok: "conn_ok s" and rows: "rows_agree env s" and cid: "trim_space cid = cid"
    and no: "fst (handle_connector_patch env q cid body s) = Refused n e"
  shows "only_loaded env s (snd (handle_connector_patch env q cid body s))"
proof -
  obtain co t where g: "get_or_hydrate env cid s = (co, t)" by (cases "get_or_hydrate env cid s")
  have t: "only_loaded env s t" using get_only_loaded [OF ok rows, of cid] g by simp
  have names: "only_loaded env s (store_conn (cn_id (patched_names b c)) (patched_names b c) t)" if "co = Some c" for b c
  proof -
    have "\<exists>d. live_conn (cn_id c) t = Some d \<and> binding d = binding c"
      using get_loaded [OF ok rows g] that by auto
    then obtain d where "live_conn (cn_id c) t = Some d" "binding d = binding c" by blast
    then have "only_loaded env t (store_conn (cn_id (patched_names b c)) (patched_names b c) t)"
      using only_loaded_update [of "patched_names b c" t d] patched_binding [of b c] by simp
    then show ?thesis by (rule only_loaded_trans [OF t])
  qed
  show ?thesis
    using no t names only_loaded_same [of s s env]
    by (auto simp: handle_connector_patch_def g Let_def split: option.splits if_splits)
qed

lemma refused_delete:
  assumes "conn_ok s" "rows_agree env s" "fst (handle_connector_delete env q cid s) = Refused n e"
  shows "only_loaded env s (snd (handle_connector_delete env q cid s))"
  using assms(3) get_only_loaded [OF assms(1,2), of cid] only_loaded_same [of s s env]
  by (auto simp: handle_connector_delete_def Let_def case_prod_beta split: option.splits if_splits)

lemma refused_callback:
  "fst (handle_github_callback env parse inst setup st s) = Refused n e \<Longrightarrow>
     snd (handle_github_callback env parse inst setup st s) = s"
  by (auto simp: handle_github_callback_def callback_bind_def callback_orphan_def Let_def case_prod_beta
      split: option.splits if_splits)

lemma refused_issue:
  assumes "fst (handle_issue_claim_token env q inst force prior s) = Refused n e"
  shows "snd (handle_issue_claim_token env q inst force prior s) = s"
proof (cases "find_connector_by_installation (trim_space inst) s")
  case (Some c)
  then show ?thesis
    using assms by (cases "mint_claim_nonce env") (simp_all add: handle_issue_claim_token_def Let_def case_prod_beta split: if_splits)
qed (simp add: handle_issue_claim_token_def Let_def)

lemma refused_pat:
  "fst (handle_github_pat_connect env q token login repos scope s) = Refused n e \<Longrightarrow>
     snd (handle_github_pat_connect env q token login repos scope s) = s"
  by (auto simp: handle_github_pat_connect_def Let_def case_prod_beta split: option.splits if_splits sum.splits)

text \<open>
  C40: a refused request leaves no trace.  When a handler of the registry answers with an error
  (a missing parameter, an unknown or deleted connector, a wrong or spent token, a foreign tenant, a
  write that belongs to the peer, no entropy), then no connector was created, bound, unbound or
  deleted and no watch changed: the live map holds what it held, but for connectors loaded from
  ClickHouse on the way.
\<close>

theorem refused_binds_nothing:
  assumes "cs_conns s0 = []" "conn_step\<^sup>*\<^sup>* s0 s" "op_ok env op s" "answer env op s = Some (Refused n e)"
  shows "only_loaded env s (run_op env op s)"
proof -
  have ok: "conn_ok s" "rows_agree env s"
    using bindings.reachable_inv [OF assms(2,1)] op_rows [OF assms(3)] by auto
  have same: "t = s \<Longrightarrow> only_loaded env s t" for t by (simp add: only_loaded_same)
  show ?thesis
  proof (cases op)
    case (OpPatch q cid b)
    then show ?thesis using assms(3,4) refused_patch [OF ok, of cid] by (simp add: op_ok_def)
  qed (use assms(4) refused_claim [OF ok] refused_finish [OF ok] refused_delete [OF ok]
        refused_callback [THEN same] refused_issue [THEN same] refused_pat [THEN same] in simp_all)
qed

definition sample_request :: open_request where
  "sample_request =
     \<lparr>oq_actor = \<lparr>ac_user = ''eve'', ac_role = ''viewer'', ac_org = ''other'', ac_proj = []\<rparr>, oq_personal = False,
      oq_claim_org = [], oq_tenant = None, oq_peer = False\<rparr>"

theorem refused_binds_nothing_witness:
  "only_loaded sample_conn_env bound_state
     (run_op sample_conn_env (OpClaim sample_request ''conn-abc'' ''nonce'') bound_state)"
proof (rule refused_binds_nothing [OF _ bound_reachable])
  let ?op = "OpClaim sample_request ''conn-abc'' ''nonce''"
  show "cs_conns no_conns = []" by (simp add: no_conns_def)
  show "answer sample_conn_env ?op bound_state = Some (Refused 409 ''not_pending_claim'')" by code_simp
  show "op_ok sample_conn_env ?op bound_state" by (simp add: op_ok_def)
qed

subsection \<open>Behaviours worth knowing\<close>

text \<open>
  A pending connector whose digest is missing reads as one that has a token: the missing entry prints
  as \<^verbatim>\<open><nil>\<close>, which is not empty.  So the digest is never added by the webhook, and a token is not
  issued without force.
\<close>

lemma no_hash_reads_as_issued:
  assumes "jget (cn_meta c) ''claim_nonce_hash'' = JNull" "find_connector_by_installation (trim_space inst) s = Some c"
    "conn_status_is ''pending_claim'' c" "trim_space (ac_user (oq_actor q)) \<noteq> []" "trim_space inst \<noteq> []"
  shows "handle_issue_claim_token env q inst False prior s = (Refused 409 ''claim_token_already_issued'', s)"
    "trim_space (cn_login c) \<noteq> [] \<Longrightarrow> refresh_app_conn env login c = (False, c)"
proof -
  have "trim_space (sprint JNull) \<noteq> []" by code_simp
  then show "handle_issue_claim_token env q inst False prior s = (Refused 409 ''claim_token_already_issued'', s)"
    "trim_space (cn_login c) \<noteq> [] \<Longrightarrow> refresh_app_conn env login c = (False, c)"
    using assms by (simp_all add: handle_issue_claim_token_def refresh_app_conn_def Let_def)
qed

text \<open>A patch that is refused for its token has already renamed the connector in the live map.\<close>

lemma refused_patch_renames:
  assumes "live_conn cid s = Some c" "cn_id c = cid" "cn_kind c = ''github_app''"
    "\<not> refuse_oam_local_write env q"
    "deny_connector_if_immutable (ce_tenancy env) (oq_actor q) (Some (connector.truncate c)) = None"
  shows "handle_connector_patch env q cid (Some \<lparr>pb_login = ''x'', pb_display = None, pb_token = ''t''\<rparr>) s =
    (Refused 400 ''token replace only for github_pat connectors'', store_conn cid (c\<lparr>cn_login := ''x''\<rparr>) s)"
proof -
  have t: "trim_space ''x'' = ''x''" "trim_space ''t'' = ''t''" by code_simp+
  show ?thesis
    using assms by (simp add: handle_connector_patch_def get_or_hydrate_def patched_names_def t Let_def)
qed

text \<open>The tombstone of a moved connector carries the time stamp of the live row.\<close>

lemma tombstone_same_time:
  assumes "ce_writer env" "trim_space og \<noteq> trim_space (cn_org c)" "\<not> sync_due env c" "trim_space (cn_token c) = []"
    "cn_kind c = ''github_app''" "\<not> peer_product_configured (ce_getenv env) ''PEER_OAM_URL''"
  shows "\<exists>tomb row. cs_log (persist_connector_org_move env c og pj s) = cs_log s @ [CfConn tomb, CfConn row] \<and>
    cn_status tomb = ''deleted'' \<and> cn_id tomb = cn_id row \<and> cn_updated tomb = cn_updated row"
proof -
  have nosync: "\<not> sync_due env d" for d using assms(6) by (simp add: sync_due_def)
  have none: "trim_space [] = []" by simp
  show ?thesis
    using assms by (simp add: persist_connector_org_move_def persist_connector_def conn_log_def nosync Let_def)
qed

text \<open>A disabled watch is still found for the webhook route of its connector.\<close>

lemma disabled_watch_found:
  "live_watch (watch_key k r) s = Some w \<Longrightarrow> trim_space k = k \<Longrightarrow> trim_space r = r \<Longrightarrow> k \<noteq> [] \<Longrightarrow> r \<noteq> [] \<Longrightarrow>
     \<not> wt_enabled w \<Longrightarrow> find_watched_for_connector_repo k r s = Some w"
  by (simp add: find_watched_for_connector_repo_def Let_def)

end
