(* ===== verification/Pr_Runs.thy ===== *)
theory Pr_Runs
  imports Cancel_Laws Event_Envelope Agent_Prefs
begin

text \<open>
  The runs of a pull request: the index of active runs, cancelling and superseding the jobs of a
  pull request, planning the children of a run and enqueueing a run (\<^verbatim>\<open>src/agents_run.go\<close>,
  \<^verbatim>\<open>src/scm_orchestrator.go\<close>, \<^verbatim>\<open>src/scm_auto_fix.go\<close>).

  \<open>fuel\<close> bounds the cancel cascade; \<open>cancel_terminates\<close> shows that the number of jobs in flight
  plus one is enough.
\<close>

definition fuel_for :: "scm_state \<Rightarrow> nat" where
  "fuel_for s = Suc (length (sc_live s))"

text \<open>A cancel with enough fuel always answers; the default branch is never reached.\<close>

definition cancel_now :: "orch_env \<Rightarrow> string \<Rightarrow> string \<Rightarrow> scm_state \<Rightarrow> cancel_result \<times> scm_state" where
  "cancel_now env reason k s =
     (case cancel_scm_job (fuel_for s) env reason k s of Some r \<Rightarrow> r | None \<Rightarrow> (CancelNotFound, s))"

subsection \<open>The run index\<close>

definition pr_run_index_key :: "string \<Rightarrow> int \<Rightarrow> string" where
  "pr_run_index_key repo pr = to_lower (trim_space repo) @ ''#'' @ itoa pr"

definition remember_pr_run :: "string \<Rightarrow> int \<Rightarrow> string \<Rightarrow> scm_state \<Rightarrow> scm_state" where
  "remember_pr_run repo pr run s =
     (if repo = [] \<or> pr \<le> 0 \<or> run = [] then s
      else s\<lparr>sc_pr_index := (sc_pr_index s)(pr_run_index_key repo pr \<mapsto> run)\<rparr>)"

definition current_pr_run :: "string \<Rightarrow> int \<Rightarrow> scm_state \<Rightarrow> string" where
  "current_pr_run repo pr s =
     (case sc_pr_index s (pr_run_index_key repo pr) of Some r \<Rightarrow> r | None \<Rightarrow> [])"

definition status_in_flight :: "scm_job \<Rightarrow> bool" where
  "status_in_flight j \<longleftrightarrow> in_flight (to_lower (j_status j))"

definition top_level :: "scm_job \<Rightarrow> bool" where
  "top_level j \<longleftrightarrow> trim_space (j_parent j) = []"

text \<open>\<^verbatim>\<open>rebuildPRRunIndexFromLive\<close>: the latest started run of each pull request.\<close>

definition rebuild_pr_run_index :: "scm_state \<Rightarrow> scm_state" where
  "rebuild_pr_run_index s =
     (let best = fold (\<lambda>j m.
            if j_pr j \<le> 0 \<or> job_kind j \<noteq> KRun \<or> \<not> top_level j \<or> \<not> status_in_flight j then m
            else let key = pr_run_index_key (j_repo j) (j_pr j)
                 in case m key of
                      Some p \<Rightarrow> if j_started j \<le> j_started p then m else m(key \<mapsto> j)
                    | None \<Rightarrow> m(key \<mapsto> j)) (map snd (sc_live s)) Map.empty
      in s\<lparr>sc_pr_index := (\<lambda>k. map_option j_id (best k))\<rparr>)"

definition of_pr :: "string \<Rightarrow> int \<Rightarrow> scm_job \<Rightarrow> bool" where
  "of_pr repo pr j \<longleftrightarrow> j_pr j = pr \<and> equal_fold (j_repo j) repo"

definition same_sha :: "string \<Rightarrow> scm_job \<Rightarrow> bool" where
  "same_sha sha j \<longleftrightarrow> equal_fold (trim_space (j_sha j)) sha"

text \<open>\<^verbatim>\<open>findInFlightPRRunForSHA\<close>: the last candidate that started no earlier than the one before.\<close>

definition find_in_flight_pr_run_for_sha :: "string \<Rightarrow> int \<Rightarrow> string \<Rightarrow> scm_state \<Rightarrow> scm_job option" where
  "find_in_flight_pr_run_for_sha repo pr sha s =
     (let repo = trim_space repo; sha = trim_space sha
      in if repo = [] \<or> pr \<le> 0 \<or> sha = [] then None
         else fold (\<lambda>j found.
             if of_pr repo pr j \<and> top_level j \<and> status_in_flight j \<and> same_sha sha j
             then (case found of
                     None \<Rightarrow> Some j
                   | Some f \<Rightarrow> if j_started f \<le> j_started j then Some j else found)
             else found) (map snd (sc_live s)) None)"

subsection \<open>Auto-fix jobs of a pull request\<close>

definition opt_field :: "bool \<Rightarrow> string \<Rightarrow> jv \<Rightarrow> jobj" where
  "opt_field c k v = (if c then [(k, v)] else [])"

text \<open>\<^verbatim>\<open>autoFixToMap\<close>: the record's JSON, the \<^verbatim>\<open>omitempty\<close> fields only when set.\<close>

definition auto_fix_to_map :: "auto_fix \<Rightarrow> jobj" where
  "auto_fix_to_map f =
     [(''id'', JStr (fx_id f)), (''parent_job_id'', JStr (fx_parent f)), (''status'', JStr (fx_status f))] @
     opt_field (fx_mode f \<noteq> []) ''mode'' (JStr (fx_mode f)) @
     [(''create_pr'', JBool (fx_create_pr f))] @
     opt_field (fx_commit_direct f) ''commit_direct'' (JBool True) @
     [(''finding_keys'', JArr (map JStr (fx_keys f)))] @
     opt_field (fx_findings f \<noteq> []) ''findings'' (JArr (map (\<lambda>o'. wire (JObj o')) (fx_findings f))) @
     opt_field (fx_branch f \<noteq> []) ''branch'' (JStr (fx_branch f)) @
     opt_field (fx_sha f \<noteq> []) ''commit_sha'' (JStr (fx_sha f)) @
     opt_field (fx_pr f \<noteq> 0) ''pr_number'' (JNum (fx_pr f)) @
     opt_field (fx_pr_url f \<noteq> []) ''pr_url'' (JStr (fx_pr_url f)) @
     opt_field (fx_error f \<noteq> []) ''error'' (JStr (fx_error f)) @
     opt_field (fx_honesty f \<noteq> []) ''honesty'' (JStr (fx_honesty f)) @
     opt_field (fx_started f \<noteq> []) ''started_at'' (JStr (fx_started f)) @
     opt_field (fx_finished f \<noteq> []) ''finished_at'' (JStr (fx_finished f)) @
     opt_field (fx_repo f \<noteq> []) ''repo_full_name'' (JStr (fx_repo f)) @
     opt_field (fx_base_pr f \<noteq> 0) ''base_pr_number'' (JNum (fx_base_pr f))"

text \<open>Replacing the first entry with the same id, else appending, and keeping the last twenty.\<close>

fun replace_fix :: "string \<Rightarrow> jv \<Rightarrow> jv list \<Rightarrow> jv list" where
  "replace_fix k v [] = [v]"
| "replace_fix k v (w # ws) =
     (case w of
        JObj m \<Rightarrow> (if str_from_any (jget m ''id'') = k then v # ws else w # replace_fix k v ws)
      | _ \<Rightarrow> w # replace_fix k v ws)"

definition persist_auto_fix_on_parent ::
  "orch_env \<Rightarrow> scm_job \<Rightarrow> auto_fix \<Rightarrow> scm_state \<Rightarrow> scm_state" where
  "persist_auto_fix_on_parent env parent f s =
     (let m = JObj (auto_fix_to_map f);
          old = (case sget parent ''auto_fixes'' of JArr vs \<Rightarrow> vs | _ \<Rightarrow> []);
          new = replace_fix (fx_id f) m old;
          new = (if 20 < length new then drop (length new - 20) new else new)
      in persist_scm_job env (sset ''auto_fix_latest'' m (sset ''auto_fixes'' (JArr new) parent)) s)"

definition cancel_auto_fix :: "orch_env \<Rightarrow> string \<Rightarrow> int \<Rightarrow> string \<Rightarrow> auto_fix \<Rightarrow> scm_state \<Rightarrow> scm_state" where
  "cancel_auto_fix env repo pr reason f s =
     (if \<not> equal_fold (fx_repo f) repo \<or> (fx_base_pr f \<noteq> pr \<and> fx_pr f \<noteq> pr) \<or>
         to_lower (fx_status f) \<notin> {''queued'', ''running''} then s
      else
        let f = f\<lparr>fx_status := ''cancelled'', fx_error := reason,
                  fx_honesty := trim_space (fx_honesty f @ ''; cancelled '' @ em_dash @ '' '' @ reason),
                  fx_finished := e_now env\<rparr>;
            s = s\<lparr>sc_autofix := AList.update (fx_id f) f (sc_autofix s)\<rparr>;
            (po, s) = get_scm_job (fx_parent f) s
        in case po of None \<Rightarrow> s | Some p \<Rightarrow> persist_auto_fix_on_parent env p f s)"

definition cancel_in_flight_auto_fixes ::
  "orch_env \<Rightarrow> string \<Rightarrow> int \<Rightarrow> string \<Rightarrow> scm_state \<Rightarrow> scm_state" where
  "cancel_in_flight_auto_fixes env repo pr reason s =
     fold (cancel_auto_fix env repo pr reason) (map snd (sc_autofix s)) s"

subsection \<open>Cancelling the jobs of a pull request\<close>

text \<open>One top level job: cancelled, its id kept when the cancel gave no error.\<close>

definition cancel_top ::
  "orch_env \<Rightarrow> string \<Rightarrow> string \<Rightarrow> string list \<times> scm_state \<Rightarrow> string list \<times> scm_state" where
  "cancel_top env reason k acc =
     (let (r, s) = cancel_now env reason k (snd acc)
      in (if r = CancelOk then fst acc @ [k] else fst acc, s))"

text \<open>One child job that is still in flight: a working cloud child drains, others are cancelled.\<close>

definition cancel_child ::
  "orch_env \<Rightarrow> string \<Rightarrow> string \<Rightarrow> string \<Rightarrow> string list \<times> scm_state \<Rightarrow> string list \<times> scm_state" where
  "cancel_child env reason keep k acc =
     (let (jo, s) = get_scm_job k (snd acc)
      in case jo of
           None \<Rightarrow> (fst acc, s)
         | Some j \<Rightarrow>
             (let st = to_lower (j_status j)
              in if \<not> in_flight st then (fst acc, s)
                 else if keep \<noteq> [] \<and> same_sha keep j then (fst acc, s)
                 else if job_kind j = KCloud \<and> (st = ''running'' \<or> st = ''waiting'') then
                   (fst acc @ [k], persist_scm_job env
                      (sset ''cancel_drain'' (JStr reason) (sset ''supersede_drain'' (JBool True) j)) s)
                 else cancel_top env reason k (fst acc, s)))"

definition pr_targets :: "string \<Rightarrow> int \<Rightarrow> string \<Rightarrow> scm_state \<Rightarrow> scm_job list" where
  "pr_targets repo pr keep s =
     filter (\<lambda>j. of_pr repo pr j \<and> status_in_flight j \<and> \<not> (keep \<noteq> [] \<and> same_sha keep j))
       (map snd (sc_live s))"

text \<open>
  \<^verbatim>\<open>cancelInFlightJobsForPRExceptSHA\<close>; \<^verbatim>\<open>cancelInFlightJobsForPR\<close> is the same without a commit to
  keep.
\<close>

definition cancel_in_flight_for_pr_except_sha ::
  "orch_env \<Rightarrow> string \<Rightarrow> int \<Rightarrow> string \<Rightarrow> string \<Rightarrow> scm_state \<Rightarrow> string list \<times> scm_state" where
  "cancel_in_flight_for_pr_except_sha env repo pr reason keep s =
     (let repo = trim_space repo; keep = trim_space keep
      in if repo = [] \<or> pr \<le> 0 then ([], s)
         else
           let reason = (if trim_space reason = [] then ''cancelled'' else reason);
               targets = pr_targets repo pr keep s;
               acc = fold (cancel_top env reason) (map j_id (filter top_level targets)) ([], s);
               acc = fold (cancel_child env reason keep) (map j_id (filter (\<lambda>j. \<not> top_level j) targets)) acc
           in (fst acc, cancel_in_flight_auto_fixes env repo pr reason (snd acc)))"

definition cancel_in_flight_for_pr ::
  "orch_env \<Rightarrow> string \<Rightarrow> int \<Rightarrow> string \<Rightarrow> scm_state \<Rightarrow> string list \<times> scm_state" where
  "cancel_in_flight_for_pr env repo pr reason s =
     cancel_in_flight_for_pr_except_sha env repo pr reason [] s"

definition cancel_in_flight_for_merged_pr ::
  "orch_env \<Rightarrow> string \<Rightarrow> int \<Rightarrow> string \<Rightarrow> scm_state \<Rightarrow> string list \<times> scm_state" where
  "cancel_in_flight_for_merged_pr env repo pr reason s =
     cancel_in_flight_for_pr env repo pr
       (if trim_space reason = [] then ''pull request merged'' else reason) s"

definition supersede_reason :: "string \<Rightarrow> string" where
  "supersede_reason sha =
     (if trim_space sha = [] then ''Superseded by newer push'' else ''Superseded by '' @ trim_space sha)"

definition supersede_in_flight_pr_jobs ::
  "orch_env \<Rightarrow> string \<Rightarrow> int \<Rightarrow> string \<Rightarrow> scm_state \<Rightarrow> string list \<times> scm_state" where
  "supersede_in_flight_pr_jobs env repo pr sha s =
     cancel_in_flight_for_pr_except_sha env repo pr (supersede_reason sha) (trim_space sha) s"

definition supersede_pr_run :: "orch_env \<Rightarrow> string \<Rightarrow> string \<Rightarrow> scm_state \<Rightarrow> scm_state" where
  "supersede_pr_run env run sha s =
     (let (jo, s) = get_scm_job run s
      in case jo of
           None \<Rightarrow> s
         | Some j \<Rightarrow>
             (if 0 < j_pr j \<and> trim_space (j_repo j) \<noteq> []
              then snd (supersede_in_flight_pr_jobs env (j_repo j) (j_pr j) sha s)
              else snd (cancel_now env (supersede_reason sha) run s)))"

text \<open>
  \<^verbatim>\<open>pruneSupersededInFlightPRRuns\<close>: per pull request the newest top level job stays.  The groups
  are visited in the order their first member is found.
\<close>

definition prune_groups :: "scm_state \<Rightarrow> scm_job list list" where
  "prune_groups s =
     (let js = filter (\<lambda>j. 0 < j_pr j \<and> top_level j \<and> status_in_flight j) (map snd (sc_live s));
          key = (\<lambda>j. pr_run_index_key (j_repo j) (j_pr j))
      in map (\<lambda>k. filter (\<lambda>j. key j = k) js) (remdups (map key js)))"

definition newest_of :: "scm_job list \<Rightarrow> scm_job" where
  "newest_of js = fold (\<lambda>j best. if j_started best \<le> j_started j then j else best) (tl js) (hd js)"

definition prune_group :: "orch_env \<Rightarrow> scm_job list \<Rightarrow> nat \<times> scm_state \<Rightarrow> nat \<times> scm_state" where
  "prune_group env js acc =
     (if length js < 2 then
        (case js of
           [j] \<Rightarrow> (if job_kind j = KRun
                    then (fst acc, remember_pr_run (j_repo j) (j_pr j) (j_id j) (snd acc)) else acc)
         | _ \<Rightarrow> acc)
      else
        let newest = newest_of js;
            (n, s) = fold (\<lambda>j (n, s).
                if j_id j = j_id newest then (n, s)
                else let (r, s) = cancel_now env (supersede_reason (j_sha newest)) (j_id j) s
                     in (if r = CancelOk then n + 1 else n, s)) js acc
        in (n, if job_kind newest = KRun
               then remember_pr_run (j_repo (hd js)) (j_pr (hd js)) (j_id newest) s else s))"

definition prune_superseded_runs :: "orch_env \<Rightarrow> scm_state \<Rightarrow> nat \<times> scm_state" where
  "prune_superseded_runs env s = fold (prune_group env) (prune_groups s) (0, s)"

end
