(* ===== verification/Supersede_Laws.thy ===== *)
theory Supersede_Laws
  imports Pr_Runs
begin

text \<open>
  What superseding, merging and cancelling do to the jobs of a pull request: the relation each
  cancel keeps between the store before and after, its composition over the loops of
  \<^verbatim>\<open>cancelInFlightJobsForPRExceptSHA\<close>, and the statement of what is left in flight.
\<close>

subsection \<open>The relation these operations keep\<close>

text \<open>
  Statuses change only from in flight to cancelled, identities never, and a job that stays in flight
  keeps its drain mark.
\<close>

definition draining :: "scm_job \<Rightarrow> bool" where
  "draining j \<longleftrightarrow> sget j ''supersede_drain'' = JBool True"

definition status_rel :: "scm_state \<Rightarrow> scm_state \<Rightarrow> bool" where
  "status_rel s s' \<longleftrightarrow>
     store_ok s' \<and>
     (\<forall>k. live_job k s = None \<longleftrightarrow> live_job k s' = None) \<and>
     (\<forall>k j j'. live_job k s = Some j \<and> live_job k s' = Some j' \<longrightarrow>
        same_ident j j' \<and>
        (j_status j' = j_status j \<or> (in_flight (j_status j) \<and> j_status j' = ''cancelled'')) \<and>
        (draining j \<and> in_flight (j_status j') \<longrightarrow> draining j'))"

lemma status_rel_refl: "store_ok s \<Longrightarrow> status_rel s s"
  by (auto simp: status_rel_def)

lemma status_rel_ok: "status_rel s t \<Longrightarrow> store_ok t"
  by (simp add: status_rel_def)

lemma status_rel_live:
  assumes "status_rel s t" "live_job k s = Some j"
  obtains j' where "live_job k t = Some j'" "same_ident j j'"
    "j_status j' = j_status j \<or> (in_flight (j_status j) \<and> j_status j' = ''cancelled'')"
    "draining j \<Longrightarrow> in_flight (j_status j') \<Longrightarrow> draining j'"
proof (cases "live_job k t")
  case None
  then have "live_job k s = None" using assms(1) unfolding status_rel_def by blast
  with assms(2) show ?thesis by simp
next
  case (Some j')
  with assms that show ?thesis unfolding status_rel_def by blast
qed

lemma status_rel_back:
  assumes "status_rel s t" "live_job k t = Some j'"
  obtains j where "live_job k s = Some j" "same_ident j j'"
    "j_status j' = j_status j \<or> (in_flight (j_status j) \<and> j_status j' = ''cancelled'')"
    "draining j \<Longrightarrow> in_flight (j_status j') \<Longrightarrow> draining j'"
proof (cases "live_job k s")
  case None
  then have "live_job k t = None" using assms(1) unfolding status_rel_def by blast
  with assms(2) show ?thesis by simp
next
  case (Some j)
  with assms that show ?thesis unfolding status_rel_def by blast
qed

lemma same_ident_trans: "same_ident a b \<Longrightarrow> same_ident b c \<Longrightarrow> same_ident a c"
  by (simp add: same_ident_def)

lemma status_rel_trans:
  assumes "status_rel s t" "status_rel t u"
  shows "status_rel s u"
  unfolding status_rel_def
proof (intro conjI allI impI)
  show "store_ok u" using assms(2) by (rule status_rel_ok)
  show "live_job k s = None \<longleftrightarrow> live_job k u = None" for k
    using assms by (simp add: status_rel_def)
  fix k j j' assume jj: "live_job k s = Some j \<and> live_job k u = Some j'"
  obtain m where m: "live_job k t = Some m" "same_ident j m"
    "j_status m = j_status j \<or> (in_flight (j_status j) \<and> j_status m = ''cancelled'')"
    "draining j \<longrightarrow> in_flight (j_status m) \<longrightarrow> draining m"
    using status_rel_live [OF assms(1)] jj by blast
  have "same_ident m j' \<and>
    (j_status j' = j_status m \<or> (in_flight (j_status m) \<and> j_status j' = ''cancelled'')) \<and>
    (draining m \<and> in_flight (j_status j') \<longrightarrow> draining j')"
    using assms(2) m(1) jj unfolding status_rel_def by blast
  then have m': "same_ident m j'" "j_status j' = j_status m \<or> (in_flight (j_status m) \<and> j_status j' = ''cancelled'')"
    "draining m \<and> in_flight (j_status j') \<longrightarrow> draining j'"
    by blast+
  show "same_ident j j'" using m(2) m'(1) by (rule same_ident_trans)
  show "j_status j' = j_status j \<or> (in_flight (j_status j) \<and> j_status j' = ''cancelled'')"
    using m(3) m'(2) by (elim disjE conjE) simp_all
  show "draining j'" if "draining j \<and> in_flight (j_status j')"
    using that m(4) m'(2,3) by auto
qed

lemma cancel_step_status:
  assumes "cancel_step r a b"
  shows "same_ident a b \<and>
    (j_status b = j_status a \<or> (in_flight (j_status a) \<and> j_status b = ''cancelled'')) \<and>
    (draining a \<and> in_flight (j_status b) \<longrightarrow> draining b)"
proof (cases "j_status b = j_status a")
  case True
  then show ?thesis using cancel_stepD(1) [OF assms] cancel_stepD(4) [OF assms True]
    by (cases "b = a") (simp_all add: draining_def)
next
  case False
  then have "b \<noteq> a" by blast
  then have "in_flight (j_status a)" using cancel_stepD(2) [OF assms] by blast
  with cancel_stepD(1,3) [OF assms] False show ?thesis by auto
qed

lemma cancel_rel_status: "cancel_rel r s t \<Longrightarrow> status_rel s t"
  unfolding cancel_rel_def status_rel_def using cancel_step_status by blast

lemma cancel_now_spec:
  assumes "store_ok s"
  shows "cancel_post (cancel_reason reason) k s (cancel_now env reason k s)"
proof -
  have "card (in_flight_ids s) < fuel_for s"
    using length_in_flight [of s] by (simp add: fuel_for_def)
  from cancel_scm_job_spec [OF assms this, of env reason k] show ?thesis
    by (auto simp: cancel_now_def)
qed

text \<open>Jobs that none of the given ones reaches are untouched.\<close>

definition apart_same :: "string set \<Rightarrow> scm_state \<Rightarrow> scm_state \<Rightarrow> bool" where
  "apart_same ks s t \<longleftrightarrow> (\<forall>i. (\<forall>k \<in> ks. \<not> reaches s k i) \<longrightarrow> live_job i t = live_job i s)"

lemma status_rel_child_ids:
  assumes "status_rel s t"
  shows "child_ids_of (live_job k t) = child_ids_of (live_job k s)"
proof (cases "live_job k s")
  case None
  then have "live_job k t = None" using assms by (simp add: status_rel_def)
  with None show ?thesis by simp
next
  case (Some p)
  then obtain p' where "live_job k t = Some p'" "same_ident p p'"
    using status_rel_live [OF assms] by blast
  with Some show ?thesis by (simp add: child_ids_of_def same_ident_def)
qed

lemma status_rel_parent:
  assumes "status_rel s t"
  shows "map_option j_parent (live_job k t) = map_option j_parent (live_job k s)"
proof (cases "live_job k s")
  case None
  with assms show ?thesis by (simp add: status_rel_def)
next
  case (Some j)
  then show ?thesis using status_rel_live [OF assms Some] by (auto simp: same_ident_def)
qed

lemma status_rel_reaches:
  assumes "store_ok s" "status_rel s t"
  shows "reaches t k i = reaches s k i"
proof -
  have "(\<exists>j. live_job c t = Some j \<and> (P \<or> j_parent j = r)) \<longleftrightarrow>
        (\<exists>j. live_job c s = Some j \<and> (P \<or> j_parent j = r))" for P r c
    using status_rel_parent [OF assms(2), of c]
    by (cases "live_job c t"; cases "live_job c s") auto
  then have "lists_in t = lists_in s"
    using assms(1) status_rel_ok [OF assms(2)]
    by (simp add: lists_in_def children_iff status_rel_child_ids [OF assms(2)])
  then show ?thesis by (simp add: reaches_def)
qed

lemma cancel_top_spec:
  assumes "store_ok (snd acc)"
  shows "status_rel (snd acc) (snd (cancel_top env reason k acc))"
    and "apart_same {k} (snd acc) (snd (cancel_top env reason k acc))"
    and "live_job k (snd (cancel_top env reason k acc)) = Some j' \<Longrightarrow> \<not> in_flight (j_status j')"
proof -
  note post = cancel_now_spec [OF assms, of reason k env]
  have e: "snd (cancel_top env reason k acc) = snd (cancel_now env reason k (snd acc))"
    by (simp add: cancel_top_def split: prod.split)
  have rel: "cancel_rel (cancel_reason reason) (snd acc) (snd (cancel_now env reason k (snd acc)))"
    using post by (simp add: cancel_post_def)
  then show "status_rel (snd acc) (snd (cancel_top env reason k acc))"
    by (simp add: e cancel_rel_status)
  show "apart_same {k} (snd acc) (snd (cancel_top env reason k acc))"
    using post by (simp add: apart_same_def cancel_post_def e)
  assume l: "live_job k (snd (cancel_top env reason k acc)) = Some j'"
  obtain j where j: "live_job k (snd acc) = Some j" "cancel_step (cancel_reason reason) j j'"
    using cancel_rel_back [OF rel] l by (auto simp: e)
  show "\<not> in_flight (j_status j')"
  proof (cases "in_flight (j_status j)")
    case True
    then show ?thesis using post j(1) l by (auto simp: cancel_post_def e)
  next
    case False
    then show ?thesis using cancel_stepD(2) [OF j(2)] by simp
  qed
qed

lemma apart_same_trans:
  assumes "apart_same a s t" "apart_same b t u" "store_ok s" "status_rel s t"
  shows "apart_same (a \<union> b) s u"
  using assms status_rel_reaches [OF assms(3,4)] by (simp add: apart_same_def)

text \<open>A loop over job ids that keeps the relation at each step keeps it as a whole.\<close>

lemma fold_status_rel:
  assumes step: "\<And>k acc. store_ok (snd acc) \<Longrightarrow>
      status_rel (snd acc) (snd (f k acc)) \<and> apart_same {k} (snd acc) (snd (f k acc))"
  shows "store_ok (snd acc) \<Longrightarrow> status_rel (snd acc) (snd (fold f ks acc)) \<and>
           apart_same (set ks) (snd acc) (snd (fold f ks acc))"
proof (induction ks arbitrary: acc)
  case Nil
  then show ?case by (simp add: status_rel_refl apart_same_def)
next
  case (Cons k ks)
  have s1: "status_rel (snd acc) (snd (f k acc))" "apart_same {k} (snd acc) (snd (f k acc))"
    using step [OF Cons.prems] by auto
  from Cons.IH [OF status_rel_ok [OF s1(1)]]
  have s2: "status_rel (snd (f k acc)) (snd (fold f ks (f k acc)))"
    "apart_same (set ks) (snd (f k acc)) (snd (fold f ks (f k acc)))" by auto
  show ?case
    using status_rel_trans [OF s1(1) s2(1)]
      apart_same_trans [OF s1(2) s2(2) Cons.prems s1(1)] by simp
qed

lemma not_in_flight_stays:
  assumes "status_rel s t" "\<And>j. live_job k s = Some j \<Longrightarrow> \<not> in_flight (j_status j)"
    "live_job k t = Some j'"
  shows "\<not> in_flight (j_status j')"
  using status_rel_back [OF assms(1,3)] assms(2) by (metis cancelled_not_in_flight)

lemma fold_cancel_top_stops:
  "store_ok (snd acc) \<Longrightarrow> k \<in> set ks \<Longrightarrow>
   live_job k (snd (fold (cancel_top env reason) ks acc)) = Some j' \<Longrightarrow> \<not> in_flight (j_status j')"
proof (induction ks arbitrary: acc)
  case (Cons i ks)
  let ?acc = "cancel_top env reason i acc"
  note one = cancel_top_spec [OF Cons.prems(1), where env = env and reason = reason and k = i]
  note rest = fold_status_rel [of "cancel_top env reason", OF _ status_rel_ok [OF one(1)], of ks]
  show ?case
  proof (cases "k \<in> set ks")
    case True
    with Cons status_rel_ok [OF one(1)] show ?thesis by simp
  next
    case False
    with Cons.prems have "k = i" by simp
    moreover have "status_rel (snd ?acc) (snd (fold (cancel_top env reason) ks ?acc))"
      using rest cancel_top_spec(1,2) by blast
    ultimately show ?thesis using not_in_flight_stays one(3) Cons.prems(3) by fastforce
  qed
qed simp


lemma fold_cancel_top_rel:
  assumes "store_ok (snd acc)"
  shows "status_rel (snd acc) (snd (fold (cancel_top env reason) ks acc))"
    "apart_same (set ks) (snd acc) (snd (fold (cancel_top env reason) ks acc))"
  using fold_status_rel [of "cancel_top env reason", OF _ assms, of ks] cancel_top_spec(1,2) by blast+

lemma in_flight_lower: "in_flight st \<Longrightarrow> in_flight (to_lower st)"
proof -
  have "to_lower ''queued'' = ''queued''" "to_lower ''waiting'' = ''waiting''"
    "to_lower ''running'' = ''running''" by code_simp+
  then show "in_flight st \<Longrightarrow> in_flight (to_lower st)" by (auto simp: in_flight_def)
qed

lemma status_rel_persist:
  assumes "store_ok s" "live_job k s = Some j" "same_ident j j'" "j_status j' = j_status j"
    "draining j \<longrightarrow> draining (stamp_summary j')"
  shows "status_rel s (persist_scm_job env j' s)"
proof -
  have "j_id j' = k" "k \<noteq> []"
    using assms(3) store_ok_id [OF assms(1,2)] by (simp_all add: same_ident_def)
  then show ?thesis
    using assms by (auto simp: status_rel_def live_job_persist store_ok_persist same_ident_def)
qed

lemma cancel_child_spec:
  assumes ok: "store_ok (snd acc)"
  shows "status_rel (snd acc) (snd (cancel_child env reason keep k acc)) \<and>
    apart_same {k} (snd acc) (snd (cancel_child env reason keep k acc))"
    and "live_job k (snd (cancel_child env reason keep k acc)) = Some j' \<Longrightarrow> in_flight (j_status j') \<Longrightarrow>
         \<not> (keep \<noteq> [] \<and> same_sha keep j') \<Longrightarrow> job_kind j' = KCloud \<and> draining j'"
proof -
  obtain ids s where acc: "acc = (ids, s)" by (cases acc)
  with ok have ok: "store_ok s" by simp
  let ?A = "status_rel (snd acc) (snd (cancel_child env reason keep k acc)) \<and>
    apart_same {k} (snd acc) (snd (cancel_child env reason keep k acc))"
  let ?B = "live_job k (snd (cancel_child env reason keep k acc)) = Some j' \<longrightarrow> in_flight (j_status j') \<longrightarrow>
         \<not> (keep \<noteq> [] \<and> same_sha keep j') \<longrightarrow> job_kind j' = KCloud \<and> draining j'"
  have "?A \<and> ?B"
  proof (cases "live_job k s")
    case None
    then show ?thesis using ok acc
      by (simp add: cancel_child_def get_scm_job_ok status_rel_refl apart_same_def)
  next
    case (Some j)
    let ?st = "to_lower (j_status j)"
    consider (skip) "\<not> in_flight ?st \<or> (keep \<noteq> [] \<and> same_sha keep j)"
      | (drain) "in_flight ?st" "\<not> (keep \<noteq> [] \<and> same_sha keep j)" "job_kind j = KCloud"
          "?st = ''running'' \<or> ?st = ''waiting''"
      | (stop) "in_flight ?st" "\<not> (keep \<noteq> [] \<and> same_sha keep j)"
          "\<not> (job_kind j = KCloud \<and> (?st = ''running'' \<or> ?st = ''waiting''))" by blast
    then show ?thesis
    proof cases
      case skip
      then have e: "cancel_child env reason keep k acc = acc"
        using Some ok acc by (auto simp: cancel_child_def get_scm_job_ok Let_def)
      have "in_flight (j_status j) \<Longrightarrow> in_flight ?st" by (rule in_flight_lower)
      with skip e Some acc ok show ?thesis by (auto simp: status_rel_refl apart_same_def)
    next
      case drain
      let ?j = "sset ''cancel_drain'' (JStr reason) (sset ''supersede_drain'' (JBool True) j)"
      have e: "snd (cancel_child env reason keep k acc) = persist_scm_job env ?j s"
        using drain Some ok acc by (auto simp: cancel_child_def get_scm_job_ok Let_def)
      have d: "draining (stamp_summary ?j)" by (simp add: draining_def)
      have "status_rel s (persist_scm_job env ?j s)"
        using d by (intro status_rel_persist [OF ok Some]) (simp_all add: same_ident_def)
      moreover have "j_id j = k" using store_ok_id [OF ok Some] by blast
      ultimately show ?thesis
        using e acc drain(3) d by (auto simp: apart_same_def live_job_persist job_kind_def)
    next
      case stop
      have e: "cancel_child env reason keep k acc = cancel_top env reason k acc"
        using stop Some ok acc by (auto simp: cancel_child_def get_scm_job_ok Let_def)
      show ?thesis
        using cancel_top_spec [where acc = acc and env = env and reason = reason and k = k] ok acc e by auto
    qed
  qed
  then show ?A and "live_job k (snd (cancel_child env reason keep k acc)) = Some j' \<Longrightarrow> in_flight (j_status j') \<Longrightarrow>
         \<not> (keep \<noteq> [] \<and> same_sha keep j') \<Longrightarrow> job_kind j' = KCloud \<and> draining j'"
    by blast+
qed


text \<open>A job's later steps keep that it is not in flight, a kept commit, or a draining cloud child.\<close>

definition settled_child :: "string \<Rightarrow> scm_job \<Rightarrow> bool" where
  "settled_child keep j \<longleftrightarrow>
     \<not> in_flight (j_status j) \<or> (keep \<noteq> [] \<and> same_sha keep j) \<or> (job_kind j = KCloud \<and> draining j)"

lemma settled_stays:
  assumes "status_rel s t" "\<And>j. live_job k s = Some j \<Longrightarrow> settled_child keep j"
    "live_job k t = Some j'"
  shows "settled_child keep j'"
proof -
  obtain j where j: "live_job k s = Some j" "same_ident j j'"
    "j_status j' = j_status j \<or> (in_flight (j_status j) \<and> j_status j' = ''cancelled'')"
    "draining j \<Longrightarrow> in_flight (j_status j') \<Longrightarrow> draining j'"
    using status_rel_back [OF assms(1,3)] by blast
  have "same_sha keep j' = same_sha keep j" "job_kind j' = job_kind j"
    using j(2) by (simp_all add: same_sha_def same_ident_def job_kind_def)
  with assms(2) [OF j(1)] j(3,4) show ?thesis by (auto simp: settled_child_def)
qed

lemma fold_cancel_child_spec:
  assumes "store_ok (snd acc)"
  shows "status_rel (snd acc) (snd (fold (cancel_child env reason keep) ks acc))"
    "apart_same (set ks) (snd acc) (snd (fold (cancel_child env reason keep) ks acc))"
  using fold_status_rel [of "cancel_child env reason keep", OF _ assms, of ks] cancel_child_spec(1)
  by blast+

lemma fold_cancel_child_settles:
  "store_ok (snd acc) \<Longrightarrow> k \<in> set ks \<Longrightarrow>
   live_job k (snd (fold (cancel_child env reason keep) ks acc)) = Some j' \<Longrightarrow> settled_child keep j'"
proof (induction ks arbitrary: acc)
  case (Cons i ks)
  let ?acc = "cancel_child env reason keep i acc"
  have rel: "status_rel (snd acc) (snd ?acc)" using cancel_child_spec(1) [OF Cons.prems(1)] by blast
  note ok = status_rel_ok [OF rel]
  show ?case
  proof (cases "k \<in> set ks")
    case True
    with Cons ok show ?thesis by simp
  next
    case False
    with Cons.prems have k: "k = i" by simp
    have "settled_child keep j" if "live_job k (snd ?acc) = Some j" for j
      using cancel_child_spec(2) [OF Cons.prems(1)] that unfolding k settled_child_def by blast
    from settled_stays [OF fold_cancel_child_spec(1) [OF ok] this] Cons.prems(3)
    show ?thesis by simp
  qed
qed simp

subsection \<open>The auto-fix jobs of the pull request\<close>

definition same_statuses :: "scm_state \<Rightarrow> scm_state \<Rightarrow> bool" where
  "same_statuses s t \<longleftrightarrow> status_rel s t \<and>
     (\<forall>k. map_option j_status (live_job k t) = map_option j_status (live_job k s))"

lemma same_statuses_refl: "store_ok s \<Longrightarrow> same_statuses s s"
  by (simp add: same_statuses_def status_rel_refl)

lemma same_statuses_trans: "same_statuses s t \<Longrightarrow> same_statuses t u \<Longrightarrow> same_statuses s u"
  unfolding same_statuses_def using status_rel_trans by auto

lemma live_job_autofix [simp]: "live_job k (s\<lparr>sc_autofix := a\<rparr>) = live_job k s"
  by (simp add: live_job_def)

lemma store_ok_autofix [simp]: "store_ok (s\<lparr>sc_autofix := a\<rparr>) = store_ok s"
  by (simp add: store_ok_def)

lemma cancel_auto_fix_statuses:
  assumes "store_ok s"
  shows "same_statuses s (cancel_auto_fix env repo pr reason f s)"
proof -
  have persist: "same_statuses s (persist_auto_fix_on_parent env p g (s\<lparr>sc_autofix := a\<rparr>))"
    if p: "live_job k s = Some p" for k p g a
  proof -
    let ?p = "\<lambda>m vs. sset ''auto_fix_latest'' m (sset ''auto_fixes'' vs p)"
    let ?s = "s\<lparr>sc_autofix := a\<rparr>"
    have rel: "status_rel ?s (persist_scm_job env (?p m vs) ?s)" for m vs
    proof (rule status_rel_persist [of ?s k p])
      show "draining p \<longrightarrow> draining (stamp_summary (?p m vs))" by (simp add: draining_def)
    qed (use assms p in \<open>simp_all add: same_ident_def\<close>)
    have "j_id p = k" using store_ok_id [OF assms p] by blast
    then have "same_statuses ?s (persist_scm_job env (?p m vs) ?s)" for m vs
      using rel p by (simp add: same_statuses_def live_job_persist)
    then have "same_statuses ?s (persist_auto_fix_on_parent env p g ?s)"
      by (simp only: persist_auto_fix_on_parent_def Let_def)
    then show ?thesis by (simp add: same_statuses_def status_rel_def)
  qed
  have upd: "same_statuses s (s\<lparr>sc_autofix := a\<rparr>)" for a
    using assms by (auto simp: same_statuses_def status_rel_def)
  show ?thesis
    using assms persist upd same_statuses_refl [OF assms]
    by (auto simp: cancel_auto_fix_def get_scm_job_ok Let_def split: option.split)
qed

lemma cancel_auto_fixes_statuses:
  "store_ok s \<Longrightarrow> same_statuses s (cancel_in_flight_auto_fixes env repo pr reason s)"
proof -
  have "store_ok s \<Longrightarrow> same_statuses s (fold (cancel_auto_fix env repo pr reason) fs s)" for fs s
  proof (induction fs arbitrary: s)
    case (Cons f fs)
    have one: "same_statuses s (cancel_auto_fix env repo pr reason f s)"
      using Cons.prems by (rule cancel_auto_fix_statuses)
    then have "store_ok (cancel_auto_fix env repo pr reason f s)"
      by (simp add: same_statuses_def status_rel_def)
    from same_statuses_trans [OF one Cons.IH [OF this]] show ?case by simp
  qed (simp add: same_statuses_refl)
  then show "store_ok s \<Longrightarrow> ?thesis" by (simp add: cancel_in_flight_auto_fixes_def)
qed


subsection \<open>All jobs of a pull request\<close>

definition kept :: "string \<Rightarrow> scm_job \<Rightarrow> bool" where
  "kept keep j \<longleftrightarrow> keep \<noteq> [] \<and> same_sha keep j"

lemma of_pr_ident: "same_ident j j' \<Longrightarrow> of_pr repo pr j' = of_pr repo pr j"
  by (simp add: of_pr_def same_ident_def)

lemma kept_ident: "same_ident j j' \<Longrightarrow> kept keep j' = kept keep j"
  by (simp add: kept_def same_sha_def same_ident_def)

lemma top_ident: "same_ident j j' \<Longrightarrow> top_level j' = top_level j"
  by (simp add: top_level_def same_ident_def)

lemma pr_targets_iff:
  assumes "store_ok s"
  shows "k \<in> j_id ` {j \<in> set (pr_targets repo pr keep s). P j} \<longleftrightarrow>
     (\<exists>j. live_job k s = Some j \<and> of_pr repo pr j \<and> status_in_flight j \<and> \<not> kept keep j \<and> P j)"
proof
  assume "k \<in> j_id ` {j \<in> set (pr_targets repo pr keep s). P j}"
  then obtain a j where j: "k = j_id j" "(a, j) \<in> set (sc_live s)" "of_pr repo pr j"
    "status_in_flight j" "\<not> kept keep j" "P j"
    by (auto simp: pr_targets_def kept_def)
  then have "live_job a s = Some j" using live_iff [OF assms] by blast
  moreover from this have "a = k" using store_ok_id [OF assms] j(1) by blast
  ultimately show "\<exists>j. live_job k s = Some j \<and> of_pr repo pr j \<and> status_in_flight j \<and> \<not> kept keep j \<and> P j"
    using j by blast
next
  assume "\<exists>j. live_job k s = Some j \<and> of_pr repo pr j \<and> status_in_flight j \<and> \<not> kept keep j \<and> P j"
  then obtain j where j: "live_job k s = Some j" "of_pr repo pr j" "status_in_flight j" "\<not> kept keep j" "P j"
    by blast
  then have "(k, j) \<in> set (sc_live s)" "k = j_id j"
    using live_iff [OF assms] store_ok_id [OF assms] by blast+
  with j show "k \<in> j_id ` {j \<in> set (pr_targets repo pr keep s). P j}"
    by (force simp: pr_targets_def kept_def)
qed

lemma cancel_except_sha_spec:
  assumes ok: "store_ok s" and repo: "trim_space repo \<noteq> []" and pr: "0 < pr"
    and s': "s' = snd (cancel_in_flight_for_pr_except_sha env repo pr reason keep s)"
  shows "status_rel s s'"
    and "live_job k s' = Some j' \<Longrightarrow> of_pr (trim_space repo) pr j' \<Longrightarrow> in_flight (j_status j') \<Longrightarrow>
         \<not> kept (trim_space keep) j' \<Longrightarrow> \<not> top_level j' \<and> job_kind j' = KCloud \<and> draining j'"
    and "live_job k s = Some j \<Longrightarrow>
         (\<And>r p. live_job r s = Some p \<Longrightarrow> of_pr (trim_space repo) pr p \<Longrightarrow> status_in_flight p \<Longrightarrow>
            \<not> kept (trim_space keep) p \<Longrightarrow> \<not> reaches s r k) \<Longrightarrow>
         map_option j_status (live_job k s') = Some (j_status j)"
proof -
  let ?repo = "trim_space repo" and ?keep = "trim_space keep"
  let ?reason = "if trim_space reason = [] then ''cancelled'' else reason"
  let ?ts = "pr_targets ?repo pr ?keep s"
  let ?top = "map j_id (filter top_level ?ts)" and ?sub = "map j_id (filter (\<lambda>j. \<not> top_level j) ?ts)"
  define a1 where "a1 = fold (cancel_top env ?reason) ?top ([], s)"
  define a2 where "a2 = fold (cancel_child env ?reason ?keep) ?sub a1"
  have e: "s' = cancel_in_flight_auto_fixes env ?repo pr ?reason (snd a2)"
    using repo pr by (simp add: s' cancel_in_flight_for_pr_except_sha_def a1_def a2_def Let_def)
  have okp: "store_ok (snd ([]::string list, s))" using ok by simp
  have r1: "status_rel s (snd a1)" "apart_same (set ?top) s (snd a1)"
    using fold_cancel_top_rel [OF okp, where env = env and reason = ?reason and ks = ?top] unfolding a1_def by simp_all
  have ok1: "store_ok (snd a1)" using r1(1) by (rule status_rel_ok)
  have r2: "status_rel (snd a1) (snd a2)" "apart_same (set ?sub) (snd a1) (snd a2)"
    using fold_cancel_child_spec [OF ok1, where env = env and reason = ?reason and keep = ?keep and ks = ?sub] unfolding a2_def by simp_all
  have r3: "same_statuses (snd a2) s'"
    unfolding e by (rule cancel_auto_fixes_statuses) (rule status_rel_ok [OF r2(1)])
  then have r3': "status_rel (snd a2) s'" by (simp add: same_statuses_def)
  have r13: "status_rel (snd a1) s'" by (rule status_rel_trans [OF r2(1) r3'])
  show rel: "status_rel s s'" by (rule status_rel_trans [OF r1(1) r13])
  show "\<not> top_level j' \<and> job_kind j' = KCloud \<and> draining j'"
    if h: "live_job k s' = Some j'" "of_pr ?repo pr j'" "in_flight (j_status j')" "\<not> kept ?keep j'"
  proof -
    obtain j where j: "live_job k s = Some j" "same_ident j j'"
      "j_status j' = j_status j \<or> (in_flight (j_status j) \<and> j_status j' = ''cancelled'')"
      using status_rel_back [OF rel h(1)] by blast
    have "in_flight (j_status j)" using j(3) h(3) by auto
    then have target: "of_pr ?repo pr j" "status_in_flight j" "\<not> kept ?keep j"
      using h(2,4) j(2) of_pr_ident kept_ident in_flight_lower by (auto simp: status_in_flight_def)
    show ?thesis
    proof (cases "top_level j")
      case True
      have "k \<in> set ?top"
        using pr_targets_iff [OF ok, of k ?repo pr ?keep top_level] target True j(1) by auto
      then have "\<not> in_flight (j_status i)" if "live_job k (snd a1) = Some i" for i
        by (rule fold_cancel_top_stops [OF okp]) (use that in \<open>simp add: a1_def\<close>)
      from not_in_flight_stays [OF r13 this h(1)] h(3) show ?thesis by blast
    next
      case False
      have "k \<in> set ?sub"
        using pr_targets_iff [OF ok, of k ?repo pr ?keep "\<lambda>j. \<not> top_level j"] target False j(1) by auto
      then have "settled_child ?keep i" if "live_job k (snd a2) = Some i" for i
        by (rule fold_cancel_child_settles [OF ok1]) (use that in \<open>simp add: a2_def\<close>)
      from settled_stays [OF r3' this h(1)] h(3,4) False top_ident [OF j(2)] show ?thesis
        by (auto simp: settled_child_def kept_def)
    qed
  qed
  show "map_option j_status (live_job k s') = Some (j_status j)"
    if h: "live_job k s = Some j" "\<And>r p. live_job r s = Some p \<Longrightarrow> of_pr ?repo pr p \<Longrightarrow> status_in_flight p \<Longrightarrow>
        \<not> kept ?keep p \<Longrightarrow> \<not> reaches s r k"
  proof -
    have "\<not> reaches s r k" if "r \<in> set ?top \<union> set ?sub" for r
      using that pr_targets_iff [OF ok, of r ?repo pr ?keep top_level]
        pr_targets_iff [OF ok, of r ?repo pr ?keep "\<lambda>j. \<not> top_level j"] h(2) by auto
    then have top: "\<forall>r \<in> set ?top. \<not> reaches s r k" and sub: "\<forall>r \<in> set ?sub. \<not> reaches (snd a1) r k"
      using status_rel_reaches [OF ok r1(1)] by blast+
    have "live_job k (snd a1) = live_job k s" using r1(2) top unfolding apart_same_def by blast
    moreover have "live_job k (snd a2) = live_job k (snd a1)" using r2(2) sub unfolding apart_same_def by blast
    ultimately show ?thesis using r3 h(1) by (simp add: same_statuses_def)
  qed
qed

text \<open>
  C15: after a push is superseded only the jobs of the new head are left.  Every job of the pull
  request that is still in flight afterwards is a job of the new commit or a cloud child that
  carries the drain mark; no top level job of an older commit is in flight.  Every job, child or top
  level, keeps its status that is neither itself nor (as a child, a child of a child, and so on) below
  a job in flight of an older commit of the pull request: the runs and the children of the new head,
  and whatever belongs to other pull requests.
\<close>

theorem supersede_keeps_only_head:
  assumes "store_ok s" "trim_space repo \<noteq> []" "0 < pr" "trim_space sha \<noteq> []"
    and "supersede_in_flight_pr_jobs env repo pr sha s = (ids, s')"
  shows "store_ok s' \<and>
    (\<forall>k j. live_job k s' = Some j \<and> of_pr (trim_space repo) pr j \<and> in_flight (j_status j) \<and>
       \<not> same_sha (trim_space sha) j \<longrightarrow> \<not> top_level j \<and> job_kind j = KCloud \<and> draining j) \<and>
    (\<forall>k j. live_job k s = Some j \<and>
       (\<forall>r p. live_job r s = Some p \<and> of_pr (trim_space repo) pr p \<and> status_in_flight p \<and>
          \<not> same_sha (trim_space sha) p \<longrightarrow> \<not> reaches s r k) \<longrightarrow>
       map_option j_status (live_job k s') = Some (j_status j))"
proof -
  let ?sha = "trim_space sha"
  have e: "s' = snd (cancel_in_flight_for_pr_except_sha env repo pr (supersede_reason sha) ?sha s)"
    using assms(5) by (simp add: supersede_in_flight_pr_jobs_def)
  note spec = cancel_except_sha_spec [OF assms(1-3) e]
  have k: "kept ?sha j = same_sha ?sha j" for j
    using assms(4) by (simp add: kept_def)
  show ?thesis
  proof (intro conjI allI impI)
    show "store_ok s'" using spec(1) by (rule status_rel_ok)
  qed (use spec(2,3) in \<open>auto simp: k\<close>)
qed

text \<open>
  When a pull request is merged every job of it stops.  Afterwards a job of the pull request is
  in flight only when it is a cloud child that carries the drain mark, and a job that no job in flight
  of the pull request reaches keeps its status.
\<close>

theorem merged_pr_stops_jobs:
  assumes "store_ok s" "trim_space repo \<noteq> []" "0 < pr"
    and "cancel_in_flight_for_merged_pr env repo pr reason s = (ids, s')"
  shows "store_ok s' \<and>
    (\<forall>k j. live_job k s' = Some j \<and> of_pr (trim_space repo) pr j \<and> in_flight (j_status j) \<longrightarrow>
       \<not> top_level j \<and> job_kind j = KCloud \<and> draining j) \<and>
    (\<forall>k j. live_job k s = Some j \<and>
       (\<forall>r p. live_job r s = Some p \<and> of_pr (trim_space repo) pr p \<and> status_in_flight p \<longrightarrow> \<not> reaches s r k) \<longrightarrow>
       map_option j_status (live_job k s') = Some (j_status j))"
proof -
  let ?r = "if trim_space reason = [] then ''pull request merged'' else reason"
  have e: "s' = snd (cancel_in_flight_for_pr_except_sha env repo pr ?r [] s)"
    using assms(4) by (simp only: cancel_in_flight_for_merged_pr_def cancel_in_flight_for_pr_def snd_conv)
  note spec = cancel_except_sha_spec [OF assms(1-3) e]
  have k: "\<not> kept [] j" for j
    by (simp add: kept_def)
  show ?thesis
  proof (intro conjI allI impI)
    show "store_ok s'" using spec(1) by (rule status_rel_ok)
  qed (use spec(2,3) in \<open>auto simp: k\<close>)
qed


text \<open>The sample store: the push of \<open>new\<close> leaves its own run and drains the cloud child of the old one.\<close>

lemma supersede_keeps_only_head_witness:
  "\<exists>ids s'. supersede_in_flight_pr_jobs sample_env ''o/r'' 7 ''new'' sample_store = (ids, s') \<and>
     (\<forall>k j. live_job k s' = Some j \<and> of_pr ''o/r'' 7 j \<and> in_flight (j_status j) \<and> \<not> same_sha ''new'' j \<longrightarrow>
        \<not> top_level j \<and> job_kind j = KCloud \<and> draining j)"
proof -
  have t: "trim_space ''o/r'' = ''o/r''" "trim_space ''new'' = ''new''" by code_simp+
  obtain ids s' where e: "supersede_in_flight_pr_jobs sample_env ''o/r'' 7 ''new'' sample_store = (ids, s')"
    by (cases "supersede_in_flight_pr_jobs sample_env ''o/r'' 7 ''new'' sample_store")
  have n: "trim_space ''o/r'' \<noteq> []" "0 < (7::int)" "trim_space ''new'' \<noteq> []" using t by simp_all
  from supersede_keeps_only_head [OF sample_store_ok n e, unfolded t] e show ?thesis by blast
qed

lemma merged_pr_stops_jobs_witness:
  "\<exists>ids s'. cancel_in_flight_for_merged_pr sample_env ''o/r'' 7 [] sample_store = (ids, s') \<and>
     (\<forall>k j. live_job k s' = Some j \<and> of_pr ''o/r'' 7 j \<and> in_flight (j_status j) \<longrightarrow>
        \<not> top_level j \<and> job_kind j = KCloud \<and> draining j)"
proof -
  have t: "trim_space ''o/r'' = ''o/r''" by code_simp
  obtain ids s' where e: "cancel_in_flight_for_merged_pr sample_env ''o/r'' 7 [] sample_store = (ids, s')"
    by (cases "cancel_in_flight_for_merged_pr sample_env ''o/r'' 7 [] sample_store")
  have n: "trim_space ''o/r'' \<noteq> []" "0 < (7::int)" using t by simp_all
  from merged_pr_stops_jobs [OF sample_store_ok n e, unfolded t] e show ?thesis by blast
qed

end
