(* ===== verification/Run_Plan.thy ===== *)
theory Run_Plan
  imports Supersede_Laws
begin

text \<open>
  Planning and enqueueing the run of a pull request (\<^verbatim>\<open>src/agents_run.go\<close>): the children a
  run gets from the checks of the watched repository and the resolved preferences, the preferences
  frozen in the run's summary, and \<^verbatim>\<open>enqueuePRRun\<close> with its reuse and supersede rules.

  \<^verbatim>\<open>encoding/json\<close> turns the preferences into an object with one key per field; the summary keeps
  that object, and reading it back decodes field by field.
\<close>

subsection \<open>Preferences in the summary\<close>

definition prefs_fields :: "string list" where
  "prefs_fields =
     [''repository_rules'', ''learned_rules'', ''trigger_mode'', ''review_draft_prs'',
      ''pr_summaries'', ''post_pr_risk_score'', ''autofix_mode'', ''autofix_severity_threshold'',
      ''incremental_review'', ''security_auto_pr_reviews'', ''context_aware_analysis'',
      ''inline_findings'', ''auto_approve'', ''reviewer_routing'', ''policy_file_path'',
      ''ai_reviewer_aware'', ''bugbot_max_units'', ''cloud_enabled'', ''cloud_run_tests'',
      ''checkup_enabled'', ''ai_issue_labels'', ''issue_auto_implement'',
      ''require_human_before_coding'', ''ai_issues_enabled'']"

definition prefs_values :: "agent_prefs \<Rightarrow> jv list" where
  "prefs_values p =
     [JBool (repository_rules p), JBool (learned_rules p), JStr (trigger_mode p),
      JBool (review_draft_prs p), JBool (pr_summaries p), JBool (post_pr_risk_score p),
      JStr (autofix_mode p), JStr (autofix_severity_threshold p), JBool (incremental_review p),
      JBool (security_auto_pr_reviews p), JBool (context_aware_analysis p),
      JBool (inline_findings p), JBool (auto_approve p), JBool (reviewer_routing p),
      JStr (policy_file_path p), JBool (ai_reviewer_aware p), JInt (bugbot_max_units p),
      JBool (cloud_enabled p), JBool (cloud_run_tests p), JBool (checkup_enabled p),
      JStrs (ai_issue_labels p), JBool (issue_auto_implement p),
      JBool (require_human_before_coding p), JBool (ai_issues_enabled p)]"

definition prefs_obj :: "agent_prefs \<Rightarrow> jobj" where
  "prefs_obj p = zip prefs_fields (prefs_values p)"

definition sources_obj :: "(string \<rightharpoonup> string) \<Rightarrow> jobj" where
  "sources_obj src = List.map_filter (\<lambda>f. map_option (\<lambda>l. (f, JStr l)) (src f)) prefs_fields"

fun num_of :: "jv \<Rightarrow> int" where
  "num_of (JInt i) = i"
| "num_of (JNum i) = i"
| "num_of _ = 0"

fun strs_of :: "jv \<Rightarrow> string list" where
  "strs_of (JStrs xs) = xs"
| "strs_of (JArr vs) = map as_str vs"
| "strs_of _ = []"

text \<open>Decoding into the struct: a missing field, or one of another type, keeps its zero value.\<close>

definition prefs_of_obj :: "jobj \<Rightarrow> agent_prefs" where
  "prefs_of_obj m =
     (let b = (\<lambda>f. is_true (jget m f)); s = (\<lambda>f. as_str (jget m f))
      in \<lparr>repository_rules = b ''repository_rules'', learned_rules = b ''learned_rules'',
          trigger_mode = s ''trigger_mode'', review_draft_prs = b ''review_draft_prs'',
          pr_summaries = b ''pr_summaries'', post_pr_risk_score = b ''post_pr_risk_score'',
          autofix_mode = s ''autofix_mode'',
          autofix_severity_threshold = s ''autofix_severity_threshold'',
          incremental_review = b ''incremental_review'',
          security_auto_pr_reviews = b ''security_auto_pr_reviews'',
          context_aware_analysis = b ''context_aware_analysis'',
          inline_findings = b ''inline_findings'', auto_approve = b ''auto_approve'',
          reviewer_routing = b ''reviewer_routing'', policy_file_path = s ''policy_file_path'',
          ai_reviewer_aware = b ''ai_reviewer_aware'',
          bugbot_max_units = num_of (jget m ''bugbot_max_units''),
          cloud_enabled = b ''cloud_enabled'', cloud_run_tests = b ''cloud_run_tests'',
          checkup_enabled = b ''checkup_enabled'',
          ai_issue_labels = strs_of (jget m ''ai_issue_labels''),
          issue_auto_implement = b ''issue_auto_implement'',
          require_human_before_coding = b ''require_human_before_coding'',
          ai_issues_enabled = b ''ai_issues_enabled''\<rparr>)"

definition agent_prefs_from_summary :: "scm_job \<Rightarrow> agent_prefs" where
  "agent_prefs_from_summary j =
     (let p = (case sget j ''prefs'' of JObj m \<Rightarrow> prefs_of_obj m | _ \<Rightarrow> prefs_of_obj [])
      in if trigger_mode p = [] then builtin_agent_prefs else p)"

subsection \<open>Planning\<close>

definition run_checks :: "orch_env \<Rightarrow> string \<Rightarrow> string list" where
  "run_checks env repo =
     (case e_watched env repo of
        Some raw \<Rightarrow> parse_watched_checks (e_getenv env) (e_dec_strs env) raw
      | None \<Rightarrow> default_watched_checks (e_getenv env))"

definition plan_kinds :: "string list \<Rightarrow> agent_prefs \<Rightarrow> agent_kind list" where
  "plan_kinds checks p =
     [KPrepare] @
     (if wants_legacy_security_scan checks \<or> wants_ora_review checks then [KSecurity] else []) @
     (if wants_ora_review checks then [KBugbot] else []) @
     (if checkup_enabled p then [KCheckup] else []) @
     (if wants_ora_review checks then [KApproval] else []) @
     [KCloud]"

definition cloud_on :: "agent_prefs \<Rightarrow> bool" where
  "cloud_on p \<longleftrightarrow> cloud_enabled p \<and> autofix_mode p \<noteq> [] \<and> autofix_mode p \<noteq> ''off''"

text \<open>Why a planned child starts as skipped; \<^const>\<open>None\<close>: it is queued.\<close>

definition plan_skip ::
  "orch_env \<Rightarrow> string list \<Rightarrow> agent_prefs \<Rightarrow> string option \<Rightarrow> agent_kind \<Rightarrow> string option" where
  "plan_skip env checks p skip_bugbot k =
     (if k = KSecurity \<and> \<not> wants_legacy_security_scan checks then
        Some ''no legacy AppSec checks on watch policy''
      else if k = KBugbot \<and> skip_bugbot \<noteq> None then skip_bugbot
      else if k = KCheckup \<and> \<not> e_docker env then Some ''OPA_JOB_SANDBOX=docker required for checkup''
      else if k = KCloud \<and> \<not> cloud_on p then Some ''cloud_enabled/autofix_mode off''
      else None)"

definition child_id_for :: "orch_env \<Rightarrow> scm_job \<Rightarrow> agent_kind \<Rightarrow> string" where
  "child_id_for env parent k =
     load_id (e_sha1hex env) ''scmjob''
       [j_org parent, j_proj parent, j_repo parent, j_sha parent, kind_str k, j_id parent]"

definition plan_child :: "orch_env \<Rightarrow> scm_job \<Rightarrow> string option \<Rightarrow> agent_kind \<Rightarrow> scm_job" where
  "plan_child env parent skip k =
     \<lparr>j_id = child_id_for env parent k, j_org = j_org parent, j_proj = j_proj parent,
      j_conn = j_conn parent, j_repo = j_repo parent, j_pr = j_pr parent, j_sha = j_sha parent,
      j_event = j_event parent, j_status = (if skip = None then ''queued'' else ''skipped''),
      j_sec_run = [], j_ai_job = [], j_checks = [], j_error = [],
      j_summary = (case skip of None \<Rightarrow> [] | Some r \<Rightarrow> [(''skip_reason'', JStr r)]),
      j_started = e_now env, j_finished = e_now env, j_draft = j_draft parent,
      j_title = j_title parent, j_body = j_body parent, j_force_ai = j_force_ai parent,
      j_ai_only = j_ai_only parent, j_actor = j_actor parent, j_kind = kind_str k,
      j_run_id = j_id parent, j_parent = j_id parent, j_attempt = j_attempt parent\<rparr>"

definition plan_run_children ::
  "orch_env \<Rightarrow> scm_job \<Rightarrow> agent_prefs \<Rightarrow> string option \<Rightarrow> scm_job list" where
  "plan_run_children env parent p skip_bugbot =
     (let checks = run_checks env (j_repo parent)
      in map (\<lambda>k. plan_child env parent (plan_skip env checks p skip_bugbot k) k) (plan_kinds checks p))"

subsection \<open>Enqueueing\<close>

record pr_request =
  rq_org :: string
  rq_proj :: string
  rq_conn :: string
  rq_repo :: string
  rq_pr :: int
  rq_sha :: string
  rq_event :: string
  rq_draft :: bool
  rq_title :: string
  rq_body :: string

text \<open>Organisation, project and connector: those of the connector, else those of the watched repository.\<close>

definition pr_scope ::
  "(string \<times> string \<times> string) option \<Rightarrow> (string \<times> string \<times> string) option \<Rightarrow> string \<times> string \<times> string" where
  "pr_scope wr conn =
     (case conn of Some c \<Rightarrow> c | None \<Rightarrow> (case wr of Some w \<Rightarrow> w | None \<Rightarrow> ([], [], [])))"

definition persist_all :: "orch_env \<Rightarrow> scm_job list \<Rightarrow> scm_state \<Rightarrow> scm_state" where
  "persist_all env js s = fold (\<lambda>j s. persist_scm_job env j (store_live (j_id j) j s)) js s"

definition run_parent :: "orch_env \<Rightarrow> pr_request \<Rightarrow> string \<Rightarrow> prefs_acc \<Rightarrow> scm_job" where
  "run_parent env rq sha acc =
     (let rid = load_id (e_sha1hex env) ''scmjob''
                  [rq_org rq, rq_proj rq, rq_repo rq, sha, rq_event rq, ''run'', e_hex env]
      in \<lparr>j_id = rid, j_org = rq_org rq, j_proj = rq_proj rq, j_conn = rq_conn rq,
          j_repo = rq_repo rq, j_pr = rq_pr rq, j_sha = sha, j_event = rq_event rq,
          j_status = ''queued'', j_sec_run = [], j_ai_job = [], j_checks = [], j_error = [],
          j_summary = [(''prefs'', JObj (prefs_obj (fst acc))),
                       (''prefs_sources'', JObj (sources_obj (snd acc))), (''child_ids'', JStrs [])],
          j_started = e_now env, j_finished = e_now env, j_draft = rq_draft rq,
          j_title = rq_title rq, j_body = rq_body rq, j_force_ai = False, j_ai_only = False,
          j_actor = [], j_kind = kind_str KRun, j_run_id = rid, j_parent = [], j_attempt = 1\<rparr>)"

text \<open>The part after the pull request's older jobs are out of the way.\<close>

definition start_pr_run :: "orch_env \<Rightarrow> pr_request \<Rightarrow> string \<Rightarrow> prefs_acc \<Rightarrow> scm_state \<Rightarrow> string \<times> scm_state" where
  "start_pr_run env rq sha acc s =
     (let parent = run_parent env rq sha acc; p = fst acc;
          skip = (if rq_draft rq \<and> \<not> review_draft_prs p
                  then Some (''draft PR '' @ em_dash @ '' review_draft_prs=off'') else None)
      in if \<not> trigger_mode_admits (trigger_mode p) (rq_event rq) then
           (j_id parent,
            persist_all env
              [sset ''skip_reason''
                 (JStr (''trigger_mode='' @ trigger_mode p @ '' does not admit event '' @ rq_event rq))
                 (parent\<lparr>j_status := ''skipped''\<rparr>)] s)
         else
           let children = plan_run_children env parent p skip;
               s = persist_all env children s;
               s = persist_all env [sset ''child_ids'' (JStrs (map j_id children)) parent] s
           in (j_id parent, if 0 < rq_pr rq then remember_pr_run (rq_repo rq) (rq_pr rq) (j_id parent) s else s))"

text \<open>\<^verbatim>\<open>enqueuePRRun\<close> with the resolved preferences; the answer is the id of the run.\<close>

definition enqueue_pr_run :: "orch_env \<Rightarrow> pr_request \<Rightarrow> prefs_acc \<Rightarrow> scm_state \<Rightarrow> string \<times> scm_state" where
  "enqueue_pr_run env rq acc s =
     (if 0 < rq_pr rq then
        let sha = trim_space (rq_sha rq)
        in case (if sha = [] then None else find_in_flight_pr_run_for_sha (rq_repo rq) (rq_pr rq) sha s) of
             Some j \<Rightarrow> (j_id j, remember_pr_run (rq_repo rq) (rq_pr rq) (j_id j) s)
           | None \<Rightarrow>
               start_pr_run env rq sha acc (snd (supersede_in_flight_pr_jobs env (rq_repo rq) (rq_pr rq) sha s))
      else start_pr_run env rq (rq_sha rq) acc s)"

text \<open>The whole of it, the preferences resolved from their store first.\<close>

definition enqueue_with_prefs ::
  "orch_env \<Rightarrow> (string \<Rightarrow> jobj option) \<Rightarrow> prefs_store \<Rightarrow> pr_request \<Rightarrow> scm_state
     \<Rightarrow> string \<times> prefs_store \<times> scm_state" where
  "enqueue_with_prefs env dec ps rq s =
     (let (acc, ps) = resolve_agent_prefs dec ps (rq_org rq) (rq_proj rq) (rq_conn rq) (rq_repo rq);
          (rid, s) = enqueue_pr_run env rq acc s
      in (rid, ps, s))"

text \<open>\<^verbatim>\<open>ensureRunChildren\<close>: the missing kinds of a run are added, an issue run is left alone.\<close>

definition add_child ::
  "orch_env \<Rightarrow> scm_job \<Rightarrow> agent_kind list \<times> string list \<times> bool \<times> scm_state
     \<Rightarrow> agent_kind list \<times> string list \<times> bool \<times> scm_state" where
  "add_child env c acc =
     (case acc of (have, ids, added, s) \<Rightarrow>
        if job_kind c \<in> set have then acc
        else
          let (old, s) = get_scm_job (j_id c) s;
              s = (if old = None then persist_all env [c] s else s)
          in (have @ [job_kind c], ids @ [j_id c], True, s))"

definition ensure_run_children :: "orch_env \<Rightarrow> scm_job \<Rightarrow> scm_state \<Rightarrow> string list \<times> scm_state" where
  "ensure_run_children env parent s =
     (let (existing, s) = list_run_children (j_id parent) s
      in if job_kind parent = KIssueRun then (existing, s)
         else
           let planned = plan_run_children env parent (agent_prefs_from_summary parent) None;
               (have, ids, added, s) =
                 fold (add_child env) planned (map job_kind (child_jobs existing s), existing, False, s);
               s = (if existing = [] \<or> added
                    then persist_scm_job env (sset ''child_ids'' (JStrs ids) parent) s else s)
           in list_run_children (j_id parent) s)"


subsection \<open>Laws of the plan\<close>

lemma distinct_prefs_fields: "distinct prefs_fields"
  by (simp add: prefs_fields_def)

lemma prefs_of_prefs_obj: "prefs_of_obj (prefs_obj p) = p"
  by (simp add: prefs_of_obj_def prefs_obj_def prefs_fields_def prefs_values_def jget_def is_true_def Let_def)

lemma as_str_wire [simp]: "as_str (wire v) = as_str v"
  by (cases v) simp_all

lemma is_true_wire [simp]: "is_true (wire v) = is_true v"
  by (cases v) (simp_all add: is_true_def)

lemma num_of_wire [simp]: "num_of (wire v) = num_of v"
  by (cases v) simp_all

lemma strs_of_wire [simp]: "strs_of (wire v) = strs_of v"
  by (cases v) (simp_all add: o_def)

lemma prefs_of_wire [simp]: "prefs_of_obj (wire_obj m) = prefs_of_obj m"
  by (simp add: prefs_of_obj_def jget_wire_obj Let_def)

lemma wire_JObj: "wire (JObj m) = JObj (wire_obj m)"
  by (simp add: wire_obj_def)

lemma file_job_sget: "sget (file_job j) k = wire (sget j k)"
  by (simp add: file_job_def sget_def jget_wire_obj)

lemma prefs_from_file [simp]: "agent_prefs_from_summary (file_job j) = agent_prefs_from_summary j"
  by (cases "sget j ''prefs''") (simp_all add: agent_prefs_from_summary_def file_job_sget wire_JObj del: wire.simps(4))

lemma prefs_from_stamp [simp]: "agent_prefs_from_summary (stamp_summary j) = agent_prefs_from_summary j"
  by (simp add: agent_prefs_from_summary_def stamp_other mirror_keys_def)

lemma plan_child_fields [simp]:
  "j_id (plan_child env parent skip k) = child_id_for env parent k"
  "j_kind (plan_child env parent skip k) = kind_str k"
  "j_parent (plan_child env parent skip k) = j_id parent"
  "j_run_id (plan_child env parent skip k) = j_id parent"
  "j_sha (plan_child env parent skip k) = j_sha parent"
  "j_status (plan_child env parent skip k) = (if skip = None then ''queued'' else ''skipped'')"
  by (simp_all add: plan_child_def)

lemma plan_kinds_named: "k \<in> set (plan_kinds checks p) \<Longrightarrow> named_kind k"
  by (auto simp: plan_kinds_def split: if_splits)

lemma job_kind_plan_child [simp]: "named_kind k \<Longrightarrow> job_kind (plan_child env parent skip k) = k"
  by (simp add: job_kind_def kind_of_str)

lemma distinct_plan_kinds: "distinct (plan_kinds checks p)"
  by (simp add: plan_kinds_def)

lemma job_id_not_blank: "load_id h ''scmjob'' ps \<noteq> [] \<and> trim_space (load_id h ''scmjob'' ps) \<noteq> []"
proof -
  have "\<not> is_space (CHR ''s'')" by code_simp
  moreover have "CHR ''s'' \<in> set (load_id h ''scmjob'' ps)" by (simp add: load_id_def)
  ultimately show ?thesis using trim_space_eq_Nil by (metis empty_iff list.set(1))
qed

lemma child_id_not_blank: "child_id_for env parent k \<noteq> [] \<and> trim_space (child_id_for env parent k) \<noteq> []"
  unfolding child_id_for_def by (rule job_id_not_blank)

lemma run_parent_fields [simp]:
  "j_repo (run_parent env rq sha acc) = rq_repo rq" "j_pr (run_parent env rq sha acc) = rq_pr rq"
  "j_sha (run_parent env rq sha acc) = sha" "j_parent (run_parent env rq sha acc) = []"
  "j_status (run_parent env rq sha acc) = ''queued''"
  "sget (run_parent env rq sha acc) ''prefs'' = JObj (prefs_obj (fst acc))"
  by (simp_all add: run_parent_def Let_def sget_def jget_def)

lemma run_parent_id: "j_id (run_parent env rq sha acc) \<noteq> [] \<and> trim_space (j_id (run_parent env rq sha acc)) \<noteq> []"
  using job_id_not_blank [of "e_sha1hex env"] by (simp add: run_parent_def Let_def)

text \<open>
  The preferences a run was started with are the ones a later reader decodes from its
  summary, both from memory and from the job file after a restart, whatever else was written to the
  summary.
\<close>

theorem frozen_prefs_roundtrip:
  assumes "trigger_mode (fst acc) \<noteq> []" "k \<noteq> ''prefs''"
  shows "agent_prefs_from_summary (file_job (stamp_summary (sset k v (run_parent env rq sha acc)))) = fst acc"
proof -
  have "agent_prefs_from_summary (sset k v (run_parent env rq sha acc)) = fst acc"
    using assms by (simp add: agent_prefs_from_summary_def prefs_of_prefs_obj)
  then show ?thesis by (simp only: prefs_from_file prefs_from_stamp)
qed

lemma frozen_prefs_roundtrip_witness:
  "agent_prefs_from_summary (file_job (stamp_summary (sset ''child_ids'' (JStrs [''a''])
     (run_parent sample_env
        \<lparr>rq_org = ''default'', rq_proj = ''default'', rq_conn = [], rq_repo = ''o/r'', rq_pr = 7,
         rq_sha = ''new'', rq_event = ''pull_request.opened'', rq_draft = False, rq_title = [], rq_body = []\<rparr>
        ''new'' (builtin_agent_prefs, Map.empty))))) = builtin_agent_prefs"
proof -
  have t: "trigger_mode (fst (builtin_agent_prefs, Map.empty :: string \<rightharpoonup> string)) \<noteq> []"
    by (simp add: builtin_agent_prefs_def)
  show ?thesis using frozen_prefs_roundtrip [OF t] by simp
qed

text \<open>
  The plan is closed under the dependency table exactly when the watch policy asks for the
  review: otherwise the cloud child is planned although the review child it waits for is not.
\<close>

theorem plan_closed_iff_review:
  "list_all (\<lambda>k. list_all (List.member (plan_kinds checks p)) (agent_depends_on k)) (plan_kinds checks p) =
     wants_ora_review checks"
  by (cases "wants_ora_review checks") (simp_all add: plan_kinds_def)


subsection \<open>Laws of enqueueing\<close>

lemma persist_all_Cons:
  "persist_all env (j # js) s = persist_all env js (persist_scm_job env j (store_live (j_id j) j s))"
  by (simp add: persist_all_def)

lemma persist_all_Nil [simp]: "persist_all env [] s = s"
  by (simp add: persist_all_def)

lemma store_ok_store_live:
  assumes "store_ok s" "j_id j \<noteq> []"
  shows "store_ok (store_live (j_id j) j s)"
proof -
  have "distinct (map fst (AList.update (j_id j) j (sc_live s)))"
    using assms(1) AList.distinct_update by (auto simp: store_ok_def)
  then show ?thesis
    using assms by (auto simp: store_ok_def live_job_store) (simp_all add: store_live_def)
qed

lemma persist_all_ok:
  "store_ok s \<Longrightarrow> \<forall>j \<in> set js. j_id j \<noteq> [] \<Longrightarrow> store_ok (persist_all env js s)"
  by (induction js arbitrary: s) (simp_all add: persist_all_Cons store_ok_persist store_ok_store_live)

lemma persist_all_live:
  "live_job k (persist_all env js s) = Some j \<Longrightarrow> live_job k s = Some j \<or> (\<exists>i \<in> set js. j = stamp_summary i)"
proof (induction js arbitrary: s)
  case (Cons i js)
  from Cons.IH [OF Cons.prems [unfolded persist_all_Cons]] show ?case
    by (auto simp: live_job_persist live_job_store split: if_splits)
qed simp

lemma live_job_remember [simp]: "live_job k (remember_pr_run repo pr run s) = live_job k s"
  by (simp add: remember_pr_run_def live_job_def)

lemma store_ok_remember [simp]: "store_ok (remember_pr_run repo pr run s) = store_ok s"
  by (simp add: store_ok_def) (simp add: remember_pr_run_def)

lemma plan_run_children_parent:
  "j \<in> set (plan_run_children env parent p skip) \<Longrightarrow> j_parent j = j_id parent \<and> j_id j \<noteq> [] \<and> j_sha j = j_sha parent"
  using child_id_not_blank by (auto simp: plan_run_children_def Let_def)

lemma start_pr_run_spec:
  assumes "store_ok s"
  shows "store_ok (snd (start_pr_run env rq sha acc s))"
    and "live_job k (snd (start_pr_run env rq sha acc s)) = Some j \<Longrightarrow>
         live_job k s = Some j \<or> \<not> top_level j \<or> j_sha j = sha"
proof -
  let ?parent = "run_parent env rq sha acc"
  note pid = run_parent_id [of env rq sha acc]
  have kids: "store_ok t" "live_job k t = Some j \<Longrightarrow> live_job k s = Some j \<or> \<not> top_level j"
    if "t = persist_all env (plan_run_children env ?parent p skip) s" for t p skip k j
  proof -
    show "store_ok t" using assms plan_run_children_parent by (auto simp: that intro: persist_all_ok)
    show "live_job k s = Some j \<or> \<not> top_level j" if "live_job k t = Some j"
    proof -
      consider "live_job k s = Some j"
        | i where "i \<in> set (plan_run_children env ?parent p skip)" "j = stamp_summary i"
        using persist_all_live \<open>live_job k t = Some j\<close> \<open>t = _\<close> by blast
      then show ?thesis
        using plan_run_children_parent pid by cases (auto simp: top_level_def)
    qed
  qed
  have one: "store_ok (persist_all env [i] t)"
    "live_job k (persist_all env [i] t) = Some j \<Longrightarrow> live_job k t = Some j \<or> j_sha j = sha"
    if "store_ok t" "j_id i = j_id ?parent" "j_sha i = sha" for i t k j
  proof -
    show "store_ok (persist_all env [i] t)" using that pid by (intro persist_all_ok) auto
    show "live_job k (persist_all env [i] t) = Some j \<Longrightarrow> live_job k t = Some j \<or> j_sha j = sha"
      using persist_all_live [of k env "[i]" t j] that(3) by auto
  qed
  have "store_ok (snd (start_pr_run env rq sha acc s)) \<and>
    (live_job k (snd (start_pr_run env rq sha acc s)) = Some j \<longrightarrow>
       live_job k s = Some j \<or> \<not> top_level j \<or> j_sha j = sha)"
  proof (cases "trigger_mode_admits (trigger_mode (fst acc)) (rq_event rq)")
    case False
    define i where "i = sset ''skip_reason''
       (JStr (''trigger_mode='' @ trigger_mode (fst acc) @ '' does not admit event '' @ rq_event rq))
       (?parent\<lparr>j_status := ''skipped''\<rparr>)"
    have i: "j_id i = j_id ?parent" "j_sha i = sha" by (simp_all add: i_def)
    have "start_pr_run env rq sha acc s = (j_id ?parent, persist_all env [i] s)"
      using False by (simp only: start_pr_run_def Let_def i_def if_True not_False_eq_True)
    with one(1) [OF assms i] one(2) [OF assms i, of k j] show ?thesis by simp
  next
    case True
    define skip where "skip = (if rq_draft rq \<and> \<not> review_draft_prs (fst acc)
                  then Some (''draft PR '' @ em_dash @ '' review_draft_prs=off'') else None)"
    define kids' where "kids' = plan_run_children env ?parent (fst acc) skip"
    define i where "i = sset ''child_ids'' (JStrs (map j_id kids')) ?parent"
    define t where "t = persist_all env kids' s"
    have i: "j_id i = j_id ?parent" "j_sha i = sha" by (simp_all add: i_def)
    have "sc_live (snd (start_pr_run env rq sha acc s)) = sc_live (persist_all env [i] t)
        \<and> sc_files (snd (start_pr_run env rq sha acc s)) = sc_files (persist_all env [i] t)"
      using True by (simp add: start_pr_run_def Let_def i_def t_def kids'_def skip_def remember_pr_run_def)
    then have "store_ok (snd (start_pr_run env rq sha acc s)) = store_ok (persist_all env [i] t)"
      "live_job k (snd (start_pr_run env rq sha acc s)) = live_job k (persist_all env [i] t)"
      using store_ok_cong by (blast, simp add: live_job_def)
    with one(1) [OF kids(1) [OF t_def [unfolded kids'_def]] i] one(2) [OF kids(1) [OF t_def [unfolded kids'_def]] i, of k j] kids(2) [OF t_def [unfolded kids'_def], of k j]
    show ?thesis by auto
  qed
  then show "store_ok (snd (start_pr_run env rq sha acc s))"
    "live_job k (snd (start_pr_run env rq sha acc s)) = Some j \<Longrightarrow>
         live_job k s = Some j \<or> \<not> top_level j \<or> j_sha j = sha" by blast+
qed

text \<open>
  A push leaves one head.  When no run of the commit is in flight, enqueueing a run for it
  leaves every top level job of the pull request that is in flight on that commit, the new run
  included, whatever was in flight before and whether or not the trigger mode admits the event.
\<close>

theorem enqueue_one_head:
  assumes "store_ok s" "trim_space (rq_repo rq) \<noteq> []" "0 < rq_pr rq" "trim_space (rq_sha rq) \<noteq> []"
    and "find_in_flight_pr_run_for_sha (rq_repo rq) (rq_pr rq) (trim_space (rq_sha rq)) s = None"
    and "enqueue_pr_run env rq acc s = (rid, s')"
  shows "store_ok s' \<and>
    (\<forall>k j. live_job k s' = Some j \<and> of_pr (trim_space (rq_repo rq)) (rq_pr rq) j \<and>
       in_flight (j_status j) \<and> top_level j \<longrightarrow> same_sha (trim_space (rq_sha rq)) j)"
proof -
  let ?sha = "trim_space (rq_sha rq)"
  obtain ids t where t: "supersede_in_flight_pr_jobs env (rq_repo rq) (rq_pr rq) ?sha s = (ids, t)"
    by (cases "supersede_in_flight_pr_jobs env (rq_repo rq) (rq_pr rq) ?sha s")
  have sha: "trim_space ?sha \<noteq> []" using assms(4) by simp
  have s': "s' = snd (start_pr_run env rq ?sha acc t)"
    using assms(3-6) t by (auto simp: enqueue_pr_run_def Let_def)
  note e = cancel_except_sha_spec [OF assms(1-3), of t env "supersede_reason ?sha" ?sha]
  have tt: "t = snd (cancel_in_flight_for_pr_except_sha env (rq_repo rq) (rq_pr rq) (supersede_reason ?sha) ?sha s)"
    using t by (simp add: supersede_in_flight_pr_jobs_def)
  have ok: "store_ok t" using status_rel_ok [OF e(1) [OF tt]] .
  have "same_sha ?sha j"
    if h: "live_job k s' = Some j" "of_pr (trim_space (rq_repo rq)) (rq_pr rq) j"
      "in_flight (j_status j)" "top_level j" for k j
  proof -
    consider "live_job k t = Some j" | "j_sha j = ?sha"
      using start_pr_run_spec(2) [OF ok] h(1,4) unfolding s' by blast
    then show ?thesis
    proof cases
      case 1
      with e(2) [OF tt 1 h(2,3)] h(4) show ?thesis by (auto simp: kept_def)
    next
      case 2
      then show ?thesis by (simp add: same_sha_def equal_fold_def)
    qed
  qed
  with start_pr_run_spec(1) [OF ok] s' show ?thesis by blast
qed

lemma find_in_flight_Some:
  assumes "find_in_flight_pr_run_for_sha repo pr sha s = Some j"
  shows "j \<in> snd ` set (sc_live s) \<and> of_pr (trim_space repo) pr j \<and> top_level j \<and>
         status_in_flight j \<and> same_sha (trim_space sha) j"
proof -
  let ?P = "\<lambda>j. of_pr (trim_space repo) pr j \<and> top_level j \<and> status_in_flight j \<and> same_sha (trim_space sha) j"
  let ?f = "\<lambda>j found. if ?P j
             then (case found of None \<Rightarrow> Some j
                   | Some f \<Rightarrow> if j_started f \<le> j_started j then Some j else found) else found"
  have "fold ?f js a = Some j \<Longrightarrow> a = Some j \<or> (j \<in> set js \<and> ?P j)" for js a
  proof (induction js arbitrary: a)
    case (Cons i js)
    from Cons.IH [of "?f i a"] Cons.prems show ?case by (auto split: if_splits option.splits)
  qed simp
  from this [of "map snd (sc_live s)" None] assms show ?thesis
    by (auto simp: find_in_flight_pr_run_for_sha_def Let_def split: if_splits)
qed

text \<open>
  Enqueueing again for a commit that already has a run in flight starts nothing: the answer is
  a live top level job of the pull request on that commit, no job is changed or cancelled, and the
  index of active runs points at it.
\<close>

theorem enqueue_reuses_run:
  assumes "store_ok s" "0 < rq_pr rq" "trim_space (rq_sha rq) \<noteq> []" "rq_repo rq \<noteq> []"
    and "find_in_flight_pr_run_for_sha (rq_repo rq) (rq_pr rq) (trim_space (rq_sha rq)) s \<noteq> None"
    and "enqueue_pr_run env rq acc s = (rid, s')"
  shows "sc_live s' = sc_live s \<and> sc_files s' = sc_files s \<and> sc_log s' = sc_log s \<and>
    current_pr_run (rq_repo rq) (rq_pr rq) s' = rid \<and>
    (\<exists>j. live_job rid s = Some j \<and> top_level j \<and> status_in_flight j \<and>
       of_pr (trim_space (rq_repo rq)) (rq_pr rq) j \<and> same_sha (trim_space (rq_sha rq)) j)"
proof -
  obtain j where j: "find_in_flight_pr_run_for_sha (rq_repo rq) (rq_pr rq) (trim_space (rq_sha rq)) s = Some j"
    using assms(5) by blast
  note f = find_in_flight_Some [OF j]
  obtain a where "(a, j) \<in> set (sc_live s)" using f by auto
  then have live: "live_job (j_id j) s = Some j" "j_id j \<noteq> []"
    using live_iff [OF assms(1)] store_ok_id [OF assms(1)] by blast+
  have "rid = j_id j" "s' = remember_pr_run (rq_repo rq) (rq_pr rq) (j_id j) s"
    using assms(2,3,6) j by (auto simp: enqueue_pr_run_def Let_def)
  with live f assms(2,4) show ?thesis
    by (simp add: remember_pr_run_def current_pr_run_def)
qed


definition sample_request :: "string \<Rightarrow> pr_request" where
  "sample_request sha =
     \<lparr>rq_org = ''default'', rq_proj = ''default'', rq_conn = ''c'', rq_repo = ''o/r'', rq_pr = 7,
      rq_sha = sha, rq_event = ''pull_request.synchronize'', rq_draft = False, rq_title = [], rq_body = []\<rparr>"

lemma sample_request_text:
  "trim_space (rq_repo (sample_request sha)) = ''o/r''" "rq_repo (sample_request sha) \<noteq> []"
  "0 < rq_pr (sample_request sha)" "rq_pr (sample_request sha) = 7"
proof -
  show "trim_space (rq_repo (sample_request sha)) = ''o/r''" unfolding sample_request_def by code_simp
qed (simp_all add: sample_request_def)

lemma enqueue_one_head_witness:
  "\<exists>rid s'. enqueue_pr_run sample_env (sample_request ''third'') (builtin_agent_prefs, Map.empty) sample_store = (rid, s') \<and>
     (\<forall>k j. live_job k s' = Some j \<and> of_pr ''o/r'' 7 j \<and> in_flight (j_status j) \<and> top_level j \<longrightarrow>
        same_sha ''third'' j)"
proof -
  let ?rq = "sample_request ''third''" and ?acc = "(builtin_agent_prefs, Map.empty) :: prefs_acc"
  have t: "trim_space (rq_sha ?rq) = ''third''" unfolding sample_request_def by code_simp
  have f: "find_in_flight_pr_run_for_sha (rq_repo ?rq) (rq_pr ?rq) (trim_space (rq_sha ?rq)) sample_store = None"
    unfolding sample_request_def by code_simp
  have n: "trim_space (rq_repo ?rq) \<noteq> []" "0 < rq_pr ?rq" "trim_space (rq_sha ?rq) \<noteq> []"
    using t sample_request_text by simp_all
  obtain rid s' where e: "enqueue_pr_run sample_env ?rq ?acc sample_store = (rid, s')"
    by (cases "enqueue_pr_run sample_env ?rq ?acc sample_store")
  from enqueue_one_head [OF sample_store_ok n f e, unfolded t sample_request_text] e show ?thesis by blast
qed

lemma enqueue_reuses_run_witness:
  "\<exists>rid s'. enqueue_pr_run sample_env (sample_request ''new'') (builtin_agent_prefs, Map.empty) sample_store = (rid, s') \<and>
     sc_live s' = sc_live sample_store \<and> (\<exists>j. live_job rid sample_store = Some j \<and> same_sha ''new'' j)"
proof -
  let ?rq = "sample_request ''new''" and ?acc = "(builtin_agent_prefs, Map.empty) :: prefs_acc"
  have t: "trim_space (rq_sha ?rq) = ''new''" unfolding sample_request_def by code_simp
  have f: "find_in_flight_pr_run_for_sha (rq_repo ?rq) (rq_pr ?rq) (trim_space (rq_sha ?rq)) sample_store \<noteq> None"
    unfolding sample_request_def by code_simp
  have n: "0 < rq_pr ?rq" "trim_space (rq_sha ?rq) \<noteq> []" "rq_repo ?rq \<noteq> []"
    using t sample_request_text by simp_all
  obtain rid s' where e: "enqueue_pr_run sample_env ?rq ?acc sample_store = (rid, s')"
    by (cases "enqueue_pr_run sample_env ?rq ?acc sample_store")
  from enqueue_reuses_run [OF sample_store_ok n f e, unfolded t] e show ?thesis by blast
qed

end
