(* ===== verification/Ensure_Laws.thy ===== *)
theory Ensure_Laws
  imports Run_Plan
begin

text \<open>
  What \<^verbatim>\<open>ensureRunChildren\<close> does to a run that is entered again, for instance after a restart in the
  middle of it: it fills in the planned kinds that have no child and duplicates none.
\<close>

lemma persist_all_old: "x \<notin> j_id ` set js \<Longrightarrow> live_job x (persist_all env js s) = live_job x s"
  by (induction js arbitrary: s) (simp_all add: persist_all_Cons live_job_persist live_job_store)

lemma persist_all_new:
  "distinct (map j_id js) \<Longrightarrow> j \<in> set js \<Longrightarrow>
   live_job (j_id j) (persist_all env js s) = Some (stamp_summary j)"
proof (induction js arbitrary: s)
  case (Cons i js)
  then show ?case
    by (cases "j = i") (simp_all add: persist_all_Cons persist_all_old live_job_persist)
qed simp

lemma persist_all_snoc: "persist_all env (js @ [j]) s = persist_all env [j] (persist_all env js s)"
  by (simp add: persist_all_def)

lemma add_child_fold:
  assumes "\<And>k. k \<in> set ks \<Longrightarrow> job_kind (c k) = k" "\<And>k. j_id (c k) \<noteq> []"
  shows "store_ok t \<Longrightarrow> distinct ks \<Longrightarrow> m = filter (\<lambda>k. k \<notin> set have0) ks \<Longrightarrow>
     \<forall>k \<in> set m. live_job (j_id (c k)) t = None \<Longrightarrow> distinct (map (\<lambda>k. j_id (c k)) m) \<Longrightarrow>
     fold (add_child env) (map c ks) (have0, ids, added, t) =
       (have0 @ m, ids @ map (\<lambda>k. j_id (c k)) m, added \<or> m \<noteq> [], persist_all env (map c m) t)"
  using assms(1)
proof (induction ks arbitrary: have0 ids added t m)
  case (Cons k ks)
  show ?case
  proof (cases "k \<in> set have0")
    case True
    then have "add_child env (c k) (have0, ids, added, t) = (have0, ids, added, t)"
      using Cons.prems(6) by (simp add: add_child_def)
    moreover have "m = filter (\<lambda>k. k \<notin> set have0) ks" using True Cons.prems(3) by simp
    ultimately show ?thesis using Cons.IH [OF Cons.prems(1) _ _ Cons.prems(4,5)] Cons.prems by simp
  next
    case False
    let ?m = "filter (\<lambda>k. k \<notin> set have0) ks"
    have m: "m = k # ?m" using False Cons.prems(3) by simp
    have k: "job_kind (c k) = k" "live_job (j_id (c k)) t = None"
      using Cons.prems(4,6) m by simp_all
    let ?t = "persist_all env [c k] t"
    have step: "add_child env (c k) (have0, ids, added, t) = (have0 @ [k], ids @ [j_id (c k)], True, ?t)"
      using False k Cons.prems(1) by (simp add: add_child_def get_scm_job_ok)
    have m': "?m = filter (\<lambda>i. i \<notin> set (have0 @ [k])) ks"
      using Cons.prems(2) by (auto intro!: filter_cong)
    have ok: "store_ok ?t" using Cons.prems(1) assms(2) by (intro persist_all_ok) auto
    have "live_job (j_id (c i)) ?t = None" if "i \<in> set ?m" for i
    proof -
      have d: "distinct (map (\<lambda>k. j_id (c k)) (k # ?m))" using Cons.prems(5) m by simp
      have "j_id (c i) \<in> (\<lambda>k. j_id (c k)) ` set ?m" using that by (rule imageI)
      with d have "j_id (c i) \<noteq> j_id (c k)" by auto
      moreover have "i \<in> set m" using that m by (metis list.set_intros(2))
      then have "live_job (j_id (c i)) t = None" using Cons.prems(4) by blast
      ultimately show ?thesis by (simp add: persist_all_old)
    qed
    moreover have "distinct (map (\<lambda>k. j_id (c k)) ?m)" using Cons.prems(5) m by simp
    ultimately have "fold (add_child env) (map c ks) (have0 @ [k], ids @ [j_id (c k)], True, ?t) =
       ((have0 @ [k]) @ ?m, (ids @ [j_id (c k)]) @ map (\<lambda>k. j_id (c k)) ?m, True \<or> ?m \<noteq> [],
        persist_all env (map c ?m) ?t)"
      using Cons.IH [OF ok _ m'] Cons.prems(2,6) by simp
    then show ?thesis using step m by (simp add: persist_all_def)
  qed
qed simp

lemma child_jobs_kinds:
  assumes "\<And>i. i \<in> set ids \<Longrightarrow> map_option job_kind (live_job i t) = map_option job_kind (live_job i s)"
  shows "map job_kind (child_jobs ids t) = map job_kind (child_jobs ids s)"
  using assms
proof (induction ids)
  case (Cons i ids)
  have "map_option job_kind (live_job i t) = map_option job_kind (live_job i s)" using Cons.prems by simp
  moreover have "map job_kind (child_jobs ids t) = map job_kind (child_jobs ids s)" using Cons by simp
  ultimately show ?case
    by (cases "live_job i t"; cases "live_job i s") (simp_all add: child_jobs_def List.map_filter_simps)
qed (simp add: child_jobs_def)

lemma child_jobs_append: "child_jobs (a @ b) s = child_jobs a s @ child_jobs b s"
  by (simp add: child_jobs_def map_filter_def)

lemma children_of_listed:
  assumes "store_ok s" "child_ids_of (live_job r s) = ids" "\<And>i. i \<in> set ids \<Longrightarrow> live_job i s \<noteq> None"
    and "\<And>c j. live_job c s = Some j \<Longrightarrow> j_parent j = r \<Longrightarrow> c \<in> set ids"
  shows "children_of r s = ids"
proof -
  have f: "filter (\<lambda>k. live_job k s \<noteq> None) ids = ids"
    using assms(3) by (simp add: filter_id_conv)
  have "\<not> (j_parent j = r \<and> j_id j \<notin> set ids)" if "(a, j) \<in> set (sc_live s)" for a j
    using that assms(4) live_iff [OF assms(1)] store_ok_id [OF assms(1)] by metis
  then have "filter (\<lambda>j. j_parent j = r \<and> j_id j \<notin> set ids) (map snd (sc_live s)) = []"
    by (auto simp: filter_empty_conv)
  with f show ?thesis by (simp add: children_of_def Let_def assms(2))
qed


text \<open>
  The kinds a run lacks, and the condition that their ids, which are truncated digests, do not meet
  an id that is taken.
\<close>

definition kinds_of_children :: "string \<Rightarrow> scm_state \<Rightarrow> agent_kind list" where
  "kinds_of_children r s = map job_kind (child_jobs (children_of r s) s)"

definition missing_kinds :: "orch_env \<Rightarrow> scm_job \<Rightarrow> scm_state \<Rightarrow> agent_kind list" where
  "missing_kinds env parent s =
     filter (\<lambda>k. k \<notin> set (kinds_of_children (j_id parent) s))
       (plan_kinds (run_checks env (j_repo parent)) (agent_prefs_from_summary parent))"

definition ids_free :: "orch_env \<Rightarrow> scm_job \<Rightarrow> agent_kind list \<Rightarrow> scm_state \<Rightarrow> bool" where
  "ids_free env parent ks s \<longleftrightarrow>
     distinct (map (child_id_for env parent) ks) \<and>
     (\<forall>k \<in> set ks. live_job (child_id_for env parent k) s = None)"

definition planned_job :: "orch_env \<Rightarrow> scm_job \<Rightarrow> agent_kind \<Rightarrow> scm_job" where
  "planned_job env parent k =
     plan_child env parent
       (plan_skip env (run_checks env (j_repo parent)) (agent_prefs_from_summary parent) None k) k"

lemma plan_run_children_map:
  "plan_run_children env parent (agent_prefs_from_summary parent) None =
     map (planned_job env parent) (plan_kinds (run_checks env (j_repo parent)) (agent_prefs_from_summary parent))"
  by (simp add: plan_run_children_def planned_job_def Let_def)

lemma planned_job_simps [simp]:
  "j_id (planned_job env parent k) = child_id_for env parent k"
  "j_parent (planned_job env parent k) = j_id parent"
  "named_kind k \<Longrightarrow> job_kind (planned_job env parent k) = k"
  by (simp_all add: planned_job_def)

lemma ensure_unfold:
  assumes "store_ok s" "job_kind parent \<noteq> KIssueRun" "ids_free env parent (missing_kinds env parent s) s"
  shows "ensure_run_children env parent s =
    (let E = children_of (j_id parent) s; m = missing_kinds env parent s;
         t = persist_all env (map (planned_job env parent) m) s;
         u = (if E = [] \<or> m \<noteq> []
              then persist_scm_job env (sset ''child_ids'' (JStrs (E @ map (child_id_for env parent) m)) parent) t
              else t)
     in list_run_children (j_id parent) u)"
proof -
  let ?ks = "plan_kinds (run_checks env (j_repo parent)) (agent_prefs_from_summary parent)"
  let ?E = "children_of (j_id parent) s" and ?m = "missing_kinds env parent s"
  have "fold (add_child env) (map (planned_job env parent) ?ks) (kinds_of_children (j_id parent) s, ?E, False, s) =
     (kinds_of_children (j_id parent) s @ ?m, ?E @ map (\<lambda>k. j_id (planned_job env parent k)) ?m,
      False \<or> ?m \<noteq> [], persist_all env (map (planned_job env parent) ?m) s)"
  proof (rule add_child_fold)
    show "?m = filter (\<lambda>k. k \<notin> set (kinds_of_children (j_id parent) s)) ?ks"
      by (simp add: missing_kinds_def)
  qed (use assms plan_kinds_named distinct_plan_kinds child_id_not_blank in \<open>auto simp: ids_free_def\<close>)
  then show ?thesis
    using assms(2)
    by (simp add: ensure_run_children_def list_run_children_ok [OF assms(1)] plan_run_children_map
        kinds_of_children_def Let_def)
qed

text \<open>A run that can be entered again, and the store after its missing children were added.\<close>

definition enterable :: "orch_env \<Rightarrow> string \<Rightarrow> scm_job \<Rightarrow> scm_state \<Rightarrow> bool" where
  "enterable env r parent s \<longleftrightarrow>
     store_ok s \<and> live_job r s = Some parent \<and> job_kind parent \<noteq> KIssueRun \<and>
     ids_free env parent (missing_kinds env parent s) s"

definition ensured :: "orch_env \<Rightarrow> scm_job \<Rightarrow> scm_state \<Rightarrow> scm_state" where
  "ensured env parent s =
     (let E = children_of (j_id parent) s; m = missing_kinds env parent s;
          t = persist_all env (map (planned_job env parent) m) s
      in if E = [] \<or> m \<noteq> []
         then persist_scm_job env (sset ''child_ids'' (JStrs (E @ map (child_id_for env parent) m)) parent) t
         else t)"

lemma enterableD:
  assumes "enterable env r parent s"
  shows "store_ok s" "live_job r s = Some parent" "job_kind parent \<noteq> KIssueRun" "j_id parent = r" "r \<noteq> []"
    "ids_free env parent (missing_kinds env parent s) s"
    "live_job c s \<noteq> None \<Longrightarrow> c \<notin> child_id_for env parent ` set (missing_kinds env parent s)"
  using assms store_ok_id by (auto simp: enterable_def ids_free_def)

lemma ensured_result:
  assumes "enterable env r parent s"
  shows "ensure_run_children env parent s = list_run_children r (ensured env parent s)"
  using ensure_unfold [OF enterableD(1,3,6) [OF assms]] enterableD(4) [OF assms]
  by (simp add: ensured_def Let_def)

lemma ensured_ok:
  assumes "enterable env r parent s"
  shows "store_ok (ensured env parent s)"
proof -
  have "store_ok (persist_all env (map (planned_job env parent) (missing_kinds env parent s)) s)"
    using enterableD(1) [OF assms] child_id_not_blank by (intro persist_all_ok) auto
  then show ?thesis
    using enterableD(1,4,5) [OF assms] by (simp add: ensured_def Let_def store_ok_persist)
qed

lemma ensured_old:
  assumes "enterable env r parent s" "c \<noteq> r"
    "c \<notin> child_id_for env parent ` set (missing_kinds env parent s)"
  shows "live_job c (ensured env parent s) = live_job c s"
  using assms(2,3) enterableD(4) [OF assms(1)]
  by (simp add: ensured_def Let_def live_job_persist persist_all_old image_image)

lemma ensured_new:
  assumes "enterable env r parent s" "k \<in> set (missing_kinds env parent s)"
  shows "live_job (child_id_for env parent k) (ensured env parent s) = Some (stamp_summary (planned_job env parent k))"
proof -
  let ?t = "persist_all env (map (planned_job env parent) (missing_kinds env parent s)) s"
  have "live_job (j_id (planned_job env parent k)) ?t = Some (stamp_summary (planned_job env parent k))"
    using enterableD(6) [OF assms(1)] assms(2) by (intro persist_all_new) (auto simp: ids_free_def o_def)
  moreover have "child_id_for env parent k \<noteq> r"
    using enterableD(7) [OF assms(1), of r] enterableD(2) [OF assms(1)] assms(2) by auto
  ultimately show ?thesis using enterableD(4) [OF assms(1)] assms(2)
    by (auto simp: ensured_def Let_def live_job_persist)
qed

lemma ensured_root:
  assumes "enterable env r parent s"
  shows "\<exists>j. live_job r (ensured env parent s) = Some j \<and> job_kind j = job_kind parent \<and> j_parent j = j_parent parent"
proof -
  have "r \<notin> child_id_for env parent ` set (missing_kinds env parent s)"
    using enterableD(7) [OF assms, of r] enterableD(2) [OF assms] by simp
  then show ?thesis
    using enterableD(2,4) [OF assms]
    by (simp add: ensured_def Let_def live_job_persist persist_all_old image_image job_kind_def)
qed

lemma ensured_kept:
  assumes "enterable env r parent s" "live_job c s \<noteq> None"
  shows "live_job c (ensured env parent s) \<noteq> None \<and>
         map_option job_kind (live_job c (ensured env parent s)) = map_option job_kind (live_job c s)"
proof (cases "c = r")
  case True
  then show ?thesis using ensured_root [OF assms(1)] enterableD(2) [OF assms(1)] by auto
next
  case False
  then show ?thesis using ensured_old [OF assms(1) False enterableD(7) [OF assms]] assms(2) by simp
qed

lemma ensured_children:
  assumes en: "enterable env r parent s"
  shows "children_of r (ensured env parent s) =
     children_of r s @ map (child_id_for env parent) (missing_kinds env parent s)"
proof (cases "children_of r s = [] \<or> missing_kinds env parent s \<noteq> []")
  case True
  let ?m = "missing_kinds env parent s" and ?u = "ensured env parent s"
  note d = enterableD [OF en]
  show ?thesis
  proof (rule children_of_listed [OF ensured_ok [OF en]])
    show "child_ids_of (live_job r ?u) = children_of r s @ map (child_id_for env parent) ?m"
      using True d(4) by (simp add: ensured_def Let_def live_job_persist child_ids_of_def)
    show "live_job i ?u \<noteq> None" if i: "i \<in> set (children_of r s @ map (child_id_for env parent) ?m)" for i
      using i ensured_new [OF en] ensured_kept [OF en] child_live [OF d(1)] by fastforce
    show "c \<in> set (children_of r s @ map (child_id_for env parent) ?m)"
      if h: "live_job c ?u = Some j" "j_parent j = r" for c j
    proof (cases "c = r \<or> c \<notin> child_id_for env parent ` set ?m")
      case True
      then have "\<exists>i. live_job c s = Some i \<and> j_parent i = r"
        using h ensured_old [OF en] d(2) ensured_root [OF en] by (cases "c = r") auto
      then show ?thesis using child_of_parent [OF d(1)] by auto
    qed auto
  qed
next
  case False
  then show ?thesis using enterableD(4) [OF en] by (simp add: ensured_def)
qed

lemma ensured_new_kinds:
  assumes "enterable env r parent s" "set ks \<subseteq> set (missing_kinds env parent s)"
  shows "map job_kind (child_jobs (map (child_id_for env parent) ks) (ensured env parent s)) = ks"
  using assms(2)
proof (induction ks)
  case (Cons k ks)
  have "named_kind k" using Cons.prems plan_kinds_named by (auto simp: missing_kinds_def)
  then have "job_kind (stamp_summary (planned_job env parent k)) = k"
    by (simp add: job_kind_def planned_job_def kind_of_str)
  moreover have "live_job (child_id_for env parent k) (ensured env parent s) =
      Some (stamp_summary (planned_job env parent k))"
    using ensured_new [OF assms(1)] Cons.prems by simp
  ultimately show ?case using Cons by (simp add: child_jobs_def List.map_filter_simps)
qed (simp add: child_jobs_def)

lemma ensured_kinds:
  assumes "enterable env r parent s"
  shows "kinds_of_children r (ensured env parent s) = kinds_of_children r s @ missing_kinds env parent s"
proof -
  have "map job_kind (child_jobs (children_of r s) (ensured env parent s)) =
        map job_kind (child_jobs (children_of r s) s)"
    by (rule child_jobs_kinds)
      (use ensured_kept [OF assms] child_live [OF enterableD(1) [OF assms]] in fastforce)
  then show ?thesis
    using ensured_new_kinds [OF assms subset_refl]
    by (simp add: kinds_of_children_def ensured_children [OF assms] child_jobs_append)
qed

text \<open>
  C27: re-entering a run does not duplicate its children.  The run afterwards has the children it
  had, in their order and unchanged, followed by one child for each planned kind that none of them
  has; when no planned kind is missing the store is left exactly as it was.
\<close>

theorem ensure_children_no_duplicates:
  assumes "enterable env r parent s" and "ensure_run_children env parent s = (ids, s')"
  shows "store_ok s' \<and>
    ids = children_of r s @ map (child_id_for env parent) (missing_kinds env parent s) \<and>
    children_of r s' = ids \<and>
    kinds_of_children r s' = kinds_of_children r s @ missing_kinds env parent s \<and>
    (\<forall>c. c \<noteq> r \<and> live_job c s \<noteq> None \<longrightarrow> live_job c s' = live_job c s) \<and>
    (children_of r s \<noteq> [] \<and> missing_kinds env parent s = [] \<longrightarrow> s' = s)"
proof -
  note en = assms(1)
  have s': "s' = ensured env parent s" "ids = children_of r (ensured env parent s)"
    using assms(2) by (auto simp: ensured_result [OF en] list_run_children_ok [OF ensured_ok [OF en]])
  have "live_job c s' = live_job c s" if "c \<noteq> r" "live_job c s \<noteq> None" for c
    unfolding s' using ensured_old [OF en that(1) enterableD(7) [OF en that(2)]] .
  moreover have "children_of r s \<noteq> [] \<and> missing_kinds env parent s = [] \<longrightarrow> s' = s"
    using enterableD(4) [OF en] by (simp add: s' ensured_def)
  ultimately show ?thesis
    using ensured_ok [OF en] ensured_children [OF en] ensured_kinds [OF en] s' by simp
qed

text \<open>The sample run has a security and a cloud child; the three missing kinds are added.\<close>

definition sample_digest_env :: orch_env where
  "sample_digest_env = sample_env\<lparr>e_sha1hex := (\<lambda>s. drop 30 s)\<rparr>"

lemma ensure_children_no_duplicates_witness:
  "\<exists>ids s'. ensure_run_children sample_digest_env (sample_job ''r1'' ''run'' [] ''old'' ''running'') sample_store = (ids, s') \<and>
     kinds_of_children ''r1'' s' = [KSecurity, KCloud, KPrepare, KBugbot, KApproval]"
proof -
  let ?p = "sample_job ''r1'' ''run'' [] ''old'' ''running''"
  have l: "live_job ''r1'' sample_store = Some ?p"
    by (simp add: live_job_def sample_store_def store_of_def sample_live_def)
  have k: "job_kind ?p \<noteq> KIssueRun" by code_simp
  have m: "missing_kinds sample_digest_env ?p sample_store = [KPrepare, KBugbot, KApproval]" by code_simp
  have f: "ids_free sample_digest_env ?p (missing_kinds sample_digest_env ?p sample_store) sample_store"
    unfolding m by code_simp
  have c: "kinds_of_children ''r1'' sample_store = [KSecurity, KCloud]" by code_simp
  obtain ids s' where e: "ensure_run_children sample_digest_env ?p sample_store = (ids, s')"
    by (cases "ensure_run_children sample_digest_env ?p sample_store")
  have en: "enterable sample_digest_env ''r1'' ?p sample_store"
    using sample_store_ok l k f by (simp add: enterable_def)
  from ensure_children_no_duplicates [OF en e] e m c show ?thesis by auto
qed

end
