(* ===== verification/PR_State.thy ===== *)
theory PR_State
  imports Ensure_Laws
begin

text \<open>
  What is remembered about reviewed commits (\<^verbatim>\<open>src/scm_pr_state.go\<close>), the gate that skips a run
  whose commit was reviewed before or whose pull request is merged (\<^verbatim>\<open>src/run_skip.go\<close>), and the
  recovery of jobs after a restart (\<^verbatim>\<open>src/scm_persist.go\<close>).
\<close>

subsection \<open>Commits\<close>

definition scm_pr_is_merged :: "bool \<Rightarrow> string \<Rightarrow> bool" where
  "scm_pr_is_merged merged merged_at \<longleftrightarrow> merged \<or> trim_space merged_at \<noteq> []"

definition scm_reviewed_sha_key :: "string \<Rightarrow> string \<Rightarrow> string" where
  "scm_reviewed_sha_key repo sha = to_lower (trim_space repo) @ ''@'' @ to_lower (trim_space sha)"

definition scm_sha_equal :: "string \<Rightarrow> string \<Rightarrow> bool" where
  "scm_sha_equal a b =
     (let a = to_lower (trim_space a); b = to_lower (trim_space b)
      in if a = [] \<or> b = [] then False
         else if a = b then True
         else has_prefix a b \<or> has_prefix b a)"

definition scm_placeholder_commit_sha :: "string \<Rightarrow> bool" where
  "scm_placeholder_commit_sha sha =
     (let sha = trim_space sha
      in sha = [] \<or> has_prefix sha ''manual-'' \<or> has_prefix sha ''cron-'')"

definition scm_ai_review_succeeded :: "string \<Rightarrow> bool" where
  "scm_ai_review_succeeded st \<longleftrightarrow> to_lower (trim_space st) \<in> {''clean'', ''findings'', ''ok''}"

definition scm_job_ai_status :: "scm_job \<Rightarrow> string" where
  "scm_job_ai_status j = (case sget j ''ai'' of JObj m \<Rightarrow> str_from_any (jget m ''status'') | _ \<Rightarrow> [])"

definition scm_job_reviewed_sha :: "scm_job \<Rightarrow> string" where
  "scm_job_reviewed_sha j =
     (let sha = str_from_any (sget j ''analyzed_sha'')
      in if \<not> scm_placeholder_commit_sha sha then trim_space sha else trim_space (j_sha j))"

subsection \<open>The index of reviewed commits\<close>

definition record_successful_ai_review ::
  "orch_env \<Rightarrow> scm_job \<Rightarrow> string \<Rightarrow> string \<Rightarrow> scm_state \<Rightarrow> scm_state" where
  "record_successful_ai_review env j sha ai_status s =
     (let sha = trim_space sha
      in if \<not> scm_ai_review_succeeded ai_status \<or> scm_placeholder_commit_sha sha \<or> trim_space (j_repo j) = []
         then s
         else s\<lparr>sc_reviewed := (sc_reviewed s)(scm_reviewed_sha_key (j_repo j) sha \<mapsto>
                 \<lparr>ri_repo = j_repo j, ri_sha = sha, ri_job = j_id j,
                  ri_at = (if j_finished j \<noteq> [] then j_finished j else e_now env),
                  ri_status = to_lower (trim_space ai_status)\<rparr>)\<rparr>)"

definition done_or_failed :: "scm_job \<Rightarrow> bool" where
  "done_or_failed j \<longleftrightarrow> to_lower (j_status j) = ''completed'' \<or> to_lower (j_status j) = ''failed''"

definition later_job :: "scm_job option \<Rightarrow> scm_job \<Rightarrow> bool" where
  "later_job best j =
     (case best of
        None \<Rightarrow> True
      | Some b \<Rightarrow> j_finished b < j_finished j \<or> (j_finished j = [] \<and> j_started b < j_started j))"

definition best_job :: "(scm_job \<Rightarrow> bool) \<Rightarrow> scm_state \<Rightarrow> scm_job option" where
  "best_job P s =
     fold (\<lambda>j best. if P j \<and> later_job best j then Some j else best) (map snd (sc_live s)) None"

definition reviewed_candidate :: "string \<Rightarrow> string \<Rightarrow> string \<Rightarrow> scm_job \<Rightarrow> bool" where
  "reviewed_candidate repo sha exclude j \<longleftrightarrow>
     j_id j \<noteq> exclude \<and> equal_fold (j_repo j) repo \<and>
     \<not> scm_placeholder_commit_sha (scm_job_reviewed_sha j) \<and> scm_sha_equal (scm_job_reviewed_sha j) sha \<and>
     scm_ai_review_succeeded (scm_job_ai_status j) \<and> done_or_failed j"

definition lookup_successful_ai_review ::
  "orch_env \<Rightarrow> string \<Rightarrow> string \<Rightarrow> string \<Rightarrow> scm_state \<Rightarrow> string option \<times> scm_state" where
  "lookup_successful_ai_review env repo sha exclude s =
     (let repo = trim_space repo; sha = trim_space sha
      in if repo = [] \<or> scm_placeholder_commit_sha sha then (None, s)
         else
           let scan =
             (case best_job (reviewed_candidate repo sha exclude) s of
                None \<Rightarrow> (None, s)
              | Some b \<Rightarrow>
                  (Some (j_id b),
                   record_successful_ai_review env b (scm_job_reviewed_sha b) (scm_job_ai_status b) s))
           in case sc_reviewed s (scm_reviewed_sha_key repo sha) of
                Some st \<Rightarrow> (if ri_job st \<noteq> [] \<and> ri_job st \<noteq> exclude then (Some (ri_job st), s) else scan)
              | None \<Rightarrow> scan)"

definition rebuild_reviewed_index :: "orch_env \<Rightarrow> scm_state \<Rightarrow> scm_state" where
  "rebuild_reviewed_index env s =
     fold (\<lambda>j s. if done_or_failed j \<and> scm_ai_review_succeeded (scm_job_ai_status j) \<and>
                    \<not> scm_placeholder_commit_sha (scm_job_reviewed_sha j)
                 then record_successful_ai_review env j (scm_job_reviewed_sha j) (scm_job_ai_status j) s
                 else s)
       (map snd (sc_live s)) s"

subsection \<open>The last analysed commit of a pull request\<close>

definition scm_pr_state_key :: "string \<Rightarrow> int \<Rightarrow> string" where
  "scm_pr_state_key repo pr = to_lower (trim_space repo) @ ''#'' @ show_int pr"

definition lookup_previous_analyzed_sha ::
  "string \<Rightarrow> int \<Rightarrow> string \<Rightarrow> scm_state \<Rightarrow> string \<times> string \<times> string" where
  "lookup_previous_analyzed_sha repo pr exclude s =
     (if pr \<le> 0 \<or> repo = [] then ([], [], [])
      else
        let scan =
          (case best_job (\<lambda>j. j_id j \<noteq> exclude \<and> equal_fold (j_repo j) repo \<and> j_pr j = pr \<and> done_or_failed j) s of
             None \<Rightarrow> ([], [], [])
           | Some b \<Rightarrow>
               (let sha = str_from_any (sget b ''analyzed_sha'')
                in (if sha = [] then j_sha b else sha, str_from_any (sget b ''analyzed_at''), j_id b)))
        in case sc_analyzed s (scm_pr_state_key repo pr) of
             Some st \<Rightarrow> (if az_sha st \<noteq> [] \<and> az_job st \<noteq> exclude then (az_sha st, az_at st, az_job st) else scan)
           | None \<Rightarrow> scan)"

definition sset_commits :: "bool \<Rightarrow> scm_job \<Rightarrow> scm_job" where
  "sset_commits b j =
     sset ''new_commits_since_review'' (JBool b) (sset ''commits_since_previous'' (JBool b) j)"

text \<open>\<^verbatim>\<open>recordAnalyzedSHA\<close>; the changed job is written back to the live map.\<close>

definition record_analyzed_sha :: "orch_env \<Rightarrow> scm_job \<Rightarrow> string \<Rightarrow> scm_state \<Rightarrow> scm_job \<times> scm_state" where
  "record_analyzed_sha env j sha s =
     (let sha = trim_space sha
      in if sha = [] then (j, s)
         else
           let prev = str_from_any (sget j ''analyzed_sha'');
               (psha, pat, pjob) = lookup_previous_analyzed_sha (j_repo j) (j_pr j) (j_id j) s;
               j1 = (if prev = [] then
                       (if psha = [] then j
                        else sset_commits (\<not> equal_fold psha sha)
                               (stamp_if (pjob \<noteq> []) ''previous_analyzed_job_id'' (JStr pjob)
                               (stamp_if (pat \<noteq> []) ''previous_analyzed_at'' (JStr pat)
                               (sset ''previous_analyzed_sha'' (JStr psha) j))))
                     else if \<not> equal_fold prev sha then
                       sset_commits True (sset ''previous_analyzed_sha'' (JStr prev) j)
                     else j);
               j2 = (sset ''analyzed_at'' (JStr (e_now env)) (sset ''analyzed_sha'' (JStr sha) j1))\<lparr>j_sha := sha\<rparr>;
               s = (if 0 < j_pr j \<and> j_repo j \<noteq> []
                    then s\<lparr>sc_analyzed := (sc_analyzed s)(scm_pr_state_key (j_repo j) (j_pr j) \<mapsto>
                           \<lparr>az_repo = j_repo j, az_pr = j_pr j, az_sha = sha, az_at = e_now env, az_job = j_id j\<rparr>)\<rparr>
                    else s)
           in (j2, store_live (j_id j2) j2 s))"

subsection \<open>The skip gate\<close>

text \<open>
  \<open>pull\<close> is what GitHub answers for the pull request of a job: \<^const>\<open>None\<close> without a live connector,
  with the mock API or when the request fails, else its merged flag and merge time.
\<close>

definition unreviewed_event :: "string \<Rightarrow> bool" where
  "unreviewed_event ev =
     (let ev = to_lower ev in has_prefix ev ''push.'' \<or> has_prefix ev ''cron.'' \<or> has_prefix ev ''simulate'')"

definition should_skip_for_merged_pr ::
  "(scm_job \<Rightarrow> (bool \<times> string) option) \<Rightarrow> scm_job \<Rightarrow> bool" where
  "should_skip_for_merged_pr pull j =
     (if j_pr j \<le> 0 \<or> unreviewed_event (j_event j) then False
      else if fst (split_owner_repo (j_repo j)) = [] \<or> snd (split_owner_repo (j_repo j)) = [] then False
      else case pull j of None \<Rightarrow> False | Some (merged, at) \<Rightarrow> scm_pr_is_merged merged at)"

definition should_skip_for_already_reviewed ::
  "orch_env \<Rightarrow> scm_job \<Rightarrow> scm_state \<Rightarrow> string option \<times> scm_state" where
  "should_skip_for_already_reviewed env j s =
     (if j_force_ai j \<or> unreviewed_event (j_event j) \<or> scm_placeholder_commit_sha (trim_space (j_sha j))
      then (None, s)
      else lookup_successful_ai_review env (j_repo j) (trim_space (j_sha j)) (j_id j) s)"

text \<open>The reason to skip with the prior job's id, or \<^const>\<open>None\<close> to go on.\<close>

definition scm_run_skip_gate ::
  "orch_env \<Rightarrow> (scm_job \<Rightarrow> (bool \<times> string) option) \<Rightarrow> scm_job \<Rightarrow> scm_state
     \<Rightarrow> (string \<times> string) option \<times> scm_state" where
  "scm_run_skip_gate env pull j s =
     (if job_kind j = KIssueRun then (None, s)
      else if \<not> j_force_ai j \<and> should_skip_for_merged_pr pull j
      then (Some (''pull request is already merged'', []), s)
      else case should_skip_for_already_reviewed env j s of
             (Some prior, s) \<Rightarrow> (Some (''commit already reviewed successfully'', prior), s)
           | (None, s) \<Rightarrow> (None, s))"

subsection \<open>Recovery after a restart\<close>

definition in_some_stack :: "string \<Rightarrow> scm_state \<Rightarrow> bool" where
  "in_some_stack k s \<longleftrightarrow>
     list_ex (\<lambda>st. list_ex (\<lambda>it. it_job it = k) (sk_items st) \<or> k \<in> set (sk_jobs st)) (map snd (sc_stacks s))"

definition job_belongs_to_stack :: "string \<Rightarrow> scm_state \<Rightarrow> bool \<times> scm_state" where
  "job_belongs_to_stack k s =
     (if k = [] then (False, s)
      else if in_some_stack k s then (True, s)
      else let (jo, s) = get_scm_job k s
           in (case jo of None \<Rightarrow> False | Some j \<Rightarrow> trim_space (as_str (sget j ''stack_id'')) \<noteq> [], s))"

definition recover_job :: "orch_env \<Rightarrow> scm_job \<Rightarrow> scm_state \<Rightarrow> scm_state" where
  "recover_job env j s =
     (if j_status j \<noteq> ''running'' then s
      else let (member, s) = job_belongs_to_stack (j_id j) s
           in persist_scm_job env
                ((sset ''recovered_from_restart'' (JBool True) j)
                   \<lparr>j_error := [], j_started := e_now env,
                    j_status := (if member then ''waiting'' else ''queued'')\<rparr>) s)"

definition recover_stuck_running :: "orch_env \<Rightarrow> scm_state \<Rightarrow> scm_state" where
  "recover_stuck_running env s = fold (recover_job env) (map snd (sc_live s)) s"

text \<open>\<^verbatim>\<open>dispatchQueuedNonStackSCMJobs\<close>: the ids started, oldest first.\<close>

fun queued_non_stack :: "scm_job list \<Rightarrow> scm_state \<Rightarrow> scm_job list \<times> scm_state" where
  "queued_non_stack [] s = ([], s)"
| "queued_non_stack (j # js) s =
     (if j_status j \<noteq> ''queued'' \<and> j_status j \<noteq> [] then queued_non_stack js s
      else let (member, s) = job_belongs_to_stack (j_id j) s; (rest, s) = queued_non_stack js s
           in (if member then rest else j # rest, s))"

definition dispatch_queued_non_stack :: "scm_state \<Rightarrow> string list \<times> scm_state" where
  "dispatch_queued_non_stack s =
     (let (js, s) = queued_non_stack (map snd (sc_live s)) s;
          ids = map j_id (sort_stable (\<lambda>a b. j_started a < j_started b) js)
      in (ids, fold (\<lambda>k s. log_effect (EProcess k) s) ids s))"


subsection \<open>Laws\<close>

lemma best_job_fold:
  "fold (\<lambda>j best. if P j \<and> later_job best j then Some j else best) js a = Some b \<Longrightarrow>
     a = Some b \<or> (b \<in> set js \<and> P b)"
  "a \<noteq> None \<or> (\<exists>j \<in> set js. P j) \<Longrightarrow>
     fold (\<lambda>j best. if P j \<and> later_job best j then Some j else best) js a \<noteq> None"
proof (induction js arbitrary: a)
  case (Cons j js)
  {
    case 1
    then show ?case using Cons.IH(1) [of "if P j \<and> later_job a j then Some j else a"]
      by (auto split: if_splits)
  next
    case 2
    then have "(if P j \<and> later_job a j then Some j else a) \<noteq> None \<or> (\<exists>j \<in> set js. P j)"
      by (cases a) (auto simp: later_job_def)
    then show ?case using Cons.IH(2) by simp
  }
qed auto

lemma best_job_Some:
  assumes "store_ok s" "best_job P s = Some b"
  shows "P b \<and> live_job (j_id b) s = Some b"
proof -
  have "b \<in> snd ` set (sc_live s)" "P b"
    using best_job_fold(1) [of P "map snd (sc_live s)" None b] assms(2) by (auto simp: best_job_def)
  then obtain a where "(a, b) \<in> set (sc_live s)" by auto
  then have "live_job a s = Some b" using live_iff [OF assms(1)] by blast
  with store_ok_id [OF assms(1) this] \<open>P b\<close> show ?thesis by simp
qed

lemma best_job_exists:
  assumes "store_ok s" "live_job k s = Some j" "P j"
  shows "best_job P s \<noteq> None"
proof -
  have "(k, j) \<in> set (sc_live s)" using live_iff [OF assms(1)] assms(2) by blast
  then have "j \<in> set (map snd (sc_live s))" by force
  with assms(3) show ?thesis unfolding best_job_def by (intro best_job_fold(2)) blast
qed

text \<open>An entry of the index stands under its own key and for a review that succeeded.\<close>

definition reviewed_ok :: "scm_state \<Rightarrow> bool" where
  "reviewed_ok s \<longleftrightarrow>
     (\<forall>key st. sc_reviewed s key = Some st \<longrightarrow>
        key = scm_reviewed_sha_key (ri_repo st) (ri_sha st) \<and>
        \<not> scm_placeholder_commit_sha (ri_sha st) \<and> scm_ai_review_succeeded (ri_status st))"

lemma ai_succeeded_lower: "scm_ai_review_succeeded (to_lower (trim_space st)) = scm_ai_review_succeeded st"
  by (simp add: scm_ai_review_succeeded_def trim_space_to_lower)

lemma reviewed_ok_record:
  "reviewed_ok s \<Longrightarrow> reviewed_ok (record_successful_ai_review env j sha ai s)"
  by (auto simp: record_successful_ai_review_def reviewed_ok_def ai_succeeded_lower Let_def)

lemma reviewed_ok_rebuild: "reviewed_ok s \<Longrightarrow> reviewed_ok (rebuild_reviewed_index env s)"
proof -
  have "reviewed_ok s \<Longrightarrow> reviewed_ok (fold (\<lambda>j s. if Q j
       then record_successful_ai_review env j (scm_job_reviewed_sha j) (scm_job_ai_status j) s else s) js s)"
    for js Q s
    by (induction js arbitrary: s) (simp_all add: reviewed_ok_record)
  then show "reviewed_ok s \<Longrightarrow> ?thesis" by (simp add: rebuild_reviewed_index_def)
qed

lemma lookup_Some:
  assumes "store_ok s" "lookup_successful_ai_review env repo sha exclude s = (Some prior, s')"
  shows "prior \<noteq> exclude \<and>
    ((\<exists>st. sc_reviewed s (scm_reviewed_sha_key (trim_space repo) (trim_space sha)) = Some st \<and> ri_job st = prior) \<or>
     (\<exists>j. live_job prior s = Some j \<and> reviewed_candidate (trim_space repo) (trim_space sha) exclude j))"
proof -
  let ?P = "reviewed_candidate (trim_space repo) (trim_space sha) exclude"
  have best: "j_id b \<noteq> exclude \<and> live_job (j_id b) s = Some b \<and> ?P b" if "best_job ?P s = Some b" for b
    using best_job_Some [OF assms(1) that] by (simp add: reviewed_candidate_def)
  show ?thesis
  proof (cases "best_job ?P s")
    case None
    then show ?thesis using assms(2)
      by (auto simp: lookup_successful_ai_review_def Let_def split: if_splits option.splits)
  next
    case (Some b)
    show ?thesis using best [OF Some] assms(2)
      by (auto simp: lookup_successful_ai_review_def Let_def Some split: if_splits option.splits)
  qed
qed

lemma lookup_finds:
  assumes "store_ok s" "live_job k s = Some j" "reviewed_candidate (trim_space repo) (trim_space sha) exclude j"
    "trim_space repo \<noteq> []" "\<not> scm_placeholder_commit_sha (trim_space sha)"
  shows "\<exists>prior s'. lookup_successful_ai_review env repo sha exclude s = (Some prior, s')"
  using best_job_exists [where P = "reviewed_candidate (trim_space repo) (trim_space sha) exclude", OF assms(1-3)]
    assms(4,5)
  by (auto simp: lookup_successful_ai_review_def Let_def split: option.split)

text \<open>
  The life of the index, which a process starts with an empty map: a review stage or the lookup
  records the review of a job, the boot rebuilds the index from the hydrated jobs, the lookup itself
  writes a review found by its scan, and everything else leaves the index alone, whatever it does to
  the rest of the store.
\<close>

inductive review_step :: "scm_state \<Rightarrow> scm_state \<Rightarrow> bool" where
  recorded: "review_step s (record_successful_ai_review env j sha ai s)"
| rebuilt: "review_step s (rebuild_reviewed_index env s)"
| looked: "review_step s (snd (lookup_successful_ai_review env repo sha exclude s))"
| elsewhere: "sc_reviewed t = sc_reviewed s \<Longrightarrow> review_step s t"

lemma reviewed_ok_lookup:
  "reviewed_ok s \<Longrightarrow> reviewed_ok (snd (lookup_successful_ai_review env repo sha exclude s))"
  by (auto simp: lookup_successful_ai_review_def Let_def reviewed_ok_record split: option.splits)

lemma reviewed_ok_steps:
  assumes "review_step\<^sup>*\<^sup>* s0 s" "sc_reviewed s0 = Map.empty"
  shows "reviewed_ok s"
  using assms
proof (induction rule: rtranclp_induct)
  case base
  then show ?case by (simp add: reviewed_ok_def)
next
  case (step y z)
  then have "reviewed_ok y" by blast
  with step.hyps(2) show ?case
    by (cases rule: review_step.cases)
      (auto simp: reviewed_ok_record reviewed_ok_rebuild reviewed_ok_lookup, simp add: reviewed_ok_def)
qed

text \<open>
  C36: the gate skips a run as already reviewed only on evidence.  The index starts empty and grows by
  whatever records and rebuilds the process makes, with any status among them.  When the gate then
  skips a job, the job is not forced and of a review event, the prior job is another job, and either
  the index holds the prior job under the repository and commit of this very job, entered for them
  with a review that succeeded, or the prior job is a live job of the same repository, completed or
  failed, whose review of an equal commit succeeded.
\<close>

theorem skip_gate_on_evidence:
  assumes "store_ok s" "review_step\<^sup>*\<^sup>* s0 s" "sc_reviewed s0 = Map.empty"
    and "scm_run_skip_gate env pull j s = (Some (''commit already reviewed successfully'', prior), s')"
  shows "\<not> j_force_ai j \<and> \<not> unreviewed_event (j_event j) \<and> prior \<noteq> j_id j \<and>
    ((\<exists>st. sc_reviewed s (scm_reviewed_sha_key (j_repo j) (j_sha j)) = Some st \<and> ri_job st = prior \<and>
        scm_ai_review_succeeded (ri_status st) \<and>
        scm_reviewed_sha_key (ri_repo st) (ri_sha st) = scm_reviewed_sha_key (j_repo j) (j_sha j)) \<or>
     (\<exists>p. live_job prior s = Some p \<and> equal_fold (j_repo p) (trim_space (j_repo j)) \<and>
        done_or_failed p \<and> scm_ai_review_succeeded (scm_job_ai_status p) \<and>
        scm_sha_equal (scm_job_reviewed_sha p) (trim_space (j_sha j))))"
proof -
  have "(''pull request is already merged'' :: string) \<noteq> ''commit already reviewed successfully''" by simp
  then have l: "lookup_successful_ai_review env (j_repo j) (trim_space (j_sha j)) (j_id j) s = (Some prior, s')"
    and g: "\<not> j_force_ai j" "\<not> unreviewed_event (j_event j)"
    using assms(4)
    by (auto simp: scm_run_skip_gate_def should_skip_for_already_reviewed_def
        split: if_splits option.splits prod.splits)
  have key: "scm_reviewed_sha_key (trim_space a) (trim_space b) = scm_reviewed_sha_key a b" for a b
    by (simp add: scm_reviewed_sha_key_def)
  note e = lookup_Some [OF assms(1) l, unfolded trim_space_idem key]
  have ok: "reviewed_ok s" by (rule reviewed_ok_steps [OF assms(2,3)])
  have ix: "scm_reviewed_sha_key (ri_repo st) (ri_sha st) = k \<and> scm_ai_review_succeeded (ri_status st)"
    if "sc_reviewed s k = Some st" for k st
    using ok that unfolding reviewed_ok_def by blast
  have np: "prior \<noteq> j_id j" using e by blast
  show ?thesis
    using g np e ix [of "scm_reviewed_sha_key (j_repo j) (j_sha j)"] unfolding reviewed_candidate_def by blast
qed

text \<open>
  A run the gate looks at (not forced, of a review event, with a real commit, its pull request not
  merged), and a child of it that reviewed its commit with success.
\<close>

definition gated_run :: "(scm_job \<Rightarrow> (bool \<times> string) option) \<Rightarrow> scm_job \<Rightarrow> bool" where
  "gated_run pull p \<longleftrightarrow>
     job_kind p = KRun \<and> \<not> j_force_ai p \<and> \<not> unreviewed_event (j_event p) \<and>
     \<not> scm_placeholder_commit_sha (j_sha p) \<and> trim_space (j_repo p) \<noteq> [] \<and>
     \<not> should_skip_for_merged_pr pull p"

definition reviewed_child :: "scm_job \<Rightarrow> scm_job \<Rightarrow> bool" where
  "reviewed_child p c \<longleftrightarrow>
     j_parent c = j_id p \<and> j_id c \<noteq> j_id p \<and> equal_fold (j_repo c) (trim_space (j_repo p)) \<and>
     trim_space (j_sha c) = trim_space (j_sha p) \<and> sget c ''analyzed_sha'' = JNull \<and>
     done_or_failed c \<and> scm_ai_review_succeeded (scm_job_ai_status c)"

lemma own_child_review_skips_run:
  assumes "store_ok s" "gated_run pull p" "live_job k s = Some c" "reviewed_child p c"
  shows "\<exists>prior s'. scm_run_skip_gate env pull p s = (Some (''commit already reviewed successfully'', prior), s')"
proof -
  have sha: "scm_job_reviewed_sha c = trim_space (j_sha p)"
    using assms(4) by (simp add: reviewed_child_def scm_job_reviewed_sha_def scm_placeholder_commit_sha_def)
  have np: "\<not> scm_placeholder_commit_sha (trim_space (j_sha p))" "trim_space (j_sha p) \<noteq> []"
    using assms(2) by (auto simp: gated_run_def scm_placeholder_commit_sha_def Let_def)
  have eq: "scm_sha_equal (trim_space (j_sha p)) (trim_space (j_sha p))"
  proof -
    have "to_lower (trim_space (j_sha p)) \<noteq> []" using np(2) by (simp add: to_lower_def)
    then show ?thesis by (simp add: scm_sha_equal_def)
  qed
  have "reviewed_candidate (trim_space (j_repo p)) (trim_space (trim_space (j_sha p))) (j_id p) c"
    using assms(4) sha np eq by (simp add: reviewed_child_def reviewed_candidate_def)
  from lookup_finds [OF assms(1,3) this, of env] np assms(2)
  obtain prior s' where "lookup_successful_ai_review env (j_repo p) (trim_space (j_sha p)) (j_id p) s = (Some prior, s')"
    by (auto simp: gated_run_def)
  then show ?thesis
    using assms(2) np by (simp add: gated_run_def scm_run_skip_gate_def should_skip_for_already_reviewed_def)
qed


subsection \<open>Recovery\<close>

lemma job_belongs_ok: "store_ok s \<Longrightarrow> snd (job_belongs_to_stack k s) = s"
  by (simp add: job_belongs_to_stack_def get_scm_job_ok)

lemma recover_job_live:
  assumes "store_ok s" "j_id j \<noteq> []"
  shows "store_ok (recover_job env j s)"
    and "k \<noteq> j_id j \<Longrightarrow> live_job k (recover_job env j s) = live_job k s"
    and "j_status j = ''running'' \<Longrightarrow> \<exists>j'. live_job (j_id j) (recover_job env j s) = Some j' \<and>
           j_status j' \<in> {''queued'', ''waiting''} \<and> same_ident j j'"
    and "j_status j \<noteq> ''running'' \<Longrightarrow> recover_job env j s = s"
  using assms job_belongs_ok [OF assms(1), of "j_id j"]
  by (auto simp: recover_job_def case_prod_beta live_job_persist same_ident_def intro: store_ok_persist)

lemma recover_fold:
  "store_ok s \<Longrightarrow> \<forall>j \<in> set js. j_id j \<noteq> [] \<and> live_job (j_id j) s = Some j \<Longrightarrow> distinct (map j_id js) \<Longrightarrow>
   store_ok (fold (recover_job env) js s) \<and>
   (\<forall>k. k \<notin> j_id ` {j \<in> set js. j_status j = ''running''} \<longrightarrow> live_job k (fold (recover_job env) js s) = live_job k s) \<and>
   (\<forall>j \<in> set js. j_status j = ''running'' \<longrightarrow>
      (\<exists>j'. live_job (j_id j) (fold (recover_job env) js s) = Some j' \<and>
         j_status j' \<in> {''queued'', ''waiting''} \<and> same_ident j j'))"
proof (induction js arbitrary: s)
  case (Cons j js)
  let ?s = "recover_job env j s"
  have id: "j_id j \<noteq> []" using Cons.prems by simp
  note one = recover_job_live [OF Cons.prems(1) id, where env = env]
  have "live_job (j_id i) ?s = Some i" if "i \<in> set js" for i
  proof -
    have "j_id i \<noteq> j_id j" using that Cons.prems(3) by (auto simp: image_iff)
    with one(2) Cons.prems(2) that show ?thesis by simp
  qed
  with Cons.IH [OF one(1)] Cons.prems have ih: "store_ok (fold (recover_job env) js ?s)"
    "\<And>k. k \<notin> j_id ` {j \<in> set js. j_status j = ''running''} \<Longrightarrow> live_job k (fold (recover_job env) js ?s) = live_job k ?s"
    "\<And>i. i \<in> set js \<Longrightarrow> j_status i = ''running'' \<Longrightarrow>
      \<exists>j'. live_job (j_id i) (fold (recover_job env) js ?s) = Some j' \<and> j_status j' \<in> {''queued'', ''waiting''} \<and> same_ident i j'"
    by auto
  have jn: "j_id j \<notin> j_id ` {j \<in> set js. j_status j = ''running''}" using Cons.prems(3) by auto
  show ?case
  proof (intro conjI allI ballI impI)
    show "store_ok (fold (recover_job env) (j # js) s)" using ih(1) by simp
    show "live_job k (fold (recover_job env) (j # js) s) = live_job k s"
      if "k \<notin> j_id ` {i \<in> set (j # js). j_status i = ''running''}" for k
    proof -
      have "live_job k (fold (recover_job env) js ?s) = live_job k ?s" using that by (intro ih(2)) auto
      also have "\<dots> = live_job k s" using that one(2,4) by (cases "j_status j = ''running''") auto
      finally show ?thesis by simp
    qed
    show "\<exists>j'. live_job (j_id i) (fold (recover_job env) (j # js) s) = Some j' \<and>
        j_status j' \<in> {''queued'', ''waiting''} \<and> same_ident i j'"
      if "i \<in> set (j # js)" "j_status i = ''running''" for i
      using that ih(2) [OF jn] ih(3) one(3) by (cases "i = j") auto
  qed
qed simp

text \<open>
  After the recovery of a restart no job is running: each job that was running is queued, or
  waiting when it belongs to a stack, under the same identity, and every other job is unchanged.
\<close>

theorem recovery_leaves_none_running:
  assumes "store_ok s"
  shows "store_ok (recover_stuck_running env s) \<and>
    (\<forall>k j. live_job k s = Some j \<longrightarrow>
      (if j_status j = ''running''
       then \<exists>j'. live_job k (recover_stuck_running env s) = Some j' \<and>
              j_status j' \<in> {''queued'', ''waiting''} \<and> same_ident j j'
       else live_job k (recover_stuck_running env s) = Some j)) \<and>
    (\<forall>k. live_job k s = None \<longrightarrow> live_job k (recover_stuck_running env s) = None)"
proof -
  let ?js = "map snd (sc_live s)"
  have live: "live_job (j_id j) s = Some j \<and> j_id j \<noteq> []" if h: "j \<in> set ?js" for j
  proof -
    obtain a where "(a, j) \<in> set (sc_live s)" using h by auto
    then have "live_job a s = Some j" using live_iff [OF assms] by blast
    with store_ok_id [OF assms this] show ?thesis by simp
  qed
  have ids: "map j_id ?js = map fst (sc_live s)"
    using live_iff [OF assms] store_ok_id [OF assms] by (auto intro!: map_cong simp: o_def)
  moreover have "distinct (map fst (sc_live s))" using assms by (simp add: store_ok_def)
  ultimately have "distinct (map j_id ?js)" by metis
  with recover_fold [OF assms, of ?js env] live have f: "store_ok (recover_stuck_running env s)"
    "\<And>k. k \<notin> j_id ` {j \<in> set ?js. j_status j = ''running''} \<Longrightarrow> live_job k (recover_stuck_running env s) = live_job k s"
    "\<And>j. j \<in> set ?js \<Longrightarrow> j_status j = ''running'' \<Longrightarrow> \<exists>j'. live_job (j_id j) (recover_stuck_running env s) = Some j' \<and>
         j_status j' \<in> {''queued'', ''waiting''} \<and> same_ident j j'"
    by (auto simp: recover_stuck_running_def)
  have mem: "j \<in> set ?js \<and> j_id j = k" if "live_job k s = Some j" for k j
    using that live_iff [OF assms] store_ok_id [OF assms that] by force
  have not_running: "k \<notin> j_id ` {j \<in> set ?js. j_status j = ''running''}"
    if "\<forall>j. live_job k s = Some j \<longrightarrow> j_status j \<noteq> ''running''" for k
    using that live by auto
  show ?thesis
    using f(1) f(2) [OF not_running] f(3) mem by (auto split: if_splits) fastforce+
qed

lemma recovery_leaves_none_running_witness:
  "\<exists>j'. live_job ''c1'' (recover_stuck_running sample_env sample_store) = Some j' \<and>
     j_status j' \<in> {''queued'', ''waiting''}"
proof -
  have "live_job ''c1'' sample_store = Some (sample_job ''c1'' ''cloud'' ''r1'' ''old'' ''running'')"
    by (simp add: live_job_def sample_store_def store_of_def sample_live_def)
  moreover have "j_status (sample_job ''c1'' ''cloud'' ''r1'' ''old'' ''running'') = ''running''"
    by (simp add: sample_job_def)
  ultimately show ?thesis
    using recovery_leaves_none_running [OF sample_store_ok, of sample_env] by fastforce
qed

end
