(* ===== verification/Hook_Receipts.thy ===== *)
theory Hook_Receipts
  imports Conn_Claim Run_Plan PR_State
begin

text \<open>
  The receipts of GitHub deliveries (\<^verbatim>\<open>src/scm_webhooks.go\<close>) and the tenant a delivery belongs to
  (\<^verbatim>\<open>src/scm_tenant_resolve.go\<close>): the live map \<^verbatim>\<open>scmWebhookLive\<close> over files and ClickHouse rows, the
  hydration at boot with its backfill from jobs and its de-duplication, the advance of a receipt when
  its job ends, and who may see a receipt.

  The state composes the connector registry, the job store and the preferences with the receipts: a
  delivery touches all of them.  Whatever the job store does, it asks for the receipts of a persisted
  job to be reconciled (\<^verbatim>\<open>reconcileWebhooksForJob\<close>); \<open>on_jobs\<close> runs an operation of the job store and
  then reconciles the jobs it persisted, in that order.  A job that became terminal stays so to the end
  of the operation, so this reads the statuses the code reads.
\<close>

record receipt =
  hk_id :: string
  hk_at :: string
  hk_delivery :: string
  hk_event :: string
  hk_action :: string
  hk_repo :: string
  hk_pr :: int
  hk_sha :: string
  hk_inst :: string
  hk_org :: string
  hk_proj :: string
  hk_conn :: string
  hk_sig :: bool
  hk_outcome :: string
  hk_job :: string
  hk_stack :: string
  hk_error :: string
  hk_honesty :: string
  hk_http :: int
  hk_source :: string

record hook_state =
  hs_conns :: conn_state
  hs_jobs :: scm_state
  hs_prefs :: prefs_store
  hs_live :: "(string \<times> receipt) list"
  hs_files :: "string \<rightharpoonup> receipt"
  hs_rows :: "jobj list"
  hs_issues :: "string \<rightharpoonup> string"
  hs_started :: "string list"
  hs_posts :: "(string \<times> string) list"

definition live_receipt :: "string \<Rightarrow> hook_state \<Rightarrow> receipt option" where
  "live_receipt k w = map_of (hs_live w) k"

definition store_receipt :: "string \<Rightarrow> receipt \<Rightarrow> hook_state \<Rightarrow> hook_state" where
  "store_receipt k r w = w\<lparr>hs_live := AList.update k r (hs_live w)\<rparr>"

subsection \<open>Persisting and finding\<close>

definition persist_receipt_file :: "receipt \<Rightarrow> hook_state \<Rightarrow> hook_state" where
  "persist_receipt_file r w =
     (if hk_id r = [] then w else w\<lparr>hs_files := (hs_files w)(hk_id r \<mapsto> r)\<rparr>)"

text \<open>The row of \<^verbatim>\<open>opa.scm_webhooks\<close> that \<^verbatim>\<open>persistSCMWebhookCH\<close> inserts, by its columns.\<close>

definition receipt_row :: "receipt \<Rightarrow> jobj" where
  "receipt_row r =
     [(''id'', JStr (hk_id r)), (''received_at'', JStr (hk_at r)), (''delivery_id'', JStr (hk_delivery r)),
      (''event'', JStr (hk_event r)), (''action'', JStr (hk_action r)), (''repo_full_name'', JStr (hk_repo r)),
      (''pr_number'', JInt (hk_pr r)), (''commit_sha'', JStr (hk_sha r)), (''installation_id'', JStr (hk_inst r)),
      (''organization_id'', JStr (hk_org r)), (''project_id'', JStr (hk_proj r)), (''connector_id'', JStr (hk_conn r)),
      (''signature_valid'', JInt (if hk_sig r then 1 else 0)), (''outcome'', JStr (hk_outcome r)),
      (''job_id'', JStr (hk_job r)), (''stack_id'', JStr (hk_stack r)), (''error'', JStr (hk_error r)),
      (''honesty'', JStr (hk_honesty r)), (''http_status'', JInt (hk_http r)),
      (''source'', JStr (nz (hk_source r) ''live''))]"

definition persist_receipt_ch :: "orch_env \<Rightarrow> receipt \<Rightarrow> hook_state \<Rightarrow> hook_state" where
  "persist_receipt_ch env r w =
     (if \<not> e_writer env then w else w\<lparr>hs_rows := hs_rows w @ [receipt_row r]\<rparr>)"

definition persist_receipt :: "orch_env \<Rightarrow> receipt \<Rightarrow> hook_state \<Rightarrow> hook_state" where
  "persist_receipt env r w =
     (if hk_id r = [] then w
      else persist_receipt_ch env r (persist_receipt_file r (store_receipt (hk_id r) r w)))"

definition load_receipt_file :: "string \<Rightarrow> hook_state \<Rightarrow> receipt option" where
  "load_receipt_file k w =
     (case hs_files w k of None \<Rightarrow> None | Some r \<Rightarrow> (if hk_id r = [] then None else Some r))"

definition get_receipt :: "string \<Rightarrow> hook_state \<Rightarrow> receipt option \<times> hook_state" where
  "get_receipt k w =
     (case live_receipt k w of
        Some r \<Rightarrow> (Some r, w)
      | None \<Rightarrow>
          (case load_receipt_file k w of
             Some r \<Rightarrow> (Some r, store_receipt (hk_id r) r w) | None \<Rightarrow> (None, w)))"

definition find_by_delivery :: "string \<Rightarrow> hook_state \<Rightarrow> receipt option" where
  "find_by_delivery d w =
     (let d = trim_space d
      in if d = [] then None
         else List.find (\<lambda>r. hk_delivery r = d \<and> hk_source r \<noteq> ''backfill'') (map snd (hs_live w)))"

definition prefer_live :: "receipt option \<Rightarrow> receipt \<Rightarrow> receipt option" where
  "prefer_live found r =
     (case found of
        None \<Rightarrow> Some r
      | Some f \<Rightarrow> (if hk_source r \<noteq> ''backfill'' \<and> hk_source f = ''backfill'' then Some r else found))"

definition find_by_job :: "string \<Rightarrow> hook_state \<Rightarrow> receipt option" where
  "find_by_job job w =
     (let job = trim_space job
      in if job = [] then None
         else fold (\<lambda>r found. if trim_space (hk_job r) = job then prefer_live found r else found)
                (map snd (hs_live w)) None)"

subsection \<open>Hydration\<close>

definition to_string :: "jv \<Rightarrow> string" where
  "to_string v = (if v = JNull then [] else trim_space (sprint v))"

text \<open>\<^verbatim>\<open>getFloat64\<close> converted to an integer; \<open>parse\<close> is \<^verbatim>\<open>strconv.ParseFloat\<close> truncated.\<close>

fun int_column :: "(string \<Rightarrow> int) \<Rightarrow> jv \<Rightarrow> int" where
  "int_column parse (JInt n) = n"
| "int_column parse (JNum n) = n"
| "int_column parse (JStr s) = parse s"
| "int_column parse _ = 0"

fun sig_column :: "jv \<Rightarrow> bool" where
  "sig_column (JInt n) = (n \<noteq> 0)"
| "sig_column (JNum n) = (n \<noteq> 0)"
| "sig_column (JStr s) = (s = ''1'' \<or> equal_fold s ''true'')"
| "sig_column _ = False"

definition receipt_from_row :: "(string \<Rightarrow> int) \<Rightarrow> jobj \<Rightarrow> receipt" where
  "receipt_from_row parse row =
     (let txt = (\<lambda>k. to_string (jget row k))
      in \<lparr>hk_id = txt ''id'', hk_at = txt ''received_at'', hk_delivery = txt ''delivery_id'', hk_event = txt ''event'',
          hk_action = txt ''action'', hk_repo = txt ''repo_full_name'', hk_pr = int_column parse (jget row ''pr_number''),
          hk_sha = txt ''commit_sha'', hk_inst = txt ''installation_id'', hk_org = txt ''organization_id'',
          hk_proj = txt ''project_id'', hk_conn = txt ''connector_id'', hk_sig = sig_column (jget row ''signature_valid''),
          hk_outcome = txt ''outcome'', hk_job = txt ''job_id'', hk_stack = txt ''stack_id'', hk_error = txt ''error'',
          hk_honesty = txt ''honesty'', hk_http = int_column parse (jget row ''http_status''), hk_source = txt ''source''\<rparr>)"

fun hydrate_files :: "orch_env \<Rightarrow> string list \<Rightarrow> nat \<times> hook_state \<Rightarrow> nat \<times> hook_state" where
  "hydrate_files env [] acc = acc"
| "hydrate_files env (k # ks) acc =
     (case acc of (n, w) \<Rightarrow>
        if live_receipt k w \<noteq> None then hydrate_files env ks (n, w)
        else case load_receipt_file k w of
          None \<Rightarrow> hydrate_files env ks (n, w)
        | Some r \<Rightarrow> hydrate_files env ks (n + 1, persist_receipt_ch env r (store_receipt (hk_id r) r w)))"

fun hydrate_rows :: "(string \<Rightarrow> int) \<Rightarrow> jobj list \<Rightarrow> nat \<times> hook_state \<Rightarrow> nat \<times> hook_state" where
  "hydrate_rows parse [] acc = acc"
| "hydrate_rows parse (row # rows) acc =
     (case acc of (n, w) \<Rightarrow>
        let r = receipt_from_row parse row
        in if hk_id r = [] \<or> live_receipt (hk_id r) w \<noteq> None then hydrate_rows parse rows (n, w)
           else hydrate_rows parse rows (n + 1, store_receipt (hk_id r) r w))"

definition split_webhook_job_event :: "string \<Rightarrow> string \<times> string" where
  "split_webhook_job_event e =
     (let e = trim_space e
      in if has_prefix e ''pull_request.'' then (''pull_request'', trim_prefix e ''pull_request.'')
         else if has_prefix e ''push.'' then (''push'', trim_prefix e ''push.'')
         else ([], []))"

text \<open>\<^verbatim>\<open>jobTerminalWebhookOutcome\<close>.\<close>

definition job_terminal_outcome :: "scm_job option \<Rightarrow> (string \<times> string) option" where
  "job_terminal_outcome jo =
     (case jo of
        None \<Rightarrow> None
      | Some j \<Rightarrow>
          (let st = to_lower (trim_space (j_status j))
           in if st = ''completed'' then Some (''ok'', ''Linked SCM job completed.'')
              else if st = ''failed'' \<or> st = ''error'' then Some (''error'', ''Linked SCM job failed.'')
              else if st = ''cancelled'' then Some (''skipped'', ''Linked SCM job cancelled.'')
              else if st = ''skipped'' then Some (''skipped'', ''Linked SCM job skipped.'')
              else None))"

definition backfill_id :: "orch_env \<Rightarrow> scm_job \<Rightarrow> string" where
  "backfill_id env j =
     (let k = ''scmwh-bf-'' @ trim_prefix (j_id j) ''scmjob-''
      in if 40 < length k then load_id (e_sha1hex env) ''scmwh'' [''bf'', j_id j] else k)"

definition backfill_receipt :: "orch_env \<Rightarrow> scm_job \<Rightarrow> receipt" where
  "backfill_receipt env j =
     (let (event, action) = split_webhook_job_event (j_event j);
          honest = ''Backfilled from scm job '' @ em_dash @ '' webhook receipt was not captured at receive time.'';
          (out, honest) = (case job_terminal_outcome (Some j) of
             Some (o', n) \<Rightarrow> (o', trim_space (honest @ '' '' @ n)) | None \<Rightarrow> (''queued'', honest))
      in \<lparr>hk_id = backfill_id env j, hk_at = nz (j_started j) (e_now env), hk_delivery = [], hk_event = event,
          hk_action = action, hk_repo = j_repo j, hk_pr = j_pr j, hk_sha = j_sha j, hk_inst = [], hk_org = j_org j,
          hk_proj = j_proj j, hk_conn = j_conn j, hk_sig = True, hk_outcome = out, hk_job = j_id j,
          hk_stack = as_str (sget j ''stack_id''), hk_error = [], hk_honesty = honest, hk_http = 200,
          hk_source = ''backfill''\<rparr>)"

definition backfill_one :: "orch_env \<Rightarrow> scm_job \<Rightarrow> nat \<times> hook_state \<Rightarrow> nat \<times> hook_state" where
  "backfill_one env j acc =
     (case acc of (n, w) \<Rightarrow>
        if fst (split_webhook_job_event (j_event j)) = [] \<or> find_by_job (j_id j) w \<noteq> None \<or>
           live_receipt (backfill_id env j) w \<noteq> None \<or> load_receipt_file (backfill_id env j) w \<noteq> None
        then (n, w)
        else (n + 1, persist_receipt env (backfill_receipt env j) w))"

definition backfill_receipts :: "orch_env \<Rightarrow> hook_state \<Rightarrow> nat \<times> hook_state" where
  "backfill_receipts env w = fold (backfill_one env) (map snd (sc_live (hs_jobs w))) (0, w)"

text \<open>Backfilled receipts of jobs that have a captured one leave the live map and their files go.\<close>

definition live_jobs_of :: "hook_state \<Rightarrow> string list" where
  "live_jobs_of w =
     map hk_job (filter (\<lambda>r. trim_space (hk_job r) \<noteq> [] \<and> hk_source r \<noteq> ''backfill'') (map snd (hs_live w)))"

definition stale_backfill :: "hook_state \<Rightarrow> receipt \<Rightarrow> bool" where
  "stale_backfill w r \<longleftrightarrow> hk_source r = ''backfill'' \<and> hk_job r \<in> set (live_jobs_of w)"

definition dedupe_backfills :: "hook_state \<Rightarrow> nat \<times> hook_state" where
  "dedupe_backfills w =
     (let stale = filter (stale_backfill w) (map snd (hs_live w))
      in (length stale,
          w\<lparr>hs_live := filter (\<lambda>(_, r). \<not> stale_backfill w r) (hs_live w),
            hs_files := (\<lambda>k. if k \<in> hk_id ` set stale then None else hs_files w k)\<rparr>))"

definition hydrate_on_boot ::
  "orch_env \<Rightarrow> (string \<Rightarrow> int) \<Rightarrow> string list \<Rightarrow> jobj list \<Rightarrow> hook_state \<Rightarrow> hook_state" where
  "hydrate_on_boot env parse names rows w =
     (let (nf, w) = hydrate_files env names (0, w);
          (nc, w) = hydrate_rows parse rows (0, w);
          (nd, w) = dedupe_backfills w;
          (nb, w) = backfill_receipts env w
      in w)"

subsection \<open>Following the job\<close>

definition reconciled_receipt :: "string \<times> string \<Rightarrow> receipt \<Rightarrow> receipt" where
  "reconciled_receipt on r =
     (let r = r\<lparr>hk_outcome := fst on\<rparr>
      in if trim_space (hk_honesty r) = [] then r\<lparr>hk_honesty := snd on\<rparr>
         else if \<not> contains (hk_honesty r) ''Linked SCM job''
         then r\<lparr>hk_honesty := trim_space (hk_honesty r @ '' '' @ snd on)\<rparr>
         else r)"

text \<open>\<^verbatim>\<open>reconcileSCMWebhookWithJob\<close>; the job may be loaded from its file.\<close>

definition reconcile_receipt :: "orch_env \<Rightarrow> receipt \<Rightarrow> hook_state \<Rightarrow> bool \<times> hook_state" where
  "reconcile_receipt env r w =
     (let cur = to_lower (trim_space (hk_outcome r))
      in if trim_space (hk_job r) = [] \<or> (cur \<noteq> ''queued'' \<and> cur \<noteq> []) then (False, w)
         else
           let (jo, s) = get_scm_job (hk_job r) (hs_jobs w); w = w\<lparr>hs_jobs := s\<rparr>
           in case job_terminal_outcome jo of
                None \<Rightarrow> (False, w)
              | Some on \<Rightarrow> (True, persist_receipt env (reconciled_receipt on r) w))"

definition reconcile_for_job :: "orch_env \<Rightarrow> scm_job \<Rightarrow> hook_state \<Rightarrow> hook_state" where
  "reconcile_for_job env j w =
     (if trim_space (j_id j) = [] \<or> job_terminal_outcome (Some j) = None then w
      else fold (\<lambda>r w. snd (reconcile_receipt env r w))
             (filter (\<lambda>r. trim_space (hk_job r) = j_id j) (map snd (hs_live w))) w)"

text \<open>An operation of the job store with the reconciliations it asks for.\<close>

definition reconcile_ids :: "effect list \<Rightarrow> string list" where
  "reconcile_ids es = List.map_filter (\<lambda>e. case e of EReconcile k \<Rightarrow> Some k | _ \<Rightarrow> None) es"

definition reconcile_id :: "orch_env \<Rightarrow> string \<Rightarrow> hook_state \<Rightarrow> hook_state" where
  "reconcile_id env k w =
     (case live_job k (hs_jobs w) of None \<Rightarrow> w | Some j \<Rightarrow> reconcile_for_job env j w)"

definition on_jobs :: "orch_env \<Rightarrow> (scm_state \<Rightarrow> 'a \<times> scm_state) \<Rightarrow> hook_state \<Rightarrow> 'a \<times> hook_state" where
  "on_jobs env f w =
     (let (x, s) = f (hs_jobs w);
          new = drop (length (sc_log (hs_jobs w))) (sc_log s)
      in (x, fold (reconcile_id env) (reconcile_ids new) (w\<lparr>hs_jobs := s\<rparr>)))"

definition on_conns :: "(conn_state \<Rightarrow> 'a \<times> conn_state) \<Rightarrow> hook_state \<Rightarrow> 'a \<times> hook_state" where
  "on_conns f w = (let (x, c) = f (hs_conns w) in (x, w\<lparr>hs_conns := c\<rparr>))"

subsection \<open>New and finished receipts\<close>

text \<open>\<open>e_hex\<close> stands for the fresh random digits, of 4 or 8 bytes.\<close>

definition new_receipt :: "orch_env \<Rightarrow> string \<Rightarrow> string \<Rightarrow> bool \<Rightarrow> receipt" where
  "new_receipt env delivery event sig =
     \<lparr>hk_id = load_id (e_sha1hex env) ''scmwh''
        (if delivery = [] then [event, e_now env, e_hex env] else [delivery, event, e_now env, e_hex env]),
      hk_at = e_now env, hk_delivery = trim_space delivery, hk_event = event, hk_action = [], hk_repo = [],
      hk_pr = 0, hk_sha = [], hk_inst = [], hk_org = [], hk_proj = [], hk_conn = [], hk_sig = sig,
      hk_outcome = [], hk_job = [], hk_stack = [], hk_error = [], hk_honesty = [], hk_http = 200,
      hk_source = ''live''\<rparr>"

text \<open>\<^verbatim>\<open>finishWebhookReceipt\<close>: the outcome, the tenant when it is still unknown, and the record.\<close>

definition enrich_receipt :: "conn_env \<Rightarrow> receipt \<Rightarrow> hook_state \<Rightarrow> receipt \<times> hook_state" where
  "enrich_receipt cenv r w =
     (let (r, w) =
        (if hk_org r = [] \<and> hk_repo r \<noteq> [] then
           (let ((wo, c), w) = on_conns (find_watched cenv (hk_repo r)) w
            in case wo of
                 None \<Rightarrow> (r, w)
               | Some t \<Rightarrow> (r\<lparr>hk_org := wt_org t, hk_proj := wt_proj t, hk_conn := wt_conn t\<rparr>, w))
         else (r, w))
      in if hk_org r = [] \<and> hk_inst r \<noteq> [] then
           (case find_connector_by_installation (hk_inst r) (hs_conns w) of
              None \<Rightarrow> (r, w)
            | Some c \<Rightarrow> (r\<lparr>hk_org := cn_org c, hk_proj := cn_proj c, hk_conn := cn_id c\<rparr>, w))
         else (r, w))"

definition finished ::
  "receipt \<Rightarrow> string \<Rightarrow> string \<Rightarrow> int \<Rightarrow> string \<Rightarrow> receipt" where
  "finished r outcome honesty status err =
     r\<lparr>hk_outcome := outcome, hk_honesty := honesty, hk_http := (if 0 < status then status else hk_http r),
       hk_error := (if err \<noteq> [] then err else hk_error r)\<rparr>"

definition finish_receipt ::
  "conn_env \<Rightarrow> orch_env \<Rightarrow> receipt \<Rightarrow> string \<Rightarrow> string \<Rightarrow> int \<Rightarrow> string \<Rightarrow> hook_state \<Rightarrow> receipt \<times> hook_state" where
  "finish_receipt cenv env r outcome honesty status err w =
     (let (r, w) = enrich_receipt cenv (finished r outcome honesty status err) w
      in (r, persist_receipt env r w))"

definition apply_repo_meta :: "string \<Rightarrow> int \<Rightarrow> string \<Rightarrow> int \<Rightarrow> string \<Rightarrow> receipt \<Rightarrow> receipt" where
  "apply_repo_meta repo pr sha inst action r =
     (let r = (if repo \<noteq> [] then r\<lparr>hk_repo := repo\<rparr> else r);
          r = (if 0 < pr then r\<lparr>hk_pr := pr\<rparr> else r);
          r = (if sha \<noteq> [] then r\<lparr>hk_sha := sha\<rparr> else r);
          r = (if 0 < inst then r\<lparr>hk_inst := show_int inst\<rparr> else r)
      in if action \<noteq> [] then r\<lparr>hk_action := action\<rparr> else r)"

subsection \<open>Visibility\<close>

definition can_see_webhook ::
  "tenancy \<Rightarrow> conn_state \<Rightarrow> cred_actor \<Rightarrow> receipt option \<Rightarrow> string \<Rightarrow> bool" where
  "can_see_webhook tn cs a ro wanted =
     (case ro of
        None \<Rightarrow> False
      | Some r \<Rightarrow>
          (let cf = trim_space wanted; sel = trim_space (ac_org a);
               org = (if trim_space (hk_org r) = [] then tn_org tn else trim_space (hk_org r))
           in if cf \<noteq> [] then
                (if trim_space (hk_conn r) \<noteq> cf then False
                 else if \<not> tn_enforced tn \<or> is_admin tn a then True
                 else
                   let conn_org = (case live_conn cf cs of None \<Rightarrow> [] | Some c \<Rightarrow> trim_space (nz (cn_org c) (tn_org tn)))
                   in if sel = [] then False else sel = conn_org \<or> sel = org)
              else if sel \<noteq> [] then org = sel
              else \<not> tn_enforced tn))"

text \<open>\<^verbatim>\<open>resolveWebhookConnectorFilter\<close>: a PAT connector is replaced by the App of the same account.\<close>

definition sibling_app :: "app_conn \<Rightarrow> conn_state \<Rightarrow> app_conn option" where
  "sibling_app c cs =
     (let login = to_lower (trim_space (cn_login c));
          apps = filter (\<lambda>d. cn_status d \<noteq> ''deleted'' \<and> equal_fold (trim_space (cn_kind d)) ''github_app'' \<and>
                   to_lower (trim_space (cn_login d)) = login) (map snd (cs_conns cs))
      in case List.find (\<lambda>d. trim_space (cn_org d) = trim_space (cn_org c)) apps of
           Some d \<Rightarrow> Some d
         | None \<Rightarrow> (case apps of [] \<Rightarrow> None | d # _ \<Rightarrow> Some d))"

definition resolve_connector_filter :: "string \<Rightarrow> conn_state \<Rightarrow> string \<times> string" where
  "resolve_connector_filter requested cs =
     (let k = trim_space requested
      in if k = [] then ([], [])
         else case live_conn k cs of
           None \<Rightarrow> (k, [])
         | Some c \<Rightarrow>
             (if \<not> equal_fold (trim_space (cn_kind c)) ''github_pat'' \<or> to_lower (trim_space (cn_login c)) = [] then (k, [])
              else case sibling_app c cs of None \<Rightarrow> (k, []) | Some d \<Rightarrow> (cn_id d, k)))"

text \<open>
  \<^verbatim>\<open>handleSCMWebhooksList\<close>: the visible receipts, reconciled, newest first, at most \<open>limit\<close> of
  them, with their total number.
\<close>

definition reconcile_listed :: "orch_env \<Rightarrow> receipt \<Rightarrow> string list \<times> hook_state \<Rightarrow> string list \<times> hook_state" where
  "reconcile_listed env r acc = (fst acc @ [hk_id r], snd (reconcile_receipt env r (snd acc)))"

definition list_webhooks ::
  "tenancy \<Rightarrow> orch_env \<Rightarrow> cred_actor \<Rightarrow> string \<Rightarrow> string \<Rightarrow> hook_state \<Rightarrow> (receipt list \<times> nat) \<times> hook_state" where
  "list_webhooks tn env a connector limit w =
     (let cf = fst (resolve_connector_filter (trim_space connector) (hs_conns w));
          raw = filter (\<lambda>r. can_see_webhook tn (hs_conns w) a (Some r) cf) (map snd (hs_live w));
          with_live = (\<lambda>job. list_ex (\<lambda>q. trim_space (hk_job q) = job \<and> hk_source q \<noteq> ''backfill'') raw);
          shown = filter (\<lambda>r. \<not> (trim_space (hk_job r) \<noteq> [] \<and> hk_source r = ''backfill'' \<and> with_live (trim_space (hk_job r)))) raw;
          (ids, w) = fold (reconcile_listed env) shown ([], w);
          now = List.map_filter (\<lambda>k. live_receipt k w) ids;
          sorted = sort_stable (\<lambda>p q. hk_at q < hk_at p) now
      in ((take (nat (clamp_int (atoi_default limit 100) 1 500)) sorted, length sorted), w))"

definition webhook_detail ::
  "tenancy \<Rightarrow> cred_actor \<Rightarrow> string \<Rightarrow> hook_state \<Rightarrow> (receipt \<times> scm_job option) option \<times> hook_state" where
  "webhook_detail tn a k w =
     (let (ro, w) = get_receipt k w; cs = hs_conns w; conns = (\<lambda>c. map_option connector.truncate (live_conn c cs))
      in case ro of
           None \<Rightarrow> (None, w)
         | Some r \<Rightarrow>
             (if \<not> can_see_webhook tn cs a ro [] \<and> \<not> can_see_webhook tn cs a ro (trim_space (hk_conn r)) then (None, w)
              else if hk_job r = [] then (Some (r, None), w)
              else
                let (jo, s) = get_scm_job (hk_job r) (hs_jobs w)
                in (Some (r, case jo of
                          Some j \<Rightarrow> (if can_see_scm_job tn conns a jo [] \<or> can_see_scm_job tn conns a jo (trim_space (j_conn j))
                                     then Some j else None)
                        | None \<Rightarrow> None), w\<lparr>hs_jobs := s\<rparr>)))"

subsection \<open>The tenant of a delivery\<close>

record tenant =
  tr_org :: string
  tr_proj :: string
  tr_no_org :: bool
  tr_unclaimed :: bool
  tr_reason :: string

definition no_org_reason :: string where
  "no_org_reason = ''organization_id required '' @ em_dash @
     '' assign connector/repo watch to an OAM org before SCM jobs run''"

definition resolve_scm_tenant :: "tenancy \<Rightarrow> watched option \<Rightarrow> app_conn option \<Rightarrow> tenant" where
  "resolve_scm_tenant tn wo co =
     (let (org, proj) = (case wo of None \<Rightarrow> ([], []) | Some t \<Rightarrow> (trim_space (wt_org t), trim_space (wt_proj t)));
          (org, proj) = (case co of
             Some c \<Rightarrow> (if org = [] then (trim_space (cn_org c), trim_space (cn_proj c)) else (org, proj))
           | None \<Rightarrow> (org, proj));
          pend = (case co of Some c \<Rightarrow> conn_status_is ''pending_claim'' c | None \<Rightarrow> False);
          personal = (case co of
             Some c \<Rightarrow> infer_legacy_scope (cn_org c) (cn_scope c) = ''user'' \<and> trim_space (cn_user c) \<noteq> [] | None \<Rightarrow> False);
          proj' = (if proj = [] then tn_proj tn else proj)
      in if pend then \<lparr>tr_org = org, tr_proj = proj, tr_no_org = False, tr_unclaimed = True,
                       tr_reason = ''GitHub App install pending Open account claim''\<rparr>
         else if org = [] \<and> personal then
           \<lparr>tr_org = [], tr_proj = proj', tr_no_org = False, tr_unclaimed = False, tr_reason = []\<rparr>
         else if org = [] then
           \<lparr>tr_org = [], tr_proj = [], tr_no_org = True, tr_unclaimed = False, tr_reason = no_org_reason\<rparr>
         else \<lparr>tr_org = org, tr_proj = proj', tr_no_org = False, tr_unclaimed = False, tr_reason = []\<rparr>)"

definition tenant_blocks_job :: "tenant \<Rightarrow> bool" where
  "tenant_blocks_job t \<longleftrightarrow> tr_no_org t \<or> tr_unclaimed t"

definition stamp_job_tenant :: "tenant \<Rightarrow> scm_job \<Rightarrow> scm_job" where
  "stamp_job_tenant t j =
     (if tenant_blocks_job t then j
      else
        let j = (if trim_space (j_org j) = [] then j\<lparr>j_org := tr_org t\<rparr> else j)
        in if trim_space (j_proj j) = [] then j\<lparr>j_proj := tr_proj t\<rparr> else j)"

end
