(* ===== verification/Checkup_Policy.thy ===== *)
theory Checkup_Policy
  imports Go_Path
begin

text \<open>
  The policy a check plan must pass before anything of it runs (\<^verbatim>\<open>src/checkup_policy.go\<close>, with the
  plan types of \<^verbatim>\<open>src/checkup_plan.go\<close>, the rewriting of a phpstan step in
  \<^verbatim>\<open>src/checkup_phpstan.go\<close>, and \<^verbatim>\<open>path.Match\<close>).

  A plan comes from the pull request and is not trusted; \<^verbatim>\<open>intersectSpecWithPolicy\<close> clamps it and
  lists what it dropped.  The environment of a plan is an association list in the order Go ranges
  over the map.  \<open>looks_secret\<close> is \<^verbatim>\<open>EnvNameLooksSecret\<close> of the job-environment package.
\<close>

subsection \<open>\<open>path.Match\<close>\<close>

datatype glob = GStar | GAny | GLit char | GClass bool "(char \<times> char) list"

definition backslash :: char where "backslash = CHR 0x5C"

text \<open>One possibly escaped character of a class; something must follow it.\<close>

fun get_esc :: "string \<Rightarrow> (char \<times> string) option" where
  "get_esc [] = None"
| "get_esc (c # s) =
     (if c = CHR ''-'' \<or> c = CHR '']'' then None
      else if c = backslash then
        (case s of [] \<Rightarrow> None | d # t \<Rightarrow> if t = [] then None else Some (d, t))
      else if s = [] then None else Some (c, s))"

lemma get_esc_shorter: "get_esc s = Some (c, t) \<Longrightarrow> t \<noteq> [] \<and> length t < length s"
  by (cases s) (auto split: if_splits list.splits)

function parse_ranges :: "string \<Rightarrow> (char \<times> char) list \<Rightarrow> ((char \<times> char) list \<times> string) option" where
  "parse_ranges s acc =
     (if acc \<noteq> [] \<and> s \<noteq> [] \<and> hd s = CHR '']'' then Some (rev acc, tl s)
      else case get_esc s of
        None \<Rightarrow> None
      | Some (lo, t) \<Rightarrow>
          (if hd t = CHR ''-'' then
             (case get_esc (tl t) of
                None \<Rightarrow> None
              | Some (hi, u) \<Rightarrow> parse_ranges u ((lo, hi) # acc))
           else parse_ranges t ((lo, lo) # acc)))"
  by pat_completeness auto
termination
proof (relation "measure (length \<circ> fst)", goal_cases)
  case (2 s acc x lo t x2 hi u)
  then have "length t < length s" "length u < length (tl t)" using get_esc_shorter by blast+
  then show ?case by simp
next
  case (3 s acc x lo t)
  then have "get_esc s = Some (lo, t)" by simp
  from get_esc_shorter [OF this] show ?case by simp
qed simp

declare parse_ranges.simps [simp del]

lemma parse_ranges_shorter: "parse_ranges s acc = Some (rs, t) \<Longrightarrow> length t < length s"
proof (induction s acc rule: parse_ranges.induct)
  case (1 s acc)
  show ?case
  proof (cases "acc \<noteq> [] \<and> s \<noteq> [] \<and> hd s = CHR '']''")
    case True
    with 1(3) show ?thesis by (subst (asm) parse_ranges.simps) auto
  next
    case False
    with 1(3) obtain lo u where u: "get_esc s = Some (lo, u)"
      by (subst (asm) parse_ranges.simps) (auto split: option.splits)
    note lu = get_esc_shorter [OF u]
    show ?thesis
    proof (cases "hd u = CHR ''-''")
      case True
      with 1(3) False u obtain hi v where v: "get_esc (tl u) = Some (hi, v)"
          "parse_ranges v ((lo, hi) # acc) = Some (rs, t)"
        by (subst (asm) parse_ranges.simps) (auto split: option.splits)
      have "length t < length v" using 1(1) [OF False u refl True v(1) refl v(2)] by simp
      moreover have "length v < length u" using get_esc_shorter [OF v(1)] by (cases u) simp_all
      ultimately show ?thesis using lu by simp
    next
      case no: False
      with 1(3) False u have "parse_ranges u ((lo, lo) # acc) = Some (rs, t)"
        by (subst (asm) parse_ranges.simps) auto
      with 1(2) [OF False u refl no] lu show ?thesis by simp
    qed
  qed
qed

text \<open>The pattern as tokens; \<^const>\<open>None\<close> when it is malformed.\<close>

function parse_glob :: "string \<Rightarrow> glob list option" where
  "parse_glob [] = Some []"
| "parse_glob (c # s) =
     (if c = CHR ''*'' then map_option ((#) GStar) (parse_glob s)
      else if c = CHR ''?'' then map_option ((#) GAny) (parse_glob s)
      else if c = CHR ''['' then
        (let neg = (s \<noteq> [] \<and> hd s = CHR ''^'')
         in case parse_ranges (if neg then tl s else s) [] of
              None \<Rightarrow> None
            | Some (rs, t) \<Rightarrow> map_option ((#) (GClass neg rs)) (parse_glob t))
      else if c = backslash then
        (case s of [] \<Rightarrow> None | d # t \<Rightarrow> map_option ((#) (GLit d)) (parse_glob t))
      else map_option ((#) (GLit c)) (parse_glob s))"
  by pat_completeness auto
termination
proof (relation "measure length", goal_cases)
  case (4 c s x y rs t)
  then show ?case using parse_ranges_shorter [of "if x then tl s else s" "[]" rs t]
    by (cases s) (auto split: if_splits)
qed auto

definition in_class :: "(char \<times> char) list \<Rightarrow> char \<Rightarrow> bool" where
  "in_class rs c \<longleftrightarrow> list_ex (\<lambda>(lo, hi). byte_of lo \<le> byte_of c \<and> byte_of c \<le> byte_of hi) rs"

fun glob_match :: "glob list \<Rightarrow> string \<Rightarrow> bool" where
  "glob_match [] s = (s = [])"
| "glob_match (GStar # g) [] = glob_match g []"
| "glob_match (GStar # g) (c # s) = (glob_match g (c # s) \<or> c \<noteq> CHR ''/'' \<and> glob_match (GStar # g) s)"
| "glob_match (GAny # g) s = (case s of [] \<Rightarrow> False | c # t \<Rightarrow> c \<noteq> CHR ''/'' \<and> glob_match g t)"
| "glob_match (GLit d # g) s = (case s of [] \<Rightarrow> False | c # t \<Rightarrow> c = d \<and> glob_match g t)"
| "glob_match (GClass neg rs # g) s =
     (case s of [] \<Rightarrow> False | c # t \<Rightarrow> in_class rs c \<noteq> neg \<and> glob_match g t)"

definition path_match :: "string \<Rightarrow> string \<Rightarrow> bool" where
  "path_match pat s = (case parse_glob pat of None \<Rightarrow> False | Some g \<Rightarrow> glob_match g s)"

subsection \<open>The plan\<close>

record post_cond =
  po_kind :: string
  po_path :: string
  po_min :: int
  po_contains :: string

type_synonym env_map = "(string \<times> string) list"

record checkup_step =
  cs_id :: string
  cs_argv :: "string list"
  cs_timeout :: int
  cs_post :: post_cond
  cs_env :: env_map
  cs_dir :: string

record checkup_service =
  sv_key :: string
  sv_image :: string
  sv_env :: env_map
  sv_health :: "string list"
  sv_timeout :: int
  sv_memory :: string
  sv_cpus :: string

record checkup_plan =
  cp_version :: int
  cp_image :: string
  cp_steps :: "checkup_step list"
  cp_services :: "checkup_service list"
  cp_env :: env_map
  cp_secrets :: "string list"
  cp_source :: string

definition no_post :: post_cond where
  "no_post = \<lparr>po_kind = [], po_path = [], po_min = 0, po_contains = []\<rparr>"

definition checkup_max_steps :: nat where "checkup_max_steps = 20"
definition checkup_max_services :: nat where "checkup_max_services = 6"

subsection \<open>The lists of the policy\<close>

definition binary_allowlist :: "string list" where
  "binary_allowlist =
     [''composer'', ''phpunit'', ''phpstan'', ''php-cs-fixer'', ''npm'', ''yarn'', ''go'', ''phinx'', ''cp'', ''mkdir'']"

definition denied_binaries :: "string list" where
  "denied_binaries =
     [''sh'', ''bash'', ''dash'', ''zsh'', ''fish'', ''sudo'', ''su'', ''docker'', ''podman'', ''curl'', ''wget'',
      ''nc'', ''ncat'', ''python'', ''python3'', ''perl'', ''ruby'', ''node'']"

definition grantable_secrets :: "string list" where
  "grantable_secrets = [''COMPOSER_AUTH'', ''NPM_TOKEN'', ''NPM_AUTH'', ''NODE_AUTH_TOKEN'']"

definition denied_secret_names :: "string list" where
  "denied_secret_names =
     [''GITHUB_TOKEN'', ''GH_TOKEN'', ''OPA_GIT_ASKPASS_TOKEN'', ''GIT_ASKPASS'', ''JWT_SECRET'',
      ''OPA_CONNECTOR_SECRET'', ''OPA_GITHUB_APP_PRIVATE_KEY'', ''OPA_GITHUB_WEBHOOK_SECRET'',
      ''CLICKHOUSE_URL'', ''CURSOR_API_KEY'']"

definition is_egress_env_key :: "string \<Rightarrow> bool" where
  "is_egress_env_key uk \<longleftrightarrow> uk \<in> {''HTTP_PROXY'', ''HTTPS_PROXY'', ''ALL_PROXY'', ''NO_PROXY''}"

subsection \<open>Images\<close>

definition image_allow_patterns :: "genv \<Rightarrow> string list" where
  "image_allow_patterns getenv =
     (let raw = trim_space (getenv ''OPA_JOB_IMAGE_ALLOW'')
      in if raw = [] then
           [''mysql:8.4*'', ''redis:7*'', ''node:22*'', ''golang:1.25*'', ''ora-runner-*'', ''opa-runner-*'',
            ''hebabil/php-8.4-cli*'', ''php:8.4*'', ''postgres:16*'']
         else filter (\<lambda>p. p \<noteq> []) (map trim_space (split_on CHR '','' raw)))"

definition image_allowed :: "genv \<Rightarrow> string \<Rightarrow> bool" where
  "image_allowed getenv img =
     (let img = trim_space img; low = to_lower img
      in img \<noteq> [] \<and> \<not> has_prefix low ''docker:'' \<and> \<not> contains low ''docker:dind'' \<and>
         list_ex (\<lambda>pat. let pat = trim_space pat
                         in pat \<noteq> [] \<and> (path_match pat img \<or>
                              CHR ''/'' \<in> set img \<and> path_match pat (after_last_slash img)))
           (image_allow_patterns getenv))"

definition default_checkup_image :: "genv \<Rightarrow> string" where
  "default_checkup_image getenv =
     (let v = trim_space (getenv ''OPA_JOB_IMAGE_CHECKUP'')
      in if v \<noteq> [] then v
         else ''ora-runner-ai:'' @ nz (trim_space (getenv ''OPA_JOB_IMAGE_TAG'')) ''smoke'')"

subsection \<open>Command lines and paths\<close>

definition checkup_argv_binary :: "string \<Rightarrow> string" where
  "checkup_argv_binary argv0 =
     (let a = trim_space argv0 in if a = [] then [] else to_lower (path_base a))"

definition looks_like_shell_string :: "string list \<Rightarrow> bool" where
  "looks_like_shell_string argv =
     (length argv = 1 \<and> contains_any (argv ! 0) ('' '' @ [CHR 0x09, CHR 0x0A] @ '';&|'') \<or>
      2 \<le> length argv \<and>
        (let bin = checkup_argv_binary (argv ! 0)
         in bin \<in> set denied_binaries \<or> bin = ''env'' \<or> bin = ''xargs'' \<or>
            3 \<le> length argv \<and> (argv ! 1 = ''-c'' \<or> argv ! 1 = ''-lc'')))"

definition escapes :: "string \<Rightarrow> bool" where
  "escapes p \<longleftrightarrow> p = ''..'' \<or> has_prefix p ''../''"

definition safe_rel_artifact_path :: "string \<Rightarrow> bool" where
  "safe_rel_artifact_path p =
     (let p = path_clean (trim_space p) in p \<noteq> [] \<and> p \<noteq> ''.'' \<and> \<not> is_abs p \<and> \<not> escapes p)"

text \<open>The condition as normalised (the zero value when refused), and the drops it adds.\<close>

definition normalize_post_condition :: "post_cond \<Rightarrow> string \<Rightarrow> post_cond \<times> string list" where
  "normalize_post_condition pc step_id =
     (let kind = to_lower (trim_space (po_kind pc)); path = trim_space (po_path pc);
          say = (\<lambda>what. (no_post, [''step '' @ step_id @ '': '' @ what]))
      in if kind \<in> {''exit0'', ''exit_zero'', ''exit-code''} then (no_post\<lparr>po_kind := ''exit0''\<rparr>, [])
         else if kind = ''junit'' then
           (if path = [] then say ''junit post_condition needs path''
            else if \<not> safe_rel_artifact_path path then say ''junit path refused''
            else (no_post\<lparr>po_kind := ''junit'', po_path := path, po_min := max 0 (po_min pc)\<rparr>, []))
         else if kind = ''checkstyle'' then
           (if path \<noteq> [] \<and> \<not> safe_rel_artifact_path path then say ''checkstyle path refused''
            else (no_post\<lparr>po_kind := ''checkstyle'', po_path := path\<rparr>, []))
         else if kind \<in> {''stdout_contains'', ''stdout''} then
           (if trim_space (po_contains pc) = [] then say ''stdout_contains needs contains''
            else (no_post\<lparr>po_kind := ''stdout_contains'', po_contains := po_contains pc\<rparr>, []))
         else if kind \<in> {''artifact_exists'', ''artifact''} then
           (if path = [] \<or> \<not> safe_rel_artifact_path path then say ''artifact path refused''
            else (no_post\<lparr>po_kind := ''artifact_exists'', po_path := path\<rparr>, []))
         else (no_post, if kind \<noteq> [] then [''step '' @ step_id @ '': unknown post_condition '' @ kind] else []))"

definition sanitize_service_key :: "string \<Rightarrow> string" where
  "sanitize_service_key key =
     (let out = filter (\<lambda>c. is_lower c \<or> is_digit c \<or> c = CHR ''_'' \<or> c = CHR ''-'') (trim_space (to_lower key))
      in if 63 < length out then take 63 out else out)"

definition health_binaries :: "string list" where
  "health_binaries = [''mysqladmin'', ''redis-cli'', ''pg_isready'', ''curl'', ''wget'', ''true'', ''test'', ''ls'']"

definition filter_service_health_cmd :: "string list \<Rightarrow> string \<Rightarrow> string list \<times> string list" where
  "filter_service_health_cmd argv key =
     (if argv = [] then ([], [])
      else if looks_like_shell_string argv then
        ([], [''service '' @ key @ '': health_cmd shell-string refused''])
      else
        let bin = checkup_argv_binary (argv ! 0)
        in if bin \<notin> set health_binaries \<and> bin \<notin> set binary_allowlist then
             ([], [''service '' @ key @ '': health_cmd binary denied '' @ argv ! 0])
           else (argv, []))"

subsection \<open>The phpstan step\<close>

fun drop_error_format :: "string list \<Rightarrow> string list" where
  "drop_error_format [] = []"
| "drop_error_format (a # as) =
     (if a = ''--error-format'' then drop_error_format (tl as)
      else if has_prefix a ''--error-format='' then drop_error_format as
      else a # drop_error_format as)"

definition analyse_word :: "string \<Rightarrow> bool" where
  "analyse_word a \<longleftrightarrow> a = ''analyse'' \<or> a = ''analyze''"

fun separate_checkstyle :: "string list \<Rightarrow> bool" where
  "separate_checkstyle (a # b # as) =
     (a = ''--error-format'' \<and> equal_fold b ''checkstyle'' \<or> separate_checkstyle (b # as))"
| "separate_checkstyle _ = False"

definition has_checkstyle :: "string list \<Rightarrow> bool" where
  "has_checkstyle as \<longleftrightarrow>
     list_ex (\<lambda>a. has_prefix a ''--error-format=checkstyle'') as \<or> separate_checkstyle as"

definition phpstan_argv :: "string list \<Rightarrow> string list" where
  "phpstan_argv argv =
     (let first = (if path_base (argv ! 0) = ''phpstan'' \<and> \<not> contains (argv ! 0) ''vendor/bin''
                   then ''vendor/bin/phpstan'' else argv ! 0);
          rest = tl argv;
          body = (if list_ex analyse_word rest then [] else [''analyse'']) @ rest @
                 (if ''--no-progress'' \<in> set rest then [] else [''--no-progress''])
      in if has_checkstyle rest then first # body
         else (first # drop_error_format body) @ [''--error-format=checkstyle''])"

definition normalize_phpstan_step :: "checkup_step \<Rightarrow> checkup_step" where
  "normalize_phpstan_step st =
     (if cs_argv st = [] \<or> checkup_argv_binary (cs_argv st ! 0) \<noteq> ''phpstan'' then st
      else
        let st = st\<lparr>cs_argv := phpstan_argv (cs_argv st)\<rparr>;
            kind = to_lower (trim_space (po_kind (cs_post st)))
        in if kind \<in> {[], ''exit0'', ''exit_zero'', ''exit-code''}
           then st\<lparr>cs_post := no_post\<lparr>po_kind := ''checkstyle''\<rparr>\<rparr> else st)"

subsection \<open>The environment, secrets, services and steps\<close>

text \<open>
  The three environment filters differ: the plan's refuses the denied secret names and the proxy
  variables as well, a step's the proxy variables, a service's only what looks like a secret.
\<close>

fun police_plan_env :: "(string \<Rightarrow> bool) \<Rightarrow> env_map \<Rightarrow> env_map \<Rightarrow> env_map \<times> string list" where
  "police_plan_env looks_secret [] out = (out, [])"
| "police_plan_env looks_secret ((k, v) # kvs) out =
     (let k = trim_space k; uk = to_upper k
      in if k = [] then police_plan_env looks_secret kvs out
         else if looks_secret k \<or> uk \<in> set denied_secret_names then
           apsnd ((#) (''env: dropped secret-looking '' @ k)) (police_plan_env looks_secret kvs out)
         else if is_egress_env_key uk then
           apsnd ((#) (''env: dropped egress override '' @ k)) (police_plan_env looks_secret kvs out)
         else police_plan_env looks_secret kvs (AList.update k v out))"

fun police_env :: "(string \<Rightarrow> bool) \<Rightarrow> string \<Rightarrow> env_map \<Rightarrow> env_map \<Rightarrow> env_map \<times> string list" where
  "police_env refused why [] out = (out, [])"
| "police_env refused why ((k, v) # kvs) out =
     (let k = trim_space k
      in if k = [] then police_env refused why kvs out
         else if refused k then apsnd ((#) (why @ k)) (police_env refused why kvs out)
         else police_env refused why kvs (AList.update k v out))"

fun police_secrets :: "string list \<Rightarrow> string list \<Rightarrow> string list \<times> string list" where
  "police_secrets [] out = (out, [])"
| "police_secrets (n # ns) out =
     (let n = trim_space n; uk = to_upper n
      in if n = [] then police_secrets ns out
         else if uk \<in> set denied_secret_names \<or> contains uk ''GITHUB'' \<and> contains uk ''TOKEN'' then
           apsnd ((#) (''secret: denied '' @ n)) (police_secrets ns out)
         else if uk \<notin> set grantable_secrets \<and> n \<notin> set grantable_secrets then
           apsnd ((#) (''secret: not grantable '' @ n)) (police_secrets ns out)
         else if uk \<in> set out then apsnd ((#) (''secret: duplicate '' @ n)) (police_secrets ns out)
         else police_secrets ns (out @ [uk]))"

definition clamp_note :: "string \<Rightarrow> int \<Rightarrow> int \<Rightarrow> string" where
  "clamp_note what n hi = what @ show_int n @ right_arrow @ show_int hi"

text \<open>One service: kept (with its drops) or dropped.\<close>

definition police_service ::
  "genv \<Rightarrow> (string \<Rightarrow> bool) \<Rightarrow> nat \<Rightarrow> string set \<Rightarrow> checkup_service \<Rightarrow> checkup_service option \<times> string list" where
  "police_service getenv looks_secret i seen sv =
     (let key = sanitize_service_key (sv_key sv); img = trim_space (sv_image sv)
      in if key = [] then (None, [''service['' @ show_nat i @ '']: empty/invalid key''])
         else if key \<in> seen then (None, [''service: duplicate key '' @ key])
         else if img = [] \<or> \<not> image_allowed getenv img then
           (None, [''service: denied image for '' @ key @ '' ('' @ img @ '')''])
         else
           let hs = (if sv_timeout sv \<le> 0 then 120 else sv_timeout sv);
               d1 = (if 300 < hs then [clamp_note (''service '' @ key @ '': health timeout clamped '') hs 300] else []);
               (health, d2) = filter_service_health_cmd (sv_health sv) key;
               (env, d3) = police_env looks_secret (''service '' @ key @ '': dropped secret env '') (sv_env sv) []
           in (Some \<lparr>sv_key = key, sv_image = img, sv_env = env, sv_health = health, sv_timeout = min_int hs 300,
                     sv_memory = nz (trim_space (sv_memory sv)) ''1g'', sv_cpus = nz (trim_space (sv_cpus sv)) ''1''\<rparr>,
               d1 @ d2 @ d3))"

fun police_services ::
  "genv \<Rightarrow> (string \<Rightarrow> bool) \<Rightarrow> nat \<Rightarrow> checkup_service list \<Rightarrow> checkup_service list
     \<Rightarrow> checkup_service list \<times> string list" where
  "police_services getenv looks_secret i [] out = (out, [])"
| "police_services getenv looks_secret i (sv # svs) out =
     (if checkup_max_services \<le> length out then
        (out, [''service: cap '' @ show_nat checkup_max_services @ '' reached '' @ em_dash @ '' dropped remaining''])
      else
        let (kept, d) = police_service getenv looks_secret i (sv_key ` set out) sv
        in apsnd ((@) d) (police_services getenv looks_secret (Suc i) svs
             (case kept of None \<Rightarrow> out | Some x \<Rightarrow> out @ [x])))"

definition police_timeout :: "string \<Rightarrow> int \<Rightarrow> int \<times> string list" where
  "police_timeout sid t =
     (let t = (if t \<le> 0 then 600 else t)
      in (min_int t 1800, if 1800 < t then [clamp_note (''step '' @ sid @ '': timeout clamped '') t 1800] else []))"

definition police_dir :: "string \<Rightarrow> string \<Rightarrow> string \<times> string list" where
  "police_dir sid dir =
     (let wd = trim_space dir
      in if wd = [] then ([], [])
         else if is_abs (path_clean wd) \<or> escapes (path_clean wd) then
           ([], [''step '' @ sid @ '': working_dir refused '' @ dir])
         else (path_clean wd, []))"

text \<open>
  One step: whether its id is taken from now on, the step if it is kept, and the drops.
\<close>

definition police_step ::
  "(string \<Rightarrow> bool) \<Rightarrow> string \<Rightarrow> string set \<Rightarrow> checkup_step \<Rightarrow> bool \<times> checkup_step option \<times> string list" where
  "police_step looks_secret sid seen st =
     (let refuse = (\<lambda>why. (False, None, [''step '' @ sid @ why]))
      in if sid \<in> seen then (False, None, [''step: duplicate id '' @ sid])
         else if cs_argv st = [] then refuse '': empty argv''
         else if looks_like_shell_string (cs_argv st) then refuse '': refused shell-string argv''
         else
           let bin = checkup_argv_binary (cs_argv st ! 0)
           in if bin = [] \<or> bin \<in> set denied_binaries \<or> bin \<notin> set binary_allowlist then
                refuse ('': binary denied '' @ cs_argv st ! 0)
              else
                let (pc, d1) = normalize_post_condition (cs_post st) sid
                in if po_kind pc = [] then (False, None, d1 @ [''step '' @ sid @ '': missing post_condition''])
                   else
                     let (t, d2) = police_timeout sid (cs_timeout st);
                         (wd, d3) = police_dir sid (cs_dir st);
                         (env, d4) = police_env (\<lambda>k. looks_secret k \<or> is_egress_env_key (to_upper k))
                                       (''step '' @ sid @ '': dropped env '') (cs_env st) [];
                         out = \<lparr>cs_id = sid, cs_argv = cs_argv st, cs_timeout = t, cs_post = pc, cs_env = env, cs_dir = wd\<rparr>;
                         drops = d1 @ d2 @ d3 @ d4
                     in if bin \<noteq> ''phpstan'' then (True, Some out, drops)
                        else
                          let out = normalize_phpstan_step out;
                              (pc, d5) = normalize_post_condition (cs_post out) sid
                          in if po_kind pc = [] then
                               (True, None, drops @ d5 @
                                  [''step '' @ sid @ '': missing post_condition after phpstan normalize''])
                             else (True, Some (out\<lparr>cs_post := pc\<rparr>), drops @ d5))"

fun police_steps ::
  "(string \<Rightarrow> bool) \<Rightarrow> nat \<Rightarrow> checkup_step list \<Rightarrow> string set \<Rightarrow> checkup_step list
     \<Rightarrow> checkup_step list \<times> string list" where
  "police_steps looks_secret i [] seen out = (out, [])"
| "police_steps looks_secret i (st # sts) seen out =
     (if checkup_max_steps \<le> length out then
        (out, [''step: cap '' @ show_nat checkup_max_steps @ '' reached '' @ em_dash @ '' dropped remaining''])
      else
        let sid = (if trim_space (cs_id st) = [] then ''step-'' @ show_nat (i + 1) else trim_space (cs_id st));
            (taken, kept, d) = police_step looks_secret sid seen st
        in apsnd ((@) d) (police_steps looks_secret (Suc i) sts (if taken then insert sid seen else seen)
             (case kept of None \<Rightarrow> out | Some x \<Rightarrow> out @ [x])))"

subsection \<open>The intersection\<close>

definition empty_plan :: checkup_plan where
  "empty_plan =
     \<lparr>cp_version = 1, cp_image = [], cp_steps = [], cp_services = [], cp_env = [], cp_secrets = [],
      cp_source = ''empty''\<rparr>"

definition police_image :: "genv \<Rightarrow> string \<Rightarrow> string \<times> string list" where
  "police_image getenv raw =
     (let img = trim_space raw;
          d1 = (if img = [] then [''image: empty '' @ em_dash @ '' using default '' @ default_checkup_image getenv]
                else []);
          img = (if img = [] then default_checkup_image getenv else img)
      in if image_allowed getenv img then (img, d1)
         else ([], d1 @ [''image: denied '' @ img @ '' (OPA_JOB_IMAGE_ALLOW)'']))"

definition intersect_spec_with_policy ::
  "genv \<Rightarrow> (string \<Rightarrow> bool) \<Rightarrow> checkup_plan option \<Rightarrow> checkup_plan \<times> string list" where
  "intersect_spec_with_policy getenv looks_secret raw =
     (case raw of
        None \<Rightarrow> (empty_plan, [''plan: nil input''])
      | Some p \<Rightarrow>
          (let (img, d1) = police_image getenv (cp_image p);
               (env, d2) = police_plan_env looks_secret (cp_env p) [];
               (secrets, d3) = police_secrets (cp_secrets p) [];
               (services, d4) = police_services getenv looks_secret 0 (cp_services p) [];
               (steps, d5) = police_steps looks_secret 0 (cp_steps p) {} [];
               bare = (img = [] \<and> steps \<noteq> [])
           in (\<lparr>cp_version = (if cp_version p \<le> 0 then 1 else cp_version p), cp_image = img,
                cp_steps = (if bare then [] else steps), cp_services = services, cp_env = env,
                cp_secrets = secrets, cp_source = cp_source p\<rparr>,
               d1 @ d2 @ d3 @ d4 @ d5 @
                 (if bare then [''plan: no allowed image '' @ em_dash @ '' steps cannot run''] else []))))"

end
