(* ===== verification/Docker_Argv.thy ===== *)
theory Docker_Argv
  imports Go_Path Agent_Kinds
begin

text \<open>
  The command line of the job sandbox (\<^verbatim>\<open>src/job_argv.go\<close>) and the paths that may be bound into it
  (\<^verbatim>\<open>src/job_mount.go\<close>, \<^verbatim>\<open>src/job_sandbox.go\<close>).  Whether a path is a directory (\<^verbatim>\<open>os.Stat\<close>) and the host name are
  arguments.  A map of labels is an association list in the order Go ranges over it.
\<close>

subsection \<open>Names\<close>

text \<open>
  \<^verbatim>\<open>sanitizeDockerName\<close> ranges over the characters of the text: a character beyond ASCII is one
  dash, so the continuation bytes of UTF-8 add nothing.
\<close>

definition docker_safe :: "char \<Rightarrow> bool" where
  "docker_safe c \<longleftrightarrow> is_lower c \<or> is_digit c \<or> c = CHR ''-'' \<or> c = CHR ''_''"

definition continuation_byte :: "char \<Rightarrow> bool" where
  "continuation_byte c \<longleftrightarrow> 128 \<le> byte_of c \<and> byte_of c < 192"

definition sanitize_docker_name :: "string \<Rightarrow> string" where
  "sanitize_docker_name s =
     (let out = map (\<lambda>c. if docker_safe c then c else CHR ''-'')
                  (filter (\<lambda>c. \<not> continuation_byte c) (to_lower (trim_space s)))
      in if out = [] then ''job'' else if 60 < length out then take 60 out else out)"

definition opa_instance_id :: "genv \<Rightarrow> string option \<Rightarrow> string" where
  "opa_instance_id getenv hostname =
     (if trim_space (getenv ''OPA_INSTANCE_ID'') \<noteq> [] then sanitize_docker_name (trim_space (getenv ''OPA_INSTANCE_ID''))
      else case hostname of
        Some h \<Rightarrow> (if h \<noteq> [] then sanitize_docker_name h else ''local'')
      | None \<Rightarrow> ''local'')"

definition sandbox_image_for_phase :: "genv \<Rightarrow> job_phase \<Rightarrow> string" where
  "sandbox_image_for_phase getenv phase =
     (let tag = nz (trim_space (getenv ''OPA_JOB_IMAGE_TAG'')) ''smoke''
      in case phase of
           PhScan \<Rightarrow> nz (getenv ''OPA_JOB_IMAGE_SCAN'') (''osa-runner-scan:'' @ tag)
         | PhCheckup \<Rightarrow>
             (if trim_space (getenv ''OPA_JOB_IMAGE_CHECKUP'') \<noteq> [] then trim_space (getenv ''OPA_JOB_IMAGE_CHECKUP'')
              else if trim_space (getenv ''OPA_JOB_IMAGE_PHP'') \<noteq> [] then trim_space (getenv ''OPA_JOB_IMAGE_PHP'')
              else ''ora-runner-php:'' @ tag)
         | PhNone \<Rightarrow> nz (getenv ''OPA_JOB_IMAGE_GIT'') (''ora-runner-git:'' @ tag)
         | _ \<Rightarrow> nz (getenv ''OPA_JOB_IMAGE_AI'') (''ora-runner-ai:'' @ tag))"

definition pids_for_phase :: "job_phase \<Rightarrow> int" where
  "pids_for_phase phase = (if phase = PhReview \<or> phase = PhContext then 1024 else 512)"

definition host_phase_needs_honesty_stamp :: "job_phase \<Rightarrow> bool" where
  "host_phase_needs_honesty_stamp phase \<longleftrightarrow> phase \<noteq> PhNone"

subsection \<open>The gates on a command line\<close>

datatype argv_error =
    ImageRequired | JobIdRequired | WorkPathRequired | WorkPathRelative | DangerousHost string
  | PrimaryMissing string | EnvFileRelative | FlagDenied string | PublishDenied | EnvFlagDenied
  | SockDenied | BindDenied string | VarRunDenied
  | BindRelative | BindNeedsJob | BindOutside string

definition protected_dirs :: "string list" where
  "protected_dirs =
     [''/'', ''/etc'', ''/var'', ''/usr'', ''/root'', ''/home'', ''/proc'', ''/sys'', ''/dev'']"

definition mount_source :: "string \<Rightarrow> string" where
  "mount_source spec =
     (if contains spec '','' \<and> contains (to_lower spec) ''source='' then
        (case List.find (\<lambda>part. has_prefix (to_lower part) ''source='') (map trim_space (split_on CHR '','' spec)) of
           None \<Rightarrow> spec
         | Some part \<Rightarrow> trim_prefix (trim_prefix part ''source='') ''Source='')
      else case index_of spec '':'' of None \<Rightarrow> spec | Some i \<Rightarrow> take i spec)"

definition deny_dangerous_mount :: "string \<Rightarrow> argv_error option" where
  "deny_dangerous_mount spec =
     (let spec = trim_space spec
      in if spec = [] then None
         else if contains (to_lower spec) ''docker.sock'' then Some SockDenied
         else
           let host = path_clean (mount_source spec)
           in if host \<in> set protected_dirs then Some (BindDenied host)
              else if host = ''/var/run'' \<or> has_prefix host ''/var/run/'' then Some VarRunDenied
              else None)"

definition denied_flags :: "string list" where
  "denied_flags =
     [''--privileged'', ''--cap-add'', ''--device'', ''--pid=host'', ''--network=host'', ''--ipc=host'',
      ''--userns=host'', ''--security-opt=seccomp=unconfined'', ''--security-opt=apparmor=unconfined'']"

text \<open>One token of the second loop, with the tokens after it.\<close>

definition token_denied :: "string \<Rightarrow> string list \<Rightarrow> argv_error option" where
  "token_denied a rest =
     (if a \<in> {''-p'', ''--publish'', ''--publish-all'', ''-P''} then Some PublishDenied
      else if a \<in> {''--privileged'', ''--cap-add''} then Some (FlagDenied a)
      else if a \<in> {''-v'', ''--volume'', ''--mount''} then
        (case rest of b # _ \<Rightarrow> (if has_prefix b ''-'' then None else deny_dangerous_mount b) | [] \<Rightarrow> None)
      else if a \<in> {''-e'', ''--env''} then Some EnvFlagDenied
      else if has_prefix a ''-v='' \<or> has_prefix a ''--volume='' then
        deny_dangerous_mount (drop 1 (dropWhile (\<lambda>c. c \<noteq> CHR ''='') a))
      else if has_prefix a ''-e='' \<or> has_prefix a ''--env='' then Some EnvFlagDenied
      else None)"

fun scan_argv :: "string list \<Rightarrow> argv_error option" where
  "scan_argv [] = None"
| "scan_argv (a # rest) = (case token_denied a rest of Some e \<Rightarrow> Some e | None \<Rightarrow> scan_argv rest)"

definition validate_docker_run_argv :: "string list \<Rightarrow> argv_error option" where
  "validate_docker_run_argv argv =
     (case List.find (\<lambda>d. list_ex (\<lambda>a. a = d \<or> has_prefix a (d @ ''='')) argv) denied_flags of
        Some d \<Rightarrow> Some (FlagDenied d)
      | None \<Rightarrow> scan_argv argv)"

subsection \<open>The builder\<close>

record docker_spec =
  ds_name :: string
  ds_image :: string
  ds_job :: string
  ds_run :: string
  ds_instance :: string
  ds_work :: string
  ds_rel :: string
  ds_ro :: bool
  ds_network :: string
  ds_env_file :: string
  ds_memory :: string
  ds_cpus :: string
  ds_pids :: int
  ds_command :: "string list"
  ds_labels :: "(string \<times> string) list"
  ds_rm :: bool
  ds_binds :: "string list"

definition jobs_root :: string where
  "jobs_root = ''/opa-jobs''"

definition flag_value :: "string \<Rightarrow> string list \<Rightarrow> string list" where
  "flag_value f vs = concat (map (\<lambda>v. [f, v]) vs)"

definition work_rel :: "string \<Rightarrow> string" where
  "work_rel rel = (let r = trim_set (trim_space rel) ''/'' in if r = [] then ''primary'' else r)"

definition container_work :: "docker_spec \<Rightarrow> string" where
  "container_work spec = jobs_root @ ''/'' @ sanitize_docker_name (ds_job spec)"

definition identity_labels :: "genv \<Rightarrow> string option \<Rightarrow> docker_spec \<Rightarrow> string list" where
  "identity_labels getenv hostname spec =
     [''opa.owner=opa-orchestrator'',
      ''opa.instance='' @ nz (ds_instance spec) (opa_instance_id getenv hostname),
      ''opa.job='' @ sanitize_docker_name (ds_job spec)] @
     (if trim_space (ds_run spec) \<noteq> [] then [''opa.run='' @ sanitize_docker_name (trim_space (ds_run spec))] else [])"

definition extra_labels :: "docker_spec \<Rightarrow> string list" where
  "extra_labels spec =
     map (\<lambda>(k, v). k @ ''='' @ v)
       (filter (\<lambda>(k, _). k \<noteq> []) (map (\<lambda>(k, v). (trim_space k, trim_space v)) (ds_labels spec)))"

definition hardening :: "docker_spec \<Rightarrow> string list" where
  "hardening spec =
     [''--user'', ''65532:65532'', ''--cap-drop'', ''ALL'', ''--security-opt'', ''no-new-privileges'', ''--read-only'',
      ''--tmpfs'', ''/tmp:rw,exec,nosuid,nodev,uid=65532,gid=65532,mode=1777,size=1g'',
      ''--tmpfs'', ''/home/opa:rw,exec,nosuid,nodev,uid=65532,gid=65532,mode=1777,size=256m'',
      ''--pids-limit'', show_int (if ds_pids spec \<le> 0 then 512 else ds_pids spec),
      ''--memory'', nz (ds_memory spec) ''4g'', ''--memory-swap'', nz (ds_memory spec) ''4g'',
      ''--cpus'', nz (ds_cpus spec) ''2'', ''--ulimit'', ''nofile=8192:8192'', ''--ulimit'', ''core=0'',
      ''--stop-timeout'', ''5'']"

definition network_of :: "docker_spec \<Rightarrow> string" where
  "network_of spec = (if trim_space (ds_network spec) = [] then ''none'' else trim_space (ds_network spec))"

text \<open>
  The directory that is bound: the parent of a leaf of the job's layout, so that siblings resolve,
  else the directory itself.
\<close>

definition bind_source :: "docker_spec \<Rightarrow> string" where
  "bind_source spec =
     (let host = path_clean (ds_work spec); base = path_base host; parent = path_dir host
      in if base \<in> {work_rel (ds_rel spec), ''primary'', ''sandbox'', ''related''} \<and>
            parent \<noteq> [] \<and> parent \<noteq> ''/'' \<and> parent \<noteq> ''.'' then parent else host)"

definition bind_target :: "docker_spec \<Rightarrow> string" where
  "bind_target spec =
     (let host = path_clean (ds_work spec); base = path_base host; parent = path_dir host
      in if base \<in> {work_rel (ds_rel spec), ''primary'', ''sandbox'', ''related''} \<and>
            parent \<noteq> [] \<and> parent \<noteq> ''/'' \<and> parent \<noteq> ''.'' then container_work spec
         else container_work spec @ ''/'' @ work_rel (ds_rel spec))"

definition primary_source :: "docker_spec \<Rightarrow> string" where
  "primary_source spec = path_join [bind_source spec, ''primary'']"

definition needs_primary :: "docker_spec \<Rightarrow> bool" where
  "needs_primary spec \<longleftrightarrow>
     \<not> ds_ro spec \<and> (work_rel (ds_rel spec) = ''sandbox'' \<or> path_base (path_clean (ds_work spec)) = ''sandbox'')"

definition work_binds :: "docker_spec \<Rightarrow> string list" where
  "work_binds spec =
     [bind_source spec @ '':'' @ bind_target spec @ '':'' @ (if ds_ro spec then ''ro'' else ''rw'')] @
     (if needs_primary spec then [primary_source spec @ '':'' @ container_work spec @ ''/primary:ro''] else [])"

definition extra_binds :: "docker_spec \<Rightarrow> string list" where
  "extra_binds spec = filter (\<lambda>b. b \<noteq> []) (map trim_space (ds_binds spec))"

definition assemble_argv :: "genv \<Rightarrow> string option \<Rightarrow> docker_spec \<Rightarrow> string list" where
  "assemble_argv getenv hostname spec =
     [''run'', if ds_rm spec then ''--rm'' else ''-d'', ''--name'',
      (if trim_space (ds_name spec) = [] then ''opa-job-'' @ sanitize_docker_name (ds_job spec)
       else trim_space (ds_name spec))] @
     flag_value ''--label'' (identity_labels getenv hostname spec) @ hardening spec @
     flag_value ''--label'' (extra_labels spec) @ [''--network'', network_of spec] @
     flag_value ''-v'' (work_binds spec) @
     [''-w'', container_work spec @ ''/'' @ work_rel (ds_rel spec)] @
     flag_value ''-v'' (extra_binds spec) @
     (if trim_space (ds_env_file spec) \<noteq> [] then [''--env-file'', trim_space (ds_env_file spec)] else []) @
     [ds_image spec] @ (if ds_command spec \<noteq> [] then ds_command spec else [''sleep'', ''infinity''])"

definition build_docker_run_argv ::
  "genv \<Rightarrow> string option \<Rightarrow> (string \<Rightarrow> bool) \<Rightarrow> docker_spec \<Rightarrow> argv_error + string list" where
  "build_docker_run_argv getenv hostname is_dir spec =
     (let host = path_clean (ds_work spec); ef = trim_space (ds_env_file spec)
      in if trim_space (ds_image spec) = [] then Inl ImageRequired
         else if trim_space (ds_job spec) = [] then Inl JobIdRequired
         else if trim_space (ds_work spec) = [] then Inl WorkPathRequired
         else if \<not> is_abs host then Inl WorkPathRelative
         else if host \<in> {''/'', ''/etc'', ''/var'', ''/usr'', ''/root''} then Inl (DangerousHost host)
         else if needs_primary spec \<and> \<not> is_dir (primary_source spec) then Inl (PrimaryMissing (primary_source spec))
         else case List.find (\<lambda>b. deny_dangerous_mount b \<noteq> None) (extra_binds spec) of
           Some b \<Rightarrow> Inl (the (deny_dangerous_mount b))
         | None \<Rightarrow>
             (if ef \<noteq> [] \<and> \<not> is_abs ef then Inl EnvFileRelative
              else case validate_docker_run_argv (assemble_argv getenv hostname spec) of
                Some e \<Rightarrow> Inl e
              | None \<Rightarrow> Inr (assemble_argv getenv hostname spec)))"

subsection \<open>Paths that may be bound\<close>

definition path_under :: "string \<Rightarrow> string \<Rightarrow> bool" where
  "path_under p root =
     (let root = path_clean root; p = path_clean p in p = root \<or> has_prefix p (root @ ''/''))"

definition opa_review_tmp_root :: "genv \<Rightarrow> string" where
  "opa_review_tmp_root getenv = path_clean (env_or getenv ''OPA_REVIEW_TMP'' ''/tmp/opa-review'')"

definition bind_roots :: "genv \<Rightarrow> string \<Rightarrow> string list" where
  "bind_roots getenv job_id =
     (let k = sanitize_docker_name job_id
      in path_join [jobs_root, k] #
         map (\<lambda>leaf. path_join [opa_review_tmp_root getenv, leaf]) (filter (\<lambda>l. l \<noteq> []) [job_id, k]))"

definition assert_job_bind_path :: "genv \<Rightarrow> string \<Rightarrow> string \<Rightarrow> argv_error option" where
  "assert_job_bind_path getenv host job_id =
     (let host = path_clean host; job_id = trim_space job_id
      in if \<not> is_abs host then Some BindRelative
         else if job_id = [] then Some BindNeedsJob
         else if list_ex (path_under host) (bind_roots getenv job_id) then None
         else Some (BindOutside host))"

definition related_ro_bind :: "genv \<Rightarrow> (string \<Rightarrow> bool) \<Rightarrow> string \<Rightarrow> string \<Rightarrow> string \<Rightarrow> string option" where
  "related_ro_bind getenv is_dir work job_id layout =
     (let related = path_join [path_dir (path_clean work), ''related'']
      in if job_id = [] \<or> \<not> is_dir related \<or> assert_job_bind_path getenv related layout \<noteq> None then None
         else Some (related @ '':'' @ jobs_root @ ''/'' @ sanitize_docker_name job_id @ ''/related:ro''))"

fun sibling_ro_binds ::
  "genv \<Rightarrow> (string \<Rightarrow> bool) \<Rightarrow> string \<Rightarrow> string \<Rightarrow> string list \<Rightarrow> string list \<Rightarrow> string list" where
  "sibling_ro_binds getenv is_dir job_id layout seen [] = []"
| "sibling_ro_binds getenv is_dir job_id layout seen (d # ds) =
     (let dir = path_clean (trim_space d)
      in if \<not> is_abs dir \<or> dir \<in> set seen \<or> \<not> is_dir dir \<or> assert_job_bind_path getenv dir layout \<noteq> None
         then sibling_ro_binds getenv is_dir job_id layout seen ds
         else (dir @ '':'' @ jobs_root @ ''/'' @ sanitize_docker_name job_id @ ''/'' @ path_base dir @ '':ro'') #
              sibling_ro_binds getenv is_dir job_id layout (dir # seen) ds)"

text \<open>\<^verbatim>\<open>writeSandboxSecretsEnvFile\<close>: the sorted lines, \<^const>\<open>None\<close> for a line that cannot be written.\<close>

definition secret_env_lines :: "(string \<times> string) list \<Rightarrow> string list option" where
  "secret_env_lines secrets =
     (let kvs = filter (\<lambda>(k, v). k \<noteq> [] \<and> v \<noteq> []) (map (\<lambda>(k, v). (trim_space k, trim_space v)) secrets)
      in if list_ex (\<lambda>(k, v). contains_any k [CHR ''='', CHR 0x0A, CHR 0x0D] \<or>
                              contains_any v [CHR 0x0A, CHR 0x0D]) kvs
         then None else Some (sort (map (\<lambda>(k, v). k @ ''='' @ v) kvs)))"

text \<open>
  \<^verbatim>\<open>dockerSandboxRunner.RunOnce\<close> up to the container: the checks, the binds and the two command lines
  (\<^verbatim>\<open>docker run\<close>, and \<^verbatim>\<open>docker exec\<close> for a box that stays).  Docker is reachable; \<open>env_file\<close> and
  \<open>sec_file\<close> are the files written for the environment and the secrets (empty: none), \<open>fresh\<close> a
  random suffix and \<open>job_net\<close> the answer of \<^verbatim>\<open>prepareAIJobNetwork\<close>.
\<close>

record sandbox_exec =
  sx_phase :: job_phase
  sx_phase_name :: string
  sx_job :: string
  sx_work :: string
  sx_rel :: string
  sx_argv :: "string list"
  sx_ro :: bool
  sx_network :: string
  sx_image :: string
  sx_ephemeral :: bool
  sx_out :: string
  sx_suffix :: string
  sx_layout :: string
  sx_network_id :: string
  sx_siblings :: "string list"

datatype run_error =
    EmptyArgv | HostDirRelative | OutDirRelative | NetworkFailed string | RunRefused argv_error

definition sandbox_container_name :: "string \<Rightarrow> string \<Rightarrow> string \<Rightarrow> string \<Rightarrow> string" where
  "sandbox_container_name job_id phase suffix fresh =
     (let suf = (if trim_space suffix = [] then fresh else trim_space suffix)
      in ''opa-job-'' @ sanitize_docker_name job_id @ ''-'' @ phase @ ''-'' @ sanitize_docker_name suf)"

definition run_label :: "string \<Rightarrow> string \<Rightarrow> string \<Rightarrow> string" where
  "run_label job_id layout network =
     (if network \<noteq> job_id then network else if layout \<noteq> job_id then layout else [])"

definition docker_run_once ::
  "genv \<Rightarrow> string option \<Rightarrow> (string \<Rightarrow> bool) \<Rightarrow> string \<Rightarrow> string \<Rightarrow> string \<Rightarrow> (string \<Rightarrow> string + string)
     \<Rightarrow> sandbox_exec \<Rightarrow> run_error + string list \<times> string list option" where
  "docker_run_once getenv hostname is_dir env_file sec_file fresh job_net x =
     (let job_id = nz (sx_job x) ''anon''; layout = nz (sx_layout x) job_id; network = nz (sx_network_id x) job_id;
          host = path_clean (sx_work x); net = nz (sx_network x) ''none''
      in if sx_argv x = [] then Inl EmptyArgv
         else if \<not> is_abs host then Inl HostDirRelative
         else case assert_job_bind_path getenv host layout of
           Some e \<Rightarrow> Inl (RunRefused e)
         | None \<Rightarrow>
         (case (if net = ''internal+proxy'' then job_net network else Inr net) of
            Inl e \<Rightarrow> Inl (NetworkFailed e)
          | Inr net \<Rightarrow>
         (if sx_out x \<noteq> [] \<and> \<not> is_abs (path_clean (sx_out x)) then Inl OutDirRelative
          else
            let name = sandbox_container_name job_id (sx_phase_name x) (sx_suffix x) fresh;
                binds = (if sx_out x \<noteq> [] then [path_clean (sx_out x) @ '':/out:rw''] else []) @
                        (case related_ro_bind getenv is_dir host job_id layout of Some b \<Rightarrow> [b] | None \<Rightarrow> []) @
                        sibling_ro_binds getenv is_dir job_id layout [] (sx_siblings x);
                spec = \<lparr>ds_name = name, ds_image = nz (sx_image x) (sandbox_image_for_phase getenv (sx_phase x)),
                        ds_job = job_id, ds_run = run_label job_id layout network,
                        ds_instance = opa_instance_id getenv hostname, ds_work = host,
                        ds_rel = nz (sx_rel x) ''primary'', ds_ro = sx_ro x, ds_network = net, ds_env_file = env_file,
                        ds_memory = [], ds_cpus = [], ds_pids = pids_for_phase (sx_phase x),
                        ds_command = (if sx_ephemeral x then sx_argv x else []), ds_labels = [],
                        ds_rm = sx_ephemeral x, ds_binds = binds\<rparr>
            in case build_docker_run_argv getenv hostname is_dir spec of
                 Inl e \<Rightarrow> Inl (RunRefused e)
               | Inr argv \<Rightarrow>
                   Inr (argv, if sx_ephemeral x then None
                              else Some ([''exec''] @ (if sec_file \<noteq> [] then [''--env-file'', sec_file] else []) @
                                         [name] @ sx_argv x)))))"

end
