(* ===== verification/Checkup_Plan.thy ===== *)
theory Checkup_Plan
  imports Checkup_Policy Docker_Argv Review_Findings
begin

text \<open>
  Deriving a check plan from the tree of a pull request (\<^verbatim>\<open>src/checkup_plan.go\<close>,
  \<^verbatim>\<open>src/checkup_phpstan.go\<close>), the reports of a step and its post condition
  (\<^verbatim>\<open>src/checkup_reports.go\<close>, \<^verbatim>\<open>src/checkup_run.go\<close>), and the preparation of sibling Go modules
  (\<^verbatim>\<open>src/checkup_workspace.go\<close>).

  The tree is a parameter: \<open>tf_read\<close> reads a file by its path under the root, \<open>tf_rules\<close> holds the
  contents of the files below \<^verbatim>\<open>.cursor/rules\<close> in walk order, \<open>tf_exists\<close> tells whether a path
  exists.  The JSON and XML decoders are parameters too.
\<close>

record tree_fs =
  tf_read :: "string \<Rightarrow> string option"
  tf_rules :: "string list"
  tf_exists :: "string \<Rightarrow> bool"

subsection \<open>Reading a plan\<close>

definition checkup_plan_max_bytes :: nat where "checkup_plan_max_bytes = 64 * 1024"

datatype plan_error = EmptyPlan | PlanTooLarge | PlanJSON string

definition parse_checkup_plan_json ::
  "(string \<Rightarrow> string + checkup_plan) \<Rightarrow> string \<Rightarrow> plan_error + checkup_plan" where
  "parse_checkup_plan_json dec raw =
     (if raw = [] then Inl EmptyPlan
      else if checkup_plan_max_bytes < length raw then Inl PlanTooLarge
      else case dec raw of
        Inl e \<Rightarrow> Inl (PlanJSON e)
      | Inr p \<Rightarrow>
          (let p = (if cp_version p = 0 then p\<lparr>cp_version := 1\<rparr> else p)
           in Inr (if cp_source p = [] then p\<lparr>cp_source := ''raw''\<rparr> else p)))"

definition fence_mark :: string where "fence_mark = ''```''"

text \<open>The text from a code fence on: after its line, up to the closing fence, trimmed.\<close>

definition fence_body :: "string \<Rightarrow> string option" where
  "fence_body rest =
     (case index_of rest nl of
        None \<Rightarrow> None
      | Some n \<Rightarrow>
          (let body = drop (n + 1) rest
           in map_option (\<lambda>c. trim_space (take c body)) (index_of body fence_mark)))"

lemma index_of_lt: "index_of s p = Some i \<Longrightarrow> p \<noteq> [] \<Longrightarrow> i < length s"
  using index_of_Some [of s p i] by auto

text \<open>
  The alternative: the first \<^verbatim>\<open>json\<close> fence whose text looks like a plan.  An unclosed fence ends the
  search.
\<close>

function json_fence :: "string \<Rightarrow> string" where
  "json_fence md =
     (case index_of md (fence_mark @ ''json'') of
        None \<Rightarrow> []
      | Some j \<Rightarrow>
          (case fence_body (drop (j + 7) md) of
             None \<Rightarrow> []
           | Some chunk \<Rightarrow>
               (if contains chunk ([CHR 0x22] @ ''steps'' @ [CHR 0x22]) \<and>
                   contains chunk ([CHR 0x22] @ ''argv'' @ [CHR 0x22])
                then chunk else json_fence (drop (j + 1) md))))"
  by pat_completeness auto
termination
proof (relation "measure length", goal_cases)
  case (2 md j chunk)
  then have "j < length md" by (intro index_of_lt) auto
  then show ?case by simp
qed simp

declare json_fence.simps [simp del]

definition extract_checkup_fence :: "string \<Rightarrow> string" where
  "extract_checkup_fence md =
     (let mark = fence_mark @ ''opa-checkup-plan''
      in case index_of md mark of
           None \<Rightarrow> json_fence md
         | Some i \<Rightarrow> (case fence_body (drop (i + length mark) md) of None \<Rightarrow> [] | Some b \<Rightarrow> b))"

definition instruction_files :: "string list" where
  "instruction_files = [''AGENTS.md'', ''CLAUDE.md'', ''CURSOR.md'']"

definition instruction_blobs :: "tree_fs \<Rightarrow> string list" where
  "instruction_blobs fs =
     filter (\<lambda>b. b \<noteq> []) (List.map_filter (tf_read fs) instruction_files) @
     filter (\<lambda>b. b \<noteq> [] \<and> length b < checkup_plan_max_bytes) (tf_rules fs)"

fun first_plan :: "(string \<Rightarrow> string + checkup_plan) \<Rightarrow> string list \<Rightarrow> checkup_plan option" where
  "first_plan dec [] = None"
| "first_plan dec (b # bs) =
     (let raw = extract_checkup_fence b
      in if raw = [] then first_plan dec bs
         else case parse_checkup_plan_json dec raw of
           Inl _ \<Rightarrow> first_plan dec bs
         | Inr p \<Rightarrow> Some (p\<lparr>cp_source := ''agents.md''\<rparr>))"

subsection \<open>The heuristic plan\<close>

definition default_go_checkup_image :: "genv \<Rightarrow> string" where
  "default_go_checkup_image getenv =
     (let v = trim_space (getenv ''OPA_JOB_IMAGE_GO'') in if v \<noteq> [] then v else ''golang:1.25'')"

definition default_php_checkup_image :: "genv \<Rightarrow> string" where
  "default_php_checkup_image getenv =
     (let v = trim_space (getenv ''OPA_JOB_IMAGE_PHP'')
      in if v \<noteq> [] then v
         else ''ora-runner-php:'' @ nz (trim_space (getenv ''OPA_JOB_IMAGE_TAG'')) ''smoke'')"

definition phpstan_configs :: "string list" where
  "phpstan_configs = [''phpstan.neon'', ''phpstan.neon.dist'', ''phpstan.dist.neon'']"

definition phpstan_baselines :: "string list" where
  "phpstan_baselines = [''phpstan-baseline.neon'', ''phpstan-baseline.neon.php'']"

definition find_phpstan_config :: "tree_fs \<Rightarrow> string" where
  "find_phpstan_config fs = (case List.find (tf_exists fs) phpstan_configs of Some n \<Rightarrow> n | None \<Rightarrow> [])"

definition find_phpstan_baseline :: "tree_fs \<Rightarrow> string" where
  "find_phpstan_baseline fs = (case List.find (tf_exists fs) phpstan_baselines of Some n \<Rightarrow> n | None \<Rightarrow> [])"

definition plan_step :: "string \<Rightarrow> string list \<Rightarrow> post_cond \<Rightarrow> int \<Rightarrow> checkup_step" where
  "plan_step sid argv pc t =
     \<lparr>cs_id = sid, cs_argv = argv, cs_timeout = t, cs_post = pc, cs_env = [], cs_dir = []\<rparr>"

definition phpstan_heuristic_step :: "tree_fs \<Rightarrow> checkup_step option" where
  "phpstan_heuristic_step fs =
     (let cfg = find_phpstan_config fs
      in if cfg = [] then None
         else Some (plan_step ''phpstan''
                ([''vendor/bin/phpstan'', ''analyse'', ''--no-progress'', ''--error-format=checkstyle''] @
                 (if cfg \<noteq> ''phpstan.neon'' then [''-c'', cfg] else []))
                (no_post\<lparr>po_kind := ''checkstyle''\<rparr>) 1200))"

definition artifact_post :: "string \<Rightarrow> post_cond" where
  "artifact_post p = no_post\<lparr>po_kind := ''artifact_exists'', po_path := p\<rparr>"

definition composer_steps :: "tree_fs \<Rightarrow> bool \<Rightarrow> checkup_step list" where
  "composer_steps fs phpunit =
     [plan_step ''composer-install''
        [''composer'', ''install'', ''--no-interaction'', ''--prefer-dist'', ''--no-scripts'', ''--no-plugins'']
        (artifact_post ''vendor/autoload.php'') 900] @
     (if phpunit then
        [plan_step ''phpunit-unit''
           [''vendor/bin/phpunit'', ''--testsuite'', ''Unit Tests'', ''--log-junit'', ''build/junit-unit.xml'']
           (no_post\<lparr>po_kind := ''junit'', po_path := ''build/junit-unit.xml'', po_min := 1\<rparr>) 1200] else []) @
     (case phpstan_heuristic_step fs of Some st \<Rightarrow> [st] | None \<Rightarrow> [])"

definition node_argv :: "tree_fs \<Rightarrow> string list" where
  "node_argv fs =
     (if tf_exists fs ''yarn.lock'' then [''yarn'', ''install'', ''--immutable'']
      else if \<not> tf_exists fs ''package-lock.json'' then [''npm'', ''install'', ''--no-fund'', ''--no-audit'']
      else [''npm'', ''ci''])"

text \<open>The image is that of the last ecosystem found: Go over Node over PHP.\<close>

definition heuristic_checkup_plan :: "genv \<Rightarrow> tree_fs \<Rightarrow> checkup_plan" where
  "heuristic_checkup_plan getenv fs =
     (let composer = tf_exists fs ''composer.json'';
          phpunit = (tf_exists fs ''phpunit.xml'' \<or> tf_exists fs ''phpunit.xml.dist'');
          node = tf_exists fs ''package.json''; gomod = tf_exists fs ''go.mod'';
          img = (if composer then default_php_checkup_image getenv else default_checkup_image getenv);
          img = (if node then nz (getenv ''OPA_JOB_IMAGE_NODE'') ''node:22'' else img);
          img = (if gomod then default_go_checkup_image getenv else img)
      in \<lparr>cp_version = 1, cp_image = img,
          cp_steps = (if composer then composer_steps fs phpunit else []) @
            (if node then [plan_step ''node-install'' (node_argv fs) (artifact_post ''node_modules'') 900] else []) @
            (if gomod then [plan_step ''go-test'' [''go'', ''test'', ''./...''] (no_post\<lparr>po_kind := ''exit0''\<rparr>) 1200]
             else []),
          cp_services = [], cp_env = [], cp_secrets = (if composer then [''COMPOSER_AUTH''] else []),
          cp_source = ''heuristic''\<rparr>)"

text \<open>\<^verbatim>\<open>deriveCheckupPlan\<close>; its error needs a root that cleans to the empty path, which none does.\<close>

definition derive_checkup_plan ::
  "genv \<Rightarrow> (string \<Rightarrow> string + checkup_plan) \<Rightarrow> tree_fs \<Rightarrow> checkup_plan" where
  "derive_checkup_plan getenv dec fs =
     (case first_plan dec (instruction_blobs fs) of
        Some p \<Rightarrow> p | None \<Rightarrow> heuristic_checkup_plan getenv fs)"

definition plan_has_phpstan_step :: "checkup_plan \<Rightarrow> bool" where
  "plan_has_phpstan_step p =
     list_ex (\<lambda>st. checkup_argv_binary (cs_argv st ! 0) = ''phpstan'' \<or> equal_fold (trim_space (cs_id st)) ''phpstan'')
       (cp_steps p)"

definition not_equal_sign :: string where "not_equal_sign = [CHR 0xE2, CHR 0x89, CHR 0xA0]"
definition implies_sign :: string where "implies_sign = [CHR 0xE2, CHR 0x87, CHR 0x92]"

definition phpstan_new_errors_honesty :: "tree_fs \<Rightarrow> checkup_plan \<Rightarrow> string" where
  "phpstan_new_errors_honesty fs p =
     (if \<not> plan_has_phpstan_step p then []
      else let bl = find_phpstan_baseline fs
           in if bl \<noteq> [] then
                ''phpstan: new-errors-only best-effort when neon includes '' @ bl @ '' (phpstan exit'' @
                not_equal_sign @ ''0 '' @ implies_sign @ '' new errors vs baseline)''
              else ''phpstan: full analyse (no baseline file; any reported error fails the check)'')"

text \<open>\<^verbatim>\<open>checkupPlanDiffSummary\<close>.\<close>

definition checkup_plan_diff_summary :: "checkup_plan option \<Rightarrow> checkup_plan option \<Rightarrow> string" where
  "checkup_plan_diff_summary prev cur =
     (case (prev, cur) of
        (None, None) \<Rightarrow> []
      | (None, _) \<Rightarrow> ''plan: first run''
      | (_, None) \<Rightarrow> ''plan: cleared''
      | (Some p, Some q) \<Rightarrow>
          (let notes =
             (if cp_image p \<noteq> cp_image q
              then [''image '' @ cp_image p @ '' '' @ right_arrow @ '' '' @ cp_image q] else []) @
             (if length (cp_steps p) \<noteq> length (cp_steps q)
              then [''steps '' @ show_nat (length (cp_steps p)) @ '' '' @ right_arrow @ '' '' @
                    show_nat (length (cp_steps q))] else []) @
             map (\<lambda>st. ''added step '' @ cs_id st)
               (filter (\<lambda>st. cs_id st \<notin> cs_id ` set (cp_steps p)) (cp_steps q))
           in if notes = [] then ''plan: unchanged'' else ''plan changed: '' @ join ''; '' notes))"

end
