(* ===== verification/Checkup_Report.thy ===== *)
theory Checkup_Report
  imports Checkup_Plan
begin

text \<open>
  The reports of a check step (\<^verbatim>\<open>src/checkup_reports.go\<close>), its post condition
  (\<^verbatim>\<open>evaluatePostCondition\<close> of \<^verbatim>\<open>src/checkup_run.go\<close>) and the sibling Go modules of the checkout
  (\<^verbatim>\<open>src/checkup_workspace.go\<close>).  The XML decoder is a parameter; reading a file gives \<^const>\<open>None\<close>
  when it fails.
\<close>

subsection \<open>Annotations\<close>

record checkup_annotation =
  an_path :: string
  an_start :: int
  an_end :: int
  an_level :: string
  an_message :: string
  an_title :: string

record junit_failure =
  jf_message :: string
  jf_body :: string

record junit_case =
  jc_name :: string
  jc_class :: string
  jc_file :: string
  jc_line :: int
  jc_failure :: "junit_failure option"
  jc_error :: "junit_failure option"

record junit_suite =
  js_tests :: int
  js_cases :: "junit_case list"

text \<open>A decoded \<^verbatim>\<open>testsuites\<close> document: its own test count and cases, and its suites.\<close>

record junit_doc =
  jd_tests :: int
  jd_suites :: "junit_suite list"
  jd_cases :: "junit_case list"

record checkstyle_error =
  ce_line :: int
  ce_severity :: string
  ce_message :: string
  ce_source :: string

record xml_dec =
  xd_suites :: "string \<Rightarrow> junit_doc option"
  xd_suite :: "string \<Rightarrow> junit_suite option"
  xd_style :: "string \<Rightarrow> (string \<times> checkstyle_error list) list option"

definition annotation_limit :: nat where "annotation_limit = 50"

definition file_annotation :: "string \<Rightarrow> int \<Rightarrow> string \<Rightarrow> string \<Rightarrow> string \<Rightarrow> checkup_annotation" where
  "file_annotation path line level title msg =
     (let line = (if line < 1 then 1 else line)
      in \<lparr>an_path = path, an_start = line, an_end = line, an_level = level, an_message = msg, an_title = title\<rparr>)"

definition classname_to_path :: "string \<Rightarrow> string" where
  "classname_to_path cn =
     (let cn = trim_space cn in if cn = [] then ''.'' else replace_all cn [backslash] ''/'' @ ''.php'')"

definition case_annotation :: "string \<Rightarrow> junit_case \<Rightarrow> checkup_annotation option" where
  "case_annotation step_id tc =
     (case (case jc_failure tc of Some f \<Rightarrow> Some f | None \<Rightarrow> jc_error tc) of
        None \<Rightarrow> None
      | Some f \<Rightarrow>
          (let msg = nz (jf_message f) (trim_space (jf_body f));
               msg = (if msg = [] then ''test failed'' else msg)
           in Some (file_annotation (nz (jc_file tc) (classname_to_path (jc_class tc))) (jc_line tc) ''failure''
                      (step_id @ '': '' @ jc_name tc) (truncate_str msg 2000))))"

definition junit_to_annotations :: "xml_dec \<Rightarrow> string \<Rightarrow> string \<Rightarrow> checkup_annotation list" where
  "junit_to_annotations xd raw step_id =
     (case xd_suites xd raw of
        Some d \<Rightarrow> List.map_filter (case_annotation step_id) (jd_cases d @ concat (map js_cases (jd_suites d)))
      | None \<Rightarrow>
          (case xd_suite xd raw of
             None \<Rightarrow> [file_annotation ''.'' 1 ''failure'' step_id ''unparseable JUnit XML'']
           | Some one \<Rightarrow> List.map_filter (case_annotation step_id) (js_cases one)))"

definition style_level :: "string \<Rightarrow> string" where
  "style_level sev =
     (let s = to_lower sev
      in if s = ''error'' \<or> s = ''fatal'' then ''failure''
         else if s = ''info'' \<or> s = ''ignore'' then ''notice'' else ''warning'')"

definition checkstyle_to_annotations :: "xml_dec \<Rightarrow> string \<Rightarrow> string \<Rightarrow> checkup_annotation list" where
  "checkstyle_to_annotations xd raw step_id =
     (case xd_style xd raw of
        None \<Rightarrow> []
      | Some files \<Rightarrow>
          concat (map (\<lambda>(name, errs). map (\<lambda>e.
            file_annotation (nz name ''.'') (ce_line e) (style_level (ce_severity e)) (nz (ce_source e) step_id)
              (truncate_str (ce_message e) 2000)) errs) files))"

definition step_annotations ::
  "xml_dec \<Rightarrow> (string \<Rightarrow> string option) \<Rightarrow> string \<Rightarrow> checkup_step \<Rightarrow> string \<Rightarrow> checkup_annotation list" where
  "step_annotations xd read root st stdout =
     (let pc = cs_post st; file = (\<lambda>p. read (path_join [root, p]))
      in if po_kind pc = ''junit'' then
           (case file (po_path pc) of
              None \<Rightarrow> [file_annotation (nz (po_path pc) ''.'') 1 ''failure'' (cs_id st)
                        (''JUnit artifact missing: '' @ po_path pc)]
            | Some raw \<Rightarrow> junit_to_annotations xd raw (cs_id st))
         else if po_kind pc = ''checkstyle'' then
           checkstyle_to_annotations xd
             (if po_path pc \<noteq> [] then (case file (po_path pc) of Some b \<Rightarrow> b | None \<Rightarrow> stdout) else stdout) (cs_id st)
         else [])"

text \<open>\<^verbatim>\<open>batchCheckupAnnotations\<close>: consecutive slices of at most fifty.\<close>

fun batches :: "'a list \<Rightarrow> 'a list list" where
  "batches [] = []"
| "batches (x # xs) = take annotation_limit (x # xs) # batches (drop (annotation_limit - 1) xs)"

text \<open>
  \<^verbatim>\<open>publishCheckupAnnotations\<close>: the updates of the check run, in order, as status, conclusion and
  slice; only the last one completes the run.
\<close>

fun annotation_updates :: "string \<Rightarrow> 'a list list \<Rightarrow> (string \<times> string \<times> 'a list) list" where
  "annotation_updates conclusion [] = [(''completed'', conclusion, [])]"
| "annotation_updates conclusion [b] = [(''completed'', conclusion, b)]"
| "annotation_updates conclusion (b # c # bs) = (''in_progress'', [], b) # annotation_updates conclusion (c # bs)"

subsection \<open>Post conditions\<close>

definition word_char :: "char \<Rightarrow> bool" where
  "word_char c \<longleftrightarrow> is_lower c \<or> is_upper c \<or> is_digit c \<or> c = CHR ''_''"

text \<open>The matches of \<^verbatim>\<open>(?i)<testcase\b\<close>; two of them cannot overlap.\<close>

fun count_testcase_tags :: "string \<Rightarrow> int" where
  "count_testcase_tags [] = 0"
| "count_testcase_tags (c # s) =
     (if has_prefix (to_lower (c # s)) ''<testcase'' \<and>
         (drop 8 s = [] \<or> \<not> word_char (hd (drop 8 s))) then 1 else 0) + count_testcase_tags s"

definition count_junit_tests :: "xml_dec \<Rightarrow> string \<Rightarrow> int" where
  "count_junit_tests xd raw =
     (let n = count_testcase_tags raw
      in if 0 < n then n
         else case xd_suites xd raw of
           Some d \<Rightarrow> jd_tests d + sum_list (map js_tests (jd_suites d))
         | None \<Rightarrow> 0)"

definition evaluate_post_condition ::
  "xml_dec \<Rightarrow> (string \<Rightarrow> string option) \<Rightarrow> (string \<Rightarrow> bool) \<Rightarrow> post_cond \<Rightarrow> bool \<Rightarrow> string \<Rightarrow> string
     \<Rightarrow> bool \<times> string \<times> int" where
  "evaluate_post_condition xd read exists pc exit_ok stdout root =
     (let k = po_kind pc
      in if k = ''exit0'' then (if exit_ok then (True, [], 0) else (False, ''nonzero exit'', 0))
         else if k = ''junit'' then
           (if \<not> exit_ok then (False, ''nonzero exit before junit check'', 0)
            else case read (path_join [root, po_path pc]) of
              None \<Rightarrow> (False, ''junit artifact missing: '' @ po_path pc, 0)
            | Some raw \<Rightarrow>
                (let n = count_junit_tests xd raw; need = (if po_min pc \<le> 0 then 1 else po_min pc)
                 in if n < need
                    then (False, ''junit testcase count '' @ show_int n @ '' < min '' @ show_int need, n)
                    else (True, [], n)))
         else if k = ''checkstyle'' then (if exit_ok then (True, [], 0) else (False, ''nonzero exit'', 0))
         else if k = ''stdout_contains'' then
           (if \<not> exit_ok then (False, ''nonzero exit'', 0)
            else if \<not> contains stdout (po_contains pc) then (False, ''stdout missing expected fragment'', 0)
            else (True, [], 0))
         else if k = ''artifact_exists'' then
           (if \<not> exit_ok then (False, ''nonzero exit'', 0)
            else if \<not> exists (path_join [root, po_path pc])
            then (False, ''artifact missing: '' @ po_path pc, 0) else (True, [], 0))
         else (False, ''unknown post_condition '' @ k, 0))"

subsection \<open>Replace directives of a go.mod\<close>

record go_replace =
  gm_module :: string
  gm_rel :: string
  gm_name :: string

text \<open>
  The pattern of \<^verbatim>\<open>replaceLine\<close>: an optional keyword, the module, an optional version, the arrow
  and a path that starts with a dot.  The version is matched greedily and given back as needed.
\<close>

definition arrow_target :: "string \<Rightarrow> string option" where
  "arrow_target s =
     (let s = dropWhile re_space s
      in if has_prefix s ''=>'' then
           (let t = dropWhile re_space (drop 2 s)
            in if t \<noteq> [] \<and> hd t = CHR ''.'' then Some (takeWhile (\<lambda>c. \<not> re_space c) t) else None)
         else None)"

definition version_arrow :: "string \<Rightarrow> string option" where
  "version_arrow s =
     (let t = dropWhile re_space s
      in if t \<noteq> s \<and> t \<noteq> [] \<and> hd t = CHR ''v'' then
           (let n = length (takeWhile (\<lambda>c. \<not> re_space c) (tl t))
            in case List.find (\<lambda>r. r \<noteq> None) (map (\<lambda>k. arrow_target (drop k (tl t))) (rev [1..<Suc n])) of
                 Some r \<Rightarrow> r | None \<Rightarrow> None)
         else None)"

definition module_target :: "string \<Rightarrow> (string \<times> string) option" where
  "module_target s =
     (let m = takeWhile (\<lambda>c. \<not> re_space c \<and> c \<noteq> CHR ''='') s; rest = drop (length m) s
      in if m = [] then None
         else case version_arrow rest of
           Some r \<Rightarrow> Some (m, r) | None \<Rightarrow> map_option (\<lambda>r. (m, r)) (arrow_target rest))"

definition replace_line :: "string \<Rightarrow> (string \<times> string) option" where
  "replace_line line =
     (let rest = drop 7 line
      in if has_prefix line ''replace'' \<and> rest \<noteq> [] \<and> re_space (hd rest) then
           (case module_target (dropWhile re_space rest) of Some r \<Rightarrow> Some r | None \<Rightarrow> module_target line)
         else module_target line)"

definition strip_comment :: "string \<Rightarrow> string" where
  "strip_comment raw =
     (let line = trim_space raw
      in case index_of line ''//'' of Some i \<Rightarrow> trim_space (take i line) | None \<Rightarrow> line)"

fun go_mod_replaces :: "bool \<Rightarrow> string list \<Rightarrow> go_replace list" where
  "go_mod_replaces in_block [] = []"
| "go_mod_replaces in_block (raw # ls) =
     (let line = strip_comment raw
      in if line = [] then go_mod_replaces in_block ls
         else if has_prefix line ''replace'' \<and> has_suffix line ''('' then go_mod_replaces True ls
         else if in_block \<and> line = '')'' then go_mod_replaces False ls
         else if \<not> in_block \<and> \<not> has_prefix line ''replace'' then go_mod_replaces in_block ls
         else case replace_line line of
           None \<Rightarrow> go_mod_replaces in_block ls
         | Some (m, rel) \<Rightarrow>
             (let name = path_base (path_clean rel)
              in if name = [] \<or> name = ''.'' \<or> name = ''..'' then go_mod_replaces in_block ls
                 else \<lparr>gm_module = m, gm_rel = rel, gm_name = name\<rparr> # go_mod_replaces in_block ls))"

definition parse_go_mod_replaces :: "string \<Rightarrow> go_replace list" where
  "parse_go_mod_replaces text = go_mod_replaces False (split_on CHR 0x0A text)"

subsection \<open>Sibling modules\<close>

definition module_source_roots :: "genv \<Rightarrow> string list" where
  "module_source_roots getenv =
     concat (map (\<lambda>k. map path_clean (filter (\<lambda>p. p \<noteq> [] \<and> is_abs p) (map trim_space (split_on CHR '':'' (getenv k)))))
       [''OPA_CHECKUP_MODULE_SRC'', ''FAMILY_ROOT'', ''OPA_FAMILY_SRC''])"

record workspace_report =
  ws_required :: "string list"
  ws_satisfied :: "string list"
  ws_unresolved :: "string list"
  ws_root :: string

definition workspace_blocked :: "workspace_report \<Rightarrow> bool" where
  "workspace_blocked r \<longleftrightarrow> ws_unresolved r \<noteq> []"

definition workspace_honesty :: "workspace_report \<Rightarrow> string" where
  "workspace_honesty r =
     (if \<not> workspace_blocked r then
        (if ws_satisfied r = [] then []
         else ''resolved '' @ show_nat (length (ws_satisfied r)) @ '' local module replacement(s) from '' @
              nz (ws_root r) ''the job layout'' @ '': '' @ join '', '' (ws_satisfied r))
      else ''workspace not prepared '' @ em_dash @ '' go.mod replaces '' @ join '', '' (ws_unresolved r) @
           '' with a directory outside the job checkout. '' @
           ''Mount the sibling module tree and point OPA_CHECKUP_MODULE_SRC at it; tests were not run.'')"

text \<open>
  The directories are a parameter: \<open>ready done p\<close> is \<^verbatim>\<open>goModuleDirReady(p)\<close> after the copies \<open>done\<close>
  (source and target), \<open>copy\<close> the answer of \<^verbatim>\<open>copyGoModuleDir\<close>.
\<close>

type_synonym copies = "(string \<times> string) list"

definition prepare_replace ::
  "(copies \<Rightarrow> string \<Rightarrow> bool) \<Rightarrow> (string \<Rightarrow> string \<Rightarrow> string option) \<Rightarrow> string list \<Rightarrow> string \<Rightarrow> go_replace
     \<Rightarrow> workspace_report \<times> copies \<Rightarrow> workspace_report \<times> copies" where
  "prepare_replace ready copy roots root r acc =
     (let (rep, copied) = acc;
          rep = rep\<lparr>ws_required := ws_required rep @ [gm_name r]\<rparr>;
          target = path_clean (path_join [root, gm_rel r]);
          unresolved = (\<lambda>why rep. rep\<lparr>ws_unresolved := ws_unresolved rep @ [why]\<rparr>);
          satisfied = (\<lambda>rep. rep\<lparr>ws_satisfied := ws_satisfied rep @ [gm_name r]\<rparr>)
      in if ready copied target then (satisfied rep, copied)
         else if \<not> path_under target (path_dir root) then
           (unresolved (gm_name r @ '' (outside job layout)'') rep, copied)
         else case List.find (\<lambda>s. ready copied (path_join [s, gm_name r])) roots of
           None \<Rightarrow> (unresolved (gm_name r) rep, copied)
         | Some s \<Rightarrow>
             (let src = path_join [s, gm_name r]; rep = rep\<lparr>ws_root := s\<rparr>
              in case copy src target of
                   Some e \<Rightarrow> (unresolved (gm_name r @ '' ('' @ e @ '')'') rep, copied @ [(src, target)])
                 | None \<Rightarrow> (satisfied rep, copied @ [(src, target)])))"

definition empty_report :: workspace_report where
  "empty_report = \<lparr>ws_required = [], ws_satisfied = [], ws_unresolved = [], ws_root = []\<rparr>"

definition prepare_checkup_workspace ::
  "genv \<Rightarrow> (copies \<Rightarrow> string \<Rightarrow> bool) \<Rightarrow> (string \<Rightarrow> string \<Rightarrow> string option) \<Rightarrow> (string \<Rightarrow> string option)
     \<Rightarrow> string \<Rightarrow> workspace_report \<times> copies" where
  "prepare_checkup_workspace getenv ready copy read root =
     (let root = path_clean root
      in case read (path_join [root, ''go.mod'']) of
           None \<Rightarrow> (empty_report, [])
         | Some text \<Rightarrow>
             fold (prepare_replace ready copy (module_source_roots getenv) root) (parse_go_mod_replaces text)
               (empty_report, []))"

definition checkup_module_sibling_dirs :: "(string \<Rightarrow> bool) \<Rightarrow> string \<Rightarrow> workspace_report \<Rightarrow> string list" where
  "checkup_module_sibling_dirs ready root rep =
     (let layout = path_dir (path_clean root)
      in filter (\<lambda>d. path_under d layout \<and> ready d) (map (\<lambda>n. path_join [layout, n]) (ws_satisfied rep)))"

definition purge_checkup_state :: "string \<Rightarrow> string option" where
  "purge_checkup_state root =
     (let dir = path_join [path_clean root, ''.opa-checkup'']
      in if path_under dir (path_clean root) then Some dir else None)"

end
