(* ===== verification/Cloud_Gate.thy ===== *)
theory Cloud_Gate
  imports Cred_Scope Approval_Policy Go_Path
begin

text \<open>
  The gates between a finding and a pushed fix (\<^verbatim>\<open>src/agents_authz.go\<close>): the authorisation of an
  auto-fix with its hourly limit, the refusal of tokens that may not push or write, and the
  structural gate on the candidate diff.  Time is an integer number of nanoseconds.
\<close>

subsection \<open>The hourly limit\<close>

type_synonym rate_window = "string \<Rightarrow> int list"

definition autofix_rate_limit_max :: "genv \<Rightarrow> int" where
  "autofix_rate_limit_max getenv =
     (let n = atoi_default (env_or getenv ''OPA_CLOUD_AUTOFIX_RATE_PER_HOUR'' ''5'') 5;
          n = (if n < 1 then 1 else n)
      in if 30 < n then 30 else n)"

definition hour :: int where
  "hour = 3600000000000"

datatype autofix_error =
    CloudOff | ModeOff | ModeNotAllowed string | NoKeys | NoConnector | NotGithubApp | RepoNotCovered string
  | EmptyRateRepo | RateExceeded string int | KeyNotInLedger string
  | BelowThreshold string string string | NothingSelected

definition check_autofix_rate_limit ::
  "genv \<Rightarrow> int \<Rightarrow> string \<Rightarrow> rate_window \<Rightarrow> autofix_error option \<times> rate_window" where
  "check_autofix_rate_limit getenv now repo w =
     (let repo = to_lower (trim_space repo)
      in if repo = [] then (Some EmptyRateRepo, w)
         else
           let kept = filter (\<lambda>t. now - hour < t) (w repo);
               w = w(repo := kept)
           in if autofix_rate_limit_max getenv \<le> int (length kept)
              then (Some (RateExceeded repo (autofix_rate_limit_max getenv)), w) else (None, w))"

definition record_autofix_rate :: "int \<Rightarrow> string \<Rightarrow> rate_window \<Rightarrow> rate_window" where
  "record_autofix_rate now repo w =
     (let repo = to_lower (trim_space repo)
      in if repo = [] then w else w(repo := w repo @ [now]))"

subsection \<open>Authorisation\<close>

record autofix_auth =
  aa_findings :: "agent_finding list"
  aa_mode :: string

definition severity_equals_blocker :: "string \<Rightarrow> bool" where
  "severity_equals_blocker sev =
     (let s = to_lower (trim_space sev) in s = ''blocker'' \<or> s = ''critical'')"

text \<open>
  \<^verbatim>\<open>connectorCoversRepo\<close>: \<open>watched\<close> lists connector id and repository of the watched
  repositories, \<open>repos\<close> is GitHub's list for the connector (\<^const>\<open>None\<close>: the call failed), \<open>mock\<close>
  tells the mock API.
\<close>

definition connector_covers_repo ::
  "(string \<times> string) list \<Rightarrow> (connector \<Rightarrow> string list option) \<Rightarrow> (connector \<Rightarrow> bool)
     \<Rightarrow> connector option \<Rightarrow> string \<Rightarrow> bool" where
  "connector_covers_repo watched repos mock conn repo =
     (case conn of
        None \<Rightarrow> False
      | Some c \<Rightarrow>
          (let want = to_lower (trim_space repo)
           in if trim_space repo = [] then False
              else if list_ex (\<lambda>(cid, full). cid = cn_id c \<and> to_lower full = want) watched then True
              else case repos c of
                     None \<Rightarrow> mock c
                   | Some rs \<Rightarrow> list_ex (\<lambda>r. to_lower r = want) rs))"

definition ledger_by_key :: "agent_finding list \<Rightarrow> string \<rightharpoonup> agent_finding" where
  "ledger_by_key ledger =
     fold (\<lambda>f m. let k = to_lower (trim_space (af_key f)) in if k = [] then m else m(k \<mapsto> f)) ledger Map.empty"

definition autofix_threshold :: "agent_prefs \<Rightarrow> string" where
  "autofix_threshold p =
     (let t = to_lower (trim_space (autofix_severity_threshold p)) in if t = [] then ''high'' else t)"

definition fixable :: "string \<Rightarrow> agent_finding \<Rightarrow> bool" where
  "fixable threshold f \<longleftrightarrow> severity_at_least (af_severity f) threshold \<or> severity_equals_blocker (af_severity f)"

fun select_findings ::
  "(string \<rightharpoonup> agent_finding) \<Rightarrow> string \<Rightarrow> string list \<Rightarrow> autofix_error + agent_finding list" where
  "select_findings by_key threshold [] = Inr []"
| "select_findings by_key threshold (raw # keys) =
     (let k = to_lower (trim_space raw)
      in if k = [] then select_findings by_key threshold keys
         else case by_key k of
                None \<Rightarrow> Inl (KeyNotInLedger raw)
              | Some f \<Rightarrow>
                  (if \<not> fixable threshold f then Inl (BelowThreshold (af_key f) (af_severity f) threshold)
                   else case select_findings by_key threshold keys of
                          Inl e \<Rightarrow> Inl e | Inr fs \<Rightarrow> Inr (f # fs)))"

text \<open>
  The checks before the limit; \<open>covers\<close> is \<^const>\<open>connector_covers_repo\<close> at the connector and
  repository of the request.
\<close>

definition autofix_guard ::
  "connector option \<Rightarrow> (connector option \<Rightarrow> string \<Rightarrow> bool) \<Rightarrow> agent_prefs \<Rightarrow> string \<Rightarrow> string list
     \<Rightarrow> autofix_error option" where
  "autofix_guard conn covers p repo keys =
     (let mode = to_lower (trim_space (autofix_mode p))
      in if \<not> cloud_enabled p then Some CloudOff
         else if mode = [] \<or> mode = ''off'' then Some ModeOff
         else if mode \<noteq> ''suggest'' \<and> mode \<noteq> ''branch'' then Some (ModeNotAllowed mode)
         else if keys = [] then Some NoKeys
         else case conn of
                None \<Rightarrow> Some NoConnector
              | Some c \<Rightarrow>
                  (if cn_kind c \<noteq> ''github_app'' then Some NotGithubApp
                   else if \<not> covers conn repo then Some (RepoNotCovered repo) else None))"

definition authorize_autofix_attempt ::
  "genv \<Rightarrow> int \<Rightarrow> connector option \<Rightarrow> (connector option \<Rightarrow> string \<Rightarrow> bool) \<Rightarrow> agent_prefs \<Rightarrow> string
     \<Rightarrow> agent_finding list \<Rightarrow> string list \<Rightarrow> bool \<Rightarrow> rate_window
     \<Rightarrow> (autofix_error + autofix_auth) \<times> rate_window" where
  "authorize_autofix_attempt getenv now conn covers p repo ledger keys record_rate w =
     (case autofix_guard conn covers p repo keys of
        Some e \<Rightarrow> (Inl e, w)
      | None \<Rightarrow>
          (let (rate, w) = (if record_rate then check_autofix_rate_limit getenv now repo w else (None, w))
           in case rate of
                Some e \<Rightarrow> (Inl e, w)
              | None \<Rightarrow>
                  (case select_findings (ledger_by_key ledger) (autofix_threshold p) keys of
                     Inl e \<Rightarrow> (Inl e, w)
                   | Inr fs \<Rightarrow>
                       (if fs = [] then (Inl NothingSelected, w)
                        else (Inr \<lparr>aa_findings = fs, aa_mode = to_lower (trim_space (autofix_mode p))\<rparr>,
                              if record_rate then record_autofix_rate now repo w else w)))))"

definition authorize_autofix_request where
  "authorize_autofix_request getenv now conn covers p repo ledger keys w =
     authorize_autofix_attempt getenv now conn covers p repo ledger keys True w"

subsection \<open>Tokens\<close>

datatype write_error = WNoConnector | PatRefused | NeedsGithubApp string

definition authorize_git_push :: "connector option \<Rightarrow> write_error option" where
  "authorize_git_push conn =
     (case conn of
        None \<Rightarrow> Some WNoConnector
      | Some c \<Rightarrow>
          (if cn_kind c = ''github_pat'' then Some PatRefused
           else if cn_kind c \<noteq> ''github_app'' then Some (NeedsGithubApp (cn_kind c)) else None))"

text \<open>The answer is the honesty note: present when a personal token degrades the capabilities.\<close>

definition authorize_github_write :: "genv \<Rightarrow> connector option \<Rightarrow> write_error + string option" where
  "authorize_github_write getenv conn =
     (case conn of
        None \<Rightarrow> Inl WNoConnector
      | Some c \<Rightarrow>
          (if cn_kind c = ''github_app'' then Inr None
           else if cn_kind c = ''github_pat'' then
             (if env_or getenv ''OPA_AGENTS_ALLOW_PAT_WRITE'' ''0'' \<noteq> ''1'' then Inl PatRefused
              else Inr (Some ''capability matrix degraded to shared PAT token (OPA_AGENTS_ALLOW_PAT_WRITE=1)''))
           else Inl (NeedsGithubApp (cn_kind c))))"

definition ensure_github_write_allowed ::
  "genv \<Rightarrow> scm_job \<Rightarrow> connector option \<Rightarrow> write_error option \<times> scm_job" where
  "ensure_github_write_allowed getenv j conn =
     (case authorize_github_write getenv conn of
        Inl e \<Rightarrow> (Some e, j)
      | Inr None \<Rightarrow> (None, j)
      | Inr (Some honesty) \<Rightarrow> (None, sset ''capability_honesty'' (JStr honesty) j))"

subsection \<open>The diff gate\<close>

record diff_change =
  dc_path :: string
  dc_added :: int
  dc_removed :: int
  dc_mode :: string
  dc_submodule :: bool

record diff_caps =
  cap_files :: int
  cap_lines :: int

definition default_cloud_diff_caps :: "genv \<Rightarrow> diff_caps" where
  "default_cloud_diff_caps getenv =
     (let files = atoi_default (env_or getenv ''OPA_CLOUD_DIFF_MAX_FILES'' ''20'') 20;
          lines = atoi_default (env_or getenv ''OPA_CLOUD_DIFF_MAX_LINES'' ''800'') 800
      in \<lparr>cap_files = (if files < 1 then 1 else files), cap_lines = (if lines < 1 then 1 else lines)\<rparr>)"

definition skip_review_path_names :: "string list" where
  "skip_review_path_names =
     [''package-lock.json'', ''yarn.lock'', ''pnpm-lock.yaml'', ''go.sum'', ''composer.lock'', ''cargo.lock'',
      ''poetry.lock'', ''gemfile.lock'', ''bun.lockb'']"

definition is_cloud_denied_path :: "string \<Rightarrow> string option" where
  "is_cloud_denied_path path =
     (let p = trim_prefix (trim_space path) ''./''; low = to_lower p; base = to_lower (path_base p)
      in if p = [] then Some ''empty path''
         else if low = ''.github'' \<or> has_prefix low ''.github/'' then Some ''.github/** denied''
         else if low = ''.opa'' \<or> has_prefix low ''.opa/'' then Some ''.opa/** denied''
         else if base \<in> set skip_review_path_names then Some (''lockfile denied: '' @ base)
         else None)"

text \<open>\<^verbatim>\<open>strconv.ParseInt(mode, 8, 32)\<close>: an optional sign and octal digits within 32 bits.\<close>

fun parse_octal_digits :: "int \<Rightarrow> string \<Rightarrow> int option" where
  "parse_octal_digits acc [] = Some acc"
| "parse_octal_digits acc (c # s) =
     (if 48 \<le> byte_of c \<and> byte_of c \<le> 55 then parse_octal_digits (acc * 8 + int (byte_of c) - 48) s else None)"

definition parse_octal32 :: "string \<Rightarrow> int option" where
  "parse_octal32 s =
     (let (neg, ds) = (case s of [] \<Rightarrow> (False, []) | c # t \<Rightarrow>
                         if c = CHR ''-'' then (True, t) else if c = CHR ''+'' then (False, t) else (False, s))
      in if ds = [] then None
         else case parse_octal_digits 0 ds of
                None \<Rightarrow> None
              | Some n \<Rightarrow>
                  (let v = (if neg then - n else n) in if - (2 ^ 31) \<le> v \<and> v < 2 ^ 31 then Some v else None))"

definition is_exec_git_mode :: "string \<Rightarrow> bool" where
  "is_exec_git_mode mode =
     (let mode = trim_space mode
      in if mode = [] then False
         else if mode = ''100755'' \<or> mode = ''755'' then True
         else case parse_octal32 mode of None \<Rightarrow> False | Some n \<Rightarrow> and n 73 \<noteq> 0)"

datatype gate_error = EmptyDiff | GateDenied "string list"

definition counted_path :: "diff_change \<Rightarrow> string option" where
  "counted_path c =
     (let path = trim_space (dc_path c) in if path = [] \<or> path = ''/dev/null'' then None else Some path)"

definition change_reasons :: "string list \<Rightarrow> diff_change \<Rightarrow> string \<Rightarrow> string list" where
  "change_reasons allow c path =
     (case is_cloud_denied_path path of None \<Rightarrow> [] | Some why \<Rightarrow> [path @ '': '' @ why]) @
     (if dc_submodule c \<or> dc_mode c = ''160000'' then [path @ '': submodule denied''] else []) @
     (if is_exec_git_mode (dc_mode c) then [path @ '': exec bit denied''] else []) @
     (if allow \<noteq> [] \<and> path \<notin> set allow then [path @ '': outside finding allowlist''] else [])"

definition gate_cloud_diff ::
  "genv \<Rightarrow> diff_change list \<Rightarrow> string list \<Rightarrow> diff_caps \<Rightarrow> gate_error option" where
  "gate_cloud_diff getenv changes allowlist caps =
     (let caps = (if cap_files caps \<le> 0 \<or> cap_lines caps \<le> 0 then default_cloud_diff_caps getenv else caps)
      in if changes = [] then Some EmptyDiff
         else
           let allow = filter (\<lambda>a. a \<noteq> []) (map trim_space allowlist);
               counted = List.map_filter (\<lambda>c. map_option (Pair c) (counted_path c)) changes;
               files = int (card (set (map snd counted)));
               lines = sum_list (map (\<lambda>(c, _). dc_added c + dc_removed c) counted);
               reasons = concat (map (\<lambda>(c, path). change_reasons allow c path) counted) @
                 (if cap_files caps < files
                  then [''file cap exceeded: '' @ show_int files @ '' > '' @ show_int (cap_files caps)] else []) @
                 (if cap_lines caps < lines
                  then [''line cap exceeded: '' @ show_int lines @ '' > '' @ show_int (cap_lines caps)] else [])
           in if reasons \<noteq> [] then Some (GateDenied reasons) else None)"

text \<open>\<^verbatim>\<open>parseDiffGitPath\<close> and \<^verbatim>\<open>parseCloudDiffChanges\<close>.\<close>

definition parse_diff_git_path :: "string \<Rightarrow> string" where
  "parse_diff_git_path line =
     (let parts = str_fields line
      in if 4 \<le> length parts then trim_prefix (parts ! 3) ''b/''
         else if 3 \<le> length parts then trim_prefix (parts ! 2) ''a/''
         else ''(unknown)'')"

definition mode_line :: "string \<Rightarrow> string \<Rightarrow> diff_change \<Rightarrow> diff_change" where
  "mode_line pre line c =
     (if has_prefix line pre then
        (let m = trim_space (trim_prefix line pre)
         in c\<lparr>dc_mode := m, dc_submodule := dc_submodule c \<or> m = ''160000''\<rparr>)
      else c)"

definition diff_line :: "string \<Rightarrow> diff_change \<Rightarrow> diff_change" where
  "diff_line line c =
     (let c = mode_line ''new file mode '' line (mode_line ''new mode '' line c);
          p = trim_prefix line ''+++ b/'';
          c = (if has_prefix line ''+++ b/'' \<and> p \<noteq> [] \<and> p \<noteq> ''/dev/null'' then c\<lparr>dc_path := p\<rparr> else c);
          c = (if has_prefix line ''+'' \<and> \<not> has_prefix line ''+++'' then c\<lparr>dc_added := dc_added c + 1\<rparr> else c)
      in if has_prefix line ''-'' \<and> \<not> has_prefix line ''---'' then c\<lparr>dc_removed := dc_removed c + 1\<rparr> else c)"

definition flush_change :: "diff_change option \<Rightarrow> diff_change list \<Rightarrow> diff_change list" where
  "flush_change cur out = (case cur of None \<Rightarrow> out | Some c \<Rightarrow> if dc_path c \<noteq> [] then out @ [c] else out)"

definition parse_cloud_diff_changes :: "string \<Rightarrow> diff_change list" where
  "parse_cloud_diff_changes diff =
     (if trim_space diff = [] then []
      else
        let (cur, out) = fold (\<lambda>line (cur, out).
              if has_prefix line ''diff --git '' then
                (Some \<lparr>dc_path = parse_diff_git_path line, dc_added = 0, dc_removed = 0, dc_mode = [],
                       dc_submodule = False\<rparr>, flush_change cur out)
              else (map_option (diff_line line) cur, out)) (split_on (CHR 0x0A) diff) (None, [])
        in flush_change cur out)"


subsection \<open>Laws of the authorisation\<close>

lemma ledger_fold:
  "fold (\<lambda>f m. let k = to_lower (trim_space (af_key f)) in if k = [] then m else m(k \<mapsto> f)) fs m k = Some f \<Longrightarrow>
   m k = Some f \<or> (f \<in> set fs \<and> to_lower (trim_space (af_key f)) = k \<and> k \<noteq> [])"
proof (induction fs arbitrary: m)
  case (Cons g fs)
  let ?k = "to_lower (trim_space (af_key g))"
  from Cons.IH [of "if ?k = [] then m else m(?k \<mapsto> g)"] Cons.prems show ?case
    by (auto simp: Let_def split: if_splits)
qed simp

lemma ledger_by_key_Some:
  assumes "ledger_by_key ledger k = Some f"
  shows "f \<in> set ledger \<and> to_lower (trim_space (af_key f)) = k \<and> k \<noteq> []"
  using ledger_fold [of ledger Map.empty k f] assms by (simp add: ledger_by_key_def)

lemma select_findings_Inr:
  "select_findings m t keys = Inr fs \<Longrightarrow>
     map Some fs = map m (filter (\<lambda>k. k \<noteq> []) (map (\<lambda>raw. to_lower (trim_space raw)) keys)) \<and>
     list_all (fixable t) fs"
  by (induction keys arbitrary: fs) (auto simp: Let_def split: if_splits option.splits sum.splits)

lemma autofix_guard_None:
  "autofix_guard conn covers p repo keys = None \<Longrightarrow>
     cloud_enabled p \<and> to_lower (trim_space (autofix_mode p)) \<in> {''suggest'', ''branch''} \<and> covers conn repo \<and>
     (\<exists>c. conn = Some c \<and> cn_kind c = ''github_app'')"
  by (cases conn) (simp_all add: autofix_guard_def Let_def split: if_splits)

lemma autofix_accepted:
  assumes "authorize_autofix_attempt getenv now conn covers p repo ledger keys rec w = (Inr ok, w')"
  shows "autofix_guard conn covers p repo keys = None \<and>
    aa_mode ok = to_lower (trim_space (autofix_mode p)) \<and> aa_findings ok \<noteq> [] \<and>
    select_findings (ledger_by_key ledger) (autofix_threshold p) keys = Inr (aa_findings ok)"
  using assms unfolding authorize_autofix_attempt_def
  by (auto simp only: split: if_splits option.splits sum.splits prod.splits)
    (auto simp: Let_def split: if_splits option.splits sum.splits prod.splits)

text \<open>
  An auto-fix works only on authorised findings.  When the gate accepts, auto-fix is switched
  on in a mode that exists, the connector is a GitHub App that covers the repository, and the
  findings are exactly the ledger's entries under the requested keys, in their order, each with the
  severity of the ledger at the threshold or above, or a blocker.
\<close>

theorem autofix_only_authorised:
  assumes "authorize_autofix_attempt getenv now conn covers p repo ledger keys rec w = (Inr ok, w')"
  shows "cloud_enabled p \<and> aa_mode ok \<in> {''suggest'', ''branch''} \<and> covers conn repo \<and>
    (\<exists>c. conn = Some c \<and> cn_kind c = ''github_app'') \<and> aa_findings ok \<noteq> [] \<and>
    map (\<lambda>f. to_lower (trim_space (af_key f))) (aa_findings ok) =
      filter (\<lambda>k. k \<noteq> []) (map (\<lambda>raw. to_lower (trim_space raw)) keys) \<and>
    (\<forall>f \<in> set (aa_findings ok). f \<in> set ledger \<and> fixable (autofix_threshold p) f)"
proof -
  let ?ks = "filter (\<lambda>k. k \<noteq> []) (map (\<lambda>raw. to_lower (trim_space raw)) keys)"
  have sel: "map Some (aa_findings ok) = map (ledger_by_key ledger) ?ks" "list_all (fixable (autofix_threshold p)) (aa_findings ok)"
    using select_findings_Inr autofix_accepted [OF assms] by blast+
  have entry: "f \<in> set ledger \<and> to_lower (trim_space (af_key f)) = k"
    if "ledger_by_key ledger k = Some f" for k f
    using ledger_by_key_Some [OF that] by blast
  have "length (aa_findings ok) = length ?ks" using sel(1) by (metis length_map)
  then have nth: "ledger_by_key ledger (?ks ! i) = Some (aa_findings ok ! i)" if "i < length ?ks" for i
    using sel(1) that by (metis nth_map)
  have "map (\<lambda>f. to_lower (trim_space (af_key f))) (aa_findings ok) = ?ks"
    by (rule nth_equalityI) (use nth entry \<open>length (aa_findings ok) = length ?ks\<close> in \<open>simp_all\<close>)
  moreover have "f \<in> set ledger" if f: "f \<in> set (aa_findings ok)" for f
  proof -
    from f obtain i where "i < length ?ks" "aa_findings ok ! i = f"
      using \<open>length (aa_findings ok) = length ?ks\<close> by (metis in_set_conv_nth)
    then show ?thesis using nth entry by blast
  qed
  ultimately show ?thesis using autofix_accepted [OF assms] autofix_guard_None [of conn covers p repo keys] sel(2)
    by (simp add: list_all_iff)
qed

subsection \<open>Laws of the limit\<close>

lemma limit_bounds: "1 \<le> autofix_rate_limit_max getenv" "autofix_rate_limit_max getenv \<le> 30"
  by (simp_all add: autofix_rate_limit_max_def Let_def)

definition norm_repo :: "string \<Rightarrow> string" where
  "norm_repo repo = to_lower (trim_space repo)"

definition recent :: "int \<Rightarrow> int list \<Rightarrow> int list" where
  "recent now ts = filter (\<lambda>t. now - hour < t) ts"

lemma authorize_window:
  assumes "authorize_autofix_attempt getenv now conn covers p repo ledger keys True w = (res, w')"
  shows "(\<exists>e. res = Inl e) \<Longrightarrow> \<forall>r. w' r = w r \<or> w' r = recent now (w r)"
    and "(\<exists>ok. res = Inr ok) \<Longrightarrow>
      int (length (recent now (w (norm_repo repo)))) < autofix_rate_limit_max getenv \<and>
      w' = w(norm_repo repo := recent now (w (norm_repo repo)) @ [now])"
  using assms
  by (auto simp: authorize_autofix_attempt_def check_autofix_rate_limit_def record_autofix_rate_def
      norm_repo_def recent_def Let_def split: if_splits option.splits sum.splits list.splits prod.splits)

record autofix_request =
  ar_now :: int
  ar_conn :: "connector option"
  ar_prefs :: agent_prefs
  ar_repo :: string
  ar_ledger :: "agent_finding list"
  ar_keys :: "string list"

text \<open>A history of requests: the repositories and times of those accepted.\<close>

fun serve_requests ::
  "genv \<Rightarrow> (connector option \<Rightarrow> string \<Rightarrow> bool) \<Rightarrow> autofix_request list \<Rightarrow> rate_window \<Rightarrow> (string \<times> int) list" where
  "serve_requests getenv covers [] w = []"
| "serve_requests getenv covers (a # as) w =
     (case authorize_autofix_request getenv (ar_now a) (ar_conn a) covers (ar_prefs a) (ar_repo a)
             (ar_ledger a) (ar_keys a) w of
        (Inl e, w) \<Rightarrow> serve_requests getenv covers as w
      | (Inr ok, w) \<Rightarrow> (norm_repo (ar_repo a), ar_now a) # serve_requests getenv covers as w)"

definition within :: "int \<Rightarrow> int list \<Rightarrow> nat" where
  "within t ts = length (filter (\<lambda>s. t - hour < s \<and> s \<le> t) ts)"

definition window_ok :: "nat \<Rightarrow> int \<Rightarrow> (string \<Rightarrow> int list) \<Rightarrow> rate_window \<Rightarrow> bool" where
  "window_ok limit now acc w \<longleftrightarrow>
     (\<forall>r. (\<forall>s \<in> set (acc r). s \<le> now) \<and> recent now (w r) = recent now (acc r) \<and>
          (\<forall>t. within t (acc r) \<le> limit))"

lemma recent_recent: "now \<le> later \<Longrightarrow> recent later (recent now ts) = recent later ts"
  by (simp add: recent_def) (meson order.strict_trans2 diff_right_mono le_less_trans)

lemma window_later:
  assumes "window_ok limit now acc w" "now \<le> later" "\<forall>r. w' r = w r \<or> w' r = recent later (w r)"
  shows "window_ok limit later acc w'"
proof -
  have "recent later (w' r) = recent later (acc r)" for r
  proof -
    have "w' r = w r \<or> w' r = recent later (w r)" using assms(3) by blast
    then have "recent later (w' r) = recent later (w r)" using recent_recent [of later later "w r"] by auto
    also have "\<dots> = recent later (recent now (w r))" using recent_recent [OF assms(2)] by simp
    also have "\<dots> = recent later (recent now (acc r))" using assms(1) by (simp add: window_ok_def)
    finally show ?thesis using recent_recent [OF assms(2)] by simp
  qed
  then show ?thesis using assms(1,2) unfolding window_ok_def by force
qed

lemma within_snoc:
  assumes "\<forall>s \<in> set ts. s \<le> now" "length (recent now ts) < limit" "\<forall>t. within t ts \<le> limit"
  shows "within t (ts @ [now]) \<le> limit"
proof (cases "t - hour < now \<and> now \<le> t")
  case True
  have "within t ts \<le> length (recent now ts)"
    unfolding within_def recent_def using True by (induction ts) auto
  with assms(2) True show ?thesis by (simp add: within_def)
next
  case False
  then have "within t (ts @ [now]) = within t ts" by (auto simp: within_def)
  then show ?thesis using assms(3) by simp
qed


definition stamps :: "string \<Rightarrow> (string \<times> int) list \<Rightarrow> int list" where
  "stamps r log = map snd (filter (\<lambda>(repo, t). repo = r) log)"

lemma stamps_append [simp]: "stamps r (a @ b) = stamps r a @ stamps r b"
  by (simp add: stamps_def)

lemma stamps_single [simp]: "stamps r [(repo, t)] = (if r = repo then [t] else [])"
  by (simp add: stamps_def)

lemma window_accept:
  assumes ok: "window_ok limit now (\<lambda>r. stamps r log) w" and later: "now \<le> later"
    and room: "length (recent later (w repo)) < limit"
  shows "window_ok limit later (\<lambda>r. stamps r (log @ [(repo, later)])) (w(repo := recent later (w repo) @ [later]))"
proof -
  have base: "window_ok limit later (\<lambda>r. stamps r log) w" using window_later [OF ok later] by simp
  have "recent later (recent later (w repo) @ [later]) = recent later (stamps repo log @ [later])"
    using base recent_recent [of later later "w repo"] by (simp add: window_ok_def) (simp add: recent_def)
  moreover have "within t (stamps repo log @ [later]) \<le> limit" for t
    using base room by (intro within_snoc) (simp_all add: window_ok_def)
  ultimately show ?thesis using base by (simp add: window_ok_def)
qed

lemma serve_within:
  "window_ok (nat (autofix_rate_limit_max getenv)) now (\<lambda>r. stamps r log) w \<Longrightarrow>
    sorted (now # map ar_now as) \<Longrightarrow>
    within t (stamps r (log @ serve_requests getenv covers as w)) \<le> nat (autofix_rate_limit_max getenv)"
proof (induction as arbitrary: now log w)
  case Nil
  then show ?case by (simp add: window_ok_def)
next
  case (Cons a as)
  let ?limit = "nat (autofix_rate_limit_max getenv)"
  obtain res w' where auth: "authorize_autofix_attempt getenv (ar_now a) (ar_conn a) covers (ar_prefs a) (ar_repo a)
      (ar_ledger a) (ar_keys a) True w = (res, w')" by force
  note step = authorize_window [OF auth]
  have le: "now \<le> ar_now a" and srt: "sorted (ar_now a # map ar_now as)" using Cons.prems(2) by simp_all
  show ?case
  proof (cases res)
    case (Inl e)
    have "window_ok ?limit (ar_now a) (\<lambda>r. stamps r log) w'"
      using window_later [OF Cons.prems(1) le] step(1) Inl by blast
    from Cons.IH [OF this srt] Inl auth show ?thesis by (simp add: authorize_autofix_request_def)
  next
    case (Inr ok)
    have "length (recent (ar_now a) (w (norm_repo (ar_repo a)))) < ?limit" using step(2) Inr by auto
    from window_accept [OF Cons.prems(1) le this] step(2) Inr
    have "window_ok ?limit (ar_now a) (\<lambda>r. stamps r (log @ [(norm_repo (ar_repo a), ar_now a)])) w'" by simp
    from Cons.IH [OF this srt] Inr auth show ?thesis by (simp add: authorize_autofix_request_def)
  qed
qed

text \<open>
  The hourly limit holds over any history.  Whatever requests arrive in the order of their
  times, for any repositories, connectors and keys, at most the configured number (between one and
  thirty) is accepted for a repository in any window of an hour.
\<close>

theorem autofix_rate_bounded:
  assumes "sorted (map ar_now as)"
  shows "within t (stamps r (serve_requests getenv covers as (\<lambda>_. []))) \<le> nat (autofix_rate_limit_max getenv) \<and>
    nat (autofix_rate_limit_max getenv) \<in> {1..30}"
proof
  show "nat (autofix_rate_limit_max getenv) \<in> {1..30}" using limit_bounds [of getenv] by auto
  show "within t (stamps r (serve_requests getenv covers as (\<lambda>_. []))) \<le> nat (autofix_rate_limit_max getenv)"
  proof (cases as)
    case Nil
    then show ?thesis by (simp add: stamps_def within_def)
  next
    case (Cons a rest)
    have "window_ok (nat (autofix_rate_limit_max getenv)) (ar_now a) (\<lambda>r. stamps r []) (\<lambda>_. [])"
      by (simp add: window_ok_def stamps_def within_def recent_def)
    moreover have "sorted (ar_now a # map ar_now as)" using assms Cons by simp
    ultimately show ?thesis using serve_within [where log = "[]"] by fastforce
  qed
qed

subsection \<open>Laws of the diff gate\<close>

definition change_allowed :: "string list \<Rightarrow> diff_change \<Rightarrow> string \<Rightarrow> bool" where
  "change_allowed allow c path \<longleftrightarrow>
     is_cloud_denied_path path = None \<and> \<not> dc_submodule c \<and> dc_mode c \<noteq> ''160000'' \<and>
     \<not> is_exec_git_mode (dc_mode c) \<and> (allow = [] \<or> path \<in> set allow)"

lemma change_reasons_Nil: "change_reasons allow c path = [] \<longleftrightarrow> change_allowed allow c path"
  by (auto simp: change_reasons_def change_allowed_def split: option.splits)

lemma all_reasons_Nil:
  "concat (map (\<lambda>(c, path). change_reasons allow c path) cs) = [] \<longleftrightarrow>
     list_all (\<lambda>(c, path). change_allowed allow c path) cs"
  by (induction cs) (auto simp: change_reasons_Nil)

text \<open>
  C28: what the diff gate lets through.  A non-empty diff is accepted exactly when every change of a
  real path is outside the protected directories and lock files, makes nothing executable, adds no
  submodule and stays inside the allowed paths when there are any, and the files and lines touched
  are within the caps.
\<close>

theorem gate_diff_decides:
  assumes "0 < cap_files caps" "0 < cap_lines caps" "changes \<noteq> []"
  shows "gate_cloud_diff getenv changes allowlist caps = None \<longleftrightarrow>
    (let allow = filter (\<lambda>a. a \<noteq> []) (map trim_space allowlist);
         counted = List.map_filter (\<lambda>c. map_option (Pair c) (counted_path c)) changes
     in list_all (\<lambda>(c, path). change_allowed allow c path) counted \<and>
        int (card (snd ` set counted)) \<le> cap_files caps \<and>
        (\<Sum>(c, _) \<leftarrow> counted. dc_added c + dc_removed c) \<le> cap_lines caps)"
  using assms
  by (simp add: gate_cloud_diff_def Let_def not_less all_reasons_Nil conj_commute conj_left_commute
      del: concat_eq_Nil_conv)

text \<open>
  A file name with a space slips past the gate.  The path of a removed file is read from the
  \<^verbatim>\<open>diff --git\<close> line split at the spaces, so a diff that removes a workflow under \<^verbatim>\<open>.github\<close> is
  judged as a change of the last word of its name.
\<close>

definition removed_workflow :: string where
  "removed_workflow =
     join [CHR 0x0A]
       [''diff --git a/.github/my flow.yml b/.github/my flow.yml'', ''deleted file mode 100644'',
        ''--- a/.github/my flow.yml'', ''+++ /dev/null'', ''@@ -1 +0,0 @@'', ''-on: push'']"

theorem removed_workflow_accepted:
  "map dc_path (parse_cloud_diff_changes removed_workflow) = [''flow.yml''] \<and>
   gate_cloud_diff (\<lambda>_. []) (parse_cloud_diff_changes removed_workflow) [''flow.yml'']
     \<lparr>cap_files = 20, cap_lines = 800\<rparr> = None \<and>
   is_cloud_denied_path ''.github/my flow.yml'' \<noteq> None"
  by code_simp


subsection \<open>Samples\<close>

definition sample_finding :: "string \<Rightarrow> string \<Rightarrow> agent_finding" where
  "sample_finding key sev =
     \<lparr>af_key = key, af_source = ''bugbot'', af_severity = sev, af_file = ''a.go'', af_line = 1, af_message = [],
      af_rule = [], af_namespace = []\<rparr>"

definition branch_prefs :: agent_prefs where
  "branch_prefs = builtin_agent_prefs\<lparr>cloud_enabled := True, autofix_mode := ''branch''\<rparr>"

definition sample_fix_request :: "int \<Rightarrow> autofix_request" where
  "sample_fix_request t =
     \<lparr>ar_now = t, ar_conn = Some sample_connector, ar_prefs = branch_prefs, ar_repo = ''o/r'',
      ar_ledger = [sample_finding ''k1'' ''high'', sample_finding ''k2'' ''low''], ar_keys = [''K1'']\<rparr>"

lemma autofix_only_authorised_witness:
  "\<exists>ok w'. authorize_autofix_attempt (\<lambda>_. []) 0 (Some sample_connector) (\<lambda>_ _. True) branch_prefs ''o/r''
       [sample_finding ''k1'' ''high'', sample_finding ''k2'' ''low''] [''K1''] True (\<lambda>_. []) = (Inr ok, w') \<and>
     map af_key (aa_findings ok) = [''k1''] \<and> aa_findings ok \<noteq> []"
proof -
  let ?go = "authorize_autofix_attempt (\<lambda>_. []) 0 (Some sample_connector) (\<lambda>_ _. True) branch_prefs ''o/r''
       [sample_finding ''k1'' ''high'', sample_finding ''k2'' ''low''] [''K1''] True (\<lambda>_. [])"
  have "map_sum id (map af_key \<circ> aa_findings) (fst ?go) = Inr [''k1'']" by code_simp
  then obtain ok where ok: "fst ?go = Inr ok" "map af_key (aa_findings ok) = [''k1'']" by (cases "fst ?go") auto
  then have go: "?go = (Inr ok, snd ?go)" by (metis prod.collapse)
  have "aa_findings ok \<noteq> []" using autofix_only_authorised [OF go] by blast
  with go ok(2) show ?thesis by (intro exI conjI)
qed

lemma autofix_rate_bounded_witness:
  "length (serve_requests (\<lambda>_. []) (\<lambda>_ _. True) (map sample_fix_request [0, 1, 2, 3, 4, 5, 6]) (\<lambda>_. [])) = 5 \<and>
   within 6 (stamps ''o/r'' (serve_requests (\<lambda>_. []) (\<lambda>_ _. True) (map sample_fix_request [0, 1, 2, 3, 4, 5, 6]) (\<lambda>_. [])))
     \<le> nat (autofix_rate_limit_max (\<lambda>_. []))"
proof -
  have "sorted (map ar_now (map sample_fix_request [0, 1, 2, 3, 4, 5, 6]))" by (simp add: sample_fix_request_def)
  from autofix_rate_bounded [OF this] show ?thesis by (intro conjI) (code_simp, blast)
qed

lemma gate_diff_decides_witness:
  "gate_cloud_diff (\<lambda>_. [])
     [\<lparr>dc_path = ''a.go'', dc_added = 3, dc_removed = 1, dc_mode = [], dc_submodule = False\<rparr>]
     [''a.go''] \<lparr>cap_files = 1, cap_lines = 4\<rparr> = None"
  by (subst gate_diff_decides) (simp, simp, simp, code_simp)

end
