(* ===== verification/Run_Graph.thy ===== *)
theory Run_Graph
  imports PR_State Cred_Scope
begin

text \<open>
  Driving a run (\<^verbatim>\<open>src/run_graph.go\<close>, \<^verbatim>\<open>src/agents_run.go\<close>): which children are ready, the
  status a run folds to, one pass of the loop of \<^verbatim>\<open>processPRRun\<close>, the end of a run, and the three
  atomic pieces of \<^verbatim>\<open>processAgentChild\<close> (the readiness check, the start after a slot was taken, the
  finish).  The report \<^verbatim>\<open>finalizeJobEvidence\<close> builds from a job is the argument \<open>ev\<close>.
\<close>

subsection \<open>Readiness\<close>

definition startable :: "string \<Rightarrow> bool" where
  "startable st \<longleftrightarrow> st = ''queued'' \<or> st = ''waiting'' \<or> st = []"

text \<open>A dependency is settled when it is terminal; \<^verbatim>\<open>prepare\<close> must have succeeded as well.\<close>

definition dep_settled :: "agent_kind \<Rightarrow> scm_job option \<Rightarrow> bool" where
  "dep_settled d jo =
     (case jo of
        None \<Rightarrow> False
      | Some j \<Rightarrow> job_terminal (j_status j) \<and> (d = KPrepare \<longrightarrow> job_succeeded (j_status j)))"

definition last_of_kind :: "scm_job list \<Rightarrow> agent_kind \<Rightarrow> scm_job option" where
  "last_of_kind cs k = List.find (\<lambda>c. job_kind c = k) (rev cs)"

definition ready_children :: "scm_job list \<Rightarrow> scm_job list" where
  "ready_children cs =
     filter (\<lambda>c. startable (j_status c) \<and>
                 list_all (\<lambda>d. dep_settled d (last_of_kind cs d)) (agent_depends_on (job_kind c))) cs"

text \<open>\<^verbatim>\<open>agentChildReady\<close> looks every dependency up in the store, the first child of a kind.\<close>

fun deps_ready :: "string \<Rightarrow> agent_kind list \<Rightarrow> scm_state \<Rightarrow> bool \<times> scm_state" where
  "deps_ready run [] s = (True, s)"
| "deps_ready run (d # ds) s =
     (let (jo, s) = child_by_kind run d s
      in if dep_settled d jo then deps_ready run ds s else (False, s))"

definition agent_child_ready :: "scm_job \<Rightarrow> scm_state \<Rightarrow> bool \<times> scm_state" where
  "agent_child_ready j s = deps_ready (j_run_id j) (agent_depends_on (job_kind j)) s"

subsection \<open>The status of a run\<close>

record run_flags =
  rf_running :: bool
  rf_failed :: bool
  rf_queued :: bool
  rf_terminal :: bool

definition run_flag :: "scm_job \<Rightarrow> run_flags \<Rightarrow> run_flags" where
  "run_flag c f =
     (let st = j_status c
      in if st = ''running'' \<or> st = ''waiting'' then f\<lparr>rf_running := True, rf_terminal := False\<rparr>
         else if st = ''queued'' \<or> st = [] then f\<lparr>rf_queued := True, rf_terminal := False\<rparr>
         else if st = ''failed'' \<or> st = ''error'' then f\<lparr>rf_failed := True\<rparr>
         else if st = ''cancelled'' \<or> st = ''completed'' \<or> st = ''skipped'' then f
         else f\<lparr>rf_terminal := False\<rparr>)"

definition fold_run_status :: "scm_job list \<Rightarrow> string \<Rightarrow> string" where
  "fold_run_status cs parent =
     (if cs = [] then parent
      else
        let f = fold run_flag cs \<lparr>rf_running = False, rf_failed = False, rf_queued = False, rf_terminal = True\<rparr>
        in if rf_running f then ''running''
           else if rf_queued f then ''queued''
           else if \<not> rf_terminal f then parent
           else if rf_failed f then ''completed_with_errors''
           else if parent = ''cancelled'' then ''cancelled''
           else ''completed'')"

subsection \<open>The end of a run\<close>

definition copy_key :: "string \<Rightarrow> scm_job \<Rightarrow> scm_job \<Rightarrow> scm_job" where
  "copy_key k c j = (case map_of (j_summary c) k of Some v \<Rightarrow> sset k v j | None \<Rightarrow> j)"

definition copy_keys :: "string list \<Rightarrow> scm_job \<Rightarrow> scm_job \<Rightarrow> scm_job" where
  "copy_keys ks c j = fold (\<lambda>k. copy_key k c) ks j"

fun mirrored_keys :: "agent_kind \<Rightarrow> string list" where
  "mirrored_keys KPrepare = [''checkout_path'', ''worktree'', ''related_checkouts'']"
| "mirrored_keys KSecurity = [''gate'']"
| "mirrored_keys KBugbot = [''ai'']"
| "mirrored_keys KCheckup = [''checkup'', ''checkup_drops'']"
| "mirrored_keys KCloud = [''cloud'']"
| "mirrored_keys KApproval = [''review_event'', ''risk_score'', ''risk_factors'']"
| "mirrored_keys _ = []"

definition mirror_child :: "scm_job \<Rightarrow> scm_job \<Rightarrow> scm_job" where
  "mirror_child c j =
     (let j = (if j_sec_run c \<noteq> [] then j\<lparr>j_sec_run := j_sec_run c\<rparr> else j);
          j = (if j_ai_job c \<noteq> [] then j\<lparr>j_ai_job := j_ai_job c\<rparr> else j);
          j = copy_keys (mirrored_keys (job_kind c)) c j
      in j\<lparr>j_checks := fold (\<lambda>(k, v). AList.update k v) (j_checks c) (j_checks j)\<rparr>)"

definition pending_after :: "scm_job \<Rightarrow> bool \<Rightarrow> bool" where
  "pending_after c pending =
     (let v = sget c ''pending_decision''; pending = (pending \<or> v = JBool True)
      in if job_kind c = KApproval \<and> v = JBool False then False else pending)"

text \<open>
  The fallback comment.  \<open>pub\<close> is what publishing gives: nothing to publish to (no connector, or the
  mock API), an error, or success.
\<close>

datatype publish_result = PubNone | PubErr string | PubOk

definition ensure_final_comment ::
  "orch_env \<Rightarrow> (scm_job \<Rightarrow> publish_result) \<Rightarrow> scm_job \<Rightarrow> scm_job \<Rightarrow> scm_state \<Rightarrow> scm_job \<times> scm_state" where
  "ensure_final_comment env pub parent bugbot s =
     (if is_true (sget parent ''final_comment_published'') then (parent, s)
      else
        let published = sset ''pending_decision'' (JBool False) (sset ''final_comment_published'' (JBool True) parent)
        in case pub parent of
             PubNone \<Rightarrow> (published, s)
           | PubErr e \<Rightarrow> (sset ''final_comment_error'' (JStr e) parent, s)
           | PubOk \<Rightarrow> (sset ''review_event'' (JStr ''COMMENT'') published,
                      persist_scm_job env (sset ''pending_decision'' (JBool False) bugbot) s))"

definition job_is_cancelled :: "string \<Rightarrow> scm_state \<Rightarrow> bool \<times> scm_state" where
  "job_is_cancelled k s =
     (let (jo, s) = get_scm_job k s
      in (case jo of None \<Rightarrow> False | Some j \<Rightarrow> j_status j = ''cancelled'', s))"

definition issue_keys :: "string list" where
  "issue_keys = [''findings'', ''spec_draft'', ''implement'', ''publish'', ''checkout_path'', ''issue_status'']"

definition finalize_graph_run ::
  "orch_env \<Rightarrow> (scm_job \<Rightarrow> jv) \<Rightarrow> string \<Rightarrow> scm_state \<Rightarrow> scm_state" where
  "finalize_graph_run env ev run s =
     (let (jo, s) = get_scm_job run s
      in case jo of
           None \<Rightarrow> s
         | Some j \<Rightarrow>
             (let (ids, s) = list_run_children run s; cs = child_jobs ids s;
                  j = fold (copy_keys issue_keys) cs j;
                  j = j\<lparr>j_status := fold_run_status cs (j_status j), j_finished := e_now env\<rparr>
              in persist_scm_job env (sset ''evidence'' (ev j) j) s))"

definition needs_final_comment :: "scm_job list \<Rightarrow> bool" where
  "needs_final_comment cs \<longleftrightarrow>
     fold pending_after cs False \<and>
     \<not> (case last_of_kind cs KApproval of
           None \<Rightarrow> False
         | Some a \<Rightarrow> job_succeeded (j_status a) \<and> sget a ''pending_decision'' = JBool False)"

definition finalize_pr_run ::
  "orch_env \<Rightarrow> (scm_job \<Rightarrow> jv) \<Rightarrow> (scm_job \<Rightarrow> publish_result) \<Rightarrow> string \<Rightarrow> scm_state \<Rightarrow> scm_state" where
  "finalize_pr_run env ev pub run s =
     (let (jo, s) = get_scm_job run s
      in case jo of
           None \<Rightarrow> s
         | Some j0 \<Rightarrow>
             (if job_kind j0 = KIssueRun then finalize_graph_run env ev run s
              else
                let (ids, s) = list_run_children run s; cs = child_jobs ids s;
                    j = fold mirror_child cs j0;
                    (cancelled, s) = job_is_cancelled run s;
                    (j, s) = (case last_of_kind cs KBugbot of
                                Some b \<Rightarrow> (if needs_final_comment cs \<and> \<not> cancelled
                                           then ensure_final_comment env pub j b s else (j, s))
                              | None \<Rightarrow> (j, s))
                in persist_scm_job env
                     (j\<lparr>j_status := (if cancelled then ''cancelled'' else fold_run_status cs (j_status j)),
                        j_finished := e_now env\<rparr>) s))"

subsection \<open>The loop\<close>

datatype run_begin = RunGone | RunSkipped | RunDriven

definition run_finished :: "string \<Rightarrow> bool" where
  "run_finished st \<longleftrightarrow>
     st \<in> {''cancelled'', ''completed'', ''failed'', ''error'', ''skipped'', ''completed_with_errors''}"

definition skip_run :: "orch_env \<Rightarrow> string \<Rightarrow> string \<Rightarrow> scm_job \<Rightarrow> scm_job" where
  "skip_run env reason prior j =
     (let j = stamp_if (prior \<noteq> []) ''prior_reviewed_job_id'' (JStr prior)
                (sset ''skip_reason'' (JStr reason) (j\<lparr>j_status := ''skipped''\<rparr>))
      in j\<lparr>j_finished := e_now env, j_started := (if j_started j = [] then e_now env else j_started j)\<rparr>)"

text \<open>\<^verbatim>\<open>processPRRun\<close> up to its loop.\<close>

definition begin_pr_run ::
  "orch_env \<Rightarrow> (scm_job \<Rightarrow> (bool \<times> string) option) \<Rightarrow> string \<Rightarrow> scm_state \<Rightarrow> run_begin \<times> scm_state" where
  "begin_pr_run env pull run s =
     (let (jo, s) = get_scm_job run s
      in case jo of
           None \<Rightarrow> (RunGone, s)
         | Some j \<Rightarrow>
             (if run_finished (j_status j) then (RunGone, s)
              else case scm_run_skip_gate env pull j s of
                (Some (reason, prior), s) \<Rightarrow> (RunSkipped, persist_scm_job env (skip_run env reason prior j) s)
              | (None, s) \<Rightarrow>
                  (let running = j\<lparr>j_status := ''running'', j_started := e_now env\<rparr>;
                       s = (if j_status j \<noteq> ''running'' then persist_scm_job env running s else s);
                       (jo, s) = get_scm_job run s
                   in (RunDriven, case jo of Some j \<Rightarrow> snd (ensure_run_children env j s) | None \<Rightarrow> s))))"

datatype tick = TickCancelled | TickDone | TickAgain

definition start_all :: "scm_job list \<Rightarrow> scm_state \<Rightarrow> scm_state" where
  "start_all js s = fold (\<lambda>j s. log_effect (EProcess (j_id j)) s) js s"

text \<open>One pass: \<open>TickCancelled\<close> goes on to wait for the children and then finalises.\<close>

definition run_tick ::
  "orch_env \<Rightarrow> (scm_job \<Rightarrow> jv) \<Rightarrow> (scm_job \<Rightarrow> publish_result) \<Rightarrow> string \<Rightarrow> scm_state \<Rightarrow> tick \<times> scm_state" where
  "run_tick env ev pub run s =
     (let (cancelled, s) = job_is_cancelled run s
      in if cancelled then (TickCancelled, s)
         else
           let (ids, s) = list_run_children run s;
               s = start_all (ready_children (child_jobs ids s)) s;
               (ids, s) = list_run_children run s;
               cs = child_jobs ids s
           in if cs \<noteq> [] \<and> list_all (\<lambda>c. job_terminal (j_status c)) cs
              then (TickDone, finalize_pr_run env ev pub run s) else (TickAgain, s))"

definition run_deadline :: "orch_env \<Rightarrow> string \<Rightarrow> scm_state \<Rightarrow> scm_state" where
  "run_deadline env run s =
     (let (jo, s) = get_scm_job run s
      in case jo of
           None \<Rightarrow> s
         | Some j \<Rightarrow>
             (if job_terminal (j_status j) then s
              else persist_scm_job env
                     (j\<lparr>j_status := ''error'', j_error := ''run barrier deadline exceeded'',
                        j_finished := e_now env\<rparr>) s))"

text \<open>\<^verbatim>\<open>waitRunChildrenTerminal\<close> looks for this.\<close>

definition drained :: "scm_job \<Rightarrow> bool" where
  "drained c \<longleftrightarrow>
     (job_kind c = KCloud \<and>
      (sget c ''supersede_drain'' = JBool True \<or> sget c ''cancel_drain'' \<noteq> JNull) \<and>
      (j_status c = ''running'' \<or> j_status c = ''waiting'')) \<or>
     job_terminal (j_status c)"

definition run_children_drained :: "string \<Rightarrow> scm_state \<Rightarrow> bool" where
  "run_children_drained run s =
     (let (ids, s) = list_run_children run s in list_all drained (child_jobs ids s))"

subsection \<open>One child\<close>

text \<open>
  The start of \<^verbatim>\<open>processAgentChild\<close> with its slot taken: nothing for a job that is over, else it is
  running.
\<close>

definition child_over :: "string \<Rightarrow> bool" where
  "child_over st \<longleftrightarrow> st \<in> {''cancelled'', ''completed'', ''failed'', ''error'', ''skipped''}"

definition start_child :: "orch_env \<Rightarrow> scm_job \<Rightarrow> scm_state \<Rightarrow> scm_state" where
  "start_child env j s =
     persist_scm_job env (j\<lparr>j_status := ''running'', j_started := e_now env\<rparr>) s"

definition finished_child :: "orch_env \<Rightarrow> (scm_job \<Rightarrow> jv) \<Rightarrow> string option \<Rightarrow> scm_job \<Rightarrow> scm_job" where
  "finished_child env ev err j =
     (let j = (case err of
                 Some e \<Rightarrow> j\<lparr>j_status := ''failed'', j_error := e\<rparr>
               | None \<Rightarrow> (if j_status j \<noteq> ''skipped'' then j\<lparr>j_status := ''completed'', j_error := []\<rparr> else j));
          j = j\<lparr>j_finished := e_now env\<rparr>
      in sset ''evidence'' (ev j) j)"

text \<open>
  The return of the agent: a job found cancelled only gets its end, any other is reported.  The
  test and the write are two steps of the code, with nothing held in between.
\<close>

definition close_cancelled :: "orch_env \<Rightarrow> scm_job \<Rightarrow> scm_state \<Rightarrow> scm_state" where
  "close_cancelled env j s =
     (if j_finished j = [] then persist_scm_job env (j\<lparr>j_finished := e_now env\<rparr>) s else s)"

definition report_child ::
  "orch_env \<Rightarrow> (scm_job \<Rightarrow> jv) \<Rightarrow> string option \<Rightarrow> scm_job \<Rightarrow> scm_state \<Rightarrow> scm_state" where
  "report_child env ev err j s = persist_scm_job env (finished_child env ev err j) s"

subsection \<open>Retry\<close>

text \<open>What \<^verbatim>\<open>POST /jobs/{id}/retry\<close> writes: the job, whatever became of it, is queued again.\<close>

definition sdrop :: "string \<Rightarrow> scm_job \<Rightarrow> scm_job" where
  "sdrop k j = j\<lparr>j_summary := AList.delete k (j_summary j)\<rparr>"

definition legacy_kind :: "scm_job \<Rightarrow> scm_job" where
  "legacy_kind j =
     (if trim_space (j_kind j) \<noteq> [] then j
      else if should_enqueue_pr_run (j_event j) (j_pr j) then
        j\<lparr>j_kind := kind_str KRun, j_run_id := (if trim_space (j_run_id j) = [] then j_id j else j_run_id j)\<rparr>
      else
        let ev = to_lower (trim_space (j_event j))
        in if has_prefix ev ''push.'' \<or> has_prefix ev ''cron.'' then j\<lparr>j_kind := kind_str KContinuous\<rparr> else j)"

definition by_actor :: "cred_actor \<Rightarrow> scm_job \<Rightarrow> scm_job" where
  "by_actor a j = (if trim_space (ac_user a) = [] then j else j\<lparr>j_actor := trim_space (ac_user a)\<rparr>)"

definition retried :: "cred_actor \<Rightarrow> scm_job \<Rightarrow> scm_job" where
  "retried a j =
     (let j = legacy_kind ((by_actor a j)\<lparr>j_force_ai := True\<rparr>);
          j = j\<lparr>j_status := ''queued'', j_error := [], j_finished := []\<rparr>;
          j = (if j_actor j \<noteq> [] then sset ''actor_user_id'' (JStr (j_actor j)) j else j)
      in sdrop ''prior_reviewed_job_id'' (sdrop ''skip_reason'' j))"

subsection \<open>Dispatch\<close>

text \<open>\<^verbatim>\<open>processSCMJob\<close>: a row without a kind is given one by its event first.\<close>

definition continuous_event :: "string \<Rightarrow> bool" where
  "continuous_event event =
     (let ev = to_lower (trim_space event) in has_prefix ev ''push.'' \<or> has_prefix ev ''cron.'')"

definition cutover_kind :: "scm_job \<Rightarrow> scm_job option" where
  "cutover_kind j =
     (if trim_space (j_kind j) \<noteq> [] then None
      else if continuous_event (j_event j) then Some (j\<lparr>j_kind := kind_str KContinuous\<rparr>)
      else if should_enqueue_pr_run (j_event j) (j_pr j) then
        Some (j\<lparr>j_kind := kind_str KRun,
                j_run_id := (if trim_space (j_run_id j) = [] then j_id j else j_run_id j)\<rparr>)
      else None)"

definition fail_closed_unknown :: "orch_env \<Rightarrow> (string \<Rightarrow> string) \<Rightarrow> scm_job \<Rightarrow> scm_state \<Rightarrow> scm_state" where
  "fail_closed_unknown env quote j s =
     (if child_over (j_status j) then s
      else
        let kind = trim_space (j_kind j);
            msg = (if kind = []
                   then ''empty job kind '' @ em_dash @ '' run graph required for PR jobs; continuous scans must use kind=continuous''
                   else ''unknown job kind '' @ quote kind @ '' '' @ em_dash @ '' refused'')
        in persist_scm_job env
             (sset ''fail_reason'' (JStr ''unknown_kind'')
               (j\<lparr>j_error := msg, j_status := ''failed'', j_finished := e_now env,
                  j_started := (if j_started j = [] then e_now env else j_started j)\<rparr>)) s)"

definition process_scm_job ::
  "orch_env \<Rightarrow> (string \<Rightarrow> string) \<Rightarrow> string \<Rightarrow> scm_state \<Rightarrow> job_processor option \<times> scm_state" where
  "process_scm_job env quote k s =
     (let (jo, s) = get_scm_job k s
      in case jo of
           None \<Rightarrow> (None, s)
         | Some j0 \<Rightarrow>
             (let (j, s) = (case cutover_kind j0 of
                              None \<Rightarrow> (j0, s) | Some j \<Rightarrow> (j, persist_scm_job env j s));
                  p = scm_job_processor (kind_of (trim_space (j_kind j)))
              in (Some p, if p = ProcUnknown then fail_closed_unknown env quote j s else s)))"

end
