(* ===== verification/Cloud_Run.thy ===== *)
theory Cloud_Run
  imports Cloud_Gate Run_Graph Event_Envelope
begin

text \<open>
  The cloud agent (\<^verbatim>\<open>src/agent_cloud.go\<close>): up to three attempts of patch, gate, verification and
  landing.  What git, the coding agent, the sandbox and GitHub answer during one attempt is the
  record \<open>attempt_env\<close>; what reaches the outside is a list of events in order.  The job store may
  change while an attempt runs, so each look at it has its own snapshot.
\<close>

subsection \<open>Texts\<close>

text \<open>
  The verb \<^verbatim>\<open>%q\<close>: quotes and backslashes are escaped, control characters shown by number, bytes
  of printable characters beyond ASCII copied.
\<close>

definition hex_digit :: "nat \<Rightarrow> string" where
  "hex_digit n = [''0123456789abcdef'' ! n]"

definition go_quote_char :: "char \<Rightarrow> string" where
  "go_quote_char c =
     (let n = byte_of c
      in if n = 34 \<or> n = 92 then [char_of (92::nat), c]
         else if n = 7 then [char_of (92::nat), CHR ''a''] else if n = 8 then [char_of (92::nat), CHR ''b'']
         else if n = 9 then [char_of (92::nat), CHR ''t''] else if n = 10 then [char_of (92::nat), CHR ''n'']
         else if n = 11 then [char_of (92::nat), CHR ''v''] else if n = 12 then [char_of (92::nat), CHR ''f'']
         else if n = 13 then [char_of (92::nat), CHR ''r'']
         else if n < 32 \<or> n = 127 then [char_of (92::nat), CHR ''x''] @ hex_digit (n div 16) @ hex_digit (n mod 16)
         else [c])"

definition go_quote :: "string \<Rightarrow> string" where
  "go_quote s = [char_of (34::nat)] @ concat (map go_quote_char s) @ [char_of (34::nat)]"

fun autofix_error_text :: "autofix_error \<Rightarrow> string" where
  "autofix_error_text CloudOff = ''cloud_enabled=off''"
| "autofix_error_text ModeOff = ''autofix_mode=off''"
| "autofix_error_text (ModeNotAllowed m) = ''autofix_mode='' @ go_quote m @ '' not allowed''"
| "autofix_error_text NoKeys = ''empty finding_keys '' @ em_dash @ '' refusing to fix everything''"
| "autofix_error_text NoConnector = ''no connector''"
| "autofix_error_text NotGithubApp = ''capGitPush/cloud requires github_app connector (PAT refused)''"
| "autofix_error_text (RepoNotCovered r) = ''repo '' @ r @ '' not in installation for connector''"
| "autofix_error_text EmptyRateRepo = ''empty repo for rate limit''"
| "autofix_error_text (RateExceeded r n) =
     ''autofix rate limit exceeded for '' @ r @ '' ('' @ show_int n @ ''/hour)''"
| "autofix_error_text (KeyNotInLedger k) = ''finding key '' @ go_quote k @ '' not in ledger''"
| "autofix_error_text (BelowThreshold k sev t) =
     ''finding '' @ go_quote k @ '' severity '' @ go_quote sev @ '' below threshold '' @ go_quote t"
| "autofix_error_text NothingSelected = ''no authorized findings after key filter''"

fun push_error_text :: "write_error \<Rightarrow> string" where
  "push_error_text WNoConnector = ''no connector''"
| "push_error_text PatRefused = ''capGitPush refuses PAT connectors '' @ em_dash @ '' use github_app''"
| "push_error_text (NeedsGithubApp k) = ''capGitPush requires github_app (got '' @ k @ '')''"

fun write_error_text :: "write_error \<Rightarrow> string" where
  "write_error_text WNoConnector = ''no connector''"
| "write_error_text PatRefused = ''capGitHubWrite refuses PAT connectors unless OPA_AGENTS_ALLOW_PAT_WRITE=1''"
| "write_error_text (NeedsGithubApp k) = ''capGitHubWrite requires github_app or allowed PAT (got '' @ k @ '')''"

fun gate_error_text :: "gate_error \<Rightarrow> string" where
  "gate_error_text EmptyDiff = ''gateCloudDiff: empty diff''"
| "gate_error_text (GateDenied rs) = ''gateCloudDiff denied: '' @ join ''; '' rs"

definition auth_honesty :: "autofix_auth \<Rightarrow> string" where
  "auth_honesty a =
     ''authorized '' @ show_nat (length (aa_findings a)) @ '' finding(s) mode='' @ aa_mode a"

subsection \<open>Names, keys and bounds\<close>

definition cloud_max_iterations :: "genv \<Rightarrow> int" where
  "cloud_max_iterations getenv =
     (let n = atoi_default (env_or getenv ''OPA_CLOUD_MAX_ITERATIONS'' ''3'') 3;
          n = (if n < 1 then 1 else n)
      in if 3 < n then 3 else n)"

definition branch_safe :: "char \<Rightarrow> bool" where
  "branch_safe c \<longleftrightarrow> is_upper c \<or> is_lower c \<or> is_digit c \<or> c \<in> set ''._/-''"

text \<open>\<^verbatim>\<open>ReplaceAllString\<close> for \<^verbatim>\<open>[^a-zA-Z0-9._/-]+\<close>: each run of other characters is one dash.\<close>

fun squeeze_unsafe :: "bool \<Rightarrow> string \<Rightarrow> string" where
  "squeeze_unsafe inside [] = []"
| "squeeze_unsafe inside (c # s) =
     (if branch_safe c then c # squeeze_unsafe False s
      else if inside then squeeze_unsafe True s
      else CHR ''-'' # squeeze_unsafe True s)"

definition opa_fix_branch_name :: "string \<Rightarrow> int \<Rightarrow> string" where
  "opa_fix_branch_name run_id attempt =
     (let k = squeeze_unsafe False (map (\<lambda>c. if c = CHR '' '' then CHR ''-'' else c) (trim_space run_id));
          k = (if 40 < length k then take 40 k else k);
          k = (if k = [] then ''run'' else k);
          attempt = (if attempt < 1 then 1 else attempt)
      in ''opa-fix/'' @ k @ ''-'' @ show_int attempt)"

definition branch_number :: "scm_job \<Rightarrow> int \<Rightarrow> int" where
  "branch_number j iteration =
     (let n = (if j_attempt j < 1 then 1 else j_attempt j)
      in if 1 < iteration then n * 10 + iteration else n)"

definition keys_from_findings :: "agent_finding list \<Rightarrow> string list" where
  "keys_from_findings fs = filter (\<lambda>k. k \<noteq> []) (map af_key fs)"

definition finding_paths :: "agent_finding list \<Rightarrow> string list" where
  "finding_paths fs =
     fold (\<lambda>f out. let p = trim_space (af_file f)
                   in if p = [] \<or> p \<in> set out then out else out @ [p]) fs []"

definition findings_maps_from_agent :: "agent_finding list \<Rightarrow> jobj list" where
  "findings_maps_from_agent fs =
     map (\<lambda>f. [(''finding_key'', JStr (af_key f)), (''severity'', JStr (af_severity f)),
               (''file'', JStr (af_file f)), (''line'', JInt (af_line f)), (''message'', JStr (af_message f)),
               (''problem'', JStr (af_message f)), (''rule'', JStr (af_rule f))]) fs"

fun string_slice_from_any :: "jv \<Rightarrow> string list option" where
  "string_slice_from_any (JStrs xs) = Some xs"
| "string_slice_from_any (JArr vs) =
     Some (List.map_filter (\<lambda>v. case v of JStr s \<Rightarrow> if trim_space s \<noteq> [] then Some s else None | _ \<Rightarrow> None) vs)"
| "string_slice_from_any _ = None"

text \<open>
  \<^verbatim>\<open>cloudFindingKeys\<close>: the keys and the rationale.  \<open>proposal\<close> decodes a mutation proposal into its
  keys and rationale (\<^verbatim>\<open>encoding/json\<close>; \<^const>\<open>None\<close> on an error).
\<close>

definition auto_keys :: "agent_finding list \<Rightarrow> agent_prefs \<Rightarrow> string list" where
  "auto_keys ledger p = map af_key (filter (fixable (autofix_threshold p)) ledger)"

definition cloud_finding_keys ::
  "(jv \<Rightarrow> (string list \<times> string) option) \<Rightarrow> scm_job \<Rightarrow> agent_finding list \<Rightarrow> agent_prefs
     \<Rightarrow> string list \<times> string" where
  "cloud_finding_keys proposal j ledger p =
     (let raw = sget j ''mutation_proposal'';
          auto = auto_keys ledger p;
          rest = (case string_slice_from_any (sget j ''finding_keys'') of
                    Some (k # ks) \<Rightarrow> (k # ks, [])
                  | _ \<Rightarrow> (if auto \<noteq> [] then (auto, ''auto from ledger'') else ([], [])))
      in case (if raw = JNull then None else proposal raw) of
           Some (k # ks, why) \<Rightarrow> (k # ks, why)
         | _ \<Rightarrow> rest)"

text \<open>
  \<^verbatim>\<open>ledgerForCloudJob\<close>: the ledger of the approval child, else rebuilt from the bugbot and security
  children.  The decoders are parameters, as is the list of findings of a security run.
\<close>

definition ledger_for_cloud_job ::
  "(string \<Rightarrow> string) \<Rightarrow> (jv \<Rightarrow> agent_finding list option) \<Rightarrow> (jv \<Rightarrow> ai_review_result)
     \<Rightarrow> (string \<Rightarrow> string \<Rightarrow> agent_finding list) \<Rightarrow> ai_review_result \<Rightarrow> scm_job \<Rightarrow> scm_state \<Rightarrow> agent_finding list" where
  "ledger_for_cloud_job sha1hex dec_ledger dec_ai sec_findings no_review j s =
     (let (apr, s) = child_by_kind (j_run_id j) KApproval s
      in case Option.bind apr (\<lambda>a. dec_ledger (sget a ''ledger'')) of
           Some (f # fs) \<Rightarrow> f # fs
         | _ \<Rightarrow>
             (let (bot, s) = child_by_kind (j_run_id j) KBugbot s;
                  (sec, s) = child_by_kind (j_run_id j) KSecurity s
              in build_ledger sha1hex
                   (case bot of None \<Rightarrow> no_review | Some b \<Rightarrow> dec_ai (sget b ''ai''))
                   (case sec of None \<Rightarrow> [] | Some c \<Rightarrow> sec_findings (j_org j) (j_sec_run c))))"

text \<open>\<^verbatim>\<open>cloudBaseSHA\<close>.\<close>

definition cloud_base_sha :: "scm_job \<Rightarrow> scm_state \<Rightarrow> string" where
  "cloud_base_sha j s =
     (let pick = (\<lambda>jo base. case jo of None \<Rightarrow> base
                   | Some i \<Rightarrow> (let a = str_from_any (sget i ''analyzed_sha'') in if a \<noteq> [] then a else base));
          (parent, s) = get_scm_job (j_run_id j) s;
          (prep, s) = child_by_kind (j_run_id j) KPrepare s
      in pick prep (pick parent (j_sha j)))"

text \<open>
  \<^verbatim>\<open>cloudJobMustAbort\<close>: the live row, or the job itself without one, is cancelled, belongs to a
  cancelled run or carries a drain mark.
\<close>

definition cloud_job_must_abort :: "scm_job \<Rightarrow> scm_state \<Rightarrow> bool" where
  "cloud_job_must_abort j s =
     (let (lo, s) = get_scm_job (j_id j) s;
          live = (case lo of None \<Rightarrow> j | Some l \<Rightarrow> l);
          (own, s) = job_is_cancelled (j_id live) s;
          (run, s) = (if j_run_id live \<noteq> [] then job_is_cancelled (j_run_id live) s else (False, s))
      in own \<or> run \<or> is_true (sget live ''supersede_drain'') \<or>
         (sget live ''cancel_drain'' \<noteq> JNull \<and> str_from_any (sget live ''cancel_drain'') \<noteq> []))"

text \<open>\<^verbatim>\<open>githubUseMockAPI\<close>.\<close>

definition looks_like_real_token :: "string \<Rightarrow> bool" where
  "looks_like_real_token tok =
     (let tok = trim_space tok; low = to_lower tok
      in tok \<noteq> [] \<and> \<not> (contains low ''fake'' \<or> contains low ''smoke'' \<or> contains low ''example'') \<and>
         list_ex (\<lambda>p. has_prefix tok p \<and> length p + 12 < length tok)
           [''ghp_'', ''github_pat_'', ''gho_'', ''ghu_'', ''ghs_'', ''ghr_''])"

definition github_use_mock_api :: "genv \<Rightarrow> connector option \<Rightarrow> bool" where
  "github_use_mock_api getenv conn \<longleftrightarrow>
     env_or getenv ''OPA_SCM_MOCK_GITHUB'' ''0'' = ''1'' \<and>
     \<not> (case conn of None \<Rightarrow> False
        | Some c \<Rightarrow> cn_kind c = ''github_pat'' \<and> looks_like_real_token (cn_token c))"

subsection \<open>One attempt\<close>

datatype cloud_event =
    CeNote string
  | CeComment string
  | CeCommit string
  | CePush string string
  | CePull string string string
  | CeCloseFindings "string list"
  | CeCheck string string

text \<open>
  The answers of one attempt, \<^const>\<open>None\<close> for success where only an error matters: the checkouts
  and branches of both trees, the tree materialised for the agent (its root and file count), whether
  it differs from the checkout, the file list before the agent, the agent and the copy back; the
  diff and the captured patch, before and after the verification; the comment, the sandbox mode and
  the verification (status, honesty, drops); and for the landing the two snapshots of the store,
  the patch application, the commit, whether changes are left, the push, the pull request's base and
  head branch, two tries of creating one, and the number of comments closed.
\<close>

record attempt_env =
  at_checkout :: "string option"
  at_branch :: "string option"
  at_tree :: "string + (string \<times> int)"
  at_own_tree :: bool
  at_tracked :: "string option"
  at_agent :: "jobj list \<Rightarrow> string option"
  at_sync :: "string option"
  at_diff :: "string + string"
  at_capture :: "string + string"
  at_comment :: "string \<Rightarrow> string + int"
  at_sandbox :: string
  at_verify :: "string \<times> string \<times> string list"
  at_diff2 :: string
  at_capture2 :: "string + string"
  at_live_land :: scm_state
  at_land_checkout :: "string option"
  at_land_branch :: "string option"
  at_apply :: "string option"
  at_commit :: "string + string"
  at_left_changes :: bool
  at_live_push :: scm_state
  at_push :: "string option"
  at_pull :: "(string \<times> string) option"
  at_create :: "string \<Rightarrow> string + (int \<times> string)"
  at_create_again :: "string \<Rightarrow> string + (int \<times> string)"
  at_closed :: int

type_synonym outcome = "jobj \<times> string option \<times> cloud_event list"

definition oset :: "string \<Rightarrow> jv \<Rightarrow> jobj \<Rightarrow> jobj" where
  "oset k v out = AList.update k v out"

definition stop_with :: "string \<Rightarrow> string \<Rightarrow> string option \<Rightarrow> jobj \<Rightarrow> jobj \<times> string option" where
  "stop_with status honesty err out =
     (oset ''honesty'' (JStr honesty) (oset ''status'' (JStr status) out), err)"

text \<open>What the code sees as a failed stage: the message behind its label, and the message as the error.\<close>

definition fail_with :: "string \<Rightarrow> string \<Rightarrow> jobj \<Rightarrow> jobj \<times> string option" where
  "fail_with label err out = stop_with ''failed'' (label @ err) (Some err) out"

definition skipped_ai :: "genv \<Rightarrow> bool \<Rightarrow> bool" where
  "skipped_ai getenv has_cred \<longleftrightarrow> env_or getenv ''SKIP_CURSOR_AI'' ''0'' = ''1'' \<or> \<not> has_cred"

definition note_text :: "agent_finding list \<Rightarrow> string" where
  "note_text fs =
     ''# OPA Auto-fix (smoke)'' @ nl @ nl @
     concat (map (\<lambda>f. ''- `'' @ af_key f @ ''` '' @ truncate_str (af_message f) 120 @ nl) fs)"

text \<open>
  A stage that ends the attempt answers its outcome on the left, else the extended result.
  First the patch: a note with the findings when no agent runs, else the agent in its own tree, or in
  the checkout where the fallback is allowed.
\<close>

definition patch_stage ::
  "genv \<Rightarrow> bool \<Rightarrow> bool \<Rightarrow> autofix_auth \<Rightarrow> attempt_env \<Rightarrow> jobj \<Rightarrow> outcome + jobj \<times> cloud_event list" where
  "patch_stage getenv mock skipped auth E out =
     (if skipped \<or> mock then
        (let out = oset ''patch'' (JStr ''mock_or_skipped'') out;
             out = (if skipped
                    then oset ''honesty'' (JStr (''AI skipped '' @ em_dash @ '' recorded finding list only'')) out
                    else out)
         in Inr (out, [CeNote (note_text (aa_findings auth))]))
      else
        let halt = (\<lambda>label err out. let (out, e) = fail_with label err out in Inl (out, e, []))
        in case (case at_tree E of
                   Inl merr \<Rightarrow>
                     (if trim_space (getenv ''OPA_JOB_ALLOW_HOST_EXEC'') \<noteq> ''1''
                      then Inl (''cloud.patch sandbox materialize failed (set OPA_JOB_ALLOW_HOST_EXEC=1 to fall back): '', merr)
                      else Inr (oset ''sandbox_fallback'' (JStr ''host_exec'') out, False))
                 | Inr (root, n) \<Rightarrow>
                     Inr (oset ''sandbox_file_count'' (JInt n) (oset ''sandbox_tree'' (JStr root) out), at_own_tree E)) of
             Inl (label, err) \<Rightarrow> halt label err out
           | Inr (out, own) \<Rightarrow>
               (case (if own then at_tracked E else None) of
                  Some err \<Rightarrow> halt ''cloud.patch pre-sync ls-files: '' err out
                | None \<Rightarrow>
                    (case at_agent E (findings_maps_from_agent (aa_findings auth)) of
                       Some err \<Rightarrow> halt ''cloud.patch: '' err out
                     | None \<Rightarrow>
                         (case (if own then at_sync E else None) of
                            Some err \<Rightarrow> halt ''cloud.patch sync: '' err out
                          | None \<Rightarrow> Inr (oset ''patch'' (JStr ''ok'') out, [])))))"

text \<open>The first gate and the capture of the patch: the changes and the patch that passed.\<close>

definition gate_stage ::
  "genv \<Rightarrow> bool \<Rightarrow> autofix_auth \<Rightarrow> attempt_env \<Rightarrow> jobj
     \<Rightarrow> (jobj \<times> string option) + (jobj \<times> diff_change list \<times> string)" where
  "gate_stage getenv relaxed auth E out =
     (case at_diff E of
        Inl err \<Rightarrow> Inl (fail_with ''diff: '' err out)
      | Inr diff \<Rightarrow>
          (let changes = parse_cloud_diff_changes diff;
               allow = (if relaxed then [] else finding_paths (aa_findings auth));
               empty = ''gateCloudDiff denied: empty finding allowlist''
           in if \<not> relaxed \<and> allow = [] then
                Inl (stop_with ''gate_denied'' empty (Some empty) (oset ''gate'' (JStr ''denied'') out))
              else case gate_cloud_diff getenv changes allow (default_cloud_diff_caps getenv) of
                Some e \<Rightarrow>
                  Inl (stop_with ''gate_denied'' (gate_error_text e) (Some (gate_error_text e))
                         (oset ''gate'' (JStr ''denied'') out))
              | None \<Rightarrow>
                  (let out = oset ''diff_files'' (JInt (int (length changes))) (oset ''gate'' (JStr ''ok'') out)
                   in case at_capture E of
                        Inl err \<Rightarrow> Inl (fail_with ''capture patch: '' err out)
                      | Inr patch \<Rightarrow>
                          (if trim_space patch = []
                           then Inl (stop_with ''completed'' ''no file changes after patch'' None out)
                           else Inr (oset ''patch_bytes'' (JInt (int (length patch))) out, changes, patch)))))"

definition suggest_comment :: "autofix_auth \<Rightarrow> diff_change list \<Rightarrow> string \<Rightarrow> string" where
  "suggest_comment auth changes branch =
     ''## OPA Auto-fix suggestion'' @ nl @ nl @
     ''Cloud agent prepared a patch (**suggest** mode '' @ em_dash @ '' no branch pushed).'' @ nl @ nl @
     ''### Findings'' @ nl @
     concat (map (\<lambda>f. ''- **'' @ af_severity f @ ''** `'' @ af_file f @ ''` '' @ em_dash @ '' '' @
                      truncate_str (af_message f) 120 @ nl) (aa_findings auth)) @
     nl @ ''### Touched paths'' @ nl @
     concat (map (\<lambda>c. ''- `'' @ dc_path c @ ''` (+'' @ show_int (dc_added c) @ ''/-'' @
                      show_int (dc_removed c) @ '')'' @ nl) changes) @
     nl @ ''_Set `autofix_mode=branch` to land on `'' @ branch @ ''`._'' @ nl"

definition suggest_stage ::
  "scm_job \<Rightarrow> connector option \<Rightarrow> autofix_auth \<Rightarrow> attempt_env \<Rightarrow> diff_change list \<Rightarrow> string \<Rightarrow> jobj \<Rightarrow> outcome" where
  "suggest_stage j conn auth E changes branch out =
     (let lead = ''suggest mode '' @ em_dash;
          body = suggest_comment auth changes branch
      in if j_pr j \<le> 0 \<or> conn = None then
           (let why = lead @ '' missing PR or connector; cannot post proposal'';
                (out, e) = stop_with ''failed'' why (Some why) out
            in (out, e, []))
         else case at_comment E body of
           Inl err \<Rightarrow>
             (let (out, e) = stop_with ''failed'' (lead @ '' proposal post failed: '' @ err) (Some err)
                               (oset ''suggest_post_error'' (JStr err) out)
              in (out, e, []))
         | Inr _ \<Rightarrow>
             (let (out, e) = stop_with ''suggest'' (lead @ '' proposal posted, no land'') None out
              in (out, e, [CeComment body])))"

text \<open>
  \<^verbatim>\<open>runCloudVerify\<close> and the second gate, with the paths of the findings always allowed only; the
  answer is the patch to land.
\<close>

definition verify_stage ::
  "genv \<Rightarrow> agent_prefs \<Rightarrow> autofix_auth \<Rightarrow> attempt_env \<Rightarrow> string \<Rightarrow> jobj \<Rightarrow> (jobj \<times> string option) + (jobj \<times> string)" where
  "verify_stage getenv p auth E patch out =
     (if \<not> cloud_run_tests p then Inr (out, patch)
      else if at_sandbox E \<noteq> ''docker'' then
        Inl (stop_with ''failed'' (''cloud.verify SANDBOX_REQUIRED '' @ em_dash @ '' OPA_JOB_SANDBOX=docker'')
               (Some ''cloud.verify refused: SANDBOX_REQUIRED'') (oset ''verify'' (JStr ''refused'') out))
      else
        let (status, honesty, drops) = at_verify E;
            out = oset ''verify'' (JObj [(''status'', JStr status), (''honesty'', JStr honesty),
                                        (''drops'', JStrs drops)]) out
        in if status = ''failed'' \<or> status = ''refused'' then
             (let err = nz honesty status
              in Inl (stop_with ''verify_failed'' (''cloud.verify: '' @ err) (Some err) out))
           else case gate_cloud_diff getenv (parse_cloud_diff_changes (at_diff2 E))
                       (finding_paths (aa_findings auth)) (default_cloud_diff_caps getenv) of
             Some e \<Rightarrow> Inl (stop_with ''gate_denied'' (''re-gate after verify: '' @ gate_error_text e)
                             (Some (gate_error_text e)) out)
           | None \<Rightarrow>
               (case at_capture2 E of
                  Inl err \<Rightarrow> Inl (fail_with ''re-capture patch: '' err out)
                | Inr patch \<Rightarrow> Inr (out, patch)))"

subsection \<open>Landing\<close>

definition land_pr_body :: "scm_job \<Rightarrow> autofix_auth \<Rightarrow> string \<Rightarrow> string" where
  "land_pr_body j auth branch =
     ''## OPA Auto-fix'' @ nl @ nl @
     ''Automated fix from run `'' @ nz (j_run_id j) (j_id j) @ ''` on branch `'' @ branch @ ''`.'' @ nl @ nl @
     (if 0 < j_pr j then ''Original PR #'' @ show_int (j_pr j) @ ''.'' @ nl @ nl else []) @
     ''### Findings addressed'' @ nl @
     concat (map (\<lambda>f. ''- **'' @ af_severity f @ ''** `'' @ af_file f @ ''`'' @
                      (if 0 < af_line f then '':'' @ show_int (af_line f) else []) @
                      '' '' @ em_dash @ '' '' @ truncate_str (af_message f) 160 @ nl) (aa_findings auth)) @
     nl @ ''_Minimal patches only. Diff gated by `gateCloudDiff`, applied to a clean tree before land._'' @ nl"

definition land_pr_title :: "autofix_auth \<Rightarrow> string" where
  "land_pr_title auth =
     (case aa_findings auth of
        [f] \<Rightarrow> ''OPA Auto-fix: '' @ truncate_str (af_message f) 72
      | fs \<Rightarrow> ''OPA Auto-fix: '' @ show_nat (length fs) @ '' finding(s)'')"

text \<open>The base of the new pull request, and the base it falls back to.\<close>

definition land_bases :: "attempt_env \<Rightarrow> string \<Rightarrow> string \<times> string" where
  "land_bases E branch =
     (let (base, head) = (case at_pull E of
             Some (b, h) \<Rightarrow> (if b \<noteq> [] then b else ''main'', h)
           | None \<Rightarrow> (''main'', []))
      in (if head = [] \<or> head = branch then base else head, base))"

text \<open>
  The tail of \<^verbatim>\<open>landValidatedPatch\<close> once the tree is committed: the second look at the job, the
  push (which checks the connector once more), the pull request and the closing of the comments.
\<close>

definition push_and_open ::
  "scm_job \<Rightarrow> connector option \<Rightarrow> autofix_auth \<Rightarrow> attempt_env \<Rightarrow> string \<Rightarrow> string \<Rightarrow> jobj \<Rightarrow> outcome" where
  "push_and_open j conn auth E branch patch out =
     (let fail = (\<lambda>label err out evs. let (out, e) = fail_with label err out in (out, e, evs))
      in if cloud_job_must_abort j (at_live_push E) then
           (let why = ''superseded/cancelled '' @ em_dash @ '' refusing push'';
                (out, e) = stop_with ''cancelled'' why (Some why) out
            in (out, e, []))
         else case (case authorize_git_push conn of Some e \<Rightarrow> Some (push_error_text e) | None \<Rightarrow> at_push E) of
           Some err \<Rightarrow> fail ''push: '' err out []
         | None \<Rightarrow>
             (let (first, fallback) = land_bases E branch;
                  pushed = [CePush branch patch];
                  (created, base) = (case at_create E first of
                     Inr r \<Rightarrow> (Inr r, first) | Inl _ \<Rightarrow> (at_create_again E fallback, fallback))
              in case created of
                   Inl err \<Rightarrow> fail ''create PR: '' err out pushed
                 | Inr (n, url) \<Rightarrow>
                     (let out = oset ''status'' (JStr ''completed'')
                                  (oset ''pr_url'' (JStr url) (oset ''pr_number'' (JInt n) out));
                          landed = ''landed '' @ branch @ '' from clean tree'';
                          note = (if 0 < j_pr j \<and> 0 < at_closed E
                                  then landed @ ''; closed '' @ show_int (at_closed E) @ '' finding comment(s)''
                                  else landed)
                      in (oset ''honesty'' (JStr note) out, None,
                          pushed @ [CePull (land_pr_title auth) base (land_pr_body j auth branch)] @
                          (if 0 < j_pr j then [CeCloseFindings (keys_from_findings (aa_findings auth))] else [])))))"

definition land_validated_patch ::
  "scm_job \<Rightarrow> connector option \<Rightarrow> bool \<Rightarrow> autofix_auth \<Rightarrow> attempt_env \<Rightarrow> string \<Rightarrow> string \<Rightarrow> outcome" where
  "land_validated_patch j conn mock auth E branch patch =
     (let halt = (\<lambda>r. let (out, e) = r in (out, e, []));
          commit_msg = ''OPA Auto-fix: '' @ show_nat (length (aa_findings auth)) @ '' finding(s) from run '' @
                       nz (j_run_id j) (j_id j)
      in if cloud_job_must_abort j (at_live_land E) then
           (let why = ''superseded/cancelled '' @ em_dash @ '' refusing land''
            in halt (stop_with ''cancelled'' why (Some why) []))
         else case authorize_git_push conn of
           Some e \<Rightarrow> halt (fail_with [] (push_error_text e) [])
         | None \<Rightarrow>
         (case (if mock then None else at_land_checkout E) of
            Some err \<Rightarrow> halt (fail_with ''land checkout: '' err [])
          | None \<Rightarrow>
         (case at_land_branch E of
            Some err \<Rightarrow> halt (fail_with ''land branch: '' err [])
          | None \<Rightarrow>
         (case (if trim_space patch = [] then Some ''empty validated patch'' else at_apply E) of
            Some err \<Rightarrow> halt (fail_with ''apply validated patch: '' err [(''land'', JStr ''apply_failed'')])
          | None \<Rightarrow>
              (let out = [(''land'', JStr ''clean_tree'')]
               in case at_commit E of
                    Inl err \<Rightarrow>
                      (if \<not> at_left_changes E
                       then halt (stop_with ''completed'' ''no file changes to commit on clean tree'' None out)
                       else halt (fail_with ''commit: '' err out))
                  | Inr sha \<Rightarrow>
                      (let out = oset ''commit_sha'' (JStr sha) out
                       in if mock then
                            (let (out, e) = stop_with ''completed'' ''mock land on clean tree'' None out
                             in (oset ''pr_url'' (JStr (''https://github.com/'' @ j_repo j @ ''/pull/mock-autofix'')) out,
                                 e, [CeCommit commit_msg]))
                          else
                            let (out, e, evs) = push_and_open j conn auth E branch patch out
                            in (out, e, CeCommit commit_msg # evs)))))))"

definition merge_out :: "jobj \<Rightarrow> jobj \<Rightarrow> jobj" where
  "merge_out extra out = fold (\<lambda>(k, v). oset k v) extra out"

text \<open>\<^verbatim>\<open>runOneCloudAttempt\<close>.\<close>

definition run_one_cloud_attempt ::
  "genv \<Rightarrow> bool \<Rightarrow> scm_job \<Rightarrow> connector option \<Rightarrow> autofix_auth \<Rightarrow> agent_prefs \<Rightarrow> int \<Rightarrow> attempt_env \<Rightarrow> outcome" where
  "run_one_cloud_attempt getenv has_cred j conn auth p iteration E =
     (let mock = github_use_mock_api getenv conn;
          skipped = skipped_ai getenv has_cred;
          branch = opa_fix_branch_name (nz (j_run_id j) (j_id j)) (branch_number j iteration);
          out = [(''status'', JStr ''running''), (''mode'', JStr (aa_mode auth))];
          halt = (\<lambda>r evs. let (out, e) = r in (out, e, evs))
      in case (if mock then None else at_checkout E) of
           Some err \<Rightarrow> halt (fail_with ''checkout: '' err out) []
         | None \<Rightarrow>
         (let out = oset ''branch'' (JStr branch) out
          in case at_branch E of
               Some err \<Rightarrow> halt (fail_with ''branch: '' err out) []
             | None \<Rightarrow>
         (case patch_stage getenv mock skipped auth E out of
            Inl done \<Rightarrow> done
          | Inr (out, evs) \<Rightarrow>
         (case gate_stage getenv (skipped \<or> mock) auth E out of
            Inl r \<Rightarrow> halt r evs
          | Inr (out, changes, patch) \<Rightarrow>
         (if aa_mode auth = ''suggest'' then
            (let (out, e, evs') = suggest_stage j conn auth E changes branch out in (out, e, evs @ evs'))
          else case verify_stage getenv p auth E patch out of
            Inl r \<Rightarrow> halt r evs
          | Inr (out, patch) \<Rightarrow>
              (let (landed, e, evs') = land_validated_patch j conn mock auth E branch patch
               in (merge_out landed out, e, evs @ evs')))))))"

subsection \<open>The stages\<close>

text \<open>
  What the loop reads of the outside: the environment, the time of each attempt, the coverage of the
  connector, the CLI credential, the store at the start of each attempt, and each attempt's answers.
\<close>

record cloud_env =
  cv_getenv :: genv
  cv_now :: "int \<Rightarrow> int"
  cv_covers :: "connector option \<Rightarrow> string \<Rightarrow> bool"
  cv_has_cred :: bool
  cv_live :: "int \<Rightarrow> scm_state"
  cv_attempt :: "int \<Rightarrow> attempt_env"

record cloud_result =
  cr_out :: jobj
  cr_err :: "string option"
  cr_auth :: string
  cr_rates :: rate_window
  cr_events :: "cloud_event list"

definition close_stages :: "jobj list \<Rightarrow> int \<Rightarrow> jobj \<Rightarrow> jobj" where
  "close_stages attempts i out = oset ''iterations'' (JInt i) (oset ''attempts'' (JArr (map JObj attempts)) out)"

text \<open>
  \<^verbatim>\<open>runCloudStages\<close> over the iterations that are left of \<open>1..m\<close>.  \<open>auth\<close> is \<^verbatim>\<open>cloud_auth\<close> of
  the summary, \<open>lerr\<close> the last error.
\<close>

primrec cloud_stages ::
  "cloud_env \<Rightarrow> scm_job \<Rightarrow> connector option \<Rightarrow> agent_prefs \<Rightarrow> agent_finding list \<Rightarrow> string list \<Rightarrow> int
     \<Rightarrow> int list \<Rightarrow> jobj \<Rightarrow> jobj list \<Rightarrow> string option \<Rightarrow> string \<Rightarrow> rate_window \<Rightarrow> cloud_event list
     \<Rightarrow> cloud_result" where
  "cloud_stages C j conn p ledger keys m [] out attempts lerr auth w evs =
     (let why = ''exhausted '' @ show_int m @ '' cloud iterations'';
          out = close_stages attempts m (fst (stop_with ''failed'' why None out))
      in \<lparr>cr_out = out, cr_err = Some (case lerr of None \<Rightarrow> why | Some e \<Rightarrow> e), cr_auth = auth,
          cr_rates = w, cr_events = evs\<rparr>)"
| "cloud_stages C j conn p ledger keys m (i # is) out attempts lerr auth w evs =
     (if cloud_job_must_abort j (cv_live C i) then
        (let why = ''superseded/cancelled '' @ em_dash @ '' aborting cloud stages''
         in \<lparr>cr_out = close_stages attempts i (fst (stop_with ''cancelled'' why None out)), cr_err = Some why,
             cr_auth = auth, cr_rates = w, cr_events = evs\<rparr>)
      else case authorize_autofix_attempt (cv_getenv C) (cv_now C i) conn (cv_covers C) p (j_repo j) ledger
                  keys (i = 1) w of
        (Inl e, w) \<Rightarrow>
          \<lparr>cr_out = close_stages attempts i (fst (stop_with ''refused'' (autofix_error_text e) None out)),
           cr_err = None, cr_auth = autofix_error_text e, cr_rates = w, cr_events = evs\<rparr>
      | (Inr ok, w) \<Rightarrow>
          (let auth = auth_honesty ok;
               out = oset ''mode'' (JStr (aa_mode ok)) out;
               (tried, err, evs') = run_one_cloud_attempt (cv_getenv C) (cv_has_cred C) j conn ok p i (cv_attempt C i);
               tried = oset ''iteration'' (JInt i) tried;
               attempts = attempts @ [tried];
               evs = evs @ evs';
               status = str_from_any (jget tried ''status'');
               honesty = str_from_any (jget tried ''honesty'');
               finished = close_stages attempts i (merge_out tried out);
               answer = (\<lambda>out. \<lparr>cr_out = out, cr_err = err, cr_auth = auth, cr_rates = w, cr_events = evs\<rparr>)
           in if err = None \<and> (status = ''completed'' \<or> status = ''suggest'') then answer finished
              else if status = ''gate_denied'' \<or> contains honesty ''gateCloudDiff'' then
                answer (oset ''honesty'' (JStr (nz honesty ''gate denied'')) finished)
              else if (status = ''verify_failed'' \<and> i < m) \<or> (err \<noteq> None \<and> i < m \<and> status \<noteq> ''gate_denied'') then
                cloud_stages C j conn p ledger keys m is out attempts err auth w evs
              else answer finished))"

definition run_cloud_stages ::
  "cloud_env \<Rightarrow> scm_job \<Rightarrow> connector option \<Rightarrow> agent_prefs \<Rightarrow> agent_finding list \<Rightarrow> string list
     \<Rightarrow> string \<Rightarrow> rate_window \<Rightarrow> cloud_result" where
  "run_cloud_stages C j conn p ledger keys auth w =
     (let m = cloud_max_iterations (cv_getenv C)
      in cloud_stages C j conn p ledger keys m [1..m]
           [(''status'', JStr ''running''), (''max_iterations'', JInt m)] [] None auth w [])"

text \<open>
  \<^verbatim>\<open>runCloudAgent\<close>: the job it leaves, its error, and the rest of the result.  \<open>check_id\<close> is the
  check run GitHub created (0: none), \<open>s\<close> the store at the start.
\<close>

definition cloud_conclusion :: "jobj \<Rightarrow> string option \<Rightarrow> string \<times> string" where
  "cloud_conclusion out err =
     (let status = str_from_any (jget out ''status'')
      in if err \<noteq> None then (''failure'', ''OPA Auto-fix failed'')
         else if status = ''skipped'' \<or> status = ''suggest'' \<or> status = ''refused''
         then (''neutral'', ''OPA Auto-fix '' @ status) else (''success'', ''OPA Auto-fix completed''))"

definition run_cloud_agent ::
  "cloud_env \<Rightarrow> (jv \<Rightarrow> (string list \<times> string) option) \<Rightarrow> connector option \<Rightarrow> agent_finding list \<Rightarrow> int
     \<Rightarrow> scm_job \<Rightarrow> scm_state \<Rightarrow> rate_window \<Rightarrow> scm_job \<times> string option \<times> rate_window \<times> cloud_event list" where
  "run_cloud_agent C proposal conn ledger check_id j s w =
     (let (parent, s) = get_scm_job (j_run_id j) s;
          p = (case parent of None \<Rightarrow> builtin_agent_prefs | Some r \<Rightarrow> agent_prefs_from_summary r)
      in if \<not> cloud_enabled p \<or> autofix_mode p = [] \<or> autofix_mode p = ''off'' then
           (sset ''skip_reason'' (JStr ''cloud_enabled/autofix_mode off'') (j\<lparr>j_status := ''skipped''\<rparr>), None, w, [])
         else
           let (keys, rationale) = cloud_finding_keys proposal j ledger p
           in if keys = [] then
                (sset ''cloud'' (JObj [(''status'', JStr ''skipped''), (''honesty'', JStr ''no eligible findings'')])
                   (sset ''skip_reason'' (JStr ''no findings meeting autofix threshold'') (j\<lparr>j_status := ''skipped''\<rparr>)),
                 None, w, [])
              else
                let j = (if rationale \<noteq> [] then sset ''cloud_rationale'' (JStr rationale) j else j);
                    (denied, j) = (if github_use_mock_api (cv_getenv C) conn then (None, j)
                                   else ensure_github_write_allowed (cv_getenv C) j conn)
                in case denied of
                     Some e \<Rightarrow>
                       (sset ''publish_refused'' (JStr (write_error_text e)) j, Some (write_error_text e), w, [])
                   | None \<Rightarrow>
                       (let j = j\<lparr>j_checks := AList.update ''autofix'' check_id (j_checks j)\<rparr>;
                            r = run_cloud_stages C j conn p ledger keys (str_from_any (sget j ''cloud_auth'')) w;
                            j = (if cr_auth r \<noteq> [] then sset ''cloud_auth'' (JStr (cr_auth r)) j else j);
                            j = sset ''cloud'' (JObj (cr_out r)) j;
                            j = (case cr_err r of Some e \<Rightarrow> j\<lparr>j_error := e\<rparr> | None \<Rightarrow> j);
                            (conclusion, title) = cloud_conclusion (cr_out r) (cr_err r)
                        in (j, cr_err r, cr_rates r,
                            cr_events r @ (if check_id \<noteq> 0 then [CeCheck conclusion title] else []))))"

end
