(* ===== verification/Pr_Summary.thy ===== *)
theory Pr_Summary
  imports Gate_Risk
begin

text \<open>
  The summary block in a pull request description (\<^verbatim>\<open>src/pr_summary.go\<close>): the fence the program
  owns, the hash of the text outside it that detects a human edit, and the narrative inside.  The
  hash, the first eight bytes of a SHA-256 in hexadecimal, is the parameter \<open>sha8\<close>; reading and
  updating the description at GitHub are the arguments \<open>pull\<close> and \<open>update\<close>.
\<close>

definition summary_start :: string where "summary_start = ''<!-- opa-summary:start -->''"
definition summary_end :: string where "summary_end = ''<!-- opa-summary:end -->''"
definition outside_hash_prefix :: string where "outside_hash_prefix = ''<!-- opa-summary:outside-hash:''"
definition marker_close :: string where "marker_close = '' -->''"

definition split_pr_body_fence :: "string \<Rightarrow> string \<times> string \<times> bool" where
  "split_pr_body_fence body =
     (case (index_of body summary_start, index_of body summary_end) of
        (Some st, Some en) \<Rightarrow>
          (if en < st then (body, [], False)
           else
             let stop = en + length summary_end;
                 block = drop st (take stop body);
                 outside = trim_space (take st body @ drop stop body);
                 prior = (case index_of block outside_hash_prefix of
                            None \<Rightarrow> []
                          | Some i \<Rightarrow>
                              (let rest = drop (i + length outside_hash_prefix) block
                               in case index_of rest marker_close of
                                    Some j \<Rightarrow> if 0 < j then trim_space (take j rest) else []
                                  | None \<Rightarrow> []))
             in (outside, prior, True))
      | _ \<Rightarrow> (body, [], False))"

definition splice_pr_body_fence :: "string \<Rightarrow> string \<Rightarrow> string" where
  "splice_pr_body_fence outside fenced =
     (let outside = trim_space outside
      in if outside = [] then fenced else outside @ nl @ nl @ fenced)"

definition hash_outside_body :: "(string \<Rightarrow> string) \<Rightarrow> string \<Rightarrow> string" where
  "hash_outside_body sha8 s = sha8 (trim_space s)"

definition summary_block :: "(string \<Rightarrow> string) \<Rightarrow> string \<Rightarrow> string \<Rightarrow> string" where
  "summary_block sha8 outside narrative =
     (let inner = (if trim_space narrative = [] then ''_OPA Review summary unavailable._''
                   else trim_space narrative)
      in summary_start @ nl @
         outside_hash_prefix @ hash_outside_body sha8 outside @ marker_close @ nl @
         inner @ nl @ summary_end)"

text \<open>
  \<^verbatim>\<open>upsertPRSummary\<close>: \<open>can_post\<close> is that there is a connector and a pull request number; \<open>pull\<close>
  the description (\<^const>\<open>None\<close> inside for a nil pull) or an error; \<open>update\<close> the answer to the new
  description.  The result is the description written, if any, and the skip reason or error.
\<close>

datatype summary_outcome = SumWritten | SumNothing | SumSkipped string | SumError string

definition upsert_pr_summary ::
  "(string \<Rightarrow> string) \<Rightarrow> bool \<Rightarrow> string + string option \<Rightarrow> (string \<Rightarrow> string option) \<Rightarrow> string
     \<Rightarrow> string option \<times> summary_outcome" where
  "upsert_pr_summary sha8 can_post pull update narrative =
     (if \<not> can_post then (None, SumNothing)
      else case pull of
        Inl e \<Rightarrow> (None, SumError e)
      | Inr p \<Rightarrow>
          (let current = (case p of None \<Rightarrow> [] | Some b \<Rightarrow> b);
               (outside, prior, had) = split_pr_body_fence current
           in if had \<and> prior \<noteq> [] \<and> hash_outside_body sha8 outside \<noteq> prior then
                (None, SumSkipped ''human_edit'')
              else
                let body = splice_pr_body_fence outside (summary_block sha8 outside narrative)
                in (Some body, case update body of Some e \<Rightarrow> SumError e | None \<Rightarrow> SumWritten)))"

definition format_pr_summary_narrative :: "ai_review_result \<Rightarrow> (int \<times> risk_factor list) option \<Rightarrow> string" where
  "format_pr_summary_narrative res risk =
     trim_space
       (''### OPA Review'' @ nl @ nl @
        ''**Status:** `'' @ nz (rv_status res) em_dash @ ''`'' @
        (if rv_verdict res \<noteq> [] then '' '' @ mid_dot @ '' **Verdict:** `'' @ rv_verdict res @ ''`'' else []) @
        (if 0 < rv_confidence res
         then '' '' @ mid_dot @ '' **Confidence:** '' @ show_int (rv_confidence res) @ ''/100'' else []) @
        nl @ nl @
        (let s = trim_space (rv_summary res) in if s \<noteq> [] then s @ nl @ nl else []) @
        (if rv_findings res \<noteq> []
         then ''_'' @ show_nat (length (rv_findings res)) @ '' finding(s) '' @ em_dash @
              '' see inline comments / OPA Review r'' @ [CHR 0xC3, CHR 0xA9] @ ''sum'' @ [CHR 0xC3, CHR 0xA9] @
              ''._'' @ nl
         else []) @
        (case risk of
           Some (score, fs) \<Rightarrow>
             (if 0 < score
              then nl @ ''**Risk score:** '' @ show_int score @ ''/100'' @
                   (if fs \<noteq> []
                    then '' ('' @ join '', '' (map rf_name (filter (\<lambda>f. 0 < rf_points f) fs)) @ '')'' else []) @ nl
              else [])
         | None \<Rightarrow> []))"

subsection \<open>Laws\<close>

text \<open>A pattern without the separator \<open>c\<close> is found on one side of it.\<close>

lemma has_prefix_sep:
  "c \<notin> set p \<Longrightarrow> has_prefix (a @ c # b) p \<longleftrightarrow> has_prefix a p"
  by (induction a p rule: has_prefix.induct) (case_tac [!] "p", auto)

lemma index_of_sep:
  "c \<notin> set p \<Longrightarrow> p \<noteq> [] \<Longrightarrow> index_of a p = None \<Longrightarrow>
   index_of (a @ c # b) p = map_option (\<lambda>i. length a + 1 + i) (index_of b p)"
proof (induction a)
  case Nil
  then have "\<not> has_prefix (c # b) p" by (cases p) auto
  then show ?case using Nil by (simp add: option.map_comp comp_def)
next
  case (Cons x a)
  from Cons.prems have "\<not> has_prefix (x # a) p" "index_of a p = None" by (auto split: if_splits)
  with Cons have "\<not> has_prefix ((x # a) @ c # b) p"
    using has_prefix_sep [of c p "x # a" b] by simp
  with Cons \<open>index_of a p = None\<close> show ?case by (simp add: option.map_comp comp_def)
qed

lemma index_of_here: "p \<noteq> [] \<Longrightarrow> index_of (p @ b) p = Some 0"
  by (cases p) auto

lemma index_of_char_skip:
  "p \<noteq> [] \<Longrightarrow> hd p \<notin> set a \<Longrightarrow> index_of (a @ b) p = map_option (\<lambda>i. length a + i) (index_of b p)"
proof (induction a)
  case (Cons x a)
  then have "\<not> has_prefix (x # a @ b) p" by (cases p) auto
  with Cons show ?case by (simp add: option.map_comp comp_def)
qed (cases "index_of b p"; simp)

lemma trim_space_snoc: "is_space c \<Longrightarrow> trim_space (s @ [c]) = trim_space s"
  by (cases "dropWhile is_space s = []") (auto simp: trim_space_def trim_left_def dropWhile_append dest: set_dropWhileD)

lemma trim_space_nl: "trim_space (s @ nl) = trim_space s"
  unfolding nl_def by (rule trim_space_snoc) (simp add: is_space_def byte_of_def)

lemma hex_not_special: "list_all is_hex h \<Longrightarrow> CHR ''<'' \<notin> set h \<and> CHR '' '' \<notin> set h"
  by (auto simp: list_all_iff is_hex_def is_digit_def byte_of_def)

lemma hex_trim: "list_all is_hex h \<Longrightarrow> trim_space h = h"
proof -
  assume "list_all is_hex h"
  then have "\<forall>c \<in> set h. \<not> is_space c"
    by (auto simp: list_all_iff is_hex_def is_digit_def is_space_def)
  then have "h = [] \<or> \<not> is_space (hd h)" "rev h = [] \<or> \<not> is_space (hd (rev h))"
    by (metis hd_in_set set_rev)+
  then have "trim_left h = h" "trim_left (rev h) = rev h" by (simp_all only: trim_left_noop)
  then show ?thesis by (simp add: trim_space_def)
qed

lemmas marker_defs = summary_start_def summary_end_def outside_hash_prefix_def marker_close_def

lemma nl_markers [simp]:
  "CHR 0x0A \<notin> set summary_start" "CHR 0x0A \<notin> set summary_end" "CHR 0x0A \<notin> set outside_hash_prefix"
  "summary_start \<noteq> []" "summary_end \<noteq> []" "outside_hash_prefix \<noteq> []" "marker_close \<noteq> []"
  "hd summary_end = CHR ''<''" "hd marker_close = CHR '' ''"
  by (simp_all add: marker_defs)

text \<open>The positions of the markers in a block written by the program.\<close>

lemma index_after_nl:
  "CHR 0x0A \<notin> set p \<Longrightarrow> p \<noteq> [] \<Longrightarrow> index_of a p = None \<Longrightarrow>
   index_of (a @ nl @ b) p = map_option (\<lambda>i. length a + 1 + i) (index_of b p)"
  using index_of_sep [of "CHR 0x0A" p a b] by (simp add: nl_def)

lemma index_nl: "CHR 0x0A \<notin> set p \<Longrightarrow> p \<noteq> [] \<Longrightarrow> index_of (nl @ b) p = map_option Suc (index_of b p)"
  using index_after_nl [of p "[]" b] by simp

lemma head_has_no_end:
  assumes "list_all is_hex h"
  shows "index_of (outside_hash_prefix @ h @ marker_close) summary_end = None"
proof -
  obtain t where t: "outside_hash_prefix = CHR ''<'' # t" "CHR ''<'' \<notin> set t"
    by (simp add: outside_hash_prefix_def)
  have "CHR ''<'' \<notin> set (t @ h @ marker_close)"
    using t hex_not_special [OF assms] by (simp add: marker_close_def)
  then have "index_of ((t @ h @ marker_close) @ []) summary_end = None"
    by (subst index_of_char_skip) (simp_all add: summary_end_def)
  moreover have "\<not> has_prefix (outside_hash_prefix @ h @ marker_close) summary_end"
    by (simp add: outside_hash_prefix_def summary_end_def)
  ultimately show ?thesis unfolding t(1) by simp
qed

definition block_of :: "string \<Rightarrow> string \<Rightarrow> string" where
  "block_of h inner =
     summary_start @ nl @ outside_hash_prefix @ h @ marker_close @ nl @ inner @ nl @ summary_end"

lemma block_end:
  assumes "list_all is_hex h" "index_of inner summary_end = None"
  shows "index_of (block_of h inner) summary_end = Some (length (block_of h inner) - length summary_end)"
proof -
  have "index_of summary_start summary_end = None" by (simp add: marker_defs)
  moreover have "index_of summary_end summary_end = Some 0" using index_of_here [of summary_end "[]"] by simp
  ultimately show ?thesis
    using assms head_has_no_end [OF assms(1)]
      index_after_nl [of summary_end "outside_hash_prefix @ h @ marker_close" "inner @ nl @ summary_end"]
    by (simp add: block_of_def index_after_nl nl_def [symmetric]) (simp add: nl_def)
qed

lemma block_prior:
  assumes "list_all is_hex h"
  shows "index_of (block_of h inner) outside_hash_prefix = Some (length summary_start + 1)"
    and "h \<noteq> [] \<Longrightarrow> index_of (h @ marker_close @ x) marker_close = Some (length h)"
proof -
  have "index_of summary_start outside_hash_prefix = None" by (simp add: marker_defs)
  then show "index_of (block_of h inner) outside_hash_prefix = Some (length summary_start + 1)"
    by (simp add: block_of_def index_after_nl index_of_here)
  show "index_of (h @ marker_close @ x) marker_close = Some (length h)"
    using hex_not_special [OF assms] by (simp add: index_of_char_skip index_of_here)
qed

lemma split_block:
  assumes h: "list_all is_hex h" "h \<noteq> []" and i: "index_of inner summary_end = None"
    and pre: "pre = [] \<or> pre = o' @ nl @ nl" "index_of o' summary_start = None" "index_of o' summary_end = None"
  shows "split_pr_body_fence (pre @ block_of h inner) = (trim_space pre, h, True)"
proof -
  let ?B = "block_of h inner"
  have st0: "index_of ?B summary_start = Some 0" by (simp add: block_of_def index_of_here)
  have pos: "index_of (pre @ ?B) p = map_option (\<lambda>k. length pre + k) (index_of ?B p)"
    if "p = summary_start \<or> p = summary_end" for p
  proof (cases "pre = []")
    case False
    have np: "CHR 0x0A \<notin> set p" "p \<noteq> []" using that by (elim disjE; simp)+
    from False pre have e: "pre = o' @ nl @ nl" by simp
    have "index_of o' p = None" using that pre by auto
    then have "index_of (o' @ nl @ (nl @ ?B)) p = map_option (\<lambda>i. length o' + 1 + i) (index_of (nl @ ?B) p)"
      by (intro index_after_nl np)
    also have "index_of (nl @ ?B) p = map_option Suc (index_of ?B p)" by (intro index_nl np)
    finally show ?thesis using e by (simp add: option.map_comp comp_def nl_def)
  qed (cases "index_of ?B p"; simp)
  have len: "length summary_end \<le> length ?B" by (simp add: block_of_def)
  have blk: "drop (length summary_start + 1 + length outside_hash_prefix) ?B = h @ marker_close @ nl @ inner @ nl @ summary_end"
    by (simp add: block_of_def nl_def)
  show ?thesis
    using st0 block_end [OF h(1) i] block_prior(1) [OF h(1), of inner] block_prior(2) [OF h] blk len h
    by (simp add: split_pr_body_fence_def pos Let_def hex_trim)
qed

lemma splice_block:
  assumes "list_all is_hex h" "h \<noteq> []" "index_of inner summary_end = None"
    and "index_of (trim_space o') summary_start = None" "index_of (trim_space o') summary_end = None"
  shows "split_pr_body_fence (splice_pr_body_fence o' (block_of h inner)) = (trim_space o', h, True)"
proof (cases "trim_space o' = []")
  case True
  then show ?thesis
    using split_block [OF assms(1-3), of "[]" "[]"] by (simp add: splice_pr_body_fence_def)
next
  case False
  have "trim_space (trim_space o' @ nl @ nl) = trim_space o'"
    by (metis append.assoc trim_space_idem trim_space_nl)
  then show ?thesis
    using False split_block [OF assms(1-3), of "trim_space o' @ nl @ nl" "trim_space o'"] assms(4,5)
    by (simp add: splice_pr_body_fence_def Let_def)
qed

text \<open>The text a block carries; a narrative without an end marker gives one without.\<close>

definition summary_inner :: "string \<Rightarrow> string" where
  "summary_inner n = (if trim_space n = [] then ''_OPA Review summary unavailable._'' else trim_space n)"

lemma summary_block_of: "summary_block sha8 outside n = block_of (hash_outside_body sha8 outside) (summary_inner n)"
  by (simp add: summary_block_def block_of_def summary_inner_def Let_def)

lemma inner_no_end: "\<not> contains n summary_end \<Longrightarrow> index_of (summary_inner n) summary_end = None"
proof -
  assume n: "\<not> contains n summary_end"
  have d: "index_of ''_OPA Review summary unavailable._'' summary_end = None"
    by (simp add: summary_end_def)
  have "contains (trim_space n) summary_end \<Longrightarrow> contains n summary_end"
  proof -
    assume c: "contains (trim_space n) summary_end"
    have "\<exists>a b. n = a @ trim_space n @ b"
      unfolding trim_space_def trim_left_def
      by (metis (no_types, lifting) append.assoc rev_append rev_rev_ident takeWhile_dropWhile_id)
    with c show ?thesis by (metis contains_append)
  qed
  with n have "index_of (trim_space n) summary_end = None" by (metis index_of_None)
  with d show ?thesis unfolding summary_inner_def by presburger
qed

definition marker_free :: "string \<Rightarrow> bool" where
  "marker_free s \<longleftrightarrow> \<not> contains s summary_start \<and> \<not> contains s summary_end"

lemma marker_free_trim: "marker_free s \<Longrightarrow> marker_free (trim_space s)"
proof -
  have "\<exists>a b. s = a @ trim_space s @ b"
    unfolding trim_space_def trim_left_def
    by (metis (no_types, lifting) append.assoc rev_append rev_rev_ident takeWhile_dropWhile_id)
  then show "marker_free s \<Longrightarrow> marker_free (trim_space s)"
    unfolding marker_free_def by (metis contains_append)
qed

lemma written_body:
  "upsert_pr_summary sha8 True (Inr (Some cur)) update n = (Some body, out) \<Longrightarrow>
   body = splice_pr_body_fence (fst (split_pr_body_fence cur)) (summary_block sha8 (fst (split_pr_body_fence cur)) n)"
  by (auto simp: upsert_pr_summary_def Let_def split: prod.splits if_splits)

lemma split_written:
  assumes "\<forall>x. list_all is_hex (sha8 x) \<and> sha8 x \<noteq> []" "marker_free o'" "\<not> contains n summary_end"
  shows "split_pr_body_fence (splice_pr_body_fence o' (summary_block sha8 p n)) =
         (trim_space o', hash_outside_body sha8 p, True)"
  unfolding summary_block_of
  using assms marker_free_trim [of o'] inner_no_end [of n]
  by (intro splice_block) (simp_all add: hash_outside_body_def index_of_None marker_free_def)

text \<open>
  C34: the summary block keeps apart from the description a human wrote, where the human text holds
  neither marker of the block, the narrative not the end marker, and the hash is made of hexadecimal
  digits.  When the block is written, splitting the new description gives back the human text
  (trimmed) and the hash of it, and the next upsert is not refused as a human edit.  When the text
  before the block is then replaced by other text without markers, of another hash, the upsert writes
  nothing.  The code cleans neither text: a narrative with the end marker ends the block early.
\<close>

theorem summary_keeps_human_text:
  assumes hex: "\<forall>x. list_all is_hex (sha8 x) \<and> sha8 x \<noteq> []"
    and up: "upsert_pr_summary sha8 True (Inr (Some cur)) update n = (Some body, out)"
    and free: "marker_free (fst (split_pr_body_fence cur))" "\<not> contains n summary_end"
  shows "split_pr_body_fence body =
           (trim_space (fst (split_pr_body_fence cur)), hash_outside_body sha8 (fst (split_pr_body_fence cur)), True) \<and>
         fst (upsert_pr_summary sha8 True (Inr (Some body)) update n') \<noteq> None \<and>
         (marker_free edited \<and>
            hash_outside_body sha8 edited \<noteq> hash_outside_body sha8 (fst (split_pr_body_fence cur)) \<longrightarrow>
          upsert_pr_summary sha8 True
            (Inr (Some (splice_pr_body_fence edited (summary_block sha8 (fst (split_pr_body_fence cur)) n)))) update n' =
          (None, SumSkipped ''human_edit''))"
proof -
  let ?o = "fst (split_pr_body_fence cur)"
  have body: "body = splice_pr_body_fence ?o (summary_block sha8 ?o n)" by (rule written_body [OF up])
  have sp: "split_pr_body_fence body = (trim_space ?o, hash_outside_body sha8 ?o, True)"
    unfolding body using hex free by (rule split_written)
  have idem: "hash_outside_body sha8 (trim_space x) = hash_outside_body sha8 x" for x
    by (simp add: hash_outside_body_def)
  have again: "fst (upsert_pr_summary sha8 True (Inr (Some body)) update n') \<noteq> None"
    by (simp add: upsert_pr_summary_def sp idem Let_def)
  have "upsert_pr_summary sha8 True
           (Inr (Some (splice_pr_body_fence edited (summary_block sha8 ?o n)))) update n' =
         (None, SumSkipped ''human_edit'')"
    if "marker_free edited" "hash_outside_body sha8 edited \<noteq> hash_outside_body sha8 ?o"
    using that hex split_written [OF hex that(1) free(2), of ?o]
    by (simp add: upsert_pr_summary_def idem Let_def) (simp add: hash_outside_body_def)
  with sp again show ?thesis by blast
qed

definition sample_sha8 :: "string \<Rightarrow> string" where
  "sample_sha8 s = ''a'' @ (if contains s ''note'' then ''1'' else ''2'')"

lemma summary_keeps_human_text_witness:
  "split_pr_body_fence (''Fixes #1'' @ nl @ nl @ summary_block sample_sha8 ''Fixes #1'' ''ok'') =
     (''Fixes #1'', ''a2'', True)"
proof -
  have o: "split_pr_body_fence ''Fixes #1'' = (''Fixes #1'', [], False)" by code_simp
  have up: "upsert_pr_summary sample_sha8 True (Inr (Some ''Fixes #1'')) (\<lambda>_. None) ''ok'' =
        (Some (''Fixes #1'' @ nl @ nl @ summary_block sample_sha8 ''Fixes #1'' ''ok''), SumWritten)"
    by code_simp
  have hex: "\<forall>x. list_all is_hex (sample_sha8 x) \<and> sample_sha8 x \<noteq> []"
    by (simp add: sample_sha8_def is_hex_def is_digit_def byte_of_def)
  have free: "marker_free (fst (split_pr_body_fence ''Fixes #1''))" "\<not> contains ''ok'' summary_end"
    unfolding o by code_simp+
  have "trim_space (fst (split_pr_body_fence ''Fixes #1'')) = ''Fixes #1''"
       "hash_outside_body sample_sha8 (fst (split_pr_body_fence ''Fixes #1'')) = ''a2''"
    unfolding o by code_simp+
  with summary_keeps_human_text [OF hex up free, of "[]" "[]"] show ?thesis by simp
qed

end
