(* ===== verification/Review_Publish.thy ===== *)
theory Review_Publish
  imports Cloud_Run Pr_Summary
begin

text \<open>
  Publishing the decision on a pull request (\<^verbatim>\<open>src/review_writer.go\<close>) and the approval agent
  (\<^verbatim>\<open>runApprovalAgent\<close> of \<^verbatim>\<open>src/run_graph.go\<close>), which gathers the evidence of the other agents,
  evaluates it and publishes once.

  GitHub is a parameter: the record \<open>approval_io\<close> holds its answers.  What the code sends is the list
  of \<open>gh_event\<close>s of the result, in order; a \<open>GPost\<close> is the note the code adds to the job's evidence
  (its time and its artifact file are not modelled).
\<close>

record gh_review =
  gr_id :: int
  gr_body :: string
  gr_state :: string
  gr_user :: string

record review_comment =
  rc_path :: string
  rc_line :: int
  rc_body :: string

datatype gh_event =
    GUpdateReview int string
  | GCreateReview string string "review_comment list"
  | GUpdatePull string
  | GRequestReviewers "string list" "string list"
  | GPost string string int string string

record approval_io =
  io_getenv :: genv
  io_conn :: "connector option"
  io_watched :: "(int \<times> bool) option"
  io_dec_ai :: "jv \<Rightarrow> ai_review_result"
  io_peer :: "string \<Rightarrow> string \<Rightarrow> jobj option option"
  io_sha1hex :: "string \<Rightarrow> string"
  io_sha8 :: "string \<Rightarrow> string"
  io_unmarshal :: "string \<Rightarrow> string + approval_policy"
  io_keys :: "string \<Rightarrow> string list"
  io_base :: "string option"
  io_content :: "string \<Rightarrow> string \<Rightarrow> string + string"
  io_body :: "string + string option"
  io_update_body :: "string \<Rightarrow> string option"
  io_reviews :: "string + gh_review list"
  io_update :: "int \<Rightarrow> string \<Rightarrow> string option"
  io_create :: "string \<Rightarrow> string \<Rightarrow> review_comment list \<Rightarrow> string option"

text \<open>The API is only called with a connector and outside the mock mode.\<close>

definition gh_real :: "approval_io \<Rightarrow> bool" where
  "gh_real io \<longleftrightarrow> io_conn io \<noteq> None \<and> \<not> github_use_mock_api (io_getenv io) (io_conn io)"

definition github_app_reviewer_login :: "genv \<Rightarrow> string" where
  "github_app_reviewer_login getenv =
     (let slug = trim_space (getenv ''OPA_GITHUB_APP_SLUG'') in if slug = [] then ''ora'' else slug)"

subsection \<open>The calls\<close>

definition github_create_pr_review ::
  "approval_io \<Rightarrow> int \<Rightarrow> string \<Rightarrow> string \<Rightarrow> review_comment list \<Rightarrow> gh_event list \<times> string option" where
  "github_create_pr_review io pr body event comments =
     (if pr \<le> 0 \<or> \<not> gh_real io then ([], None)
      else
        let event = (if event = [] then ''COMMENT'' else event);
            cs = filter (\<lambda>c. rc_path c \<noteq> [] \<and> 1 \<le> rc_line c \<and> trim_space (rc_body c) \<noteq> []) comments
        in ([GCreateReview event body cs], io_create io event body cs))"

definition github_update_pr_review_body ::
  "approval_io \<Rightarrow> int \<Rightarrow> int \<Rightarrow> string \<Rightarrow> gh_event list \<times> string option" where
  "github_update_pr_review_body io pr rid body =
     (if pr \<le> 0 \<or> rid = 0 \<or> \<not> gh_real io then ([], None)
      else ([GUpdateReview rid body], io_update io rid body))"

definition clean_reviewers :: "(string \<Rightarrow> string) \<Rightarrow> string list \<Rightarrow> string list" where
  "clean_reviewers norm rs =
     rev (snd (fold (\<lambda>r (seen, out).
       let r = norm r; key = to_lower r
       in if r = [] \<or> key \<in> seen then (seen, out) else (insert key seen, r # out)) rs ({}, [])))"

definition github_request_pr_reviewers ::
  "approval_io \<Rightarrow> int \<Rightarrow> string list \<Rightarrow> string list \<Rightarrow> gh_event list" where
  "github_request_pr_reviewers io pr reviewers teams =
     (if pr \<le> 0 \<or> \<not> gh_real io then []
      else
        let cleaned = clean_reviewers (\<lambda>r. trim_suffix (trim_space r) ''[bot]'') reviewers;
            teams = clean_reviewers trim_space teams
        in if cleaned = [] \<and> teams = [] then [] else [GRequestReviewers cleaned teams])"

subsection \<open>The decision review\<close>

definition decision_marker :: string where
  "decision_marker = ''<!-- opa-review:decision -->''"

definition embed_decision_marker :: "string \<Rightarrow> string" where
  "embed_decision_marker body =
     (let body = trim_space body; body = (if body = [] then ''**OPA Review**'' else body)
      in if contains body decision_marker then body else decision_marker @ nl @ body)"

definition is_opa_bot_review_login :: "genv \<Rightarrow> string \<Rightarrow> bool" where
  "is_opa_bot_review_login getenv login =
     (let login = trim_suffix (to_lower (trim_space login)) ''[bot]'';
          slug = to_lower (trim_space (github_app_reviewer_login getenv))
      in login \<noteq> [] \<and> login = slug)"

definition opa_decision_review :: "genv \<Rightarrow> gh_review \<Rightarrow> bool" where
  "opa_decision_review getenv r \<longleftrightarrow>
     gr_state r \<noteq> ''PENDING'' \<and> gr_state r \<noteq> ''DISMISSED'' \<and> is_opa_bot_review_login getenv (gr_user r) \<and>
     (contains (gr_body r) decision_marker \<or> contains (gr_body r) ''**OPA Review'' \<or>
      contains (gr_body r) (''OPA Review '' @ em_dash))"

definition find_first_decision_review :: "genv \<Rightarrow> gh_review list \<Rightarrow> gh_review option" where
  "find_first_decision_review getenv rs = List.find (opa_decision_review getenv) rs"

definition review_state_matches_event :: "string \<Rightarrow> string \<Rightarrow> bool" where
  "review_state_matches_event state event =
     (let state = to_upper (trim_space state); event = to_upper (trim_space event)
      in if event = ''APPROVE'' then state = ''APPROVED''
         else if event = ''REQUEST_CHANGES'' then state = ''CHANGES_REQUESTED''
         else if event = ''COMMENT'' then state = ''COMMENTED'' else False)"

definition decision_post :: "int \<Rightarrow> string \<Rightarrow> string \<Rightarrow> gh_event" where
  "decision_post rid status body = GPost ''decision'' ''pull_request_review'' rid status body"

definition listed_reviews :: "approval_io \<Rightarrow> int \<Rightarrow> gh_review list" where
  "listed_reviews io pr =
     (if pr \<le> 0 \<or> \<not> gh_real io then [] else case io_reviews io of Inl _ \<Rightarrow> [] | Inr rs \<Rightarrow> rs)"

definition publish_decision_review ::
  "approval_io \<Rightarrow> int \<Rightarrow> string \<Rightarrow> string \<Rightarrow> gh_event list \<times> string option" where
  "publish_decision_review io pr body event =
     (let event = to_upper (trim_space event);
          event = (if event = [] then ''COMMENT'' else event);
          body = embed_decision_marker body;
          create = (let (evs, err) = github_create_pr_review io pr body event []
                    in (evs @ (if err = None then [decision_post 0 ''created'' body] else []), err))
      in case find_first_decision_review (io_getenv io) (listed_reviews io pr) of
           None \<Rightarrow> (if event = ''COMMENT'' then ([], None) else create)
         | Some r \<Rightarrow>
             (let (evs, err) = github_update_pr_review_body io pr (gr_id r) body
              in case err of
                   Some e \<Rightarrow> (evs, Some e)
                 | None \<Rightarrow>
                     (let evs = evs @ [decision_post (gr_id r) ''updated'' body]
                      in if event = ''COMMENT'' \<or> review_state_matches_event (gr_state r) event then (evs, None)
                         else (evs @ fst create, snd create))))"

definition job_or_run_cancelled :: "scm_job \<Rightarrow> scm_state \<Rightarrow> bool \<times> scm_state" where
  "job_or_run_cancelled j s =
     (let (c, s) = job_is_cancelled (j_id j) s
      in if c then (True, s)
         else if j_run_id j \<noteq> [] then job_is_cancelled (j_run_id j) s else (False, s))"

definition publish_pr_review ::
  "approval_io \<Rightarrow> scm_job \<Rightarrow> string \<Rightarrow> string \<Rightarrow> review_comment list \<Rightarrow> scm_state
     \<Rightarrow> gh_event list \<times> string option \<times> scm_state" where
  "publish_pr_review io j body event comments s =
     (if j_pr j \<le> 0 then ([], None, s)
      else
        let (cancelled, s) = job_or_run_cancelled j s
        in if cancelled then ([], Some ''refusing publishPRReview: job/run cancelled'', s)
           else
             let event = (if event = [] then ''COMMENT'' else event)
             in if comments \<noteq> [] then
                  (let body = (if trim_space body = []
                               then ''OPA Review '' @ em_dash @ '' inline findings updated.'' else body);
                       (evs, err) = github_create_pr_review io (j_pr j) body event comments
                   in (evs @ (if err = None
                              then map (\<lambda>c. GPost ''inline'' ''review_comment'' 0 ''created'' (rc_body c)) comments @
                                   [decision_post 0 ''created'' body] else []), err, s))
                else (let (evs, err) = publish_decision_review io (j_pr j) body event in (evs, err, s)))"

text \<open>\<^verbatim>\<open>submitOPAReviewDecision\<close> of a non-nil job.\<close>

fun event_name :: "review_event \<Rightarrow> string" where
  "event_name APPROVE = ''APPROVE''"
| "event_name REQUEST_CHANGES = ''REQUEST_CHANGES''"
| "event_name COMMENT = ''COMMENT''"

definition submit_review_decision ::
  "approval_io \<Rightarrow> scm_job \<Rightarrow> ai_review_result \<Rightarrow> review_event \<Rightarrow> int \<Rightarrow> scm_state
     \<Rightarrow> gh_event list \<times> string option \<times> scm_state" where
  "submit_review_decision io j res event min_score s =
     (if event = COMMENT then ([], None, s)
      else publish_pr_review io j (format_decision_body res event min_score) (event_name event) [] s)"

subsection \<open>The approval agent\<close>

text \<open>\<^verbatim>\<open>safePolicyPath\<close>; the caller drops the error and reads the empty path.\<close>

definition safe_policy_path :: "string \<Rightarrow> string option" where
  "safe_policy_path p =
     (let p = trim_space p;
          p = (if p = [] then ''.opa/approval-policy.json'' else p);
          p = trim_prefix (path_clean (''/'' @ p)) ''/''
      in if p = ''..'' \<or> has_prefix p ''../'' \<or> contains p ''/../'' then None
         else if has_prefix p ''.git/'' \<or> p = ''.git'' then None
         else Some p)"

text \<open>The messages of \<^verbatim>\<open>parseApprovalPolicy\<close> (a quoted key is one of plain characters).\<close>

fun policy_error_text :: "policy_error \<Rightarrow> string" where
  "policy_error_text EmptyPolicy = ''empty policy''"
| "policy_error_text PolicyTooLarge = ''policy exceeds 64KiB''"
| "policy_error_text (PolicyJSON e) = e"
| "policy_error_text (UnsupportedVersion v) = ''unsupported policy version '' @ show_int v"
| "policy_error_text (ForbiddenKey k) =
     ''policy contains forbidden widening key '' @ [CHR 0x22] @ k @ [CHR 0x22]"
| "policy_error_text (UnknownKey k) =
     ''policy contains unknown key '' @ [CHR 0x22] @ k @ [CHR 0x22] @ '' (fail closed)''"

text \<open>The policy is read at the base branch of the pull request, never at its head.\<close>

definition base_ref_of :: "approval_io \<Rightarrow> string" where
  "base_ref_of io = (case io_base io of Some b \<Rightarrow> if b \<noteq> [] then b else ''main'' | None \<Rightarrow> ''main'')"

definition load_policy :: "approval_io \<Rightarrow> agent_prefs \<Rightarrow> approval_policy option \<times> string" where
  "load_policy io p =
     (let path = (case safe_policy_path (policy_file_path p) of Some q \<Rightarrow> q | None \<Rightarrow> [])
      in case io_content io path (base_ref_of io) of
           Inl e \<Rightarrow> (None, ''policy unavailable: '' @ e)
         | Inr raw \<Rightarrow>
             (case parse_approval_policy (io_unmarshal io) (io_keys io) raw of
                Inl e \<Rightarrow> (None, ''policy unparseable: '' @ policy_error_text e)
              | Inr pol \<Rightarrow> (Some pol, [])))"

definition failed_or_error :: "scm_job \<Rightarrow> bool" where
  "failed_or_error j \<longleftrightarrow> j_status j = ''failed'' \<or> j_status j = ''error''"

definition degraded_inputs :: "scm_job \<Rightarrow> scm_job \<Rightarrow> string list" where
  "degraded_inputs bugbot sec =
     (if failed_or_error bugbot then [''bugbot incomplete''] else []) @
     (if failed_or_error sec then [''security incomplete''] else [])"

definition gate_failed :: "scm_job \<Rightarrow> bool" where
  "gate_failed sec = (case sget sec ''gate'' of JObj g \<Rightarrow> is_true (jget g ''fail'') | _ \<Rightarrow> False)"

text \<open>A child without a review leaves the zero value of the review.\<close>

definition review_of_child :: "approval_io \<Rightarrow> scm_job \<Rightarrow> ai_review_result" where
  "review_of_child io bugbot =
     (case sget bugbot ''ai'' of JNull \<Rightarrow> empty_review | v \<Rightarrow> io_dec_ai io v)"

definition min_score_of :: "approval_io \<Rightarrow> agent_prefs \<Rightarrow> int" where
  "min_score_of io p =
     (let m = (case io_watched io of Some (n, _) \<Rightarrow> n | None \<Rightarrow> 0)
      in if auto_approve p \<and> m \<le> 0 then 70 else m)"

definition approval_risk :: "approval_io \<Rightarrow> scm_job \<Rightarrow> scm_job \<Rightarrow> scm_job \<Rightarrow> int \<times> risk_factor list" where
  "approval_risk io j bugbot sec =
     compute_risk_score
       \<lparr>re_bugbot = review_of_child io bugbot, re_security_fail = gate_failed sec,
        re_security_findings = security_findings_from_run (io_getenv io) (io_peer io) (j_org j) (j_sec_run sec),
        re_diff = [], re_touched_files = [], re_degraded = degraded_inputs bugbot sec\<rparr>"

definition evidence_for ::
  "approval_io \<Rightarrow> agent_prefs \<Rightarrow> scm_job \<Rightarrow> scm_job \<Rightarrow> scm_job \<Rightarrow> approval_evidence" where
  "evidence_for io p j bugbot sec =
     \<lparr>ev_prefs = p, ev_bugbot = review_of_child io bugbot, ev_security_run_id = j_sec_run sec,
      ev_security_fail = gate_failed sec,
      ev_security_findings = security_findings_from_run (io_getenv io) (io_peer io) (j_org j) (j_sec_run sec),
      ev_bugbot_ok = (j_status bugbot = ''completed''), ev_security_ok = (j_status sec = ''completed''),
      ev_degraded = degraded_inputs bugbot sec,
      ev_cloud_child_exists = is_true (sget j ''pending_autofix''),
      ev_policy = fst (load_policy io p), ev_policy_honesty = snd (load_policy io p),
      ev_base_ref = base_ref_of io, ev_min_score = min_score_of io p,
      ev_risk_score = fst (approval_risk io j bugbot sec)\<rparr>"

text \<open>Go structs in the summary, with their JSON names.\<close>

definition factor_value :: "risk_factor \<Rightarrow> jv" where
  "factor_value f =
     JObj [(''name'', JStr (rf_name f)), (''detail'', JStr (rf_detail f)), (''points'', JInt (rf_points f))]"

definition finding_value :: "agent_finding \<Rightarrow> jv" where
  "finding_value f =
     JObj [(''key'', JStr (af_key f)), (''source'', JStr (af_source f)), (''severity'', JStr (af_severity f)),
           (''file'', JStr (af_file f)), (''line'', JInt (af_line f)), (''message'', JStr (af_message f)),
           (''rule'', JStr (af_rule f)), (''namespace'', JStr (af_namespace f))]"

definition record_decision ::
  "approval_io \<Rightarrow> approval_evidence \<Rightarrow> approval_decision \<Rightarrow> int \<times> risk_factor list \<Rightarrow> scm_job \<Rightarrow> scm_job" where
  "record_decision io ev d risk j =
     (let j = sset ''risk_score'' (JInt (fst risk)) j;
          j = sset ''risk_factors'' (JArr (map factor_value (snd risk))) j;
          j = sset ''review_event'' (JStr (event_name (dec_event d))) j;
          j = sset ''approval_reasons'' (JStrs (dec_reasons d)) j;
          j = sset ''approval_honesty'' (JStr (dec_honesty d)) j;
          j = sset ''ledger'' (JArr (map finding_value
                (build_ledger (io_sha1hex io) (ev_bugbot ev) (ev_security_findings ev)))) j
      in if ev_degraded ev \<noteq> [] then sset ''degraded'' (JStrs (ev_degraded ev)) j else j)"

definition masked_comments :: "agent_finding list \<Rightarrow> review_comment list" where
  "masked_comments fs =
     map (\<lambda>f. \<lparr>rc_path = af_file f, rc_line = af_line f, rc_body = format_masked_security_inline f\<rparr>)
       (filter (\<lambda>f. af_file f \<noteq> [] \<and> 1 \<le> af_line f) fs)"

definition publish_summary ::
  "approval_io \<Rightarrow> agent_prefs \<Rightarrow> ai_review_result \<Rightarrow> int \<times> risk_factor list \<Rightarrow> scm_job
     \<Rightarrow> gh_event list \<times> scm_job" where
  "publish_summary io p res risk j =
     (if \<not> pr_summaries p then ([], j)
      else
        let narrative = format_pr_summary_narrative res (if post_pr_risk_score p then Some risk else None);
            (body, outcome) = upsert_pr_summary (io_sha8 io) (0 < j_pr j \<and> io_conn io \<noteq> None) (io_body io)
                                (if gh_real io then io_update_body io else (\<lambda>_. None)) narrative;
            evs = (case body of Some b \<Rightarrow> if gh_real io then [GUpdatePull b] else [] | None \<Rightarrow> [])
        in (evs, case outcome of
                   SumError e \<Rightarrow> sset ''pr_summary_error'' (JStr e) j
                 | SumSkipped w \<Rightarrow> sset ''pr_summary_skipped'' (JStr w) j
                 | _ \<Rightarrow> sset ''pr_summary_updated'' (JBool True) j))"

definition route_reviewers :: "approval_io \<Rightarrow> agent_prefs \<Rightarrow> approval_policy option \<Rightarrow> scm_job \<Rightarrow> gh_event list" where
  "route_reviewers io p pol j =
     (case (reviewer_routing p, pol) of
        (True, Some q) \<Rightarrow> github_request_pr_reviewers io (j_pr j) (pol_reviewers q) (pol_team_reviewers q)
      | _ \<Rightarrow>
          (case io_watched io of
             Some (_, True) \<Rightarrow>
               github_request_pr_reviewers io (j_pr j) [github_app_reviewer_login (io_getenv io)] []
           | _ \<Rightarrow> []))"

text \<open>From the decision on: the inline findings, the summary, the decision review, the reviewers.\<close>

definition publish_approval ::
  "orch_env \<Rightarrow> approval_io \<Rightarrow> agent_prefs \<Rightarrow> approval_evidence \<Rightarrow> int \<times> risk_factor list \<Rightarrow> scm_job \<Rightarrow> scm_state
     \<Rightarrow> scm_job \<times> gh_event list \<times> scm_state" where
  "publish_approval env io p ev risk j s =
     (let d = evaluate_approval ev;
          j = record_decision io ev d risk j;
          specs = masked_comments (ev_security_findings ev);
          (inline_evs, _, s) =
            (if inline_findings p \<and> gh_real io \<and> specs \<noteq> []
             then publish_pr_review io j (''OPA AppSec '' @ em_dash @ '' masked inline findings'') ''COMMENT'' specs s
             else ([], None, s));
          (sum_evs, j) = publish_summary io p (ev_bugbot ev) risk j;
          (evs, err, s) = publish_pr_review io j (format_decision_body (dec_bugbot d) (dec_event d) (ev_min_score ev))
                            (event_name (dec_event d)) [] s;
          j = (case err of Some e \<Rightarrow> sset ''approval_publish_error'' (JStr e) j | None \<Rightarrow> j);
          j = sset ''pending_decision'' (JBool False) j
      in (j, inline_evs @ sum_evs @ evs @ route_reviewers io p (ev_policy ev) j, persist_scm_job env j s))"

definition run_prefs :: "string \<Rightarrow> scm_state \<Rightarrow> agent_prefs \<times> scm_state" where
  "run_prefs run s =
     (let (jo, s) = get_scm_job run s
      in (case jo of None \<Rightarrow> builtin_agent_prefs | Some r \<Rightarrow> agent_prefs_from_summary r, s))"

text \<open>\<^verbatim>\<open>runApprovalAgent\<close>: the job it leaves, its error, what it sent, the store.\<close>

definition run_approval_agent ::
  "orch_env \<Rightarrow> approval_io \<Rightarrow> scm_job \<Rightarrow> scm_state \<Rightarrow> scm_job \<times> string option \<times> gh_event list \<times> scm_state" where
  "run_approval_agent env io j s =
     (let (bugbot, s) = child_by_kind (j_run_id j) KBugbot s;
          (sec, s) = child_by_kind (j_run_id j) KSecurity s;
          (cancelled, s) = job_or_run_cancelled j s
      in if cancelled then
           (let j = sset ''skip_reason'' (JStr ''parent/run cancelled'') (j\<lparr>j_status := ''cancelled''\<rparr>)
            in (j, None, [], persist_scm_job env j s))
         else case (bugbot, sec) of
           (Some b, Some c) \<Rightarrow>
             (if \<not> job_terminal (j_status b) \<or> \<not> job_terminal (j_status c) then
                (j, Some ''approval requires terminal bugbot+security'', [], s)
              else if j_status b = ''failed'' \<and> j_status c = ''failed'' then
                (let j = sset ''degraded'' (JStrs [''bugbot failed'', ''security failed''])
                           (sset ''skip_reason'' (JStr ''no reviewer input'') (j\<lparr>j_status := ''skipped''\<rparr>))
                 in (j, None, [], persist_scm_job env j s))
              else
                let (denied, j) = (if github_use_mock_api (io_getenv io) (io_conn io) then (None, j)
                                   else ensure_github_write_allowed (io_getenv io) j (io_conn io))
                in case denied of
                     Some e \<Rightarrow>
                       (sset ''approval_publish_error'' (JStr (write_error_text e)) j, Some (write_error_text e), [], s)
                   | None \<Rightarrow>
                       (let (p, s) = run_prefs (j_run_id j) s;
                            (cloud, s) = child_by_kind (j_run_id j) KCloud s;
                            j = (case cloud of
                                   Some k \<Rightarrow> if job_terminal (j_status k) then j
                                              else sset ''pending_autofix'' (JBool True) j
                                 | None \<Rightarrow> j);
                            (j, evs, s) = publish_approval env io p (evidence_for io p j b c)
                                            (approval_risk io j b c) j s
                        in (j, None, evs, s)))
         | _ \<Rightarrow> (j, Some ''approval requires terminal bugbot+security'', [], s))"

end
