(* ===== verification/Checkup_Run.thy ===== *)
theory Checkup_Run
  imports Checkup_Report Review_Publish
begin

text \<open>
  Running a policed check plan (\<^verbatim>\<open>src/checkup_run.go\<close>) with its service containers
  (\<^verbatim>\<open>src/checkup_services.go\<close>), and the checkup agent.  Docker is a parameter: the record
  \<open>checkup_world\<close> holds its answers and those of the file system; what the code runs is the list of
  \<open>checkup_event\<close>s.
\<close>

subsection \<open>Service containers\<close>

record service_spec =
  ss_name :: string
  ss_image :: string
  ss_job :: string
  ss_network :: string
  ss_alias :: string
  ss_env_file :: string
  ss_memory :: string
  ss_cpus :: string

datatype service_error =
    SvImageRequired | SvJobRequired | SvNetworkRequired | SvEnvFileRelative | SvArgv argv_error

definition checkup_service_name :: "string \<Rightarrow> string \<Rightarrow> string" where
  "checkup_service_name job_id key =
     ''opa-job-'' @ sanitize_docker_name job_id @ ''-svc-'' @ sanitize_docker_name key"

definition service_argv :: "genv \<Rightarrow> string option \<Rightarrow> service_spec \<Rightarrow> string list" where
  "service_argv getenv hostname s =
     (let mem = nz (ss_memory s) ''1g''
      in [''run'', ''-d'', ''--rm'', ''--name'', nz (trim_space (ss_name s)) (checkup_service_name (ss_job s) ''svc''),
          ''--label'', ''opa.owner=opa-orchestrator'', ''--label'', ''opa.instance='' @ opa_instance_id getenv hostname,
          ''--label'', ''opa.job='' @ sanitize_docker_name (ss_job s), ''--label'', ''opa.role=service'',
          ''--cap-drop'', ''ALL'', ''--security-opt'', ''no-new-privileges'', ''--memory'', mem, ''--memory-swap'', mem,
          ''--cpus'', nz (ss_cpus s) ''1'', ''--pids-limit'', ''256'', ''--stop-timeout'', ''5'',
          ''--network'', trim_space (ss_network s)] @
         (if trim_space (ss_alias s) \<noteq> [] then [''--network-alias'', trim_space (ss_alias s)] else []) @
         (if trim_space (ss_env_file s) \<noteq> [] then [''--env-file'', trim_space (ss_env_file s)] else []) @
         [ss_image s])"

definition build_docker_service_argv ::
  "genv \<Rightarrow> string option \<Rightarrow> service_spec \<Rightarrow> service_error + string list" where
  "build_docker_service_argv getenv hostname s =
     (if trim_space (ss_image s) = [] then Inl SvImageRequired
      else if trim_space (ss_job s) = [] then Inl SvJobRequired
      else if trim_space (ss_network s) = [] then Inl SvNetworkRequired
      else if trim_space (ss_env_file s) \<noteq> [] \<and> \<not> is_abs (trim_space (ss_env_file s)) then Inl SvEnvFileRelative
      else case validate_docker_run_argv (service_argv getenv hostname s) of
        Some e \<Rightarrow> Inl (SvArgv e)
      | None \<Rightarrow> Inr (service_argv getenv hostname s))"

text \<open>
  \<^verbatim>\<open>waitCheckupServiceHealthy\<close>: \<open>image_health\<close> is whether the image has a health check (or the error of
  asking), \<open>polls\<close> what each poll before the deadline sees: the context cancelled, the health status of
  the container, or whether the plan's command succeeded.
\<close>

datatype health_poll = PollCancelled string | PollStatus string | PollExec bool

datatype health_result = Healthy | HealthError string

fun poll_health :: "string \<Rightarrow> bool \<Rightarrow> health_poll list \<Rightarrow> health_result" where
  "poll_health name img [] = HealthError ''health timeout''"
| "poll_health name img (PollCancelled e # ps) = HealthError e"
| "poll_health name img (PollStatus st # ps) =
     (if img \<and> st = ''healthy'' then Healthy
      else if img \<and> st = ''unhealthy'' then HealthError (''container '' @ name @ '' unhealthy'')
      else poll_health name img ps)"
| "poll_health name img (PollExec ok # ps) = (if \<not> img \<and> ok then Healthy else poll_health name img ps)"

definition wait_service_healthy ::
  "string \<Rightarrow> string list \<Rightarrow> string + bool \<Rightarrow> health_poll list \<Rightarrow> health_result" where
  "wait_service_healthy name cmd image_health polls =
     (case image_health of
        Inl e \<Rightarrow> HealthError e
      | Inr img \<Rightarrow>
          (if \<not> img \<and> cmd = [] then
             HealthError (''fail-closed: neither image HEALTHCHECK nor plan health_cmd for '' @ name)
           else poll_health name img polls))"

record checkup_world =
  cw_getenv :: genv
  cw_host :: "string option"
  cw_docker :: bool
  cw_cli :: "string option"
  cw_network :: "string + string"
  cw_env_file :: "string \<Rightarrow> string + string"
  cw_run :: "string list \<Rightarrow> string option"
  cw_image_health :: "string \<Rightarrow> string + bool"
  cw_polls :: "string \<Rightarrow> health_poll list"
  cw_proxy :: bool
  cw_xml :: xml_dec
  cw_read :: "string \<Rightarrow> string option"
  cw_exists :: "string \<Rightarrow> bool"
  cw_is_dir :: "string \<Rightarrow> bool"
  cw_ready :: "copies \<Rightarrow> string \<Rightarrow> bool"
  cw_copy :: "string \<Rightarrow> string \<Rightarrow> string option"
  cw_step :: "string \<Rightarrow> string option \<times> string \<times> int"
  cw_service_error :: "service_error \<Rightarrow> string"

datatype checkup_event =
    CkService "string list"
  | CkStopServices "string list"
  | CkPurge string
  | CkCopy string string
  | CkStep sandbox_exec "(string \<times> string) list" "(string \<times> string) list"

definition service_spec_of :: "checkup_world \<Rightarrow> string \<Rightarrow> string \<Rightarrow> string \<Rightarrow> checkup_service \<Rightarrow> service_spec" where
  "service_spec_of W job_id net env_file sv =
     \<lparr>ss_name = checkup_service_name job_id (sv_key sv), ss_image = sv_image sv, ss_job = job_id, ss_network = net,
      ss_alias = sv_key sv, ss_env_file = env_file, ss_memory = nz (sv_memory sv) ''1g'', ss_cpus = nz (sv_cpus sv) ''1''\<rparr>"

text \<open>The services in order; \<open>names\<close> are the containers started so far, stopped when one fails.\<close>

fun start_services ::
  "checkup_world \<Rightarrow> string \<Rightarrow> string \<Rightarrow> checkup_service list \<Rightarrow> string list
     \<Rightarrow> (string + string list) \<times> checkup_event list" where
  "start_services W job_id net [] names = (Inr names, [])"
| "start_services W job_id net (sv # svs) names =
     (let name = checkup_service_name job_id (sv_key sv);
          failed = (\<lambda>why names evs. (Inl why, evs @ [CkStopServices names]))
      in case (if sv_env sv = [] then Inr [] else cw_env_file W name) of
           Inl e \<Rightarrow> failed e names []
         | Inr ef \<Rightarrow>
             (case build_docker_service_argv (cw_getenv W) (cw_host W) (service_spec_of W job_id net ef sv) of
                Inl e \<Rightarrow> failed (''service '' @ sv_key sv @ '' argv: '' @ cw_service_error W e) names []
              | Inr argv \<Rightarrow>
                  (case cw_run W argv of
                     Some e \<Rightarrow> failed (''service '' @ sv_key sv @ '' start: '' @ e) names [CkService argv]
                   | None \<Rightarrow>
                       (case wait_service_healthy name (sv_health sv) (cw_image_health W name) (cw_polls W name) of
                          HealthError e \<Rightarrow>
                            failed (''service '' @ sv_key sv @ '' health: '' @ e) (names @ [name]) [CkService argv]
                        | Healthy \<Rightarrow>
                            apsnd ((#) (CkService argv)) (start_services W job_id net svs (names @ [name]))))))"

text \<open>The network of the services (empty without services), the containers, and the events.\<close>

definition start_checkup_services ::
  "checkup_world \<Rightarrow> string \<Rightarrow> checkup_service list \<Rightarrow> (string + string \<times> string list) \<times> checkup_event list" where
  "start_checkup_services W job_id svs =
     (if svs = [] then (Inr ([], []), [])
      else if \<not> cw_docker W then (Inl ''checkup services require OPA_JOB_SANDBOX=docker'', [])
      else case cw_cli W of
        Some e \<Rightarrow> (Inl e, [])
      | None \<Rightarrow>
          (case cw_network W of
             Inl e \<Rightarrow> (Inl e, [])
           | Inr net \<Rightarrow>
               (case start_services W job_id net svs [] of
                  (Inl e, evs) \<Rightarrow> (Inl e, evs)
                | (Inr names, evs) \<Rightarrow> (Inr (net, names), evs))))"

subsection \<open>One step\<close>

record step_result =
  sr_id :: string
  sr_ok :: bool
  sr_exit_ok :: bool
  sr_post_ok :: bool
  sr_error :: string
  sr_bytes :: int
  sr_ms :: int
  sr_kind :: string
  sr_junit :: int
  sr_excerpt :: string

definition checkup_log_excerpt :: "string \<Rightarrow> nat \<Rightarrow> string" where
  "checkup_log_excerpt out m =
     (let s = trim_space out; half = m div 2
      in if s = [] \<or> length s \<le> m then s
         else take half s @ nl @ ellipsis @ nl @ drop (length s - half) s)"

definition sandbox_work_rel :: "string \<Rightarrow> string" where
  "sandbox_work_rel work =
     (let b = path_base (path_clean work) in if b = ''sandbox'' \<or> b = ''related'' then b else ''primary'')"

definition resolve_sandbox_job_id :: "string \<Rightarrow> string \<Rightarrow> string" where
  "resolve_sandbox_job_id explicit work =
     (if trim_space explicit \<noteq> [] then trim_space explicit
      else
        let work = path_clean work; base = path_base work; parent = path_base (path_dir work)
        in if work = [] \<or> work = ''.'' then ''anon''
           else if base \<in> {''primary'', ''sandbox'', ''related''} \<and> parent \<noteq> [] \<and> parent \<noteq> ''.'' \<and> parent \<noteq> ''/''
           then parent else base)"

definition resolve_checkup_secrets :: "genv \<Rightarrow> string list \<Rightarrow> (string \<times> string) list" where
  "resolve_checkup_secrets getenv names =
     fold (\<lambda>n out.
       let uk = to_upper (trim_space n); v = trim_space (getenv uk);
           alias = (if uk = ''NPM_AUTH'' \<or> uk = ''NPM_TOKEN'' then trim_space (getenv ''NPM_TOKEN'') else [])
       in if uk \<notin> set grantable_secrets then out
          else if v \<noteq> [] then AList.update uk v out
          else if alias \<noteq> [] then AList.update uk alias out else out) names []"

definition install_binaries :: "string list" where
  "install_binaries = [''composer'', ''npm'', ''yarn'']"

text \<open>The box of a step: what it runs, the environment and the secrets handed to it.\<close>

definition step_box ::
  "string \<Rightarrow> string \<Rightarrow> string \<Rightarrow> string \<Rightarrow> string list \<Rightarrow> checkup_step \<Rightarrow> sandbox_exec" where
  "step_box job_id root net img siblings st =
     \<lparr>sx_phase = PhCheckup, sx_phase_name = ''checkup'', sx_job = job_id, sx_work = root, sx_rel = sandbox_work_rel root,
      sx_argv = cs_argv st, sx_ro = False, sx_network = nz net ''none'', sx_image = img, sx_ephemeral = False,
      sx_out = [], sx_suffix = [], sx_layout = resolve_sandbox_job_id [] root, sx_network_id = job_id,
      sx_siblings = siblings\<rparr>"

definition step_secrets :: "(string \<times> string) list \<Rightarrow> checkup_step \<Rightarrow> (string \<times> string) list" where
  "step_secrets secrets st =
     (if checkup_argv_binary (cs_argv st ! 0) \<in> set install_binaries then secrets else [])"

definition run_checkup_step ::
  "checkup_world \<Rightarrow> string \<Rightarrow> string \<Rightarrow> string \<Rightarrow> string \<Rightarrow> env_map \<Rightarrow> (string \<times> string) list \<Rightarrow> string list
     \<Rightarrow> checkup_step \<Rightarrow> step_result \<times> string \<times> checkup_event" where
  "run_checkup_step W job_id root net img plan_env secrets siblings st =
     (let extra = fold (\<lambda>(k, v). AList.update k v) (cs_env st) plan_env;
          (err, out, ms) = cw_step W (cs_id st);
          (ok, detail, n) = evaluate_post_condition (cw_xml W) (cw_read W) (cw_exists W) (cs_post st) (err = None) out root
      in (\<lparr>sr_id = cs_id st, sr_ok = ok, sr_exit_ok = (err = None), sr_post_ok = ok,
           sr_error = (if ok then [] else case err of None \<Rightarrow> detail | Some e \<Rightarrow> detail @ '': '' @ e),
           sr_bytes = int (length out), sr_ms = ms, sr_kind = po_kind (cs_post st), sr_junit = n,
           sr_excerpt = (if ok then [] else checkup_log_excerpt out 3000)\<rparr>,
          out, CkStep (step_box job_id root net img siblings st) extra (step_secrets secrets st)))"

subsection \<open>The plan\<close>

record checkup_result =
  ck_status :: string
  ck_honesty :: string
  ck_source :: string
  ck_image :: string
  ck_drops :: "string list"
  ck_steps :: "step_result list"
  ck_annotations :: int
  ck_workspace :: "workspace_report option"

definition plan_outcome :: "checkup_plan \<Rightarrow> string \<Rightarrow> string \<Rightarrow> checkup_result" where
  "plan_outcome plan status honesty =
     \<lparr>ck_status = status, ck_honesty = honesty, ck_source = cp_source plan, ck_image = cp_image plan, ck_drops = [],
      ck_steps = [], ck_annotations = 0, ck_workspace = None\<rparr>"

fun run_checkup_steps ::
  "checkup_world \<Rightarrow> (checkup_step \<Rightarrow> step_result \<times> string \<times> checkup_event) \<Rightarrow> string \<Rightarrow> checkup_step list
     \<Rightarrow> step_result list \<times> checkup_annotation list \<times> checkup_event list" where
  "run_checkup_steps W run root [] = ([], [], [])"
| "run_checkup_steps W run root (st # sts) =
     (let (r, out, ev) = run st;
          anns = step_annotations (cw_xml W) (cw_read W) root st
                   (if po_kind (cs_post st) = ''checkstyle'' \<and> po_path (cs_post st) = [] then out else []);
          (rs, as, evs) = run_checkup_steps W run root sts
      in (r # rs, anns @ as, ev # evs))"

text \<open>The steps once the services run and the network is known.\<close>

definition run_prepared_plan ::
  "checkup_world \<Rightarrow> string \<Rightarrow> string \<Rightarrow> string \<Rightarrow> checkup_plan
     \<Rightarrow> checkup_result \<times> checkup_annotation list \<times> checkup_event list" where
  "run_prepared_plan W job_id root net plan =
     (let (rep, copied) = prepare_checkup_workspace (cw_getenv W) (cw_ready W) (cw_copy W) (cw_read W) root;
          evs = (case purge_checkup_state root of Some d \<Rightarrow> [CkPurge d] | None \<Rightarrow> []) @
                map (\<lambda>(s, t). CkCopy s t) copied;
          ws = (if ws_root rep \<noteq> [] \<or> ws_required rep \<noteq> [] then Some rep else None)
      in if workspace_blocked rep then
           ((plan_outcome plan ''blocked'' (workspace_honesty rep))\<lparr>ck_workspace := ws\<rparr>, [], evs)
         else
           let siblings = checkup_module_sibling_dirs (cw_ready W copied) root rep;
               secrets = resolve_checkup_secrets (cw_getenv W) (cp_secrets plan);
               (rs, anns, es) = run_checkup_steps W
                 (run_checkup_step W job_id root net (cp_image plan) (cp_env plan) secrets siblings) root (cp_steps plan)
           in ((plan_outcome plan (if list_all sr_ok rs then ''passed'' else ''failed'') (workspace_honesty rep))
                 \<lparr>ck_steps := rs, ck_annotations := int (length anns), ck_workspace := ws\<rparr>, anns, evs @ es))"

definition run_checkup_plan ::
  "checkup_world \<Rightarrow> string \<Rightarrow> string \<Rightarrow> checkup_plan
     \<Rightarrow> checkup_result \<times> checkup_annotation list \<times> checkup_event list" where
  "run_checkup_plan W job_id root plan =
     (let stop = (\<lambda>status honesty evs. (plan_outcome plan status honesty, [], evs))
      in if cp_steps plan = [] then stop ''skipped'' ''no checkup steps after policy intersection'' []
         else if \<not> cw_docker W then
           stop ''refused'' ''OPA_JOB_SANDBOX=docker required for capRunRepoCode checkup'' []
         else if trim_space (cp_image plan) = [] then stop ''refused'' ''no allowlisted image'' []
         else case cw_cli W of
           Some e \<Rightarrow> stop ''refused'' e []
         | None \<Rightarrow>
             (let root = path_clean root
              in if root = [] \<or> \<not> is_abs root then stop ''failed'' ''work root must be absolute'' []
                 else case start_checkup_services W job_id (cp_services plan) of
                   (Inl e, evs) \<Rightarrow> stop ''failed'' (''services: '' @ e) evs
                 | (Inr (net, names), evs) \<Rightarrow>
                     (case (if net \<noteq> [] \<or> cp_services plan \<noteq> [] then Inr net
                            else if cw_proxy W then Inr ''internal+proxy'' else cw_network W) of
                        Inl e \<Rightarrow> stop ''failed'' (''network: '' @ e) (evs @ [CkStopServices names])
                      | Inr net \<Rightarrow>
                          (let (r, anns, es) = run_prepared_plan W job_id root net plan
                           in (r, anns, evs @ es @ [CkStopServices names])))))"

subsection \<open>The checkup agent\<close>

text \<open>\<^verbatim>\<open>checkoutPathForRun\<close>: the tree the prepare child recorded, else the one of the run.\<close>

definition recorded_checkout :: "bool \<Rightarrow> scm_job option \<Rightarrow> string" where
  "recorded_checkout docker jo =
     (case jo of
        None \<Rightarrow> []
      | Some j \<Rightarrow>
          (let tree = as_str (sget j ''sandbox_tree'')
           in if docker \<and> tree \<noteq> [] then tree else as_str (sget j ''checkout_path'')))"

definition checkout_path_for_run :: "bool \<Rightarrow> string \<Rightarrow> scm_state \<Rightarrow> string \<times> scm_state" where
  "checkout_path_for_run docker run s =
     (let (prep, s) = child_by_kind run KPrepare s; p = recorded_checkout docker prep
      in if p \<noteq> [] then (p, s)
         else let (parent, s) = get_scm_job run s in (recorded_checkout docker parent, s))"

definition scm_job_dashboard_url :: "genv \<Rightarrow> string \<Rightarrow> string" where
  "scm_job_dashboard_url getenv job_id =
     (let k = trim_space job_id;
          base = rev (dropWhile (\<lambda>c. c = CHR ''/'') (rev (env_or getenv ''OPA_DASHBOARD_URL'' ''http://127.0.0.1:8088'')))
      in if k = [] then [] else base @ ''/security/jobs/'' @ k)"

definition check_run_summary_with_job_link :: "genv \<Rightarrow> string \<Rightarrow> string \<Rightarrow> string" where
  "check_run_summary_with_job_link getenv summary job_id =
     (let u = scm_job_dashboard_url getenv job_id;
          link = ''[View in OPA Dashboard]('' @ u @ '')''; s = trim_space summary
      in if u = [] then summary else if s = [] then link else s @ nl @ nl @ link)"

definition failing_step :: "checkup_result \<Rightarrow> step_result option" where
  "failing_step r = List.find (\<lambda>x. \<not> sr_ok x) (ck_steps r)"

definition bool_word :: "bool \<Rightarrow> string" where
  "bool_word b = (if b then ''true'' else ''false'')"

definition format_checkup_check_summary :: "checkup_result \<Rightarrow> string list \<Rightarrow> string" where
  "format_checkup_check_summary r drops =
     (let head = ''status='' @ ck_status r @
            (if ck_honesty r \<noteq> [] then nl @ ck_honesty r else []) @
            (if ck_source r \<noteq> [] then nl @ ''plan_source='' @ ck_source r else []) @
            (if ck_image r \<noteq> [] then nl @ ''image='' @ ck_image r else []) @
            concat (map (\<lambda>d. nl @ ''drop: '' @ d) drops)
      in if ck_status r = ''blocked'' then
           truncate_str (head @ nl @ nl @ ''No step ran, so this commit was not verified '' @ em_dash @
             '' this is a runner setup issue, not a test failure.'') 60000
         else
           truncate_str (head @
             concat (map (\<lambda>x. nl @ ''step '' @ sr_id x @ '': ok='' @ bool_word (sr_ok x) @ '' exit='' @
                 bool_word (sr_exit_ok x) @ '' post='' @ bool_word (sr_post_ok x) @ '' '' @ show_int (sr_ms x) @ ''ms'' @
                 (if sr_error x \<noteq> [] then nl @ ''  reason: '' @ truncate_str (sr_error x) 300 else [])) (ck_steps r)) @
             (case failing_step r of
                Some x \<Rightarrow>
                  (if sr_excerpt x \<noteq> [] then
                     nl @ nl @ ''Output from failing step '' @ sr_id x @ '':'' @ nl @ nl @ fence_mark @ nl @
                     sr_excerpt x @ nl @ fence_mark @ nl else [])
              | None \<Rightarrow> [])) 60000)"

definition checkup_conclusion :: "checkup_result \<Rightarrow> string \<times> string" where
  "checkup_conclusion r =
     (let st = ck_status r
      in if st = ''failed'' then
           (''failure'', case failing_step r of Some x \<Rightarrow> ''OPA Checkup failed: '' @ sr_id x
                                              | None \<Rightarrow> ''OPA Checkup failed'')
         else if st = ''blocked'' then (''neutral'', ''OPA Checkup could not run'')
         else if st = ''skipped'' \<or> st = ''refused'' then (''neutral'', ''OPA Checkup '' @ st)
         else (''success'', ''OPA Checkup passed''))"

definition checkup_value :: "checkup_result \<Rightarrow> jv" where
  "checkup_value r =
     JObj ([(''status'', JStr (ck_status r)), (''honesty'', JStr (ck_honesty r)), (''plan_source'', JStr (ck_source r)),
            (''image'', JStr (ck_image r)), (''drops'', JStrs (ck_drops r)),
            (''steps'', JArr (map (\<lambda>x. JObj [(''id'', JStr (sr_id x)), (''ok'', JBool (sr_ok x)),
               (''exit_ok'', JBool (sr_exit_ok x)), (''post_ok'', JBool (sr_post_ok x)), (''error'', JStr (sr_error x)),
               (''stdout_bytes'', JInt (sr_bytes x)), (''duration_ms'', JInt (sr_ms x)), (''post_kind'', JStr (sr_kind x)),
               (''junit_tests'', JInt (sr_junit x)), (''log_excerpt'', JStr (sr_excerpt x))]) (ck_steps r))),
            (''annotations'', JInt (ck_annotations r))] @
           (case ck_workspace r of
              None \<Rightarrow> []
            | Some w \<Rightarrow> [(''workspace'', JObj [(''required'', JStrs (ws_required w)), (''satisfied'', JStrs (ws_satisfied w)),
                          (''unresolved'', JStrs (ws_unresolved w)), (''source_root'', JStr (ws_root w))])]))"

definition bare_result :: "string \<Rightarrow> string \<Rightarrow> checkup_result" where
  "bare_result status honesty =
     \<lparr>ck_status = status, ck_honesty = honesty, ck_source = [], ck_image = [], ck_drops = [], ck_steps = [],
      ck_annotations = 0, ck_workspace = None\<rparr>"

definition checkup_error :: "checkup_result \<Rightarrow> string option" where
  "checkup_error r =
     (if ck_status r \<noteq> ''failed'' then None
      else case failing_step r of
        Some x \<Rightarrow> Some (''checkup failed: step '' @ sr_id x @ '': '' @ nz (sr_error x) ''post-condition not met'')
      | None \<Rightarrow> Some (''checkup failed: '' @ nz (ck_honesty r) ''step post-condition''))"

text \<open>
  \<^verbatim>\<open>runCheckupAgent\<close>: the job it leaves, its error, the events, the updates of the check run and the
  store.  \<open>fs\<close> is the tree at the checkout, \<open>check_id\<close> the check run GitHub created (0: none), \<open>conn\<close> the
  connector.  The plan itself is stored in the summary as its step ids.
\<close>

type_synonym check_update = "string \<times> string \<times> checkup_annotation list"

definition run_checkup_agent ::
  "orch_env \<Rightarrow> checkup_world \<Rightarrow> (string \<Rightarrow> bool) \<Rightarrow> (string \<Rightarrow> string + checkup_plan) \<Rightarrow> tree_fs \<Rightarrow> connector option
     \<Rightarrow> int \<Rightarrow> scm_job \<Rightarrow> scm_state
     \<Rightarrow> scm_job \<times> string option \<times> checkup_event list \<times> check_update list \<times> scm_state" where
  "run_checkup_agent env W looks_secret dec fs conn check_id j s =
     (let (p, s) = run_prefs (j_run_id j) s; getenv = cw_getenv W
      in if \<not> checkup_enabled p then
           (let j = sset ''checkup'' (checkup_value (bare_result ''skipped'' ''checkup_enabled=off''))
                     (sset ''skip_reason'' (JStr ''checkup_enabled=off'') (j\<lparr>j_status := ''skipped''\<rparr>))
            in (j, None, [], [], persist_scm_job env j s))
         else if \<not> cw_docker W then
           (let j = sset ''checkup'' (checkup_value (bare_result ''refused'' ''OPA_JOB_SANDBOX=docker required for capRunRepoCode''))
                     (sset ''skip_reason'' (JStr ''OPA_JOB_SANDBOX=docker required'') (j\<lparr>j_status := ''skipped''\<rparr>))
            in (j, None, [], [], persist_scm_job env j s))
         else
           let (root, s) = checkout_path_for_run (cw_docker W) (j_run_id j) s
           in if root = [] then
                (sset ''checkup'' (checkup_value (bare_result ''failed'' ''no checkout path'')) j,
                 Some ''checkup: no checkout path'', [], [], s)
              else
                let (denied, j) = (if github_use_mock_api getenv conn then (None, j)
                                   else ensure_github_write_allowed getenv j conn)
                in case denied of
                     Some e \<Rightarrow>
                       (let j = sset ''publish_refused'' (JStr (write_error_text e)) j
                        in (j, Some (write_error_text e), [], [], persist_scm_job env j s))
                   | None \<Rightarrow>
                       (let j = j\<lparr>j_checks := AList.update ''checkup'' check_id (j_checks j)\<rparr>;
                            s = persist_scm_job env j s;
                            (plan, drops) = intersect_spec_with_policy getenv looks_secret
                                              (Some (derive_checkup_plan getenv dec fs));
                            j = sset ''checkup_plan'' (JStrs (map cs_id (cp_steps plan))) j;
                            j = sset ''checkup_drops'' (JStrs drops) j;
                            (r, anns, evs) = run_checkup_plan W (j_id j) root plan;
                            r = r\<lparr>ck_drops := drops\<rparr>;
                            extra = phpstan_new_errors_honesty fs plan;
                            r = (if extra = [] then r
                                 else r\<lparr>ck_honesty := (if ck_honesty r \<noteq> [] then ck_honesty r @ nl @ extra else extra)\<rparr>);
                            j = sset ''checkup'' (checkup_value r) j;
                            updates = (if check_id = 0 then []
                                       else annotation_updates (fst (checkup_conclusion r)) (batches anns))
                        in (j, checkup_error r, evs, updates, persist_scm_job env j s)))"

end
