(* ===== verification/Hook_Checkers.thy ===== *)
theory Hook_Checkers
  imports Hook_Receipts Checkup_Run
begin

text \<open>
  What a delivery makes known to others: the event envelope (\<^verbatim>\<open>src/scm_event_envelope.go\<close>), the
  native and peer checkers and the statuses posted for them (\<^verbatim>\<open>src/scm_native_checker.go\<close>,
  \<^verbatim>\<open>src/scm_peer_fanout.go\<close>, \<^verbatim>\<open>src/scm_checker.go\<close>).

  The JSON decoders of the payloads, the answers of the peer products and of GitHub, and the HMAC are
  fields of \<open>hook_env\<close>.
\<close>

subsection \<open>Payloads\<close>

record pr_payload =
  pp_action :: string
  pp_number :: int
  pp_pr :: int
  pp_title :: string
  pp_body :: string
  pp_draft :: bool
  pp_merged :: bool
  pp_merged_at :: string
  pp_sha :: string
  pp_ref :: string
  pp_repo :: string
  pp_default :: string
  pp_inst :: int
  pp_paths :: "string list"

record push_payload =
  pu_ref :: string
  pu_after :: string
  pu_repo :: string
  pu_default :: string
  pu_inst :: int
  pu_paths :: "string list"

record inst_payload =
  ip_action :: string
  ip_inst :: int
  ip_login :: string
  ip_repos :: "string list"
  ip_added :: "string list"
  ip_removed :: "string list"

record issue_payload =
  is_action :: string
  is_number :: int
  is_title :: string
  is_body :: string
  is_pr_url :: string
  is_labels :: "string list"
  is_label :: string
  is_repo :: string
  is_inst :: int

record envelope =
  ev_id :: string
  ev_type :: string
  ev_org :: string
  ev_proj :: string
  ev_conn :: string
  ev_repo :: string
  ev_ref :: string
  ev_default :: string
  ev_pr :: int
  ev_sha :: string
  ev_job :: string
  ev_paths :: "string list"
  ev_checks :: "string list"

record checker_decl =
  cd_product :: string
  cd_id :: string
  cd_name :: string
  cd_run :: bool
  cd_reason :: string

record checker_meta =
  cm_key :: string
  cm_name :: string
  cm_sha :: string
  cm_status :: string
  cm_conclusion :: string
  cm_title :: string
  cm_summary :: string
  cm_url :: string

record status_post =
  sp_sha :: string
  sp_state :: string
  sp_context :: string
  sp_desc :: string
  sp_url :: string

record hook_env =
  he_conn :: conn_env
  he_orch :: orch_env
  he_hmac :: "string \<Rightarrow> string \<Rightarrow> string"
  he_pr :: "string \<Rightarrow> pr_payload option"
  he_push :: "string \<Rightarrow> push_payload option"
  he_inst :: "string \<Rightarrow> inst_payload"
  he_issue :: "string \<Rightarrow> issue_payload option"
  he_comment :: "string \<Rightarrow> string \<times> int \<times> int \<times> string"
  he_prefs :: "string \<Rightarrow> jobj option"
  he_peers :: "string \<Rightarrow> envelope \<Rightarrow> checker_decl list"
  he_check_run :: "string \<Rightarrow> checker_meta \<Rightarrow> int option"
  he_status :: "string \<Rightarrow> status_post \<Rightarrow> bool"

definition he_getenv :: "hook_env \<Rightarrow> genv" where
  "he_getenv E = e_getenv (he_orch E)"

text \<open>
  The job store asks the registry for the watch of a repository; a connector that is hydrated on that
  way is not stored.
\<close>

definition orch_of :: "hook_env \<Rightarrow> hook_state \<Rightarrow> orch_env" where
  "orch_of E w =
     (he_orch E)\<lparr>e_watched := (\<lambda>repo. map_option wt_checks (fst (fst (find_watched (he_conn E) repo (hs_conns w)))))\<rparr>"

definition with_jobs :: "hook_env \<Rightarrow> (orch_env \<Rightarrow> scm_state \<Rightarrow> 'a \<times> scm_state) \<Rightarrow> hook_state \<Rightarrow> 'a \<times> hook_state" where
  "with_jobs E f w = on_jobs (he_orch E) (f (orch_of E w)) w"

definition watched_checks_of :: "hook_env \<Rightarrow> watched \<Rightarrow> string list" where
  "watched_checks_of E t = parse_watched_checks (he_getenv E) (e_dec_strs (he_orch E)) (wt_checks t)"

subsection \<open>The envelope\<close>

definition extract_ref_default :: "hook_env \<Rightarrow> string \<Rightarrow> string \<Rightarrow> string \<times> string" where
  "extract_ref_default E raw event =
     (let e = trim_space event
      in if raw = [] then ([], [])
         else if e = ''pull_request'' then
           (case he_pr E raw of None \<Rightarrow> ([], []) | Some p \<Rightarrow> (pp_ref p, pp_default p))
         else if e = ''push'' then
           (case he_push E raw of None \<Rightarrow> ([], []) | Some p \<Rightarrow> (pu_ref p, pu_default p))
         else ([], []))"

definition extract_changed_paths :: "hook_env \<Rightarrow> string \<Rightarrow> string \<Rightarrow> string list" where
  "extract_changed_paths E raw event =
     (let e = trim_space event
      in if raw = [] then []
         else if e = ''pull_request'' then
           (case he_pr E raw of None \<Rightarrow> [] | Some p \<Rightarrow> dedupe_paths (pp_paths p))
         else if e = ''push'' then
           (case he_push E raw of None \<Rightarrow> [] | Some p \<Rightarrow> dedupe_paths (pu_paths p))
         else [])"

definition or_else :: "string \<Rightarrow> string \<Rightarrow> string" where
  "or_else a b = (if a = [] then b else a)"

definition build_envelope ::
  "hook_env \<Rightarrow> receipt \<Rightarrow> scm_job option \<Rightarrow> watched \<Rightarrow> string \<Rightarrow> string \<Rightarrow> envelope" where
  "build_envelope E r jo t raw event =
     (let pick = (\<lambda>a jf b. or_else (or_else a (case jo of None \<Rightarrow> [] | Some j \<Rightarrow> jf j)) b);
          (ref, dflt) = extract_ref_default E raw event
      in \<lparr>ev_id = load_id (e_sha1hex (he_orch E)) ''scmenv'' [hk_id r, event],
          ev_type = normalize_scm_envelope_event event (hk_action r),
          ev_org = pick (hk_org r) j_org (wt_org t), ev_proj = pick (hk_proj r) j_proj (wt_proj t),
          ev_conn = pick (hk_conn r) j_conn (wt_conn t),
          ev_repo = hk_repo r, ev_ref = ref, ev_default = dflt, ev_pr = hk_pr r, ev_sha = hk_sha r,
          ev_job = (case jo of None \<Rightarrow> [] | Some j \<Rightarrow> j_id j),
          ev_paths = extract_changed_paths E raw event, ev_checks = watched_checks_of E t\<rparr>)"

subsection \<open>Native and peer checkers\<close>

definition extract_pr_merged :: "hook_env \<Rightarrow> string \<Rightarrow> bool \<times> string" where
  "extract_pr_merged E raw =
     (if raw = [] then (False, [])
      else case he_pr E raw of None \<Rightarrow> (False, []) | Some p \<Rightarrow> (pp_merged p, pp_merged_at p))"

definition ora_decl :: "bool \<Rightarrow> string \<Rightarrow> checker_decl" where
  "ora_decl run why = \<lparr>cd_product = ''ora'', cd_id = ''review'', cd_name = ''OPA Review'', cd_run = run, cd_reason = why\<rparr>"

definition evaluate_ora_review :: "hook_env \<Rightarrow> envelope \<Rightarrow> string \<Rightarrow> hook_state \<Rightarrow> checker_decl \<times> hook_state" where
  "evaluate_ora_review E v raw w =
     (let (merged, merged_at) = extract_pr_merged E raw
      in if ev_checks v \<noteq> [] \<and> \<not> checks_include (ev_checks v) ''ora:review'' then
           (ora_decl False ''ora:review not requested in checks filter'', w)
         else if ev_pr v \<le> 0 then (ora_decl False (''no pull request number '' @ em_dash @ '' review is PR-scoped''), w)
         else if \<not> ora_review_actionable_event (ev_type v) then
           (ora_decl False ''PR action not actionable (only opened/synchronize/reopened/ready_for_review)'', w)
         else if scm_pr_is_merged merged merged_at then (ora_decl False ''pull request is already merged'', w)
         else
           let (prior, w) = with_jobs E (\<lambda>env. lookup_successful_ai_review env (ev_repo v) (ev_sha v) []) w
           in case prior of
                Some k \<Rightarrow>
                  (ora_decl False (''commit already reviewed successfully'' @
                     (if k = [] then [] else '' (prior job '' @ k @ '')'')), w)
              | None \<Rightarrow> (ora_decl True (''PR event '' @ ev_type v), w))"

definition evaluate_native :: "hook_env \<Rightarrow> envelope \<Rightarrow> string list \<Rightarrow> string \<Rightarrow> hook_state \<Rightarrow> checker_decl list \<times> hook_state" where
  "evaluate_native E v checks raw w =
     (if \<not> wants_ora_review checks then ([], w)
      else
        let v = (if ev_checks v = [] then v\<lparr>ev_checks := checks\<rparr> else v);
            (d, w) = evaluate_ora_review E v raw w
        in ([d], w))"

definition scm_peer_targets :: "(string \<times> string) list" where
  "scm_peer_targets = [(''osa'', ''PEER_OSA_URL''), (''opl'', ''PEER_OPL_URL''), (''opm'', ''PEER_OPM_URL'')]"

text \<open>
  \<^verbatim>\<open>fanOutSCMEventToPeers\<close>: the configured products that declare checkers; a failed request declares
  none.  \<^verbatim>\<open>aggregatePeerCheckersWithProduct\<close>: the qualified checks of the watch filter them.
\<close>

definition fan_out :: "hook_env \<Rightarrow> envelope \<Rightarrow> (string \<times> checker_decl list) list" where
  "fan_out E v =
     map (\<lambda>(p, k). (p, he_peers E p v)) (filter (\<lambda>(p, k). peer_product_configured (he_getenv E) k) scm_peer_targets)"

definition aggregate_peers :: "(string \<times> checker_decl list) list \<Rightarrow> string list \<Rightarrow> checker_decl list" where
  "aggregate_peers responses checks =
     (let allowed = filter (\<lambda>c. contains c '':'') checks
      in concat (map (\<lambda>(p, ds).
           map (\<lambda>d. d\<lparr>cd_product := p, cd_name := (if cd_name d = [] then to_upper p @ '' / '' @ cd_id d else cd_name d)\<rparr>)
             (filter (\<lambda>d. allowed = [] \<or> checker_status_key p (cd_id d) \<in> set allowed) ds)) responses))"

subsection \<open>Posting\<close>

definition filled_meta :: "checker_meta \<Rightarrow> checker_meta" where
  "filled_meta m =
     (let name = or_else (cm_name m) (cm_key m); title = or_else (cm_title m) name; status = nz (cm_status m) ''completed''
      in m\<lparr>cm_name := name, cm_title := title, cm_summary := or_else (cm_summary m) title, cm_status := status,
           cm_conclusion := (if status = ''completed'' then or_else (cm_conclusion m) ''neutral'' else cm_conclusion m)\<rparr>)"

text \<open>The body of a commit status: its context is product and checker.\<close>

definition status_of_checker :: "checker_meta \<Rightarrow> status_post" where
  "status_of_checker m =
     (let (product, checker) = split_checker_key (cm_key m)
      in \<lparr>sp_sha = cm_sha m, sp_state = map_checker_conclusion (cm_conclusion m) (cm_status m),
          sp_context = trim_set product ''/'' @ ''/'' @ trim_set checker ''/'',
          sp_desc = truncate_str (cm_title m) 140, sp_url = cm_url m\<rparr>)"

text \<open>
  \<^verbatim>\<open>publishCheckerResult\<close>: a check run for an App, else a commit status; \<^const>\<open>None\<close> an error.  A
  check run that is not completed is sent without a conclusion.  \<open>hs_posts\<close> records the requests
  made, by key and form.
\<close>

definition publish_checker_result ::
  "hook_env \<Rightarrow> app_conn \<Rightarrow> string \<Rightarrow> checker_meta \<Rightarrow> hook_state \<Rightarrow> (int \<times> string) option \<times> hook_state" where
  "publish_checker_result E c full m w =
     (let m = filled_meta m;
          run = (if cm_status m = ''completed'' then m else m\<lparr>cm_conclusion := []\<rparr>);
          post = (\<lambda>form w. w\<lparr>hs_posts := hs_posts w @ [(cm_key m, form)]\<rparr>);
          mock = github_use_mock_api (he_getenv E) (Some (connector.truncate c));
          use_run = (cn_kind c = ''github_app'' \<and> cn_inst c \<noteq> [] \<and>
                     \<not> (cn_kind c = ''github_pat'' \<and> env_or (he_getenv E) ''OPA_SCM_SKIP_CHECK_RUNS'' ''1'' = ''1''));
          status = (\<lambda>w. if mock then (Some (0, ''commit_status''), w)
                        else (if he_status E full (status_of_checker m) then Some (0, ''commit_status'') else None,
                              post ''commit_status'' w))
      in if trim_space (cm_sha m) = [] then (None, w)
         else if use_run \<and> \<not> mock then
           (case he_check_run E full run of
              Some n \<Rightarrow> (Some (n, ''check_run''), post ''check_run'' w)
            | None \<Rightarrow> status (post ''check_run'' w))
         else status w)"

definition checker_meta_of :: "hook_env \<Rightarrow> envelope \<Rightarrow> checker_decl \<Rightarrow> checker_meta" where
  "checker_meta_of E v d =
     \<lparr>cm_key = checker_status_key (cd_product d) (cd_id d), cm_name = cd_name d, cm_sha = ev_sha v, cm_status = ''queued'',
      cm_conclusion = [], cm_title = cd_name d, cm_summary = nz (cd_reason d) ''Peer checker queued'',
      cm_url = scm_job_dashboard_url (he_getenv E) (ev_job v)\<rparr>"

definition note_published :: "string \<Rightarrow> string \<Rightarrow> string \<Rightarrow> orch_env \<Rightarrow> scm_state \<Rightarrow> unit \<times> scm_state" where
  "note_published job key form env s =
     (let (jo, s) = get_scm_job job s
      in case jo of
           None \<Rightarrow> ((), s)
         | Some j \<Rightarrow> ((), persist_scm_job env (sset (''checker_publish_'' @ key) (JStr form) j) s))"

definition publish_one ::
  "hook_env \<Rightarrow> app_conn \<Rightarrow> envelope \<Rightarrow> checker_decl \<Rightarrow> (string \<times> int) list \<times> hook_state \<Rightarrow> (string \<times> int) list \<times> hook_state" where
  "publish_one E c v d acc =
     (if \<not> cd_run d then acc
      else
        let m = checker_meta_of E v d; (res, w) = publish_checker_result E c (ev_repo v) m (snd acc)
        in case res of
             None \<Rightarrow> (fst acc, w)
           | Some (n, form) \<Rightarrow>
               (if n \<noteq> 0 then AList.update (cm_key m) n (fst acc) else fst acc,
                if form \<noteq> [] \<and> ev_job v \<noteq> [] then snd (with_jobs E (note_published (ev_job v) (cm_key m) form) w) else w))"

definition publish_checkers ::
  "hook_env \<Rightarrow> app_conn \<Rightarrow> envelope \<Rightarrow> checker_decl list \<Rightarrow> hook_state \<Rightarrow> (string \<times> int) list \<times> hook_state" where
  "publish_checkers E c v ds w =
     (let (owner, repo) = split_owner_repo (ev_repo v)
      in if owner = [] \<or> repo = [] then ([], w) else fold (publish_one E c v) ds ([], w))"

definition dispatch_checkers ::
  "hook_env \<Rightarrow> app_conn option \<Rightarrow> envelope \<Rightarrow> string list \<Rightarrow> string \<Rightarrow> hook_state \<Rightarrow> (string \<times> int) list \<times> hook_state" where
  "dispatch_checkers E co v checks raw w =
     (case co of
        None \<Rightarrow> ([], w)
      | Some c \<Rightarrow>
          (let (ds, w) = evaluate_native E v checks raw w
           in publish_checkers E c v (ds @ aggregate_peers (fan_out E v) checks) w))"

definition merge_checker_ids :: "(string \<times> int) list \<Rightarrow> scm_job \<Rightarrow> scm_job" where
  "merge_checker_ids ids j = j\<lparr>j_checks := fold (\<lambda>(k, n) m. AList.update k n m) ids (j_checks j)\<rparr>"

end
