(* ===== verification/Hook_Ingress.thy ===== *)
theory Hook_Ingress
  imports Hook_Checkers
begin

text \<open>
  The ingress of GitHub deliveries (\<^verbatim>\<open>src/scm_webhook_ingress.go\<close>, the handlers of
  \<^verbatim>\<open>src/scm_orchestrator.go\<close> and \<^verbatim>\<open>src/scm_issue_run.go\<close>): the signature, the duplicate check, the
  handlers of the events, and the jobs they queue.  \<open>hs_started\<close> records the jobs handed to
  \<^verbatim>\<open>processSCMJob\<close>.
\<close>

subsection \<open>Signatures\<close>

definition hex_val :: "char \<Rightarrow> nat option" where
  "hex_val c =
     (let n = byte_of c
      in if 48 \<le> n \<and> n \<le> 57 then Some (n - 48)
         else if 97 \<le> n \<and> n \<le> 102 then Some (n - 87)
         else if 65 \<le> n \<and> n \<le> 70 then Some (n - 55)
         else None)"

text \<open>\<^verbatim>\<open>hex.DecodeString\<close>: pairs of hex digits.\<close>

fun hex_decode :: "string \<Rightarrow> string option" where
  "hex_decode [] = Some []"
| "hex_decode [c] = None"
| "hex_decode (c # d # cs) =
     (case (hex_val c, hex_val d, hex_decode cs) of
        (Some a, Some b, Some bs) \<Rightarrow> Some (char_of (16 * a + b) # bs)
      | _ \<Rightarrow> None)"

definition allow_unsigned :: "genv \<Rightarrow> bool" where
  "allow_unsigned getenv \<longleftrightarrow> env_or getenv ''OPA_SCM_ALLOW_UNSIGNED'' ''0'' = ''1''"

definition verify_github_signature :: "hook_env \<Rightarrow> string \<Rightarrow> string \<Rightarrow> string \<Rightarrow> bool" where
  "verify_github_signature E secret body sig =
     (let sig = trim_space sig
      in if secret = [] then allow_unsigned (he_getenv E)
         else if \<not> has_prefix sig ''sha256='' then False
         else case hex_decode (trim_prefix sig ''sha256='') of
           None \<Rightarrow> False
         | Some want \<Rightarrow> he_hmac E secret body = want)"

definition decrypt_webhook_secret :: "hook_env \<Rightarrow> string \<Rightarrow> string option" where
  "decrypt_webhook_secret E ref =
     (let ref = trim_space ref
      in if ref = [] then None
         else if is_encrypted_secret ref then ce_decrypt (he_conn E) ref else Some ref)"

definition verify_repo_signature :: "hook_env \<Rightarrow> watched \<Rightarrow> string \<Rightarrow> string \<Rightarrow> bool" where
  "verify_repo_signature E t body sig =
     (case decrypt_webhook_secret E (wt_secret t) of
        None \<Rightarrow> allow_unsigned (he_getenv E)
      | Some secret \<Rightarrow>
          (if secret = [] then allow_unsigned (he_getenv E) else verify_github_signature E secret body sig))"

definition app_signature :: "hook_env \<Rightarrow> string \<Rightarrow> string \<Rightarrow> bool" where
  "app_signature E body sig =
     verify_github_signature E (trim_space (he_getenv E ''OPA_GITHUB_WEBHOOK_SECRET'')) body sig"

definition extract_repo_name :: "hook_env \<Rightarrow> string \<Rightarrow> string \<Rightarrow> string" where
  "extract_repo_name E raw event =
     (let e = trim_space event
      in if e = ''pull_request'' then (case he_pr E raw of None \<Rightarrow> [] | Some p \<Rightarrow> pp_repo p)
         else if e = ''push'' then (case he_push E raw of None \<Rightarrow> [] | Some p \<Rightarrow> pu_repo p)
         else [])"

text \<open>The watch whose secret signs a delivery on the route of a connector.\<close>

definition signing_watch :: "hook_env \<Rightarrow> string \<Rightarrow> string \<Rightarrow> hook_state \<Rightarrow> watched option \<times> hook_state" where
  "signing_watch E cid repo w =
     (case find_watched_for_connector_repo cid repo (hs_conns w) of
        Some t \<Rightarrow> (Some t, w)
      | None \<Rightarrow>
          (if repo = [] then (None, w)
           else let ((wo, _), w) = on_conns (find_watched (he_conn E) repo) w in (wo, w)))"

definition connector_signature :: "hook_env \<Rightarrow> string \<Rightarrow> string \<Rightarrow> string \<Rightarrow> string \<Rightarrow> hook_state \<Rightarrow> bool \<times> hook_state" where
  "connector_signature E cid raw event sig w =
     (let (wo, w) = signing_watch E cid (extract_repo_name E raw event) w
      in (case wo of
            Some t \<Rightarrow> (if wt_mode t = ''repo'' then verify_repo_signature E t raw sig else app_signature E raw sig)
          | None \<Rightarrow> app_signature E raw sig, w))"

subsection \<open>Answers\<close>

datatype hook_reply =
    HError nat string
  | HPong
  | HDuplicate string
  | HSkipped string
  | HIgnored string
  | HPeerOnly
  | HDisabled nat
  | HInstalled "string list" string
  | HQueued string string

definition finish_with ::
  "hook_env \<Rightarrow> receipt \<Rightarrow> string \<Rightarrow> string \<Rightarrow> hook_reply \<Rightarrow> hook_state \<Rightarrow> hook_reply \<times> hook_state" where
  "finish_with E r outcome honesty reply w =
     (reply, snd (finish_receipt (he_conn E) (he_orch E) r outcome honesty 200 [] w))"

definition finish_error ::
  "hook_env \<Rightarrow> receipt \<Rightarrow> string \<Rightarrow> nat \<Rightarrow> string \<Rightarrow> hook_state \<Rightarrow> hook_reply \<times> hook_state" where
  "finish_error E r honesty code err w =
     (HError code err, snd (finish_receipt (he_conn E) (he_orch E) r ''error'' honesty (int code) err w))"

subsection \<open>Finding the watch of a delivery\<close>

definition inst_text :: "int \<Rightarrow> string" where
  "inst_text n = (if n = 0 then [] else show_int n)"

text \<open>The watch of the forced connector, else the preferred one of the repository.\<close>

definition watch_of_delivery ::
  "hook_env \<Rightarrow> string \<Rightarrow> app_conn option \<Rightarrow> string \<Rightarrow> hook_state \<Rightarrow> (watched option \<times> app_conn option) \<times> hook_state" where
  "watch_of_delivery E cid forced repo w =
     (case (case forced of None \<Rightarrow> None | Some c \<Rightarrow> find_watched_for_connector_repo cid repo (hs_conns w)) of
        Some t \<Rightarrow> ((Some t, forced), w)
      | None \<Rightarrow> on_conns (find_watched (he_conn E) repo) w)"

text \<open>Organization and connector to ask the account product with.\<close>

definition directory_scope ::
  "hook_env \<Rightarrow> string \<Rightarrow> app_conn option \<Rightarrow> string \<Rightarrow> bool \<Rightarrow> hook_state \<Rightarrow> (string \<times> string) \<times> hook_state" where
  "directory_scope E cid forced inst provision w =
     (let cid = trim_space cid;
          org = (case forced of None \<Rightarrow> [] | Some c \<Rightarrow> cn_org c);
          cid = (case forced of None \<Rightarrow> cid | Some c \<Rightarrow> or_else cid (cn_id c));
          (org, cid) = (if cid = [] \<or> org = [] then
             (case find_connector_by_installation inst (hs_conns w) of
                None \<Rightarrow> (org, cid) | Some c \<Rightarrow> (or_else org (cn_org c), or_else cid (cn_id c))) else (org, cid))
      in if provision \<and> (cid = [] \<or> org = []) \<and> inst \<noteq> [] \<and> github_app_configured (ce_getenv (he_conn E)) \<and> forced = None then
           (let (co, w) = on_conns (ensure_github_app_connector (he_conn E) inst []) w
            in (case co of None \<Rightarrow> (org, cid) | Some c \<Rightarrow> (or_else org (cn_org c), or_else cid (cn_id c)), w))
         else ((org, cid), w))"

definition directory_watch ::
  "hook_env \<Rightarrow> string \<Rightarrow> app_conn option \<Rightarrow> string \<Rightarrow> bool \<Rightarrow> string \<Rightarrow> hook_state
     \<Rightarrow> (string + watched \<times> app_conn) \<times> hook_state" where
  "directory_watch E cid forced inst provision repo w =
     (let ((org, cid), w) = directory_scope E cid forced inst provision w
      in on_conns (ensure_watched_from_oam (he_conn E) org repo cid) w)"

text \<open>Without the account product a pull request of an installed repository is watched on the way.\<close>

definition provision_watch ::
  "hook_env \<Rightarrow> app_conn option \<Rightarrow> string \<Rightarrow> string \<Rightarrow> hook_state
     \<Rightarrow> (watched \<times> app_conn option) option \<times> hook_state" where
  "provision_watch E forced inst repo w =
     (if inst \<noteq> [] \<and> github_app_configured (ce_getenv (he_conn E)) \<and> forced = None then
        (let (co, w) = on_conns (ensure_github_app_connector (he_conn E) inst []) w
         in case co of
              None \<Rightarrow> (None, w)
            | Some c \<Rightarrow>
                (let (wo, w) = on_conns (auto_watch_installed_repo (he_conn E) (Some c) repo) w
                 in (map_option (\<lambda>t. (t, Some c)) wo, w)))
      else (None, w))"

definition install_watch ::
  "hook_env \<Rightarrow> app_conn option \<Rightarrow> string \<Rightarrow> string \<Rightarrow> hook_state
     \<Rightarrow> (watched option \<times> app_conn option) \<times> hook_state" where
  "install_watch E forced inst repo w =
     (let (first, w) = provision_watch E forced inst repo w
      in case first of
           Some (t, co) \<Rightarrow> ((Some t, co), w)
         | None \<Rightarrow>
             (case find_connector_by_installation inst (hs_conns w) of
                None \<Rightarrow> ((None, None), w)
              | Some c \<Rightarrow> (let (wo, w) = on_conns (auto_watch_installed_repo (he_conn E) (Some c) repo) w in ((wo, Some c), w))))"

definition peer_directory :: "hook_env \<Rightarrow> bool" where
  "peer_directory E \<longleftrightarrow> peer_oam_base_url (ce_getenv (he_conn E)) \<noteq> []"

text \<open>Either why there is no watch, or the watch with the connector to act with.\<close>

definition pr_watch ::
  "hook_env \<Rightarrow> string \<Rightarrow> app_conn option \<Rightarrow> string \<Rightarrow> string \<Rightarrow> hook_state \<Rightarrow> (string + watched \<times> app_conn option) \<times> hook_state" where
  "pr_watch E cid forced inst repo w =
     (let ((wo, co), w) = watch_of_delivery E cid forced repo w; act = (\<lambda>co. if forced \<noteq> None then forced else co)
      in case wo of
           Some t \<Rightarrow> (Inr (t, act co), w)
         | None \<Rightarrow>
             (if peer_directory E then
                (let (res, w) = directory_watch E cid forced inst True repo w
                 in (case res of Inl why \<Rightarrow> Inl why | Inr (t, c) \<Rightarrow> Inr (t, act (Some c)), w))
              else
                let ((wo, co), w) = install_watch E forced inst repo w
                in (case wo of
                      None \<Rightarrow> Inl (''Repo not watched and no GitHub App connector '' @ em_dash @ '' no job queued.'')
                    | Some t \<Rightarrow> Inr (t, act co), w)))"

definition push_watch ::
  "hook_env \<Rightarrow> string \<Rightarrow> app_conn option \<Rightarrow> string \<Rightarrow> string \<Rightarrow> hook_state \<Rightarrow> (string + watched \<times> app_conn option) \<times> hook_state" where
  "push_watch E cid forced inst repo w =
     (let ((wo, co), w) = watch_of_delivery E cid forced repo w; act = (\<lambda>co. if forced \<noteq> None then forced else co)
      in case wo of
           Some t \<Rightarrow> (Inr (t, act co), w)
         | None \<Rightarrow>
             (if peer_directory E then
                (let (res, w) = directory_watch E cid forced inst False repo w
                 in (case res of Inl why \<Rightarrow> Inl why | Inr (t, c) \<Rightarrow> Inr (t, act (Some c)), w))
              else (Inl (''Repo not watched '' @ em_dash @ '' no job queued.''), w)))"

subsection \<open>Queueing\<close>

definition watch_scope :: "watched \<Rightarrow> string \<times> string \<times> string" where
  "watch_scope t = (wt_org t, wt_proj t, wt_conn t)"

definition conn_scope :: "app_conn \<Rightarrow> string \<times> string \<times> string" where
  "conn_scope c = (cn_org c, cn_proj c, cn_id c)"

definition delivery_request ::
  "watched \<Rightarrow> app_conn option \<Rightarrow> string \<Rightarrow> int \<Rightarrow> string \<Rightarrow> string \<Rightarrow> bool \<Rightarrow> string \<Rightarrow> string \<Rightarrow> pr_request" where
  "delivery_request t co repo pr sha event draft title body =
     (let (org, proj, cid) = pr_scope (Some (watch_scope t)) (map_option conn_scope co)
      in \<lparr>rq_org = org, rq_proj = proj, rq_conn = cid, rq_repo = repo, rq_pr = pr, rq_sha = sha, rq_event = event,
          rq_draft = draft, rq_title = title, rq_body = body\<rparr>)"

text \<open>\<^verbatim>\<open>enqueueSCMJob\<close>: one job of its own, older ones of the pull request superseded first.\<close>

definition continuous_job :: "orch_env \<Rightarrow> pr_request \<Rightarrow> scm_job" where
  "continuous_job env rq =
     \<lparr>j_id = load_id (e_sha1hex env) ''scmjob'' [rq_org rq, rq_proj rq, rq_repo rq, rq_sha rq, rq_event rq, e_hex env],
      j_org = rq_org rq, j_proj = rq_proj rq, j_conn = rq_conn rq, j_repo = rq_repo rq, j_pr = rq_pr rq,
      j_sha = rq_sha rq, j_event = rq_event rq, j_status = ''queued'', j_sec_run = [], j_ai_job = [], j_checks = [],
      j_error = [], j_summary = [], j_started = e_now env, j_finished = e_now env, j_draft = rq_draft rq,
      j_title = rq_title rq, j_body = rq_body rq, j_force_ai = False, j_ai_only = False, j_actor = [],
      j_kind = kind_str KContinuous, j_run_id = [], j_parent = [], j_attempt = 0\<rparr>"

definition enqueue_scm_job :: "orch_env \<Rightarrow> pr_request \<Rightarrow> scm_state \<Rightarrow> string \<times> scm_state" where
  "enqueue_scm_job env rq s =
     (let s = (if 0 < rq_pr rq then snd (supersede_in_flight_pr_jobs env (rq_repo rq) (rq_pr rq) (rq_sha rq) s) else s);
          j = continuous_job env rq
      in (j_id j, persist_scm_job env j (store_live (j_id j) j s)))"

definition change_live :: "string \<Rightarrow> (scm_job \<Rightarrow> scm_job) \<Rightarrow> hook_state \<Rightarrow> scm_job option \<times> hook_state" where
  "change_live k f w =
     (case live_job k (hs_jobs w) of
        None \<Rightarrow> (None, w)
      | Some j \<Rightarrow> (Some (f j), w\<lparr>hs_jobs := store_live k (f j) (hs_jobs w)\<rparr>))"

text \<open>\<^verbatim>\<open>finishSCMIngressPipeline\<close>: the checkers, their ids on the job, and the start of the job.\<close>

definition finish_pipeline ::
  "hook_env \<Rightarrow> receipt \<Rightarrow> string \<Rightarrow> watched \<Rightarrow> app_conn option \<Rightarrow> string \<Rightarrow> string \<Rightarrow> hook_state \<Rightarrow> hook_reply \<times> hook_state" where
  "finish_pipeline E r k t co raw event w =
     (let jo = live_job k (hs_jobs w);
          w = (if jo = None \<or> co = None then w
               else
                 let v = build_envelope E r jo t raw event;
                     (ids, w) = dispatch_checkers E co v (watched_checks_of E t) raw w;
                     (jo, w) = change_live k (merge_checker_ids ids) w
                 in case jo of None \<Rightarrow> w
                    | Some j \<Rightarrow> snd (with_jobs E (\<lambda>env s. ((), persist_scm_job env j s)) w));
          st = (case live_job k (hs_jobs w) of None \<Rightarrow> [] | Some j \<Rightarrow> j_status j)
      in (HQueued k st, w\<lparr>hs_started := hs_started w @ [k]\<rparr>))"

definition queued_receipt :: "scm_job \<Rightarrow> receipt \<Rightarrow> receipt" where
  "queued_receipt j r = r\<lparr>hk_job := j_id j, hk_org := j_org j, hk_proj := j_proj j, hk_conn := j_conn j\<rparr>"

definition with_stack :: "scm_job \<Rightarrow> receipt \<Rightarrow> receipt" where
  "with_stack j r = (let k = as_str (sget j ''stack_id'') in if k = [] then r else r\<lparr>hk_stack := k\<rparr>)"

text \<open>After a job is enqueued under id \<open>k\<close>: its tenant stamped, the receipt linked, the pipeline run.\<close>

definition queue_delivery ::
  "hook_env \<Rightarrow> tenant \<Rightarrow> receipt \<Rightarrow> bool \<Rightarrow> string \<Rightarrow> string \<Rightarrow> watched \<Rightarrow> app_conn option \<Rightarrow> string \<Rightarrow> string \<Rightarrow> hook_state
     \<Rightarrow> hook_reply \<times> hook_state" where
  "queue_delivery E tnt r stack honesty k t co raw event w =
     (let (jo, w) = change_live k (stamp_job_tenant tnt) w;
          r = (case jo of None \<Rightarrow> r | Some j \<Rightarrow> (if stack then with_stack j (queued_receipt j r) else queued_receipt j r));
          (r, w) = finish_receipt (he_conn E) (he_orch E) r ''queued'' honesty 200 [] w
      in finish_pipeline E r k t co raw event w)"

definition tenant_outcome :: "tenant \<Rightarrow> string" where
  "tenant_outcome t = (if tr_unclaimed t then ''pending_claim'' else ''pending_tenant'')"

definition with_tenant :: "tenant \<Rightarrow> watched \<Rightarrow> receipt \<Rightarrow> receipt" where
  "with_tenant t s r = r\<lparr>hk_org := tr_org t, hk_proj := tr_proj t, hk_conn := nz (hk_conn r) (wt_conn s)\<rparr>"

definition peers_only ::
  "hook_env \<Rightarrow> receipt \<Rightarrow> string \<Rightarrow> watched \<Rightarrow> app_conn option \<Rightarrow> string \<Rightarrow> string \<Rightarrow> hook_state \<Rightarrow> hook_reply \<times> hook_state" where
  "peers_only E r honesty t co raw event w =
     (let v = build_envelope E r None t raw event;
          (ids, w) = dispatch_checkers E co v (watched_checks_of E t) raw w
      in finish_with E r ''ok'' honesty HPeerOnly w)"

subsection \<open>Pull requests and pushes\<close>

definition enqueue_pr_delivery ::
  "hook_env \<Rightarrow> pr_request \<Rightarrow> hook_state \<Rightarrow> string \<times> hook_state" where
  "enqueue_pr_delivery E rq w =
     (let ((k, ps), w) = with_jobs E (\<lambda>env s.
            let (k, ps, s) = enqueue_with_prefs env (he_prefs E) (hs_prefs w) rq s in ((k, ps), s)) w
      in (k, w\<lparr>hs_prefs := ps\<rparr>))"

definition pr_delivery_actions :: "string list" where
  "pr_delivery_actions = [''opened'', ''synchronize'', ''reopened'', ''ready_for_review'']"

definition merged_message :: "string list \<Rightarrow> string" where
  "merged_message ids =
     (if ids = [] then ''Pull request is already merged '' @ em_dash @ '' SCM job not queued.''
      else ''Pull request merged '' @ em_dash @ '' cancelled '' @ show_nat (length ids) @ '' in-flight job(s): '' @ join '', '' ids)"

definition pr_number_of :: "pr_payload \<Rightarrow> int" where
  "pr_number_of p = (if pp_pr p = 0 then pp_number p else pp_pr p)"

text \<open>From the watch on: the tenant, the checks, the run.\<close>

definition pr_admitted ::
  "hook_env \<Rightarrow> pr_payload \<Rightarrow> receipt \<Rightarrow> watched \<Rightarrow> app_conn option \<Rightarrow> string \<Rightarrow> hook_state \<Rightarrow> hook_reply \<times> hook_state" where
  "pr_admitted E p r t co raw w =
     (let tnt = resolve_scm_tenant (ce_tenancy (he_conn E)) (Some t) co;
          r = with_tenant tnt t r;
          checks = watched_checks_of E t
      in if tenant_blocks_job tnt then
           finish_with E r (tenant_outcome tnt) (tr_reason tnt) (HSkipped (tenant_outcome tnt)) w
         else if \<not> wants_ora_review checks \<and> \<not> wants_legacy_security_scan checks \<and> checks \<noteq> [] then
           peers_only E r ''Peer checker fan-out only (no ora:review).'' t co raw ''pull_request'' w
         else
           let rq = delivery_request t co (pp_repo p) (pr_number_of p) (pp_sha p) (''pull_request.'' @ pp_action p)
                      (pp_draft p) (pp_title p) (pp_body p);
               (k, w) = enqueue_pr_delivery E rq w
           in queue_delivery E tnt r True ''PR job queued.'' k t co raw ''pull_request'' w)"

definition handle_pr_delivery ::
  "hook_env \<Rightarrow> string \<Rightarrow> receipt \<Rightarrow> string \<Rightarrow> app_conn option \<Rightarrow> hook_state \<Rightarrow> hook_reply \<times> hook_state" where
  "handle_pr_delivery E raw r cid forced w =
     (case he_pr E raw of
        None \<Rightarrow> finish_error E r ''Failed to parse pull_request JSON body.'' 400 ''bad json'' w
      | Some p \<Rightarrow>
          (let r = apply_repo_meta (pp_repo p) (pr_number_of p) (pp_sha p) (pp_inst p) (pp_action p) r
           in if scm_pr_is_merged (pp_merged p) (pp_merged_at p) then
                (let (ids, w) = with_jobs E (\<lambda>env. cancel_in_flight_for_merged_pr env (pp_repo p) (pr_number_of p) ''pull request merged'') w
                 in finish_with E r ''skipped'' (merged_message ids) (HSkipped ''merged'') w)
              else
                let (prior, w) = with_jobs E (\<lambda>env. lookup_successful_ai_review env (pp_repo p) (pp_sha p) []) w
                in if prior \<noteq> None then
                     (let (ids, w) = with_jobs E (\<lambda>env. supersede_in_flight_pr_jobs env (pp_repo p) (pr_number_of p) (pp_sha p)) w
                      in finish_with E r ''skipped''
                           (''Commit already had a successful OPA Review '' @ em_dash @ '' SCM job not queued.'')
                           (HSkipped ''already_reviewed'') w)
                   else if pp_action p \<notin> set pr_delivery_actions then
                     finish_with E r ''skipped''
                       (''PR action '' @ [CHR 0x27] @ pp_action p @ [CHR 0x27] @ '' is not actionable (only opened/synchronize/reopened/ready_for_review).'')
                       (HSkipped (pp_action p)) w
                   else
                     let (res, w) = pr_watch E cid forced (inst_text (pp_inst p)) (pp_repo p) w
                     in case res of
                          Inl why \<Rightarrow> finish_with E r ''ignored'' why (HSkipped why) w
                        | Inr (t, co) \<Rightarrow> pr_admitted E p r t co raw w))"

definition push_admitted ::
  "hook_env \<Rightarrow> push_payload \<Rightarrow> receipt \<Rightarrow> watched \<Rightarrow> app_conn option \<Rightarrow> string \<Rightarrow> hook_state \<Rightarrow> hook_reply \<times> hook_state" where
  "push_admitted E p r t co raw w =
     (let tnt = resolve_scm_tenant (ce_tenancy (he_conn E)) (Some t) co;
          r = with_tenant tnt t r;
          checks = watched_checks_of E t
      in if tenant_blocks_job tnt then
           finish_with E r (tenant_outcome tnt) (tr_reason tnt) (HSkipped (tenant_outcome tnt)) w
         else if \<not> wants_legacy_security_scan checks \<and> \<not> wants_ora_review checks then
           peers_only E r ''Peer checker fan-out only (no native push scan).'' t co raw ''push'' w
         else
           let rq = delivery_request t co (pu_repo p) 0 (pu_after p) ''push.default'' False ''default-branch scan'' [];
               (k, w) = with_jobs E (\<lambda>env. enqueue_scm_job env rq) w
           in queue_delivery E tnt r False ''Default-branch push job queued.'' k t co raw ''push'' w)"

definition handle_push_delivery ::
  "hook_env \<Rightarrow> string \<Rightarrow> receipt \<Rightarrow> string \<Rightarrow> app_conn option \<Rightarrow> hook_state \<Rightarrow> hook_reply \<times> hook_state" where
  "handle_push_delivery E raw r cid forced w =
     (case he_push E raw of
        None \<Rightarrow> finish_error E r ''Failed to parse push JSON body.'' 400 ''bad json'' w
      | Some p \<Rightarrow>
          (let r = apply_repo_meta (pu_repo p) 0 (pu_after p) (pu_inst p) ''push'' r
           in if pu_ref p \<noteq> ''refs/heads/'' @ nz (pu_default p) ''main'' then
                finish_with E (r\<lparr>hk_action := ''non_default''\<rparr>) ''skipped''
                  (''Push to non-default branch ('' @ pu_ref p @ '') '' @ em_dash @ '' ignored.'') (HSkipped ''not default branch'') w
              else
                let r = r\<lparr>hk_action := ''default''\<rparr>;
                    (res, w) = push_watch E cid forced (inst_text (pu_inst p)) (pu_repo p) w
                in case res of
                     Inl why \<Rightarrow> finish_with E r ''ignored'' why (HSkipped why) w
                   | Inr (t, co) \<Rightarrow> push_admitted E p r t co raw w))"

subsection \<open>Installations\<close>

definition disable_repo ::
  "hook_env \<Rightarrow> app_conn \<Rightarrow> string \<Rightarrow> nat \<times> conn_state \<Rightarrow> nat \<times> conn_state" where
  "disable_repo E c repo acc =
     (case acc of (n, s) \<Rightarrow>
        case live_watch (watch_key (cn_id c) repo) s of
          None \<Rightarrow> (n, s)
        | Some t \<Rightarrow>
            (if \<not> wt_enabled t then (n, s)
             else let t = disable_watch (he_conn E) t
                  in (n + 1, persist_watched (he_conn E) t (store_watch (watch_key (cn_id c) repo) t s))))"

definition watch_installed ::
  "hook_env \<Rightarrow> app_conn \<Rightarrow> string \<Rightarrow> string list \<times> conn_state \<Rightarrow> string list \<times> conn_state" where
  "watch_installed E c repo acc =
     (let (wo, s) =
        (if peer_directory E then
           (let (res, s) = ensure_watched_from_oam (he_conn E) (cn_org c) repo (cn_id c) (snd acc)
            in (case res of Inl why \<Rightarrow> None | Inr (t, d) \<Rightarrow> Some t, s))
         else auto_watch_installed_repo (he_conn E) (Some c) repo (snd acc))
      in ((case wo of Some t \<Rightarrow> (if wt_enabled t then fst acc @ [repo] else fst acc) | None \<Rightarrow> fst acc), s))"

definition installed_message :: "hook_env \<Rightarrow> string \<Rightarrow> app_conn option \<Rightarrow> nat \<Rightarrow> string" where
  "installed_message E action co n =
     (if co = None then ''Installation recorded but GitHub App env not configured '' @ em_dash @ '' could not auto-watch.''
      else if peer_directory E then
        ''Installation '' @ action @ '': ensured '' @ show_nat n @ '' repo(s) from OAM project enablement.''
      else ''Installation '' @ action @ '': auto-watched '' @ show_nat n @ '' repo(s) for automatic PR checks.'')"

definition handle_installation_delivery ::
  "hook_env \<Rightarrow> string \<Rightarrow> string \<Rightarrow> receipt \<Rightarrow> hook_state \<Rightarrow> hook_reply \<times> hook_state" where
  "handle_installation_delivery E event raw r w =
     (let p = he_inst E raw;
          r = apply_repo_meta [] 0 [] (ip_inst p) (ip_action p) r;
          repos = filter (\<lambda>x. x \<noteq> []) (ip_added p) @ filter (\<lambda>x. x \<noteq> []) (ip_repos p);
          r = (case repos of [x] \<Rightarrow> r\<lparr>hk_repo := x\<rparr> | _ \<Rightarrow> r);
          action = to_lower (trim_space (ip_action p));
          inst = inst_text (ip_inst p)
      in if action = ''deleted'' \<or> action = ''suspend'' then
           finish_with E r ''ignored'' (''Installation '' @ action @ '' recorded; watches left intact.'') (HIgnored event) w
         else if action = ''removed'' then
           (let (n, w) = on_conns (\<lambda>s. case find_connector_by_installation inst s of
                   None \<Rightarrow> (0, s) | Some c \<Rightarrow> fold (disable_repo E c) (ip_removed p) (0, s)) w
            in finish_with E r ''ok'' (''Disabled '' @ show_nat n @ '' watch(es) after repository removal.'') (HDisabled n) w)
         else
           let (co, w) = on_conns (ensure_github_app_connector (he_conn E) inst (ip_login p)) w;
               (ws, w) = (case co of None \<Rightarrow> ([], w) | Some c \<Rightarrow> on_conns (\<lambda>s. fold (watch_installed E c) repos ([], s)) w)
           in finish_with E r ''ok'' (installed_message E action co (length ws))
                (HInstalled ws (case co of None \<Rightarrow> [] | Some c \<Rightarrow> cn_id c)) w)"

subsection \<open>Issues\<close>

definition issue_run_key :: "string \<Rightarrow> int \<Rightarrow> string" where
  "issue_run_key repo issue = to_lower (trim_space repo) @ ''#issue#'' @ itoa issue"

definition remember_issue_run :: "string \<Rightarrow> int \<Rightarrow> string \<Rightarrow> hook_state \<Rightarrow> hook_state" where
  "remember_issue_run repo issue k w =
     (if repo = [] \<or> issue \<le> 0 \<or> k = [] then w
      else w\<lparr>hs_issues := (hs_issues w)(issue_run_key repo issue \<mapsto> k)\<rparr>)"

definition current_issue_run :: "string \<Rightarrow> int \<Rightarrow> hook_state \<Rightarrow> string" where
  "current_issue_run repo issue w = (case hs_issues w (issue_run_key repo issue) of None \<Rightarrow> [] | Some k \<Rightarrow> k)"

text \<open>\<^verbatim>\<open>mergeIssueLabels\<close>; the map's order is that of first occurrence.\<close>

fun merge_labels :: "string list \<Rightarrow> (string \<times> string) list \<Rightarrow> (string \<times> string) list" where
  "merge_labels [] seen = seen"
| "merge_labels (l # ls) seen =
     (let k = to_lower (trim_space l)
      in if k = [] then merge_labels ls seen
         else merge_labels ls (if map_of seen k = None then seen @ [(k, trim_space l)] else seen))"

fun note_labels :: "string list \<Rightarrow> (string \<times> string) list \<Rightarrow> (string \<times> string) list" where
  "note_labels [] seen = seen"
| "note_labels (l # ls) seen =
     (let k = to_lower (trim_space l) in note_labels ls (if k = [] then seen else AList.update k (trim_space l) seen))"

definition merge_issue_labels :: "string list \<Rightarrow> string list \<Rightarrow> string list" where
  "merge_issue_labels existing new = map snd (merge_labels new (note_labels existing []))"

definition issue_parent :: "orch_env \<Rightarrow> watched \<Rightarrow> string \<Rightarrow> int \<Rightarrow> string \<Rightarrow> string \<Rightarrow> string list \<Rightarrow> string \<Rightarrow> prefs_acc \<Rightarrow> scm_job" where
  "issue_parent env t repo issue title body labels event acc =
     (let k = load_id (e_sha1hex env) ''scmjob''
                [wt_org t, wt_proj t, repo, itoa issue, event, ''issue_run'', e_hex env]
      in \<lparr>j_id = k, j_org = wt_org t, j_proj = wt_proj t, j_conn = wt_conn t, j_repo = repo, j_pr = issue, j_sha = [],
          j_event = event, j_status = ''queued'', j_sec_run = [], j_ai_job = [], j_checks = [], j_error = [],
          j_summary = [(''prefs'', JObj (prefs_obj (fst acc))), (''prefs_sources'', JObj (sources_obj (snd acc))),
                       (''issue_number'', JInt issue), (''issue_labels'', JStrs labels), (''child_ids'', JStrs [])],
          j_started = e_now env, j_finished = e_now env, j_draft = False, j_title = title, j_body = body,
          j_force_ai = False, j_ai_only = False, j_actor = [], j_kind = kind_str KIssueRun, j_run_id = k,
          j_parent = [], j_attempt = 1\<rparr>)"

definition issue_child :: "orch_env \<Rightarrow> scm_job \<Rightarrow> agent_kind \<Rightarrow> scm_job" where
  "issue_child env parent kind =
     \<lparr>j_id = load_id (e_sha1hex env) ''scmjob''
        [j_org parent, j_proj parent, j_repo parent, itoa (j_pr parent), kind_str kind, j_id parent],
      j_org = j_org parent, j_proj = j_proj parent, j_conn = j_conn parent, j_repo = j_repo parent, j_pr = j_pr parent,
      j_sha = j_sha parent, j_event = j_event parent, j_status = ''queued'', j_sec_run = [], j_ai_job = [], j_checks = [],
      j_error = [], j_summary = [], j_started = e_now env, j_finished = e_now env, j_draft = False,
      j_title = j_title parent, j_body = j_body parent, j_force_ai = False, j_ai_only = False, j_actor = j_actor parent,
      j_kind = kind_str kind, j_run_id = j_id parent, j_parent = j_id parent, j_attempt = j_attempt parent\<rparr>"

definition plan_issue_children :: "orch_env \<Rightarrow> scm_job \<Rightarrow> agent_prefs \<Rightarrow> scm_job list" where
  "plan_issue_children env parent p =
     map (issue_child env parent)
       ([KIssuePrepare, KIssueInvestigate, KIssuePublish] @
        (if issue_auto_implement p \<and> \<not> require_human_before_coding p then [KIssueImplement] else []))"

definition enqueue_issue_run ::
  "hook_env \<Rightarrow> watched \<Rightarrow> string \<Rightarrow> int \<Rightarrow> string \<Rightarrow> string \<Rightarrow> string list \<Rightarrow> string \<Rightarrow> hook_state \<Rightarrow> scm_job \<times> hook_state" where
  "enqueue_issue_run E t repo issue title body labels event w =
     (let (acc, ps) = resolve_agent_prefs (he_prefs E) (hs_prefs w) (wt_org t) (wt_proj t) (wt_conn t) repo;
          w = w\<lparr>hs_prefs := ps\<rparr>;
          parent = issue_parent (he_orch E) t repo issue title body labels event acc;
          children = plan_issue_children (he_orch E) parent (fst acc);
          parent = sset ''child_ids'' (JStrs (map j_id children)) parent;
          (_, w) = with_jobs E (\<lambda>env s. ((), persist_all env [parent] (persist_all env children s))) w
      in (parent, remember_issue_run repo issue (j_id parent) w))"

definition issue_in_flight :: "string \<Rightarrow> hook_state \<Rightarrow> bool \<times> hook_state" where
  "issue_in_flight k w =
     (if k = [] then (False, w)
      else
        let (jo, s) = get_scm_job k (hs_jobs w)
        in (case jo of None \<Rightarrow> False | Some j \<Rightarrow> in_flight (to_lower (j_status j)), w\<lparr>hs_jobs := s\<rparr>))"

definition maybe_enqueue_issue_run ::
  "hook_env \<Rightarrow> string \<Rightarrow> int \<Rightarrow> string \<Rightarrow> string \<Rightarrow> string list \<Rightarrow> string \<Rightarrow> hook_state \<Rightarrow> (string + scm_job) \<times> hook_state" where
  "maybe_enqueue_issue_run E repo issue title body labels event w =
     (let repo = trim_space repo
      in if repo = [] \<or> issue \<le> 0 then (Inl ''missing repo or issue number'', w)
         else
           let ((wo, co), w) = on_conns (find_watched (he_conn E) repo) w
           in case (wo, co) of
                (Some t, Some c) \<Rightarrow>
                  (if \<not> wt_enabled t then (Inl ''repo not watched'', w)
                   else
                     let (acc, ps) = resolve_agent_prefs (he_prefs E) (hs_prefs w) (wt_org t) (wt_proj t) (wt_conn t) repo;
                         w = w\<lparr>hs_prefs := ps\<rparr>
                     in if \<not> ai_issues_enabled (fst acc) then (Inl ''ai_issues_enabled=false'', w)
                        else if \<not> issue_label_matches_prefs (fst acc) labels then (Inl ''issue lacks AI gate label'', w)
                        else
                          let prior = current_issue_run repo issue w; (busy, w) = issue_in_flight prior w
                          in if busy then (Inl (''issue run already in flight: '' @ prior), w)
                             else
                               let (j, w) = enqueue_issue_run E t repo issue title body labels event w in (Inr j, w))
              | _ \<Rightarrow> (Inl ''repo not watched'', w))"

definition issue_actions :: "string list" where
  "issue_actions = [''labeled'', ''opened'', ''reopened'', ''edited'']"

definition issue_labels_of :: "issue_payload \<Rightarrow> string list" where
  "issue_labels_of p =
     (let labels = filter (\<lambda>l. l \<noteq> []) (is_labels p)
      in if to_lower (trim_space (is_action p)) = ''labeled'' \<and> is_label p \<noteq> []
         then merge_issue_labels labels [is_label p] else labels)"

definition handle_issues_delivery :: "hook_env \<Rightarrow> string \<Rightarrow> receipt \<Rightarrow> hook_state \<Rightarrow> hook_reply \<times> hook_state" where
  "handle_issues_delivery E raw r w =
     (case he_issue E raw of
        None \<Rightarrow> finish_error E r ''Invalid issues payload JSON.'' 400 ''bad json'' w
      | Some p \<Rightarrow>
          (if trim_space (is_pr_url p) \<noteq> [] then
             finish_with E r ''ignored'' (''Pull request issue event '' @ em_dash @ '' handled via pull_request webhook.'')
               (HIgnored ''pull_request_issue'') w
           else
             let repo = trim_space (is_repo p); action = to_lower (trim_space (is_action p));
                 r = apply_repo_meta repo (is_number p) [] (is_inst p) action r
             in if action \<notin> set issue_actions then
                  finish_with E r ''ignored'' (''Issue action '' @ action @ '' not processed.'') (HIgnored action) w
                else
                  let (res, w) = maybe_enqueue_issue_run E repo (is_number p) (is_title p) (is_body p) (issue_labels_of p)
                                   (''issues.'' @ action) w
                  in case res of
                       Inl why \<Rightarrow> finish_with E r ''ignored'' why (HIgnored why) w
                     | Inr j \<Rightarrow>
                         (let (rep, w) = finish_with E (queued_receipt j r) ''ok'' (''Enqueued AI issue run '' @ j_id j)
                                (HQueued (j_id j) (j_status j)) w
                          in (rep, w\<lparr>hs_started := hs_started w @ [j_id j]\<rparr>))))"

definition handle_issue_comment_delivery :: "hook_env \<Rightarrow> string \<Rightarrow> receipt \<Rightarrow> hook_state \<Rightarrow> hook_reply \<times> hook_state" where
  "handle_issue_comment_delivery E raw r w =
     (let (repo, n, inst, action) = he_comment E raw
      in finish_with E (apply_repo_meta repo n [] inst action r) ''ignored'' ''issue_comment recorded; no auto job.''
           (HIgnored ''issue_comment'') w)"

text \<open>\<^verbatim>\<open>enqueueIssueImplement\<close>: the coding child of an issue run, once a person approved it.\<close>

definition implement_child :: "orch_env \<Rightarrow> scm_job \<Rightarrow> scm_job" where
  "implement_child env parent =
     (let c = issue_child env parent KIssueImplement
      in c\<lparr>j_id := load_id (e_sha1hex env) ''scmjob''
             [j_org parent, j_proj parent, j_repo parent, itoa (j_pr parent), kind_str KIssueImplement, j_id parent, e_hex env],
           j_event := ''manual.approve_coding'', j_attempt := j_attempt parent + 1\<rparr>)"

definition enqueue_issue_implement :: "orch_env \<Rightarrow> scm_job \<Rightarrow> scm_state \<Rightarrow> scm_job option \<times> scm_state" where
  "enqueue_issue_implement env parent s =
     (if job_kind parent \<noteq> KIssueRun then (None, s)
      else
        let (old, s) = child_by_kind (j_id parent) KIssueImplement s
        in case (case old of Some j \<Rightarrow> (if in_flight (to_lower (j_status j)) then Some j else None) | None \<Rightarrow> None) of
             Some j \<Rightarrow> (Some j, s)
           | None \<Rightarrow>
               (let c = implement_child env parent;
                    s = persist_scm_job env c (store_live (j_id c) c s);
                    ids = (case sget parent ''child_ids'' of
                             JStrs xs \<Rightarrow> xs
                           | JArr vs \<Rightarrow> List.map_filter (\<lambda>v. case v of JStr x \<Rightarrow> Some x | _ \<Rightarrow> None) vs
                           | _ \<Rightarrow> []) @ [j_id c];
                    p = sset ''child_ids'' (JStrs ids) parent;
                    p = (if j_status p = ''completed'' \<or> j_status p = ''completed_with_errors''
                         then p\<lparr>j_status := ''running'', j_finished := []\<rparr> else p)
                in (Some c, persist_scm_job env p s)))"

subsection \<open>Ingress\<close>

record delivery =
  dl_body :: "string option"
  dl_id :: string
  dl_event :: string
  dl_sig :: string

definition duplicate_receipt :: "receipt \<Rightarrow> receipt \<Rightarrow> receipt" where
  "duplicate_receipt prev r =
     r\<lparr>hk_repo := hk_repo prev, hk_action := hk_action prev, hk_pr := hk_pr prev, hk_sha := hk_sha prev,
       hk_inst := hk_inst prev, hk_org := hk_org prev, hk_proj := hk_proj prev, hk_conn := hk_conn prev, hk_job := hk_job prev\<rparr>"

definition prior_delivery :: "receipt \<Rightarrow> string \<Rightarrow> hook_state \<Rightarrow> receipt option" where
  "prior_delivery r d w =
     (case find_by_delivery d w of
        None \<Rightarrow> None | Some p \<Rightarrow> (if hk_id p = hk_id r then None else Some p))"

text \<open>A signed delivery that was not seen before.\<close>

definition handle_event ::
  "hook_env \<Rightarrow> string \<Rightarrow> string \<Rightarrow> receipt \<Rightarrow> string \<Rightarrow> app_conn option \<Rightarrow> hook_state \<Rightarrow> hook_reply \<times> hook_state" where
  "handle_event E event raw r cid forced w =
     (if event = ''ping'' then finish_with E r ''ping'' ''GitHub ping acknowledged.'' HPong w
      else if event = ''pull_request'' then handle_pr_delivery E raw r cid forced w
      else if event = ''push'' then handle_push_delivery E raw r cid forced w
      else if event = ''installation'' \<or> event = ''installation_repositories'' then
        handle_installation_delivery E event raw r w
      else if event = ''issues'' then handle_issues_delivery E raw r w
      else if event = ''issue_comment'' then handle_issue_comment_delivery E raw r w
      else if event = ''label'' then finish_with E r ''ignored'' ''label event acknowledged.'' (HIgnored ''label'') w
      else finish_with E r ''ignored'' (''Unhandled GitHub event type '' @ em_dash @ '' no action taken.'') (HIgnored event) w)"

definition after_signature ::
  "hook_env \<Rightarrow> delivery \<Rightarrow> string \<Rightarrow> string \<Rightarrow> app_conn option \<Rightarrow> bool \<Rightarrow> hook_state \<Rightarrow> hook_reply \<times> hook_state" where
  "after_signature E d raw cid forced ok w =
     (let did = trim_space (dl_id d);
          r = new_receipt (he_orch E) did (dl_event d) ok;
          r = (if cid \<noteq> [] then r\<lparr>hk_conn := cid\<rparr> else r)
      in if \<not> ok then finish_error E r ''Invalid X-Hub-Signature-256.'' 401 ''invalid signature'' w
         else case (if did = [] then None else prior_delivery r did w) of
           Some p \<Rightarrow>
             finish_with E (duplicate_receipt p r) ''duplicate''
               (''Duplicate X-GitHub-Delivery '' @ em_dash @ '' already processed as '' @ hk_id p @ ''.'') (HDuplicate (hk_id p)) w
         | None \<Rightarrow> handle_event E (dl_event d) raw r cid forced w)"

definition ingress :: "hook_env \<Rightarrow> string \<Rightarrow> delivery \<Rightarrow> hook_state \<Rightarrow> hook_reply \<times> hook_state" where
  "ingress E cid d w =
     (case dl_body d of
        None \<Rightarrow> (HError 400 ''read error'', w)
      | Some raw \<Rightarrow>
          (if cid = [] then after_signature E d raw [] None (app_signature E raw (dl_sig d)) w
           else
             let (co, w) = on_conns (get_or_hydrate (he_conn E) cid) w
             in case co of
                  None \<Rightarrow> (HError 404 ''connector not found'', w)
                | Some c \<Rightarrow>
                    (if cn_status c = ''deleted'' then (HError 404 ''connector not found'', w)
                     else
                       let (ok, w) = connector_signature E cid raw (dl_event d) (dl_sig d) w
                       in after_signature E d raw cid (Some c) ok w)))"

definition connector_route :: "string \<Rightarrow> string" where
  "connector_route path = trim_set (trim_space (trim_prefix path ''/v1/scm/github/webhook/'')) ''/''"

definition handle_webhook_route :: "hook_env \<Rightarrow> string \<Rightarrow> delivery \<Rightarrow> hook_state \<Rightarrow> hook_reply \<times> hook_state" where
  "handle_webhook_route E path d w = ingress E (connector_route path) d w"

end
