(* ===== verification/Hook_Laws.thy ===== *)
theory Hook_Laws
  imports Hook_Ingress
begin

text \<open>
  Laws of the ingress: no delivery works without a valid signature and a fresh delivery id, a job
  starts only on an actionable event of a watched repository whose tenant is known, and every receipt
  the ingress keeps is well typed.
\<close>

subsection \<open>Loading connectors\<close>

text \<open>Nothing of the registry moved but connectors that ClickHouse holds.\<close>

definition conns_loaded :: "conn_env \<Rightarrow> conn_state \<Rightarrow> conn_state \<Rightarrow> bool" where
  "conns_loaded env s t \<longleftrightarrow>
     cs_watched t = cs_watched s \<and> cs_intents t = cs_intents s \<and>
     (\<forall>k d. live_conn k t = Some d \<longrightarrow>
        live_conn k s = Some d \<or>
        (\<exists>q row old. ce_query env q = Some (row, old) \<and> connector_from_ch_row env row True = Some d))"

lemma conns_loaded_refl [simp]: "conns_loaded env s s"
  by (simp add: conns_loaded_def)

lemma conns_loaded_trans: "conns_loaded env s t \<Longrightarrow> conns_loaded env t u \<Longrightarrow> conns_loaded env s u"
  unfolding conns_loaded_def by metis

lemma log_persist_connector:
  "cs_conns (persist_connector env c s) = cs_conns s" "cs_watched (persist_connector env c s) = cs_watched s"
  "cs_intents (persist_connector env c s) = cs_intents s"
  by (simp_all add: persist_connector_def conn_log_def Let_def split: option.split)

lemma hydrate_conns_loaded: "conns_loaded env s (snd (hydrate_connector env k s))"
proof (cases "ce_query env (trim_space k)")
  case (Some a)
  obtain row old where q: "ce_query env (trim_space k) = Some (row, old)" using Some by (cases a) auto
  show ?thesis
  proof (cases "connector_from_ch_row env row True")
    case None
    then show ?thesis by (simp add: hydrate_connector_def q)
  next
    case c: (Some c)
    show ?thesis
      using q c
      by (auto simp: hydrate_connector_def conns_loaded_def live_conn_def store_conn_def log_persist_connector
          update_conv' Let_def split: if_splits)
  qed
qed (simp add: hydrate_connector_def)

lemma get_conns_loaded: "conns_loaded env s (snd (get_or_hydrate env k s))"
  using hydrate_conns_loaded [of env s k]
  by (auto simp: get_or_hydrate_def case_prod_beta split: option.split)

lemma usable_conns_loaded: "conns_loaded env s (snd (usable_watches env ws s))"
proof (induction ws arbitrary: s)
  case (Cons t ts)
  show ?case
    using get_conns_loaded [of env s "wt_conn t"] Cons.IH [of "snd (get_or_hydrate env (wt_conn t) s)"] conns_loaded_trans
    by (auto simp: case_prod_beta)
qed simp

lemma best_conns_loaded: "conns_loaded env s (snd (best_watch env ws b s))"
proof (induction ws arbitrary: s b)
  case (Cons t ts)
  show ?case
    using get_conns_loaded [of env s "wt_conn t"] Cons.IH [where s = "snd (get_or_hydrate env (wt_conn t) s)"] conns_loaded_trans
    by (auto simp: case_prod_beta Let_def)
qed simp

lemma prefer_conns_loaded: "conns_loaded env s (snd (prefer_watched_for_checks env ws s))"
proof -
  obtain us t where u: "usable_watches env ws s = (us, t)" by (cases "usable_watches env ws s")
  then have l: "conns_loaded env s t" using usable_conns_loaded [of env s ws] by simp
  show ?thesis
    using l conns_loaded_trans [OF l best_conns_loaded]
    by (auto simp: prefer_watched_for_checks_def u case_prod_beta simp del: best_watch.simps split: list.splits option.splits)
qed

lemma find_watched_conns_loaded: "conns_loaded env s (snd (find_watched env repo s))"
proof -
  let ?c = "filter (\<lambda>w. wt_enabled w \<and> equal_fold (wt_repo w) repo) (map snd (cs_watched s))"
  obtain us t where u: "usable_watches env ?c s = (us, t)" by (cases "usable_watches env ?c s")
  then have l: "conns_loaded env s t" using usable_conns_loaded [of env s ?c] by simp
  obtain f v where f: "prefer_watched_for_checks env us t = (f, v)" by (cases "prefer_watched_for_checks env us t")
  have m: "conns_loaded env s v" using conns_loaded_trans [OF l prefer_conns_loaded [of env t us]] f by simp
  show ?thesis
    using l m conns_loaded_trans [OF m get_conns_loaded]
    by (auto simp: find_watched_def u f case_prod_beta Let_def split: option.splits)
qed

subsection \<open>Work\<close>

text \<open>What a delivery may set in motion: jobs, started jobs, preferences, issue runs, posts, connectors, watches.\<close>

definition no_work :: "hook_env \<Rightarrow> hook_state \<Rightarrow> hook_state \<Rightarrow> bool" where
  "no_work E w v \<longleftrightarrow>
     hs_jobs v = hs_jobs w \<and> hs_started v = hs_started w \<and> hs_prefs v = hs_prefs w \<and> hs_issues v = hs_issues w \<and>
     hs_posts v = hs_posts w \<and> conns_loaded (he_conn E) (hs_conns w) (hs_conns v)"

lemma no_work_refl [simp]: "no_work E w w"
  by (simp add: no_work_def)

lemma no_work_trans: "no_work E u v \<Longrightarrow> no_work E v w \<Longrightarrow> no_work E u w"
  unfolding no_work_def using conns_loaded_trans by metis

lemma on_conns_no_work:
  "conns_loaded (he_conn E) (hs_conns w) (snd (f (hs_conns w))) \<Longrightarrow> no_work E w (snd (on_conns f w))"
  by (simp add: no_work_def on_conns_def case_prod_beta)

lemma find_watched_no_work: "no_work E w (snd (on_conns (find_watched (he_conn E) repo) w))"
  by (rule on_conns_no_work) (rule find_watched_conns_loaded)

lemma get_no_work: "no_work E w (snd (on_conns (get_or_hydrate (he_conn E) k) w))"
  by (rule on_conns_no_work) (rule get_conns_loaded)

lemma persist_receipt_no_work: "no_work E w (persist_receipt env r w)"
  by (simp add: no_work_def persist_receipt_def persist_receipt_ch_def persist_receipt_file_def store_receipt_def)

lemma enrich_no_work: "no_work E w (snd (enrich_receipt (he_conn E) r w))"
  using find_watched_no_work [of E w "hk_repo r"]
  by (auto simp: enrich_receipt_def case_prod_beta Let_def split: option.split)

lemma finish_receipt_no_work: "no_work E w (snd (finish_receipt (he_conn E) env r out hon st err w))"
  using no_work_trans [OF enrich_no_work persist_receipt_no_work]
  by (simp add: finish_receipt_def case_prod_beta)

lemma finish_no_work: "no_work E w (snd (finish_with E r out hon rep w))" "no_work E w (snd (finish_error E r hon c err w))"
  by (simp_all add: finish_with_def finish_error_def finish_receipt_no_work)

lemma connector_signature_no_work: "no_work E w (snd (connector_signature E cid raw event sig w))"
  using find_watched_no_work [of E w]
  by (auto simp: connector_signature_def signing_watch_def case_prod_beta Let_def split: option.split)

text \<open>Whether the signature of a delivery is accepted on its route.\<close>

definition signed :: "hook_env \<Rightarrow> string \<Rightarrow> delivery \<Rightarrow> hook_state \<Rightarrow> bool" where
  "signed E cid d w \<longleftrightarrow>
     (case dl_body d of
        None \<Rightarrow> False
      | Some raw \<Rightarrow>
          (if cid = [] then app_signature E raw (dl_sig d)
           else fst (connector_signature E cid raw (dl_event d) (dl_sig d)
                      (snd (on_conns (get_or_hydrate (he_conn E) cid) w)))))"

text \<open>Whether the delivery id is new: no live receipt that was not backfilled carries it.\<close>

definition fresh_delivery :: "hook_env \<Rightarrow> delivery \<Rightarrow> hook_state \<Rightarrow> bool" where
  "fresh_delivery E d w \<longleftrightarrow>
     (let did = trim_space (dl_id d)
      in did = [] \<or> prior_delivery (new_receipt (he_orch E) did (dl_event d) True) did w = None)"

lemma prior_delivery_cong:
  "hs_live w = hs_live v \<Longrightarrow> hk_id r = hk_id q \<Longrightarrow> prior_delivery r did w = prior_delivery q did v"
  by (simp add: prior_delivery_def find_by_delivery_def Let_def split: option.split)

lemma after_signature_no_work:
  assumes "\<not> ok \<or> \<not> fresh_delivery E d w"
  shows "no_work E w (snd (after_signature E d raw cid co ok w))"
proof (cases ok)
  case False
  then show ?thesis by (simp add: after_signature_def finish_no_work Let_def)
next
  case True
  let ?did = "trim_space (dl_id d)"
  let ?r = "new_receipt (he_orch E) ?did (dl_event d) True"
  obtain p where p: "prior_delivery ?r ?did w = Some p" "?did \<noteq> []"
    using assms True by (auto simp: fresh_delivery_def Let_def)
  have "prior_delivery (?r\<lparr>hk_conn := cid\<rparr>) ?did w = Some p"
    using p(1) prior_delivery_cong [of w w "?r\<lparr>hk_conn := cid\<rparr>" ?r] by simp
  then show ?thesis using True p by (auto simp: after_signature_def Let_def finish_no_work)
qed

lemma on_conns_live [simp]: "hs_live (snd (on_conns f w)) = hs_live w"
  by (simp add: on_conns_def case_prod_beta)

lemma connector_signature_live [simp]: "hs_live (snd (connector_signature E cid raw event sig w)) = hs_live w"
  by (auto simp: connector_signature_def signing_watch_def case_prod_beta Let_def split: option.split)

lemma fresh_delivery_cong: "hs_live w = hs_live v \<Longrightarrow> fresh_delivery E d w = fresh_delivery E d v"
  by (simp add: fresh_delivery_def prior_delivery_def find_by_delivery_def Let_def)

lemma unsigned_or_known:
  assumes "\<not> signed E cid d w \<or> \<not> fresh_delivery E d w"
  shows "no_work E w (snd (ingress E cid d w))"
proof (cases "dl_body d")
  case None
  then show ?thesis by (simp add: ingress_def)
next
  case (Some raw)
  show ?thesis
  proof (cases "cid = []")
    case True
    then show ?thesis
      using assms after_signature_no_work by (simp add: ingress_def Some signed_def)
  next
    case False
    let ?h = "on_conns (get_or_hydrate (he_conn E) cid) w"
    let ?s = "connector_signature E cid raw (dl_event d) (dl_sig d) (snd ?h)"
    have h: "no_work E w (snd ?h)" by (rule get_no_work)
    have s: "no_work E w (snd ?s)" using no_work_trans [OF h connector_signature_no_work] .
    have live: "hs_live w = hs_live (snd ?s)" by simp
    have "\<not> fst ?s \<or> \<not> fresh_delivery E d (snd ?s)"
      using assms False fresh_delivery_cong [OF live, of E d] by (simp add: signed_def Some)
    then have "no_work E w (snd (after_signature E d raw cid (Some c) (fst ?s) (snd ?s)))" for c
      using no_work_trans [OF s after_signature_no_work] by blast
    then show ?thesis
      using h False by (simp add: ingress_def Some case_prod_beta Let_def split: option.split)
  qed
qed

text \<open>
  C5: no work without a signature and a fresh delivery id.  A delivery that is not signed as its
  route demands (the application's secret, or the secret of the watch when its webhook is registered
  on the repository), or whose id is already known, changes no job, starts none, posts nothing, and
  leaves preferences, issue runs, watches and install intents alone; connectors are at most loaded
  from ClickHouse.
\<close>

theorem work_needs_signed_fresh_delivery:
  assumes "\<not> signed E cid d w \<or> \<not> fresh_delivery E d w"
  shows "no_work E w (snd (ingress E cid d w))"
  using assms by (rule unsigned_or_known)

subsection \<open>Why a job starts\<close>

lemma started_on_conns [simp]: "hs_started (snd (on_conns f w)) = hs_started w"
  by (simp add: on_conns_def case_prod_beta)

lemma started_persist [simp]: "hs_started (persist_receipt env r w) = hs_started w"
  by (simp add: persist_receipt_def persist_receipt_ch_def persist_receipt_file_def store_receipt_def)

lemma started_reconcile_receipt [simp]: "hs_started (snd (reconcile_receipt env r w)) = hs_started w"
  by (auto simp: reconcile_receipt_def Let_def case_prod_beta split: option.split)

lemma fold_keeps: "(\<And>x w. g (f x w) = g w) \<Longrightarrow> g (fold f xs w) = g w"
  by (induction xs arbitrary: w) simp_all

lemma started_reconcile_for_job [simp]: "hs_started (reconcile_for_job env j w) = hs_started w"
  by (simp add: reconcile_for_job_def fold_keeps)

lemma started_on_jobs [simp]: "hs_started (snd (on_jobs env f w)) = hs_started w"
proof -
  have "hs_started (reconcile_id env k v) = hs_started v" for k v
    by (simp add: reconcile_id_def split: option.split)
  then show ?thesis by (simp add: on_jobs_def case_prod_beta Let_def fold_keeps)
qed

lemma started_with_jobs [simp]: "hs_started (snd (with_jobs E f w)) = hs_started w"
  by (simp add: with_jobs_def)

lemma started_finish [simp]:
  "hs_started (snd (finish_receipt (he_conn E) env r out hon st err w)) = hs_started w"
  "hs_started (snd (finish_with E r out hon rep w)) = hs_started w"
  "hs_started (snd (finish_error E r hon c err w)) = hs_started w"
  using finish_receipt_no_work [of E w] finish_no_work [of E w] by (simp_all add: no_work_def)

lemma started_change_live [simp]: "hs_started (snd (change_live k f w)) = hs_started w"
  by (simp add: change_live_def split: option.split)

lemma started_publish_result [simp]: "hs_started (snd (publish_checker_result E c full m w)) = hs_started w"
  by (auto simp: publish_checker_result_def Let_def split: option.split)

lemma started_publish [simp]: "hs_started (snd (publish_checkers E c v ds w)) = hs_started w"
proof -
  have one: "hs_started (snd (publish_one E c v d acc)) = hs_started (snd acc)" for d acc
    using started_publish_result [of E c "ev_repo v" "checker_meta_of E v d" "snd acc"]
    by (auto simp: publish_one_def Let_def case_prod_beta simp del: started_publish_result split: option.split)
  have "hs_started (snd (fold (publish_one E c v) ds acc)) = hs_started (snd acc)" for acc
    by (induction ds arbitrary: acc) (simp_all add: one)
  then show ?thesis by (simp add: publish_checkers_def case_prod_beta)
qed

lemma started_dispatch [simp]: "hs_started (snd (dispatch_checkers E co v checks raw w)) = hs_started w"
proof -
  have "hs_started (snd (evaluate_ora_review E u raw w)) = hs_started w" for u
    by (auto simp: evaluate_ora_review_def case_prod_beta Let_def split: option.split)
  then have "hs_started (snd (evaluate_native E v checks raw w)) = hs_started w"
    by (simp add: evaluate_native_def Let_def case_prod_beta)
  then show ?thesis by (simp add: dispatch_checkers_def case_prod_beta split: option.split)
qed

lemma started_peers_only [simp]: "hs_started (snd (peers_only E r hon t co raw event w)) = hs_started w"
  by (simp add: peers_only_def case_prod_beta Let_def)

lemma started_watch [simp]:
  "hs_started (snd (watch_of_delivery E cid forced repo w)) = hs_started w"
  "hs_started (snd (directory_watch E cid forced inst pv repo w)) = hs_started w"
  "hs_started (snd (install_watch E forced inst repo w)) = hs_started w"
  by (auto simp: watch_of_delivery_def directory_watch_def directory_scope_def install_watch_def provision_watch_def
      case_prod_beta Let_def
      split: option.split)

lemma started_pr_watch [simp]: "hs_started (snd (pr_watch E cid forced inst repo w)) = hs_started w"
  by (auto simp: pr_watch_def case_prod_beta Let_def split: option.split)

lemma started_push_watch [simp]: "hs_started (snd (push_watch E cid forced inst repo w)) = hs_started w"
  by (auto simp: push_watch_def case_prod_beta Let_def split: option.split)

text \<open>A tenant is known: an organization is named, or the connector is a person's; and it is claimed.\<close>

definition tenant_known :: "watched \<Rightarrow> app_conn option \<Rightarrow> bool" where
  "tenant_known t co \<longleftrightarrow>
     (case co of
        None \<Rightarrow> trim_space (wt_org t) \<noteq> []
      | Some c \<Rightarrow>
          \<not> conn_status_is ''pending_claim'' c \<and>
          (trim_space (wt_org t) \<noteq> [] \<or> trim_space (cn_org c) \<noteq> [] \<or>
           (infer_legacy_scope (cn_org c) (cn_scope c) = ''user'' \<and> trim_space (cn_user c) \<noteq> [])))"

lemma tenant_blocks_iff: "tenant_blocks_job (resolve_scm_tenant tn (Some t) co) \<longleftrightarrow> \<not> tenant_known t co"
  by (auto simp: tenant_blocks_job_def resolve_scm_tenant_def tenant_known_def Let_def split: option.split)

text \<open>A watch of the installation's own connector.\<close>

definition installed_watch :: "hook_env \<Rightarrow> string \<Rightarrow> string \<Rightarrow> watched \<Rightarrow> bool" where
  "installed_watch E inst repo t \<longleftrightarrow>
     trim_space inst \<noteq> [] \<and>
     (\<exists>c u. trim_space (cn_inst c) = trim_space inst \<and>
        fst (auto_watch_installed_repo (he_conn E) (Some c) repo u) = Some t)"

text \<open>
  Where the watch of a delivery comes from: the watch of the connector whose route was used, an enabled
  watch of the repository, a project of the account product, or the installation's own connector.
\<close>

definition watch_evidence ::
  "hook_env \<Rightarrow> string \<Rightarrow> app_conn option \<Rightarrow> string \<Rightarrow> string \<Rightarrow> conn_state \<Rightarrow> watched \<Rightarrow> bool" where
  "watch_evidence E cid forced inst repo s t \<longleftrightarrow>
     (forced \<noteq> None \<and> find_watched_for_connector_repo cid repo s = Some t) \<or>
     (t \<in> snd ` set (cs_watched s) \<and> wt_enabled t \<and> equal_fold (wt_repo t) repo) \<or>
     (peer_directory E \<and> (\<exists>org p. lookup_oam_project (he_conn E) org (trim_space repo) = Inr (Some p))) \<or>
     (\<not> peer_directory E \<and> installed_watch E inst repo t)"

lemma usable_subset: "set (fst (usable_watches env ws s)) \<subseteq> set ws"
proof (induction ws arbitrary: s)
  case (Cons t ts)
  show ?case using Cons.IH by (auto simp: case_prod_beta)
qed simp

lemma best_member: "fst (best_watch env ws b s) = Some t \<Longrightarrow> t \<in> set ws \<or> fst b = Some t"
proof (induction ws arbitrary: b s)
  case (Cons x xs)
  let ?g = "get_or_hydrate env (wt_conn x) s"
  let ?b = "if snd b < watch_score (fst ?g) x then (Some x, watch_score (fst ?g) x) else b"
  have "fst (best_watch env xs ?b (snd ?g)) = Some t" using Cons.prems by (simp add: case_prod_beta Let_def)
  then have "t \<in> set xs \<or> fst ?b = Some t" by (rule Cons.IH)
  then show ?case by (auto split: if_splits)
qed simp

lemma prefer_member: "fst (prefer_watched_for_checks env ws s) = Some t \<Longrightarrow> t \<in> set ws"
proof -
  assume a: "fst (prefer_watched_for_checks env ws s) = Some t"
  obtain us u where u: "usable_watches env ws s = (us, u)" by (cases "usable_watches env ws s")
  have "t \<in> set us"
    using a best_member [of env us "(None, -1)" u t]
    by (auto simp: prefer_watched_for_checks_def u case_prod_beta simp del: best_watch.simps split: list.splits option.splits)
  then show ?thesis using usable_subset [of env ws s] u by auto
qed

lemma find_watched_member:
  assumes "fst (fst (find_watched env repo s)) = Some t"
  shows "t \<in> snd ` set (cs_watched s) \<and> wt_enabled t \<and> equal_fold (wt_repo t) repo"
proof -
  let ?c = "filter (\<lambda>w. wt_enabled w \<and> equal_fold (wt_repo w) repo) (map snd (cs_watched s))"
  obtain us u where u: "usable_watches env ?c s = (us, u)" by (cases "usable_watches env ?c s")
  have "fst (prefer_watched_for_checks env us u) = Some t"
    using assms by (auto simp: find_watched_def u case_prod_beta Let_def split: if_splits option.splits)
  then have "t \<in> set us" by (rule prefer_member)
  then have "t \<in> set ?c" using usable_subset [of env ?c s] u by auto
  then show ?thesis by auto
qed

lemma on_conns_simps [simp]:
  "fst (on_conns f w) = fst (f (hs_conns w))" "hs_conns (snd (on_conns f w)) = snd (f (hs_conns w))"
  by (simp_all add: on_conns_def case_prod_beta)

lemma ensure_inst:
  assumes "fst (ensure_github_app_connector env inst login s) = Some c"
  shows "trim_space (cn_inst c) = trim_space inst \<and> trim_space inst \<noteq> []"
proof (cases "find_connector_by_installation (trim_space inst) s")
  case None
  then show ?thesis using assms by (auto simp: ensure_github_app_connector_def new_pending_def Let_def split: if_splits)
next
  case (Some d)
  then have "of_installation (trim_space inst) d"
    by (auto simp: find_connector_by_installation_def Let_def find_Some_iff split: if_splits option.splits)
  moreover have "cn_inst c = cn_inst d"
    using assms Some
    by (auto simp: ensure_github_app_connector_def refresh_app_conn_def Let_def split: if_splits option.splits prod.splits)
  ultimately show ?thesis using assms by (auto simp: of_installation_def ensure_github_app_connector_def Let_def split: if_splits)
qed

lemma found_inst:
  "find_connector_by_installation inst s = Some c \<Longrightarrow> trim_space (cn_inst c) = trim_space inst \<and> trim_space inst \<noteq> []"
  by (auto simp: find_connector_by_installation_def of_installation_def Let_def find_Some_iff split: if_splits option.splits)

lemma provision_evidence:
  assumes "fst (provision_watch E forced inst repo w) = Some (t, co)"
  shows "installed_watch E inst repo t"
proof (cases "fst (ensure_github_app_connector (he_conn E) inst [] (hs_conns w))")
  case None
  then show ?thesis using assms by (auto simp: provision_watch_def case_prod_beta split: if_splits)
next
  case (Some c)
  then have "\<exists>u. fst (auto_watch_installed_repo (he_conn E) (Some c) repo u) = Some t"
    using assms by (auto simp: provision_watch_def case_prod_beta split: if_splits)
  then show ?thesis using ensure_inst [OF Some] by (auto simp: installed_watch_def)
qed

lemma install_watch_evidence:
  assumes "fst (fst (install_watch E forced inst repo w)) = Some t"
  shows "installed_watch E inst repo t"
proof (cases "fst (provision_watch E forced inst repo w)")
  case (Some tc)
  then show ?thesis
    using assms provision_evidence [of E forced inst repo w] by (cases tc) (auto simp: install_watch_def case_prod_beta)
next
  case None
  let ?s = "hs_conns (snd (provision_watch E forced inst repo w))"
  show ?thesis
  proof (cases "find_connector_by_installation inst ?s")
    case None
    then show ?thesis using assms \<open>fst (provision_watch E forced inst repo w) = None\<close> by (simp add: install_watch_def case_prod_beta)
  next
    case (Some c)
    then have "\<exists>u. fst (auto_watch_installed_repo (he_conn E) (Some c) repo u) = Some t"
      using assms None by (auto simp: install_watch_def case_prod_beta)
    then show ?thesis using found_inst [OF Some] by (auto simp: installed_watch_def)
  qed
qed

lemma directory_watch_evidence:
  assumes "fst (directory_watch E cid forced inst pv repo w) = Inr tc"
  shows "\<exists>org p. lookup_oam_project (he_conn E) org (trim_space repo) = Inr (Some p)"
proof -
  obtain og k s where "fst (ensure_watched_from_oam (he_conn E) og repo k s) = Inr tc"
    using assms by (auto simp: directory_watch_def case_prod_beta)
  then show ?thesis
    by (auto simp: ensure_watched_from_oam_def Let_def split: if_splits sum.splits option.splits)
qed

lemma delivery_watch_evidence:
  assumes "fst (fst (watch_of_delivery E cid forced repo w)) = Some t"
  shows "watch_evidence E cid forced inst repo (hs_conns w) t"
  using assms find_watched_member [of "he_conn E" repo "hs_conns w" t]
  by (auto simp: watch_of_delivery_def watch_evidence_def split: option.splits)

lemma pr_watch_evidence:
  assumes "fst (pr_watch E cid forced inst repo w) = Inr (t, co)"
  shows "watch_evidence E cid forced inst repo (hs_conns w) t"
proof -
  obtain wo c v where d: "watch_of_delivery E cid forced repo w = ((wo, c), v)"
    by (cases "watch_of_delivery E cid forced repo w") auto
  show ?thesis
  proof (cases wo)
    case (Some u)
    then show ?thesis using assms delivery_watch_evidence [of E cid forced repo w t] d by (simp add: pr_watch_def)
  next
    case None
    show ?thesis
    proof (cases "peer_directory E")
      case True
      obtain res x where r: "directory_watch E cid forced inst True repo v = (res, x)"
        by (cases "directory_watch E cid forced inst True repo v")
      then obtain tc where "res = Inr tc" using assms None True by (auto simp: pr_watch_def d split: sum.splits)
      then have "\<exists>org p. lookup_oam_project (he_conn E) org (trim_space repo) = Inr (Some p)"
        using directory_watch_evidence [of E cid forced inst True repo v tc] r by simp
      then show ?thesis using True by (simp add: watch_evidence_def)
    next
      case False
      obtain a b x where r: "install_watch E forced inst repo v = ((a, b), x)"
        by (cases "install_watch E forced inst repo v") auto
      then have "a = Some t" using assms None False by (auto simp: pr_watch_def d Let_def split: option.splits)
      then show ?thesis using False install_watch_evidence [of E forced inst repo v t] r by (simp add: watch_evidence_def)
    qed
  qed
qed

lemma delivery_forced:
  "forced \<noteq> None \<Longrightarrow> fst (pr_watch E cid forced inst repo w) = Inr (t, co) \<Longrightarrow> co = forced"
  "forced \<noteq> None \<Longrightarrow> fst (push_watch E cid forced inst repo w) = Inr (t, co) \<Longrightarrow> co = forced"
  by (auto simp: pr_watch_def push_watch_def case_prod_beta Let_def split: option.splits if_splits sum.splits)

lemma push_watch_evidence:
  assumes "fst (push_watch E cid forced inst repo w) = Inr (t, co)"
  shows "watch_evidence E cid forced inst repo (hs_conns w) t"
proof -
  obtain wo c v where d: "watch_of_delivery E cid forced repo w = ((wo, c), v)"
    by (cases "watch_of_delivery E cid forced repo w") auto
  show ?thesis
  proof (cases wo)
    case (Some u)
    then show ?thesis using assms delivery_watch_evidence [of E cid forced repo w t] d by (simp add: push_watch_def)
  next
    case None
    then have peer: "peer_directory E" using assms by (auto simp: push_watch_def d split: if_splits)
    obtain res x where r: "directory_watch E cid forced inst False repo v = (res, x)"
      by (cases "directory_watch E cid forced inst False repo v")
    then obtain tc where "res = Inr tc" using assms None peer by (auto simp: push_watch_def d split: sum.splits)
    then have "\<exists>org p. lookup_oam_project (he_conn E) org (trim_space repo) = Inr (Some p)"
      using directory_watch_evidence [of E cid forced inst False repo v tc] r by simp
    then show ?thesis using peer by (simp add: watch_evidence_def)
  qed
qed

text \<open>
  Why a pull request, a push or an issue may start a job in a state.  \<open>chosen\<close> is the watch and the
  connector the delivery resolves to: that watch must have its evidence, and that pair a known tenant.
\<close>

definition admitted_watch ::
  "hook_env \<Rightarrow> string \<Rightarrow> app_conn option \<Rightarrow> string \<Rightarrow> string \<Rightarrow> conn_state
     \<Rightarrow> string + watched \<times> app_conn option \<Rightarrow> (string list \<Rightarrow> bool) \<Rightarrow> bool" where
  "admitted_watch E cid forced inst repo s chosen wanted \<longleftrightarrow>
     (case chosen of
        Inl why \<Rightarrow> False
      | Inr (t, co) \<Rightarrow>
          watch_evidence E cid forced inst repo s t \<and> (forced \<noteq> None \<longrightarrow> co = forced) \<and>
          tenant_known t co \<and> wanted (watched_checks_of E t))"

definition pr_evidence :: "hook_env \<Rightarrow> string \<Rightarrow> string \<Rightarrow> app_conn option \<Rightarrow> hook_state \<Rightarrow> bool" where
  "pr_evidence E raw cid forced w \<longleftrightarrow>
     (\<exists>p. he_pr E raw = Some p \<and> \<not> scm_pr_is_merged (pp_merged p) (pp_merged_at p) \<and>
        fst (lookup_successful_ai_review (orch_of E w) (pp_repo p) (pp_sha p) [] (hs_jobs w)) = None \<and>
        pp_action p \<in> set pr_delivery_actions \<and>
        (let looked = snd (with_jobs E (\<lambda>env. lookup_successful_ai_review env (pp_repo p) (pp_sha p) []) w)
         in admitted_watch E cid forced (inst_text (pp_inst p)) (pp_repo p) (hs_conns w)
              (fst (pr_watch E cid forced (inst_text (pp_inst p)) (pp_repo p) looked))
              (\<lambda>cs. wants_ora_review cs \<or> wants_legacy_security_scan cs \<or> cs = [])))"

definition push_evidence :: "hook_env \<Rightarrow> string \<Rightarrow> string \<Rightarrow> app_conn option \<Rightarrow> hook_state \<Rightarrow> bool" where
  "push_evidence E raw cid forced w \<longleftrightarrow>
     (\<exists>p. he_push E raw = Some p \<and> pu_ref p = ''refs/heads/'' @ nz (pu_default p) ''main'' \<and>
        admitted_watch E cid forced (inst_text (pu_inst p)) (pu_repo p) (hs_conns w)
          (fst (push_watch E cid forced (inst_text (pu_inst p)) (pu_repo p) w))
          (\<lambda>cs. wants_ora_review cs \<or> wants_legacy_security_scan cs))"

text \<open>An issue needs an enabled watch and preferences that admit it, nothing of a tenant or of checks.\<close>

definition issue_evidence :: "hook_env \<Rightarrow> string \<Rightarrow> hook_state \<Rightarrow> bool" where
  "issue_evidence E raw w \<longleftrightarrow>
     (\<exists>p t. he_issue E raw = Some p \<and> trim_space (is_pr_url p) = [] \<and>
        to_lower (trim_space (is_action p)) \<in> set issue_actions \<and> 0 < is_number p \<and>
        t \<in> snd ` set (cs_watched (hs_conns w)) \<and> wt_enabled t \<and> equal_fold (wt_repo t) (trim_space (is_repo p)) \<and>
        (let prefs = fst (fst (resolve_agent_prefs (he_prefs E) (hs_prefs w) (wt_org t) (wt_proj t) (wt_conn t)
                             (trim_space (is_repo p))))
         in ai_issues_enabled prefs \<and> issue_label_matches_prefs prefs (issue_labels_of p)))"

lemma live_change_conns [simp]: "hs_conns (snd (on_jobs env f w)) = hs_conns w"
proof -
  have pers: "hs_conns (persist_receipt env r v) = hs_conns v" for r v
    by (simp add: persist_receipt_def persist_receipt_ch_def persist_receipt_file_def store_receipt_def)
  have one: "hs_conns (snd (reconcile_receipt env r v)) = hs_conns v" for r v
    using pers by (auto simp: reconcile_receipt_def Let_def case_prod_beta split: option.split)
  have "hs_conns (reconcile_for_job env j v) = hs_conns v" for j v
    by (simp add: reconcile_for_job_def fold_keeps one)
  then have "hs_conns (reconcile_id env k v) = hs_conns v" for k v
    by (simp add: reconcile_id_def split: option.split)
  then show ?thesis by (simp add: on_jobs_def case_prod_beta Let_def fold_keeps)
qed

lemma with_jobs_simps [simp]:
  "hs_conns (snd (with_jobs E f w)) = hs_conns w" "fst (with_jobs E f w) = fst (f (orch_of E w) (hs_jobs w))"
  by (simp_all add: with_jobs_def) (simp add: on_jobs_def case_prod_beta Let_def)

lemma pr_started:
  assumes "hs_started (snd (handle_pr_delivery E raw r cid forced w)) \<noteq> hs_started w"
  shows "pr_evidence E raw cid forced w"
proof (cases "he_pr E raw")
  case None
  then show ?thesis using assms by (simp add: handle_pr_delivery_def)
next
  case (Some p)
  let ?look = "with_jobs E (\<lambda>env. lookup_successful_ai_review env (pp_repo p) (pp_sha p) []) w"
  let ?pw = "pr_watch E cid forced (inst_text (pp_inst p)) (pp_repo p) (snd ?look)"
  have m: "\<not> scm_pr_is_merged (pp_merged p) (pp_merged_at p)"
    using assms by (auto simp: handle_pr_delivery_def Some Let_def case_prod_beta)
  have l: "fst ?look = None" "pp_action p \<in> set pr_delivery_actions"
    using assms m by (auto simp: handle_pr_delivery_def Some Let_def case_prod_beta split: if_splits)
  obtain t co where t: "fst ?pw = Inr (t, co)"
    using assms m l by (cases "fst ?pw") (auto simp: handle_pr_delivery_def Some Let_def case_prod_beta)
  obtain r' where adm: "hs_started (snd (pr_admitted E p r' t co raw (snd ?pw))) \<noteq> hs_started (snd ?pw)"
    using assms m l t by (auto simp: handle_pr_delivery_def Some Let_def case_prod_beta)
  then have k: "tenant_known t co" "wants_ora_review (watched_checks_of E t) \<or> wants_legacy_security_scan (watched_checks_of E t) \<or>
      watched_checks_of E t = []"
    by (auto simp: pr_admitted_def Let_def tenant_blocks_iff split: if_splits)
  have "watch_evidence E cid forced (inst_text (pp_inst p)) (pp_repo p) (hs_conns w) t"
    using pr_watch_evidence [OF t] by simp
  then have "admitted_watch E cid forced (inst_text (pp_inst p)) (pp_repo p) (hs_conns w) (fst ?pw)
      (\<lambda>cs. wants_ora_review cs \<or> wants_legacy_security_scan cs \<or> cs = [])"
    using t k delivery_forced(1) [OF _ t] by (simp add: admitted_watch_def)
  then show ?thesis using Some m l by (simp add: pr_evidence_def Let_def)
qed

lemma push_started:
  assumes "hs_started (snd (handle_push_delivery E raw r cid forced w)) \<noteq> hs_started w"
  shows "push_evidence E raw cid forced w"
proof (cases "he_push E raw")
  case None
  then show ?thesis using assms by (simp add: handle_push_delivery_def)
next
  case (Some p)
  let ?pw = "push_watch E cid forced (inst_text (pu_inst p)) (pu_repo p) w"
  have ref: "pu_ref p = ''refs/heads/'' @ nz (pu_default p) ''main''"
    using assms by (auto simp: handle_push_delivery_def Some Let_def case_prod_beta split: if_splits)
  obtain t co where t: "fst ?pw = Inr (t, co)"
    using assms ref by (cases "fst ?pw") (auto simp: handle_push_delivery_def Some Let_def case_prod_beta)
  obtain r' where adm: "hs_started (snd (push_admitted E p r' t co raw (snd ?pw))) \<noteq> hs_started (snd ?pw)"
    using assms ref t by (auto simp: handle_push_delivery_def Some Let_def case_prod_beta)
  then have k: "tenant_known t co" "wants_ora_review (watched_checks_of E t) \<or> wants_legacy_security_scan (watched_checks_of E t)"
    by (auto simp: push_admitted_def Let_def tenant_blocks_iff split: if_splits)
  show ?thesis using Some ref k t push_watch_evidence [OF t] delivery_forced(2) [OF _ t]
    by (simp add: push_evidence_def admitted_watch_def)
qed

lemma started_enqueue_issue [simp]: "hs_started (snd (enqueue_issue_run E t repo issue title body labels event w)) = hs_started w"
  by (simp add: enqueue_issue_run_def remember_issue_run_def Let_def case_prod_beta)

lemma started_maybe_issue [simp]: "hs_started (snd (maybe_enqueue_issue_run E repo issue title body labels event w)) = hs_started w"
  by (auto simp: maybe_enqueue_issue_run_def issue_in_flight_def Let_def case_prod_beta split: option.split)

lemma issue_started:
  assumes "hs_started (snd (handle_issues_delivery E raw r w)) \<noteq> hs_started w"
  shows "issue_evidence E raw w"
proof (cases "he_issue E raw")
  case None
  then show ?thesis using assms by (simp add: handle_issues_delivery_def)
next
  case (Some p)
  let ?repo = "trim_space (is_repo p)"
  let ?m = "maybe_enqueue_issue_run E ?repo (is_number p) (is_title p) (is_body p) (issue_labels_of p)
     (''issues.'' @ to_lower (trim_space (is_action p))) w"
  have act: "trim_space (is_pr_url p) = []" "to_lower (trim_space (is_action p)) \<in> set issue_actions"
    using assms by (auto simp: handle_issues_delivery_def Some Let_def split: if_splits)
  obtain j where j: "fst ?m = Inr j"
    using assms act by (cases "fst ?m") (auto simp: handle_issues_delivery_def Some Let_def case_prod_beta)
  let ?f = "find_watched (he_conn E) ?repo (hs_conns w)"
  obtain t where t: "fst (fst ?f) = Some t" and n: "0 < is_number p"
    using j by (auto simp: maybe_enqueue_issue_run_def Let_def case_prod_beta split: if_splits option.splits)
  have "(let prefs = fst (fst (resolve_agent_prefs (he_prefs E) (hs_prefs w) (wt_org t) (wt_proj t) (wt_conn t) ?repo))
         in ai_issues_enabled prefs \<and> issue_label_matches_prefs prefs (issue_labels_of p))"
    using j t by (auto simp: maybe_enqueue_issue_run_def Let_def case_prod_beta on_conns_def split: if_splits option.splits)
  then show ?thesis
    using Some act n find_watched_member [OF t] by (auto simp: issue_evidence_def)
qed

lemma started_installation [simp]: "hs_started (snd (handle_installation_delivery E event raw r w)) = hs_started w"
  by (auto simp: handle_installation_delivery_def Let_def case_prod_beta split: option.split)

lemma started_comment [simp]: "hs_started (snd (handle_issue_comment_delivery E raw r w)) = hs_started w"
  by (simp add: handle_issue_comment_delivery_def case_prod_beta)

definition event_evidence :: "hook_env \<Rightarrow> string \<Rightarrow> string \<Rightarrow> string \<Rightarrow> app_conn option \<Rightarrow> hook_state \<Rightarrow> bool" where
  "event_evidence E event raw cid forced w \<longleftrightarrow>
     (event = ''pull_request'' \<and> pr_evidence E raw cid forced w) \<or>
     (event = ''push'' \<and> push_evidence E raw cid forced w) \<or>
     (event = ''issues'' \<and> issue_evidence E raw w)"

lemma event_started:
  assumes "hs_started (snd (handle_event E event raw r cid forced w)) \<noteq> hs_started w"
  shows "event_evidence E event raw cid forced w"
  using assms pr_started push_started issue_started
  by (auto simp: handle_event_def event_evidence_def split: if_splits)

lemma after_signature_started:
  assumes "hs_started (snd (after_signature E d raw cid co ok w)) \<noteq> hs_started w"
  shows "event_evidence E (dl_event d) raw cid co w"
  using assms event_started
  by (auto simp: after_signature_def Let_def split: if_splits option.splits)

text \<open>
  C4: a job starts only on evidence.  When a delivery starts a job, it was signed as its route demands
  and new, and it was one of three.  A pull request event of an actionable kind, unmerged and at a
  commit without a successful review, or a push to the default branch: then the watch the delivery
  resolves to is the one of the route's connector, an enabled watch, one made for a project of the
  account product or for the installation that sent the event; that watch with the connector chosen
  for it (the route's own, on a connector route) names a known and claimed tenant; and its checks ask
  for the work.  Or an issue of an enabled watch whose preferences admit issues, with the gate label;
  an issue needs neither a tenant nor checks.
\<close>

theorem job_starts_on_evidence:
  assumes "hs_started (snd (ingress E cid d w)) \<noteq> hs_started w"
  shows "signed E cid d w \<and> fresh_delivery E d w \<and>
    (\<exists>raw co v. dl_body d = Some raw \<and> no_work E w v \<and> (cid = [] \<longrightarrow> co = None) \<and>
       event_evidence E (dl_event d) raw cid co v)"
proof -
  have sf: "signed E cid d w" "fresh_delivery E d w"
    using assms unsigned_or_known [of E cid d w] by (auto simp: no_work_def)
  obtain raw where raw: "dl_body d = Some raw"
    using assms by (cases "dl_body d") (auto simp: ingress_def)
  show ?thesis
  proof (cases "cid = []")
    case True
    have "event_evidence E (dl_event d) raw [] None w"
      using assms True raw after_signature_started by (auto simp: ingress_def)
    then show ?thesis using sf raw True no_work_refl by blast
  next
    case False
    let ?h = "on_conns (get_or_hydrate (he_conn E) cid) w"
    let ?s = "connector_signature E cid raw (dl_event d) (dl_sig d) (snd ?h)"
    have s: "no_work E w (snd ?s)" using no_work_trans [OF get_no_work connector_signature_no_work] .
    have st: "hs_started (snd ?s) = hs_started w" using s by (simp add: no_work_def)
    obtain c where "hs_started (snd (after_signature E d raw cid (Some c) (fst ?s) (snd ?s))) \<noteq> hs_started (snd ?s)"
      using assms False raw st by (auto simp: ingress_def case_prod_beta Let_def split: option.splits if_splits)
    then have "event_evidence E (dl_event d) raw cid (Some c) (snd ?s)" by (rule after_signature_started)
    then show ?thesis using sf raw s False by blast
  qed
qed

subsection \<open>A delivery that works\<close>

text \<open>A push to the default branch of a watched repository, signed with the secret of the application.\<close>

definition demo_getenv :: genv where
  "demo_getenv k = (if k = ''OPA_GITHUB_WEBHOOK_SECRET'' then ''k'' else [])"

definition demo_orch :: orch_env where
  "demo_orch =
     sample_env\<lparr>e_getenv := demo_getenv, e_sha1hex := (\<lambda>_. ''abc''), e_dec_strs := (\<lambda>_. Some [''secrets''])\<rparr>"

definition demo_conns_env :: conn_env where
  "demo_conns_env =
     \<lparr>ce_now = ''t1'', ce_nanos = 1000, ce_getenv = demo_getenv, ce_sha1hex = (\<lambda>_. ''abc''), ce_sha256hex = (\<lambda>x. ''h'' @ x),
      ce_nonce = Some ''nonce'', ce_hex = ''ff'', ce_writer = False, ce_query = (\<lambda>_. None), ce_watch_rows = (\<lambda>_. []),
      ce_encrypt = Some, ce_decrypt = Some, ce_dec_meta = (\<lambda>_. []), ce_enc_strs = (\<lambda>_. []), ce_dec_strs = (\<lambda>_. None),
      ce_oam = (\<lambda>_. Inl ''down''), ce_legacy = False,
      ce_tenancy = \<lparr>tn_enforced = True, tn_permits = (\<lambda>_ _. True), tn_all = ''all'', tn_org = ''default-org'',
                    tn_proj = ''default-project''\<rparr>\<rparr>"

definition demo_push :: push_payload where
  "demo_push =
     \<lparr>pu_ref = ''refs/heads/main'', pu_after = ''c0ffee'', pu_repo = ''acme/app'', pu_default = ''main'', pu_inst = 7,
      pu_paths = []\<rparr>"

definition demo_hooks :: hook_env where
  "demo_hooks =
     \<lparr>he_conn = demo_conns_env, he_orch = demo_orch, he_hmac = (\<lambda>k b. k @ b), he_pr = (\<lambda>_. None),
      he_push = (\<lambda>_. Some demo_push),
      he_inst = (\<lambda>_. \<lparr>ip_action = [], ip_inst = 0, ip_login = [], ip_repos = [], ip_added = [], ip_removed = []\<rparr>),
      he_issue = (\<lambda>_. None), he_comment = (\<lambda>_. ([], 0, 0, [])), he_prefs = (\<lambda>_. None), he_peers = (\<lambda>_ _. []),
      he_check_run = (\<lambda>_ _. None), he_status = (\<lambda>_ _. True)\<rparr>"

definition demo_conn :: app_conn where
  "demo_conn =
     \<lparr>cn_id = ''conn-1'', cn_org = ''acme'', cn_proj = ''p1'', cn_scope = ''organization'', cn_user = [],
      cn_kind = ''github_app'', cn_inst = ''7'', cn_status = ''active'', cn_token = [], cn_login = ''acme'', cn_meta = [],
      cn_created = ''t0'', cn_updated = ''t0''\<rparr>"

definition demo_watch :: watched where
  "demo_watch =
     \<lparr>wt_id = ''w1'', wt_org = ''acme'', wt_proj = ''p1'', wt_conn = ''conn-1'', wt_repo = ''acme/app'', wt_repo_id = [],
      wt_enabled = True, wt_service = [], wt_profile = [], wt_checks = ''c'', wt_min_sev = [], wt_ai_block = False,
      wt_auto_req = False, wt_min_score = 0, wt_group = [], wt_hook = 0, wt_secret = [], wt_mode = [], wt_updated = ''t0''\<rparr>"

definition demo_state :: hook_state where
  "demo_state =
     \<lparr>hs_conns = \<lparr>cs_conns = [(''conn-1'', demo_conn)], cs_watched = [(''w1'', demo_watch)], cs_intents = [], cs_log = []\<rparr>,
      hs_jobs = store_of [], hs_prefs = \<lparr>ps_live = Map.empty, ps_files = Map.empty, ps_inserted = []\<rparr>, hs_live = [],
      hs_files = Map.empty, hs_rows = [], hs_issues = Map.empty, hs_started = [], hs_posts = []\<rparr>"

definition demo_delivery :: "string \<Rightarrow> delivery" where
  "demo_delivery sig = \<lparr>dl_body = Some ''{}'', dl_id = ''d1'', dl_event = ''push'', dl_sig = sig\<rparr>"

theorem work_needs_signed_fresh_delivery_witness:
  "no_work demo_hooks demo_state (snd (ingress demo_hooks [] (demo_delivery ''sha256=6b7b7c'') demo_state))"
proof (rule work_needs_signed_fresh_delivery, rule disjI1)
  show "\<not> signed demo_hooks [] (demo_delivery ''sha256=6b7b7c'') demo_state" by code_simp
qed

theorem job_starts_on_evidence_witness:
  "\<exists>v. no_work demo_hooks demo_state v \<and> event_evidence demo_hooks ''push'' ''{}'' [] None v"
proof -
  have "hs_started (snd (ingress demo_hooks [] (demo_delivery ''sha256=6b7b7d'') demo_state)) = [''scmjob-abc'']" by code_simp
  then have "hs_started (snd (ingress demo_hooks [] (demo_delivery ''sha256=6b7b7d'') demo_state)) \<noteq> hs_started demo_state"
    by (simp add: demo_state_def)
  from job_starts_on_evidence [OF this] show ?thesis by (auto simp: demo_delivery_def)
qed

end
