(* ===== verification/Hook_Typing.thy ===== *)
theory Hook_Typing
  imports Hook_Laws
begin

text \<open>
  The receipts keep their type: whatever deliveries, listings, restarts and job operations follow each
  other, a receipt carries one of the outcomes and statuses of the ingress, is stored under its own id,
  and a delivery whose signature was refused is recorded as that and linked to no job.
\<close>

subsection \<open>Well-typed receipts\<close>

definition hook_outcomes :: "string list" where
  "hook_outcomes =
     [''queued'', ''ignored'', ''skipped'', ''error'', ''ping'', ''duplicate'', ''ok'', ''pending_tenant'', ''pending_claim'']"

definition receipt_ok :: "receipt \<Rightarrow> bool" where
  "receipt_ok r \<longleftrightarrow>
     hk_id r \<noteq> [] \<and> hk_outcome r \<in> set hook_outcomes \<and> hk_http r \<in> {200, 400, 401} \<and>
     hk_source r \<in> {''live'', ''backfill''} \<and>
     (\<not> hk_sig r \<longrightarrow> hk_outcome r = ''error'' \<and> hk_http r = 401 \<and> hk_job r = [])"

text \<open>
  A row is well typed when what the boot reads back of it is, or nothing at all; \<^const>\<open>wire_obj\<close> is the way
  of its values through JSON, where integers come back as floats.
\<close>

definition row_ok :: "jobj \<Rightarrow> bool" where
  "row_ok row \<longleftrightarrow>
     (\<forall>parse. let r = receipt_from_row parse (wire_obj row) in hk_id r = [] \<or> receipt_ok r)"

definition hooks_ok :: "hook_state \<Rightarrow> bool" where
  "hooks_ok w \<longleftrightarrow>
     (\<forall>(k, r) \<in> set (hs_live w). hk_id r = k \<and> receipt_ok r) \<and>
     (\<forall>k r. hs_files w k = Some r \<longrightarrow> receipt_ok r) \<and> (\<forall>row \<in> set (hs_rows w). row_ok row)"

lemma hooks_ok_live: "hooks_ok w \<Longrightarrow> r \<in> snd ` set (hs_live w) \<Longrightarrow> receipt_ok r"
  by (auto simp: hooks_ok_def)

lemma hooks_ok_file: "hooks_ok w \<Longrightarrow> load_receipt_file k w = Some r \<Longrightarrow> receipt_ok r"
  by (auto simp: hooks_ok_def load_receipt_file_def split: option.splits if_splits)

text \<open>Whatever leaves the three stores of receipts alone leaves them well typed.\<close>

lemma hooks_ok_cong:
  "hs_live v = hs_live w \<Longrightarrow> hs_files v = hs_files w \<Longrightarrow> hs_rows v = hs_rows w \<Longrightarrow> hooks_ok v = hooks_ok w"
  by (simp add: hooks_ok_def)

lemma hooks_ok_updates [simp]:
  "hooks_ok (w\<lparr>hs_jobs := a\<rparr>) = hooks_ok w" "hooks_ok (w\<lparr>hs_conns := b\<rparr>) = hooks_ok w"
  "hooks_ok (w\<lparr>hs_prefs := c\<rparr>) = hooks_ok w" "hooks_ok (w\<lparr>hs_issues := d\<rparr>) = hooks_ok w"
  "hooks_ok (w\<lparr>hs_started := e\<rparr>) = hooks_ok w" "hooks_ok (w\<lparr>hs_posts := f\<rparr>) = hooks_ok w"
  by (simp_all add: hooks_ok_def)

lemma set_update: "x \<in> set (AList.update k v al) \<Longrightarrow> x = (k, v) \<or> x \<in> set al"
  by (induction al) (auto split: if_splits)

lemma store_receipt_ok: "hooks_ok w \<Longrightarrow> receipt_ok r \<Longrightarrow> hooks_ok (store_receipt (hk_id r) r w)"
  unfolding hooks_ok_def store_receipt_def by (auto dest!: set_update)

text \<open>The inserted row reads back as the receipt, with its texts trimmed.\<close>

lemma row_columns:
  "receipt_from_row parse (wire_obj (receipt_row r)) =
     \<lparr>hk_id = trim_space (hk_id r), hk_at = trim_space (hk_at r), hk_delivery = trim_space (hk_delivery r),
      hk_event = trim_space (hk_event r), hk_action = trim_space (hk_action r), hk_repo = trim_space (hk_repo r),
      hk_pr = hk_pr r, hk_sha = trim_space (hk_sha r), hk_inst = trim_space (hk_inst r), hk_org = trim_space (hk_org r),
      hk_proj = trim_space (hk_proj r), hk_conn = trim_space (hk_conn r), hk_sig = hk_sig r,
      hk_outcome = trim_space (hk_outcome r), hk_job = trim_space (hk_job r), hk_stack = trim_space (hk_stack r),
      hk_error = trim_space (hk_error r), hk_honesty = trim_space (hk_honesty r), hk_http = hk_http r,
      hk_source = trim_space (nz (hk_source r) ''live'')\<rparr>"
  by (simp add: receipt_from_row_def receipt_row_def wire_obj_def jget_def to_string_def Let_def)

lemma outcomes_trimmed: "out \<in> set hook_outcomes \<Longrightarrow> trim_space out = out"
proof -
  have "list_all (\<lambda>x. trim_space x = x) hook_outcomes" by code_simp
  then show "out \<in> set hook_outcomes \<Longrightarrow> trim_space out = out" unfolding list_all_iff by blast
qed

lemma sources_trimmed:
  assumes "src \<in> {''live'', ''backfill''}"
  shows "trim_space (nz src ''live'') \<in> {''live'', ''backfill''}"
proof -
  have "trim_space (nz ''live'' ''live'') = ''live''" "trim_space (nz ''backfill'' ''live'') = ''backfill''" by code_simp+
  with assms show ?thesis by auto
qed

lemma written_row_ok: "receipt_ok r \<Longrightarrow> row_ok (receipt_row r)"
  using outcomes_trimmed sources_trimmed by (auto simp: row_ok_def row_columns receipt_ok_def Let_def)

lemma persist_ch_ok: "hooks_ok w \<Longrightarrow> receipt_ok r \<Longrightarrow> hooks_ok (persist_receipt_ch env r w)"
  by (auto simp: hooks_ok_def persist_receipt_ch_def written_row_ok)

lemma persist_file_ok: "hooks_ok w \<Longrightarrow> receipt_ok r \<Longrightarrow> hooks_ok (persist_receipt_file r w)"
  by (auto simp: hooks_ok_def persist_receipt_file_def)

lemma persist_receipt_ok: "hooks_ok w \<Longrightarrow> receipt_ok r \<Longrightarrow> hooks_ok (persist_receipt env r w)"
  by (simp add: persist_receipt_def store_receipt_ok persist_ch_ok persist_file_ok)

subsection \<open>Following the jobs\<close>

lemma terminal_outcome: "job_terminal_outcome jo = Some on \<Longrightarrow> fst on \<in> {''ok'', ''error'', ''skipped''}"
  by (auto simp: job_terminal_outcome_def Let_def split: option.splits if_splits)

lemma trim_error: "to_lower (trim_space ''error'') = ''error''"
  by code_simp

lemma reconciled_ok:
  assumes "receipt_ok r" "fst on \<in> {''ok'', ''error'', ''skipped''}" "trim_space (hk_job r) \<noteq> []"
  shows "receipt_ok (reconciled_receipt on r)"
proof -
  have "hk_job r \<noteq> []" using assms(3) by auto
  then have "hk_sig r" using assms(1) by (auto simp: receipt_ok_def)
  then show ?thesis using assms(1,2) by (auto simp: receipt_ok_def reconciled_receipt_def Let_def hook_outcomes_def)
qed

lemma reconcile_receipt_ok: "hooks_ok w \<Longrightarrow> receipt_ok r \<Longrightarrow> hooks_ok (snd (reconcile_receipt env r w))"
  by (auto simp: reconcile_receipt_def Let_def case_prod_beta split: option.split
      intro!: persist_receipt_ok [OF _ reconciled_ok [OF _ terminal_outcome]])

lemma fold_receipts_ok:
  assumes "\<And>r w. hooks_ok w \<Longrightarrow> receipt_ok r \<Longrightarrow> hooks_ok (g r w)" "\<forall>r \<in> set rs. receipt_ok r" "hooks_ok w"
  shows "hooks_ok (fold g rs w)"
  using assms(2,3) by (induction rs arbitrary: w) (auto simp: assms(1))

lemma reconcile_for_job_ok: "hooks_ok w \<Longrightarrow> hooks_ok (reconcile_for_job env j w)"
  using hooks_ok_live [of w]
  by (auto simp: reconcile_for_job_def intro!: fold_receipts_ok reconcile_receipt_ok)

lemma on_jobs_ok: "hooks_ok w \<Longrightarrow> hooks_ok (snd (on_jobs env f w))"
proof -
  assume w: "hooks_ok w"
  have "hooks_ok v \<Longrightarrow> hooks_ok (fold (reconcile_id env) ks v)" for ks v
    by (induction ks arbitrary: v) (auto simp: reconcile_id_def reconcile_for_job_ok split: option.split)
  then show ?thesis using w by (simp add: on_jobs_def case_prod_beta Let_def)
qed

lemma with_jobs_ok: "hooks_ok w \<Longrightarrow> hooks_ok (snd (with_jobs E f w))"
  by (simp add: with_jobs_def on_jobs_ok)

lemma on_conns_ok [simp]: "hooks_ok (snd (on_conns f w)) = hooks_ok w"
  by (simp add: on_conns_def case_prod_beta)

subsection \<open>Deliveries\<close>

text \<open>A receipt on its way: of a signed delivery, with an id and a source.\<close>

definition draft_ok :: "receipt \<Rightarrow> bool" where
  "draft_ok r \<longleftrightarrow> hk_id r \<noteq> [] \<and> hk_source r = ''live'' \<and> hk_sig r"

lemma draft_updates [simp]:
  "draft_ok (r\<lparr>hk_repo := a\<rparr>) = draft_ok r" "draft_ok (r\<lparr>hk_action := b\<rparr>) = draft_ok r"
  "draft_ok (r\<lparr>hk_pr := c\<rparr>) = draft_ok r" "draft_ok (r\<lparr>hk_sha := d\<rparr>) = draft_ok r"
  "draft_ok (r\<lparr>hk_inst := e\<rparr>) = draft_ok r" "draft_ok (r\<lparr>hk_org := f\<rparr>) = draft_ok r"
  "draft_ok (r\<lparr>hk_proj := g\<rparr>) = draft_ok r" "draft_ok (r\<lparr>hk_conn := h\<rparr>) = draft_ok r"
  "draft_ok (r\<lparr>hk_job := i\<rparr>) = draft_ok r" "draft_ok (r\<lparr>hk_stack := j\<rparr>) = draft_ok r"
  by (simp_all add: draft_ok_def)

lemma draft_steps [simp]:
  "draft_ok (apply_repo_meta repo pr sha inst action r) = draft_ok r" "draft_ok (queued_receipt job r) = draft_ok r"
  "draft_ok (with_stack job r) = draft_ok r" "draft_ok (with_tenant t s r) = draft_ok r"
  "draft_ok (duplicate_receipt prev r) = draft_ok r"
  by (simp_all add: apply_repo_meta_def queued_receipt_def with_stack_def with_tenant_def duplicate_receipt_def Let_def)

lemma new_receipt_draft: "draft_ok (new_receipt env did event True)"
  by (simp add: draft_ok_def new_receipt_def load_id_def)

lemma enrich_receipt_typed:
  "receipt_ok (fst (enrich_receipt cenv r w)) = receipt_ok r" "hooks_ok (snd (enrich_receipt cenv r w)) = hooks_ok w"
  by (auto simp: enrich_receipt_def receipt_ok_def Let_def case_prod_beta split: option.split)

lemma finish_receipt_ok:
  "hooks_ok w \<Longrightarrow> receipt_ok (finished r out hon st err) \<Longrightarrow> hooks_ok (snd (finish_receipt cenv env r out hon st err w))"
  by (simp add: finish_receipt_def case_prod_beta persist_receipt_ok enrich_receipt_typed)

lemma finished_ok:
  "draft_ok r \<Longrightarrow> out \<in> set hook_outcomes \<Longrightarrow> st \<in> {200, 400} \<Longrightarrow> receipt_ok (finished r out hon st err)"
  by (auto simp: draft_ok_def receipt_ok_def finished_def)

lemma finish_with_ok:
  "hooks_ok w \<Longrightarrow> draft_ok r \<Longrightarrow> out \<in> set hook_outcomes \<Longrightarrow> hooks_ok (snd (finish_with E r out hon rep w))"
  by (simp add: finish_with_def finish_receipt_ok finished_ok)

lemma finish_error_ok: "hooks_ok w \<Longrightarrow> draft_ok r \<Longrightarrow> hooks_ok (snd (finish_error E r hon 400 err w))"
  by (simp add: finish_error_def finish_receipt_ok finished_ok hook_outcomes_def)

lemma outcome_members [simp]:
  "''queued'' \<in> set hook_outcomes" "''ignored'' \<in> set hook_outcomes" "''skipped'' \<in> set hook_outcomes"
  "''ping'' \<in> set hook_outcomes" "''duplicate'' \<in> set hook_outcomes" "''ok'' \<in> set hook_outcomes"
  "tenant_outcome t \<in> set hook_outcomes"
  by (simp_all add: hook_outcomes_def tenant_outcome_def)

lemma publish_result_ok: "hooks_ok w \<Longrightarrow> hooks_ok (snd (publish_checker_result E c full m w))"
  by (auto simp: publish_checker_result_def Let_def split: option.split)

lemma publish_one_ok: "hooks_ok (snd acc) \<Longrightarrow> hooks_ok (snd (publish_one E c v d acc))"
  using publish_result_ok [of "snd acc" E c "ev_repo v" "checker_meta_of E v d"]
  by (auto simp: publish_one_def Let_def case_prod_beta with_jobs_ok split: option.split)

lemma publish_checkers_ok: "hooks_ok w \<Longrightarrow> hooks_ok (snd (publish_checkers E c v ds w))"
proof -
  assume w: "hooks_ok w"
  have "hooks_ok (snd acc) \<Longrightarrow> hooks_ok (snd (fold (publish_one E c v) ds acc))" for acc
    by (induction ds arbitrary: acc) (simp_all add: publish_one_ok)
  from this [of "([], w)"] show ?thesis using w by (simp add: publish_checkers_def case_prod_beta)
qed

lemma dispatch_ok: "hooks_ok w \<Longrightarrow> hooks_ok (snd (dispatch_checkers E co v checks raw w))"
proof -
  assume w: "hooks_ok w"
  have "hooks_ok (snd (evaluate_ora_review E u raw w))" for u
    by (auto simp: evaluate_ora_review_def case_prod_beta Let_def w with_jobs_ok split: option.split)
  then have "hooks_ok (snd (evaluate_native E v checks raw w))"
    using w by (simp add: evaluate_native_def Let_def case_prod_beta)
  then show ?thesis using w by (simp add: dispatch_checkers_def case_prod_beta publish_checkers_ok split: option.split)
qed

lemma watch_steps_ok [simp]:
  "hooks_ok (snd (watch_of_delivery E cid forced repo w)) = hooks_ok w"
  "hooks_ok (snd (directory_watch E cid forced inst pv repo w)) = hooks_ok w"
  "hooks_ok (snd (install_watch E forced inst repo w)) = hooks_ok w"
  by (auto simp: watch_of_delivery_def directory_watch_def directory_scope_def install_watch_def provision_watch_def
      case_prod_beta Let_def
      split: option.split)

lemma delivery_watch_ok [simp]:
  "hooks_ok (snd (pr_watch E cid forced inst repo w)) = hooks_ok w"
  "hooks_ok (snd (push_watch E cid forced inst repo w)) = hooks_ok w"
  by (auto simp: pr_watch_def push_watch_def case_prod_beta Let_def split: option.split)

lemma change_live_ok [simp]: "hooks_ok (snd (change_live k f w)) = hooks_ok w"
  by (simp add: change_live_def split: option.split)

lemma finish_pipeline_ok: "hooks_ok w \<Longrightarrow> hooks_ok (snd (finish_pipeline E r k t co raw event w))"
  by (auto simp: finish_pipeline_def Let_def case_prod_beta dispatch_ok with_jobs_ok split: option.split)

lemma queue_delivery_ok:
  "hooks_ok w \<Longrightarrow> draft_ok r \<Longrightarrow> hooks_ok (snd (queue_delivery E tnt r stack hon k t co raw event w))"
  by (auto simp: queue_delivery_def Let_def case_prod_beta finish_pipeline_ok finish_receipt_ok finished_ok split: option.split)

lemma peers_only_ok: "hooks_ok w \<Longrightarrow> draft_ok r \<Longrightarrow> hooks_ok (snd (peers_only E r hon t co raw event w))"
  by (simp add: peers_only_def case_prod_beta Let_def finish_with_ok dispatch_ok)

lemma enqueue_pr_ok: "hooks_ok w \<Longrightarrow> hooks_ok (snd (enqueue_pr_delivery E rq w))"
  by (simp add: enqueue_pr_delivery_def case_prod_beta with_jobs_ok)

lemma pr_admitted_ok: "hooks_ok w \<Longrightarrow> draft_ok r \<Longrightarrow> hooks_ok (snd (pr_admitted E p r t co raw w))"
  by (simp add: pr_admitted_def Let_def case_prod_beta finish_with_ok peers_only_ok queue_delivery_ok enqueue_pr_ok)

lemma push_admitted_ok: "hooks_ok w \<Longrightarrow> draft_ok r \<Longrightarrow> hooks_ok (snd (push_admitted E p r t co raw w))"
  by (simp add: push_admitted_def Let_def case_prod_beta finish_with_ok peers_only_ok queue_delivery_ok with_jobs_ok)

lemma handle_pr_ok: "hooks_ok w \<Longrightarrow> draft_ok r \<Longrightarrow> hooks_ok (snd (handle_pr_delivery E raw r cid forced w))"
  by (auto simp: handle_pr_delivery_def Let_def case_prod_beta finish_with_ok finish_error_ok pr_admitted_ok with_jobs_ok
      split: option.split sum.split)

lemma handle_push_ok: "hooks_ok w \<Longrightarrow> draft_ok r \<Longrightarrow> hooks_ok (snd (handle_push_delivery E raw r cid forced w))"
  by (auto simp: handle_push_delivery_def Let_def case_prod_beta finish_with_ok finish_error_ok push_admitted_ok
      split: option.split sum.split)

lemma handle_installation_ok:
  "hooks_ok w \<Longrightarrow> draft_ok r \<Longrightarrow> hooks_ok (snd (handle_installation_delivery E event raw r w))"
  by (auto simp: handle_installation_delivery_def Let_def case_prod_beta finish_with_ok split: option.split list.split)

lemma enqueue_issue_ok: "hooks_ok w \<Longrightarrow> hooks_ok (snd (enqueue_issue_run E t repo n title body labels event w))"
  by (simp add: enqueue_issue_run_def remember_issue_run_def Let_def case_prod_beta with_jobs_ok)

lemma maybe_issue_ok: "hooks_ok w \<Longrightarrow> hooks_ok (snd (maybe_enqueue_issue_run E repo n title body labels event w))"
  by (auto simp: maybe_enqueue_issue_run_def issue_in_flight_def Let_def case_prod_beta enqueue_issue_ok split: option.split)

lemma handle_issues_ok: "hooks_ok w \<Longrightarrow> draft_ok r \<Longrightarrow> hooks_ok (snd (handle_issues_delivery E raw r w))"
  by (auto simp: handle_issues_delivery_def Let_def case_prod_beta finish_with_ok finish_error_ok maybe_issue_ok
      split: option.split sum.split)

lemma handle_comment_ok: "hooks_ok w \<Longrightarrow> draft_ok r \<Longrightarrow> hooks_ok (snd (handle_issue_comment_delivery E raw r w))"
  by (simp add: handle_issue_comment_delivery_def case_prod_beta finish_with_ok)

lemmas handlers_ok =
  handle_pr_ok handle_push_ok handle_installation_ok handle_issues_ok handle_comment_ok finish_with_ok

lemma refused_ok:
  "hooks_ok w \<Longrightarrow> hooks_ok (snd (finish_error E ((new_receipt env did event False)\<lparr>hk_conn := cid\<rparr>) hon 401 err w))"
  "hooks_ok w \<Longrightarrow> hooks_ok (snd (finish_error E (new_receipt env did event False) hon 401 err w))"
  by (auto simp: finish_error_def new_receipt_def load_id_def finished_def receipt_ok_def hook_outcomes_def
      intro!: finish_receipt_ok)

lemma handle_event_ok: "hooks_ok w \<Longrightarrow> draft_ok r \<Longrightarrow> hooks_ok (snd (handle_event E event raw r cid forced w))"
  by (simp add: handle_event_def handlers_ok)

lemma after_signature_ok: "hooks_ok w \<Longrightarrow> hooks_ok (snd (after_signature E d raw cid forced ok w))"
  by (cases ok)
    (simp_all add: after_signature_def Let_def refused_ok handle_event_ok finish_with_ok new_receipt_draft split: option.split)

lemma ingress_ok: "hooks_ok w \<Longrightarrow> hooks_ok (snd (ingress E cid d w))"
proof -
  have "hooks_ok (snd (connector_signature E cid raw event sig v)) = hooks_ok v" for raw event sig v
    by (auto simp: connector_signature_def signing_watch_def case_prod_beta Let_def split: option.split)
  then show "hooks_ok w \<Longrightarrow> hooks_ok (snd (ingress E cid d w))"
    by (auto simp: ingress_def case_prod_beta Let_def after_signature_ok split: option.split)
qed

subsection \<open>All operations\<close>

lemma store_get_ok: "hooks_ok w \<Longrightarrow> hooks_ok (snd (get_receipt k w))"
  using hooks_ok_file [of w k]
  by (auto simp: get_receipt_def store_receipt_ok split: option.split)

lemma list_webhooks_ok:
  assumes "hooks_ok w"
  shows "hooks_ok (snd (list_webhooks tn env a connector limit w))"
proof -
  have f: "hooks_ok (snd acc) \<Longrightarrow> \<forall>r \<in> set rs. receipt_ok r \<Longrightarrow> hooks_ok (snd (fold (reconcile_listed env) rs acc))" for rs acc
    by (induction rs arbitrary: acc) (simp_all add: reconcile_listed_def reconcile_receipt_ok)
  show ?thesis
    using hooks_ok_live [OF assms] assms by (auto simp: list_webhooks_def Let_def case_prod_beta intro!: f)
qed

lemma webhook_detail_ok: "hooks_ok w \<Longrightarrow> hooks_ok (snd (webhook_detail tn a k w))"
  using store_get_ok [of w k] by (auto simp: webhook_detail_def Let_def case_prod_beta split: option.split)

lemma hydrate_files_ok: "hooks_ok (snd acc) \<Longrightarrow> hooks_ok (snd (hydrate_files env ks acc))"
proof (induction ks arbitrary: acc)
  case (Cons k ks)
  then show ?case
    using hooks_ok_file [of "snd acc" k]
    by (cases acc) (auto simp: persist_ch_ok store_receipt_ok split: option.split)
qed simp

lemma dedupe_ok: "hooks_ok w \<Longrightarrow> hooks_ok (snd (dedupe_backfills w))"
  by (auto simp: dedupe_backfills_def hooks_ok_def Let_def split: if_splits)

lemma backfill_receipt_ok: "receipt_ok (backfill_receipt env j)"
  using terminal_outcome [of "Some j"]
  by (auto simp: backfill_receipt_def receipt_ok_def backfill_id_def load_id_def hook_outcomes_def case_prod_beta Let_def
      split: option.split)

lemma backfill_one_ok: "hooks_ok (snd acc) \<Longrightarrow> hooks_ok (snd (backfill_one env j acc))"
  by (cases acc) (simp add: backfill_one_def persist_receipt_ok backfill_receipt_ok)

lemma backfill_ok: "hooks_ok w \<Longrightarrow> hooks_ok (snd (backfill_receipts env w))"
proof -
  have "hooks_ok (snd acc) \<Longrightarrow> hooks_ok (snd (fold (backfill_one env) js acc))" for js acc
    by (induction js arbitrary: acc) (simp_all add: backfill_one_ok)
  then show "hooks_ok w \<Longrightarrow> hooks_ok (snd (backfill_receipts env w))" by (simp add: backfill_receipts_def)
qed

lemma hydrate_rows_ok:
  "hooks_ok (snd acc) \<Longrightarrow> \<forall>row \<in> set rows. row_ok row \<Longrightarrow>
   hooks_ok (snd (hydrate_rows parse (map wire_obj rows) acc))"
proof (induction rows arbitrary: acc)
  case (Cons row rows)
  let ?r = "receipt_from_row parse (wire_obj row)"
  have "hk_id ?r \<noteq> [] \<Longrightarrow> hooks_ok (store_receipt (hk_id ?r) ?r (snd acc))"
    using Cons.prems by (intro store_receipt_ok) (auto simp: row_ok_def Let_def)
  then show ?case using Cons by (cases acc) (simp add: Let_def)
qed simp

lemma hydrate_on_boot_ok:
  assumes "hooks_ok w" "set rows \<subseteq> set (hs_rows w)"
  shows "hooks_ok (hydrate_on_boot env parse names (map wire_obj rows) (w\<lparr>hs_live := []\<rparr>))"
proof -
  have f: "hooks_ok (snd (hydrate_files env names (0, w\<lparr>hs_live := []\<rparr>)))"
    using assms(1) by (intro hydrate_files_ok) (simp add: hooks_ok_def)
  have "\<forall>row \<in> set rows. row_ok row" using assms by (auto simp: hooks_ok_def)
  from hydrate_rows_ok [OF _ this, of "(0, snd (hydrate_files env names (0, w\<lparr>hs_live := []\<rparr>)))"] f
  show ?thesis by (simp add: hydrate_on_boot_def case_prod_beta Let_def dedupe_ok backfill_ok)
qed

text \<open>
  What happens to the state: deliveries, listings, whatever the job store and the registry do of their
  own, and restarts.  A restart reads the files of any directory listing and any of the rows the
  service has inserted, in any order and number (the query takes the latest 2000, older versions of a
  row included).
\<close>

inductive hook_step :: "hook_state \<Rightarrow> hook_state \<Rightarrow> bool" where
  delivered: "hook_step w (snd (handle_webhook_route E path d w))"
| listed: "hook_step w (snd (list_webhooks tn env a connector limit w))"
| shown: "hook_step w (snd (webhook_detail tn a k w))"
| worked: "hook_step w (snd (on_jobs env (f :: scm_state \<Rightarrow> unit \<times> scm_state) w))"
| connected: "hook_step w (snd (on_conns (g :: conn_state \<Rightarrow> unit \<times> conn_state) w))"
| restarted: "set rows \<subseteq> set (hs_rows w) \<Longrightarrow>
    hook_step w (hydrate_on_boot env parse names (map wire_obj rows) (w\<lparr>hs_live := []\<rparr>))"

lemma hook_step_ok: "hook_step w v \<Longrightarrow> hooks_ok w \<Longrightarrow> hooks_ok v"
  by (induction rule: hook_step.induct)
    (simp_all add: handle_webhook_route_def ingress_ok list_webhooks_ok webhook_detail_ok on_jobs_ok hydrate_on_boot_ok)

lemma hook_steps_ok: "hook_step\<^sup>*\<^sup>* w v \<Longrightarrow> hooks_ok w \<Longrightarrow> hooks_ok v"
  by (induction rule: rtranclp_induct) (auto intro: hook_step_ok)

text \<open>
  C11: receipts stay well typed.  From a state without receipts on, whatever deliveries, listings,
  job operations, registry operations and restarts (from the files and from any ClickHouse rows the
  service inserted) follow each other, every receipt of the live map is stored under its own id and has
  one of the nine outcomes, a status of 200, 400 or 401 and a known source; and a delivery whose
  signature was refused stays recorded as an error with status 401 that is linked to no job, also after
  reconciliations.
\<close>

theorem receipts_well_typed:
  assumes "hook_step\<^sup>*\<^sup>* w v" "hs_live w = []" "hs_files w = Map.empty" "hs_rows w = []"
    and "live_receipt k v = Some r"
  shows "hk_id r = k \<and> receipt_ok r"
proof -
  have "hooks_ok v" using assms(1-4) by (intro hook_steps_ok [OF assms(1)]) (simp add: hooks_ok_def)
  then show ?thesis using map_of_SomeD [OF assms(5) [unfolded live_receipt_def]] by (auto simp: hooks_ok_def)
qed

theorem receipts_well_typed_witness:
  "\<exists>k r. live_receipt k (snd (handle_webhook_route demo_hooks ''/v1/scm/github/webhook/'' (demo_delivery ''bad'') demo_state)) = Some r \<and>
     hk_id r = k \<and> receipt_ok r"
proof -
  let ?v = "snd (handle_webhook_route demo_hooks ''/v1/scm/github/webhook/'' (demo_delivery ''bad'') demo_state)"
  have "live_receipt ''scmwh-abc'' ?v \<noteq> None" by code_simp
  then obtain r where r: "live_receipt ''scmwh-abc'' ?v = Some r" by auto
  have "hook_step\<^sup>*\<^sup>* demo_state ?v" by (intro r_into_rtranclp delivered)
  from receipts_well_typed [OF this _ _ _ r] have "hk_id r = ''scmwh-abc'' \<and> receipt_ok r" by (simp add: demo_state_def)
  then show ?thesis using r by blast
qed

end
