(* ===== verification/Hook_Cases.thy ===== *)
theory Hook_Cases
  imports Hook_Typing
begin

text \<open>
  Two cases worked out: a redelivery after a refused signature, and the tenant of the children of a
  run.
\<close>

definition later_hooks :: hook_env where
  "later_hooks = demo_hooks\<lparr>he_orch := demo_orch\<lparr>e_sha1hex := (\<lambda>_. ''abd'')\<rparr>\<rparr>"

text \<open>
  The receipt of a delivery with a refused signature keeps the delivery id, and the duplicate check
  asks only for the id: the same delivery sent again, now signed, is answered as a duplicate and
  never worked on.
\<close>

lemma refused_id_blocks_redelivery:
  "fst (ingress later_hooks [] (demo_delivery ''sha256=6b7b7d'')
      (snd (ingress demo_hooks [] (demo_delivery ''bad'') demo_state))) = HDuplicate ''scmwh-abc''"
  by code_simp

text \<open>
  A queued job is stamped with its tenant after its children were planned, and only the job itself is:
  the children keep the organization and project the run had before.
\<close>

lemma stamp_reaches_run_only:
  "c \<noteq> k \<Longrightarrow> live_job c (hs_jobs (snd (change_live k (stamp_job_tenant t) w))) = live_job c (hs_jobs w)"
  by (simp add: change_live_def store_live_def live_job_def update_conv' split: option.split)

end
