(* ===== verification/Manual_Review.thy ===== *)
theory Manual_Review
  imports Hook_Ingress
begin

text \<open>
  Reviews on request (\<^verbatim>\<open>enqueueManualAIReview\<close> of \<^verbatim>\<open>src/scm_orchestrator.go\<close> and its handlers): the watch and
  the connector of the repository, the pull request as GitHub shows it, and the run that is queued.
\<close>

record gh_pull =
  gp_title :: string
  gp_body :: string
  gp_draft :: bool
  gp_sha :: string
  gp_head :: string
  gp_base :: string
  gp_merged :: bool
  gp_merged_at :: string

record manual_request =
  mq_repo :: string
  mq_pr :: int
  mq_conn :: string
  mq_sha :: string
  mq_title :: string
  mq_draft :: bool
  mq_force :: bool
  mq_ai_only :: bool
  mq_unwatched :: bool
  mq_actor :: string

text \<open>\<open>pull\<close> stands for \<^verbatim>\<open>githubGetPull\<close>, \<^const>\<open>None\<close> an error.\<close>

type_synonym pull_of = "app_conn \<Rightarrow> string \<Rightarrow> string \<Rightarrow> int \<Rightarrow> gh_pull option"

subsection \<open>Watch and connector\<close>

definition manual_conn :: "hook_env \<Rightarrow> string \<Rightarrow> app_conn option \<Rightarrow> hook_state \<Rightarrow> app_conn option \<times> hook_state" where
  "manual_conn E cid found w =
     (if cid = [] then (found, w)
      else
        let (co, w) = on_conns (get_or_hydrate (he_conn E) cid) w
        in (case co of None \<Rightarrow> found | Some c \<Rightarrow> (if cn_status c \<noteq> ''deleted'' then Some c else found), w))"

text \<open>The watch of the repository, of the connector, or a new one with the default checks.\<close>

definition manual_watch ::
  "hook_env \<Rightarrow> manual_request \<Rightarrow> hook_state \<Rightarrow> (string \<times> nat + watched \<times> app_conn) \<times> hook_state" where
  "manual_watch E rq w =
     (let ((wo, co), w) = on_conns (find_watched (he_conn E) (mq_repo rq)) w;
          (co, w) = manual_conn E (mq_conn rq) co w;
          wo = (case (wo, co) of
                  (None, Some c) \<Rightarrow> live_watch (watch_key (cn_id c) (mq_repo rq)) (hs_conns w)
                | _ \<Rightarrow> wo)
      in case wo of
           Some t \<Rightarrow>
             (let (co, w) = (case co of None \<Rightarrow> on_conns (get_or_hydrate (he_conn E) (wt_conn t)) w | Some c \<Rightarrow> (Some c, w))
              in (case co of None \<Rightarrow> Inl (''connector not found '' @ em_dash @ '' hydrate failed'', 404) | Some c \<Rightarrow> Inr (t, c), w))
         | None \<Rightarrow>
             (case co of
                None \<Rightarrow>
                  (Inl (if mq_unwatched rq then (''connector_id required for unwatched one-off'', 400)
                        else (''repo not watched and no connector_id '' @ em_dash @
                              '' watch the repo or pass connector_id with allow_unwatched'', 404)), w)
              | Some c \<Rightarrow>
                  (let (t, w) = on_conns (upsert_watched (he_conn E) (cn_org c) (cn_proj c) (cn_id c) (mq_repo rq) [] True
                                   (default_watched_checks (he_getenv E)) ''auto'' ''high'' False False 0) w
                   in (Inr (t, c), w))))"

subsection \<open>The run\<close>

definition manual_sha :: "hook_env \<Rightarrow> gh_pull option \<Rightarrow> manual_request \<Rightarrow> string" where
  "manual_sha E po rq =
     (let sha = (case po of Some p \<Rightarrow> or_else (mq_sha rq) (gp_sha p) | None \<Rightarrow> mq_sha rq)
      in if sha = [] then ''manual-'' @ e_hex (he_orch E) else sha)"

definition manual_title :: "gh_pull option \<Rightarrow> manual_request \<Rightarrow> string" where
  "manual_title po rq =
     or_else (case po of Some p \<Rightarrow> or_else (mq_title rq) (gp_title p) | None \<Rightarrow> mq_title rq)
       (''Manual OPA Review PR #'' @ show_int (mq_pr rq))"

definition as_manual :: "manual_request \<Rightarrow> scm_job \<Rightarrow> scm_job" where
  "as_manual rq j = j\<lparr>j_force_ai := mq_force rq, j_ai_only := mq_ai_only rq, j_actor := trim_space (mq_actor rq)\<rparr>"

definition change_and_persist :: "orch_env \<Rightarrow> (scm_job \<Rightarrow> scm_job) \<Rightarrow> string \<Rightarrow> scm_state \<Rightarrow> scm_state" where
  "change_and_persist env f k s =
     (case live_job k s of None \<Rightarrow> s | Some j \<Rightarrow> persist_scm_job env (f j) s)"

text \<open>The flags of the request go to the run and to each of its children.\<close>

definition mark_manual :: "manual_request \<Rightarrow> string \<Rightarrow> orch_env \<Rightarrow> scm_state \<Rightarrow> unit \<times> scm_state" where
  "mark_manual rq k env s =
     (let s = change_and_persist env (as_manual rq) k s;
          (ids, s) = list_run_children k s
      in ((), fold (change_and_persist env (as_manual rq)) ids s))"

definition manual_queue ::
  "hook_env \<Rightarrow> gh_pull option \<Rightarrow> manual_request \<Rightarrow> watched \<Rightarrow> app_conn \<Rightarrow> hook_state \<Rightarrow> string \<times> hook_state" where
  "manual_queue E po rq t c w =
     (let draft = (case po of Some p \<Rightarrow> gp_draft p | None \<Rightarrow> mq_draft rq);
          body = (case po of Some p \<Rightarrow> gp_body p | None \<Rightarrow> []);
          event = (if mq_ai_only rq then ''manual.ai_only'' else ''manual.ai_review'');
          dr = delivery_request t (Some c) (mq_repo rq) (mq_pr rq) (manual_sha E po rq) event draft (manual_title po rq) body;
          (k, w) = enqueue_pr_delivery E dr w
      in (k, snd (with_jobs E (mark_manual rq k) w)))"

text \<open>\<^verbatim>\<open>enqueueManualAIReview\<close>: the refusal with its status, or the id of the run.\<close>

definition enqueue_manual_review ::
  "hook_env \<Rightarrow> pull_of \<Rightarrow> manual_request \<Rightarrow> hook_state \<Rightarrow> (string \<times> nat + string) \<times> hook_state" where
  "enqueue_manual_review E pull rq w =
     (let (res, w) = manual_watch E rq w
      in case res of
           Inl e \<Rightarrow> (Inl e, w)
         | Inr (t, c) \<Rightarrow>
             (let (owner, name) = split_owner_repo (mq_repo rq); po = pull c owner name (mq_pr rq)
              in if (case po of None \<Rightarrow> False | Some p \<Rightarrow> scm_pr_is_merged (gp_merged p) (gp_merged_at p)) then
                   (Inl (''pull request is already merged '' @ em_dash @ '' review skipped'', 409), w)
                 else
                   let (prior, w) = (if mq_force rq then (None, w)
                         else with_jobs E (\<lambda>env. lookup_successful_ai_review env (mq_repo rq) (manual_sha E po rq) []) w)
                   in case prior of
                        Some k \<Rightarrow>
                          (Inl (''commit already reviewed successfully '' @ em_dash @ '' review skipped (prior job '' @ k @ '')'', 409), w)
                      | None \<Rightarrow> (let (k, w) = manual_queue E po rq t c w in (Inr k, w))))"

subsection \<open>Handlers\<close>

record review_body =
  rb_repo :: string
  rb_repo_alias :: string
  rb_pr :: int
  rb_pr_alias :: int
  rb_conn :: string
  rb_force :: "bool option"
  rb_ai_only :: "bool option"
  rb_sha :: string
  rb_unwatched :: bool
  rb_title :: string
  rb_draft :: bool

datatype api_reply =
    AError nat string
  | AQueued string string
  | AJob scm_job
  | AArtifact string
  | AFix string string nat
  | AJobs "scm_job list" nat

definition start_job :: "string \<Rightarrow> hook_state \<Rightarrow> hook_state" where
  "start_job k w = w\<lparr>hs_started := hs_started w @ [k]\<rparr>"

definition queue_manual ::
  "hook_env \<Rightarrow> pull_of \<Rightarrow> manual_request \<Rightarrow> hook_state \<Rightarrow> api_reply \<times> hook_state" where
  "queue_manual E pull rq w =
     (let (res, w) = enqueue_manual_review E pull rq w
      in case res of
           Inl (msg, code) \<Rightarrow> (AError code msg, w)
         | Inr k \<Rightarrow> (AQueued k ''queued'', start_job k w))"

text \<open>
  \<^verbatim>\<open>handleSCMAIReview\<close>: \<open>project\<close> is the answer of \<^verbatim>\<open>requireEnabledOAMProject\<close>, \<open>body\<close> the decoded body.
\<close>

definition handle_ai_review ::
  "hook_env \<Rightarrow> pull_of \<Rightarrow> (nat \<times> string) option \<Rightarrow> review_body option \<Rightarrow> cred_actor \<Rightarrow> hook_state \<Rightarrow> api_reply \<times> hook_state" where
  "handle_ai_review E pull project body a w =
     (case project of
        Some (code, msg) \<Rightarrow> (AError code msg, w)
      | None \<Rightarrow>
          (case body of
             None \<Rightarrow> (AError 400 ''bad json'', w)
           | Some b \<Rightarrow>
               (let repo = trim_space (nz (rb_repo b) (rb_repo_alias b));
                    pr = (if rb_pr b = 0 then rb_pr_alias b else rb_pr b)
                in if repo = [] \<or> pr \<le> 0 then (AError 400 ''repo_full_name and pr_number required'', w)
                   else queue_manual E pull
                     \<lparr>mq_repo = repo, mq_pr = pr, mq_conn = rb_conn b, mq_sha = rb_sha b, mq_title = rb_title b,
                      mq_draft = rb_draft b, mq_force = (case rb_force b of None \<Rightarrow> True | Some x \<Rightarrow> x),
                      mq_ai_only = (rb_ai_only b = Some True), mq_unwatched = rb_unwatched b, mq_actor = ac_user a\<rparr> w)))"

text \<open>\<^verbatim>\<open>handleSCMAIReviewFromJob\<close>.\<close>

definition handle_ai_review_from_job ::
  "hook_env \<Rightarrow> pull_of \<Rightarrow> bool option \<times> bool option \<Rightarrow> cred_actor \<Rightarrow> scm_job \<Rightarrow> hook_state \<Rightarrow> api_reply \<times> hook_state" where
  "handle_ai_review_from_job E pull body a j w =
     queue_manual E pull
       \<lparr>mq_repo = j_repo j, mq_pr = j_pr j, mq_conn = j_conn j, mq_sha = j_sha j, mq_title = j_title j, mq_draft = j_draft j,
        mq_force = (case fst body of None \<Rightarrow> True | Some x \<Rightarrow> x),
        mq_ai_only = (case snd body of None \<Rightarrow> True | Some x \<Rightarrow> x), mq_unwatched = True, mq_actor = ac_user a\<rparr> w"

end
