(* ===== verification/Autofix_Run.thy ===== *)
theory Autofix_Run
  imports Manual_Review Cloud_Run
begin

text \<open>
  Auto-fix on request (\<^verbatim>\<open>src/scm_auto_fix.go\<close>): the findings of a job, the queueing of a fix for some
  of them, and the run of a fix: patch, gate, capture, landing on a clean tree, push and pull request.

  As for the cloud agent, what git, the coding agent and GitHub answer is a record, and what reaches
  the outside is a list of events in order.
\<close>

definition rarrow :: string where "rarrow = [CHR 0xE2, CHR 0x86, CHR 0x92]"

subsection \<open>Findings\<close>

definition auto_fix_concurrency :: "genv \<Rightarrow> int" where
  "auto_fix_concurrency getenv =
     (let n = atoi_default (env_or getenv ''OPA_AUTO_FIX_CONCURRENCY'' ''1'') 1; n = (if n < 1 then 1 else n)
      in if 4 < n then 4 else n)"

text \<open>
  \<^verbatim>\<open>scmJobFindings\<close>: the findings of the review in the summary, each stamped with its key.  \<open>decode\<close>
  turns a review that is stored as a typed value into an object.
\<close>

definition review_object :: "(jv \<Rightarrow> jobj) \<Rightarrow> scm_job \<Rightarrow> jobj" where
  "review_object decode j =
     (case sget j ''ai'' of JObj m \<Rightarrow> m | JNull \<Rightarrow> [] | v \<Rightarrow> decode v)"

definition scm_job_findings :: "(string \<Rightarrow> string) \<Rightarrow> (jv \<Rightarrow> jobj) \<Rightarrow> scm_job \<Rightarrow> jobj list" where
  "scm_job_findings sha1hex decode j =
     (case jget (review_object decode j) ''findings'' of
        JArr vs \<Rightarrow>
          map (\<lambda>v. let f = (case v of JObj m \<Rightarrow> m | u \<Rightarrow> decode u)
                   in AList.update ''finding_key'' (JStr (opa_review_finding_key sha1hex f)) f) vs
      | _ \<Rightarrow> [])"

definition key_of_finding :: "(string \<Rightarrow> string) \<Rightarrow> jobj \<Rightarrow> string" where
  "key_of_finding sha1hex f =
     (let k = str_from_any (jget f ''finding_key'') in if k = [] then opa_review_finding_key sha1hex f else k)"

definition filter_findings_by_keys :: "(string \<Rightarrow> string) \<Rightarrow> jobj list \<Rightarrow> string list \<Rightarrow> jobj list" where
  "filter_findings_by_keys sha1hex fs keys =
     (let want = filter (\<lambda>k. k \<noteq> []) (map (\<lambda>k. trim_space (to_lower k)) keys)
      in filter (\<lambda>f. to_lower (key_of_finding sha1hex f) \<in> set want) fs)"

text \<open>The entries of the ledger under the requested keys, in the shape of findings.\<close>

definition findings_from_ledger :: "agent_finding list \<Rightarrow> string list \<Rightarrow> jobj list" where
  "findings_from_ledger ledger keys =
     map (\<lambda>f. [(''finding_key'', JStr (af_key f)), (''severity'', JStr (af_severity f)), (''file'', JStr (af_file f)),
               (''line'', JInt (af_line f)), (''message'', JStr (af_message f)), (''problem'', JStr (af_message f))])
       (filter (\<lambda>f. list_ex (\<lambda>k. equal_fold (trim_space (af_key f)) (trim_space k)) keys) ledger)"

subsection \<open>Requests\<close>

text \<open>
  What a request reads besides the state: the decoders of summaries, the findings of a security run,
  the review without findings, the coverage of a connector, the clock of the rate limit, and fresh
  digits for the id.
\<close>

record fix_env =
  fe_now :: int
  fe_covers :: "connector option \<Rightarrow> string \<Rightarrow> bool"
  fe_object :: "jv \<Rightarrow> jobj"
  fe_ledger :: "jv \<Rightarrow> agent_finding list option"
  fe_review :: "jv \<Rightarrow> ai_review_result"
  fe_security :: "string \<Rightarrow> string \<Rightarrow> agent_finding list"
  fe_no_review :: ai_review_result

definition ledger_from_parent :: "hook_env \<Rightarrow> fix_env \<Rightarrow> scm_job \<Rightarrow> scm_state \<Rightarrow> agent_finding list" where
  "ledger_from_parent E F j s =
     (case fe_ledger F (sget j ''ledger'') of
        Some (x # xs) \<Rightarrow> x # xs
      | _ \<Rightarrow>
          (let run = (if j_run_id j = [] \<and> job_kind j = KRun then j_id j else j_run_id j)
           in if run \<noteq> [] then
                ledger_for_cloud_job (e_sha1hex (he_orch E)) (fe_ledger F) (fe_review F) (fe_security F) (fe_no_review F)
                  (j\<lparr>j_run_id := run\<rparr>) s
              else build_ledger (e_sha1hex (he_orch E))
                     (if sget j ''ai'' = JNull then fe_no_review F else fe_review F (sget j ''ai'')) []))"

text \<open>Why a request is refused.\<close>

datatype fix_refusal = NoKeysGiven | Unauthorised autofix_error | NoMatch

definition fix_mode :: "agent_prefs \<Rightarrow> string" where
  "fix_mode p =
     (let m = to_lower (trim_space (autofix_mode p)) in if m = ''suggest'' \<or> m = ''branch'' then m else ''branch'')"

definition fix_record ::
  "hook_env \<Rightarrow> scm_job \<Rightarrow> string \<Rightarrow> string list \<Rightarrow> jobj list \<Rightarrow> bool \<Rightarrow> bool \<Rightarrow> auto_fix" where
  "fix_record E parent mode keys fs create direct =
     \<lparr>fx_id = ''autofix-'' @ e_hex (he_orch E), fx_parent = j_id parent, fx_status = ''queued'', fx_mode = mode,
      fx_create_pr = (create \<and> mode \<noteq> ''suggest''), fx_commit_direct = (direct \<and> mode \<noteq> ''suggest''),
      fx_keys = keys, fx_findings = fs, fx_branch = [], fx_sha = [], fx_pr = 0, fx_pr_url = [], fx_error = [],
      fx_honesty = (if mode = ''suggest''
                    then ''queued '' @ em_dash @ '' Auto-fix patch '' @ rarrow @ '' gateCloudDiff '' @ rarrow @ '' suggest (no land)''
                    else ''queued '' @ em_dash @ '' Auto-fix patch '' @ rarrow @ '' gateCloudDiff '' @ rarrow @ '' land (no babysit)''),
      fx_started = e_now (he_orch E), fx_finished = [], fx_repo = j_repo parent, fx_base_pr = j_pr parent\<rparr>"

text \<open>\<^verbatim>\<open>enqueueOPAAutoFix\<close>: the fix is stored and shown on its job.\<close>

definition store_fix :: "auto_fix \<Rightarrow> hook_state \<Rightarrow> hook_state" where
  "store_fix f w =
     (let s = hs_jobs w in w\<lparr>hs_jobs := s\<lparr>sc_autofix := AList.update (fx_id f) f (sc_autofix s)\<rparr>\<rparr>)"

definition enqueue_auto_fix ::
  "hook_env \<Rightarrow> fix_env \<Rightarrow> scm_job \<Rightarrow> string list \<Rightarrow> bool \<Rightarrow> bool \<Rightarrow> hook_state \<times> rate_window
     \<Rightarrow> (fix_refusal + auto_fix) \<times> hook_state \<times> rate_window" where
  "enqueue_auto_fix E F parent keys create direct st =
     (case st of (w, rates) \<Rightarrow>
        if keys = [] then (Inl NoKeysGiven, w, rates)
        else
          let (co, w) = on_conns (get_or_hydrate (he_conn E) (j_conn parent)) w;
              (acc, ps) = resolve_agent_prefs (he_prefs E) (hs_prefs w) (j_org parent) (j_proj parent) (j_conn parent) (j_repo parent);
              w = w\<lparr>hs_prefs := ps\<rparr>; p = fst acc;
              ledger = ledger_from_parent E F parent (hs_jobs w);
              (auth, rates) = authorize_autofix_request (he_getenv E) (fe_now F) (map_option connector.truncate co)
                                (fe_covers F) p (j_repo parent) ledger keys rates
          in case auth of
               Inl e \<Rightarrow> (Inl (Unauthorised e), w, rates)
             | Inr _ \<Rightarrow>
                 (let sha1 = e_sha1hex (he_orch E);
                      fs = filter_findings_by_keys sha1 (scm_job_findings sha1 (fe_object F) parent) keys;
                      fs = (if fs = [] then findings_from_ledger ledger keys else fs)
                  in if fs = [] then (Inl NoMatch, w, rates)
                     else
                       let f = fix_record E parent (fix_mode p) (map (key_of_finding sha1) fs) fs create direct;
                           w = store_fix f w;
                           (_, w) = with_jobs E (\<lambda>env s. ((), persist_auto_fix_on_parent env parent f s)) w
                       in (Inr f, w, rates)))"

subsection \<open>The run of a fix\<close>

text \<open>
  The answers of one run: those of an attempt of the cloud agent, the head commit of the pull request,
  and the head of the landing tree.
\<close>

record fix_answers = attempt_env +
  fa_head_sha :: string
  fa_rev :: string

text \<open>The fix, its error, what went out, and whether follow-up reviews are wanted.\<close>

record fix_result =
  fr_fix :: auto_fix
  fr_err :: "string option"
  fr_events :: "cloud_event list"
  fr_host_exec :: bool
  fr_follow :: bool

definition fix_done :: "auto_fix \<Rightarrow> string option \<Rightarrow> fix_result" where
  "fix_done f err = \<lparr>fr_fix = f, fr_err = err, fr_events = [], fr_host_exec = False, fr_follow = False\<rparr>"

definition fix_failed :: "string \<Rightarrow> string \<Rightarrow> auto_fix \<Rightarrow> fix_result" where
  "fix_failed label err f = fix_done (f\<lparr>fx_status := ''failed'', fx_error := label @ err\<rparr>) (Some err)"

definition fix_refused :: "string \<Rightarrow> string \<Rightarrow> string \<Rightarrow> auto_fix \<Rightarrow> fix_result" where
  "fix_refused label err honesty f = fix_failed label err (f\<lparr>fx_honesty := honesty\<rparr>)"

definition add_honesty :: "string \<Rightarrow> auto_fix \<Rightarrow> auto_fix" where
  "add_honesty t f = f\<lparr>fx_honesty := fx_honesty f @ t\<rparr>"

definition completed_unless_skipped :: "auto_fix \<Rightarrow> auto_fix" where
  "completed_unless_skipped f = (if fx_status f \<noteq> ''skipped'' then f\<lparr>fx_status := ''completed''\<rparr> else f)"

definition with_events :: "cloud_event list \<Rightarrow> bool \<Rightarrow> fix_result \<Rightarrow> fix_result" where
  "with_events evs host r = r\<lparr>fr_events := evs @ fr_events r, fr_host_exec := host \<or> fr_host_exec r\<rparr>"

definition fix_note_text :: "jobj list \<Rightarrow> string" where
  "fix_note_text fs =
     ''# OPA Review Auto-fix (smoke)'' @ nl @ nl @
     ''AI agent skipped or mock GitHub '' @ em_dash @ '' no code patch applied.'' @ nl @ nl @
     concat (map (\<lambda>f. ''- `'' @ str_from_any (jget f ''finding_key'') @ ''` '' @
       truncate_str (str_from_any (jget f ''message'') @ str_from_any (jget f ''problem'')) 120 @ nl) fs)"

text \<open>The patch: a note when no agent runs, else the agent in its own tree, copied back.\<close>

definition fix_patch ::
  "genv \<Rightarrow> bool \<Rightarrow> bool \<Rightarrow> fix_answers \<Rightarrow> auto_fix \<Rightarrow> fix_result + auto_fix \<times> cloud_event list \<times> bool" where
  "fix_patch getenv mock skipped A f =
     (if skipped \<or> mock then
        (let f = f\<lparr>fx_honesty := ''AI skipped or mock '' @ em_dash @
                     '' recorded finding list only; create_pr still exercised when credentials allow''\<rparr>;
             f = (if skipped then f\<lparr>fx_status := ''skipped''\<rparr> else f)
         in Inr (f, [CeNote (fix_note_text (fx_findings f))], False))
      else
        case at_tree A of
          Inl merr \<Rightarrow>
            (if trim_space (getenv ''OPA_JOB_ALLOW_HOST_EXEC'') \<noteq> ''1''
             then Inl (fix_refused ''sandbox materialize: '' merr
                    ''Auto-fix refused: no-.git sandbox required (set OPA_JOB_ALLOW_HOST_EXEC=1 to fall back)'' f)
             else case at_agent A (fx_findings f) of
               Some err \<Rightarrow> Inl (with_events [] True (fix_refused ''agent: '' err ''Auto-fix agent failed'' f))
             | None \<Rightarrow> Inr (f\<lparr>fx_honesty := ''Auto-fix agent completed''\<rparr>, [], True))
        | Inr _ \<Rightarrow>
            (case (if at_own_tree A then at_tracked A else None) of
               Some err \<Rightarrow> Inl (fix_refused ''pre-sync ls-files: '' err
                            ''Auto-fix refused: primary git tree unreadable before agent'' f)
             | None \<Rightarrow>
                 (case at_agent A (fx_findings f) of
                    Some err \<Rightarrow> Inl (fix_refused ''agent: '' err ''Auto-fix agent failed'' f)
                  | None \<Rightarrow>
                      (case (if at_own_tree A then at_sync A else None) of
                         Some err \<Rightarrow> Inl (fix_refused ''sync: '' err ''Auto-fix sandbox sync failed'' f)
                       | None \<Rightarrow> Inr (f\<lparr>fx_honesty := ''Auto-fix agent completed''\<rparr>, [], False)))))"

text \<open>\<^verbatim>\<open>autofixFindingAllowlist\<close>.\<close>

definition fix_allowlist :: "jobj list \<Rightarrow> string list" where
  "fix_allowlist fs =
     fold (\<lambda>f out. let p = trim_space (str_from_any (jget f ''file''))
                   in if p = [] \<or> p \<in> set out then out else out @ [p]) fs []"

text \<open>The gate and the capture: the patch that passed.\<close>

definition fix_gate :: "genv \<Rightarrow> bool \<Rightarrow> fix_answers \<Rightarrow> auto_fix \<Rightarrow> fix_result + string" where
  "fix_gate getenv relaxed A f =
     (case at_diff A of
        Inl err \<Rightarrow> Inl (fix_failed ''diff: '' err f)
      | Inr diff \<Rightarrow>
          (let allow = (if relaxed then [] else fix_allowlist (fx_findings f))
           in if \<not> relaxed \<and> allow = [] then
                Inl (fix_refused [] ''gateCloudDiff denied: empty finding allowlist'' ''gateCloudDiff denied'' f)
              else case gate_cloud_diff getenv (parse_cloud_diff_changes diff) allow (default_cloud_diff_caps getenv) of
                Some e \<Rightarrow> Inl (fix_refused [] (gate_error_text e) ''gateCloudDiff denied'' f)
              | None \<Rightarrow>
                  (case at_capture A of
                     Inl err \<Rightarrow> Inl (fix_failed ''capture patch: '' err f)
                   | Inr patch \<Rightarrow>
                       (if trim_space patch = []
                        then Inl (fix_done (completed_unless_skipped (add_honesty ''; no file changes after patch'' f)) None)
                        else Inr patch))))"

definition autofix_should_land :: "string \<Rightarrow> bool" where
  "autofix_should_land mode \<longleftrightarrow> to_lower (trim_space mode) = ''branch''"

subsection \<open>Landing a fix\<close>

definition fix_pr_title :: "auto_fix \<Rightarrow> string" where
  "fix_pr_title f =
     (let plain = ''OPA Review fix: '' @ show_nat (length (fx_findings f)) @ '' finding(s)''
      in case fx_findings f of
           [x] \<Rightarrow> (let msg = first_non_empty [str_from_any (jget x ''problem''), str_from_any (jget x ''message'')]
                   in if msg \<noteq> [] then ''OPA Review fix: '' @ truncate_str msg 72 else plain)
         | _ \<Rightarrow> plain)"

definition fix_pr_line :: "jobj \<Rightarrow> string" where
  "fix_pr_line x =
     (let sev = str_from_any (jget x ''severity'');
          msg = first_non_empty [str_from_any (jget x ''problem''), str_from_any (jget x ''message'')]
      in ''- '' @ severity_emoji sev @ '' **'' @ sev @ ''** `'' @ str_from_any (jget x ''file'') @ ''`'' @
         (if jget x ''line'' \<noteq> JNull then '':'' @ sprint (jget x ''line'') else []) @
         '' '' @ em_dash @ '' '' @ truncate_str msg 160 @ nl)"

definition fix_pr_body :: "scm_job \<Rightarrow> auto_fix \<Rightarrow> string" where
  "fix_pr_body parent f =
     ''## OPA Review Auto-fix'' @ nl @ nl @
     ''Automated fix for findings from SCM job `'' @ j_id parent @ ''`'' @
     (if 0 < j_pr parent then '' (original PR #'' @ show_int (j_pr parent) @ '')'' else []) @ ''.'' @ nl @ nl @
     ''### Findings addressed'' @ nl @ concat (map fix_pr_line (fx_findings f)) @
     nl @ ''_Minimal patches only '' @ em_dash @ '' no drive-by refactors._'' @ nl @
     nl @ ''Diff was gated by `gateCloudDiff` and applied to a **clean tree** before land. '' @
     ''Follow-up OPA Review refreshes **auto_merge_confidence** and **APPROVE**s when clean (no babysit agent).'' @ nl"

text \<open>The pull request: one try on the head branch, one on the base; then the findings are closed.\<close>

definition open_fix_pr :: "scm_job \<Rightarrow> fix_answers \<Rightarrow> bool \<Rightarrow> string \<Rightarrow> auto_fix \<Rightarrow> fix_result" where
  "open_fix_pr parent A skipped branch f =
     (let (base, head) = (case at_pull A of Some (b, h) \<Rightarrow> (if b \<noteq> [] then b else ''main'', h) | None \<Rightarrow> (''main'', []));
          head = (if head = [] then base else head);
          first = (if head = branch then base else head);
          (created, used) = (case at_create A first of
             Inr r \<Rightarrow> (Inr r, first) | Inl _ \<Rightarrow> (at_create_again A base, base))
      in case created of
           Inl err \<Rightarrow> fix_failed ''create PR: '' err (add_honesty ''; branch pushed but PR create failed'' f)
         | Inr (n, url) \<Rightarrow>
             (let f = f\<lparr>fx_pr := n, fx_pr_url := url\<rparr>;
                  closes = 0 < j_pr parent;
                  f = (if closes \<and> 0 < at_closed A
                       then add_honesty (''; closed '' @ show_int (at_closed A) @ '' finding comment(s) on PR #'' @ show_int (j_pr parent)) f
                       else f)
              in (fix_done f None)\<lparr>
                   fr_events := [CePull (fix_pr_title f) used (fix_pr_body parent f)] @
                     (if closes then [CeCloseFindings (fx_keys f)] else []),
                   fr_follow := \<not> skipped\<rparr>))"

definition push_fix ::
  "scm_job \<Rightarrow> connector option \<Rightarrow> fix_answers \<Rightarrow> bool \<Rightarrow> string \<Rightarrow> string \<Rightarrow> auto_fix \<Rightarrow> fix_result" where
  "push_fix parent conn A skipped branch patch f =
     (case (case authorize_git_push conn of Some e \<Rightarrow> Some (push_error_text e) | None \<Rightarrow> at_push A) of
        Some err \<Rightarrow> fix_failed ''push: '' err f
      | None \<Rightarrow>
          with_events [CePush branch patch] False
            (if fx_create_pr f then open_fix_pr parent A skipped branch f else fix_done f None))"

definition land_fix ::
  "scm_job \<Rightarrow> connector option \<Rightarrow> bool \<Rightarrow> fix_answers \<Rightarrow> bool \<Rightarrow> string \<Rightarrow> string \<Rightarrow> auto_fix \<Rightarrow> fix_result" where
  "land_fix parent conn mock A skipped branch patch f =
     (case (if mock then None else at_land_checkout A) of
        Some err \<Rightarrow> fix_failed ''land checkout: '' err f
      | None \<Rightarrow>
     (case at_land_branch A of
        Some err \<Rightarrow> fix_failed ''land branch: '' err f
      | None \<Rightarrow>
     (case at_apply A of
        Some err \<Rightarrow> fix_refused ''apply validated patch: '' err ''clean-tree land apply failed'' f
      | None \<Rightarrow>
     (case at_commit A of
        Inl err \<Rightarrow>
          (if \<not> at_left_changes A \<and> fa_rev A \<noteq> []
           then fix_done (completed_unless_skipped
                  (add_honesty ''; no file changes to commit on clean tree'' (f\<lparr>fx_sha := fa_rev A\<rparr>))) None
           else fix_failed ''commit: '' err f)
      | Inr sha \<Rightarrow>
          (let f = add_honesty ''; landed on clean tree'' (f\<lparr>fx_sha := sha\<rparr>);
               msg = ''OPA Review fix: '' @ show_nat (length (fx_findings f)) @ '' finding(s) from job '' @ j_id parent
           in with_events [CeCommit msg] False
                (if mock then
                   fix_done (add_honesty ''; mock PR URL''
                     (f\<lparr>fx_pr_url := ''https://github.com/'' @ j_repo parent @ ''/pull/mock-autofix'', fx_pr := 0,
                        fx_status := (if nz (fx_status f) ''completed'' = ''running'' then ''completed''
                                      else nz (fx_status f) ''completed'')\<rparr>)) None
                 else push_fix parent conn A skipped branch patch f))))))"

text \<open>\<^verbatim>\<open>runOPAAutoFix\<close>, up to the follow-ups and the closing status.\<close>

definition fix_branch :: "scm_job \<Rightarrow> string" where
  "fix_branch parent =
     (let n = int_from_any (sget parent ''autofix_attempt'')
      in opa_fix_branch_name (if j_run_id parent \<noteq> [] then j_run_id parent else j_id parent) (if 0 < n then n else 1))"

definition run_auto_fix ::
  "genv \<Rightarrow> bool \<Rightarrow> scm_job \<Rightarrow> connector option \<Rightarrow> fix_answers \<Rightarrow> auto_fix \<Rightarrow> fix_result" where
  "run_auto_fix getenv has_cred parent conn A f =
     (let mock = github_use_mock_api getenv conn; skipped = skipped_ai getenv has_cred;
          (owner, repo) = split_owner_repo (j_repo parent); branch = fix_branch parent
      in if owner = [] \<or> repo = [] then fix_done (f\<lparr>fx_status := ''failed''\<rparr>) (Some ''invalid repo'')
         else case (if mock then None else at_checkout A) of
           Some err \<Rightarrow> fix_failed ''checkout: '' err f
         | None \<Rightarrow>
         (let f = f\<lparr>fx_branch := branch\<rparr>
          in case at_branch A of
               Some err \<Rightarrow> fix_failed ''branch: '' err f
             | None \<Rightarrow>
         (case fix_patch getenv mock skipped A f of
            Inl r \<Rightarrow> r
          | Inr (f, evs, host) \<Rightarrow>
              with_events evs host
                (case fix_gate getenv (skipped \<or> mock) A f of
                   Inl r \<Rightarrow> r
                 | Inr patch \<Rightarrow>
                     (if \<not> autofix_should_land (fx_mode f) then
                        fix_done (completed_unless_skipped
                          (add_honesty (''; suggest mode '' @ em_dash @ '' proposal recorded, no land'') f)) None
                      else land_fix parent conn mock A skipped branch patch f)))))"

subsection \<open>Follow-ups and the whole run\<close>

text \<open>
  \<^verbatim>\<open>enqueueAutoFixFollowUpReviews\<close>: a forced review of the pull request of the job, of the fix's base
  and of the new one, each once.
\<close>

definition follow_targets :: "scm_job \<Rightarrow> auto_fix \<Rightarrow> int list" where
  "follow_targets parent f =
     fold (\<lambda>n out. if n \<le> 0 \<or> n \<in> set out then out else out @ [n]) [j_pr parent, fx_base_pr f, fx_pr f] []"

definition follow_request :: "scm_job \<Rightarrow> int \<Rightarrow> manual_request" where
  "follow_request parent n =
     \<lparr>mq_repo = j_repo parent, mq_pr = n, mq_conn = j_conn parent, mq_sha = [], mq_title = [], mq_draft = False,
      mq_force = True, mq_ai_only = True, mq_unwatched = True, mq_actor = trim_space (j_actor parent)\<rparr>"

definition as_follow_up :: "scm_job \<Rightarrow> auto_fix \<Rightarrow> scm_job \<Rightarrow> scm_job" where
  "as_follow_up parent f j =
     sset ''autofix_parent_job_id'' (JStr (j_id parent))
       (sset ''autofix_id'' (JStr (fx_id f)) (sset ''autofix_follow_up'' (JBool True) j))"

definition follow_up ::
  "hook_env \<Rightarrow> pull_of \<Rightarrow> scm_job \<Rightarrow> auto_fix \<Rightarrow> int \<Rightarrow> string list \<times> hook_state \<Rightarrow> string list \<times> hook_state" where
  "follow_up E pull parent f n acc =
     (let (res, w) = enqueue_manual_review E pull (follow_request parent n) (snd acc)
      in case res of
           Inl e \<Rightarrow> (fst acc, w)
         | Inr k \<Rightarrow>
             (let (_, w) = with_jobs E (\<lambda>env s. ((), change_and_persist env (as_follow_up parent f) k s)) w
              in (fst acc @ [k], start_job k w)))"

definition follow_ups ::
  "hook_env \<Rightarrow> pull_of \<Rightarrow> scm_job \<Rightarrow> auto_fix \<Rightarrow> hook_state \<Rightarrow> string list \<times> hook_state" where
  "follow_ups E pull parent f w = fold (follow_up E pull parent f) (follow_targets parent f) ([], w)"

definition live_fix :: "string \<Rightarrow> hook_state \<Rightarrow> auto_fix option" where
  "live_fix k w = map_of (sc_autofix (hs_jobs w)) k"

definition show_fix :: "hook_env \<Rightarrow> string \<Rightarrow> auto_fix \<Rightarrow> hook_state \<Rightarrow> hook_state" where
  "show_fix E pid f w =
     (case live_job pid (hs_jobs w) of
        None \<Rightarrow> w
      | Some p \<Rightarrow> snd (with_jobs E (\<lambda>env s. ((), persist_auto_fix_on_parent env p f s)) w))"

text \<open>
  The head commit of the pull request replaces an empty or manual one on the job, once the run came as
  far as its branch.
\<close>

definition adopt_head :: "fix_answers \<Rightarrow> scm_job \<Rightarrow> scm_job" where
  "adopt_head A j =
     (if at_pull A \<noteq> None \<and> fa_head_sha A \<noteq> [] \<and> (j_sha j = [] \<or> has_prefix (j_sha j) ''manual-'')
      then j\<lparr>j_sha := fa_head_sha A\<rparr> else j)"

text \<open>
  The run is the same object as the live fix: what the follow-ups do to the live fix they do to the
  one that is closed here.
\<close>

definition close_fix :: "string \<Rightarrow> string option \<Rightarrow> auto_fix \<Rightarrow> auto_fix" where
  "close_fix now err f =
     (let open_now = (fx_status f = ''running'' \<or> fx_status f = ''queued'');
          f = (case err of
                 None \<Rightarrow> (if open_now then f\<lparr>fx_status := ''completed''\<rparr> else f)
               | Some e \<Rightarrow>
                   (if fx_error f = []
                    then f\<lparr>fx_error := e, fx_status := (if open_now then ''failed'' else fx_status f)\<rparr> else f))
      in f\<lparr>fx_finished := now\<rparr>)"

definition follow_and_note ::
  "hook_env \<Rightarrow> pull_of \<Rightarrow> scm_job \<Rightarrow> fix_result \<Rightarrow> hook_state \<Rightarrow> auto_fix \<times> hook_state" where
  "follow_and_note E pull parent r w =
     (let f = fr_fix r
      in if \<not> fr_follow r then (f, w)
         else
           let (ids, w) = follow_ups E pull parent f w;
               f = (case live_fix (fx_id f) w of None \<Rightarrow> f | Some g \<Rightarrow> g)
           in (if ids = [] then f else add_honesty (''; follow-up OPA Review queued: '' @ join '', '' ids) f, w))"

text \<open>\<^verbatim>\<open>processOPAAutoFix\<close>; \<open>answers\<close> gives the answers of the run of a fix.\<close>

definition host_exec_note :: string where
  "host_exec_note = ''UNSANDBOXED: autofix ran on live worktree (OPA_JOB_ALLOW_HOST_EXEC=1; materialize failed)''"

definition process_auto_fix ::
  "hook_env \<Rightarrow> pull_of \<Rightarrow> (scm_job \<Rightarrow> bool) \<Rightarrow> (auto_fix \<Rightarrow> fix_answers) \<Rightarrow> string \<Rightarrow> string \<Rightarrow> hook_state
     \<Rightarrow> cloud_event list \<times> hook_state" where
  "process_auto_fix E pull has_cred answers k pid w =
     (let fo = live_fix k w; (po, s) = get_scm_job pid (hs_jobs w); w = w\<lparr>hs_jobs := s\<rparr>
      in case (fo, po) of
           (Some f, Some _) \<Rightarrow>
             (let f = f\<lparr>fx_status := ''running'', fx_honesty := ''running Auto-fix''\<rparr>;
                  w = show_fix E pid f (store_fix f w);
                  A = answers f;
                  parent = (case live_job pid (hs_jobs w) of Some p \<Rightarrow> p | None \<Rightarrow> the po);
                  conn = map_option connector.truncate (live_conn (j_conn parent) (hs_conns w));
                  r = run_auto_fix (he_getenv E) (has_cred parent) parent conn A f;
                  w = store_fix (fr_fix r) w;
                  head = (if fx_branch (fr_fix r) = [] then id else adopt_head A);
                  (_, w) = change_live pid head w;
                  w = (if fr_host_exec r
                       then snd (with_jobs E (\<lambda>env s.
                              ((), change_and_persist env (sset ''sandbox_honesty'' (JStr host_exec_note)) pid s)) w)
                       else w);
                  (f, w) = follow_and_note E pull (head parent) r w;
                  f = close_fix (e_now (he_orch E)) (fr_err r) f;
                  w = show_fix E pid f (store_fix f w)
              in (fr_events r, w))
         | _ \<Rightarrow> ([], w))"

end
