(* ===== verification/Job_Api.thy ===== *)
theory Job_Api
  imports Autofix_Run
begin

text \<open>
  The requests on jobs (\<^verbatim>\<open>handleSCMJobsList\<close>, \<^verbatim>\<open>handleSCMJobSub\<close> and \<^verbatim>\<open>handleSCMSimulate\<close> of
  \<^verbatim>\<open>src/scm_orchestrator.go\<close>, \<^verbatim>\<open>handleSCMJobAutoFix\<close> of \<^verbatim>\<open>src/scm_auto_fix.go\<close>, with the roles
  \<^verbatim>\<open>registerSCMAuthFlexible\<close> asks for): showing, retrying, cancelling and reviewing a job, an auto-fix
  of its findings, the approval of coding, and the simulation of a pull request.
\<close>

subsection \<open>State and environment\<close>

text \<open>
  Beside the state of the deliveries: the rate windows of auto-fixes, the fixes handed to
  \<^verbatim>\<open>processOPAAutoFix\<close>, and whether \<^verbatim>\<open>OPA_SCM_MOCK_GITHUB\<close> was set by a simulation.
\<close>

record api_state =
  aw_hooks :: hook_state
  aw_rates :: rate_window
  aw_fixing :: "(string \<times> string) list"
  aw_mock :: bool

record api_env =
  ax_hooks :: hook_env
  ax_fix :: fix_env
  ax_pull :: pull_of
  ax_artifact :: "string \<Rightarrow> string \<Rightarrow> string option"

definition mocked :: "bool \<Rightarrow> genv \<Rightarrow> genv" where
  "mocked on getenv k = (if on \<and> k = ''OPA_SCM_MOCK_GITHUB'' then ''1'' else getenv k)"

text \<open>The environment of a request: variables the process set win.\<close>

definition env_of :: "api_env \<Rightarrow> api_state \<Rightarrow> hook_env" where
  "env_of X aw =
     (let E = ax_hooks X; on = aw_mock aw
      in E\<lparr>he_orch := (he_orch E)\<lparr>e_getenv := mocked on (e_getenv (he_orch E))\<rparr>,
           he_conn := (he_conn E)\<lparr>ce_getenv := mocked on (ce_getenv (he_conn E))\<rparr>\<rparr>)"

definition on_hooks :: "(hook_state \<Rightarrow> 'a \<times> hook_state) \<Rightarrow> api_state \<Rightarrow> 'a \<times> api_state" where
  "on_hooks f aw = (let (x, w) = f (aw_hooks aw) in (x, aw\<lparr>aw_hooks := w\<rparr>))"

subsection \<open>Visibility and roles\<close>

definition job_visible :: "hook_env \<Rightarrow> cred_actor \<Rightarrow> scm_job \<Rightarrow> hook_state \<Rightarrow> bool" where
  "job_visible E a j w \<longleftrightarrow>
     (let tn = ce_tenancy (he_conn E); conns = (\<lambda>c. map_option connector.truncate (live_conn c (hs_conns w)))
      in can_see_scm_job tn conns a (Some j) [] \<or> can_see_scm_job tn conns a (Some j) (trim_space (j_conn j)))"

definition read_method :: "string \<Rightarrow> bool" where
  "read_method m \<longleftrightarrow> m \<in> {''GET'', ''HEAD'', ''OPTIONS''}"

definition role_allows :: "hook_env \<Rightarrow> cred_actor \<Rightarrow> string \<Rightarrow> bool" where
  "role_allows E a m \<longleftrightarrow>
     (let tn = ce_tenancy (he_conn E)
      in \<not> tn_enforced tn \<or> tn_permits tn (ac_role a) (if read_method m then ''viewer'' else ''admin''))"

subsection \<open>Lists\<close>

definition handle_jobs_list ::
  "hook_env \<Rightarrow> cred_actor \<Rightarrow> string \<Rightarrow> string \<Rightarrow> hook_state \<Rightarrow> api_reply" where
  "handle_jobs_list E a connector limit w =
     (let tn = ce_tenancy (he_conn E); conns = (\<lambda>c. map_option connector.truncate (live_conn c (hs_conns w)));
          cf = fst (resolve_connector_filter (trim_space connector) (hs_conns w));
          js = sort_scm_jobs_active_first (filter (\<lambda>j. can_see_scm_job tn conns a (Some j) cf) (map snd (sc_live (hs_jobs w))))
      in AJobs (take (nat (clamp_int (atoi_default limit 50) 1 500)) js) (length js))"

subsection \<open>One job\<close>

definition find_job :: "string \<Rightarrow> hook_state \<Rightarrow> scm_job option \<times> hook_state" where
  "find_job k w = (let (jo, s) = get_scm_job k (hs_jobs w) in (jo, w\<lparr>hs_jobs := s\<rparr>))"

text \<open>A job that is there and visible, else not found.\<close>

definition on_visible ::
  "hook_env \<Rightarrow> cred_actor \<Rightarrow> string \<Rightarrow> (scm_job \<Rightarrow> hook_state \<Rightarrow> api_reply \<times> hook_state) \<Rightarrow> hook_state \<Rightarrow> api_reply \<times> hook_state" where
  "on_visible E a k f w =
     (let (jo, w) = find_job k w
      in case jo of
           None \<Rightarrow> (AError 404 ''not found'', w)
         | Some j \<Rightarrow> (if \<not> job_visible E a j w then (AError 404 ''not found'', w) else f j w))"

definition retry_job :: "hook_env \<Rightarrow> cred_actor \<Rightarrow> scm_job \<Rightarrow> hook_state \<Rightarrow> api_reply \<times> hook_state" where
  "retry_job E a j w =
     (let (_, w) = with_jobs E (\<lambda>env s. ((), persist_scm_job env (retried a j) s)) w
      in (AQueued (j_id j) ''queued'', start_job (j_id j) w))"

text \<open>A cancel recurses over the children of the job; the fuel is more than the jobs there are.\<close>

definition cancel_job :: "hook_env \<Rightarrow> string \<Rightarrow> hook_state \<Rightarrow> api_reply \<times> hook_state" where
  "cancel_job E k w =
     (let (res, w) = with_jobs E (\<lambda>env s.
            case cancel_scm_job (length (sc_live s) + 2) env [] k s of None \<Rightarrow> (None, s) | Some (r, s) \<Rightarrow> (Some r, s)) w
      in (case res of
            Some CancelOk \<Rightarrow> AQueued k (case live_job k (hs_jobs w) of Some j \<Rightarrow> j_status j | None \<Rightarrow> [])
          | Some (CancelConflict msg) \<Rightarrow> AError 409 msg
          | _ \<Rightarrow> AError 404 ''job not found'', w))"

definition approve_coding :: "hook_env \<Rightarrow> cred_actor \<Rightarrow> scm_job \<Rightarrow> hook_state \<Rightarrow> api_reply \<times> hook_state" where
  "approve_coding E a j w =
     (if job_kind j \<noteq> KIssueRun then (AError 400 ''approve-coding only for issue_run jobs'', w)
      else
        let j = by_actor a j;
            (_, w) = change_live (j_id j) (by_actor a) w;
            (co, w) = with_jobs E (\<lambda>env. enqueue_issue_implement env j) w
        in case co of
             None \<Rightarrow> (AError 400 ''not an issue_run'', w)
           | Some c \<Rightarrow> (AQueued (j_id c) (j_status c), start_job (j_id j) w))"

text \<open>\<^verbatim>\<open>handleSCMJobAutoFix\<close>: the decoded body is keys, \<^verbatim>\<open>create_pr\<close> and \<^verbatim>\<open>commit_direct\<close>.\<close>

definition refusal_text :: "fix_refusal \<Rightarrow> string" where
  "refusal_text r =
     (case r of
        NoKeysGiven \<Rightarrow> ''empty finding_keys '' @ em_dash @ '' refusing to fix everything''
      | Unauthorised e \<Rightarrow> autofix_error_text e
      | NoMatch \<Rightarrow> ''no matching findings to fix'')"

definition auto_fix_job ::
  "api_env \<Rightarrow> (string list \<times> bool option \<times> bool) option \<Rightarrow> scm_job \<Rightarrow> api_state \<Rightarrow> api_reply \<times> api_state" where
  "auto_fix_job X body j aw =
     (case body of
        None \<Rightarrow> (AError 400 ''bad json'', aw)
      | Some (keys, create, direct) \<Rightarrow>
          (let create = (if direct then False else (case create of None \<Rightarrow> True | Some b \<Rightarrow> b));
               (res, w, rates) = enqueue_auto_fix (env_of X aw) (ax_fix X) j keys create (direct \<and> \<not> create)
                                   (aw_hooks aw, aw_rates aw);
               aw = aw\<lparr>aw_hooks := w, aw_rates := rates\<rparr>
           in case res of
                Inl r \<Rightarrow> (AError 400 (refusal_text r), aw)
              | Inr f \<Rightarrow>
                  (AFix (fx_id f) (fx_status f) (length (fx_findings f)),
                   aw\<lparr>aw_fixing := aw_fixing aw @ [(fx_id f, j_id j)]\<rparr>)))"

record job_call =
  jc_method :: string
  jc_path :: string
  jc_actor :: cred_actor
  jc_fix :: "(string list \<times> bool option \<times> bool) option"
  jc_review :: "bool option \<times> bool option"

text \<open>A job that is there, whoever asks.\<close>

definition on_found ::
  "string \<Rightarrow> (scm_job \<Rightarrow> api_state \<Rightarrow> api_reply \<times> api_state) \<Rightarrow> api_state \<Rightarrow> api_reply \<times> api_state" where
  "on_found k f aw =
     (let (jo, aw) = on_hooks (find_job k) aw
      in case jo of None \<Rightarrow> (AError 404 ''not found'', aw) | Some j \<Rightarrow> f j aw)"

definition handle_job_sub :: "api_env \<Rightarrow> job_call \<Rightarrow> api_state \<Rightarrow> api_reply \<times> api_state" where
  "handle_job_sub X c aw =
     (let E = env_of X aw; a = jc_actor c; get = (jc_method c = ''GET''); post = (jc_method c = ''POST'');
          parts = split_on (CHR ''/'') (trim_set (trim_prefix (jc_path c) ''/api/scm/jobs/'') ''/'');
          k = hd parts; n = length parts; op = (if 2 \<le> n then parts ! 1 else [])
      in if k = [] then (AError 404 ''not found'', aw)
         else if n = 1 \<and> get then on_hooks (on_visible E a k (\<lambda>j w. (AJob j, w))) aw
         else if 3 \<le> n \<and> op = ''artifacts'' \<and> get then
           on_hooks (on_visible E a k (\<lambda>j w.
             (case ax_artifact X k (parts ! 2) of None \<Rightarrow> AError 404 ''not found'' | Some t \<Rightarrow> AArtifact t, w))) aw
         else if op = ''retry'' \<and> post then on_hooks (on_visible E a k (retry_job E a)) aw
         else if op = ''cancel'' \<and> post then on_hooks (cancel_job E k) aw
         else if op = ''ai-review'' \<and> post then
           on_found k (\<lambda>j. if j_pr j \<le> 0 then (\<lambda>aw. (AError 400 (''job has no pr_number '' @ em_dash @ '' cannot re-run AI only''), aw))
                          else on_hooks (handle_ai_review_from_job E (ax_pull X) (jc_review c) a j)) aw
         else if op \<in> {''auto-fix'', ''autofix''} \<and> post then on_found k (auto_fix_job X (jc_fix c)) aw
         else if op \<in> {''approve-coding'', ''approve_coding''} \<and> post then
           on_hooks (on_visible E a k (approve_coding E a)) aw
         else (AError 404 ''not found'', aw))"

text \<open>Behind the role; the middleware answers for itself and does not call the handler.\<close>

definition handle_job_call :: "api_env \<Rightarrow> job_call \<Rightarrow> api_state \<Rightarrow> api_reply \<times> api_state" where
  "handle_job_call X c aw =
     (if role_allows (env_of X aw) (jc_actor c) (jc_method c) then handle_job_sub X c aw
      else (AError 403 ''forbidden'', aw))"

subsection \<open>Simulation\<close>

record sim_body =
  sm_repo :: string
  sm_pr :: int
  sm_sha :: string
  sm_service :: string
  sm_profile :: string
  sm_draft :: bool

definition sim_conn :: "hook_env \<Rightarrow> string \<Rightarrow> string \<Rightarrow> string \<Rightarrow> app_conn" where
  "sim_conn E k org proj =
     \<lparr>cn_id = k, cn_org = org, cn_proj = proj, cn_scope = [], cn_user = [], cn_kind = ''github_pat'', cn_inst = [],
      cn_status = ''active'', cn_token = [], cn_login = ''simulate'', cn_meta = [(''simulate'', JBool True)],
      cn_created = ce_now (he_conn E), cn_updated = ce_now (he_conn E)\<rparr>"

text \<open>
  \<^verbatim>\<open>handleSCMSimulate\<close>: a connector and a watch of its own, and the mock API switched on for the whole
  process.  The tenant is the write tenant of the request.
\<close>

definition ensure_sim_conn :: "hook_env \<Rightarrow> string \<Rightarrow> string \<Rightarrow> conn_state \<Rightarrow> string \<times> conn_state" where
  "ensure_sim_conn E org proj s =
     (let k = load_id (ce_sha1hex (he_conn E)) ''conn'' [org, proj, ''sim'', ''local'']; c = sim_conn E k org proj
      in (k, if live_conn k s \<noteq> None then s else persist_connector (he_conn E) c (store_conn k c s)))"

definition name_service :: "hook_env \<Rightarrow> string \<Rightarrow> watched \<Rightarrow> conn_state \<Rightarrow> watched \<times> conn_state" where
  "name_service E service t s =
     (if service = [] then (t, s)
      else let t = t\<lparr>wt_service := service\<rparr> in (t, store_watch (watch_key (wt_conn t) (wt_repo t)) t s))"

definition handle_simulate ::
  "api_env \<Rightarrow> sim_body \<Rightarrow> string \<times> string \<Rightarrow> api_state \<Rightarrow> api_reply \<times> api_state" where
  "handle_simulate X b tenant aw =
     (let E = env_of X aw; (org, proj) = tenant; repo = nz (sm_repo b) ''local/smoke-repo'';
          sha = nz (sm_sha b) (''deadbeef'' @ e_hex (he_orch E));
          (k, w) = on_conns (ensure_sim_conn E org proj) (aw_hooks aw);
          (t, w) = on_conns (upsert_watched (he_conn E) org proj k repo [] True (default_watched_checks (he_getenv E))
                      (nz (sm_profile b) ''auto'') ''high'' False False 0) w;
          (t, w) = on_conns (name_service E (sm_service b) t) w;
          aw = aw\<lparr>aw_hooks := w, aw_mock := True\<rparr>; E = env_of X aw;
          rq = delivery_request t (live_conn k (hs_conns w)) repo (sm_pr b) sha ''simulate'' (sm_draft b) ''simulated PR'' [];
          (j, w) = enqueue_pr_delivery E rq w
      in (AQueued j (case live_job j (hs_jobs w) of Some i \<Rightarrow> j_status i | None \<Rightarrow> []), aw\<lparr>aw_hooks := start_job j w\<rparr>))"

end
