(* ===== verification/Job_Laws.thy ===== *)
theory Job_Laws
  imports Job_Api Hook_Laws
begin

text \<open>
  Who may do what to a job: requests that only read start nothing and change nothing, a shown or
  retried job is one its asker may see, and where the routes differ from each other.
\<close>

subsection \<open>Requests that only read\<close>

definition loaded :: "string \<Rightarrow> api_state \<Rightarrow> api_state" where
  "loaded k aw = aw\<lparr>aw_hooks := snd (find_job k (aw_hooks aw))\<rparr>"

text \<open>Nothing, or one job read into memory.\<close>

definition only_reads :: "api_state \<Rightarrow> api_state \<Rightarrow> bool" where
  "only_reads aw aw' \<longleftrightarrow> aw' = aw \<or> (\<exists>k. aw' = loaded k aw)"

definition job_path :: "job_call \<Rightarrow> string list" where
  "job_path c = split_on (CHR ''/'') (trim_set (trim_prefix (jc_path c) ''/api/scm/jobs/'') ''/'')"

lemma only_reads_refl [simp]: "only_reads aw aw"
  by (simp add: only_reads_def)

lemma only_reads_loaded [simp]: "only_reads aw (loaded k aw)"
  by (auto simp: only_reads_def)

lemma only_reads_starts_nothing:
  "only_reads aw aw' \<Longrightarrow> hs_started (aw_hooks aw') = hs_started (aw_hooks aw) \<and> aw_fixing aw' = aw_fixing aw"
  by (auto simp: only_reads_def loaded_def find_job_def Let_def case_prod_beta)

lemma visible_after_find [simp]: "job_visible E a j (snd (find_job k w)) = job_visible E a j w"
  by (simp add: job_visible_def find_job_def Let_def case_prod_beta)

lemma on_visible_cases:
  "on_visible E a k f w =
     (case fst (find_job k w) of
        None \<Rightarrow> (AError 404 ''not found'', snd (find_job k w))
      | Some j \<Rightarrow> (if job_visible E a j w then f j (snd (find_job k w)) else (AError 404 ''not found'', snd (find_job k w))))"
  by (auto simp: on_visible_def Let_def case_prod_beta split: option.split)

lemma shown_only_reads:
  "only_reads aw (snd (on_hooks (on_visible E a k (\<lambda>j w. (g j, w))) aw))"
  by (auto simp: on_hooks_def on_visible_cases Let_def case_prod_beta loaded_def [symmetric] split: option.split)

lemma unseen_answers_404:
  assumes "fst (find_job k (aw_hooks aw)) = Some j" "\<not> job_visible E a j (aw_hooks aw)"
  shows "on_hooks (on_visible E a k f) aw = (AError 404 ''not found'', loaded k aw)"
  using assms by (simp add: on_hooks_def on_visible_cases Let_def case_prod_beta loaded_def)

lemma without_post_only_reads:
  assumes "jc_method c \<noteq> ''POST''"
  shows "only_reads aw (snd (handle_job_sub X c aw))"
  using assms by (simp add: handle_job_sub_def Let_def shown_only_reads)

lemma shown_is_visible:
  assumes "fst (on_hooks (on_visible E a k (\<lambda>j w. (AJob j, w))) aw) = AJob j"
  shows "job_visible E a j (aw_hooks aw)"
  using assms by (auto simp: on_hooks_def on_visible_cases Let_def case_prod_beta split: option.splits if_splits)

text \<open>The other routes never answer with the job.\<close>

lemma no_job_answers [simp]:
  "fst (cancel_job E k w) \<noteq> AJob j" "fst (retry_job E a i w) \<noteq> AJob j" "fst (approve_coding E a i w) \<noteq> AJob j"
  "fst (auto_fix_job X b i aw) \<noteq> AJob j" "fst (handle_ai_review_from_job E p r a i w) \<noteq> AJob j"
  by (simp_all add: cancel_job_def retry_job_def approve_coding_def auto_fix_job_def handle_ai_review_from_job_def
      queue_manual_def Let_def case_prod_beta split: option.split sum.split cancel_result.split)

lemma on_hooks_answers: "fst (on_hooks f aw) = fst (f (aw_hooks aw))"
  by (simp add: on_hooks_def Let_def case_prod_beta)

lemma other_routes_show_nothing:
  "(\<And>i w. fst (f i w) \<noteq> AJob j) \<Longrightarrow> fst (on_visible E a k f w) \<noteq> AJob j"
  "(\<And>i aw. fst (g i aw) \<noteq> AJob j) \<Longrightarrow> fst (on_found k g aw) \<noteq> AJob j"
  by (simp_all add: on_hooks_answers on_visible_cases on_found_def Let_def case_prod_beta split: option.split)

lemma if_answers:
  "(b \<Longrightarrow> fst x \<noteq> AJob j) \<Longrightarrow> (\<not> b \<Longrightarrow> fst y \<noteq> AJob j) \<Longrightarrow> fst (if b then x else y) \<noteq> AJob j"
  by simp

lemma sub_shows_visible:
  assumes "fst (handle_job_sub X c aw) = AJob j"
  shows "job_visible (env_of X aw) (jc_actor c) j (aw_hooks aw)"
proof (cases "length (job_path c) = 1 \<and> jc_method c = ''GET'' \<and> hd (job_path c) \<noteq> []")
  case True
  then show ?thesis using assms by (intro shown_is_visible) (simp add: handle_job_sub_def Let_def job_path_def)
next
  case False
  then have "fst (handle_job_sub X c aw) \<noteq> AJob j"
    unfolding handle_job_sub_def Let_def job_path_def
    by (intro if_answers) (auto simp: other_routes_show_nothing on_hooks_answers split: option.split)
  with assms show ?thesis by simp
qed

text \<open>C12: A request on a job shows it only to an actor who may see it, and one without the role of
  an administrator (or without \<^verbatim>\<open>POST\<close>) starts no job and no fix and changes nothing beyond reading a job
  into memory.  A retry or a coding approval of a job the actor may not see is answered as not found,
  with the same effect.\<close>

theorem job_calls_guarded:
  assumes "handle_job_call X c aw = (rep, aw')"
  shows "(rep = AJob j \<longrightarrow> job_visible (env_of X aw) (jc_actor c) j (aw_hooks aw)) \<and>
    (only_reads aw aw' \<and> hs_started (aw_hooks aw') = hs_started (aw_hooks aw) \<and> aw_fixing aw' = aw_fixing aw \<or>
     jc_method c = ''POST'' \<and> role_allows (env_of X aw) (jc_actor c) ''POST'') \<and>
    (jc_method c = ''POST'' \<and> job_path c = [k, op] \<and> k \<noteq> [] \<and> op \<in> {''retry'', ''approve-coding'', ''approve_coding''} \<and>
       fst (find_job k (aw_hooks aw)) = Some i \<and> \<not> job_visible (env_of X aw) (jc_actor c) i (aw_hooks aw) \<longrightarrow>
     rep \<in> {AError 403 ''forbidden'', AError 404 ''not found''} \<and> only_reads aw aw')"
proof (cases "role_allows (env_of X aw) (jc_actor c) (jc_method c)")
  case False
  then show ?thesis using assms by (auto simp: handle_job_call_def)
next
  case True
  then have h: "handle_job_sub X c aw = (rep, aw')" using assms by (simp add: handle_job_call_def)
  have "jc_method c \<noteq> ''POST'' \<Longrightarrow> only_reads aw aw'" using without_post_only_reads [of c aw X] h by simp
  moreover have "rep = AJob j \<Longrightarrow> job_visible (env_of X aw) (jc_actor c) j (aw_hooks aw)"
    using sub_shows_visible [of X c aw j] h by simp
  moreover have "(rep, aw') = (AError 404 ''not found'', loaded k aw)"
    if "jc_method c = ''POST''" "job_path c = [k, op]" "k \<noteq> []" "op \<in> {''retry'', ''approve-coding'', ''approve_coding''}"
      "fst (find_job k (aw_hooks aw)) = Some i" "\<not> job_visible (env_of X aw) (jc_actor c) i (aw_hooks aw)"
    using that h by (auto simp: handle_job_sub_def job_path_def Let_def unseen_answers_404)
  ultimately show ?thesis using True only_reads_starts_nothing [of aw aw'] by (cases "jc_method c = ''POST''") auto
qed

subsection \<open>Cases\<close>

text \<open>A job of \<^verbatim>\<open>acme\<close> without a connector, and an administrator of another organization.\<close>

definition stray_job :: scm_job where
  "stray_job = (sample_job ''r1'' ''run'' [] ''c0ffee'' ''running'')\<lparr>j_org := ''acme'', j_conn := [], j_run_id := ''r1''\<rparr>"

definition api_world :: api_env where
  "api_world =
     \<lparr>ax_hooks = demo_hooks,
      ax_fix =
        \<lparr>fe_now = 0, fe_covers = (\<lambda>_ _. True), fe_object = (\<lambda>_. []), fe_ledger = (\<lambda>_. None),
         fe_review = (\<lambda>_. empty_review), fe_security = (\<lambda>_ _. []), fe_no_review = empty_review\<rparr>,
      ax_pull = (\<lambda>_ _ _ _. None), ax_artifact = (\<lambda>_ _. None)\<rparr>"

definition api_start :: api_state where
  "api_start =
     \<lparr>aw_hooks = demo_state\<lparr>hs_jobs := (hs_jobs demo_state)\<lparr>sc_live := [(''r1'', stray_job)]\<rparr>\<rparr>,
      aw_rates = (\<lambda>_. []), aw_fixing = [], aw_mock = False\<rparr>"

definition foreign_admin :: cred_actor where
  "foreign_admin = \<lparr>ac_user = ''eve'', ac_role = ''admin'', ac_org = ''evil'', ac_proj = ''p''\<rparr>"

definition call_of :: "string \<Rightarrow> string \<Rightarrow> job_call" where
  "call_of m path = \<lparr>jc_method = m, jc_path = path, jc_actor = foreign_admin, jc_fix = None, jc_review = (None, None)\<rparr>"

lemma stray_unseen: "\<not> job_visible (env_of api_world api_start) foreign_admin stray_job (aw_hooks api_start)"
  by code_simp

theorem job_calls_guarded_witness:
  "fst (handle_job_call api_world (call_of ''POST'' ''/api/scm/jobs/r1/retry'') api_start) \<in>
     {AError 403 ''forbidden'', AError 404 ''not found''} \<and>
   only_reads api_start (snd (handle_job_call api_world (call_of ''POST'' ''/api/scm/jobs/r1/retry'') api_start))"
proof -
  let ?c = "call_of ''POST'' ''/api/scm/jobs/r1/retry''"
  have p: "job_path ?c = [''r1'', ''retry'']" by code_simp
  have f: "fst (find_job ''r1'' (aw_hooks api_start)) = Some stray_job"
    by (simp add: find_job_def get_scm_job_def live_job_def api_start_def Let_def)
  show ?thesis
    using job_calls_guarded [of api_world ?c api_start "fst (handle_job_call api_world ?c api_start)"
        "snd (handle_job_call api_world ?c api_start)" stray_job "''r1''" "''retry''" stray_job]
      p f stray_unseen by (simp add: call_of_def)
qed

text \<open>The cancel route does not ask whether the actor may see the job.\<close>

lemma cancel_skips_visibility:
  "(case handle_job_call api_world (call_of ''POST'' ''/api/scm/jobs/r1/cancel'') api_start of
      (rep, aw) \<Rightarrow> rep = AQueued ''r1'' ''cancelled'' \<and>
        map_option j_status (live_job ''r1'' (hs_jobs (aw_hooks aw))) = Some ''cancelled'')"
  by code_simp

text \<open>A simulation leaves the mock API on for the App installations of the whole process.\<close>

lemma simulation_mocks_apps:
  assumes "aw' = snd (handle_simulate X b tenant aw)" "cn_kind c = ''github_app''"
  shows "github_use_mock_api (e_getenv (he_orch (env_of X aw'))) (Some c)"
proof -
  have "aw_mock aw'" using assms by (simp add: handle_simulate_def Let_def case_prod_beta)
  moreover have "trim_space ''1'' = ''1''" by code_simp
  ultimately show ?thesis using assms(2) by (simp add: github_use_mock_api_def env_of_def mocked_def env_or_def Let_def)
qed

text \<open>A manual review that finds its watch does so whether unwatched repositories were allowed or not.\<close>

lemma unwatched_flag_idle:
  assumes "manual_watch E rq w = (Inr x, w')"
  shows "manual_watch E (rq\<lparr>mq_unwatched := u\<rparr>) w = (Inr x, w')"
  using assms by (auto simp: manual_watch_def Let_def case_prod_beta split: option.splits)

end
