(* ===== verification/Cloud_Laws.thy ===== *)
theory Cloud_Laws
  imports Cloud_Run
begin

text \<open>
  What the cloud agent lets out: a patch is pushed only behind the authorisation, the gate and the
  two looks at the job, never for a cancelled run, at most three times; and the keys it picks by
  itself are always authorised.
\<close>

subsection \<open>One attempt\<close>

definition pushes :: "cloud_event list \<Rightarrow> (string \<times> string) list" where
  "pushes evs = List.map_filter (\<lambda>e. case e of CePush b q \<Rightarrow> Some (b, q) | _ \<Rightarrow> None) evs"

lemma pushes_simps [simp]:
  "pushes [] = []" "pushes (a @ b) = pushes a @ pushes b"
  "pushes (CeNote t # es) = pushes es" "pushes (CeComment t # es) = pushes es"
  "pushes (CeCommit t # es) = pushes es" "pushes (CePush b' q # es) = (b', q) # pushes es"
  "pushes (CePull t u v # es) = pushes es" "pushes (CeCloseFindings ks # es) = pushes es"
  "pushes (CeCheck t u # es) = pushes es"
  by (simp_all add: pushes_def map_filter_def)

lemma patch_stage_pushes:
  "patch_stage getenv mock skipped auth E out = Inl (out', e, evs) \<Longrightarrow> pushes evs = []"
  "patch_stage getenv mock skipped auth E out = Inr (out'', evs'') \<Longrightarrow> pushes evs'' = []"
  by (auto simp: patch_stage_def Let_def split: if_splits sum.splits option.splits prod.splits)

lemma suggest_stage_pushes: "pushes (snd (snd (suggest_stage j conn auth E cs b out))) = []"
  by (auto simp: suggest_stage_def Let_def split: if_splits sum.splits option.splits prod.splits)

text \<open>What holds when a patch leaves: the job is alive at both looks and the connector may push.\<close>

definition may_push :: "scm_job \<Rightarrow> connector option \<Rightarrow> attempt_env \<Rightarrow> bool" where
  "may_push j conn E \<longleftrightarrow>
     \<not> cloud_job_must_abort j (at_live_land E) \<and> \<not> cloud_job_must_abort j (at_live_push E) \<and>
     (\<exists>c. conn = Some c \<and> cn_kind c = ''github_app'')"

lemma authorize_git_push_None: "authorize_git_push conn = None \<longleftrightarrow> (\<exists>c. conn = Some c \<and> cn_kind c = ''github_app'')"
  by (auto simp: authorize_git_push_def split: option.splits)

lemma push_and_open_pushes:
  "push_and_open j conn auth E b q out = (out', e, evs) \<Longrightarrow>
     pushes evs = [] \<or>
     (pushes evs = [(b, q)] \<and> \<not> cloud_job_must_abort j (at_live_push E) \<and> authorize_git_push conn = None)"
  by (auto simp: push_and_open_def Let_def split: if_splits sum.splits option.splits prod.splits)

lemma land_pushes:
  assumes "land_validated_patch j conn mock auth E b q = (out', e, evs)"
  shows "pushes evs = [] \<or> (pushes evs = [(b, q)] \<and> may_push j conn E \<and> \<not> mock)"
proof -
  have push: "pushes (snd (snd (push_and_open j conn auth E b q out))) = [] \<or>
     (pushes (snd (snd (push_and_open j conn auth E b q out))) = [(b, q)] \<and>
      \<not> cloud_job_must_abort j (at_live_push E) \<and> authorize_git_push conn = None)" for out
    by (metis prod.collapse push_and_open_pushes)
  show ?thesis
    using assms push [of "oset ''commit_sha'' (JStr (projr (at_commit E))) [(''land'', JStr ''clean_tree'')]"]
    by (auto simp: land_validated_patch_def may_push_def authorize_git_push_None Let_def
        split: if_splits sum.splits option.splits prod.splits)
qed

text \<open>The patch \<open>q\<close> passed the gates of its attempt.\<close>

definition passed_gates :: "genv \<Rightarrow> bool \<Rightarrow> agent_prefs \<Rightarrow> autofix_auth \<Rightarrow> attempt_env \<Rightarrow> string \<Rightarrow> bool" where
  "passed_gates getenv skipped p auth E q \<longleftrightarrow>
     (let gate = (\<lambda>diff allow. gate_cloud_diff getenv (parse_cloud_diff_changes diff) allow
                                 (default_cloud_diff_caps getenv) = None);
          paths = finding_paths (aa_findings auth)
      in (case at_diff E of Inl _ \<Rightarrow> False
          | Inr diff \<Rightarrow> gate diff (if skipped then [] else paths)) \<and> (skipped \<or> paths \<noteq> []) \<and>
         (if cloud_run_tests p then
            at_sandbox E = ''docker'' \<and> fst (at_verify E) \<notin> {''failed'', ''refused''} \<and>
            gate (at_diff2 E) paths \<and> at_capture2 E = Inr q
          else at_capture E = Inr q))"

lemma gate_stage_Inr:
  assumes "gate_stage getenv relaxed auth E out = Inr (out', changes, q)"
  shows "at_capture E = Inr q" "relaxed \<or> finding_paths (aa_findings auth) \<noteq> []"
    "\<exists>diff. at_diff E = Inr diff \<and> changes = parse_cloud_diff_changes diff \<and>
       gate_cloud_diff getenv changes (if relaxed then [] else finding_paths (aa_findings auth))
         (default_cloud_diff_caps getenv) = None"
  using assms by (auto simp: gate_stage_def Let_def split: if_splits sum.splits option.splits)

lemma verify_stage_Inr:
  assumes "verify_stage getenv p auth E q0 out = Inr (out', q)"
  shows "if cloud_run_tests p then
      at_sandbox E = ''docker'' \<and> fst (at_verify E) \<notin> {''failed'', ''refused''} \<and>
      gate_cloud_diff getenv (parse_cloud_diff_changes (at_diff2 E)) (finding_paths (aa_findings auth))
        (default_cloud_diff_caps getenv) = None \<and> at_capture2 E = Inr q
    else q = q0"
  using assms by (auto simp: verify_stage_def Let_def split: if_splits sum.splits option.splits prod.splits)

lemma attempt_pushes:
  assumes "run_one_cloud_attempt getenv cred j conn auth p i E = (out, e, evs)"
  shows "pushes evs = [] \<or>
    (\<exists>q. pushes evs = [(opa_fix_branch_name (nz (j_run_id j) (j_id j)) (branch_number j i), q)] \<and>
      aa_mode auth \<noteq> ''suggest'' \<and> \<not> github_use_mock_api getenv conn \<and> may_push j conn E \<and>
      passed_gates getenv (skipped_ai getenv cred) p auth E q)"
proof (rule ccontr)
  let ?mock = "github_use_mock_api getenv conn" and ?sk = "skipped_ai getenv cred"
  let ?b = "opa_fix_branch_name (nz (j_run_id j) (j_id j)) (branch_number j i)"
  assume contra: "\<not> ?thesis"
  then have some: "pushes evs \<noteq> []" by blast
  note u = assms [unfolded run_one_cloud_attempt_def Let_def]
  obtain out1 evs1 where ps: "patch_stage getenv ?mock ?sk auth E
      (oset ''branch'' (JStr ?b) [(''status'', JStr ''running''), (''mode'', JStr (aa_mode auth))]) = Inr (out1, evs1)"
    using u some patch_stage_pushes(1)
    by (auto split: option.splits sum.splits prod.splits if_splits)
  then have e1: "pushes evs1 = []" by (rule patch_stage_pushes(2))
  obtain out2 cs q0 where gs: "gate_stage getenv (?sk \<or> ?mock) auth E out1 = Inr (out2, cs, q0)"
    using u some ps e1 by (auto split: option.splits sum.splits prod.splits)
  have mode: "aa_mode auth \<noteq> ''suggest''"
  proof
    assume "aa_mode auth = ''suggest''"
    then show False
      using u some ps e1 gs suggest_stage_pushes [of j conn auth E cs ?b out2]
      by (auto split: option.splits prod.splits)
  qed
  obtain out3 q where vs: "verify_stage getenv p auth E q0 out2 = Inr (out3, q)"
    using u some ps e1 gs mode by (auto split: option.splits sum.splits prod.splits)
  obtain out4 e4 evs4 where ld: "land_validated_patch j conn ?mock auth E ?b q = (out4, e4, evs4)"
    by (metis prod.collapse)
  then have "pushes evs = pushes evs4"
    using u some ps e1 gs vs mode by (auto split: option.splits prod.splits)
  then have p: "pushes evs = [(?b, q)]" "may_push j conn E" "\<not> ?mock"
    using land_pushes [OF ld] some by auto
  have "passed_gates getenv ?sk p auth E q"
    using gate_stage_Inr [OF gs] verify_stage_Inr [OF vs] p(3)
    by (auto simp: passed_gates_def Let_def split: if_splits)
  with contra mode p show False by blast
qed

subsection \<open>The stages\<close>

definition gated_push ::
  "cloud_env \<Rightarrow> scm_job \<Rightarrow> connector option \<Rightarrow> agent_prefs \<Rightarrow> agent_finding list \<Rightarrow> string list
     \<Rightarrow> int \<Rightarrow> string \<Rightarrow> string \<Rightarrow> bool" where
  "gated_push C j conn p ledger keys i b q \<longleftrightarrow>
     b = opa_fix_branch_name (nz (j_run_id j) (j_id j)) (branch_number j i) \<and>
     autofix_guard conn (cv_covers C) p (j_repo j) keys = None \<and>
     \<not> github_use_mock_api (cv_getenv C) conn \<and>
     \<not> cloud_job_must_abort j (cv_live C i) \<and> may_push j conn (cv_attempt C i) \<and>
     (\<exists>ok. aa_mode ok = ''branch'' \<and>
        select_findings (ledger_by_key ledger) (autofix_threshold p) keys = Inr (aa_findings ok) \<and>
        passed_gates (cv_getenv C) (skipped_ai (cv_getenv C) (cv_has_cred C)) p ok (cv_attempt C i) q)"

lemma attempt_gated:
  assumes "\<not> cloud_job_must_abort j (cv_live C i)"
    and ok: "authorize_autofix_attempt (cv_getenv C) now conn (cv_covers C) p (j_repo j) ledger keys rec w = (Inr a, w')"
    and run: "run_one_cloud_attempt (cv_getenv C) (cv_has_cred C) j conn a p i (cv_attempt C i) = (tried, err, evs)"
  shows "length (pushes evs) \<le> 1 \<and> list_all (\<lambda>(b, q). gated_push C j conn p ledger keys i b q) (pushes evs)"
proof -
  note acc = autofix_accepted [OF ok]
  have "aa_mode a \<in> {''suggest'', ''branch''}" using acc autofix_guard_None by metis
  then show ?thesis
    using attempt_pushes [OF run] assms(1) acc
    by (elim disjE exE conjE) (auto simp: gated_push_def intro!: exI [of _ a])
qed

definition adds_pushes ::
  "(int \<Rightarrow> string \<Rightarrow> string \<Rightarrow> bool) \<Rightarrow> int list \<Rightarrow> cloud_event list \<Rightarrow> cloud_event list \<Rightarrow> bool" where
  "adds_pushes P is evs evs' \<longleftrightarrow>
     (\<exists>ps. pushes evs' = pushes evs @ ps \<and> length ps \<le> length is \<and>
           list_all (\<lambda>(b, q). list_ex (\<lambda>i. P i b q) is) ps)"

lemma adds_pushes_none: "pushes evs' = pushes evs \<Longrightarrow> adds_pushes P is evs evs'"
  by (simp add: adds_pushes_def)

lemma adds_pushes_step:
  assumes "length (pushes es) \<le> 1" "list_all (\<lambda>(b, q). P i b q) (pushes es)"
    and "adds_pushes P is (evs @ es) evs'"
  shows "adds_pushes P (i # is) evs evs'"
proof -
  from assms(3) obtain ps where ps: "pushes evs' = pushes evs @ pushes es @ ps" "length ps \<le> length is"
      "list_all (\<lambda>(b, q). list_ex (\<lambda>i. P i b q) is) ps"
    by (auto simp: adds_pushes_def)
  have "list_all (\<lambda>(b, q). list_ex (\<lambda>i. P i b q) (i # is)) (pushes es @ ps)"
    using assms(2) ps(3) by (auto simp: list_all_iff)
  then show ?thesis using ps assms(1) unfolding adds_pushes_def by (intro exI [of _ "pushes es @ ps"]) auto
qed

lemma stages_gated:
  "adds_pushes (gated_push C j conn p ledger keys) is evs
     (cr_events (cloud_stages C j conn p ledger keys m is out attempts lerr auth w evs))"
proof (induction "is" arbitrary: out attempts lerr auth w evs)
  case Nil
  show ?case by (simp add: Let_def adds_pushes_none)
next
  case (Cons i "is")
  show ?case
  proof (cases "cloud_job_must_abort j (cv_live C i)")
    case True
    then show ?thesis by (simp add: Let_def adds_pushes_none)
  next
    case alive: False
    obtain res w' where au: "authorize_autofix_attempt (cv_getenv C) (cv_now C i) conn (cv_covers C) p (j_repo j)
        ledger keys (i = 1) w = (res, w')" by fastforce
    show ?thesis
    proof (cases res)
      case (Inl e)
      with alive au show ?thesis by (simp add: Let_def adds_pushes_none)
    next
      case (Inr a)
      obtain tried err es where run: "run_one_cloud_attempt (cv_getenv C) (cv_has_cred C) j conn a p i (cv_attempt C i)
          = (tried, err, es)" by (metis prod.collapse)
      note one = attempt_gated [OF alive au [unfolded Inr] run]
      let ?P = "gated_push C j conn p ledger keys"
      have rec: "adds_pushes ?P (i # is) evs (cr_events (cloud_stages C j conn p ledger keys m is out at le au w (evs @ es)))"
        for out at le au w
        by (rule adds_pushes_step [where P = ?P and i = i, OF conjunct1 [OF one] conjunct2 [OF one] Cons.IH])
      have here: "adds_pushes ?P (i # is) evs (evs @ es)"
        by (rule adds_pushes_step [where P = ?P and i = i, OF conjunct1 [OF one] conjunct2 [OF one]])
          (simp add: adds_pushes_none)
      show ?thesis using alive au Inr run rec here by (simp add: Let_def)
    qed
  qed
qed

text \<open>The limit is charged at the first attempt only.\<close>

definition charged_once :: "int \<Rightarrow> string \<Rightarrow> rate_window \<Rightarrow> rate_window \<Rightarrow> bool" where
  "charged_once now repo w w' \<longleftrightarrow>
     (\<forall>r. w' r = w r \<or> w' r = recent now (w r) \<or>
          (r = norm_repo repo \<and> w' r = recent now (w r) @ [now]))"

lemma uncharged:
  assumes "authorize_autofix_attempt getenv now conn covers p repo ledger keys False w = (res, w')"
  shows "w' = w"
  using assms by (auto simp: authorize_autofix_attempt_def Let_def split: option.splits sum.splits if_splits)

lemma charged:
  assumes "authorize_autofix_attempt getenv now conn covers p repo ledger keys True w = (res, w')"
  shows "charged_once now repo w w'"
  using authorize_window [OF assms] by (cases res) (auto simp: charged_once_def)

lemma stages_uncharged:
  "1 \<notin> set is \<Longrightarrow> cr_rates (cloud_stages C j conn p ledger keys m is out attempts lerr auth w evs) = w"
proof (induction "is" arbitrary: out attempts lerr auth w evs)
  case (Cons i "is")
  obtain res w' where au: "authorize_autofix_attempt (cv_getenv C) (cv_now C i) conn (cv_covers C) p (j_repo j)
      ledger keys (i = 1) w = (res, w')" by fastforce
  then have "w' = w" using Cons.prems uncharged by (metis list.set_intros(1))
  with au Cons show ?case by (simp add: Let_def split: sum.split prod.split)
qed (simp add: Let_def)

lemma stages_charged:
  assumes "1 \<notin> set is"
  shows "charged_once (cv_now C 1) (j_repo j) w
    (cr_rates (cloud_stages C j conn p ledger keys m (1 # is) out attempts lerr auth w evs))"
proof -
  obtain res w' where au: "authorize_autofix_attempt (cv_getenv C) (cv_now C 1) conn (cv_covers C) p (j_repo j)
      ledger keys True w = (res, w')" by fastforce
  show ?thesis
  proof (cases "cloud_job_must_abort j (cv_live C 1)")
    case True
    then show ?thesis by (simp add: Let_def charged_once_def)
  next
    case False
    then show ?thesis
      using charged [OF au] au assms by (simp add: Let_def stages_uncharged split: sum.split prod.split)
  qed
qed

lemma cloud_max_bounds: "1 \<le> cloud_max_iterations getenv" "cloud_max_iterations getenv \<le> 3"
  by (simp_all add: cloud_max_iterations_def Let_def)

lemma iterations_split: "1 \<le> m \<Longrightarrow> [1..m] = 1 # [2..m]"
  by (simp add: upto_rec1)

subsection \<open>The agent\<close>

definition same_cloud_job :: "scm_job \<Rightarrow> scm_job \<Rightarrow> bool" where
  "same_cloud_job j i \<longleftrightarrow>
     j_id i = j_id j \<and> j_run_id i = j_run_id j \<and> j_repo i = j_repo j \<and> j_attempt i = j_attempt j \<and>
     sget i ''supersede_drain'' = sget j ''supersede_drain'' \<and> sget i ''cancel_drain'' = sget j ''cancel_drain''"

lemma same_must_abort: "same_cloud_job j i \<Longrightarrow> cloud_job_must_abort i s = cloud_job_must_abort j s"
  by (auto simp: same_cloud_job_def cloud_job_must_abort_def Let_def split: prod.splits option.splits)

lemma same_gated_push:
  "same_cloud_job j i \<Longrightarrow> gated_push C i conn p ledger keys n b q = gated_push C j conn p ledger keys n b q"
  by (simp add: gated_push_def may_push_def same_must_abort branch_number_def)
    (simp add: same_cloud_job_def)

lemma ensure_write_same:
  "ensure_github_write_allowed getenv j conn = (e, i) \<Longrightarrow> same_cloud_job j i"
  by (auto simp: ensure_github_write_allowed_def same_cloud_job_def split: sum.splits option.splits)

definition parent_prefs :: "scm_job \<Rightarrow> scm_state \<Rightarrow> agent_prefs" where
  "parent_prefs j s =
     (case fst (get_scm_job (j_run_id j) s) of None \<Rightarrow> builtin_agent_prefs | Some r \<Rightarrow> agent_prefs_from_summary r)"

lemma same_cloud_job_refl [simp]: "same_cloud_job j j"
  by (simp add: same_cloud_job_def)

lemma same_cloud_job_trans: "same_cloud_job j i \<Longrightarrow> same_cloud_job i k \<Longrightarrow> same_cloud_job j k"
  by (simp add: same_cloud_job_def)

lemma run_cloud_agent_stages:
  assumes "run_cloud_agent C proposal conn ledger cid j s w = (j', err, w', evs)"
  shows "(pushes evs = [] \<and> w' = w) \<or>
    (\<exists>i auth. same_cloud_job j i \<and>
       (let r = run_cloud_stages C i conn (parent_prefs j s) ledger
                  (fst (cloud_finding_keys proposal j ledger (parent_prefs j s))) auth w
        in pushes evs = pushes (cr_events r) \<and> w' = cr_rates r))"
proof -
  let ?p = "parent_prefs j s"
  obtain keys why where keys: "cloud_finding_keys proposal j ledger ?p = (keys, why)" by fastforce
  obtain parent s1 where par: "get_scm_job (j_run_id j) s = (parent, s1)" by fastforce
  then have p: "(case parent of None \<Rightarrow> builtin_agent_prefs | Some r \<Rightarrow> agent_prefs_from_summary r) = ?p"
    by (simp add: parent_prefs_def)
  note u = assms [unfolded run_cloud_agent_def par Let_def prod.case p keys]
  show ?thesis
  proof (cases "\<not> cloud_enabled ?p \<or> autofix_mode ?p = [] \<or> autofix_mode ?p = ''off'' \<or> keys = []")
    case True
    with u show ?thesis by (auto split: if_splits)
  next
    case on: False
    define j1 where "j1 = (if why \<noteq> [] then sset ''cloud_rationale'' (JStr why) j else j)"
    have s1: "same_cloud_job j j1" by (simp add: j1_def same_cloud_job_def)
    obtain denied j2 where d: "(if github_use_mock_api (cv_getenv C) conn then (None, j1)
        else ensure_github_write_allowed (cv_getenv C) j1 conn) = (denied, j2)" by fastforce
    then have s2: "same_cloud_job j j2"
      using same_cloud_job_trans [OF s1] ensure_write_same by (auto split: if_splits)
    note v = u [folded j1_def, unfolded d prod.case]
    show ?thesis
    proof (cases denied)
      case (Some e)
      with v on show ?thesis by auto
    next
      case None
      let ?i = "j2\<lparr>j_checks := AList.update ''autofix'' cid (j_checks j2)\<rparr>"
      have "same_cloud_job j ?i" using s2 by (simp add: same_cloud_job_def)
      with v on None keys show ?thesis
        by (intro disjI2 exI [of _ ?i] exI [of _ "str_from_any (sget ?i ''cloud_auth'')"])
          (auto simp: Let_def split: prod.splits if_splits)
    qed
  qed
qed

lemma gated_pushes:
  assumes "run_cloud_agent C proposal conn ledger cid j s w = (j', err, w', evs)"
    and "(b, q) \<in> set (pushes evs)"
  shows "\<exists>n. 1 \<le> n \<and> n \<le> cloud_max_iterations (cv_getenv C) \<and>
    gated_push C j conn (parent_prefs j s) ledger
      (fst (cloud_finding_keys proposal j ledger (parent_prefs j s))) n b q"
proof -
  let ?p = "parent_prefs j s" and ?m = "cloud_max_iterations (cv_getenv C)"
  let ?ks = "fst (cloud_finding_keys proposal j ledger ?p)"
  obtain i auth where same: "same_cloud_job j i"
    and evs: "pushes evs = pushes (cr_events (run_cloud_stages C i conn ?p ledger ?ks auth w))"
    using run_cloud_agent_stages [OF assms(1)] assms(2) by (auto simp: Let_def)
  have "adds_pushes (gated_push C i conn ?p ledger ?ks) [1..?m] []
      (cr_events (run_cloud_stages C i conn ?p ledger ?ks auth w))"
    unfolding run_cloud_stages_def Let_def by (rule stages_gated)
  then show ?thesis
    using assms(2) evs same_gated_push [OF same] by (fastforce simp: adds_pushes_def list_all_iff list_ex_iff)
qed

text \<open>
  C3: a patch leaves only through the gates.  Whatever the cloud agent pushes was captured in one
  of its at most three attempts; in that attempt auto-fix was on in branch mode for a GitHub App that
  covers the repository, the requested keys all named findings of the ledger at the threshold, the
  diff had passed the gate with the paths of those findings, again after the tests where those are
  on, and the job was alive at the start, before landing and before the push.
\<close>

theorem cloud_pushes_only_gated:
  assumes "run_cloud_agent C proposal conn ledger cid j s w = (j', err, w', evs)"
    and "(b, q) \<in> set (pushes evs)"
  shows "\<exists>i \<in> {1..3}. gated_push C j conn (parent_prefs j s) ledger
    (fst (cloud_finding_keys proposal j ledger (parent_prefs j s))) i b q"
  using gated_pushes [OF assms] cloud_max_bounds(2) [of "cv_getenv C"] by fastforce

text \<open>
  One request of the cloud agent pushes at most as often as it may try, three times at most,
  and is charged to the hourly limit of its own repository at most once.
\<close>

theorem cloud_run_bounded:
  assumes "run_cloud_agent C proposal conn ledger cid j s w = (j', err, w', evs)"
  shows "int (length (pushes evs)) \<le> cloud_max_iterations (cv_getenv C) \<and>
    cloud_max_iterations (cv_getenv C) \<le> 3 \<and> charged_once (cv_now C 1) (j_repo j) w w'"
proof -
  let ?p = "parent_prefs j s" and ?m = "cloud_max_iterations (cv_getenv C)"
  let ?ks = "fst (cloud_finding_keys proposal j ledger ?p)"
  consider "pushes evs = []" "w' = w"
    | (run) i auth where "same_cloud_job j i"
      "pushes evs = pushes (cr_events (run_cloud_stages C i conn ?p ledger ?ks auth w))"
      "w' = cr_rates (run_cloud_stages C i conn ?p ledger ?ks auth w)"
    using run_cloud_agent_stages [OF assms] by (auto simp: Let_def)
  then show ?thesis
  proof cases
    case 1
    then show ?thesis using cloud_max_bounds [of "cv_getenv C"] by (simp add: charged_once_def)
  next
    case run
    have "adds_pushes (gated_push C i conn ?p ledger ?ks) [1..?m] []
        (cr_events (run_cloud_stages C i conn ?p ledger ?ks auth w))"
      unfolding run_cloud_stages_def Let_def by (rule stages_gated)
    then have "int (length (pushes evs)) \<le> ?m"
      using run(2) cloud_max_bounds(1) [of "cv_getenv C"] by (auto simp: adds_pushes_def)
    moreover have "charged_once (cv_now C 1) (j_repo i) w w'"
      unfolding run(3) run_cloud_stages_def Let_def iterations_split [OF cloud_max_bounds(1)]
      by (rule stages_charged) simp
    ultimately show ?thesis using run(1) cloud_max_bounds(2) by (simp add: same_cloud_job_def)
  qed
qed

subsection \<open>Cancelled runs\<close>

lemma stopped_must_abort:
  assumes "store_ok s" "live_job (j_id j) s = Some l" "j_status l = ''cancelled'' \<or> is_true (sget l ''supersede_drain'')"
  shows "cloud_job_must_abort j s"
  using assms store_ok_id [OF assms(1,2)]
  by (auto simp: cloud_job_must_abort_def job_is_cancelled_def get_scm_job_ok Let_def split: prod.splits)

lemma cancelled_child:
  assumes "store_ok s" "card (in_flight_ids s) < fuel"
    and "live_job k s = Some r" "in_flight (j_status r)" "job_kind r = KRun"
    and "cancel_scm_job fuel env reason k s = Some (res, s')"
    and "c \<in> set (children_of k s)" "live_job c s = Some d" "in_flight (j_status d)" "j_id j = c"
  shows "cloud_job_must_abort j s'"
proof -
  from cancel_scm_job_spec [OF assms(1,2), of env reason k] assms(3-6)
  have post: "cancel_rel (cancel_reason reason) s s'"
    and kids: "\<forall>c \<in> set (children_of k s). \<forall>c'. live_job c s' = Some c' \<longrightarrow> stopped_or_draining (cancel_reason reason) c'"
    by (auto simp: cancel_post_def)
  obtain d' where d': "live_job c s' = Some d'" "cancel_step (cancel_reason reason) d d'"
    using cancel_rel_live [OF post assms(8)] by blast
  have "stopped_or_draining (cancel_reason reason) d'" using kids assms(7) d'(1) by blast
  then have "j_status d' = ''cancelled'' \<or> is_true (sget d' ''supersede_drain'')"
    using d'(2) assms(9) by (auto simp: stopped_or_draining_def cancel_step_def is_true_def)
  then show ?thesis using stopped_must_abort [OF cancel_rel_ok [OF post]] d'(1) assms(10) by blast
qed

text \<open>
  C24: a cancelled run pushes nothing more.  When a run is cancelled while its cloud child is in
  flight, no attempt of the cloud agent that looks at the store after the cancel pushes its patch.
\<close>

theorem cancelled_cloud_never_pushes:
  assumes "store_ok s" "card (in_flight_ids s) < fuel"
    and "live_job k s = Some r" "in_flight (j_status r)" "job_kind r = KRun"
    and "cancel_scm_job fuel env reason k s = Some (res, s')"
    and "c \<in> set (children_of k s)" "live_job c s = Some d" "in_flight (j_status d)" "j_id j = c"
    and "\<And>i. at_live_push (cv_attempt C i) = s'"
    and "run_cloud_agent C proposal conn ledger cid j t w = (j', err, w', evs)"
  shows "pushes evs = []"
proof (rule ccontr)
  assume "pushes evs \<noteq> []"
  then obtain b q where "(b, q) \<in> set (pushes evs)" by (cases "pushes evs") auto
  from gated_pushes [OF assms(12) this] have "\<not> cloud_job_must_abort j s'"
    using assms(11) by (auto simp: gated_push_def may_push_def)
  then show False using cancelled_child [OF assms(1-10)] by blast
qed

subsection \<open>Keys picked by the agent\<close>

definition norm_key :: "agent_finding \<Rightarrow> string" where
  "norm_key f = to_lower (trim_space (af_key f))"

lemma ledger_fold_distinct:
  "distinct (map norm_key fs) \<Longrightarrow> list_all (\<lambda>f. norm_key f \<noteq> []) fs \<Longrightarrow> f \<in> set fs \<Longrightarrow>
   fold (\<lambda>f m. let k = to_lower (trim_space (af_key f)) in if k = [] then m else m(k \<mapsto> f)) fs m (norm_key f) = Some f"
proof (induction fs arbitrary: m)
  case (Cons g fs)
  have other: "fold (\<lambda>f m. let k = to_lower (trim_space (af_key f)) in if k = [] then m else m(k \<mapsto> f)) hs m k = m k"
    if "k \<notin> norm_key ` set hs" for hs k and m :: "string \<rightharpoonup> agent_finding"
    using that by (induction hs arbitrary: m) (auto simp: norm_key_def Let_def)
  show ?case
  proof (cases "f \<in> set fs")
    case True
    with Cons show ?thesis by (simp add: Let_def)
  next
    case False
    with Cons.prems have "f = g" "norm_key f \<notin> norm_key ` set fs" by auto
    with Cons.prems show ?thesis using other [of "norm_key g" fs] by (simp add: norm_key_def Let_def)
  qed
qed simp

lemma select_all:
  "list_all (\<lambda>f. norm_key f \<noteq> [] \<and> m (norm_key f) = Some f \<and> fixable t f) fs \<Longrightarrow>
   select_findings m t (map af_key fs) = Inr fs"
  by (induction fs) (simp_all add: norm_key_def Let_def)

text \<open>
  The keys the cloud agent picks by itself are never refused.  For a ledger whose keys differ
  and are not blank, with something to fix in it, the authorisation of the picked keys fails only for
  a reason that has nothing to do with them, and selects exactly the findings at the threshold.
\<close>

theorem auto_keys_authorised:
  assumes "distinct (map norm_key ledger)" "list_all (\<lambda>f. norm_key f \<noteq> []) ledger"
    and "autofix_guard conn covers p repo (auto_keys ledger p) = None"
    and "charge \<Longrightarrow> fst (check_autofix_rate_limit getenv now repo w) = None"
  shows "\<exists>a w'. authorize_autofix_attempt getenv now conn covers p repo ledger (auto_keys ledger p) charge w = (Inr a, w') \<and>
    aa_findings a = filter (fixable (autofix_threshold p)) ledger"
proof -
  let ?fs = "filter (fixable (autofix_threshold p)) ledger"
  have "ledger_by_key ledger (norm_key f) = Some f" if "f \<in> set ledger" for f
    unfolding ledger_by_key_def by (rule ledger_fold_distinct [OF assms(1,2) that])
  then have sel: "select_findings (ledger_by_key ledger) (autofix_threshold p) (auto_keys ledger p) = Inr ?fs"
    unfolding auto_keys_def using assms(2) by (intro select_all) (auto simp: list_all_iff)
  have "auto_keys ledger p \<noteq> []" using assms(3) by (auto simp: autofix_guard_def Let_def split: if_splits)
  then have "?fs \<noteq> []" by (auto simp: auto_keys_def)
  with sel assms(3,4) show ?thesis
    by (cases charge) (auto simp: authorize_autofix_attempt_def split: prod.splits)
qed

subsection \<open>Samples\<close>

definition sample_cloud_job :: scm_job where
  "sample_cloud_job = (sample_job ''c1'' ''cloud'' ''r1'' ''old'' ''running'')
     \<lparr>j_run_id := ''r1'', j_checks := [(''autofix'', 9)], j_summary := [(''finding_keys'', JStrs [''k1''])]\<rparr>"

definition sample_cloud_store :: scm_state where
  "sample_cloud_store = store_of
     [(''r1'', sset ''prefs'' (JObj (prefs_obj branch_prefs)) (sample_job ''r1'' ''run'' [] ''old'' ''running'')),
      (''c1'', sample_cloud_job)]"

definition sample_diff :: "string \<Rightarrow> string" where
  "sample_diff path =
     join [CHR 0x0A] [''diff --git a/'' @ path @ '' b/'' @ path, ''--- a/'' @ path, ''+++ b/'' @ path, ''@@ -1 +1 @@'',
       ''-old'', ''+new'']"

definition sample_attempt :: "string \<Rightarrow> scm_state \<Rightarrow> attempt_env" where
  "sample_attempt path s =
     \<lparr>at_checkout = None, at_branch = None, at_tree = Inr (''/box'', 1), at_own_tree = True, at_tracked = None,
      at_agent = (\<lambda>_. None), at_sync = None, at_diff = Inr (sample_diff path), at_capture = Inr ''patch'',
      at_comment = (\<lambda>_. Inr 1), at_sandbox = ''docker'', at_verify = (''passed'', [], []),
      at_diff2 = sample_diff path, at_capture2 = Inr ''patch'', at_live_land = s, at_land_checkout = None,
      at_land_branch = None, at_apply = None, at_commit = Inr ''beef'', at_left_changes = False, at_live_push = s,
      at_push = None, at_pull = Some (''main'', ''topic''), at_create = (\<lambda>_. Inr (8, ''url'')),
      at_create_again = (\<lambda>_. Inl ''no''), at_closed = 1\<rparr>"

definition sample_cloud_env :: "bool \<Rightarrow> attempt_env \<Rightarrow> cloud_env" where
  "sample_cloud_env cred E =
     \<lparr>cv_getenv = (\<lambda>_. []), cv_now = (\<lambda>_. 0), cv_covers = (\<lambda>_ _. True), cv_has_cred = cred,
      cv_live = (\<lambda>_. sample_cloud_store), cv_attempt = (\<lambda>_. E)\<rparr>"

definition sample_ledger :: "agent_finding list" where
  "sample_ledger = [sample_finding ''k1'' ''high'', sample_finding ''k2'' ''low'']"

definition sample_cloud_run where
  "sample_cloud_run C = run_cloud_agent C (\<lambda>_. None) (Some sample_connector) sample_ledger 9
     sample_cloud_job sample_cloud_store (\<lambda>_. [])"

definition sample_auth :: autofix_auth where
  "sample_auth = \<lparr>aa_findings = [sample_finding ''k1'' ''high''], aa_mode = ''branch''\<rparr>"

lemma sample_authorised:
  "authorize_autofix_attempt (\<lambda>_. []) 0 (Some sample_connector) (\<lambda>_ _. True) branch_prefs ''o/r'' sample_ledger [''k1'']
     True (\<lambda>_. []) = (Inr sample_auth, (\<lambda>_. [])(''o/r'' := [0]))"
proof -
  have "autofix_guard (Some sample_connector) (\<lambda>_ _. True) branch_prefs ''o/r'' [''k1''] = None"
    "select_findings (ledger_by_key sample_ledger) (autofix_threshold branch_prefs) [''k1''] = Inr [sample_finding ''k1'' ''high'']"
    "to_lower (trim_space (autofix_mode branch_prefs)) = ''branch''" "to_lower (trim_space ''o/r'') = ''o/r''"
    "\<not> autofix_rate_limit_max (\<lambda>_. []) \<le> 0"
    by code_simp+
  then show ?thesis
    by (simp add: authorize_autofix_attempt_def check_autofix_rate_limit_def record_autofix_rate_def sample_auth_def)
qed

lemma sample_parent:
  "get_scm_job ''r1'' sample_cloud_store =
     (Some (sset ''prefs'' (JObj (prefs_obj branch_prefs)) (sample_job ''r1'' ''run'' [] ''old'' ''running'')), sample_cloud_store)"
  "agent_prefs_from_summary (sset ''prefs'' (JObj (prefs_obj branch_prefs)) (sample_job ''r1'' ''run'' [] ''old'' ''running'')) = branch_prefs"
  by (simp add: sample_cloud_store_def store_of_def get_scm_job_def live_job_def, code_simp)

lemma sample_facts:
  "cloud_finding_keys (\<lambda>_. None) sample_cloud_job sample_ledger branch_prefs = ([''k1''], [])"
  "github_use_mock_api (\<lambda>_. []) (Some sample_connector) = False" "cloud_max_iterations (\<lambda>_. []) = 3"
  "cloud_enabled branch_prefs = True" "autofix_mode branch_prefs = ''branch''"
  "authorize_github_write (\<lambda>_. []) (Some sample_connector) = Inr None"
  "cloud_job_must_abort sample_cloud_job sample_cloud_store = False"
  "j_run_id sample_cloud_job = ''r1''" "j_repo sample_cloud_job = ''o/r''"
  "sget sample_cloud_job ''cloud_auth'' = JNull"
  by code_simp+

lemma sample_checks: "sample_cloud_job\<lparr>j_checks := AList.update ''autofix'' 9 (j_checks sample_cloud_job)\<rparr> = sample_cloud_job"
  by (simp add: sample_cloud_job_def)

text \<open>A run whose first attempt completes, whatever the attempt was.\<close>

lemma sample_completed:
  assumes "run_one_cloud_attempt (\<lambda>_. []) cred sample_cloud_job (Some sample_connector) sample_auth branch_prefs 1 E = (tried, None, es)"
    and "jget tried ''status'' = JStr ''completed''"
  shows "\<exists>j' w' evs. sample_cloud_run (sample_cloud_env cred E) = (j', None, w', evs) \<and> pushes evs = pushes es"
proof -
  have "jget (oset ''iteration'' (JInt 1) tried) ''status'' = JStr ''completed''"
    using assms(2) by (simp add: oset_def jget_update)
  with assms(1) show ?thesis
    by (simp add: sample_cloud_run_def run_cloud_agent_def sample_cloud_env_def sample_facts sample_parent sample_checks
        ensure_github_write_allowed_def run_cloud_stages_def iterations_split Let_def sample_authorised split: prod.split)
qed

definition sample_try :: "bool \<Rightarrow> string \<Rightarrow> outcome" where
  "sample_try cred path = run_one_cloud_attempt (\<lambda>_. []) cred sample_cloud_job (Some sample_connector) sample_auth
     branch_prefs 1 (sample_attempt path sample_cloud_store)"

lemma sample_try_pushes:
  "pushes (snd (snd (sample_try True ''a.go''))) = [(''opa-fix/r1-1'', ''patch'')]"
  by code_simp

lemma sample_try_completes:
  "jget (fst (sample_try True ''a.go'')) ''status'' = JStr ''completed''" "fst (snd (sample_try True ''a.go'')) = None"
  by code_simp+

lemma sample_cloud_pushes:
  "\<exists>j' w' evs. sample_cloud_run (sample_cloud_env True (sample_attempt ''a.go'' sample_cloud_store)) = (j', None, w', evs) \<and>
     pushes evs = [(''opa-fix/r1-1'', ''patch'')]"
proof -
  obtain tried es where t: "sample_try True ''a.go'' = (tried, None, es)"
    using sample_try_completes(2) by (metis prod.collapse)
  then have "jget tried ''status'' = JStr ''completed''" "pushes es = [(''opa-fix/r1-1'', ''patch'')]"
    using sample_try_completes(1) sample_try_pushes by simp_all
  with sample_completed [OF t [unfolded sample_try_def]] show ?thesis by simp
qed

lemma cloud_pushes_only_gated_witness:
  "\<exists>i \<in> {1..3}. gated_push (sample_cloud_env True (sample_attempt ''a.go'' sample_cloud_store)) sample_cloud_job
     (Some sample_connector) (parent_prefs sample_cloud_job sample_cloud_store) sample_ledger
     (fst (cloud_finding_keys (\<lambda>_. None) sample_cloud_job sample_ledger (parent_prefs sample_cloud_job sample_cloud_store)))
     i ''opa-fix/r1-1'' ''patch''"
  using sample_cloud_pushes cloud_pushes_only_gated unfolding sample_cloud_run_def by (metis list.set_intros(1))

lemma cloud_run_bounded_witness:
  "\<exists>j' w' evs. sample_cloud_run (sample_cloud_env True (sample_attempt ''a.go'' sample_cloud_store)) = (j', None, w', evs) \<and>
     length (pushes evs) = 1 \<and> charged_once 0 ''o/r'' (\<lambda>_. []) w'"
proof -
  obtain j' w' evs where run: "sample_cloud_run (sample_cloud_env True (sample_attempt ''a.go'' sample_cloud_store)) =
      (j', None, w', evs)" "pushes evs = [(''opa-fix/r1-1'', ''patch'')]"
    using sample_cloud_pushes by blast
  from cloud_run_bounded [OF run(1) [unfolded sample_cloud_run_def]]
  have "charged_once 0 ''o/r'' (\<lambda>_. []) w'" by (simp add: sample_cloud_env_def sample_facts)
  with run show ?thesis by simp
qed

text \<open>
  Without a coding agent the attempt writes a note and nothing else; the note is landed and the
  comments of the findings are closed all the same.
\<close>

lemma note_closes_findings:
  "snd (snd (sample_try False ''.opa-review-autofix.md'')) =
     [CeNote (note_text (aa_findings sample_auth)), CeCommit ''OPA Auto-fix: 1 finding(s) from run r1'',
      CePush ''opa-fix/r1-1'' ''patch'',
      CePull (land_pr_title sample_auth) ''topic'' (land_pr_body sample_cloud_job sample_auth ''opa-fix/r1-1''),
      CeCloseFindings [''k1'']]"
  by code_simp

lemma auto_keys_authorised_witness:
  "\<exists>a w'. authorize_autofix_attempt (\<lambda>_. []) 0 (Some sample_connector) (\<lambda>_ _. True) branch_prefs ''o/r'' sample_ledger
       (auto_keys sample_ledger branch_prefs) True (\<lambda>_. []) = (Inr a, w') \<and> map af_key (aa_findings a) = [''k1'']"
proof -
  have pre: "distinct (map norm_key sample_ledger)" "list_all (\<lambda>f. norm_key f \<noteq> []) sample_ledger"
    "autofix_guard (Some sample_connector) (\<lambda>_ _. True) branch_prefs ''o/r'' (auto_keys sample_ledger branch_prefs) = None"
    "fst (check_autofix_rate_limit (\<lambda>_. []) 0 ''o/r'' (\<lambda>_. [])) = None"
    by code_simp+
  have "map af_key (filter (fixable (autofix_threshold branch_prefs)) sample_ledger) = [''k1'']" by code_simp
  with auto_keys_authorised [OF pre] show ?thesis by metis
qed

lemma cancelled_cloud_never_pushes_witness:
  "\<exists>s' j' err w' evs. cancel_scm_job 5 sample_env ''stop'' ''r1'' sample_store = Some (CancelOk, s') \<and>
     sample_cloud_run (sample_cloud_env True (sample_attempt ''a.go'' s')) = (j', err, w', evs) \<and> pushes evs = []"
proof -
  have r: "live_job ''r1'' sample_store = Some (sample_job ''r1'' ''run'' [] ''old'' ''running'')"
    "live_job ''c1'' sample_store = Some (sample_job ''c1'' ''cloud'' ''r1'' ''old'' ''running'')"
    by (simp_all add: live_job_def sample_store_def store_of_def sample_live_def)
  have f: "in_flight (j_status (sample_job ''r1'' ''run'' [] ''old'' ''running''))"
    "job_kind (sample_job ''r1'' ''run'' [] ''old'' ''running'') = KRun"
    "in_flight (j_status (sample_job ''c1'' ''cloud'' ''r1'' ''old'' ''running''))"
    "j_id sample_cloud_job = ''c1''" by code_simp+
  have c: "''c1'' \<in> set (children_of ''r1'' sample_store)"
    using r(2) by (simp add: children_iff [OF sample_store_ok] sample_job_def)
  obtain res s' where e: "cancel_scm_job 5 sample_env ''stop'' ''r1'' sample_store = Some (res, s')"
    using cancel_scm_job_spec [OF sample_store_ok sample_in_flight, of sample_env "''stop''" "''r1''"] by auto
  have "res = CancelOk"
    using cancel_scm_job_spec [OF sample_store_ok sample_in_flight, of sample_env "''stop''" "''r1''"] e r(1) f(1)
    by (auto simp: cancel_post_def)
  moreover obtain j' err w' evs where run:
    "sample_cloud_run (sample_cloud_env True (sample_attempt ''a.go'' s')) = (j', err, w', evs)" by (metis prod.collapse)
  moreover have "at_live_push (cv_attempt (sample_cloud_env True (sample_attempt ''a.go'' s')) i) = s'" for i
    by (simp add: sample_cloud_env_def sample_attempt_def)
  ultimately show ?thesis
    using cancelled_cloud_never_pushes
      [OF sample_store_ok sample_in_flight r(1) f(1,2) e c r(2) f(3,4) _ run [unfolded sample_cloud_run_def]] e
    by blast
qed

end
