(* ===== verification/Autofix_Laws.thy ===== *)
theory Autofix_Laws
  imports Autofix_Run Cloud_Laws Hook_Laws
begin

text \<open>
  What a requested auto-fix lets out: a push carries the patch that passed the gate, for a fix that was
  authorised in branch mode; and two things the run does that it should not.
\<close>

subsection \<open>A run\<close>

lemma pushes_fix_done [simp]: "pushes (fr_events (fix_done f e)) = []"
  by (simp add: fix_done_def)

lemma pushes_fix_failed [simp]: "pushes (fr_events (fix_failed l e f)) = []" "pushes (fr_events (fix_refused l e h f)) = []"
  by (simp_all add: fix_failed_def fix_refused_def)

lemma pushes_with_events [simp]: "pushes (fr_events (with_events evs h r)) = pushes evs @ pushes (fr_events r)"
  by (simp add: with_events_def)

lemma pushes_open_fix_pr [simp]: "pushes (fr_events (open_fix_pr parent A sk b f)) = []"
  by (auto simp: open_fix_pr_def Let_def split: sum.split prod.split)

lemma pushes_push_fix:
  "pushes (fr_events (push_fix parent conn A sk b q f)) \<noteq> [] \<Longrightarrow>
     pushes (fr_events (push_fix parent conn A sk b q f)) = [(b, q)] \<and> (\<exists>c. conn = Some c \<and> cn_kind c = ''github_app'')"
  by (auto simp: push_fix_def authorize_git_push_None split: option.splits)

lemma pushes_land_fix:
  assumes "pushes (fr_events (land_fix parent conn mock A sk b q f)) \<noteq> []"
  shows "pushes (fr_events (land_fix parent conn mock A sk b q f)) = [(b, q)] \<and> \<not> mock \<and>
    (\<exists>c. conn = Some c \<and> cn_kind c = ''github_app'')"
  using assms
  by (auto simp: land_fix_def Let_def dest: pushes_push_fix split: option.splits sum.splits if_splits)

lemma pushes_fix_patch:
  "fix_patch getenv mock sk A f = Inl r \<Longrightarrow> pushes (fr_events r) = []"
  "fix_patch getenv mock sk A f = Inr (g, evs, h) \<Longrightarrow>
     pushes evs = [] \<and> fx_findings g = fx_findings f \<and> fx_mode g = fx_mode f"
  by (auto simp: fix_patch_def Let_def split: if_splits sum.splits option.splits)

lemma fix_gate_Inl: "fix_gate getenv relaxed A f = Inl r \<Longrightarrow> pushes (fr_events r) = []"
  by (auto simp: fix_gate_def Let_def split: sum.splits option.splits if_splits)

text \<open>The patch that is captured after the gate let the changes of the tree through.\<close>

definition fix_gated :: "genv \<Rightarrow> bool \<Rightarrow> fix_answers \<Rightarrow> auto_fix \<Rightarrow> string \<Rightarrow> bool" where
  "fix_gated getenv skipped A f q \<longleftrightarrow>
     at_capture A = Inr q \<and> trim_space q \<noteq> [] \<and> (skipped \<or> fix_allowlist (fx_findings f) \<noteq> []) \<and>
     (\<exists>diff. at_diff A = Inr diff \<and>
        gate_cloud_diff getenv (parse_cloud_diff_changes diff) (if skipped then [] else fix_allowlist (fx_findings f))
          (default_cloud_diff_caps getenv) = None)"

lemma fix_gate_Inr: "fix_gate getenv sk A f = Inr q \<Longrightarrow> fix_gated getenv sk A f q"
  by (auto simp: fix_gate_def fix_gated_def Let_def split: sum.splits option.splits if_splits)

lemma run_auto_fix_pushes:
  assumes "pushes (fr_events (run_auto_fix getenv cred parent conn A f)) \<noteq> []"
  shows "\<exists>q. pushes (fr_events (run_auto_fix getenv cred parent conn A f)) = [(fix_branch parent, q)] \<and>
    autofix_should_land (fx_mode f) \<and> \<not> github_use_mock_api getenv conn \<and>
    (\<exists>c. conn = Some c \<and> cn_kind c = ''github_app'') \<and> fix_gated getenv (skipped_ai getenv cred) A f q"
proof -
  let ?mock = "github_use_mock_api getenv conn" and ?sk = "skipped_ai getenv cred"
  let ?f = "f\<lparr>fx_branch := fix_branch parent\<rparr>"
  note u = assms [unfolded run_auto_fix_def Let_def]
  have start: "\<not> (fst (split_owner_repo (j_repo parent)) = [] \<or> snd (split_owner_repo (j_repo parent)) = [])"
    "(if ?mock then None else at_checkout A) = None" "at_branch A = None"
    using u by (auto split: prod.splits option.splits if_splits)
  obtain g evs h where p: "fix_patch getenv ?mock ?sk A ?f = Inr (g, evs, h)"
    using u start pushes_fix_patch(1) [of getenv ?mock ?sk A ?f]
    by (cases "fix_patch getenv ?mock ?sk A ?f") (auto split: prod.splits if_splits)
  note g = pushes_fix_patch(2) [OF p]
  obtain q where q: "fix_gate getenv (?sk \<or> ?mock) A g = Inr q"
    using u start p g fix_gate_Inl [of getenv "?sk \<or> ?mock" A g]
    by (cases "fix_gate getenv (?sk \<or> ?mock) A g") (auto split: prod.splits)
  have run: "run_auto_fix getenv cred parent conn A f = with_events evs h
      (if \<not> autofix_should_land (fx_mode g) then
         fix_done (completed_unless_skipped (add_honesty (''; suggest mode '' @ em_dash @ '' proposal recorded, no land'') g)) None
       else land_fix parent conn ?mock A ?sk (fix_branch parent) q g)"
    using start p q by (simp add: run_auto_fix_def Let_def case_prod_beta)
  have mode: "autofix_should_land (fx_mode f)" using assms g by (simp add: run split: if_splits)
  then have "pushes (fr_events (land_fix parent conn ?mock A ?sk (fix_branch parent) q g)) \<noteq> []"
    using assms g by (simp add: run)
  note l = pushes_land_fix [OF this]
  have "fix_gated getenv ?sk A g q" using fix_gate_Inr [OF q] l by simp
  moreover have "fx_findings g = fx_findings f" using g by simp
  ultimately have "fix_gated getenv ?sk A f q" unfolding fix_gated_def by metis
  then show ?thesis using l g mode by (auto simp: run)
qed

subsection \<open>A request\<close>

text \<open>The findings of a fix are under the keys of the request.\<close>

definition under_keys :: "string list \<Rightarrow> string list \<Rightarrow> bool" where
  "under_keys keys ks \<longleftrightarrow>
     (\<forall>k \<in> set ks. \<exists>r \<in> set keys. to_lower (trim_space k) = to_lower (trim_space r))"

lemma trim_lower: "trim_space (to_lower k) = to_lower (trim_space k)"
  by (simp add: trim_space_to_lower)

lemma lower_trim_of: "to_lower k = to_lower (trim_space r) \<Longrightarrow> to_lower (trim_space k) = to_lower (trim_space r)"
  by (metis trim_lower trim_space_idem)

lemma filter_under_keys:
  "under_keys keys (map (key_of_finding h) (filter_findings_by_keys h fs keys))"
  by (auto simp: under_keys_def filter_findings_by_keys_def Let_def trim_lower intro!: lower_trim_of)

text \<open>
  What a queued fix was authorised for: auto-fix is on in the mode of the fix, the connector is a
  GitHub App that covers the repository, the requested keys pick entries of the ledger at the threshold
  or above, and the findings of the fix are the ones under those keys.
\<close>

definition fix_authorised :: "hook_env \<Rightarrow> fix_env \<Rightarrow> scm_job \<Rightarrow> string list \<Rightarrow> auto_fix \<Rightarrow> hook_state \<Rightarrow> bool" where
  "fix_authorised E F parent keys f w \<longleftrightarrow>
     (\<exists>p ledger picked co s.
        p = fst (fst (resolve_agent_prefs (he_prefs E) (hs_prefs w) (j_org parent) (j_proj parent) (j_conn parent) (j_repo parent))) \<and>
        cloud_enabled p \<and> fx_mode f = to_lower (trim_space (autofix_mode p)) \<and> fx_mode f \<in> {''suggest'', ''branch''} \<and>
        fe_covers F (Some co) (j_repo parent) \<and> cn_kind co = ''github_app'' \<and>
        ledger = ledger_from_parent E F parent s \<and>
        select_findings (ledger_by_key ledger) (autofix_threshold p) keys = Inr picked \<and> picked \<noteq> [] \<and>
        list_all (fixable (autofix_threshold p)) picked \<and>
        fx_findings f \<noteq> [] \<and> (under_keys keys (fx_keys f) \<or> fx_findings f = findings_from_ledger ledger keys))"

lemma on_conns_prefs [simp]: "hs_prefs (snd (on_conns f w)) = hs_prefs w"
  by (simp add: on_conns_def case_prod_beta)

lemma enqueued_fix_authorised:
  assumes "enqueue_auto_fix E F parent keys create direct (w, rates) = (Inr f, w', rates')"
  shows "fix_authorised E F parent keys f w"
proof -
  let ?w = "snd (on_conns (get_or_hydrate (he_conn E) (j_conn parent)) w)"
  let ?co = "fst (on_conns (get_or_hydrate (he_conn E) (j_conn parent)) w)"
  let ?ps = "resolve_agent_prefs (he_prefs E) (hs_prefs w) (j_org parent) (j_proj parent) (j_conn parent) (j_repo parent)"
  let ?p = "fst (fst ?ps)"
  let ?led = "ledger_from_parent E F parent (hs_jobs ?w)"
  obtain auth rates2 where au: "authorize_autofix_request (he_getenv E) (fe_now F) (map_option connector.truncate ?co)
      (fe_covers F) ?p (j_repo parent) ?led keys rates = (auth, rates2)"
    by (cases "authorize_autofix_request (he_getenv E) (fe_now F) (map_option connector.truncate ?co)
      (fe_covers F) ?p (j_repo parent) ?led keys rates")
  note u = assms [unfolded enqueue_auto_fix_def prod.case Let_def case_prod_beta]
  obtain ok where ok: "auth = Inr ok" using u au by (cases auth) (auto split: if_splits)
  note acc = autofix_accepted [OF au [unfolded ok authorize_autofix_request_def]]
  have guard: "cloud_enabled ?p \<and> to_lower (trim_space (autofix_mode ?p)) \<in> {''suggest'', ''branch''}"
    using acc autofix_guard_None by metis
  obtain co where co: "fe_covers F (Some co) (j_repo parent)" "cn_kind co = ''github_app''"
    using acc autofix_guard_None by metis
  let ?h = "e_sha1hex (he_orch E)"
  let ?fs = "filter_findings_by_keys ?h (scm_job_findings ?h (fe_object F) parent) keys"
  let ?all = "if ?fs = [] then findings_from_ledger ?led keys else ?fs"
  have f: "f = fix_record E parent (fix_mode ?p) (map (key_of_finding ?h) ?all) ?all create direct" "?all \<noteq> []"
    using u au ok by (simp_all split: if_splits)
  have "under_keys keys (fx_keys f) \<or> fx_findings f = findings_from_ledger ?led keys"
    using filter_under_keys [of keys ?h "scm_job_findings ?h (fe_object F) parent"] by (auto simp: f(1) fix_record_def)
  moreover have "fx_findings f \<noteq> []" using f(2) by (simp add: f(1) fix_record_def)
  moreover have "fx_mode f = to_lower (trim_space (autofix_mode ?p))" "fx_mode f \<in> {''suggest'', ''branch''}"
    using guard by (auto simp: f(1) fix_record_def fix_mode_def Let_def)
  moreover have "select_findings (ledger_by_key ?led) (autofix_threshold ?p) keys = Inr (aa_findings ok)" "aa_findings ok \<noteq> []"
    using acc by auto
  moreover have "list_all (fixable (autofix_threshold ?p)) (aa_findings ok)" using select_findings_Inr calculation(5) by blast
  ultimately show ?thesis unfolding fix_authorised_def using guard co by blast
qed

lemma push_member: "(CePush b q \<in> set evs) = ((b, q) \<in> set (pushes evs))"
  by (induction evs) (auto split: cloud_event.split simp: pushes_def map_filter_def)

text \<open>
  C6: a requested auto-fix pushes only what was authorised and gated.  When the run of a queued fix
  pushes a patch, the request was authorised (auto-fix on, the connector a GitHub App that covers the
  repository, the keys naming entries of the ledger at the threshold or above), the mode is branch,
  the branch is the one of the run, the connector that pushes is a GitHub App outside the mock API, and
  the patch is the one captured after the gate let the changes through: within the files of the
  findings, unless the agent was skipped.
\<close>

theorem autofix_pushes_only_authorised:
  assumes "enqueue_auto_fix E F parent keys create direct (w, rates) = (Inr f, w', rates')"
    and "CePush b q \<in> set (fr_events (run_auto_fix getenv cred job conn A (f\<lparr>fx_status := st, fx_honesty := h\<rparr>)))"
  shows "fix_authorised E F parent keys f w \<and> fx_mode f = ''branch'' \<and> b = fix_branch job \<and>
    (\<exists>c. conn = Some c \<and> cn_kind c = ''github_app'') \<and> \<not> github_use_mock_api getenv conn \<and>
    fix_gated getenv (skipped_ai getenv cred) A f q"
proof -
  let ?g = "f\<lparr>fx_status := st, fx_honesty := h\<rparr>"
  have p: "(b, q) \<in> set (pushes (fr_events (run_auto_fix getenv cred job conn A ?g)))" using assms(2) by (simp add: push_member)
  then have "pushes (fr_events (run_auto_fix getenv cred job conn A ?g)) \<noteq> []" by auto
  from run_auto_fix_pushes [OF this] obtain r where r: "pushes (fr_events (run_auto_fix getenv cred job conn A ?g)) = [(fix_branch job, r)]"
      "autofix_should_land (fx_mode f)" "\<not> github_use_mock_api getenv conn"
      "\<exists>c. conn = Some c \<and> cn_kind c = ''github_app''" "fix_gated getenv (skipped_ai getenv cred) A ?g r"
    by auto
  have a: "fix_authorised E F parent keys f w" using enqueued_fix_authorised [OF assms(1)] .
  then have "fx_mode f \<in> {''suggest'', ''branch''}" by (auto simp: fix_authorised_def)
  moreover have "\<not> autofix_should_land ''suggest''" by code_simp
  ultimately have "fx_mode f = ''branch''" using r(2) by auto
  then show ?thesis using a p r by (auto simp: fix_gated_def)
qed

subsection \<open>Cases\<close>

text \<open>A fix of one finding, by the connector and watch of a delivery that works.\<close>

definition fix_job :: scm_job where
  "fix_job = (sample_job ''r1'' ''run'' [] ''c0ffee'' ''completed'')\<lparr>j_org := ''acme'', j_conn := ''conn-1'', j_run_id := ''r1''\<rparr>"

definition fix_world :: fix_env where
  "fix_world =
     \<lparr>fe_now = 0, fe_covers = (\<lambda>_ _. True), fe_object = (\<lambda>_. []), fe_ledger = (\<lambda>_. Some [sample_finding ''k1'' ''high'']),
      fe_review = (\<lambda>_. empty_review), fe_security = (\<lambda>_ _. []), fe_no_review = empty_review\<rparr>"

definition fix_run :: "string \<Rightarrow> fix_answers" where
  "fix_run path = attempt_env.extend (sample_attempt path (store_of [])) (fix_answers.fields [] ''beef'')"

definition fix_queued :: auto_fix where
  "fix_queued = projr (fst (enqueue_auto_fix demo_hooks fix_world fix_job [''k1''] True False (demo_state, \<lambda>_. [])))"

definition fix_ran :: "bool \<Rightarrow> string \<Rightarrow> fix_result" where
  "fix_ran cred path =
     run_auto_fix demo_getenv cred fix_job (Some (connector.truncate demo_conn)) (fix_run path)
       (fix_queued\<lparr>fx_status := ''running'', fx_honesty := []\<rparr>)"

lemma fix_is_queued:
  "\<exists>st. enqueue_auto_fix demo_hooks fix_world fix_job [''k1''] True False (demo_state, \<lambda>_. []) = (Inr fix_queued, st)"
proof -
  have "\<not> isl (fst (enqueue_auto_fix demo_hooks fix_world fix_job [''k1''] True False (demo_state, \<lambda>_. [])))" by code_simp
  then have "fst (enqueue_auto_fix demo_hooks fix_world fix_job [''k1''] True False (demo_state, \<lambda>_. [])) = Inr fix_queued"
    by (simp add: fix_queued_def)
  then show ?thesis by (metis prod.collapse)
qed

theorem autofix_pushes_only_authorised_witness:
  "fix_authorised demo_hooks fix_world fix_job [''k1''] fix_queued demo_state"
proof -
  obtain w r where q: "enqueue_auto_fix demo_hooks fix_world fix_job [''k1''] True False (demo_state, \<lambda>_. []) = (Inr fix_queued, w, r)"
    using fix_is_queued by auto
  have "pushes (fr_events (fix_ran True ''a.go'')) = [(''opa-fix/r1-1'', ''patch'')]" by code_simp
  then have "CePush ''opa-fix/r1-1'' ''patch'' \<in> set (fr_events (fix_ran True ''a.go''))" by (simp add: push_member)
  from autofix_pushes_only_authorised [OF q this [unfolded fix_ran_def]] show ?thesis by simp
qed

text \<open>
  Without a credential of the coding agent the run pushes its note, opens a pull request for it and
  closes the comments of findings it did not touch, with the fix shown as skipped.
\<close>

lemma skipped_fix_closes_findings:
  "fx_status (fr_fix (fix_ran False ''.opa-review-autofix.md'')) = ''skipped'' \<and>
   pushes (fr_events (fix_ran False ''.opa-review-autofix.md'')) = [(''opa-fix/r1-1'', ''patch'')] \<and>
   CeCloseFindings [''k1''] \<in> set (fr_events (fix_ran False ''.opa-review-autofix.md''))"
proof -
  have "fx_status (fr_fix (fix_ran False ''.opa-review-autofix.md'')) = ''skipped''"
    "pushes (fr_events (fix_ran False ''.opa-review-autofix.md'')) = [(''opa-fix/r1-1'', ''patch'')]"
    "list_ex (\<lambda>e. e = CeCloseFindings [''k1'']) (fr_events (fix_ran False ''.opa-review-autofix.md''))"
    by code_simp+
  then show ?thesis by (auto simp: list_ex_iff)
qed

text \<open>
  The follow-up reviews supersede what is in flight for the pull request, and the fix that asks for
  them is: a running fix of that pull request is cancelled by its own follow-ups.
\<close>

lemma persist_keeps_fixes [simp]: "sc_autofix (persist_scm_job env j s) = sc_autofix s"
  by (simp add: persist_scm_job_def log_effect_def store_live_def Let_def)

lemma get_keeps_fixes [simp]: "sc_autofix (snd (get_scm_job k s)) = sc_autofix s"
  by (auto simp: get_scm_job_def store_live_def split: option.split)

lemma cancel_auto_fix_fixes:
  "sc_autofix (cancel_auto_fix env repo pr reason f s) = sc_autofix s \<or>
   (\<exists>g. sc_autofix (cancel_auto_fix env repo pr reason f s) = AList.update (fx_id f) g (sc_autofix s) \<and> fx_status g = ''cancelled'')"
  by (auto simp: cancel_auto_fix_def persist_auto_fix_on_parent_def Let_def case_prod_beta split: option.split)

definition fix_cancelled :: "string \<Rightarrow> scm_state \<Rightarrow> bool" where
  "fix_cancelled k s \<longleftrightarrow> (\<exists>g. map_of (sc_autofix s) k = Some g \<and> fx_status g = ''cancelled'')"

lemma cancel_keeps_cancelled: "fix_cancelled k s \<Longrightarrow> fix_cancelled k (cancel_auto_fix env repo pr reason f s)"
  using cancel_auto_fix_fixes [of env repo pr reason f s] by (auto simp: fix_cancelled_def update_conv')

lemma cancel_fold_cancelled: "fix_cancelled k s \<Longrightarrow> fix_cancelled k (fold (cancel_auto_fix env repo pr reason) fs s)"
  by (induction fs arbitrary: s) (auto intro: cancel_keeps_cancelled)

lemma cancel_in_flight_fix:
  assumes "equal_fold (fx_repo f) repo" "fx_base_pr f = pr" "to_lower (fx_status f) \<in> {''queued'', ''running''}"
  shows "fix_cancelled (fx_id f) (cancel_auto_fix env repo pr reason f s)"
  using assms
  by (auto simp: cancel_auto_fix_def persist_auto_fix_on_parent_def fix_cancelled_def Let_def case_prod_beta update_conv'
      split: option.split)

lemma cancel_fold_member:
  "f \<in> set fs \<Longrightarrow> equal_fold (fx_repo f) repo \<Longrightarrow> fx_base_pr f = pr \<Longrightarrow>
     to_lower (fx_status f) \<in> {''queued'', ''running''} \<Longrightarrow>
     fix_cancelled (fx_id f) (fold (cancel_auto_fix env repo pr reason) fs s)"
  by (induction fs arbitrary: s) (auto intro: cancel_fold_cancelled cancel_in_flight_fix)

lemma follow_up_cancels_own_fix:
  assumes "map_of (sc_autofix s) k = Some f" "fx_id f = k" "equal_fold (fx_repo f) repo" "fx_base_pr f = pr"
    and "fx_status f = ''running''"
  shows "fix_cancelled k (cancel_in_flight_auto_fixes env repo pr reason s)"
proof -
  have "f \<in> set (map snd (sc_autofix s))" using map_of_SomeD [OF assms(1)] by force
  moreover have "to_lower (fx_status f) \<in> {''queued'', ''running''}" unfolding assms(5) by code_simp
  ultimately show ?thesis
    using cancel_fold_member [OF _ assms(3,4)] assms(2) by (auto simp: cancel_in_flight_auto_fixes_def)
qed

end
