(* ===== verification/Job_Tree.thy ===== *)
theory Job_Tree
  imports Go_Path
begin

text \<open>
  The trees of a job (\<^verbatim>\<open>src/job_tree.go\<close>): the sandbox tree that is cut from the checkout and the way
  back, on a file system with directories, regular files and symbolic links.  A path is the list of its
  names from the root.  Permission bits are left out, and \<^verbatim>\<open>filepath.Walk\<close> is taken to list the names
  that were there when it started.
\<close>

subsection \<open>The file system\<close>

type_synonym fpath = "string list"

text \<open>The target of a link is its absolute path.\<close>

datatype node = Dir | File string | Link fpath

datatype errno = ENoEnt | ENotDir | ELoop | EIsDir | EExist | ESameTree | EParity nat nat | EGit string

type_synonym fsys = "(fpath \<times> node) list"

definition entry :: "fsys \<Rightarrow> fpath \<Rightarrow> node option" where
  "entry fs p = (if p = [] then Some Dir else map_of fs p)"

text \<open>Following the links of a path, at most \<open>n\<close> of them.\<close>

fun resolve :: "nat \<Rightarrow> fsys \<Rightarrow> fpath \<Rightarrow> fpath \<Rightarrow> errno + fpath" where
  "resolve n fs d [] = Inr d"
| "resolve n fs d (x # xs) =
     (case entry fs (d @ [x]) of
        None \<Rightarrow> Inl ENoEnt
      | Some Dir \<Rightarrow> resolve n fs (d @ [x]) xs
      | Some (File _) \<Rightarrow> (if xs = [] then Inr (d @ [x]) else Inl ENotDir)
      | Some (Link t) \<Rightarrow> (case n of 0 \<Rightarrow> Inl ELoop | Suc m \<Rightarrow> resolve m fs [] (t @ xs)))"

definition link_budget :: nat where "link_budget = 40"

definition stat :: "fsys \<Rightarrow> fpath \<Rightarrow> errno + node" where
  "stat fs p =
     (case resolve link_budget fs [] p of
        Inl e \<Rightarrow> Inl e
      | Inr q \<Rightarrow> (case entry fs q of None \<Rightarrow> Inl ENoEnt | Some x \<Rightarrow> Inr x))"

text \<open>Where opening a path for writing ends: a link at the end is followed, to a new file too.\<close>

fun place :: "nat \<Rightarrow> fsys \<Rightarrow> fpath \<Rightarrow> errno + fpath" where
  "place n fs p =
     (if p = [] then Inl EIsDir
      else case resolve n fs [] (butlast p) of
        Inl e \<Rightarrow> Inl e
      | Inr d \<Rightarrow>
          (case entry fs d of
             Some Dir \<Rightarrow>
               (case entry fs (d @ [last p]) of
                  Some (Link t) \<Rightarrow> (case n of 0 \<Rightarrow> Inl ELoop | Suc m \<Rightarrow> place m fs t)
                | _ \<Rightarrow> Inr (d @ [last p]))
           | _ \<Rightarrow> Inl ENotDir))"

declare place.simps [simp del]

definition write_file :: "fpath \<Rightarrow> string \<Rightarrow> fsys \<Rightarrow> errno option \<times> fsys" where
  "write_file p c fs =
     (case place link_budget fs p of
        Inl e \<Rightarrow> (Some e, fs)
      | Inr q \<Rightarrow> (if entry fs q = Some Dir then (Some EIsDir, fs) else (None, AList.update q (File c) fs)))"

definition mkdir :: "fpath \<Rightarrow> fsys \<Rightarrow> errno option \<times> fsys" where
  "mkdir p fs =
     (case resolve link_budget fs [] (butlast p) of
        Inl e \<Rightarrow> (Some e, fs)
      | Inr d \<Rightarrow>
          (if entry fs d \<noteq> Some Dir then (Some ENotDir, fs)
           else if entry fs (d @ [last p]) \<noteq> None then (Some EExist, fs)
           else (None, AList.update (d @ [last p]) Dir fs)))"

fun mkdir_all :: "fpath \<Rightarrow> fpath \<Rightarrow> fsys \<Rightarrow> errno option \<times> fsys" where
  "mkdir_all d [] fs = (None, fs)"
| "mkdir_all d (x # xs) fs =
     (case stat fs (d @ [x]) of
        Inr Dir \<Rightarrow> mkdir_all (d @ [x]) xs fs
      | Inr _ \<Rightarrow> (Some ENotDir, fs)
      | Inl _ \<Rightarrow>
          (case mkdir (d @ [x]) fs of
             (Some e, fs) \<Rightarrow> (Some e, fs)
           | (None, fs) \<Rightarrow> mkdir_all (d @ [x]) xs fs))"

text \<open>\<^verbatim>\<open>os.Remove\<close> (its error is ignored) and \<^verbatim>\<open>os.RemoveAll\<close> of a path without links above it.\<close>

definition strictly_below :: "fpath \<Rightarrow> fpath \<Rightarrow> bool" where
  "strictly_below root p \<longleftrightarrow> length root < length p \<and> take (length root) p = root"

definition remove_path :: "fpath \<Rightarrow> fsys \<Rightarrow> fsys" where
  "remove_path p fs =
     (if p = [] then fs
      else case resolve link_budget fs [] (butlast p) of
        Inl _ \<Rightarrow> fs
      | Inr d \<Rightarrow>
          (let q = d @ [last p]
           in if entry fs q = Some Dir \<and> list_ex (\<lambda>e. strictly_below q (fst e)) fs then fs
              else AList.delete q fs))"

definition remove_all :: "fpath \<Rightarrow> fsys \<Rightarrow> fsys" where
  "remove_all p fs = filter (\<lambda>e. fst e \<noteq> p \<and> \<not> strictly_below p (fst e)) fs"

text \<open>The names below a directory in the order of \<^verbatim>\<open>filepath.Walk\<close>.\<close>

definition walk :: "fsys \<Rightarrow> fpath \<Rightarrow> fpath list" where
  "walk fs root =
     sort (remdups (map (drop (length root)) (filter (strictly_below root) (map fst fs))))"

subsection \<open>Copying and counting\<close>

text \<open>\<^verbatim>\<open>copyTreeFiles\<close>: everything but the top \<^verbatim>\<open>.git\<close>; links are left out.\<close>

definition copy_entry :: "fpath \<Rightarrow> fpath \<Rightarrow> fpath \<Rightarrow> nat \<times> errno option \<times> fsys \<Rightarrow> nat \<times> errno option \<times> fsys" where
  "copy_entry src dst r st =
     (case st of
        (n, Some e, fs) \<Rightarrow> (n, Some e, fs)
      | (n, None, fs) \<Rightarrow>
          (case entry fs (src @ r) of
             None \<Rightarrow> (n, Some ENoEnt, fs)
           | Some Dir \<Rightarrow> (let (e, fs) = mkdir_all [] (dst @ r) fs in (n, e, fs))
           | Some (Link _) \<Rightarrow> (n, None, fs)
           | Some (File c) \<Rightarrow>
               (case mkdir_all [] (dst @ butlast r) fs of
                  (Some e, fs) \<Rightarrow> (n, Some e, fs)
                | (None, fs) \<Rightarrow>
                    (case write_file (dst @ r) c fs of
                       (Some e, fs) \<Rightarrow> (n, Some e, fs)
                     | (None, fs) \<Rightarrow> (n + 1, None, fs)))))"

definition copied_names :: "fsys \<Rightarrow> fpath \<Rightarrow> fpath list" where
  "copied_names fs src = filter (\<lambda>r. hd r \<noteq> ''.git'') (walk fs src)"

definition copy_tree_files :: "fpath \<Rightarrow> fpath \<Rightarrow> fsys \<Rightarrow> nat \<times> errno option \<times> fsys" where
  "copy_tree_files src dst fs =
     (if entry fs src = None then (0, Some ENoEnt, fs)
      else fold (copy_entry src dst) (copied_names fs src) (0, None, fs))"

definition is_file :: "node option \<Rightarrow> bool" where
  "is_file x \<longleftrightarrow> (case x of Some (File _) \<Rightarrow> True | _ \<Rightarrow> False)"

definition count_files_under :: "fpath \<Rightarrow> fsys \<Rightarrow> nat" where
  "count_files_under root fs = length (filter (\<lambda>r. is_file (entry fs (root @ r))) (walk fs root))"

text \<open>The names in the output of \<^verbatim>\<open>git ls-files -z\<close>; none when the output is empty.\<close>

definition git_names :: "string \<Rightarrow> string list" where
  "git_names out = filter (\<lambda>p. p \<noteq> []) (map trim_space (split_on (CHR 0x00) out))"

definition segments :: "string \<Rightarrow> fpath" where
  "segments p = filter (\<lambda>s. s \<noteq> []) (split_on (CHR ''/'') p)"

definition tracked_rel_paths :: "string \<Rightarrow> fpath list option" where
  "tracked_rel_paths out = (if out = [] then None else Some (map segments (git_names out)))"

subsection \<open>The sandbox tree and the way back\<close>

text \<open>
  What git answers: the listing of a worktree, and the file system after \<^verbatim>\<open>git checkout-index -a\<close> of
  a worktree with a prefix.
\<close>

record git_tree =
  gt_ls :: "fsys \<Rightarrow> fpath \<Rightarrow> string + string"
  gt_checkout :: "fpath \<Rightarrow> fpath \<Rightarrow> fsys \<Rightarrow> string option \<times> fsys"

definition materialize_index :: "git_tree \<Rightarrow> fpath \<Rightarrow> fpath \<Rightarrow> fsys \<Rightarrow> nat \<times> errno option \<times> fsys" where
  "materialize_index G src dst fs =
     (case mkdir_all [] dst fs of
        (Some e, fs) \<Rightarrow> (0, Some e, fs)
      | (None, fs) \<Rightarrow>
          (case gt_ls G fs src of
             Inl e \<Rightarrow> (0, Some (EGit e), fs)
           | Inr out \<Rightarrow>
               (let want = length (git_names out)
                in case gt_checkout G src dst fs of
                     (Some e, fs) \<Rightarrow> (0, Some (EGit e), fs)
                   | (None, fs) \<Rightarrow>
                       (let got = count_files_under dst fs
                        in (got, if want \<noteq> got then Some (EParity want got) else None, fs)))))"

definition materialize_sandbox :: "git_tree \<Rightarrow> fpath \<Rightarrow> fpath \<Rightarrow> fsys \<Rightarrow> nat \<times> errno option \<times> fsys" where
  "materialize_sandbox G container primary fs =
     (let sandbox = container @ [''sandbox'']; fs = remove_all sandbox fs
      in case mkdir_all [] sandbox fs of
           (Some e, fs) \<Rightarrow> (0, Some e, fs)
         | (None, fs) \<Rightarrow>
             (if \<not> isl (stat fs (primary @ [''.git''])) then
                (case materialize_index G primary sandbox fs of
                   (n, Some e, fs) \<Rightarrow> (n, Some e, fs)
                 | (n, None, fs) \<Rightarrow> (n, None, remove_all (sandbox @ [''.git'']) fs))
              else copy_tree_files primary sandbox fs))"

text \<open>A tracked file the sandbox no longer has is removed.\<close>

definition drop_missing :: "fpath \<Rightarrow> fpath \<Rightarrow> fpath \<Rightarrow> fsys \<Rightarrow> fsys" where
  "drop_missing sandbox primary r fs =
     (if stat fs (sandbox @ r) = Inl ENoEnt then remove_path (primary @ r) fs else fs)"

definition sync_names :: "git_tree \<Rightarrow> fpath \<Rightarrow> fpath list option \<Rightarrow> fsys \<Rightarrow> fpath list" where
  "sync_names G primary tracked fs =
     (case tracked of
        Some ts \<Rightarrow> ts
      | None \<Rightarrow>
          (case gt_ls G fs primary of
             Inl _ \<Rightarrow> []
           | Inr out \<Rightarrow> (case tracked_rel_paths out of None \<Rightarrow> [] | Some ts \<Rightarrow> ts)))"

definition sync_sandbox_tree ::
  "git_tree \<Rightarrow> fpath \<Rightarrow> fpath \<Rightarrow> fpath list option \<Rightarrow> fsys \<Rightarrow> errno option \<times> fsys" where
  "sync_sandbox_tree G sandbox primary tracked fs =
     (if sandbox = primary then (Some ESameTree, fs)
      else case copy_tree_files sandbox primary fs of
        (_, Some e, fs) \<Rightarrow> (Some e, fs)
      | (_, None, fs) \<Rightarrow> (None, fold (drop_missing sandbox primary) (sync_names G primary tracked fs) fs))"

end
