(* ===== verification/Job_Tree_Laws.thy ===== *)
theory Job_Tree_Laws
  imports Job_Tree
begin

text \<open>
  The way back from the sandbox tree stays inside the checkout and outside its \<^verbatim>\<open>.git\<close> as long as the
  checkout has no links, and brings over exactly the regular files; with a link it does not.
\<close>

subsection \<open>Well-formed file systems\<close>

definition tree_wf :: "fsys \<Rightarrow> bool" where
  "tree_wf fs \<longleftrightarrow> (\<forall>p. p \<noteq> [] \<and> entry fs p \<noteq> None \<longrightarrow> entry fs (butlast p) = Some Dir)"

definition link_free :: "fsys \<Rightarrow> fpath \<Rightarrow> bool" where
  "link_free fs root \<longleftrightarrow> (\<forall>r t. entry fs (root @ r) \<noteq> Some (Link t))"

text \<open>A root that is a directory, with nothing but files and directories below it.\<close>

definition plain_tree :: "fsys \<Rightarrow> fpath \<Rightarrow> bool" where
  "plain_tree fs root \<longleftrightarrow> tree_wf fs \<and> entry fs root = Some Dir \<and> link_free fs root"

lemma entry_update [simp]: "q \<noteq> [] \<Longrightarrow> entry (AList.update q x fs) p = (if p = q then Some x else entry fs p)"
  by (auto simp: entry_def update_conv')

lemma entry_delete [simp]: "entry (AList.delete q fs) p = (if p = q \<and> p \<noteq> [] then None else entry fs p)"
  by (auto simp: entry_def delete_conv')

lemma tree_wf_up:
  assumes "tree_wf fs" "entry fs (p @ q) \<noteq> None" "q \<noteq> []"
  shows "entry fs p = Some Dir"
  using assms(2,3)
proof (induction q rule: rev_induct)
  case (snoc x xs)
  then have "entry fs (p @ xs) = Some Dir"
    using assms(1) unfolding tree_wf_def by (metis append_assoc append_is_Nil_conv butlast_snoc not_Cons_self2)
  then show ?case using snoc.IH by (cases "xs = []") auto
qed simp

text \<open>Every directory on the way to a name resolves to itself.\<close>

lemma resolve_dirs:
  "(\<And>a b. xs = a @ b \<Longrightarrow> b \<noteq> [] \<Longrightarrow> a \<noteq> [] \<Longrightarrow> entry fs (d @ a) = Some Dir) \<Longrightarrow>
   (\<And>t. entry fs (d @ xs) \<noteq> Some (Link t)) \<Longrightarrow>
   resolve n fs d xs = (if xs = [] \<or> entry fs (d @ xs) \<noteq> None then Inr (d @ xs) else Inl ENoEnt)"
proof (induction xs arbitrary: d)
  case (Cons x xs)
  show ?case
  proof (cases "xs = []")
    case True
    then show ?thesis using Cons.prems(2) by (auto split: option.split node.split)
  next
    case False
    then have "entry fs (d @ [x]) = Some Dir" using Cons.prems(1) [of "[x]" xs] by simp
    moreover have "resolve n fs (d @ [x]) xs =
        (if xs = [] \<or> entry fs ((d @ [x]) @ xs) \<noteq> None then Inr ((d @ [x]) @ xs) else Inl ENoEnt)"
    proof (rule Cons.IH)
      fix a b assume "xs = a @ b" "b \<noteq> []" "a \<noteq> []"
      then show "entry fs ((d @ [x]) @ a) = Some Dir" using Cons.prems(1) [of "x # a" b] by simp
    next
      fix t show "entry fs ((d @ [x]) @ xs) \<noteq> Some (Link t)" using Cons.prems(2) by simp
    qed
    ultimately show ?thesis using False by simp
  qed
qed simp

lemma resolve_entry:
  assumes "tree_wf fs" "entry fs p = Some Dir \<or> (\<exists>c. entry fs p = Some (File c))"
  shows "resolve n fs [] p = Inr p"
proof -
  have "resolve n fs [] p = (if p = [] \<or> entry fs ([] @ p) \<noteq> None then Inr ([] @ p) else Inl ENoEnt)"
  proof (rule resolve_dirs)
    fix a b assume "p = a @ b" "b \<noteq> []"
    then show "entry fs ([] @ a) = Some Dir" using tree_wf_up [of fs a b] assms by auto
  qed (use assms in auto)
  then show ?thesis using assms(2) by auto
qed

lemma stat_entry:
  "tree_wf fs \<Longrightarrow> entry fs p = Some Dir \<or> (\<exists>c. entry fs p = Some (File c)) \<Longrightarrow> stat fs p = Inr (the (entry fs p))"
  by (auto simp: stat_def resolve_entry split: option.split)

text \<open>A path into a plain tree never leaves it.\<close>

lemma resolve_in_plain:
  "plain_tree fs root \<Longrightarrow> resolve n fs [] (root @ r) = Inr q \<Longrightarrow> q = root @ r \<and> entry fs q \<noteq> None"
proof -
  assume P: "plain_tree fs root" and R: "resolve n fs [] (root @ r) = Inr q"
  have gen: "(\<And>a b. xs = a @ b \<Longrightarrow> a \<noteq> [] \<Longrightarrow> \<forall>t. entry fs (d @ a) \<noteq> Some (Link t)) \<Longrightarrow>
      resolve n fs d xs = Inr q \<Longrightarrow> entry fs d \<noteq> None \<Longrightarrow> q = d @ xs \<and> entry fs q \<noteq> None" for d xs
  proof (induction xs arbitrary: d)
    case (Cons x xs)
    have nl: "\<forall>t. entry fs (d @ [x]) \<noteq> Some (Link t)" using Cons.prems(1) [of "[x]" xs] by simp
    consider (down) "entry fs (d @ [x]) = Some Dir" "resolve n fs (d @ [x]) xs = Inr q"
      | (leaf) "xs = []" "q = d @ [x]" "entry fs q \<noteq> None"
      using Cons.prems(2) nl by (auto split: option.splits node.splits if_splits)
    then show ?case
    proof cases
      case down
      have "q = (d @ [x]) @ xs \<and> entry fs q \<noteq> None"
      proof (rule Cons.IH [OF _ down(2)])
        fix a b assume "xs = a @ b" "a \<noteq> []"
        then show "\<forall>t. entry fs ((d @ [x]) @ a) \<noteq> Some (Link t)" using Cons.prems(1) [of "x # a" b] by simp
      qed (use down in simp)
      then show ?thesis by auto
    qed simp
  qed simp
  have "q = [] @ (root @ r) \<and> entry fs q \<noteq> None"
  proof (rule gen [OF _ R])
    fix a b assume ab: "root @ r = a @ b" "a \<noteq> []"
    show "\<forall>t. entry fs ([] @ a) \<noteq> Some (Link t)"
    proof (cases "length a < length root")
      case True
      then obtain c where "root = a @ c" "c \<noteq> []" using ab by (auto simp: append_eq_append_conv2)
      then show ?thesis using tree_wf_up [of fs a c] P by (auto simp: plain_tree_def)
    next
      case False
      then obtain c where "a = root @ c" using ab by (auto simp: append_eq_append_conv2)
      then show ?thesis using P by (auto simp: plain_tree_def link_free_def)
    qed
  qed (simp add: entry_def)
  then show ?thesis by auto
qed

subsection \<open>Operations in a plain tree\<close>

text \<open>What a step below \<open>root\<close> may change: entries below it whose first name is not \<^verbatim>\<open>.git\<close>.\<close>

definition confined :: "fpath \<Rightarrow> fsys \<Rightarrow> fsys \<Rightarrow> bool" where
  "confined root fs fs' \<longleftrightarrow>
     (\<forall>p. entry fs' p \<noteq> entry fs p \<longrightarrow> (\<exists>r. p = root @ r \<and> r \<noteq> [] \<and> hd r \<noteq> ''.git''))"

lemma confined_refl [simp]: "confined root fs fs"
  by (simp add: confined_def)

lemma confined_trans: "confined root fs gs \<Longrightarrow> confined root gs hs \<Longrightarrow> confined root fs hs"
  unfolding confined_def by metis

lemma place_plain:
  assumes "plain_tree fs root" "r \<noteq> []" "place n fs (root @ r) = Inr q"
  shows "q = root @ r \<and> entry fs (root @ butlast r) = Some Dir"
proof -
  have b: "butlast (root @ r) = root @ butlast r" "last (root @ r) = last r" using assms(2) by (auto simp: butlast_append)
  obtain d where d: "resolve n fs [] (root @ butlast r) = Inr d"
    using assms(2,3) by (subst (asm) place.simps) (auto simp: b split: sum.splits)
  then have e: "d = root @ butlast r" using resolve_in_plain [OF assms(1) d] by simp
  have nl: "entry fs (root @ butlast r @ [last r]) \<noteq> Some (Link t)" for t
    using assms(1) by (simp add: plain_tree_def link_free_def)
  then show ?thesis using assms(2,3) d e
    by (subst (asm) place.simps) (auto simp: b split: option.splits node.splits)
qed

lemma write_plain:
  assumes "plain_tree fs root" "r \<noteq> []" "write_file (root @ r) c fs = (e, fs')"
  shows "(e \<noteq> None \<and> fs' = fs) \<or>
    (e = None \<and> fs' = AList.update (root @ r) (File c) fs \<and> entry fs (root @ butlast r) = Some Dir \<and> entry fs (root @ r) \<noteq> Some Dir)"
  using assms(3) place_plain [OF assms(1,2)]
  by (auto simp: write_file_def split: sum.splits if_splits)

lemma mkdir_plain:
  assumes "plain_tree fs root" "r \<noteq> []" "mkdir (root @ r) fs = (e, fs')"
  shows "(e \<noteq> None \<and> fs' = fs) \<or>
    (e = None \<and> fs' = AList.update (root @ r) Dir fs \<and> entry fs (root @ butlast r) = Some Dir \<and> entry fs (root @ r) = None)"
proof -
  have b: "butlast (root @ r) = root @ butlast r" "last (root @ r) = last r" using assms(2) by (auto simp: butlast_append)
  have "root @ butlast r @ [last r] = root @ r" using assms(2) by simp
  then show ?thesis
    using assms(3) resolve_in_plain [OF assms(1), of link_budget "butlast r"]
    by (auto simp: mkdir_def b split: sum.splits if_splits)
qed

text \<open>Writing a file or making a directory where neither a directory nor a link was keeps the tree plain.\<close>

lemma plain_update:
  assumes "plain_tree fs root" "r \<noteq> []" "entry fs (root @ butlast r) = Some Dir" "\<forall>t. x \<noteq> Link t"
    and "entry fs (root @ r) \<noteq> Some Dir \<or> x = Dir"
  shows "plain_tree (AList.update (root @ r) x fs) root"
proof -
  have n: "root @ r \<noteq> []" "root \<noteq> root @ r" using assms(2) by auto
  have wf: "tree_wf fs" using assms(1) by (simp add: plain_tree_def)
  have up: "entry fs (butlast p) = Some Dir" if "p \<noteq> []" "entry fs p \<noteq> None" for p
    using wf that by (auto simp: tree_wf_def)
  have "entry (AList.update (root @ r) x fs) (butlast p) = Some Dir"
    if p: "p \<noteq> []" "entry (AList.update (root @ r) x fs) p \<noteq> None" for p
  proof (cases "p = root @ r")
    case True
    have "butlast (root @ r) \<noteq> root @ r" using n(1) by (metis append_butlast_last_id not_Cons_self2 self_append_conv)
    then show ?thesis using True n assms(2,3) by (simp add: butlast_append)
  next
    case False
    then have "entry fs (butlast p) = Some Dir" using up p n by auto
    then show ?thesis using assms(5) n by auto
  qed
  then have "tree_wf (AList.update (root @ r) x fs)" by (simp add: tree_wf_def)
  moreover have "link_free (AList.update (root @ r) x fs) root"
    using assms(1,4) n by (auto simp: plain_tree_def link_free_def)
  ultimately show ?thesis using assms(1) n by (simp add: plain_tree_def)
qed

definition grown :: "fsys \<Rightarrow> fsys \<Rightarrow> bool" where
  "grown fs fs' \<longleftrightarrow> (\<forall>p x. entry fs p = Some x \<longrightarrow> entry fs' p = Some x)"

lemma mkdir_all_down:
  "tree_wf fs \<Longrightarrow> entry fs (d @ a) = Some Dir \<Longrightarrow> mkdir_all d (a @ b) fs = mkdir_all (d @ a) b fs"
proof (induction a arbitrary: d)
  case (Cons x xs)
  have "entry fs (d @ [x]) = Some Dir"
  proof (cases "xs = []")
    case False
    then show ?thesis using tree_wf_up [of fs "d @ [x]" xs] Cons.prems by simp
  qed (use Cons.prems in simp)
  then have "stat fs (d @ [x]) = Inr Dir" using stat_entry [OF Cons.prems(1)] by simp
  then show ?case using Cons.IH [of "d @ [x]"] Cons.prems by simp
qed simp

lemma mkdir_all_below:
  "plain_tree fs root \<Longrightarrow> mkdir_all (root @ q) xs fs = (e, fs') \<Longrightarrow> q @ xs = [] \<or> hd (q @ xs) \<noteq> ''.git'' \<Longrightarrow>
     plain_tree fs' root \<and> confined root fs fs' \<and> grown fs fs'"
proof (induction xs arbitrary: q fs)
  case Nil
  then show ?case by (auto simp: grown_def)
next
  case (Cons x xs)
  let ?p = "root @ q @ [x]"
  show ?case
  proof (cases "stat fs ?p = Inr Dir \<or> (\<exists>y. stat fs ?p = Inr y \<and> y \<noteq> Dir)")
    case True
    then show ?thesis
    proof
      assume "stat fs ?p = Inr Dir"
      then show ?thesis using Cons.IH [of fs "q @ [x]"] Cons.prems by simp
    next
      assume "\<exists>y. stat fs ?p = Inr y \<and> y \<noteq> Dir"
      then show ?thesis using Cons.prems by (auto simp: grown_def split: node.splits)
    qed
  next
    case False
    then obtain er where st: "stat fs ?p = Inl er" by (cases "stat fs ?p") auto
    obtain f gs where m: "mkdir ?p fs = (f, gs)" by (metis prod.exhaust)
    from mkdir_plain [OF Cons.prems(1), of "q @ [x]" f gs] m
    consider (bad) er where "f = Some er" "gs = fs"
      | (new) "f = None" "gs = AList.update ?p Dir fs" "entry fs (root @ q) = Some Dir" "entry fs ?p = None"
      by (cases f) auto
    then show ?thesis
    proof cases
      case bad
      then show ?thesis using Cons.prems st m by (auto simp: grown_def)
    next
      case new
      have p: "plain_tree gs root" unfolding new(2)
        using plain_update [OF Cons.prems(1), of "q @ [x]" Dir] new(3) by simp
      have h: "hd (q @ [x]) \<noteq> ''.git''" using Cons.prems(3) by (cases q) auto
      have c: "confined root fs gs" "grown fs gs" using new h by (auto simp: confined_def grown_def)
      have "mkdir_all (root @ (q @ [x])) xs gs = (e, fs')" using Cons.prems(2) st m new(1) by simp
      from Cons.IH [OF p this] Cons.prems(3)
      have "plain_tree fs' root \<and> confined root gs fs' \<and> grown gs fs'" by simp
      then show ?thesis using c confined_trans by (auto simp: grown_def)
    qed
  qed
qed

lemma mkdir_all_plain:
  assumes "plain_tree fs root" "mkdir_all [] (root @ r) fs = (e, fs')" "r = [] \<or> hd r \<noteq> ''.git''"
  shows "plain_tree fs' root \<and> confined root fs fs' \<and> grown fs fs'"
proof -
  have "mkdir_all (root @ []) r fs = (e, fs')"
    using mkdir_all_down [of fs "[]" root r] assms(1,2) by (simp add: plain_tree_def)
  from mkdir_all_below [OF assms(1) this] assms(3) show ?thesis by simp
qed

subsection \<open>Copying\<close>

text \<open>What one name of the copy does.\<close>

lemma copy_entry_plain:
  assumes P: "plain_tree fs dst" and r: "r \<noteq> []" "hd r \<noteq> ''.git''"
    and apart: "\<And>a b. src @ a \<noteq> dst @ b" and c: "copy_entry src dst r (n, None, fs) = (m, e, fs')"
  shows "plain_tree fs' dst \<and> confined dst fs fs' \<and>
    (\<forall>p x. p \<noteq> dst @ r \<longrightarrow> entry fs p = Some x \<longrightarrow> entry fs' p = Some x) \<and>
    (\<forall>t. e = None \<and> entry fs (src @ r) = Some (File t) \<longrightarrow> entry fs' (dst @ r) = Some (File t))"
proof (cases "entry fs (src @ r)")
  case None
  then show ?thesis using c P by (simp add: copy_entry_def)
next
  case (Some x)
  show ?thesis
  proof (cases x)
    case Dir
    then have "mkdir_all [] (dst @ r) fs = (e, fs')" using c Some by (simp add: copy_entry_def Let_def case_prod_beta prod_eq_iff)
    from mkdir_all_plain [OF P this] r Some Dir show ?thesis by (simp add: grown_def)
  next
    case (Link t)
    then show ?thesis using c P Some by (simp add: copy_entry_def)
  next
    case (File t)
    obtain f gs where m: "mkdir_all [] (dst @ butlast r) fs = (f, gs)" by (metis prod.exhaust)
    have h: "butlast r = [] \<or> hd (butlast r) \<noteq> ''.git''" using r by (cases r) auto
    note G = mkdir_all_plain [OF P m h]
    show ?thesis
    proof (cases f)
      case (Some er)
      then show ?thesis using c File \<open>entry fs (src @ r) = Some x\<close> m G by (auto simp: copy_entry_def grown_def)
    next
      case None
      obtain g hs where w: "write_file (dst @ r) t gs = (g, hs)" by (metis prod.exhaust)
      have e: "fs' = hs" "e = g"
        using c File \<open>entry fs (src @ r) = Some x\<close> m None w by (auto simp: copy_entry_def split: option.splits)
      from write_plain [OF _ r(1) w] G consider (bad) "g \<noteq> None" "hs = gs"
        | (ok) "hs = AList.update (dst @ r) (File t) gs" "entry gs (dst @ butlast r) = Some Dir" "entry gs (dst @ r) \<noteq> Some Dir"
        by auto
      then show ?thesis
      proof cases
        case bad
        then show ?thesis using e G by (auto simp: grown_def)
      next
        case ok
        have "plain_tree hs dst" unfolding ok(1) using plain_update [of gs dst r "File t"] G r ok by simp
        moreover have "confined dst gs hs" "\<And>p. entry hs p = (if p = dst @ r then Some (File t) else entry gs p)"
          using ok r by (auto simp: confined_def)
        moreover note confined_trans [of dst fs gs hs]
        ultimately show ?thesis using e G File \<open>entry fs (src @ r) = Some x\<close>
          by (auto simp: grown_def)
      qed
    qed
  qed
qed

lemma copy_stuck: "fold (copy_entry src dst) rs (n, Some e, fs) = (n, Some e, fs)"
  by (induction rs) (simp_all add: copy_entry_def)

lemma confined_apart:
  assumes "confined dst fs fs'" "\<And>a b. src @ a \<noteq> dst @ b"
  shows "entry fs' (src @ r) = entry fs (src @ r)"
  using assms unfolding confined_def by blast

lemma copy_fold_plain:
  assumes apart: "\<And>a b. src @ a \<noteq> dst @ b"
  shows "plain_tree fs dst \<Longrightarrow> distinct rs \<Longrightarrow> (\<And>r. r \<in> set rs \<Longrightarrow> r \<noteq> [] \<and> hd r \<noteq> ''.git'') \<Longrightarrow>
    fold (copy_entry src dst) rs (n, None, fs) = (m, e, fs') \<Longrightarrow>
    plain_tree fs' dst \<and> confined dst fs fs' \<and>
    (\<forall>p x. p \<notin> (@) dst ` set rs \<longrightarrow> entry fs p = Some x \<longrightarrow> entry fs' p = Some x) \<and>
    (e = None \<longrightarrow> (\<forall>r \<in> set rs. \<forall>t. entry fs (src @ r) = Some (File t) \<longrightarrow> entry fs' (dst @ r) = Some (File t)))"
proof (induction rs arbitrary: n fs)
  case (Cons r rs)
  obtain k f gs where s: "copy_entry src dst r (n, None, fs) = (k, f, gs)" by (metis prod.exhaust)
  note S = copy_entry_plain [OF Cons.prems(1) _ _ apart s]
  have r: "r \<noteq> []" "hd r \<noteq> ''.git''" using Cons.prems(3) [of r] by auto
  show ?case
  proof (cases f)
    case (Some er)
    then show ?thesis using S r Cons.prems(4) s by (simp add: copy_stuck) blast
  next
    case None
    have "fold (copy_entry src dst) rs (k, None, gs) = (m, e, fs')" using Cons.prems(4) s None by simp
    then have I: "plain_tree fs' dst \<and> confined dst gs fs' \<and>
        (\<forall>p x. p \<notin> (@) dst ` set rs \<longrightarrow> entry gs p = Some x \<longrightarrow> entry fs' p = Some x) \<and>
        (e = None \<longrightarrow> (\<forall>r \<in> set rs. \<forall>t. entry gs (src @ r) = Some (File t) \<longrightarrow> entry fs' (dst @ r) = Some (File t)))"
      using Cons.IH [of gs k] Cons.prems(2,3) S r by auto
    have src: "entry gs (src @ q) = entry fs (src @ q)" for q using confined_apart [OF _ apart] S r by blast
    have "dst @ r \<notin> (@) dst ` set rs" using Cons.prems(2) by auto
    then have "entry fs (src @ r) = Some (File t) \<Longrightarrow> entry fs' (dst @ r) = Some (File t)" if "e = None" for t
      using S r I None by blast
    then show ?thesis using I S r src confined_trans by auto
  qed
qed auto

lemma walk_names:
  "r \<in> set (walk fs root) \<Longrightarrow> r \<noteq> []" "distinct (walk fs root)"
  "r \<noteq> [] \<Longrightarrow> entry fs (root @ r) \<noteq> None \<Longrightarrow> r \<in> set (walk fs root)"
proof -
  show "r \<in> set (walk fs root) \<Longrightarrow> r \<noteq> []" by (auto simp: walk_def strictly_below_def)
  show "distinct (walk fs root)" by (simp add: walk_def)
  assume r: "r \<noteq> []" "entry fs (root @ r) \<noteq> None"
  then have "root @ r \<in> fst ` set fs" by (auto simp: entry_def split: if_splits dest: map_of_SomeD intro: rev_image_eqI)
  moreover have "strictly_below root (root @ r)" using r(1) by (simp add: strictly_below_def)
  moreover have "r = drop (length root) (root @ r)" by simp
  ultimately show "r \<in> set (walk fs root)" unfolding walk_def by (auto simp del: append_eq_conv_conj intro!: image_eqI)
qed

subsection \<open>Removing\<close>

text \<open>A name that is not there, in a directory that is.\<close>

definition gone :: "fsys \<Rightarrow> fpath \<Rightarrow> fpath \<Rightarrow> bool" where
  "gone fs root r \<longleftrightarrow>
     (\<exists>a x b. r = a @ x # b \<and> entry fs (root @ a) = Some Dir \<and> entry fs (root @ a @ [x]) = None)"

lemma gone_stat:
  assumes "tree_wf fs" "gone fs root r"
  shows "stat fs (root @ r) = Inl ENoEnt"
proof -
  obtain a x b where p: "root @ r = a @ x # b" "entry fs a = Some Dir" "entry fs (a @ [x]) = None"
    using assms(2) by (auto simp: gone_def) (metis append.assoc)
  have "resolve n fs d (c @ x # b) = Inl ENoEnt" if "d @ c = a" for n d c
    using that
  proof (induction c arbitrary: d)
    case Nil
    then show ?case using p by simp
  next
    case (Cons y c)
    have "entry fs (d @ [y]) = Some Dir"
    proof (cases "c = []")
      case True
      then show ?thesis using p(2) Cons.prems by simp
    next
      case False
      then show ?thesis using tree_wf_up [OF assms(1), of "d @ [y]" c] Cons.prems p(2) by simp
    qed
    then show ?case using Cons.IH [of "d @ [y]"] Cons.prems by simp
  qed
  then show ?thesis using p(1) by (simp add: stat_def)
qed

lemma remove_plain:
  assumes P: "plain_tree fs root" and r: "r \<noteq> []"
  shows "remove_path (root @ r) fs = fs \<or>
    (remove_path (root @ r) fs = AList.delete (root @ r) fs \<and> plain_tree (AList.delete (root @ r) fs) root)"
    and "is_file (entry fs (root @ r)) \<Longrightarrow> remove_path (root @ r) fs = AList.delete (root @ r) fs"
proof -
  let ?q = "root @ r"
  have b: "butlast ?q = root @ butlast r" "last ?q = last r" "?q \<noteq> []" "(root @ butlast r) @ [last r] = ?q"
    using r by (auto simp: butlast_append)
  have wf: "tree_wf fs" using P by (simp add: plain_tree_def)
  have del: "plain_tree (AList.delete ?q fs) root"
    if "entry fs ?q \<noteq> Some Dir \<or> \<not> list_ex (\<lambda>e. strictly_below ?q (fst e)) fs"
  proof -
    have no: "butlast p \<noteq> ?q" if "p \<noteq> []" "entry fs p \<noteq> None" for p
    proof
      assume q: "butlast p = ?q"
      then have "entry fs ?q = Some Dir" using wf that by (auto simp: tree_wf_def)
      moreover have "strictly_below ?q p"
        using q that(1) by (metis append_butlast_last_id append_eq_conv_conj length_append_singleton lessI strictly_below_def)
      moreover have "p \<in> fst ` set fs" using that by (auto simp: entry_def dest: map_of_SomeD intro: rev_image_eqI)
      ultimately show False
        using \<open>entry fs ?q \<noteq> Some Dir \<or> \<not> list_ex (\<lambda>e. strictly_below ?q (fst e)) fs\<close> by (auto simp: list_ex_iff)
    qed
    have "entry (AList.delete ?q fs) (butlast p) = Some Dir" if "p \<noteq> []" "entry (AList.delete ?q fs) p \<noteq> None" for p
    proof -
      have e: "entry fs p \<noteq> None" using that(2) by (simp split: if_splits)
      then have "entry fs (butlast p) = Some Dir" using wf that(1) by (simp add: tree_wf_def)
      then show ?thesis using no [OF that(1) e] by simp
    qed
    then have "tree_wf (AList.delete ?q fs)" unfolding tree_wf_def by blast
    then show ?thesis using P r by (auto simp: plain_tree_def link_free_def)
  qed
  have rs: "resolve link_budget fs [] (root @ butlast r) = Inr d \<Longrightarrow> d = root @ butlast r" for d
    using resolve_in_plain [OF P] by blast
  show "remove_path ?q fs = fs \<or> (remove_path ?q fs = AList.delete ?q fs \<and> plain_tree (AList.delete ?q fs) root)"
  proof (cases "resolve link_budget fs [] (root @ butlast r)")
    case (Inr d)
    then show ?thesis using del rs [OF Inr] b
      by (cases "entry fs ?q = Some Dir \<and> list_ex (\<lambda>e. strictly_below ?q (fst e)) fs") (simp_all add: remove_path_def Let_def)
  qed (use b in \<open>simp add: remove_path_def\<close>)
  assume f: "is_file (entry fs ?q)"
  then have "entry fs (root @ butlast r) = Some Dir" using wf b by (metis is_file_def option.simps(4) tree_wf_def)
  then have "resolve link_budget fs [] (root @ butlast r) = Inr (root @ butlast r)" using resolve_entry [OF wf] by blast
  then show "remove_path ?q fs = AList.delete ?q fs" using f b
    by (auto simp: remove_path_def is_file_def Let_def split: option.splits)
qed

lemma drop_plain:
  assumes P: "plain_tree fs dst" and r: "r \<noteq> []" "hd r \<noteq> ''.git''"
  shows "plain_tree (drop_missing src dst r fs) dst" "confined dst fs (drop_missing src dst r fs)"
    and "p \<noteq> dst @ r \<or> stat fs (src @ r) \<noteq> Inl ENoEnt \<Longrightarrow> entry (drop_missing src dst r fs) p = entry fs p"
    and "is_file (entry (drop_missing src dst r fs) p) \<Longrightarrow> is_file (entry fs p)"
  using remove_plain(1) [OF P r(1)] P r
  by (auto simp: drop_missing_def confined_def is_file_def split: if_splits)

lemma drop_gone:
  assumes "plain_tree fs dst" "r \<noteq> []" "stat fs (src @ r) = Inl ENoEnt"
  shows "\<not> is_file (entry (drop_missing src dst r fs) (dst @ r))"
proof (cases "is_file (entry fs (dst @ r))")
  case True
  then show ?thesis using remove_plain(2) [OF assms(1,2)] assms by (simp add: drop_missing_def is_file_def)
next
  case False
  then show ?thesis using remove_plain(1) [OF assms(1,2)] assms(2,3) by (auto simp: drop_missing_def is_file_def)
qed

lemma drop_fold:
  assumes apart: "\<And>a b. src @ a \<noteq> dst @ b"
  shows "plain_tree fs dst \<Longrightarrow> (\<And>r. r \<in> set ts \<Longrightarrow> r \<noteq> [] \<and> hd r \<noteq> ''.git'') \<Longrightarrow>
    confined dst fs (fold (drop_missing src dst) ts fs) \<and>
    (\<forall>r t. entry fs (src @ r) = Some (File t) \<longrightarrow>
       entry (fold (drop_missing src dst) ts fs) (dst @ r) = entry fs (dst @ r)) \<and>
    (\<forall>p. is_file (entry (fold (drop_missing src dst) ts fs) p) \<longrightarrow> is_file (entry fs p)) \<and>
    (\<forall>r \<in> set ts. gone fs src r \<longrightarrow> \<not> is_file (entry (fold (drop_missing src dst) ts fs) (dst @ r)))"
proof (induction ts arbitrary: fs)
  case (Cons r ts)
  let ?g = "drop_missing src dst r fs"
  have r: "r \<noteq> []" "hd r \<noteq> ''.git''" using Cons.prems(2) [of r] by auto
  note D = drop_plain [OF Cons.prems(1) r, where src = src]
  have src: "entry ?g (src @ q) = entry fs (src @ q)" for q using confined_apart [OF D(2) apart] .
  have wf: "tree_wf fs" using Cons.prems(1) by (simp add: plain_tree_def)
  have gone: "gone ?g src q = gone fs src q" for q by (simp add: gone_def src)
  have I: "confined dst ?g (fold (drop_missing src dst) ts ?g) \<and>
      (\<forall>r t. entry ?g (src @ r) = Some (File t) \<longrightarrow>
         entry (fold (drop_missing src dst) ts ?g) (dst @ r) = entry ?g (dst @ r)) \<and>
      (\<forall>p. is_file (entry (fold (drop_missing src dst) ts ?g) p) \<longrightarrow> is_file (entry ?g p)) \<and>
      (\<forall>r \<in> set ts. gone ?g src r \<longrightarrow> \<not> is_file (entry (fold (drop_missing src dst) ts ?g) (dst @ r)))"
    using Cons.IH [OF D(1)] Cons.prems(2) by simp
  have keep: "entry ?g (dst @ q) = entry fs (dst @ q)" if "entry fs (src @ q) = Some (File t)" for q t
  proof (rule D(3))
    have "stat fs (src @ q) = Inr (File t)" using stat_entry [OF wf, of "src @ q"] that by simp
    then show "dst @ q \<noteq> dst @ r \<or> stat fs (src @ r) \<noteq> Inl ENoEnt" by (cases "q = r") auto
  qed
  have "gone fs src r \<Longrightarrow> \<not> is_file (entry (fold (drop_missing src dst) ts ?g) (dst @ r))"
    using drop_gone [OF Cons.prems(1) r(1)] gone_stat [OF wf] I by blast
  then show ?case using I confined_trans [OF D(2)] D(4) keep by (auto simp: src gone)
qed simp

subsection \<open>The way back\<close>

text \<open>C17: Bringing a sandbox tree back into a checkout without links changes nothing outside the checkout and
  nothing in its \<^verbatim>\<open>.git\<close>, whether it succeeds or not.  When it succeeds, every regular file of the sandbox is
  in the checkout with its content, and a tracked file the sandbox lost is no longer there.\<close>

theorem sync_confined:
  assumes "plain_tree fs primary" "\<And>a b. sandbox @ a \<noteq> primary @ b"
    and "\<forall>gs. \<forall>r \<in> set (sync_names G primary tracked gs). r \<noteq> [] \<and> hd r \<noteq> ''.git''"
    and "sync_sandbox_tree G sandbox primary tracked fs = (e, fs')"
  shows "(\<forall>p. entry fs' p \<noteq> entry fs p \<longrightarrow> (\<exists>r. p = primary @ r \<and> r \<noteq> [] \<and> hd r \<noteq> ''.git'')) \<and>
    (e = None \<longrightarrow>
      (\<forall>r t. r \<noteq> [] \<and> hd r \<noteq> ''.git'' \<and> entry fs (sandbox @ r) = Some (File t) \<longrightarrow> entry fs' (primary @ r) = Some (File t)) \<and>
      (\<forall>ts. tracked = Some ts \<longrightarrow> (\<forall>r \<in> set ts. gone fs sandbox r \<longrightarrow> \<not> is_file (entry fs' (primary @ r)))))"
proof -
  have ne: "sandbox \<noteq> primary" using assms(2) [of "[]" "[]"] by auto
  obtain n f gs where c: "copy_tree_files sandbox primary fs = (n, f, gs)" by (metis prod.exhaust)
  have names: "r \<in> set (copied_names fs sandbox) \<Longrightarrow> r \<noteq> [] \<and> hd r \<noteq> ''.git''" for r
    using walk_names(1) by (auto simp: copied_names_def)
  have d: "distinct (copied_names fs sandbox)" using walk_names(2) by (simp add: copied_names_def)
  have C: "plain_tree gs primary \<and> confined primary fs gs \<and>
      (f = None \<longrightarrow> (\<forall>r \<in> set (copied_names fs sandbox). \<forall>t.
         entry fs (sandbox @ r) = Some (File t) \<longrightarrow> entry gs (primary @ r) = Some (File t)))"
  proof (cases "entry fs sandbox = None")
    case True
    then show ?thesis using c assms(1) by (auto simp: copy_tree_files_def)
  next
    case False
    then have "fold (copy_entry sandbox primary) (copied_names fs sandbox) (0, None, fs) = (n, f, gs)"
      using c False unfolding copy_tree_files_def by (simp only: if_False)
    from copy_fold_plain [OF assms(2,1) d names this] show ?thesis by blast
  qed
  have src: "entry gs (sandbox @ q) = entry fs (sandbox @ q)" for q using confined_apart [OF _ assms(2)] C by blast
  show ?thesis
  proof (cases f)
    case (Some er)
    then show ?thesis using assms(4) c C ne by (auto simp: sync_sandbox_tree_def confined_def)
  next
    case None
    let ?ts = "sync_names G primary tracked gs"
    have r: "e = None" "fs' = fold (drop_missing sandbox primary) ?ts gs"
      using assms(4) c ne None by (auto simp: sync_sandbox_tree_def)
    have D: "confined primary gs fs' \<and>
        (\<forall>r t. entry gs (sandbox @ r) = Some (File t) \<longrightarrow> entry fs' (primary @ r) = entry gs (primary @ r)) \<and>
        (\<forall>r \<in> set ?ts. gone gs sandbox r \<longrightarrow> \<not> is_file (entry fs' (primary @ r)))"
      using drop_fold [OF assms(2), of gs ?ts] C assms(3) unfolding r(2) by blast
    have "confined primary fs fs'" using C D confined_trans by blast
    moreover have "entry fs' (primary @ r) = Some (File t)"
      if "r \<noteq> []" "hd r \<noteq> ''.git''" "entry fs (sandbox @ r) = Some (File t)" for r t
    proof -
      have "r \<in> set (copied_names fs sandbox)" using walk_names(3) that by (simp add: copied_names_def)
      then show ?thesis using C D None src that by auto
    qed
    moreover have "gone gs sandbox q = gone fs sandbox q" for q by (simp add: gone_def src)
    ultimately show ?thesis using D by (auto simp: confined_def sync_names_def)
  qed
qed

subsection \<open>Cases\<close>

lemma tree_wf_list: "list_all (\<lambda>e. entry fs (butlast (fst e)) = Some Dir) fs \<Longrightarrow> tree_wf fs"
  unfolding tree_wf_def
proof (intro allI impI)
  fix p
  assume l: "list_all (\<lambda>e. entry fs (butlast (fst e)) = Some Dir) fs" and p: "p \<noteq> [] \<and> entry fs p \<noteq> None"
  from p obtain y where "map_of fs p = Some y" by (auto simp: entry_def)
  from map_of_SomeD [OF this] l show "entry fs (butlast p) = Some Dir" by (fastforce simp: list_all_iff)
qed

lemma link_free_list: "list_all (\<lambda>e. \<forall>t. snd e \<noteq> Link t) fs \<Longrightarrow> link_free fs root"
  by (auto simp: link_free_def list_all_iff entry_def split: if_splits dest!: map_of_SomeD)

definition job_fs :: fsys where
  "job_fs =
     [([''j''], Dir), ([''j'', ''primary''], Dir), ([''j'', ''primary'', ''.git''], Dir),
      ([''j'', ''primary'', ''.git'', ''config''], File ''ours''), ([''j'', ''primary'', ''a.go''], File ''old''),
      ([''j'', ''primary'', ''b.go''], File ''b''), ([''j'', ''sandbox''], Dir), ([''j'', ''sandbox'', ''.git''], Dir),
      ([''j'', ''sandbox'', ''.git'', ''config''], File ''theirs''), ([''j'', ''sandbox'', ''a.go''], File ''new''),
      ([''j'', ''sandbox'', ''pkg''], Dir), ([''j'', ''sandbox'', ''pkg'', ''c.go''], File ''c''), ([''etc''], Dir)]"

definition no_git :: git_tree where
  "no_git = \<lparr>gt_ls = (\<lambda>_ _. Inl ''no repository''), gt_checkout = (\<lambda>_ _ fs. (None, fs))\<rparr>"

definition job_sync :: "fsys \<Rightarrow> errno option \<times> fsys" where
  "job_sync fs = sync_sandbox_tree no_git [''j'', ''sandbox''] [''j'', ''primary''] (Some [[''a.go''], [''b.go'']]) fs"

theorem sync_confined_witness:
  "entry (snd (job_sync job_fs)) [''j'', ''primary'', ''pkg'', ''c.go''] = Some (File ''c'') \<and>
   \<not> is_file (entry (snd (job_sync job_fs)) [''j'', ''primary'', ''b.go''])"
proof -
  have p: "plain_tree job_fs [''j'', ''primary'']"
    unfolding plain_tree_def
    by (intro conjI tree_wf_list link_free_list) (simp_all add: job_fs_def entry_def)
  have a: "[''j'', ''sandbox''] @ x \<noteq> [''j'', ''primary''] @ y" for x y by simp
  have t: "\<forall>gs. \<forall>r \<in> set (sync_names no_git [''j'', ''primary''] (Some [[''a.go''], [''b.go'']]) gs). r \<noteq> [] \<and> hd r \<noteq> ''.git''"
    by (auto simp: sync_names_def)
  have e: "fst (job_sync job_fs) = None" by code_simp
  have c: "entry job_fs ([''j'', ''sandbox''] @ [''pkg'', ''c.go'']) = Some (File ''c'')" by (simp add: job_fs_def entry_def)
  have g: "gone job_fs [''j'', ''sandbox''] [''b.go'']" by (auto simp: gone_def job_fs_def entry_def)
  have s: "sync_sandbox_tree no_git [''j'', ''sandbox''] [''j'', ''primary''] (Some [[''a.go''], [''b.go'']]) job_fs =
      (fst (job_sync job_fs), snd (job_sync job_fs))" by (simp add: job_sync_def)
  note W = sync_confined [OF p a t s]
  have "entry (snd (job_sync job_fs)) ([''j'', ''primary''] @ [''pkg'', ''c.go'']) = Some (File ''c'')"
  proof -
    have "\<forall>r t. r \<noteq> [] \<and> hd r \<noteq> ''.git'' \<and> entry job_fs ([''j'', ''sandbox''] @ r) = Some (File t) \<longrightarrow>
        entry (snd (job_sync job_fs)) ([''j'', ''primary''] @ r) = Some (File t)"
      using W e by blast
    from this [rule_format, of "[''pkg'', ''c.go'']" "''c''"] c show ?thesis by simp
  qed
  moreover have "\<not> is_file (entry (snd (job_sync job_fs)) ([''j'', ''primary''] @ [''b.go'']))"
    using W e g by auto
  ultimately show ?thesis by simp
qed

text \<open>With a link in the checkout the copy is written through it: the tree must have none.\<close>

lemma link_in_checkout_escapes:
  "entry (snd (job_sync (([''j'', ''primary'', ''pkg''], Link [''etc'']) # job_fs))) [''etc'', ''c.go''] = Some (File ''c'')"
  by code_simp

text \<open>
  A tracked link never gets that far: git lists it, the count of the exported tree leaves it out, and
  the sandbox tree of such a repository is refused.
\<close>

definition link_git :: git_tree where
  "link_git =
     \<lparr>gt_ls = (\<lambda>_ _. Inr (''a.go'' @ [CHR 0x00] @ ''ln'' @ [CHR 0x00])),
      gt_checkout = (\<lambda>_ dst fs. (None, (dst @ [''a.go''], File ''old'') # (dst @ [''ln''], Link [''etc'']) # fs))\<rparr>"

lemma tracked_link_refused:
  "fst (snd (materialize_sandbox link_git [''j''] [''j'', ''primary''] job_fs)) = Some (EParity 2 1)"
  by code_simp

end
