(* ===== verification/Token_Scope.thy ===== *)
theory Token_Scope
  imports Cred_Scope Event_Envelope
begin

text \<open>
  The tokens the service asks GitHub for (\<^verbatim>\<open>src/agents_token.go\<close>): which permissions each call
  needs, what an installation was granted, and the request for a token.  A permission map is an
  association list in the order Go ranges over it.  \<open>probe\<close> answers the permissions of an
  installation (\<^verbatim>\<open>probeGitHubInstallationPermissions\<close>, cached per id), \<open>mint\<close> the request for a token.
\<close>

subsection \<open>Permissions\<close>

type_synonym perms = "(string \<times> string) list"

definition github_perms_clone_read :: perms where
  "github_perms_clone_read = [(''contents'', ''read''), (''metadata'', ''read'')]"

definition github_perms_pr_read :: perms where
  "github_perms_pr_read = [(''contents'', ''read''), (''pull_requests'', ''read''), (''metadata'', ''read'')]"

definition github_perms_checks_write :: perms where
  "github_perms_checks_write = [(''checks'', ''write''), (''metadata'', ''read'')]"

definition github_perms_pr_review :: perms where
  "github_perms_pr_review = [(''pull_requests'', ''write''), (''metadata'', ''read'')]"

definition github_perms_pr_write :: perms where
  "github_perms_pr_write = [(''pull_requests'', ''write''), (''issues'', ''write''), (''metadata'', ''read'')]"

definition github_perms_push :: perms where
  "github_perms_push = [(''contents'', ''write''), (''metadata'', ''read'')]"

definition github_perms_create_pr :: perms where
  "github_perms_create_pr = [(''pull_requests'', ''write''), (''contents'', ''write''), (''metadata'', ''read'')]"

definition github_perms_issues_write :: perms where
  "github_perms_issues_write = [(''issues'', ''write''), (''metadata'', ''read'')]"

definition github_perms_projects_write :: perms where
  "github_perms_projects_write = [(''organization_projects'', ''write''), (''metadata'', ''read'')]"

definition github_app_required_perms_for_ai_issues :: perms where
  "github_app_required_perms_for_ai_issues =
     [(''contents'', ''write''), (''metadata'', ''read''), (''pull_requests'', ''write''), (''issues'', ''write''),
      (''checks'', ''write'')]"

definition github_app_optional_perms_for_projects :: perms where
  "github_app_optional_perms_for_projects = [(''organization_projects'', ''write'')]"

definition strip_workflows_perm :: "perms \<Rightarrow> perms" where
  "strip_workflows_perm ps = filter (\<lambda>(k, _). \<not> equal_fold k ''workflows'') ps"

text \<open>Why a wanted permission is not granted: not at all, or at the lower level.\<close>

definition lacking :: "perms \<Rightarrow> string \<times> string \<Rightarrow> string option" where
  "lacking granted kv =
     (let (k, v) = kv
      in case map_of granted k of
           None \<Rightarrow> Some k
         | Some g \<Rightarrow> (if g = [] then Some k
                     else if v = ''write'' \<and> g = ''read'' then Some (k @ ''(write>read)'') else None))"

record perm_health =
  ph_kind :: string
  ph_inst :: string
  ph_granted :: perms
  ph_missing :: "string list"
  ph_optional_missing :: "string list"
  ph_ok :: bool
  ph_projects_ok :: bool
  ph_notes :: "string list"

definition assess_installation_perm_health ::
  "(string \<Rightarrow> string + perms) \<Rightarrow> connector option \<Rightarrow> perm_health" where
  "assess_installation_perm_health probe conn =
     (let h = \<lparr>ph_kind = [], ph_inst = [], ph_granted = [], ph_missing = [], ph_optional_missing = [],
               ph_ok = False, ph_projects_ok = False, ph_notes = []\<rparr>
      in case conn of
           None \<Rightarrow> h\<lparr>ph_notes := [''connector not found'']\<rparr>
         | Some c \<Rightarrow>
             (let h = h\<lparr>ph_kind := cn_kind c, ph_inst := cn_inst c\<rparr>
              in if cn_kind c = ''github_pat'' then
                   h\<lparr>ph_ok := True,
                     ph_notes := [''PAT connectors are not probed; ensure classic repo scope or fine-grained Issues+Contents+PRs'']\<rparr>
                 else if cn_inst c = [] then h\<lparr>ph_notes := [''no installation_id'']\<rparr>
                 else case probe (cn_inst c) of
                   Inl e \<Rightarrow> h\<lparr>ph_notes := [e]\<rparr>
                 | Inr granted \<Rightarrow>
                     (let missing = List.map_filter (lacking granted) github_app_required_perms_for_ai_issues;
                          optional = List.map_filter (lacking granted) github_app_optional_perms_for_projects
                      in h\<lparr>ph_granted := granted, ph_missing := missing, ph_optional_missing := optional,
                           ph_ok := missing = [], ph_projects_ok := optional = [],
                           ph_notes :=
                             (if missing \<noteq> []
                              then [''grant Issues write (+ Contents write, PRs, Checks) on the GitHub App and re-accept permissions'']
                              else []) @
                             (if optional \<noteq> []
                              then [''organization_projects write required for Projects v2 peer (scm:pm)'']
                              else [])\<rparr>)))"

subsection \<open>Tokens\<close>

datatype token_error =
    EmptyInstallation | RepoRequired string | ProbeFailed string | LacksPerms "string list"
  | MintRefused422 string | MintFailed string | TokenNoConnector | NoCredentials

text \<open>The body of the request: the repositories and permissions, each left out when empty.\<close>

definition token_request_payload :: "string list \<Rightarrow> perms \<Rightarrow> (string list \<times> perms) option" where
  "token_request_payload repos ps =
     (let ps = strip_workflows_perm ps in if repos = [] \<and> ps = [] then None else Some (repos, ps))"

definition filter_granted_perms ::
  "(string \<Rightarrow> string + perms) \<Rightarrow> string \<Rightarrow> perms \<Rightarrow> string + perms \<times> string list" where
  "filter_granted_perms probe inst want =
     (case probe inst of
        Inl e \<Rightarrow> Inl e
      | Inr granted \<Rightarrow>
          Inr (filter (\<lambda>kv. lacking granted kv = None) want, List.map_filter (lacking granted) want))"

definition require_granted_perms ::
  "(string \<Rightarrow> string + perms) \<Rightarrow> string \<Rightarrow> perms \<Rightarrow> token_error + perms" where
  "require_granted_perms probe inst want =
     (let want = strip_workflows_perm want
      in if want = [] then Inr []
         else case filter_granted_perms probe inst want of
           Inl e \<Rightarrow> Inl (ProbeFailed e)
         | Inr (out, dropped) \<Rightarrow> (if dropped \<noteq> [] then Inl (LacksPerms dropped) else Inr out))"

text \<open>
  \<^verbatim>\<open>githubInstallationTokenFor\<close>: the answer and the request it made, if any (the installation and
  the body).
\<close>

definition github_installation_token_for ::
  "(string \<Rightarrow> string + perms) \<Rightarrow> (string \<Rightarrow> (string list \<times> perms) option \<Rightarrow> string + string)
     \<Rightarrow> string \<Rightarrow> string \<Rightarrow> perms
     \<Rightarrow> (token_error + string) \<times> (string \<times> (string list \<times> perms) option) option" where
  "github_installation_token_for probe mint inst repo want =
     (let inst = trim_space inst; want = strip_workflows_perm want;
          short = trim_space (snd (split_owner_repo repo))
      in if inst = [] then (Inl EmptyInstallation, None)
         else if short = [] \<and> want \<noteq> [] then (Inl (RepoRequired repo), None)
         else case (if want \<noteq> [] then require_granted_perms probe inst want else Inr want) of
           Inl e \<Rightarrow> (Inl e, None)
         | Inr want \<Rightarrow>
             (let body = token_request_payload (if short \<noteq> [] then [short] else []) want
              in ((case mint inst body of
                     Inr tok \<Rightarrow> Inr tok
                   | Inl e \<Rightarrow> Inl (if contains e ''422'' then MintRefused422 e else MintFailed e)),
                  Some (inst, body))))"

definition github_access_token_for ::
  "(string \<Rightarrow> string + perms) \<Rightarrow> (string \<Rightarrow> (string list \<times> perms) option \<Rightarrow> string + string)
     \<Rightarrow> connector option \<Rightarrow> string \<Rightarrow> perms
     \<Rightarrow> (token_error + string) \<times> (string \<times> (string list \<times> perms) option) option" where
  "github_access_token_for probe mint conn repo want =
     (case conn of
        None \<Rightarrow> (Inl TokenNoConnector, None)
      | Some c \<Rightarrow>
          (if cn_kind c = ''github_pat'' \<and> cn_token c \<noteq> [] then (Inr (cn_token c), None)
           else if cn_inst c \<noteq> [] then github_installation_token_for probe mint (cn_inst c) repo want
           else (Inl NoCredentials, None)))"

subsection \<open>Laws\<close>

lemma strip_idem [simp]: "strip_workflows_perm (strip_workflows_perm ps) = strip_workflows_perm ps"
  by (simp add: strip_workflows_perm_def)

lemma map_filter_Nil: "List.map_filter f xs = [] \<longleftrightarrow> list_all (\<lambda>x. f x = None) xs"
  by (induction xs) (auto simp: map_filter_def)

lemma filter_all_Nil: "list_all P xs \<Longrightarrow> filter P xs = xs"
  by (simp add: list_all_iff)

lemma require_granted_Inr:
  assumes "require_granted_perms probe inst want = Inr out" "strip_workflows_perm want \<noteq> []"
  shows "out = strip_workflows_perm want"
    "\<exists>granted. probe inst = Inr granted \<and> list_all (\<lambda>kv. lacking granted kv = None) (strip_workflows_perm want)"
  using assms
  by (auto simp: require_granted_perms_def filter_granted_perms_def map_filter_Nil filter_all_Nil Let_def
      split: sum.splits if_splits)

definition grants :: "perms \<Rightarrow> string \<times> string \<Rightarrow> bool" where
  "grants granted kv \<longleftrightarrow>
     (case map_of granted (fst kv) of None \<Rightarrow> False | Some g \<Rightarrow> g \<noteq> [] \<and> \<not> (snd kv = ''write'' \<and> g = ''read''))"

lemma lacking_None: "lacking granted kv = None \<longleftrightarrow> grants granted kv"
  by (auto simp: lacking_def grants_def split: option.splits prod.splits)

text \<open>
  C29: a token is asked for with least privilege.  Whenever a connector asks GitHub for a token and
  something is left of the wanted permissions once those on workflows are taken out, the request is for
  the single repository and exactly the permissions left, and each of them was granted to the
  installation at the wanted level.  Where nothing is left the request names no permission, which asks
  for all the installation has (\<open>stripping_widens\<close> below).
\<close>

theorem token_least_privilege:
  assumes "github_access_token_for probe mint conn repo want = (res, Some (inst, body))"
    and "strip_workflows_perm want \<noteq> []"
  shows "\<exists>granted. probe inst = Inr granted \<and>
    body = Some ([trim_space (snd (split_owner_repo repo))], strip_workflows_perm want) \<and>
    list_all (\<lambda>kv. \<not> equal_fold (fst kv) ''workflows'' \<and> grants granted kv) (strip_workflows_perm want)"
proof -
  obtain c :: connector where c: "github_installation_token_for probe mint (cn_inst c) repo want = (res, Some (inst, body))"
    using assms(1) by (cases conn) (simp_all add: github_access_token_for_def split: if_splits)
  obtain out where out: "require_granted_perms probe inst (strip_workflows_perm want) = Inr out"
    and body: "body = Some ([trim_space (snd (split_owner_repo repo))], strip_workflows_perm out)"
    using c assms(2)
    by (auto simp: github_installation_token_for_def token_request_payload_def Let_def
        split: sum.splits if_splits)
  have "list_all (\<lambda>kv. \<not> equal_fold (fst kv) ''workflows'') (strip_workflows_perm want)"
    by (auto simp: strip_workflows_perm_def list_all_iff)
  then show ?thesis
    using require_granted_Inr [OF out] body assms(2) by (auto simp: list_all_iff lacking_None)
qed

text \<open>The permissions of the calls a pull request or an issue needs.\<close>

definition app_calls :: "perms list" where
  "app_calls =
     [github_perms_clone_read, github_perms_pr_read, github_perms_checks_write, github_perms_pr_review,
      github_perms_pr_write, github_perms_push, github_perms_create_pr, github_perms_issues_write]"

lemma grants_mono:
  "grants granted (k, v) \<Longrightarrow> v' = v \<or> v' \<noteq> ''write'' \<Longrightarrow> grants granted (k, v')"
  by (auto simp: grants_def split: option.splits)

lemma calls_required:
  "list_all (list_all (\<lambda>(k, v). list_ex (\<lambda>(k', v'). k' = k \<and> (v = v' \<or> v \<noteq> ''write''))
     github_app_required_perms_for_ai_issues)) app_calls"
  by code_simp

text \<open>
  An installation the health check reports as fit is never refused.  When the check finds
  nothing missing, each of the permission sets of the service's calls is granted in full.
\<close>

theorem healthy_installation_serves:
  assumes "ph_ok (assess_installation_perm_health probe (Some c))" "cn_kind c \<noteq> ''github_pat''"
    and "want \<in> set app_calls"
  shows "require_granted_perms probe (cn_inst c) want = Inr want"
proof -
  obtain granted where granted: "probe (cn_inst c) = Inr granted"
      "list_all (\<lambda>kv. lacking granted kv = None) github_app_required_perms_for_ai_issues"
    using assms(1,2)
    by (auto simp: assess_installation_perm_health_def Let_def map_filter_Nil split: if_splits sum.splits)
  have "list_all (\<lambda>kv. lacking granted kv = None) want"
    using calls_required assms(3) granted(2) grants_mono by (fastforce simp: list_all_iff list_ex_iff lacking_None)
  moreover have "list_all (\<lambda>ps. strip_workflows_perm ps = ps \<and> ps \<noteq> []) app_calls" by code_simp
  ultimately show ?thesis
    using assms(3) granted(1)
    by (simp add: require_granted_perms_def filter_granted_perms_def map_filter_Nil filter_all_Nil list_all_iff)
qed

text \<open>
  Stripping can widen: with nothing but workflow changes wanted, the request names the repository
  and no permissions, which GitHub answers with all the installation has.
\<close>

lemma stripping_widens:
  "snd (github_installation_token_for (\<lambda>_. Inr [(''workflows'', ''write'')]) (\<lambda>_ _. Inr ''tok'') ''7'' ''o/r''
     [(''workflows'', ''write'')]) = Some (''7'', Some ([''r''], []))"
  by code_simp

lemma token_least_privilege_witness:
  "github_access_token_for (\<lambda>_. Inr [(''contents'', ''write''), (''metadata'', ''read'')]) (\<lambda>_ _. Inr ''tok'')
       (Some sample_connector) ''o/r'' github_perms_push =
     (Inr ''tok'', Some (''7'', Some ([''r''], github_perms_push))) \<and>
   list_all (grants [(''contents'', ''write''), (''metadata'', ''read'')]) (strip_workflows_perm github_perms_push)"
proof -
  have run: "github_access_token_for (\<lambda>_. Inr [(''contents'', ''write''), (''metadata'', ''read'')]) (\<lambda>_ _. Inr ''tok'')
       (Some sample_connector) ''o/r'' github_perms_push =
     (Inr ''tok'', Some (''7'', Some ([''r''], github_perms_push)))"
  proof -
    have "trim_space ''7'' = ''7''" "trim_space (snd (split_owner_repo ''o/r'')) = ''r''"
      "strip_workflows_perm github_perms_push = github_perms_push" "github_perms_push \<noteq> []"
      "require_granted_perms (\<lambda>_. Inr [(''contents'', ''write''), (''metadata'', ''read'')]) ''7'' github_perms_push =
         Inr github_perms_push"
      by code_simp+
    then show ?thesis
      by (simp add: github_access_token_for_def github_installation_token_for_def token_request_payload_def
          sample_connector_def)
  qed
  have "strip_workflows_perm github_perms_push \<noteq> []" by code_simp
  from token_least_privilege [OF run this] run show ?thesis by (auto simp: list_all_iff)
qed

lemma healthy_installation_serves_witness:
  "require_granted_perms (\<lambda>_. Inr github_app_required_perms_for_ai_issues) ''7'' github_perms_create_pr =
     Inr github_perms_create_pr"
proof -
  have "ph_ok (assess_installation_perm_health (\<lambda>_. Inr github_app_required_perms_for_ai_issues) (Some sample_connector))"
    "cn_kind sample_connector \<noteq> ''github_pat''" "github_perms_create_pr \<in> set app_calls"
    by code_simp+
  from healthy_installation_serves [OF this] show ?thesis by (simp add: sample_connector_def)
qed

end
