(* ===== verification/Peer_Github.thy ===== *)
theory Peer_Github
  imports Token_Scope Cloud_Run
begin

text \<open>
  The GitHub calls behind the peer surface (\<^verbatim>\<open>src/scm_github_pulls_open.go\<close>,
  \<^verbatim>\<open>src/scm_github_issues.go\<close>, \<^verbatim>\<open>src/github_projects.go\<close> and the scoped calls of
  \<^verbatim>\<open>src/scm_github.go\<close>).  Every call answers with its result and what it asked of GitHub: the
  tokens it had minted and the requests it made.  GitHub's answers and the decoders of its bodies are
  the parameter \<open>gh_world\<close>.
\<close>

subsection \<open>Requests and answers\<close>

datatype peer_event =
    GhMint string "(string list \<times> perms) option"
  | GhCall string string string jobj
  | GhGraph string string jobj
  | GhGetPull string string int

datatype gh_error =
    GeText string
  | GeToken token_error
  | GeWrite write_error
  | GePull int string string
  | GeIssue int string string
  | GeProjects string string string

record delivery_pull =
  dp_number :: int
  dp_url :: string
  dp_state :: string
  dp_title :: string
  dp_head :: string
  dp_base :: string
  dp_draft :: bool

record pull_meta =
  pm_number :: int
  pm_title :: string
  pm_draft :: bool
  pm_head :: string
  pm_base :: string
  pm_state :: string
  pm_merged :: bool

record issue_meta =
  im_number :: int
  im_title :: string
  im_body :: string
  im_state :: string
  im_url :: string
  im_labels :: "string list"
  im_milestone :: int
  im_milestone_title :: string
  im_assignees :: "string list"
  im_updated :: string

record raw_issue =
  ri_number :: int
  ri_title :: string
  ri_body :: string
  ri_state :: string
  ri_url :: string
  ri_labels :: "string list"
  ri_milestone :: "(int \<times> string) option"
  ri_assignees :: "string list"
  ri_updated :: string

record milestone =
  ms_number :: int
  ms_title :: string
  ms_desc :: string
  ms_state :: string
  ms_url :: string

record project_meta =
  pj_id :: string
  pj_title :: string
  pj_url :: string
  pj_number :: int

text \<open>
  \<open>gw_http\<close> answers a request (token, method, path, body) with an error or a status code and a body;
  \<open>gw_get_pull\<close> is \<^verbatim>\<open>githubGetPull\<close> before and after a merge; \<open>gw_graph\<close> answers a query (token, name,
  variables) with an error, if any, and the data.
\<close>

record gh_world =
  gw_getenv :: genv
  gw_probe :: "string \<Rightarrow> string + perms"
  gw_mint :: "string \<Rightarrow> (string list \<times> perms) option \<Rightarrow> string + string"
  gw_http :: "string \<Rightarrow> string \<Rightarrow> string \<Rightarrow> jobj \<Rightarrow> string + int \<times> string"
  gw_pull :: "string \<Rightarrow> string + delivery_pull"
  gw_list :: "string \<Rightarrow> string + string list"
  gw_issue :: "string \<Rightarrow> string + raw_issue"
  gw_milestone :: "string \<Rightarrow> string + milestone"
  gw_milestones :: "string \<Rightarrow> string + milestone list"
  gw_get_pull :: "bool \<Rightarrow> connector \<Rightarrow> string \<Rightarrow> string \<Rightarrow> int \<Rightarrow> pull_meta option"
  gw_graph :: "string \<Rightarrow> string \<Rightarrow> jobj \<Rightarrow> string option \<times> jobj"

type_synonym 'a gh_result = "(gh_error + 'a) \<times> peer_event list"

definition gh_fail :: "gh_error \<Rightarrow> 'a gh_result" where "gh_fail e = (Inl e, [])"

definition gh_ok :: "'a \<Rightarrow> 'a gh_result" where "gh_ok x = (Inr x, [])"

definition gh_bind :: "'a gh_result \<Rightarrow> ('a \<Rightarrow> 'b gh_result) \<Rightarrow> 'b gh_result" where
  "gh_bind m f = (case m of (Inl e, es) \<Rightarrow> (Inl e, es) | (Inr x, es) \<Rightarrow> (let (r, fs) = f x in (r, es @ fs)))"

definition mocks :: "gh_world \<Rightarrow> connector \<Rightarrow> bool" where
  "mocks W c = github_use_mock_api (gw_getenv W) (Some c)"

text \<open>\<^verbatim>\<open>githubAccessToken\<close>: for an App the token of the whole installation.\<close>

definition github_access_token :: "gh_world \<Rightarrow> connector \<Rightarrow> string gh_result" where
  "github_access_token W c =
     (if cn_kind c = ''github_pat'' \<and> cn_token c \<noteq> [] then gh_ok (cn_token c)
      else if cn_inst c \<noteq> [] then
        (case gw_mint W (cn_inst c) None of Inl e \<Rightarrow> Inl (GeText e) | Inr t \<Rightarrow> Inr t, [GhMint (cn_inst c) None])
      else gh_fail (GeText ''no credentials on connector''))"

definition scoped_token :: "gh_world \<Rightarrow> connector \<Rightarrow> string \<Rightarrow> perms \<Rightarrow> string gh_result" where
  "scoped_token W c repo want =
     (let (res, asked) = github_access_token_for (gw_probe W) (gw_mint W) (Some c) repo want
      in (case res of Inl e \<Rightarrow> Inl (GeToken e) | Inr t \<Rightarrow> Inr t,
          case asked of None \<Rightarrow> [] | Some (inst, body) \<Rightarrow> [GhMint inst body]))"

definition github_api_scoped ::
  "gh_world \<Rightarrow> connector \<Rightarrow> string \<Rightarrow> string \<Rightarrow> perms \<Rightarrow> string \<Rightarrow> string \<Rightarrow> jobj \<Rightarrow> (int \<times> string) gh_result" where
  "github_api_scoped W c owner repo want m path body =
     gh_bind (scoped_token W c (trim_set (owner @ ''/'' @ repo) ''/'') want) (\<lambda>tok.
       (case gw_http W tok m path body of Inl e \<Rightarrow> Inl (GeText e) | Inr r \<Rightarrow> Inr r, [GhCall tok m path body]))"

definition github_write_api ::
  "gh_world \<Rightarrow> connector \<Rightarrow> string \<Rightarrow> string \<Rightarrow> perms \<Rightarrow> string \<Rightarrow> string \<Rightarrow> jobj \<Rightarrow> (int \<times> string) gh_result" where
  "github_write_api W c owner repo want m path body =
     (case authorize_github_write (gw_getenv W) (Some c) of
        Inl e \<Rightarrow> gh_fail (GeWrite e)
      | Inr _ \<Rightarrow> github_api_scoped W c owner repo want m path body)"

definition repo_path :: "string \<Rightarrow> string \<Rightarrow> string \<Rightarrow> string" where
  "repo_path owner repo rest = ''/repos/'' @ owner @ ''/'' @ repo @ rest"

definition repo_url :: "string \<Rightarrow> string \<Rightarrow> string \<Rightarrow> string" where
  "repo_url owner repo rest = ''https://github.com/'' @ owner @ ''/'' @ repo @ rest"

text \<open>A status from 300 on is an error, else the body is decoded.\<close>

definition decoded :: "(int \<Rightarrow> string \<Rightarrow> gh_error) \<Rightarrow> (string \<Rightarrow> string + 'a) \<Rightarrow> int \<times> string \<Rightarrow> 'a gh_result" where
  "decoded bad dec r =
     (if 300 \<le> fst r then gh_fail (bad (fst r) (snd r))
      else case dec (snd r) of Inl e \<Rightarrow> gh_fail (GeText e) | Inr x \<Rightarrow> gh_ok x)"

subsection \<open>Pull requests\<close>

definition pull_error :: "string \<Rightarrow> int \<Rightarrow> string \<Rightarrow> gh_error" where
  "pull_error op code raw = GePull code op (truncate_str raw 400)"

definition decode_delivery_pull :: "gh_world \<Rightarrow> string \<Rightarrow> string + delivery_pull" where
  "decode_delivery_pull W raw =
     (case gw_pull W raw of
        Inl e \<Rightarrow> Inl e
      | Inr p \<Rightarrow> (if dp_number p \<le> 0 then Inl ''github returned a pull request without a number'' else Inr p))"

definition mock_pull_number :: "string \<Rightarrow> int" where
  "mock_pull_number head = 1000 + fold (\<lambda>c n. (n * 31 + int (byte_of c)) mod 8000) head 0"

definition pull_url :: "string \<Rightarrow> string \<Rightarrow> int \<Rightarrow> string" where
  "pull_url owner repo n = repo_url owner repo (''/pull/'' @ show_int n)"

definition pull_forbidden :: "int \<Rightarrow> bool" where "pull_forbidden code \<longleftrightarrow> code = 403 \<or> code = 401"

definition pull_no_commits :: "int \<Rightarrow> string \<Rightarrow> bool" where
  "pull_no_commits code body \<longleftrightarrow> code = 422 \<and> contains (to_lower body) ''no commits between''"

definition dq :: string where "dq = [CHR 0x22]"

definition pull_head_missing :: "int \<Rightarrow> string \<Rightarrow> bool" where
  "pull_head_missing code body \<longleftrightarrow>
     (let low = to_lower body
      in code = 422 \<and>
         (contains low (''field: '' @ dq @ ''head'' @ dq) \<or> contains low (dq @ ''field'' @ dq @ '':'' @ dq @ ''head'' @ dq) \<or>
          contains low ''head sha'' \<or> contains low ''head repository''))"

definition pull_already_exists :: "int \<Rightarrow> string \<Rightarrow> bool" where
  "pull_already_exists code body \<longleftrightarrow> code = 422 \<and> contains (to_lower body) ''already exists''"

definition mock_pull :: "string \<Rightarrow> string \<Rightarrow> string \<Rightarrow> string \<Rightarrow> string \<Rightarrow> bool \<Rightarrow> delivery_pull" where
  "mock_pull owner repo title head base draft =
     \<lparr>dp_number = mock_pull_number head, dp_url = pull_url owner repo (mock_pull_number head), dp_state = ''open'',
      dp_title = title, dp_head = head, dp_base = base, dp_draft = draft\<rparr>"

text \<open>The open pull request of a head branch; its base is not part of the question.\<close>

definition find_open_pull :: "gh_world \<Rightarrow> connector \<Rightarrow> string \<Rightarrow> string \<Rightarrow> string \<Rightarrow> delivery_pull gh_result" where
  "find_open_pull W c owner repo head =
     (if trim_space head = [] then gh_fail (GeText ''no connector or head branch'')
      else if mocks W c then gh_ok (mock_pull owner repo [] head ''main'' False)
      else gh_bind
        (github_api_scoped W c owner repo github_perms_pr_read ''GET''
           (repo_path owner repo (''/pulls?state=open&head='' @ owner @ '':'' @ head @ ''&per_page=1'')) [])
        (\<lambda>r. gh_bind (decoded (pull_error ''list pulls for head'') (gw_list W) r) (\<lambda>raws.
           case raws of
             [] \<Rightarrow> gh_fail (GeText (''no open pull request found for head '' @ head))
           | raw # _ \<Rightarrow> (case decode_delivery_pull W raw of Inl e \<Rightarrow> gh_fail (GeText e) | Inr p \<Rightarrow> gh_ok p))))"

definition open_pull_body :: "string \<Rightarrow> string \<Rightarrow> string \<Rightarrow> string \<Rightarrow> bool \<Rightarrow> jobj" where
  "open_pull_body title body head base draft =
     [(''title'', JStr title), (''body'', JStr body), (''head'', JStr head), (''base'', JStr base), (''draft'', JBool draft)]"

definition open_pull_request ::
  "gh_world \<Rightarrow> connector \<Rightarrow> string \<Rightarrow> string \<Rightarrow> string \<Rightarrow> string \<Rightarrow> string \<Rightarrow> string \<Rightarrow> bool
     \<Rightarrow> (delivery_pull \<times> bool) gh_result" where
  "open_pull_request W c owner repo title body head base draft =
     (let head = trim_space head; base = trim_space base; title = trim_space title
      in if head = [] \<or> base = [] then gh_fail (GeText ''head and base branch required'')
         else if head = base then gh_fail (GeText (''head and base are the same branch ('' @ head @ '')''))
         else if title = [] then gh_fail (GeText ''title required'')
         else if mocks W c then gh_ok (mock_pull owner repo title head base draft, False)
         else gh_bind
           (github_write_api W c owner repo github_perms_create_pr ''POST'' (repo_path owner repo ''/pulls'')
              (open_pull_body title body head base draft))
           (\<lambda>(code, raw).
              if 300 \<le> code then
                (let e = pull_error ''create pull request'' code raw
                 in if pull_already_exists code (truncate_str raw 400) then
                      (case find_open_pull W c owner repo head of
                         (Inr p, es) \<Rightarrow> (Inr (p, True), es)
                       | (Inl _, es) \<Rightarrow> (Inl e, es))
                    else gh_fail e)
              else (case decode_delivery_pull W raw of Inl e \<Rightarrow> gh_fail (GeText e) | Inr p \<Rightarrow> gh_ok (p, False))))"

definition merged_pull :: "string \<Rightarrow> string \<Rightarrow> pull_meta \<Rightarrow> delivery_pull" where
  "merged_pull owner repo m =
     \<lparr>dp_number = pm_number m, dp_url = pull_url owner repo (pm_number m), dp_state = ''merged'', dp_title = pm_title m,
      dp_head = pm_head m, dp_base = pm_base m, dp_draft = pm_draft m\<rparr>"

definition bare_merged :: "string \<Rightarrow> string \<Rightarrow> int \<Rightarrow> string \<Rightarrow> delivery_pull" where
  "bare_merged owner repo n title =
     \<lparr>dp_number = n, dp_url = pull_url owner repo n, dp_state = ''merged'', dp_title = title, dp_head = [], dp_base = [],
      dp_draft = False\<rparr>"

definition merge_method_of :: "string \<Rightarrow> string option" where
  "merge_method_of m =
     (let m = to_lower (trim_space m)
      in if m = [] \<or> m = ''squash'' then Some ''squash'' else if m = ''merge'' \<or> m = ''rebase'' then Some m else None)"

definition merge_pull_request ::
  "gh_world \<Rightarrow> connector \<Rightarrow> string \<Rightarrow> string \<Rightarrow> int \<Rightarrow> string \<Rightarrow> delivery_pull gh_result" where
  "merge_pull_request W c owner repo n meth =
     (if n \<le> 0 then gh_fail (GeText ''pull request number required'')
      else case merge_method_of meth of
        None \<Rightarrow> gh_fail (GeText (''unsupported merge_method '' @ go_quote (to_lower (trim_space meth)) @ '' (use squash, merge, or rebase)''))
      | Some meth \<Rightarrow>
          if mocks W c then gh_ok (bare_merged owner repo n ''merged'')
          else
            let before = gw_get_pull W False c owner repo n; look = [GhGetPull owner repo n]
            in case (case before of Some m \<Rightarrow> (if pm_merged m \<or> equal_fold (pm_state m) ''merged'' then Some m else None)
                     | None \<Rightarrow> None) of
                 Some m \<Rightarrow> (Inr (merged_pull owner repo m), look)
               | None \<Rightarrow>
                   gh_bind (Inr (), look) (\<lambda>_. gh_bind
                     (github_write_api W c owner repo github_perms_create_pr ''PUT''
                        (repo_path owner repo (''/pulls/'' @ show_int n @ ''/merge'')) [(''merge_method'', JStr meth)])
                     (\<lambda>(code, raw).
                        if 300 \<le> code then gh_fail (pull_error ''merge pull request'' code raw)
                        else (case gw_get_pull W True c owner repo n of
                                None \<Rightarrow> Inr (bare_merged owner repo n [])
                              | Some m \<Rightarrow> Inr (merged_pull owner repo m), look))))"

end
