(* ===== verification/Peer_Boards.thy ===== *)
theory Peer_Boards
  imports Peer_Github
begin

text \<open>
  Issues, milestones and project boards (\<^verbatim>\<open>src/scm_github_issues.go\<close>, \<^verbatim>\<open>src/github_projects.go\<close>) as
  the peer surface uses them.
\<close>

subsection \<open>Issues\<close>

definition issue_error :: "string \<Rightarrow> int \<Rightarrow> string \<Rightarrow> gh_error" where
  "issue_error op code raw = GeIssue code op (truncate_str raw 300)"

definition decode_issue :: "gh_world \<Rightarrow> string \<Rightarrow> string + issue_meta" where
  "decode_issue W raw =
     (case gw_issue W raw of
        Inl e \<Rightarrow> Inl e
      | Inr i \<Rightarrow>
          Inr \<lparr>im_number = ri_number i, im_title = ri_title i, im_body = ri_body i, im_state = ri_state i, im_url = ri_url i,
               im_labels = filter (\<lambda>l. l \<noteq> []) (ri_labels i),
               im_milestone = (case ri_milestone i of None \<Rightarrow> 0 | Some (n, _) \<Rightarrow> n),
               im_milestone_title = (case ri_milestone i of None \<Rightarrow> [] | Some (_, t) \<Rightarrow> t),
               im_assignees = filter (\<lambda>l. l \<noteq> []) (ri_assignees i), im_updated = ri_updated i\<rparr>)"

definition issue_url :: "string \<Rightarrow> string \<Rightarrow> int \<Rightarrow> string" where
  "issue_url owner repo n = repo_url owner repo (''/issues/'' @ show_int n)"

definition issue_path :: "string \<Rightarrow> string \<Rightarrow> int \<Rightarrow> string" where
  "issue_path owner repo n = repo_path owner repo (''/issues/'' @ show_int n)"

definition issue_op :: "string \<Rightarrow> int \<Rightarrow> string" where
  "issue_op op n = op @ '' issue #'' @ show_int n"

definition mock_issue :: "string \<Rightarrow> string \<Rightarrow> int \<Rightarrow> string \<Rightarrow> string \<Rightarrow> string \<Rightarrow> string list \<Rightarrow> int \<Rightarrow> issue_meta" where
  "mock_issue owner repo n title body state labels ms =
     \<lparr>im_number = n, im_title = title, im_body = body, im_state = state, im_url = issue_url owner repo n, im_labels = labels,
      im_milestone = ms, im_milestone_title = [], im_assignees = [], im_updated = []\<rparr>"

definition get_issue :: "gh_world \<Rightarrow> connector \<Rightarrow> string \<Rightarrow> string \<Rightarrow> int \<Rightarrow> issue_meta gh_result" where
  "get_issue W c owner repo n =
     (if n \<le> 0 then gh_fail (GeText ''missing connector or issue number'')
      else if mocks W c then gh_ok (mock_issue owner repo n ''mock issue'' ''mock body'' ''open'' [''AI''] 0)
      else gh_bind (github_api_scoped W c owner repo github_perms_issues_write ''GET'' (issue_path owner repo n) [])
             (decoded (issue_error (issue_op ''get'' n)) (decode_issue W)))"

text \<open>What an update sends; the applied fields are the names of what is sent.\<close>

definition issue_patch ::
  "string \<Rightarrow> string \<Rightarrow> string \<Rightarrow> int \<Rightarrow> string list option \<Rightarrow> jobj" where
  "issue_patch title body state ms labels =
     (if trim_space title \<noteq> [] then [(''title'', JStr title)] else []) @
     (if body \<noteq> [] then [(''body'', JStr body)] else []) @
     (if state \<noteq> [] then [(''state'', JStr state)] else []) @
     (if 0 < ms then [(''milestone'', JInt ms)] else if ms < 0 then [(''milestone'', JNull)] else []) @
     (case labels of None \<Rightarrow> [] | Some ls \<Rightarrow> [(''labels'', JStrs ls)])"

definition valid_state :: "string \<Rightarrow> bool" where
  "valid_state s \<longleftrightarrow> s = [] \<or> s = ''open'' \<or> s = ''closed''"

definition update_issue ::
  "gh_world \<Rightarrow> connector \<Rightarrow> string \<Rightarrow> string \<Rightarrow> int \<Rightarrow> string \<Rightarrow> string \<Rightarrow> string \<Rightarrow> int \<Rightarrow> string list option
     \<Rightarrow> (issue_meta \<times> string list) gh_result" where
  "update_issue W c owner repo n title body state ms labels =
     (let patch = issue_patch title body state ms labels; applied = map fst patch
      in if n \<le> 0 then gh_fail (GeText ''missing connector or issue number'')
         else if \<not> valid_state state then gh_fail (GeText ''state must be open or closed'')
         else if patch = [] then gh_fail (GeText ''nothing to update'')
         else if mocks W c then
           gh_ok (mock_issue owner repo n (nz title ''mock issue'') body (nz state ''open'')
                    (case labels of None \<Rightarrow> [] | Some ls \<Rightarrow> ls) ms, applied)
         else gh_bind
           (gh_bind (github_write_api W c owner repo github_perms_issues_write ''PATCH'' (issue_path owner repo n) patch)
              (decoded (issue_error (issue_op ''update'' n)) (decode_issue W)))
           (\<lambda>m. gh_ok (m, applied)))"

definition create_issue ::
  "gh_world \<Rightarrow> connector \<Rightarrow> string \<Rightarrow> string \<Rightarrow> string \<Rightarrow> string \<Rightarrow> string list \<Rightarrow> int \<Rightarrow> issue_meta gh_result" where
  "create_issue W c owner repo title body labels ms =
     (if trim_space title = [] then gh_fail (GeText ''missing connector or title'')
      else if mocks W c then
        gh_ok (mock_issue owner repo (9000 + int (length title mod 97)) title body ''open'' labels ms)
      else gh_bind
        (github_write_api W c owner repo github_perms_issues_write ''POST'' (repo_path owner repo ''/issues'')
           ([(''title'', JStr title), (''body'', JStr body)] @ (if labels \<noteq> [] then [(''labels'', JStrs labels)] else []) @
            (if 0 < ms then [(''milestone'', JInt ms)] else [])))
        (decoded (issue_error ''create issue'') (decode_issue W)))"

subsection \<open>Milestones\<close>

definition milestone_error :: "string \<Rightarrow> int \<Rightarrow> string \<Rightarrow> gh_error" where
  "milestone_error op code raw = GeText (op @ '' '' @ show_int code @ '': '' @ truncate_str raw 200)"

definition list_milestones :: "gh_world \<Rightarrow> connector \<Rightarrow> string \<Rightarrow> string \<Rightarrow> milestone list gh_result" where
  "list_milestones W c owner repo =
     (if mocks W c then gh_ok [\<lparr>ms_number = 1, ms_title = ''Mock Milestone'', ms_desc = [], ms_state = ''open'', ms_url = []\<rparr>]
      else gh_bind
        (github_api_scoped W c owner repo github_perms_issues_write ''GET''
           (repo_path owner repo ''/milestones?state=all&per_page=100'') [])
        (decoded (milestone_error ''list milestones'') (gw_milestones W)))"

definition create_milestone :: "gh_world \<Rightarrow> connector \<Rightarrow> string \<Rightarrow> string \<Rightarrow> string \<Rightarrow> string \<Rightarrow> milestone gh_result" where
  "create_milestone W c owner repo title desc =
     (if trim_space title = [] then gh_fail (GeText ''missing connector or title'')
      else if mocks W c then
        gh_ok \<lparr>ms_number = 42, ms_title = title, ms_desc = desc, ms_state = ''open'',
               ms_url = repo_url owner repo ''/milestone/42''\<rparr>
      else gh_bind
        (github_write_api W c owner repo github_perms_issues_write ''POST'' (repo_path owner repo ''/milestones'')
           [(''title'', JStr title), (''description'', JStr desc), (''state'', JStr ''open'')])
        (decoded (milestone_error ''create milestone'') (gw_milestone W)))"

text \<open>A failed listing is not reported: the milestone is created.\<close>

definition find_or_create_milestone :: "gh_world \<Rightarrow> connector \<Rightarrow> string \<Rightarrow> string \<Rightarrow> string \<Rightarrow> string \<Rightarrow> milestone gh_result" where
  "find_or_create_milestone W c owner repo title desc =
     (let title = trim_space title; (res, es) = list_milestones W c owner repo;
          found = (case res of Inl _ \<Rightarrow> None | Inr ms \<Rightarrow> List.find (\<lambda>m. equal_fold (ms_title m) title) ms)
      in case found of
           Some m \<Rightarrow> (Inr m, es)
         | None \<Rightarrow> (let (r, fs) = create_milestone W c owner repo title desc in (r, es @ fs)))"

definition milestone_patch :: "string \<Rightarrow> string \<Rightarrow> string \<Rightarrow> jobj" where
  "milestone_patch title desc state =
     (if trim_space title \<noteq> [] then [(''title'', JStr (trim_space title))] else []) @
     (if desc \<noteq> [] \<or> title \<noteq> [] then [(''description'', JStr desc)] else []) @
     (if state = ''open'' \<or> state = ''closed'' then [(''state'', JStr state)] else [])"

definition update_milestone ::
  "gh_world \<Rightarrow> connector \<Rightarrow> string \<Rightarrow> string \<Rightarrow> int \<Rightarrow> string \<Rightarrow> string \<Rightarrow> string \<Rightarrow> milestone gh_result" where
  "update_milestone W c owner repo n title desc state =
     (if n \<le> 0 then gh_fail (GeText ''missing connector or milestone number'')
      else if mocks W c then
        gh_ok \<lparr>ms_number = n, ms_title = nz title ''Mock Milestone'', ms_desc = desc, ms_state = nz state ''open'',
               ms_url = repo_url owner repo (''/milestone/'' @ show_int n)\<rparr>
      else if milestone_patch title desc state = [] then gh_fail (GeText ''nothing to update'')
      else gh_bind
        (github_write_api W c owner repo github_perms_issues_write ''PATCH''
           (repo_path owner repo (''/milestones/'' @ show_int n)) (milestone_patch title desc state))
        (decoded (milestone_error ''update milestone'') (gw_milestone W)))"

subsection \<open>Projects\<close>

definition gh_error_status :: "gh_error option \<Rightarrow> string" where
  "gh_error_status e =
     (case e of None \<Rightarrow> ''ok'' | Some (GeProjects _ status _) \<Rightarrow> status | Some _ \<Rightarrow> ''upstream_error'')"

text \<open>\<^verbatim>\<open>classifyProjectsGraphQLError\<close>, on the text of the error.\<close>

definition classify_projects_error :: "string \<Rightarrow> gh_error \<Rightarrow> gh_error" where
  "classify_projects_error op e =
     (case e of
        GeText text \<Rightarrow>
          (let msg = to_lower text
           in GeProjects op
                (if list_ex (contains msg) [''graphql 401'', ''graphql 403'', ''resource not accessible'', ''not have permission'',
                      ''required scopes'', ''forbidden''] then ''missing_organization_projects''
                 else if list_ex (contains msg) [''could not resolve to a node'', ''could not resolve'', ''graphql 404'', ''not found'']
                      then ''item_not_found''
                 else ''upstream_error'') text)
      | e \<Rightarrow> e)"

text \<open>
  \<^verbatim>\<open>githubGraphQL\<close>: for an App the token of the whole installation, asked for twice.  An error keeps the
  data that came with it.
\<close>

definition github_graphql :: "gh_world \<Rightarrow> connector \<Rightarrow> string \<Rightarrow> jobj \<Rightarrow> (gh_error option \<times> jobj) \<times> peer_event list" where
  "github_graphql W c q vars =
     (case github_access_token W c of
        (Inl e, es) \<Rightarrow> ((Some e, []), es)
      | (Inr tok, es) \<Rightarrow>
          (let app = cn_kind c = ''github_app'' \<and> cn_inst c \<noteq> [];
               tok = (if app then case gw_mint W (cn_inst c) None of Inr t \<Rightarrow> t | Inl _ \<Rightarrow> tok else tok);
               (err, data) = gw_graph W tok q vars
           in ((map_option GeText err, data), es @ (if app then [GhMint (cn_inst c) None] else []) @ [GhGraph tok q vars])))"

definition jfield :: "jv \<Rightarrow> string \<Rightarrow> jv" where
  "jfield v k = (case v of JObj m \<Rightarrow> jget m k | _ \<Rightarrow> JNull)"

definition jlist :: "jv \<Rightarrow> jv list" where
  "jlist v = (case v of JArr xs \<Rightarrow> xs | _ \<Rightarrow> [])"

definition is_object :: "jv \<Rightarrow> bool" where
  "is_object v \<longleftrightarrow> (case v of JObj _ \<Rightarrow> True | _ \<Rightarrow> False)"

definition projects_nodes :: "jobj \<Rightarrow> string \<Rightarrow> jv list" where
  "projects_nodes data key = jlist (jfield (jfield (jget data key) ''projectsV2'') ''nodes'')"

definition project_of_node :: "jv \<Rightarrow> project_meta" where
  "project_of_node n =
     \<lparr>pj_id = str_from_any (jfield n ''id''), pj_title = str_from_any (jfield n ''title''), pj_url = str_from_any (jfield n ''url''),
      pj_number = int_from_any (jfield n ''number'')\<rparr>"

definition list_projects :: "gh_world \<Rightarrow> connector \<Rightarrow> string \<Rightarrow> project_meta list gh_result" where
  "list_projects W c owner =
     (if mocks W c then
        gh_ok [\<lparr>pj_id = ''PVT_mock1'', pj_title = ''Mock Project'', pj_url = ''https://github.com/orgs/'' @ owner @ ''/projects/1'',
                pj_number = 1\<rparr>]
      else
        let ((err, data), es) = github_graphql W c ''organization.projectsV2'' [(''login'', JStr owner)];
            nodes = projects_nodes data ''organization'';
            ((err2, data2), fs) = (if err \<noteq> None \<or> nodes = []
               then github_graphql W c ''user.projectsV2'' [(''login'', JStr owner)] else ((None, []), []));
            asked = (err \<noteq> None \<or> nodes = []);
            (err, nodes) = (if asked \<and> err2 = None then (None, projects_nodes data2 ''user'') else (err, nodes))
        in (case err of Some e \<Rightarrow> Inl e | None \<Rightarrow> Inr (map project_of_node (filter is_object nodes)), es @ fs))"

definition add_draft_item :: "gh_world \<Rightarrow> connector \<Rightarrow> string \<Rightarrow> string \<Rightarrow> string \<Rightarrow> string gh_result" where
  "add_draft_item W c proj title body =
     (if mocks W c then gh_ok ''PVTI_mock_item''
      else
        let ((err, data), es) = github_graphql W c ''addProjectV2DraftIssue''
               [(''projectId'', JStr proj), (''title'', JStr title), (''body'', JStr body)];
            k = str_from_any (jfield (jfield (jget data ''addProjectV2DraftIssue'') ''projectItem'') ''id'')
        in (case err of
              Some e \<Rightarrow> Inl e
            | None \<Rightarrow> (if k \<noteq> [] then Inr k else Inl (GeText ''addProjectV2DraftIssue returned no item id'')), es))"

definition draft_content :: "gh_world \<Rightarrow> connector \<Rightarrow> string \<Rightarrow> string gh_result" where
  "draft_content W c item =
     (let op = ''resolve draft content''; ((err, data), es) = github_graphql W c ''node.content'' [(''id'', JStr item)];
          node = jget data ''node''; kind = to_upper (trim_space (str_from_any (jfield node ''type'')));
          draft = str_from_any (jfield (jfield node ''content'') ''id'')
      in (case err of
            Some e \<Rightarrow> Inl (classify_projects_error op e)
          | None \<Rightarrow>
              (if \<not> is_object node then Inl (GeProjects op ''item_not_found'' (''no ProjectV2Item node for id '' @ item))
               else if kind \<noteq> [] \<and> kind \<noteq> ''DRAFT_ISSUE'' then
                 Inl (GeProjects op ''title_sync_unsupported''
                   (''project item is '' @ kind @ '', not DRAFT_ISSUE; its title lives on the linked issue and cannot be set through Projects v2''))
               else if draft = [] then Inl (GeProjects op ''item_not_found'' ''project item carries no draft issue content'')
               else Inr draft), es))"

definition update_draft_item :: "gh_world \<Rightarrow> connector \<Rightarrow> string \<Rightarrow> string \<Rightarrow> string \<Rightarrow> unit gh_result" where
  "update_draft_item W c item title body =
     (let op = ''update draft issue''; item = trim_space item; title = trim_space title
      in if item = [] then gh_fail (GeProjects op ''item_not_found'' ''empty item id'')
         else if title = [] \<and> trim_space body = [] then
           gh_fail (GeProjects op ''nothing_to_sync'' ''neither title nor body supplied'')
         else if mocks W c then gh_ok ()
         else gh_bind (draft_content W c item) (\<lambda>draft.
           let ((err, data), es) = github_graphql W c ''updateProjectV2DraftIssue''
                 ([(''draftIssueId'', JStr draft)] @ (if title \<noteq> [] then [(''title'', JStr title)] else []) @
                  (if trim_space body \<noteq> [] then [(''body'', JStr body)] else []));
               upd = jget data ''updateProjectV2DraftIssue''; d = jfield upd ''draftIssue''
           in (case err of
                 Some e \<Rightarrow> Inl (classify_projects_error op e)
               | None \<Rightarrow>
                   (if \<not> is_object upd then
                      Inl (GeProjects op ''upstream_error'' ''updateProjectV2DraftIssue returned no payload'')
                    else if \<not> is_object d \<or> str_from_any (jfield d ''id'') = [] then
                      Inl (GeProjects op ''upstream_error'' ''updateProjectV2DraftIssue returned no draft issue'')
                    else Inr ()), es)))"

text \<open>\<^verbatim>\<open>matchStatusOption\<close>: an option is its id and its name; first the names, then parts of names.\<close>

definition status_aliases :: "string \<Rightarrow> string list option" where
  "status_aliases hint = map_of
     [(''backlog'', [''backlog'', ''todo'', ''to do'', ''new'']),
      (''queue'', [''queue'', ''ready'', ''ready for work'', ''up next'']),
      (''in progress'', [''in progress'', ''in_progress'', ''doing'', ''active'']),
      (''review'', [''review'', ''in review'', ''code review'']),
      (''human review'', [''human review'', ''human_review'', ''needs review'', ''waiting'']),
      (''done'', [''done'', ''complete'', ''completed'', ''closed'', ''finished''])] hint"

definition first_option :: "(string \<Rightarrow> string \<Rightarrow> bool) \<Rightarrow> string list \<Rightarrow> (string \<times> string) list \<Rightarrow> string option" where
  "first_option P wanted options =
     map_option fst (List.find (\<lambda>_. True) (concat (map (\<lambda>w. filter (\<lambda>o'. P w (snd o')) options) wanted)))"

definition match_status_option :: "(string \<times> string) list \<Rightarrow> string \<Rightarrow> string" where
  "match_status_option options hint =
     (let hint = to_lower (trim_space (replace_all hint ''_'' '' ''));
          wanted = (case status_aliases hint of Some ws \<Rightarrow> ws | None \<Rightarrow> [hint])
      in case first_option (\<lambda>w n. equal_fold (trim_space n) w) wanted options of
           Some k \<Rightarrow> k
         | None \<Rightarrow>
             (case first_option (\<lambda>w n. contains (to_lower n) w \<or> contains w (to_lower n)) wanted options of
                Some k \<Rightarrow> k | None \<Rightarrow> []))"

definition status_options :: "jv \<Rightarrow> (string \<times> string) list" where
  "status_options f =
     map (\<lambda>x. (str_from_any (jfield x ''id''), str_from_any (jfield x ''name''))) (filter is_object (jlist (jfield f ''options'')))"

text \<open>
  The first field called status with an id; the options of earlier ones without an id are kept before
  its own.
\<close>

fun pick_status_field :: "jv list \<Rightarrow> (string \<times> string) list \<Rightarrow> (string \<times> (string \<times> string) list) option" where
  "pick_status_field [] acc = None"
| "pick_status_field (f # fs) acc =
     (if \<not> is_object f \<or> to_lower (str_from_any (jfield f ''name'')) \<noteq> ''status'' then pick_status_field fs acc
      else
        let k = str_from_any (jfield f ''id''); acc = acc @ status_options f
        in if k \<noteq> [] then Some (k, acc) else pick_status_field fs acc)"

definition status_field :: "gh_world \<Rightarrow> connector \<Rightarrow> string \<Rightarrow> (string \<times> (string \<times> string) list) gh_result" where
  "status_field W c proj =
     (let ((err, data), es) = github_graphql W c ''node.fields'' [(''id'', JStr proj)]; node = jget data ''node''
      in (case err of
            Some e \<Rightarrow> Inl e
          | None \<Rightarrow>
              (if \<not> is_object node then Inl (GeText ''project node missing'')
               else case pick_status_field (jlist (jfield (jfield node ''fields'') ''nodes'')) [] of
                 None \<Rightarrow> Inl (GeText ''no Status single-select field on project'')
               | Some r \<Rightarrow> Inr r), es))"

definition set_item_status :: "gh_world \<Rightarrow> connector \<Rightarrow> string \<Rightarrow> string \<Rightarrow> string \<Rightarrow> unit gh_result" where
  "set_item_status W c proj item hint =
     (if mocks W c then gh_ok ()
      else gh_bind (status_field W c proj) (\<lambda>(field, options).
        let opt = match_status_option options hint
        in if opt = [] then
             gh_fail (GeText (''no Status option matched hint '' @ go_quote hint @ '' (have '' @ show_nat (length options) @ '' options)''))
           else
             let ((err, _), es) = github_graphql W c ''updateProjectV2ItemFieldValue''
                   [(''projectId'', JStr proj), (''itemId'', JStr item), (''fieldId'', JStr field), (''optionId'', JStr opt)]
             in (case err of Some e \<Rightarrow> Inl e | None \<Rightarrow> Inr (), es)))"

end
