(* ===== verification/Peer_Surface.thy ===== *)
theory Peer_Surface
  imports Peer_Boards Conn_Store
begin

text \<open>
  The surface for peer products (\<^verbatim>\<open>src/peer_scm.go\<close>, \<^verbatim>\<open>src/peer_auth.go\<close>, \<^verbatim>\<open>src/peer_scm_pr.go\<close>,
  \<^verbatim>\<open>src/peer_scm_issues.go\<close>, \<^verbatim>\<open>src/peer_scm_pm.go\<close>): a service token with a scope, a connector of the
  same tenant, and then the call.  A handler answers with its reply and with what it asked of GitHub.
\<close>

subsection \<open>The service token\<close>

record peer_claims =
  pc_org :: string
  pc_user :: string
  pc_scopes :: "string list"

text \<open>
  \<open>pw_validate\<close> stands for \<^verbatim>\<open>openauth.ValidateServiceJWT\<close> (token, secret, audience) and \<open>pw_has_scope\<close> for
  \<^verbatim>\<open>openauth.RequireScope\<close>, whose refusal is \<^verbatim>\<open>ErrMissingScope\<close>.
\<close>

record peer_world = gh_world +
  pw_validate :: "string \<Rightarrow> string \<Rightarrow> string \<Rightarrow> string + peer_claims"
  pw_has_scope :: "peer_claims \<Rightarrow> string \<Rightarrow> bool"
  pw_expires :: string

definition world_of :: "peer_world \<Rightarrow> gh_world" where "world_of P = gh_world.truncate P"

datatype auth_error = AuthDisabled | BadToken string | MissingScope

definition validate_peer_auth_token :: "peer_world \<Rightarrow> string \<Rightarrow> string \<Rightarrow> string \<Rightarrow> auth_error + peer_claims" where
  "validate_peer_auth_token P token aud scope =
     (let secret = trim_space (gw_getenv P ''OPEN_SERVICE_JWT_SECRET'')
      in if secret = [] then Inl AuthDisabled
         else case pw_validate P token secret aud of
           Inl e \<Rightarrow> Inl (BadToken e)
         | Inr c \<Rightarrow> (if scope \<noteq> [] \<and> \<not> pw_has_scope P c scope then Inl MissingScope else Inr c))"

datatype peer_reply =
    PErr nat string
  | PStatus nat string string
  | PToken string perms string
  | PMockToken
  | PClone string
  | PPull bool delivery_pull
  | PIssue issue_meta "string list"
  | PMilestones "milestone list"
  | PMilestone milestone
  | PProjects "project_meta list"
  | PNoProjects "string list"
  | PItem string bool string bool string
  | PSynced bool string

record peer_request =
  pq_method :: string
  pq_auth :: string

definition bearer :: "string \<Rightarrow> string option" where
  "bearer auth = (if has_prefix auth ''Bearer '' then Some (trim_space (trim_prefix auth ''Bearer '')) else None)"

text \<open>\<^verbatim>\<open>peerSCMAuth\<close>; for the clone route a missing scope is answered as an invalid token.\<close>

definition peer_auth :: "peer_world \<Rightarrow> bool \<Rightarrow> peer_request \<Rightarrow> string \<Rightarrow> peer_reply + peer_claims" where
  "peer_auth P tells r scope =
     (if pq_method r \<noteq> ''POST'' then Inl (PErr 405 ''method not allowed'')
      else if trim_space (gw_getenv P ''OPEN_SERVICE_JWT_SECRET'') = [] then Inl (PErr 503 ''service auth disabled'')
      else case bearer (pq_auth r) of
        None \<Rightarrow> Inl (PErr 401 ''unauthorized'')
      | Some token \<Rightarrow>
          (case validate_peer_auth_token P token ''ora-api'' scope of
             Inr c \<Rightarrow> Inr c
           | Inl MissingScope \<Rightarrow> Inl (if tells then PErr 403 ''missing scope'' else PErr 401 ''invalid service token'')
           | Inl _ \<Rightarrow> Inl (PErr 401 ''invalid service token'')))"

subsection \<open>The connector\<close>

definition peer_tenant_match :: "peer_claims \<Rightarrow> app_conn \<Rightarrow> bool" where
  "peer_tenant_match cl c \<longleftrightarrow>
     (let org = trim_space (pc_org cl); user = trim_space (pc_user cl); conn_org = trim_space (cn_org c);
          scope = infer_legacy_scope (cn_org c) (cn_scope c)
      in if org \<noteq> [] then \<not> (scope = ''user'' \<or> scope = ''admin'' \<or> conn_org = [] \<or> org \<noteq> conn_org)
         else \<not> (scope \<noteq> ''user'' \<or> conn_org \<noteq> [] \<or> \<not> user_cred_owner_match user (cn_user c)))"

definition peer_resolve_connector ::
  "conn_env \<Rightarrow> peer_claims \<Rightarrow> string \<Rightarrow> conn_state \<Rightarrow> (peer_reply + app_conn) \<times> conn_state" where
  "peer_resolve_connector env cl cid s =
     (let cid = trim_space cid
      in if cid = [] then (Inl (PErr 400 ''connector_id required''), s)
         else
           let (co, s) = get_or_hydrate env cid s
           in (case co of
                 None \<Rightarrow> Inl (PErr 404 ''connector not found'')
               | Some c \<Rightarrow>
                   (if cn_status c = ''deleted'' then Inl (PErr 404 ''connector not found'')
                    else if \<not> equal_fold (trim_space (cn_status c)) ''active'' then Inl (PErr 403 ''connector not active'')
                    else if \<not> peer_tenant_match cl c then Inl (PErr 403 ''connector org mismatch'')
                    else Inr c), s))"

subsection \<open>Requests\<close>

text \<open>
  The decoded bodies of all routes in one record; a field a route does not have is not read by it, and
  \<open>pb_body\<close> is the description of a milestone.  A reply leaves out the details, notes and permission lists
  that go with its status.
\<close>

record peer_body =
  pb_conn :: string
  pb_repo :: string
  pb_owner :: string
  pb_number :: int
  pb_title :: string
  pb_body :: string
  pb_state :: string
  pb_head :: string
  pb_base :: string
  pb_draft :: bool
  pb_merge :: string
  pb_labels :: "string list option"
  pb_milestone :: int
  pb_project :: string
  pb_item :: string
  pb_hint :: string

type_synonym 'a peer_step = "(peer_reply + 'a) \<times> peer_event list"

text \<open>What a handler does once the connector is known.\<close>

type_synonym peer_work = "peer_world \<Rightarrow> app_conn \<Rightarrow> peer_body \<Rightarrow> peer_reply \<times> peer_event list"

definition conn_part :: "app_conn \<Rightarrow> connector" where "conn_part c = connector.truncate c"

definition reply_with :: "peer_reply \<Rightarrow> peer_reply \<times> peer_event list" where "reply_with r = (r, [])"

definition with_repo ::
  "peer_body \<Rightarrow> (string \<Rightarrow> string \<Rightarrow> peer_reply \<times> peer_event list) \<Rightarrow> peer_reply \<times> peer_event list" where
  "with_repo b f =
     (let (owner, repo) = split_owner_repo (pb_repo b)
      in if owner = [] \<or> repo = [] then reply_with (PErr 400 ''repo_full_name (owner/repo) required'') else f owner repo)"

definition peer_handler ::
  "conn_env \<Rightarrow> peer_world \<Rightarrow> bool \<Rightarrow> string \<Rightarrow> (peer_body \<Rightarrow> peer_reply option) \<Rightarrow> peer_work \<Rightarrow> peer_request \<Rightarrow> peer_body option
     \<Rightarrow> conn_state \<Rightarrow> (peer_reply \<times> peer_event list) \<times> conn_state" where
  "peer_handler env P tells scope early work r body s =
     (case peer_auth P tells r scope of
        Inl e \<Rightarrow> (reply_with e, s)
      | Inr cl \<Rightarrow>
          (case body of
             None \<Rightarrow> (reply_with (PErr 400 ''invalid json''), s)
           | Some b \<Rightarrow>
               (case early b of
                  Some e \<Rightarrow> (reply_with e, s)
                | None \<Rightarrow>
                    (let (co, s) = peer_resolve_connector env cl (pb_conn b) s
                     in (case co of Inl e \<Rightarrow> reply_with e | Inr c \<Rightarrow> work P c b, s)))))"

definition replied :: "(gh_error \<Rightarrow> peer_reply) \<Rightarrow> ('a \<Rightarrow> peer_reply) \<Rightarrow> 'a gh_result \<Rightarrow> peer_reply \<times> peer_event list" where
  "replied bad good r = (case r of (Inl e, es) \<Rightarrow> (bad e, es) | (Inr x, es) \<Rightarrow> (good x, es))"

subsection \<open>Code delivery: scope \<^verbatim>\<open>scm:pr\<close>\<close>

definition probed :: "peer_world \<Rightarrow> app_conn \<Rightarrow> bool" where
  "probed P c \<longleftrightarrow> cn_kind c = ''github_app'' \<and> \<not> mocks (world_of P) (conn_part c)"

definition health_of :: "peer_world \<Rightarrow> app_conn \<Rightarrow> perm_health" where
  "health_of P c = assess_installation_perm_health (gw_probe P) (Some (conn_part c))"

text \<open>The first missing permission a delivery needs.\<close>

definition delivery_lack :: "bool \<Rightarrow> string \<Rightarrow> (string \<times> string) option" where
  "delivery_lack want_prs m =
     (if has_prefix m ''contents'' then
        Some (''missing_contents_permission'', ''GitHub App installation is missing Contents write on this repository'')
      else if want_prs \<and> has_prefix m ''pull_requests'' then
        Some (''missing_pull_requests_permission'', ''GitHub App installation is missing Pull requests write on this repository'')
      else None)"

definition delivery_preflight :: "peer_world \<Rightarrow> app_conn \<Rightarrow> bool \<Rightarrow> peer_reply option" where
  "delivery_preflight P c want_prs =
     (if \<not> probed P c then None
      else case List.map_filter (delivery_lack want_prs) (ph_missing (health_of P c)) of
        [] \<Rightarrow> None
      | (status, msg) # _ \<Rightarrow> Some (PStatus 403 status msg))"

text \<open>The texts of the errors; those of the installation probe and of the minting are GitHub's.\<close>

fun token_error_text :: "token_error \<Rightarrow> string" where
  "token_error_text EmptyInstallation = ''empty installation id''"
| "token_error_text (RepoRequired repo) = ''repo-scoped token requires owner/repo (got '' @ go_quote repo @ '')''"
| "token_error_text (ProbeFailed e) = e"
| "token_error_text (LacksPerms ps) =
     ''installation lacks required permissions ['' @ join '' '' ps @ ''] '' @ em_dash @ '' refusing full-scope fallback''"
| "token_error_text (MintRefused422 e) =
     ''installation token 422 (ungranted perms) '' @ em_dash @ '' refusing full-scope fallback: '' @ e"
| "token_error_text (MintFailed e) = e"
| "token_error_text TokenNoConnector = ''no connector''"
| "token_error_text NoCredentials = ''no credentials on connector''"

fun gh_error_text :: "gh_error \<Rightarrow> string" where
  "gh_error_text (GeText t) = t"
| "gh_error_text (GeToken e) = token_error_text e"
| "gh_error_text (GeWrite e) = write_error_text e"
| "gh_error_text (GePull code op body) = op @ '': github returned '' @ show_int code @ '': '' @ body"
| "gh_error_text (GeIssue code op body) = op @ '': github returned '' @ show_int code @ '': '' @ body"
| "gh_error_text (GeProjects op status detail) =
     op @ '': '' @ status @ (if detail = [] then [] else '': '' @ detail)"

definition pull_request_error :: "gh_error \<Rightarrow> peer_reply" where
  "pull_request_error e =
     (case e of
        GePull code op body \<Rightarrow>
          (if pull_no_commits code body then
             PStatus 422 ''no_commits_between'' ''the head branch has no commits the base branch does not already contain''
           else if pull_head_missing code body then
             PStatus 422 ''head_branch_not_found''
               (''the head branch does not exist on the remote '' @ em_dash @ '' push it before opening a pull request'')
           else if code = 404 then
             PStatus 404 ''repo_not_found'' ''the repository is not reachable with this connector''
           else if pull_forbidden code then
             PStatus 403 ''missing_pull_requests_permission'' ''GitHub refused the pull-request call for this connector''
           else if code = 422 then PStatus 422 ''upstream_error'' ''GitHub rejected the pull request''
           else PStatus 502 ''upstream_error'' (gh_error_text e))
      | e \<Rightarrow> PStatus 502 ''upstream_error'' (gh_error_text e))"

definition after_preflight :: "peer_reply option \<Rightarrow> peer_reply \<times> peer_event list \<Rightarrow> peer_reply \<times> peer_event list" where
  "after_preflight refused go = (case refused of Some e \<Rightarrow> reply_with e | None \<Rightarrow> go)"

definition push_credentials :: peer_work where
  "push_credentials P c b =
     with_repo b (\<lambda>_ _. after_preflight (delivery_preflight P c False)
       (case authorize_github_write (gw_getenv P) (Some (conn_part c)) of
          Inl e \<Rightarrow> reply_with (PStatus 403 ''missing_contents_permission''
                     (''this connector is not authorized for GitHub writes: '' @ write_error_text e))
        | Inr _ \<Rightarrow>
            (if mocks (world_of P) (conn_part c) then reply_with PMockToken
             else replied (\<lambda>e. PStatus 502 ''upstream_error'' (''push credentials unavailable: '' @ gh_error_text e))
                    (\<lambda>t. PToken t github_perms_push (pw_expires P))
                    (scoped_token (world_of P) (conn_part c) (trim_space (pb_repo b)) github_perms_push))))"

definition pull_create :: peer_work where
  "pull_create P c b =
     with_repo b (\<lambda>owner repo.
       let title = trim_space (pb_title b); head = trim_space (pb_head b); base = trim_space (pb_base b)
       in if title = [] then reply_with (PErr 400 ''title required'')
          else if head = [] \<or> base = [] then reply_with (PErr 400 ''head and base required'')
          else if head = base then
            reply_with (PStatus 422 ''no_commits_between'' (''head and base are the same branch ('' @ head @ '')''))
          else after_preflight (delivery_preflight P c True)
            (replied pull_request_error (\<lambda>(p, old). PPull old p)
               (open_pull_request (world_of P) (conn_part c) owner repo title (pb_body b) head base (pb_draft b))))"

definition pull_merge :: peer_work where
  "pull_merge P c b =
     with_repo b (\<lambda>owner repo.
       if pb_number b \<le> 0 then reply_with (PErr 400 ''number required'')
       else after_preflight (delivery_preflight P c True)
         (replied pull_request_error (PPull True)
            (merge_pull_request (world_of P) (conn_part c) owner repo (pb_number b) (pb_merge b))))"

subsection \<open>Cloning: scope \<^verbatim>\<open>scm:clone\<close>\<close>

definition clone_early :: "peer_body \<Rightarrow> peer_reply option" where
  "clone_early b =
     (if trim_space (pb_conn b) = [] \<or> trim_space (pb_repo b) = [] \<or> \<not> contains (trim_space (pb_repo b)) ''/''
      then Some (PErr 400 ''connector_id and repo_full_name (owner/repo) required'') else None)"

text \<open>When the scoped token is refused the token of the whole connector is handed out.\<close>

definition clone_credentials :: peer_work where
  "clone_credentials P c b =
     (let W = world_of P; k = conn_part c; (res, es) = scoped_token W k (trim_space (pb_repo b)) github_perms_clone_read
      in case res of
           Inr t \<Rightarrow> (PClone t, es)
         | Inl _ \<Rightarrow>
             (let (res, fs) = github_access_token W k
              in (case res of
                    Inr t \<Rightarrow> PClone t
                  | Inl e \<Rightarrow> PErr 502 (''credentials unavailable: '' @ gh_error_text e), es @ fs)))"

subsection \<open>Issues and milestones: scope \<^verbatim>\<open>scm:pm\<close>\<close>

definition issues_preflight :: "peer_world \<Rightarrow> app_conn \<Rightarrow> peer_reply option" where
  "issues_preflight P c =
     (if probed P c \<and> list_ex (\<lambda>m. has_prefix m ''issues'') (ph_missing (health_of P c))
      then Some (PStatus 403 ''missing_issues_permission'' ''GitHub App installation is missing Issues write on this repository'')
      else None)"

definition issue_reply_error :: "gh_error \<Rightarrow> peer_reply" where
  "issue_reply_error e =
     (case e of
        GeIssue code op body \<Rightarrow>
          (if code = 404 then
             PStatus 404 ''issue_not_found''
               ''the linked GitHub issue is not reachable (deleted, transferred, or not visible to this connector)''
           else if code = 403 \<or> code = 401 then
             PStatus 403 ''missing_issues_permission'' ''GitHub refused the Issues call for this connector''
           else PStatus 502 ''upstream_error'' (gh_error_text e))
      | e \<Rightarrow> PStatus 502 ''upstream_error'' (gh_error_text e))"

definition issue_get :: peer_work where
  "issue_get P c b =
     with_repo b (\<lambda>owner repo.
       if pb_number b \<le> 0 then reply_with (PErr 400 ''number required'')
       else replied issue_reply_error (\<lambda>m. PIssue m []) (get_issue (world_of P) (conn_part c) owner repo (pb_number b)))"

definition issue_create :: peer_work where
  "issue_create P c b =
     with_repo b (\<lambda>owner repo.
       let title = trim_space (pb_title b)
       in if title = [] then reply_with (PErr 400 ''title required'')
          else after_preflight (issues_preflight P c)
            (replied issue_reply_error (\<lambda>m. PIssue m [])
               (create_issue (world_of P) (conn_part c) owner repo title (pb_body b)
                  (case pb_labels b of None \<Rightarrow> [] | Some ls \<Rightarrow> ls) (pb_milestone b))))"

definition issue_update :: peer_work where
  "issue_update P c b =
     with_repo b (\<lambda>owner repo.
       let state = trim_space (pb_state b)
       in if pb_number b \<le> 0 then reply_with (PErr 400 ''number required'')
          else if \<not> valid_state state then reply_with (PErr 400 ''state must be open or closed'')
          else after_preflight (issues_preflight P c)
            (replied issue_reply_error (\<lambda>(m, applied). PIssue m applied)
               (update_issue (world_of P) (conn_part c) owner repo (pb_number b) (pb_title b) (pb_body b) state
                  (pb_milestone b) (pb_labels b))))"

definition milestones_list :: peer_work where
  "milestones_list P c b =
     with_repo b (\<lambda>owner repo.
       replied (\<lambda>e. PErr 502 (''list milestones: '' @ gh_error_text e)) PMilestones
         (list_milestones (world_of P) (conn_part c) owner repo))"

definition milestone_upsert :: peer_work where
  "milestone_upsert P c b =
     with_repo b (\<lambda>owner repo.
       let W = world_of P; k = conn_part c; title = trim_space (pb_title b); state = trim_space (pb_state b);
           reply = replied (\<lambda>e. PErr 502 (''upsert milestone: '' @ gh_error_text e)) PMilestone
       in if \<not> valid_state state then reply_with (PErr 400 ''state must be open or closed'')
          else if 0 < pb_number b then reply (update_milestone W k owner repo (pb_number b) title (pb_body b) state)
          else if title = [] then reply_with (PErr 400 ''title required when number omitted'')
          else reply (gh_bind (find_or_create_milestone W k owner repo title (pb_body b)) (\<lambda>m.
                 if state \<noteq> [] \<and> ms_state m \<noteq> state then update_milestone W k owner repo (ms_number m) [] [] state
                 else gh_ok m)))"

subsection \<open>Projects: scope \<^verbatim>\<open>scm:pm\<close>\<close>

definition projects_preflight :: "peer_world \<Rightarrow> app_conn \<Rightarrow> peer_reply option" where
  "projects_preflight P c =
     (if probed P c \<and> \<not> ph_projects_ok (health_of P c)
      then Some (PStatus 403 ''missing_organization_projects''
             ''GitHub App installation is missing organization projects write, required for Projects v2'')
      else None)"

definition projects_error :: "string \<Rightarrow> gh_error \<Rightarrow> peer_reply" where
  "projects_error op e =
     (let status = gh_error_status (Some (classify_projects_error op e))
      in PStatus (if status = ''missing_organization_projects'' then 403
                  else if status = ''item_not_found'' then 404
                  else if status = ''title_sync_unsupported'' then 422 else 502)
           status (op @ '': '' @ gh_error_text e))"

definition projects_list :: peer_work where
  "projects_list P c b =
     (let owner = (if trim_space (pb_owner b) \<noteq> [] then trim_space (pb_owner b)
                   else let (o', r) = split_owner_repo (pb_repo b) in if o' = [] \<or> r = [] then [] else o')
      in if owner = [] then reply_with (PErr 400 ''owner or repo_full_name required'')
         else if cn_kind c = ''github_app'' \<and> \<not> ph_projects_ok (health_of P c) then
           reply_with (PNoProjects (ph_optional_missing (health_of P c)))
         else replied (\<lambda>e. PErr 502 (''list projects: '' @ gh_error_text e)) PProjects
                (list_projects (world_of P) (conn_part c) owner))"

text \<open>The item (created when no id is given), then the status of the card.\<close>

definition item_upsert :: peer_work where
  "item_upsert P c b =
     (let W = world_of P; k = conn_part c; proj = trim_space (pb_project b); title = trim_space (pb_title b);
          item = trim_space (pb_item b); hint = trim_space (pb_hint b)
      in if proj = [] \<or> title = [] then reply_with (PErr 400 ''project_id and title required'')
         else after_preflight (projects_preflight P c)
           (let (res, es) = (if item = [] then
                   (case add_draft_item W k proj title (pb_body b) of
                      (Inl e, es) \<Rightarrow> (Inl (projects_error ''add draft item'' e), es)
                    | (Inr i, es) \<Rightarrow> (Inr (i, True, ''ok''), es))
                 else
                   (case update_draft_item W k item title (pb_body b) of
                      (Inl e, es) \<Rightarrow> (Inr (item, False, gh_error_status (Some e)), es)
                    | (Inr _, es) \<Rightarrow> (Inr (item, True, ''ok''), es)))
            in case res of
                 Inl e \<Rightarrow> (e, es)
               | Inr (i, synced, status) \<Rightarrow>
                   (let (st, fs) = (if hint \<noteq> [] \<and> i \<noteq> [] then
                           (case set_item_status W k proj i hint of
                              (Inl e, fs) \<Rightarrow> ((False, gh_error_text e), fs)
                            | (Inr _, fs) \<Rightarrow> ((True, []), fs))
                         else ((False, []), []))
                    in (PItem i synced status (fst st) (snd st), es @ fs))))"

definition item_status :: peer_work where
  "item_status P c b =
     (let proj = trim_space (pb_project b); item = trim_space (pb_item b); hint = trim_space (pb_hint b)
      in if proj = [] \<or> item = [] \<or> hint = [] then reply_with (PErr 400 ''project_id, item_id, and status_hint required'')
         else after_preflight (projects_preflight P c)
           (replied (\<lambda>e. PSynced False (gh_error_status (Some (classify_projects_error ''set item status'' e))))
              (\<lambda>_. PSynced True ''ok'') (set_item_status (world_of P) (conn_part c) proj item hint)))"

subsection \<open>The routes\<close>

datatype peer_route =
    RClone | RPush | RPullCreate | RPullMerge | RIssueGet | RIssueCreate | RIssueUpdate
  | RMilestones | RMilestoneUpsert | RProjects | RItemUpsert | RItemStatus

fun route_scope :: "peer_route \<Rightarrow> string" where
  "route_scope RClone = ''scm:clone''"
| "route_scope RPush = ''scm:pr''"
| "route_scope RPullCreate = ''scm:pr''"
| "route_scope RPullMerge = ''scm:pr''"
| "route_scope _ = ''scm:pm''"

fun route_work :: "peer_route \<Rightarrow> peer_work" where
  "route_work RClone = clone_credentials"
| "route_work RPush = push_credentials"
| "route_work RPullCreate = pull_create"
| "route_work RPullMerge = pull_merge"
| "route_work RIssueGet = issue_get"
| "route_work RIssueCreate = issue_create"
| "route_work RIssueUpdate = issue_update"
| "route_work RMilestones = milestones_list"
| "route_work RMilestoneUpsert = milestone_upsert"
| "route_work RProjects = projects_list"
| "route_work RItemUpsert = item_upsert"
| "route_work RItemStatus = item_status"

definition route_early :: "peer_route \<Rightarrow> peer_body \<Rightarrow> peer_reply option" where
  "route_early r b = (if r = RClone then clone_early b else None)"

definition handle_peer ::
  "conn_env \<Rightarrow> peer_world \<Rightarrow> peer_route \<Rightarrow> peer_request \<Rightarrow> peer_body option \<Rightarrow> conn_state
     \<Rightarrow> (peer_reply \<times> peer_event list) \<times> conn_state" where
  "handle_peer env P r q body s = peer_handler env P (r \<noteq> RClone) (route_scope r) (route_early r) (route_work r) q body s"

end
