(* ===== verification/Peer_Laws.thy ===== *)
theory Peer_Laws
  imports Peer_Surface Hook_Laws
begin

text \<open>
  What the peer surface lets out: every call and every token rests on a service token with the scope of
  the route and on an active connector of the same tenant, and the tokens asked for are those of the
  route; and where the code does less than it says.
\<close>

subsection \<open>What a route may ask of GitHub\<close>

fun route_perms :: "peer_route \<Rightarrow> perms list" where
  "route_perms RClone = [github_perms_clone_read]"
| "route_perms RPush = [github_perms_push]"
| "route_perms RPullCreate = [github_perms_create_pr, github_perms_pr_read]"
| "route_perms RPullMerge = [github_perms_create_pr]"
| "route_perms RProjects = []"
| "route_perms RItemUpsert = []"
| "route_perms RItemStatus = []"
| "route_perms _ = [github_perms_issues_write]"

definition board_route :: "peer_route \<Rightarrow> bool" where
  "board_route r \<longleftrightarrow> r \<in> {RProjects, RItemUpsert, RItemStatus}"

text \<open>
  A token is asked for the connector's installation, for one repository with permissions of the route
  (for all of it only when cloning or for boards); a request that writes is authorised.
\<close>

definition route_event :: "gh_world \<Rightarrow> connector \<Rightarrow> peer_route \<Rightarrow> peer_event \<Rightarrow> bool" where
  "route_event W c r e \<longleftrightarrow>
     (case e of
        GhMint inst None \<Rightarrow> inst = cn_inst c \<and> (r = RClone \<or> board_route r)
      | GhMint inst (Some (repos, w)) \<Rightarrow> inst = trim_space (cn_inst c) \<and> length repos = 1 \<and> w \<in> set (route_perms r)
      | GhCall _ m _ _ \<Rightarrow> m = ''GET'' \<or> (\<exists>h. authorize_github_write (gw_getenv W) (Some c) = Inr h)
      | GhGraph _ _ _ \<Rightarrow> board_route r
      | GhGetPull _ _ _ \<Rightarrow> r = RPullMerge)"

definition fits :: "gh_world \<Rightarrow> connector \<Rightarrow> peer_route \<Rightarrow> 'a gh_result \<Rightarrow> bool" where
  "fits W c r m \<longleftrightarrow> list_all (route_event W c r) (snd m)"

named_theorems fits_intros "calls that stay within their route"

lemma fits_fail [simp]: "fits W c r (gh_fail e)" "fits W c r (gh_ok x)"
  by (simp_all add: fits_def gh_fail_def gh_ok_def)

lemma fits_nil [simp]: "fits W c r (x, [])"
  by (simp add: fits_def)

lemma fits_bind [fits_intros]: "fits W c r m \<Longrightarrow> (\<And>x. fits W c r (f x)) \<Longrightarrow> fits W c r (gh_bind m f)"
  by (auto simp: fits_def gh_bind_def Let_def case_prod_beta split: prod.split sum.split)

lemma fits_decoded [simp]: "fits W c r (decoded bad dec x)"
  by (simp add: decoded_def split: sum.split)

lemma fits_if [fits_intros]: "(b \<Longrightarrow> fits W c r x) \<Longrightarrow> (\<not> b \<Longrightarrow> fits W c r y) \<Longrightarrow> fits W c r (if b then x else y)"
  by simp

text \<open>A scoped token asks for one repository and the wanted permissions, which have no workflow changes.\<close>

lemma fits_scoped_token:
  assumes "want \<in> set (route_perms r)" "strip_workflows_perm want = want" "want \<noteq> []"
  shows "fits W c r (scoped_token W c repo want)"
proof -
  have "asked = None \<or> asked = Some (trim_space (cn_inst c), Some ([trim_space (snd (split_owner_repo repo))], want))"
    if "github_access_token_for (gw_probe W) (gw_mint W) (Some c) repo want = (res, asked)" for res asked
    using that assms(2,3)
    by (auto simp: github_access_token_for_def github_installation_token_for_def token_request_payload_def Let_def
        split: sum.splits if_splits dest!: require_granted_Inr(1))
  from this [OF surjective_pairing] show ?thesis
    using assms(1) by (auto simp: scoped_token_def fits_def route_event_def Let_def case_prod_beta)
qed

lemma plain_perms:
  "strip_workflows_perm github_perms_push = github_perms_push" "github_perms_push \<noteq> []"
  "strip_workflows_perm github_perms_create_pr = github_perms_create_pr" "github_perms_create_pr \<noteq> []"
  "strip_workflows_perm github_perms_pr_read = github_perms_pr_read" "github_perms_pr_read \<noteq> []"
  "strip_workflows_perm github_perms_issues_write = github_perms_issues_write" "github_perms_issues_write \<noteq> []"
  "strip_workflows_perm github_perms_clone_read = github_perms_clone_read" "github_perms_clone_read \<noteq> []"
  by code_simp+

lemma fits_read [fits_intros]:
  assumes "want \<in> set (route_perms r)" "strip_workflows_perm want = want" "want \<noteq> []"
  shows "fits W c r (github_api_scoped W c owner repo want ''GET'' path body)"
  unfolding github_api_scoped_def
  by (intro fits_bind fits_scoped_token assms) (simp add: fits_def route_event_def)

lemma fits_write [fits_intros]:
  assumes "want \<in> set (route_perms r)" "strip_workflows_perm want = want" "want \<noteq> []"
  shows "fits W c r (github_write_api W c owner repo want m path body)"
proof (cases "authorize_github_write (gw_getenv W) (Some c)")
  case (Inr h)
  then show ?thesis unfolding github_write_api_def github_api_scoped_def
    by (simp, intro fits_bind fits_scoped_token assms) (simp add: fits_def route_event_def)
qed (simp add: github_write_api_def)

lemma fits_full_token:
  "r = RClone \<or> board_route r \<Longrightarrow> fits W c r (github_access_token W c)"
  by (auto simp: github_access_token_def fits_def route_event_def gh_ok_def gh_fail_def)

lemma fits_graphql:
  "board_route r \<Longrightarrow> list_all (route_event W c r) (snd (github_graphql W c q vars))"
  using fits_full_token [of r W c]
  by (auto simp: github_graphql_def fits_def route_event_def Let_def case_prod_beta split: prod.split sum.split)

lemma fits_pair:
  "list_all (route_event W c r) es \<Longrightarrow> fits W c r (x, es)"
  by (simp add: fits_def)

lemma fitsD: "fits W c r (x, es) \<Longrightarrow> list_all (route_event W c r) es"
  by (simp add: fits_def)

subsection \<open>The calls\<close>

lemma fits_find_open [fits_intros]: "fits W c RPullCreate (find_open_pull W c owner repo head)"
  unfolding find_open_pull_def
  by (intro fits_intros) (auto simp: plain_perms split: list.split sum.split)

lemma fits_open: "fits W c RPullCreate (open_pull_request W c owner repo title body head base draft)"
  unfolding open_pull_request_def Let_def
proof (intro fits_if fits_bind)
  fix x :: "int \<times> string"
  show "fits W c RPullCreate (case x of (code, raw) \<Rightarrow>
          if 300 \<le> code then
            (if pull_already_exists code (truncate_str raw 400) then
               (case find_open_pull W c owner repo (trim_space head) of
                  (Inr p, es) \<Rightarrow> (Inr (p, True), es)
                | (Inl _, es) \<Rightarrow> (Inl (pull_error ''create pull request'' code raw), es))
             else gh_fail (pull_error ''create pull request'' code raw))
          else (case decode_delivery_pull W raw of Inl e \<Rightarrow> gh_fail (GeText e) | Inr p \<Rightarrow> gh_ok (p, False)))"
    using fits_find_open [of W c owner repo "trim_space head"]
    by (auto simp: fits_def gh_fail_def gh_ok_def split: prod.split sum.split)
qed (auto intro!: fits_write simp: plain_perms)

lemma fits_merge: "fits W c RPullMerge (merge_pull_request W c owner repo n meth)"
proof -
  have look: "fits W c RPullMerge (x, [GhGetPull owner repo n])" for x :: "gh_error + 'a" by (simp add: fits_def route_event_def)
  show ?thesis
    unfolding merge_pull_request_def Let_def
    by (auto intro!: fits_intros look simp: plain_perms split: option.split)
qed

lemma fits_issues:
  "fits W c RIssueGet (get_issue W c owner repo n)"
  "fits W c RIssueCreate (create_issue W c owner repo title body labels ms)"
  "fits W c RIssueUpdate (update_issue W c owner repo n title body state ms' labels')"
  by (simp_all add: get_issue_def create_issue_def update_issue_def Let_def fits_bind fits_read fits_write plain_perms)

lemma fits_milestones:
  assumes "route_perms r = [github_perms_issues_write]"
  shows "fits W c r (list_milestones W c owner repo)" "fits W c r (create_milestone W c owner repo title desc)"
    "fits W c r (update_milestone W c owner repo n title desc state)"
  using assms
  by (simp_all add: list_milestones_def create_milestone_def update_milestone_def fits_bind fits_read fits_write plain_perms)

lemma fits_find_milestone:
  assumes "route_perms r = [github_perms_issues_write]"
  shows "fits W c r (find_or_create_milestone W c owner repo title desc)"
  using fits_milestones(1) [OF assms, of W c owner repo] fits_milestones(2) [OF assms, of W c owner repo "trim_space title" desc]
  by (auto simp: find_or_create_milestone_def fits_def Let_def case_prod_beta split: option.split)

lemma fits_projects:
  assumes "board_route r"
  shows "fits W c r (list_projects W c owner)" "fits W c r (add_draft_item W c proj title body)"
    "fits W c r (draft_content W c item)" "fits W c r (status_field W c proj)"
  using fits_graphql [OF assms, of W c]
  by (simp_all add: list_projects_def add_draft_item_def draft_content_def status_field_def Let_def case_prod_beta fits_def gh_ok_def)

lemma fits_items:
  assumes "board_route r"
  shows "fits W c r (update_draft_item W c item title body)" "fits W c r (set_item_status W c proj item hint)"
  unfolding update_draft_item_def set_item_status_def Let_def case_prod_beta
  by (auto intro!: fits_intros fits_projects(3,4) fits_pair fits_graphql assms)

subsection \<open>The handlers\<close>

text \<open>What a handler asks for fits its route.\<close>

definition work_fits :: "peer_route \<Rightarrow> peer_work \<Rightarrow> bool" where
  "work_fits r f \<longleftrightarrow> (\<forall>P c b. list_all (route_event (world_of P) (conn_part c) r) (snd (f P c b)))"

lemma reply_with_asks [simp]: "snd (reply_with e) = []"
  by (simp add: reply_with_def)

lemma asks_with_repo:
  "(\<And>o' n. list_all Q (snd (f o' n))) \<Longrightarrow> list_all Q (snd (with_repo b f))"
  by (simp add: with_repo_def Let_def case_prod_beta)

lemma asks_preflight: "list_all Q (snd go) \<Longrightarrow> list_all Q (snd (after_preflight e go))"
  by (simp add: after_preflight_def split: option.split)

lemma asks_replied: "fits W c r m \<Longrightarrow> list_all (route_event W c r) (snd (replied bad good m))"
  by (auto simp: replied_def fits_def split: prod.split sum.split)

lemmas asks_intros = asks_with_repo asks_preflight asks_replied

lemma clone_fits: "work_fits RClone clone_credentials"
  unfolding work_fits_def
proof (intro allI)
  fix P c and b :: peer_body
  have "fits (world_of P) (conn_part c) RClone (scoped_token (world_of P) (conn_part c) (trim_space (pb_repo b)) github_perms_clone_read)"
    by (rule fits_scoped_token) (simp_all add: plain_perms)
  moreover have "fits (world_of P) (conn_part c) RClone (github_access_token (world_of P) (conn_part c))"
    by (rule fits_full_token) simp
  ultimately show "list_all (route_event (world_of P) (conn_part c) RClone) (snd (clone_credentials P c b))"
    by (auto simp: clone_credentials_def fits_def Let_def case_prod_beta split: sum.split)
qed

lemma delivery_fits:
  "work_fits RPush push_credentials" "work_fits RPullCreate pull_create" "work_fits RPullMerge pull_merge"
  unfolding work_fits_def push_credentials_def pull_create_def pull_merge_def Let_def
  by (auto intro!: asks_intros fits_open fits_merge fits_scoped_token simp: plain_perms split: sum.split)

lemma issue_fits:
  "work_fits RIssueGet issue_get" "work_fits RIssueCreate issue_create" "work_fits RIssueUpdate issue_update"
  "work_fits RMilestones milestones_list"
  unfolding work_fits_def issue_get_def issue_create_def issue_update_def milestones_list_def Let_def
  by (auto intro!: asks_intros fits_issues fits_milestones)

lemma milestone_fits: "work_fits RMilestoneUpsert milestone_upsert"
  unfolding work_fits_def milestone_upsert_def Let_def
  by (auto intro!: asks_intros fits_bind fits_find_milestone fits_milestones)

lemma board_fits: "work_fits RProjects projects_list" "work_fits RItemStatus item_status"
  unfolding work_fits_def projects_list_def item_status_def Let_def
  by (auto intro!: asks_intros fits_projects fits_items simp: board_route_def)

lemma item_fits: "work_fits RItemUpsert item_upsert"
  unfolding work_fits_def
proof (intro allI)
  fix P c and b :: peer_body
  let ?W = "world_of P" and ?k = "conn_part c"
  have b: "board_route RItemUpsert" by (simp add: board_route_def)
  note F = fits_projects(2) [OF b, of ?W ?k, unfolded fits_def] fits_items [OF b, of ?W ?k, unfolded fits_def]
  show "list_all (route_event ?W ?k RItemUpsert) (snd (item_upsert P c b))"
    unfolding item_upsert_def Let_def
    using F by (auto intro!: asks_preflight simp: case_prod_beta split: sum.split prod.split)
qed

lemma route_fits: "work_fits r (route_work r)"
  by (cases r) (simp_all add: clone_fits delivery_fits issue_fits milestone_fits board_fits item_fits)

subsection \<open>Which replies carry a token\<close>

fun carries :: "peer_reply \<Rightarrow> bool" where
  "carries (PToken t ps x) = True"
| "carries (PClone t) = True"
| "carries _ = False"

definition silent :: "peer_reply \<Rightarrow> bool" where
  "silent e \<longleftrightarrow> \<not> carries e"

lemma silent_reply_with: "silent e \<Longrightarrow> silent (fst (reply_with e))"
  by (simp add: reply_with_def)

lemma silent_pair: "silent e \<Longrightarrow> silent (fst (e, es))"
  by simp

lemma silent_if: "silent (fst x) \<Longrightarrow> silent (fst y) \<Longrightarrow> silent (fst (if b then x else y))"
  by simp

lemma silent_errors:
  "silent (PErr code msg)" "silent (PStatus code st txt)" "silent PMockToken" "silent (PPull ex dp)"
  "silent (PIssue im sk)" "silent (PMilestones ms)" "silent (PMilestone m)" "silent (PProjects ps)"
  "silent (PNoProjects ss)" "silent (PItem i b st b2 st2)" "silent (PSynced b2 st2)"
  "silent (pull_request_error e)" "silent (issue_reply_error e')" "silent (projects_error op e'')"
  by (simp_all add: silent_def pull_request_error_def issue_reply_error_def projects_error_def Let_def split: prod.split gh_error.split)

lemma silent_with_repo: "(\<And>o' n. silent (fst (f o' n))) \<Longrightarrow> silent (fst (with_repo b f))"
  by (simp add: with_repo_def Let_def case_prod_beta reply_with_def silent_errors)

lemma silent_replied: "(\<And>e. silent (bad e)) \<Longrightarrow> (\<And>x. silent (good x)) \<Longrightarrow> silent (fst (replied bad good m))"
  by (simp add: replied_def split: prod.split sum.split)

lemma silent_preflight:
  "silent (fst go) \<Longrightarrow> (\<And>e. refused = Some e \<Longrightarrow> silent e) \<Longrightarrow> silent (fst (after_preflight refused go))"
  by (simp add: after_preflight_def reply_with_def split: option.split)

lemma preflights_silent:
  "delivery_preflight P c w = Some e \<Longrightarrow> silent e" "issues_preflight P c = Some e \<Longrightarrow> silent e"
  "projects_preflight P c = Some e \<Longrightarrow> silent e"
  by (auto simp: delivery_preflight_def issues_preflight_def projects_preflight_def silent_def split: if_splits list.splits)

lemmas silent_intros = silent_with_repo silent_replied silent_reply_with silent_if silent_errors
  silent_preflight [OF _ preflights_silent(1)] silent_preflight [OF _ preflights_silent(2)]
  silent_preflight [OF _ preflights_silent(3)]

lemma silent_item: "silent (fst (item_upsert P c b))"
  unfolding item_upsert_def Let_def
  by (intro silent_intros)
    (auto simp: case_prod_beta silent_errors split: sum.split prod.split)

lemma silent_delivery: "silent (fst (pull_create P c b))" "silent (fst (pull_merge P c b))"
  unfolding pull_create_def pull_merge_def Let_def case_prod_beta
  by (intro silent_intros; assumption?)+

lemma silent_issues:
  "silent (fst (issue_get P c b))" "silent (fst (issue_create P c b))" "silent (fst (issue_update P c b))"
  "silent (fst (milestones_list P c b))" "silent (fst (milestone_upsert P c b))"
  unfolding issue_get_def issue_create_def issue_update_def milestones_list_def milestone_upsert_def Let_def case_prod_beta
  by (intro silent_intros; assumption?)+

lemma silent_boards: "silent (fst (projects_list P c b))" "silent (fst (item_status P c b))"
  unfolding projects_list_def item_status_def Let_def case_prod_beta
  by (intro silent_intros; assumption?)+

text \<open>
  Only the two credential routes answer with a token.  It is the personal token of the connector, or the
  one GitHub minted for the one repository with the permissions of the route; the clone route may also
  answer with the token of the whole installation, when the narrow one was refused.
\<close>

definition scoped_for :: "peer_world \<Rightarrow> app_conn \<Rightarrow> string \<Rightarrow> perms \<Rightarrow> string \<Rightarrow> bool" where
  "scoped_for P c repo want t \<longleftrightarrow>
     (cn_kind c = ''github_pat'' \<and> t = cn_token c) \<or>
     gw_mint P (trim_space (cn_inst c)) (Some ([trim_space (snd (split_owner_repo repo))], want)) = Inr t"

definition carries_for :: "peer_world \<Rightarrow> app_conn \<Rightarrow> peer_route \<Rightarrow> peer_body \<Rightarrow> peer_reply \<Rightarrow> bool" where
  "carries_for P c r b rep \<longleftrightarrow>
     (case rep of
        PToken t ps x \<Rightarrow>
          r = RPush \<and> ps = github_perms_push \<and> (\<exists>h. authorize_github_write (gw_getenv P) (Some (conn_part c)) = Inr h) \<and>
          scoped_for P c (trim_space (pb_repo b)) github_perms_push t
      | PClone t \<Rightarrow>
          r = RClone \<and>
          (scoped_for P c (trim_space (pb_repo b)) github_perms_clone_read t \<or>
           (\<exists>e. fst (scoped_token (world_of P) (conn_part c) (trim_space (pb_repo b)) github_perms_clone_read) = Inl e) \<and>
           gw_mint P (cn_inst c) None = Inr t)
      | _ \<Rightarrow> True)"

lemma carries_for_silent: "silent rep \<Longrightarrow> carries_for P c r b rep"
  by (cases rep) (simp_all add: silent_def carries_for_def)

lemma carries_with_repo:
  "(\<And>o' n. carries_for P c r b (fst (f o' n))) \<Longrightarrow> carries_for P c r b (fst (with_repo b f))"
  by (simp add: with_repo_def Let_def case_prod_beta carries_for_silent silent_intros)

lemma carries_preflight:
  "carries_for P c r b (fst go) \<Longrightarrow> (\<And>e. refused = Some e \<Longrightarrow> silent e) \<Longrightarrow> carries_for P c r b (fst (after_preflight refused go))"
  by (simp add: after_preflight_def carries_for_silent silent_reply_with split: option.split)

lemma carries_replied:
  "(\<And>e. carries_for P c r b (bad e)) \<Longrightarrow> (\<And>x. fst m = Inr x \<Longrightarrow> carries_for P c r b (good x)) \<Longrightarrow>
   carries_for P c r b (fst (replied bad good m))"
  by (cases m) (simp add: replied_def split: sum.split)

lemma scoped_token_for:
  assumes "fst (scoped_token (world_of P) (conn_part c) repo want) = Inr t"
    and "strip_workflows_perm want = want" "want \<noteq> []"
  shows "scoped_for P c repo want t"
  using assms
  by (auto simp: scoped_token_def scoped_for_def github_access_token_for_def github_installation_token_for_def
      token_request_payload_def world_of_def conn_part_def gh_world.truncate_def connector.truncate_def Let_def
      split: sum.splits if_splits dest!: require_granted_Inr(1))

lemma carries_push: "carries_for P c RPush b (fst (push_credentials P c b))"
  unfolding push_credentials_def
proof (intro carries_with_repo carries_preflight preflights_silent(1))
  show "carries_for P c RPush b (fst (case authorize_github_write (gw_getenv P) (Some (conn_part c)) of
      Inl e \<Rightarrow> reply_with (PStatus 403 ''missing_contents_permission''
                 (''this connector is not authorized for GitHub writes: '' @ write_error_text e))
    | Inr _ \<Rightarrow> (if mocks (world_of P) (conn_part c) then reply_with PMockToken
         else replied (\<lambda>e. PStatus 502 ''upstream_error'' (''push credentials unavailable: '' @ gh_error_text e))
                (\<lambda>t. PToken t github_perms_push (pw_expires P))
                (scoped_token (world_of P) (conn_part c) (trim_space (pb_repo b)) github_perms_push))))"
  proof (cases "authorize_github_write (gw_getenv P) (Some (conn_part c))")
    case (Inl e)
    then show ?thesis by (simp add: carries_for_silent silent_intros)
  next
    case (Inr h)
    have "carries_for P c RPush b (fst (replied (\<lambda>e. PStatus 502 ''upstream_error'' (''push credentials unavailable: '' @ gh_error_text e))
        (\<lambda>t. PToken t github_perms_push (pw_expires P))
        (scoped_token (world_of P) (conn_part c) (trim_space (pb_repo b)) github_perms_push)))"
      using scoped_token_for [OF _ plain_perms(1,2)]
      by (intro carries_replied) (simp_all add: carries_for_def Inr)
    with Inr show ?thesis by (simp add: carries_for_silent silent_intros)
  qed
qed

lemma full_token_Inr:
  "fst (github_access_token (world_of P) (conn_part c)) = Inr t \<Longrightarrow>
   (cn_kind c = ''github_pat'' \<and> t = cn_token c) \<or> gw_mint P (cn_inst c) None = Inr t"
  by (auto simp: github_access_token_def world_of_def conn_part_def gh_world.truncate_def connector.truncate_def
      gh_ok_def gh_fail_def split: if_splits sum.splits)

lemma carries_clone: "carries_for P c RClone b (fst (clone_credentials P c b))"
proof (cases "fst (scoped_token (world_of P) (conn_part c) (trim_space (pb_repo b)) github_perms_clone_read)")
  case (Inr t)
  from scoped_token_for [OF this plain_perms(9,10)] Inr show ?thesis
    by (simp add: clone_credentials_def carries_for_def Let_def case_prod_beta)
next
  case (Inl e)
  then show ?thesis
    using full_token_Inr [of P c]
    by (auto simp: clone_credentials_def carries_for_def scoped_for_def Let_def case_prod_beta split: sum.split)
qed

lemma route_carries: "carries_for P c r b (fst (route_work r P c b))"
  by (cases r)
    (simp_all add: carries_push carries_clone carries_for_silent silent_delivery silent_issues silent_boards silent_item)

subsection \<open>Who may call\<close>

lemma peer_auth_Inr:
  assumes "peer_auth P tells q scope = Inr cl"
  shows "pq_method q = ''POST'' \<and> trim_space (gw_getenv P ''OPEN_SERVICE_JWT_SECRET'') \<noteq> [] \<and>
    (\<exists>tok. bearer (pq_auth q) = Some tok \<and>
       pw_validate P tok (trim_space (gw_getenv P ''OPEN_SERVICE_JWT_SECRET'')) ''ora-api'' = Inr cl \<and>
       (scope \<noteq> [] \<longrightarrow> pw_has_scope P cl scope))"
  using assms
  by (auto simp: peer_auth_def validate_peer_auth_token_def Let_def split: if_splits option.splits sum.splits auth_error.splits)

definition same_tenant :: "peer_claims \<Rightarrow> app_conn \<Rightarrow> bool" where
  "same_tenant cl c \<longleftrightarrow>
     (let scope = infer_legacy_scope (cn_org c) (cn_scope c); org = trim_space (cn_org c)
      in (org = trim_space (pc_org cl) \<and> org \<noteq> [] \<and> scope = ''org'') \<or>
         (org = [] \<and> trim_space (pc_org cl) = [] \<and> scope = ''user'' \<and> user_cred_owner_match (trim_space (pc_user cl)) (cn_user c)))"

lemma legacy_scopes: "infer_legacy_scope org scope \<in> {''admin'', ''org'', ''user''}"
  by (simp add: infer_legacy_scope_def Let_def)

lemma peer_tenant_match_same: "peer_tenant_match cl c \<longleftrightarrow> same_tenant cl c"
  using legacy_scopes [of "cn_org c" "cn_scope c"]
  by (auto simp: peer_tenant_match_def same_tenant_def Let_def)

lemma peer_resolve_Inr:
  assumes "peer_resolve_connector env cl cid s = (Inr c, s')"
  shows "fst (get_or_hydrate env (trim_space cid) s) = Some c \<and> equal_fold (trim_space (cn_status c)) ''active'' \<and> same_tenant cl c"
  using assms
  by (auto simp: peer_resolve_connector_def peer_tenant_match_same Let_def case_prod_beta split: if_splits option.splits)

lemma route_scope_named: "route_scope r \<noteq> []"
  by (cases r) simp_all

lemma handle_peer_cases:
  assumes "handle_peer env P r q body s = ((rep, es), s')"
  shows "(es = [] \<and> silent rep) \<or>
    (\<exists>cl b c v. peer_auth P (r \<noteq> RClone) q (route_scope r) = Inr cl \<and> body = Some b \<and>
       peer_resolve_connector env cl (pb_conn b) s = (Inr c, v) \<and> (rep, es) = route_work r P c b)"
proof -
  have early: "silent e" if "route_early r b = Some e" for b e
    using that by (auto simp: route_early_def clone_early_def silent_errors split: if_splits)
  have auth: "silent e" if "peer_auth P t q sc = Inl e" for t sc e
    using that by (auto simp: peer_auth_def Let_def silent_errors split: if_splits option.splits sum.splits auth_error.splits)
  have res: "silent e" if "peer_resolve_connector env cl k s = (Inl e, v)" for cl k e v
    using that
    by (auto simp: peer_resolve_connector_def Let_def case_prod_beta silent_errors split: if_splits option.splits)
  show ?thesis
  proof (cases "peer_auth P (r \<noteq> RClone) q (route_scope r)")
    case (Inl e)
    then show ?thesis using assms auth by (auto simp: handle_peer_def peer_handler_def reply_with_def)
  next
    case (Inr cl)
    show ?thesis
    proof (cases body)
      case None
      then show ?thesis using assms Inr by (auto simp: handle_peer_def peer_handler_def reply_with_def silent_errors)
    next
      case (Some b)
      then show ?thesis
        using assms Inr early res
        by (cases "route_early r b"; cases "peer_resolve_connector env cl (pb_conn b) s"; cases "fst (peer_resolve_connector env cl (pb_conn b) s)")
          (auto simp: handle_peer_def peer_handler_def reply_with_def)
    qed
  qed
qed


subsection \<open>Cases\<close>

text \<open>An App with its installation, asked for by a product that holds one scope.\<close>

definition demo_peers :: "string \<Rightarrow> peer_world" where
  "demo_peers scope =
     \<lparr>gw_getenv = (\<lambda>k. if k = ''OPEN_SERVICE_JWT_SECRET'' then ''s'' else []),
      gw_probe = (\<lambda>_. Inr [(''contents'', ''write''), (''metadata'', ''read''), (''pull_requests'', ''write''), (''issues'', ''write'')]),
      gw_mint = (\<lambda>inst w. case w of None \<Rightarrow> Inr ''full'' | Some _ \<Rightarrow> Inr ''scoped''),
      gw_http = (\<lambda>tok m path body. if m = ''GET'' then Inr (200, ''list'') else Inr (422, ''A pull request already exists for acme:fix'')),
      gw_pull = (\<lambda>raw. Inr \<lparr>dp_number = 3, dp_url = ''u'', dp_state = ''open'', dp_title = ''t'', dp_head = ''fix'', dp_base = raw, dp_draft = False\<rparr>),
      gw_list = (\<lambda>raw. Inr [''develop'']), gw_issue = (\<lambda>_. Inl ''no''), gw_milestone = (\<lambda>_. Inl ''no''), gw_milestones = (\<lambda>_. Inr []),
      gw_get_pull = (\<lambda>_ _ _ _ _. None), gw_graph = (\<lambda>_ _ _. (None, [])),
      pw_validate = (\<lambda>tok secret aud. if tok = ''jwt'' \<and> secret = ''s'' \<and> aud = ''ora-api''
          then Inr \<lparr>pc_org = ''acme'', pc_user = [], pc_scopes = [scope]\<rparr> else Inl ''bad''),
      pw_has_scope = (\<lambda>cl sc. sc \<in> set (pc_scopes cl)), pw_expires = ''later''\<rparr>"

definition demo_ask :: peer_request where "demo_ask = \<lparr>pq_method = ''POST'', pq_auth = ''Bearer jwt''\<rparr>"

definition demo_body :: peer_body where
  "demo_body =
     \<lparr>pb_conn = ''conn-1'', pb_repo = ''acme/app'', pb_owner = [], pb_number = 0, pb_title = ''Fix'', pb_body = [],
      pb_state = [], pb_head = ''fix'', pb_base = ''main'', pb_draft = False, pb_merge = [], pb_labels = None,
      pb_milestone = 0, pb_project = [], pb_item = [], pb_hint = []\<rparr>"

definition demo_calls :: "peer_world \<Rightarrow> peer_route \<Rightarrow> peer_reply \<times> peer_event list" where
  "demo_calls P r = fst (handle_peer demo_conns_env P r demo_ask (Some demo_body) (hs_conns demo_state))"

lemma push_token_case: "carries (fst (demo_calls (demo_peers ''scm:pr'') RPush))"
  by code_simp


text \<open>
  A product with the clone scope alone, and an installation that refuses the scoped token: the answer is
  the token of the whole installation, with every permission it has, for every repository.
\<close>

lemma clone_hands_out_full_token:
  "demo_calls (demo_peers ''scm:clone''\<lparr>gw_probe := (\<lambda>_. Inl ''timeout'')\<rparr>) RClone =
     (PClone ''full'', [GhMint ''7'' None])"
  by code_simp

text \<open>
  A delivery into \<^verbatim>\<open>main\<close> is answered with the open pull request of the same head into \<^verbatim>\<open>develop\<close>.
\<close>

lemma existing_pull_of_another_base:
  "case fst (demo_calls (demo_peers ''scm:pr'') RPullCreate) of PPull old p \<Rightarrow> old \<and> dp_base p \<noteq> pb_base demo_body | _ \<Rightarrow> False"
  by code_simp

text \<open>An item that is done moves to \<^verbatim>\<open>Abandoned\<close>, whose name contains the word.\<close>

lemma done_matches_abandoned:
  "match_status_option [(''o1'', ''Todo''), (''o2'', ''Abandoned''), (''o3'', ''Shipped'')] ''done'' = ''o2''"
  by code_simp

end
