(* ===== verification/Run_Laws.thy ===== *)
theory Run_Laws
  imports Run_Graph
begin

text \<open>
  Laws of the run graph: what a run folds to, when the loop makes progress, and when it cannot.
\<close>

subsection \<open>The folded status\<close>

definition is_active :: "scm_job \<Rightarrow> bool" where
  "is_active c \<longleftrightarrow> j_status c \<in> {''running'', ''waiting''}"

definition is_queued :: "scm_job \<Rightarrow> bool" where
  "is_queued c \<longleftrightarrow> j_status c \<in> {''queued'', []}"

definition is_failed :: "scm_job \<Rightarrow> bool" where
  "is_failed c \<longleftrightarrow> j_status c \<in> {''failed'', ''error''}"

lemma run_flags_fold:
  "rf_running (fold run_flag cs f) = (rf_running f \<or> list_ex is_active cs)"
  "rf_queued (fold run_flag cs f) = (rf_queued f \<or> list_ex is_queued cs)"
  "rf_failed (fold run_flag cs f) = (rf_failed f \<or> list_ex is_failed cs)"
  "rf_terminal (fold run_flag cs f) = (rf_terminal f \<and> list_all (\<lambda>c. job_terminal (j_status c)) cs)"
  by (induction cs arbitrary: f)
    (auto simp: run_flag_def is_active_def is_queued_def is_failed_def job_terminal_def Let_def)

text \<open>
  C32: the status of a run as a decision over all its children, in whatever order they are visited:
  any active child makes it running, else any queued child makes it queued, else an unknown status
  keeps the parent's, else a failed child makes it completed with errors, else it is cancelled with
  a cancelled parent and completed otherwise.
\<close>

theorem fold_run_status_decides:
  "fold_run_status cs parent =
     (if cs = [] then parent
      else if list_ex is_active cs then ''running''
      else if list_ex is_queued cs then ''queued''
      else if \<not> list_all (\<lambda>c. job_terminal (j_status c)) cs then parent
      else if list_ex is_failed cs then ''completed_with_errors''
      else if parent = ''cancelled'' then ''cancelled'' else ''completed'')"
  by (simp add: fold_run_status_def run_flags_fold Let_def)

subsection \<open>Progress\<close>

lemma find_SomeD: "List.find P xs = Some x \<Longrightarrow> x \<in> set xs \<and> P x"
  by (induction xs) (auto split: if_splits)

lemma last_of_kind_Some: "last_of_kind cs k = Some j \<Longrightarrow> j \<in> set cs \<and> job_kind j = k"
  using find_SomeD [of "\<lambda>c. job_kind c = k" "rev cs" j] by (simp add: last_of_kind_def)

lemma last_of_kind_exists:
  assumes "j \<in> set cs"
  shows "\<exists>i. last_of_kind cs (job_kind j) = Some i"
proof (cases "last_of_kind cs (job_kind j)")
  case None
  then have "\<not> (\<exists>c. c \<in> set (rev cs) \<and> job_kind c = job_kind j)"
    unfolding last_of_kind_def find_None_iff .
  with assms show ?thesis by auto
qed blast

lemma ready_iff:
  "c \<in> set (ready_children cs) \<longleftrightarrow>
     c \<in> set cs \<and> startable (j_status c) \<and>
     (\<forall>d \<in> set (agent_depends_on (job_kind c)). dep_settled d (last_of_kind cs d))"
  by (auto simp: ready_children_def list_all_iff)

definition kinds_closed :: "scm_job list \<Rightarrow> bool" where
  "kinds_closed cs \<longleftrightarrow>
     (\<forall>c \<in> set cs. \<forall>d \<in> set (agent_depends_on (job_kind c)). \<exists>e \<in> set cs. job_kind e = d)"

text \<open>
  C33: the loop is never stuck on a well formed run.  When the children's kinds are closed under the
  dependency table, each child is terminal or waits to be started, and no prepare child ended
  without success, then some child is ready as long as one is not terminal.
\<close>

theorem ready_progress:
  assumes closed: "kinds_closed cs"
    and status: "\<forall>c \<in> set cs. job_terminal (j_status c) \<or> startable (j_status c)"
    and prepare: "\<forall>c \<in> set cs. job_kind c = KPrepare \<and> job_terminal (j_status c) \<longrightarrow> job_succeeded (j_status c)"
    and work: "\<exists>c \<in> set cs. \<not> job_terminal (j_status c)"
  shows "ready_children cs \<noteq> []"
proof -
  define open_jobs where "open_jobs = filter (\<lambda>c. \<not> job_terminal (j_status c)) cs"
  have "open_jobs \<noteq> []" using work by (auto simp: open_jobs_def filter_empty_conv)
  then obtain c where c: "c \<in> set open_jobs" "\<forall>e \<in> set open_jobs. kind_rank (job_kind c) \<le> kind_rank (job_kind e)"
    using ex_min_if_finite [of "(\<lambda>c. kind_rank (job_kind c)) ` set open_jobs"] by force
  have "dep_settled d (last_of_kind cs d)" if d: "d \<in> set (agent_depends_on (job_kind c))" for d
  proof -
    obtain e where "e \<in> set cs" "job_kind e = d"
      using closed c(1) d by (auto simp: kinds_closed_def open_jobs_def)
    then obtain i where i: "last_of_kind cs d = Some i" using last_of_kind_exists by blast
    then have i_in: "i \<in> set cs" "job_kind i = d" using last_of_kind_Some by blast+
    have "job_terminal (j_status i)"
    proof (rule ccontr)
      assume "\<not> job_terminal (j_status i)"
      then have "i \<in> set open_jobs" using i_in by (simp add: open_jobs_def)
      with c(2) have "kind_rank (job_kind c) \<le> kind_rank d" using i_in by blast
      with kind_rank_dep [OF d] show False by simp
    qed
    then show ?thesis using i i_in prepare by (auto simp: dep_settled_def)
  qed
  moreover have "c \<in> set cs" "startable (j_status c)" using c(1) status by (auto simp: open_jobs_def)
  ultimately have "c \<in> set (ready_children cs)" by (simp add: ready_iff)
  then show ?thesis by auto
qed

subsection \<open>The loop without progress\<close>

lemma job_is_cancelled_ok:
  "store_ok s \<Longrightarrow> job_is_cancelled k s = ((case live_job k s of None \<Rightarrow> False | Some j \<Rightarrow> j_status j = ''cancelled''), s)"
  by (simp add: job_is_cancelled_def get_scm_job_ok)

definition run_jobs :: "string \<Rightarrow> scm_state \<Rightarrow> scm_job list" where
  "run_jobs r s = child_jobs (children_of r s) s"

lemma run_tick_stalls:
  assumes "store_ok s" "live_job r s = Some p" "j_status p \<noteq> ''cancelled''"
    and "ready_children (run_jobs r s) = []" "c \<in> set (run_jobs r s)" "\<not> job_terminal (j_status c)"
  shows "run_tick env ev pub r s = (TickAgain, s)"
proof -
  have "\<not> list_all (\<lambda>c. job_terminal (j_status c)) (run_jobs r s)"
    using assms(5,6) by (auto simp: list_all_iff)
  with assms(1-4) show ?thesis
    by (simp add: run_tick_def job_is_cancelled_ok list_run_children_ok start_all_def
        run_jobs_def [symmetric])
qed

lemma not_ready_without_dep:
  assumes "d \<in> set (agent_depends_on (job_kind c))" "\<not> dep_settled d (last_of_kind cs d)"
  shows "c \<notin> set (ready_children cs)"
  using assms by (auto simp: ready_iff)

text \<open>
  A run whose prepare child failed cannot go on or end by itself.  When prepare ended without
  success, the review child is queued and every other child is over or a queued security, checkup,
  approval or cloud child, every pass of the loop leaves the store as it is and asks for another:
  only the two hour deadline or a cancel ends the run.
\<close>

theorem failed_prepare_stalls:
  assumes ok: "store_ok s" and live: "live_job r s = Some p" "j_status p \<noteq> ''cancelled''"
    and prep: "last_of_kind (run_jobs r s) KPrepare = Some q" "\<not> job_succeeded (j_status q)"
    and review: "last_of_kind (run_jobs r s) KBugbot = Some b" "is_queued b"
    and others: "\<forall>c \<in> set (run_jobs r s). job_terminal (j_status c) \<or>
                   job_kind c \<in> {KSecurity, KBugbot, KCheckup, KApproval, KCloud}"
  shows "run_tick env ev pub r s = (TickAgain, s)"
proof -
  let ?cs = "run_jobs r s"
  have np: "\<not> dep_settled KPrepare (last_of_kind ?cs KPrepare)"
    using prep by (simp add: dep_settled_def)
  have bt: "\<not> job_terminal (j_status b)" using review(2) by (auto simp: is_queued_def job_terminal_def)
  then have nb: "\<not> dep_settled KBugbot (last_of_kind ?cs KBugbot)"
    using review(1) by (simp add: dep_settled_def)
  have "e \<notin> set (ready_children ?cs)" for e
  proof
    assume e: "e \<in> set (ready_children ?cs)"
    then have "e \<in> set ?cs" "startable (j_status e)" by (simp_all add: ready_iff)
    then have "job_kind e \<in> {KSecurity, KBugbot, KCheckup, KApproval, KCloud}"
      using others by (auto simp: startable_def job_terminal_def)
    then show False
      using e not_ready_without_dep [OF _ np, of e] not_ready_without_dep [OF _ nb, of e] by auto
  qed
  then have "ready_children ?cs = []" by (metis list.set_intros(1) neq_Nil_conv)
  then show ?thesis using run_tick_stalls [OF ok live] last_of_kind_Some [OF review(1)] bt by blast
qed

text \<open>
  A cloud child without a review child is never ready.  A run planned for a watch policy that
  lists only the legacy scanners has no review child; its queued cloud child keeps every pass of the
  loop from ending the run.
\<close>

theorem cloud_without_review_stalls:
  assumes ok: "store_ok s" and live: "live_job r s = Some p" "j_status p \<noteq> ''cancelled''"
    and kinds: "kinds_of_children r s = plan_kinds checks prefs" "\<not> wants_ora_review checks"
    and cloud: "c \<in> set (run_jobs r s)" "job_kind c = KCloud" "is_queued c"
    and rest: "\<forall>e \<in> set (run_jobs r s). job_kind e \<noteq> KCloud \<longrightarrow> job_terminal (j_status e)"
  shows "run_tick env ev pub r s = (TickAgain, s)"
proof -
  let ?cs = "run_jobs r s"
  have "KBugbot \<notin> job_kind ` set ?cs"
  proof -
    have "map job_kind ?cs = plan_kinds checks prefs" using kinds(1) by (simp add: kinds_of_children_def run_jobs_def)
    then have "job_kind ` set ?cs = set (plan_kinds checks prefs)" by (metis list.set_map)
    with kinds(2) show ?thesis by (auto simp: plan_kinds_def)
  qed
  then have "last_of_kind ?cs KBugbot = None"
    using last_of_kind_Some by (metis image_eqI not_Some_eq)
  then have nb: "\<not> dep_settled KBugbot (last_of_kind ?cs KBugbot)" by (simp add: dep_settled_def)
  have "e \<notin> set (ready_children ?cs)" for e
  proof
    assume e: "e \<in> set (ready_children ?cs)"
    then have "job_kind e = KCloud"
      using rest by (auto simp: ready_iff startable_def job_terminal_def)
    with e not_ready_without_dep [OF _ nb, of e] show False by simp
  qed
  then have "ready_children ?cs = []" by (metis list.set_intros(1) neq_Nil_conv)
  moreover have "\<not> job_terminal (j_status c)"
    using cloud(3) by (auto simp: is_queued_def job_terminal_def)
  ultimately show ?thesis using run_tick_stalls [OF ok live] cloud(1) by blast
qed


subsection \<open>Entering a run again\<close>

lemma skip_run_fields [simp]:
  "j_id (skip_run env reason prior j) = j_id j" "j_status (skip_run env reason prior j) = ''skipped''"
  by (simp_all add: skip_run_def stamp_if_def Let_def)

lemma live_job_reviewed [simp]: "live_job k (record_successful_ai_review env j sha ai s) = live_job k s"
  by (simp add: record_successful_ai_review_def live_job_def Let_def)

lemma skip_gate_live:
  "live_job k (snd (scm_run_skip_gate env pull j s)) = live_job k s"
  by (auto simp: scm_run_skip_gate_def should_skip_for_already_reviewed_def
      lookup_successful_ai_review_def Let_def split: option.split prod.split)

text \<open>
  A restart abandons a run whose review is done.  When a run that is not over is entered again
  and one of its own children completed the review of its commit, the run is marked skipped as
  already reviewed, and none of its other children, queued ones included, is touched: the approval
  is never decided.
\<close>

theorem restart_abandons_reviewed_run:
  assumes "store_ok s" "live_job r s = Some p" "\<not> run_finished (j_status p)" "gated_run pull p"
    and "live_job k s = Some c" "reviewed_child p c"
  shows "\<exists>s' p'. begin_pr_run env pull r s = (RunSkipped, s') \<and>
     live_job r s' = Some p' \<and> j_status p' = ''skipped'' \<and>
     (\<forall>e. e \<noteq> r \<longrightarrow> live_job e s' = live_job e s)"
proof -
  have r: "j_id p = r" using store_ok_id [OF assms(1,2)] by simp
  obtain prior t where g: "scm_run_skip_gate env pull p s = (Some (''commit already reviewed successfully'', prior), t)"
    using own_child_review_skips_run [OF assms(1,4,5,6)] by blast
  have live: "live_job e t = live_job e s" for e
    using skip_gate_live [of e env pull p s] g by simp
  show ?thesis
    using assms(1-3) g r live
    by (simp add: begin_pr_run_def get_scm_job_ok live_job_persist)
qed

subsection \<open>Sample runs\<close>

definition sample_run :: "(string \<times> string \<times> string) list \<Rightarrow> scm_state" where
  "sample_run kids =
     store_of ((''r1'', sample_job ''r1'' ''run'' [] ''abc'' ''running'') #
       map (\<lambda>(k, kind, st). (k, sample_job k kind ''r1'' ''abc'' st)) kids)"

lemma sample_run_ok:
  assumes "distinct (''r1'' # map fst kids)" "list_all (\<lambda>x. fst x \<noteq> []) kids"
  shows "store_ok (sample_run kids)"
  unfolding sample_run_def
  by (rule store_ok_of)
    (use assms in \<open>auto simp: sample_job_def list_all_iff o_def case_prod_beta intro!: arg_cong [where f = distinct]\<close>)

lemma sample_run_parent:
  "live_job ''r1'' (sample_run kids) = Some (sample_job ''r1'' ''run'' [] ''abc'' ''running'')"
  by (simp add: sample_run_def store_of_def live_job_def)

lemma sample_job_status [simp]: "j_status (sample_job k kind p sha st) = st"
  by (simp add: sample_job_def)

definition failed_kids :: "(string \<times> string \<times> string) list" where
  "failed_kids = [(''p'', ''prepare'', ''failed''), (''s'', ''security'', ''skipped''),
     (''b'', ''bugbot'', ''queued''), (''a'', ''approval'', ''queued''), (''c'', ''cloud'', ''queued'')]"

definition legacy_kids :: "(string \<times> string \<times> string) list" where
  "legacy_kids = [(''p'', ''prepare'', ''completed''), (''s'', ''security'', ''completed''), (''c'', ''cloud'', ''queued'')]"

lemma ready_progress_witness:
  "ready_children [sample_job ''p'' ''prepare'' ''r1'' ''abc'' ''completed'',
     sample_job ''s'' ''security'' ''r1'' ''abc'' ''queued''] \<noteq> []"
  by (rule ready_progress)
    (simp_all add: kinds_closed_def job_kind_def sample_job_def job_terminal_def startable_def job_succeeded_def)

lemma failed_prepare_stalls_witness:
  "run_tick sample_env (\<lambda>_. JNull) (\<lambda>_. PubNone) ''r1'' (sample_run failed_kids) = (TickAgain, sample_run failed_kids)"
proof (rule failed_prepare_stalls)
  show "store_ok (sample_run failed_kids)" by (rule sample_run_ok) (simp_all add: failed_kids_def)
  show "live_job ''r1'' (sample_run failed_kids) = Some (sample_job ''r1'' ''run'' [] ''abc'' ''running'')"
    by (rule sample_run_parent)
  show "last_of_kind (run_jobs ''r1'' (sample_run failed_kids)) KPrepare =
    Some (sample_job ''p'' ''prepare'' ''r1'' ''abc'' ''failed'')" by code_simp
  show "last_of_kind (run_jobs ''r1'' (sample_run failed_kids)) KBugbot =
    Some (sample_job ''b'' ''bugbot'' ''r1'' ''abc'' ''queued'')" by code_simp
  show "\<forall>c \<in> set (run_jobs ''r1'' (sample_run failed_kids)). job_terminal (j_status c) \<or>
    job_kind c \<in> {KSecurity, KBugbot, KCheckup, KApproval, KCloud}" by code_simp
qed (simp_all add: job_succeeded_def is_queued_def)

lemma cloud_without_review_stalls_witness:
  "run_tick sample_env (\<lambda>_. JNull) (\<lambda>_. PubNone) ''r1'' (sample_run legacy_kids) = (TickAgain, sample_run legacy_kids)"
proof (rule cloud_without_review_stalls)
  show "store_ok (sample_run legacy_kids)" by (rule sample_run_ok) (simp_all add: legacy_kids_def)
  show "live_job ''r1'' (sample_run legacy_kids) = Some (sample_job ''r1'' ''run'' [] ''abc'' ''running'')"
    by (rule sample_run_parent)
  show "kinds_of_children ''r1'' (sample_run legacy_kids) = plan_kinds [''sast''] builtin_agent_prefs" by code_simp
  show "\<not> wants_ora_review [''sast'']" by code_simp
  show "sample_job ''c'' ''cloud'' ''r1'' ''abc'' ''queued'' \<in> set (run_jobs ''r1'' (sample_run legacy_kids))" by code_simp
  show "job_kind (sample_job ''c'' ''cloud'' ''r1'' ''abc'' ''queued'') = KCloud" by code_simp
  show "\<forall>e \<in> set (run_jobs ''r1'' (sample_run legacy_kids)). job_kind e \<noteq> KCloud \<longrightarrow> job_terminal (j_status e)"
    by code_simp
qed (simp_all add: is_queued_def)

text \<open>A run with a completed review child, a done cloud child and a queued approval child.\<close>

definition reviewed_run :: scm_state where
  "reviewed_run =
     store_of [(''r1'', sample_job ''r1'' ''run'' [] ''abc'' ''queued''),
       (''b'', (sample_job ''b'' ''bugbot'' ''r1'' ''abc'' ''completed'')
          \<lparr>j_summary := [(''ai'', JObj [(''status'', JStr ''clean'')])]\<rparr>),
       (''a'', sample_job ''a'' ''approval'' ''r1'' ''abc'' ''queued'')]"

lemma restart_abandons_reviewed_run_witness:
  "\<exists>s' p'. begin_pr_run sample_env (\<lambda>_. None) ''r1'' reviewed_run = (RunSkipped, s') \<and>
     live_job ''r1'' s' = Some p' \<and> j_status p' = ''skipped'' \<and>
     map_option j_status (live_job ''a'' s') = Some ''queued''"
proof -
  let ?p = "sample_job ''r1'' ''run'' [] ''abc'' ''queued''"
  let ?b = "(sample_job ''b'' ''bugbot'' ''r1'' ''abc'' ''completed'')
          \<lparr>j_summary := [(''ai'', JObj [(''status'', JStr ''clean'')])]\<rparr>"
  have ok: "store_ok reviewed_run" unfolding reviewed_run_def
    by (rule store_ok_of) (simp_all add: sample_job_def)
  have l: "live_job ''r1'' reviewed_run = Some ?p" "live_job ''b'' reviewed_run = Some ?b"
    "live_job ''a'' reviewed_run = Some (sample_job ''a'' ''approval'' ''r1'' ''abc'' ''queued'')"
    by (simp_all add: reviewed_run_def store_of_def live_job_def)
  have h: "\<not> run_finished (j_status ?p)" "gated_run (\<lambda>_. None) ?p" "reviewed_child ?p ?b"
    by code_simp+
  from restart_abandons_reviewed_run [OF ok l(1) h(1,2) l(2) h(3), of sample_env]
  obtain s' p' where "begin_pr_run sample_env (\<lambda>_. None) ''r1'' reviewed_run = (RunSkipped, s')"
    "live_job ''r1'' s' = Some p'" "j_status p' = ''skipped''"
    "\<forall>e. e \<noteq> ''r1'' \<longrightarrow> live_job e s' = live_job e reviewed_run" by blast
  then show ?thesis using l(3) by simp
qed


lemma skip_gate_on_evidence_witness:
  "\<exists>prior s'. scm_run_skip_gate sample_env (\<lambda>_. None) (sample_job ''r1'' ''run'' [] ''abc'' ''queued'') reviewed_run =
       (Some (''commit already reviewed successfully'', prior), s') \<and> prior \<noteq> ''r1''"
proof -
  let ?p = "sample_job ''r1'' ''run'' [] ''abc'' ''queued''"
  let ?b = "(sample_job ''b'' ''bugbot'' ''r1'' ''abc'' ''completed'')
          \<lparr>j_summary := [(''ai'', JObj [(''status'', JStr ''clean'')])]\<rparr>"
  have ok: "store_ok reviewed_run" unfolding reviewed_run_def
    by (rule store_ok_of) (simp_all add: sample_job_def)
  have new: "review_step\<^sup>*\<^sup>* reviewed_run reviewed_run" "sc_reviewed reviewed_run = Map.empty"
    by (simp_all add: reviewed_run_def store_of_def)
  have l: "live_job ''b'' reviewed_run = Some ?b"
    by (simp add: reviewed_run_def store_of_def live_job_def)
  have h: "gated_run (\<lambda>_. None) ?p" "reviewed_child ?p ?b" by code_simp+
  obtain prior s' where g: "scm_run_skip_gate sample_env (\<lambda>_. None) ?p reviewed_run =
       (Some (''commit already reviewed successfully'', prior), s')"
    using own_child_review_skips_run [OF ok h(1) l h(2)] by blast
  have "j_id ?p = ''r1''" by (simp add: sample_job_def)
  with skip_gate_on_evidence [OF ok new g] g show ?thesis by auto
qed

end
