(* ===== verification/Run_Steps.thy ===== *)
theory Run_Steps
  imports Run_Laws
begin

text \<open>
  The orchestrator as a transition system, over the lifetime of one process: the job store, the set
  of job ids that a goroutine processes (\<^verbatim>\<open>scmProcessing\<close>) and the kind slots, with one rule for
  each piece of \<^verbatim>\<open>processPRRun\<close> and \<^verbatim>\<open>processAgentChild\<close>, for what an agent writes while it works, and
  for cancels, superseding, retries and new jobs that arrive at any moment.  The process begins with
  any store the boot may have loaded, finished and cancelled agents included.

  \<^verbatim>\<open>processAgentChild\<close> tests the status of its job and writes it later, at the start and at the end;
  between the two (the phases \<open>Starting\<close> and \<open>Ending\<close>) every other step may happen, a cancel or a
  retry of that very job included, and the later write wins.  A cancel cascade, a superseding, a
  tick of a run and a retry are one step each.

  An agent (\<^verbatim>\<open>runBugbotAgent\<close> and the like) is not modelled inside: while its job is \<open>Working\<close> it
  may persist any live job with the same identity and status, and may mark its own job skipped or
  cancelled.
\<close>

subsection \<open>The system\<close>

datatype job_phase_now =
    Driving | Entered | Starting agent_kind | Working agent_kind | Ending agent_kind "string option"

text \<open>The kind whose slot the goroutine holds.\<close>

fun holds_slot :: "job_phase_now \<Rightarrow> agent_kind option" where
  "holds_slot (Starting k) = Some k"
| "holds_slot (Working k) = Some k"
| "holds_slot (Ending k err) = Some k"
| "holds_slot b = None"

record world =
  w_store :: scm_state
  w_busy :: "string \<rightharpoonup> job_phase_now"
  w_sems :: kind_sems

record config =
  c_env :: orch_env
  c_ev :: "scm_job \<Rightarrow> jv"
  c_pub :: "scm_job \<Rightarrow> publish_result"
  c_pull :: "scm_job \<Rightarrow> (bool \<times> string) option"

definition leave :: "string \<Rightarrow> world \<Rightarrow> world" where
  "leave k w = w\<lparr>w_busy := (w_busy w)(k := None)\<rparr>"

definition with_store :: "scm_state \<Rightarrow> world \<Rightarrow> world" where
  "with_store s w = w\<lparr>w_store := s\<rparr>"

text \<open>What an agent working on the job \<open>k\<close> may write over the live job \<open>j\<close>.\<close>

definition agent_write_ok :: "string \<Rightarrow> scm_job \<Rightarrow> scm_job \<Rightarrow> bool" where
  "agent_write_ok k j j' \<longleftrightarrow>
     j_id j' = j_id j \<and> j_kind j' = j_kind j \<and> j_run_id j' = j_run_id j \<and> j_parent j' = j_parent j \<and>
     sget j' ''child_ids'' = sget j ''child_ids'' \<and>
     (j_status j' = j_status j \<or> (j_id j = k \<and> j_status j' \<in> {''skipped'', ''cancelled''}))"

text \<open>What other parts of the program write over a job that is no agent's (runs, scans, stack members).\<close>

definition other_write_ok :: "scm_job \<Rightarrow> scm_job \<Rightarrow> bool" where
  "other_write_ok p p' \<longleftrightarrow>
     \<not> is_agent_child_kind (job_kind p) \<and> \<not> is_agent_child_kind (job_kind p') \<and>
     j_id p' = j_id p \<and> j_parent p' = j_parent p \<and> set (child_ids_of (Some p)) \<subseteq> set (child_ids_of (Some p'))"

text \<open>The ids a new run takes are digests of random digits; a run starts only when they are free.\<close>

definition new_run_ids :: "orch_env \<Rightarrow> scm_job \<Rightarrow> string list" where
  "new_run_ids env parent =
     j_id parent # map (child_id_for env parent) [KPrepare, KSecurity, KBugbot, KCheckup, KApproval, KCloud]"

definition run_ids_fresh :: "orch_env \<Rightarrow> pr_request \<Rightarrow> prefs_acc \<Rightarrow> scm_state \<Rightarrow> bool" where
  "run_ids_fresh env rq acc s \<longleftrightarrow>
     (\<forall>sha \<in> {rq_sha rq, trim_space (rq_sha rq)}.
        let ks = new_run_ids env (run_parent env rq sha acc)
        in distinct ks \<and> list_all (\<lambda>k. live_job k s = None) ks)"

inductive world_step :: "config \<Rightarrow> world \<Rightarrow> world \<Rightarrow> bool" for cfg :: config where
  drive: "w_busy w r = None \<Longrightarrow> live_job r (w_store w) = Some p \<Longrightarrow> scm_job_processor (job_kind p) = ProcRun \<Longrightarrow>
    begin_pr_run (c_env cfg) (c_pull cfg) r (w_store w) = (b, s) \<Longrightarrow>
    world_step cfg w (if b = RunDriven then w\<lparr>w_store := s, w_busy := (w_busy w)(r \<mapsto> Driving)\<rparr> else with_store s w)"
| tick: "w_busy w r = Some Driving \<Longrightarrow>
    run_tick (c_env cfg) (c_ev cfg) (c_pub cfg) r (w_store w) = (t, s) \<Longrightarrow> t \<noteq> TickCancelled \<Longrightarrow>
    world_step cfg w (if t = TickDone then leave r (with_store s w) else with_store s w)"
| tick_cancelled: "w_busy w r = Some Driving \<Longrightarrow>
    run_tick (c_env cfg) (c_ev cfg) (c_pub cfg) r (w_store w) = (TickCancelled, s) \<Longrightarrow>
    world_step cfg w (leave r (with_store (finalize_pr_run (c_env cfg) (c_ev cfg) (c_pub cfg) r s) w))"
| deadline: "w_busy w r = Some Driving \<Longrightarrow>
    world_step cfg w (leave r (with_store (run_deadline (c_env cfg) r (w_store w)) w))"
| enter: "w_busy w k = None \<Longrightarrow> live_job k (w_store w) = Some j \<Longrightarrow> scm_job_processor (job_kind j) = ProcAgent \<Longrightarrow>
    agent_child_ready j (w_store w) = (True, s) \<Longrightarrow>
    world_step cfg w (w\<lparr>w_store := s, w_busy := (w_busy w)(k \<mapsto> Entered)\<rparr>)"
| start_over: "w_busy w k = Some Entered \<Longrightarrow> live_job k (w_store w) = Some j \<Longrightarrow>
    acquire_kind_slot (e_conc (c_env cfg)) (job_kind j) (w_sems w) = Some m \<Longrightarrow> child_over (j_status j) \<Longrightarrow>
    release_kind_slot (job_kind j) m = Some n \<Longrightarrow>
    world_step cfg w (leave k (w\<lparr>w_sems := n\<rparr>))"
| start_check: "w_busy w k = Some Entered \<Longrightarrow> live_job k (w_store w) = Some j \<Longrightarrow>
    acquire_kind_slot (e_conc (c_env cfg)) (job_kind j) (w_sems w) = Some m \<Longrightarrow> \<not> child_over (j_status j) \<Longrightarrow>
    world_step cfg w (w\<lparr>w_busy := (w_busy w)(k \<mapsto> Starting (job_kind j)), w_sems := m\<rparr>)"
| start_write: "w_busy w k = Some (Starting kind) \<Longrightarrow> live_job k (w_store w) = Some j \<Longrightarrow>
    world_step cfg w (w\<lparr>w_store := start_child (c_env cfg) j (w_store w),
                        w_busy := (w_busy w)(k \<mapsto> Working kind)\<rparr>)"
| agent_write: "w_busy w k = Some (Working kind) \<Longrightarrow> live_job e (w_store w) = Some j \<Longrightarrow> agent_write_ok k j j' \<Longrightarrow>
    world_step cfg w (with_store (persist_scm_job (c_env cfg) j' (w_store w)) w)"
| finish_cancelled: "w_busy w k = Some (Working kind) \<Longrightarrow> live_job k (w_store w) = Some j \<Longrightarrow>
    j_status j = ''cancelled'' \<Longrightarrow> release_kind_slot kind (w_sems w) = Some m \<Longrightarrow>
    world_step cfg w (leave k (w\<lparr>w_store := close_cancelled (c_env cfg) j (w_store w), w_sems := m\<rparr>))"
| finish_check: "w_busy w k = Some (Working kind) \<Longrightarrow> live_job k (w_store w) = Some j \<Longrightarrow>
    j_status j \<noteq> ''cancelled'' \<Longrightarrow>
    world_step cfg w (w\<lparr>w_busy := (w_busy w)(k \<mapsto> Ending kind err)\<rparr>)"
| finish_write: "w_busy w k = Some (Ending kind err) \<Longrightarrow> live_job k (w_store w) = Some j \<Longrightarrow>
    release_kind_slot kind (w_sems w) = Some m \<Longrightarrow>
    world_step cfg w (leave k (w\<lparr>w_store := report_child (c_env cfg) (c_ev cfg) err j (w_store w), w_sems := m\<rparr>))"
| cancel: "world_step cfg w (with_store (snd (cancel_now (c_env cfg) reason k (w_store w))) w)"
| supersede: "trim_space repo \<noteq> [] \<Longrightarrow> 0 < pr \<Longrightarrow>
    world_step cfg w (with_store (snd (supersede_in_flight_pr_jobs (c_env cfg) repo pr sha (w_store w))) w)"
| enqueue: "trim_space (rq_repo rq) \<noteq> [] \<Longrightarrow> run_ids_fresh (c_env cfg) rq acc (w_store w) \<Longrightarrow>
    world_step cfg w (with_store (snd (enqueue_pr_run (c_env cfg) rq acc (w_store w))) w)"
| retry: "live_job k (w_store w) = Some j \<Longrightarrow>
    world_step cfg w (with_store (persist_scm_job (c_env cfg) (retried a j) (w_store w)) w)"
| new_job: "live_job (j_id j) (w_store w) = None \<Longrightarrow> j_id j \<noteq> [] \<Longrightarrow> j_status j = ''queued'' \<Longrightarrow>
    world_step cfg w (with_store (persist_scm_job (c_env cfg) j (store_live (j_id j) j (w_store w))) w)"
| other_write: "live_job k (w_store w) = Some p \<Longrightarrow> other_write_ok p p' \<Longrightarrow>
    world_step cfg w (with_store (persist_scm_job (c_env cfg) p' (w_store w)) w)"

inductive_cases world_stepE: "world_step cfg w v"

text \<open>Job states in which an agent has been started.\<close>

definition begun :: "string \<Rightarrow> bool" where
  "begun st \<longleftrightarrow> st \<in> {''running'', ''completed'', ''failed'', ''error''}"

text \<open>A world as a process starts with it: nothing is processed, the store is what the boot loaded.\<close>

definition fresh_world :: "world \<Rightarrow> bool" where
  "fresh_world w \<longleftrightarrow> store_ok (w_store w) \<and> w_busy w = Map.empty \<and> w_sems w = sems_empty"

subsection \<open>Steps that leave the agents' jobs alone\<close>

text \<open>
  \<open>calm s t\<close>: a live job keeps its kind, run and parent, a terminal agent job its status; no agent
  job has begun meanwhile; no run loses a child.
\<close>

definition calm_job :: "scm_job \<Rightarrow> scm_job \<Rightarrow> bool" where
  "calm_job j j' \<longleftrightarrow>
     j_kind j' = j_kind j \<and> j_run_id j' = j_run_id j \<and> j_parent j' = j_parent j \<and>
     (is_agent_child_kind (job_kind j) \<longrightarrow>
        j_status j' = j_status j \<or> (\<not> job_terminal (j_status j) \<and> j_status j' \<in> {''skipped'', ''cancelled''}))"

definition calm :: "scm_state \<Rightarrow> scm_state \<Rightarrow> bool" where
  "calm s t \<longleftrightarrow>
     store_ok t \<and>
     (\<forall>k j. live_job k s = Some j \<longrightarrow> (\<exists>j'. live_job k t = Some j' \<and> calm_job j j')) \<and>
     (\<forall>k j. live_job k s = None \<and> live_job k t = Some j \<and> is_agent_child_kind (job_kind j) \<longrightarrow> \<not> begun (j_status j)) \<and>
     (\<forall>r. set (children_of r s) \<subseteq> set (children_of r t))"

declare is_agent_child_kind.simps [simp del]

lemma calm_job_refl [simp]: "calm_job j j"
  by (simp add: calm_job_def)

lemma calm_job_kind: "calm_job j j' \<Longrightarrow> job_kind j' = job_kind j"
  by (simp add: calm_job_def job_kind_def)

lemma calm_job_begun:
  "calm_job j j' \<Longrightarrow> is_agent_child_kind (job_kind j) \<Longrightarrow> begun (j_status j') \<Longrightarrow> begun (j_status j)"
  by (auto simp: calm_job_def begun_def)

lemma calmI:
  assumes "store_ok t" "\<And>k j. live_job k s = Some j \<Longrightarrow> \<exists>j'. live_job k t = Some j' \<and> calm_job j j'"
    and "\<And>k j. live_job k s = None \<Longrightarrow> live_job k t = Some j \<Longrightarrow> is_agent_child_kind (job_kind j) \<Longrightarrow> \<not> begun (j_status j)"
    and "\<And>r. set (children_of r s) \<subseteq> set (children_of r t)"
  shows "calm s t"
  unfolding calm_def using assms by blast

lemma calm_refl: "store_ok s \<Longrightarrow> calm s s"
  by (auto simp: calm_def)

lemma calm_ok: "calm s t \<Longrightarrow> store_ok t"
  by (simp add: calm_def)

lemma calm_live:
  assumes "calm s t" "live_job k s = Some j"
  obtains j' where "live_job k t = Some j'" "calm_job j j'"
  using assms unfolding calm_def by blast

lemma calm_children: "calm s t \<Longrightarrow> c \<in> set (children_of r s) \<Longrightarrow> c \<in> set (children_of r t)"
  by (auto simp: calm_def)


lemma calm_job_trans: "calm_job a b \<Longrightarrow> calm_job b c \<Longrightarrow> calm_job a c"
  by (auto simp: calm_job_def job_kind_def)

lemma calm_trans:
  assumes st: "calm s t" and tu: "calm t u"
  shows "calm s u"
  unfolding calm_def
proof (intro conjI allI impI)
  show "store_ok u" using tu by (rule calm_ok)
  show "\<exists>j'. live_job k u = Some j' \<and> calm_job j j'" if "live_job k s = Some j" for k j
    using calm_live [OF st that] calm_live [OF tu] calm_job_trans by metis
  show "set (children_of r s) \<subseteq> set (children_of r u)" for r
    using st tu unfolding calm_def by blast
  fix k j assume h: "live_job k s = None \<and> live_job k u = Some j \<and> is_agent_child_kind (job_kind j)"
  show "\<not> begun (j_status j)"
  proof (cases "live_job k t")
    case None
    then show ?thesis using tu h unfolding calm_def by blast
  next
    case (Some i)
    then obtain j' where "live_job k u = Some j'" "calm_job i j'" using calm_live [OF tu] by blast
    then have c: "calm_job i j" using h by simp
    have "is_agent_child_kind (job_kind i)" using h calm_job_kind [OF c] by simp
    moreover from this have "\<not> begun (j_status i)" using st h Some unfolding calm_def by blast
    ultimately show ?thesis using calm_job_begun [OF c] by blast
  qed
qed

lemma children_mono:
  assumes "store_ok s" "store_ok t"
    and "\<And>k j. live_job k s = Some j \<Longrightarrow> \<exists>j'. live_job k t = Some j' \<and> j_parent j' = j_parent j"
    and "\<And>r c. live_job c s \<noteq> None \<Longrightarrow> c \<in> set (child_ids_of (live_job r s)) \<Longrightarrow>
               c \<in> set (child_ids_of (live_job r t))"
  shows "set (children_of r s) \<subseteq> set (children_of r t)"
proof
  fix c assume "c \<in> set (children_of r s)"
  then obtain j where j: "live_job c s = Some j" "c \<in> set (child_ids_of (live_job r s)) \<or> j_parent j = r"
    using children_iff [OF assms(1)] by blast
  then obtain j' where "live_job c t = Some j'" "j_parent j' = j_parent j" using assms(3) by blast
  with j assms(4) [of c r] show "c \<in> set (children_of r t)" by (auto simp: children_iff [OF assms(2)])
qed

text \<open>Persisting a job over its live version.\<close>

lemma calm_persist:
  assumes "store_ok s" "live_job k s = Some j" "j_id j' = k" "calm_job j j'"
    and "set (children_of k s) \<subseteq> set (child_ids_of (Some j')) \<or> sget j' ''child_ids'' = sget j ''child_ids''"
  shows "calm s (persist_scm_job env j' s)"
proof -
  let ?t = "persist_scm_job env j' s"
  have ok: "store_ok ?t" using store_ok_persist [OF assms(1)] store_ok_id [OF assms(1,2)] assms(3) by auto
  have live: "live_job i ?t = (if i = k then Some (stamp_summary j') else live_job i s)" for i
    using assms(3) by (simp add: live_job_persist)
  have job: "calm_job j (stamp_summary j')" using assms(4) by (simp add: calm_job_def)
  have keep: "\<exists>i'. live_job c ?t = Some i' \<and> calm_job i i'" if "live_job c s = Some i" for c i
    using that live job assms(2) by (cases "c = k") auto
  have par: "child_ids_of (live_job r ?t) = child_ids_of (if r = k then Some j' else live_job r s)" for r
    by (simp add: live child_ids_of_def)
  have kids: "c \<in> set (child_ids_of (live_job r ?t))"
    if "live_job c s \<noteq> None" "c \<in> set (child_ids_of (live_job r s))" for r c
  proof (cases "r = k")
    case True
    have "c \<in> set (children_of k s)" using that True children_iff [OF assms(1)] by blast
    moreover have "child_ids_of (Some j') = child_ids_of (live_job k s)" if "sget j' ''child_ids'' = sget j ''child_ids''"
      using that assms(2) by (simp add: child_ids_of_def)
    ultimately show ?thesis using assms(5) that True par by auto
  next
    case False
    then show ?thesis using that par by simp
  qed
  have parent: "\<exists>i'. live_job c ?t = Some i' \<and> j_parent i' = j_parent i" if "live_job c s = Some i" for c i
    using keep [OF that] by (auto simp: calm_job_def)
  show ?thesis
  proof (rule calmI [OF ok keep])
    show "set (children_of r s) \<subseteq> set (children_of r ?t)" for r
      by (rule children_mono [OF assms(1) ok parent kids])
  qed (use live assms(2) in \<open>auto split: if_splits\<close>)
qed

text \<open>Persisting a job under a free id.\<close>

lemma calm_new:
  assumes "store_ok s" "live_job (j_id j) s = None" "j_id j \<noteq> []" "\<not> begun (j_status j)"
  shows "calm s (persist_scm_job env j (store_live (j_id j) j s))"
proof -
  let ?t = "persist_scm_job env j (store_live (j_id j) j s)"
  have ok: "store_ok ?t" using assms(1,3) by (simp add: store_ok_persist store_ok_store_live)
  have live: "live_job i ?t = (if i = j_id j then Some (stamp_summary j) else live_job i s)" for i
    by (simp add: live_job_persist live_job_store)
  have keep: "live_job c ?t = Some i" if "live_job c s = Some i" for c i
    using that live assms(2) by auto
  have "set (children_of r s) \<subseteq> set (children_of r ?t)" for r
  proof (rule children_mono [OF assms(1) ok])
    show "c \<in> set (child_ids_of (live_job r ?t))" if "c \<in> set (child_ids_of (live_job r s))" for r c
    proof (cases "live_job r s")
      case None
      with that show ?thesis by (simp add: child_ids_of_def)
    next
      case (Some i)
      with that keep show ?thesis by simp
    qed
  qed (use keep in blast)
  note kids = this
  show ?thesis
    by (rule calmI [OF ok _ _ kids]) (use keep live assms(4) in \<open>auto split: if_splits\<close>)
qed

lemma calm_persist_all_new:
  "store_ok s \<Longrightarrow> distinct (map j_id js) \<Longrightarrow>
   \<forall>j \<in> set js. live_job (j_id j) s = None \<and> j_id j \<noteq> [] \<and> \<not> begun (j_status j) \<Longrightarrow>
   calm s (persist_all env js s)"
proof (induction js arbitrary: s)
  case (Cons j js)
  let ?t = "persist_scm_job env j (store_live (j_id j) j s)"
  have one: "calm s ?t" using Cons.prems by (intro calm_new) auto
  have "live_job (j_id i) ?t = None" if "i \<in> set js" for i
  proof -
    have "j_id i \<noteq> j_id j" using that Cons.prems(2) by (auto simp: image_iff)
    with that Cons.prems(3) show ?thesis by (simp add: live_job_persist live_job_store)
  qed
  with Cons.IH [OF calm_ok [OF one]] Cons.prems have "calm ?t (persist_all env js ?t)" by simp
  with one show ?case using calm_trans by (simp add: persist_all_Cons)
qed (simp add: calm_refl)

lemma calm_log [simp]: "calm s (log_effect e t) = calm s t"
proof -
  have "children_of r (log_effect e t) = children_of r t" for r
    by (simp add: children_of_def) (simp add: log_effect_def)
  then show ?thesis by (simp add: calm_def)
qed

lemma calm_same_live:
  assumes "calm s t" "sc_live u = sc_live t" "sc_files u = sc_files t"
  shows "calm s u"
proof -
  have "live_job k u = live_job k t" for k using assms(2) by (simp add: live_job_def)
  moreover from this have "children_of r u = children_of r t" for r
    using assms(2) by (simp add: children_of_def)
  moreover have "store_ok u = store_ok t" using assms(2,3) by (rule store_ok_cong)
  ultimately have "calm s u = calm s t" by (simp only: calm_def)
  with assms(1) show ?thesis by simp
qed

lemma calm_status_rel:
  assumes "store_ok s" "status_rel s t"
  shows "calm s t"
proof -
  have keep: "\<exists>j'. live_job k t = Some j' \<and> calm_job j j'" if k: "live_job k s = Some j" for k j
  proof -
    obtain j' where j': "live_job k t = Some j'" "same_ident j j'"
      "j_status j' = j_status j \<or> (in_flight (j_status j) \<and> j_status j' = ''cancelled'')"
      using status_rel_live [OF assms(2) k] by blast
    have "\<not> begun ''cancelled''" by (simp add: begun_def)
    with j' job_terminal_not_in_flight show ?thesis by (auto simp: calm_job_def same_ident_def)
  qed
  have ok: "store_ok t" using assms(2) by (rule status_rel_ok)
  have parent: "\<exists>j'. live_job k t = Some j' \<and> j_parent j' = j_parent j" if "live_job k s = Some j" for k j
    using keep [OF that] by (auto simp: calm_job_def)
  show ?thesis
  proof (rule calmI [OF ok keep])
    show "set (children_of r s) \<subseteq> set (children_of r t)" for r
      by (rule children_mono [OF assms(1) ok parent])
        (simp_all only: status_rel_child_ids [OF assms(2)])
    show "\<not> begun (j_status j)" if "live_job k s = None" "live_job k t = Some j" for k j
    proof -
      have "live_job k t = None" using assms(2) that(1) unfolding status_rel_def by blast
      with that(2) show ?thesis by simp
    qed
  qed
qed


subsection \<open>The operations are calm\<close>

lemma calm_cancel: "store_ok s \<Longrightarrow> calm s (snd (cancel_now env reason k s))"
  using cancel_now_spec [of s reason k env] calm_status_rel cancel_rel_status
  by (auto simp: cancel_post_def)

lemma supersede_status_rel:
  assumes "store_ok s" "trim_space repo \<noteq> []" "0 < pr"
  shows "status_rel s (snd (supersede_in_flight_pr_jobs env repo pr sha s))"
  unfolding supersede_in_flight_pr_jobs_def
  by (rule cancel_except_sha_spec(1) [OF assms refl])

lemma calm_persist_run:
  assumes "store_ok s" "live_job r s = Some p" "\<not> is_agent_child_kind (job_kind p)"
    and "j_id j = r" "j_kind j = j_kind p" "j_run_id j = j_run_id p" "j_parent j = j_parent p"
    and "sget j ''child_ids'' = sget p ''child_ids''"
  shows "calm s (persist_scm_job env j s)"
  by (rule calm_persist [OF assms(1,2,4)]) (use assms in \<open>auto simp: calm_job_def\<close>)

lemma plan_kinds_six:
  "set (plan_kinds checks p) \<subseteq> set [KPrepare, KSecurity, KBugbot, KCheckup, KApproval, KCloud]"
  by (auto simp: plan_kinds_def split: if_splits)

lemma plan_run_children_new:
  assumes "distinct (new_run_ids env parent)" "list_all (\<lambda>k. live_job k s = None) (new_run_ids env parent)"
  shows "distinct (map j_id (plan_run_children env parent p skip))"
    and "\<forall>j \<in> set (plan_run_children env parent p skip).
           live_job (j_id j) s = None \<and> j_id j \<noteq> [] \<and> \<not> begun (j_status j) \<and> j_id j \<noteq> j_id parent"
proof -
  let ?six = "[KPrepare, KSecurity, KBugbot, KCheckup, KApproval, KCloud]"
  let ?ks = "plan_kinds (run_checks env (j_repo parent)) p"
  have inj: "inj_on (child_id_for env parent) (set ?six)"
    using assms(1) by (simp only: new_run_ids_def distinct.simps distinct_map)
  have ids: "map j_id (plan_run_children env parent p skip) = map (child_id_for env parent) ?ks"
    by (simp add: plan_run_children_def Let_def)
  show "distinct (map j_id (plan_run_children env parent p skip))"
    unfolding ids using inj_on_subset [OF inj plan_kinds_six] distinct_plan_kinds by (simp add: distinct_map)
  have nb: "\<not> begun ''queued''" "\<not> begun ''skipped''" by (simp_all add: begun_def)
  have six: "live_job (child_id_for env parent k) s = None \<and> child_id_for env parent k \<noteq> j_id parent"
    if "k \<in> set ?ks" for k
  proof -
    have "child_id_for env parent k \<in> child_id_for env parent ` set ?six" using that plan_kinds_six by blast
    with assms show ?thesis by (fastforce simp: new_run_ids_def list_all_iff)
  qed
  show "\<forall>j \<in> set (plan_run_children env parent p skip).
           live_job (j_id j) s = None \<and> j_id j \<noteq> [] \<and> \<not> begun (j_status j) \<and> j_id j \<noteq> j_id parent"
    using six child_id_not_blank nb by (auto simp: plan_run_children_def Let_def)
qed

lemma calm_start_pr_run:
  assumes ok: "store_ok s"
    and fresh: "distinct (new_run_ids env (run_parent env rq sha acc))"
      "list_all (\<lambda>k. live_job k s = None) (new_run_ids env (run_parent env rq sha acc))"
  shows "calm s (snd (start_pr_run env rq sha acc s))"
proof -
  let ?p = "run_parent env rq sha acc"
  have pid: "j_id ?p \<noteq> []" "live_job (j_id ?p) s = None"
    using run_parent_id fresh(2) by (auto simp: new_run_ids_def)
  have nb: "\<not> begun ''queued''" "\<not> begun ''skipped''" by (simp_all add: begun_def)
  have one: "calm t (persist_all env [i] t)"
    if "store_ok t" "j_id i = j_id ?p" "live_job (j_id ?p) t = None" "\<not> begun (j_status i)" for i t
    using that pid(1) by (intro calm_persist_all_new) auto
  show ?thesis
  proof (cases "trigger_mode_admits (trigger_mode (fst acc)) (rq_event rq)")
    case False
    then show ?thesis using one [OF ok _ pid(2)] nb
      by (simp add: start_pr_run_def Let_def)
  next
    case True
    define skip where "skip = (if rq_draft rq \<and> \<not> review_draft_prs (fst acc)
                  then Some (''draft PR '' @ em_dash @ '' review_draft_prs=off'') else None)"
    define js where "js = plan_run_children env ?p (fst acc) skip"
    define t where "t = persist_all env js s"
    define i where "i = sset ''child_ids'' (JStrs (map j_id js)) ?p"
    note new = plan_run_children_new [OF fresh, of "fst acc" skip, folded js_def]
    have st: "calm s t" unfolding t_def by (rule calm_persist_all_new [OF ok new(1)]) (use new(2) in blast)
    have "j_id ?p \<notin> j_id ` set js" using new(2) by auto
    then have "live_job (j_id ?p) t = None" using pid(2) by (simp add: t_def persist_all_old)
    then have "calm t (persist_all env [i] t)" by (intro one calm_ok [OF st]) (simp_all add: i_def nb)
    then have "calm s (persist_all env [i] t)" using st calm_trans by blast
    moreover have "sc_live (snd (start_pr_run env rq sha acc s)) = sc_live (persist_all env [i] t)"
      "sc_files (snd (start_pr_run env rq sha acc s)) = sc_files (persist_all env [i] t)"
      using True by (simp_all add: start_pr_run_def Let_def i_def t_def js_def skip_def remember_pr_run_def)
    ultimately show ?thesis by (rule calm_same_live)
  qed
qed

lemma calm_enqueue:
  assumes ok: "store_ok s" and repo: "trim_space (rq_repo rq) \<noteq> []" and fresh: "run_ids_fresh env rq acc s"
  shows "calm s (snd (enqueue_pr_run env rq acc s))"
proof -
  have f: "distinct (new_run_ids env (run_parent env rq sha acc))"
    "list_all (\<lambda>k. live_job k s = None) (new_run_ids env (run_parent env rq sha acc))"
    if "sha \<in> {rq_sha rq, trim_space (rq_sha rq)}" for sha
    using fresh that by (auto simp: run_ids_fresh_def Let_def)
  have reuse: "calm s (remember_pr_run a b c s)" for a b c
    by (rule calm_same_live [OF calm_refl [OF ok]]) (simp_all add: remember_pr_run_def)
  have super: "calm s (snd (start_pr_run env rq (trim_space (rq_sha rq)) acc
      (snd (supersede_in_flight_pr_jobs env (rq_repo rq) (rq_pr rq) sha s))))" if "0 < rq_pr rq" for sha
  proof -
    let ?t = "snd (supersede_in_flight_pr_jobs env (rq_repo rq) (rq_pr rq) sha s)"
    have rel: "status_rel s ?t" by (rule supersede_status_rel [OF ok repo that])
    have "live_job k ?t = None \<longleftrightarrow> live_job k s = None" for k
      using rel unfolding status_rel_def by blast
    then have "list_all (\<lambda>k. live_job k ?t = None) (new_run_ids env (run_parent env rq (trim_space (rq_sha rq)) acc))"
      using f(2) [of "trim_space (rq_sha rq)"] by (simp add: list_all_iff)
    then have "calm ?t (snd (start_pr_run env rq (trim_space (rq_sha rq)) acc ?t))"
      by (intro calm_start_pr_run status_rel_ok [OF rel] f(1)) simp
    then show ?thesis using calm_trans [OF calm_status_rel [OF ok rel]] by blast
  qed
  have plain: "calm s (snd (start_pr_run env rq (rq_sha rq) acc s))"
    by (rule calm_start_pr_run [OF ok]) (use f in auto)
  show ?thesis
    unfolding enqueue_pr_run_def Let_def
    using reuse super plain by (auto split: option.split)
qed


text \<open>Driving a run changes the run's own row, and adds children when it is entered.\<close>

definition same_run :: "scm_job \<Rightarrow> scm_job \<Rightarrow> bool" where
  "same_run p j \<longleftrightarrow>
     j_id j = j_id p \<and> j_kind j = j_kind p \<and> j_run_id j = j_run_id p \<and> j_parent j = j_parent p \<and>
     sget j ''child_ids'' = sget p ''child_ids''"

lemma same_run_refl [simp]: "same_run p p"
  by (simp add: same_run_def)

lemma same_run_fold:
  assumes "\<And>x i. same_run p i \<Longrightarrow> same_run p (f x i)"
  shows "same_run p i \<Longrightarrow> same_run p (fold f xs i)"
  by (induction xs arbitrary: i) (simp_all add: assms)

lemma same_run_copy: "''child_ids'' \<notin> set ks \<Longrightarrow> same_run p i \<Longrightarrow> same_run p (copy_keys ks c i)"
  unfolding copy_keys_def
proof (induction ks arbitrary: i)
  case (Cons k ks)
  then have "same_run p (copy_key k c i)" by (auto simp: copy_key_def same_run_def split: option.split)
  with Cons show ?case by simp
qed simp

lemma child_ids_not_mirrored: "''child_ids'' \<notin> set (mirrored_keys k)"
  by (cases k) simp_all

lemma same_run_mirror: "same_run p i \<Longrightarrow> same_run p (mirror_child c i)"
proof -
  assume "same_run p i"
  then have "same_run p (if j_sec_run c \<noteq> [] then i\<lparr>j_sec_run := j_sec_run c\<rparr> else i)"
    by (simp add: same_run_def)
  then have "same_run p (let i = (if j_sec_run c \<noteq> [] then i\<lparr>j_sec_run := j_sec_run c\<rparr> else i)
      in if j_ai_job c \<noteq> [] then i\<lparr>j_ai_job := j_ai_job c\<rparr> else i)"
    by (simp add: same_run_def Let_def)
  from same_run_copy [OF child_ids_not_mirrored this, of "job_kind c" c] show ?thesis
    by (simp add: mirror_child_def same_run_def Let_def)
qed

lemma calm_run_row:
  assumes "store_ok s" "live_job r s = Some p" "\<not> is_agent_child_kind (job_kind p)" "same_run p j"
  shows "calm s (persist_scm_job env j s)"
  using assms store_ok_id [OF assms(1,2)]
  by (intro calm_persist_run [OF assms(1-3)]) (auto simp: same_run_def)

lemma calm_then:
  assumes "calm s t" "store_ok t \<Longrightarrow> calm t (f t)"
  shows "calm s (f t)"
  using calm_trans [OF assms(1) assms(2) [OF calm_ok [OF assms(1)]]] .


lemma child_jobs_mem: "store_ok s \<Longrightarrow> j \<in> set (child_jobs ids s) \<Longrightarrow> live_job (j_id j) s = Some j \<and> j_id j \<in> set ids"
  using store_ok_id by (auto simp: child_jobs_def map_filter_def)

lemma final_comment_calm:
  assumes "store_ok s" "live_job (j_id b) s = Some b" "same_run p j"
    and "ensure_final_comment env pub j b s = (i, t)"
  shows "calm s t \<and> same_run p i \<and> (\<forall>k. k \<noteq> j_id b \<longrightarrow> live_job k t = live_job k s)"
proof -
  have "calm s (persist_scm_job env (sset ''pending_decision'' (JBool False) b) s)"
    using store_ok_id [OF assms(1,2)]
    by (intro calm_persist [OF assms(1,2)]) (auto simp: calm_job_def)
  then show ?thesis
    using assms calm_refl
    by (auto simp: ensure_final_comment_def same_run_def live_job_persist Let_def
        split: if_splits publish_result.splits)
qed

lemma calm_finalize_graph_run:
  assumes "store_ok s" "live_job r s = Some p" "\<not> is_agent_child_kind (job_kind p)"
  shows "calm s (finalize_graph_run env ev r s)"
proof -
  have "same_run p (fold (copy_keys issue_keys) cs p)" for cs
    by (rule same_run_fold [OF same_run_copy]) (simp_all add: issue_keys_def)
  then have "same_run p (sset ''evidence'' e ((fold (copy_keys issue_keys) cs p)\<lparr>j_status := st, j_finished := f\<rparr>))"
    for e cs st f by (simp add: same_run_def)
  from calm_run_row [OF assms this] show ?thesis
    using assms by (simp add: finalize_graph_run_def get_scm_job_ok list_run_children_ok Let_def)
qed

lemma calm_finalize:
  assumes ok: "store_ok s" and live: "live_job r s = Some p" and agent: "\<not> is_agent_child_kind (job_kind p)"
  shows "calm s (finalize_pr_run env ev pub r s)"
proof (cases "job_kind p = KIssueRun")
  case True
  then show ?thesis using calm_finalize_graph_run [OF assms] ok live
    by (simp add: finalize_pr_run_def get_scm_job_ok)
next
  case False
  let ?cs = "run_jobs r s"
  define j where "j = fold mirror_child ?cs p"
  have j: "same_run p j" unfolding j_def by (rule same_run_fold [OF same_run_mirror]) simp_all
  have row: "calm s (persist_scm_job env (i\<lparr>j_status := st, j_finished := f\<rparr>) t)"
    if "calm s t" "same_run p i" "live_job r t = Some p" for i t st f
  proof -
    have "same_run p (i\<lparr>j_status := st, j_finished := f\<rparr>)" using that(2) by (simp add: same_run_def)
    from calm_run_row [OF calm_ok [OF that(1)] that(3) agent this] calm_trans [OF that(1)]
    show ?thesis by blast
  qed
  have plain: "calm s (persist_scm_job env (j\<lparr>j_status := st, j_finished := f\<rparr>) s)" for st f
    using row [OF calm_refl [OF ok] j live] .
  have comment: "calm s (persist_scm_job env (i\<lparr>j_status := st, j_finished := f\<rparr>) t)"
    if b: "last_of_kind ?cs KBugbot = Some b" "ensure_final_comment env pub j b s = (i, t)" for b i t st f
  proof -
    have mem: "b \<in> set ?cs" "job_kind b = KBugbot" using last_of_kind_Some [OF b(1)] by simp_all
    have lb: "live_job (j_id b) s = Some b" using child_jobs_mem [OF ok] mem(1) by (simp add: run_jobs_def)
    have "r \<noteq> j_id b" using lb live agent mem(2) by (auto simp: is_agent_child_kind.simps)
    with final_comment_calm [OF ok lb j b(2)] live show ?thesis by (intro row) simp_all
  qed
  show ?thesis
    using False ok live plain comment
    by (auto simp: finalize_pr_run_def get_scm_job_ok list_run_children_ok job_is_cancelled_ok Let_def
        run_jobs_def [symmetric] j_def [symmetric] split: option.split prod.split)
qed


lemma start_all_live: "sc_live (start_all js s) = sc_live s \<and> sc_files (start_all js s) = sc_files s"
  by (induction js arbitrary: s) (simp_all add: start_all_def log_effect_def)

lemma calm_start_all:
  assumes "store_ok s"
  shows "calm s (start_all js s)"
  by (rule calm_same_live [OF calm_refl [OF assms]]) (simp_all add: start_all_live)

lemma live_start_all [simp]: "live_job k (start_all js s) = live_job k s"
  by (simp add: live_job_def start_all_live)

lemma calm_run_tick:
  assumes "store_ok s" "live_job r s = Some p" "\<not> is_agent_child_kind (job_kind p)"
    and "run_tick env ev pub r s = (t, u)"
  shows "calm s u" "t = TickCancelled \<Longrightarrow> u = s"
proof -
  have "calm s (finalize_pr_run env ev pub r (start_all js s))" for js
    by (rule calm_then [OF calm_start_all [OF assms(1)], where f = "finalize_pr_run env ev pub r"],
        rule calm_finalize [OF _ _ assms(3)]) (simp_all add: assms(2))
  then show "calm s u" "t = TickCancelled \<Longrightarrow> u = s"
    using assms calm_start_all [OF assms(1)] calm_refl [OF assms(1)]
      list_run_children_ok [OF calm_ok [OF calm_start_all [OF assms(1)]]]
    by (auto simp: run_tick_def job_is_cancelled_ok list_run_children_ok Let_def split: if_splits)
qed

lemma calm_deadline:
  assumes "store_ok s" "live_job r s = Some p" "\<not> is_agent_child_kind (job_kind p)"
  shows "calm s (run_deadline env r s)"
  using assms calm_run_row [OF assms, of "p\<lparr>j_status := st, j_error := e, j_finished := f\<rparr>" for st e f] calm_refl
  by (auto simp: run_deadline_def get_scm_job_ok same_run_def)

text \<open>Entering a run.  No assumption is made on the ids: a planned id that is taken is left alone.\<close>

definition grown :: "string list \<Rightarrow> scm_state \<Rightarrow> string list \<Rightarrow> scm_state \<Rightarrow> bool" where
  "grown existing s ids t \<longleftrightarrow>
     calm s t \<and> set existing \<subseteq> set ids \<and>
     (\<forall>k j. live_job k s = Some j \<longrightarrow> live_job k t = Some j) \<and>
     (\<forall>k. live_job k s = None \<and> live_job k t \<noteq> None \<longrightarrow> k \<in> set ids)"

lemma grown_add:
  assumes g: "grown existing s ids t" and c: "j_id c \<noteq> []" "\<not> begun (j_status c)"
    and "add_child env c (have0, ids, added, t) = (have1, ids', added', t')"
  shows "grown existing s ids' t'"
proof -
  have "store_ok t" using g by (auto simp: grown_def intro: calm_ok)
  moreover have "calm s (persist_scm_job env c (store_live (j_id c) c t))" if "live_job (j_id c) t = None"
    using calm_then [of s t "\<lambda>t. persist_scm_job env c (store_live (j_id c) c t)"] calm_new that c g
    by (auto simp: grown_def)
  ultimately show ?thesis
    using g assms(4)
    by (auto simp: grown_def add_child_def Let_def get_scm_job_ok persist_all_Cons live_job_persist live_job_store
        split: if_splits)
qed

lemma grown_fold:
  "grown existing s ids t \<Longrightarrow> \<forall>c \<in> set cs. j_id c \<noteq> [] \<and> \<not> begun (j_status c) \<Longrightarrow>
   fold (add_child env) cs (have0, ids, added, t) = (have1, ids', added', t') \<Longrightarrow> grown existing s ids' t'"
proof (induction cs arbitrary: have0 ids added t)
  case (Cons c cs)
  obtain h i a u where u: "add_child env c (have0, ids, added, t) = (h, i, a, u)"
    by (metis prod_cases4)
  from grown_add [OF Cons.prems(1) _ _ u] Cons show ?case by (simp add: u)
qed simp

lemma planned_not_begun:
  "\<forall>c \<in> set (plan_run_children env p prefs skip). j_id c \<noteq> [] \<and> \<not> begun (j_status c)"
proof -
  have nb: "\<not> begun ''queued''" "\<not> begun ''skipped''" by (simp_all add: begun_def)
  show ?thesis using child_id_not_blank nb by (auto simp: plan_run_children_def Let_def)
qed

lemma calm_ensure:
  assumes ok: "store_ok s" and live: "live_job r s = Some p" and agent: "\<not> is_agent_child_kind (job_kind p)"
  shows "calm s (snd (ensure_run_children env p s))"
proof -
  have r: "j_id p = r" using store_ok_id [OF ok live] by simp
  let ?old = "children_of r s" and ?plan = "plan_run_children env p (agent_prefs_from_summary p) None"
  obtain h ids a t where f: "fold (add_child env) ?plan (map job_kind (child_jobs ?old s), ?old, False, s) = (h, ids, a, t)"
    by (metis prod_cases4)
  have g: "grown ?old s ids t"
    by (rule grown_fold [OF _ planned_not_begun f]) (auto simp: grown_def calm_refl [OF ok])
  then have t: "calm s t" "store_ok t" "live_job r t = Some p"
    using live by (auto simp: grown_def intro: calm_ok)
  have "set (children_of r t) \<subseteq> set ids"
  proof
    fix c assume "c \<in> set (children_of r t)"
    then obtain j where j: "live_job c t = Some j" "c \<in> set (child_ids_of (Some p)) \<or> j_parent j = r"
      using children_iff [OF t(2)] t(3) by auto
    show "c \<in> set ids"
    proof (cases "live_job c s")
      case None
      then show ?thesis using g j(1) by (auto simp: grown_def)
    next
      case (Some i)
      then have "i = j" using g j(1) by (auto simp: grown_def)
      then have "c \<in> set ?old" using Some j(2) live children_iff [OF ok] by auto
      then show ?thesis using g by (auto simp: grown_def)
    qed
  qed
  then have "calm t (persist_scm_job env (sset ''child_ids'' (JStrs ids) p) t)"
    using r by (intro calm_persist [OF t(2,3)]) (auto simp: calm_job_def child_ids_of_def)
  with t have "calm s (persist_scm_job env (sset ''child_ids'' (JStrs ids) p) t)" using calm_trans by blast
  with t ok show ?thesis
    using list_run_children_ok [OF t(2)]
      list_run_children_ok [OF calm_ok [of s "persist_scm_job env (sset ''child_ids'' (JStrs ids) p) t"]]
      calm_refl [OF ok]
    by (auto simp: ensure_run_children_def list_run_children_ok r f Let_def)
qed

lemma skip_gate_files:
  "sc_live (snd (scm_run_skip_gate env pull j s)) = sc_live s \<and> sc_files (snd (scm_run_skip_gate env pull j s)) = sc_files s"
  by (auto simp: scm_run_skip_gate_def should_skip_for_already_reviewed_def record_successful_ai_review_def
      lookup_successful_ai_review_def Let_def split: option.split prod.split)

lemma calm_begin:
  assumes ok: "store_ok s" and live: "live_job r s = Some p" and agent: "\<not> is_agent_child_kind (job_kind p)"
  shows "calm s (snd (begin_pr_run env pull r s))"
proof -
  obtain d t where g: "scm_run_skip_gate env pull p s = (d, t)" by force
  have t: "calm s t" "live_job r t = Some p"
    using skip_gate_files [of env pull p s] g live
    by (auto intro!: calm_same_live [OF calm_refl [OF ok]] simp: live_job_def)
  have row: "calm s (persist_scm_job env j t)" if "same_run p j" for j
    using calm_run_row [OF calm_ok [OF t(1)] t(2) agent that] calm_trans [OF t(1)] by blast
  let ?run = "p\<lparr>j_status := ''running'', j_started := e_now env\<rparr>"
  let ?u = "if j_status p \<noteq> ''running'' then persist_scm_job env ?run t else t"
  have u: "calm s ?u" using row [of ?run] t(1) by (simp add: same_run_def)
  obtain q where q: "live_job r ?u = Some q" "job_kind q = job_kind p"
  proof (cases "j_status p = ''running''")
    case False
    then show ?thesis using that [of "stamp_summary ?run"] store_ok_id [OF ok live]
      by (simp add: live_job_persist job_kind_def)
  qed (use that t(2) in simp)
  have "calm s (snd (ensure_run_children env q ?u))"
    using calm_ensure [OF calm_ok [OF u] q(1)] agent q(2) calm_trans [OF u] by simp
  moreover have "calm s (persist_scm_job env (skip_run env reason prior p) t)" for reason prior
    by (rule row) (simp add: same_run_def skip_run_def stamp_if_def Let_def)
  ultimately show ?thesis
    using ok live g q(1) calm_refl [OF ok] get_scm_job_ok [OF calm_ok [OF u], of r]
    by (auto simp: begin_pr_run_def get_scm_job_ok Let_def split: option.split)
qed


end
