(* ===== verification/Run_Safety.thy ===== *)
theory Run_Safety
  imports Run_Steps
begin

text \<open>
  What holds in every reachable state of the transition system: an agent is worked on only after the
  jobs it waits for were over, a verdict changes only by a retry, the goroutines holding a slot of a
  kind are exactly the taken slots.  The system refines an abstract life cycle of the agents' jobs.
\<close>

subsection \<open>What every step keeps of a job\<close>

definition kept_job :: "scm_job \<Rightarrow> scm_job \<Rightarrow> bool" where
  "kept_job j j' \<longleftrightarrow>
     j_parent j' = j_parent j \<and>
     (if is_agent_child_kind (job_kind j) then j_kind j' = j_kind j \<and> j_run_id j' = j_run_id j
      else \<not> is_agent_child_kind (job_kind j'))"

definition steady :: "scm_state \<Rightarrow> scm_state \<Rightarrow> bool" where
  "steady s t \<longleftrightarrow>
     store_ok t \<and>
     (\<forall>k j. live_job k s = Some j \<longrightarrow> (\<exists>j'. live_job k t = Some j' \<and> kept_job j j')) \<and>
     (\<forall>r. set (children_of r s) \<subseteq> set (children_of r t))"

lemma calm_kept: "calm_job j j' \<Longrightarrow> kept_job j j'"
  using calm_job_kind [of j j'] by (simp add: calm_job_def kept_job_def)

lemma calm_steady: "calm s t \<Longrightarrow> steady s t"
  unfolding calm_def steady_def using calm_kept by blast

lemma kept_job_refl [simp]: "kept_job j j"
  by (simp add: kept_job_def)

lemma kept_agent: "kept_job j j' \<Longrightarrow> is_agent_child_kind (job_kind j') = is_agent_child_kind (job_kind j)"
proof (cases "is_agent_child_kind (job_kind j)")
  case True
  assume "kept_job j j'"
  with True have "job_kind j' = job_kind j" by (simp add: kept_job_def job_kind_def)
  then show ?thesis by simp
qed (simp add: kept_job_def)

lemma kept_agent_kind:
  "kept_job j j' \<Longrightarrow> is_agent_child_kind (job_kind j) \<Longrightarrow> job_kind j' = job_kind j \<and> j_run_id j' = j_run_id j"
  unfolding job_kind_def [of j'] by (simp add: kept_job_def) (simp add: job_kind_def)

lemma steadyD: "steady s t \<Longrightarrow> live_job k s = Some j \<Longrightarrow> \<exists>j'. live_job k t = Some j' \<and> kept_job j j'"
  unfolding steady_def by blast

lemma steady_ok: "steady s t \<Longrightarrow> store_ok t"
  by (simp add: steady_def)

lemma steady_refl: "store_ok s \<Longrightarrow> steady s s"
  by (rule calm_steady [OF calm_refl])

definition dep_met :: "scm_state \<Rightarrow> string \<Rightarrow> agent_kind \<Rightarrow> bool" where
  "dep_met s run d \<longleftrightarrow>
     (\<exists>c i. c \<in> set (children_of run s) \<and> live_job c s = Some i \<and> job_kind i = d \<and> dep_settled d (Some i))"

definition deps_met :: "scm_state \<Rightarrow> scm_job \<Rightarrow> bool" where
  "deps_met s j \<longleftrightarrow> (\<forall>d \<in> set (agent_depends_on (job_kind j)). dep_met s (j_run_id j) d)"

lemma deps_ready_met:
  "store_ok s \<Longrightarrow> deps_ready run ds s = (True, t) \<Longrightarrow> t = s \<and> (\<forall>d \<in> set ds. dep_met s run d)"
proof (induction ds)
  case (Cons d ds)
  let ?f = "List.find (\<lambda>j. job_kind j = d) (run_jobs run s)"
  have e: "child_by_kind run d s = (?f, s)"
    using Cons.prems(1) by (simp add: child_by_kind_def list_run_children_ok run_jobs_def)
  then have settled: "dep_settled d ?f" and rest: "deps_ready run ds s = (True, t)"
    using Cons.prems(2) by (auto split: if_splits)
  obtain i where i: "?f = Some i" using settled by (cases ?f) (simp_all add: dep_settled_def)
  then have "i \<in> set (run_jobs run s)" "job_kind i = d" using find_SomeD [OF i] by simp_all
  then have "live_job (j_id i) s = Some i" "j_id i \<in> set (children_of run s)"
    using child_jobs_mem [OF Cons.prems(1)] unfolding run_jobs_def by blast+
  with settled i \<open>job_kind i = d\<close> have "dep_met s run d" unfolding dep_met_def by auto
  with Cons.IH [OF Cons.prems(1) rest] show ?case by simp
qed simp

subsection \<open>Persisting over a live job\<close>

lemma steady_persist:
  assumes "store_ok s" "live_job k s = Some j" "j_id j' = k" "kept_job j j'"
    and "set (child_ids_of (Some j)) \<subseteq> set (child_ids_of (Some j'))"
  shows "steady s (persist_scm_job env j' s)"
proof -
  let ?t = "persist_scm_job env j' s"
  have ok: "store_ok ?t" using store_ok_persist [OF assms(1)] store_ok_id [OF assms(1,2)] assms(3) by auto
  have live: "live_job i ?t = (if i = k then Some (stamp_summary j') else live_job i s)" for i
    using assms(3) by (simp add: live_job_persist)
  have "job_kind (stamp_summary j') = job_kind j'" by (simp add: job_kind_def)
  then have "kept_job j (stamp_summary j')" using assms(4) by (simp add: kept_job_def)
  then have keep: "\<exists>i'. live_job c ?t = Some i' \<and> kept_job i i'" if "live_job c s = Some i" for c i
    using that live assms(2) by (cases "c = k") auto
  have "set (child_ids_of (live_job r s)) \<subseteq> set (child_ids_of (live_job r ?t))" for r
    using assms(2,5) by (auto simp: live child_ids_of_def)
  note kids = this
  have "set (children_of r s) \<subseteq> set (children_of r ?t)" for r
  proof (rule children_mono [OF assms(1) ok])
    show "\<exists>j'. live_job c ?t = Some j' \<and> j_parent j' = j_parent i" if "live_job c s = Some i" for c i
      using keep [OF that] by (auto simp: kept_job_def)
  qed (use kids in blast)
  with ok keep show ?thesis unfolding steady_def by blast
qed

lemma child_over_iff: "child_over st = job_terminal st"
  by (auto simp: child_over_def job_terminal_def)

text \<open>One job is rewritten in place, and no other job is touched.\<close>

definition rewritten :: "string \<Rightarrow> scm_job \<Rightarrow> string set \<Rightarrow> scm_state \<Rightarrow> scm_state \<Rightarrow> bool" where
  "rewritten k j sts s t \<longleftrightarrow>
     steady s t \<and> live_job k s = Some j \<and> (\<forall>c. c \<noteq> k \<longrightarrow> live_job c t = live_job c s) \<and>
     (\<exists>j'. live_job k t = Some j' \<and> j_status j' \<in> sts)"

lemma rewritten_persist:
  assumes "store_ok s" "live_job k s = Some j" "same_run j j'"
  shows "rewritten k j {j_status j'} s (persist_scm_job env j' s)"
proof -
  have k: "j_id j' = k" using store_ok_id [OF assms(1,2)] assms(3) by (simp add: same_run_def)
  have "job_kind j' = job_kind j" using assms(3) by (simp add: same_run_def job_kind_def)
  then have "kept_job j j'" using assms(3) by (simp add: kept_job_def same_run_def)
  moreover have "set (child_ids_of (Some j)) \<subseteq> set (child_ids_of (Some j'))"
    using assms(3) by (simp add: same_run_def child_ids_of_def)
  ultimately have "steady s (persist_scm_job env j' s)" using steady_persist [OF assms(1,2) k] by blast
  then show ?thesis using assms(2) k by (simp add: rewritten_def live_job_persist)
qed

lemma rewritten_start:
  assumes "store_ok s" "live_job k s = Some j"
  shows "rewritten k j {''running''} s (start_child env j s)"
  using rewritten_persist [OF assms, of "j\<lparr>j_status := ''running'', j_started := e_now env\<rparr>" env]
  by (simp add: start_child_def same_run_def)

lemma rewritten_close:
  assumes "store_ok s" "live_job k s = Some j"
  shows "rewritten k j {j_status j} s (close_cancelled env j s)"
proof (cases "j_finished j = []")
  case True
  then show ?thesis using rewritten_persist [OF assms, of "j\<lparr>j_finished := e_now env\<rparr>" env]
    by (simp add: close_cancelled_def same_run_def)
next
  case False
  then show ?thesis using assms steady_refl by (simp add: close_cancelled_def rewritten_def)
qed

lemma finished_child_same: "same_run j (finished_child env ev err j)"
  by (simp add: finished_child_def same_run_def Let_def split: option.split)

lemma finished_child_status:
  "j_status (finished_child env ev err j) =
     (if err \<noteq> None then ''failed'' else if j_status j \<noteq> ''skipped'' then ''completed'' else ''skipped'')"
  by (simp add: finished_child_def Let_def split: option.split)

lemma rewritten_report:
  assumes "store_ok s" "live_job k s = Some j"
  shows "rewritten k j {if err \<noteq> None then ''failed'' else if j_status j \<noteq> ''skipped'' then ''completed'' else ''skipped''}
    s (report_child env ev err j s)"
  using rewritten_persist [OF assms finished_child_same, of env]
  by (simp add: report_child_def finished_child_status)

lemma rewritten_agent:
  assumes "store_ok s" "live_job e s = Some j" "agent_write_ok k j j'"
  shows "rewritten e j (if e = k then {j_status j, ''skipped'', ''cancelled''} else {j_status j})
    s (persist_scm_job env j' s)"
proof -
  have "same_run j j'" using assms(3) by (simp add: agent_write_ok_def same_run_def)
  from rewritten_persist [OF assms(1,2) this, of env] show ?thesis
    using assms(3) store_ok_id [OF assms(1,2)] by (auto simp: rewritten_def agent_write_ok_def)
qed

lemma sget_sdrop: "k' \<noteq> k \<Longrightarrow> sget (sdrop k j) k' = sget j k'"
  by (simp add: sget_def sdrop_def jget_def delete_conv')

lemma legacy_fields:
  "j_id (legacy_kind j) = j_id j" "j_parent (legacy_kind j) = j_parent j" "j_summary (legacy_kind j) = j_summary j"
  by (simp_all add: legacy_kind_def Let_def)

lemma retried_same:
  "j_id (retried a j) = j_id j" "j_status (retried a j) = ''queued''" "j_parent (retried a j) = j_parent j"
  "sget (retried a j) ''child_ids'' = sget j ''child_ids''"
proof -
  have "j_id (by_actor a j) = j_id j" "j_parent (by_actor a j) = j_parent j" "j_summary (by_actor a j) = j_summary j"
    by (simp_all add: by_actor_def)
  note same = this legacy_fields
  show "j_id (retried a j) = j_id j" "j_status (retried a j) = ''queued''" "j_parent (retried a j) = j_parent j"
    by (simp_all add: retried_def sdrop_def sset_def Let_def same)
  show "sget (retried a j) ''child_ids'' = sget j ''child_ids''"
    by (simp add: retried_def Let_def sget_sdrop) (simp add: sget_def same)
qed

lemma agent_kind_named: "is_agent_child_kind (kind_of x) \<Longrightarrow> trim_space x \<noteq> []"
proof -
  let ?ks = "[KPrepare, KSecurity, KBugbot, KCheckup, KApproval, KCloud, KIssuePrepare,
      KIssueInvestigate, KIssuePublish, KIssueImplement]"
  assume a: "is_agent_child_kind (kind_of x)"
  then have "kind_of x \<in> set ?ks" by (cases "kind_of x") (simp_all add: is_agent_child_kind.simps)
  moreover have "list_all (\<lambda>k. trim_space (kind_str k) \<noteq> []) ?ks" by code_simp
  ultimately have "trim_space (kind_str (kind_of x)) \<noteq> []" unfolding list_all_iff by blast
  then show ?thesis by simp
qed

lemma upgraded_kind:
  "trim_space (j_kind j) = [] \<Longrightarrow> j_kind (retried a j) \<in> {j_kind j, kind_str KRun, kind_str KContinuous}"
  by (simp add: retried_def legacy_kind_def by_actor_def sdrop_def Let_def sset_def)

lemma retried_named:
  "trim_space (j_kind j) \<noteq> [] \<Longrightarrow> j_kind (retried a j) = j_kind j \<and> j_run_id (retried a j) = j_run_id j"
  by (simp add: retried_def legacy_kind_def by_actor_def sdrop_def Let_def sset_def)

lemma retried_kept: "kept_job j (retried a j)"
proof (cases "trim_space (j_kind j) = []")
  case False
  then show ?thesis using retried_named [OF False, of a] retried_same(3) [of a j]
    by (simp add: kept_job_def job_kind_def)
next
  case True
  then have "\<not> is_agent_child_kind (job_kind j)" using agent_kind_named by (auto simp: job_kind_def)
  moreover have "\<not> is_agent_child_kind (job_kind (retried a j))"
    using upgraded_kind [OF True, of a] calculation
    by (auto simp: job_kind_def kind_of_str named_kind_def is_agent_child_kind.simps)
  ultimately show ?thesis by (simp add: kept_job_def retried_same)
qed

lemma rewritten_retry:
  assumes "store_ok s" "live_job k s = Some j"
  shows "rewritten k j {''queued''} s (persist_scm_job env (retried a j) s)"
proof -
  have k: "j_id j = k" using store_ok_id [OF assms] by simp
  have "steady s (persist_scm_job env (retried a j) s)"
    using k by (intro steady_persist [OF assms _ retried_kept]) (simp_all add: retried_same child_ids_of_def)
  then show ?thesis using assms(2) k by (simp add: rewritten_def live_job_persist retried_same)
qed


subsection \<open>The invariant\<close>

definition verdict :: "string \<Rightarrow> bool" where
  "verdict st \<longleftrightarrow> st \<in> {''completed'', ''failed'', ''error''}"

definition busy_ok :: "job_phase_now \<Rightarrow> scm_job \<Rightarrow> bool" where
  "busy_ok b j \<longleftrightarrow>
     is_agent_child_kind (job_kind j) = (b \<noteq> Driving) \<and>
     (\<forall>k. holds_slot b = Some k \<longrightarrow> job_kind j = k \<and> \<not> verdict (j_status j))"

definition workers :: "(string \<rightharpoonup> job_phase_now) \<Rightarrow> agent_kind \<Rightarrow> string set" where
  "workers f k = {c. Option.bind (f c) holds_slot = Some k}"

definition slots_inv :: "int option \<Rightarrow> (string \<rightharpoonup> job_phase_now) \<Rightarrow> kind_sems \<Rightarrow> bool" where
  "slots_inv conc f m \<longleftrightarrow>
     finite (dom f) \<and> sems_ok conc m \<and>
     (\<forall>k. has_kind_sem k \<longrightarrow> sem_held m k = int (card (workers f k)))"

definition jobs_inv :: "scm_state \<Rightarrow> (string \<rightharpoonup> job_phase_now) \<Rightarrow> bool" where
  "jobs_inv s f \<longleftrightarrow>
     store_ok s \<and> (\<forall>k b. f k = Some b \<longrightarrow> (\<exists>j. live_job k s = Some j \<and> busy_ok b j))"

definition world_inv :: "int option \<Rightarrow> world \<Rightarrow> bool" where
  "world_inv conc w \<longleftrightarrow> jobs_inv (w_store w) (w_busy w) \<and> slots_inv conc (w_busy w) (w_sems w)"

lemma jobs_inv_ok: "jobs_inv s f \<Longrightarrow> store_ok s"
  by (simp add: jobs_inv_def)

lemma jobs_inv_busy: "jobs_inv s f \<Longrightarrow> f k = Some b \<Longrightarrow> \<exists>j. live_job k s = Some j \<and> busy_ok b j"
  by (simp add: jobs_inv_def)

lemma jobs_inv_idle: "jobs_inv s f \<Longrightarrow> jobs_inv s (f(k := None))"
  by (simp add: jobs_inv_def)

lemma jobs_inv_enter:
  "jobs_inv s f \<Longrightarrow> live_job k s = Some j \<Longrightarrow> busy_ok b j \<Longrightarrow> jobs_inv s (f(k \<mapsto> b))"
  by (simp add: jobs_inv_def)

lemma busy_kept:
  assumes "busy_ok b j" "kept_job j j'" "holds_slot b \<noteq> None \<Longrightarrow> \<not> verdict (j_status j')"
  shows "busy_ok b j'"
proof (cases "is_agent_child_kind (job_kind j)")
  case True
  then show ?thesis using assms kept_agent [OF assms(2)] kept_agent_kind [OF assms(2) True]
    by (auto simp: busy_ok_def)
next
  case False
  then have "b = Driving" using assms(1) by (simp add: busy_ok_def)
  then show ?thesis using False kept_agent [OF assms(2)] by (simp add: busy_ok_def)
qed

lemma calm_inv:
  assumes inv: "jobs_inv s f" and calm: "calm s t"
  shows "jobs_inv t f"
  unfolding jobs_inv_def
proof (intro conjI allI impI)
  show "store_ok t" using calm by (rule calm_ok)
  fix k b assume b: "f k = Some b"
  obtain j where j: "live_job k s = Some j" "busy_ok b j" using jobs_inv_busy [OF inv b] by blast
  then obtain j' where j': "live_job k t = Some j'" "calm_job j j'" using calm_live [OF calm] by blast
  have "\<not> verdict (j_status j')" if "holds_slot b \<noteq> None"
  proof -
    have "is_agent_child_kind (job_kind j)" "\<not> verdict (j_status j)"
      using that j(2) by (cases b; auto simp: busy_ok_def)+
    then show ?thesis using j'(2) by (auto simp: calm_job_def verdict_def)
  qed
  with busy_kept [OF j(2) calm_kept [OF j'(2)]] j'(1)
  show "\<exists>j. live_job k t = Some j \<and> busy_ok b j" by blast
qed

lemma rewritten_inv:
  assumes inv: "jobs_inv s f" and rw: "rewritten k j sts s t"
    and no: "\<And>b st. f k = Some b \<Longrightarrow> holds_slot b \<noteq> None \<Longrightarrow> st \<in> sts \<Longrightarrow> \<not> verdict st"
  shows "jobs_inv t f"
  unfolding jobs_inv_def
proof (intro conjI allI impI)
  have st: "steady s t" using rw by (simp add: rewritten_def)
  then show "store_ok t" by (rule steady_ok)
  fix c b assume b: "f c = Some b"
  obtain i where i: "live_job c s = Some i" "busy_ok b i" using jobs_inv_busy [OF inv b] by blast
  then obtain i' where i': "live_job c t = Some i'" "kept_job i i'" using steadyD [OF st] by blast
  show "\<exists>j. live_job c t = Some j \<and> busy_ok b j"
  proof (cases "c = k")
    case True
    then have "j_status i' \<in> sts" using rw i'(1) by (auto simp: rewritten_def)
    then have "\<not> verdict (j_status i')" if "holds_slot b \<noteq> None" using no that b True by blast
    then show ?thesis using busy_kept [OF i(2) i'(2)] i'(1) by blast
  next
    case False
    then have "i' = i" using rw i(1) i'(1) by (auto simp: rewritten_def)
    then show ?thesis using i i'(1) by blast
  qed
qed

subsection \<open>Slots\<close>

lemma slots_same:
  assumes "slots_inv conc f m" "\<And>k. workers g k = workers f k" "dom g \<subseteq> insert c (dom f)"
  shows "slots_inv conc g m"
  using assms finite_subset [of "dom g" "insert c (dom f)"] by (simp add: slots_inv_def)

lemma slots_free:
  assumes "slots_inv conc f m" "Option.bind (f c) holds_slot = Option.bind b holds_slot"
  shows "slots_inv conc (f(c := b)) m"
  by (rule slots_same [OF assms(1)]) (use assms(2) in \<open>auto simp: workers_def split: if_splits\<close>)

lemma finite_workers: "slots_inv conc f m \<Longrightarrow> finite (workers f k)"
  by (rule finite_subset [of _ "dom f"]) (auto simp: slots_inv_def workers_def bind_eq_Some_conv)

lemma slots_acquire:
  assumes inv: "slots_inv conc f m" and c: "Option.bind (f c) holds_slot = None" and b: "holds_slot b = Some k"
    and acq: "acquire_kind_slot conc k m = Some n"
  shows "slots_inv conc (f(c \<mapsto> b)) n"
proof -
  have w: "workers (f(c \<mapsto> b)) k' = (if k' = k then insert c (workers f k) else workers f k')" for k'
    using c b by (auto simp: workers_def)
  have "c \<notin> workers f k" using c by (simp add: workers_def)
  then have "sem_held n k' = int (card (workers (f(c \<mapsto> b)) k'))" if "has_kind_sem k'" for k'
    using that inv acq finite_workers [OF inv, of k]
    by (auto simp: w slots_inv_def acquire_kind_slot_def split: if_splits)
  then show ?thesis using inv kslots.acq_ok [OF _ acq] by (simp add: slots_inv_def)
qed

lemma slots_release:
  assumes inv: "slots_inv conc f m" and c: "Option.bind (f c) holds_slot = Some k"
    and rel: "release_kind_slot k m = Some n"
  shows "slots_inv conc (f(c := None)) n"
proof -
  have w: "workers (f(c := None)) k' = (if k' = k then workers f k - {c} else workers f k')" for k'
    using c by (auto simp: workers_def)
  have mem: "c \<in> workers f k" using c by (simp add: workers_def)
  then have "0 < card (workers f k)" using finite_workers [OF inv] by (auto simp: card_gt_0_iff)
  then have "sem_held n k' = int (card (workers (f(c := None)) k'))" if "has_kind_sem k'" for k'
    using that inv rel mem finite_workers [OF inv, of k]
    by (auto simp: w slots_inv_def release_kind_slot_def card_Diff_singleton split: if_splits)
  then show ?thesis using inv kslots.rel_ok [OF _ rel] by (simp add: slots_inv_def)
qed


subsection \<open>The life of an agent's job\<close>

text \<open>
  The abstract specification.  An agent's job waits, works or is over; a goroutine may be called for
  it, take it, work on it, report it.  It is called only while for each kind it waits for a member
  of its run is over, the prepare job with success, and it is taken only when it is not over.  Only
  the report gives a verdict, once per call.  A job nobody works on can be skipped or cancelled
  while it is not over.  A cancel that meets a taken or a reporting goroutine may be overwritten.
  A retry makes any one job wait again.
\<close>

datatype job_life = Pending | Active | Over string

datatype agent_phase = Idle | Called | Taken | AtWork | Reporting

record agent_view =
  av_kind :: agent_kind
  av_run :: string
  av_life :: job_life
  av_phase :: agent_phase

record spec_world =
  sp_agents :: "string \<rightharpoonup> agent_view"
  sp_members :: "string \<Rightarrow> string set"

definition spec_ready :: "spec_world \<Rightarrow> agent_view \<Rightarrow> bool" where
  "spec_ready A v \<longleftrightarrow>
     (\<forall>d \<in> set (agent_depends_on (av_kind v)). \<exists>c \<in> sp_members A (av_run v). \<exists>i st.
        sp_agents A c = Some i \<and> av_kind i = d \<and> av_life i = Over st \<and> (d = KPrepare \<longrightarrow> job_succeeded st))"

inductive life_step :: "bool \<Rightarrow> job_life \<times> agent_phase \<Rightarrow> job_life \<times> agent_phase \<Rightarrow> bool" for ready :: bool where
  stay: "life_step ready x x"
| stop: "l \<in> {Pending, Active} \<Longrightarrow> st \<in> {''skipped'', ''cancelled''} \<Longrightarrow> life_step ready (l, p) (Over st, p)"
| call: "ready \<Longrightarrow> life_step ready (l, Idle) (l, Called)"
| turn_away: "life_step ready (Over st, Called) (Over st, Idle)"
| take: "l \<in> {Pending, Active} \<Longrightarrow> life_step ready (l, Called) (l, Taken)"
| work: "life_step ready (l, Taken) (Active, AtWork)"
| mark: "st \<in> {''skipped'', ''cancelled''} \<Longrightarrow> life_step ready (l, AtWork) (Over st, AtWork)"
| withdraw: "life_step ready (Over ''cancelled'', AtWork) (Over ''cancelled'', Idle)"
| return: "l \<noteq> Over ''cancelled'' \<Longrightarrow> life_step ready (l, AtWork) (l, Reporting)"
| fail: "life_step ready (l, Reporting) (Over ''failed'', Idle)"
| complete: "l \<noteq> Over ''skipped'' \<Longrightarrow> life_step ready (l, Reporting) (Over ''completed'', Idle)"
| skip: "life_step ready (Over ''skipped'', Reporting) (Over ''skipped'', Idle)"

definition view_step :: "spec_world \<Rightarrow> agent_view option \<Rightarrow> agent_view option \<Rightarrow> bool" where
  "view_step A a b =
     (case (a, b) of
        (None, None) \<Rightarrow> True
      | (None, Some v) \<Rightarrow> av_life v \<in> {Pending, Over ''skipped'', Over ''cancelled''} \<and> av_phase v = Idle
      | (Some u, None) \<Rightarrow> False
      | (Some u, Some v) \<Rightarrow>
          av_kind v = av_kind u \<and> av_run v = av_run u \<and>
          life_step (spec_ready A u) (av_life u, av_phase u) (av_life v, av_phase v))"

definition work_step :: "spec_world \<Rightarrow> spec_world \<Rightarrow> bool" where
  "work_step A B \<longleftrightarrow>
     (\<forall>r. sp_members A r \<subseteq> sp_members B r) \<and> (\<forall>k. view_step A (sp_agents A k) (sp_agents B k))"

definition retry_step :: "string \<Rightarrow> spec_world \<Rightarrow> spec_world \<Rightarrow> bool" where
  "retry_step k A B \<longleftrightarrow>
     (\<forall>r. sp_members A r \<subseteq> sp_members B r) \<and>
     sp_agents B = (sp_agents A)(k := map_option (\<lambda>v. v\<lparr>av_life := Pending\<rparr>) (sp_agents A k))"

definition spec_step :: "spec_world \<Rightarrow> spec_world \<Rightarrow> bool" where
  "spec_step A B \<longleftrightarrow> work_step A B \<or> (\<exists>k. retry_step k A B)"

subsection \<open>The refinement\<close>

definition life_of :: "string \<Rightarrow> job_life" where
  "life_of st = (if job_terminal st then Over st else if st = ''running'' then Active else Pending)"

fun phase_of :: "job_phase_now option \<Rightarrow> agent_phase" where
  "phase_of None = Idle"
| "phase_of (Some Driving) = Idle"
| "phase_of (Some Entered) = Called"
| "phase_of (Some (Starting k)) = Taken"
| "phase_of (Some (Working k)) = AtWork"
| "phase_of (Some (Ending k err)) = Reporting"

definition view_of :: "scm_job option \<Rightarrow> job_phase_now option \<Rightarrow> agent_view option" where
  "view_of jo b =
     (case jo of
        None \<Rightarrow> None
      | Some j \<Rightarrow>
          (if is_agent_child_kind (job_kind j)
           then Some \<lparr>av_kind = job_kind j, av_run = j_run_id j, av_life = life_of (j_status j), av_phase = phase_of b\<rparr>
           else None))"

definition spec_of :: "world \<Rightarrow> spec_world" where
  "spec_of w =
     \<lparr>sp_agents = (\<lambda>k. view_of (live_job k (w_store w)) (w_busy w k)),
      sp_members = (\<lambda>r. set (children_of r (w_store w)))\<rparr>"

lemma life_of_statuses [simp]:
  "life_of ''running'' = Active" "life_of ''skipped'' = Over ''skipped''" "life_of ''cancelled'' = Over ''cancelled''"
  "life_of ''failed'' = Over ''failed''" "life_of ''completed'' = Over ''completed''" "life_of ''queued'' = Pending"
  by (simp_all add: life_of_def job_terminal_def)

lemma life_of_Over: "life_of st = Over x \<longleftrightarrow> job_terminal st \<and> x = st"
  by (auto simp: life_of_def)

lemma life_of_open: "\<not> job_terminal st \<Longrightarrow> life_of st \<in> {Pending, Active}"
  by (simp add: life_of_def)

lemma newborn: "\<not> begun st \<Longrightarrow> life_of st \<in> {Pending, Over ''skipped'', Over ''cancelled''}"
  by (auto simp: life_of_def begun_def job_terminal_def)

lemma life_step_mono: "life_step r x y \<Longrightarrow> (r \<Longrightarrow> q) \<Longrightarrow> life_step q x y"
  by (induction rule: life_step.induct) (auto intro: life_step.intros)

lemma spec_ready_met:
  assumes "deps_met (w_store w) j"
  shows "spec_ready (spec_of w) \<lparr>av_kind = job_kind j, av_run = j_run_id j, av_life = l, av_phase = p\<rparr>"
  unfolding spec_ready_def agent_view.simps
proof
  fix d assume d: "d \<in> set (agent_depends_on (job_kind j))"
  then obtain c i where c: "c \<in> set (children_of (j_run_id j) (w_store w))" "live_job c (w_store w) = Some i"
    "job_kind i = d" "dep_settled d (Some i)"
    using assms unfolding deps_met_def dep_met_def by blast
  have "sp_agents (spec_of w) c =
      Some \<lparr>av_kind = d, av_run = j_run_id i, av_life = Over (j_status i), av_phase = phase_of (w_busy w c)\<rparr>"
    using c dep_is_agent_child [OF d] by (simp add: spec_of_def view_of_def life_of_def dep_settled_def)
  moreover have "d = KPrepare \<longrightarrow> job_succeeded (j_status i)" using c(4) by (simp add: dep_settled_def)
  ultimately show "\<exists>c \<in> sp_members (spec_of w) (j_run_id j). \<exists>i st.
        sp_agents (spec_of w) c = Some i \<and> av_kind i = d \<and> av_life i = Over st \<and> (d = KPrepare \<longrightarrow> job_succeeded st)"
    using c(1) by (intro bexI [of _ c]) (simp_all add: spec_of_def)
qed

lemma work_stepI:
  assumes st: "steady (w_store w) (w_store v)"
    and old: "\<And>k j j'. live_job k (w_store w) = Some j \<Longrightarrow> live_job k (w_store v) = Some j' \<Longrightarrow>
        is_agent_child_kind (job_kind j) \<Longrightarrow>
        life_step (deps_met (w_store w) j) (life_of (j_status j), phase_of (w_busy w k))
          (life_of (j_status j'), phase_of (w_busy v k))"
    and new: "\<And>k j. live_job k (w_store w) = None \<Longrightarrow> live_job k (w_store v) = Some j \<Longrightarrow>
        is_agent_child_kind (job_kind j) \<Longrightarrow> \<not> begun (j_status j) \<and> w_busy v k = None"
  shows "work_step (spec_of w) (spec_of v)"
  unfolding work_step_def
proof (intro conjI allI)
  show "sp_members (spec_of w) r \<subseteq> sp_members (spec_of v) r" for r
    using st by (simp add: steady_def spec_of_def)
  show "view_step (spec_of w) (sp_agents (spec_of w) k) (sp_agents (spec_of v) k)" for k
  proof (cases "live_job k (w_store w)")
    case None
    then show ?thesis using new [OF None] newborn
      by (auto simp: spec_of_def view_of_def view_step_def split: option.split)
  next
    case (Some j)
    then obtain j' where j': "live_job k (w_store v) = Some j'" "kept_job j j'" using steadyD [OF st] by blast
    show ?thesis
    proof (cases "is_agent_child_kind (job_kind j)")
      case True
      note kind = kept_agent_kind [OF j'(2) True]
      have "life_step (spec_ready (spec_of w) \<lparr>av_kind = job_kind j, av_run = j_run_id j,
            av_life = life_of (j_status j), av_phase = phase_of (w_busy w k)\<rparr>)
          (life_of (j_status j), phase_of (w_busy w k)) (life_of (j_status j'), phase_of (w_busy v k))"
        using life_step_mono [OF old [OF Some j'(1) True]] spec_ready_met by blast
      then show ?thesis using Some j'(1) kind True
        by (simp add: spec_of_def [of v] view_of_def view_step_def) (simp add: spec_of_def view_of_def Some True)
    next
      case False
      then show ?thesis using Some j' kept_agent [OF j'(2)] by (simp add: spec_of_def view_of_def view_step_def)
    qed
  qed
qed

subsection \<open>Every step keeps the invariant and refines the life cycle\<close>

lemma world_invD:
  "world_inv conc w \<Longrightarrow> jobs_inv (w_store w) (w_busy w)" "world_inv conc w \<Longrightarrow> slots_inv conc (w_busy w) (w_sems w)"
  "world_inv conc w \<Longrightarrow> store_ok (w_store w)"
  unfolding world_inv_def by (blast intro: jobs_inv_ok)+

definition good_step :: "int option \<Rightarrow> world \<Rightarrow> world \<Rightarrow> bool" where
  "good_step conc w v \<longleftrightarrow>
     world_inv conc v \<and> steady (w_store w) (w_store v) \<and> work_step (spec_of w) (spec_of v)"

lemma calm_good:
  assumes inv: "world_inv conc w" and calm: "calm (w_store w) t"
  shows "good_step conc w (with_store t w)"
proof -
  have "work_step (spec_of w) (spec_of (with_store t w))"
  proof (rule work_stepI)
    show "steady (w_store w) (w_store (with_store t w))" using calm_steady [OF calm] by (simp add: with_store_def)
    show "life_step (deps_met (w_store w) j) (life_of (j_status j), phase_of (w_busy w k))
          (life_of (j_status j'), phase_of (w_busy (with_store t w) k))"
      if h: "live_job k (w_store w) = Some j" "live_job k (w_store (with_store t w)) = Some j'"
        "is_agent_child_kind (job_kind j)" for k j j'
    proof -
      have "calm_job j j'" using calm_live [OF calm h(1)] h(2) by (auto simp: with_store_def)
      then consider "j_status j' = j_status j"
        | "\<not> job_terminal (j_status j)" "j_status j' \<in> {''skipped'', ''cancelled''}"
        using h(3) by (auto simp: calm_job_def)
      then show ?thesis
      proof cases
        case 2
        have "life_of (j_status j') = Over (j_status j')" using 2(2) by (auto simp: life_of_Over job_terminal_def)
        then show ?thesis using life_step.stop [OF life_of_open [OF 2(1)] 2(2)] by (simp add: with_store_def)
      qed (simp add: with_store_def life_step.stay)
    qed
    show "\<not> begun (j_status j) \<and> w_busy (with_store t w) k = None"
      if h: "live_job k (w_store w) = None" "live_job k (w_store (with_store t w)) = Some j"
        "is_agent_child_kind (job_kind j)" for k j
    proof
      show "\<not> begun (j_status j)" using calm h unfolding calm_def by (auto simp: with_store_def)
      show "w_busy (with_store t w) k = None"
        using jobs_inv_busy [OF world_invD(1) [OF inv], of k] h(1)
        by (cases "w_busy w k") (auto simp: with_store_def)
    qed
  qed
  moreover have "world_inv conc (with_store t w)"
    using calm_inv [OF world_invD(1) [OF inv] calm] inv by (simp add: world_inv_def with_store_def)
  ultimately show ?thesis using calm_steady [OF calm] by (simp add: good_step_def) (simp add: with_store_def)
qed

text \<open>Entering and leaving the drive of a run, whose row is no agent's.\<close>

lemma drive_good:
  assumes inv: "world_inv conc w" and p: "live_job r (w_store w) = Some p" "\<not> is_agent_child_kind (job_kind p)"
    and b: "b \<in> {None, Some Driving}"
  shows "good_step conc w (w\<lparr>w_busy := (w_busy w)(r := b)\<rparr>)"
proof -
  let ?v = "w\<lparr>w_busy := (w_busy w)(r := b)\<rparr>"
  have "holds_slot c = None" if "w_busy w r = Some c" for c
    using jobs_inv_busy [OF world_invD(1) [OF inv] that] p by (cases c) (auto simp: busy_ok_def)
  then have "Option.bind (w_busy w r) holds_slot = Option.bind b holds_slot"
    using b by (cases "w_busy w r") auto
  from slots_free [OF world_invD(2) [OF inv] this]
  have "slots_inv conc (w_busy ?v) (w_sems ?v)" by simp
  moreover have "jobs_inv (w_store w) ((w_busy w)(r := b))"
    using b p jobs_inv_idle [OF world_invD(1) [OF inv], of r] jobs_inv_enter [OF world_invD(1) [OF inv] p(1)]
    by (auto simp: busy_ok_def)
  moreover have "work_step (spec_of w) (spec_of ?v)"
  proof (rule work_stepI)
    show "steady (w_store w) (w_store ?v)" using steady_refl [OF world_invD(3) [OF inv]] by simp
    show "life_step (deps_met (w_store w) j) (life_of (j_status j), phase_of (w_busy w k))
          (life_of (j_status j'), phase_of (w_busy ?v k))"
      if "live_job k (w_store w) = Some j" "live_job k (w_store ?v) = Some j'" "is_agent_child_kind (job_kind j)" for k j j'
      using that p by (cases "k = r") (auto intro: life_step.stay)
  qed simp
  ultimately show ?thesis using steady_refl [OF world_invD(3) [OF inv]] by (simp add: good_step_def world_inv_def)
qed

lemma spec_of_store: "w_store v = w_store w \<Longrightarrow> w_busy v = w_busy w \<Longrightarrow> spec_of v = spec_of w"
  by (simp add: spec_of_def)

text \<open>A row of a run is written while the goroutine enters or leaves its drive.\<close>

lemma work_step_agents_same:
  assumes "work_step A B" "sp_agents B = sp_agents C" "sp_members B = sp_members C"
  shows "work_step A C"
  using assms by (simp add: work_step_def)

lemma calm_drive_good:
  assumes inv: "world_inv conc w" and calm: "calm (w_store w) t"
    and p: "live_job r (w_store w) = Some p" "\<not> is_agent_child_kind (job_kind p)"
    and b: "b \<in> {None, Some Driving}"
  shows "good_step conc w (w\<lparr>w_store := t, w_busy := (w_busy w)(r := b)\<rparr>)"
proof -
  let ?u = "with_store t w" and ?v = "w\<lparr>w_store := t, w_busy := (w_busy w)(r := b)\<rparr>"
  have u: "world_inv conc ?u" "work_step (spec_of w) (spec_of ?u)"
    using calm_good [OF inv calm] by (simp_all add: good_step_def)
  obtain q where q: "live_job r t = Some q" "calm_job p q" using calm_live [OF calm p(1)] by blast
  have nq: "\<not> is_agent_child_kind (job_kind q)" using p(2) calm_job_kind [OF q(2)] by simp
  have "good_step conc ?u (?u\<lparr>w_busy := (w_busy ?u)(r := b)\<rparr>)"
    by (rule drive_good [OF u(1) _ nq b]) (simp add: with_store_def q(1))
  then have "world_inv conc ?v" by (simp add: good_step_def with_store_def)
  moreover have "sp_agents (spec_of ?u) = sp_agents (spec_of ?v)"
  proof
    show "sp_agents (spec_of ?u) k = sp_agents (spec_of ?v) k" for k
      using q(1) nq by (cases "k = r") (simp_all add: spec_of_def with_store_def view_of_def)
  qed
  moreover have "sp_members (spec_of ?u) = sp_members (spec_of ?v)" by (simp add: spec_of_def with_store_def)
  ultimately show ?thesis using work_step_agents_same [OF u(2)] calm_steady [OF calm] by (simp add: good_step_def)
qed

text \<open>A step on one agent's job and its goroutine.\<close>

lemma rewritten_same: "store_ok s \<Longrightarrow> live_job k s = Some j \<Longrightarrow> rewritten k j {j_status j} s s"
  by (simp add: rewritten_def steady_refl)

lemma agent_good:
  assumes rw: "rewritten k j sts (w_store w) (w_store v)"
    and inv: "jobs_inv (w_store w) (w_busy v)" "slots_inv conc (w_busy v) (w_sems v)"
    and other: "\<And>c. c \<noteq> k \<Longrightarrow> w_busy v c = w_busy w c"
    and no: "\<And>b st. w_busy v k = Some b \<Longrightarrow> holds_slot b \<noteq> None \<Longrightarrow> st \<in> sts \<Longrightarrow> \<not> verdict st"
    and life: "\<And>st. is_agent_child_kind (job_kind j) \<Longrightarrow> st \<in> sts \<Longrightarrow> life_step (deps_met (w_store w) j) (life_of (j_status j), phase_of (w_busy w k))
        (life_of st, phase_of (w_busy v k))"
  shows "good_step conc w v"
proof -
  have "jobs_inv (w_store v) (w_busy v)" by (rule rewritten_inv [OF inv(1) rw no])
  moreover have "work_step (spec_of w) (spec_of v)"
  proof (rule work_stepI)
    show "steady (w_store w) (w_store v)" using rw by (simp add: rewritten_def)
    show "life_step (deps_met (w_store w) i) (life_of (j_status i), phase_of (w_busy w c))
          (life_of (j_status i'), phase_of (w_busy v c))"
      if h: "live_job c (w_store w) = Some i" "live_job c (w_store v) = Some i'" "is_agent_child_kind (job_kind i)" for c i i'
    proof (cases "c = k")
      case True
      then have "i = j" "j_status i' \<in> sts" using rw h by (auto simp: rewritten_def)
      then show ?thesis using life h(3) True by simp
    next
      case False
      then have "i' = i" using rw h by (auto simp: rewritten_def)
      then show ?thesis using other [OF False] by (simp add: life_step.stay)
    qed
    show "\<not> begun (j_status i) \<and> w_busy v c = None"
      if h: "live_job c (w_store w) = None" "live_job c (w_store v) = Some i" for c i
      using h rw by (cases "c = k") (auto simp: rewritten_def)
  qed
  ultimately show ?thesis using inv(2) rw by (simp add: good_step_def world_inv_def rewritten_def)
qed

lemma run_processor_not_agent: "scm_job_processor k = ProcRun \<Longrightarrow> \<not> is_agent_child_kind k"
  by (cases k) (simp_all add: scm_job_processor_def is_agent_child_kind.simps)

lemma agent_processor: "scm_job_processor k = ProcAgent \<Longrightarrow> is_agent_child_kind k"
  by (auto simp: scm_job_processor_def split: if_splits)

lemma driving_row:
  assumes "world_inv conc w" "w_busy w r = Some Driving"
  obtains p where "live_job r (w_store w) = Some p" "\<not> is_agent_child_kind (job_kind p)"
  using jobs_inv_busy [OF world_invD(1) [OF assms(1)] assms(2)] by (auto simp: busy_ok_def)

text \<open>The job of a goroutine that holds a slot.\<close>

lemma holder:
  assumes "world_inv conc w" "w_busy w k = Some b" "holds_slot b = Some kind" "live_job k (w_store w) = Some j"
  shows "is_agent_child_kind (job_kind j)" "job_kind j = kind" "\<not> verdict (j_status j)"
  using jobs_inv_busy [OF world_invD(1) [OF assms(1)] assms(2)] assms(3,4) by (auto simp: busy_ok_def)

lemma enter_good:
  assumes inv: "world_inv conc w" and free: "w_busy w k = None"
    and j: "live_job k (w_store w) = Some j" "scm_job_processor (job_kind j) = ProcAgent"
    and ready: "agent_child_ready j (w_store w) = (True, s)"
  shows "s = w_store w \<and> deps_met (w_store w) j \<and>
    good_step conc w (w\<lparr>w_store := s, w_busy := (w_busy w)(k \<mapsto> Entered)\<rparr>)"
proof -
  have met: "s = w_store w" "deps_met (w_store w) j"
    using deps_ready_met [OF world_invD(3) [OF inv]] ready
    by (auto simp: agent_child_ready_def deps_met_def)
  have "good_step conc w (w\<lparr>w_store := s, w_busy := (w_busy w)(k \<mapsto> Entered)\<rparr>)"
  proof (rule agent_good)
    show "rewritten k j {j_status j} (w_store w) (w_store (w\<lparr>w_store := s, w_busy := (w_busy w)(k \<mapsto> Entered)\<rparr>))"
      using rewritten_same [OF world_invD(3) [OF inv] j(1)] met(1) by simp
    show "jobs_inv (w_store w) (w_busy (w\<lparr>w_store := s, w_busy := (w_busy w)(k \<mapsto> Entered)\<rparr>))"
      using jobs_inv_enter [OF world_invD(1) [OF inv] j(1)] agent_processor [OF j(2)] by (simp add: busy_ok_def)
    show "slots_inv conc (w_busy (w\<lparr>w_store := s, w_busy := (w_busy w)(k \<mapsto> Entered)\<rparr>))
        (w_sems (w\<lparr>w_store := s, w_busy := (w_busy w)(k \<mapsto> Entered)\<rparr>))"
      using slots_free [OF world_invD(2) [OF inv], of k "Some Entered"] free by simp
  qed (use free met(2) life_step.call in auto)
  with met show ?thesis by blast
qed

lemma start_over_good:
  assumes inv: "world_inv conc w" and e: "w_busy w k = Some Entered"
    and j: "live_job k (w_store w) = Some j" "child_over (j_status j)"
    and m: "acquire_kind_slot conc kind (w_sems w) = Some m" "release_kind_slot kind m = Some n"
  shows "good_step conc w (leave k (w\<lparr>w_sems := n\<rparr>))"
proof -
  have n: "n = w_sems w"
    using kslots.rel_acq [OF _ m(1)] m(2) world_invD(2) [OF inv] by (simp add: slots_inv_def)
  show ?thesis
  proof (rule agent_good)
    show "rewritten k j {j_status j} (w_store w) (w_store (leave k (w\<lparr>w_sems := n\<rparr>)))"
      using rewritten_same [OF world_invD(3) [OF inv] j(1)] by (simp add: leave_def)
    show "slots_inv conc (w_busy (leave k (w\<lparr>w_sems := n\<rparr>))) (w_sems (leave k (w\<lparr>w_sems := n\<rparr>)))"
      using slots_free [OF world_invD(2) [OF inv], of k None] e n by (simp add: leave_def)
    show "life_step (deps_met (w_store w) j) (life_of (j_status j), phase_of (w_busy w k))
        (life_of st, phase_of (w_busy (leave k (w\<lparr>w_sems := n\<rparr>)) k))" if "st \<in> {j_status j}" for st
      using that j(2) e life_step.turn_away by (simp add: leave_def life_of_def child_over_iff)
  qed (simp_all add: leave_def jobs_inv_idle [OF world_invD(1) [OF inv]])
qed

lemma start_check_good:
  assumes inv: "world_inv conc w" and e: "w_busy w k = Some Entered"
    and j: "live_job k (w_store w) = Some j" "\<not> child_over (j_status j)"
    and m: "acquire_kind_slot conc (job_kind j) (w_sems w) = Some m"
  shows "good_step conc w (w\<lparr>w_busy := (w_busy w)(k \<mapsto> Starting (job_kind j)), w_sems := m\<rparr>)"
proof -
  let ?v = "w\<lparr>w_busy := (w_busy w)(k \<mapsto> Starting (job_kind j)), w_sems := m\<rparr>"
  have agent: "is_agent_child_kind (job_kind j)"
    using jobs_inv_busy [OF world_invD(1) [OF inv] e] j(1) by (auto simp: busy_ok_def)
  have nv: "\<not> verdict (j_status j)" using j(2) by (auto simp: child_over_def verdict_def)
  show ?thesis
  proof (rule agent_good)
    show "rewritten k j {j_status j} (w_store w) (w_store ?v)"
      using rewritten_same [OF world_invD(3) [OF inv] j(1)] by simp
    show "jobs_inv (w_store w) (w_busy ?v)"
      using jobs_inv_enter [OF world_invD(1) [OF inv] j(1)] agent nv by (simp add: busy_ok_def)
    show "slots_inv conc (w_busy ?v) (w_sems ?v)"
      using slots_acquire [OF world_invD(2) [OF inv] _ _ m, of k] e by simp
    show "life_step (deps_met (w_store w) j) (life_of (j_status j), phase_of (w_busy w k))
        (life_of st, phase_of (w_busy ?v k))" if "st \<in> {j_status j}" for st
      using that e j(2) life_step.take [OF life_of_open] by (simp add: child_over_iff)
  qed (use nv in auto)
qed

lemma start_write_good:
  assumes inv: "world_inv conc w" and e: "w_busy w k = Some (Starting kind)" and j: "live_job k (w_store w) = Some j"
  shows "good_step conc w (w\<lparr>w_store := start_child env j (w_store w), w_busy := (w_busy w)(k \<mapsto> Working kind)\<rparr>)"
proof -
  let ?v = "w\<lparr>w_store := start_child env j (w_store w), w_busy := (w_busy w)(k \<mapsto> Working kind)\<rparr>"
  note h = holder [OF inv e holds_slot.simps(1) j]
  show ?thesis
  proof (rule agent_good)
    show "rewritten k j {''running''} (w_store w) (w_store ?v)"
      using rewritten_start [OF world_invD(3) [OF inv] j] by simp
    show "jobs_inv (w_store w) (w_busy ?v)"
      using jobs_inv_enter [OF world_invD(1) [OF inv] j] h by (simp add: busy_ok_def)
    show "slots_inv conc (w_busy ?v) (w_sems ?v)"
      using slots_free [OF world_invD(2) [OF inv], of k "Some (Working kind)"] e by simp
  qed (use e in \<open>auto simp: verdict_def intro: life_step.work\<close>)
qed

lemma agent_write_good:
  assumes inv: "world_inv conc w" and e: "w_busy w k = Some (Working kind)"
    and j: "live_job c (w_store w) = Some j" "agent_write_ok k j j'"
  shows "good_step conc w (with_store (persist_scm_job env j' (w_store w)) w)"
proof (rule agent_good)
  let ?v = "with_store (persist_scm_job env j' (w_store w)) w"
  let ?sts = "if c = k then {j_status j, ''skipped'', ''cancelled''} else {j_status j}"
  show "rewritten c j ?sts (w_store w) (w_store ?v)"
    using rewritten_agent [OF world_invD(3) [OF inv] j, of env] by (simp add: with_store_def)
  show "\<not> verdict st" if "w_busy ?v c = Some b" "holds_slot b \<noteq> None" "st \<in> ?sts" for b st
    using that holder(3) [OF inv _ _ j(1)] by (auto simp: with_store_def verdict_def split: if_splits)
  show "life_step (deps_met (w_store w) j) (life_of (j_status j), phase_of (w_busy w c))
        (life_of st, phase_of (w_busy ?v c))" if "st \<in> ?sts" for st
    using that e life_step.mark [of "''skipped''"] life_step.mark [of "''cancelled''"]
    by (auto simp: with_store_def intro: life_step.stay split: if_splits)
qed (use inv in \<open>simp_all add: with_store_def world_inv_def\<close>)

lemma finish_cancelled_good:
  assumes inv: "world_inv conc w" and e: "w_busy w k = Some (Working kind)"
    and j: "live_job k (w_store w) = Some j" "j_status j = ''cancelled''"
    and m: "release_kind_slot kind (w_sems w) = Some m"
  shows "good_step conc w (leave k (w\<lparr>w_store := close_cancelled env j (w_store w), w_sems := m\<rparr>))"
proof (rule agent_good)
  let ?v = "leave k (w\<lparr>w_store := close_cancelled env j (w_store w), w_sems := m\<rparr>)"
  show "rewritten k j {j_status j} (w_store w) (w_store ?v)"
    using rewritten_close [OF world_invD(3) [OF inv] j(1)] by (simp add: leave_def)
  show "slots_inv conc (w_busy ?v) (w_sems ?v)"
    using slots_release [OF world_invD(2) [OF inv] _ m, of k] e by (simp add: leave_def)
qed (use e j(2) life_step.withdraw jobs_inv_idle [OF world_invD(1) [OF inv]] in \<open>auto simp: leave_def\<close>)

lemma finish_check_good:
  assumes inv: "world_inv conc w" and e: "w_busy w k = Some (Working kind)"
    and j: "live_job k (w_store w) = Some j" "j_status j \<noteq> ''cancelled''"
  shows "good_step conc w (w\<lparr>w_busy := (w_busy w)(k \<mapsto> Ending kind err)\<rparr>)"
proof (rule agent_good)
  let ?v = "w\<lparr>w_busy := (w_busy w)(k \<mapsto> Ending kind err)\<rparr>"
  note h = holder [OF inv e holds_slot.simps(2) j(1)]
  show "rewritten k j {j_status j} (w_store w) (w_store ?v)"
    using rewritten_same [OF world_invD(3) [OF inv] j(1)] by simp
  show "jobs_inv (w_store w) (w_busy ?v)"
    using jobs_inv_enter [OF world_invD(1) [OF inv] j(1)] h by (simp add: busy_ok_def)
  show "slots_inv conc (w_busy ?v) (w_sems ?v)"
    using slots_free [OF world_invD(2) [OF inv], of k "Some (Ending kind err)"] e by simp
  show "life_step (deps_met (w_store w) j) (life_of (j_status j), phase_of (w_busy w k))
        (life_of st, phase_of (w_busy ?v k))" if "st \<in> {j_status j}" for st
    using that e j(2) life_step.return [of "life_of (j_status j)"] by (simp add: life_of_Over)
  show "\<not> verdict st" if "st \<in> {j_status j}" for st using that h(3) by simp
qed simp

lemma finish_write_good:
  assumes inv: "world_inv conc w" and e: "w_busy w k = Some (Ending kind err)"
    and j: "live_job k (w_store w) = Some j" and m: "release_kind_slot kind (w_sems w) = Some m"
  shows "good_step conc w (leave k (w\<lparr>w_store := report_child env ev err j (w_store w), w_sems := m\<rparr>))"
proof (rule agent_good)
  let ?v = "leave k (w\<lparr>w_store := report_child env ev err j (w_store w), w_sems := m\<rparr>)"
  let ?st = "if err \<noteq> None then ''failed'' else if j_status j \<noteq> ''skipped'' then ''completed'' else ''skipped''"
  show "rewritten k j {?st} (w_store w) (w_store ?v)"
    using rewritten_report [OF world_invD(3) [OF inv] j] by (simp add: leave_def)
  show "slots_inv conc (w_busy ?v) (w_sems ?v)"
    using slots_release [OF world_invD(2) [OF inv] _ m, of k] e by (simp add: leave_def)
  show "life_step (deps_met (w_store w) j) (life_of (j_status j), phase_of (w_busy w k))
        (life_of st, phase_of (w_busy ?v k))" if "st \<in> {?st}" for st
    using that e life_step.fail life_step.skip life_step.complete [of "life_of (j_status j)"]
    by (auto simp: leave_def life_of_Over)
qed (use jobs_inv_idle [OF world_invD(1) [OF inv]] in \<open>auto simp: leave_def\<close>)

lemma other_write_good:
  assumes inv: "world_inv conc w" and p: "live_job k (w_store w) = Some p" "other_write_ok p p'"
  shows "good_step conc w (with_store (persist_scm_job env p' (w_store w)) w)"
proof (rule agent_good)
  let ?v = "with_store (persist_scm_job env p' (w_store w)) w"
  have k: "j_id p' = k" using store_ok_id [OF world_invD(3) [OF inv] p(1)] p(2) by (simp add: other_write_ok_def)
  have "steady (w_store w) (persist_scm_job env p' (w_store w))"
    using p(2) by (intro steady_persist [OF world_invD(3) [OF inv] p(1) k]) (auto simp: other_write_ok_def kept_job_def)
  then show "rewritten k p {j_status p'} (w_store w) (w_store ?v)"
    using p(1) k by (simp add: rewritten_def with_store_def live_job_persist)
  show "\<not> verdict st" if "w_busy ?v k = Some b" "holds_slot b \<noteq> None" for b st
    using that holder(1) [OF inv _ _ p(1)] p(2) by (auto simp: with_store_def other_write_ok_def)
qed (use inv p(2) in \<open>simp_all add: with_store_def world_inv_def other_write_ok_def\<close>)

lemma retry_good:
  assumes inv: "world_inv conc w" and j: "live_job k (w_store w) = Some j"
  shows "world_inv conc (with_store (persist_scm_job env (retried a j) (w_store w)) w) \<and>
    retry_step k (spec_of w) (spec_of (with_store (persist_scm_job env (retried a j) (w_store w)) w))"
proof
  let ?t = "persist_scm_job env (retried a j) (w_store w)"
  have rw: "rewritten k j {''queued''} (w_store w) ?t" using rewritten_retry [OF world_invD(3) [OF inv] j] .
  have "jobs_inv ?t (w_busy w)"
    by (rule rewritten_inv [OF world_invD(1) [OF inv] rw]) (simp add: verdict_def)
  then show "world_inv conc (with_store ?t w)" using inv by (simp add: world_inv_def with_store_def)
  have st: "steady (w_store w) ?t" using rw by (simp add: rewritten_def)
  obtain j' where j': "live_job k ?t = Some j'" "j_status j' = ''queued''" using rw by (auto simp: rewritten_def)
  then have keep: "kept_job j j'" using steadyD [OF st j] by auto
  have "sp_agents (spec_of (with_store ?t w)) c =
      ((sp_agents (spec_of w))(k := map_option (\<lambda>v. v\<lparr>av_life := Pending\<rparr>) (sp_agents (spec_of w) k))) c" for c
  proof (cases "c = k")
    case True
    then show ?thesis using j j' kept_agent [OF keep] kept_agent_kind [OF keep]
      by (simp add: spec_of_def view_of_def with_store_def)
  next
    case False
    then show ?thesis using rw by (simp add: spec_of_def with_store_def rewritten_def)
  qed
  then show "retry_step k (spec_of w) (spec_of (with_store ?t w))"
    using st by (auto simp: retry_step_def steady_def spec_of_def with_store_def fun_eq_iff)
qed

text \<open>The retry route as a step on the job \<open>k\<close>.\<close>

definition retried_to :: "config \<Rightarrow> string \<Rightarrow> world \<Rightarrow> world \<Rightarrow> bool" where
  "retried_to cfg k w v \<longleftrightarrow>
     (\<exists>j a. live_job k (w_store w) = Some j \<and>
        v = with_store (persist_scm_job (c_env cfg) (retried a j) (w_store w)) w)"

lemma world_step_good:
  assumes "world_step cfg w v" "world_inv (e_conc (c_env cfg)) w"
  shows "good_step (e_conc (c_env cfg)) w v \<or> (\<exists>k. retried_to cfg k w v)"
proof -
  note ok = world_invD(3) [OF assms(2)]
  note drv = driving_row [OF assms(2)]
  have leave_store: "leave r (with_store t w) = w\<lparr>w_store := t, w_busy := (w_busy w)(r := None)\<rparr>" for r t
    by (simp add: leave_def with_store_def)
  show ?thesis
    using assms(1)
  proof (cases rule: world_step.cases)
    case (drive r p b s)
    note p = drive(3) run_processor_not_agent [OF drive(4)]
    have "calm (w_store w) s" using calm_begin [OF ok p, of "c_env cfg" "c_pull cfg"] drive(5) by simp
    then show ?thesis using drive(1) calm_good [OF assms(2)] calm_drive_good [OF assms(2) _ p, of s "Some Driving"] by simp
  next
    case (tick r t s)
    from drv [OF tick(2)] obtain p where p: "live_job r (w_store w) = Some p" "\<not> is_agent_child_kind (job_kind p)" .
    have "calm (w_store w) s" using calm_run_tick(1) [OF ok p tick(3)] .
    then show ?thesis using tick(1) calm_good [OF assms(2)] calm_drive_good [OF assms(2) _ p, of s None]
      by (simp add: leave_store)
  next
    case (tick_cancelled r s)
    from drv [OF tick_cancelled(2)] obtain p where p: "live_job r (w_store w) = Some p" "\<not> is_agent_child_kind (job_kind p)" .
    have "s = w_store w" using calm_run_tick(2) [OF ok p tick_cancelled(3)] by simp
    then show ?thesis using tick_cancelled(1) calm_drive_good [OF assms(2) calm_finalize [OF ok p] p, of None]
      by (simp add: leave_store)
  next
    case (deadline r)
    from drv [OF deadline(2)] obtain p where p: "live_job r (w_store w) = Some p" "\<not> is_agent_child_kind (job_kind p)" .
    then show ?thesis using deadline(1) calm_drive_good [OF assms(2) calm_deadline [OF ok p] p, of None]
      by (simp add: leave_store)
  next
    case (enter k j s)
    then show ?thesis using enter_good [OF assms(2)] by simp
  next
    case (start_over k j m n)
    then show ?thesis using start_over_good [OF assms(2)] by simp
  next
    case (start_check k j m)
    then show ?thesis using start_check_good [OF assms(2)] by simp
  next
    case (start_write k kind j)
    then show ?thesis using start_write_good [OF assms(2)] by simp
  next
    case (agent_write k kind e j j')
    then show ?thesis using agent_write_good [OF assms(2)] by simp
  next
    case (finish_cancelled k kind j m)
    then show ?thesis using finish_cancelled_good [OF assms(2)] by simp
  next
    case (finish_check k kind j err)
    then show ?thesis using finish_check_good [OF assms(2)] by simp
  next
    case (finish_write k kind err j m)
    then show ?thesis using finish_write_good [OF assms(2)] by simp
  next
    case (cancel reason k)
    then show ?thesis using calm_good [OF assms(2) calm_cancel [OF ok]] by simp
  next
    case (supersede repo pr sha)
    then show ?thesis using calm_good [OF assms(2) calm_status_rel [OF ok supersede_status_rel [OF ok]]] by simp
  next
    case (enqueue rq acc)
    then show ?thesis using calm_good [OF assms(2) calm_enqueue [OF ok]] by simp
  next
    case (retry k j a)
    then show ?thesis by (auto simp: retried_to_def)
  next
    case (new_job j)
    have "\<not> begun (j_status j)" using new_job(4) by (simp add: begun_def)
    with new_job show ?thesis using calm_good [OF assms(2) calm_new [OF ok]] by simp
  next
    case (other_write k p p')
    then show ?thesis using other_write_good [OF assms(2)] by simp
  qed
qed

lemma retried_to_good:
  assumes "retried_to cfg k w v" "world_inv conc w"
  shows "world_inv conc v" "retry_step k (spec_of w) (spec_of v)" "steady (w_store w) (w_store v)"
  using retry_good [OF assms(2)] rewritten_retry [OF world_invD(3) [OF assms(2)]] assms(1)
  by (auto simp: retried_to_def with_store_def rewritten_def)

lemma world_step_steady:
  assumes "world_step cfg w v" "world_inv (e_conc (c_env cfg)) w"
  shows "steady (w_store w) (w_store v)"
  using world_step_good [OF assms] retried_to_good(3) [OF _ assms(2)] by (auto simp: good_step_def)

lemma world_step_inv:
  assumes "world_step cfg w v" "world_inv (e_conc (c_env cfg)) w"
  shows "world_inv (e_conc (c_env cfg)) v"
  using world_step_good [OF assms] retried_to_good(1) [OF _ assms(2)] by (auto simp: good_step_def)

lemma world_step_spec:
  assumes "world_step cfg w v" "world_inv (e_conc (c_env cfg)) w"
  shows "spec_step (spec_of w) (spec_of v)"
  using world_step_good [OF assms] retried_to_good(2) [OF _ assms(2)]
  unfolding good_step_def spec_step_def by blast

lemma fresh_world_inv:
  assumes "fresh_world w"
  shows "world_inv conc w"
proof -
  have "jobs_inv (w_store w) (w_busy w)" using assms by (simp add: fresh_world_def jobs_inv_def)
  moreover have "slots_inv conc (w_busy w) (w_sems w)"
    using assms by (simp add: fresh_world_def slots_inv_def workers_def sems_empty_def sems_empty_ok [unfolded sems_empty_def])
  ultimately show ?thesis by (simp add: world_inv_def)
qed

locale refinement = transition_system +
  fixes abs :: "'a \<Rightarrow> 'b"
    and spec :: "'b \<Rightarrow> 'b \<Rightarrow> bool"
  assumes step_spec: "inv s \<Longrightarrow> step s t \<Longrightarrow> spec (abs s) (abs t)"
begin

lemma run_spec:
  assumes "step\<^sup>*\<^sup>* s t" "inv s"
  shows "spec\<^sup>*\<^sup>* (abs s) (abs t) \<and> inv t"
  using assms(1)
proof (induction rule: rtranclp_induct)
  case base
  then show ?case using assms(2) by simp
next
  case (step t u)
  then show ?case using step_spec step_inv by (meson rtranclp.rtrancl_into_rtrancl)
qed

end

interpretation runs: transition_system fresh_world "world_step cfg" "world_inv (e_conc (c_env cfg))" for cfg
  by unfold_locales (fact fresh_world_inv, fact world_step_inv [rotated])

interpretation life: refinement fresh_world "world_step cfg" "world_inv (e_conc (c_env cfg))" spec_of spec_step for cfg
  by unfold_locales (rule world_step_spec)

subsection \<open>Calls and verdicts\<close>

text \<open>A step after which the goroutine for \<open>k\<close> is still there.\<close>

definition busy_step :: "config \<Rightarrow> string \<Rightarrow> world \<Rightarrow> world \<Rightarrow> bool" where
  "busy_step cfg k w v \<longleftrightarrow> world_step cfg w v \<and> w_busy v k \<noteq> None"

text \<open>The call of an agent: its readiness holds and a goroutine takes the job.\<close>

definition called_at :: "config \<Rightarrow> string \<Rightarrow> world \<Rightarrow> world \<Rightarrow> bool" where
  "called_at cfg k u v \<longleftrightarrow>
     world_step cfg u v \<and> w_busy u k = None \<and> w_busy v k = Some Entered \<and>
     (\<exists>i. live_job k (w_store u) = Some i \<and> deps_met (w_store u) i)"

lemma newly_busy:
  assumes "world_step cfg w v" "world_inv (e_conc (c_env cfg)) w"
    and "w_busy w k = None" "w_busy v k = Some b" "b \<noteq> Driving"
  shows "called_at cfg k w v"
proof -
  have step: "b = Entered \<and> (\<exists>i. live_job k (w_store w) = Some i \<and> deps_met (w_store w) i)"
    using assms(1)
  proof (cases rule: world_step.cases)
    case (enter c j s)
    then have "c = k" using assms(3,4) by (auto split: if_splits)
    with enter enter_good [OF assms(2)] assms(4) show ?thesis by auto
  qed (use assms(3-5) in \<open>auto simp: leave_def with_store_def split: if_splits\<close>)
  with assms show ?thesis by (simp add: called_at_def)
qed

lemma called:
  assumes "(world_step cfg)\<^sup>*\<^sup>* w0 w" "fresh_world w0"
    and "live_job k (w_store w) = Some j" "is_agent_child_kind (job_kind j)" "w_busy w k \<noteq> None"
  shows "\<exists>u v i. (world_step cfg)\<^sup>*\<^sup>* w0 u \<and> called_at cfg k u v \<and> (busy_step cfg k)\<^sup>*\<^sup>* v w \<and>
     live_job k (w_store u) = Some i \<and> job_kind i = job_kind j \<and> j_run_id i = j_run_id j"
  using assms(1,3-5)
proof (induction arbitrary: j rule: rtranclp_induct)
  case base
  then show ?case using assms(2) by (simp add: fresh_world_def)
next
  case (step y z)
  note inv = runs.reachable_inv [OF step.hyps(1) assms(2)]
  show ?case
  proof (cases "w_busy y k")
    case None
    obtain b where b: "w_busy z k = Some b" using step.prems(3) by blast
    have "b \<noteq> Driving"
      using jobs_inv_busy [OF world_invD(1) [OF world_step_inv [OF step.hyps(2) inv]] b] step.prems(1,2)
      by (auto simp: busy_ok_def)
    then have c: "called_at cfg k y z" by (rule newly_busy [OF step.hyps(2) inv None b])
    then obtain i where i: "live_job k (w_store y) = Some i" by (auto simp: called_at_def)
    then obtain j' where "live_job k (w_store z) = Some j'" "kept_job i j'"
      using steadyD [OF world_step_steady [OF step.hyps(2) inv]] by blast
    then have "job_kind i = job_kind j" "j_run_id i = j_run_id j"
      using step.prems(1,2) kept_agent [of i j] kept_agent_kind [of i j] by auto
    with c i step.hyps(1) show ?thesis by blast
  next
    case (Some b)
    then obtain i where i: "live_job k (w_store y) = Some i"
      using jobs_inv_busy [OF world_invD(1) [OF inv]] by blast
    then obtain j' where "live_job k (w_store z) = Some j'" "kept_job i j'"
      using steadyD [OF world_step_steady [OF step.hyps(2) inv]] by blast
    then have same: "is_agent_child_kind (job_kind i)" "job_kind i = job_kind j" "j_run_id i = j_run_id j"
      using step.prems(1,2) kept_agent [of i j] kept_agent_kind [of i j] by auto
    have "busy_step cfg k y z" using step.hyps(2) step.prems(3) by (simp add: busy_step_def)
    then show ?thesis
      using step.IH [OF i same(1)] Some same(2,3) by (metis option.distinct(1) rtranclp.rtrancl_into_rtrancl)
  qed
qed

text \<open>What may become of the life of a job that is over, without a retry.\<close>

lemma over_step:
  assumes "life_step ready (Over st, p) (l, q)" "p \<notin> {Taken, AtWork, Reporting}"
  shows "l = Over st"
  using assms by (cases rule: life_step.cases) auto

lemma phase_holds: "phase_of b \<in> {Taken, AtWork, Reporting} \<Longrightarrow> \<exists>c k. b = Some c \<and> holds_slot c = Some k"
  by (cases b rule: phase_of.cases) auto

lemma view_kept:
  assumes "live_job k (w_store w) = Some j" "is_agent_child_kind (job_kind j)"
  shows "sp_agents (spec_of w) k = Some \<lparr>av_kind = job_kind j, av_run = j_run_id j,
      av_life = life_of (j_status j), av_phase = phase_of (w_busy w k)\<rparr>"
  using assms by (simp add: spec_of_def view_of_def)

lemma orchestrator_step:
  assumes "fresh_world w0" "(world_step cfg)\<^sup>*\<^sup>* w0 w" "world_step cfg w v"
  shows "work_step (spec_of w) (spec_of v) \<or> (\<exists>k. retried_to cfg k w v \<and> retry_step k (spec_of w) (spec_of v))"
proof -
  note inv = runs.reachable_inv [OF assms(2,1)]
  show ?thesis
    using world_step_good [OF assms(3) inv] retried_to_good(2) [OF _ inv] unfolding good_step_def by blast
qed

subsection \<open>Properties of every reachable state\<close>


text \<open>
  C30: an agent works only after everything it waits for.  In every reachable state, a job a
  goroutine is processing was called in an earlier step, since when the goroutine is there, and at
  that step each kind the agent depends on had a child in the same run that was over, the prepare
  child with success.  (A retry of the dependency after the call does not stop the agent.)
\<close>

theorem agents_wait_for_dependencies:
  assumes "fresh_world w0" "(world_step cfg)\<^sup>*\<^sup>* w0 w"
    and "live_job k (w_store w) = Some j" "is_agent_child_kind (job_kind j)"
    and "w_busy w k \<noteq> None" "d \<in> set (agent_depends_on (job_kind j))"
  shows "\<exists>u v c i. (world_step cfg)\<^sup>*\<^sup>* w0 u \<and> world_step cfg u v \<and> w_busy u k = None \<and> w_busy v k = Some Entered \<and>
     (busy_step cfg k)\<^sup>*\<^sup>* v w \<and>
     c \<in> set (children_of (j_run_id j) (w_store u)) \<and> live_job c (w_store u) = Some i \<and>
     job_kind i = d \<and> job_terminal (j_status i) \<and> (d = KPrepare \<longrightarrow> job_succeeded (j_status i))"
proof -
  obtain u v e where u: "(world_step cfg)\<^sup>*\<^sup>* w0 u" "called_at cfg k u v" "(busy_step cfg k)\<^sup>*\<^sup>* v w"
    "live_job k (w_store u) = Some e" "job_kind e = job_kind j" "j_run_id e = j_run_id j"
    using called [OF assms(2,1,3-5)] by blast
  then have "deps_met (w_store u) e" by (auto simp: called_at_def)
  then obtain c i where "c \<in> set (children_of (j_run_id j) (w_store u))" "live_job c (w_store u) = Some i"
    "job_kind i = d" "dep_settled d (Some i)"
    using assms(6) u(5,6) unfolding deps_met_def dep_met_def by auto
  with u(1-3) show ?thesis by (auto simp: called_at_def dep_settled_def)
qed


text \<open>
  No slot is lost or taken twice.  In every reachable state, for each kind with slots of its
  own, a slot can be taken exactly when fewer goroutines hold one than the kind allows, which is
  between one and four, and a goroutine that holds a slot can give it back.
\<close>

theorem slots_match_workers:
  assumes "fresh_world w0" "(world_step cfg)\<^sup>*\<^sup>* w0 w" "has_kind_sem k"
  shows "card (workers (w_busy w) k) \<le> nat (kind_concurrency (e_conc (c_env cfg)) k) \<and>
    kind_concurrency (e_conc (c_env cfg)) k \<in> {1..4} \<and>
    (acquire_kind_slot (e_conc (c_env cfg)) k (w_sems w) = None \<longleftrightarrow>
       card (workers (w_busy w) k) = nat (kind_concurrency (e_conc (c_env cfg)) k)) \<and>
    (release_kind_slot k (w_sems w) = None \<longleftrightarrow> workers (w_busy w) k = {})"
proof -
  have inv: "slots_inv (e_conc (c_env cfg)) (w_busy w) (w_sems w)"
    using runs.reachable_inv [OF assms(2,1)] by (rule world_invD(2))
  then have held: "sem_held (w_sems w) k = int (card (workers (w_busy w) k))"
    "sem_held (w_sems w) k \<le> kind_concurrency (e_conc (c_env cfg)) k"
    using assms(3) unfolding slots_inv_def sems_ok_def by metis+
  have empty: "card (workers (w_busy w) k) = 0 \<longleftrightarrow> workers (w_busy w) k = {}"
    using finite_workers [OF inv] by (rule card_0_eq)
  show ?thesis
    using held assms(3) kind_concurrency_pos kind_concurrency_le
    unfolding acquire_kind_slot_def release_kind_slot_def empty [symmetric] by auto
qed

subsection \<open>A restart\<close>

text \<open>
  The recovery at boot queues again (or, in a stack, lets wait) exactly the jobs the last process
  left running; every other job keeps what it had, and the process starts from such a store.
\<close>

lemma recovery_starts_fresh:
  assumes "store_ok s"
  shows "fresh_world \<lparr>w_store = recover_stuck_running env s, w_busy = Map.empty, w_sems = sems_empty\<rparr> \<and>
    (\<forall>k j. live_job k s = Some j \<and> j_status j \<noteq> ''running'' \<longrightarrow>
       live_job k (recover_stuck_running env s) = Some j)"
  using recovery_leaves_none_running [OF assms, of env] by (auto simp: fresh_world_def)

subsection \<open>A sample history\<close>

text \<open>
  A run with a prepare and a security child: prepare is entered, started and finished, then
  security is entered.
\<close>

definition sample_cfg :: config where
  "sample_cfg = \<lparr>c_env = sample_env, c_ev = (\<lambda>_. JNull), c_pub = (\<lambda>_. PubNone), c_pull = (\<lambda>_. None)\<rparr>"

definition sample_child :: "string \<Rightarrow> string \<Rightarrow> scm_job" where
  "sample_child k kind = (sample_job k kind ''r1'' ''abc'' ''queued'')\<lparr>j_run_id := ''r1''\<rparr>"

definition history_store :: scm_state where
  "history_store =
     store_of [(''r1'', sample_job ''r1'' ''run'' [] ''abc'' ''running''),
       (''p'', sample_child ''p'' ''prepare''), (''s'', sample_child ''s'' ''security'')]"

definition world0 :: world where
  "world0 = \<lparr>w_store = history_store, w_busy = Map.empty, w_sems = sems_empty\<rparr>"

definition one_prepare :: kind_sems where
  "one_prepare = \<lparr>sem_held = (\<lambda>_. 0)(KPrepare := 1), sem_global = 0\<rparr>"

definition running_prepare :: scm_job where
  "running_prepare =
     stamp_summary ((sample_child ''p'' ''prepare'')\<lparr>j_status := ''running'', j_started := e_now sample_env\<rparr>)"

definition started_store :: scm_state where
  "started_store = start_child sample_env (sample_child ''p'' ''prepare'') history_store"

definition finished_store :: scm_state where
  "finished_store = report_child sample_env (\<lambda>_. JNull) None running_prepare started_store"

definition world1 :: world where
  "world1 = \<lparr>w_store = history_store, w_busy = [''p'' \<mapsto> Entered], w_sems = sems_empty\<rparr>"

definition world1a :: world where
  "world1a = \<lparr>w_store = history_store, w_busy = [''p'' \<mapsto> Starting KPrepare], w_sems = one_prepare\<rparr>"

definition world2 :: world where
  "world2 = \<lparr>w_store = started_store, w_busy = [''p'' \<mapsto> Working KPrepare], w_sems = one_prepare\<rparr>"

definition world2a :: world where
  "world2a = \<lparr>w_store = started_store, w_busy = [''p'' \<mapsto> Ending KPrepare None], w_sems = one_prepare\<rparr>"

definition world3 :: world where
  "world3 = \<lparr>w_store = finished_store, w_busy = Map.empty, w_sems = sems_empty\<rparr>"

definition world4 :: world where
  "world4 = \<lparr>w_store = finished_store, w_busy = [''s'' \<mapsto> Entered], w_sems = sems_empty\<rparr>"

lemma history_ok: "store_ok history_store"
  unfolding history_store_def by (rule store_ok_of) (simp_all add: sample_job_def sample_child_def)

lemma history_live:
  "live_job ''p'' history_store = Some (sample_child ''p'' ''prepare'')"
  "live_job ''s'' history_store = Some (sample_child ''s'' ''security'')"
  by (simp_all add: history_store_def store_of_def live_job_def)

lemma sample_child_fields [simp]:
  "j_id (sample_child k kind) = k" "j_status (sample_child k kind) = ''queued''"
  "job_kind (sample_child k kind) = kind_of kind" "j_run_id (sample_child k kind) = ''r1''"
  by (simp_all add: sample_child_def sample_job_def job_kind_def)

lemma fresh_world0: "fresh_world world0"
  using history_ok by (simp add: fresh_world_def world0_def)

lemma prepare_slot:
  "acquire_kind_slot None KPrepare sems_empty = Some one_prepare"
  "release_kind_slot KPrepare one_prepare = Some sems_empty"
  by (auto simp: fun_eq_iff acquire_kind_slot_def release_kind_slot_def sems_empty_def one_prepare_def
      has_kind_sem_def kind_concurrency_def)

lemma step01: "world_step sample_cfg world0 world1"
proof -
  have "world_step sample_cfg world0 (world0\<lparr>w_store := history_store, w_busy := (w_busy world0)(''p'' \<mapsto> Entered)\<rparr>)"
    by (rule world_step.enter [where j = "sample_child ''p'' ''prepare''"])
      (simp_all add: world0_def history_live agent_child_ready_def scm_job_processor_def is_agent_child_kind.simps)
  then show ?thesis by (simp add: world0_def world1_def)
qed

lemma step11a: "world_step sample_cfg world1 world1a"
proof -
  have "world_step sample_cfg world1
     (world1\<lparr>w_busy := (w_busy world1)(''p'' \<mapsto> Starting (job_kind (sample_child ''p'' ''prepare''))), w_sems := one_prepare\<rparr>)"
    by (rule world_step.start_check)
      (simp_all add: world1_def history_live sample_cfg_def sample_env_def prepare_slot child_over_def)
  then show ?thesis by (simp add: world1_def world1a_def)
qed

lemma step1a2: "world_step sample_cfg world1a world2"
proof -
  have "world_step sample_cfg world1a
     (world1a\<lparr>w_store := start_child (c_env sample_cfg) (sample_child ''p'' ''prepare'') (w_store world1a),
        w_busy := (w_busy world1a)(''p'' \<mapsto> Working KPrepare)\<rparr>)"
    by (rule world_step.start_write) (simp_all add: world1a_def history_live)
  then show ?thesis by (simp add: world1a_def world2_def sample_cfg_def started_store_def)
qed

lemma started_live: "live_job ''p'' started_store = Some running_prepare"
  by (simp add: started_store_def start_child_def live_job_persist running_prepare_def)

lemma running_prepare_fields:
  "j_status running_prepare = ''running''" "job_kind running_prepare = KPrepare" "j_id running_prepare = ''p''"
  by (simp_all add: running_prepare_def) (simp add: job_kind_def sample_child_def sample_job_def)

lemma step22a: "world_step sample_cfg world2 world2a"
proof -
  have "world_step sample_cfg world2 (world2\<lparr>w_busy := (w_busy world2)(''p'' \<mapsto> Ending KPrepare None)\<rparr>)"
    by (rule world_step.finish_check [where j = running_prepare]) (simp_all add: world2_def started_live running_prepare_fields)
  then show ?thesis by (simp add: world2_def world2a_def)
qed

lemma step2a3: "world_step sample_cfg world2a world3"
proof -
  have "world_step sample_cfg world2a
     (leave ''p'' (world2a\<lparr>w_store := report_child (c_env sample_cfg) (c_ev sample_cfg) None running_prepare (w_store world2a),
        w_sems := sems_empty\<rparr>))"
    by (rule world_step.finish_write [where kind = KPrepare]) (simp_all add: world2a_def started_live prepare_slot)
  then show ?thesis by (simp add: world2a_def world3_def sample_cfg_def finished_store_def leave_def)
qed

lemma started_ok: "store_ok started_store"
  using rewritten_start [OF history_ok history_live(1), of sample_env] steady_ok
  by (auto simp: rewritten_def started_store_def)

lemma finished_facts:
  "store_ok finished_store" "live_job ''s'' finished_store = Some (sample_child ''s'' ''security'')"
  "\<exists>i. live_job ''p'' finished_store = Some i \<and> j_status i = ''completed'' \<and> job_kind i = KPrepare"
proof -
  have rw: "rewritten ''p'' running_prepare {''completed''} started_store finished_store"
    using rewritten_report [OF started_ok started_live, of None sample_env "\<lambda>_. JNull"]
    by (simp add: finished_store_def running_prepare_fields)
  then have st: "steady started_store finished_store" by (simp add: rewritten_def)
  show "store_ok finished_store" using steady_ok [OF st] .
  show "live_job ''s'' finished_store = Some (sample_child ''s'' ''security'')"
    using rw by (simp add: rewritten_def) (simp add: started_store_def start_child_def live_job_persist history_live)
  obtain i where i: "live_job ''p'' finished_store = Some i" "kept_job running_prepare i"
    using steadyD [OF st started_live] by blast
  have "j_status i = ''completed''" using rw i(1) by (simp add: rewritten_def)
  moreover have "job_kind i = KPrepare"
    using kept_agent_kind [OF i(2)] by (simp add: running_prepare_fields is_agent_child_kind.simps)
  ultimately show "\<exists>i. live_job ''p'' finished_store = Some i \<and> j_status i = ''completed'' \<and> job_kind i = KPrepare"
    using i(1) by blast
qed

lemma step34: "world_step sample_cfg world3 world4"
proof -
  let ?s = "sample_child ''s'' ''security''"
  have "fst (agent_child_ready ?s finished_store)" by code_simp
  then obtain t where t: "agent_child_ready ?s finished_store = (True, t)" by (metis prod.collapse)
  moreover have "t = finished_store"
    using deps_ready_met [OF finished_facts(1)] t unfolding agent_child_ready_def by blast
  ultimately have "world_step sample_cfg world3
      (world3\<lparr>w_store := finished_store, w_busy := (w_busy world3)(''s'' \<mapsto> Entered)\<rparr>)"
    by (intro world_step.enter [where j = ?s])
      (simp_all add: world3_def finished_facts(2) scm_job_processor_def is_agent_child_kind.simps)
  then show ?thesis by (simp add: world3_def world4_def)
qed

lemma reach2a: "(world_step sample_cfg)\<^sup>*\<^sup>* world0 world2a"
  using step01 step11a step1a2 step22a by (meson rtranclp.rtrancl_into_rtrancl rtranclp.rtrancl_refl)

lemma reach3: "(world_step sample_cfg)\<^sup>*\<^sup>* world0 world3"
  using reach2a step2a3 by (rule rtranclp.rtrancl_into_rtrancl)

lemma reach4: "(world_step sample_cfg)\<^sup>*\<^sup>* world0 world4"
  using reach3 step34 by (rule rtranclp.rtrancl_into_rtrancl)


lemma agents_wait_for_dependencies_witness:
  "\<exists>u c i. (world_step sample_cfg)\<^sup>*\<^sup>* world0 u \<and> c \<in> set (children_of ''r1'' (w_store u)) \<and>
     live_job c (w_store u) = Some i \<and> job_kind i = KPrepare \<and> job_succeeded (j_status i)"
  using agents_wait_for_dependencies [OF fresh_world0 reach4, of "''s''" "sample_child ''s'' ''security''" KPrepare]
  by (auto simp: world4_def finished_facts(2) is_agent_child_kind.simps)


lemma slots_match_workers_witness:
  "release_kind_slot KPrepare (w_sems world2a) \<noteq> None \<and> acquire_kind_slot None KPrepare (w_sems world2a) \<noteq> None"
proof -
  have "workers (w_busy world2a) KPrepare = {''p''}" by (auto simp: workers_def world2a_def split: if_splits)
  then show ?thesis
    using slots_match_workers [OF fresh_world0 reach2a, of KPrepare]
    by (simp add: has_kind_sem_def sample_cfg_def sample_env_def kind_concurrency_def)
qed

end
