(* ===== verification/Secret_Store.thy ===== *)
theory Secret_Store
  imports Cred_Scope
begin

text \<open>
  Stored secrets and their resolution for a job (\<^verbatim>\<open>src/cred_secrets.go\<close>).  ClickHouse is the
  argument \<open>q\<close>: the newest rows stored under a key, \<^const>\<open>None\<close> without a client or on an error.
  The cipher is the pair \<open>enc\<close>, \<open>dec\<close>; \<open>dec\<close> is empty for what cannot be decrypted.
\<close>

subsection \<open>Rows\<close>

record secret_row =
  sr_key :: string
  sr_org :: string
  sr_proj :: string
  sr_scope :: string
  sr_user :: string
  sr_ct :: string
  sr_deleted :: bool

record secret_hit =
  sh_plain :: string
  sh_scope :: string
  sh_org :: string
  sh_proj :: string
  sh_user :: string

definition no_hit :: secret_hit where
  "no_hit = \<lparr>sh_plain = [], sh_scope = [], sh_org = [], sh_proj = [], sh_user = []\<rparr>"

datatype persist_error = LocalWritesBlocked | UserScopeNeedsUser | EncryptFailed

text \<open>\<^verbatim>\<open>persistSCMSecretScoped\<close>: the row written, \<^const>\<open>None\<close> without a writer.\<close>

definition persist_scm_secret_scoped ::
  "bool \<Rightarrow> bool \<Rightarrow> (string \<Rightarrow> string option) \<Rightarrow> string \<Rightarrow> string \<Rightarrow> string \<Rightarrow> string \<Rightarrow> string \<Rightarrow> string \<Rightarrow> bool
     \<Rightarrow> persist_error + secret_row option" where
  "persist_scm_secret_scoped blocked writer enc org proj scope user logical plain deleted =
     (if blocked then Inl LocalWritesBlocked
      else if \<not> writer then Inr None
      else
        let scope = infer_legacy_scope org scope
        in if scope = ''user'' \<and> trim_space user = [] then Inl UserScopeNeedsUser
           else
             let admin = (scope = ''admin'');
                 row = (\<lambda>ct. \<lparr>sr_key = scm_secret_storage_key logical scope user,
                         sr_org = (if admin then [] else org), sr_proj = (if admin then [] else proj),
                         sr_scope = scope, sr_user = (if admin then [] else user),
                         sr_ct = ct, sr_deleted = deleted\<rparr>)
             in if deleted \<or> plain = [] then Inr (Some (row []))
                else case enc plain of None \<Rightarrow> Inl EncryptFailed | Some ct \<Rightarrow> Inr (Some (row ct)))"

subsection \<open>One scope\<close>

definition row_scope :: "secret_row \<Rightarrow> string" where
  "row_scope row =
     infer_legacy_scope (sr_org row)
       (nz (sr_scope row) (fst (snd (parse_scm_secret_storage_key (sr_key row)))))"

definition row_user :: "secret_row \<Rightarrow> string" where
  "row_user row = nz (sr_user row) (snd (snd (parse_scm_secret_storage_key (sr_key row))))"

definition row_of_identity :: "string \<Rightarrow> string \<Rightarrow> string \<Rightarrow> string \<Rightarrow> string \<Rightarrow> secret_row \<Rightarrow> bool" where
  "row_of_identity org proj scope user logical row \<longleftrightarrow>
     (let l = fst (parse_scm_secret_storage_key (sr_key row)) in l = [] \<or> l = logical) \<and>
     row_scope row = scope \<and>
     (if scope = ''org'' then
        (org = [] \<or> sr_org row = [] \<or> sr_org row = org) \<and>
        (if proj \<noteq> [] then sr_proj row = [] \<or> sr_proj row = proj else sr_proj row = [])
      else if scope = ''user'' then
        (user = [] \<or> row_user row = [] \<or> row_user row = user) \<and>
        (org = [] \<or> sr_org row = [] \<or> sr_org row = org)
      else True)"

definition hit_of :: "(string \<Rightarrow> string) \<Rightarrow> secret_row \<Rightarrow> secret_hit" where
  "hit_of dec row =
     (if dec (sr_ct row) = [] then no_hit
      else \<lparr>sh_plain = dec (sr_ct row), sh_scope = row_scope row, sh_org = sr_org row,
             sh_proj = sr_proj row, sh_user = row_user row\<rparr>)"

text \<open>The newest row of the identity decides; a tombstone hides the older rows.\<close>

definition load_legacy_org_secret ::
  "(string \<Rightarrow> secret_row list option) \<Rightarrow> (string \<Rightarrow> string) \<Rightarrow> string \<Rightarrow> string \<Rightarrow> string \<Rightarrow> secret_hit" where
  "load_legacy_org_secret q dec org proj logical =
     (case q logical of
        None \<Rightarrow> no_hit
      | Some rows \<Rightarrow>
          (let pick = (\<lambda>want.
                 case List.find (\<lambda>row. row_scope row \<noteq> ''admin'' \<and> row_scope row \<noteq> ''user'' \<and>
                          \<not> contains (sr_key row) ''#admin'' \<and> \<not> contains (sr_key row) ''#user:'' \<and>
                          (org = [] \<or> sr_org row = [] \<or> sr_org row = org) \<and>
                          (want = [] \<or> sr_proj row = [] \<or> sr_proj row = want)) rows of
                   None \<Rightarrow> no_hit
                 | Some row \<Rightarrow>
                     (if sr_deleted row \<or> dec (sr_ct row) = [] then no_hit
                      else \<lparr>sh_plain = dec (sr_ct row), sh_scope = ''org'', sh_org = sr_org row,
                             sh_proj = sr_proj row, sh_user = []\<rparr>))
           in if org = [] then no_hit
              else if sh_plain (pick proj) \<noteq> [] then pick proj
              else if sh_plain (pick []) \<noteq> [] then pick []
              else no_hit))"

function load_scm_secret_at_scope ::
  "(string \<Rightarrow> secret_row list option) \<Rightarrow> (string \<Rightarrow> string) \<Rightarrow> string \<Rightarrow> string \<Rightarrow> string \<Rightarrow> string \<Rightarrow> string
     \<Rightarrow> secret_hit" where
  "load_scm_secret_at_scope q dec org proj scope user logical =
     (if logical = [] then no_hit
      else
        let sc = infer_legacy_scope org scope;
            rows = (case q (scm_secret_storage_key logical sc user) of None \<Rightarrow> [] | Some rows \<Rightarrow> rows)
        in if rows = [] then (if sc = ''org'' then load_legacy_org_secret q dec org proj logical else no_hit)
           else case List.find (row_of_identity org proj sc user logical) rows of
             Some row \<Rightarrow>
               (if \<not> sr_deleted row then hit_of dec row
                else if sc = ''org'' \<and> proj \<noteq> [] \<and> sr_proj row = proj
                then load_scm_secret_at_scope q dec org [] sc user logical else no_hit)
           | None \<Rightarrow>
               (if sc = ''org'' \<and> proj \<noteq> [] then load_scm_secret_at_scope q dec org [] sc user logical
                else no_hit))"
  by pat_completeness auto
termination
  by (relation "measure (\<lambda>(q, dec, org, proj, scope, user, logical). length proj)") auto

declare load_scm_secret_at_scope.simps [simp del]

subsection \<open>Inheritance\<close>

record cred_query =
  cq_org :: string
  cq_proj :: string
  cq_user :: string
  cq_admin_only :: bool

definition resolve_scm_secret ::
  "(string \<Rightarrow> secret_row list option) \<Rightarrow> (string \<Rightarrow> string) \<Rightarrow> cred_query \<Rightarrow> string \<Rightarrow> secret_hit" where
  "resolve_scm_secret q dec cq logical =
     (if cq_admin_only cq then load_scm_secret_at_scope q dec [] [] ''admin'' [] logical
      else
        let uid = trim_space (cq_user cq);
            own = (if uid = [] then no_hit
                   else load_scm_secret_at_scope q dec (cq_org cq) (cq_proj cq) ''user'' uid logical);
            org = trim_space (cq_org cq);
            shared = (if org = [] then no_hit
                      else load_scm_secret_at_scope q dec org (cq_proj cq) ''org'' [] logical)
        in if sh_plain own \<noteq> [] then own
           else if sh_plain shared \<noteq> [] then shared
           else no_hit)"

definition load_scm_secret_plain ::
  "(string \<Rightarrow> secret_row list option) \<Rightarrow> (string \<Rightarrow> string) \<Rightarrow> string \<Rightarrow> string \<Rightarrow> string \<Rightarrow> string \<Rightarrow> string" where
  "load_scm_secret_plain q dec org proj user logical =
     sh_plain (resolve_scm_secret q dec \<lparr>cq_org = org, cq_proj = proj, cq_user = user, cq_admin_only = False\<rparr> logical)"


subsection \<open>Isolation\<close>

lemma find_some: "List.find P xs = Some x \<Longrightarrow> x \<in> set xs \<and> P x"
  by (induction xs) (auto split: if_splits)

text \<open>\<open>served\<close>: the row a hit was read from, under some key.\<close>

definition served ::
  "(string \<Rightarrow> secret_row list option) \<Rightarrow> (string \<Rightarrow> string) \<Rightarrow> secret_hit \<Rightarrow> secret_row \<Rightarrow> bool" where
  "served q dec h row \<longleftrightarrow>
     (\<exists>key rows. q key = Some rows \<and> row \<in> set rows) \<and> \<not> sr_deleted row \<and> sh_plain h = dec (sr_ct row)"

definition in_tenant :: "string \<Rightarrow> string \<Rightarrow> string \<Rightarrow> secret_row \<Rightarrow> bool" where
  "in_tenant org scope user row \<longleftrightarrow>
     row_scope row = scope \<and>
     (scope = ''admin'' \<or> org = [] \<or> sr_org row = [] \<or> sr_org row = org) \<and>
     (scope = ''user'' \<and> user \<noteq> [] \<longrightarrow> row_user row = [] \<or> row_user row = user)"

lemma row_scope_cases: "row_scope row = ''admin'' \<or> row_scope row = ''org'' \<or> row_scope row = ''user''"
  using infer_scope_cases by (simp add: row_scope_def)

lemma identity_in_tenant: "row_of_identity org proj scope user logical row \<Longrightarrow> in_tenant org scope user row"
  using row_scope_cases [of row] by (auto simp: row_of_identity_def in_tenant_def split: if_splits)

lemma legacy_in_tenant:
  assumes "sh_plain (load_legacy_org_secret q dec org proj logical) \<noteq> []"
  shows "\<exists>row. served q dec (load_legacy_org_secret q dec org proj logical) row \<and> in_tenant org ''org'' user row"
proof -
  obtain rows where q: "q logical = Some rows"
    using assms by (cases "q logical") (auto simp: load_legacy_org_secret_def no_hit_def)
  let ?P = "\<lambda>want row. row_scope row \<noteq> ''admin'' \<and> row_scope row \<noteq> ''user'' \<and>
        \<not> contains (sr_key row) ''#admin'' \<and> \<not> contains (sr_key row) ''#user:'' \<and>
        (org = [] \<or> sr_org row = [] \<or> sr_org row = org) \<and> (want = [] \<or> sr_proj row = [] \<or> sr_proj row = want)"
  define pick where "pick = (\<lambda>want. case List.find (?P want) rows of None \<Rightarrow> no_hit
     | Some row \<Rightarrow> (if sr_deleted row \<or> dec (sr_ct row) = [] then no_hit
          else \<lparr>sh_plain = dec (sr_ct row), sh_scope = ''org'', sh_org = sr_org row, sh_proj = sr_proj row, sh_user = []\<rparr>))"
  have "load_legacy_org_secret q dec org proj logical =
      (if org = [] then no_hit else if sh_plain (pick proj) \<noteq> [] then pick proj
       else if sh_plain (pick []) \<noteq> [] then pick [] else no_hit)"
    unfolding load_legacy_org_secret_def q pick_def by (simp add: Let_def)
  then obtain want where w: "load_legacy_org_secret q dec org proj logical = pick want" "sh_plain (pick want) \<noteq> []"
    using assms by (auto simp: no_hit_def split: if_splits)
  then obtain row where f: "List.find (?P want) rows = Some row" "\<not> sr_deleted row"
    "sh_plain (load_legacy_org_secret q dec org proj logical) = dec (sr_ct row)"
    unfolding pick_def by (auto simp: no_hit_def split: if_splits option.splits)
  have m: "row \<in> set rows" "?P want row" using find_some [OF f(1)] by simp_all
  have "row_scope row = ''org''" using m(2) row_scope_cases [of row] by simp
  with m(2) have "in_tenant org ''org'' user row" by (auto simp: in_tenant_def)
  moreover have "served q dec (load_legacy_org_secret q dec org proj logical) row"
    using q m(1) f(2,3) unfolding served_def by blast
  ultimately show ?thesis by blast
qed

lemma load_in_tenant:
  "sh_plain (load_scm_secret_at_scope q dec org proj scope user logical) \<noteq> [] \<Longrightarrow>
   \<exists>row. served q dec (load_scm_secret_at_scope q dec org proj scope user logical) row \<and>
         in_tenant org (infer_legacy_scope org scope) user row"
proof (induction q dec org proj scope user logical rule: load_scm_secret_at_scope.induct)
  case (1 q dec org proj scope user logical)
  let ?sc = "infer_legacy_scope org scope"
  let ?rows = "case q (scm_secret_storage_key logical ?sc user) of None \<Rightarrow> [] | Some rows \<Rightarrow> rows"
  let ?load = "load_scm_secret_at_scope q dec org proj scope user logical"
  let ?wide = "load_scm_secret_at_scope q dec org [] ?sc user logical"
  have l: "logical \<noteq> []" using 1(3) by (auto simp: load_scm_secret_at_scope.simps no_hit_def)
  note unf = load_scm_secret_at_scope.simps [of q dec org proj scope user logical]
  show ?case
  proof (cases "?rows = []")
    case True
    then show ?thesis using 1(3) l legacy_in_tenant [of q dec org proj logical user]
      by (auto simp: unf Let_def no_hit_def split: if_splits)
  next
    case False
    show ?thesis
    proof (cases "List.find (row_of_identity org proj ?sc user logical) ?rows")
      case None
      then have "?load = ?wide" "?sc = ''org''" "proj \<noteq> []"
        using 1(3) False l by (auto simp: unf Let_def no_hit_def split: if_splits)
      then show ?thesis using 1(1) [OF l refl refl False None] 1(3) by simp
    next
      case (Some row)
      note row = find_some [OF Some]
      show ?thesis
      proof (cases "sr_deleted row")
        case True
        then have "?load = ?wide" "?sc = ''org'' \<and> proj \<noteq> [] \<and> sr_proj row = proj"
          using 1(3) False l Some by (auto simp: unf Let_def no_hit_def split: if_splits)
        then show ?thesis using 1(2) [OF l refl refl False Some] True 1(3) by simp
      next
        case False
        then have "?load = hit_of dec row" using \<open>?rows \<noteq> []\<close> l Some by (simp add: unf Let_def)
        moreover from this have "sh_plain ?load = dec (sr_ct row)" using 1(3) by (auto simp: hit_of_def no_hit_def)
        moreover have "\<exists>key rows. q key = Some rows \<and> row \<in> set rows"
          using row \<open>?rows \<noteq> []\<close> by (auto split: option.splits)
        moreover have "in_tenant org ?sc user row" using identity_in_tenant row by blast
        ultimately show ?thesis using False unfolding served_def by metis
      qed
    qed
  qed
qed

lemma resolve_in_tenant:
  assumes "\<not> cq_admin_only cq" "sh_plain (resolve_scm_secret q dec cq logical) \<noteq> []"
  shows "\<exists>row. served q dec (resolve_scm_secret q dec cq logical) row \<and>
    ((row_scope row = ''user'' \<and> trim_space (cq_user cq) \<noteq> [] \<and>
        (row_user row = [] \<or> row_user row = trim_space (cq_user cq)) \<and>
        (cq_org cq = [] \<or> sr_org row = [] \<or> sr_org row = cq_org cq)) \<or>
     (row_scope row = ''org'' \<and> trim_space (cq_org cq) \<noteq> [] \<and>
        (sr_org row = [] \<or> sr_org row = trim_space (cq_org cq))))"
proof -
  let ?own = "load_scm_secret_at_scope q dec (cq_org cq) (cq_proj cq) ''user'' (trim_space (cq_user cq)) logical"
  let ?shared = "load_scm_secret_at_scope q dec (trim_space (cq_org cq)) (cq_proj cq) ''org'' [] logical"
  consider (own) "resolve_scm_secret q dec cq logical = ?own" "trim_space (cq_user cq) \<noteq> []" "sh_plain ?own \<noteq> []"
    | (shared) "resolve_scm_secret q dec cq logical = ?shared" "trim_space (cq_org cq) \<noteq> []" "sh_plain ?shared \<noteq> []"
    using assms by (auto simp: resolve_scm_secret_def Let_def no_hit_def split: if_splits)
  then show ?thesis
  proof cases
    case own
    with load_in_tenant [OF own(3)] show ?thesis unfolding infer_scope_consts in_tenant_def by fastforce
  next
    case shared
    with load_in_tenant [OF shared(3)] show ?thesis unfolding infer_scope_consts in_tenant_def by fastforce
  qed
qed


subsection \<open>Writing and reading back\<close>

definition table_query :: "secret_row list \<Rightarrow> string \<Rightarrow> secret_row list option" where
  "table_query rows key = Some (take 30 (filter (\<lambda>r. sr_key r = key) rows))"

definition logical_key_ok :: "string \<Rightarrow> bool" where
  "logical_key_ok k \<longleftrightarrow> CHR ''#'' \<notin> set k \<and> trim_space k = k \<and> k \<noteq> []"

lemma nz_same: "nz s s = s"
  by (simp add: nz_def)

lemma own_row_identity:
  assumes k: "logical_key_ok logical" and sc: "sc = infer_legacy_scope org scope"
    and user: "sc = ''user'' \<Longrightarrow> trim_space user = user \<and> user \<noteq> []"
  shows "row_of_identity org proj sc user logical
     \<lparr>sr_key = scm_secret_storage_key logical sc user, sr_org = (if sc = ''admin'' then [] else org),
      sr_proj = (if sc = ''admin'' then [] else proj), sr_scope = sc,
      sr_user = (if sc = ''admin'' then [] else user), sr_ct = ct, sr_deleted = del\<rparr>"
proof -
  have key: "fst (parse_scm_secret_storage_key (scm_secret_storage_key logical sc user)) = logical"
  proof -
    have h: "CHR ''#'' \<notin> set logical" "trim_space logical = logical" "logical \<noteq> []"
      using k by (simp_all add: logical_key_ok_def)
    have ann: "trim_space ''u'' = ''u''" by code_simp
    have "scm_secret_storage_key logical ''admin'' user = scm_secret_storage_key logical ''admin'' ''u''"
      "scm_secret_storage_key logical ''org'' user = scm_secret_storage_key logical ''org'' ''u''"
      by (simp_all add: scm_secret_storage_key_def infer_legacy_scope_def)
    then show ?thesis
      using infer_scope_cases [of org scope] user sc storage_key_parts [OF h] storage_key_parts [OF h ann]
      by auto
  qed
  have "trim_space sc \<noteq> []" using infer_scope_cases [of org scope] sc by auto
  then have "nz sc x = sc" for x by (simp add: nz_def)
  moreover have "infer_legacy_scope o' sc = sc" for o' by (simp add: sc)
  ultimately have s: "row_scope \<lparr>sr_key = key, sr_org = o', sr_proj = p', sr_scope = sc, sr_user = u', sr_ct = ct, sr_deleted = del\<rparr> = sc"
    for key o' p' u' by (simp add: row_scope_def)
  have "row_user \<lparr>sr_key = key, sr_org = o', sr_proj = p', sr_scope = sc, sr_user = user, sr_ct = ct, sr_deleted = del\<rparr> = user"
    if "sc = ''user''" for key o' p'
    using user [OF that] by (simp add: row_user_def nz_def)
  then show ?thesis using key s by (simp add: row_of_identity_def)
qed

text \<open>
  A secret written is the secret read.  After \<^verbatim>\<open>persistSCMSecretScoped\<close> the lookup at the
  same organisation, project, scope, user and key gives the plain text back, whatever was stored
  before; after a deletion a lookup without a project gives nothing, so older rows stay hidden.
\<close>

theorem secret_put_then_load:
  assumes cipher: "\<forall>p ct. enc p = Some ct \<longrightarrow> dec ct = p" "dec [] = []"
    and key: "logical_key_ok logical"
    and user: "infer_legacy_scope org scope = ''user'' \<Longrightarrow> trim_space user = user"
    and put: "persist_scm_secret_scoped False True enc org proj scope user logical plain deleted = Inr (Some row)"
    and mode: "if deleted then proj = [] else plain \<noteq> []"
  shows "sh_plain (load_scm_secret_at_scope (table_query (row # older)) dec org proj scope user logical) =
     (if deleted then [] else plain)"
proof -
  let ?sc = "infer_legacy_scope org scope"
  have u: "?sc = ''user'' \<Longrightarrow> trim_space user = user \<and> user \<noteq> []"
    using put user by (auto simp: persist_scm_secret_scoped_def Let_def split: if_splits)
  obtain ct where row: "row = \<lparr>sr_key = scm_secret_storage_key logical ?sc user,
      sr_org = (if ?sc = ''admin'' then [] else org), sr_proj = (if ?sc = ''admin'' then [] else proj),
      sr_scope = ?sc, sr_user = (if ?sc = ''admin'' then [] else user), sr_ct = ct, sr_deleted = deleted\<rparr>"
    and ct: "\<not> deleted \<Longrightarrow> dec ct = plain"
    using put cipher mode by (auto simp: persist_scm_secret_scoped_def Let_def split: if_splits option.splits)
  have id: "row_of_identity org proj ?sc user logical row"
    unfolding row by (rule own_row_identity [OF key refl u])
  have q: "table_query (row # older) (scm_secret_storage_key logical ?sc user) =
      Some (row # take 29 (filter (\<lambda>r. sr_key r = scm_secret_storage_key logical ?sc user) older))"
    by (simp add: table_query_def row)
  have l: "logical \<noteq> []" using key by (simp add: logical_key_ok_def)
  show ?thesis
    using id l mode ct
    by (simp add: load_scm_secret_at_scope.simps q) (simp add: row hit_of_def no_hit_def)
qed


subsection \<open>Samples\<close>

text \<open>A cipher that prepends a mark, and a table with one secret of each of two organisations.\<close>

definition sample_enc :: "string \<Rightarrow> string option" where
  "sample_enc p = Some (CHR ''!'' # p)"

definition sample_dec :: "string \<Rightarrow> string" where
  "sample_dec ct = (case ct of [] \<Rightarrow> [] | _ # p \<Rightarrow> p)"

definition sample_secret :: "string \<Rightarrow> string \<Rightarrow> secret_row" where
  "sample_secret org ct =
     \<lparr>sr_key = ''cursor'', sr_org = org, sr_proj = [], sr_scope = ''org'', sr_user = [], sr_ct = ct, sr_deleted = False\<rparr>"


lemma secret_put_then_load_witness:
  "\<exists>row. persist_scm_secret_scoped False True sample_enc ''acme'' ''p'' ''user'' ''ann'' ''cursor'' ''k'' False = Inr (Some row) \<and>
     sh_plain (load_scm_secret_at_scope (table_query [row]) sample_dec ''acme'' ''p'' ''user'' ''ann'' ''cursor'') = ''k''"
proof -
  have ann: "trim_space ''ann'' = ''ann''" and key: "logical_key_ok ''cursor''" by code_simp+
  obtain row where put: "persist_scm_secret_scoped False True sample_enc ''acme'' ''p'' ''user'' ''ann'' ''cursor'' ''k'' False = Inr (Some row)"
    using ann by (simp add: persist_scm_secret_scoped_def sample_enc_def Let_def)
  have c: "\<forall>p ct. sample_enc p = Some ct \<longrightarrow> sample_dec ct = p" "sample_dec [] = []"
    by (auto simp: sample_enc_def sample_dec_def)
  from secret_put_then_load [OF c key ann put, of "[]"] put show ?thesis by simp
qed

end
