(* ===== verification/Docker_Laws.thy ===== *)
theory Docker_Laws
  imports Docker_Argv
begin

text \<open>
  What the job sandbox is started with: every command line the builder lets out drops all
  capabilities, runs unprivileged on a read-only root, and binds nothing the gate refuses; and the
  directory bound for a job lies below that job's own root.
\<close>

subsection \<open>The shape of a command line\<close>

text \<open>
  A command line of \<^verbatim>\<open>run\<close> as the builder lays it out: options, each with its value in the next
  argument or none, then the image, then the command.
\<close>

type_synonym box_opts = "(string \<times> string option) list"

definition option_args :: "box_opts \<Rightarrow> string list" where
  "option_args opts = concat (map (\<lambda>(f, v). f # (case v of None \<Rightarrow> [] | Some x \<Rightarrow> [x])) opts)"

definition command_line :: "box_opts \<Rightarrow> string \<Rightarrow> string list \<Rightarrow> string list" where
  "command_line opts img command = ''run'' # option_args opts @ img # command"

definition value_flags :: "string list" where
  "value_flags =
     [''--name'', ''--label'', ''--user'', ''--cap-drop'', ''--security-opt'', ''--tmpfs'', ''--pids-limit'', ''--memory'',
      ''--memory-swap'', ''--cpus'', ''--ulimit'', ''--stop-timeout'', ''--network'', ''-v'', ''-w'', ''--env-file'']"

definition switches :: "string list" where
  "switches = [''-d'', ''--rm'', ''--read-only'']"

text \<open>Only the flags of the two lists, each with or without a value as its list says.\<close>

definition plain_opts :: "box_opts \<Rightarrow> bool" where
  "plain_opts opts \<longleftrightarrow> list_all (\<lambda>(f, v). if v = None then f \<in> set switches else f \<in> set value_flags) opts"

definition valued :: "string \<Rightarrow> string \<Rightarrow> string \<times> string option" where
  "valued f v = (f, Some v)"

definition switch :: "string \<Rightarrow> string \<times> string option" where
  "switch f = (f, None)"

lemma option_args_simps [simp]:
  "option_args [] = []" "option_args (valued f v # os) = f # v # option_args os"
  "option_args (switch f # os) = f # option_args os" "option_args (os @ ps) = option_args os @ option_args ps"
  by (simp_all add: option_args_def valued_def switch_def)

lemma option_args_values [simp]: "option_args (map (valued f) vs) = flag_value f vs"
  by (induction vs) (simp_all add: flag_value_def)

definition hardening_opts :: "docker_spec \<Rightarrow> box_opts" where
  "hardening_opts spec =
     [valued ''--user'' ''65532:65532'', valued ''--cap-drop'' ''ALL'', valued ''--security-opt'' ''no-new-privileges'',
      switch ''--read-only'',
      valued ''--tmpfs'' ''/tmp:rw,exec,nosuid,nodev,uid=65532,gid=65532,mode=1777,size=1g'',
      valued ''--tmpfs'' ''/home/opa:rw,exec,nosuid,nodev,uid=65532,gid=65532,mode=1777,size=256m'',
      valued ''--pids-limit'' (show_int (if ds_pids spec \<le> 0 then 512 else ds_pids spec)),
      valued ''--memory'' (nz (ds_memory spec) ''4g''), valued ''--memory-swap'' (nz (ds_memory spec) ''4g''),
      valued ''--cpus'' (nz (ds_cpus spec) ''2''), valued ''--ulimit'' ''nofile=8192:8192'', valued ''--ulimit'' ''core=0'',
      valued ''--stop-timeout'' ''5'']"

lemma hardening_args: "option_args (hardening_opts spec) = hardening spec"
  by (simp add: hardening_opts_def hardening_def)

definition argv_opts :: "genv \<Rightarrow> string option \<Rightarrow> docker_spec \<Rightarrow> box_opts" where
  "argv_opts getenv hostname spec =
     [switch (if ds_rm spec then ''--rm'' else ''-d''),
      valued ''--name'' (if trim_space (ds_name spec) = [] then ''opa-job-'' @ sanitize_docker_name (ds_job spec)
                 else trim_space (ds_name spec))] @
     map (valued ''--label'') (identity_labels getenv hostname spec) @ hardening_opts spec @
     map (valued ''--label'') (extra_labels spec) @ [valued ''--network'' (network_of spec)] @
     map (valued ''-v'') (work_binds spec) @ [valued ''-w'' (container_work spec @ ''/'' @ work_rel (ds_rel spec))] @
     map (valued ''-v'') (extra_binds spec) @
     (if trim_space (ds_env_file spec) \<noteq> [] then [valued ''--env-file'' (trim_space (ds_env_file spec))] else [])"

definition box_command :: "docker_spec \<Rightarrow> string list" where
  "box_command spec = (if ds_command spec \<noteq> [] then ds_command spec else [''sleep'', ''infinity''])"

lemma assembled_line:
  "assemble_argv getenv hostname spec = command_line (argv_opts getenv hostname spec) (ds_image spec) (box_command spec)"
  by (simp add: assemble_argv_def command_line_def argv_opts_def box_command_def hardening_args)

lemma argv_opts_plain: "plain_opts (argv_opts getenv hostname spec)"
  by (simp add: plain_opts_def argv_opts_def hardening_opts_def valued_def switch_def switches_def value_flags_def list_all_iff)
    auto

lemma argv_opts_binds:
  "(''-v'', Some b) \<in> set (argv_opts getenv hostname spec) \<Longrightarrow> b \<in> set (work_binds spec @ extra_binds spec)"
  by (auto simp: argv_opts_def hardening_opts_def valued_def switch_def split: if_splits)

subsection \<open>Safe binds\<close>

lemma scan_suffix: "scan_argv (xs @ ys) = None \<Longrightarrow> scan_argv ys = None"
  by (induction xs) (auto split: option.splits)

lemma scan_bind:
  assumes "scan_argv (xs @ ''-v'' # b # ys) = None" "\<not> has_prefix b ''-''"
  shows "deny_dangerous_mount b = None"
  using scan_suffix [OF assms(1)] assms(2) by (simp add: token_denied_def split: option.splits)

lemma scan_binds:
  "scan_argv (flag_value ''-v'' bs @ ys) = None \<Longrightarrow> list_all (\<lambda>b. \<not> has_prefix b ''-'') bs \<Longrightarrow>
   list_all (\<lambda>b. deny_dangerous_mount b = None) bs"
proof (induction bs)
  case (Cons b bs)
  have "scan_argv ([''-v'', b] @ flag_value ''-v'' bs @ ys) = None"
    using Cons.prems(1) by (simp add: flag_value_def)
  with scan_suffix [OF this] Cons scan_bind [of "[]" b] show ?case by simp
qed simp

lemma abs_no_dash: "is_abs p \<Longrightarrow> \<not> has_prefix (p @ q) ''-''"
  by (cases p) (auto simp: is_abs_def)

lemma is_abs_clean: "is_abs p \<Longrightarrow> is_abs (path_clean p)"
  by (simp add: path_clean_abs)

lemma is_abs_upto:
  assumes "is_abs p"
  shows "is_abs (upto_last_slash p)"
proof -
  obtain t where p: "p = CHR ''/'' # t" using assms by (auto simp: is_abs_def has_prefix_iff)
  have "upto_last_slash p = CHR ''/'' # upto_last_slash t \<or> upto_last_slash p = [CHR ''/'']"
    by (cases "CHR ''/'' \<in> set t") (auto simp: p upto_last_slash_def dropWhile_append)
  then show ?thesis by (auto simp: is_abs_def)
qed

lemma is_abs_dir: "is_abs p \<Longrightarrow> is_abs (path_dir p)"
  by (simp add: path_dir_def is_abs_clean is_abs_upto)

lemma bind_source_abs: "is_abs (path_clean (ds_work spec)) \<Longrightarrow> is_abs (bind_source spec)"
  by (simp add: bind_source_def Let_def is_abs_dir)

lemma primary_source_abs:
  assumes "is_abs (bind_source spec)"
  shows "is_abs (primary_source spec)"
proof -
  obtain t where "bind_source spec = CHR ''/'' # t" using assms by (auto simp: is_abs_def has_prefix_iff)
  then show ?thesis by (simp add: primary_source_def path_join_def is_abs_clean)
qed

lemma work_binds_no_dash:
  assumes "is_abs (path_clean (ds_work spec))"
  shows "list_all (\<lambda>b. \<not> has_prefix b ''-'') (work_binds spec)"
  using abs_no_dash [OF bind_source_abs [OF assms]] abs_no_dash [OF primary_source_abs [OF bind_source_abs [OF assms]]]
  by (simp add: work_binds_def)

lemma find_None: "List.find P xs = None \<longleftrightarrow> list_all (\<lambda>x. \<not> P x) xs"
  by (induction xs) auto

lemma built:
  assumes "build_docker_run_argv getenv hostname is_dir spec = Inr argv"
  shows "argv = assemble_argv getenv hostname spec" "is_abs (path_clean (ds_work spec))"
    "validate_docker_run_argv argv = None" "list_all (\<lambda>b. deny_dangerous_mount b = None) (extra_binds spec)"
  using assms by (auto simp: build_docker_run_argv_def Let_def find_None split: if_splits option.splits)

lemma built_binds:
  assumes "build_docker_run_argv getenv hostname is_dir spec = Inr argv"
  shows "list_all (\<lambda>b. deny_dangerous_mount b = None) (work_binds spec @ extra_binds spec)"
proof -
  note b = built [OF assms]
  have "scan_argv argv = None" using b(3) by (simp add: validate_docker_run_argv_def split: option.splits)
  then have "\<exists>xs ys. scan_argv (xs @ flag_value ''-v'' (work_binds spec) @ ys) = None"
    unfolding b(1) assemble_argv_def by (metis append_assoc)
  then have "list_all (\<lambda>b. deny_dangerous_mount b = None) (work_binds spec)"
    using scan_suffix scan_binds work_binds_no_dash [OF b(2)] by blast
  with b(4) show ?thesis by simp
qed


subsection \<open>Paths below a root\<close>

lemma split_on_append: "split_on d (a @ d # t) = split_on d a @ split_on d t"
proof (induction a)
  case (Cons c a)
  obtain w ws where "split_on d a = w # ws" by (cases "split_on d a") auto
  with Cons show ?case by auto
qed simp

lemma plain_no_slash: "\<forall>s \<in> set segs. plain_seg s \<Longrightarrow> \<forall>s \<in> set segs. CHR ''/'' \<notin> set s"
  by (auto simp: plain_seg_def)

lemma segs_of_join: "\<forall>s \<in> set segs. plain_seg s \<Longrightarrow> segs \<noteq> [] \<Longrightarrow> split_on CHR ''/'' (join ''/'' segs) = segs"
  by (rule split_on_join) (auto simp: plain_seg_def)

lemma join_append: "xs \<noteq> [] \<Longrightarrow> ys \<noteq> [] \<Longrightarrow> join d (xs @ ys) = join d xs @ d @ join d ys"
proof (induction xs)
  case (Cons x xs)
  obtain y zs where "ys = y # zs" using Cons.prems by (cases ys) auto
  with Cons show ?case by (cases xs) auto
qed simp

lemma segs_prefix:
  assumes "\<forall>s \<in> set a. plain_seg s" "\<forall>s \<in> set b. plain_seg s" "a \<noteq> []"
  shows "has_prefix (''/'' @ join ''/'' b) ((''/'' @ join ''/'' a) @ ''/'') \<longleftrightarrow> (\<exists>c. c \<noteq> [] \<and> b = a @ c)"
proof
  assume "has_prefix (''/'' @ join ''/'' b) ((''/'' @ join ''/'' a) @ ''/'')"
  then obtain t where t: "join ''/'' b = join ''/'' a @ CHR ''/'' # t" by (auto simp: has_prefix_iff)
  then have "b \<noteq> []" by auto
  have "split_on CHR ''/'' (join ''/'' b) = split_on CHR ''/'' (join ''/'' a) @ split_on CHR ''/'' t"
    unfolding t by (rule split_on_append)
  then have "b = a @ split_on CHR ''/'' t"
    using segs_of_join [OF assms(2) \<open>b \<noteq> []\<close>] segs_of_join [OF assms(1,3)] by metis
  then show "\<exists>c. c \<noteq> [] \<and> b = a @ c" by (intro exI [of _ "split_on CHR ''/'' t"]) simp
next
  assume "\<exists>c. c \<noteq> [] \<and> b = a @ c"
  then show "has_prefix (''/'' @ join ''/'' b) ((''/'' @ join ''/'' a) @ ''/'')"
  proof (elim exE conjE)
    fix c assume "c \<noteq> []" "b = a @ c"
    then have "''/'' @ join ''/'' b = ((''/'' @ join ''/'' a) @ ''/'') @ join ''/'' c"
      by (simp add: join_append [OF assms(3)])
    then show ?thesis by (simp only: has_prefix_append)
  qed
qed

definition word_seg :: "string \<Rightarrow> bool" where
  "word_seg s \<longleftrightarrow> s \<noteq> [] \<and> CHR ''/'' \<notin> set s"

lemma push_seg_word: "list_all word_seg st \<Longrightarrow> CHR ''/'' \<notin> set a \<Longrightarrow> list_all word_seg (push_seg r a st)"
  by (cases st) (simp_all add: push_seg_def word_seg_def)

lemma fold_push_word:
  "list_all (\<lambda>s. CHR ''/'' \<notin> set s) segs \<Longrightarrow> list_all word_seg st \<Longrightarrow> list_all word_seg (fold (push_seg r) segs st)"
  by (induction segs arbitrary: st) (simp_all add: push_seg_word)

lemma clean_segs_word: "list_all word_seg (clean_segs p)"
proof -
  have "list_all (\<lambda>s. CHR ''/'' \<notin> set s) (split_on CHR ''/'' p)"
    using split_on_no_sep by (auto simp: list_all_iff)
  from fold_push_word [OF this, of "[]" "is_abs p"] show ?thesis by (simp add: clean_segs_def)
qed

lemma join_word_relative: "list_all word_seg segs \<Longrightarrow> \<not> is_abs (join ''/'' segs)"
proof (cases segs)
  case (Cons x xs)
  assume "list_all word_seg segs"
  then obtain a q where "x = a # q" "a \<noteq> CHR ''/''" by (cases x) (auto simp: Cons word_seg_def)
  then show ?thesis by (cases xs) (simp_all add: Cons is_abs_def)
qed (simp add: is_abs_def)

lemma clean_relative: "\<not> is_abs r \<Longrightarrow> \<not> is_abs (path_clean r)"
  using join_word_relative [OF clean_segs_word, of r] by (simp add: path_clean_def Let_def) (simp add: is_abs_def)

lemma path_under_segs:
  assumes "is_abs p" "path_under p r"
  shows "is_abs r \<and> (\<exists>c. clean_segs p = clean_segs r @ c) \<and> (clean_segs r = [] \<longrightarrow> clean_segs p = [])"
proof -
  have "is_abs (path_clean r)"
  proof (rule ccontr)
    assume no: "\<not> is_abs (path_clean r)"
    then have "path_clean r \<noteq> path_clean p" using is_abs_clean [OF assms(1)] by auto
    then obtain t where t: "path_clean p = path_clean r @ CHR ''/'' # t"
      using assms(2) by (auto simp: path_under_def has_prefix_iff Let_def)
    have "path_clean r \<noteq> []" by (simp add: path_clean_def Let_def)
    then obtain a q where "path_clean r = a # q" by (cases "path_clean r") auto
    with is_abs_clean [OF assms(1)] no t show False by (simp add: is_abs_def)
  qed
  then have r: "is_abs r" using clean_relative by blast
  note pp = clean_segs_plain [OF assms(1)] and pr = clean_segs_plain [OF r]
  have *: "path_clean p = path_clean r \<or> has_prefix (path_clean p) (path_clean r @ ''/'')"
    using assms(2) by (simp add: path_under_def Let_def)
  show ?thesis
  proof (cases "path_clean p = path_clean r")
    case True
    then have "clean_segs p = clean_segs r" by (metis assms(1) r clean_segs_clean)
    with r show ?thesis by simp
  next
    case False
    with * have h: "has_prefix (''/'' @ join ''/'' (clean_segs p)) ((''/'' @ join ''/'' (clean_segs r)) @ ''/'')"
      by (simp add: path_clean_abs assms(1) r)
    show ?thesis
    proof (cases "clean_segs r = []")
      case True
      with h obtain t where t: "join ''/'' (clean_segs p) = CHR ''/'' # t" by (auto simp: has_prefix_iff)
      then have "is_abs (join ''/'' (clean_segs p))" by simp
      then have False using join_word_relative [OF clean_segs_word] by blast
      then show ?thesis ..
    next
      case False
      with h segs_prefix [OF pr pp] r show ?thesis by auto
    qed
  qed
qed

lemma path_underI:
  assumes "is_abs p" "is_abs r" "clean_segs p = clean_segs r @ c" "clean_segs r \<noteq> []"
  shows "path_under p r"
proof (cases "c = []")
  case True
  with assms show ?thesis by (simp add: path_under_def path_clean_abs Let_def)
next
  case False
  then show ?thesis
    using segs_prefix [OF clean_segs_plain [OF assms(2)] clean_segs_plain [OF assms(1)] assms(4)] assms
    by (auto simp: path_under_def path_clean_abs Let_def)
qed

subsection \<open>Parents and last segments\<close>

lemma drop_to_slash: "d \<notin> set y \<Longrightarrow> dropWhile (\<lambda>c. c \<noteq> d) (y @ d # z) = d # z"
  by (induction y) auto

lemma take_to_slash: "d \<notin> set y \<Longrightarrow> takeWhile (\<lambda>c. c \<noteq> d) (y @ d # z) = y"
  by (induction y) auto

lemma upto_snoc: "CHR ''/'' \<notin> set x \<Longrightarrow> upto_last_slash (q @ CHR ''/'' # x) = q @ ''/''"
  by (simp add: upto_last_slash_def drop_to_slash)

lemma after_snoc: "CHR ''/'' \<notin> set x \<Longrightarrow> after_last_slash (q @ CHR ''/'' # x) = x"
  by (simp add: after_last_slash_def take_to_slash)

lemma clean_shape:
  assumes "is_abs p" "path_clean p = p" "clean_segs p = xs @ [x]"
  obtains q where "p = q @ CHR ''/'' # x" "CHR ''/'' \<notin> set x" "x \<noteq> []" "xs = [] \<longrightarrow> q = []"
    "xs \<noteq> [] \<longrightarrow> q = ''/'' @ join ''/'' xs"
proof -
  have x: "plain_seg x" using clean_segs_plain [OF assms(1)] assms(3) by simp
  have p: "p = ''/'' @ join ''/'' (xs @ [x])" using path_clean_abs [OF assms(1)] assms(2,3) by simp
  show ?thesis
  proof (cases "xs = []")
    case True
    with p x that [of "[]"] show ?thesis by (simp add: plain_seg_def)
  next
    case False
    with p x that [of "''/'' @ join ''/'' xs"] show ?thesis by (simp add: plain_seg_def join_append)
  qed
qed

lemma dir_segs:
  assumes "is_abs p" "path_clean p = p"
  shows "clean_segs (path_dir p) = butlast (clean_segs p)"
proof (cases "clean_segs p" rule: rev_cases)
  case Nil
  then have "p = ''/''" using path_clean_abs [OF assms(1)] assms(2) by simp
  then show ?thesis by (simp add: Nil path_dir_def upto_last_slash_def) code_simp
next
  case (snoc xs x)
  obtain q where q: "p = q @ CHR ''/'' # x" "CHR ''/'' \<notin> set x" "xs = [] \<longrightarrow> q = []"
    "xs \<noteq> [] \<longrightarrow> q = ''/'' @ join ''/'' xs"
    using clean_shape [OF assms snoc] by metis
  have plain: "\<forall>s \<in> set xs. plain_seg s" using clean_segs_plain [OF assms(1)] snoc by simp
  have "clean_segs (q @ ''/'') = xs"
  proof (cases "xs = []")
    case True
    with q show ?thesis by (simp add: clean_segs_def push_seg_def)
  next
    case False
    then show ?thesis
      using q(4) segs_of_join [OF plain False] split_on_append [of "CHR ''/''" "join ''/'' xs" "[]"] plain
      by (simp add: clean_segs_def fold_push_plain push_seg_def)
  qed
  moreover have "is_abs (q @ ''/'')" using q by (cases "xs = []") auto
  ultimately show ?thesis by (simp add: path_dir_def q(1) upto_snoc [OF q(2)] clean_segs_clean) (simp add: snoc q(1) [symmetric])
qed

lemma base_segs:
  assumes "is_abs p" "path_clean p = p" "clean_segs p \<noteq> []"
  shows "path_base p = last (clean_segs p)"
proof (cases "clean_segs p" rule: rev_cases)
  case (snoc xs x)
  obtain q where q: "p = q @ CHR ''/'' # x" "CHR ''/'' \<notin> set x" "x \<noteq> []" using clean_shape [OF assms(1,2) snoc] by metis
  then have "last x \<noteq> CHR ''/''" using last_in_set by metis
  with q have "rev p \<noteq> []" "hd (rev p) \<noteq> CHR ''/''" by (simp_all add: hd_append hd_rev)
  then have "dropWhile (\<lambda>c. c = CHR ''/'') (rev p) = rev p" by (cases "rev p") simp_all
  then have "rev (dropWhile (\<lambda>c. c = CHR ''/'') (rev p)) = p" by simp
  with q show ?thesis by (simp add: path_base_def Let_def after_snoc) (simp add: snoc q(1) [symmetric])
qed (use assms in simp)

lemma dir_under:
  assumes "is_abs p" "path_clean p = p" "path_under p r" "p \<noteq> ''/''"
    and "path_clean r = r \<Longrightarrow> path_base p \<noteq> path_base r"
  shows "path_under (path_dir p) r \<or> path_clean r \<noteq> r"
proof -
  obtain c where r: "is_abs r" "clean_segs p = clean_segs r @ c" "clean_segs r = [] \<longrightarrow> clean_segs p = []"
    using path_under_segs [OF assms(1,3)] by blast
  have segs: "clean_segs p \<noteq> []" using assms(2,4) path_clean_abs [OF assms(1)] by auto
  show ?thesis
  proof (cases "path_clean r = r")
    case True
    have "c \<noteq> []"
      using assms(5) [OF True] base_segs [OF assms(1,2) segs] base_segs [OF r(1) True] r segs by auto
    then have "clean_segs (path_dir p) = clean_segs r @ butlast c"
      by (simp add: dir_segs [OF assms(1,2)] r(2) butlast_append)
    with path_underI [OF is_abs_dir [OF assms(1)] r(1)] r(3) segs show ?thesis by blast
  qed simp
qed

subsection \<open>The binds of a job\<close>

lemma list_ex_rootD: "list_ex P xs \<Longrightarrow> \<exists>x \<in> set xs. P x"
  by (simp add: list_ex_iff)

lemma path_join_shape: "path_join ps = [] \<or> (\<exists>q. path_join ps = path_clean q)"
  by (auto simp: path_join_def Let_def)

lemma bind_roots_clean:
  assumes "r \<in> set (bind_roots getenv k)" "is_abs r"
  shows "path_clean r = r"
proof -
  have "\<exists>ps. r = path_join ps" using assms(1) by (auto simp: bind_roots_def Let_def)
  then obtain q where "r = path_clean q \<or> r = []" using path_join_shape by metis
  then have "r = path_clean q" using assms(2) by (auto simp: is_abs_def)
  moreover have "is_abs q" using assms(2) calculation clean_relative by blast
  ultimately show ?thesis by (simp add: path_clean_idem)
qed

definition in_job :: "genv \<Rightarrow> string \<Rightarrow> string \<Rightarrow> bool" where
  "in_job getenv k p \<longleftrightarrow> list_ex (path_under p) (bind_roots getenv (trim_space k))"

lemma path_under_clean: "is_abs p \<Longrightarrow> path_under (path_clean p) r = path_under p r"
  by (simp add: path_under_def path_clean_idem)

lemma assert_ok:
  assumes "assert_job_bind_path getenv p k = None"
  shows "is_abs p" "in_job getenv k p"
proof -
  have a: "is_abs (path_clean p)" "list_ex (path_under (path_clean p)) (bind_roots getenv (trim_space k))"
    using assms by (auto simp: assert_job_bind_path_def Let_def split: if_splits)
  then show p: "is_abs p" using clean_relative by blast
  have "path_under (path_clean p) = path_under p" by (rule ext) (rule path_under_clean [OF p])
  with a(2) show "in_job getenv k p" by (simp add: in_job_def)
qed

definition leaf_names :: "docker_spec \<Rightarrow> string set" where
  "leaf_names spec = {work_rel (ds_rel spec), ''primary'', ''sandbox'', ''related''}"

lemma bind_source_in_job:
  assumes p: "is_abs (ds_work spec)" "path_clean (ds_work spec) = ds_work spec" "ds_work spec \<noteq> ''/''"
    and job: "in_job getenv k (ds_work spec)"
    and roots: "list_all (\<lambda>r. path_base r \<notin> leaf_names spec) (bind_roots getenv (trim_space k))"
  shows "in_job getenv k (bind_source spec)"
proof -
  obtain r where r: "r \<in> set (bind_roots getenv (trim_space k))" "path_under (ds_work spec) r"
    using job list_ex_rootD unfolding in_job_def by blast
  have clean: "path_clean r = r" using bind_roots_clean [OF r(1)] path_under_segs [OF p(1) r(2)] by blast
  show ?thesis
  proof (cases "path_base (ds_work spec) \<in> leaf_names spec")
    case True
    then have "path_base (ds_work spec) \<noteq> path_base r" using roots r(1) by (auto simp: list_all_iff)
    then have "path_under (path_dir (ds_work spec)) r" using dir_under [OF p(1,2) r(2) p(3)] clean by blast
    then show ?thesis
      using r job by (auto simp: in_job_def list_ex_iff bind_source_def p(2) Let_def)
  next
    case False
    with job p(2) show ?thesis by (simp add: bind_source_def leaf_names_def Let_def)
  qed
qed

lemma snoc_segs:
  assumes "is_abs p" "plain_seg x"
  shows "clean_segs (p @ CHR ''/'' # x) = clean_segs p @ [x]" "is_abs (p @ CHR ''/'' # x)"
proof -
  show a: "is_abs (p @ CHR ''/'' # x)" using assms(1) by (cases p) (auto simp: is_abs_def)
  have "split_on CHR ''/'' x = [x]" using split_on_join [of "[x]" "CHR ''/''"] assms(2) by (simp add: plain_seg_def)
  then show "clean_segs (p @ CHR ''/'' # x) = clean_segs p @ [x]"
    using a assms by (simp add: clean_segs_def split_on_append push_seg_def plain_seg_def)
qed

lemma primary_in_job:
  assumes "is_abs (bind_source spec)" "in_job getenv k (bind_source spec)" "bind_source spec \<noteq> ''/''"
  shows "in_job getenv k (primary_source spec)"
proof -
  let ?b = "bind_source spec"
  have "?b \<noteq> []" using assms(1) by (auto simp: is_abs_def)
  then have src: "primary_source spec = path_clean (?b @ CHR ''/'' # ''primary'')"
    by (simp add: primary_source_def path_join_def)
  have pl: "plain_seg ''primary''" by code_simp
  note sn = snoc_segs [OF assms(1) pl]
  obtain r where r: "r \<in> set (bind_roots getenv (trim_space k))" "path_under ?b r"
    using assms(2) list_ex_rootD unfolding in_job_def by blast
  obtain c where c: "is_abs r" "clean_segs ?b = clean_segs r @ c" "clean_segs r = [] \<longrightarrow> clean_segs ?b = []"
    using path_under_segs [OF assms(1) r(2)] by blast
  show ?thesis
  proof (cases "clean_segs r = []")
    case False
    have "path_under (?b @ CHR ''/'' # ''primary'') r"
      using path_underI [OF sn(2) c(1), of "c @ [''primary'']"] sn(1) c(2) False by simp
    with r(1) show ?thesis
      by (auto simp: in_job_def list_ex_iff src path_under_clean [OF sn(2)])
  next
    case True
    then have "clean_segs ?b = []" using c by simp
    have "path_clean ?b = ''/''" by (simp add: path_clean_abs [OF assms(1)] \<open>clean_segs ?b = []\<close>)
    moreover have "path_clean ?b = ?b"
    proof -
      have "?b = path_clean (upto_last_slash (path_clean (ds_work spec))) \<or> ?b = path_clean (ds_work spec)"
        by (simp add: bind_source_def path_dir_def Let_def)
      then obtain q where "?b = path_clean q" by blast
      then show ?thesis using assms(1) clean_relative path_clean_idem by simp metis
    qed
    ultimately show ?thesis using assms(3) by simp
  qed
qed

lemma trim_bind:
  assumes "is_abs p" "\<not> is_space c"
  shows "trim_space (p @ q @ [c]) = p @ q @ [c]"
proof -
  obtain t where "p = CHR ''/'' # t" using assms(1) by (auto simp: is_abs_def has_prefix_iff)
  moreover have "\<not> is_space CHR ''/''" by code_simp
  ultimately show ?thesis using assms(2) by (simp add: trim_space_def trim_left_def)
qed

lemma mode_chars: "\<not> is_space CHR ''o''" "\<not> is_space CHR ''w''"
  by code_simp+

definition job_bind :: "(string \<Rightarrow> bool) \<Rightarrow> string \<Rightarrow> bool" where
  "job_bind P b \<longleftrightarrow> (\<exists>src dst. b = src @ CHR '':'' # dst \<and> P src)"

lemma trim_job_bind:
  assumes "is_abs p" "P p" "\<not> is_space c"
  shows "job_bind P (trim_space (p @ CHR '':'' # q @ [c]))"
  using trim_bind [OF assms(1,3), of "CHR '':'' # q"] assms(2) by (auto simp: job_bind_def)

definition owned_bind :: "genv \<Rightarrow> string \<Rightarrow> string \<Rightarrow> bool" where
  "owned_bind getenv k b \<longleftrightarrow> (\<exists>p q. b = p @ CHR '':'' # q @ ''o'' \<and> is_abs p \<and> in_job getenv k p)"

lemma owned_bindI:
  assumes "assert_job_bind_path getenv p k = None"
  shows "owned_bind getenv k (p @ CHR '':'' # q @ ''o'')"
  using assert_ok [OF assms] unfolding owned_bind_def by blast

lemma ro_suffix: "p @ '':ro'' = (p @ '':r'') @ ''o''"
  by simp

lemma sibling_binds:
  "b \<in> set (sibling_ro_binds getenv is_dir k layout seen ds) \<Longrightarrow> owned_bind getenv layout b"
proof (induction ds arbitrary: seen)
  case (Cons d ds)
  let ?p = "path_clean (trim_space d)"
  let ?b = "?p @ '':'' @ jobs_root @ ''/'' @ sanitize_docker_name k @ ''/'' @ path_base ?p @ '':ro''"
  have "owned_bind getenv layout ?b" if "assert_job_bind_path getenv ?p layout = None"
    using owned_bindI [OF that, of "jobs_root @ ''/'' @ sanitize_docker_name k @ ''/'' @ path_base ?p @ '':r''"] by simp
  moreover have "b \<in> set (sibling_ro_binds getenv is_dir k layout seen ds) \<or>
      b \<in> set (sibling_ro_binds getenv is_dir k layout (?p # seen) ds) \<or>
      (b = ?b \<and> assert_job_bind_path getenv ?p layout = None)"
    using Cons.prems by (simp add: Let_def split: if_splits) blast
  ultimately show ?case using Cons.IH by (elim disjE conjE) simp_all
qed simp

lemma related_bind:
  assumes "related_ro_bind getenv is_dir w k layout = Some b"
  shows "owned_bind getenv layout b"
proof -
  let ?p = "path_join [path_dir (path_clean w), ''related'']"
  have "assert_job_bind_path getenv ?p layout = None" "b = ?p @ '':'' @ jobs_root @ ''/'' @ sanitize_docker_name k @ ''/related:ro''"
    using assms by (auto simp: related_ro_bind_def Let_def split: if_splits)
  with owned_bindI [OF this(1), of "jobs_root @ ''/'' @ sanitize_docker_name k @ ''/related:r''"] show ?thesis by simp
qed

lemma built_root: "build_docker_run_argv getenv hostname is_dir spec = Inr argv \<Longrightarrow> path_clean (ds_work spec) \<noteq> ''/''"
  by (auto simp: build_docker_run_argv_def Let_def split: if_splits)

lemma run_once_spec:
  assumes "docker_run_once getenv hostname is_dir ef sf fresh job_net x = Inr (argv, ex)"
  shows "\<exists>spec. build_docker_run_argv getenv hostname is_dir spec = Inr argv \<and>
    ds_work spec = path_clean (sx_work x) \<and> is_abs (path_clean (sx_work x)) \<and>
    ds_rel spec = nz (sx_rel x) ''primary'' \<and>
    ds_image spec = nz (sx_image x) (sandbox_image_for_phase getenv (sx_phase x)) \<and>
    assert_job_bind_path getenv (path_clean (sx_work x)) (nz (sx_layout x) (nz (sx_job x) ''anon'')) = None \<and>
    (\<forall>b \<in> set (ds_binds spec).
       (sx_out x \<noteq> [] \<and> is_abs (path_clean (sx_out x)) \<and> b = path_clean (sx_out x) @ '':/out:rw'') \<or>
       owned_bind getenv (nz (sx_layout x) (nz (sx_job x) ''anon'')) b)"
  using assms unfolding docker_run_once_def Let_def
  by (auto split: if_splits option.splits sum.splits intro!: exI dest: related_bind sibling_binds)

text \<open>
  C25: the sandbox of a job sees that job's files only, provided the roots of the job's layout are not
  named like a leaf of a layout (\<open>primary\<close>, \<open>sandbox\<close>, \<open>related\<close>, the working leaf).  Every directory
  bound by an option of the command line is then the requested output directory or lies below one of
  those roots.  (For a job named like a leaf the root of all jobs is bound, \<open>leaf_job_binds_all\<close> below;
  and an image beginning with a dash is outside the options.)
\<close>

theorem sandbox_binds_stay_in_job:
  assumes "docker_run_once getenv hostname is_dir ef sf fresh job_net x = Inr (argv, ex)"
    and "list_all (\<lambda>r. path_base r \<notin> {work_rel (nz (sx_rel x) ''primary''), ''primary'', ''sandbox'', ''related''})
           (bind_roots getenv (trim_space (nz (sx_layout x) (nz (sx_job x) ''anon''))))"
  shows "\<exists>opts command.
    argv = command_line opts (nz (sx_image x) (sandbox_image_for_phase getenv (sx_phase x))) command \<and> plain_opts opts \<and>
    (\<forall>b. (''-v'', Some b) \<in> set opts \<longrightarrow> (\<exists>src dst. b = src @ CHR '':'' # dst \<and>
       (in_job getenv (nz (sx_layout x) (nz (sx_job x) ''anon'')) src \<or> src = path_clean (sx_out x))))"
proof -
  let ?k = "nz (sx_layout x) (nz (sx_job x) ''anon'')"
  let ?P = "\<lambda>src. in_job getenv ?k src \<or> src = path_clean (sx_out x)"
  obtain spec where spec: "build_docker_run_argv getenv hostname is_dir spec = Inr argv"
    "ds_work spec = path_clean (sx_work x)" "is_abs (path_clean (sx_work x))" "ds_rel spec = nz (sx_rel x) ''primary''"
    "ds_image spec = nz (sx_image x) (sandbox_image_for_phase getenv (sx_phase x))"
    "assert_job_bind_path getenv (path_clean (sx_work x)) ?k = None"
    and binds: "\<forall>b \<in> set (ds_binds spec).
       (sx_out x \<noteq> [] \<and> is_abs (path_clean (sx_out x)) \<and> b = path_clean (sx_out x) @ '':/out:rw'') \<or>
       owned_bind getenv ?k b"
    using run_once_spec [OF assms(1)] by blast
  have "job_bind ?P b" if extra: "b \<in> set (extra_binds spec)" for b
  proof -
    obtain e where e: "e \<in> set (ds_binds spec)" "b = trim_space e" using extra by (auto simp: extra_binds_def)
    from binds e(1) consider
      (out) "is_abs (path_clean (sx_out x))" "e = path_clean (sx_out x) @ '':/out:rw''"
      | (own) p q where "e = p @ CHR '':'' # q @ ''o''" "is_abs p" "in_job getenv ?k p" unfolding owned_bind_def by blast
    then show ?thesis
    proof cases
      case out
      then show ?thesis
        using trim_job_bind [of "path_clean (sx_out x)" ?P "CHR ''w''" "''/out:r''"] mode_chars by (simp add: e(2))
    next
      case own
      then show ?thesis using trim_job_bind [of p ?P "CHR ''o''" q] mode_chars by (simp add: e(2))
    qed
  qed
  moreover have "job_bind ?P b" if "b \<in> set (work_binds spec)" for b
  proof -
    have w: "is_abs (ds_work spec)" "path_clean (ds_work spec) = ds_work spec" "ds_work spec \<noteq> ''/''"
      using spec(2,3) clean_relative path_clean_idem built_root [OF spec(1)] by metis+
    have s: "in_job getenv ?k (bind_source spec)"
      using bind_source_in_job [OF w] assert_ok(2) [OF spec(6)] assms(2) spec(2,4) by (simp add: leaf_names_def)
    have "bind_source spec \<noteq> ''/''" using w(2,3) by (auto simp: bind_source_def Let_def)
    then have "in_job getenv ?k (primary_source spec)"
      using primary_in_job s bind_source_abs w(1,2) by metis
    with s that show ?thesis by (auto simp: work_binds_def job_bind_def split: if_splits)
  qed
  ultimately have "job_bind ?P b" if "(''-v'', Some b) \<in> set (argv_opts getenv hostname spec)" for b
    using argv_opts_binds [OF that] by auto
  then show ?thesis
    using argv_opts_plain [of getenv hostname spec] assembled_line [of getenv hostname spec] built(1) [OF spec(1)] spec(5)
    unfolding job_bind_def by metis
qed

subsection \<open>Gaps and samples\<close>

text \<open>
  The denylist looks for \<^verbatim>\<open>--network=host\<close> and \<^verbatim>\<open>source=\<close> only: the spellings with a separate
  argument, in one token, and with \<^verbatim>\<open>src=\<close> pass it.
\<close>

lemma denylist_gaps:
  "list_all (\<lambda>argv. validate_docker_run_argv argv = None)
     [[''run'', ''--network'', ''host'', ''img''], [''run'', ''--mount=type=bind,source=/,target=/h'', ''img''],
      [''run'', ''--mount'', ''type=bind,src=/,target=/h'', ''img'']]"
  by code_simp

text \<open>A command for the container is read as if it were options: an ephemeral box cannot run \<^verbatim>\<open>grep -e\<close>.\<close>

lemma command_read_as_options: "validate_docker_run_argv [''run'', ''img'', ''grep'', ''-e'', ''x''] = Some EnvFlagDenied"
  by code_simp

definition sample_box :: docker_spec where
  "sample_box =
     \<lparr>ds_name = ''--privileged'', ds_image = ''img'', ds_job = ''j1'', ds_run = [], ds_instance = [],
      ds_work = ''/tmp/opa-review/j1/primary'', ds_rel = [], ds_ro = True, ds_network = [], ds_env_file = [],
      ds_memory = [], ds_cpus = [], ds_pids = 0, ds_command = [], ds_labels = [], ds_rm = False, ds_binds = []\<rparr>"

text \<open>
  An image is only asked to be there: one that begins with a dash passes, and to docker it is one more
  option, here a bind of \<^verbatim>\<open>/etc\<close> that the gate on mounts refuses as a bind.
\<close>

lemma image_may_be_an_option:
  "isl (build_docker_run_argv (\<lambda>_. []) None (\<lambda>_. True)
          (sample_box\<lparr>ds_name := ''box'', ds_image := ''-v/etc:/x'', ds_command := [''img'', ''sh'']\<rparr>)) = False \<and>
   deny_dangerous_mount ''/etc:/x'' \<noteq> None"
  by code_simp

text \<open>A job called like a leaf shares the root of all jobs.\<close>

lemma leaf_job_binds_all:
  "assert_job_bind_path (\<lambda>_. []) ''/opa-jobs/primary'' ''primary'' = None \<and>
   bind_source (sample_box\<lparr>ds_work := ''/opa-jobs/primary'', ds_job := ''primary''\<rparr>) = ''/opa-jobs''"
  by code_simp

definition sample_exec :: sandbox_exec where
  "sample_exec =
     \<lparr>sx_phase = PhReview, sx_phase_name = ''review'', sx_job = ''j1'', sx_work = ''/tmp/opa-review/j1/primary'',
      sx_rel = [], sx_argv = [''ls''], sx_ro = True, sx_network = [], sx_image = ''img'', sx_ephemeral = True,
      sx_out = [], sx_suffix = ''a'', sx_layout = [], sx_network_id = [], sx_siblings = []\<rparr>"

definition sample_run_once where
  "sample_run_once = docker_run_once (\<lambda>_. []) None (\<lambda>_. True) [] [] ''00'' (\<lambda>n. Inr n) sample_exec"

lemma sample_built: "isl (build_docker_run_argv (\<lambda>_. []) None (\<lambda>_. True) (sample_box\<lparr>ds_name := ''box''\<rparr>)) = False"
  by code_simp

lemma sample_ran: "isl sample_run_once = False"
  by code_simp


lemma sandbox_binds_stay_in_job_witness:
  "\<exists>argv ex opts command. sample_run_once = Inr (argv, ex) \<and> argv = command_line opts ''img'' command \<and>
     (\<forall>b. (''-v'', Some b) \<in> set opts \<longrightarrow>
        (\<exists>src dst. b = src @ CHR '':'' # dst \<and> (in_job (\<lambda>_. []) ''j1'' src \<or> src = ''.'')))"
proof -
  obtain argv ex where run: "sample_run_once = Inr (argv, ex)"
    using sample_ran sum.collapse(2) [of sample_run_once] by (metis prod.collapse)
  have facts: "nz (sx_image sample_exec) (sandbox_image_for_phase (\<lambda>_. []) (sx_phase sample_exec)) = ''img''"
    "nz (sx_layout sample_exec) (nz (sx_job sample_exec) ''anon'') = ''j1''"
    "path_clean (sx_out sample_exec) = ''.''"
    "list_all (\<lambda>r. path_base r \<notin> {work_rel (nz (sx_rel sample_exec) ''primary''), ''primary'', ''sandbox'', ''related''})
       (bind_roots (\<lambda>_. []) (trim_space ''j1''))"
    by code_simp+
  show ?thesis
    using sandbox_binds_stay_in_job [OF run [unfolded sample_run_once_def], unfolded facts, OF facts(4)] run
    by blast
qed

end
