(* ===== verification/Publish_Laws.thy ===== *)
theory Publish_Laws
  imports Review_Publish
begin

text \<open>
  What the approval agent may send: an approval only on complete evidence, at most one decision
  review, and no second review once GitHub shows the decision.
\<close>

fun decision_event :: "gh_event \<Rightarrow> string option" where
  "decision_event (GCreateReview e b cs) = (if cs = [] then Some e else None)"
| "decision_event _ = None"

definition decisions :: "gh_event list \<Rightarrow> string list" where
  "decisions evs = List.map_filter decision_event evs"

lemma decisions_simps [simp]:
  "decisions [] = []" "decisions (evs @ fs) = decisions evs @ decisions fs"
  "decisions (GCreateReview e b cs # evs) = (if cs = [] then e # decisions evs else decisions evs)"
  "decisions (GUpdateReview i b # evs) = decisions evs"
  "decisions (GUpdatePull b # evs) = decisions evs"
  "decisions (GRequestReviewers rs ts # evs) = decisions evs"
  "decisions (GPost k t i st b # evs) = decisions evs"
  by (simp_all add: decisions_def List.map_filter_def)

lemma decisions_map_post [simp]: "decisions (map (\<lambda>c. GPost k t i st (f c)) cs) = []"
  by (induction cs) simp_all

lemma decision_post_none [simp]: "decisions (decision_post i st b # evs) = decisions evs"
  by (simp add: decision_post_def)

lemma event_words:
  "to_upper (trim_space ''APPROVE'') = ''APPROVE''"
  "to_upper (trim_space ''REQUEST_CHANGES'') = ''REQUEST_CHANGES''"
  "to_upper (trim_space ''COMMENT'') = ''COMMENT''"
  by code_simp+

lemma event_name_norm [simp]: "to_upper (trim_space (event_name e)) = event_name e"
  by (cases e) (simp_all only: event_name.simps event_words)

lemma event_name_not_Nil [simp]: "event_name e \<noteq> []"
  by (cases e) simp_all

lemma event_name_comment [simp]: "event_name e = ''COMMENT'' \<longleftrightarrow> e = COMMENT"
  by (cases e) simp_all

lemma create_review_decisions:
  "decisions (fst (github_create_pr_review io pr body event [])) =
     (if pr \<le> 0 \<or> \<not> gh_real io then [] else [if event = [] then ''COMMENT'' else event])"
  by (simp add: github_create_pr_review_def Let_def)

lemma update_review_decisions [simp]: "decisions (fst (github_update_pr_review_body io pr i body)) = []"
  by (simp add: github_update_pr_review_body_def)

text \<open>What one publication of a decision creates.\<close>

definition decision_needed :: "approval_io \<Rightarrow> int \<Rightarrow> review_event \<Rightarrow> bool" where
  "decision_needed io pr e \<longleftrightarrow>
     e \<noteq> COMMENT \<and>
     (case find_first_decision_review (io_getenv io) (listed_reviews io pr) of
        None \<Rightarrow> True | Some r \<Rightarrow> \<not> review_state_matches_event (gr_state r) (event_name e))"

lemma publish_decision_creates:
  "decisions (fst (publish_decision_review io pr body (event_name e))) =
     (if decision_needed io pr e \<and> 0 < pr \<and> gh_real io \<and>
         (case find_first_decision_review (io_getenv io) (listed_reviews io pr) of
            None \<Rightarrow> True
          | Some r \<Rightarrow> snd (github_update_pr_review_body io pr (gr_id r) (embed_decision_marker body)) = None)
      then [event_name e] else [])"
  using create_review_decisions [of io pr "embed_decision_marker body" "event_name e"]
  by (auto simp: publish_decision_review_def Let_def decision_needed_def split: option.split prod.split)
     (metis fst_conv update_review_decisions)+

lemma publish_review_decisions:
  assumes "publish_pr_review io j body (event_name e) [] s = (evs, err, s')"
  shows "decisions evs = [] \<or> decisions evs = [event_name e] \<and> e \<noteq> COMMENT \<and> gh_real io \<and>
           \<not> fst (job_or_run_cancelled j s)"
proof -
  have "decisions (fst (publish_decision_review io (j_pr j) body (event_name e))) = [] \<or>
      decisions (fst (publish_decision_review io (j_pr j) body (event_name e))) = [event_name e] \<and>
      e \<noteq> COMMENT \<and> gh_real io"
    by (simp add: publish_decision_creates decision_needed_def)
  with assms show ?thesis
    by (auto simp: publish_pr_review_def Let_def split: if_splits prod.splits)
qed

lemma masked_comment_kept:
  "c \<in> set (masked_comments fs) \<Longrightarrow> rc_path c \<noteq> [] \<and> 1 \<le> rc_line c \<and> trim_space (rc_body c) \<noteq> []"
proof -
  assume c: "c \<in> set (masked_comments fs)"
  then obtain f where f: "rc_path c = af_file f" "rc_line c = af_line f"
      "rc_body c = format_masked_security_inline f" "af_file f \<noteq> []" "1 \<le> af_line f"
    by (auto simp: masked_comments_def)
  have "CHR ''<'' \<in> set (format_masked_security_inline f)"
    by (simp add: format_masked_security_inline_def Let_def)
  moreover have "\<not> is_space (CHR ''<'')" by (simp add: is_space_def byte_of_def)
  ultimately show ?thesis using f by (auto simp: trim_space_eq_Nil)
qed

lemma publish_inline_decisions:
  assumes "publish_pr_review io j body ev (masked_comments fs) s = (evs, err, s')" "masked_comments fs \<noteq> []"
  shows "decisions evs = []"
proof -
  have f: "filter (\<lambda>c. rc_path c \<noteq> [] \<and> 1 \<le> rc_line c \<and> trim_space (rc_body c) \<noteq> []) (masked_comments fs) =
      masked_comments fs"
    using masked_comment_kept [of _ fs] by (simp add: filter_id_conv)
  show ?thesis using assms
    by (auto simp: publish_pr_review_def github_create_pr_review_def Let_def f split: if_splits prod.splits)
qed

lemma summary_decisions: "publish_summary io p res risk j = (evs, j') \<Longrightarrow>
    decisions evs = [] \<and> j_id j' = j_id j \<and> j_run_id j' = j_run_id j"
  by (auto simp: publish_summary_def Let_def split: if_splits prod.splits option.splits summary_outcome.splits)

lemma route_decisions [simp]: "decisions (route_reviewers io p pol j) = []"
  by (simp add: route_reviewers_def github_request_pr_reviewers_def Let_def split: option.split prod.split bool.split)

lemma publish_approval_decisions:
  assumes "publish_approval env io p ev risk j s = (j', evs, s')"
  shows "decisions evs = [] \<or> decisions evs = [event_name (dec_event (evaluate_approval ev))] \<and>
           dec_event (evaluate_approval ev) \<noteq> COMMENT \<and> gh_real io"
proof -
  let ?d = "evaluate_approval ev" and ?specs = "masked_comments (ev_security_findings ev)"
  let ?j1 = "record_decision io ev ?d risk j"
  obtain ie ir s1 where inl: "(if inline_findings p \<and> gh_real io \<and> ?specs \<noteq> []
      then publish_pr_review io ?j1 (''OPA AppSec '' @ em_dash @ '' masked inline findings'') ''COMMENT'' ?specs s
      else ([], None, s)) = (ie, ir, s1)" by (metis prod_cases3)
  obtain se j2 where sm: "publish_summary io p (ev_bugbot ev) risk ?j1 = (se, j2)" by force
  obtain pe pr s2 where pub: "publish_pr_review io j2 (format_decision_body (dec_bugbot ?d) (dec_event ?d) (ev_min_score ev))
      (event_name (dec_event ?d)) [] s1 = (pe, pr, s2)" by (metis prod_cases3)
  have "decisions ie = []" using inl publish_inline_decisions by (auto split: if_splits)
  moreover have "decisions se = []" using summary_decisions [OF sm] by simp
  moreover have "decisions evs = decisions ie @ decisions se @ decisions pe"
    using assms inl sm pub by (auto simp: publish_approval_def Let_def)
  ultimately show ?thesis using publish_review_decisions [OF pub] by auto
qed

subsection \<open>An approval needs its evidence\<close>

text \<open>What the agent reads from the store, in its order.\<close>

definition approval_view ::
  "scm_job \<Rightarrow> scm_state \<Rightarrow> scm_job option \<times> scm_job option \<times> bool \<times> agent_prefs \<times> scm_job option" where
  "approval_view j s =
     (let (b, s) = child_by_kind (j_run_id j) KBugbot s;
          (c, s) = child_by_kind (j_run_id j) KSecurity s;
          (cancelled, s) = job_or_run_cancelled j s;
          (p, s) = run_prefs (j_run_id j) s;
          (k, s) = child_by_kind (j_run_id j) KCloud s
      in (b, c, cancelled, p, k))"

definition with_pending :: "scm_job option \<Rightarrow> scm_job \<Rightarrow> scm_job" where
  "with_pending k j =
     (case k of Some c \<Rightarrow> if job_terminal (j_status c) then j else sset ''pending_autofix'' (JBool True) j
      | None \<Rightarrow> j)"

lemma ensure_keeps_ids: "ensure_github_write_allowed getenv j conn = (e, i) \<Longrightarrow> j_run_id i = j_run_id j"
  by (auto simp: ensure_github_write_allowed_def split: sum.splits option.splits)

text \<open>Whatever is sent, it is sent by \<open>publish_approval\<close> on the evidence of the run's children.\<close>

lemma approval_agent_publishes:
  assumes run: "run_approval_agent env io j s = (j', err, evs, s')" and ne: "evs \<noteq> []"
    and view: "approval_view j s = (bo, co, cancelled, p, k)"
  shows "\<exists>b c i s1. bo = Some b \<and> co = Some c \<and> \<not> cancelled \<and> job_terminal (j_status b) \<and>
           job_terminal (j_status c) \<and> err = None \<and>
           (gh_real io \<longrightarrow> (\<exists>h. authorize_github_write (io_getenv io) (io_conn io) = Inr h)) \<and>
           publish_approval env io p (evidence_for io p (with_pending k i) b c)
             (approval_risk io (with_pending k i) b c) (with_pending k i) s1 = (j', evs, s')"
proof -
  obtain s1 where b: "child_by_kind (j_run_id j) KBugbot s = (bo, s1)"
    using view by (cases "child_by_kind (j_run_id j) KBugbot s") (auto simp: approval_view_def Let_def split: prod.splits)
  obtain s2 where c: "child_by_kind (j_run_id j) KSecurity s1 = (co, s2)"
    using view b by (cases "child_by_kind (j_run_id j) KSecurity s1") (auto simp: approval_view_def Let_def split: prod.splits)
  obtain s3 where can: "job_or_run_cancelled j s2 = (cancelled, s3)"
    using view b c by (cases "job_or_run_cancelled j s2") (auto simp: approval_view_def Let_def split: prod.splits)
  obtain s4 where pr: "run_prefs (j_run_id j) s3 = (p, s4)"
    using view b c can by (cases "run_prefs (j_run_id j) s3") (auto simp: approval_view_def Let_def split: prod.splits)
  obtain s5 where cl: "child_by_kind (j_run_id j) KCloud s4 = (k, s5)"
    using view b c can pr by (cases "child_by_kind (j_run_id j) KCloud s4") (auto simp: approval_view_def Let_def split: prod.splits)
  obtain denied i where en: "(if github_use_mock_api (io_getenv io) (io_conn io) then (None, j)
      else ensure_github_write_allowed (io_getenv io) j (io_conn io)) = (denied, i)" by force
  have rid: "j_run_id i = j_run_id j"
    using en ensure_keeps_ids by (auto split: if_splits)
  have nc: "\<not> cancelled" using run ne by (auto simp: run_approval_agent_def b c can Let_def)
  then obtain x y where xy: "bo = Some x" "co = Some y"
    using run ne by (auto simp: run_approval_agent_def b c can Let_def split: option.splits)
  have t: "job_terminal (j_status x)" "job_terminal (j_status y)"
    using run ne nc by (auto simp: run_approval_agent_def b c can Let_def xy split: if_splits)
  have nf: "\<not> (j_status x = ''failed'' \<and> j_status y = ''failed'')"
    using run ne nc t by (auto simp: run_approval_agent_def b c can Let_def xy split: if_splits)
  have d: "denied = None"
    using run ne nc t nf by (auto simp: run_approval_agent_def b c can Let_def xy en split: option.splits)
  have r: "(case publish_approval env io p (evidence_for io p (with_pending k i) x y)
             (approval_risk io (with_pending k i) x y) (with_pending k i) s5 of (j, evs, s) \<Rightarrow> (j, None, evs, s)) =
           (j', err, evs, s')"
    using run nc t nf d en pr cl rid by (simp add: run_approval_agent_def b c can Let_def xy with_pending_def cong: option.case_cong split: prod.splits)
  have w: "\<exists>h. authorize_github_write (io_getenv io) (io_conn io) = Inr h" if "gh_real io"
    using that en d by (auto simp: gh_real_def ensure_github_write_allowed_def split: sum.splits)
  from r have "err = None" "publish_approval env io p (evidence_for io p (with_pending k i) x y)
             (approval_risk io (with_pending k i) x y) (with_pending k i) s5 = (j', evs, s')"
    by (auto split: prod.splits)
  with nc xy t w show ?thesis by blast
qed

text \<open>
  C1: an approving review is created only on complete evidence.  When the approval agent of a run
  sends a decision APPROVE, that is its only decision, neither the job nor its run is cancelled, the
  bugbot and the security child exist, are terminal and did not fail, no cloud child is still
  working, auto-approve is on, the security gate of the run passed, the connector may write, and
  the whole approval conjunction holds of the evidence of these children.
\<close>

theorem approval_only_on_evidence:
  assumes run: "run_approval_agent env io j s = (j', err, evs, s')"
    and ap: "''APPROVE'' \<in> set (decisions evs)"
    and view: "approval_view j s = (bo, co, cancelled, p, k)"
  shows "\<exists>b c i. bo = Some b \<and> co = Some c \<and> \<not> cancelled \<and> decisions evs = [''APPROVE''] \<and>
           job_terminal (j_status b) \<and> job_terminal (j_status c) \<and>
           \<not> failed_or_error b \<and> \<not> failed_or_error c \<and>
           (\<forall>q. k = Some q \<longrightarrow> job_terminal (j_status q)) \<and> auto_approve p \<and> \<not> gate_failed c \<and>
           (\<exists>h. authorize_github_write (io_getenv io) (io_conn io) = Inr h) \<and>
           approval_conjunction (evidence_for io p i b c)"
proof -
  have ne: "evs \<noteq> []" using ap by auto
  obtain b c i s1 where *: "bo = Some b" "co = Some c" "\<not> cancelled" "job_terminal (j_status b)"
      "job_terminal (j_status c)"
      "gh_real io \<longrightarrow> (\<exists>h. authorize_github_write (io_getenv io) (io_conn io) = Inr h)"
      "publish_approval env io p (evidence_for io p (with_pending k i) b c)
         (approval_risk io (with_pending k i) b c) (with_pending k i) s1 = (j', evs, s')"
    using approval_agent_publishes [OF run ne view] by blast
  let ?ev = "evidence_for io p (with_pending k i) b c"
  from publish_approval_decisions [OF *(7)] ap have real: "gh_real io"
    and dec: "decisions evs = [event_name (dec_event (evaluate_approval ?ev))]" by auto
  with ap have "dec_event (evaluate_approval ?ev) = APPROVE"
    by (cases "dec_event (evaluate_approval ?ev)") auto
  then have conj: "approval_conjunction ?ev" by (simp add: approve_conjunction)
  then have "degraded_inputs b c = []" "\<not> is_true (sget (with_pending k i) ''pending_autofix'')"
      "auto_approve p" "\<not> gate_failed c"
    by (simp_all add: approval_conjunction_def evidence_for_def Let_def)
  moreover from this(2) have "\<forall>q. k = Some q \<longrightarrow> job_terminal (j_status q)"
    by (auto simp: with_pending_def is_true_def split: if_splits)
  ultimately show ?thesis
    using * real dec conj \<open>dec_event (evaluate_approval ?ev) = APPROVE\<close>
    by (auto simp: degraded_inputs_def split: if_splits)
qed

text \<open>
  A run of the approval agent creates at most one decision review, and none at all when the
  connector may not write or the API is mocked.
\<close>

theorem one_decision_per_approval:
  "length (decisions (fst (snd (snd (run_approval_agent env io j s))))) \<le> (if gh_real io then 1 else 0)"
proof -
  obtain j' err evs s' where run: "run_approval_agent env io j s = (j', err, evs, s')" by (metis prod_cases4)
  obtain bo co can p k where view: "approval_view j s = (bo, co, can, p, k)" by (metis prod_cases5)
  show ?thesis
  proof (cases "evs = []")
    case False
    from approval_agent_publishes [OF run False view]
    obtain ev risk i s1 where "publish_approval env io p ev risk i s1 = (j', evs, s')" by blast
    from publish_approval_decisions [OF this] run show ?thesis by auto
  qed (use run in simp)
qed

definition sample_child :: "string \<Rightarrow> string \<Rightarrow> string \<Rightarrow> jobj \<Rightarrow> scm_job" where
  "sample_child k kind st summ =
     (sample_job k kind ''r1'' ''abc'' st)\<lparr>j_run_id := ''r1'', j_summary := summ\<rparr>"

definition approval_store :: "string \<Rightarrow> jobj \<Rightarrow> scm_state" where
  "approval_store bug_status bug_summary =
     store_of
       [(''r1'', (sample_job ''r1'' ''run'' [] ''abc'' ''running'')\<lparr>j_summary :=
           [(''prefs'', JObj [(''trigger_mode'', JStr ''every_push''), (''auto_approve'', JBool True)])]\<rparr>),
        (''b1'', sample_child ''b1'' ''bugbot'' bug_status bug_summary),
        (''s1'', sample_child ''s1'' ''security'' ''completed'' [(''gate'', JObj [(''fail'', JBool False)])]),
        (''a1'', sample_child ''a1'' ''approval'' ''running'' [])]"

definition approval_sample_io :: "gh_review list \<Rightarrow> approval_io" where
  "approval_sample_io rs =
     \<lparr>io_getenv = (\<lambda>_. []),
      io_conn = Some \<lparr>cn_id = ''c'', cn_org = ''default'', cn_proj = ''default'', cn_scope = ''org'', cn_user = [],
        cn_kind = ''github_app'', cn_inst = ''1'', cn_status = ''active'', cn_token = []\<rparr>,
      io_watched = None,
      io_dec_ai = (\<lambda>_. empty_review\<lparr>rv_status := ''clean'', rv_confidence := 90\<rparr>),
      io_peer = (\<lambda>_ _. None), io_sha1hex = (\<lambda>s. s), io_sha8 = (\<lambda>s. s),
      io_unmarshal = (\<lambda>_. Inr \<lparr>pol_version = 1, pol_require = [''security''], pol_security_min_severity = [],
        pol_max_risk_score = 0, pol_reviewers = [], pol_team_reviewers = [], pol_on_fail = []\<rparr>),
      io_keys = (\<lambda>_. [''version'', ''require'']), io_base = Some ''main'',
      io_content = (\<lambda>_ _. Inr ''{}''), io_body = Inr None, io_update_body = (\<lambda>_. None),
      io_reviews = Inr rs, io_update = (\<lambda>_ _. None), io_create = (\<lambda>_ _ _. None)\<rparr>"

abbreviation sample_approval :: "string \<Rightarrow> jobj \<Rightarrow> scm_job \<times> string option \<times> gh_event list \<times> scm_state" where
  "sample_approval st summ \<equiv> run_approval_agent sample_env (approval_sample_io [])
     (sample_child ''a1'' ''approval'' ''running'' []) (approval_store st summ)"

abbreviation sample_approver :: scm_job where
  "sample_approver \<equiv> sample_child ''a1'' ''approval'' ''running'' []"

abbreviation sample_bugbot :: "string \<Rightarrow> jobj \<Rightarrow> scm_job" where
  "sample_bugbot st summ \<equiv> sample_child ''b1'' ''bugbot'' st summ"

abbreviation sample_security :: scm_job where
  "sample_security \<equiv> sample_child ''s1'' ''security'' ''completed'' [(''gate'', JObj [(''fail'', JBool False)])]"

abbreviation sample_prefs :: agent_prefs where
  "sample_prefs \<equiv> prefs_of_obj [(''trigger_mode'', JStr ''every_push''), (''auto_approve'', JBool True)]"

lemma sample_kinds:
  "kind_of ''bugbot'' = KBugbot" "kind_of ''security'' = KSecurity" "kind_of ''approval'' = KApproval" "kind_of ''run'' = KRun"
  by code_simp+

lemma approval_store_children:
  "child_by_kind ''r1'' KBugbot (approval_store st summ) = (Some (sample_bugbot st summ), approval_store st summ)"
  "child_by_kind ''r1'' KSecurity (approval_store st summ) = (Some sample_security, approval_store st summ)"
  "child_by_kind ''r1'' KCloud (approval_store st summ) = (None, approval_store st summ)"
  by (simp_all add: child_by_kind_def list_run_children_def get_scm_job_def live_job_def approval_store_def store_of_def
      child_ids_of_def sget_def jget_def child_jobs_def sample_child_def sample_job_def job_kind_def sample_kinds
      List.map_filter_def)

lemma approval_store_runs:
  "job_is_cancelled ''a1'' (approval_store st summ) = (False, approval_store st summ)"
  "job_is_cancelled ''r1'' (approval_store st summ) = (False, approval_store st summ)"
  "run_prefs ''r1'' (approval_store st summ) = (sample_prefs, approval_store st summ)"
proof -
  show "job_is_cancelled ''a1'' (approval_store st summ) = (False, approval_store st summ)"
    "job_is_cancelled ''r1'' (approval_store st summ) = (False, approval_store st summ)"
    by (simp_all add: job_is_cancelled_def get_scm_job_def live_job_def approval_store_def store_of_def
        sample_child_def sample_job_def)
  have "agent_prefs_from_summary ((sample_job ''r1'' ''run'' [] ''abc'' ''running'')\<lparr>j_summary :=
      [(''prefs'', JObj [(''trigger_mode'', JStr ''every_push''), (''auto_approve'', JBool True)])]\<rparr>) = sample_prefs"
    by code_simp
  then show "run_prefs ''r1'' (approval_store st summ) = (sample_prefs, approval_store st summ)"
    by (simp add: run_prefs_def get_scm_job_def live_job_def approval_store_def store_of_def)
qed

lemma sample_io_facts:
  "gh_real (approval_sample_io rs)" "github_use_mock_api (io_getenv (approval_sample_io rs)) (io_conn (approval_sample_io rs)) = False"
  "ensure_github_write_allowed (io_getenv (approval_sample_io rs)) j (io_conn (approval_sample_io rs)) = (None, j)"
  "inline_findings sample_prefs = False"
  by code_simp+

lemma sample_pr: "j_pr sample_approver = 7" "j_id sample_approver = ''a1''" "j_run_id sample_approver = ''r1''"
  by (simp_all add: sample_child_def sample_job_def)

lemma publish_summary_keeps:
  "publish_summary io p res risk j = (evs, j') \<Longrightarrow> j_pr j' = j_pr j \<and> j_id j' = j_id j \<and> j_run_id j' = j_run_id j"
  by (auto simp: publish_summary_def Let_def split: if_splits prod.splits option.splits summary_outcome.splits)

lemma record_decision_keeps [simp]:
  "j_pr (record_decision io ev d risk j) = j_pr j" "j_id (record_decision io ev d risk j) = j_id j"
  "j_run_id (record_decision io ev d risk j) = j_run_id j"
  by (simp_all add: record_decision_def Let_def)

lemma sample_publishes:
  assumes "dec_event (evaluate_approval ev) = APPROVE"
  shows "decisions (fst (snd (publish_approval env (approval_sample_io []) sample_prefs ev risk sample_approver
           (approval_store st summ)))) = [''APPROVE'']"
proof -
  let ?io = "approval_sample_io []" and ?d = "evaluate_approval ev" and ?s = "approval_store st summ"
  obtain se j2 where sm: "publish_summary ?io sample_prefs (ev_bugbot ev) risk
      (record_decision ?io ev ?d risk sample_approver) = (se, j2)" by force
  have k: "j_pr j2 = 7" "j_id j2 = ''a1''" "j_run_id j2 = ''r1''"
    using publish_summary_keeps [OF sm] by (simp_all add: sample_pr)
  have l: "find_first_decision_review (io_getenv ?io) (listed_reviews ?io 7) = None"
    by (simp add: find_first_decision_review_def listed_reviews_def approval_sample_io_def)
  have c: "job_or_run_cancelled j2 ?s = (False, ?s)"
    by (simp add: job_or_run_cancelled_def k approval_store_runs)
  have "decisions (fst (publish_decision_review ?io 7 body ''APPROVE'')) = [''APPROVE'']" for body
    using publish_decision_creates [of ?io 7 body APPROVE] by (simp add: l decision_needed_def sample_io_facts)
  then have "decisions (fst (publish_pr_review ?io j2 body ''APPROVE'' [] ?s)) = [''APPROVE'']" for body
    by (simp add: publish_pr_review_def k c Let_def split: prod.split) (metis fst_conv)
  then show ?thesis
    using assms summary_decisions [OF sm]
    by (simp add: publish_approval_def sm sample_io_facts Let_def split: prod.split) (metis fst_conv)
qed

lemma sample_approves:
  assumes "job_terminal st" "st \<noteq> ''failed''"
    and "dec_event (evaluate_approval (evidence_for (approval_sample_io []) sample_prefs sample_approver
           (sample_bugbot st summ) sample_security)) = APPROVE"
  shows "decisions (fst (snd (snd (sample_approval st summ)))) = [''APPROVE'']"
proof -
  have s: "j_status (sample_bugbot st summ) = st" "j_status sample_security = ''completed''"
    by (simp_all add: sample_child_def sample_job_def)
  have "job_terminal ''completed''" by code_simp
  with assms sample_publishes [OF assms(3), of sample_env _ st summ] show ?thesis
    by (simp add: run_approval_agent_def sample_pr approval_store_children job_or_run_cancelled_def approval_store_runs
        s sample_io_facts Let_def case_prod_unfold)
qed

text \<open>
  A child without a review approves as well: the skip gate of the code looks for the word
  ''skipped'' in the review, and a skipped bugbot child has no review.
\<close>

lemma skipped_review_approves:
  "decisions (fst (snd (snd (sample_approval ''skipped'' [])))) = [''APPROVE'']"
  by (rule sample_approves; code_simp)

lemma approval_only_on_evidence_witness:
  "\<exists>i. approval_conjunction (evidence_for (approval_sample_io []) sample_prefs i
     (sample_bugbot ''completed'' [(''ai'', JObj [])]) sample_security)"
proof -
  let ?bs = "[(''ai'', JObj [])]"
  have d: "decisions (fst (snd (snd (sample_approval ''completed'' ?bs)))) = [''APPROVE'']"
    by (rule sample_approves; code_simp)
  obtain j' err evs s' where run: "sample_approval ''completed'' ?bs = (j', err, evs, s')" by (metis prod_cases4)
  have view: "approval_view sample_approver (approval_store ''completed'' ?bs) =
      (Some (sample_bugbot ''completed'' ?bs), Some sample_security, False, sample_prefs, None)"
    by (simp add: approval_view_def sample_pr approval_store_children job_or_run_cancelled_def approval_store_runs)
  from approval_only_on_evidence [OF run _ view] d run show ?thesis by auto
qed

subsection \<open>Publishing again\<close>

text \<open>
  What GitHub is documented to show after a created review: it is appended to the list, with the
  state of the event, the body sent and the bot as its author.
\<close>

definition shows_created :: "approval_io \<Rightarrow> review_event \<Rightarrow> string \<Rightarrow> gh_review \<Rightarrow> bool" where
  "shows_created io e body r \<longleftrightarrow>
     review_state_matches_event (gr_state r) (event_name e) \<and> gr_body r = embed_decision_marker body \<and>
     is_opa_bot_review_login (io_getenv io) (gr_user r) \<and> gr_state r \<noteq> ''PENDING'' \<and> gr_state r \<noteq> ''DISMISSED''"

lemma embedded_has_marker: "contains (embed_decision_marker body) decision_marker"
  by (simp add: embed_decision_marker_def Let_def contains_append(1) [OF _] contains_iff)
     (metis append_Nil)

lemma shows_created_is_decision: "shows_created io e body r \<Longrightarrow> opa_decision_review (io_getenv io) r"
  by (simp add: shows_created_def opa_decision_review_def embedded_has_marker)

text \<open>
  Publishing a decision twice leaves one review.  When no decision review of the program is
  listed, and the list then shows the review the first publication created, a second publication
  of the same decision creates none.
\<close>

theorem publish_decision_once:
  assumes "find_first_decision_review (io_getenv io) rs = None" and "io_reviews io = Inr rs"
    and "shows_created io e body r"
  shows "decisions (fst (publish_decision_review io pr body (event_name e))) =
           (if e \<noteq> COMMENT \<and> 0 < pr \<and> gh_real io then [event_name e] else []) \<and>
         decisions (fst (publish_decision_review (io\<lparr>io_reviews := Inr (rs @ [r])\<rparr>) pr body' (event_name e))) = []"
proof -
  have "find_first_decision_review (io_getenv io) (listed_reviews io pr) = None"
    using assms(1,2) by (simp add: listed_reviews_def find_first_decision_review_def)
  then have a: "decisions (fst (publish_decision_review io pr body (event_name e))) =
           (if e \<noteq> COMMENT \<and> 0 < pr \<and> gh_real io then [event_name e] else [])"
    by (simp add: publish_decision_creates decision_needed_def)
  let ?io = "io\<lparr>io_reviews := Inr (rs @ [r])\<rparr>"
  have "\<forall>x \<in> set rs. \<not> opa_decision_review (io_getenv io) x"
    using assms(1) by (simp add: find_first_decision_review_def find_None_iff)
  then have "List.find (opa_decision_review (io_getenv io)) (rs @ [r]) = Some r"
    using shows_created_is_decision [OF assms(3)] by (induction rs) auto
  then have "\<not> (decision_needed ?io pr e \<and> 0 < pr \<and> gh_real ?io)"
    using assms(3) by (auto simp: decision_needed_def listed_reviews_def find_first_decision_review_def shows_created_def gh_real_def)
  then have "decisions (fst (publish_decision_review ?io pr body' (event_name e))) = []"
    by (auto simp: publish_decision_creates)
  with a show ?thesis by blast
qed

definition sample_review :: "int \<Rightarrow> string \<Rightarrow> gh_review" where
  "sample_review i st = \<lparr>gr_id = i, gr_body = decision_marker, gr_state = st, gr_user = ''ora[bot]''\<rparr>"

lemma publish_decision_once_witness:
  "decisions (fst (publish_decision_review (approval_sample_io [sample_review 1 ''APPROVED'']) 7 ''x'' ''APPROVE'')) = []"
proof -
  have f: "find_first_decision_review (io_getenv (approval_sample_io [])) [] = None"
    "io_reviews (approval_sample_io []) = Inr []"
    by (simp_all add: find_first_decision_review_def approval_sample_io_def)
  have s: "shows_created (approval_sample_io []) APPROVE decision_marker (sample_review 1 ''APPROVED'')"
    by code_simp
  have "(approval_sample_io [])\<lparr>io_reviews := Inr ([] @ [sample_review 1 ''APPROVED''])\<rparr> =
        approval_sample_io [sample_review 1 ''APPROVED'']"
    by (simp add: approval_sample_io_def)
  with publish_decision_once [OF f s, of 7 "''x''"] show ?thesis by simp
qed

text \<open>
  Only the first decision review is compared: after a change of decision the first one keeps its
  old state, and each further publication of the new decision creates one more review.
\<close>

lemma flipped_decision_repeats:
  "decisions (fst (publish_decision_review
     (approval_sample_io [sample_review 1 ''CHANGES_REQUESTED'', sample_review 2 ''APPROVED'']) 7 ''x'' ''APPROVE'')) =
   [''APPROVE'']"
  by code_simp

end
