(* ===== verification/Checkup_Laws.thy ===== *)
theory Checkup_Laws
  imports Checkup_Policy
begin

text \<open>
  What the policy guarantees of the plan it returns, and that it says so when it drops something.
\<close>

subsection \<open>Environments and secrets\<close>

definition env_clean :: "(string \<Rightarrow> bool) \<Rightarrow> env_map \<Rightarrow> bool" where
  "env_clean refused env \<longleftrightarrow> list_all (\<lambda>(k, v). k \<noteq> [] \<and> trim_space k = k \<and> \<not> refused k) env"

lemma env_clean_update:
  "env_clean P env \<Longrightarrow> k \<noteq> [] \<Longrightarrow> trim_space k = k \<Longrightarrow> \<not> P k \<Longrightarrow> env_clean P (AList.update k v env)"
  by (induction env) (auto simp: env_clean_def)

lemma police_env_clean: "env_clean P out \<Longrightarrow> env_clean P (fst (police_env P why kvs out))"
  by (induction P why kvs out rule: police_env.induct) (auto simp: Let_def env_clean_update)

definition plan_env_refused :: "(string \<Rightarrow> bool) \<Rightarrow> string \<Rightarrow> bool" where
  "plan_env_refused looks_secret k \<longleftrightarrow>
     looks_secret k \<or> to_upper k \<in> set denied_secret_names \<or> is_egress_env_key (to_upper k)"

lemma police_plan_env_clean:
  "env_clean (plan_env_refused P) out \<Longrightarrow> env_clean (plan_env_refused P) (fst (police_plan_env P kvs out))"
  by (induction P kvs out rule: police_plan_env.induct) (auto simp: Let_def env_clean_update plan_env_refused_def)

lemma grantable_upper: "n \<in> set grantable_secrets \<Longrightarrow> to_upper n = n"
proof -
  have "list_all (\<lambda>n. to_upper n = n) grantable_secrets" by code_simp
  then show "n \<in> set grantable_secrets \<Longrightarrow> to_upper n = n" by (simp add: list_all_iff)
qed

lemma grantable_not_denied: "n \<in> set grantable_secrets \<Longrightarrow> n \<notin> set denied_secret_names"
proof -
  have "list_all (\<lambda>n. n \<notin> set denied_secret_names) grantable_secrets" by code_simp
  then show "n \<in> set grantable_secrets \<Longrightarrow> n \<notin> set denied_secret_names" by (simp add: list_all_iff)
qed

lemma police_secrets_ok:
  "set out \<subseteq> set grantable_secrets \<Longrightarrow> distinct out \<Longrightarrow>
   set (fst (police_secrets ns out)) \<subseteq> set grantable_secrets \<and> distinct (fst (police_secrets ns out))"
proof (induction ns arbitrary: out)
  case (Cons n ns)
  then show ?case
    using grantable_upper [of "trim_space n"] Cons.IH [of "out @ [to_upper (trim_space n)]"]
    by (auto simp: Let_def)
qed simp

subsection \<open>Post conditions\<close>

definition post_ok :: "post_cond \<Rightarrow> bool" where
  "post_ok pc \<longleftrightarrow>
     po_kind pc \<in> {''exit0'', ''junit'', ''checkstyle'', ''stdout_contains'', ''artifact_exists''} \<and>
     (po_path pc \<noteq> [] \<longrightarrow> safe_rel_artifact_path (po_path pc)) \<and>
     (po_kind pc \<in> {''junit'', ''artifact_exists''} \<longrightarrow> po_path pc \<noteq> []) \<and>
     (po_kind pc = ''stdout_contains'' \<longrightarrow> trim_space (po_contains pc) \<noteq> []) \<and> 0 \<le> po_min pc"

lemma no_post_sel [simp]: "po_kind no_post = []" "po_path no_post = []" "po_min no_post = 0" "po_contains no_post = []"
  by (simp_all add: no_post_def)

lemma normalize_post_ok:
  "normalize_post_condition pc sid = (pc', d) \<Longrightarrow> po_kind pc' \<noteq> [] \<Longrightarrow> post_ok pc' \<and> d = []"
  by (auto simp: normalize_post_condition_def Let_def post_ok_def split: if_splits)

subsection \<open>Steps\<close>

definition dir_ok :: "string \<Rightarrow> bool" where
  "dir_ok d \<longleftrightarrow> d = [] \<or> \<not> is_abs d \<and> \<not> escapes d"

definition step_env_refused :: "(string \<Rightarrow> bool) \<Rightarrow> string \<Rightarrow> bool" where
  "step_env_refused looks_secret k \<longleftrightarrow> looks_secret k \<or> is_egress_env_key (to_upper k)"

definition step_ok :: "(string \<Rightarrow> bool) \<Rightarrow> checkup_step \<Rightarrow> bool" where
  "step_ok looks_secret st \<longleftrightarrow>
     cs_argv st \<noteq> [] \<and> checkup_argv_binary (cs_argv st ! 0) \<in> set binary_allowlist \<and>
     0 < cs_timeout st \<and> cs_timeout st \<le> 1800 \<and> post_ok (cs_post st) \<and> dir_ok (cs_dir st) \<and>
     env_clean (step_env_refused looks_secret) (cs_env st)"

lemma allowed_not_denied: "b \<in> set binary_allowlist \<Longrightarrow> b \<notin> set denied_binaries"
proof -
  have "list_all (\<lambda>b. b \<notin> set denied_binaries) binary_allowlist" by code_simp
  then show "b \<in> set binary_allowlist \<Longrightarrow> b \<notin> set denied_binaries" by (simp add: list_all_iff)
qed

lemma phpstan_argv_binary:
  "checkup_argv_binary (argv ! 0) = ''phpstan'' \<Longrightarrow>
   phpstan_argv argv \<noteq> [] \<and> checkup_argv_binary (phpstan_argv argv ! 0) = ''phpstan''"
proof -
  have v: "checkup_argv_binary ''vendor/bin/phpstan'' = ''phpstan''" by code_simp
  assume "checkup_argv_binary (argv ! 0) = ''phpstan''"
  with v show ?thesis by (simp add: phpstan_argv_def Let_def)
qed

lemma normalize_phpstan_keeps [simp]:
  "cs_id (normalize_phpstan_step st) = cs_id st" "cs_timeout (normalize_phpstan_step st) = cs_timeout st"
  "cs_env (normalize_phpstan_step st) = cs_env st" "cs_dir (normalize_phpstan_step st) = cs_dir st"
  by (simp_all add: normalize_phpstan_step_def Let_def)

lemma normalize_phpstan_argv:
  "cs_argv st \<noteq> [] \<Longrightarrow> checkup_argv_binary (cs_argv st ! 0) = ''phpstan'' \<Longrightarrow>
   cs_argv (normalize_phpstan_step st) = phpstan_argv (cs_argv st)"
  by (simp add: normalize_phpstan_step_def Let_def)

lemma police_timeout_ok: "police_timeout sid t = (t', d) \<Longrightarrow> 0 < t' \<and> t' \<le> 1800"
  by (auto simp: police_timeout_def Let_def min_int_def split: if_splits)

lemma police_dir_ok: "police_dir sid dir = (wd, d) \<Longrightarrow> dir_ok wd"
  by (auto simp: police_dir_def Let_def dir_ok_def split: if_splits)

lemma phpstan_allowed: "''phpstan'' \<in> set binary_allowlist"
  by code_simp

text \<open>A kept step is within the envelope and keeps its id; a step that is not kept leaves a drop.\<close>

lemma police_step_cases:
  assumes "police_step P sid seen st = (taken, kept, d)"
  shows "(case kept of
            None \<Rightarrow> d \<noteq> []
          | Some x \<Rightarrow> taken \<and> sid \<notin> seen \<and> cs_id x = sid \<and> step_ok P x \<and> \<not> looks_like_shell_string (cs_argv st) \<and>
              cs_argv x = (if checkup_argv_binary (cs_argv st ! 0) = ''phpstan'' then phpstan_argv (cs_argv st)
                           else cs_argv st))"
proof (cases "sid \<in> seen \<or> cs_argv st = [] \<or> looks_like_shell_string (cs_argv st) \<or>
    checkup_argv_binary (cs_argv st ! 0) \<notin> set binary_allowlist \<or>
    checkup_argv_binary (cs_argv st ! 0) = [] \<or> checkup_argv_binary (cs_argv st ! 0) \<in> set denied_binaries \<or>
    po_kind (fst (normalize_post_condition (cs_post st) sid)) = []")
  case True
  with assms show ?thesis by (auto simp: police_step_def Let_def split: if_splits prod.splits)
next
  case False
  obtain pc d1 where pc: "normalize_post_condition (cs_post st) sid = (pc, d1)" by force
  obtain t d2 where t: "police_timeout sid (cs_timeout st) = (t, d2)" by force
  obtain wd d3 where wd: "police_dir sid (cs_dir st) = (wd, d3)" by force
  let ?r = "\<lambda>k. P k \<or> is_egress_env_key (to_upper k)"
  obtain env d4 where env: "police_env ?r (''step '' @ sid @ '': dropped env '') (cs_env st) [] = (env, d4)" by force
  have r: "?r = step_env_refused P" by (auto simp: step_env_refused_def fun_eq_iff)
  have ec: "env_clean (step_env_refused P) env"
    using police_env_clean [of "step_env_refused P" "[]" "''step '' @ sid @ '': dropped env ''" "cs_env st"] env r
    by (simp add: env_clean_def)
  have ok: "post_ok pc" using normalize_post_ok [OF pc] False pc by auto
  let ?out = "\<lparr>cs_id = sid, cs_argv = cs_argv st, cs_timeout = t, cs_post = pc, cs_env = env, cs_dir = wd\<rparr>"
  show ?thesis
  proof (cases "checkup_argv_binary (cs_argv st ! 0) = ''phpstan''")
    case no: False
    with assms False pc t wd env have "taken" "kept = Some ?out" by (auto simp: police_step_def Let_def)
    then show ?thesis
      using False no ok ec police_timeout_ok [OF t] police_dir_ok [OF wd] by (simp add: step_ok_def)
  next
    case True
    obtain pc2 d5 where pc2: "normalize_post_condition (cs_post (normalize_phpstan_step ?out)) sid = (pc2, d5)" by force
    show ?thesis
    proof (cases "po_kind pc2 = []")
      case nk: True
      with assms False True pc t wd env pc2 show ?thesis by (auto simp: police_step_def Let_def)
    next
      case k: False
      with assms False True pc t wd env pc2
      have "taken" "kept = Some ((normalize_phpstan_step ?out)\<lparr>cs_post := pc2\<rparr>)"
        by (auto simp: police_step_def Let_def)
      then show ?thesis
        using False True ec police_timeout_ok [OF t] police_dir_ok [OF wd] normalize_post_ok [OF pc2 k]
          phpstan_argv_binary [OF True] phpstan_allowed
        by (simp add: step_ok_def normalize_phpstan_argv)
    qed
  qed
qed

definition same_command :: "checkup_step \<Rightarrow> checkup_step \<Rightarrow> bool" where
  "same_command st x \<longleftrightarrow>
     cs_argv x = (if checkup_argv_binary (cs_argv st ! 0) = ''phpstan'' then phpstan_argv (cs_argv st)
                  else cs_argv st)"

lemma police_steps_ok:
  assumes "list_all (step_ok P) out" "distinct (map cs_id out)" "cs_id ` set out \<subseteq> seen"
    and "length out \<le> checkup_max_steps"
  shows "list_all (step_ok P) (fst (police_steps P i sts seen out)) \<and>
         distinct (map cs_id (fst (police_steps P i sts seen out))) \<and>
         length (fst (police_steps P i sts seen out)) \<le> checkup_max_steps"
  using assms
proof (induction sts arbitrary: i seen out)
  case (Cons st sts)
  let ?sid = "if trim_space (cs_id st) = [] then ''step-'' @ show_nat (i + 1) else trim_space (cs_id st)"
  obtain taken kept d where p: "police_step P ?sid seen st = (taken, kept, d)" by (metis prod_cases3)
  show ?case
  proof (cases "checkup_max_steps \<le> length out")
    case False
    let ?seen = "if taken then insert ?sid seen else seen"
    let ?out = "case kept of None \<Rightarrow> out | Some x \<Rightarrow> out @ [x]"
    have sub: "seen \<subseteq> ?seen" by auto
    have "list_all (step_ok P) ?out \<and> distinct (map cs_id ?out) \<and> cs_id ` set ?out \<subseteq> ?seen \<and>
        length ?out \<le> checkup_max_steps"
    proof (cases kept)
      case (Some x)
      with police_step_cases [OF p] have x: "taken" "?sid \<notin> seen" "cs_id x = ?sid" "step_ok P x" by auto
      then have "cs_id x \<notin> cs_id ` set out" using Cons.prems(3) by auto
      then show ?thesis using Some x Cons.prems False by auto
    qed (use Cons.prems sub in auto)
    with Cons.IH [of ?out ?seen "Suc i"] False p show ?thesis by (simp add: Let_def)
  qed (use Cons.prems in simp)
qed simp

lemma police_steps_all:
  assumes "police_steps P i sts seen out = (res, [])"
  shows "\<exists>zs. res = out @ zs \<and> list_all2 same_command sts zs"
  using assms
proof (induction sts arbitrary: i seen out)
  case (Cons st sts)
  let ?sid = "if trim_space (cs_id st) = [] then ''step-'' @ show_nat (i + 1) else trim_space (cs_id st)"
  obtain taken kept d where p: "police_step P ?sid seen st = (taken, kept, d)" by (metis prod_cases3)
  have nc: "\<not> checkup_max_steps \<le> length out" using Cons.prems by (auto split: if_splits)
  with Cons.prems p have d: "d = []" and rest:
    "police_steps P (Suc i) sts (if taken then insert ?sid seen else seen)
       (case kept of None \<Rightarrow> out | Some x \<Rightarrow> out @ [x]) = (res, [])"
    by (auto simp: Let_def apsnd_def map_prod_def split: prod.splits)
  from police_step_cases [OF p] d obtain x where x: "kept = Some x" "same_command st x"
    by (cases kept) (auto simp: same_command_def)
  with rest have "police_steps P (Suc i) sts (if taken then insert ?sid seen else seen) (out @ [x]) = (res, [])"
    by simp
  from Cons.IH [OF this] obtain zs where "res = (out @ [x]) @ zs" "list_all2 same_command sts zs" by blast
  with x(2) show ?case by (intro exI [of _ "x # zs"]) simp
qed simp

subsection \<open>Services\<close>

definition key_ok :: "string \<Rightarrow> bool" where
  "key_ok k \<longleftrightarrow> k \<noteq> [] \<and> length k \<le> 63 \<and>
     list_all (\<lambda>c. is_lower c \<or> is_digit c \<or> c = CHR ''_'' \<or> c = CHR ''-'') k"

definition health_ok :: "string list \<Rightarrow> bool" where
  "health_ok argv \<longleftrightarrow>
     argv = [] \<or> \<not> looks_like_shell_string argv \<and>
       checkup_argv_binary (argv ! 0) \<in> set health_binaries \<union> set binary_allowlist"

definition service_ok :: "genv \<Rightarrow> (string \<Rightarrow> bool) \<Rightarrow> checkup_service \<Rightarrow> bool" where
  "service_ok getenv P sv \<longleftrightarrow>
     key_ok (sv_key sv) \<and> image_allowed getenv (sv_image sv) \<and> env_clean P (sv_env sv) \<and>
     health_ok (sv_health sv) \<and> 0 < sv_timeout sv \<and> sv_timeout sv \<le> 300 \<and>
     trim_space (sv_memory sv) \<noteq> [] \<and> trim_space (sv_cpus sv) \<noteq> []"

lemma sanitize_key_ok: "sanitize_service_key k \<noteq> [] \<Longrightarrow> key_ok (sanitize_service_key k)"
  by (auto simp: sanitize_service_key_def key_ok_def Let_def list_all_iff dest: in_set_takeD split: if_splits)

lemma health_cmd_ok: "filter_service_health_cmd argv key = (h, d) \<Longrightarrow> health_ok h \<and> (d = [] \<longrightarrow> h = argv)"
  by (auto simp: filter_service_health_cmd_def health_ok_def Let_def split: if_splits)

lemma police_service_cases:
  assumes "police_service getenv P i seen sv = (kept, d)"
  shows "(case kept of
            None \<Rightarrow> d \<noteq> []
          | Some x \<Rightarrow> sv_key x = sanitize_service_key (sv_key sv) \<and> sv_key x \<notin> seen \<and> service_ok getenv P x \<and>
              sv_image x = trim_space (sv_image sv) \<and> (d = [] \<longrightarrow> sv_health x = sv_health sv))"
proof -
  let ?key = "sanitize_service_key (sv_key sv)"
  obtain h d2 where h: "filter_service_health_cmd (sv_health sv) ?key = (h, d2)" by force
  obtain env d3 where e: "police_env P (''service '' @ ?key @ '': dropped secret env '') (sv_env sv) [] = (env, d3)"
    by force
  have "env_clean P env"
    using police_env_clean [of P "[]" "''service '' @ ?key @ '': dropped secret env ''" "sv_env sv"] e
    by (simp add: env_clean_def)
  moreover have "trim_space (nz (trim_space m) ''1g'') \<noteq> []" "trim_space (nz (trim_space m) ''1'') \<noteq> []" for m
    by (auto simp: nz_def) (code_simp)+
  ultimately show ?thesis
    using assms h e sanitize_key_ok [of "sv_key sv"] health_cmd_ok [OF h]
    by (auto simp: police_service_def Let_def service_ok_def min_int_def split: if_splits)
qed

definition same_service :: "checkup_service \<Rightarrow> checkup_service \<Rightarrow> bool" where
  "same_service sv x \<longleftrightarrow>
     sv_key x = sanitize_service_key (sv_key sv) \<and> sv_image x = trim_space (sv_image sv) \<and> sv_health x = sv_health sv"

lemma police_services_ok:
  assumes "list_all (service_ok getenv P) out" "distinct (map sv_key out)" "length out \<le> checkup_max_services"
  shows "list_all (service_ok getenv P) (fst (police_services getenv P i svs out)) \<and>
         distinct (map sv_key (fst (police_services getenv P i svs out))) \<and>
         length (fst (police_services getenv P i svs out)) \<le> checkup_max_services"
  using assms
proof (induction svs arbitrary: i out)
  case (Cons sv svs)
  obtain kept d where p: "police_service getenv P i (sv_key ` set out) sv = (kept, d)" by force
  show ?case
  proof (cases "checkup_max_services \<le> length out")
    case False
    let ?out = "case kept of None \<Rightarrow> out | Some x \<Rightarrow> out @ [x]"
    have "list_all (service_ok getenv P) ?out \<and> distinct (map sv_key ?out) \<and> length ?out \<le> checkup_max_services"
      using police_service_cases [OF p] Cons.prems False by (cases kept) auto
    with Cons.IH [of ?out "Suc i"] False p show ?thesis by (simp add: Let_def)
  qed (use Cons.prems in simp)
qed simp

lemma police_services_all:
  assumes "police_services getenv P i svs out = (res, [])"
  shows "\<exists>zs. res = out @ zs \<and> list_all2 same_service svs zs"
  using assms
proof (induction svs arbitrary: i out)
  case (Cons sv svs)
  obtain kept d where p: "police_service getenv P i (sv_key ` set out) sv = (kept, d)" by force
  have nc: "\<not> checkup_max_services \<le> length out" using Cons.prems by (auto split: if_splits)
  with Cons.prems p have d: "d = []" and rest:
    "police_services getenv P (Suc i) svs (case kept of None \<Rightarrow> out | Some x \<Rightarrow> out @ [x]) = (res, [])"
    by (auto simp: Let_def apsnd_def map_prod_def split: prod.splits)
  from police_service_cases [OF p] d obtain x where x: "kept = Some x" "same_service sv x"
    by (cases kept) (auto simp: same_service_def)
  with rest have "police_services getenv P (Suc i) svs (out @ [x]) = (res, [])" by simp
  from Cons.IH [OF this] obtain zs where "res = (out @ [x]) @ zs" "list_all2 same_service svs zs" by blast
  with x(2) show ?case by (intro exI [of _ "x # zs"]) simp
qed simp

lemma police_secrets_all:
  "police_secrets ns out = (res, []) \<Longrightarrow> res = out @ map (\<lambda>n. to_upper (trim_space n)) (filter (\<lambda>n. trim_space n \<noteq> []) ns)"
proof (induction ns arbitrary: out)
  case (Cons n ns)
  show ?case
  proof (cases "trim_space n = []")
    case False
    with Cons.prems have "police_secrets ns (out @ [to_upper (trim_space n)]) = (res, [])"
      by (auto simp: Let_def apsnd_def map_prod_def split: if_splits prod.splits)
    from Cons.IH [OF this] False show ?thesis by simp
  qed (use Cons in simp)
qed simp

subsection \<open>The plan\<close>

definition plan_ok :: "genv \<Rightarrow> (string \<Rightarrow> bool) \<Rightarrow> checkup_plan \<Rightarrow> bool" where
  "plan_ok getenv P q \<longleftrightarrow>
     (cp_steps q \<noteq> [] \<longrightarrow> image_allowed getenv (cp_image q)) \<and>
     length (cp_steps q) \<le> checkup_max_steps \<and> length (cp_services q) \<le> checkup_max_services \<and>
     distinct (map cs_id (cp_steps q)) \<and> distinct (map sv_key (cp_services q)) \<and>
     list_all (step_ok P) (cp_steps q) \<and> list_all (service_ok getenv P) (cp_services q) \<and>
     env_clean (plan_env_refused P) (cp_env q) \<and>
     set (cp_secrets q) \<subseteq> set grantable_secrets \<and> distinct (cp_secrets q) \<and> 0 < cp_version q"

lemma policed_plan_ok:
  "plan_ok getenv looks_secret (fst (intersect_spec_with_policy getenv looks_secret raw))"
proof (cases raw)
  case None
  then show ?thesis by (simp add: intersect_spec_with_policy_def plan_ok_def empty_plan_def env_clean_def)
next
  case (Some p)
  obtain img d1 where i: "police_image getenv (cp_image p) = (img, d1)" by force
  obtain env d2 where e: "police_plan_env looks_secret (cp_env p) [] = (env, d2)" by force
  obtain secs d3 where c: "police_secrets (cp_secrets p) [] = (secs, d3)" by force
  obtain svs d4 where v: "police_services getenv looks_secret 0 (cp_services p) [] = (svs, d4)" by force
  obtain sts d5 where t: "police_steps looks_secret 0 (cp_steps p) {} [] = (sts, d5)" by force
  have img: "img = [] \<or> image_allowed getenv img"
    using i by (auto simp: police_image_def Let_def split: if_splits)
  have "env_clean (plan_env_refused looks_secret) env"
    using police_plan_env_clean [of looks_secret "[]" "cp_env p"] e by (simp add: env_clean_def)
  moreover have "set secs \<subseteq> set grantable_secrets" "distinct secs"
    using police_secrets_ok [of "[]" "cp_secrets p"] c by simp_all
  moreover have "list_all (service_ok getenv looks_secret) svs" "distinct (map sv_key svs)" "length svs \<le> checkup_max_services"
    using police_services_ok [of getenv looks_secret "[]" 0 "cp_services p"] v by simp_all
  moreover have "list_all (step_ok looks_secret) sts" "distinct (map cs_id sts)" "length sts \<le> checkup_max_steps"
    using police_steps_ok [of looks_secret "[]" "{}" 0 "cp_steps p"] t by simp_all
  ultimately show ?thesis using img
    by (auto simp: Some intersect_spec_with_policy_def i e c v t Let_def plan_ok_def)
qed

text \<open>
  C22: whatever plan a pull request asks for, what may run of it is inside the envelope: at most
  twenty steps, each a command of the allow list with a bounded timeout, a checked post condition
  on a relative path and a working directory inside the tree; at most six services of allowed images
  with clean names; no variable that looks like a secret or redirects the proxy; no secret but the
  four grantable ones; and no step at all without an allowed image.
\<close>

theorem policed_plan_within_envelope:
  "plan_ok getenv looks_secret (fst (intersect_spec_with_policy getenv looks_secret raw))"
  by (rule policed_plan_ok)

text \<open>
  Nothing of a plan is left out in silence.  When the policy reports no drop, every step
  and every service of the plan is there, in its order and with its command (a phpstan command in
  its rewritten form) and image, the image is the one asked for, and every named secret is granted.
\<close>

theorem no_silent_drop:
  assumes "intersect_spec_with_policy getenv looks_secret (Some p) = (q, [])"
  shows "list_all2 same_command (cp_steps p) (cp_steps q) \<and>
         list_all2 same_service (cp_services p) (cp_services q) \<and> cp_image q = trim_space (cp_image p) \<and>
         cp_secrets q = map (\<lambda>n. to_upper (trim_space n)) (filter (\<lambda>n. trim_space n \<noteq> []) (cp_secrets p))"
proof -
  obtain img d1 where i: "police_image getenv (cp_image p) = (img, d1)" by force
  obtain env d2 where e: "police_plan_env looks_secret (cp_env p) [] = (env, d2)" by force
  obtain secs d3 where c: "police_secrets (cp_secrets p) [] = (secs, d3)" by force
  obtain svs d4 where v: "police_services getenv looks_secret 0 (cp_services p) [] = (svs, d4)" by force
  obtain sts d5 where t: "police_steps looks_secret 0 (cp_steps p) {} [] = (sts, d5)" by force
  have q: "d1 = []" "d3 = []" "d4 = []" "d5 = []" "cp_steps q = sts" "cp_services q = svs" "cp_image q = img"
      "cp_secrets q = secs"
    using assms by (auto simp: intersect_spec_with_policy_def i e c v t Let_def split: if_splits)
  have "img = trim_space (cp_image p)"
    using i q(1) by (auto simp: police_image_def Let_def split: if_splits)
  with q i police_steps_all [OF t [unfolded q(4)]] police_services_all [OF v [unfolded q(3)]]
    police_secrets_all [OF c [unfolded q(2)]]
  show ?thesis by simp
qed

definition sample_plan :: checkup_plan where
  "sample_plan =
     \<lparr>cp_version = 1, cp_image = ''golang:1.25'',
      cp_steps = [\<lparr>cs_id = ''t'', cs_argv = [''go'', ''test'', ''./...''], cs_timeout = 0,
        cs_post = no_post\<lparr>po_kind := ''exit0''\<rparr>, cs_env = [], cs_dir = []\<rparr>],
      cp_services = [], cp_env = [], cp_secrets = [''npm_token''], cp_source = ''raw''\<rparr>"

lemma no_silent_drop_witness:
  "cp_secrets (fst (intersect_spec_with_policy (\<lambda>_. []) (\<lambda>_. False) (Some sample_plan))) = [''NPM_TOKEN'']"
proof -
  have "snd (intersect_spec_with_policy (\<lambda>_. []) (\<lambda>_. False) (Some sample_plan)) = []" by code_simp
  then obtain q where q: "intersect_spec_with_policy (\<lambda>_. []) (\<lambda>_. False) (Some sample_plan) = (q, [])"
    by (metis prod.collapse)
  have "map (\<lambda>n. to_upper (trim_space n)) (filter (\<lambda>n. trim_space n \<noteq> []) (cp_secrets sample_plan)) = [''NPM_TOKEN'']"
    by code_simp
  with no_silent_drop [OF q] q show ?thesis by simp
qed

text \<open>
  The rewriting of a phpstan command can lose its subcommand: a value of \<open>--error-format\<close> that
  happens to be ''analyse'' counts as the subcommand and is then dropped with the flag.
\<close>

lemma phpstan_subcommand_lost:
  "phpstan_argv [''phpstan'', ''--error-format'', ''analyse''] =
     [''vendor/bin/phpstan'', ''--no-progress'', ''--error-format=checkstyle'']"
  by code_simp

end
