(* ===== verification/Checkup_Run_Laws.thy ===== *)
theory Checkup_Run_Laws
  imports Checkup_Run Checkup_Laws
begin

text \<open>
  What a run of the checkup agent may execute, and what its verdict means.
\<close>

subsection \<open>The steps that ran\<close>

text \<open>The promise of a post condition that held.\<close>

definition post_holds :: "checkup_world \<Rightarrow> string \<Rightarrow> checkup_step \<Rightarrow> bool" where
  "post_holds W root st \<longleftrightarrow>
     (let (err, out, ms) = cw_step W (cs_id st); pc = cs_post st; file = path_join [root, po_path pc]
      in err = None \<and>
         (po_kind pc = ''junit'' \<longrightarrow>
            (\<exists>raw. cw_read W file = Some raw \<and> max 1 (po_min pc) \<le> count_junit_tests (cw_xml W) raw)) \<and>
         (po_kind pc = ''stdout_contains'' \<longrightarrow> contains out (po_contains pc)) \<and>
         (po_kind pc = ''artifact_exists'' \<longrightarrow> cw_exists W file) \<and>
         po_kind pc \<in> {''exit0'', ''junit'', ''checkstyle'', ''stdout_contains'', ''artifact_exists''})"

lemma evaluate_post_holds:
  assumes "cw_step W (cs_id st) = (err, out, ms)"
  shows "fst (evaluate_post_condition (cw_xml W) (cw_read W) (cw_exists W) (cs_post st) (err = None) out root) \<longleftrightarrow>
         post_holds W root st"
  by (auto simp: evaluate_post_condition_def post_holds_def Let_def assms not_less split: option.splits)

lemma run_step_ok: "sr_ok (fst (run_checkup_step W jid root net img env secs sib st)) \<longleftrightarrow> post_holds W root st"
proof -
  obtain err out ms where c: "cw_step W (cs_id st) = (err, out, ms)" by (metis prod_cases3)
  show ?thesis
    using evaluate_post_holds [of W st err out ms root] c
    by (auto simp: run_checkup_step_def Let_def case_prod_unfold)
qed

lemma run_step_fields [simp]:
  "sr_id (fst (run_checkup_step W jid root net img env secs sib st)) = cs_id st"
  "snd (snd (run_checkup_step W jid root net img env secs sib st)) =
     CkStep (step_box jid root net img sib st) (fold (\<lambda>(k, v). AList.update k v) (cs_env st) env) (step_secrets secs st)"
  by (simp_all add: run_checkup_step_def Let_def case_prod_unfold)

lemma run_steps_all:
  "run_checkup_steps W run root sts = (rs, anns, evs) \<Longrightarrow>
   rs = map (\<lambda>st. fst (run st)) sts \<and> evs = map (\<lambda>st. snd (snd (run st))) sts"
proof (induction sts arbitrary: rs anns evs)
  case (Cons st sts)
  obtain rs' anns' evs' where r: "run_checkup_steps W run root sts = (rs', anns', evs')" by (metis prod_cases3)
  from Cons.IH [OF r] Cons.prems r show ?case by (auto simp: Let_def split: prod.splits)
qed simp

text \<open>When a step ran, everything before it went well.\<close>

definition step_events :: "checkup_event list \<Rightarrow> checkup_event list" where
  "step_events evs = filter (\<lambda>e. case e of CkStep b x y \<Rightarrow> True | _ \<Rightarrow> False) evs"

lemma step_events_simps [simp]:
  "step_events [] = []" "step_events (es @ fs) = step_events es @ step_events fs"
  "step_events (CkService a # es) = step_events es" "step_events (CkStopServices n # es) = step_events es"
  "step_events (CkPurge d # es) = step_events es" "step_events (CkCopy p q # es) = step_events es"
  "step_events (CkStep b x y # es) = CkStep b x y # step_events es"
  by (simp_all add: step_events_def)

lemma step_events_copies [simp]: "step_events (map (\<lambda>(p, q). CkCopy p q) cs) = []"
  by (induction cs) auto

lemma step_events_steps [simp]: "step_events (map (\<lambda>st. CkStep (f st) (g st) (h st)) sts) = map (\<lambda>st. CkStep (f st) (g st) (h st)) sts"
  by (induction sts) auto

definition service_healthy :: "checkup_world \<Rightarrow> string \<Rightarrow> checkup_service \<Rightarrow> bool" where
  "service_healthy W jid sv \<longleftrightarrow>
     wait_service_healthy (checkup_service_name jid (sv_key sv)) (sv_health sv)
       (cw_image_health W (checkup_service_name jid (sv_key sv))) (cw_polls W (checkup_service_name jid (sv_key sv))) = Healthy"

lemma start_services_events:
  "start_services W jid net svs names = (r, evs) \<Longrightarrow> step_events evs = [] \<and>
     (\<forall>n. r = Inr n \<longrightarrow> (\<forall>sv \<in> set svs. service_healthy W jid sv))"
proof (induction W jid net svs names arbitrary: r evs rule: start_services.induct)
  case (2 W jid net sv svs names)
  show ?case
  proof (cases "start_services W jid net svs (names @ [checkup_service_name jid (sv_key sv)])")
    case (Pair r' evs')
    have ih: "(if sv_env sv = [] then Inr [] else cw_env_file W (checkup_service_name jid (sv_key sv))) = Inr ef \<Longrightarrow>
       build_docker_service_argv (cw_getenv W) (cw_host W) (service_spec_of W jid net ef sv) = Inr argv \<Longrightarrow>
       cw_run W argv = None \<Longrightarrow> service_healthy W jid sv \<Longrightarrow>
       step_events evs' = [] \<and> (\<forall>n. r' = Inr n \<longrightarrow> (\<forall>sv \<in> set svs. service_healthy W jid sv))" for ef argv
      using 2(1) Pair by (simp add: service_healthy_def)
    show ?thesis using 2(2) Pair ih
      by (auto simp: Let_def service_healthy_def apsnd_def map_prod_def split: sum.splits option.splits health_result.splits)
  qed
qed simp

lemma start_checkup_services_events:
  assumes "start_checkup_services W jid svs = (r, evs)"
  shows "step_events evs = [] \<and> (\<forall>n. r = Inr n \<longrightarrow> (\<forall>sv \<in> set svs. service_healthy W jid sv))"
  using assms start_services_events
  by (auto simp: start_checkup_services_def split: if_splits option.splits sum.splits prod.splits)

lemma prepared_plan:
  assumes "run_prepared_plan W jid root net plan = (r, anns, evs)"
  shows "ck_status r = ''blocked'' \<and> step_events evs = [] \<or>
    (\<exists>sib. let secs = resolve_checkup_secrets (cw_getenv W) (cp_secrets plan);
              run = run_checkup_step W jid root net (cp_image plan) (cp_env plan) secs sib
           in ck_steps r = map (\<lambda>st. fst (run st)) (cp_steps plan) \<and>
              step_events evs = map (\<lambda>st. snd (snd (run st))) (cp_steps plan) \<and>
              ck_status r = (if list_all sr_ok (ck_steps r) then ''passed'' else ''failed''))"
proof -
  obtain rep copied where w: "prepare_checkup_workspace (cw_getenv W) (cw_ready W) (cw_copy W) (cw_read W) root = (rep, copied)"
    by force
  show ?thesis
  proof (cases "workspace_blocked rep")
    case True
    with assms w show ?thesis
      by (auto simp: run_prepared_plan_def plan_outcome_def Let_def split: option.splits)
  next
    case False
    let ?sib = "checkup_module_sibling_dirs (cw_ready W copied) root rep"
    let ?secs = "resolve_checkup_secrets (cw_getenv W) (cp_secrets plan)"
    let ?run = "run_checkup_step W jid root net (cp_image plan) (cp_env plan) ?secs ?sib"
    obtain rs as es where s: "run_checkup_steps W ?run root (cp_steps plan) = (rs, as, es)" by (metis prod_cases3)
    note all = run_steps_all [OF s]
    have "ck_steps r = rs" "step_events evs = es" "ck_status r = (if list_all sr_ok rs then ''passed'' else ''failed'')"
      using assms w False s all
      by (auto simp: run_prepared_plan_def plan_outcome_def Let_def split: option.splits)
    with all show ?thesis by (intro disjI2 exI [of _ ?sib]) (simp add: Let_def)
  qed
qed

text \<open>A run of a plan that executed a step, or passed, went through the prepared plan.\<close>

lemma run_plan_cases:
  assumes "run_checkup_plan W jid root plan = (r, anns, evs)"
  shows "step_events evs = [] \<and> ck_status r \<in> {''skipped'', ''refused'', ''failed''} \<or>
    (\<exists>net es. run_prepared_plan W jid (path_clean root) net plan = (r, anns, es) \<and>
       step_events evs = step_events es \<and> cw_docker W \<and> cp_steps plan \<noteq> [] \<and> trim_space (cp_image plan) \<noteq> [] \<and>
       is_abs (path_clean root) \<and> (\<forall>sv \<in> set (cp_services plan). service_healthy W jid sv))"
proof (cases "cp_steps plan = [] \<or> \<not> cw_docker W \<or> trim_space (cp_image plan) = [] \<or> cw_cli W \<noteq> None \<or>
    path_clean root = [] \<or> \<not> is_abs (path_clean root)")
  case True
  with assms show ?thesis
    by (auto simp: run_checkup_plan_def plan_outcome_def Let_def split: if_splits option.splits)
next
  case False
  obtain sr se where st: "start_checkup_services W jid (cp_services plan) = (sr, se)" by force
  note ev = start_checkup_services_events [OF st]
  show ?thesis
  proof (cases sr)
    case (Inl e)
    with assms False st ev show ?thesis by (auto simp: run_checkup_plan_def plan_outcome_def Let_def)
  next
    case (Inr nn)
    obtain net names where nn: "nn = (net, names)" by force
    show ?thesis
    proof (cases "if net \<noteq> [] \<or> cp_services plan \<noteq> [] then Inr net
                  else if cw_proxy W then Inr ''internal+proxy'' else cw_network W")
      case (Inl e)
      with assms False st ev Inr nn show ?thesis
        by (auto simp: run_checkup_plan_def plan_outcome_def Let_def split: if_splits)
    next
      case net: (Inr n)
      obtain r' as es where p: "run_prepared_plan W jid (path_clean root) n plan = (r', as, es)" by (metis prod_cases3)
      have c: "cw_cli W = None" using False by simp
      have "run_checkup_plan W jid root plan = (r', as, se @ es @ [CkStopServices names])"
        using False c st Inr nn net p by (simp add: run_checkup_plan_def Let_def)
      with assms have e: "r' = r" "as = anns" "evs = se @ es @ [CkStopServices names]" by simp_all
      have sv: "step_events se = []" "\<forall>sv \<in> set (cp_services plan). service_healthy W jid sv"
        using ev Inr nn by auto
      show ?thesis
        using p sv False by (intro disjI2 exI [of _ n] exI [of _ es]) (simp add: e)
    qed
  qed
qed

text \<open>
  C19: a checkup that passed was verified.  When the verdict is ''passed'' there was something to
  run, it ran in the sandbox, every service container had become healthy, and every step of the plan
  is reported, exited without error and met its post condition on what is in the tree: at least one
  test case and at least the asked number in a JUnit report, the wanted text on standard output, the
  artifact on disk.
\<close>

theorem checkup_pass_verified:
  assumes "run_checkup_plan W jid root plan = (r, anns, evs)" and "ck_status r = ''passed''"
  shows "cw_docker W \<and> cp_steps plan \<noteq> [] \<and> map sr_id (ck_steps r) = map cs_id (cp_steps plan) \<and>
         list_all (post_holds W (path_clean root)) (cp_steps plan) \<and>
         list_all (service_healthy W jid) (cp_services plan)"
proof -
  from run_plan_cases [OF assms(1)] assms(2) obtain net es where
    p: "run_prepared_plan W jid (path_clean root) net plan = (r, anns, es)" "cw_docker W" "cp_steps plan \<noteq> []"
       "\<forall>sv \<in> set (cp_services plan). service_healthy W jid sv" by auto
  have all: "list_all sr_ok (ck_steps r)"
    using prepared_plan [OF p(1)] assms(2) by (auto simp: Let_def split: if_splits)
  have "\<exists>sib. ck_steps r = map (\<lambda>st. fst (run_checkup_step W jid (path_clean root) net (cp_image plan) (cp_env plan)
          (resolve_checkup_secrets (cw_getenv W) (cp_secrets plan)) sib st)) (cp_steps plan)"
    using prepared_plan [OF p(1)] assms(2) unfolding Let_def by fastforce
  then obtain sib where "ck_steps r = map (\<lambda>st. fst (run_checkup_step W jid (path_clean root) net (cp_image plan)
          (cp_env plan) (resolve_checkup_secrets (cw_getenv W) (cp_secrets plan)) sib st)) (cp_steps plan)" by blast
  with p all show ?thesis by (simp add: list_all_iff run_step_ok comp_def)
qed

subsection \<open>Only what the policy allows\<close>

lemma resolve_secrets_grantable: "fst ` set (resolve_checkup_secrets getenv names) \<subseteq> set grantable_secrets"
proof -
  define f where "f = (\<lambda>n out. let uk = to_upper (trim_space n); v = trim_space (getenv uk);
       alias = (if uk = ''NPM_AUTH'' \<or> uk = ''NPM_TOKEN'' then trim_space (getenv ''NPM_TOKEN'') else [])
       in if uk \<notin> set grantable_secrets then out
          else if v \<noteq> [] then AList.update uk v out
          else if alias \<noteq> [] then AList.update uk alias out else (out :: (string \<times> string) list))"
  have step: "fst ` set out \<subseteq> set grantable_secrets \<Longrightarrow> fst ` set (f n out) \<subseteq> set grantable_secrets" for n out
    by (auto simp: f_def Let_def dom_update split: if_splits)
  have "fst ` set out \<subseteq> set grantable_secrets \<Longrightarrow> fst ` set (fold f names out) \<subseteq> set grantable_secrets" for out
    using step by (induction names arbitrary: out) auto
  from this [of "[]"] show ?thesis by (simp add: resolve_checkup_secrets_def f_def)
qed

lemma env_clean_fold:
  "env_clean P env \<Longrightarrow> env_clean P kvs \<Longrightarrow> env_clean P (fold (\<lambda>(k, v). AList.update k v) kvs env)"
proof (induction kvs arbitrary: env)
  case (Cons kv kvs)
  then show ?case using env_clean_update [of P env] by (cases kv) (auto simp: env_clean_def)
qed simp

lemma plan_env_weaker: "env_clean (plan_env_refused P) env \<Longrightarrow> env_clean (step_env_refused P) env"
  by (auto simp: env_clean_def list_all_iff plan_env_refused_def step_env_refused_def)

definition box_ok :: "checkup_world \<Rightarrow> (string \<Rightarrow> bool) \<Rightarrow> string \<Rightarrow> sandbox_exec \<Rightarrow> env_map \<Rightarrow> (string \<times> string) list \<Rightarrow> bool" where
  "box_ok W looks_secret jid box envm secs \<longleftrightarrow>
     sx_argv box \<noteq> [] \<and> checkup_argv_binary (sx_argv box ! 0) \<in> set binary_allowlist \<and>
     image_allowed (cw_getenv W) (sx_image box) \<and> sx_phase box = PhCheckup \<and> sx_job box = jid \<and>
     env_clean (step_env_refused looks_secret) envm \<and> fst ` set secs \<subseteq> set grantable_secrets \<and>
     (secs \<noteq> [] \<longrightarrow> checkup_argv_binary (sx_argv box ! 0) \<in> set install_binaries)"

lemma policed_steps_ok:
  assumes run: "run_checkup_plan W jid root plan = (r, anns, evs)" and ok: "plan_ok (cw_getenv W) P plan"
    and ev: "CkStep box envm secs \<in> set evs"
  shows "box_ok W P jid box envm secs \<and> cw_docker W"
proof -
  have ev': "CkStep box envm secs \<in> set (step_events evs)" using ev by (simp add: step_events_def)
  with run_plan_cases [OF run] obtain net es where
    p: "run_prepared_plan W jid (path_clean root) net plan = (r, anns, es)" "cw_docker W" "step_events evs = step_events es"
    by auto
  from prepared_plan [OF p(1)] ev' p(3) obtain sib where
    "step_events es = map (\<lambda>st. snd (snd (run_checkup_step W jid (path_clean root) net (cp_image plan) (cp_env plan)
          (resolve_checkup_secrets (cw_getenv W) (cp_secrets plan)) sib st))) (cp_steps plan)"
    by (auto simp: Let_def)
  with ev' p(3) obtain st where st: "st \<in> set (cp_steps plan)"
    "box = step_box jid (path_clean root) net (cp_image plan) sib st"
    "envm = fold (\<lambda>(k, v). AList.update k v) (cs_env st) (cp_env plan)"
    "secs = step_secrets (resolve_checkup_secrets (cw_getenv W) (cp_secrets plan)) st"
    by auto
  have "step_ok P st" "image_allowed (cw_getenv W) (cp_image plan)" "env_clean (plan_env_refused P) (cp_env plan)"
    using ok st(1) by (auto simp: plan_ok_def list_all_iff)
  moreover from this have "env_clean (step_env_refused P) envm"
    unfolding st(3) by (intro env_clean_fold [OF plan_env_weaker]) (simp_all add: step_ok_def)
  ultimately show ?thesis
    using p(2) resolve_secrets_grantable [of "cw_getenv W" "cp_secrets plan"]
    by (auto simp: box_ok_def st step_box_def step_ok_def step_secrets_def split: if_splits)
qed

lemma agent_runs_plan:
  assumes "run_checkup_agent env W P dec fs conn cid j s = (j', err, evs, ups, s')" and "evs \<noteq> []"
  shows "\<exists>root r anns. run_checkup_plan W (j_id j) root
           (fst (intersect_spec_with_policy (cw_getenv W) P (Some (derive_checkup_plan (cw_getenv W) dec fs)))) = (r, anns, evs) \<and>
         checkup_enabled (fst (run_prefs (j_run_id j) s))"
proof -
  obtain p s1 where p: "run_prefs (j_run_id j) s = (p, s1)" by force
  obtain root s2 where root: "checkout_path_for_run (cw_docker W) (j_run_id j) s1 = (root, s2)" by force
  obtain denied i where d: "(if github_use_mock_api (cw_getenv W) conn then (None, j)
      else ensure_github_write_allowed (cw_getenv W) j conn) = (denied, i)" by force
  have keep: "j_id i = j_id j"
    using d by (auto simp: ensure_github_write_allowed_def split: if_splits sum.splits option.splits)
  obtain plan drops where q: "intersect_spec_with_policy (cw_getenv W) P
      (Some (derive_checkup_plan (cw_getenv W) dec fs)) = (plan, drops)" by force
  obtain r anns es where run: "run_checkup_plan W (j_id j) root plan = (r, anns, es)" by (metis prod_cases3)
  have "checkup_enabled p" "cw_docker W" "root \<noteq> []" "denied = None"
    using assms p root d by (auto simp: run_checkup_agent_def Let_def split: if_splits option.splits)
  with assms p root d q run keep have "es = evs"
    by (auto simp: run_checkup_agent_def Let_def)
  with run q p \<open>checkup_enabled p\<close> show ?thesis by auto
qed

text \<open>
  C2: the checkup agent executes nothing the policy does not allow.  Whatever plan the tree of the
  pull request carries, each box it starts runs an allow-listed command in an allowed image, in the
  checkup phase, under the agent's own job id and in the docker sandbox, with no variable that looks
  like a secret or redirects the proxy; only grantable secrets are handed over, and only to an
  install command; and the preferences of the run asked for checkups.
\<close>

theorem checkup_executes_only_policed:
  assumes "run_checkup_agent env W looks_secret dec fs conn cid j s = (j', err, evs, ups, s')"
    and "CkStep box envm secs \<in> set evs"
  shows "box_ok W looks_secret (j_id j) box envm secs \<and> cw_docker W \<and>
         checkup_enabled (fst (run_prefs (j_run_id j) s))"
proof -
  have "evs \<noteq> []" using assms(2) by auto
  from agent_runs_plan [OF assms(1) this] obtain root r anns where
    "run_checkup_plan W (j_id j) root
       (fst (intersect_spec_with_policy (cw_getenv W) looks_secret (Some (derive_checkup_plan (cw_getenv W) dec fs)))) =
     (r, anns, evs)" "checkup_enabled (fst (run_prefs (j_run_id j) s))" by blast
  from policed_steps_ok [OF this(1) policed_plan_ok assms(2)] this(2) show ?thesis by blast
qed

subsection \<open>Samples\<close>

definition sample_world :: checkup_world where
  "sample_world =
     \<lparr>cw_getenv = (\<lambda>k. if k = ''OPA_SCM_MOCK_GITHUB'' then ''1'' else []), cw_host = None, cw_docker = True,
      cw_cli = None, cw_network = Inr ''n'', cw_env_file = (\<lambda>_. Inr ''/f''), cw_run = (\<lambda>_. None),
      cw_image_health = (\<lambda>_. Inr True), cw_polls = (\<lambda>_. [PollStatus ''healthy'']), cw_proxy = True,
      cw_xml = \<lparr>xd_suites = (\<lambda>_. None), xd_suite = (\<lambda>_. None), xd_style = (\<lambda>_. None)\<rparr>,
      cw_read = (\<lambda>_. None), cw_exists = (\<lambda>_. True), cw_is_dir = (\<lambda>_. True), cw_ready = (\<lambda>_ _. False),
      cw_copy = (\<lambda>_ _. None), cw_step = (\<lambda>_. (None, ''ok'', 5)), cw_service_error = (\<lambda>_. ''argv'')\<rparr>"

definition sample_root :: string where "sample_root = ''/opa-jobs/r1/primary''"

lemma sample_plan_runs: "ck_status (fst (run_checkup_plan sample_world ''k1'' sample_root sample_plan)) = ''passed''"
  by code_simp

lemma checkup_pass_verified_witness:
  "post_holds sample_world sample_root (hd (cp_steps sample_plan))"
proof -
  obtain r anns evs where r: "run_checkup_plan sample_world ''k1'' sample_root sample_plan = (r, anns, evs)"
    by (metis prod_cases3)
  have "ck_status r = ''passed''" using sample_plan_runs r by simp
  moreover have "path_clean sample_root = sample_root" "cp_steps sample_plan \<noteq> []" by code_simp+
  ultimately show ?thesis
    using checkup_pass_verified [OF r] by (simp add: list_all_iff)
qed

definition checkup_store :: scm_state where
  "checkup_store = store_of
     [(''r1'', (sample_job ''r1'' ''run'' [] ''abc'' ''running'')\<lparr>j_summary :=
         [(''prefs'', JObj [(''trigger_mode'', JStr ''every_push''), (''checkup_enabled'', JBool True)]),
          (''checkout_path'', JStr ''/opa-jobs/r1/primary'')]\<rparr>)]"

definition sample_tree :: tree_fs where
  "sample_tree = \<lparr>tf_read = (\<lambda>_. None), tf_rules = [], tf_exists = (\<lambda>p. p = ''go.mod'')\<rparr>"

definition sample_checkup where
  "sample_checkup = run_checkup_agent sample_env sample_world (\<lambda>_. False) (\<lambda>_. Inl ''json'') sample_tree None 9
     ((sample_job ''k1'' ''checkup'' ''r1'' ''abc'' ''running'')\<lparr>j_run_id := ''r1''\<rparr>) checkup_store"

definition step_argvs :: "checkup_event list \<Rightarrow> string list list" where
  "step_argvs evs = List.map_filter (\<lambda>e. case e of CkStep b x y \<Rightarrow> Some (sx_argv b) | _ \<Rightarrow> None) evs"

definition go_plan :: checkup_plan where
  "go_plan =
     \<lparr>cp_version = 1, cp_image = ''golang:1.25'',
      cp_steps = [plan_step ''go-test'' [''go'', ''test'', ''./...''] (no_post\<lparr>po_kind := ''exit0''\<rparr>) 1200],
      cp_services = [], cp_env = [], cp_secrets = [], cp_source = ''heuristic''\<rparr>"

lemma sample_derived:
  "derive_checkup_plan (cw_getenv sample_world) (\<lambda>_. Inl ''json'') sample_tree = go_plan"
  by code_simp

lemma sample_policed:
  "intersect_spec_with_policy (cw_getenv sample_world) (\<lambda>_. False) (Some go_plan) = (go_plan, [])"
  by code_simp

lemma go_plan_runs:
  "step_argvs (snd (snd (run_checkup_plan sample_world ''k1'' sample_root go_plan))) = [[''go'', ''test'', ''./...'']]"
  by code_simp

lemma checkup_store_reads:
  "run_prefs ''r1'' checkup_store = (prefs_of_obj [(''trigger_mode'', JStr ''every_push''), (''checkup_enabled'', JBool True)], checkup_store)"
  "checkout_path_for_run True ''r1'' checkup_store = (sample_root, checkup_store)"
  "checkup_enabled (prefs_of_obj [(''trigger_mode'', JStr ''every_push''), (''checkup_enabled'', JBool True)])"
proof -
  let ?r = "(sample_job ''r1'' ''run'' [] ''abc'' ''running'')\<lparr>j_summary :=
         [(''prefs'', JObj [(''trigger_mode'', JStr ''every_push''), (''checkup_enabled'', JBool True)]),
          (''checkout_path'', JStr ''/opa-jobs/r1/primary'')]\<rparr>"
  have r: "live_job ''r1'' checkup_store = Some ?r"
    by (simp add: checkup_store_def store_of_def live_job_def)
  have "agent_prefs_from_summary ?r = prefs_of_obj [(''trigger_mode'', JStr ''every_push''), (''checkup_enabled'', JBool True)]"
    by code_simp
  with r show "run_prefs ''r1'' checkup_store = (prefs_of_obj [(''trigger_mode'', JStr ''every_push''), (''checkup_enabled'', JBool True)], checkup_store)"
    by (simp add: run_prefs_def get_scm_job_def)
  have c: "child_by_kind ''r1'' KPrepare checkup_store = (None, checkup_store)"
    by (simp add: child_by_kind_def list_run_children_def get_scm_job_def live_job_def checkup_store_def store_of_def
      child_ids_of_def sget_def jget_def child_jobs_def sample_job_def List.map_filter_def)
  have "recorded_checkout True (Some ?r) = sample_root" "recorded_checkout True None = []" by code_simp+
  with r c show "checkout_path_for_run True ''r1'' checkup_store = (sample_root, checkup_store)"
    by (simp add: checkout_path_for_run_def get_scm_job_def Let_def)
  show "checkup_enabled (prefs_of_obj [(''trigger_mode'', JStr ''every_push''), (''checkup_enabled'', JBool True)])"
    by code_simp
qed

lemma sample_checkup_runs: "step_argvs (fst (snd (snd sample_checkup))) = [[''go'', ''test'', ''./...'']]"
proof -
  let ?j = "(sample_job ''k1'' ''checkup'' ''r1'' ''abc'' ''running'')\<lparr>j_run_id := ''r1''\<rparr>"
  have w: "cw_docker sample_world" "github_use_mock_api (cw_getenv sample_world) None" "sample_root \<noteq> []" by code_simp+
  have "fst (snd (snd sample_checkup)) = snd (snd (run_checkup_plan sample_world ''k1'' sample_root go_plan))"
    by (simp add: sample_checkup_def run_checkup_agent_def checkup_store_reads w sample_derived sample_policed Let_def
        case_prod_unfold) (simp add: sample_job_def)
  with go_plan_runs show ?thesis by simp
qed

lemma checkup_executes_only_policed_witness:
  "\<exists>box envm secs. box_ok sample_world (\<lambda>_. False) ''k1'' box envm secs \<and> sx_argv box = [''go'', ''test'', ''./...'']"
proof -
  obtain j' err evs ups s' where r: "sample_checkup = (j', err, evs, ups, s')" by (metis prod_cases5)
  then have "step_argvs evs = [[''go'', ''test'', ''./...'']]" using sample_checkup_runs by (metis fst_conv snd_conv)
  then have "[''go'', ''test'', ''./...''] \<in> set (step_argvs evs)" by simp
  then obtain box envm secs where b: "CkStep box envm secs \<in> set evs" "sx_argv box = [''go'', ''test'', ''./...'']"
    by (auto simp: step_argvs_def List.map_filter_def split: checkup_event.splits option.splits if_splits)
  have "j_id ((sample_job ''k1'' ''checkup'' ''r1'' ''abc'' ''running'')\<lparr>j_run_id := ''r1''\<rparr>) = ''k1''"
    by (simp add: sample_job_def)
  with checkup_executes_only_policed [OF r [unfolded sample_checkup_def] b(1)] b(2) show ?thesis by metis
qed

subsection \<open>Sibling modules stay in the layout\<close>

lemma prepare_replace_copies:
  assumes "prepare_replace ready copy roots root g (rep, cs) = (rep', cs')"
    and "list_all (\<lambda>(a, t). path_under t (path_dir root) \<and> (\<exists>r \<in> set roots. \<exists>n. a = path_join [r, n])) cs"
  shows "list_all (\<lambda>(a, t). path_under t (path_dir root) \<and> (\<exists>r \<in> set roots. \<exists>n. a = path_join [r, n])) cs'"
proof -
  have w: "x \<in> set roots \<Longrightarrow> \<exists>r \<in> set roots. \<exists>n. path_join [x, y] = path_join [r, n]" for x y by blast
  have f: "r \<in> set roots" if "List.find (\<lambda>s. ready cs (path_join [s, gm_name g])) roots = Some r" for r
    using that by (auto simp: find_Some_iff)
  show ?thesis
    using assms f w by (auto simp: prepare_replace_def Let_def split: if_splits option.splits)
qed

text \<open>
  The directories a go.mod asks for are only materialised inside the layout of the job.  Every
  copy the preparation makes goes to a path under the directory of the checkout, whatever the
  replace directives say, and comes from below one of the roots the operator configured.
\<close>

theorem workspace_copies_in_layout:
  assumes "prepare_checkup_workspace getenv ready copy read root = (rep, copied)"
    and "(src, target) \<in> set copied"
  shows "path_under target (path_dir (path_clean root)) \<and>
         (\<exists>r \<in> set (module_source_roots getenv). \<exists>n. src = path_join [r, n])"
proof -
  let ?Q = "\<lambda>cs. list_all (\<lambda>(a, t). path_under t (path_dir (path_clean root)) \<and>
      (\<exists>r \<in> set (module_source_roots getenv). \<exists>n. a = path_join [r, n])) cs"
  have "?Q (snd (fold (prepare_replace ready copy (module_source_roots getenv) (path_clean root)) gs (rep0, cs)))"
    if "?Q cs" for gs rep0 cs
    using that
  proof (induction gs arbitrary: rep0 cs)
    case (Cons g gs)
    obtain rep1 cs1 where s: "prepare_replace ready copy (module_source_roots getenv) (path_clean root) g (rep0, cs) = (rep1, cs1)"
      by force
    from Cons.IH [OF prepare_replace_copies [OF s Cons.prems]] s show ?case by simp
  qed simp
  note gen = this
  have q: "?Q copied"
  proof (cases "read (path_join [path_clean root, ''go.mod''])")
    case None
    with assms(1) have "copied = []" by (simp add: prepare_checkup_workspace_def)
    then show ?thesis by simp
  next
    case (Some txt0)
    with assms(1) have c: "copied = snd (fold (prepare_replace ready copy (module_source_roots getenv) (path_clean root))
        (parse_go_mod_replaces txt0) (empty_report, []))"
      by (simp add: prepare_checkup_workspace_def)
    show ?thesis unfolding c by (rule gen) simp
  qed
  from bspec [OF q [unfolded list_all_iff] assms(2)] show ?thesis by simp
qed

definition sample_go_mod :: string where
  "sample_go_mod = ''module m'' @ nl @ ''replace x/lib => ../Lib'' @ nl @ ''replace x/etc => ../../../etc''"

lemma workspace_copies_in_layout_witness:
  "path_under ''/opa-jobs/r1/Lib'' (path_dir (path_clean sample_root))"
proof -
  let ?g = "\<lambda>k. if k = ''FAMILY_ROOT'' then ''/src'' else []"
  let ?p = "prepare_checkup_workspace ?g (\<lambda>cs p. p = ''/src/Lib'') (\<lambda>_ _. None)
      (\<lambda>p. if p = ''/opa-jobs/r1/primary/go.mod'' then Some sample_go_mod else None) sample_root"
  have f: "path_clean sample_root = sample_root" "path_join [sample_root, ''go.mod''] = ''/opa-jobs/r1/primary/go.mod''"
    "parse_go_mod_replaces sample_go_mod =
      [\<lparr>gm_module = ''x/lib'', gm_rel = ''../Lib'', gm_name = ''Lib''\<rparr>,
       \<lparr>gm_module = ''x/etc'', gm_rel = ''../../../etc'', gm_name = ''etc''\<rparr>]"
    "module_source_roots ?g = [''/src'']"
    "path_clean (path_join [sample_root, ''../Lib'']) = ''/opa-jobs/r1/Lib''"
    "path_clean (path_join [sample_root, ''../../../etc'']) = ''/etc''"
    "path_under ''/opa-jobs/r1/Lib'' (path_dir sample_root)" "\<not> path_under ''/etc'' (path_dir sample_root)"
    "path_join [''/src'', ''Lib''] = ''/src/Lib''"
    by code_simp+
  have "snd ?p = [(''/src/Lib'', ''/opa-jobs/r1/Lib'')]"
    by (simp add: prepare_checkup_workspace_def prepare_replace_def f empty_report_def)
  then have m: "?p = (fst ?p, [(''/src/Lib'', ''/opa-jobs/r1/Lib'')])" by (metis prod.collapse)
  from workspace_copies_in_layout [OF m, of "''/src/Lib''" "''/opa-jobs/r1/Lib''"] show ?thesis by simp
qed

subsection \<open>Batches\<close>

lemma concat_batches: "concat (batches xs) = xs"
proof (induction xs rule: batches.induct)
  case (2 x xs)
  have "take 49 xs @ drop 49 xs = xs" by simp
  with 2 show ?case by (simp add: annotation_limit_def)
qed simp

lemma batches_bound: "b \<in> set (batches xs) \<Longrightarrow> length b \<le> annotation_limit \<and> b \<noteq> []"
  by (induction xs rule: batches.induct) (auto simp: annotation_limit_def)

lemma updates_concat: "concat (map (\<lambda>u. snd (snd u)) (annotation_updates c bs)) = concat bs"
  by (induction c bs rule: annotation_updates.induct) auto

lemma updates_slices: "u \<in> set (annotation_updates c bs) \<Longrightarrow> snd (snd u) \<in> insert [] (set bs)"
  by (induction c bs rule: annotation_updates.induct) auto

lemma updates_completed:
  "map fst (filter (\<lambda>u. fst u = ''completed'') (annotation_updates c bs)) = [''completed''] \<and>
   (fst (last (annotation_updates c bs)), fst (snd (last (annotation_updates c bs)))) = (''completed'', c) \<and>
   annotation_updates c bs \<noteq> []"
  by (induction c bs rule: annotation_updates.induct) auto

text \<open>
  The annotations of a checkup reach GitHub complete and in order.  The slices of the updates
  put together are the annotations, no slice is above GitHub's limit of fifty, and exactly one
  update, the last, completes the check run, with the conclusion.
\<close>

theorem annotations_delivered:
  "concat (map (\<lambda>u. snd (snd u)) (annotation_updates c (batches anns))) = anns \<and>
   list_all (\<lambda>u. length (snd (snd u)) \<le> annotation_limit) (annotation_updates c (batches anns)) \<and>
   length (filter (\<lambda>u. fst u = ''completed'') (annotation_updates c (batches anns))) = 1 \<and>
   fst (last (annotation_updates c (batches anns))) = ''completed'' \<and>
   fst (snd (last (annotation_updates c (batches anns)))) = c"
proof -
  let ?us = "annotation_updates c (batches anns)"
  have m: "map fst (filter (\<lambda>u. fst u = ''completed'') ?us) = [''completed'']"
    using updates_completed [of c "batches anns"] by blast
  have "length (map fst (filter (\<lambda>u. fst u = ''completed'') ?us)) = 1" unfolding m by simp
  then have "length (filter (\<lambda>u. fst u = ''completed'') ?us) = 1" by (simp only: length_map)
  moreover have "length (snd (snd u)) \<le> annotation_limit" if "u \<in> set ?us" for u
    using updates_slices [OF that] batches_bound [of "snd (snd u)" anns] by auto
  ultimately show ?thesis
    using updates_completed [of c "batches anns"]
    by (simp add: updates_concat concat_batches list_all_iff)
qed

end
