(* ===== verification/Checkup_Plan_Laws.thy ===== *)
theory Checkup_Plan_Laws
  imports Checkup_Plan Checkup_Laws
begin

text \<open>
  The plan the program derives by itself survives its own policy, and what an instruction file may
  contribute.
\<close>

definition clean_step :: "(string \<Rightarrow> bool) \<Rightarrow> checkup_step \<Rightarrow> bool" where
  "clean_step P st \<longleftrightarrow>
     trim_space (cs_id st) = cs_id st \<and> cs_id st \<noteq> [] \<and>
     (case police_step P (cs_id st) {} st of (taken, kept, d) \<Rightarrow> taken \<and> kept \<noteq> None \<and> d = [])"

lemma police_step_seen:
  "sid \<notin> seen \<Longrightarrow> police_step P sid seen st = police_step P sid {} st"
  by (simp add: police_step_def)

lemma clean_steps_no_drops:
  assumes "list_all (clean_step P) sts" "distinct (map cs_id sts)" "cs_id ` set sts \<inter> seen = {}"
    and "length out + length sts \<le> checkup_max_steps"
  shows "snd (police_steps P i sts seen out) = []"
  using assms
proof (induction sts arbitrary: i seen out)
  case (Cons st sts)
  let ?p = "police_step P (cs_id st) {} st"
  obtain kept where p: "?p = (True, Some kept, [])" and s: "trim_space (cs_id st) = cs_id st" "cs_id st \<noteq> []"
    using Cons.prems(1) by (auto simp: clean_step_def split: prod.splits)
  have "cs_id st \<notin> seen" using Cons.prems(3) by auto
  then have q: "police_step P (cs_id st) seen st = (True, Some kept, [])" using p police_step_seen by metis
  have "snd (police_steps P (Suc i) sts (insert (cs_id st) seen) (out @ [kept])) = []"
    using Cons.prems by (intro Cons.IH) auto
  moreover have "\<not> checkup_max_steps \<le> length out" using Cons.prems(4) by simp
  ultimately show ?case using s q by (simp add: Let_def)
qed simp

lemma composer_steps_clean: "list_all (clean_step P) (composer_steps fs phpunit)"
proof -
  let ?install = "plan_step ''composer-install''
        [''composer'', ''install'', ''--no-interaction'', ''--prefer-dist'', ''--no-scripts'', ''--no-plugins'']
        (artifact_post ''vendor/autoload.php'') 900"
  let ?unit = "plan_step ''phpunit-unit''
           [''vendor/bin/phpunit'', ''--testsuite'', ''Unit Tests'', ''--log-junit'', ''build/junit-unit.xml'']
           (no_post\<lparr>po_kind := ''junit'', po_path := ''build/junit-unit.xml'', po_min := 1\<rparr>) 1200"
  let ?stan = "\<lambda>more. plan_step ''phpstan'' ([''vendor/bin/phpstan'', ''analyse'', ''--no-progress'', ''--error-format=checkstyle''] @ more)
        (no_post\<lparr>po_kind := ''checkstyle''\<rparr>) 1200"
  have c: "clean_step P ?install" "clean_step P ?unit" "clean_step P (?stan [])"
      "clean_step P (?stan [''-c'', ''phpstan.neon.dist''])" "clean_step P (?stan [''-c'', ''phpstan.dist.neon''])"
    by code_simp+
  have "find_phpstan_config fs \<in> {[], ''phpstan.neon'', ''phpstan.neon.dist'', ''phpstan.dist.neon''}"
    by (simp add: find_phpstan_config_def phpstan_configs_def)
  then have "phpstan_heuristic_step fs \<in> {None, Some (?stan []), Some (?stan [''-c'', ''phpstan.neon.dist'']),
      Some (?stan [''-c'', ''phpstan.dist.neon''])}"
    by (auto simp: phpstan_heuristic_step_def)
  with c show ?thesis by (auto simp: composer_steps_def)
qed

lemma composer_steps_ids:
  "map cs_id (composer_steps fs phpunit) \<in>
     {[''composer-install''], [''composer-install'', ''phpunit-unit''], [''composer-install'', ''phpstan''],
      [''composer-install'', ''phpunit-unit'', ''phpstan'']}"
  by (auto simp: composer_steps_def plan_step_def phpstan_heuristic_step_def Let_def)

lemma node_step_clean:
  "clean_step P (plan_step ''node-install'' (node_argv fs) (artifact_post ''node_modules'') 900)"
proof -
  have "clean_step P (plan_step ''node-install'' [''yarn'', ''install'', ''--immutable''] (artifact_post ''node_modules'') 900)"
    "clean_step P (plan_step ''node-install'' [''npm'', ''install'', ''--no-fund'', ''--no-audit''] (artifact_post ''node_modules'') 900)"
    "clean_step P (plan_step ''node-install'' [''npm'', ''ci''] (artifact_post ''node_modules'') 900)"
    by code_simp+
  then show ?thesis by (simp add: node_argv_def)
qed

lemma go_step_clean:
  "clean_step P (plan_step ''go-test'' [''go'', ''test'', ''./...''] (no_post\<lparr>po_kind := ''exit0''\<rparr>) 1200)"
  by code_simp

lemma heuristic_steps_clean:
  "list_all (clean_step P) (cp_steps (heuristic_checkup_plan getenv fs)) \<and>
   distinct (map cs_id (cp_steps (heuristic_checkup_plan getenv fs))) \<and>
   length (cp_steps (heuristic_checkup_plan getenv fs)) \<le> checkup_max_steps"
proof -
  let ?c = "composer_steps fs (tf_exists fs ''phpunit.xml'' \<or> tf_exists fs ''phpunit.xml.dist'')"
  have len: "length ?c = length (map cs_id ?c)" by simp
  have ids: "cs_id (plan_step ''node-install'' (node_argv fs) (artifact_post ''node_modules'') 900) = ''node-install''"
    "cs_id (plan_step ''go-test'' [''go'', ''test'', ''./...''] (no_post\<lparr>po_kind := ''exit0''\<rparr>) 1200) = ''go-test''"
    by (simp_all add: plan_step_def)
  have "distinct (map cs_id ?c @ [''node-install'', ''go-test''])" "length ?c \<le> 3"
    unfolding len using composer_steps_ids [of fs "tf_exists fs ''phpunit.xml'' \<or> tf_exists fs ''phpunit.xml.dist''"] by auto
  then have "distinct (map cs_id ?c)" "''node-install'' \<notin> set (map cs_id ?c)" "''go-test'' \<notin> set (map cs_id ?c)"
      "length ?c \<le> 3" by auto
  then show ?thesis
    using composer_steps_clean node_step_clean go_step_clean
    by (simp add: heuristic_checkup_plan_def Let_def ids checkup_max_steps_def)
qed

text \<open>
  The plan the program derives by itself survives its own policy.  In the default environment,
  for every combination of the manifest files a tree may hold, the policy drops nothing of the
  heuristic plan.
\<close>

theorem heuristic_plan_survives:
  "snd (intersect_spec_with_policy (\<lambda>_. []) looks_secret (Some (heuristic_checkup_plan (\<lambda>_. []) fs))) = []"
proof -
  let ?p = "heuristic_checkup_plan (\<lambda>_. []) fs"
  have img: "cp_image ?p \<in> {''ora-runner-ai:smoke'', ''ora-runner-php:smoke'', ''node:22'', ''golang:1.25''}"
  proof -
    have "default_checkup_image (\<lambda>_. []) = ''ora-runner-ai:smoke''" "default_php_checkup_image (\<lambda>_. []) = ''ora-runner-php:smoke''"
      "default_go_checkup_image (\<lambda>_. []) = ''golang:1.25''" "nz [] ''node:22'' = ''node:22''" by code_simp+
    then show ?thesis by (simp add: heuristic_checkup_plan_def Let_def)
  qed
  have i: "snd (police_image (\<lambda>_. []) img) = []"
    if "img \<in> {''ora-runner-ai:smoke'', ''ora-runner-php:smoke'', ''node:22'', ''golang:1.25''}" for img
  proof -
    have "snd (police_image (\<lambda>_. []) ''ora-runner-ai:smoke'') = []" "snd (police_image (\<lambda>_. []) ''ora-runner-php:smoke'') = []"
      "snd (police_image (\<lambda>_. []) ''node:22'') = []" "snd (police_image (\<lambda>_. []) ''golang:1.25'') = []"
      by code_simp+
    with that show ?thesis by blast
  qed
  have a: "fst (police_image (\<lambda>_. []) img) \<noteq> []"
    if "img \<in> {''ora-runner-ai:smoke'', ''ora-runner-php:smoke'', ''node:22'', ''golang:1.25''}" for img
  proof -
    have "fst (police_image (\<lambda>_. []) ''ora-runner-ai:smoke'') \<noteq> []" "fst (police_image (\<lambda>_. []) ''ora-runner-php:smoke'') \<noteq> []"
      "fst (police_image (\<lambda>_. []) ''node:22'') \<noteq> []" "fst (police_image (\<lambda>_. []) ''golang:1.25'') \<noteq> []"
      by code_simp+
    with that show ?thesis by blast
  qed
  have c: "snd (police_secrets (cp_secrets ?p) []) = []"
  proof -
    have "snd (police_secrets [''COMPOSER_AUTH''] []) = []" by code_simp
    then show ?thesis by (simp add: heuristic_checkup_plan_def Let_def)
  qed
  have e: "cp_env ?p = []" "cp_services ?p = []" by (simp_all add: heuristic_checkup_plan_def Let_def)
  have s: "snd (police_steps looks_secret 0 (cp_steps ?p) {} []) = []"
    using heuristic_steps_clean [of looks_secret "\<lambda>_. []" fs] by (intro clean_steps_no_drops) auto
  show ?thesis
    using i [OF img] a [OF img] c e s
    by (simp add: intersect_spec_with_policy_def Let_def split: prod.split) (metis fst_conv snd_conv)
qed

end
