(* ===== verification/Ai_Settings.thy ===== *)
theory Ai_Settings
  imports Secret_Store Conn_Store Cloud_Run
begin

text \<open>
  The settings of the AI providers (\<^verbatim>\<open>src/ai_settings.go\<close>, the cursor-key handlers of
  \<^verbatim>\<open>src/scm_connectors.go\<close>, \<^verbatim>\<open>ensureOrgWideCLICursorKeys\<close> of \<^verbatim>\<open>src/cred_secrets.go\<close>): the settings kept in
  memory and in the mirror file, the keys resolved from the scoped secrets, and the requests that read
  and write them.  ClickHouse is \<open>ae_rows\<close>: the rows it serves of those written so far, at most as many as
  asked for.
\<close>

subsection \<open>Documents\<close>

record ai_http =
  ah_enabled :: bool
  ah_base :: string
  ah_key :: string
  ah_model :: string

record ai_cli =
  al_enabled :: bool
  al_key :: string
  al_model :: string
  al_bin :: string
  al_force :: bool

record ai_doc =
  ad_org :: string
  ad_proj :: string
  ad_scope :: string
  ad_user :: string
  ad_provider :: string
  ad_openai :: ai_http
  ad_anthropic :: ai_http
  ad_cli :: ai_cli
  ad_updated :: string
  ad_sources :: "(string \<times> string) list"

text \<open>The file mirror and the stored meta document: the keys in it are encrypted, or absent.\<close>

record ai_file =
  af_org :: string
  af_proj :: string
  af_provider :: string
  af_openai :: ai_http
  af_anthropic :: ai_http
  af_cli :: ai_cli
  af_updated :: string

record ai_env =
  ae_getenv :: genv
  ae_tenancy :: tenancy
  ae_now :: string
  ae_client :: bool
  ae_writer :: bool
  ae_rows :: "nat \<Rightarrow> secret_row list \<Rightarrow> string \<Rightarrow> secret_row list option"
  ae_enc :: "string \<Rightarrow> string option"
  ae_dec :: "string \<Rightarrow> string"
  ae_meta_text :: "ai_file \<Rightarrow> string"
  ae_meta :: "string \<Rightarrow> ai_file option"
  ae_file_ok :: bool

text \<open>\<open>as_file\<close> is the mirror file when it is there and decodes, \<open>as_rows\<close> the rows written, newest first.\<close>

record ai_state =
  as_doc :: ai_doc
  as_ready :: bool
  as_cursor :: "string \<times> string \<times> string"
  as_file :: "ai_file option"
  as_rows :: "secret_row list"

definition oam_configured :: "genv \<Rightarrow> bool" where
  "oam_configured getenv \<longleftrightarrow> peer_oam_base_url getenv \<noteq> []"

definition local_writes_blocked :: "ai_env \<Rightarrow> bool" where
  "local_writes_blocked E \<longleftrightarrow> peer_product_configured (ae_getenv E) ''PEER_OAM_URL''"

definition secret_query :: "ai_env \<Rightarrow> ai_state \<Rightarrow> string \<Rightarrow> secret_row list option" where
  "secret_query E s k = (if ae_client E then ae_rows E 30 (as_rows s) k else None)"

definition cursor_secret :: string where "cursor_secret = ''cursor_api_key''"

definition default_ai_doc :: "ai_env \<Rightarrow> string \<Rightarrow> string \<Rightarrow> ai_doc" where
  "default_ai_doc E org proj =
     (let get = env_or (ae_getenv E)
      in \<lparr>ad_org = org, ad_proj = proj, ad_scope = [], ad_user = [], ad_provider = ''auto'',
          ad_openai = \<lparr>ah_enabled = False, ah_base = get ''OPA_OPENAI_BASE_URL'' ''https://api.openai.com/v1'', ah_key = [],
                       ah_model = get ''OPA_OPENAI_MODEL'' ''gpt-4o-mini''\<rparr>,
          ad_anthropic = \<lparr>ah_enabled = False, ah_base = get ''OPA_ANTHROPIC_BASE_URL'' ''https://api.anthropic.com'', ah_key = [],
                          ah_model = get ''OPA_ANTHROPIC_MODEL'' ''claude-sonnet-4-20250514''\<rparr>,
          ad_cli = \<lparr>al_enabled = True, al_key = [], al_model = get ''OPA_CURSOR_MODEL'' ''auto'',
                    al_bin = get ''OPA_CURSOR_AGENT_BIN'' ''agent'', al_force = (get ''OPA_CURSOR_AGENT_FORCE'' ''0'' = ''1'')\<rparr>,
          ad_updated = ae_now E, ad_sources = []\<rparr>)"

text \<open>A value of the environment, when set, wins over a stored one.\<close>

definition env_wins :: "ai_env \<Rightarrow> string \<Rightarrow> string \<Rightarrow> string" where
  "env_wins E k v = (if trim_space (ae_getenv E k) \<noteq> [] then trim_space (ae_getenv E k) else v)"

definition apply_ai_env_overrides :: "ai_env \<Rightarrow> ai_doc \<Rightarrow> ai_doc" where
  "apply_ai_env_overrides E d =
     d\<lparr>ad_openai := (ad_openai d)\<lparr>ah_base := env_wins E ''OPA_OPENAI_BASE_URL'' (ah_base (ad_openai d)),
                       ah_model := env_wins E ''OPA_OPENAI_MODEL'' (ah_model (ad_openai d))\<rparr>,
       ad_anthropic := (ad_anthropic d)\<lparr>ah_base := env_wins E ''OPA_ANTHROPIC_BASE_URL'' (ah_base (ad_anthropic d)),
                       ah_model := env_wins E ''OPA_ANTHROPIC_MODEL'' (ah_model (ad_anthropic d))\<rparr>,
       ad_cli := (ad_cli d)\<lparr>al_bin := env_wins E ''OPA_CURSOR_AGENT_BIN'' (al_bin (ad_cli d)),
                       al_model := env_wins E ''OPA_CURSOR_MODEL'' (al_model (ad_cli d)),
                       al_force := (al_force (ad_cli d) \<or> ae_getenv E ''OPA_CURSOR_AGENT_FORCE'' = ''1'')\<rparr>\<rparr>"

subsection \<open>The settings in memory\<close>

definition http_from_file :: "ai_env \<Rightarrow> ai_http \<Rightarrow> ai_http \<Rightarrow> ai_http" where
  "http_from_file E f d =
     \<lparr>ah_enabled = ah_enabled f, ah_base = nz (ah_base f) (ah_base d), ah_key = (if ah_key f \<noteq> [] then ae_dec E (ah_key f) else ah_key d),
      ah_model = nz (ah_model f) (ah_model d)\<rparr>"

definition doc_from_file :: "ai_env \<Rightarrow> ai_file \<Rightarrow> ai_doc \<Rightarrow> ai_doc" where
  "doc_from_file E f d =
     d\<lparr>ad_org := af_org f, ad_proj := af_proj f, ad_provider := nz (af_provider f) ''auto'', ad_updated := af_updated f,
       ad_openai := http_from_file E (af_openai f) (ad_openai d), ad_anthropic := http_from_file E (af_anthropic f) (ad_anthropic d),
       ad_cli := \<lparr>al_enabled = al_enabled (af_cli f),
                  al_key = (if al_key (af_cli f) \<noteq> [] then ae_dec E (al_key (af_cli f)) else al_key (ad_cli d)),
                  al_model = nz (al_model (af_cli f)) (al_model (ad_cli d)), al_bin = nz (al_bin (af_cli f)) (al_bin (ad_cli d)),
                  al_force = al_force (af_cli f)\<rparr>\<rparr>"

definition hydrate_from_file :: "ai_env \<Rightarrow> ai_state \<Rightarrow> ai_state" where
  "hydrate_from_file E s =
     (let d = default_ai_doc E [] []; d = (case as_file s of None \<Rightarrow> d | Some f \<Rightarrow> doc_from_file E f d);
          (key, org, proj) = as_cursor s;
          d = (if key \<noteq> [] \<and> al_key (ad_cli d) = [] then
                 d\<lparr>ad_cli := (ad_cli d)\<lparr>al_key := key\<rparr>, ad_org := nz (ad_org d) org, ad_proj := nz (ad_proj d) proj\<rparr>
               else d);
          s = (if al_key (ad_cli d) \<noteq> [] then s\<lparr>as_cursor := (al_key (ad_cli d), ad_org d, ad_proj d)\<rparr> else s)
      in s\<lparr>as_doc := apply_ai_env_overrides E d, as_ready := True\<rparr>)"

definition load_ai_settings :: "ai_env \<Rightarrow> ai_state \<Rightarrow> ai_doc \<times> ai_state" where
  "load_ai_settings E s =
     (let s = (if as_ready s then s else hydrate_from_file E s) in (apply_ai_env_overrides E (as_doc s), s))"

subsection \<open>The keys of a tenant\<close>

definition set_openai_key :: "string \<Rightarrow> ai_doc \<Rightarrow> ai_doc" where
  "set_openai_key k d = d\<lparr>ad_openai := (ad_openai d)\<lparr>ah_key := k\<rparr>\<rparr>"

definition set_anthropic_key :: "string \<Rightarrow> ai_doc \<Rightarrow> ai_doc" where
  "set_anthropic_key k d = d\<lparr>ad_anthropic := (ad_anthropic d)\<lparr>ah_key := k\<rparr>\<rparr>"

definition set_cli_key :: "string \<Rightarrow> ai_doc \<Rightarrow> ai_doc" where
  "set_cli_key k d = d\<lparr>ad_cli := (ad_cli d)\<lparr>al_key := k\<rparr>\<rparr>"

definition http_from_meta :: "ai_http \<Rightarrow> ai_http \<Rightarrow> ai_http" where
  "http_from_meta m d =
     d\<lparr>ah_enabled := ah_enabled m, ah_base := (if ah_base m \<noteq> [] then ah_base m else ah_base d),
       ah_model := (if ah_model m \<noteq> [] then ah_model m else ah_model d)\<rparr>"

definition doc_from_meta :: "ai_file \<Rightarrow> ai_doc \<Rightarrow> ai_doc" where
  "doc_from_meta m d =
     d\<lparr>ad_provider := (if af_provider m \<noteq> [] then af_provider m else ad_provider d),
       ad_openai := http_from_meta (af_openai m) (ad_openai d), ad_anthropic := http_from_meta (af_anthropic m) (ad_anthropic d),
       ad_cli := (ad_cli d)\<lparr>al_enabled := al_enabled (af_cli m), al_force := al_force (af_cli m),
                   al_model := (if al_model (af_cli m) \<noteq> [] then al_model (af_cli m) else al_model (ad_cli d)),
                   al_bin := (if al_bin (af_cli m) \<noteq> [] then al_bin (af_cli m) else al_bin (ad_cli d))\<rparr>\<rparr>"

definition take_secret ::
  "ai_env \<Rightarrow> ai_state \<Rightarrow> cred_query \<Rightarrow> string \<Rightarrow> string \<Rightarrow> (string \<Rightarrow> ai_doc \<Rightarrow> ai_doc) \<Rightarrow> ai_doc \<Rightarrow> ai_doc" where
  "take_secret E s q logical name put d =
     (let h = resolve_scm_secret (secret_query E s) (ae_dec E) q logical
      in if sh_plain h \<noteq> [] then (put (sh_plain h) d)\<lparr>ad_sources := (name, sh_scope h) # ad_sources d\<rparr> else d)"

definition hydrate_ai_secrets :: "ai_env \<Rightarrow> ai_state \<Rightarrow> cred_query \<Rightarrow> ai_doc \<Rightarrow> ai_doc" where
  "hydrate_ai_secrets E s q d =
     (if oam_configured (ae_getenv E) \<or> \<not> ae_client E then apply_ai_env_overrides E d
      else
        let d = take_secret E s q ''ai_openai_api_key'' ''openai'' set_openai_key d;
            d = take_secret E s q ''ai_anthropic_api_key'' ''anthropic'' set_anthropic_key d;
            d = take_secret E s q cursor_secret ''cli_cursor'' set_cli_key d;
            meta = sh_plain (resolve_scm_secret (secret_query E s) (ae_dec E) q ''ai_settings_meta'');
            d = (if meta = [] then d else case ae_meta E meta of None \<Rightarrow> d | Some m \<Rightarrow> doc_from_meta m d)
        in apply_ai_env_overrides E d)"

definition drop_keys :: "ai_doc \<Rightarrow> ai_doc" where
  "drop_keys d = (set_openai_key [] (set_anthropic_key [] (set_cli_key [] d)))\<lparr>ad_sources := []\<rparr>"

definition get_ai_settings_for :: "ai_env \<Rightarrow> cred_query \<Rightarrow> ai_state \<Rightarrow> ai_doc \<times> ai_state" where
  "get_ai_settings_for E q s =
     (let (d, s) = load_ai_settings E s; d = drop_keys d;
          d = (if cq_admin_only q then d\<lparr>ad_scope := ''admin'', ad_org := [], ad_proj := [], ad_user := []\<rparr>
               else d\<lparr>ad_org := cq_org q, ad_proj := cq_proj q, ad_user := cq_user q,
                      ad_scope := (if cq_user q \<noteq> [] then ''user'' else ''org'')\<rparr>)
      in (hydrate_ai_secrets E s q d, s))"

subsection \<open>Storing\<close>

text \<open>The error of a write is dropped.\<close>

definition put_secret ::
  "ai_env \<Rightarrow> string \<Rightarrow> string \<Rightarrow> string \<Rightarrow> string \<Rightarrow> string \<Rightarrow> string \<Rightarrow> bool \<Rightarrow> ai_state \<Rightarrow> ai_state" where
  "put_secret E org proj scope user logical plain deleted s =
     (case persist_scm_secret_scoped (local_writes_blocked E) (ae_writer E) (ae_enc E) org proj scope user logical plain deleted of
        Inr (Some row) \<Rightarrow> s\<lparr>as_rows := row # as_rows s\<rparr>
      | _ \<Rightarrow> s)"

definition encrypted :: "ai_env \<Rightarrow> string \<Rightarrow> string" where
  "encrypted E k = (if k = [] then [] else case ae_enc E k of None \<Rightarrow> [] | Some ct \<Rightarrow> ct)"

definition file_of_doc :: "ai_env \<Rightarrow> ai_doc \<Rightarrow> ai_file" where
  "file_of_doc E d =
     \<lparr>af_org = ad_org d, af_proj = ad_proj d, af_provider = ad_provider d,
      af_openai = (ad_openai d)\<lparr>ah_key := encrypted E (ah_key (ad_openai d))\<rparr>,
      af_anthropic = (ad_anthropic d)\<lparr>ah_key := encrypted E (ah_key (ad_anthropic d))\<rparr>,
      af_cli = (ad_cli d)\<lparr>al_key := encrypted E (al_key (ad_cli d))\<rparr>, af_updated = ad_updated d\<rparr>"

text \<open>
  \<^verbatim>\<open>seedOrgCLICursorKeyForWebhooks\<close>: a saved key of the CLI agent is copied to the organization where it
  has none.
\<close>

definition seed_org_cli_key :: "ai_env \<Rightarrow> string \<Rightarrow> string \<Rightarrow> string \<Rightarrow> string \<Rightarrow> ai_state \<Rightarrow> ai_state" where
  "seed_org_cli_key E org proj scope plain s =
     (let plain = trim_space plain; org = trim_space org
      in if plain = [] \<or> org = [] \<or> scope = ''admin'' \<or> (scope \<noteq> ''user'' \<and> scope \<noteq> ''org'') then s
         else
           let s = (if scope = ''user'' \<and>
                       sh_plain (resolve_scm_secret (secret_query E s) (ae_dec E)
                         \<lparr>cq_org = org, cq_proj = proj, cq_user = [], cq_admin_only = False\<rparr> cursor_secret) = []
                    then put_secret E org proj ''org'' [] cursor_secret plain False s else s)
           in if sh_plain (load_scm_secret_at_scope (secret_query E s) (ae_dec E) org [] ''org'' [] cursor_secret) = []
              then put_secret E org [] ''org'' [] cursor_secret plain False s else s)"

definition put_if_set ::
  "ai_env \<Rightarrow> string \<Rightarrow> string \<Rightarrow> string \<Rightarrow> string \<Rightarrow> string \<Rightarrow> string \<Rightarrow> ai_state \<Rightarrow> ai_state" where
  "put_if_set E org proj scope user logical k s =
     (if k \<noteq> [] then put_secret E org proj scope user logical k False s else s)"

definition meta_of_doc :: "string \<Rightarrow> string \<Rightarrow> ai_doc \<Rightarrow> ai_file" where
  "meta_of_doc org proj d =
     \<lparr>af_org = org, af_proj = proj, af_provider = ad_provider d, af_openai = (ad_openai d)\<lparr>ah_key := []\<rparr>,
      af_anthropic = (ad_anthropic d)\<lparr>ah_key := []\<rparr>, af_cli = (ad_cli d)\<lparr>al_key := []\<rparr>, af_updated = ad_updated d\<rparr>"

definition persist_ai_settings :: "ai_env \<Rightarrow> ai_doc \<Rightarrow> ai_state \<Rightarrow> ai_state" where
  "persist_ai_settings E d s =
     (let d = d\<lparr>ad_updated := ae_now E\<rparr>; scope = infer_legacy_scope (ad_org d) (ad_scope d); admin = (scope = ''admin'');
          org = (if admin then [] else ad_org d); proj = (if admin then [] else ad_proj d); user = (if admin then [] else ad_user d);
          key = al_key (ad_cli d);
          s = s\<lparr>as_doc := d, as_ready := True\<rparr>;
          s = (if admin \<and> key \<noteq> [] then s\<lparr>as_cursor := (key, org, proj)\<rparr> else s);
          s = (if admin \<and> ae_file_ok E then s\<lparr>as_file := Some (file_of_doc E d)\<rparr> else s);
          s = put_if_set E org proj scope user ''ai_openai_api_key'' (ah_key (ad_openai d)) s;
          s = put_if_set E org proj scope user ''ai_anthropic_api_key'' (ah_key (ad_anthropic d)) s;
          s = (if key \<noteq> [] then
                 seed_org_cli_key E org proj scope key (put_secret E org proj scope user cursor_secret key False s)
               else s)
      in put_secret E org proj scope user ''ai_settings_meta'' (ae_meta_text E (meta_of_doc org proj d)) False s)"

subsection \<open>Who asks for which settings\<close>

record ai_request =
  ar_actor :: cred_actor
  ar_method :: string
  ar_scope :: string
  ar_admin :: string
  ar_role :: string
  ar_peer :: bool

definition writes :: "ai_request \<Rightarrow> bool" where
  "writes r \<longleftrightarrow> ar_method r = ''PUT'' \<or> ar_method r = ''POST''"

text \<open>\<^verbatim>\<open>aiResolveQueryFromRequest\<close>: the scope asked for, or the one an actor sees by default.\<close>

definition shown_scope :: "tenancy \<Rightarrow> ai_request \<Rightarrow> cred_error + string" where
  "shown_scope tn r =
     (if ar_scope r \<noteq> [] then normalize_cred_scope tn (ar_scope r) (ar_actor r)
      else Inr (if is_admin tn (ar_actor r) \<and> ac_org (ar_actor r) = [] \<and> ar_admin r = ''1'' then ''admin''
                else if ac_user (ar_actor r) \<noteq> [] then ''user'' else ''org''))"

definition ai_resolve_query :: "tenancy \<Rightarrow> ai_request \<Rightarrow> string \<Rightarrow> cred_error + (cred_query \<times> string)" where
  "ai_resolve_query tn r want =
     (let a = ar_actor r
      in case normalize_cred_scope tn want a of
           Inl e \<Rightarrow> Inl e
         | Inr scope \<Rightarrow>
             (case (if want = [] \<and> \<not> writes r then shown_scope tn r else Inr scope) of
                Inl e \<Rightarrow> Inl e
              | Inr scope \<Rightarrow>
                  (case (if writes r then can_write_cred_scope tn a scope else None) of
                     Some e \<Rightarrow> Inl e
                   | None \<Rightarrow>
                       (if scope = ''admin'' \<and> \<not> is_admin tn a then Inl ForbiddenScope
                        else if scope = ''org'' \<and> ac_org a = [] then Inl OrgNeedsOrg
                        else if scope = ''user'' \<and> ac_user a = [] \<and> tn_enforced tn then Inl UserNeedsUser
                        else
                          let (org, proj, user) = resolve_cred_target tn a scope
                          in Inr (\<lparr>cq_org = org, cq_proj = proj,
                                   cq_user = (if scope = ''user'' then nz user (ac_user a) else if scope = ''org'' then [] else user),
                                   cq_admin_only = (scope = ''admin'')\<rparr>, scope)))))"

subsection \<open>What is shown\<close>

text \<open>\<^verbatim>\<open>redactAISettings\<close>: a key is shown as set, with the scope it came from.\<close>

record key_view =
  kv_set :: bool
  kv_scope :: string
  kv_inherited :: bool

record ai_view =
  av_org :: string
  av_proj :: string
  av_scope :: string
  av_user :: string
  av_provider :: string
  av_openai :: "bool \<times> string \<times> string \<times> key_view"
  av_anthropic :: "bool \<times> string \<times> string \<times> key_view"
  av_cli :: "bool \<times> string \<times> string \<times> bool \<times> key_view"
  av_updated :: string

definition key_info :: "ai_doc \<Rightarrow> string \<Rightarrow> string \<Rightarrow> key_view" where
  "key_info d name key =
     (let source = (case map_of (ad_sources d) name of None \<Rightarrow> [] | Some sc \<Rightarrow> sc)
      in \<lparr>kv_set = (key \<noteq> []), kv_scope = source, kv_inherited = (source = ''org'' \<and> ad_scope d = ''user'')\<rparr>)"

definition redact_ai_settings :: "ai_doc \<Rightarrow> ai_view" where
  "redact_ai_settings d =
     (let http = (\<lambda>name h. (ah_enabled h, ah_base h, ah_model h, key_info d name (ah_key h))); c = ad_cli d
      in \<lparr>av_org = ad_org d, av_proj = ad_proj d, av_scope = nz (ad_scope d) ''org'', av_user = ad_user d,
          av_provider = nz (ad_provider d) ''auto'', av_openai = http ''openai'' (ad_openai d),
          av_anthropic = http ''anthropic'' (ad_anthropic d),
          av_cli = (al_enabled c, al_model c, al_bin c, al_force c, key_info d ''cli_cursor'' (al_key c)), av_updated = ad_updated d\<rparr>)"

text \<open>
  An answer: an error, the settings with the flags for editing them (organization, administrator, own),
  the settings after a change, or done.
\<close>

datatype ai_reply =
    AiErr nat string
  | AiShown ai_view "bool \<times> bool \<times> bool"
  | AiSaved ai_view
  | AiDone

fun cred_error_text :: "cred_error \<Rightarrow> string" where
  "cred_error_text (InvalidScope s) = ''invalid scope '' @ go_quote s @ '' (want admin|org|user)''"
| "cred_error_text AdminNeedsAdmin = ''admin scope requires admin role''"
| "cred_error_text OrgNeedsAdmin = ''org scope requires admin role''"
| "cred_error_text OrgNeedsOrg = ''org scope requires X-Organization-ID''"
| "cred_error_text UserNeedsUser = ''user scope requires authenticated username''"
| "cred_error_text OrgNeedsUser = ''org connector write requires authenticated user''"
| "cred_error_text OtherOrganization = ''forbidden: credential belongs to another organization''"
| "cred_error_text NotOwner = ''forbidden: not credential owner''"
| "cred_error_text ForbiddenScope = ''forbidden''"

definition handle_ai_settings_get :: "ai_env \<Rightarrow> ai_request \<Rightarrow> ai_state \<Rightarrow> ai_reply \<times> ai_state" where
  "handle_ai_settings_get E r s =
     (let tn = ae_tenancy E; a = ar_actor r
      in case ai_resolve_query tn r (ar_scope r) of
           Inl e \<Rightarrow> (AiErr 403 (cred_error_text e), s)
         | Inr (q, scope) \<Rightarrow>
             (let (d, s) = get_ai_settings_for E q s; d = d\<lparr>ad_scope := scope\<rparr>;
                  d = (if scope = ''user'' then d\<lparr>ad_user := cq_user q\<rparr> else d)
              in (AiShown (redact_ai_settings d)
                    (is_admin tn a \<and> ac_org a \<noteq> [], is_admin tn a, ac_user a \<noteq> [] \<or> \<not> tn_enforced tn), s)))"

subsection \<open>Changing the settings\<close>

record http_patch =
  hp_enabled :: "bool option"
  hp_base :: string
  hp_model :: string
  hp_key :: string
  hp_clear :: bool

record cli_patch =
  cp_enabled :: "bool option"
  cp_model :: string
  cp_bin :: string
  cp_force :: "bool option"
  cp_key :: string
  cp_clear :: bool

record ai_patch =
  sp_scope :: string
  sp_provider :: string
  sp_openai :: "http_patch option"
  sp_anthropic :: "http_patch option"
  sp_cli :: "cli_patch option"

definition trim_slashes :: "string \<Rightarrow> string" where
  "trim_slashes s = rev (dropWhile (\<lambda>c. c = CHR ''/'') (rev s))"

text \<open>\<^verbatim>\<open>validateAgentBin\<close>: \<^const>\<open>None\<close> is the nil error.\<close>

definition validate_agent_bin :: "string \<Rightarrow> string option" where
  "validate_agent_bin bin =
     (let bin = trim_space bin
      in if bin = [] then Some ''empty bin''
         else if contains_any bin [CHR '' '', CHR 0x09, CHR 0x0A] then Some ''bin must not contain whitespace''
         else if contains bin ''..'' then Some ''bin must not contain ..''
         else if path_base bin \<notin> {''agent'', ''cursor-agent'', ''cursor''} then
           Some (''bin basename '' @ go_quote (path_base bin) @ '' not allowlisted (agent|cursor-agent|cursor)'')
         else if is_abs bin \<and> \<not> list_ex (has_prefix bin) [''/opt/opa/'', ''/usr/local/bin/'', ''/usr/bin/''] then
           Some ''absolute bin must be under /opt/opa/, /usr/local/bin/, or /usr/bin/''
         else None)"

definition patch_http :: "http_patch \<Rightarrow> ai_http \<Rightarrow> ai_http" where
  "patch_http p h =
     \<lparr>ah_enabled = (case hp_enabled p of None \<Rightarrow> ah_enabled h | Some b \<Rightarrow> b),
      ah_base = (if hp_base p \<noteq> [] then trim_slashes (trim_space (hp_base p)) else ah_base h),
      ah_key = (if hp_clear p then [] else if trim_space (hp_key p) \<noteq> [] then trim_space (hp_key p) else ah_key h),
      ah_model = (if hp_model p \<noteq> [] then trim_space (hp_model p) else ah_model h)\<rparr>"

text \<open>The key is cleared at the scope written, before the rest of the request is looked at.\<close>

definition clear_secret :: "ai_env \<Rightarrow> cred_query \<Rightarrow> string \<Rightarrow> string \<Rightarrow> bool \<Rightarrow> ai_state \<Rightarrow> ai_state" where
  "clear_secret E q scope logical clear s =
     (if clear then put_secret E (cq_org q) (cq_proj q) scope (cq_user q) logical [] True s else s)"

definition patch_openai :: "ai_env \<Rightarrow> cred_query \<Rightarrow> string \<Rightarrow> http_patch option \<Rightarrow> ai_doc \<times> ai_state \<Rightarrow> ai_doc \<times> ai_state" where
  "patch_openai E q scope p ds =
     (case p of None \<Rightarrow> ds
      | Some p \<Rightarrow> ((fst ds)\<lparr>ad_openai := patch_http p (ad_openai (fst ds))\<rparr>,
                   clear_secret E q scope ''ai_openai_api_key'' (hp_clear p) (snd ds)))"

definition patch_anthropic :: "ai_env \<Rightarrow> cred_query \<Rightarrow> string \<Rightarrow> http_patch option \<Rightarrow> ai_doc \<times> ai_state \<Rightarrow> ai_doc \<times> ai_state" where
  "patch_anthropic E q scope p ds =
     (case p of None \<Rightarrow> ds
      | Some p \<Rightarrow> ((fst ds)\<lparr>ad_anthropic := patch_http p (ad_anthropic (fst ds))\<rparr>,
                   clear_secret E q scope ''ai_anthropic_api_key'' (hp_clear p) (snd ds)))"

definition cli_refusal :: "ai_env \<Rightarrow> string \<Rightarrow> cli_patch \<Rightarrow> ai_reply option" where
  "cli_refusal E role p =
     (if cp_bin p = [] then None
      else if tn_enforced (ae_tenancy E) \<and> \<not> tn_permits (ae_tenancy E) (trim_space role) ''admin'' then
        Some (AiErr 403 ''forbidden: cli_cursor.bin requires admin'')
      else case validate_agent_bin (trim_space (cp_bin p)) of
        Some e \<Rightarrow> Some (AiErr 400 (''invalid cli_cursor.bin: '' @ e)) | None \<Rightarrow> None)"

definition patch_cli :: "ai_env \<Rightarrow> cred_query \<Rightarrow> string \<Rightarrow> cli_patch \<Rightarrow> ai_doc \<times> ai_state \<Rightarrow> ai_doc \<times> ai_state" where
  "patch_cli E q scope p ds =
     (let (d, s) = ds; c = ad_cli d;
          c = \<lparr>al_enabled = (case cp_enabled p of None \<Rightarrow> al_enabled c | Some b \<Rightarrow> b),
               al_key = (if cp_clear p then [] else if trim_space (cp_key p) \<noteq> [] then trim_space (cp_key p) else al_key c),
               al_model = (if cp_model p \<noteq> [] then trim_space (cp_model p) else al_model c),
               al_bin = (if cp_bin p \<noteq> [] then trim_space (cp_bin p) else al_bin c),
               al_force = (case cp_force p of None \<Rightarrow> al_force c | Some b \<Rightarrow> b)\<rparr>;
          s = (if cp_clear p \<and> scope = ''admin'' then s\<lparr>as_cursor := ([], [], [])\<rparr> else s)
      in (d\<lparr>ad_cli := c\<rparr>, clear_secret E q scope cursor_secret (cp_clear p) s))"

definition save_settings :: "ai_env \<Rightarrow> cred_query \<Rightarrow> string \<Rightarrow> ai_doc \<times> ai_state \<Rightarrow> ai_reply \<times> ai_state" where
  "save_settings E q scope ds =
     (let (d, s) = ds; (fresh, s) = get_ai_settings_for E q (persist_ai_settings E d s)
      in (AiSaved (redact_ai_settings (fresh\<lparr>ad_scope := scope, ad_user := cq_user q\<rparr>)), s))"

definition handle_ai_settings_put ::
  "ai_env \<Rightarrow> ai_request \<Rightarrow> ai_patch option \<Rightarrow> ai_state \<Rightarrow> ai_reply \<times> ai_state" where
  "handle_ai_settings_put E r body s =
     (if local_writes_blocked E \<and> \<not> ar_peer r then (AiErr 503 ''credentials_home_oam'', s)
      else case body of
        None \<Rightarrow> (AiErr 400 ''bad json'', s)
      | Some p \<Rightarrow>
          (case ai_resolve_query (ae_tenancy E) r (sp_scope p) of
             Inl e \<Rightarrow>
               (let text = cred_error_text e
                in (AiErr (if contains text ''invalid scope'' \<or> contains text ''requires'' then 400 else 403) text, s))
           | Inr (q, scope) \<Rightarrow>
               (let (d, s) = get_ai_settings_for E q s;
                    d = d\<lparr>ad_scope := scope, ad_org := cq_org q, ad_proj := cq_proj q, ad_user := cq_user q\<rparr>
                in if sp_provider p \<notin> {[], ''auto'', ''openai'', ''anthropic'', ''cli_cursor''} then
                     (AiErr 400 ''invalid default_provider'', s)
                   else
                     let d = (if sp_provider p \<noteq> [] then d\<lparr>ad_provider := sp_provider p\<rparr> else d);
                         ds = patch_anthropic E q scope (sp_anthropic p) (patch_openai E q scope (sp_openai p) (d, s))
                     in case sp_cli p of
                          None \<Rightarrow> save_settings E q scope ds
                        | Some c \<Rightarrow>
                            (case cli_refusal E (ar_role r) c of
                               Some e \<Rightarrow> (e, snd ds)
                             | None \<Rightarrow> save_settings E q scope (patch_cli E q scope c ds)))))"

definition handle_ai_settings :: "ai_env \<Rightarrow> ai_request \<Rightarrow> ai_patch option \<Rightarrow> ai_state \<Rightarrow> ai_reply \<times> ai_state" where
  "handle_ai_settings E r body s =
     (if local_writes_blocked E then (AiErr 404 ''404 page not found'', s)
      else if ar_method r = ''GET'' \<or> ar_method r = ''HEAD'' then handle_ai_settings_get E r s
      else if writes r then handle_ai_settings_put E r body s
      else (AiErr 405 ''method not allowed'', s))"

subsection \<open>The older ways in\<close>

definition set_cli_key_from_alias :: "ai_env \<Rightarrow> string \<Rightarrow> string \<Rightarrow> string \<Rightarrow> bool \<Rightarrow> ai_state \<Rightarrow> ai_state" where
  "set_cli_key_from_alias E org proj key clear s =
     (let (d, s) = get_ai_settings_for E \<lparr>cq_org = org, cq_proj = proj, cq_user = [], cq_admin_only = False\<rparr> s;
          d = d\<lparr>ad_org := org, ad_proj := proj, ad_scope := ''org'', ad_user := []\<rparr>;
          (d, s) = (if clear then (set_cli_key [] d, put_secret E org proj ''org'' [] cursor_secret [] True s)
                    else (d\<lparr>ad_cli := (ad_cli d)\<lparr>al_key := key, al_enabled := True\<rparr>\<rparr>, s))
      in persist_ai_settings E d s)"

text \<open>\<open>tenant\<close> is the tenant of the request, used for a project the actor does not name.\<close>

definition handle_cursor_key_set ::
  "ai_env \<Rightarrow> ai_request \<Rightarrow> string \<times> string \<Rightarrow> (string \<times> bool) option \<Rightarrow> ai_state \<Rightarrow> ai_reply \<times> ai_state" where
  "handle_cursor_key_set E r tenant body s =
     (let a = ar_actor r
      in if ar_method r \<noteq> ''POST'' then (AiErr 405 ''method not allowed'', s)
         else if local_writes_blocked E then (AiErr 404 ''404 page not found'', s)
         else case can_write_cred_scope (ae_tenancy E) a ''org'' of
           Some e \<Rightarrow> (AiErr 403 (cred_error_text e), s)
         | None \<Rightarrow>
             (case body of
                None \<Rightarrow> (AiErr 400 ''bad json'', s)
              | Some (key, clear) \<Rightarrow>
                  (if ac_org a = [] then (AiErr 400 ''org scope requires X-Organization-ID'', s)
                   else
                     let proj = (if ac_proj a \<noteq> [] then ac_proj a else snd tenant)
                     in if clear then (AiDone, set_cli_key_from_alias E (ac_org a) proj [] True s)
                        else if trim_space key = [] then (AiErr 400 ''api_key required'', s)
                        else (AiDone, set_cli_key_from_alias E (ac_org a) proj (trim_space key) False s))))"

definition hydrate_cursor_key :: "ai_env \<Rightarrow> string \<Rightarrow> string \<Rightarrow> ai_state \<Rightarrow> ai_state" where
  "hydrate_cursor_key E org proj s =
     (let plain = load_scm_secret_plain (secret_query E s) (ae_dec E) org proj [] cursor_secret
      in if plain = [] then s else s\<lparr>as_cursor := (plain, org, proj)\<rparr>)"

text \<open>At boot: the keys of projects are copied to organizations without one, ciphertext and all.\<close>

definition org_key_row :: "secret_row \<Rightarrow> bool" where
  "org_key_row row \<longleftrightarrow>
     sr_org row \<noteq> [] \<and> sr_ct row \<noteq> [] \<and> \<not> sr_deleted row \<and>
     infer_legacy_scope (sr_org row) (sr_scope row) = ''org'' \<and> trim_space (sr_user row) = []"

definition wide_row :: "string \<Rightarrow> string \<Rightarrow> secret_row" where
  "wide_row org ct =
     \<lparr>sr_key = cursor_secret, sr_org = org, sr_proj = [], sr_scope = ''org'', sr_user = [], sr_ct = ct, sr_deleted = False\<rparr>"

definition ensure_org_wide_cli_keys :: "ai_env \<Rightarrow> ai_state \<Rightarrow> nat \<times> ai_state" where
  "ensure_org_wide_cli_keys E s =
     (if \<not> ae_client E \<or> \<not> ae_writer E then (0, s)
      else case ae_rows E 200 (as_rows s) cursor_secret of
        None \<Rightarrow> (0, s)
      | Some rows \<Rightarrow>
          (let ks = filter org_key_row rows; wide = map sr_org (filter (\<lambda>r. sr_proj r = []) ks);
               (n, have, s) = fold (\<lambda>r (n, have, s).
                   if sr_org r \<in> set have then (n, have, s)
                   else (Suc n, sr_org r # have, s\<lparr>as_rows := wide_row (sr_org r) (sr_ct r) # as_rows s\<rparr>))
                 (filter (\<lambda>r. sr_proj r \<noteq> []) ks) (0, wide, s)
           in (n, s)))"

end
