(* ===== verification/Ai_Runtime.thy ===== *)
theory Ai_Runtime
  imports Ai_Settings
begin

text \<open>
  Completions (\<^verbatim>\<open>src/ai_runtime.go\<close>, \<^verbatim>\<open>src/ai_tasks.go\<close>, \<^verbatim>\<open>src/agent_keys.go\<close>, the agent binary of
  \<^verbatim>\<open>src/agents_launch.go\<close>): which providers are tried for a task, with which key, and what is sent.  The
  answers of the providers, of the agent process and of OAM are parameters; the temperature of a request
  is left out.
\<close>

subsection \<open>Requests and the world\<close>

record ai_ask =
  rq_system :: string
  rq_prompt :: string
  rq_messages :: "(string \<times> string) list"
  rq_max_tokens :: int
  rq_json :: bool
  rq_timeout :: int
  rq_dir :: string

record ai_result =
  rs_text :: string
  rs_provider :: string
  rs_model :: string

text \<open>What a completion sends: an HTTP call (address, key, body), an agent process (arguments, key), a lease of OAM.\<close>

datatype ai_event =
    AiPost string string string jobj
  | AiExec string "string list" string
  | AiLease string string string string

record ai_world = ai_env +
  aw_http :: "string \<Rightarrow> string \<Rightarrow> jobj \<Rightarrow> string + int \<times> string"
  aw_over :: bool
  aw_openai :: "string \<Rightarrow> string + string list \<times> string"
  aw_anthropic :: "string \<Rightarrow> string + (string \<times> string) list \<times> string"
  aw_exec :: "string \<Rightarrow> string list \<Rightarrow> string \<Rightarrow> string option \<times> string"
  aw_oam :: "string \<Rightarrow> string \<Rightarrow> string \<Rightarrow> string \<Rightarrow> string + string \<times> string"
  aw_agent_there :: bool

definition settings_env :: "ai_world \<Rightarrow> ai_env" where "settings_env W = ai_env.truncate W"

definition ai_default_timeout :: "genv \<Rightarrow> int" where
  "ai_default_timeout getenv = clamp_int (atoi_default (env_or getenv ''OPA_AI_TIMEOUT_SEC'' ''60'') 60) 5 300"

definition ai_default_max_tokens :: "genv \<Rightarrow> int" where
  "ai_default_max_tokens getenv = clamp_int (atoi_default (env_or getenv ''OPA_AI_MAX_TOKENS'' ''2048'') 2048) 16 8192"

subsection \<open>Which providers\<close>

definition http_providers :: "ai_doc \<Rightarrow> string list" where
  "http_providers d =
     (if ah_enabled (ad_openai d) \<and> ah_key (ad_openai d) \<noteq> [] then [''openai''] else []) @
     (if ah_enabled (ad_anthropic d) \<and> ah_key (ad_anthropic d) \<noteq> [] then [''anthropic''] else [])"

definition prepend_provider :: "string list \<Rightarrow> string \<Rightarrow> string list" where
  "prepend_provider ps p = p # filter (\<lambda>x. x \<noteq> p) ps"

fun unique_strings :: "string list \<Rightarrow> string list \<Rightarrow> string list" where
  "unique_strings seen [] = []"
| "unique_strings seen (s # ss) =
     (if s = [] \<or> s \<in> set seen then unique_strings seen ss else s # unique_strings (s # seen) ss)"

definition resolve_provider :: "string \<Rightarrow> ai_doc \<Rightarrow> string list" where
  "resolve_provider kind d =
     (let kind = to_lower (trim_space kind); def = trim_space (ad_provider d);
          cli = (if al_enabled (ad_cli d) \<and> al_key (ad_cli d) \<noteq> [] then [''cli_cursor''] else [])
      in if kind \<notin> {''opa_review'', ''auto_fix'', ''cli''} \<and> (def = ''openai'' \<or> def = ''anthropic'')
         then unique_strings [] (prepend_provider (http_providers d) def)
         else unique_strings [] (cli @ http_providers d))"

definition agent_key_for_task_kind :: "string \<Rightarrow> string" where
  "agent_key_for_task_kind kind =
     (let k = to_lower (trim_space kind)
      in if k = ''opa_review'' \<or> k = ''cli'' then ''review''
         else if k \<in> {''auto_fix'', ''context_generate'', ''issue_investigate'', ''issue_implement''} then k else [])"

subsection \<open>The agent process\<close>

definition resolve_agent_bin_for :: "ai_world \<Rightarrow> string \<Rightarrow> string" where
  "resolve_agent_bin_for W runner =
     (let b = trim_space (ae_getenv W ''OPA_CURSOR_AGENT_BIN'')
      in if trim_space runner = ''docker'' then ''/opt/opa/agent''
         else if b \<noteq> [] \<and> validate_agent_bin b = None then b
         else if aw_agent_there W then ''/opt/opa/agent'' else ''agent'')"

definition resolve_agent_bin :: "ai_world \<Rightarrow> string" where
  "resolve_agent_bin W = resolve_agent_bin_for W ''host''"

definition mask_secret :: "string \<Rightarrow> string \<Rightarrow> string" where
  "mask_secret s out = (if length (trim_space s) < 8 then out else replace_all out (trim_space s) ''***'')"

definition secret_names :: "string list" where
  "secret_names = [''JWT_SECRET'', ''OPA_CONNECTOR_SECRET'', ''OPA_GITHUB_APP_PRIVATE_KEY'', ''OPA_GITHUB_WEBHOOK_SECRET'',
     ''CLICKHOUSE_URL'', ''OPA_GIT_ASKPASS_TOKEN'', ''CURSOR_API_KEY'']"

definition redact_job_output :: "genv \<Rightarrow> string \<Rightarrow> string list \<Rightarrow> string" where
  "redact_job_output getenv raw secrets = fold mask_secret (secrets @ map getenv secret_names) raw"

text \<open>\<^verbatim>\<open>resolveAgentFromOAM\<close>: the identity is trimmed, and an answer without a key is an error.\<close>

definition resolve_agent_from_oam ::
  "ai_world \<Rightarrow> string \<Rightarrow> string \<Rightarrow> string \<Rightarrow> string \<Rightarrow> (string + string \<times> string) \<times> ai_event list" where
  "resolve_agent_from_oam W org proj user agent =
     (let agent = trim_space agent; org = trim_space org; proj = trim_space proj; user = trim_space user
      in if \<not> oam_configured (ae_getenv W) then (Inl ''PEER_OAM_URL not configured'', [])
         else if agent = [] then (Inl ''agent_key required'', [])
         else (case aw_oam W org proj user agent of
                 Inl e \<Rightarrow> Inl e
               | Inr (key, model) \<Rightarrow>
                   (if trim_space key = [] then Inl (''oam returned an empty api key for agent '' @ go_quote agent)
                    else Inr (key, model)),
               [AiLease org proj user agent]))"

text \<open>\<^verbatim>\<open>resolveCLICursorConfig\<close>: the key, the binary, the model and the force flag.\<close>

definition resolve_cli_config ::
  "ai_world \<Rightarrow> string \<Rightarrow> string \<Rightarrow> string \<Rightarrow> string \<Rightarrow> ai_state
     \<Rightarrow> ((string \<times> string \<times> string \<times> bool) \<times> ai_event list) \<times> ai_state" where
  "resolve_cli_config W agent org proj user s =
     (let bin = resolve_agent_bin W; force = (env_or (ae_getenv W) ''OPA_CURSOR_AGENT_FORCE'' ''0'' = ''1'');
          model = env_or (ae_getenv W) ''OPA_CURSOR_MODEL'' ''auto''
      in if oam_configured (ae_getenv W) then
           (if trim_space agent = [] then ((([], bin, model, force), []), s)
            else case resolve_agent_from_oam W org proj user agent of
              (Inl e, es) \<Rightarrow> ((([], bin, model, force), es), s)
            | (Inr (key, m), es) \<Rightarrow>
                (((trim_space key, bin, (if trim_space m \<noteq> [] then trim_space m else model), force), es), s))
         else
           let (d, s) = get_ai_settings_for (settings_env W) \<lparr>cq_org = org, cq_proj = proj, cq_user = user, cq_admin_only = False\<rparr> s
           in (((al_key (ad_cli d), bin, nz (al_model (ad_cli d)) model, al_force (ad_cli d) \<or> force), []), s))"

definition has_cli_credential :: "ai_world \<Rightarrow> string \<Rightarrow> string \<Rightarrow> string \<Rightarrow> ai_state \<Rightarrow> bool \<times> ai_state" where
  "has_cli_credential W org proj user s =
     (if oam_configured (ae_getenv W) then (True, s)
      else let (((key, _), _), s) = resolve_cli_config W ''review'' org proj user s in (key \<noteq> [], s))"

subsection \<open>One provider\<close>

definition timed_out :: string where "timed_out = ''AI completion timed out''"

definition chat_message :: "string \<times> string \<Rightarrow> jv" where
  "chat_message m = JObj [(''role'', JStr (fst m)), (''content'', JStr (snd m))]"

definition build_chat_messages :: "ai_ask \<Rightarrow> jv list" where
  "build_chat_messages q =
     map chat_message ((if rq_system q \<noteq> [] then [(''system'', rq_system q)] else []) @
       (if rq_messages q \<noteq> [] then rq_messages q else [(''user'', rq_prompt q)]))"

definition http_answer :: "ai_world \<Rightarrow> string \<Rightarrow> (string + 'a) \<Rightarrow> string + 'a" where
  "http_answer W name r = (case r of Inl e \<Rightarrow> Inl (name @ '': bad response: '' @ e) | Inr x \<Rightarrow> Inr x)"

definition post ::
  "ai_world \<Rightarrow> string \<Rightarrow> string \<Rightarrow> string \<Rightarrow> string \<Rightarrow> jobj \<Rightarrow> (string \<Rightarrow> string + 'a) \<Rightarrow> (string + 'a) \<times> ai_event list" where
  "post W name header url key body dec =
     (case aw_http W url key body of
        Inl e \<Rightarrow> Inl (if aw_over W then timed_out else name @ '': '' @ e)
      | Inr (code, raw) \<Rightarrow>
          (if code < 200 \<or> 300 \<le> code then Inl (name @ '': HTTP '' @ show_int code @ '': '' @ truncate_str raw 300)
           else http_answer W name (dec raw)),
      [AiPost url header key body])"

definition complete_openai :: "ai_world \<Rightarrow> ai_doc \<Rightarrow> ai_ask \<Rightarrow> (string + ai_result) \<times> ai_event list" where
  "complete_openai W d q =
     (let h = ad_openai d; base = trim_slashes (nz (ah_base h) ''https://api.openai.com/v1''); model = nz (ah_model h) ''gpt-4o-mini''
      in if ah_key h = [] then (Inl ''openai-compatible: api key not set'', [])
         else
           let (res, es) = post W ''openai-compatible'' ''Authorization'' (base @ ''/chat/completions'') (ah_key h)
                 ([(''model'', JStr model), (''messages'', JArr (build_chat_messages q)), (''max_tokens'', JInt (rq_max_tokens q))] @
                  (if rq_json q then [(''response_format'', JObj [(''type'', JStr ''json_object'')])] else []))
                 (aw_openai W)
           in (case res of
                 Inl e \<Rightarrow> Inl e
               | Inr (texts, m) \<Rightarrow>
                   Inr \<lparr>rs_text = (case texts of [] \<Rightarrow> [] | t # _ \<Rightarrow> t), rs_provider = ''openai'', rs_model = nz m model\<rparr>, es))"

definition anthropic_messages :: "ai_ask \<Rightarrow> (string \<times> string) list" where
  "anthropic_messages q =
     (if rq_messages q \<noteq> [] then
        map (\<lambda>(role, t). (if role \<noteq> ''assistant'' then ''user'' else role, t)) (filter (\<lambda>m. fst m \<noteq> ''system'') (rq_messages q))
      else [(''user'', rq_prompt q)])"

definition anthropic_system :: "ai_ask \<Rightarrow> string" where
  "anthropic_system q =
     (if rq_system q \<noteq> [] then rq_system q
      else case List.find (\<lambda>m. fst m = ''system'') (rq_messages q) of None \<Rightarrow> [] | Some m \<Rightarrow> snd m)"

definition complete_anthropic :: "ai_world \<Rightarrow> ai_doc \<Rightarrow> ai_ask \<Rightarrow> (string + ai_result) \<times> ai_event list" where
  "complete_anthropic W d q =
     (let h = ad_anthropic d; base = trim_slashes (nz (ah_base h) ''https://api.anthropic.com'');
          model = nz (ah_model h) ''claude-sonnet-4-20250514''; sys = anthropic_system q
      in if ah_key h = [] then (Inl ''anthropic-compatible: api key not set'', [])
         else
           let (res, es) = post W ''anthropic-compatible'' ''x-api-key'' (base @ ''/v1/messages'') (ah_key h)
                 ([(''model'', JStr model), (''max_tokens'', JInt (rq_max_tokens q)),
                   (''messages'', JArr (map chat_message (anthropic_messages q)))] @ (if sys \<noteq> [] then [(''system'', JStr sys)] else []))
                 (aw_anthropic W)
           in (case res of
                 Inl e \<Rightarrow> Inl e
               | Inr (parts, m) \<Rightarrow>
                   Inr \<lparr>rs_text = concat (map snd (filter (\<lambda>(kind, t). kind = ''text'' \<or> t \<noteq> []) parts)),
                        rs_provider = ''anthropic'', rs_model = nz m model\<rparr>, es))"

definition cli_prompt :: "ai_ask \<Rightarrow> string" where
  "cli_prompt q =
     (let p = (if rq_prompt q = [] \<and> rq_messages q \<noteq> []
               then join [CHR 0x0A] (map (\<lambda>(role, t). role @ '': '' @ t) (rq_messages q)) else rq_prompt q)
      in if rq_system q \<noteq> [] then rq_system q @ [CHR 0x0A, CHR 0x0A] @ p else p)"

text \<open>\<open>aw_exec\<close> answers with the error of the process, if any, and its output.\<close>

definition complete_cli :: "ai_world \<Rightarrow> ai_doc \<Rightarrow> ai_ask \<Rightarrow> (string + ai_result) \<times> ai_event list" where
  "complete_cli W d q =
     (let c = ad_cli d; key = al_key c; model = nz (al_model c) ''auto'';
          args = [''-p'', ''--trust'', ''--output-format'', ''text'', ''--model'', model] @
            (if al_force c \<or> env_or (ae_getenv W) ''OPA_CURSOR_AGENT_FORCE'' ''0'' = ''1'' then [''--force''] else []) @ [cli_prompt q];
          bin = resolve_agent_bin W
      in if key = [] then (Inl ''cli agent: api key not set'', [])
         else
           let (err, out) = aw_exec W bin args key; out = redact_job_output (ae_getenv W) out [key]
           in (case err of
                 Some e \<Rightarrow> Inl (if aw_over W then timed_out else ''cli agent: '' @ e @ '' ('' @ truncate_str out 200 @ '')'')
               | None \<Rightarrow> Inr \<lparr>rs_text = trim_space out, rs_provider = ''cli_cursor'', rs_model = model\<rparr>,
               [AiExec bin args key]))"

definition complete_with_provider :: "ai_world \<Rightarrow> string \<Rightarrow> ai_doc \<Rightarrow> ai_ask \<Rightarrow> (string + ai_result) \<times> ai_event list" where
  "complete_with_provider W p d q =
     (if p = ''openai'' then complete_openai W d q
      else if p = ''anthropic'' then complete_anthropic W d q
      else if p = ''cli_cursor'' then complete_cli W d q
      else (Inl (''unknown provider '' @ go_quote p), []))"

subsection \<open>A completion\<close>

definition no_provider :: string where
  "no_provider = ''no AI provider configured '' @ em_dash @
     '' save a CLI agent key under Account, or configure OpenAI/Anthropic (personal or org)''"

fun try_providers :: "ai_world \<Rightarrow> ai_doc \<Rightarrow> ai_ask \<Rightarrow> string \<Rightarrow> string list \<Rightarrow> (string + ai_result) \<times> ai_event list" where
  "try_providers W d q before [] = (Inl before, [])"
| "try_providers W d q before (p # ps) =
     (case complete_with_provider W p d q of
        (Inr r, es) \<Rightarrow> (Inr r, es)
      | (Inl e, es) \<Rightarrow> (let (res, fs) = try_providers W d q e ps in (res, es @ fs)))"

definition run_providers :: "ai_world \<Rightarrow> string \<Rightarrow> ai_doc \<Rightarrow> ai_ask \<Rightarrow> (string + ai_result) \<times> ai_event list" where
  "run_providers W kind d q =
     (let ps = resolve_provider kind d;
          q = (if rq_max_tokens q \<le> 0 then q\<lparr>rq_max_tokens := ai_default_max_tokens (ae_getenv W)\<rparr> else q);
          q = (if rq_timeout q \<le> 0 then q\<lparr>rq_timeout := ai_default_timeout (ae_getenv W)\<rparr> else q)
      in if ps = [] then (Inl no_provider, []) else try_providers W d q no_provider ps)"

definition complete_for ::
  "ai_world \<Rightarrow> string \<Rightarrow> ai_ask \<Rightarrow> cred_query \<Rightarrow> ai_state \<Rightarrow> ((string + ai_result) \<times> ai_event list) \<times> ai_state" where
  "complete_for W kind q cq s =
     (let (d, s) = get_ai_settings_for (settings_env W) cq s
      in if \<not> oam_configured (ae_getenv W) then (run_providers W kind d q, s)
         else
           let agent = agent_key_for_task_kind kind
           in if agent = [] then
                ((Inl (''PEER_OAM_URL set but no ORA agent_key for task '' @ go_quote kind @ '' '' @ em_dash @
                    '' bind keys in OAM AI Endpoints''), []), s)
              else
                let (((key, bin, model, force), es), s) = resolve_cli_config W agent (cq_org cq) (cq_proj cq) (cq_user cq) s
                in if key = [] then ((Inl no_provider, es), s)
                   else
                     let d = d\<lparr>ad_cli := \<lparr>al_enabled = True, al_key = key, al_model = model, al_bin = bin, al_force = force\<rparr>,
                               ad_provider := ''cli_cursor''\<rparr>;
                         (res, fs) = run_providers W kind d q
                     in ((res, es @ fs), s))"

subsection \<open>The requests\<close>

text \<open>
  \<^verbatim>\<open>packAITaskPrompt\<close>: \<open>input\<close> and \<open>refs\<close> are the indented JSON of the two, the refs empty without any,
  \<open>plain\<close> is the input printed.
\<close>

definition pack_task_prompt :: "string \<Rightarrow> string \<Rightarrow> string \<Rightarrow> string \<Rightarrow> string \<Rightarrow> string + string \<times> string" where
  "pack_task_prompt kind input plain refs override =
     (let nl2 = [CHR 0x0A, CHR 0x0A];
          with_refs = (\<lambda>title p. p @ (if refs \<noteq> [] then nl2 @ title @ [CHR 0x0A] @ refs else []));
          packed =
            (if kind = ''generic'' then
               Some (nz override ''You are a helpful assistant for an observability platform. Be concise and accurate.'',
                     with_refs ''Context refs:'' (if input = [] \<or> input = ''null'' then plain else input))
             else if kind = ''metrics_explain'' then
               Some (nz override ''You explain observability metrics for engineers. Focus on anomalies, likely causes, and next checks. Do not invent data.'',
                     with_refs ''Context refs (service/trace ids may be resolved later via Agent):''
                       (''Explain these metrics / stats. Highlight what looks unusual and what to inspect next.'' @ nl2 @ input))
             else if kind = ''trace_analyze'' then
               Some (nz override ''You analyze distributed traces for latency and errors. Be specific about spans and likely bottlenecks. Do not invent spans.'',
                     with_refs ''Context refs:''
                       (''Analyze this trace summary. Identify slow or failing spans and suggest concrete next steps.'' @ nl2 @ input))
             else None)
      in case packed of
           None \<Rightarrow> Inl (''unknown kind '' @ go_quote kind @ '' (supported: generic, metrics_explain, trace_analyze)'')
         | Some (sys, prompt) \<Rightarrow>
             (if trim_space prompt = [] \<or> prompt = ''null'' then Inl ''input required'' else Inr (prompt, sys)))"

record task_body =
  tb_kind :: string
  tb_input :: string
  tb_plain :: string
  tb_refs :: string
  tb_system :: string
  tb_max :: int

datatype task_reply =
    TaskErr nat string
  | TaskFailed string string
  | TaskText string ai_result

definition handle_ai_tasks ::
  "ai_world \<Rightarrow> ai_request \<Rightarrow> task_body option \<Rightarrow> ai_state \<Rightarrow> (task_reply \<times> ai_event list) \<times> ai_state" where
  "handle_ai_tasks W r body s =
     (if ar_method r \<noteq> ''POST'' then ((TaskErr 405 ''method not allowed'', []), s)
      else case body of
        None \<Rightarrow> ((TaskErr 400 ''bad json'', []), s)
      | Some b \<Rightarrow>
          (let kind = to_lower (trim_space (tb_kind b)); kind = (if kind = [] then ''generic'' else kind); a = ar_actor r
           in case pack_task_prompt kind (tb_input b) (tb_plain b) (tb_refs b) (tb_system b) of
                Inl e \<Rightarrow> ((TaskErr 400 e, []), s)
              | Inr (prompt, sys) \<Rightarrow>
                  (if ac_org a = [] then
                     ((TaskErr 400 ''organization required for AI tasks (set X-Organization-ID); admin keys are not shared'', []), s)
                   else
                     let ((res, es), s) = complete_for W kind
                           \<lparr>rq_system = sys, rq_prompt = prompt, rq_messages = [], rq_max_tokens = tb_max b, rq_json = False,
                            rq_timeout = 0, rq_dir = []\<rparr>
                           \<lparr>cq_org = ac_org a, cq_proj = ac_proj a, cq_user = ac_user a, cq_admin_only = False\<rparr> s
                     in ((case res of Inl e \<Rightarrow> TaskFailed kind e | Inr x \<Rightarrow> TaskText kind x, es), s))))"

definition ping :: "string \<Rightarrow> string \<Rightarrow> int \<Rightarrow> ai_ask" where
  "ping sys prompt n =
     \<lparr>rq_system = sys, rq_prompt = prompt, rq_messages = [], rq_max_tokens = n, rq_json = False, rq_timeout = 0, rq_dir = []\<rparr>"

definition draft_key :: "string \<Rightarrow> string \<Rightarrow> ai_doc \<Rightarrow> ai_doc" where
  "draft_key provider key d =
     (if key = [] then d
      else if provider = ''openai'' then set_openai_key key d
      else if provider = ''anthropic'' then set_anthropic_key key d
      else if provider = ''cli_cursor'' then set_cli_key key d else d)"

text \<open>\<^verbatim>\<open>handleAISettingsTest\<close>: the body is provider, scope and draft key, all empty when it does not decode.\<close>

definition handle_ai_settings_test ::
  "ai_world \<Rightarrow> ai_request \<Rightarrow> string \<times> string \<times> string \<Rightarrow> ai_state \<Rightarrow> (task_reply \<times> ai_event list) \<times> ai_state" where
  "handle_ai_settings_test W r body s =
     (let (provider, scope, key) = body; provider = trim_space provider;
          provider = (if provider = [] then ''openai'' else provider); key = trim_space key;
          missing = (\<lambda>label. ((TaskErr 400 (label @ '' api key not configured for this scope '' @ em_dash @
             '' save a key first, or paste one in the form and Test''), [])))
      in if local_writes_blocked (settings_env W) then ((TaskErr 404 ''404 page not found'', []), s)
         else if ar_method r \<noteq> ''POST'' \<and> ar_method r \<noteq> ''GET'' then ((TaskErr 405 ''method not allowed'', []), s)
         else case ai_resolve_query (ae_tenancy W) r scope of
           Inl e \<Rightarrow> ((TaskErr 403 (cred_error_text e), []), s)
         | Inr (q, scope) \<Rightarrow>
             (let (d, s) = get_ai_settings_for (settings_env W) q s; d = draft_key provider key (d\<lparr>ad_scope := scope\<rparr>);
                  shown = (\<lambda>(res, es). (case res of Inl e \<Rightarrow> TaskFailed provider e
                     | Inr x \<Rightarrow> TaskText provider (x\<lparr>rs_text := truncate_str (rs_text x) 200\<rparr>), es))
              in (if provider = ''openai'' then
                    (if ah_key (ad_openai d) = [] then missing ''openai''
                     else shown (complete_openai W d (ping ''Reply with the single word pong.'' ''ping'' 16)))
                  else if provider = ''anthropic'' then
                    (if ah_key (ad_anthropic d) = [] then missing ''anthropic''
                     else shown (complete_anthropic W d (ping ''Reply with the single word pong.'' ''ping'' 16)))
                  else if provider = ''cli_cursor'' then
                    (if al_key (ad_cli d) = [] then missing ''cli agent''
                     else shown (complete_cli W d (ping [] ''Reply with the single word pong. No other output.'' 32)))
                  else (TaskErr 400 ''unknown provider'', []), s)))"

end
