(* ===== verification/Ai_Laws.thy ===== *)
theory Ai_Laws
  imports Ai_Runtime
begin

text \<open>
  Whose keys are written and whose are used: a change of the settings writes rows of the scope its actor
  may write, and copies of a key to an organization that has none; a task runs with keys of its own
  tenant.
\<close>

subsection \<open>Writing\<close>

text \<open>
  \<open>written P rows rows'\<close>: \<open>rows'\<close> comes from \<open>rows\<close> by adding rows one at a time, each of which \<open>P\<close> allows
  after those before it.
\<close>

inductive written :: "(secret_row list \<Rightarrow> secret_row \<Rightarrow> bool) \<Rightarrow> secret_row list \<Rightarrow> secret_row list \<Rightarrow> bool"
  for P rows where
  written_none: "written P rows rows"
| written_row: "written P rows rows' \<Longrightarrow> P rows' row \<Longrightarrow> written P rows (row # rows')"

definition ai_secret_names :: "string list" where
  "ai_secret_names = [''ai_openai_api_key'', ''ai_anthropic_api_key'', ''cursor_api_key'', ''ai_settings_meta'']"

definition own_row :: "string \<Rightarrow> string \<Rightarrow> string \<Rightarrow> string \<Rightarrow> secret_row \<Rightarrow> bool" where
  "own_row scope org proj user row \<longleftrightarrow>
     sr_scope row = scope \<and> sr_org row = org \<and> sr_proj row = proj \<and> sr_user row = user \<and>
     sr_key row \<in> (\<lambda>l. scm_secret_storage_key l scope user) ` set ai_secret_names"

definition rows_state :: "ai_state \<Rightarrow> secret_row list \<Rightarrow> ai_state" where
  "rows_state s rows = s\<lparr>as_rows := rows\<rparr>"

text \<open>A copy: the key of the CLI agent, for the organization or its project, which had none.\<close>

definition seeded_row :: "ai_env \<Rightarrow> ai_state \<Rightarrow> string \<Rightarrow> string \<Rightarrow> secret_row list \<Rightarrow> secret_row \<Rightarrow> bool" where
  "seeded_row E s org proj rows row \<longleftrightarrow>
     sr_key row = cursor_secret \<and> sr_scope row = ''org'' \<and> sr_org row = trim_space org \<and> trim_space org \<noteq> [] \<and>
     sr_proj row \<in> {[], proj} \<and> sr_user row = [] \<and> \<not> sr_deleted row \<and>
     sh_plain (load_scm_secret_at_scope (secret_query E (rows_state s rows)) (ae_dec E) (trim_space org) (sr_proj row) ''org'' []
       cursor_secret) = []"

definition row_allowed :: "ai_env \<Rightarrow> ai_state \<Rightarrow> string \<Rightarrow> string \<Rightarrow> string \<Rightarrow> string \<Rightarrow> secret_row list \<Rightarrow> secret_row \<Rightarrow> bool" where
  "row_allowed E s scope org proj user rows row \<longleftrightarrow>
     own_row scope org proj user row \<or> (scope \<in> {''user'', ''org''} \<and> seeded_row E s org proj rows row)"

named_theorems row_simps "what leaves the rows alone"

lemma hydrate_rows [row_simps]: "as_rows (hydrate_from_file E s) = as_rows s"
  by (simp add: hydrate_from_file_def Let_def case_prod_beta)

lemma get_rows [row_simps]: "as_rows (snd (get_ai_settings_for E q s)) = as_rows s"
  by (simp add: get_ai_settings_for_def load_ai_settings_def Let_def case_prod_beta row_simps)

lemma secret_query_rows: "secret_query E s = secret_query E (rows_state t (as_rows s))"
  by (simp add: secret_query_def rows_state_def fun_eq_iff)

lemma written_put:
  assumes "written P rows (as_rows s)"
    and "\<And>row. persist_scm_secret_scoped (local_writes_blocked E) (ae_writer E) (ae_enc E) org proj scope user logical plain del = Inr (Some row)
           \<Longrightarrow> P (as_rows s) row"
  shows "written P rows (as_rows (put_secret E org proj scope user logical plain del s))"
  using assms by (auto simp: put_secret_def split: sum.split option.split intro: written_row)

lemma persist_row:
  assumes "persist_scm_secret_scoped blocked writer enc org proj scope user logical plain del = Inr (Some row)"
    and sc: "scope \<in> {''admin'', ''org'', ''user''}"
  shows "sr_key row = scm_secret_storage_key logical scope user \<and> sr_scope row = scope \<and>
    sr_org row = (if scope = ''admin'' then [] else org) \<and> sr_proj row = (if scope = ''admin'' then [] else proj) \<and>
    sr_user row = (if scope = ''admin'' then [] else user) \<and> (sr_deleted row \<longleftrightarrow> del)"
proof -
  have i: "infer_legacy_scope org scope = scope" using sc by (elim insertE emptyE) (simp_all add: infer_scope_consts)
  define mk where "mk ct = \<lparr>sr_key = scm_secret_storage_key logical scope user, sr_org = (if scope = ''admin'' then [] else org),
      sr_proj = (if scope = ''admin'' then [] else proj), sr_scope = scope, sr_user = (if scope = ''admin'' then [] else user),
      sr_ct = ct, sr_deleted = del\<rparr>" for ct
  have "\<exists>ct. row = mk ct"
    using assms(1) unfolding persist_scm_secret_scoped_def i Let_def mk_def [symmetric]
    by (simp split: if_split_asm option.split_asm) blast+
  then show ?thesis by (auto simp: mk_def)
qed

text \<open>The scope a change writes at, with its tenant: nothing of a tenant goes with the administrator's.\<close>

definition target :: "string \<Rightarrow> string \<Rightarrow> string \<Rightarrow> string \<Rightarrow> bool" where
  "target scope org proj user \<longleftrightarrow>
     scope \<in> {''admin'', ''org'', ''user''} \<and> (scope = ''admin'' \<longrightarrow> org = [] \<and> proj = [] \<and> user = [])"

lemma target_same:
  assumes "target scope org proj user"
  shows "infer_legacy_scope org scope = scope" "(if scope = ''admin'' then [] else org) = org"
    "(if scope = ''admin'' then [] else proj) = proj" "(if scope = ''admin'' then [] else user) = user"
  using assms unfolding target_def by (elim conjE insertE emptyE; simp add: infer_scope_consts)+

lemma own_put:
  assumes t: "target scope org proj user"
    and "written (row_allowed E z scope org proj user) rows (as_rows s)" "logical \<in> set ai_secret_names"
  shows "written (row_allowed E z scope org proj user) rows (as_rows (put_secret E org proj scope user logical plain del s))"
proof (rule written_put [OF assms(2)])
  fix row
  assume r: "persist_scm_secret_scoped (local_writes_blocked E) (ae_writer E) (ae_enc E) org proj scope user logical plain del = Inr (Some row)"
  have sc: "scope \<in> {''admin'', ''org'', ''user''}" using t by (simp add: target_def)
  show "row_allowed E z scope org proj user (as_rows s) row"
    using persist_row [OF r sc] assms(3) unfolding target_same(2-4) [OF t] by (simp add: row_allowed_def own_row_def)
qed

lemma own_put_if:
  "target scope org proj user \<Longrightarrow> written (row_allowed E z scope org proj user) rows (as_rows s) \<Longrightarrow> logical \<in> set ai_secret_names \<Longrightarrow>
   written (row_allowed E z scope org proj user) rows (as_rows (put_if_set E org proj scope user logical k s))"
  by (simp add: put_if_set_def own_put)

lemma seed_put:
  assumes "written (row_allowed E z scope org proj user) rows (as_rows s)" "scope \<in> {''user'', ''org''}" "trim_space org \<noteq> []" "p \<in> {[], proj}"
    and "sh_plain (load_scm_secret_at_scope (secret_query E s) (ae_dec E) (trim_space org) p ''org'' [] cursor_secret) = []"
  shows "written (row_allowed E z scope org proj user) rows (as_rows (put_secret E (trim_space org) p ''org'' [] cursor_secret plain False s))"
proof (rule written_put [OF assms(1)])
  fix row
  assume r: "persist_scm_secret_scoped (local_writes_blocked E) (ae_writer E) (ae_enc E) (trim_space org) p ''org'' [] cursor_secret plain False
     = Inr (Some row)"
  have key: "scm_secret_storage_key cursor_secret ''org'' [] = cursor_secret" by code_simp
  have "seeded_row E z org proj (as_rows s) row"
    using persist_row [OF r] assms(3-5) key secret_query_rows [of E s z] by (simp add: seeded_row_def)
  with assms(2) show "row_allowed E z scope org proj user (as_rows s) row" by (simp add: row_allowed_def)
qed

lemma no_key_at_project:
  assumes "sh_plain (resolve_scm_secret q dec \<lparr>cq_org = org, cq_proj = proj, cq_user = [], cq_admin_only = False\<rparr> logical) = []"
    "trim_space org = org" "org \<noteq> []"
  shows "sh_plain (load_scm_secret_at_scope q dec org proj ''org'' [] logical) = []"
proof -
  have "trim_space [] = []" by code_simp
  with assms show ?thesis by (auto simp: resolve_scm_secret_def Let_def no_hit_def split: if_split_asm)
qed

lemma seed_written:
  assumes "written (row_allowed E z scope org proj user) rows (as_rows s)"
  shows "written (row_allowed E z scope org proj user) rows (as_rows (seed_org_cli_key E org proj scope plain s))"
proof -
  let ?o = "trim_space org" and ?W = "\<lambda>s. written (row_allowed E z scope org proj user) rows (as_rows s)"
  let ?none = "\<lambda>s p. sh_plain (load_scm_secret_at_scope (secret_query E s) (ae_dec E) ?o p ''org'' [] cursor_secret) = []"
  have wide: "?W (if ?none s [] then put_secret E ?o [] ''org'' [] cursor_secret k False s else s)"
    if "?W s" "scope \<in> {''user'', ''org''}" "?o \<noteq> []" for s k
    using that seed_put by simp
  have proj: "?W (if scope = ''user'' \<and> sh_plain (resolve_scm_secret (secret_query E s) (ae_dec E)
        \<lparr>cq_org = ?o, cq_proj = proj, cq_user = [], cq_admin_only = False\<rparr> cursor_secret) = []
      then put_secret E ?o proj ''org'' [] cursor_secret k False s else s)"
    if "?W s" "?o \<noteq> []" for s k
    using that seed_put [of E z scope org proj user rows s proj k] no_key_at_project [of "secret_query E s" "ae_dec E" ?o proj cursor_secret]
    by auto
  show ?thesis
  proof (cases "trim_space plain = [] \<or> ?o = [] \<or> scope \<notin> {''user'', ''org''}")
    case True
    then show ?thesis using assms by (auto simp: seed_org_cli_key_def Let_def)
  next
    case False
    then have "scope \<in> {''user'', ''org''}" "?o \<noteq> []" by auto
    with False wide [OF proj [OF assms]] show ?thesis
      unfolding seed_org_cli_key_def Let_def by auto
  qed
qed

lemma ai_names:
  "''ai_openai_api_key'' \<in> set ai_secret_names" "''ai_anthropic_api_key'' \<in> set ai_secret_names"
  "cursor_secret \<in> set ai_secret_names" "''ai_settings_meta'' \<in> set ai_secret_names"
  by (simp_all add: ai_secret_names_def cursor_secret_def)

lemma persist_written:
  assumes t: "target scope org proj user"
    and w: "written (row_allowed E z scope org proj user) rows (as_rows s)"
    and d: "ad_scope d = scope" "ad_org d = org" "ad_proj d = proj" "ad_user d = user"
  shows "written (row_allowed E z scope org proj user) rows (as_rows (persist_ai_settings E d s))"
proof -
  let ?W = "\<lambda>s. written (row_allowed E z scope org proj user) rows (as_rows s)"
  define e where "e = d\<lparr>ad_updated := ae_now E\<rparr>"
  define s1 where "s1 = s\<lparr>as_doc := e, as_ready := True\<rparr>"
  define s2 where "s2 = (if scope = ''admin'' \<and> al_key (ad_cli e) \<noteq> [] then s1\<lparr>as_cursor := (al_key (ad_cli e), org, proj)\<rparr> else s1)"
  define s3 where "s3 = (if scope = ''admin'' \<and> ae_file_ok E then s2\<lparr>as_file := Some (file_of_doc E e)\<rparr> else s2)"
  have e: "ad_scope e = scope" "ad_org e = org" "ad_proj e = proj" "ad_user e = user" by (simp_all add: e_def d)
  have "as_rows s3 = as_rows s" by (simp add: s3_def s2_def s1_def)
  then have w3: "?W s3" using w by simp
  define s4 where "s4 = put_if_set E org proj scope user ''ai_anthropic_api_key'' (ah_key (ad_anthropic e))
      (put_if_set E org proj scope user ''ai_openai_api_key'' (ah_key (ad_openai e)) s3)"
  have w4: "?W s4" unfolding s4_def by (intro own_put_if t w3 ai_names)
  define s5 where "s5 = (if al_key (ad_cli e) \<noteq> [] then seed_org_cli_key E org proj scope (al_key (ad_cli e))
      (put_secret E org proj scope user cursor_secret (al_key (ad_cli e)) False s4) else s4)"
  have w5: "?W s5" using w4 by (simp add: s5_def seed_written own_put [OF t] ai_names)
  have "persist_ai_settings E d s =
      put_secret E org proj scope user ''ai_settings_meta'' (ae_meta_text E (meta_of_doc org proj e)) False s5"
    unfolding persist_ai_settings_def Let_def e_def [symmetric] e target_same [OF t] s5_def s4_def s3_def s2_def s1_def by (rule refl)
  with w5 show ?thesis by (simp add: own_put [OF t] ai_names)
qed

lemma clear_written:
  assumes "target scope (cq_org q) (cq_proj q) (cq_user q)" "logical \<in> set ai_secret_names"
    "written (row_allowed E z scope (cq_org q) (cq_proj q) (cq_user q)) rows (as_rows s)"
  shows "written (row_allowed E z scope (cq_org q) (cq_proj q) (cq_user q)) rows (as_rows (clear_secret E q scope logical b s))"
  using assms by (simp add: clear_secret_def own_put)

text \<open>The document a change works on names the scope it writes at.\<close>

definition aimed :: "cred_query \<Rightarrow> string \<Rightarrow> ai_doc \<Rightarrow> bool" where
  "aimed q scope d \<longleftrightarrow> ad_scope d = scope \<and> ad_org d = cq_org q \<and> ad_proj d = cq_proj q \<and> ad_user d = cq_user q"

definition going :: "ai_env \<Rightarrow> ai_state \<Rightarrow> cred_query \<Rightarrow> string \<Rightarrow> secret_row list \<Rightarrow> ai_doc \<times> ai_state \<Rightarrow> bool" where
  "going E z q scope rows ds \<longleftrightarrow>
     aimed q scope (fst ds) \<and> written (row_allowed E z scope (cq_org q) (cq_proj q) (cq_user q)) rows (as_rows (snd ds))"

lemma patches_going:
  assumes t: "target scope (cq_org q) (cq_proj q) (cq_user q)" and g: "going E z q scope rows ds"
  shows "going E z q scope rows (patch_openai E q scope p ds)" "going E z q scope rows (patch_anthropic E q scope p ds)"
    "going E z q scope rows (patch_cli E q scope c ds)"
proof -
  note W = clear_written [OF t] ai_names
  have "as_rows (if b then s\<lparr>as_cursor := x\<rparr> else s) = as_rows s" for b and s :: ai_state and x by simp
  with g show "going E z q scope rows (patch_openai E q scope p ds)" "going E z q scope rows (patch_anthropic E q scope p ds)"
    "going E z q scope rows (patch_cli E q scope c ds)"
    by (auto simp: going_def aimed_def patch_openai_def patch_anthropic_def patch_cli_def Let_def case_prod_beta W split: option.split)
qed

lemma save_written:
  assumes "target scope (cq_org q) (cq_proj q) (cq_user q)" "going E z q scope rows ds"
  shows "written (row_allowed E z scope (cq_org q) (cq_proj q) (cq_user q)) rows (as_rows (snd (save_settings E q scope ds)))"
  using persist_written [OF assms(1), of E z rows "snd ds" "fst ds"] assms(2)
  by (simp add: save_settings_def going_def aimed_def Let_def case_prod_beta row_simps)

lemma scopes_normal: "normalize_cred_scope tn raw a = Inr sc \<Longrightarrow> sc \<in> {''admin'', ''org'', ''user''}"
  by (auto simp: normalize_cred_scope_def Let_def split: if_splits)

lemma query_of_writer:
  assumes "ai_resolve_query tn r want = Inr (q, scope)" "writes r"
  shows "can_write_cred_scope tn (ar_actor r) scope = None \<and>
    resolve_cred_target tn (ar_actor r) scope = (cq_org q, cq_proj q, cq_user q) \<and> target scope (cq_org q) (cq_proj q) (cq_user q)"
proof -
  obtain sc where sc: "normalize_cred_scope tn want (ar_actor r) = Inr sc"
    using assms(1) by (auto simp: ai_resolve_query_def Let_def split: sum.splits)
  obtain org proj user where res: "resolve_cred_target tn (ar_actor r) sc = (org, proj, user)" by (metis prod_cases3)
  have cw: "can_write_cred_scope tn (ar_actor r) sc = None" and eq: "scope = sc"
    and q: "q = \<lparr>cq_org = org, cq_proj = proj,
               cq_user = (if sc = ''user'' then nz user (ac_user (ar_actor r)) else if sc = ''org'' then [] else user),
               cq_admin_only = (sc = ''admin'')\<rparr>"
    using assms by (auto simp: ai_resolve_query_def Let_def sc res split: if_splits option.splits)
  have "user = (if sc = ''user'' then ac_user (ar_actor r) else [])" "sc = ''admin'' \<longrightarrow> org = [] \<and> proj = [] \<and> user = []"
    using res by (auto simp: resolve_cred_target_def Let_def split: if_splits)
  with cw eq q res scopes_normal [OF sc] show ?thesis by (auto simp: target_def nz_same)
qed


text \<open>What a successful change leaves behind.\<close>

definition patched :: "ai_env \<Rightarrow> cred_query \<Rightarrow> string \<Rightarrow> ai_patch \<Rightarrow> ai_state \<Rightarrow> ai_doc \<times> ai_state" where
  "patched E q scope p s =
     (let (d, s) = get_ai_settings_for E q s;
          d = d\<lparr>ad_scope := scope, ad_org := cq_org q, ad_proj := cq_proj q, ad_user := cq_user q\<rparr>;
          d = (if sp_provider p \<noteq> [] then d\<lparr>ad_provider := sp_provider p\<rparr> else d);
          ds = patch_anthropic E q scope (sp_anthropic p) (patch_openai E q scope (sp_openai p) (d, s))
      in (case sp_cli p of None \<Rightarrow> ds | Some c \<Rightarrow> patch_cli E q scope c ds))"

lemma ready_get: "as_ready s \<Longrightarrow> snd (get_ai_settings_for E q s) = s"
  by (simp add: get_ai_settings_for_def load_ai_settings_def Let_def case_prod_beta)

lemma ready_put: "as_ready s \<Longrightarrow> as_ready (put_secret E org proj scope user logical plain del s)"
  by (simp add: put_secret_def split: sum.split option.split)

lemma ready_if: "as_ready s \<Longrightarrow> as_ready t \<Longrightarrow> as_ready (if b then s else t)"
  by simp

lemma ready_seed: "as_ready s \<Longrightarrow> as_ready (seed_org_cli_key E org proj scope plain s)"
  unfolding seed_org_cli_key_def Let_def by (intro ready_if ready_put)

lemma ready_put_if: "as_ready s \<Longrightarrow> as_ready (put_if_set E org proj scope user logical k s)"
  unfolding put_if_set_def by (intro ready_if ready_put)

lemma ready_persist: "as_ready (persist_ai_settings E d s)"
  unfolding persist_ai_settings_def Let_def
  by (intro ready_put ready_if ready_seed ready_put_if) simp_all

lemma saved_state: "snd (save_settings E q scope (d, s)) = persist_ai_settings E d s"
  by (simp add: save_settings_def Let_def case_prod_beta ready_get ready_persist)

lemma change_saves:
  assumes "\<not> local_writes_blocked E" "writes r" "ai_resolve_query (ae_tenancy E) r (sp_scope p) = Inr (q, scope)"
    "sp_provider p \<in> {[], ''auto'', ''openai'', ''anthropic'', ''cli_cursor''}"
    "case sp_cli p of None \<Rightarrow> True | Some c \<Rightarrow> cli_refusal E (ar_role r) c = None"
  shows "snd (handle_ai_settings E r (Some p) s) =
    persist_ai_settings E (fst (patched E q scope p s)) (snd (patched E q scope p s))"
proof -
  have put: "handle_ai_settings E r body s = handle_ai_settings_put E r body s" for body
    using assms(1,2) by (auto simp: handle_ai_settings_def writes_def)
  have wr: "(local_writes_blocked E \<and> \<not> ar_peer r) = False" "(sp_provider p \<notin> {[], ''auto'', ''openai'', ''anthropic'', ''cli_cursor''}) = False"
    using assms(1,4) by simp_all
  have "snd (handle_ai_settings E r (Some p) s) = snd (save_settings E q scope (patched E q scope p s))"
    unfolding put handle_ai_settings_put_def wr patched_def
    unfolding option.case if_False assms(3) sum.case prod.case Let_def case_prod_beta wr
    using assms(5) by (cases "sp_cli p") simp_all
  then show ?thesis using saved_state [of E q scope "fst (patched E q scope p s)" "snd (patched E q scope p s)"] by simp
qed

subsection \<open>The keys of a document\<close>

lemma overrides_keys [simp]:
  "ah_key (ad_openai (apply_ai_env_overrides E d)) = ah_key (ad_openai d)"
  "ah_key (ad_anthropic (apply_ai_env_overrides E d)) = ah_key (ad_anthropic d)"
  "al_key (ad_cli (apply_ai_env_overrides E d)) = al_key (ad_cli d)"
  by (simp_all add: apply_ai_env_overrides_def)

lemma meta_keys [simp]:
  "ah_key (ad_openai (doc_from_meta m d)) = ah_key (ad_openai d)"
  "ah_key (ad_anthropic (doc_from_meta m d)) = ah_key (ad_anthropic d)"
  "al_key (ad_cli (doc_from_meta m d)) = al_key (ad_cli d)"
  by (simp_all add: doc_from_meta_def http_from_meta_def)

lemma hydrated_keys:
  fixes E :: ai_env and s :: ai_state and q :: cred_query
  defines "found l \<equiv> sh_plain (resolve_scm_secret (secret_query E s) (ae_dec E) q l)"
  assumes "ah_key (ad_openai d) = []" "ah_key (ad_anthropic d) = []" "al_key (ad_cli d) = []"
  shows "ah_key (ad_openai (hydrate_ai_secrets E s q d)) \<in> {[], found ''ai_openai_api_key''}"
    "ah_key (ad_anthropic (hydrate_ai_secrets E s q d)) \<in> {[], found ''ai_anthropic_api_key''}"
    "al_key (ad_cli (hydrate_ai_secrets E s q d)) \<in> {[], found cursor_secret}"
    "oam_configured (ae_getenv E) \<Longrightarrow> ah_key (ad_openai (hydrate_ai_secrets E s q d)) = [] \<and> ah_key (ad_anthropic (hydrate_ai_secrets E s q d)) = []"
  using assms(2-4)
  by (auto simp: hydrate_ai_secrets_def take_secret_def set_openai_key_def set_anthropic_key_def set_cli_key_def Let_def found_def
      split: option.split)

definition found_key :: "ai_env \<Rightarrow> ai_state \<Rightarrow> cred_query \<Rightarrow> string \<Rightarrow> string" where
  "found_key E s q l = sh_plain (resolve_scm_secret (secret_query E s) (ae_dec E) q l)"

lemma found_key_rows:
  assumes "as_rows s = as_rows t"
  shows "found_key E s q l = found_key E t q l"
proof -
  have "secret_query E s = secret_query E t" using assms by (simp add: secret_query_def fun_eq_iff)
  then show ?thesis by (simp add: found_key_def)
qed

lemma settings_keys:
  assumes "get_ai_settings_for E q s = (d, t)"
  shows "ah_key (ad_openai d) \<in> {[], found_key E s q ''ai_openai_api_key''}"
    "ah_key (ad_anthropic d) \<in> {[], found_key E s q ''ai_anthropic_api_key''}"
    "al_key (ad_cli d) \<in> {[], found_key E s q cursor_secret}"
    "oam_configured (ae_getenv E) \<Longrightarrow> ah_key (ad_openai d) = [] \<and> ah_key (ad_anthropic d) = []"
    "as_rows t = as_rows s"
proof -
  define c where "c = drop_keys (fst (load_ai_settings E s))"
  define e where "e = (if cq_admin_only q then c\<lparr>ad_scope := ''admin'', ad_org := [], ad_proj := [], ad_user := []\<rparr>
      else c\<lparr>ad_org := cq_org q, ad_proj := cq_proj q, ad_user := cq_user q, ad_scope := (if cq_user q \<noteq> [] then ''user'' else ''org'')\<rparr>)"
  have "ah_key (ad_openai c) = []" "ah_key (ad_anthropic c) = []" "al_key (ad_cli c) = []"
    by (simp_all add: c_def drop_keys_def set_openai_key_def set_anthropic_key_def set_cli_key_def)
  then have e: "ah_key (ad_openai e) = []" "ah_key (ad_anthropic e) = []" "al_key (ad_cli e) = []"
    by (simp_all add: e_def)
  have d: "d = hydrate_ai_secrets E t q e"
    using assms by (auto simp: get_ai_settings_for_def Let_def case_prod_beta e_def c_def)
  show rows: "as_rows t = as_rows s" using get_rows [of E q s] assms by simp
  note K = hydrated_keys [OF e(1-3), of E t q, folded found_key_def d, unfolded found_key_rows [OF rows]]
  show "ah_key (ad_openai d) \<in> {[], found_key E s q ''ai_openai_api_key''}"
    "ah_key (ad_anthropic d) \<in> {[], found_key E s q ''ai_anthropic_api_key''}"
    "al_key (ad_cli d) \<in> {[], found_key E s q cursor_secret}"
    "oam_configured (ae_getenv E) \<Longrightarrow> ah_key (ad_openai d) = [] \<and> ah_key (ad_anthropic d) = []"
    using K by blast+
qed

subsection \<open>The keys a completion uses\<close>

text \<open>A key decrypted from a live row of the acting user or of the organization.\<close>

definition tenant_key :: "ai_env \<Rightarrow> ai_state \<Rightarrow> cred_query \<Rightarrow> string \<Rightarrow> bool" where
  "tenant_key E s q k \<longleftrightarrow>
     (\<exists>row key rows. secret_query E s key = Some rows \<and> row \<in> set rows \<and> \<not> sr_deleted row \<and> k = ae_dec E (sr_ct row) \<and>
       ((Secret_Store.row_scope row = ''user'' \<and> trim_space (cq_user q) \<noteq> [] \<and>
           (row_user row = [] \<or> row_user row = trim_space (cq_user q)) \<and>
           (cq_org q = [] \<or> sr_org row = [] \<or> sr_org row = cq_org q)) \<or>
        (Secret_Store.row_scope row = ''org'' \<and> trim_space (cq_org q) \<noteq> [] \<and> (sr_org row = [] \<or> sr_org row = trim_space (cq_org q)))))"

text \<open>With OAM a key is leased for the tenant and the user of the query, and no stored key is used.\<close>

definition tenant_event :: "ai_world \<Rightarrow> ai_state \<Rightarrow> cred_query \<Rightarrow> ai_event \<Rightarrow> bool" where
  "tenant_event W s q e \<longleftrightarrow>
     (case e of
        AiPost url header k body \<Rightarrow> \<not> oam_configured (ae_getenv W) \<and> tenant_key (settings_env W) s q k
      | AiExec bin args k \<Rightarrow>
          (if oam_configured (ae_getenv W) then
             \<exists>agent key m. aw_oam W (trim_space (cq_org q)) (trim_space (cq_proj q)) (trim_space (cq_user q)) agent = Inr (key, m) \<and>
               k = trim_space key
           else tenant_key (settings_env W) s q k)
      | AiLease org proj user agent \<Rightarrow>
          oam_configured (ae_getenv W) \<and> org = trim_space (cq_org q) \<and> proj = trim_space (cq_proj q) \<and> user = trim_space (cq_user q))"

lemma found_tenant_key:
  assumes "\<not> cq_admin_only q" "found_key E s q l \<noteq> []"
  shows "tenant_key E s q (found_key E s q l)"
  using resolve_in_tenant [OF assms(1) assms(2) [unfolded found_key_def]]
  by (auto simp: tenant_key_def served_def found_key_def)

definition http_keys :: "(string \<Rightarrow> bool) \<Rightarrow> ai_doc \<Rightarrow> bool" where
  "http_keys P d \<longleftrightarrow> (ah_key (ad_openai d) \<noteq> [] \<longrightarrow> P (ah_key (ad_openai d))) \<and>
     (ah_key (ad_anthropic d) \<noteq> [] \<longrightarrow> P (ah_key (ad_anthropic d)))"

definition cli_key :: "(string \<Rightarrow> bool) \<Rightarrow> ai_doc \<Rightarrow> bool" where
  "cli_key Q d \<longleftrightarrow> (al_key (ad_cli d) \<noteq> [] \<longrightarrow> Q (al_key (ad_cli d)))"

definition sends :: "(string \<Rightarrow> bool) \<Rightarrow> (string \<Rightarrow> bool) \<Rightarrow> ai_event \<Rightarrow> bool" where
  "sends P Q e \<longleftrightarrow> (case e of AiPost u h k b \<Rightarrow> P k | AiExec b as k \<Rightarrow> Q k | AiLease o' p u a \<Rightarrow> False)"

lemma provider_sends:
  assumes "http_keys P d" "cli_key Q d"
  shows "list_all (sends P Q) (snd (complete_with_provider W p d ask))"
  using assms
  by (auto simp: complete_with_provider_def complete_openai_def complete_anthropic_def complete_cli_def post_def sends_def http_keys_def cli_key_def
      Let_def case_prod_beta)

lemma try_sends:
  assumes "http_keys P d" "cli_key Q d"
  shows "list_all (sends P Q) (snd (try_providers W d ask e ps))"
proof (induction ps arbitrary: e)
  case (Cons p ps)
  then show ?case
    using provider_sends [OF assms, of W p ask] by (auto simp: case_prod_beta Let_def split: prod.split sum.split)
qed simp

lemma run_sends:
  assumes "http_keys P d" "cli_key Q d"
  shows "list_all (sends P Q) (snd (run_providers W kind d ask))"
  using try_sends [OF assms] by (simp add: run_providers_def Let_def)

lemma lease_tenant:
  assumes "resolve_cli_config W agent (cq_org q) (cq_proj q) (cq_user q) s = (((key, rest), es), t)" "oam_configured (ae_getenv W)"
  shows "list_all (tenant_event W z q) es \<and> (key \<noteq> [] \<longrightarrow>
    (\<exists>agent k m. aw_oam W (trim_space (cq_org q)) (trim_space (cq_proj q)) (trim_space (cq_user q)) agent = Inr (k, m) \<and> key = trim_space k))"
proof -
  have lease: "list_all (tenant_event W z q) (snd (resolve_agent_from_oam W (cq_org q) (cq_proj q) (cq_user q) agent))"
    using assms(2) by (simp add: resolve_agent_from_oam_def Let_def tenant_event_def)
  have from_oam: "\<exists>agent m. aw_oam W (trim_space (cq_org q)) (trim_space (cq_proj q)) (trim_space (cq_user q)) agent = Inr (k, m)"
    if "fst (resolve_agent_from_oam W (cq_org q) (cq_proj q) (cq_user q) agent) = Inr (k, m)" for k m
    using that assms(2) by (auto simp: resolve_agent_from_oam_def Let_def split: if_splits sum.splits; blast)
  obtain r where r: "resolve_agent_from_oam W (cq_org q) (cq_proj q) (cq_user q) agent = r" by blast
  show ?thesis
    using assms lease from_oam unfolding r
    by (auto simp: resolve_cli_config_def Let_def r split: if_splits prod.splits sum.splits)
qed

text \<open>
  Whose keys a completion uses.  For a query of a tenant, every HTTP call and every agent process
  carries a key decrypted from a row that is not deleted, of the acting user or of the query's organization
  (a row without an organization or owner passes for either); where OAM keeps the keys nothing stored
  is used: no HTTP call is made, and the agent gets the key OAM leased for that organization, project
  and user.
\<close>

lemma completion_keys_of_tenant:
  "cq_admin_only q \<or> list_all (tenant_event W s q) (snd (fst (complete_for W kind ask q s)))"
proof (cases "cq_admin_only q")
  case False
  obtain d t where g: "get_ai_settings_for (settings_env W) q s = (d, t)" by (metis surj_pair)
  have get: "ae_getenv (settings_env W) = ae_getenv W" by (simp add: settings_env_def ai_env.truncate_def)
  let ?T = "tenant_key (settings_env W) s q"
  have T: "k \<in> {[], found_key (settings_env W) s q l} \<Longrightarrow> k \<noteq> [] \<Longrightarrow> ?T k" for k l
    using found_tenant_key [OF False, of "settings_env W" s l] by auto
  note K = settings_keys [OF g]
  have http: "http_keys ?T d" using T K(1,2) by (auto simp: http_keys_def)
  have cli: "cli_key ?T d" using T K(3) by (auto simp: cli_key_def)
  have "list_all (tenant_event W s q) (snd (fst (complete_for W kind ask q s)))"
  proof (cases "oam_configured (ae_getenv W)")
    case no: False
    have "sends ?T ?T e \<Longrightarrow> tenant_event W s q e" for e
      using no by (simp add: sends_def tenant_event_def split: ai_event.splits)
    with run_sends [OF http cli, of W kind ask] no g show ?thesis
      by (simp add: complete_for_def list.pred_mono_strong)
  next
    case oam: True
    let ?a = "agent_key_for_task_kind kind"
    obtain key bin model force es u where c: "resolve_cli_config W ?a (cq_org q) (cq_proj q) (cq_user q) t = (((key, bin, model, force), es), u)"
      by (metis surj_pair)
    note L = lease_tenant [OF c oam, of s]
    let ?Q = "\<lambda>k. \<exists>agent x m. aw_oam W (trim_space (cq_org q)) (trim_space (cq_proj q)) (trim_space (cq_user q)) agent = Inr (x, m) \<and> k = trim_space x"
    define e where "e = d\<lparr>ad_cli := \<lparr>al_enabled = True, al_key = key, al_model = model, al_bin = bin, al_force = force\<rparr>, ad_provider := ''cli_cursor''\<rparr>"
    have none: "http_keys (\<lambda>_. False) e" using K(4) oam get by (simp add: e_def http_keys_def)
    have "sends (\<lambda>_. False) ?Q x \<Longrightarrow> tenant_event W s q x" for x
      using oam by (auto simp: sends_def tenant_event_def split: ai_event.splits)
    then have "list_all (tenant_event W s q) (snd (run_providers W kind e ask))" if "key \<noteq> []"
      using run_sends [OF none, of ?Q W kind ask] L that by (simp add: e_def cli_key_def list.pred_mono_strong)
    with oam g c L show ?thesis by (simp add: complete_for_def Let_def case_prod_beta e_def)
  qed
  then show ?thesis by simp
qed simp

end
