(* ===== verification/Ai_Cases.thy ===== *)
theory Ai_Cases
  imports Ai_Laws
begin

text \<open>
  Changes of the AI settings worked out, where less is kept apart than the code says: two tenants, a table
  of secrets that serves the newest rows of a key, and a meta document that keeps the address of the first
  provider.
\<close>

definition demo_file :: "string \<Rightarrow> ai_file" where
  "demo_file base =
     \<lparr>af_org = [], af_proj = [], af_provider = ''openai'', af_openai = \<lparr>ah_enabled = True, ah_base = base, ah_key = [], ah_model = []\<rparr>,
      af_anthropic = \<lparr>ah_enabled = False, ah_base = [], ah_key = [], ah_model = []\<rparr>,
      af_cli = \<lparr>al_enabled = True, al_key = [], al_model = [], al_bin = [], al_force = False\<rparr>, af_updated = []\<rparr>"

definition demo_world :: ai_world where
  "demo_world =
     \<lparr>ae_getenv = (\<lambda>_. []),
      ae_tenancy = \<lparr>tn_enforced = True, tn_permits = (\<lambda>role need. role = need \<or> role = ''admin''), tn_all = ''all'', tn_org = ''default-org'',
                    tn_proj = ''default-project''\<rparr>,
      ae_now = ''t1'', ae_client = True, ae_writer = True, ae_rows = (\<lambda>n rows k. Some (take n (filter (\<lambda>r. sr_key r = k) rows))),
      ae_enc = (\<lambda>p. Some (CHR ''x'' # p)), ae_dec = (\<lambda>ct. case ct of [] \<Rightarrow> [] | _ # p \<Rightarrow> p),
      ae_meta_text = (\<lambda>f. ah_base (af_openai f)), ae_meta = (\<lambda>t. Some (demo_file t)), ae_file_ok = True,
      aw_http = (\<lambda>_ _ _. Inl ''down''), aw_over = False, aw_openai = (\<lambda>_. Inl ''no''), aw_anthropic = (\<lambda>_. Inl ''no''),
      aw_exec = (\<lambda>_ _ _. (None, [])), aw_oam = (\<lambda>_ _ _ _. Inl ''no''), aw_agent_there = False\<rparr>"

definition demo_ai :: ai_env where "demo_ai = settings_env demo_world"

definition demo_actor :: "string \<Rightarrow> string \<Rightarrow> string \<Rightarrow> cred_actor" where
  "demo_actor user role org = \<lparr>ac_user = user, ac_role = role, ac_org = org, ac_proj = ''p1''\<rparr>"

definition bob :: cred_actor where "bob = demo_actor ''bob'' ''viewer'' ''acme''"
definition ann :: cred_actor where "ann = demo_actor ''ann'' ''admin'' ''acme''"
definition cat :: cred_actor where "cat = demo_actor ''cat'' ''admin'' ''corp''"

definition demo_put :: "cred_actor \<Rightarrow> ai_request" where
  "demo_put a = \<lparr>ar_actor = a, ar_method = ''PUT'', ar_scope = [], ar_admin = [], ar_role = ac_role a, ar_peer = False\<rparr>"

definition cli_save :: "string \<Rightarrow> string \<Rightarrow> bool \<Rightarrow> ai_patch" where
  "cli_save scope key clear =
     \<lparr>sp_scope = scope, sp_provider = [], sp_openai = None, sp_anthropic = None,
      sp_cli = Some \<lparr>cp_enabled = None, cp_model = [], cp_bin = [], cp_force = None, cp_key = key, cp_clear = clear\<rparr>\<rparr>"

definition http_save :: "string \<Rightarrow> string \<Rightarrow> string \<Rightarrow> ai_patch" where
  "http_save scope base key =
     \<lparr>sp_scope = scope, sp_provider = [],
      sp_openai = Some \<lparr>hp_enabled = Some True, hp_base = base, hp_model = [], hp_key = key, hp_clear = False\<rparr>,
      sp_anthropic = None, sp_cli = None\<rparr>"

definition demo_query :: "string \<Rightarrow> string \<Rightarrow> cred_query" where
  "demo_query org user = \<lparr>cq_org = org, cq_proj = ''p1'', cq_user = user, cq_admin_only = False\<rparr>"

definition saved :: "cred_actor \<Rightarrow> ai_patch \<Rightarrow> ai_state \<Rightarrow> ai_state" where
  "saved a p s = snd (handle_ai_settings demo_ai (demo_put a) (Some p) s)"

definition kept :: "ai_doc \<Rightarrow> secret_row list \<Rightarrow> ai_state" where
  "kept d rows = \<lparr>as_doc = d, as_ready = True, as_cursor = ([], [], []), as_file = None, as_rows = rows\<rparr>"

definition demo_doc :: "string \<Rightarrow> string \<Rightarrow> string \<Rightarrow> ai_doc" where
  "demo_doc org scope user = (default_ai_doc demo_ai org ''p1'')\<lparr>ad_scope := scope, ad_user := user\<rparr>"

definition demo_settings :: ai_state where "demo_settings = kept (default_ai_doc demo_ai [] []) []"

definition demo_row :: "string \<Rightarrow> string \<Rightarrow> string \<Rightarrow> string \<Rightarrow> string \<Rightarrow> string \<Rightarrow> secret_row" where
  "demo_row key org proj scope user text =
     \<lparr>sr_key = key, sr_org = org, sr_proj = proj, sr_scope = scope, sr_user = user,
      sr_ct = (if text = [] then [] else CHR ''x'' # text), sr_deleted = (text = [])\<rparr>"

lemma saved_by:
  assumes "ai_resolve_query (ae_tenancy demo_ai) (demo_put a) (sp_scope p) = Inr (q, scope)" "sp_provider p = []"
    "case sp_cli p of None \<Rightarrow> True | Some c \<Rightarrow> cp_bin c = []" "patched demo_ai q scope p s = (d, t)"
  shows "saved a p s = persist_ai_settings demo_ai d t"
proof -
  have "\<not> local_writes_blocked demo_ai" by code_simp
  moreover have "writes (demo_put a)" by (simp add: writes_def demo_put_def)
  moreover have "case sp_cli p of None \<Rightarrow> True | Some c \<Rightarrow> cli_refusal demo_ai (ar_role (demo_put a)) c = None"
    using assms(3) by (cases "sp_cli p") (simp_all add: cli_refusal_def)
  ultimately show ?thesis using change_saves [of demo_ai "demo_put a" p q scope s] assms by (simp add: saved_def)
qed

subsection \<open>A personal key\<close>

definition bobs_rows :: "secret_row list" where
  "bobs_rows =
     [demo_row ''ai_settings_meta#user:bob'' ''acme'' ''p1'' ''user'' ''bob'' ''https://api.openai.com/v1'',
      demo_row cursor_secret ''acme'' [] ''org'' [] ''bobs'', demo_row cursor_secret ''acme'' ''p1'' ''org'' [] ''bobs'',
      demo_row ''cursor_api_key#user:bob'' ''acme'' ''p1'' ''user'' ''bob'' ''bobs'']"

lemma bob_saves: "as_rows (saved bob (cli_save ''user'' ''bobs'' False) demo_settings) = bobs_rows"
proof -
  have p: "patched demo_ai (demo_query ''acme'' ''bob'') ''user'' (cli_save ''user'' ''bobs'' False) demo_settings =
      (set_cli_key ''bobs'' (demo_doc ''acme'' ''user'' ''bob''), demo_settings)" by code_simp
  have "saved bob (cli_save ''user'' ''bobs'' False) demo_settings =
      persist_ai_settings demo_ai (set_cli_key ''bobs'' (demo_doc ''acme'' ''user'' ''bob'')) demo_settings"
    by (rule saved_by [OF _ _ _ p]) code_simp+
  moreover have "as_rows (persist_ai_settings demo_ai (set_cli_key ''bobs'' (demo_doc ''acme'' ''user'' ''bob'')) demo_settings) = bobs_rows"
    by code_simp
  ultimately show ?thesis by simp
qed

text \<open>A viewer may not write the key of the organization, but saving a personal key does.\<close>

lemma personal_key_becomes_shared:
  "can_write_cred_scope (ae_tenancy demo_ai) bob ''org'' = Some OrgNeedsAdmin"
  "found_key demo_ai (saved bob (cli_save ''user'' ''bobs'' False) demo_settings) (demo_query ''acme'' []) cursor_secret = ''bobs''"
proof -
  have "as_rows (saved bob (cli_save ''user'' ''bobs'' False) demo_settings) = as_rows (kept (demo_doc [] [] []) bobs_rows)"
    unfolding bob_saves kept_def by (simp only: ai_state.select_convs)
  moreover have "found_key demo_ai (kept (demo_doc [] [] []) bobs_rows) (demo_query ''acme'' []) cursor_secret = ''bobs''" by code_simp
  ultimately show "found_key demo_ai (saved bob (cli_save ''user'' ''bobs'' False) demo_settings) (demo_query ''acme'' []) cursor_secret = ''bobs''"
    by (rule trans [OF found_key_rows])
qed code_simp

subsection \<open>An address of another tenant\<close>

lemma doc_put [simp]: "as_doc (put_secret E org proj scope user logical plain del s) = as_doc s"
  by (simp add: put_secret_def split: sum.split option.split)

lemma doc_seed [simp]: "as_doc (seed_org_cli_key E org proj scope plain s) = as_doc s"
  by (simp add: seed_org_cli_key_def Let_def)

lemma doc_persist: "as_doc (persist_ai_settings E d s) = d\<lparr>ad_updated := ae_now E\<rparr>"
  by (simp add: persist_ai_settings_def put_if_set_def Let_def)

lemma hydrated_address:
  assumes "ae_getenv E ''OPA_OPENAI_BASE_URL'' = []" "found_key E s q ''ai_settings_meta'' = []"
  shows "ah_base (ad_openai (hydrate_ai_secrets E s q d)) = ah_base (ad_openai d)"
proof -
  have take: "ah_base (ad_openai (take_secret E s q l n set_openai_key d)) = ah_base (ad_openai d)"
    "ah_base (ad_openai (take_secret E s q l n set_anthropic_key d)) = ah_base (ad_openai d)"
    "ah_base (ad_openai (take_secret E s q l n set_cli_key d)) = ah_base (ad_openai d)" for l n d
    by (simp_all add: take_secret_def set_openai_key_def set_anthropic_key_def set_cli_key_def Let_def)
  have "trim_space [] = []" by code_simp
  then show ?thesis
    using assms by (simp add: hydrate_ai_secrets_def take apply_ai_env_overrides_def env_wins_def found_key_def Let_def)
qed

text \<open>
  The settings in memory are one document for every tenant: the address one tenant saved is the address
  the next one is served with its own key, unless that one has a meta document or the environment names
  an address.
\<close>

lemma address_outlives_tenant:
  assumes "ae_getenv E ''OPA_OPENAI_BASE_URL'' = []"
    and "found_key E (persist_ai_settings E d s) q ''ai_settings_meta'' = []"
  shows "ah_base (ad_openai (fst (get_ai_settings_for E q (persist_ai_settings E d s)))) = ah_base (ad_openai d)"
  using hydrated_address [OF assms] assms(1) ready_persist [of E d s]
  by (simp add: get_ai_settings_for_def load_ai_settings_def doc_persist apply_ai_env_overrides_def env_wins_def
      drop_keys_def set_openai_key_def set_anthropic_key_def set_cli_key_def Let_def case_prod_beta)

end
