(* ===== verification/Spec2Isabelle.thy ===== *)
theory Spec2Isabelle
  imports Gate_Risk Install_Laws Hook_Cases Job_Laws Autofix_Laws Job_Tree_Laws Peer_Laws Run_Safety Secret_Store Cloud_Laws Token_Scope Docker_Laws Publish_Laws
    Checkup_Run_Laws Checkup_Plan_Laws Ai_Cases
begin

text \<open>
  A model of the review orchestrator of the repository: the Go program of package main under
  \<^verbatim>\<open>src/\<close>, which turns GitHub deliveries into review runs, drives the agents of a run, publishes
  their findings and decisions, fixes findings, and hands GitHub credentials to sibling products.

  \<^bold>\<open>The parts and how they interact.\<close>  A delivery reaches the webhook ingress, which checks its
  signature, records a receipt, finds or provisions the watched repository and queues a job.  A job of a
  pull request becomes a run: a parent with one child per agent kind.  The run graph starts a child when
  the children it depends on are done and a slot of its kind is free, and folds the states of the
  children into the state of the run.  Agents read findings, gate verdict and evidence and write their
  results back: the reviewer publishes comments by a stable plan, the approval agent decides and posts
  one review, the checkup agent executes a policed plan in containers, the cloud agent and the auto-fix
  push a gated patch.  Newer commits, merges and cancels stop runs in flight.  Connectors bind an
  installation of the GitHub App to a tenant and carry the credentials all of this uses; credential
  scopes, secrets and AI settings decide whose key a job gets.

  \<^bold>\<open>Theories and the code they model\<close> (file names under \<^verbatim>\<open>src/\<close>).

  \<^item> Foundation.  \<open>Go_Prelude\<close>: strings, numbers, JSON values and loops of Go, \<^verbatim>\<open>helpers.go\<close>, the locale
    \<open>keyed_store\<close>.  \<open>Go_Path\<close>: the lexical part of \<^verbatim>\<open>path/filepath\<close>.
  \<^item> Jobs.  \<open>Agent_Kinds\<close> (\<^verbatim>\<open>agents_kinds.go\<close>, \<^verbatim>\<open>run_semaphores.go\<close>), \<open>Agent_Prefs\<close> (\<^verbatim>\<open>agents_prefs.go\<close>),
    \<open>Scm_Jobs\<close> and \<open>Scm_Store\<close> (\<^verbatim>\<open>scm_orchestrator.go\<close>, \<^verbatim>\<open>scm_persist.go\<close>): the record \<^verbatim>\<open>scmJob\<close>, its
    durable rows, the live map with hydration, the cancel cascade; \<open>Cancel_Laws\<close>.  \<open>Event_Envelope\<close>
    (\<^verbatim>\<open>repo_name.go\<close>, \<^verbatim>\<open>scm_event_envelope.go\<close>, \<^verbatim>\<open>scm_native_checker.go\<close>).
  \<^item> Runs.  \<open>Pr_Runs\<close>, \<open>Run_Plan\<close>, \<open>Supersede_Laws\<close>, \<open>Ensure_Laws\<close> (\<^verbatim>\<open>agents_run.go\<close>,
    \<^verbatim>\<open>scm_review_stack.go\<close>): enqueueing, superseding and re-entering a run; \<open>PR_State\<close>
    (\<^verbatim>\<open>scm_pr_state.go\<close>, \<^verbatim>\<open>run_skip.go\<close>, \<^verbatim>\<open>scm_persist.go\<close>): reviewed commits, the gate that skips, recovery after a
    restart; \<open>Run_Graph\<close>, \<open>Run_Laws\<close>
    (\<^verbatim>\<open>run_graph.go\<close>): readiness, folding, finishing; \<open>Run_Steps\<close>, \<open>Run_Safety\<close>: the orchestrator as a
    transition system of atomic steps, and what holds in every reachable state.
  \<^item> Reviews.  \<open>Review_Findings\<close> (\<^verbatim>\<open>scm_ai_review.go\<close>, \<^verbatim>\<open>scm_review_lifecycle.go\<close>,
    \<^verbatim>\<open>findings_ledger.go\<close>): keys,
    markers, comment plan, ledger; \<open>Gate_Risk\<close> (\<^verbatim>\<open>gate_verdict.go\<close>, \<^verbatim>\<open>risk_score.go\<close>,
    \<^verbatim>\<open>incremental.go\<close>); \<open>Approval_Policy\<close> (\<^verbatim>\<open>approval_policy.go\<close>); \<open>Pr_Summary\<close> (\<^verbatim>\<open>pr_summary.go\<close>);
    \<open>Review_Publish\<close>, \<open>Publish_Laws\<close> (\<^verbatim>\<open>review_writer.go\<close>, \<^verbatim>\<open>run_graph.go\<close>,
    \<^verbatim>\<open>scm_github.go\<close>).
  \<^item> Fixes.  \<open>Cloud_Gate\<close>, \<open>Cloud_Run\<close>, \<open>Cloud_Laws\<close> (\<^verbatim>\<open>agents_authz.go\<close>, \<^verbatim>\<open>agent_cloud.go\<close>); \<open>Autofix_Run\<close>,
    \<open>Autofix_Laws\<close> (\<^verbatim>\<open>scm_auto_fix.go\<close>); \<open>Job_Tree\<close>, \<open>Job_Tree_Laws\<close> (\<^verbatim>\<open>job_tree.go\<close>) on a file system
    with links; \<open>Docker_Argv\<close>, \<open>Docker_Laws\<close> (\<^verbatim>\<open>job_argv.go\<close>, \<^verbatim>\<open>job_mount.go\<close>, \<^verbatim>\<open>job_sandbox.go\<close>).
  \<^item> Checkup.  \<open>Checkup_Policy\<close>, \<open>Checkup_Laws\<close>, \<open>Checkup_Plan\<close>, \<open>Checkup_Plan_Laws\<close>, \<open>Checkup_Report\<close>,
    \<open>Checkup_Run\<close>, \<open>Checkup_Run_Laws\<close> (\<^verbatim>\<open>checkup_policy.go\<close>, \<^verbatim>\<open>checkup_plan.go\<close>, \<^verbatim>\<open>checkup_phpstan.go\<close>, \<^verbatim>\<open>checkup_reports.go\<close>,
    \<^verbatim>\<open>checkup_run.go\<close>, \<^verbatim>\<open>checkup_services.go\<close>, \<^verbatim>\<open>checkup_workspace.go\<close>).
  \<^item> Tenants and credentials.  \<open>Cred_Scope\<close> (\<^verbatim>\<open>cred_scope.go\<close>), \<open>Secret_Store\<close> (\<^verbatim>\<open>cred_secrets.go\<close>),
    \<open>Token_Scope\<close> (\<^verbatim>\<open>agents_token.go\<close>), \<open>Conn_Store\<close>, \<open>Conn_Claim\<close>, \<open>Claim_Laws\<close>, \<open>Claim_Authority\<close>,
    \<open>Install_Laws\<close> (\<^verbatim>\<open>scm_connectors.go\<close>, \<^verbatim>\<open>scm_install_state.go\<close>, \<^verbatim>\<open>scm_install_intent.go\<close>, \<^verbatim>\<open>oam_projects.go\<close>,
    \<^verbatim>\<open>scm_oam_sync.go\<close>, \<^verbatim>\<open>scm_crypto.go\<close>).
  \<^item> Surfaces.  \<open>Hook_Receipts\<close>, \<open>Hook_Checkers\<close>, \<open>Hook_Ingress\<close>, \<open>Hook_Laws\<close>, \<open>Hook_Typing\<close>, \<open>Hook_Cases\<close>
    (\<^verbatim>\<open>scm_webhooks.go\<close>, \<^verbatim>\<open>scm_tenant_resolve.go\<close>, \<^verbatim>\<open>scm_webhook_ingress.go\<close>, \<^verbatim>\<open>scm_checker.go\<close>, \<^verbatim>\<open>scm_peer_fanout.go\<close>,
    \<^verbatim>\<open>scm_issue_run.go\<close>); \<open>Manual_Review\<close>, \<open>Job_Api\<close>, \<open>Job_Laws\<close> (the handlers of \<^verbatim>\<open>scm_orchestrator.go\<close>);
    \<open>Peer_Github\<close>, \<open>Peer_Boards\<close>, \<open>Peer_Surface\<close>, \<open>Peer_Laws\<close> (\<^verbatim>\<open>peer_scm.go\<close> and its siblings,
    \<^verbatim>\<open>scm_github_pulls_open.go\<close>, \<^verbatim>\<open>scm_github_issues.go\<close>, \<^verbatim>\<open>github_projects.go\<close>).
  \<^item> AI.  \<open>Ai_Settings\<close> (\<^verbatim>\<open>ai_settings.go\<close>, \<^verbatim>\<open>cred_secrets.go\<close>): the settings document, its keys and who may
    write them; \<open>Ai_Runtime\<close> (\<^verbatim>\<open>ai_runtime.go\<close>, \<^verbatim>\<open>ai_tasks.go\<close>, \<^verbatim>\<open>agent_keys.go\<close>, \<^verbatim>\<open>oam_cred_client.go\<close>):
    completions; \<open>Ai_Laws\<close>, \<open>Ai_Cases\<close>.

  \<^bold>\<open>How the code is read.\<close>  A Go struct is a record with the fields the modelled code reads or writes, a
  string constant keeps its text, a string is a list of characters that stand for its bytes, an
  \<^verbatim>\<open>int\<close> is an integer (no sum or product modelled comes near its width), capabilities are machine
  words.  A function is a definition of the same name in snake case; a method of a store or a handler
  takes the state and returns it, and every early return and error is a branch.  What a function
  sends (requests to GitHub, rows to ClickHouse, started jobs) is a list of events in its result or a
  log in its state.  A mutex section is one step.  The orchestrator's goroutines are steps of a transition system, where the
  code reads and writes a job with nothing held in between as two steps: a cancel or a retry may come
  between the look at a status and the write after it.  A process starts with any well formed store, as
  a restart leaves it, and nothing at work.  A command line of docker is its options, the image and the
  command; what docker makes of it is outside the model.

  \<^bold>\<open>Interfaces.\<close>  Four locales state contracts between components.  \<open>keyed_store\<close> (what a lookup returns
  after a store) is interpreted by the job map, the review stacks and the connector registry;
  \<open>transition_system\<close> (reachability and invariants) by the orchestrator's steps and by the handlers of
  the connector registry; \<open>refinement\<close> (a simulation of an abstract machine) by the orchestrator against
  the life cycle of a job; \<open>slot_pool\<close> by the kind slots.  The properties rest on the facts of these
  interpretations.

  \<^bold>\<open>What the lemmas show.\<close>  Each \<open>Laws\<close> theory holds the facts of its components and the properties:
  what is posted, pushed, executed, handed out or bound needs the evidence, the authority and the
  tenant the code promises; the stores keep their types; cancelling ends and stops what it should;
  encodings read back what they wrote.  Lemmas named after a case work out an input on which the code
  does less than its comments say.

  \<^bold>\<open>Bounds.\<close>  The cancel cascade takes fuel; one more than the jobs in flight is enough, and its
  termination is a property.  The cloud agent makes at most three attempts, a check plan has at most
  twenty steps and six services, the auto-fix runs one to four at a time, forty links are followed
  when a path is resolved, twenty reviewed commits are remembered: these are the program's own
  constants.  Other loops are structural recursions or carry a measure.

  \<^bold>\<open>Parameters.\<close>  What is not under \<^verbatim>\<open>src/\<close> is an argument: ClickHouse and its rows, GitHub's answers,
  the clock and random digits (one value stands for all digits drawn in a call), HMAC, digests, the
  cipher, service JWTs, the sibling products, JSON decoding (one decoder per payload), git and the
  agents' processes.  No theorem assumes more of them than its statement says.
  The theorems on bindings assume that ClickHouse agrees with the live connectors (\<open>op_ok\<close> in
  \<open>Claim_Laws\<close>), which no code establishes after a boot that loaded only part of them.

  \<^bold>\<open>Not modelled.\<close>  The text of prompts and of most comments, log lines, the JSON shape of listings,
  metrics, the HTTP client itself, worktrees, live output and evidence files, the network side of the
  sandbox, the language-model review engine, review contexts and repository rules, and the wiring of
  the process.
\<close>

end
